(* ===== verification/Prelude.thy ===== *)
theory Prelude
  imports Main "HOL-Library.Multiset" "HOL-Library.Sublist" "HOL-Library.List_Lexorder"
    "HOL-Library.Char_ord" "HOL-Library.Product_Lexorder"
begin

text \<open>
  The parts of Go's standard library the program uses, and the generic lemmas the component
  theories share.

  A Go string is a list of bytes (\<open>char list\<close>), and Go's \<open><\<close> on strings is the
  bytewise lexicographic order, which is the order \<open>List_Lexorder\<close> and \<open>Char_ord\<close> give.
  Go's \<open>int\<close> is 64 bits wide on every platform the program is built for; the only place
  where the width is observable in this program is \<open>strconv.Atoi\<close>, which reports a value
  out of range as an error, and there the bounds are written out.
\<close>

section \<open>Collections of facts\<close>

named_theorems gate_simps \<open>evaluation of gates and effective gates\<close>
named_theorems verdict_simps \<open>the verdict order and the exit codes\<close>
named_theorems cover_simps \<open>coverage predicates\<close>

section \<open>Strings\<close>

text \<open>\<open>strings.HasPrefix\<close>, \<open>strings.HasSuffix\<close>, \<open>strings.TrimPrefix\<close>.\<close>

abbreviation HasPrefix :: "string \<Rightarrow> string \<Rightarrow> bool" where
  "HasPrefix s p \<equiv> prefix p s"

abbreviation HasSuffix :: "string \<Rightarrow> string \<Rightarrow> bool" where
  "HasSuffix s p \<equiv> suffix p s"

definition TrimPrefix :: "string \<Rightarrow> string \<Rightarrow> string" where
  "TrimPrefix s p = (if HasPrefix s p then drop (length p) s else s)"

text \<open>
  \<open>strings.TrimSpace\<close> removes the runes for which \<open>unicode.IsSpace\<close> holds from both ends.
  Their UTF-8 encodings are listed; no encoding is a proper prefix or suffix of another, and
  the encoding found at an end of a byte string is the rune Go decodes there.
\<close>

definition space_encodings :: "string list" where
  "space_encodings =
     [[CHR 0x09], [CHR 0x0A], [CHR 0x0B], [CHR 0x0C], [CHR 0x0D], [CHR 0x20],
      [CHR 0xC2, CHR 0x85], [CHR 0xC2, CHR 0xA0], [CHR 0xE1, CHR 0x9A, CHR 0x80],
      [CHR 0xE2, CHR 0x80, CHR 0x80], [CHR 0xE2, CHR 0x80, CHR 0x81],
      [CHR 0xE2, CHR 0x80, CHR 0x82], [CHR 0xE2, CHR 0x80, CHR 0x83],
      [CHR 0xE2, CHR 0x80, CHR 0x84], [CHR 0xE2, CHR 0x80, CHR 0x85],
      [CHR 0xE2, CHR 0x80, CHR 0x86], [CHR 0xE2, CHR 0x80, CHR 0x87],
      [CHR 0xE2, CHR 0x80, CHR 0x88], [CHR 0xE2, CHR 0x80, CHR 0x89],
      [CHR 0xE2, CHR 0x80, CHR 0x8A], [CHR 0xE2, CHR 0x80, CHR 0xA8],
      [CHR 0xE2, CHR 0x80, CHR 0xA9], [CHR 0xE2, CHR 0x80, CHR 0xAF],
      [CHR 0xE2, CHR 0x81, CHR 0x9F], [CHR 0xE3, CHR 0x80, CHR 0x80]]"

function trim_front :: "string list \<Rightarrow> string \<Rightarrow> string" where
  "trim_front ps s =
     (case find (\<lambda>p. p \<noteq> [] \<and> HasPrefix s p) ps of
        None \<Rightarrow> s
      | Some p \<Rightarrow> trim_front ps (drop (length p) s))"
  by pat_completeness auto
termination
proof (relation "measure (\<lambda>(ps, s). length s)")
  show "wf (measure (\<lambda>(ps :: string list, s :: string). length s))" by simp
next
  fix ps :: "string list" and s p :: string
  assume "find (\<lambda>p. p \<noteq> [] \<and> HasPrefix s p) ps = Some p"
  then have "p \<noteq> []" and "HasPrefix s p"
    by (auto simp: find_Some_iff)
  then show "((ps, drop (length p) s), ps, s) \<in> measure (\<lambda>(ps, s). length s)"
    by (auto simp: prefix_def)
qed

declare trim_front.simps [simp del]

definition TrimSpace :: "string \<Rightarrow> string" where
  "TrimSpace s =
     rev (trim_front (map rev space_encodings) (rev (trim_front space_encodings s)))"

text \<open>
  \<open>strings.SplitN(s, sep, n)\<close> and \<open>strings.Split(s, sep)\<close> for a separator of one byte
  (the program only splits at a dot). \<open>SplitN\<close> stops after \<open>n\<close> parts: the last part is
  the unsplit rest.
\<close>

fun SplitN :: "string \<Rightarrow> char \<Rightarrow> nat \<Rightarrow> string list" where
  "SplitN s c 0 = []"
| "SplitN s c (Suc 0) = [s]"
| "SplitN s c (Suc (Suc n)) =
     (if c \<in> set s
      then takeWhile (\<lambda>x. x \<noteq> c) s # SplitN (tl (dropWhile (\<lambda>x. x \<noteq> c) s)) c (Suc n)
      else [s])"

fun Split :: "string \<Rightarrow> char \<Rightarrow> string list" where
  "Split [] c = [[]]"
| "Split (x # xs) c =
     (if x = c then [] # Split xs c
      else (case Split xs c of [] \<Rightarrow> [[x]] | y # ys \<Rightarrow> (x # y) # ys))"

text \<open>\<open>strings.Join(parts, sep)\<close>.\<close>

fun Join :: "string list \<Rightarrow> string \<Rightarrow> string" where
  "Join [] sep = []"
| "Join [s] sep = s"
| "Join (s # t # ss) sep = s @ sep @ Join (t # ss) sep"

section \<open>Decimal numbers\<close>

text \<open>
  \<open>strconv.Atoi\<close>: an optional sign, at least one decimal digit, nothing else, and the value
  within 64 bits; \<open>None\<close> is the error return.
\<close>

definition is_digit :: "char \<Rightarrow> bool" where
  "is_digit c \<longleftrightarrow> 48 \<le> (of_char c :: nat) \<and> (of_char c :: nat) \<le> 57"

definition digit_value :: "char \<Rightarrow> nat" where
  "digit_value c = of_char c - 48"

definition decimal_value :: "string \<Rightarrow> nat" where
  "decimal_value s = foldl (\<lambda>n c. 10 * n + digit_value c) 0 s"

definition Atoi :: "string \<Rightarrow> int option" where
  "Atoi s =
     (let neg = (s \<noteq> [] \<and> hd s = CHR ''-'');
          body = (if s \<noteq> [] \<and> (hd s = CHR ''-'' \<or> hd s = CHR ''+'') then tl s else s);
          v = (if neg then - int (decimal_value body) else int (decimal_value body))
      in if body \<noteq> [] \<and> list_all is_digit body \<and> - (2 ^ 63) \<le> v \<and> v < 2 ^ 63
         then Some v else None)"

text \<open>\<open>%d\<close> of \<open>fmt.Sprintf\<close>.\<close>

fun show_nat :: "nat \<Rightarrow> string" where
  "show_nat n =
     (if n < 10 then [char_of (48 + n)] else show_nat (n div 10) @ [char_of (48 + n mod 10)])"

declare show_nat.simps [simp del]

definition show_int :: "int \<Rightarrow> string" where
  "show_int i = (if i < 0 then CHR ''-'' # show_nat (nat (- i)) else show_nat (nat i))"

lemma is_digit_char_of [simp]: "n < 10 \<Longrightarrow> is_digit (char_of (48 + n :: nat))"
  by (simp add: is_digit_def)

lemma digit_value_char_of [simp]: "n < 10 \<Longrightarrow> digit_value (char_of (48 + n :: nat)) = n"
  by (simp add: digit_value_def)

lemma list_all_digit_show_nat: "list_all is_digit (show_nat n)"
proof (induction n rule: show_nat.induct)
  case (1 n)
  then show ?case by (simp add: show_nat.simps [of n])
qed

lemma show_nat_nonempty [simp]: "show_nat n \<noteq> []"
  by (subst show_nat.simps) simp

lemma decimal_value_snoc [simp]: "decimal_value (s @ [c]) = 10 * decimal_value s + digit_value c"
  by (simp add: decimal_value_def)

lemma decimal_value_show_nat [simp]: "decimal_value (show_nat n) = n"
proof (induction n rule: show_nat.induct)
  case (1 n)
  show ?case
  proof (cases "n < 10")
    case True
    then show ?thesis by (simp add: show_nat.simps [of n] decimal_value_def)
  next
    case False
    with 1 have "decimal_value (show_nat (n div 10)) = n div 10" by blast
    with False show ?thesis by (simp add: show_nat.simps [of n])
  qed
qed

lemma hd_show_nat_digit: "is_digit (hd (show_nat n))"
  using list_all_digit_show_nat [of n] by (cases "show_nat n") auto

lemma not_digit_sign [simp]: "\<not> is_digit (CHR ''-'')" "\<not> is_digit (CHR ''+'')" "\<not> is_digit (CHR ''.'')"
  "\<not> is_digit (CHR ''v'')"
  by (simp_all add: is_digit_def)

lemma Atoi_show_nat:
  assumes "int n < 2 ^ 63"
  shows "Atoi (show_nat n) = Some (int n)"
proof -
  have "hd (show_nat n) \<noteq> CHR ''-''" "hd (show_nat n) \<noteq> CHR ''+''"
    using hd_show_nat_digit [of n] by (metis not_digit_sign)+
  with assms show ?thesis by (simp add: Atoi_def Let_def list_all_digit_show_nat)
qed

lemma Atoi_show_int:
  assumes "- (2 ^ 63) \<le> i" and "i < 2 ^ 63"
  shows "Atoi (show_int i) = Some i"
proof (cases "i < 0")
  case True
  with assms show ?thesis by (simp add: Atoi_def Let_def show_int_def list_all_digit_show_nat)
next
  case False
  with assms Atoi_show_nat [of "nat i"] show ?thesis by (simp add: show_int_def)
qed

lemma Atoi_bounds: "Atoi s = Some i \<Longrightarrow> - (2 ^ 63) \<le> i \<and> i < 2 ^ 63"
  by (auto simp: Atoi_def Let_def split: if_splits)

section \<open>Sorting\<close>

text \<open>
  \<open>sort.SliceStable(xs, lt)\<close>: a stable sort by the comparison the code passes. The model
  uses it for \<open>sort.Slice\<close> too; where the comparison is a total order on the elements that
  occur, every correct sort returns the same list (\<open>sort_by_unique\<close> below).
\<close>

fun insert_by :: "('a \<Rightarrow> 'a \<Rightarrow> bool) \<Rightarrow> 'a \<Rightarrow> 'a list \<Rightarrow> 'a list" where
  "insert_by lt x [] = [x]"
| "insert_by lt x (y # ys) = (if lt y x then y # insert_by lt x ys else x # y # ys)"

definition sort_by :: "('a \<Rightarrow> 'a \<Rightarrow> bool) \<Rightarrow> 'a list \<Rightarrow> 'a list" where
  "sort_by lt xs = foldr (insert_by lt) xs []"

lemma sort_by_simps [simp]:
  "sort_by lt [] = []"
  "sort_by lt (x # xs) = insert_by lt x (sort_by lt xs)"
  by (simp_all add: sort_by_def)

lemma mset_insert_by [simp]: "mset (insert_by lt x xs) = add_mset x (mset xs)"
  by (induction xs) auto

lemma mset_sort_by [simp]: "mset (sort_by lt xs) = mset xs"
  by (induction xs) auto

lemma set_insert_by [simp]: "set (insert_by lt x xs) = insert x (set xs)"
  by (induction xs) auto

lemma set_sort_by [simp]: "set (sort_by lt xs) = set xs"
  by (induction xs) auto

lemma length_insert_by [simp]: "length (insert_by lt x xs) = Suc (length xs)"
  by (induction xs) auto

lemma length_sort_by [simp]: "length (sort_by lt xs) = length xs"
  by (induction xs) auto

text \<open>
  The contract of a comparison passed to a sort: it is the strict order of a key in a linear
  order. A client only needs the law, and gets sortedness, and independence of the input
  order where the keys are distinct.
\<close>

locale key_comparison =
  fixes lt :: "'a \<Rightarrow> 'a \<Rightarrow> bool" and sort_key_of :: "'a \<Rightarrow> 'k::linorder"
  assumes less_key: "lt x y \<longleftrightarrow> sort_key_of x < sort_key_of y"
begin

lemma sort_by_insort: "insert_by lt x xs = insort_key sort_key_of x xs"
  by (induction xs) (auto simp: less_key)

lemma sort_by_eq_sort_key: "sort_by lt xs = sort_key sort_key_of xs"
  by (induction xs) (auto simp: sort_by_insort)

lemma sort_by_sorted: "sorted (map sort_key_of (sort_by lt xs))"
  by (simp add: sort_by_eq_sort_key)

lemma sort_by_sorted_wrt: "sorted_wrt (\<lambda>x y. \<not> lt y x) (sort_by lt xs)"
  using sort_by_sorted [of xs] by (simp add: sorted_map less_key not_less)

lemma sort_by_unique:
  assumes "mset xs = mset ys" and "inj_on sort_key_of (set xs)"
  shows "sort_by lt xs = sort_by lt ys"
proof -
  have "inj_on sort_key_of (set (sort_by lt xs))" using assms(2) by simp
  then show ?thesis
    unfolding sort_by_eq_sort_key
    by (metis assms mset_sort properties_for_sort_key sorted_sort_key sort_key_inj_key_eq)
qed

lemma sort_by_append_less:
  assumes "\<And>x y. x \<in> set xs \<Longrightarrow> y \<in> set ys \<Longrightarrow> lt x y"
  shows "sort_by lt (xs @ ys) = sort_by lt xs @ sort_by lt ys"
  using assms
proof (induction xs)
  case Nil
  then show ?case by simp
next
  case (Cons x xs)
  have "insert_by lt x (us @ vs) = insert_by lt x us @ vs" if "\<forall>y\<in>set vs. lt x y" for us vs
  proof (induction us)
    case Nil
    with that show ?case by (cases vs) (auto simp: less_key)
  qed simp
  with Cons show ?case by simp
qed

end

interpretation string_sort: key_comparison "(<) :: string \<Rightarrow> string \<Rightarrow> bool" "\<lambda>s. s"
  by unfold_locales simp

text \<open>\<open>sort.Strings\<close>, which sorts a copy or in place.\<close>

definition sort_strings :: "string list \<Rightarrow> string list" where
  "sort_strings xs = sort_by (<) xs"

lemma sort_strings_eq_sort: "sort_strings xs = sort xs"
  unfolding sort_strings_def by (rule string_sort.sort_by_eq_sort_key)

lemma sort_strings_mset_cong: "mset xs = mset ys \<Longrightarrow> sort_strings xs = sort_strings ys"
  by (simp add: sort_strings_eq_sort) (metis properties_for_sort sorted_sort mset_sort)

lemma sorted_sort_strings [simp]: "sorted (sort_strings xs)"
  by (simp add: sort_strings_eq_sort)

lemma set_sort_strings [simp]: "set (sort_strings xs) = set xs"
  by (simp add: sort_strings_def)

lemma distinct_sort_strings [simp]: "distinct (sort_strings xs) = distinct xs"
  by (simp add: sort_strings_eq_sort)

section \<open>Appending without duplicates\<close>

text \<open>
  The loop the code repeats for reason codes, impact scopes, labels and keys: append a value
  unless it is there already.
\<close>

definition append_unique :: "'a list \<Rightarrow> 'a \<Rightarrow> 'a list" where
  "append_unique xs x = (if x \<in> set xs then xs else xs @ [x])"

definition append_all_unique :: "'a list \<Rightarrow> 'a list \<Rightarrow> 'a list" where
  "append_all_unique xs ys = foldl append_unique xs ys"

lemma set_append_unique [simp]: "set (append_unique xs x) = insert x (set xs)"
  by (auto simp: append_unique_def)

lemma distinct_append_unique [simp]: "distinct (append_unique xs x) = distinct xs"
  by (auto simp: append_unique_def)

lemma append_all_unique_simps [simp]:
  "append_all_unique xs [] = xs"
  "append_all_unique xs (y # ys) = append_all_unique (append_unique xs y) ys"
  by (simp_all add: append_all_unique_def)

lemma append_all_unique_append [simp]:
  "append_all_unique xs (ys @ zs) = append_all_unique (append_all_unique xs ys) zs"
  by (simp add: append_all_unique_def)

lemma set_append_all_unique [simp]: "set (append_all_unique xs ys) = set xs \<union> set ys"
  by (induction ys arbitrary: xs) auto

lemma distinct_append_all_unique [simp]: "distinct (append_all_unique xs ys) = distinct xs"
  by (induction ys arbitrary: xs) auto

lemma append_unique_nonempty [simp]: "append_unique xs x \<noteq> []"
  by (auto simp: append_unique_def)

lemma find_SomeD: "find P xs = Some x \<Longrightarrow> x \<in> set xs \<and> P x"
  by (induction xs) (auto split: if_splits)

lemma set_map_filter: "set (List.map_filter f xs) = {y. \<exists>x\<in>set xs. f x = Some y}"
  by (induction xs) (auto simp: List.map_filter_def split: if_splits)

lemma find_None_conv: "find P xs = None \<longleftrightarrow> (\<forall>x\<in>set xs. \<not> P x)"
  by (induction xs) auto

lemma length_filter_eq_0: "length (filter P xs) = 0 \<longleftrightarrow> (\<forall>x\<in>set xs. \<not> P x)"
  by (induction xs) auto

end
