(* ===== verification/Digest.thy ===== *)
theory Digest
  imports Prelude "HOL-Library.Word"
begin

unbundle bit_operations_syntax

text \<open>
  \<open>canonicalKey\<close> of \<open>internal/findings/finding.go\<close>: the hexadecimal SHA-256 digest of the
  JSON encoding of a list of strings. Both halves are Go's standard library and are written
  out: \<open>json_strings\<close> is \<open>json.Marshal\<close> of a \<open>[]string\<close> (with the escapes of
  \<open>encoding/json\<close>), \<open>sha256\<close> is FIPS 180-4 on 32 bit words, executable in the kernel.
\<close>

section \<open>SHA-256\<close>

type_synonym w32 = "32 word"

definition rotr32 :: "nat \<Rightarrow> w32 \<Rightarrow> w32" where
  "rotr32 n x = drop_bit n x OR push_bit (32 - n) x"

definition sha_K :: "w32 list" where
  "sha_K =
    [1116352408, 1899447441, 3049323471, 3921009573, 961987163, 1508970993, 2453635748, 2870763221,
     3624381080, 310598401, 607225278, 1426881987, 1925078388, 2162078206, 2614888103, 3248222580,
     3835390401, 4022224774, 264347078, 604807628, 770255983, 1249150122, 1555081692, 1996064986,
     2554220882, 2821834349, 2952996808, 3210313671, 3336571891, 3584528711, 113926993, 338241895,
     666307205, 773529912, 1294757372, 1396182291, 1695183700, 1986661051, 2177026350, 2456956037,
     2730485921, 2820302411, 3259730800, 3345764771, 3516065817, 3600352804, 4094571909, 275423344,
     430227734, 506948616, 659060556, 883997877, 958139571, 1322822218, 1537002063, 1747873779,
     1955562222, 2024104815, 2227730452, 2361852424, 2428436474, 2756734187, 3204031479, 3329325298]"

definition sha_H0 :: "w32 list" where
  "sha_H0 =
    [1779033703, 3144134277, 1013904242, 2773480762, 1359893119, 2600822924, 528734635, 1541459225]"

text \<open>
  The message schedule keeps the last sixteen words, newest last: the next word is made from
  the words 2, 7, 15 and 16 steps back.
\<close>

definition sha_sigma0 :: "w32 \<Rightarrow> w32" where
  "sha_sigma0 x = rotr32 7 x XOR rotr32 18 x XOR drop_bit 3 x"

definition sha_sigma1 :: "w32 \<Rightarrow> w32" where
  "sha_sigma1 x = rotr32 17 x XOR rotr32 19 x XOR drop_bit 10 x"

definition sha_Sigma0 :: "w32 \<Rightarrow> w32" where
  "sha_Sigma0 x = rotr32 2 x XOR rotr32 13 x XOR rotr32 22 x"

definition sha_Sigma1 :: "w32 \<Rightarrow> w32" where
  "sha_Sigma1 x = rotr32 6 x XOR rotr32 11 x XOR rotr32 25 x"

fun sha_schedule :: "nat \<Rightarrow> w32 list \<Rightarrow> w32 list" where
  "sha_schedule 0 ws = ws"
| "sha_schedule (Suc n) ws =
     (case ws of
        [] \<Rightarrow> []
      | w0 # rest \<Rightarrow>
          w0 # sha_schedule n
                 (rest @ [sha_sigma1 (ws ! 14) + ws ! 9 + sha_sigma0 (ws ! 1) + w0]))"

fun sha_round :: "w32 list \<Rightarrow> w32 \<times> w32 \<Rightarrow> w32 list" where
  "sha_round [a, b, c, d, e, f, g, h] (k, w) =
     (let t1 = h + sha_Sigma1 e + ((e AND f) XOR (NOT e AND g)) + k + w;
          t2 = sha_Sigma0 a + ((a AND b) XOR (a AND c) XOR (b AND c))
      in [t1 + t2, a, b, c, d + t1, e, f, g])"
| "sha_round st _ = st"

definition sha_block :: "w32 list \<Rightarrow> w32 list \<Rightarrow> w32 list" where
  "sha_block H ws = map2 (+) H (foldl sha_round H (zip sha_K (sha_schedule 48 ws)))"

definition byte_of :: "char \<Rightarrow> int" where
  "byte_of c = of_char c"

fun words_of :: "int list \<Rightarrow> w32 list" where
  "words_of (a # b # c # d # rest) =
     word_of_int (a * 16777216 + b * 65536 + c * 256 + d) # words_of rest"
| "words_of _ = []"

definition be_bytes :: "int list \<Rightarrow> int \<Rightarrow> int list" where
  \<comment> \<open>the bytes of \<open>n\<close> at the given powers of 256, most significant first\<close>
  "be_bytes ps n = map (\<lambda>p. n div p mod 256) ps"

definition sha_pad :: "int list \<Rightarrow> int list" where
  "sha_pad bs =
     (let l = int (length bs)
      in bs @ [128] @ replicate (nat ((55 - l) mod 64)) 0
         @ be_bytes [72057594037927936, 281474976710656, 1099511627776, 4294967296,
                     16777216, 65536, 256, 1] (8 * l))"

fun sha_blocks :: "nat \<Rightarrow> w32 list \<Rightarrow> w32 list \<Rightarrow> w32 list" where
  "sha_blocks 0 H ws = H"
| "sha_blocks (Suc n) H ws = sha_blocks n (sha_block H (take 16 ws)) (drop 16 ws)"

definition hex_digit :: "int \<Rightarrow> char" where
  "hex_digit n = ''0123456789abcdef'' ! nat n"

definition hex_byte :: "int \<Rightarrow> string" where
  "hex_byte b = [hex_digit (b div 16 mod 16), hex_digit (b mod 16)]"

definition hex_word :: "w32 \<Rightarrow> string" where
  "hex_word w = concat (map hex_byte (be_bytes [16777216, 65536, 256, 1] (uint w)))"

definition sha256_hex :: "string \<Rightarrow> string" where
  "sha256_hex s =
     (let ws = words_of (sha_pad (map byte_of s))
      in concat (map hex_word (sha_blocks (length ws div 16) sha_H0 ws)))"

section \<open>JSON encoding of a list of strings\<close>

text \<open>
  \<open>utf8_len\<close> is the length of the rune at the head of a byte string as Go decodes it, and
  0 where the bytes are not valid UTF-8 (Go then consumes one byte and writes \<open>\\ufffd\<close>).
\<close>

definition cont_in :: "int \<Rightarrow> int \<Rightarrow> int list \<Rightarrow> nat \<Rightarrow> bool" where
  "cont_in lo hi bs i \<longleftrightarrow> i < length bs \<and> lo \<le> bs ! i \<and> bs ! i \<le> hi"

definition utf8_len :: "int list \<Rightarrow> nat" where
  "utf8_len bs =
     (case bs of
        [] \<Rightarrow> 0
      | b # _ \<Rightarrow>
          if b < 128 then 1
          else if 194 \<le> b \<and> b \<le> 223 then (if cont_in 128 191 bs 1 then 2 else 0)
          else if 224 \<le> b \<and> b \<le> 239
          then (if cont_in (if b = 224 then 160 else 128) (if b = 237 then 159 else 191) bs 1
                   \<and> cont_in 128 191 bs 2 then 3 else 0)
          else if 240 \<le> b \<and> b \<le> 244
          then (if cont_in (if b = 240 then 144 else 128) (if b = 244 then 143 else 191) bs 1
                   \<and> cont_in 128 191 bs 2 \<and> cont_in 128 191 bs 3 then 4 else 0)
          else 0)"

definition json_escape_ascii :: "char \<Rightarrow> string" where
  "json_escape_ascii c =
     (let b = byte_of c
      in if c = CHR 0x5C \<or> c = CHR 0x22 then [CHR 0x5C, c]
         else if b = 8 then [CHR 0x5C, CHR ''b'']
         else if b = 12 then [CHR 0x5C, CHR ''f'']
         else if b = 10 then [CHR 0x5C, CHR ''n'']
         else if b = 13 then [CHR 0x5C, CHR ''r'']
         else if b = 9 then [CHR 0x5C, CHR ''t'']
         else if b < 32 \<or> c = CHR ''<'' \<or> c = CHR ''>'' \<or> c = CHR ''&''
         then CHR 0x5C # ''u00'' @ hex_byte b
         else [c])"

definition line_separators :: "(string \<times> string) list" where
  "line_separators =
     [([CHR 0xE2, CHR 0x80, CHR 0xA8], CHR 0x5C # ''u2028''),
      ([CHR 0xE2, CHR 0x80, CHR 0xA9], CHR 0x5C # ''u2029'')]"

function json_chars :: "string \<Rightarrow> string" where
  "json_chars s =
     (case s of
        [] \<Rightarrow> []
      | c # rest \<Rightarrow>
          (let n = utf8_len (map byte_of (take 4 s))
           in if byte_of c < 128 then json_escape_ascii c @ json_chars rest
              else if n = 0 then CHR 0x5C # ''ufffd'' @ json_chars rest
              else (case map_of line_separators (take n s) of
                      Some e \<Rightarrow> e
                    | None \<Rightarrow> take n s) @ json_chars (drop n s)))"
  by pat_completeness auto
termination
  by (relation "measure length") (auto simp: Let_def)

declare json_chars.simps [simp del]

definition json_strings :: "string list \<Rightarrow> string" where
  "json_strings parts =
     ''['' @ Join (map (\<lambda>s. CHR 0x22 # json_chars s @ [CHR 0x22]) parts) '','' @ '']''"

section \<open>Canonical keys\<close>

definition canonicalKey :: "string list \<Rightarrow> string" where
  "canonicalKey parts = sha256_hex (json_strings parts)"

end
