(* ===== verification/Findings.thy ===== *)
theory Findings
  imports Digest
begin

text \<open>
  The finding schema of \<open>internal/findings/finding.go\<close> and \<open>internal/findings/context.go\<close>:
  severities, confidence tiers, structured resource references with their occurrence and concept
  keys, upgrade contexts, impact scopes and upgrade gates, the validation of a finding, and the
  fingerprint (\<open>FingerprintV2\<close>).

  Go's string-typed enumerations are datatypes with one constructor per declared constant and a
  last constructor for any other string, so that a value read from a JSON document which is none
  of the constants is a value of the model too. The empty string, which the code tests for, has
  its own constructor (\<open>GateUnset\<close>, \<open>ContextUnset\<close>).
\<close>

section \<open>Enumerations\<close>

datatype Severity = SeverityBlocker | SeverityWarning | SeverityInfo | SeverityOther string

datatype ConfidenceTier =
    TierStaticCertain | TierProviderReported | TierObserved | TierInferred | TierOther string

datatype Plane = PlaneLive | PlaneManifest | PlaneAWS | PlaneOther string

datatype ResourceScope = ScopeCluster | ScopeNamespaced | ScopeOther string

datatype UpgradeContext =
    ContextUnset | ContextUnspecified | ContextAuditOnly | ContextControlPlaneOnly
  | ContextWorkerRollout | ContextFullPlatformUpgrade | ContextWorkloadRestart
  | ContextOther string

datatype ImpactScope =
    ImpactControlPlaneUpgrade | ImpactWorkerRollout | ImpactNodeDrain | ImpactAPIWrite
  | ImpactWorkloadRestart | ImpactCurrentHealth | ImpactFutureMaintenance
  | ImpactCRDConversion | ImpactAggregatedAPI | ImpactOther string

datatype UpgradeGate =
    GateUnset | UpgradeGateBlock | UpgradeGateAllow | UpgradeGateOperatorDecision
  | GateOther string

text \<open>The strings the constants stand for (\<open>string(x)\<close> in the code).\<close>

fun severity_string :: "Severity \<Rightarrow> string" where
  "severity_string SeverityBlocker = ''Blocker''"
| "severity_string SeverityWarning = ''Warning''"
| "severity_string SeverityInfo = ''Info''"
| "severity_string (SeverityOther s) = s"

fun confidence_string :: "ConfidenceTier \<Rightarrow> string" where
  "confidence_string TierStaticCertain = ''STATIC_CERTAIN''"
| "confidence_string TierProviderReported = ''PROVIDER_REPORTED''"
| "confidence_string TierObserved = ''OBSERVED''"
| "confidence_string TierInferred = ''INFERRED''"
| "confidence_string (TierOther s) = s"

fun plane_string :: "Plane \<Rightarrow> string" where
  "plane_string PlaneLive = ''live''"
| "plane_string PlaneManifest = ''manifest''"
| "plane_string PlaneAWS = ''aws''"
| "plane_string (PlaneOther s) = s"

fun context_string :: "UpgradeContext \<Rightarrow> string" where
  "context_string ContextUnset = ''''"
| "context_string ContextUnspecified = ''unspecified''"
| "context_string ContextAuditOnly = ''audit_only''"
| "context_string ContextControlPlaneOnly = ''control_plane_only''"
| "context_string ContextWorkerRollout = ''worker_rollout''"
| "context_string ContextFullPlatformUpgrade = ''full_platform_upgrade''"
| "context_string ContextWorkloadRestart = ''workload_restart''"
| "context_string (ContextOther s) = s"

fun impact_string :: "ImpactScope \<Rightarrow> string" where
  "impact_string ImpactControlPlaneUpgrade = ''control_plane_upgrade''"
| "impact_string ImpactWorkerRollout = ''worker_rollout''"
| "impact_string ImpactNodeDrain = ''node_drain''"
| "impact_string ImpactAPIWrite = ''api_write''"
| "impact_string ImpactWorkloadRestart = ''workload_restart''"
| "impact_string ImpactCurrentHealth = ''current_health''"
| "impact_string ImpactFutureMaintenance = ''future_maintenance''"
| "impact_string ImpactCRDConversion = ''crd_conversion''"
| "impact_string ImpactAggregatedAPI = ''aggregated_api''"
| "impact_string (ImpactOther s) = s"

fun gate_string :: "UpgradeGate \<Rightarrow> string" where
  "gate_string GateUnset = ''''"
| "gate_string UpgradeGateBlock = ''block''"
| "gate_string UpgradeGateAllow = ''allow''"
| "gate_string UpgradeGateOperatorDecision = ''operator_decision''"
| "gate_string (GateOther s) = s"

section \<open>The upgrade context flag\<close>

definition upgradeContextCLIValues :: "(string \<times> UpgradeContext) list" where
  "upgradeContextCLIValues =
     [(''unspecified'', ContextUnspecified), (''audit-only'', ContextAuditOnly),
      (''control-plane-only'', ContextControlPlaneOnly), (''worker-rollout'', ContextWorkerRollout),
      (''full-platform-upgrade'', ContextFullPlatformUpgrade),
      (''workload-restart'', ContextWorkloadRestart)]"

definition UpgradeContextFlagValues :: "string list" where
  "UpgradeContextFlagValues =
     [''unspecified'', ''audit-only'', ''control-plane-only'', ''worker-rollout'',
      ''full-platform-upgrade'', ''workload-restart'']"

text \<open>The error is the message's variable part: the rejected value and the accepted ones.\<close>

definition ParseUpgradeContextFlag :: "string \<Rightarrow> (string \<times> string) + UpgradeContext" where
  "ParseUpgradeContextFlag value =
     (if value = '''' then Inr ContextUnspecified
      else case map_of upgradeContextCLIValues value of
             Some ctx \<Rightarrow> Inr ctx
           | None \<Rightarrow> Inl (value, Join UpgradeContextFlagValues '', ''))"

fun valid_context :: "UpgradeContext \<Rightarrow> bool" where
  "valid_context (ContextOther _) = False"
| "valid_context _ = True"

fun valid_impact_scope :: "ImpactScope \<Rightarrow> bool" where
  "valid_impact_scope (ImpactOther _) = False"
| "valid_impact_scope _ = True"

fun valid_gate :: "UpgradeGate \<Rightarrow> bool" where
  "valid_gate (GateOther _) = False"
| "valid_gate _ = True"

section \<open>Resource references\<close>

record ResourceReference =
  ref_Plane :: Plane
  ref_Kind :: string
  ref_Scope :: ResourceScope
  ref_Namespace :: string
  ref_Name :: string
  ref_UID :: string
  ref_SourcePath :: string
  ref_Category :: string
  ref_KubernetesVersion :: string
  ref_ProviderID :: string
  ref_ProviderName :: string

definition empty_reference :: ResourceReference where
  \<comment> \<open>the zero value \<open>ResourceReference{}\<close>\<close>
  "empty_reference = \<lparr>ref_Plane = PlaneOther '''', ref_Kind = '''', ref_Scope = ScopeOther '''',
     ref_Namespace = '''', ref_Name = '''', ref_UID = '''', ref_SourcePath = '''',
     ref_Category = '''', ref_KubernetesVersion = '''', ref_ProviderID = '''',
     ref_ProviderName = ''''\<rparr>"

definition LiveResource ::
  "string \<Rightarrow> ResourceScope \<Rightarrow> string \<Rightarrow> string \<Rightarrow> string \<Rightarrow> ResourceReference" where
  "LiveResource kind scope namespace name uid =
     empty_reference\<lparr>ref_Plane := PlaneLive, ref_Kind := kind, ref_Scope := scope,
       ref_Namespace := namespace, ref_Name := name, ref_UID := uid\<rparr>"

definition ManifestResource ::
  "string \<Rightarrow> ResourceScope \<Rightarrow> string \<Rightarrow> string \<Rightarrow> string \<Rightarrow> ResourceReference" where
  "ManifestResource kind scope namespace name sourcePath =
     empty_reference\<lparr>ref_Plane := PlaneManifest, ref_Kind := kind, ref_Scope := scope,
       ref_Namespace := namespace, ref_Name := name, ref_SourcePath := sourcePath\<rparr>"

definition AWSResource :: "string \<Rightarrow> string \<Rightarrow> string \<Rightarrow> ResourceReference" where
  "AWSResource kind name providerID =
     empty_reference\<lparr>ref_Plane := PlaneAWS, ref_Kind := kind, ref_Name := name,
       ref_ProviderID := providerID\<rparr>"

definition AWSInsightResource ::
  "string \<Rightarrow> string \<Rightarrow> string \<Rightarrow> string \<Rightarrow> ResourceReference" where
  "AWSInsightResource category kubernetesVersion providerID providerName =
     empty_reference\<lparr>ref_Plane := PlaneAWS, ref_Kind := ''EKSUpgradeInsight'',
       ref_Name := providerName, ref_Category := category,
       ref_KubernetesVersion := kubernetesVersion, ref_ProviderID := providerID,
       ref_ProviderName := providerName\<rparr>"

text \<open>\<open>Validate\<close>: \<open>None\<close> is the nil error.\<close>

datatype reference_error =
    InvalidLiveReference | InvalidManifestReference | InvalidAWSReference
  | InvalidAWSInsightReference | UnknownPlane string

definition validate_reference :: "ResourceReference \<Rightarrow> reference_error option" where
  "validate_reference r =
     (case ref_Plane r of
        PlaneLive \<Rightarrow>
          if ref_Kind r = '''' \<or> ref_Name r = '''' \<or> ref_UID r = '''' \<or> ref_SourcePath r \<noteq> ''''
             \<or> ref_ProviderID r \<noteq> ''''
          then Some InvalidLiveReference else None
      | PlaneManifest \<Rightarrow>
          if ref_Kind r = '''' \<or> ref_Name r = '''' \<or> ref_SourcePath r = '''' \<or> ref_UID r \<noteq> ''''
             \<or> ref_ProviderID r \<noteq> ''''
          then Some InvalidManifestReference else None
      | PlaneAWS \<Rightarrow>
          if ref_ProviderID r = '''' \<or> ref_UID r \<noteq> '''' \<or> ref_SourcePath r \<noteq> ''''
          then Some InvalidAWSReference
          else if ref_Kind r = ''EKSUpgradeInsight''
                  \<and> (ref_Category r = '''' \<or> ref_KubernetesVersion r = '''')
          then Some InvalidAWSInsightReference else None
      | PlaneOther p \<Rightarrow> Some (UnknownPlane p))"

text \<open>
  The lists of parts whose digest is the occurrence key and the concept key. Keeping the parts
  apart from the digest lets the lemmas below speak of them without the hash.
\<close>

definition occurrence_parts :: "ResourceReference \<Rightarrow> string list" where
  "occurrence_parts r =
     (case ref_Plane r of
        PlaneLive \<Rightarrow> [''occurrence'', ''live'', ref_UID r]
      | PlaneManifest \<Rightarrow>
          [''occurrence'', ''manifest'', ref_SourcePath r, ref_Kind r, ref_Namespace r, ref_Name r]
      | PlaneAWS \<Rightarrow> [''occurrence'', ''aws'', ref_ProviderID r]
      | PlaneOther p \<Rightarrow> [''occurrence'', p, ref_Kind r, ref_Namespace r, ref_Name r])"

definition OccurrenceKey :: "ResourceReference \<Rightarrow> string" where
  "OccurrenceKey r = canonicalKey (occurrence_parts r)"

definition object_concept_parts :: "ResourceReference \<Rightarrow> string list option" where
  "object_concept_parts r =
     (if ref_Kind r = '''' \<or> ref_Name r = '''' then None
      else if ref_Scope r = ScopeNamespaced \<and> ref_Namespace r = '''' then None
      else if ref_Scope r \<noteq> ScopeCluster \<and> ref_Scope r \<noteq> ScopeNamespaced then None
      else Some [''k8s-object'', ref_Kind r, ref_Namespace r, ref_Name r])"

definition concept_parts :: "ResourceReference \<Rightarrow> string list option" where
  "concept_parts r =
     (case ref_Plane r of
        PlaneLive \<Rightarrow> object_concept_parts r
      | PlaneManifest \<Rightarrow> object_concept_parts r
      | PlaneAWS \<Rightarrow>
          if ref_ProviderID r = '''' then None
          else if ref_Kind r = ''EKSUpgradeInsight''
          then if ref_Category r = '''' \<or> ref_KubernetesVersion r = '''' then None
               else Some [''aws-insight'', ref_Category r, ref_KubernetesVersion r, ref_ProviderID r]
          else Some [''aws-resource'', ref_Kind r, ref_ProviderID r]
      | PlaneOther p \<Rightarrow> None)"

definition ConceptKey :: "ResourceReference \<Rightarrow> string option" where
  "ConceptKey r = map_option canonicalKey (concept_parts r)"

section \<open>Fingerprints\<close>

definition reference_key :: "ResourceReference \<Rightarrow> string" where
  \<comment> \<open>the concept key, or the occurrence key where there is none\<close>
  "reference_key r = (case ConceptKey r of Some k \<Rightarrow> k | None \<Rightarrow> OccurrenceKey r)"

definition fingerprint_parts ::
  "string \<Rightarrow> string \<Rightarrow> string \<Rightarrow> ResourceReference list \<Rightarrow> string list" where
  "fingerprint_parts ruleID targetVersion discriminator refs =
     [''finding-v2'', ruleID, targetVersion, discriminator]
       @ sort_strings (append_all_unique [] (map reference_key refs))"

definition FingerprintV2 ::
  "string \<Rightarrow> string \<Rightarrow> string \<Rightarrow> ResourceReference list \<Rightarrow> string" where
  "FingerprintV2 ruleID targetVersion discriminator refs =
     canonicalKey (fingerprint_parts ruleID targetVersion discriminator refs)"

definition Fingerprint :: "string \<Rightarrow> string \<Rightarrow> string \<Rightarrow> string" where
  \<comment> \<open>the legacy fingerprint\<close>
  "Fingerprint ruleID resourceUID targetVersion =
     sha256_hex (Join [ruleID, resourceUID, targetVersion] ''|'')"

section \<open>Findings\<close>

record RemediationChange =
  chg_Field :: string
  chg_Current :: string
  chg_Required :: string

record RemediationAction =
  act_Label :: string
  act_Steps :: "string list"
  act_Command :: string
  act_Risky :: bool

record RemediationDetail =
  rem_AffectedFile :: string
  rem_Changes :: "RemediationChange list"
  rem_Diff :: string
  rem_SafeFix :: "RemediationAction option"
  rem_Emergency :: "RemediationAction option"
  rem_BreakGlass :: "RemediationAction option"
  rem_VerifyCommand :: string
  rem_ExpectedResult :: string

record Finding =
  f_RuleID :: string
  f_Severity :: Severity
  f_Confidence :: ConfidenceTier
  f_Message :: string
  f_Resources :: "ResourceReference list"
  f_Evidence :: "string list"
  f_Remediation :: string
  f_RemediationDetail :: "RemediationDetail option"
  f_ImpactScopes :: "ImpactScope list"
  f_UpgradeGate :: UpgradeGate
  f_GlobalBlocker :: bool
  f_CriticalInfra :: bool
  f_Priority :: string
  f_PriorityReason :: string
  f_AffectedScope :: string
  f_CanUpgradeContinue :: bool
  f_Fingerprint :: string

definition empty_finding :: Finding where
  \<comment> \<open>the zero value \<open>Finding{}\<close>\<close>
  "empty_finding = \<lparr>f_RuleID = '''', f_Severity = SeverityOther '''', f_Confidence = TierOther '''',
     f_Message = '''', f_Resources = [], f_Evidence = [], f_Remediation = '''',
     f_RemediationDetail = None, f_ImpactScopes = [], f_UpgradeGate = GateUnset,
     f_GlobalBlocker = False, f_CriticalInfra = False, f_Priority = '''', f_PriorityReason = '''',
     f_AffectedScope = '''', f_CanUpgradeContinue = False, f_Fingerprint = ''''\<rparr>"

definition EffectiveUpgradeGate :: "Finding \<Rightarrow> UpgradeGate" where
  "EffectiveUpgradeGate f =
     (if f_UpgradeGate f \<noteq> GateUnset then f_UpgradeGate f
      else if f_GlobalBlocker f \<or> f_Severity f = SeverityBlocker then UpgradeGateBlock
      else UpgradeGateAllow)"

datatype finding_error =
    NoRuleID
  | InvalidSeverity string string
  | InvalidConfidence string string
  | NoResources string
  | BadResource string nat reference_error
  | NoFingerprint string
  | BreakGlassNotRisky string
  | BadImpactScope string string
  | BadUpgradeGate string string

fun first_bad_reference :: "nat \<Rightarrow> ResourceReference list \<Rightarrow> (nat \<times> reference_error) option" where
  "first_bad_reference i [] = None"
| "first_bad_reference i (r # rs) =
     (case validate_reference r of
        Some e \<Rightarrow> Some (i, e)
      | None \<Rightarrow> first_bad_reference (Suc i) rs)"

definition break_glass_not_risky :: "Finding \<Rightarrow> bool" where
  "break_glass_not_risky f \<longleftrightarrow>
     (case f_RemediationDetail f of
        None \<Rightarrow> False
      | Some d \<Rightarrow> (case rem_BreakGlass d of None \<Rightarrow> False | Some a \<Rightarrow> \<not> act_Risky a))"

definition Validate :: "Finding \<Rightarrow> finding_error option" where
  "Validate f =
     (if f_RuleID f = '''' then Some NoRuleID
      else if f_Severity f \<noteq> SeverityBlocker \<and> f_Severity f \<noteq> SeverityWarning
              \<and> f_Severity f \<noteq> SeverityInfo
      then Some (InvalidSeverity (f_RuleID f) (severity_string (f_Severity f)))
      else if f_Confidence f \<noteq> TierStaticCertain \<and> f_Confidence f \<noteq> TierProviderReported
              \<and> f_Confidence f \<noteq> TierObserved \<and> f_Confidence f \<noteq> TierInferred
      then Some (InvalidConfidence (f_RuleID f) (confidence_string (f_Confidence f)))
      else if f_Resources f = [] then Some (NoResources (f_RuleID f))
      else case first_bad_reference 0 (f_Resources f) of
        Some (i, e) \<Rightarrow> Some (BadResource (f_RuleID f) i e)
      | None \<Rightarrow>
          if f_Fingerprint f = '''' then Some (NoFingerprint (f_RuleID f))
          else if break_glass_not_risky f then Some (BreakGlassNotRisky (f_RuleID f))
          else case find (\<lambda>s. \<not> valid_impact_scope s) (f_ImpactScopes f) of
            Some s \<Rightarrow> Some (BadImpactScope (f_RuleID f) (impact_string s))
          | None \<Rightarrow>
              if valid_gate (f_UpgradeGate f) then None
              else Some (BadUpgradeGate (f_RuleID f) (gate_string (f_UpgradeGate f))))"

section \<open>Lemmas\<close>

lemma EffectiveUpgradeGate_set [gate_simps]:
  "g \<noteq> GateUnset \<Longrightarrow> EffectiveUpgradeGate (f\<lparr>f_UpgradeGate := g\<rparr>) = g"
  by (simp add: EffectiveUpgradeGate_def)

lemma EffectiveUpgradeGate_not_unset [simp]: "EffectiveUpgradeGate f \<noteq> GateUnset"
  by (simp add: EffectiveUpgradeGate_def)

lemma first_bad_reference_None:
  "first_bad_reference i rs = None \<longleftrightarrow> (\<forall>r\<in>set rs. validate_reference r = None)"
  by (induction rs arbitrary: i) (auto split: option.splits)

lemma first_bad_reference_Some:
  "first_bad_reference i rs = Some (j, e) \<Longrightarrow>
     i \<le> j \<and> j < i + length rs \<and> validate_reference (rs ! (j - i)) = Some e
     \<and> (\<forall>k<j - i. validate_reference (rs ! k) = None)"
proof (induction rs arbitrary: i)
  case Nil
  then show ?case by simp
next
  case (Cons r rs)
  show ?case
  proof (cases "validate_reference r")
    case None
    with Cons.prems have "first_bad_reference (Suc i) rs = Some (j, e)" by simp
    note IH = Cons.IH [OF this]
    from IH have "j - i = Suc (j - Suc i)" by (simp add: Suc_diff_Suc)
    with IH None show ?thesis by (auto simp: less_Suc_eq_0_disj)
  next
    case Some
    with Cons.prems show ?thesis by simp
  qed
qed

lemma reference_key_cong:
  assumes "concept_parts r = concept_parts s" and "concept_parts r \<noteq> None"
  shows "reference_key r = reference_key s"
  using assms by (auto simp: reference_key_def ConceptKey_def)

lemma fingerprint_parts_set_cong:
  assumes "reference_key ` set refs = reference_key ` set refs'"
  shows "fingerprint_parts ruleID tv d refs = fingerprint_parts ruleID tv d refs'"
proof -
  have "sort_strings (append_all_unique [] (map reference_key refs))
      = sort_strings (append_all_unique [] (map reference_key refs'))"
    using assms by (intro sorted_distinct_set_unique) simp_all
  then show ?thesis by (simp add: fingerprint_parts_def)
qed

end
