(* ===== verification/Priority.thy ===== *)
theory Priority
  imports Findings
begin

text \<open>
  \<open>internal/findings/priority.go\<close>: the per-rule priority and scope tables, the rank used for
  sorting, and \<open>AssignPriority\<close>, which fills in the four operational fields of a finding with
  its escalations for critical infrastructure, for an add-on upgrade that is only recommended
  and for a global blocker.
\<close>

section \<open>Tables\<close>

datatype Priority = PriorityP1 | PriorityP2 | PriorityP3 | PriorityP4

fun priority_string :: "Priority \<Rightarrow> string" where
  "priority_string PriorityP1 = ''P1''"
| "priority_string PriorityP2 = ''P2''"
| "priority_string PriorityP3 = ''P3''"
| "priority_string PriorityP4 = ''P4''"

fun priorityReasons :: "Priority \<Rightarrow> string" where
  "priorityReasons PriorityP1 =
     ''May block kubectl apply/patch/scale, Helm upgrades, and controller reconciliation.''"
| "priorityReasons PriorityP2 =
     ''Resource or behavior may fail after the target Kubernetes upgrade.''"
| "priorityReasons PriorityP3 =
     ''Node drain may fail during maintenance or a managed node group upgrade.''"
| "priorityReasons PriorityP4 =
     ''Upgrade should not begin while workloads, nodes, or critical add-ons are unhealthy.''"

definition priorityByRuleID :: "(string \<times> Priority) list" where
  "priorityByRuleID =
     [(''API-001'', PriorityP2), (''EKS-INSIGHT-001'', PriorityP2), (''CRD-001'', PriorityP2),
      (''CRD-002'', PriorityP2), (''APISERVICE-001'', PriorityP2), (''NET-002'', PriorityP2),
      (''NODE-002'', PriorityP2),
      (''API-002'', PriorityP4), (''NODE-003'', PriorityP3),
      (''PDB-001'', PriorityP3), (''PDB-002'', PriorityP3), (''NODE-001'', PriorityP3),
      (''EKS-NG-002'', PriorityP3), (''DRAIN-001'', PriorityP3), (''DRAIN-002'', PriorityP3),
      (''DRAIN-003'', PriorityP3), (''DRAIN-004'', PriorityP3), (''DRAIN-005'', PriorityP3),
      (''WH-001'', PriorityP4), (''WH-002'', PriorityP4), (''WH-004'', PriorityP4),
      (''WH-005'', PriorityP4), (''WORKLOAD-001'', PriorityP4), (''ADDON-001'', PriorityP2),
      (''ADDON-002'', PriorityP3), (''COREDNS-001'', PriorityP4), (''EKS-NG-001'', PriorityP4),
      (''EKS-NG-003'', PriorityP4), (''EKS-NG-004'', PriorityP4),
      (''EKS-INSIGHT-002'', PriorityP4), (''EKS-INSIGHT-003'', PriorityP4)]"

definition affectedScopeByRuleID :: "(string \<times> string) list" where
  "affectedScopeByRuleID =
     [(''EKS-INSIGHT-001'', ''global''), (''EKS-INSIGHT-002'', ''global''),
      (''EKS-INSIGHT-003'', ''global''), (''NET-002'', ''global''),
      (''API-001'', ''workload''), (''API-002'', ''workload''), (''CRD-001'', ''workload''),
      (''CRD-002'', ''workload''), (''APISERVICE-001'', ''workload''), (''PDB-001'', ''workload''),
      (''PDB-002'', ''workload''), (''WH-001'', ''workload''), (''WH-002'', ''workload''),
      (''WH-004'', ''workload''), (''WH-005'', ''workload''), (''WORKLOAD-001'', ''workload''),
      (''DRAIN-001'', ''workload''), (''DRAIN-002'', ''workload''), (''DRAIN-003'', ''workload''),
      (''DRAIN-005'', ''workload''),
      (''NODE-001'', ''node''), (''NODE-003'', ''workload''), (''NODE-002'', ''node''),
      (''DRAIN-004'', ''node''), (''EKS-NG-001'', ''node''), (''EKS-NG-002'', ''node''),
      (''EKS-NG-003'', ''node''), (''EKS-NG-004'', ''node''),
      (''ADDON-001'', ''addon''), (''ADDON-002'', ''addon''), (''COREDNS-001'', ''addon'')]"

definition HasExplicitPriorityMapping :: "string \<Rightarrow> bool" where
  "HasExplicitPriorityMapping ruleID \<longleftrightarrow> map_of priorityByRuleID ruleID \<noteq> None"

section \<open>Rank\<close>

definition priorityRank :: "string \<Rightarrow> nat" where
  "priorityRank p =
     (if p = ''P1'' then 0 else if p = ''P2'' then 1 else if p = ''P3'' then 2
      else if p = ''P4'' then 3 else 4)"

section \<open>Assignment\<close>

definition addon002UpgradeRecommended :: "Finding \<Rightarrow> bool" where
  "addon002UpgradeRecommended f \<longleftrightarrow>
     list_ex (\<lambda>e. e = ''compatibility status: upgrade recommended'') (f_Evidence f)"

text \<open>The priority and scope, before they are written to the finding.\<close>

definition priority_and_scope :: "Finding \<Rightarrow> Priority \<times> string" where
  "priority_and_scope f =
     (let p0 = (case map_of priorityByRuleID (f_RuleID f) of Some p \<Rightarrow> p | None \<Rightarrow> PriorityP4);
          s0 = (case map_of affectedScopeByRuleID (f_RuleID f) of Some s \<Rightarrow> s | None \<Rightarrow> '''');
          (p1, s1) =
            (if f_CriticalInfra f \<and> f_RuleID f \<noteq> ''NODE-003''
                \<and> priorityRank (priority_string p0) > priorityRank (priority_string PriorityP2)
             then (PriorityP2, ''cluster'') else (p0, s0));
          (p2, s2) =
            (if f_RuleID f = ''ADDON-002'' \<and> addon002UpgradeRecommended f
             then (PriorityP4, ''addon'') else (p1, s1))
      in if f_GlobalBlocker f then (PriorityP1, ''global'') else (p2, s2))"

definition AssignPriority :: "Finding \<Rightarrow> Finding" where
  "AssignPriority f =
     (let (priority, scope) = priority_and_scope f;
          gate = (if f_UpgradeGate f = GateUnset then EffectiveUpgradeGate f else f_UpgradeGate f)
      in f\<lparr>f_Priority := priority_string priority,
           f_PriorityReason := priorityReasons priority,
           f_AffectedScope := scope,
           f_UpgradeGate := gate,
           f_CanUpgradeContinue := (gate = UpgradeGateAllow \<and> priority \<noteq> PriorityP1)\<rparr>)"

section \<open>Lemmas\<close>

lemma AssignPriority_eq:
  "AssignPriority f = f
     \<lparr>f_Priority := priority_string (fst (priority_and_scope f)),
      f_PriorityReason := priorityReasons (fst (priority_and_scope f)),
      f_AffectedScope := snd (priority_and_scope f),
      f_UpgradeGate := EffectiveUpgradeGate f,
      f_CanUpgradeContinue := (EffectiveUpgradeGate f = UpgradeGateAllow
        \<and> fst (priority_and_scope f) \<noteq> PriorityP1)\<rparr>"
  by (auto simp: AssignPriority_def EffectiveUpgradeGate_def Let_def split: prod.split)

lemma AssignPriority_keeps [simp]:
  "f_RuleID (AssignPriority f) = f_RuleID f"
  "f_Severity (AssignPriority f) = f_Severity f"
  "f_Confidence (AssignPriority f) = f_Confidence f"
  "f_Resources (AssignPriority f) = f_Resources f"
  "f_Evidence (AssignPriority f) = f_Evidence f"
  "f_ImpactScopes (AssignPriority f) = f_ImpactScopes f"
  "f_GlobalBlocker (AssignPriority f) = f_GlobalBlocker f"
  "f_CriticalInfra (AssignPriority f) = f_CriticalInfra f"
  "f_Fingerprint (AssignPriority f) = f_Fingerprint f"
  "f_RemediationDetail (AssignPriority f) = f_RemediationDetail f"
  by (simp_all add: AssignPriority_def Let_def split: prod.split)

lemma AssignPriority_gate [simp, gate_simps]:
  "f_UpgradeGate (AssignPriority f) = EffectiveUpgradeGate f"
  by (simp add: AssignPriority_def EffectiveUpgradeGate_def Let_def split: prod.split)

lemma AssignPriority_effective [simp, gate_simps]:
  "EffectiveUpgradeGate (AssignPriority f) = EffectiveUpgradeGate f"
  by (simp add: EffectiveUpgradeGate_def [of "AssignPriority f"])

lemma AssignPriority_priority [simp]:
  "f_Priority (AssignPriority f) = priority_string (fst (priority_and_scope f))"
  "f_AffectedScope (AssignPriority f) = snd (priority_and_scope f)"
  by (simp_all add: AssignPriority_def Let_def split: prod.split)

lemma priority_and_scope_assign [simp]:
  "priority_and_scope (AssignPriority f) = priority_and_scope f"
  by (simp add: priority_and_scope_def addon002UpgradeRecommended_def)

lemma AssignPriority_continue [simp]:
  "f_CanUpgradeContinue (AssignPriority f) \<longleftrightarrow>
     EffectiveUpgradeGate f = UpgradeGateAllow \<and> fst (priority_and_scope f) \<noteq> PriorityP1"
  by (simp add: AssignPriority_def EffectiveUpgradeGate_def Let_def split: prod.split)

lemma priority_string_eq [simp]: "priority_string p = priority_string q \<longleftrightarrow> p = q"
  by (cases p; cases q) simp_all

lemma priority_string_nonempty [simp]: "priority_string p \<noteq> ''''"
  by (cases p) simp_all

lemma priority_string_P1 [simp]: "priority_string p = ''P1'' \<longleftrightarrow> p = PriorityP1"
  by (cases p) simp_all

lemma P1_not_in_table: "map_of priorityByRuleID r \<noteq> Some PriorityP1"
  by (simp add: priorityByRuleID_def)

lemma priority_P1_iff: "fst (priority_and_scope f) = PriorityP1 \<longleftrightarrow> f_GlobalBlocker f"
  using P1_not_in_table [of "f_RuleID f"]
  by (auto simp: priority_and_scope_def Let_def split: option.splits if_splits)

section \<open>Properties\<close>

text \<open>
  \<open>AssignPriority\<close> is idempotent: a finding that has been through it (and through JSON, as
  the comparison reads it back) is not changed by assigning again, so the gate that the first
  call wrote down is the gate every later reader sees.
\<close>

theorem AssignPriority_idem: "AssignPriority (AssignPriority f) = AssignPriority f"
proof -
  have "AssignPriority (AssignPriority f) = (AssignPriority f)
      \<lparr>f_Priority := priority_string (fst (priority_and_scope f)),
       f_PriorityReason := priorityReasons (fst (priority_and_scope f)),
       f_AffectedScope := snd (priority_and_scope f),
       f_UpgradeGate := EffectiveUpgradeGate f,
       f_CanUpgradeContinue := (EffectiveUpgradeGate f = UpgradeGateAllow
         \<and> fst (priority_and_scope f) \<noteq> PriorityP1)\<rparr>"
    by (subst AssignPriority_eq) simp
  then show ?thesis by (simp add: AssignPriority_eq [of f])
qed

text \<open>
  Priority P1 and the scope \<open>global\<close> of an escalation are reserved for global blockers: a
  finding is P1 exactly when a rule marked it as a global blocker, and the upgrade may continue
  past a finding exactly when its effective gate allows it and it is no global blocker. So no
  finding that blocks (a blocker by severity without an explicit gate, or by its gate), and
  none that waits for an operator, is ever reported as one that lets the upgrade continue.
\<close>

theorem AssignPriority_P1_continue:
  "(f_Priority (AssignPriority f) = ''P1'' \<longleftrightarrow> f_GlobalBlocker f)
   \<and> (f_CanUpgradeContinue (AssignPriority f) \<longleftrightarrow>
        EffectiveUpgradeGate f = UpgradeGateAllow \<and> \<not> f_GlobalBlocker f)
   \<and> (f_GlobalBlocker f \<longrightarrow> f_AffectedScope (AssignPriority f) = ''global'')"
  by (simp add: priority_P1_iff) (simp add: priority_and_scope_def Let_def)

theorem AssignPriority_P1_continue_witness:
  "f_GlobalBlocker (empty_finding\<lparr>f_RuleID := ''WH-002'', f_GlobalBlocker := True\<rparr>)
   \<and> f_AffectedScope (AssignPriority (empty_finding\<lparr>f_RuleID := ''WH-002'', f_GlobalBlocker := True\<rparr>))
       = ''global''"
  using AssignPriority_P1_continue [of "empty_finding\<lparr>f_RuleID := ''WH-002'', f_GlobalBlocker := True\<rparr>"]
  by simp

text \<open>
  Critical infrastructure is never left below P2, except for the two rules the code exempts:
  NODE-003 keeps its own priority, and an ADDON-002 finding that only recommends an upgrade is
  demoted to P4.
\<close>

theorem AssignPriority_critical_infra:
  assumes "f_CriticalInfra f" and "f_RuleID f \<noteq> ''NODE-003''"
    and "\<not> (f_RuleID f = ''ADDON-002'' \<and> addon002UpgradeRecommended f)"
  shows "priorityRank (f_Priority (AssignPriority f)) \<le> 1"
proof -
  have "priorityRank (priority_string p) \<le> 1 \<or>
      priorityRank (priority_string PriorityP2) < priorityRank (priority_string p)" for p
    by (cases p) (simp_all add: priorityRank_def)
  moreover have "priorityRank (priority_string PriorityP1) \<le> 1"
    and "priorityRank (priority_string PriorityP2) \<le> 1"
    by (simp_all add: priorityRank_def)
  ultimately show ?thesis
    using assms by (auto simp: priority_and_scope_def Let_def split: option.split)
qed

theorem AssignPriority_critical_infra_witness:
  "priorityRank (f_Priority (AssignPriority
     (empty_finding\<lparr>f_RuleID := ''DRAIN-005'', f_CriticalInfra := True\<rparr>))) \<le> 1"
  by (rule AssignPriority_critical_infra) simp_all

end
