(* ===== verification/Versions.thy ===== *)
theory Versions
  imports Prelude
begin

text \<open>
  Kubernetes version strings: the two copies of the major/minor parser (\<open>parseMajorMinor\<close> of
  \<open>internal/findings/report.go\<close>, which trims white space first, and \<open>ParseMajorMinor\<close> of
  \<open>internal/plan/version.go\<close>, which does not), version direction (\<open>CompareMinorVersions\<close>),
  the display path of an upgrade (\<open>UpgradePath\<close>) and the hops of the planner
  (\<open>GenerateHops\<close>).

  Version numbers are \<open>int\<close>: \<open>strconv.Atoi\<close> bounds each parsed number to 64 bits, and
  the model does not follow the wrap-around of a minor number that reaches \<open>2^63 - 1\<close>.
\<close>

section \<open>Parsing\<close>

datatype version_error =
    CannotParse string     \<comment> \<open>\<open>cannot parse major.minor from\<close>\<close>
  | BadMajor string        \<comment> \<open>\<open>parsing major version from\<close>\<close>
  | BadMinor string        \<comment> \<open>\<open>parsing minor version from\<close>\<close>

definition parse_parts :: "string \<Rightarrow> version_error + int \<times> int" where
  "parse_parts v =
     (let parts = SplitN v (CHR ''.'') 3
      in if length parts < 2 then Inl (CannotParse v)
         else case Atoi (parts ! 0) of
                None \<Rightarrow> Inl (BadMajor v)
              | Some major \<Rightarrow>
                  (case Atoi (parts ! 1) of
                     None \<Rightarrow> Inl (BadMinor v)
                   | Some minor \<Rightarrow> Inr (major, minor)))"

definition parseMajorMinor :: "string \<Rightarrow> version_error + int \<times> int" where
  "parseMajorMinor v = parse_parts (TrimPrefix (TrimSpace v) ''v'')"

definition ParseMajorMinor :: "string \<Rightarrow> version_error + int \<times> int" where
  "ParseMajorMinor v = parse_parts (TrimPrefix v ''v'')"

definition show_minor :: "int \<Rightarrow> int \<Rightarrow> string" where
  \<comment> \<open>\<open>fmt.Sprintf("%d.%d", major, minor)\<close>\<close>
  "show_minor major minor = show_int major @ ''.'' @ show_int minor"

definition NormalizeKubernetesVersion :: "string \<Rightarrow> string option" where
  "NormalizeKubernetesVersion v =
     (case parseMajorMinor v of
        Inl _ \<Rightarrow> None
      | Inr (major, minor) \<Rightarrow> Some (show_minor major minor))"

section \<open>Direction\<close>

datatype VersionRelation = VersionUpgrade | VersionSame | VersionDowngrade

datatype compare_error =
    CurrentVersionError version_error
  | TargetVersionError version_error
  | AcrossMajor int int int int

definition CompareMinorVersions :: "string \<Rightarrow> string \<Rightarrow> compare_error + VersionRelation" where
  "CompareMinorVersions current target =
     (case parseMajorMinor current of
        Inl e \<Rightarrow> Inl (CurrentVersionError e)
      | Inr (curMajor, curMinor) \<Rightarrow>
          (case parseMajorMinor target of
             Inl e \<Rightarrow> Inl (TargetVersionError e)
           | Inr (tgtMajor, tgtMinor) \<Rightarrow>
               if curMajor \<noteq> tgtMajor
               then Inl (AcrossMajor curMajor curMinor tgtMajor tgtMinor)
               else if tgtMinor > curMinor then Inr VersionUpgrade
               else if tgtMinor = curMinor then Inr VersionSame
               else Inr VersionDowngrade))"

text \<open>\<open>CompareMinor\<close> of the planner: \<open>-1\<close>, \<open>0\<close> or \<open>1\<close>.\<close>

definition CompareMinor :: "string \<Rightarrow> string \<Rightarrow> compare_error + int" where
  "CompareMinor a b =
     (case ParseMajorMinor a of
        Inl e \<Rightarrow> Inl (CurrentVersionError e)
      | Inr (aMajor, aMinor) \<Rightarrow>
          (case ParseMajorMinor b of
             Inl e \<Rightarrow> Inl (TargetVersionError e)
           | Inr (bMajor, bMinor) \<Rightarrow>
               if aMajor \<noteq> bMajor then Inl (AcrossMajor aMajor aMinor bMajor bMinor)
               else if aMinor < bMinor then Inr (- 1)
               else if aMinor > bMinor then Inr 1
               else Inr 0))"

section \<open>Upgrade paths\<close>

function path_loop :: "int \<Rightarrow> int \<Rightarrow> int \<Rightarrow> string list" where
  "path_loop major minor targetMinor =
     (if minor \<le> targetMinor
      then show_minor major minor # path_loop major (minor + 1) targetMinor else [])"
  by pat_completeness auto
termination
  by (relation "measure (\<lambda>(major, minor, targetMinor). nat (targetMinor + 1 - minor))") auto

declare path_loop.simps [simp del]

definition UpgradePath :: "string \<Rightarrow> string \<Rightarrow> string list \<times> string \<times> bool" where
  "UpgradePath currentVersion targetVersion =
     (case parseMajorMinor currentVersion of
        Inl _ \<Rightarrow> ([], ''current version unknown'', False)
      | Inr (currentMajor, currentMinor) \<Rightarrow>
          (case parseMajorMinor targetVersion of
             Inl _ \<Rightarrow> ([], ''upgrade path unavailable'', False)
           | Inr (targetMajor, targetMinor) \<Rightarrow>
               if currentMajor \<noteq> targetMajor \<or> targetMinor < currentMinor
               then ([], ''upgrade path unavailable'', False)
               else (path_loop currentMajor currentMinor targetMinor,
                     (if targetMinor - currentMinor = 0 then ''same-minor target''
                      else if targetMinor - currentMinor = 1 then ''one-minor upgrade''
                      else ''multi-minor upgrade path''),
                     True)))"

record Hop =
  hop_Index :: int
  hop_From :: string
  hop_To :: string

datatype hop_error =
    FromVersionError version_error
  | ToVersionError version_error
  | PlanAcrossMajor int int int int
  | NothingToPlan int int
  | DowngradeNotSupported int int int int

function hops_loop :: "int \<Rightarrow> int \<Rightarrow> int \<Rightarrow> int \<Rightarrow> Hop list" where
  "hops_loop major i minor toMinor =
     (if minor < toMinor
      then \<lparr>hop_Index = i, hop_From = show_minor major minor, hop_To = show_minor major (minor + 1)\<rparr>
             # hops_loop major (i + 1) (minor + 1) toMinor
      else [])"
  by pat_completeness auto
termination
  by (relation "measure (\<lambda>(major, i, minor, toMinor). nat (toMinor - minor))") auto

declare hops_loop.simps [simp del]

definition GenerateHops :: "string \<Rightarrow> string \<Rightarrow> hop_error + Hop list" where
  "GenerateHops fromVersion toVersion =
     (case ParseMajorMinor fromVersion of
        Inl e \<Rightarrow> Inl (FromVersionError e)
      | Inr (fromMajor, fromMinor) \<Rightarrow>
          (case ParseMajorMinor toVersion of
             Inl e \<Rightarrow> Inl (ToVersionError e)
           | Inr (toMajor, toMinor) \<Rightarrow>
               if fromMajor \<noteq> toMajor
               then Inl (PlanAcrossMajor fromMajor fromMinor toMajor toMinor)
               else if fromMinor = toMinor then Inl (NothingToPlan fromMajor fromMinor)
               else if toMinor < fromMinor
               then Inl (DowngradeNotSupported toMajor toMinor fromMajor fromMinor)
               else Inr (hops_loop fromMajor 1 fromMinor toMinor)))"

section \<open>Printing and parsing\<close>

lemma show_int_cases:
  "show_int i = show_nat (nat i) \<and> 0 \<le> i \<or> show_int i = CHR ''-'' # show_nat (nat (- i)) \<and> i < 0"
  by (auto simp: show_int_def)

lemma show_int_nonempty [simp]: "show_int i \<noteq> []"
  by (auto simp: show_int_def)

lemma show_nat_chars: "c \<in> set (show_nat n) \<Longrightarrow> is_digit c"
  using list_all_digit_show_nat [of n] by (simp add: list_all_iff)

lemma show_int_chars: "c \<in> set (show_int i) \<Longrightarrow> is_digit c \<or> c = CHR ''-''"
  using show_nat_chars by (auto simp: show_int_def split: if_splits)

lemma dot_notin_show_int [simp]: "CHR ''.'' \<notin> set (show_int i)"
  using show_int_chars [of "CHR ''.''" i] by auto

text \<open>No space encoding starts or ends with a digit or a sign, so trimming leaves a printed
  version alone.\<close>

lemma trim_front_noop:
  assumes "\<And>p. p \<in> set ps \<Longrightarrow> p \<noteq> [] \<Longrightarrow> s = [] \<or> hd p \<noteq> hd s"
  shows "trim_front ps s = s"
proof -
  have "find (\<lambda>p. p \<noteq> [] \<and> HasPrefix s p) ps = None"
    using assms by (auto simp: find_None_iff prefix_def) fastforce+
  then show ?thesis by (simp add: trim_front.simps [of ps s])
qed

lemma space_encodings_ends:
  "list_all (\<lambda>p. \<not> is_digit (hd p) \<and> hd p \<noteq> CHR ''-'')
     (space_encodings @ map rev space_encodings)"
  by (simp add: space_encodings_def is_digit_def)

lemma space_encoding_ends:
  assumes "is_digit c \<or> c = CHR ''-''"
    and "p \<in> set (space_encodings @ map rev space_encodings)"
  shows "hd p \<noteq> c"
  using space_encodings_ends [unfolded list_all_iff, rule_format, OF assms(2)] assms(1) by auto

lemma TrimSpace_noop:
  assumes "s \<noteq> []" and "is_digit (hd s) \<or> hd s = CHR ''-''"
    and "is_digit (last s) \<or> last s = CHR ''-''"
  shows "TrimSpace s = s"
proof -
  have "trim_front space_encodings s = s"
    by (rule trim_front_noop) (use space_encoding_ends [OF assms(2)] in simp)
  moreover have "hd (rev s) = last s" using assms(1) by (simp add: hd_rev)
  then have "trim_front (map rev space_encodings) (rev s) = rev s"
    by (intro trim_front_noop) (use space_encoding_ends [OF assms(3)] in simp)
  ultimately show ?thesis by (simp add: TrimSpace_def)
qed

lemma SplitN_at_dot:
  assumes "c \<notin> set a"
  shows "SplitN (a @ c # b) c (Suc (Suc n)) = a # SplitN b c (Suc n)"
proof -
  have "takeWhile (\<lambda>x. x \<noteq> c) (a @ c # b) = a" and "dropWhile (\<lambda>x. x \<noteq> c) (a @ c # b) = c # b"
    using assms by (induction a) auto
  then show ?thesis by simp
qed

lemma SplitN_no_dot: "c \<notin> set a \<Longrightarrow> SplitN a c (Suc n) = [a]"
  by (cases n) auto

lemma hd_last_show_minor:
  "hd (show_minor a b) = hd (show_int a)" "last (show_minor a b) = last (show_int b)"
  by (simp_all add: show_minor_def)

lemma parse_parts_show_minor:
  assumes "- (2 ^ 63) \<le> a" "a < 2 ^ 63" "- (2 ^ 63) \<le> b" "b < 2 ^ 63"
  shows "parse_parts (show_minor a b) = Inr (a, b)"
proof -
  have "SplitN (show_minor a b) (CHR ''.'') (Suc (Suc (Suc 0))) = [show_int a, show_int b]"
    by (simp add: show_minor_def SplitN_at_dot SplitN_no_dot del: SplitN.simps)
  then show ?thesis
    using assms by (simp add: parse_parts_def Atoi_show_int numeral_3_eq_3 del: SplitN.simps)
qed

lemma TrimPrefix_v_show_minor: "TrimPrefix (show_minor a b) ''v'' = show_minor a b"
proof -
  have "hd (show_int a) \<noteq> CHR ''v''"
    using show_int_chars [of "hd (show_int a)" a] by auto
  then have "\<not> HasPrefix (show_minor a b) ''v''"
    by (metis hd_last_show_minor(1) list.sel(1) prefix_Cons prefix_def append_Cons list.simps(3))
  then show ?thesis by (simp add: TrimPrefix_def)
qed

lemma ParseMajorMinor_show_minor:
  assumes "- (2 ^ 63) \<le> a" "a < 2 ^ 63" "- (2 ^ 63) \<le> b" "b < 2 ^ 63"
  shows "ParseMajorMinor (show_minor a b) = Inr (a, b)"
  using parse_parts_show_minor [OF assms] by (simp add: ParseMajorMinor_def TrimPrefix_v_show_minor)

lemma parseMajorMinor_show_minor:
  assumes "- (2 ^ 63) \<le> a" "a < 2 ^ 63" "- (2 ^ 63) \<le> b" "b < 2 ^ 63"
  shows "parseMajorMinor (show_minor a b) = Inr (a, b)"
proof -
  have "TrimSpace (show_minor a b) = show_minor a b"
    using show_int_chars [of "hd (show_int a)" a] show_int_chars [of "last (show_int b)" b]
    by (intro TrimSpace_noop) (auto simp: hd_last_show_minor show_minor_def)
  with parse_parts_show_minor [OF assms] show ?thesis
    by (simp add: parseMajorMinor_def TrimPrefix_v_show_minor)
qed

lemma parse_parts_bounds:
  assumes "parse_parts v = Inr (a, b)"
  shows "- (2 ^ 63) \<le> a \<and> a < 2 ^ 63 \<and> - (2 ^ 63) \<le> b \<and> b < 2 ^ 63"
  using assms Atoi_bounds
  by (auto simp: parse_parts_def Let_def simp del: SplitN.simps split: if_splits option.splits)

lemmas version_bounds =
  parse_parts_bounds [of "TrimPrefix (TrimSpace v) ''v''" for v, folded parseMajorMinor_def]
  parse_parts_bounds [of "TrimPrefix v ''v''" for v, folded ParseMajorMinor_def]

section \<open>Properties\<close>

text \<open>
  Normalising a Kubernetes version is idempotent: the \<open>major.minor\<close> string that
  \<open>NormalizeKubernetesVersion\<close> returns parses again and normalises to itself, whatever prefix,
  white space, patch or build suffix the input carried.
\<close>

theorem NormalizeKubernetesVersion_idem:
  assumes "NormalizeKubernetesVersion v = Some w"
  shows "NormalizeKubernetesVersion w = Some w"
proof -
  obtain a b where ab: "parseMajorMinor v = Inr (a, b)" and w: "w = show_minor a b"
    using assms by (auto simp: NormalizeKubernetesVersion_def split: sum.splits)
  from version_bounds(1) [OF ab] have "parseMajorMinor w = Inr (a, b)"
    unfolding w by (intro parseMajorMinor_show_minor) auto
  then show ?thesis by (simp add: NormalizeKubernetesVersion_def w)
qed

theorem NormalizeKubernetesVersion_idem_witness:
  "NormalizeKubernetesVersion ''1.29'' = Some ''1.29''"
proof -
  have "NormalizeKubernetesVersion '' v1.29.6-eks-1234567'' = Some ''1.29''"
    by code_simp
  then show ?thesis by (rule NormalizeKubernetesVersion_idem)
qed

lemma length_hops_loop: "length (hops_loop M i a b) = nat (b - a)"
proof (induction M i a b rule: hops_loop.induct)
  case (1 M i a b)
  then show ?case by (simp add: hops_loop.simps [of M i a b] Suc_nat_eq_nat_zadd1)
qed

lemma nth_hops_loop:
  "k < nat (b - a) \<Longrightarrow> hops_loop M i a b ! k =
     \<lparr>hop_Index = i + int k, hop_From = show_minor M (a + int k),
      hop_To = show_minor M (a + int k + 1)\<rparr>"
proof (induction M i a b arbitrary: k rule: hops_loop.induct)
  case (1 M i a b)
  then show ?case
    by (cases k) (auto simp: hops_loop.simps [of M i a b] algebra_simps)
qed

lemma GenerateHops_cases:
  assumes "GenerateHops f t = Inr hops"
  obtains M a b where "ParseMajorMinor f = Inr (M, a)" "ParseMajorMinor t = Inr (M, b)"
    "a < b" "hops = hops_loop M 1 a b"
  using assms by (auto simp: GenerateHops_def split: sum.splits prod.splits if_splits)

text \<open>
  The hops of the planner form a chain: consecutive hops meet, the indices count from 1,
  the chain leads from the normalised start version to the normalised target version, and
  every single hop is, for the version comparison that scan and plan share, an upgrade whose
  two ends are one minor version apart.
\<close>

theorem GenerateHops_chain:
  assumes "GenerateHops f t = Inr hops"
  shows "hops \<noteq> []
    \<and> (\<exists>M a b. ParseMajorMinor f = Inr (M, a) \<and> ParseMajorMinor t = Inr (M, b)
         \<and> int (length hops) = b - a
         \<and> hop_From (hd hops) = show_minor M a \<and> hop_To (last hops) = show_minor M b)
    \<and> (\<forall>k. Suc k < length hops \<longrightarrow> hop_From (hops ! Suc k) = hop_To (hops ! k))
    \<and> (\<forall>k < length hops. hop_Index (hops ! k) = int k + 1
         \<and> CompareMinorVersions (hop_From (hops ! k)) (hop_To (hops ! k)) = Inr VersionUpgrade)"
proof -
  obtain M a b where P: "ParseMajorMinor f = Inr (M, a)" "ParseMajorMinor t = Inr (M, b)"
    and ab: "a < b" and hops: "hops = hops_loop M 1 a b"
    using GenerateHops_cases [OF assms] .
  have len: "length hops = nat (b - a)" by (simp add: hops length_hops_loop)
  have ne: "hops \<noteq> []" using len ab by auto
  have nth: "hops ! k = \<lparr>hop_Index = 1 + int k, hop_From = show_minor M (a + int k),
      hop_To = show_minor M (a + int k + 1)\<rparr>" if "k < length hops" for k
    using that by (simp add: hops length_hops_loop nth_hops_loop)
  have last: "last hops = hops ! (nat (b - a) - 1)" using ne len by (simp add: last_conv_nth)
  have bounds: "- (2 ^ 63) \<le> M" "M < 2 ^ 63" "- (2 ^ 63) \<le> a" "b < 2 ^ 63"
    using version_bounds(2) [OF P(1)] version_bounds(2) [OF P(2)] by auto
  have up: "CompareMinorVersions (show_minor M (a + int k)) (show_minor M (a + int k + 1))
      = Inr VersionUpgrade" if "k < length hops" for k
  proof -
    have "parseMajorMinor (show_minor M (a + int k)) = Inr (M, a + int k)"
      and "parseMajorMinor (show_minor M (a + int k + 1)) = Inr (M, a + int k + 1)"
      using that bounds ab by (auto simp: len intro!: parseMajorMinor_show_minor)
    then show ?thesis by (simp add: CompareMinorVersions_def)
  qed
  have "\<exists>M' a' b'. ParseMajorMinor f = Inr (M', a') \<and> ParseMajorMinor t = Inr (M', b')
         \<and> int (length hops) = b' - a'
         \<and> hop_From (hd hops) = show_minor M' a' \<and> hop_To (last hops) = show_minor M' b'"
    using P ab ne nth [of 0] nth [of "nat (b - a) - 1"] last
    by (simp add: len hd_conv_nth)
  moreover have "hop_From (hops ! Suc k) = hop_To (hops ! k)" if "Suc k < length hops" for k
    using that nth [of k] nth [of "Suc k"] by (simp add: ac_simps)
  moreover have "hop_Index (hops ! k) = int k + 1
      \<and> CompareMinorVersions (hop_From (hops ! k)) (hop_To (hops ! k)) = Inr VersionUpgrade"
    if "k < length hops" for k
    using nth [OF that] up [OF that] by simp
  ultimately show ?thesis using ne by blast
qed

theorem GenerateHops_chain_witness:
  "GenerateHops ''v1.29.3'' ''1.31'' = Inr
      [\<lparr>hop_Index = 1, hop_From = ''1.29'', hop_To = ''1.30''\<rparr>,
       \<lparr>hop_Index = 2, hop_From = ''1.30'', hop_To = ''1.31''\<rparr>]
   \<and> CompareMinorVersions ''1.30'' ''1.31'' = Inr VersionUpgrade"
proof -
  let ?hops = "[\<lparr>hop_Index = 1, hop_From = ''1.29'', hop_To = ''1.30''\<rparr>,
       \<lparr>hop_Index = 2, hop_From = ''1.30'', hop_To = ''1.31''\<rparr>]"
  have h: "GenerateHops ''v1.29.3'' ''1.31'' = Inr ?hops" by code_simp
  have "\<forall>k < length ?hops. hop_Index (?hops ! k) = int k + 1
     \<and> CompareMinorVersions (hop_From (?hops ! k)) (hop_To (?hops ! k)) = Inr VersionUpgrade"
    using GenerateHops_chain [OF h] by blast
  from spec [OF this, of "Suc 0"] h show ?thesis by simp
qed

end
