(* ===== verification/Report.thy ===== *)
theory Report
  imports Priority Versions
begin

text \<open>
  The findings report of \<open>internal/findings/report.go\<close> and the namespace filter of
  \<open>internal/findings/filter.go\<close>: coverage, rule-execution records, the severity summary, the
  API compatibility scorecard, the upgrade readiness scorecard, the verdict and its exit code,
  and the construction of a report (\<open>NewReport\<close>, \<open>SetCoverage\<close>).

  Counters are \<open>nat\<close> (the code only increments them), scores \<open>int\<close>. A \<open>time.Time\<close> is the
  number of nanoseconds since Go's zero time, so \<open>IsZero\<close> is \<open>= 0\<close>.
\<close>

section \<open>Data\<close>

type_synonym time = int

datatype CoverageStatus = CoverageComplete | CoveragePartial | CoverageSkipped | CoverageOther string

fun coverage_string :: "CoverageStatus \<Rightarrow> string" where
  "coverage_string CoverageComplete = ''complete''"
| "coverage_string CoveragePartial = ''partial''"
| "coverage_string CoverageSkipped = ''skipped''"
| "coverage_string (CoverageOther s) = s"

record PlaneCoverage =
  pc_Status :: CoverageStatus
  pc_Errors :: "string list"

record ScanCoverage =
  sc_Kubernetes :: PlaneCoverage
  sc_AWS :: PlaneCoverage
  sc_Manifests :: PlaneCoverage

datatype RuleApplicability =
  ApplicabilityApplicable | ApplicabilityNotApplicable | ApplicabilityOther string

datatype RuleExecutionState =
    ExecutionEvaluated | ExecutionNotEvaluated | ExecutionInsufficientEvidence | ExecutionFailed
  | ExecutionOther string

record RuleExecutionRecord =
  ex_RuleID :: string
  ex_Applicability :: RuleApplicability
  ex_State :: RuleExecutionState
  ex_Reason :: string

record Summary =
  sum_Blockers :: nat
  sum_Warnings :: nat
  sum_Infos :: nat
  sum_OperatorDecisions :: nat

record APICompatibilityItem =
  item_APIVersion :: string
  item_Kind :: string
  item_Count :: nat
  item_Resources :: "string list"

record APICompatibilitySummary =
  api_Status :: string
  api_UpgradeContinue :: bool
  api_RemovedObjects :: nat
  api_DeprecatedObjects :: nat
  api_RemovedFamilies :: "APICompatibilityItem list"
  api_DeprecatedFamilies :: "APICompatibilityItem list"
  api_CriticalImpact :: bool
  api_ScoreImpact :: int

record UpgradeReadinessCategory =
  cat_Name :: string
  cat_Status :: string
  cat_BlockerCount :: nat
  cat_WarningCount :: nat
  cat_RuleIDs :: "string list"

record UpgradeReadinessSummary =
  ur_Verdict :: string
  ur_UpgradeContinue :: bool
  ur_ReadinessScore :: int
  ur_Categories :: "UpgradeReadinessCategory list"

record EKSAddonInfo =
  addon_Name :: string
  addon_CurrentVersion :: string
  addon_CompatibleVersions :: "string list"
  addon_Compatible :: bool
  addon_VerificationUnavailable :: bool

record EKSNodegroupHealthIssue =
  hi_Code :: string
  hi_Message :: string
  hi_ResourceIDs :: "string list"

text \<open>The sizes of a node group are optional 32 bit integers that the program only displays.\<close>

record EKSNodegroupInfo =
  ng_Name :: string
  ng_Status :: string
  ng_Version :: string
  ng_ReleaseVersion :: string
  ng_AMIType :: string
  ng_CapacityType :: string
  ng_DesiredSize :: "int option"
  ng_MinSize :: "int option"
  ng_MaxSize :: "int option"
  ng_MaxUnavailable :: "int option"
  ng_MaxUnavailablePercentage :: "int option"
  ng_LaunchTemplate :: bool
  ng_HealthIssues :: "EKSNodegroupHealthIssue list"
  ng_AutoScalingGroups :: "string list"
  ng_ReadinessStatus :: string
  ng_Notes :: "string list"

record EKSClusterInfo =
  ekc_ClusterName :: string
  ekc_Region :: string
  ekc_Version :: string
  ekc_PlatformVersion :: string
  ekc_Status :: string
  ekc_SupportType :: string
  ekc_EndpointAccess :: string
  ekc_ARN :: string

record EKSUpgradeInsightInfo =
  eki_ID :: string
  eki_Name :: string
  eki_Category :: string
  eki_Status :: string
  eki_KubernetesVersion :: string
  eki_LastRefreshTime :: string
  eki_LastTransitionTime :: string
  eki_Description :: string
  eki_Recommendation :: string
  eki_AdditionalInfo :: "(string \<times> string) list"
  eki_DeprecationDetails :: "string list"
  eki_AddonCompatibility :: "string list"

record Report =
  r_SchemaVersion :: string
  r_CurrentVersion :: string
  r_TargetVersion :: string
  r_ClusterContext :: string
  r_Provider :: string
  r_UpgradeContext :: UpgradeContext
  r_ScannedAt :: time
  r_Assumptions :: "string list"
  r_NamespaceAllowlist :: "string list"
  r_Findings :: "Finding list"
  r_Summary :: Summary
  r_Coverage :: ScanCoverage
  r_EKSCluster :: "EKSClusterInfo option"
  r_EKSAddons :: "EKSAddonInfo list"
  r_EKSNodegroups :: "EKSNodegroupInfo list"
  r_EKSUpgradeInsights :: "EKSUpgradeInsightInfo list"
  r_APICompatibility :: "APICompatibilitySummary option"
  r_UpgradeReadiness :: "UpgradeReadinessSummary option"
  r_RuleExecutions :: "RuleExecutionRecord list"
  r_RuleExecutionsNormalized :: bool

definition SchemaVersion :: string where
  "SchemaVersion = ''1.1''"

definition CrossPlaneManifestAssumption :: string where
  "CrossPlaneManifestAssumption =
     ''Cross-plane matches assume supplied manifests target this cluster.''"

section \<open>Verdict\<close>

definition IsComplete :: "Report \<Rightarrow> bool" where
  "IsComplete r \<longleftrightarrow>
     \<not> (pc_Status (sc_Kubernetes (r_Coverage r)) = CoveragePartial
        \<or> pc_Status (sc_AWS (r_Coverage r)) = CoveragePartial
        \<or> pc_Status (sc_Manifests (r_Coverage r)) = CoveragePartial)
     \<and> (r_RuleExecutionsNormalized r
        \<or> \<not> list_ex (\<lambda>rec. ex_Applicability rec = ApplicabilityApplicable
                              \<and> ex_State rec \<noteq> ExecutionEvaluated) (r_RuleExecutions r))"

definition resultAndExitCode :: "Report \<Rightarrow> string \<times> int" where
  "resultAndExitCode r =
     (if \<not> IsComplete r then (''INCOMPLETE'', 3)
      else if sum_Blockers (r_Summary r) > 0 then (''BLOCKED'', 2)
      else if sum_Warnings (r_Summary r) > 0 \<or> sum_OperatorDecisions (r_Summary r) > 0
      then (''PASSED_WITH_WARNINGS'', 1)
      else (''CLEAN'', 0))"

definition Result :: "Report \<Rightarrow> string" where
  "Result r = fst (resultAndExitCode r)"

definition ExitCode :: "Report \<Rightarrow> int" where
  "ExitCode r = snd (resultAndExitCode r)"

definition UpgradeApplicable :: "Report \<Rightarrow> bool" where
  "UpgradeApplicable r =
     (if r_CurrentVersion r = '''' then True
      else case CompareMinorVersions (r_CurrentVersion r) (r_TargetVersion r) of
             Inl _ \<Rightarrow> True
           | Inr relation \<Rightarrow> relation \<noteq> VersionSame)"

section \<open>The API compatibility scorecard\<close>

definition api_version_prefix :: string where
  "api_version_prefix = ''apiVersion: ''"

text \<open>\<open>apiCompatibilityFamily\<close>: the API version of the first evidence line that states one,
  and the kind of the first resource.\<close>

definition apiCompatibilityFamily :: "Finding \<Rightarrow> string \<times> string" where
  "apiCompatibilityFamily f =
     ((case find (\<lambda>e. HasPrefix e api_version_prefix) (f_Evidence f) of
         Some e \<Rightarrow> TrimSpace (TrimPrefix e api_version_prefix)
       | None \<Rightarrow> ''''),
      (case f_Resources f of [] \<Rightarrow> '''' | ref # _ \<Rightarrow> ref_Kind ref))"

definition resource_label :: "ResourceReference \<Rightarrow> string" where
  "resource_label ref =
     (if ref_Namespace ref \<noteq> ''''
      then ref_Kind ref @ ''/'' @ ref_Namespace ref @ ''/'' @ ref_Name ref
      else ref_Kind ref @ ''/'' @ ref_Name ref)"

text \<open>
  The two maps from a family key to its item are association lists with one entry per key, in
  the order the keys were first seen. Go iterates over a map in an unspecified order; the only
  iteration (\<open>sortedAPICompatibilityFamilies\<close>) sorts what it collects.
\<close>

definition family_key :: "string \<times> string \<Rightarrow> string" where
  "family_key fam = fst fam @ [CHR 0x00] @ snd fam"

definition family_item_add ::
  "Finding \<Rightarrow> APICompatibilityItem \<Rightarrow> APICompatibilityItem" where
  "family_item_add f item =
     item\<lparr>item_Count := Suc (item_Count item),
          item_Resources :=
            append_all_unique (item_Resources item) (map resource_label (f_Resources f))\<rparr>"

fun addAPICompatibilityFamily ::
  "(string \<times> APICompatibilityItem) list \<Rightarrow> string \<times> string \<Rightarrow> Finding
     \<Rightarrow> (string \<times> APICompatibilityItem) list" where
  "addAPICompatibilityFamily [] fam f =
     [(family_key fam,
       family_item_add f \<lparr>item_APIVersion = fst fam, item_Kind = snd fam,
         item_Count = 0, item_Resources = []\<rparr>)]"
| "addAPICompatibilityFamily ((k, item) # rest) fam f =
     (if k = family_key fam then (k, family_item_add f item) # rest
      else (k, item) # addAPICompatibilityFamily rest fam f)"

definition family_less :: "APICompatibilityItem \<Rightarrow> APICompatibilityItem \<Rightarrow> bool" where
  "family_less x y =
     (if item_APIVersion x \<noteq> item_APIVersion y then item_APIVersion x < item_APIVersion y
      else item_Kind x < item_Kind y)"

definition sortedAPICompatibilityFamilies ::
  "(string \<times> APICompatibilityItem) list \<Rightarrow> APICompatibilityItem list" where
  "sortedAPICompatibilityFamilies families =
     sort_by family_less
       (map (\<lambda>(k, item). item\<lparr>item_Resources := sort_strings (item_Resources item)\<rparr>) families)"

definition apiCompatibilityCriticalImpact :: "Finding \<Rightarrow> bool" where
  "apiCompatibilityCriticalImpact f \<longleftrightarrow>
     f_GlobalBlocker f \<or> f_CriticalInfra f
     \<or> list_ex (\<lambda>ref. ref_Scope ref = ScopeCluster) (f_Resources f)"

definition apiCompatibilityScoreImpact :: "APICompatibilitySummary \<Rightarrow> int" where
  "apiCompatibilityScoreImpact s =
     (let removed = int (length (api_RemovedFamilies s));
          i1 = (if removed > 0 then - 25 - (if removed > 1 then (removed - 1) * 10 else 0) else 0);
          i2 = (if api_CriticalImpact s then i1 - 15 else i1);
          i3 = i2 - int (length (api_DeprecatedFamilies s)) * 5
      in if i3 < - 60 then - 60 else i3)"

type_synonym family_map = "(string \<times> APICompatibilityItem) list"

definition api_step ::
  "APICompatibilitySummary \<times> family_map \<times> family_map \<Rightarrow> Finding
     \<Rightarrow> APICompatibilitySummary \<times> family_map \<times> family_map" where
  "api_step st f =
     (case st of (s, removed, deprecated) \<Rightarrow>
       (if f_RuleID f \<noteq> ''API-001'' \<and> f_RuleID f \<noteq> ''API-002'' then st
        else
          let fam = apiCompatibilityFamily f
          in if fst fam = '''' \<and> snd fam = '''' then st
             else if f_RuleID f = ''API-001'' \<and> f_Severity f = SeverityBlocker
             then (s\<lparr>api_RemovedObjects := Suc (api_RemovedObjects s),
                     api_UpgradeContinue := False,
                     api_Status := ''Failed'',
                     api_CriticalImpact :=
                       (api_CriticalImpact s \<or> apiCompatibilityCriticalImpact f)\<rparr>,
                   addAPICompatibilityFamily removed fam f, deprecated)
             else if f_RuleID f = ''API-002'' \<or> f_Severity f = SeverityWarning
             then (s\<lparr>api_DeprecatedObjects := Suc (api_DeprecatedObjects s),
                     api_Status :=
                       (if api_Status s = ''Passed'' then ''Warning'' else api_Status s)\<rparr>,
                   removed, addAPICompatibilityFamily deprecated fam f)
             else st))"

definition BuildAPICompatibilitySummary :: "Finding list \<Rightarrow> APICompatibilitySummary" where
  "BuildAPICompatibilitySummary fs =
     (let init = \<lparr>api_Status = ''Passed'', api_UpgradeContinue = True, api_RemovedObjects = 0,
            api_DeprecatedObjects = 0, api_RemovedFamilies = [], api_DeprecatedFamilies = [],
            api_CriticalImpact = False, api_ScoreImpact = 0\<rparr>;
          (s, removed, deprecated) = foldl api_step (init, [], []) fs;
          s' = s\<lparr>api_RemovedFamilies := sortedAPICompatibilityFamilies removed,
                 api_DeprecatedFamilies := sortedAPICompatibilityFamilies deprecated\<rparr>
      in s'\<lparr>api_ScoreImpact := apiCompatibilityScoreImpact s'\<rparr>)"

section \<open>The upgrade readiness scorecard\<close>

definition categoryOrder :: "string list" where
  "categoryOrder =
     [''API Compatibility'', ''Extension APIs'', ''Admission Webhooks'', ''Disruption Safety'',
      ''Drain Readiness'', ''Node Readiness'', ''Add-ons'', ''CoreDNS'', ''Workload Health'',
      ''EKS Upgrade Insights'']"

definition categoryByRuleID :: "(string \<times> string) list" where
  "categoryByRuleID =
     [(''API-001'', ''API Compatibility''), (''API-002'', ''API Compatibility''),
      (''CRD-001'', ''Extension APIs''), (''CRD-002'', ''Extension APIs''),
      (''APISERVICE-001'', ''Extension APIs''),
      (''WH-001'', ''Admission Webhooks''), (''WH-002'', ''Admission Webhooks''),
      (''WH-004'', ''Admission Webhooks''), (''WH-005'', ''Admission Webhooks''),
      (''PDB-001'', ''Disruption Safety''), (''PDB-002'', ''Disruption Safety''),
      (''DRAIN-001'', ''Drain Readiness''), (''DRAIN-002'', ''Drain Readiness''),
      (''DRAIN-003'', ''Drain Readiness''), (''DRAIN-004'', ''Drain Readiness''),
      (''DRAIN-005'', ''Drain Readiness''),
      (''NODE-001'', ''Node Readiness''), (''NODE-002'', ''Node Readiness''),
      (''NODE-003'', ''Node Readiness''), (''NET-002'', ''Node Readiness''),
      (''EKS-NG-001'', ''Node Readiness''), (''EKS-NG-002'', ''Node Readiness''),
      (''EKS-NG-003'', ''Node Readiness''), (''EKS-NG-004'', ''Node Readiness''),
      (''ADDON-001'', ''Add-ons''), (''ADDON-002'', ''Add-ons''), (''COREDNS-001'', ''CoreDNS''),
      (''WORKLOAD-001'', ''Workload Health''),
      (''EKS-INSIGHT-001'', ''EKS Upgrade Insights''),
      (''EKS-INSIGHT-002'', ''EKS Upgrade Insights''),
      (''EKS-INSIGHT-003'', ''EKS Upgrade Insights'')]"

definition HasExplicitCategoryMapping :: "string \<Rightarrow> bool" where
  "HasExplicitCategoryMapping ruleID \<longleftrightarrow> map_of categoryByRuleID ruleID \<noteq> None"

definition empty_category :: "string \<Rightarrow> UpgradeReadinessCategory" where
  "empty_category name = \<lparr>cat_Name = name, cat_Status = ''Passed'', cat_BlockerCount = 0,
     cat_WarningCount = 0, cat_RuleIDs = []\<rparr>"

definition category_warn :: "UpgradeReadinessCategory \<Rightarrow> UpgradeReadinessCategory" where
  "category_warn cat =
     cat\<lparr>cat_WarningCount := Suc (cat_WarningCount cat),
         cat_Status := (if cat_Status cat \<noteq> ''Failed'' then ''Warning'' else cat_Status cat)\<rparr>"

definition category_add :: "Finding \<Rightarrow> UpgradeReadinessCategory \<Rightarrow> UpgradeReadinessCategory" where
  "category_add f cat0 =
     (let cat = cat0\<lparr>cat_RuleIDs := append_unique (cat_RuleIDs cat0) (f_RuleID f)\<rparr>
      in case EffectiveUpgradeGate f of
           UpgradeGateBlock \<Rightarrow>
             cat\<lparr>cat_BlockerCount := Suc (cat_BlockerCount cat), cat_Status := ''Failed''\<rparr>
         | UpgradeGateOperatorDecision \<Rightarrow> category_warn cat
         | _ \<Rightarrow> if f_Severity f = SeverityWarning then category_warn cat else cat)"

text \<open>
  The map from names to categories is a function. The code reads \<open>byCategory[name]\<close> only for
  names in \<open>categoryByRuleID\<close>, all of which \<open>categoryOrder\<close> has put in the map
  (\<open>categories_known\<close> below), so the pointer is never nil.
\<close>

definition category_step ::
  "(string \<Rightarrow> UpgradeReadinessCategory) \<Rightarrow> Finding \<Rightarrow> (string \<Rightarrow> UpgradeReadinessCategory)" where
  "category_step byCategory f =
     (case map_of categoryByRuleID (f_RuleID f) of
        None \<Rightarrow> byCategory
      | Some name \<Rightarrow> byCategory(name := category_add f (byCategory name)))"

definition upgradeReadinessCategoryPenalty :: "UpgradeReadinessCategory \<Rightarrow> int" where
  "upgradeReadinessCategoryPenalty cat =
     (if cat_Status cat = ''Failed''
      then (let penalty = 15 + 3 * (int (cat_BlockerCount cat) - 1)
            in if penalty > 25 then 25 else penalty)
      else if cat_Status cat = ''Warning''
      then (let penalty = 5 + (int (cat_WarningCount cat) - 1)
            in if penalty > 10 then 10 else penalty)
      else 0)"

definition upgradeReadinessAnyBlocker :: "UpgradeReadinessCategory list \<Rightarrow> bool" where
  "upgradeReadinessAnyBlocker cats = list_ex (\<lambda>cat. cat_BlockerCount cat > 0) cats"

definition upgradeReadinessAnyOperatorDecision :: "Finding list \<Rightarrow> bool" where
  "upgradeReadinessAnyOperatorDecision fs =
     list_ex (\<lambda>f. EffectiveUpgradeGate f = UpgradeGateOperatorDecision) fs"

definition readiness_categories :: "Finding list \<Rightarrow> UpgradeReadinessCategory list" where
  "readiness_categories fs =
     (let byCategory = foldl category_step empty_category fs
      in map (\<lambda>name. (byCategory name)
                \<lparr>cat_RuleIDs := sort_strings (cat_RuleIDs (byCategory name))\<rparr>) categoryOrder)"

definition readiness_score :: "UpgradeReadinessCategory list \<Rightarrow> int" where
  "readiness_score cats =
     (let score = foldl (\<lambda>s cat. s - upgradeReadinessCategoryPenalty cat) 100 cats
      in if score < 0 then 0 else score)"

definition BuildUpgradeReadinessSummary ::
  "Finding list \<Rightarrow> string \<Rightarrow> UpgradeReadinessSummary" where
  "BuildUpgradeReadinessSummary fs verdict =
     (let categories = readiness_categories fs
      in \<lparr>ur_Verdict = verdict,
          ur_UpgradeContinue =
            (verdict \<noteq> ''INCOMPLETE'' \<and> \<not> upgradeReadinessAnyBlocker categories
             \<and> \<not> upgradeReadinessAnyOperatorDecision fs),
          ur_ReadinessScore = readiness_score categories,
          ur_Categories = categories\<rparr>)"

section \<open>Building a report\<close>

definition concept_keys_on :: "Plane \<Rightarrow> ResourceReference list \<Rightarrow> string list" where
  "concept_keys_on plane refs =
     List.map_filter ConceptKey (filter (\<lambda>ref. ref_Plane ref = plane) refs)"

definition hasCrossPlaneMatch :: "ResourceReference list \<Rightarrow> bool" where
  "hasCrossPlaneMatch refs =
     list_ex (\<lambda>k. k \<in> set (concept_keys_on PlaneLive refs)) (concept_keys_on PlaneManifest refs)"

definition summary_step :: "Summary \<Rightarrow> Finding \<Rightarrow> Summary" where
  "summary_step s f =
     (let s1 = (case EffectiveUpgradeGate f of
                  UpgradeGateBlock \<Rightarrow> s\<lparr>sum_Blockers := Suc (sum_Blockers s)\<rparr>
                | UpgradeGateOperatorDecision \<Rightarrow>
                    s\<lparr>sum_OperatorDecisions := Suc (sum_OperatorDecisions s)\<rparr>
                | _ \<Rightarrow> s)
      in case f_Severity f of
           SeverityWarning \<Rightarrow> s1\<lparr>sum_Warnings := Suc (sum_Warnings s1)\<rparr>
         | SeverityInfo \<Rightarrow> s1\<lparr>sum_Infos := Suc (sum_Infos s1)\<rparr>
         | SeverityBlocker \<Rightarrow>
             if EffectiveUpgradeGate f \<noteq> UpgradeGateBlock
             then s1\<lparr>sum_Warnings := Suc (sum_Warnings s1)\<rparr> else s1
         | SeverityOther _ \<Rightarrow> s1)"

definition build_summary :: "Finding list \<Rightarrow> Summary" where
  "build_summary fs =
     foldl summary_step
       \<lparr>sum_Blockers = 0, sum_Warnings = 0, sum_Infos = 0, sum_OperatorDecisions = 0\<rparr> fs"

definition plane_coverage :: "CoverageStatus \<Rightarrow> PlaneCoverage" where
  "plane_coverage s = \<lparr>pc_Status = s, pc_Errors = []\<rparr>"

definition NewReportWithUpgradeContext ::
  "string \<Rightarrow> string \<Rightarrow> string \<Rightarrow> UpgradeContext \<Rightarrow> time \<Rightarrow> Finding list \<Rightarrow> Report" where
  "NewReportWithUpgradeContext targetVersion clusterContext provider upgradeContext scannedAt fs0 =
     (let fs = map AssignPriority fs0;
          r = \<lparr>r_SchemaVersion = SchemaVersion, r_CurrentVersion = '''',
               r_TargetVersion = targetVersion, r_ClusterContext = clusterContext,
               r_Provider = provider, r_UpgradeContext = upgradeContext,
               r_ScannedAt = scannedAt,
               r_Assumptions =
                 (if list_ex (\<lambda>f. hasCrossPlaneMatch (f_Resources f)) fs
                  then [CrossPlaneManifestAssumption] else []),
               r_NamespaceAllowlist = [], r_Findings = fs, r_Summary = build_summary fs,
               r_Coverage = \<lparr>sc_Kubernetes = plane_coverage CoverageComplete,
                             sc_AWS = plane_coverage CoverageSkipped,
                             sc_Manifests = plane_coverage CoverageSkipped\<rparr>,
               r_EKSCluster = None, r_EKSAddons = [], r_EKSNodegroups = [],
               r_EKSUpgradeInsights = [],
               r_APICompatibility = Some (BuildAPICompatibilitySummary fs),
               r_UpgradeReadiness = None, r_RuleExecutions = [],
               r_RuleExecutionsNormalized = False\<rparr>
      in r\<lparr>r_UpgradeReadiness := Some (BuildUpgradeReadinessSummary fs (Result r))\<rparr>)"

definition NewReport :: "string \<Rightarrow> string \<Rightarrow> string \<Rightarrow> time \<Rightarrow> Finding list \<Rightarrow> Report" where
  "NewReport targetVersion clusterContext provider scannedAt fs =
     NewReportWithUpgradeContext targetVersion clusterContext provider ContextUnspecified
       scannedAt fs"

definition SetCoverage :: "ScanCoverage \<Rightarrow> Report \<Rightarrow> Report" where
  "SetCoverage c r0 =
     (let r = r0\<lparr>r_Coverage := c\<rparr>
      in r\<lparr>r_UpgradeReadiness := Some (BuildUpgradeReadinessSummary (r_Findings r) (Result r))\<rparr>)"

section \<open>The namespace allowlist\<close>

definition namespace_included :: "string list \<Rightarrow> Finding \<Rightarrow> bool" where
  "namespace_included namespaces f \<longleftrightarrow>
     list_all (\<lambda>ref. ref_Scope ref = ScopeNamespaced
                \<longrightarrow> ref_Namespace ref \<noteq> '''' \<and> ref_Namespace ref \<in> set namespaces) (f_Resources f)"

definition FilterByNamespaceAllowlist :: "Finding list \<Rightarrow> string list \<Rightarrow> Finding list" where
  "FilterByNamespaceAllowlist fs namespaces =
     (if namespaces = [] then fs else filter (namespace_included namespaces) fs)"

end
