(* ===== verification/GoTime.thy ===== *)
theory GoTime
  imports Prelude
begin

text \<open>
  What the program uses of Go's package \<open>time\<close>. An instant is the number of nanoseconds since
  Go's zero time (1 January of year 1, 00:00 UTC), so \<open>IsZero\<close> is \<open>= 0\<close>; the instants the
  program prints are in UTC (it converts them, or the AWS SDK delivers them so). A \<open>Duration\<close>
  is a number of nanoseconds in 64 bits: \<open>Sub\<close> saturates at its bounds.
\<close>

section \<open>Durations\<close>

definition Second :: int where "Second = 1000000000"
definition Minute :: int where "Minute = 60 * Second"
definition Hour :: int where "Hour = 60 * Minute"

definition maxDuration :: int where "maxDuration = 2 ^ 63 - 1"
definition minDuration :: int where "minDuration = - (2 ^ 63)"

definition time_Sub :: "int \<Rightarrow> int \<Rightarrow> int" where
  "time_Sub t u = max minDuration (min maxDuration (t - u))"

text \<open>
  \<open>int(d.Minutes())\<close>: the quotient, rounded towards zero. (\<open>Minutes\<close> is a \<open>float64\<close>; it
  rounds up to the next integer only within nanoseconds of it and above 180 days.)
\<close>

definition whole_minutes :: "int \<Rightarrow> int" where
  "whole_minutes d = (if d \<ge> 0 then d div Minute else - ((- d) div Minute))"

text \<open>\<open>d.Round(time.Second)\<close>: to the nearest second, halves away from zero, saturating.\<close>

definition round_second :: "int \<Rightarrow> int" where
  "round_second d =
     (if d \<ge> 0
      then let r = d mod Second
           in if r + r < Second then d - r
              else if d + (Second - r) > maxDuration then maxDuration else d + (Second - r)
      else let r = (- d) mod Second
           in if r + r < Second then d + r
              else if d - (Second - r) < minDuration then minDuration else d - (Second - r))"

text \<open>
  \<open>Duration.String\<close> of a whole number of seconds, at least one hour, as the freshness gate
  prints it, and of the saturated maximum.
\<close>

definition hours_string :: "int \<Rightarrow> string" where
  "hours_string d =
     (if d = maxDuration then ''2562047h47m16.854775807s''
      else show_int (d div Hour) @ ''h'' @ show_int (d mod Hour div Minute) @ ''m''
           @ show_int (d mod Minute div Second) @ ''s'')"

section \<open>The calendar\<close>

text \<open>
  The civil date of a day counted from 1 January of year 1 in the proleptic Gregorian calendar:
  days are counted from a 1 March, so that the leap day ends a year of the count.
\<close>

definition civil_date :: "int \<Rightarrow> int \<times> int \<times> int" where
  "civil_date day =
     (let z = day + 306;
          doe = z mod 146097;
          yoe = (doe - doe div 1460 + doe div 36524 - doe div 146096) div 365;
          doy = doe - (365 * yoe + yoe div 4 - yoe div 100);
          mp = (5 * doy + 2) div 153;
          d = doy - (153 * mp + 2) div 5 + 1;
          m = (if mp < 10 then mp + 3 else mp - 9);
          y = yoe + z div 146097 * 400 + (if m \<le> 2 then 1 else 0)
      in (y, m, d))"

definition pad2 :: "int \<Rightarrow> string" where
  "pad2 n = (if n < 10 then ''0'' else '''') @ show_int n"

definition pad_year :: "int \<Rightarrow> string" where
  "pad_year y =
     (if y < 0 then ''-'' else '''')
     @ (let s = show_int \<bar>y\<bar> in replicate (4 - length s) (CHR ''0'') @ s)"

text \<open>\<open>t.Format(time.RFC3339)\<close> of an instant in UTC.\<close>

definition format_rfc3339 :: "int \<Rightarrow> string" where
  "format_rfc3339 t =
     (let (y, m, d) = civil_date (t div (24 * Hour));
          s = t mod (24 * Hour)
      in pad_year y @ ''-'' @ pad2 m @ ''-'' @ pad2 d @ ''T''
         @ pad2 (s div Hour) @ '':'' @ pad2 (s mod Hour div Minute) @ '':''
         @ pad2 (s mod Minute div Second) @ ''Z'')"

section \<open>Facts\<close>

lemmas duration_defs = Second_def Minute_def Hour_def maxDuration_def minDuration_def

lemma time_Sub_bounds: "minDuration \<le> time_Sub t u" "time_Sub t u \<le> maxDuration"
  by (simp_all add: time_Sub_def duration_defs)

lemma time_Sub_exact: "\<bar>t - u\<bar> \<le> maxDuration \<Longrightarrow> time_Sub t u = t - u"
  by (simp add: time_Sub_def duration_defs)

text \<open>A comparison with a bound inside the range of \<open>Duration\<close> is not affected by saturation.\<close>

lemma time_Sub_less_iff: "minDuration \<le> d \<Longrightarrow> d < maxDuration \<Longrightarrow> d < time_Sub t u \<longleftrightarrow> d < t - u"
  by (auto simp: time_Sub_def)

lemma whole_minutes_nonneg: "0 \<le> d \<Longrightarrow> 0 \<le> whole_minutes d"
  by (simp add: whole_minutes_def duration_defs)

text \<open>
  The calendar against known days: 1 January 1970 is day 719162, and 29 February 2024 is followed
  by 1 March.
\<close>

lemma civil_date_epoch: "civil_date 719162 = (1970, 1, 1)"
  by code_simp

lemma civil_date_leap: "civil_date 738944 = (2024, 2, 29)" "civil_date 738945 = (2024, 3, 1)"
  by code_simp+

lemma format_rfc3339_example: "format_rfc3339 (63919699200 * Second) = ''2026-07-15T08:00:00Z''"
  by code_simp

end
