(* ===== verification/Cluster.thy ===== *)
theory Cluster
  imports Report GoTime
begin

text \<open>
  The evidence a scan works on: the snapshots of the Kubernetes, AWS and manifest collectors
  (\<open>internal/collectors/k8s\<close>, \<open>aws\<close>, \<open>manifest\<close>) and the \<open>ScanContext\<close> of
  \<open>internal/rules/rule.go\<close> that bundles them. A Kubernetes API object is a record of the fields
  the modelled code reads, with string-typed enumerations of the API kept as strings. A nil
  pointer is \<open>None\<close>; a map is an association list (a Go map has no order: the code modelled here
  only looks keys up, or asks something of all of them); a map of errors goes from the failed
  operation to the error's text. Machine integers of the API (\<open>int32\<close> counts, ports) are
  \<open>int\<close>: nothing modelled does arithmetic on them that could leave their range.
\<close>

section \<open>Kubernetes\<close>

type_synonym labels = "(string \<times> string) list"

definition label_value :: "labels \<Rightarrow> string \<Rightarrow> string" where
  \<comment> \<open>\<open>m[k]\<close> of a map of strings: the empty string for an absent key\<close>
  "label_value m k = (case map_of m k of Some v \<Rightarrow> v | None \<Rightarrow> '''')"

datatype IntOrString = IntVal int | StrVal string

record LabelSelectorRequirement =
  lsr_Key :: string
  lsr_Operator :: string
  lsr_Values :: "string list"

record LabelSelector =
  ls_MatchLabels :: labels
  ls_MatchExpressions :: "LabelSelectorRequirement list"

record OwnerReference =
  own_Kind :: string
  own_Name :: string

record ObjectMeta =
  om_Namespace :: string
  om_Name :: string
  om_UID :: string

record Condition =
  cond_Type :: string
  cond_Status :: string

subsection \<open>Pod specifications\<close>

record NodeSelectorRequirement =
  nsr_Key :: string
  nsr_Operator :: string
  nsr_Values :: "string list"

record NodeSelectorTerm =
  nst_MatchExpressions :: "NodeSelectorRequirement list"
  nst_MatchFields :: "NodeSelectorRequirement list"

record NodeAffinity =
  na_Required :: "NodeSelectorTerm list option"
    \<comment> \<open>\<open>RequiredDuringSchedulingIgnoredDuringExecution.NodeSelectorTerms\<close>\<close>
  na_Preferred :: "NodeSelectorTerm list"
    \<comment> \<open>the \<open>Preference\<close> of each \<open>PreferredDuringSchedulingIgnoredDuringExecution\<close>\<close>

record Affinity =
  af_NodeAffinity :: "NodeAffinity option"
  af_PodAntiAffinity :: "string list option"
    \<comment> \<open>the \<open>TopologyKey\<close> of each required term\<close>

record TopologySpreadConstraint =
  tsc_TopologyKey :: string
  tsc_WhenUnsatisfiable :: string

record Toleration =
  tol_Key :: string
  tol_Operator :: string
  tol_Value :: string
  tol_Effect :: string

record Taint =
  taint_Key :: string
  taint_Value :: string
  taint_Effect :: string

record Container =
  ct_HostPorts :: "int list" \<comment> \<open>\<open>HostPort\<close> of each port; 0 is unset\<close>
  ct_RequestCPU :: "int option" \<comment> \<open>\<open>Requests[cpu].MilliValue()\<close>, where the key is present\<close>
  ct_RequestMemory :: "int option" \<comment> \<open>\<open>Requests[memory].Value()\<close>, where the key is present\<close>

record Volume =
  vol_Name :: string
  vol_HostPath :: "string option"
  vol_PVC :: "string option" \<comment> \<open>the claim's name\<close>

record PodSpec =
  ps_NodeName :: string
  ps_NodeSelector :: labels
  ps_Affinity :: "Affinity option"
  ps_Tolerations :: "Toleration list"
  ps_TopologySpreadConstraints :: "TopologySpreadConstraint list"
  ps_Containers :: "Container list"
  ps_Volumes :: "Volume list"

subsection \<open>Pods, nodes, budgets\<close>

record ContainerStateTerminated =
  term_Reason :: string
  term_ExitCode :: int

record ContainerStatus =
  cs_Name :: string
  cs_Ready :: bool
  cs_RestartCount :: int
  cs_Waiting :: "string option" \<comment> \<open>\<open>State.Waiting.Reason\<close>\<close>
  cs_Terminated :: "ContainerStateTerminated option"

record Pod =
  pod_Namespace :: string
  pod_Name :: string
  pod_UID :: string
  pod_Labels :: labels
  pod_OwnerReferences :: "OwnerReference list"
  pod_DeletionTimestamp :: "time option"
  pod_CreationTimestamp :: time
  pod_Spec :: PodSpec
  pod_Phase :: string
  pod_Reason :: string
  pod_Conditions :: "Condition list"
  pod_InitContainerStatuses :: "ContainerStatus list"
  pod_ContainerStatuses :: "ContainerStatus list"

record Node =
  node_Name :: string
  node_UID :: string
  node_Labels :: labels
  node_Taints :: "Taint list"
  node_Unschedulable :: bool
  node_Conditions :: "Condition list"
  node_KubeletVersion :: string
  node_AllocatableCPU :: int \<comment> \<open>\<open>Allocatable.Cpu().MilliValue()\<close>\<close>
  node_AllocatableMemory :: int \<comment> \<open>\<open>Allocatable.Memory().Value()\<close>\<close>

record PodDisruptionBudget =
  pdb_Namespace :: string
  pdb_Name :: string
  pdb_UID :: string
  pdb_Generation :: int
  pdb_Selector :: "LabelSelector option"
  pdb_MinAvailable :: "IntOrString option"
  pdb_MaxUnavailable :: "IntOrString option"
  pdb_UnhealthyPodEvictionPolicy :: "string option"
  pdb_DisruptionsAllowed :: int
  pdb_CurrentHealthy :: int
  pdb_DesiredHealthy :: int
  pdb_ExpectedPods :: int
  pdb_ObservedGeneration :: int

subsection \<open>Webhooks, services, custom resources\<close>

record ServiceReference =
  svcref_Namespace :: string
  svcref_Name :: string
  svcref_Port :: "int option"

record WebhookClientConfig =
  wcc_Service :: "ServiceReference option"
  wcc_URL :: "string option"
  wcc_CABundle :: string

record RuleWithOperations =
  rwo_Operations :: "string list"
  rwo_APIGroups :: "string list"
  rwo_Resources :: "string list"

record Webhook =
  wh_Name :: string
  wh_ClientConfig :: WebhookClientConfig
  wh_Rules :: "RuleWithOperations list"
  wh_FailurePolicy :: "string option"
  wh_NamespaceSelector :: "LabelSelector option"
  wh_ObjectSelector :: "LabelSelector option"
  wh_MatchConditions :: "string list" \<comment> \<open>their names; the code only counts them\<close>
  wh_TimeoutSeconds :: "int option"

record WebhookConfiguration =
  whc_Name :: string
  whc_UID :: string
  whc_Webhooks :: "Webhook list"

record K8sService =
  svc_Namespace :: string
  svc_Name :: string

record Endpoint =
  ep_Ready :: "bool option"
  ep_Addresses :: "string list"

record EndpointSlice =
  eps_Namespace :: string
  eps_Labels :: labels
  eps_Endpoints :: "Endpoint list"

record WebhookConversion =
  wconv_ClientConfig :: "WebhookClientConfig option"
  wconv_ConversionReviewVersions :: "string list"

record CustomResourceConversion =
  conv_Strategy :: string
  conv_Webhook :: "WebhookConversion option"

record CustomResourceDefinitionVersion =
  crdv_Name :: string
  crdv_Served :: bool
  crdv_Storage :: bool

record CustomResourceDefinition =
  crd_Name :: string
  crd_UID :: string
  crd_Versions :: "CustomResourceDefinitionVersion list"
  crd_StoredVersions :: "string list"
  crd_Conversion :: "CustomResourceConversion option"

record ConfigMap =
  cm_Namespace :: string
  cm_Name :: string
  cm_UID :: string
  cm_Data :: labels

record APIServiceAvailability =
  apisvc_Name :: string
  apisvc_UID :: string
  apisvc_Reason :: string
  apisvc_Message :: string

subsection \<open>Workloads and storage\<close>

text \<open>
  A \<open>Deployment\<close> or a \<open>StatefulSet\<close>: the fields of either the rules read, a field the
  kind does not have being empty.
\<close>

record Workload =
  wl_Namespace :: string
  wl_Name :: string
  wl_UID :: string
  wl_Labels :: labels
  wl_DeletionTimestamp :: "time option"
  wl_Replicas :: "int option"
  wl_Selector :: "LabelSelector option"
  wl_PodSpec :: PodSpec \<comment> \<open>\<open>Spec.Template.Spec\<close>\<close>
  wl_Images :: "string list" \<comment> \<open>\<open>Image\<close> of each container of the template\<close>
  wl_Strategy :: string \<comment> \<open>\<open>Strategy.Type\<close>, of a StatefulSet \<open>UpdateStrategy.Type\<close>\<close>
  wl_PodManagementPolicy :: string
  wl_Partition :: "int option" \<comment> \<open>\<open>UpdateStrategy.RollingUpdate.Partition\<close>\<close>
  wl_VolumeClaimTemplates :: "string list" \<comment> \<open>their names\<close>
  wl_ReadyReplicas :: int
  wl_AvailableReplicas :: int
  wl_CurrentReplicas :: int
  wl_UpdatedReplicas :: int
  wl_CurrentRevision :: string
  wl_UpdateRevision :: string

record DaemonSet =
  dset_Namespace :: string
  dset_Name :: string
  dset_UID :: string
  dset_Labels :: labels
  dset_DeletionTimestamp :: "time option"
  dset_PodSpec :: PodSpec
  dset_Images :: "string list"
  dset_Strategy :: string
  dset_MaxUnavailable :: "IntOrString option"
  dset_DesiredNumberScheduled :: int
  dset_NumberReady :: int
  dset_NumberAvailable :: int
  dset_NumberUnavailable :: int

record PersistentVolumeClaim =
  pvc_Namespace :: string
  pvc_Name :: string
  pvc_VolumeName :: string

record PersistentVolume =
  pv_Name :: string
  pv_Local :: bool \<comment> \<open>\<open>Spec.Local != nil\<close>\<close>
  pv_NodeAffinity :: "NodeSelectorTerm list option option"
    \<comment> \<open>\<open>Spec.NodeAffinity\<close>, and in it \<open>Required.NodeSelectorTerms\<close>\<close>

subsection \<open>Objects at deprecated API versions\<close>

record DeprecatedAPI =
  dep_Group :: string
  dep_Version :: string
  dep_Resource :: string
  dep_Kind :: string
  dep_Namespaced :: bool
  dep_RemovedInVersion :: string
  dep_Replacement :: string
  dep_ReplacementAPIVersion :: string

record LiveDeprecatedAPIObject = DeprecatedAPI +
  ldo_Namespace :: string
  ldo_Name :: string
  ldo_UID :: string
  ldo_AutoManaged :: bool

type_synonym errors = "(string \<times> string) list"

record K8sSnapshot =
  k_Nodes :: "Node list"
  k_Pods :: "Pod list"
  k_PodDisruptionBudgets :: "PodDisruptionBudget list"
  k_ValidatingWebhookConfigs :: "WebhookConfiguration list"
  k_MutatingWebhookConfigs :: "WebhookConfiguration list"
  k_Services :: "K8sService list"
  k_EndpointSlices :: "EndpointSlice list"
  k_CustomResourceDefinitions :: "CustomResourceDefinition list"
  k_Deployments :: "Workload list"
  k_DaemonSets :: "DaemonSet list"
  k_StatefulSets :: "Workload list"
  k_PersistentVolumes :: "PersistentVolume list"
  k_PersistentVolumeClaims :: "PersistentVolumeClaim list"
  k_DeprecatedAPIUsage :: "LiveDeprecatedAPIObject list"
  k_UnavailableAPIServices :: "APIServiceAvailability list"
  k_CoreDNSConfigMap :: "ConfigMap option"
  k_Errors :: errors

definition empty_snapshot :: K8sSnapshot where
  "empty_snapshot = \<lparr>k_Nodes = [], k_Pods = [], k_PodDisruptionBudgets = [],
     k_ValidatingWebhookConfigs = [], k_MutatingWebhookConfigs = [], k_Services = [],
     k_EndpointSlices = [], k_CustomResourceDefinitions = [], k_Deployments = [],
     k_DaemonSets = [], k_StatefulSets = [], k_PersistentVolumes = [],
     k_PersistentVolumeClaims = [], k_DeprecatedAPIUsage = [], k_UnavailableAPIServices = [],
     k_CoreDNSConfigMap = None, k_Errors = []\<rparr>"

section \<open>AWS\<close>

record NetworkPreflightIssue =
  npi_Kind :: string
  npi_ID :: string

record AwsInsightRecord =
  ins_ClusterName :: string
  ins_ID :: string
  ins_Name :: string
  ins_Category :: string
  ins_KubernetesVersion :: string
  ins_Status :: string
  ins_Reason :: string
  ins_Description :: string
  ins_Recommendation :: string
  ins_LastRefreshTime :: time
  ins_LastTransitionTime :: time
  ins_AdditionalInfo :: labels
  ins_DeprecationDetails :: "string list"
  ins_AddonCompatibility :: "string list"

record AddonRecord =
  ad_ClusterName :: string
  ad_Name :: string
  ad_CurrentVersion :: string
  ad_CompatibleVersions :: "string list"

record NodegroupHealth =
  nh_Code :: string
  nh_Message :: string
  nh_ResourceIDs :: "string list"

record NodegroupRecord =
  nr_ClusterName :: string
  nr_Name :: string
  nr_Status :: string
  nr_Version :: string
  nr_ReleaseVersion :: string
  nr_AMIType :: string
  nr_CapacityType :: string
  nr_DesiredSize :: "int option"
  nr_MinSize :: "int option"
  nr_MaxSize :: "int option"
  nr_MaxUnavailable :: "int option"
  nr_MaxUnavailablePercentage :: "int option"
  nr_LaunchTemplate :: bool
  nr_HealthIssues :: "NodegroupHealth list"
  nr_AutoScalingGroups :: "string list"
  nr_ReadinessStatus :: string
  nr_Notes :: "string list"

record SubnetRecord =
  subnet_ID :: string
  subnet_AvailableIPAddressCount :: int

record AWSSnapshot =
  aws_ClusterVersion :: string
  aws_VpcID :: string
  aws_EndpointAccess :: string
  aws_Region :: string
  aws_PlatformVersion :: string
  aws_Status :: string
  aws_SupportType :: string
  aws_ARN :: string
  aws_Insights :: "AwsInsightRecord list"
  aws_Addons :: "AddonRecord list"
  aws_Nodegroups :: "NodegroupRecord list"
  aws_Subnets :: "SubnetRecord list"
  aws_NetworkPreflightIssues :: "NetworkPreflightIssue list"
  aws_Errors :: errors

definition empty_aws :: AWSSnapshot where
  "empty_aws = \<lparr>aws_ClusterVersion = '''', aws_VpcID = '''', aws_EndpointAccess = '''', aws_Region = '''',
     aws_PlatformVersion = '''', aws_Status = '''', aws_SupportType = '''', aws_ARN = '''',
     aws_Insights = [], aws_Addons = [], aws_Nodegroups = [], aws_Subnets = [],
     aws_NetworkPreflightIssues = [], aws_Errors = []\<rparr>"

section \<open>Manifests\<close>

text \<open>
  A decoded YAML or JSON value (\<open>interface{}\<close>). An object is an association list; numbers are
  the integers the modelled code reads.
\<close>

datatype json = JNull | JBool bool | JNum int | JStr string | JList "json list"
  | JObj "(string \<times> json) list"

record ManifestDeprecatedAPIObject = DeprecatedAPI +
  mdo_Namespace :: string
  mdo_Name :: string
  mdo_SourcePath :: string

record WorkloadObject =
  wo_Kind :: string
  wo_Namespace :: string
  wo_Name :: string
  wo_SourcePath :: string
  wo_Labels :: labels
  wo_PodSpec :: "(string \<times> json) list"
  wo_PodSpecPath :: string
  wo_Replicas :: "int option"

record ManifestSnapshot =
  m_DeprecatedAPIUsage :: "ManifestDeprecatedAPIObject list"
  m_Workloads :: "WorkloadObject list"
  m_Errors :: errors

definition empty_manifests :: ManifestSnapshot where
  "empty_manifests = \<lparr>m_DeprecatedAPIUsage = [], m_Workloads = [], m_Errors = []\<rparr>"

section \<open>The scan context\<close>

record ScanContext =
  sc_K8s :: "K8sSnapshot option"
  sc_AWSSnapshot :: "AWSSnapshot option"
  sc_ManifestSnapshot :: "ManifestSnapshot option"
  sc_UpgradeContext :: UpgradeContext
  sc_KubernetesRequested :: bool
  sc_AWSRequested :: bool
  sc_ManifestsRequested :: bool

definition serviceExists :: "K8sSnapshot \<Rightarrow> string \<Rightarrow> string \<Rightarrow> bool" where
  "serviceExists snap namespace name =
     list_ex (\<lambda>s. svc_Namespace s = namespace \<and> svc_Name s = name) (k_Services snap)"

definition isSingletonReplicaCount :: "int option \<Rightarrow> bool" where
  "isSingletonReplicaCount replicas \<longleftrightarrow> replicas = None \<or> replicas = Some 1"

lemma empty_snapshot_simps [simp]:
  "k_Errors empty_snapshot = []" "k_Nodes empty_snapshot = []" "k_Pods empty_snapshot = []"
  "k_Deployments empty_snapshot = []" "k_StatefulSets empty_snapshot = []"
  by (simp_all add: empty_snapshot_def)

lemma empty_aws_simps [simp]:
  "aws_ClusterVersion empty_aws = ''''" "aws_Insights empty_aws = []" "aws_Addons empty_aws = []"
  "aws_Nodegroups empty_aws = []" "aws_Subnets empty_aws = []"
  "aws_NetworkPreflightIssues empty_aws = []" "aws_Errors empty_aws = []"
  by (simp_all add: empty_aws_def)

lemma empty_manifests_simps [simp]:
  "m_DeprecatedAPIUsage empty_manifests = []" "m_Workloads empty_manifests = []"
  "m_Errors empty_manifests = []"
  by (simp_all add: empty_manifests_def)

end
