(* ===== verification/V1Compat.thy ===== *)
theory V1Compat
  imports Prelude
begin

text \<open>
  The frozen v1 contract of \<open>internal/v1compat/contract.go\<close>: the commands and flags, the rule
  identifiers and their default priorities, the schema versions, the exit codes, the wire values,
  and the check that compares an implementation's actual values with them.

  An issue is the two values its message quotes. \<open>Check\<close> sorts the issues by message, which
  only affects the order they are printed in, and the sort is left out; a map is an association
  list with distinct keys, so that the loops over maps visit its entries in the list's order.
\<close>

section \<open>The contract's data\<close>

record Flag =
  flag_Name :: string
  flag_Default :: string
  flag_Required :: bool

record Command =
  cmd_Path :: string
  cmd_Aliases :: "string list"
  cmd_Flags :: "Flag list"

definition StableScanSchemaVersion :: string where
  "StableScanSchemaVersion = ''1.1''"

definition StableComparisonSchemaVersion :: string where
  "StableComparisonSchemaVersion = ''kubepreflight.io/scan-comparison/v1''"

definition StableActionPlanSchemaVersion :: string where
  "StableActionPlanSchemaVersion = ''kubepreflight.io/upgrade-action-plan/v1''"

definition RollbackSchemaVersion :: string where
  "RollbackSchemaVersion = ''kubepreflight.io/rollback-assessment/v1alpha1''"

definition flag :: "string \<Rightarrow> string \<Rightarrow> bool \<Rightarrow> Flag" where
  "flag name dflt req = \<lparr>flag_Name = name, flag_Default = dflt, flag_Required = req\<rparr>"

definition command :: "string \<Rightarrow> Flag list \<Rightarrow> Command" where
  "command path flags = \<lparr>cmd_Path = path, cmd_Aliases = [], cmd_Flags = flags\<rparr>"

definition compareFlags :: "Flag list" where
  "compareFlags =
     [flag ''baseline'' '''' True, flag ''current'' '''' True,
      flag ''fail-on-new-blockers'' ''true'' False,
      flag ''fail-on-verdict-regression'' ''true'' False, flag ''gate-out'' '''' False,
      flag ''json-out'' '''' False, flag ''markdown-out'' '''' False,
      flag ''minimum-score-delta'' ''0'' False,
      flag ''redact-sensitive-identifiers'' ''false'' False,
      flag ''warning-policy'' ''ignore'' False]"

definition planFlags :: "Flag list" where
  "planFlags =
     [flag ''action-plan-md'' '''' False, flag ''action-plan-out'' '''' False,
      flag ''allow-remote-report'' ''false'' False, flag ''cluster-name'' '''' False,
      flag ''collector-concurrency'' ''4'' False, flag ''collector-timeout'' ''30s'' False,
      flag ''context'' '''' False, flag ''findings-out'' ''findings.json'' False,
      flag ''from-version'' ''auto'' False, flag ''helm-chart'' ''[]'' False,
      flag ''kubeconfig'' '''' False, flag ''listen'' ''127.0.0.1:8080'' False,
      flag ''location'' '''' False, flag ''manifests'' ''[]'' False,
      flag ''namespace-allowlist'' ''[]'' False, flag ''open-report'' ''false'' False,
      flag ''output'' ''json'' False, flag ''output-dir'' ''.'' False,
      flag ''project'' '''' False, flag ''provider'' '''' False,
      flag ''redact-sensitive-identifiers'' ''false'' False, flag ''resource-group'' '''' False,
      flag ''serve-report'' ''auto'' False, flag ''subscription-id'' '''' False,
      flag ''terminal-output'' ''full'' False, flag ''to-version'' '''' True,
      flag ''upgrade-context'' ''unspecified'' False]"

definition scanFlags :: "Flag list" where
  "scanFlags =
     [flag ''allow-remote-report'' ''false'' False, flag ''cluster-name'' '''' False,
      flag ''collector-concurrency'' ''4'' False, flag ''collector-timeout'' ''30s'' False,
      flag ''context'' '''' False, flag ''findings-out'' ''findings.json'' False,
      flag ''helm-chart'' ''[]'' False, flag ''kubeconfig'' '''' False,
      flag ''listen'' ''127.0.0.1:8080'' False, flag ''location'' '''' False,
      flag ''manifests'' ''[]'' False, flag ''manifests-only'' ''false'' False,
      flag ''namespace-allowlist'' ''[]'' False, flag ''open-report'' ''false'' False,
      flag ''output'' ''json'' False, flag ''output-dir'' ''.'' False,
      flag ''project'' '''' False, flag ''provider'' '''' False,
      flag ''redact-sensitive-identifiers'' ''false'' False, flag ''resource-group'' '''' False,
      flag ''serve-report'' ''auto'' False, flag ''subscription-id'' '''' False,
      flag ''target-version'' '''' True, flag ''terminal-output'' ''full'' False,
      flag ''upgrade-context'' ''unspecified'' False]"

definition rollbackFlags :: "Flag list" where
  "rollbackFlags =
     [flag ''assessment-out'' ''rollback-assessment.json'' False,
      flag ''cluster-name'' '''' True, flag ''collector-timeout'' ''30s'' False,
      flag ''findings'' '''' False, flag ''output'' ''json'' False,
      flag ''output-dir'' ''.'' False, flag ''provider'' ''eks'' True,
      flag ''redact-sensitive-identifiers'' ''false'' False,
      flag ''terminal-output'' ''full'' False]"

definition ExpectedCommands :: "Command list" where
  "ExpectedCommands =
     [command ''kubepreflight'' [],
      command ''kubepreflight compare'' compareFlags,
      command ''kubepreflight plan'' planFlags,
      command ''kubepreflight rollback'' [],
      command ''kubepreflight rollback assess'' rollbackFlags,
      command ''kubepreflight rollback plan'' rollbackFlags,
      command ''kubepreflight scan'' scanFlags,
      command ''kubepreflight version'' []]"

definition ExpectedRuleIDs :: "string list" where
  "ExpectedRuleIDs =
     [''API-001'', ''API-002'', ''WH-001'', ''WH-002'', ''WH-004'', ''WH-005'', ''DRAIN-001'',
      ''DRAIN-002'', ''DRAIN-003'', ''DRAIN-004'', ''DRAIN-005'', ''PDB-001'', ''PDB-002'',
      ''NODE-001'', ''NODE-002'', ''NODE-003'', ''NET-002'', ''WORKLOAD-001'', ''ADDON-001'',
      ''ADDON-002'', ''EKS-NG-001'', ''EKS-NG-002'', ''EKS-NG-003'', ''EKS-NG-004'',
      ''EKS-INSIGHT-001'', ''EKS-INSIGHT-002'', ''EKS-INSIGHT-003'', ''COREDNS-001'',
      ''CRD-001'', ''CRD-002'', ''APISERVICE-001'']"

definition ExpectedDefaultPriorities :: "(string \<times> string) list" where
  "ExpectedDefaultPriorities =
     [(''API-001'', ''P2''), (''API-002'', ''P4''), (''WH-001'', ''P4''), (''WH-002'', ''P4''),
      (''WH-004'', ''P4''), (''WH-005'', ''P4''), (''DRAIN-001'', ''P3''),
      (''DRAIN-002'', ''P3''), (''DRAIN-003'', ''P3''), (''DRAIN-004'', ''P3''),
      (''DRAIN-005'', ''P3''), (''PDB-001'', ''P3''), (''PDB-002'', ''P3''),
      (''NODE-001'', ''P3''), (''NODE-002'', ''P2''), (''NODE-003'', ''P3''),
      (''NET-002'', ''P2''), (''WORKLOAD-001'', ''P4''), (''ADDON-001'', ''P2''),
      (''ADDON-002'', ''P3''), (''EKS-NG-001'', ''P4''), (''EKS-NG-002'', ''P3''),
      (''EKS-NG-003'', ''P4''), (''EKS-NG-004'', ''P4''), (''EKS-INSIGHT-001'', ''P2''),
      (''EKS-INSIGHT-002'', ''P4''), (''EKS-INSIGHT-003'', ''P4''), (''COREDNS-001'', ''P4''),
      (''CRD-001'', ''P2''), (''CRD-002'', ''P2''), (''APISERVICE-001'', ''P2'')]"

definition ExpectedRuleApplicabilityValues :: "string list" where
  "ExpectedRuleApplicabilityValues =
     [''applicable'', ''not_applicable'']"

definition ExpectedRuleExecutionStateValues :: "string list" where
  "ExpectedRuleExecutionStateValues =
     [''evaluated'', ''not_evaluated'', ''insufficient_evidence'', ''failed'']"

definition ExpectedRuleExecutionRecordFields :: "string list" where
  "ExpectedRuleExecutionRecordFields =
     [''ruleId'', ''applicability'', ''state'', ''reason'']"

definition ExpectedReportJSONFields :: "string list" where
  "ExpectedReportJSONFields =
     [''schemaVersion'', ''currentVersion'', ''targetVersion'', ''clusterContext'', ''provider'',
      ''upgradeContext'', ''scannedAt'', ''assumptions'', ''namespaceAllowlist'', ''findings'',
      ''summary'', ''coverage'', ''eksCluster'', ''eksAddons'', ''eksNodegroups'',
      ''eksUpgradeInsights'', ''apiCompatibility'', ''upgradeReadiness'', ''ruleExecutions'',
      ''ruleExecutionsNormalized'']"

section \<open>What an implementation reports\<close>

record Actual =
  act_Commands :: "Command list"
  act_SchemaVersions :: "(string \<times> string) list"
  act_RuleIDs :: "string list"
  act_DefaultPriorities :: "(string \<times> string) list"
  act_FingerprintV2Sample :: string
  act_IncompleteResult :: string
  act_IncompleteExitCode :: int
  act_BlockerResult :: string
  act_BlockerExitCode :: int
  act_WarningResult :: string
  act_WarningExitCode :: int
  act_CleanResult :: string
  act_CleanExitCode :: int
  act_InfraFailureExitCode :: int
  act_GenericErrorExitCode :: int
  act_CompareGateFailExitCode :: int
  act_RollbackPreferredExit :: int
  act_RollbackDoNotProceedExit :: int
  act_RollbackNeedsOperatorExit :: int
  act_RuleApplicabilityValues :: "string list"
  act_RuleExecutionStateValues :: "string list"
  act_RuleExecutionRecordFields :: "string list"
  act_ReportJSONFields :: "string list"
  act_LegacyDocumentLoads :: bool
  act_LegacyZeroFindingsNeverEvaluated :: bool

datatype Issue =
    MissingCommand string
  | AliasesDiffer string "string list" "string list"
  | UnexpectedCommand string
  | MissingFlag string string
  | FlagDefaultDiffers string string string string
  | FlagRequiredDiffers string string bool bool
  | UnexpectedFlag string string
  | SchemaVersionDiffers string string string
  | ListDiffers string "string list" "string list"
  | PriorityDiffers string string string
  | UnexpectedPriority string
  | ResultDiffers string string string
  | ExitCodeDiffers string int int
  | FingerprintDiffers string string
  | LegacyDocumentRejected
  | LegacyRuleEvaluated

section \<open>The checks\<close>

text \<open>\<open>compareStringList\<close> compares the lists joined with a zero byte.\<close>

definition compareStringList :: "string \<Rightarrow> string list \<Rightarrow> string list \<Rightarrow> Issue list" where
  "compareStringList label actual expected =
     (if Join actual [CHR 0x00] = Join expected [CHR 0x00] then []
      else [ListDiffers label actual expected])"

definition hasCommand :: "string \<Rightarrow> bool" where
  "hasCommand path = list_ex (\<lambda>c. cmd_Path c = path) ExpectedCommands"

definition hasFlag :: "Flag list \<Rightarrow> string \<Rightarrow> bool" where
  "hasFlag flags name = list_ex (\<lambda>f. flag_Name f = name) flags"

text \<open>\<open>got[x.key] = x\<close> over a list: the last element with a key is the one found.\<close>

definition last_by :: "('a \<Rightarrow> string) \<Rightarrow> 'a list \<Rightarrow> string \<Rightarrow> 'a option" where
  "last_by key xs k = find (\<lambda>x. key x = k) (rev xs)"

text \<open>The keys of such a map, each once.\<close>

definition keys_of :: "('a \<Rightarrow> string) \<Rightarrow> 'a list \<Rightarrow> string list" where
  "keys_of key xs = append_all_unique [] (map key xs)"

definition check_flag :: "string \<Rightarrow> Flag list \<Rightarrow> Flag \<Rightarrow> Issue list" where
  "check_flag path actual want =
     (case last_by flag_Name actual (flag_Name want) of
        None \<Rightarrow> [MissingFlag path (flag_Name want)]
      | Some actualFlag \<Rightarrow>
          (if flag_Default actualFlag \<noteq> flag_Default want
           then [FlagDefaultDiffers path (flag_Name want) (flag_Default actualFlag)
                   (flag_Default want)] else [])
          @ (if flag_Required actualFlag \<noteq> flag_Required want
             then [FlagRequiredDiffers path (flag_Name want) (flag_Required actualFlag)
                     (flag_Required want)] else []))"

definition checkFlags :: "string \<Rightarrow> Flag list \<Rightarrow> Flag list \<Rightarrow> Issue list" where
  "checkFlags path actual expected =
     concat (map (check_flag path actual) expected)
     @ map (UnexpectedFlag path) (filter (\<lambda>n. \<not> hasFlag expected n) (keys_of flag_Name actual))"

definition check_command :: "Command list \<Rightarrow> Command \<Rightarrow> Issue list" where
  "check_command actual want =
     (case last_by cmd_Path actual (cmd_Path want) of
        None \<Rightarrow> [MissingCommand (cmd_Path want)]
      | Some actualCommand \<Rightarrow>
          (if Join (cmd_Aliases actualCommand) [CHR 0x00] \<noteq> Join (cmd_Aliases want) [CHR 0x00]
           then [AliasesDiffer (cmd_Path want) (cmd_Aliases actualCommand) (cmd_Aliases want)]
           else [])
          @ checkFlags (cmd_Path want) (cmd_Flags actualCommand) (cmd_Flags want))"

definition checkCommands :: "Command list \<Rightarrow> Issue list" where
  "checkCommands actual =
     concat (map (check_command actual) ExpectedCommands)
     @ map UnexpectedCommand (filter (\<lambda>p. \<not> hasCommand p) (keys_of cmd_Path actual))"

definition expected_schema_versions :: "(string \<times> string) list" where
  "expected_schema_versions =
     [(''findings'', StableScanSchemaVersion),
      (''plan'', StableScanSchemaVersion),
      (''actionPlan'', StableActionPlanSchemaVersion),
      (''comparison'', StableComparisonSchemaVersion),
      (''rollbackExcluded'', RollbackSchemaVersion),
      (''apiCatalog'', ''apicatalog.kubepreflight.io/v1''),
      (''compatCatalog'', ''compatcatalog.kubepreflight.io/v1'')]"

text \<open>Reading a string map without the \<open>ok\<close> flag gives the empty string for a missing key.\<close>

definition map_get :: "(string \<times> string) list \<Rightarrow> string \<Rightarrow> string" where
  "map_get m k = (case map_of m k of None \<Rightarrow> '''' | Some v \<Rightarrow> v)"

definition checkSchemaVersions :: "(string \<times> string) list \<Rightarrow> Issue list" where
  "checkSchemaVersions actual =
     concat (map (\<lambda>(name, want).
         if map_get actual name \<noteq> want
         then [SchemaVersionDiffers name (map_get actual name) want] else [])
       expected_schema_versions)"

definition checkRuleIDs :: "string list \<Rightarrow> Issue list" where
  "checkRuleIDs actual = compareStringList ''registered rule IDs'' actual ExpectedRuleIDs"

definition checkPriorities :: "(string \<times> string) list \<Rightarrow> Issue list" where
  "checkPriorities actual =
     concat (map (\<lambda>(ruleID, want).
         if map_get actual ruleID \<noteq> want
         then [PriorityDiffers ruleID (map_get actual ruleID) want] else [])
       ExpectedDefaultPriorities)
     @ map UnexpectedPriority
         (filter (\<lambda>r. map_of ExpectedDefaultPriorities r = None) (map fst actual))"

text \<open>Each outcome with its expected result and exit code and the actual ones; an empty
  expected result is not compared.\<close>

definition exit_code_table :: "Actual \<Rightarrow> (string \<times> (string \<times> int) \<times> (string \<times> int)) list" where
  "exit_code_table a =
     [(''clean'', (''CLEAN'', 0), (act_CleanResult a, act_CleanExitCode a)),
      (''warnings'', (''PASSED_WITH_WARNINGS'', 1), (act_WarningResult a, act_WarningExitCode a)),
      (''blockers'', (''BLOCKED'', 2), (act_BlockerResult a, act_BlockerExitCode a)),
      (''incomplete'', (''INCOMPLETE'', 3), (act_IncompleteResult a, act_IncompleteExitCode a)),
      (''infraFailure'', ('''', 4), ('''', act_InfraFailureExitCode a)),
      (''genericError'', ('''', 1), ('''', act_GenericErrorExitCode a)),
      (''compareGateFail'', ('''', 1), ('''', act_CompareGateFailExitCode a)),
      (''rollbackPreferred'', ('''', 0), ('''', act_RollbackPreferredExit a)),
      (''rollbackDoNotProceed'', ('''', 2), ('''', act_RollbackDoNotProceedExit a)),
      (''rollbackNeedsOperator'', ('''', 1), ('''', act_RollbackNeedsOperatorExit a))]"

definition check_exit_code :: "string \<times> (string \<times> int) \<times> (string \<times> int) \<Rightarrow> Issue list" where
  "check_exit_code row =
     (case row of (name, (wantResult, wantCode), (gotResult, gotCode)) \<Rightarrow>
       (if wantResult \<noteq> '''' \<and> gotResult \<noteq> wantResult
        then [ResultDiffers name gotResult wantResult] else [])
       @ (if gotCode \<noteq> wantCode then [ExitCodeDiffers name gotCode wantCode] else []))"

definition checkExitCodes :: "Actual \<Rightarrow> Issue list" where
  "checkExitCodes a = concat (map check_exit_code (exit_code_table a))"

definition FingerprintV2Sample :: string where
  "FingerprintV2Sample = ''82cbaec03e4fd838b1ce5b9eda1c4d297f0bc05db73c0632b379813912bb8a40''"

definition checkFingerprint :: "string \<Rightarrow> Issue list" where
  "checkFingerprint actual =
     (if actual \<noteq> FingerprintV2Sample then [FingerprintDiffers actual FingerprintV2Sample] else [])"

definition checkLegacyDocumentCompatibility :: "Actual \<Rightarrow> Issue list" where
  "checkLegacyDocumentCompatibility a =
     (if \<not> act_LegacyDocumentLoads a then [LegacyDocumentRejected] else [])
     @ (if \<not> act_LegacyZeroFindingsNeverEvaluated a then [LegacyRuleEvaluated] else [])"

definition checkRuleExecutionContract :: "Actual \<Rightarrow> Issue list" where
  "checkRuleExecutionContract a =
     compareStringList ''RuleApplicability wire values'' (act_RuleApplicabilityValues a)
       ExpectedRuleApplicabilityValues
     @ compareStringList ''RuleExecutionState wire values'' (act_RuleExecutionStateValues a)
         ExpectedRuleExecutionStateValues
     @ compareStringList ''RuleExecutionRecord JSON fields'' (act_RuleExecutionRecordFields a)
         ExpectedRuleExecutionRecordFields
     @ compareStringList ''Report JSON fields (1.0 stable + 1.1 additive)'' (act_ReportJSONFields a)
         ExpectedReportJSONFields
     @ checkLegacyDocumentCompatibility a"

record ContractReport =
  cr_CommandCount :: nat
  cr_RuleCount :: nat
  cr_Issues :: "Issue list"

definition Check :: "Actual \<Rightarrow> ContractReport" where
  "Check a =
     \<lparr>cr_CommandCount = length (act_Commands a), cr_RuleCount = length (act_RuleIDs a),
      cr_Issues = checkCommands (act_Commands a) @ checkSchemaVersions (act_SchemaVersions a)
        @ checkRuleIDs (act_RuleIDs a) @ checkPriorities (act_DefaultPriorities a)
        @ checkExitCodes a @ checkFingerprint (act_FingerprintV2Sample a)
        @ checkRuleExecutionContract a\<rparr>"

definition OK :: "ContractReport \<Rightarrow> bool" where
  "OK r \<longleftrightarrow> cr_Issues r = []"

section \<open>Facts about the contract's data\<close>

lemma distinct_ExpectedRuleIDs [simp]: "distinct ExpectedRuleIDs"
  by (simp add: ExpectedRuleIDs_def)

lemma priorities_cover_rules:
  "map_of ExpectedDefaultPriorities r \<noteq> None \<longleftrightarrow> r \<in> set ExpectedRuleIDs"
  by (simp add: ExpectedDefaultPriorities_def ExpectedRuleIDs_def)

end
