(* ===== verification/Engine.thy ===== *)
theory Engine
  imports Cluster V1Compat
begin

text \<open>
  The rule engine: \<open>internal/rules/rule.go\<close>, \<open>execution.go\<close> and \<open>defaults.go\<close>. Which evidence a
  rule depends on, what state that evidence is in, and how the registry runs its rules and
  records what became of each of them.

  A rule is its identifier, the dependencies it declares and its \<open>Evaluate\<close> method. Calling the
  method returns findings and an optional error, or panics. An error is a list of its parts, as
  \<open>errors.Join\<close> keeps them; \<open>sanitizeRuleError\<close>, which turns the joined error into the text of
  an execution record by replacing what a list of regular expressions matches, is the argument
  \<open>sanitize\<close>.
\<close>

section \<open>Evidence dependencies\<close>

datatype EvidencePlane =
  EvidencePlaneKubernetes | EvidencePlaneAWS | EvidencePlaneManifests | EvidencePlaneOther string

fun evidence_plane_string :: "EvidencePlane \<Rightarrow> string" where
  "evidence_plane_string EvidencePlaneKubernetes = ''kubernetes''"
| "evidence_plane_string EvidencePlaneAWS = ''aws''"
| "evidence_plane_string EvidencePlaneManifests = ''manifests''"
| "evidence_plane_string (EvidencePlaneOther s) = s"

record EvidenceDependency =
  ed_Plane :: EvidencePlane
  ed_Key :: string
  ed_Prefix :: bool

definition dependency_label :: "EvidenceDependency \<Rightarrow> string" where
  "dependency_label d =
     (if ed_Key d = '''' then evidence_plane_string (ed_Plane d)
      else if ed_Prefix d then evidence_plane_string (ed_Plane d) @ '':'' @ ed_Key d @ ''*''
      else evidence_plane_string (ed_Plane d) @ '':'' @ ed_Key d)"

definition k8sDep :: "string \<Rightarrow> EvidenceDependency" where
  "k8sDep key = \<lparr>ed_Plane = EvidencePlaneKubernetes, ed_Key = key, ed_Prefix = False\<rparr>"

definition k8sPrefixDep :: "string \<Rightarrow> EvidenceDependency" where
  "k8sPrefixDep key = \<lparr>ed_Plane = EvidencePlaneKubernetes, ed_Key = key, ed_Prefix = True\<rparr>"

definition awsDep :: "string \<Rightarrow> EvidenceDependency" where
  "awsDep key = \<lparr>ed_Plane = EvidencePlaneAWS, ed_Key = key, ed_Prefix = False\<rparr>"

definition awsPrefixDep :: "string \<Rightarrow> EvidenceDependency" where
  "awsPrefixDep key = \<lparr>ed_Plane = EvidencePlaneAWS, ed_Key = key, ed_Prefix = True\<rparr>"

definition manifestDep :: EvidenceDependency where
  "manifestDep = \<lparr>ed_Plane = EvidencePlaneManifests, ed_Key = '''', ed_Prefix = False\<rparr>"

datatype dependencyStateValue =
  dependencyNotApplicable | dependencyAvailable | dependencyPartial | dependencyMissing

definition dependencyErrored :: "EvidenceDependency \<Rightarrow> errors \<Rightarrow> bool" where
  "dependencyErrored dep errs =
     (if length errs = 0 then False
      else if ed_Key dep = '''' then True
      else if ed_Prefix dep then list_ex (\<lambda>(key, e). HasPrefix key (ed_Key dep)) errs
      else map_of errs (ed_Key dep) \<noteq> None)"

definition plane_state ::
  "bool \<Rightarrow> 'a option \<Rightarrow> ('a \<Rightarrow> bool) \<Rightarrow> dependencyStateValue" where
  \<comment> \<open>the pattern of the three cases: requested, collected, in error\<close>
  "plane_state requested snapshot errored =
     (if \<not> (requested \<or> snapshot \<noteq> None) then dependencyNotApplicable
      else case snapshot of
             None \<Rightarrow> dependencyMissing
           | Some s \<Rightarrow> if errored s then dependencyPartial else dependencyAvailable)"

definition dependencyState ::
  "EvidenceDependency \<Rightarrow> ScanContext option \<Rightarrow> dependencyStateValue" where
  "dependencyState dep ctx =
     (case ctx of
        None \<Rightarrow> dependencyMissing
      | Some sc \<Rightarrow>
          (case ed_Plane dep of
             EvidencePlaneKubernetes \<Rightarrow>
               plane_state (sc_KubernetesRequested sc) (sc_K8s sc)
                 (\<lambda>s. dependencyErrored dep (k_Errors s))
           | EvidencePlaneAWS \<Rightarrow>
               plane_state (sc_AWSRequested sc) (sc_AWSSnapshot sc)
                 (\<lambda>s. dependencyErrored dep (aws_Errors s))
           | EvidencePlaneManifests \<Rightarrow>
               plane_state (sc_ManifestsRequested sc) (sc_ManifestSnapshot sc)
                 (\<lambda>s. length (m_Errors s) > 0)
           | EvidencePlaneOther _ \<Rightarrow> dependencyMissing))"

section \<open>Rules\<close>

text \<open>A rule's error, with the cause the engine knows.\<close>

datatype rule_error =
    RuleError string
  | RulePanic string
  | InvalidFinding nat finding_error

datatype rule_outcome =
    Returned "Finding list" "string option"
  | Panicked string

record Rule =
  rule_ID :: string
  rule_Dependencies :: "EvidenceDependency list option"
  rule_ContextDependencies :: "(ScanContext option \<Rightarrow> EvidenceDependency list) option"
  rule_Evaluate :: "ScanContext option \<Rightarrow> string \<Rightarrow> rule_outcome"

definition ruleEvidenceDependencies ::
  "Rule \<Rightarrow> ScanContext option \<Rightarrow> EvidenceDependency list" where
  "ruleEvidenceDependencies rule sc =
     (case rule_ContextDependencies rule of
        Some deps \<Rightarrow> deps sc
      | None \<Rightarrow> (case rule_Dependencies rule of Some deps \<Rightarrow> deps | None \<Rightarrow> []))"

record dependencyStatus =
  ds_notApplicable :: bool
  ds_missingPlane :: bool
  ds_insufficientEvidence :: bool
  ds_reason :: string

definition no_dependency_problem :: dependencyStatus where
  "no_dependency_problem = \<lparr>ds_notApplicable = False, ds_missingPlane = False,
     ds_insufficientEvidence = False, ds_reason = ''''\<rparr>"

definition labels_in_state ::
  "ScanContext option \<Rightarrow> dependencyStateValue \<Rightarrow> EvidenceDependency list \<Rightarrow> string list" where
  "labels_in_state sc state deps =
     map dependency_label (filter (\<lambda>dep. dependencyState dep sc = state) deps)"

definition evaluateRuleDependencies :: "Rule \<Rightarrow> ScanContext option \<Rightarrow> dependencyStatus" where
  "evaluateRuleDependencies rule sc =
     (let deps = ruleEvidenceDependencies rule sc;
          unavailable = labels_in_state sc dependencyMissing deps;
          partial = labels_in_state sc dependencyPartial deps;
          applicable = list_ex (\<lambda>dep. dependencyState dep sc \<noteq> dependencyNotApplicable) deps
      in if length deps = 0 then no_dependency_problem
         else if \<not> applicable
         then no_dependency_problem\<lparr>ds_notApplicable := True,
                ds_reason := ''required evidence plane was not requested for this scan mode''\<rparr>
         else if length unavailable > 0
         then no_dependency_problem\<lparr>ds_missingPlane := True,
                ds_reason := ''required evidence was unavailable for: ''
                               @ Join (sort_strings unavailable) '', ''\<rparr>
         else if length partial > 0
         then no_dependency_problem\<lparr>ds_insufficientEvidence := True,
                ds_reason := ''required collector data was unavailable for: ''
                               @ Join (sort_strings partial) '', ''\<rparr>
         else no_dependency_problem)"

section \<open>The registry\<close>

type_synonym Registry = "Rule list"

definition RuleIDs :: "Registry \<Rightarrow> string list" where
  "RuleIDs rules = map rule_ID rules"

section \<open>The dependencies of the rules\<close>

definition depDeprecatedAPIUsage :: EvidenceDependency where
  "depDeprecatedAPIUsage = k8sPrefixDep ''deprecated-api:''"

definition depNodes :: EvidenceDependency where
  "depNodes = k8sDep ''nodes''"

definition depPods :: EvidenceDependency where
  "depPods = k8sDep ''pods''"

definition depPDBs :: EvidenceDependency where
  "depPDBs = k8sDep ''poddisruptionbudgets''"

definition depValidatingWebhooks :: EvidenceDependency where
  "depValidatingWebhooks = k8sDep ''validatingwebhookconfigurations''"

definition depMutatingWebhooks :: EvidenceDependency where
  "depMutatingWebhooks = k8sDep ''mutatingwebhookconfigurations''"

definition depServices :: EvidenceDependency where
  "depServices = k8sDep ''services''"

definition depEndpointSlices :: EvidenceDependency where
  "depEndpointSlices = k8sDep ''endpointslices''"

definition depCRDs :: EvidenceDependency where
  "depCRDs = k8sDep ''customresourcedefinitions''"

definition depDeployments :: EvidenceDependency where
  "depDeployments = k8sDep ''deployments''"

definition depDaemonSets :: EvidenceDependency where
  "depDaemonSets = k8sDep ''daemonsets''"

definition depStatefulSets :: EvidenceDependency where
  "depStatefulSets = k8sDep ''statefulsets''"

definition depPVs :: EvidenceDependency where
  "depPVs = k8sDep ''persistentvolumes''"

definition depPVCs :: EvidenceDependency where
  "depPVCs = k8sDep ''persistentvolumeclaims''"

definition depCoreDNS :: EvidenceDependency where
  "depCoreDNS = k8sDep ''coredns-configmap''"

definition depAPIServices :: EvidenceDependency where
  "depAPIServices = k8sDep ''apiservices''"

definition depAWSDescribeCluster :: EvidenceDependency where
  "depAWSDescribeCluster = awsDep ''describe-cluster''"

definition depAWSListInsights :: EvidenceDependency where
  "depAWSListInsights = awsDep ''list-insights''"

definition depAWSDescribeInsights :: EvidenceDependency where
  "depAWSDescribeInsights = awsPrefixDep ''describe-insight:''"

definition depAWSListAddons :: EvidenceDependency where
  "depAWSListAddons = awsDep ''list-addons''"

definition depAWSDescribeAddons :: EvidenceDependency where
  "depAWSDescribeAddons = awsPrefixDep ''describe-addon:''"

definition depAWSAddonVersions :: EvidenceDependency where
  "depAWSAddonVersions = awsPrefixDep ''describe-addon-versions:''"

definition depAWSListNodegroups :: EvidenceDependency where
  "depAWSListNodegroups = awsDep ''list-nodegroups''"

definition depAWSDescribeNodegroup :: EvidenceDependency where
  "depAWSDescribeNodegroup = awsPrefixDep ''describe-nodegroup:''"

definition depAWSSubnets :: EvidenceDependency where
  "depAWSSubnets = awsDep ''describe-subnets''"

definition depAWSSecurityGroups :: EvidenceDependency where
  "depAWSSecurityGroups = awsPrefixDep ''describe-security-group:''"

definition depAWSVPCs :: EvidenceDependency where
  "depAWSVPCs = awsPrefixDep ''describe-vpc:''"

text \<open>\<open>EvidenceDependencies\<close> of each rule.\<close>

definition API001_dependencies :: "EvidenceDependency list" where
  "API001_dependencies = [depDeprecatedAPIUsage, manifestDep]"

definition API002_dependencies :: "EvidenceDependency list" where
  "API002_dependencies = [depDeprecatedAPIUsage, manifestDep]"

definition WH001_dependencies :: "EvidenceDependency list" where
  "WH001_dependencies = [depValidatingWebhooks, depMutatingWebhooks]"

definition WH002_dependencies :: "EvidenceDependency list" where
  "WH002_dependencies = [depValidatingWebhooks, depMutatingWebhooks, depServices, depEndpointSlices]"

definition WH004_dependencies :: "EvidenceDependency list" where
  "WH004_dependencies = [depValidatingWebhooks, depMutatingWebhooks]"

definition WH005_dependencies :: "EvidenceDependency list" where
  "WH005_dependencies = [depValidatingWebhooks, depMutatingWebhooks]"

definition DRAIN001_dependencies :: "EvidenceDependency list" where
  "DRAIN001_dependencies = [depDeployments, depStatefulSets, depPods, depPDBs]"

definition DRAIN002_dependencies :: "EvidenceDependency list" where
  "DRAIN002_dependencies = [depDeployments, depStatefulSets, depPods, depNodes, depPVs, depPVCs]"

definition DRAIN003_dependencies :: "EvidenceDependency list" where
  "DRAIN003_dependencies = [depDeployments, depStatefulSets, depDaemonSets, depPods, depNodes]"

definition DRAIN004_dependencies :: "EvidenceDependency list" where
  "DRAIN004_dependencies = [depNodes, depPods]"

definition DRAIN005_dependencies :: "EvidenceDependency list" where
  "DRAIN005_dependencies = [depStatefulSets, depDaemonSets]"

definition PDB001_dependencies :: "EvidenceDependency list" where
  "PDB001_dependencies = [depPDBs]"

definition PDB002_dependencies :: "EvidenceDependency list" where
  "PDB002_dependencies = [depPDBs, depPods]"

definition NODE001_dependencies :: "EvidenceDependency list" where
  "NODE001_dependencies = [depNodes]"

definition NODE002_dependencies :: "EvidenceDependency list" where
  "NODE002_dependencies = [depAWSDescribeCluster, depAWSSubnets]"

definition NODE003_dependencies :: "EvidenceDependency list" where
  "NODE003_dependencies = [depDeployments, depDaemonSets, depStatefulSets]"

definition NET002_dependencies :: "EvidenceDependency list" where
  "NET002_dependencies = [depAWSDescribeCluster, depAWSSecurityGroups, depAWSVPCs]"

definition WORKLOAD001_dependencies :: "EvidenceDependency list" where
  "WORKLOAD001_dependencies = [depPods]"

definition ADDON001_dependencies :: "EvidenceDependency list" where
  "ADDON001_dependencies = [depAWSListAddons, depAWSDescribeAddons, depAWSAddonVersions, depDeployments, depDaemonSets]"

definition ADDON002_dependencies :: "EvidenceDependency list" where
  "ADDON002_dependencies = [depAWSListAddons, depAWSDescribeAddons, depAWSAddonVersions, depDeployments, depDaemonSets]"

definition EKSNG001_dependencies :: "EvidenceDependency list" where
  "EKSNG001_dependencies = [depAWSListNodegroups, depAWSDescribeNodegroup]"

definition EKSNG002_dependencies :: "EvidenceDependency list" where
  "EKSNG002_dependencies = [depAWSListNodegroups, depAWSDescribeNodegroup]"

definition EKSNG003_dependencies :: "EvidenceDependency list" where
  "EKSNG003_dependencies = [depAWSListNodegroups, depAWSDescribeNodegroup]"

definition EKSNG004_dependencies :: "EvidenceDependency list" where
  "EKSNG004_dependencies = [depAWSListNodegroups, depAWSDescribeNodegroup]"

definition EKSINSIGHT001_dependencies :: "EvidenceDependency list" where
  "EKSINSIGHT001_dependencies = [depAWSListInsights, depAWSDescribeInsights]"

definition EKSINSIGHT002_dependencies :: "EvidenceDependency list" where
  "EKSINSIGHT002_dependencies = [depAWSListInsights, depAWSDescribeInsights]"

definition EKSINSIGHT003_dependencies :: "EvidenceDependency list" where
  "EKSINSIGHT003_dependencies = [depAWSListInsights, depAWSDescribeInsights]"

definition COREDNS001_dependencies :: "EvidenceDependency list" where
  "COREDNS001_dependencies = [depCoreDNS]"

definition CRD001_dependencies :: "EvidenceDependency list" where
  "CRD001_dependencies = [depCRDs]"

definition CRD002_dependencies :: "EvidenceDependency list" where
  "CRD002_dependencies = [depCRDs, depServices, depEndpointSlices]"

definition APIService001_dependencies :: "EvidenceDependency list" where
  "APIService001_dependencies = [depAPIServices]"

text \<open>\<open>EvidenceDependenciesFor\<close>: what WH-002, DRAIN-001 and CRD-002 need depends on what the
  evidence at hand says.\<close>

definition webhook_services :: "K8sSnapshot \<Rightarrow> ServiceReference option list" where
  \<comment> \<open>\<open>ClientConfig.Service\<close> of every webhook, validating ones first\<close>
  "webhook_services snap =
     concat (map (\<lambda>cfg. map (\<lambda>wh. wcc_Service (wh_ClientConfig wh)) (whc_Webhooks cfg))
       (k_ValidatingWebhookConfigs snap))
     @ concat (map (\<lambda>cfg. map (\<lambda>wh. wcc_Service (wh_ClientConfig wh)) (whc_Webhooks cfg))
         (k_MutatingWebhookConfigs snap))"

definition service_observed :: "K8sSnapshot \<Rightarrow> ServiceReference option \<Rightarrow> bool" where
  "service_observed snap ref =
     (case ref of
        None \<Rightarrow> False
      | Some svc \<Rightarrow> serviceExists snap (svcref_Namespace svc) (svcref_Name svc))"

definition webhookServiceReferencePresent :: "K8sSnapshot \<Rightarrow> bool" where
  "webhookServiceReferencePresent snap = list_ex (\<lambda>s. s \<noteq> None) (webhook_services snap)"

definition webhookReferencedServiceObserved :: "K8sSnapshot \<Rightarrow> bool" where
  "webhookReferencedServiceObserved snap = list_ex (service_observed snap) (webhook_services snap)"

definition conversion_service :: "CustomResourceDefinition \<Rightarrow> ServiceReference option" where
  "conversion_service crd =
     Option.bind (crd_Conversion crd) (\<lambda>conversion.
     Option.bind (conv_Webhook conversion) (\<lambda>webhook.
     Option.bind (wconv_ClientConfig webhook) wcc_Service))"

definition crdConversionServiceReferencePresent :: "K8sSnapshot \<Rightarrow> bool" where
  "crdConversionServiceReferencePresent snap =
     list_ex (\<lambda>crd. conversion_service crd \<noteq> None) (k_CustomResourceDefinitions snap)"

definition crdConversionServiceObserved :: "K8sSnapshot \<Rightarrow> bool" where
  "crdConversionServiceObserved snap =
     list_ex (\<lambda>crd. service_observed snap (conversion_service crd)) (k_CustomResourceDefinitions snap)"

definition WH002_context_dependencies :: "ScanContext option \<Rightarrow> EvidenceDependency list" where
  "WH002_context_dependencies ctx =
     (let deps = [depValidatingWebhooks, depMutatingWebhooks]
      in case Option.bind ctx sc_K8s of
           None \<Rightarrow> deps
         | Some snap \<Rightarrow>
             if dependencyErrored depValidatingWebhooks (k_Errors snap)
                \<or> dependencyErrored depMutatingWebhooks (k_Errors snap) then deps
             else if \<not> webhookServiceReferencePresent snap then deps
             else
               let deps' = deps @ [depServices]
               in if \<not> dependencyErrored depServices (k_Errors snap)
                     \<and> webhookReferencedServiceObserved snap
                  then deps' @ [depEndpointSlices] else deps')"

definition singleton_workload :: "Workload \<Rightarrow> bool" where
  "singleton_workload w \<longleftrightarrow>
     wl_DeletionTimestamp w = None \<and> isSingletonReplicaCount (wl_Replicas w)"

definition DRAIN001_context_dependencies :: "ScanContext option \<Rightarrow> EvidenceDependency list" where
  "DRAIN001_context_dependencies ctx =
     (let deps = [depDeployments, depStatefulSets]
      in case Option.bind ctx sc_K8s of
           None \<Rightarrow> deps
         | Some snap \<Rightarrow>
             if dependencyErrored depDeployments (k_Errors snap)
                \<or> dependencyErrored depStatefulSets (k_Errors snap) then deps
             else if list_ex singleton_workload (k_Deployments snap)
             then deps @ [depPods, depPDBs]
             else if list_ex singleton_workload (k_StatefulSets snap)
             then deps @ [depPods, depPDBs]
             else deps)"

definition CRD002_context_dependencies :: "ScanContext option \<Rightarrow> EvidenceDependency list" where
  "CRD002_context_dependencies ctx =
     (let deps = [depCRDs]
      in case Option.bind ctx sc_K8s of
           None \<Rightarrow> deps
         | Some snap \<Rightarrow>
             if dependencyErrored depCRDs (k_Errors snap) then deps
             else if \<not> crdConversionServiceReferencePresent snap then deps
             else
               let deps' = deps @ [depServices]
               in if \<not> dependencyErrored depServices (k_Errors snap)
                     \<and> crdConversionServiceObserved snap
                  then deps' @ [depEndpointSlices] else deps')"

section \<open>The default registries\<close>

text \<open>
  Every registered rule with its dependencies, in registration order. The rules' \<open>Evaluate\<close>
  methods are the argument \<open>body\<close> of the registries.
\<close>

definition default_rules ::
  "(string \<times> EvidenceDependency list \<times> (ScanContext option \<Rightarrow> EvidenceDependency list) option) list"
where
  "default_rules =
     [(''API-001'', API001_dependencies, None),
      (''API-002'', API002_dependencies, None),
      (''WH-001'', WH001_dependencies, None),
      (''WH-002'', WH002_dependencies, Some WH002_context_dependencies),
      (''WH-004'', WH004_dependencies, None),
      (''WH-005'', WH005_dependencies, None),
      (''DRAIN-001'', DRAIN001_dependencies, Some DRAIN001_context_dependencies),
      (''DRAIN-002'', DRAIN002_dependencies, None),
      (''DRAIN-003'', DRAIN003_dependencies, None),
      (''DRAIN-004'', DRAIN004_dependencies, None),
      (''DRAIN-005'', DRAIN005_dependencies, None),
      (''PDB-001'', PDB001_dependencies, None),
      (''PDB-002'', PDB002_dependencies, None),
      (''NODE-001'', NODE001_dependencies, None),
      (''NODE-002'', NODE002_dependencies, None),
      (''NODE-003'', NODE003_dependencies, None),
      (''NET-002'', NET002_dependencies, None),
      (''WORKLOAD-001'', WORKLOAD001_dependencies, None),
      (''ADDON-001'', ADDON001_dependencies, None),
      (''ADDON-002'', ADDON002_dependencies, None),
      (''EKS-NG-001'', EKSNG001_dependencies, None),
      (''EKS-NG-002'', EKSNG002_dependencies, None),
      (''EKS-NG-003'', EKSNG003_dependencies, None),
      (''EKS-NG-004'', EKSNG004_dependencies, None),
      (''EKS-INSIGHT-001'', EKSINSIGHT001_dependencies, None),
      (''EKS-INSIGHT-002'', EKSINSIGHT002_dependencies, None),
      (''EKS-INSIGHT-003'', EKSINSIGHT003_dependencies, None),
      (''COREDNS-001'', COREDNS001_dependencies, None),
      (''CRD-001'', CRD001_dependencies, None),
      (''CRD-002'', CRD002_dependencies, Some CRD002_context_dependencies),
      (''APISERVICE-001'', APIService001_dependencies, None)]"

definition registered ::
  "(string \<Rightarrow> ScanContext option \<Rightarrow> string \<Rightarrow> rule_outcome)
     \<Rightarrow> string \<times> EvidenceDependency list \<times> (ScanContext option \<Rightarrow> EvidenceDependency list) option
     \<Rightarrow> Rule" where
  "registered body row =
     (case row of (ruleID, deps, context_deps) \<Rightarrow>
       \<lparr>rule_ID = ruleID, rule_Dependencies = Some deps, rule_ContextDependencies = context_deps,
        rule_Evaluate = body ruleID\<rparr>)"

definition NewDefaultRegistry ::
  "(string \<Rightarrow> ScanContext option \<Rightarrow> string \<Rightarrow> rule_outcome) \<Rightarrow> Registry" where
  "NewDefaultRegistry body = map (registered body) default_rules"

definition AllRuleIDs :: "string list" where
  "AllRuleIDs = RuleIDs (NewDefaultRegistry (\<lambda>_ _ _. Returned [] None))"

definition NewManifestsOnlyRegistry ::
  "(string \<Rightarrow> ScanContext option \<Rightarrow> string \<Rightarrow> rule_outcome) \<Rightarrow> Registry" where
  "NewManifestsOnlyRegistry body =
     [registered body (''API-001'', API001_dependencies, None),
      registered body (''API-002'', API002_dependencies, None)]"

section \<open>Running the rules\<close>

text \<open>\<open>evaluateRuleSafely\<close>: a panic leaves the named result of findings nil.\<close>

definition evaluateRuleSafely ::
  "Rule \<Rightarrow> ScanContext option \<Rightarrow> string \<Rightarrow> Finding list \<times> rule_error option" where
  "evaluateRuleSafely rule sc targetVersion =
     (case rule_Evaluate rule sc targetVersion of
        Returned fs err \<Rightarrow> (fs, map_option RuleError err)
      | Panicked p \<Rightarrow> ([], Some (RulePanic p)))"

fun validation_errors :: "nat \<Rightarrow> Finding list \<Rightarrow> rule_error list" where
  "validation_errors i [] = []"
| "validation_errors i (f # fs) =
     (case Validate f of
        Some e \<Rightarrow> InvalidFinding i e # validation_errors (Suc i) fs
      | None \<Rightarrow> validation_errors (Suc i) fs)"

definition valid_findings :: "Finding list \<Rightarrow> Finding list" where
  "valid_findings fs = filter (\<lambda>f. Validate f = None) fs"

definition rule_errors :: "Finding list \<Rightarrow> rule_error option \<Rightarrow> rule_error list" where
  "rule_errors fs err =
     validation_errors 0 fs @ (case err of Some e \<Rightarrow> [e] | None \<Rightarrow> [])"

text \<open>\<open>ruleByID\<close>: of two registered rules with one identifier the later is found.\<close>

definition find_rule :: "Registry \<Rightarrow> string \<Rightarrow> Rule option" where
  "find_rule rules ruleID = find (\<lambda>rule. rule_ID rule = ruleID) (rev rules)"

definition execution_record ::
  "string \<Rightarrow> RuleApplicability \<Rightarrow> RuleExecutionState \<Rightarrow> string \<Rightarrow> RuleExecutionRecord" where
  "execution_record ruleID applicability state reason =
     \<lparr>ex_RuleID = ruleID, ex_Applicability = applicability, ex_State = state, ex_Reason = reason\<rparr>"

text \<open>One iteration of the loop over the universe: the findings kept, the record, the errors.\<close>

definition run_rule ::
  "(rule_error list \<Rightarrow> string) \<Rightarrow> Registry \<Rightarrow> ScanContext option \<Rightarrow> string \<Rightarrow> string
     \<Rightarrow> Finding list \<times> RuleExecutionRecord \<times> rule_error list" where
  "run_rule sanitize rules sc targetVersion ruleID =
     (case find_rule rules ruleID of
        None \<Rightarrow>
          ([], execution_record ruleID ApplicabilityNotApplicable ExecutionNotEvaluated
                 ''not registered for this scan mode'', [])
      | Some rule \<Rightarrow>
          let depStatus = evaluateRuleDependencies rule sc
          in if ds_notApplicable depStatus
             then ([], execution_record ruleID ApplicabilityNotApplicable ExecutionNotEvaluated
                         (ds_reason depStatus), [])
             else if ds_missingPlane depStatus
             then ([], execution_record ruleID ApplicabilityApplicable
                         ExecutionInsufficientEvidence (ds_reason depStatus), [])
             else
               let (fs, err) = evaluateRuleSafely rule sc targetVersion;
                   ruleErrs = rule_errors fs err
               in (valid_findings fs,
                   (if length ruleErrs > 0
                    then execution_record ruleID ApplicabilityApplicable ExecutionFailed
                           (sanitize ruleErrs)
                    else if ds_insufficientEvidence depStatus
                    then execution_record ruleID ApplicabilityApplicable
                           ExecutionInsufficientEvidence (ds_reason depStatus)
                    else execution_record ruleID ApplicabilityApplicable ExecutionEvaluated ''''),
                   ruleErrs))"

definition RunAllWithExecutions ::
  "(rule_error list \<Rightarrow> string) \<Rightarrow> Registry \<Rightarrow> ScanContext option \<Rightarrow> string
     \<Rightarrow> Finding list \<times> RuleExecutionRecord list \<times> (string \<times> rule_error list) list" where
  "RunAllWithExecutions sanitize rules sc targetVersion =
     (let runs = map (\<lambda>ruleID. (ruleID, run_rule sanitize rules sc targetVersion ruleID)) AllRuleIDs
      in (concat (map (\<lambda>(ruleID, fs, rec, errs). fs) runs),
          map (\<lambda>(ruleID, fs, rec, errs). rec) runs,
          List.map_filter
            (\<lambda>(ruleID, fs, rec, errs). if length errs > 0 then Some (ruleID, errs) else None) runs))"

text \<open>
  \<open>runAll\<close>, the older loop: the first error wins, and a panic is not caught, so that the whole
  call panics (\<open>Inl\<close>).
\<close>

type_synonym run_state = "Finding list \<times> (string \<times> rule_error) option"

fun run_findings :: "string \<Rightarrow> nat \<Rightarrow> run_state \<Rightarrow> Finding list \<Rightarrow> run_state" where
  "run_findings ruleID i st [] = st"
| "run_findings ruleID i (all, firstErr) (f # fs) =
     (case Validate f of
        Some e \<Rightarrow>
          run_findings ruleID (Suc i)
            (all, if firstErr = None then Some (ruleID, InvalidFinding i e) else firstErr) fs
      | None \<Rightarrow> run_findings ruleID (Suc i) (all @ [f], firstErr) fs)"

fun runAll_loop ::
  "Registry \<Rightarrow> ScanContext option \<Rightarrow> string \<Rightarrow> run_state \<Rightarrow> string + run_state" where
  "runAll_loop [] sc targetVersion st = Inr st"
| "runAll_loop (rule # rules) sc targetVersion (all, firstErr) =
     (case rule_Evaluate rule sc targetVersion of
        Panicked p \<Rightarrow> Inl p
      | Returned fs err \<Rightarrow>
          let firstErr' = (case err of
                Some e \<Rightarrow> if firstErr = None then Some (rule_ID rule, RuleError e) else firstErr
              | None \<Rightarrow> firstErr)
          in runAll_loop rules sc targetVersion
               (run_findings (rule_ID rule) 0 (all, firstErr') fs))"

definition RunAll :: "Registry \<Rightarrow> ScanContext option \<Rightarrow> string \<Rightarrow> string + run_state" where
  "RunAll rules sc targetVersion = runAll_loop rules sc targetVersion ([], None)"

end
