(* ===== verification/ReportFacts.thy ===== *)
theory ReportFacts
  imports Report
begin

text \<open>
  What the findings report guarantees: the summary counts in closed form, the verdict as a
  function of the findings' gates, the agreement of the readiness scorecard with the verdict,
  the bounds and the monotonicity of the readiness score, and the API compatibility scorecard.
\<close>

section \<open>The summary\<close>

definition blocks :: "Finding \<Rightarrow> bool" where
  "blocks f \<longleftrightarrow> EffectiveUpgradeGate f = UpgradeGateBlock"

definition needs_operator :: "Finding \<Rightarrow> bool" where
  "needs_operator f \<longleftrightarrow> EffectiveUpgradeGate f = UpgradeGateOperatorDecision"

definition counts_as_warning :: "Finding \<Rightarrow> bool" where
  "counts_as_warning f \<longleftrightarrow>
     f_Severity f = SeverityWarning \<or> f_Severity f = SeverityBlocker \<and> \<not> blocks f"

lemma gate_predicates_assign [simp, gate_simps]:
  "blocks (AssignPriority f) = blocks f"
  "needs_operator (AssignPriority f) = needs_operator f"
  "counts_as_warning (AssignPriority f) = counts_as_warning f"
  by (simp_all add: blocks_def needs_operator_def counts_as_warning_def)

lemma summary_step_eq:
  "summary_step s f =
     \<lparr>sum_Blockers = sum_Blockers s + (if blocks f then 1 else 0),
      sum_Warnings = sum_Warnings s + (if counts_as_warning f then 1 else 0),
      sum_Infos = sum_Infos s + (if f_Severity f = SeverityInfo then 1 else 0),
      sum_OperatorDecisions = sum_OperatorDecisions s + (if needs_operator f then 1 else 0)\<rparr>"
  by (auto simp: summary_step_def Let_def blocks_def needs_operator_def counts_as_warning_def
      split: UpgradeGate.splits Severity.splits)

lemma build_summary_fold:
  "foldl summary_step s fs =
     \<lparr>sum_Blockers = sum_Blockers s + length (filter blocks fs),
      sum_Warnings = sum_Warnings s + length (filter counts_as_warning fs),
      sum_Infos = sum_Infos s + length (filter (\<lambda>f. f_Severity f = SeverityInfo) fs),
      sum_OperatorDecisions = sum_OperatorDecisions s + length (filter needs_operator fs)\<rparr>"
  by (induction fs arbitrary: s) (simp_all add: summary_step_eq)

lemmas build_summary_eq = build_summary_fold [of "\<lparr>sum_Blockers = 0, sum_Warnings = 0,
    sum_Infos = 0, sum_OperatorDecisions = 0\<rparr>", folded build_summary_def, simplified]

lemma build_summary_assign: "build_summary (map AssignPriority fs) = build_summary fs"
  by (simp add: build_summary_eq filter_map o_def)

lemma build_summary_positive [verdict_simps]:
  "sum_Blockers (build_summary fs) > 0 \<longleftrightarrow> (\<exists>f\<in>set fs. blocks f)"
  "sum_Warnings (build_summary fs) > 0 \<longleftrightarrow> (\<exists>f\<in>set fs. counts_as_warning f)"
  "sum_OperatorDecisions (build_summary fs) > 0 \<longleftrightarrow> (\<exists>f\<in>set fs. needs_operator f)"
  by (auto simp: build_summary_eq filter_empty_conv)

section \<open>Reports as the program builds them\<close>

text \<open>
  A report is well formed when its summary is that of its findings and its scorecard is the
  one for its own verdict. \<open>NewReport\<close> establishes this and \<open>SetCoverage\<close> keeps it; a
  direct write to the coverage would not.
\<close>

definition wf_report :: "Report \<Rightarrow> bool" where
  "wf_report r \<longleftrightarrow>
     r_Summary r = build_summary (r_Findings r)
     \<and> r_UpgradeReadiness r = Some (BuildUpgradeReadinessSummary (r_Findings r) (Result r))"

lemma Result_cong:
  "r_Coverage r = r_Coverage s \<Longrightarrow> r_Summary r = r_Summary s
     \<Longrightarrow> r_RuleExecutions r = r_RuleExecutions s
     \<Longrightarrow> r_RuleExecutionsNormalized r = r_RuleExecutionsNormalized s \<Longrightarrow> Result r = Result s"
  by (simp add: Result_def resultAndExitCode_def IsComplete_def)

lemma Result_readiness_update [simp]: "Result (r\<lparr>r_UpgradeReadiness := u\<rparr>) = Result r"
  by (rule Result_cong) simp_all

lemma wf_NewReport: "wf_report (NewReportWithUpgradeContext tv cc p uc t fs)"
  by (simp add: wf_report_def NewReportWithUpgradeContext_def Let_def Result_def
      resultAndExitCode_def IsComplete_def)

lemma wf_SetCoverage: "wf_report r \<Longrightarrow> wf_report (SetCoverage c r)"
  by (simp add: wf_report_def SetCoverage_def Let_def)

lemma NewReport_findings [simp]:
  "r_Findings (NewReportWithUpgradeContext tv cc p uc t fs) = map AssignPriority fs"
  by (simp add: NewReportWithUpgradeContext_def Let_def)

lemma SetCoverage_keeps [simp]:
  "r_Findings (SetCoverage c r) = r_Findings r"
  "r_Coverage (SetCoverage c r) = c"
  "r_RuleExecutions (SetCoverage c r) = r_RuleExecutions r"
  by (simp_all add: SetCoverage_def Let_def)

lemma Result_wf:
  assumes "wf_report r"
  shows "Result r =
    (if \<not> IsComplete r then ''INCOMPLETE''
     else if \<exists>f\<in>set (r_Findings r). blocks f then ''BLOCKED''
     else if \<exists>f\<in>set (r_Findings r). counts_as_warning f \<or> needs_operator f
     then ''PASSED_WITH_WARNINGS'' else ''CLEAN'')"
  using assms
  by (auto simp: wf_report_def Result_def resultAndExitCode_def verdict_simps simp del: neq0_conv)

lemma ExitCode_Result:
  "ExitCode r = 3 \<longleftrightarrow> Result r = ''INCOMPLETE''"
  "ExitCode r = 2 \<longleftrightarrow> Result r = ''BLOCKED''"
  "ExitCode r = 1 \<longleftrightarrow> Result r = ''PASSED_WITH_WARNINGS''"
  "ExitCode r = 0 \<longleftrightarrow> Result r = ''CLEAN''"
  by (auto simp: ExitCode_def Result_def resultAndExitCode_def)

section \<open>The readiness categories in closed form\<close>

definition in_category :: "string \<Rightarrow> Finding \<Rightarrow> bool" where
  "in_category name f \<longleftrightarrow> map_of categoryByRuleID (f_RuleID f) = Some name"

definition warns :: "Finding \<Rightarrow> bool" where
  \<comment> \<open>counted as a warning of its category\<close>
  "warns f \<longleftrightarrow> needs_operator f \<or> \<not> blocks f \<and> f_Severity f = SeverityWarning"

definition category_status :: "nat \<Rightarrow> nat \<Rightarrow> string" where
  "category_status b w = (if b > 0 then ''Failed'' else if w > 0 then ''Warning'' else ''Passed'')"

lemma category_add_counts:
  "cat_BlockerCount (category_add f cat) = cat_BlockerCount cat + (if blocks f then 1 else 0)"
  "cat_WarningCount (category_add f cat) = cat_WarningCount cat + (if warns f then 1 else 0)"
  "cat_RuleIDs (category_add f cat) = append_unique (cat_RuleIDs cat) (f_RuleID f)"
  "cat_Name (category_add f cat) = cat_Name cat"
  by (auto simp: category_add_def category_warn_def Let_def blocks_def warns_def needs_operator_def
        split: UpgradeGate.splits)

lemma category_add_status:
  "cat_Status cat = category_status (cat_BlockerCount cat) (cat_WarningCount cat) \<Longrightarrow>
   cat_Status (category_add f cat)
     = category_status (cat_BlockerCount (category_add f cat)) (cat_WarningCount (category_add f cat))"
  by (auto simp: category_add_def category_warn_def category_status_def Let_def
        split: UpgradeGate.splits)

definition category_of :: "Finding list \<Rightarrow> string \<Rightarrow> UpgradeReadinessCategory" where
  "category_of fs name =
     (let b = length (filter (\<lambda>f. in_category name f \<and> blocks f) fs);
          w = length (filter (\<lambda>f. in_category name f \<and> warns f) fs)
      in \<lparr>cat_Name = name, cat_Status = category_status b w, cat_BlockerCount = b,
          cat_WarningCount = w,
          cat_RuleIDs = append_all_unique [] (map f_RuleID (filter (in_category name) fs))\<rparr>)"

lemma category_of_Nil: "category_of [] = empty_category"
  by (rule ext) (simp add: category_of_def empty_category_def category_status_def)

lemma category_step_in: "in_category name f \<Longrightarrow> category_step m f name = category_add f (m name)"
  by (simp add: category_step_def in_category_def)

lemma category_step_out: "\<not> in_category name f \<Longrightarrow> category_step m f name = m name"
  by (auto simp: category_step_def in_category_def split: option.split)

lemma category_of_snoc: "category_of (fs @ [f]) = category_step (category_of fs) f"
proof
  fix name
  show "category_of (fs @ [f]) name = category_step (category_of fs) f name"
  proof (cases "in_category name f")
    case True
    let ?c = "category_add f (category_of fs name)"
    have "cat_Status ?c = category_status (cat_BlockerCount ?c) (cat_WarningCount ?c)"
      by (rule category_add_status) (simp add: category_of_def Let_def)
    then show ?thesis
      using True unfolding category_step_in [OF True]
      by (intro UpgradeReadinessCategory.equality)
        (simp_all add: category_add_counts category_of_def Let_def)
  next
    case False
    then show ?thesis by (simp add: category_step_out category_of_def)
  qed
qed

lemma foldl_category_step: "foldl category_step empty_category fs = category_of fs"
  by (induction fs rule: rev_induct) (simp_all add: category_of_Nil category_of_snoc)

lemma categories_known: "map_of categoryByRuleID r = Some name \<Longrightarrow> name \<in> set categoryOrder"
  by (drule map_of_SomeD) (auto simp: categoryByRuleID_def categoryOrder_def)

lemma distinct_categoryOrder [simp]: "distinct categoryOrder"
  by (simp add: categoryOrder_def)

definition known_rules :: "Finding list \<Rightarrow> bool" where
  "known_rules fs \<longleftrightarrow> list_all (\<lambda>f. HasExplicitCategoryMapping (f_RuleID f)) fs"

lemma readiness_categories_eq:
  "readiness_categories fs = map (\<lambda>name. (category_of fs name)
     \<lparr>cat_RuleIDs := sort_strings (cat_RuleIDs (category_of fs name))\<rparr>) categoryOrder"
  by (simp add: readiness_categories_def foldl_category_step Let_def)

lemma any_blocker_iff:
  "upgradeReadinessAnyBlocker (readiness_categories fs)
     \<longleftrightarrow> (\<exists>f\<in>set fs. blocks f \<and> HasExplicitCategoryMapping (f_RuleID f))"
  using categories_known
  by (fastforce simp: upgradeReadinessAnyBlocker_def readiness_categories_eq list_ex_iff
      category_of_def Let_def filter_empty_conv in_category_def HasExplicitCategoryMapping_def)

section \<open>Properties of the verdict\<close>

text \<open>
  C7: The verdict of every report the program builds, before and after the real coverage is
  set: INCOMPLETE exactly when evidence is missing, and otherwise BLOCKED, PASSED_WITH_WARNINGS
  or CLEAN by the effective gates and severities of its findings alone. In particular a CLEAN
  report has no finding that blocks, none that waits for an operator and none of severity
  Warning or Blocker; and the scorecard's verdict is the verdict that drives the exit code.
\<close>

theorem report_verdict:
  assumes "r = NewReportWithUpgradeContext tv cc p uc t fs
           \<or> r = SetCoverage c (NewReportWithUpgradeContext tv cc p uc t fs)"
  shows "Result r =
      (if \<not> IsComplete r then ''INCOMPLETE''
       else if \<exists>f\<in>set fs. EffectiveUpgradeGate f = UpgradeGateBlock then ''BLOCKED''
       else if \<exists>f\<in>set fs. EffectiveUpgradeGate f = UpgradeGateOperatorDecision
                 \<or> f_Severity f = SeverityWarning \<or> f_Severity f = SeverityBlocker
       then ''PASSED_WITH_WARNINGS'' else ''CLEAN'')
    \<and> map_option ur_Verdict (r_UpgradeReadiness r) = Some (Result r)
    \<and> ExitCode r = (if Result r = ''CLEAN'' then 0 else if Result r = ''PASSED_WITH_WARNINGS'' then 1
                    else if Result r = ''BLOCKED'' then 2 else 3)"
proof -
  have wf: "wf_report r" using assms wf_NewReport wf_SetCoverage by blast
  have fs: "r_Findings r = map AssignPriority fs" using assms by auto
  from Result_wf [OF wf] fs have "Result r =
      (if \<not> IsComplete r then ''INCOMPLETE''
       else if \<exists>f\<in>set fs. blocks f then ''BLOCKED''
       else if \<exists>f\<in>set fs. counts_as_warning f \<or> needs_operator f
       then ''PASSED_WITH_WARNINGS'' else ''CLEAN'')" by simp
  moreover have "map_option ur_Verdict (r_UpgradeReadiness r) = Some (Result r)"
    using wf by (simp add: wf_report_def BuildUpgradeReadinessSummary_def Let_def)
  moreover have "ExitCode r = (if Result r = ''CLEAN'' then 0
      else if Result r = ''PASSED_WITH_WARNINGS'' then 1
      else if Result r = ''BLOCKED'' then 2 else 3)"
    by (simp add: ExitCode_def Result_def resultAndExitCode_def)
  ultimately show ?thesis
    by (auto simp: blocks_def counts_as_warning_def needs_operator_def)
qed

definition sample_finding :: Finding where
  "sample_finding = empty_finding\<lparr>f_RuleID := ''PDB-001'', f_Severity := SeverityWarning,
     f_UpgradeGate := UpgradeGateOperatorDecision, f_Fingerprint := ''fp''\<rparr>"

theorem report_verdict_witness:
  "Result (SetCoverage \<lparr>sc_Kubernetes = plane_coverage CoverageComplete,
        sc_AWS = plane_coverage CoveragePartial, sc_Manifests = plane_coverage CoverageSkipped\<rparr>
      (NewReportWithUpgradeContext ''1.30'' '''' ''eks'' ContextUnspecified 1 [sample_finding]))
     = ''INCOMPLETE''
   \<and> Result (NewReportWithUpgradeContext ''1.30'' '''' '''' ContextUnspecified 1 [sample_finding])
     = ''PASSED_WITH_WARNINGS''"
proof -
  let ?new = "\<lambda>p. NewReportWithUpgradeContext ''1.30'' '''' p ContextUnspecified 1 [sample_finding]"
  let ?c = "\<lparr>sc_Kubernetes = plane_coverage CoverageComplete,
        sc_AWS = plane_coverage CoveragePartial, sc_Manifests = plane_coverage CoverageSkipped\<rparr>"
  have "\<not> IsComplete (SetCoverage ?c (?new ''eks''))"
    by (simp add: IsComplete_def plane_coverage_def)
  moreover have "IsComplete (?new '''')"
    by (simp add: IsComplete_def NewReportWithUpgradeContext_def Let_def plane_coverage_def)
  ultimately show ?thesis
    using report_verdict [of "SetCoverage ?c (?new ''eks'')" "''1.30''" "''''" "''eks''"
        ContextUnspecified 1 "[sample_finding]" ?c]
      report_verdict [of "?new ''''" "''1.30''" "''''" "''''" ContextUnspecified 1 "[sample_finding]" ?c]
    by (simp add: sample_finding_def EffectiveUpgradeGate_def)
qed

text \<open>
  C26: The scorecard never lets an upgrade continue that the verdict would stop. For findings of
  rules the build knows, \<open>UpgradeContinue\<close> holds exactly when the evidence is complete and no
  finding blocks or waits for an operator; so it is false for every INCOMPLETE and every
  BLOCKED report, whatever coverage is set.
\<close>

theorem upgrade_continue_sound:
  assumes "known_rules fs"
    and "r = SetCoverage c (NewReportWithUpgradeContext tv cc p uc t fs)"
    and "r_UpgradeReadiness r = Some u"
  shows "ur_UpgradeContinue u \<longleftrightarrow>
      IsComplete r \<and> (\<forall>f\<in>set fs. EffectiveUpgradeGate f \<noteq> UpgradeGateBlock
                         \<and> EffectiveUpgradeGate f \<noteq> UpgradeGateOperatorDecision)"
proof -
  have wf: "wf_report r" using assms(2) wf_NewReport wf_SetCoverage by blast
  have fs: "r_Findings r = map AssignPriority fs" using assms(2) by simp
  have "(Result r \<noteq> ''INCOMPLETE'') = IsComplete r"
    by (simp add: Result_def resultAndExitCode_def)
  moreover have "upgradeReadinessAnyBlocker (readiness_categories (map AssignPriority fs))
      \<longleftrightarrow> (\<exists>f\<in>set fs. blocks f)"
    using assms(1) by (auto simp: any_blocker_iff known_rules_def list_all_iff)
  moreover have "upgradeReadinessAnyOperatorDecision (map AssignPriority fs)
      \<longleftrightarrow> (\<exists>f\<in>set fs. needs_operator f)"
    by (simp add: upgradeReadinessAnyOperatorDecision_def list_ex_iff needs_operator_def)
  ultimately show ?thesis
    using wf assms(3) fs
    by (auto simp: wf_report_def BuildUpgradeReadinessSummary_def Let_def blocks_def needs_operator_def)
qed

theorem upgrade_continue_sound_witness:
  "known_rules [sample_finding]
   \<and> \<not> ur_UpgradeContinue (the (r_UpgradeReadiness
        (SetCoverage (r_Coverage (NewReport ''1.30'' '''' '''' 1 []))
          (NewReportWithUpgradeContext ''1.30'' '''' '''' ContextUnspecified 1 [sample_finding]))))"
proof -
  have k: "known_rules [sample_finding]"
    by (simp add: known_rules_def HasExplicitCategoryMapping_def sample_finding_def
        categoryByRuleID_def)
  let ?r = "SetCoverage (r_Coverage (NewReport ''1.30'' '''' '''' 1 []))
          (NewReportWithUpgradeContext ''1.30'' '''' '''' ContextUnspecified 1 [sample_finding])"
  have "r_UpgradeReadiness ?r = Some (the (r_UpgradeReadiness ?r))"
    by (simp add: SetCoverage_def Let_def)
  from upgrade_continue_sound [OF k refl this] k show ?thesis
    by (simp add: sample_finding_def EffectiveUpgradeGate_def)
qed

section \<open>Properties of the readiness score\<close>

lemma penalty_bounds:
  "0 \<le> upgradeReadinessCategoryPenalty (category_of fs name)
   \<and> upgradeReadinessCategoryPenalty (category_of fs name) \<le> 25"
  by (auto simp: upgradeReadinessCategoryPenalty_def category_of_def category_status_def Let_def)

lemma penalty_mono:
  assumes "mset fs \<subseteq># mset gs"
  shows "upgradeReadinessCategoryPenalty (category_of fs name)
    \<le> upgradeReadinessCategoryPenalty (category_of gs name)"
proof -
  have le: "length (filter P fs) \<le> length (filter P gs)" for P
    using size_mset_mono [OF multiset_filter_mono [OF assms, of P]]
    by (simp flip: mset_filter)
  from le [of "\<lambda>f. in_category name f \<and> blocks f"] le [of "\<lambda>f. in_category name f \<and> warns f"]
  show ?thesis
    by (auto simp: upgradeReadinessCategoryPenalty_def category_of_def category_status_def Let_def
        simp del: length_greater_0_conv)
qed

lemma readiness_score_eq:
  "readiness_score (readiness_categories fs)
     = max 0 (100 - (\<Sum>name\<leftarrow>categoryOrder. upgradeReadinessCategoryPenalty (category_of fs name)))"
proof -
  have fold: "foldl (\<lambda>s cat. s - upgradeReadinessCategoryPenalty cat) k cats
      = k - (\<Sum>cat\<leftarrow>cats. upgradeReadinessCategoryPenalty cat)" for k cats
    by (induction cats arbitrary: k) auto
  have upd: "upgradeReadinessCategoryPenalty (cat\<lparr>cat_RuleIDs := ids\<rparr>)
      = upgradeReadinessCategoryPenalty cat" for cat ids
    by (simp add: upgradeReadinessCategoryPenalty_def)
  show ?thesis
    by (simp add: readiness_score_def fold readiness_categories_eq o_def upd Let_def)
qed

text \<open>
  The readiness score lies between 0 and 100, and is 100 when there are no findings.
\<close>

theorem readiness_score_bounds:
  "0 \<le> ur_ReadinessScore (BuildUpgradeReadinessSummary fs v)
   \<and> ur_ReadinessScore (BuildUpgradeReadinessSummary fs v) \<le> 100
   \<and> ur_ReadinessScore (BuildUpgradeReadinessSummary [] v) = 100"
proof -
  have "0 \<le> (\<Sum>name\<leftarrow>categoryOrder. upgradeReadinessCategoryPenalty (category_of fs name))"
    using penalty_bounds by (intro sum_list_nonneg) auto
  moreover have "(\<Sum>name\<leftarrow>categoryOrder. upgradeReadinessCategoryPenalty (category_of [] name)) = 0"
    by (simp add: upgradeReadinessCategoryPenalty_def category_of_def category_status_def)
  ultimately show ?thesis
    by (simp add: BuildUpgradeReadinessSummary_def Let_def readiness_score_eq)
qed

text \<open>
  More findings never raise the readiness score, and their order does not matter: if every
  finding of one list occurs (as often) in another, the other list scores at most as high.
\<close>

theorem readiness_score_antimono:
  assumes "mset fs \<subseteq># mset gs"
  shows "ur_ReadinessScore (BuildUpgradeReadinessSummary gs w)
    \<le> ur_ReadinessScore (BuildUpgradeReadinessSummary fs v)"
proof -
  have "(\<Sum>name\<leftarrow>categoryOrder. upgradeReadinessCategoryPenalty (category_of fs name))
      \<le> (\<Sum>name\<leftarrow>categoryOrder. upgradeReadinessCategoryPenalty (category_of gs name))"
    using penalty_mono [OF assms] by (rule sum_list_mono)
  then show ?thesis
    by (simp add: BuildUpgradeReadinessSummary_def Let_def readiness_score_eq)
qed

theorem readiness_score_antimono_witness:
  "ur_ReadinessScore (BuildUpgradeReadinessSummary
       [sample_finding, sample_finding\<lparr>f_RuleID := ''NODE-001''\<rparr>] ''CLEAN'')
     \<le> ur_ReadinessScore (BuildUpgradeReadinessSummary [sample_finding\<lparr>f_RuleID := ''NODE-001''\<rparr>] ''CLEAN'')"
  by (rule readiness_score_antimono) simp

section \<open>The API compatibility scorecard\<close>

definition items_total :: "family_map \<Rightarrow> nat" where
  "items_total m = (\<Sum>(k, item)\<leftarrow>m. item_Count item)"

definition items_positive :: "family_map \<Rightarrow> bool" where
  "items_positive m \<longleftrightarrow> list_all (\<lambda>(k, item). item_Count item > 0) m"

definition api_status :: "nat \<Rightarrow> nat \<Rightarrow> string" where
  "api_status removed deprecated =
     (if removed > 0 then ''Failed'' else if deprecated > 0 then ''Warning'' else ''Passed'')"

definition summary_inv :: "APICompatibilitySummary \<Rightarrow> bool" where
  "summary_inv s \<longleftrightarrow>
     api_Status s = api_status (api_RemovedObjects s) (api_DeprecatedObjects s)
     \<and> (api_UpgradeContinue s \<longleftrightarrow> api_RemovedObjects s = 0)
     \<and> (api_CriticalImpact s \<longrightarrow> api_RemovedObjects s > 0)"

definition api_inv :: "APICompatibilitySummary \<times> family_map \<times> family_map \<Rightarrow> bool" where
  "api_inv st \<longleftrightarrow>
     (case st of (s, removed, deprecated) \<Rightarrow>
       summary_inv s
       \<and> api_RemovedObjects s = items_total removed \<and> items_positive removed
       \<and> api_DeprecatedObjects s = items_total deprecated \<and> items_positive deprecated)"

lemma family_add_total:
  "items_total (addAPICompatibilityFamily m fam f) = Suc (items_total m)"
  unfolding items_total_def
  by (induction m fam f rule: addAPICompatibilityFamily.induct) (auto simp: family_item_add_def)

lemma family_add_positive:
  "items_positive m \<Longrightarrow> items_positive (addAPICompatibilityFamily m fam f)"
  unfolding items_positive_def
  by (induction m fam f rule: addAPICompatibilityFamily.induct) (auto simp: family_item_add_def)

lemma items_total_zero: "items_positive m \<Longrightarrow> items_total m = 0 \<longleftrightarrow> m = []"
  by (cases m) (auto simp: items_positive_def items_total_def)

lemma summary_inv_removed:
  "summary_inv (s\<lparr>api_RemovedObjects := Suc n, api_UpgradeContinue := False,
     api_Status := ''Failed'', api_CriticalImpact := c\<rparr>)"
  by (simp add: summary_inv_def api_status_def)

lemma summary_inv_deprecated:
  "summary_inv s \<Longrightarrow>
   summary_inv (s\<lparr>api_DeprecatedObjects := Suc (api_DeprecatedObjects s),
     api_Status := (if api_Status s = ''Passed'' then ''Warning'' else api_Status s)\<rparr>)"
  by (cases "api_RemovedObjects s"; cases "api_DeprecatedObjects s")
    (simp_all add: summary_inv_def api_status_def)

lemma api_step_inv:
  assumes "api_inv (s, removed, deprecated)"
  shows "api_inv (api_step (s, removed, deprecated) f)"
  using assms summary_inv_deprecated [of s]
  by (simp add: api_inv_def api_step_def Let_def summary_inv_removed family_add_total
      family_add_positive)

lemma foldl_api_inv: "api_inv st \<Longrightarrow> api_inv (foldl api_step st fs)"
proof (induction fs arbitrary: st)
  case (Cons f fs)
  then show ?case using api_step_inv by (cases st) simp
qed simp

lemma score_impact_bounds:
  "- 60 \<le> apiCompatibilityScoreImpact s \<and> apiCompatibilityScoreImpact s \<le> 0"
  by (auto simp: apiCompatibilityScoreImpact_def Let_def)

lemma score_impact_zero:
  "\<not> api_CriticalImpact s \<or> api_RemovedFamilies s \<noteq> [] \<Longrightarrow>
   apiCompatibilityScoreImpact s = 0 \<longleftrightarrow> api_RemovedFamilies s = [] \<and> api_DeprecatedFamilies s = []"
  by (auto simp: apiCompatibilityScoreImpact_def Let_def)

lemma sorted_families_total:
  "(\<Sum>item\<leftarrow>sortedAPICompatibilityFamilies m. item_Count item) = items_total m"
proof -
  have "mset (map item_Count (sortedAPICompatibilityFamilies m))
      = mset (map (\<lambda>(k, item). item_Count item) m)"
    by (simp add: sortedAPICompatibilityFamilies_def multiset.map_comp o_def case_prod_unfold)
  then show ?thesis unfolding items_total_def by (metis sum_mset_sum_list)
qed

lemma sorted_families_empty: "sortedAPICompatibilityFamilies m = [] \<longleftrightarrow> m = []"
proof -
  have "length (sortedAPICompatibilityFamilies m) = length m"
    by (simp add: sortedAPICompatibilityFamilies_def)
  then show ?thesis by (metis length_0_conv)
qed

text \<open>
  The API compatibility scorecard is consistent with itself: its status is \<open>Failed\<close> exactly
  when a removed API is in use (then the upgrade may not continue), \<open>Warning\<close> exactly when only
  deprecated ones are, the families are non-empty exactly when the object counts are and their
  counts add up to them, and the score impact lies between -60 and 0, 0 only for \<open>Passed\<close>.
\<close>

theorem api_compatibility_consistent:
  "let s = BuildAPICompatibilitySummary fs in
     api_Status s = (if api_RemovedObjects s > 0 then ''Failed''
                     else if api_DeprecatedObjects s > 0 then ''Warning'' else ''Passed'')
     \<and> api_UpgradeContinue s = (api_RemovedObjects s = 0)
     \<and> (\<Sum>item\<leftarrow>api_RemovedFamilies s. item_Count item) = api_RemovedObjects s
     \<and> (\<Sum>item\<leftarrow>api_DeprecatedFamilies s. item_Count item) = api_DeprecatedObjects s
     \<and> - 60 \<le> api_ScoreImpact s \<and> api_ScoreImpact s \<le> 0
     \<and> (api_ScoreImpact s = 0) = (api_Status s = ''Passed'')"
proof -
  let ?init = "\<lparr>api_Status = ''Passed'', api_UpgradeContinue = True, api_RemovedObjects = 0,
            api_DeprecatedObjects = 0, api_RemovedFamilies = [], api_DeprecatedFamilies = [],
            api_CriticalImpact = False, api_ScoreImpact = 0\<rparr>"
  obtain s removed deprecated where
    fold: "foldl api_step (?init, [], []) fs = (s, removed, deprecated)"
    by (metis prod_cases3)
  have inv: "api_inv (s, removed, deprecated)"
    unfolding fold [symmetric]
    by (rule foldl_api_inv)
      (simp add: api_inv_def summary_inv_def api_status_def items_total_def items_positive_def)
  define s' where "s' = s\<lparr>api_RemovedFamilies := sortedAPICompatibilityFamilies removed,
     api_DeprecatedFamilies := sortedAPICompatibilityFamilies deprecated\<rparr>"
  have built: "BuildAPICompatibilitySummary fs
      = s'\<lparr>api_ScoreImpact := apiCompatibilityScoreImpact s'\<rparr>"
    by (simp add: BuildAPICompatibilitySummary_def fold s'_def Let_def)
  have families: "api_RemovedFamilies s' = [] \<longleftrightarrow> api_RemovedObjects s' = 0"
    "api_DeprecatedFamilies s' = [] \<longleftrightarrow> api_DeprecatedObjects s' = 0"
    using inv items_total_zero by (auto simp: s'_def sorted_families_empty api_inv_def)
  have s': "summary_inv s'" using inv by (auto simp: api_inv_def summary_inv_def s'_def)
  then have "apiCompatibilityScoreImpact s' = 0 \<longleftrightarrow> api_Status s' = ''Passed''"
    using families by (subst score_impact_zero) (auto simp: summary_inv_def api_status_def)
  moreover have "(\<Sum>item\<leftarrow>api_RemovedFamilies s'. item_Count item) = api_RemovedObjects s'"
    "(\<Sum>item\<leftarrow>api_DeprecatedFamilies s'. item_Count item) = api_DeprecatedObjects s'"
    using inv by (simp_all add: s'_def sorted_families_total api_inv_def)
  ultimately show ?thesis
    using s' score_impact_bounds [of s']
    by (simp add: Let_def built summary_inv_def api_status_def)
qed

section \<open>The namespace allowlist\<close>

text \<open>
  With a non-empty allowlist no finding about another namespace, and none about a namespaced
  object whose namespace is unknown, survives the filter; findings without namespaced references
  always do; the filter keeps the order and applying it twice changes nothing.
\<close>

theorem namespace_filter_sound:
  assumes "ns \<noteq> []"
  shows "(\<forall>f\<in>set (FilterByNamespaceAllowlist fs ns). \<forall>ref\<in>set (f_Resources f).
            ref_Scope ref = ScopeNamespaced \<longrightarrow> ref_Namespace ref \<in> set ns - {''''})
    \<and> (\<forall>f\<in>set fs. (\<forall>ref\<in>set (f_Resources f). ref_Scope ref \<noteq> ScopeNamespaced)
            \<longrightarrow> f \<in> set (FilterByNamespaceAllowlist fs ns))
    \<and> FilterByNamespaceAllowlist (FilterByNamespaceAllowlist fs ns) ns
        = FilterByNamespaceAllowlist fs ns
    \<and> subseq (FilterByNamespaceAllowlist fs ns) fs"
proof -
  have "FilterByNamespaceAllowlist fs' ns = filter (namespace_included ns) fs'" for fs'
    using assms by (simp add: FilterByNamespaceAllowlist_def)
  moreover have "namespace_included ns f \<longleftrightarrow> (\<forall>ref\<in>set (f_Resources f).
      ref_Scope ref = ScopeNamespaced \<longrightarrow> ref_Namespace ref \<in> set ns - {''''})" for f
    by (auto simp: namespace_included_def list_all_iff)
  ultimately show ?thesis by (simp del: filter_filter)
qed

theorem namespace_filter_sound_witness:
  "subseq (FilterByNamespaceAllowlist [sample_finding] [''default'']) [sample_finding]"
  using namespace_filter_sound [of "[''default'']" "[sample_finding]"] by simp

end
