(* ===== verification/EngineFacts.thy ===== *)
theory EngineFacts
  imports Engine ReportFacts
begin

text \<open>
  What the rule engine guarantees: one execution record per known rule, \<open>evaluated\<close> only with
  the evidence at hand and nothing gone wrong, valid findings only, isolation of the rules from
  each other's failures, and the consequences for the report's verdict.
\<close>

section \<open>Dependencies\<close>

definition dependency_states :: "Rule \<Rightarrow> ScanContext option \<Rightarrow> dependencyStateValue set" where
  "dependency_states rule sc = (\<lambda>dep. dependencyState dep sc) ` set (ruleEvidenceDependencies rule sc)"

lemma applicable_iff:
  assumes "ruleEvidenceDependencies rule sc \<noteq> []"
  shows "list_ex (\<lambda>dep. dependencyState dep sc \<noteq> dependencyNotApplicable)
      (ruleEvidenceDependencies rule sc) \<longleftrightarrow> dependency_states rule sc \<noteq> {dependencyNotApplicable}"
proof -
  have "dependency_states rule sc \<noteq> {}" using assms by (simp add: dependency_states_def)
  then have "dependency_states rule sc = {dependencyNotApplicable}
      \<longleftrightarrow> dependency_states rule sc \<subseteq> {dependencyNotApplicable}"
    by (simp add: subset_singleton_iff)
  then show ?thesis by (auto simp: dependency_states_def list_ex_iff)
qed

lemma labels_states [cover_simps]:
  "labels_in_state sc st (ruleEvidenceDependencies rule sc) = []
     \<longleftrightarrow> st \<notin> dependency_states rule sc"
  by (auto simp: labels_in_state_def dependency_states_def filter_empty_conv)

lemma dependency_status_cases:
  "ds_notApplicable (evaluateRuleDependencies rule sc) \<longleftrightarrow>
     dependency_states rule sc = {dependencyNotApplicable}"
  "ds_missingPlane (evaluateRuleDependencies rule sc) \<longleftrightarrow>
     dependencyMissing \<in> dependency_states rule sc"
  "ds_insufficientEvidence (evaluateRuleDependencies rule sc) \<longleftrightarrow>
     dependencyMissing \<notin> dependency_states rule sc \<and> dependencyPartial \<in> dependency_states rule sc"
proof -
  have empty: "dependency_states rule sc = {}" if "ruleEvidenceDependencies rule sc = []"
    using that by (simp add: dependency_states_def)
  show "ds_notApplicable (evaluateRuleDependencies rule sc) \<longleftrightarrow>
      dependency_states rule sc = {dependencyNotApplicable}"
    "ds_missingPlane (evaluateRuleDependencies rule sc) \<longleftrightarrow>
      dependencyMissing \<in> dependency_states rule sc"
    "ds_insufficientEvidence (evaluateRuleDependencies rule sc) \<longleftrightarrow>
      dependencyMissing \<notin> dependency_states rule sc \<and> dependencyPartial \<in> dependency_states rule sc"
    using empty applicable_iff [of rule sc]
    by (cases "ruleEvidenceDependencies rule sc = []";
        force simp: evaluateRuleDependencies_def Let_def no_dependency_problem_def labels_states)+
qed

lemma evidence_at_hand:
  "\<not> ds_notApplicable (evaluateRuleDependencies rule sc)
     \<and> \<not> ds_missingPlane (evaluateRuleDependencies rule sc)
     \<and> \<not> ds_insufficientEvidence (evaluateRuleDependencies rule sc)
   \<longleftrightarrow> dependency_states rule sc = {}
     \<or> dependencyAvailable \<in> dependency_states rule sc
       \<and> dependency_states rule sc \<subseteq> {dependencyAvailable, dependencyNotApplicable}"
proof -
  have "S \<noteq> {dependencyNotApplicable} \<and> dependencyMissing \<notin> S \<and> dependencyPartial \<notin> S
      \<longleftrightarrow> S = {} \<or> dependencyAvailable \<in> S \<and> S \<subseteq> {dependencyAvailable, dependencyNotApplicable}"
    for S :: "dependencyStateValue set"
  proof -
    have "S \<subseteq> {dependencyAvailable, dependencyNotApplicable}
        \<longleftrightarrow> dependencyMissing \<notin> S \<and> dependencyPartial \<notin> S"
    proof
      assume *: "dependencyMissing \<notin> S \<and> dependencyPartial \<notin> S"
      show "S \<subseteq> {dependencyAvailable, dependencyNotApplicable}"
      proof
        fix x assume "x \<in> S"
        with * show "x \<in> {dependencyAvailable, dependencyNotApplicable}" by (cases x) auto
      qed
    qed auto
    then show ?thesis by auto
  qed
  from this [of "dependency_states rule sc"] show ?thesis
    by (auto simp: dependency_status_cases)
qed

lemma states_iff:
  "dependency_states rule sc = {} \<longleftrightarrow> ruleEvidenceDependencies rule sc = []"
  "st \<in> dependency_states rule sc \<longleftrightarrow>
     (\<exists>dep\<in>set (ruleEvidenceDependencies rule sc). dependencyState dep sc = st)"
  "dependency_states rule sc \<subseteq> A \<longleftrightarrow>
     (\<forall>dep\<in>set (ruleEvidenceDependencies rule sc). dependencyState dep sc \<in> A)"
  by (auto simp: dependency_states_def)

section \<open>The rules of the registry\<close>

lemma AllRuleIDs_eq [simp]: "AllRuleIDs = ExpectedRuleIDs"
  by (simp add: AllRuleIDs_def RuleIDs_def NewDefaultRegistry_def default_rules_def
      registered_def ExpectedRuleIDs_def)

lemma find_rule_Some: "find_rule rules ruleID = Some rule \<Longrightarrow> rule \<in> set rules \<and> rule_ID rule = ruleID"
  unfolding find_rule_def by (drule find_SomeD) simp

lemma find_rule_None: "find_rule rules ruleID = None \<longleftrightarrow> ruleID \<notin> set (RuleIDs rules)"
  by (auto simp: find_rule_def find_None_conv RuleIDs_def)

lemma validation_errors_empty: "validation_errors i fs = [] \<longleftrightarrow> (\<forall>f\<in>set fs. Validate f = None)"
  by (induction fs arbitrary: i) (auto split: option.splits)

section \<open>One rule\<close>

text \<open>\<open>clean_run\<close>: the rule returned no error and only valid findings.\<close>

definition clean_run :: "Rule \<Rightarrow> ScanContext option \<Rightarrow> string \<Rightarrow> bool" where
  "clean_run rule sc tv \<longleftrightarrow>
     (\<exists>fs. rule_Evaluate rule sc tv = Returned fs None \<and> (\<forall>f\<in>set fs. Validate f = None))"

lemma rule_errors_empty:
  "evaluateRuleSafely rule sc tv = (fs, err) \<Longrightarrow> rule_errors fs err = [] \<longleftrightarrow> clean_run rule sc tv"
  by (auto simp: evaluateRuleSafely_def clean_run_def rule_errors_def validation_errors_empty
      split: rule_outcome.splits option.splits)

definition run_record ::
  "(rule_error list \<Rightarrow> string) \<Rightarrow> Registry \<Rightarrow> ScanContext option \<Rightarrow> string \<Rightarrow> string
     \<Rightarrow> RuleExecutionRecord" where
  "run_record sanitize rules sc tv ruleID = fst (snd (run_rule sanitize rules sc tv ruleID))"

definition run_kept ::
  "(rule_error list \<Rightarrow> string) \<Rightarrow> Registry \<Rightarrow> ScanContext option \<Rightarrow> string \<Rightarrow> string
     \<Rightarrow> Finding list" where
  "run_kept sanitize rules sc tv ruleID = fst (run_rule sanitize rules sc tv ruleID)"

lemma RunAllWithExecutions_eq:
  "RunAllWithExecutions sanitize rules sc tv = (fs, recs, errs) \<Longrightarrow>
     fs = concat (map (run_kept sanitize rules sc tv) ExpectedRuleIDs)
     \<and> recs = map (run_record sanitize rules sc tv) ExpectedRuleIDs"
  by (auto simp: RunAllWithExecutions_def run_kept_def [abs_def] run_record_def [abs_def] o_def
      case_prod_unfold Let_def)

lemma record_origin:
  assumes "RunAllWithExecutions sanitize rules sc tv = (fs, recs, errs)" and "rec \<in> set recs"
  obtains ruleID where "rec = run_record sanitize rules sc tv ruleID"
  using RunAllWithExecutions_eq [OF assms(1)] assms(2) by auto

lemma run_record_id [simp]: "ex_RuleID (run_record sanitize rules sc tv ruleID) = ruleID"
  by (simp add: run_record_def run_rule_def execution_record_def Let_def
      split: option.split prod.split)

lemma run_record_evaluated:
  "ex_State (run_record sanitize rules sc tv ruleID) = ExecutionEvaluated \<longleftrightarrow>
     (\<exists>rule. find_rule rules ruleID = Some rule \<and> clean_run rule sc tv
        \<and> (dependency_states rule sc = {}
           \<or> dependencyAvailable \<in> dependency_states rule sc
             \<and> dependency_states rule sc \<subseteq> {dependencyAvailable, dependencyNotApplicable}))"
proof (cases "find_rule rules ruleID")
  case None
  then show ?thesis by (simp add: run_record_def run_rule_def execution_record_def)
next
  case (Some rule)
  show ?thesis
    using rule_errors_empty [of rule sc tv] evidence_at_hand [of rule sc]
    by (auto simp: run_record_def run_rule_def Some execution_record_def Let_def
        split: prod.splits if_splits)
qed

lemma run_record_applicable:
  "ex_Applicability (run_record sanitize rules sc tv ruleID) =
     (case find_rule rules ruleID of
        None \<Rightarrow> ApplicabilityNotApplicable
      | Some rule \<Rightarrow>
          if dependency_states rule sc = {dependencyNotApplicable} then ApplicabilityNotApplicable
          else ApplicabilityApplicable)"
  by (auto simp: run_record_def run_rule_def execution_record_def Let_def dependency_status_cases
      split: option.splits prod.splits)

lemma run_kept_valid:
  assumes "f \<in> set (run_kept sanitize rules sc tv ruleID)"
  obtains rule fs err where "find_rule rules ruleID = Some rule"
    "rule_Evaluate rule sc tv = Returned fs err" "f \<in> set fs" "Validate f = None"
    "dependency_states rule sc \<noteq> {dependencyNotApplicable}"
    "dependencyMissing \<notin> dependency_states rule sc"
  using assms
  by (auto simp: run_kept_def run_rule_def Let_def evaluateRuleSafely_def valid_findings_def
      dependency_status_cases split: option.splits if_splits prod.splits rule_outcome.splits)

section \<open>Properties of the engine\<close>

text \<open>
  Whatever the registry and the evidence, a run yields exactly one execution record for every
  rule of the frozen rule universe, in its order: a rule is never missing without a trace.
\<close>

theorem records_cover_universe:
  assumes "RunAllWithExecutions sanitize rules sc tv = (fs, recs, errs)"
  shows "map ex_RuleID recs = ExpectedRuleIDs \<and> distinct (map ex_RuleID recs)"
  using RunAllWithExecutions_eq [OF assms] by (simp add: o_def)

theorem records_cover_universe_witness:
  "map ex_RuleID (fst (snd (RunAllWithExecutions (\<lambda>_. '''') [] None ''1.30''))) = ExpectedRuleIDs"
proof -
  obtain fs recs errs where "RunAllWithExecutions (\<lambda>_. '''') [] None ''1.30'' = (fs, recs, errs)"
    by (metis prod_cases3)
  with records_cover_universe [OF this] show ?thesis by simp
qed

text \<open>
  C8: \<open>evaluated\<close> is proof of evaluation. A record says a rule was evaluated exactly when the rule
  is registered, its \<open>Evaluate\<close> returned without error and panic and with valid findings only,
  and its declared evidence was at hand: it declares none, or none of it is missing or partial
  and some of it is available.
\<close>

theorem evaluated_iff_proven:
  assumes "RunAllWithExecutions sanitize rules sc tv = (fs, recs, errs)"
    and "rec \<in> set recs"
  shows "ex_State rec = ExecutionEvaluated \<longleftrightarrow>
    (\<exists>rule. find_rule rules (ex_RuleID rec) = Some rule
       \<and> (\<exists>out. rule_Evaluate rule sc tv = Returned out None \<and> (\<forall>f\<in>set out. Validate f = None))
       \<and> (ruleEvidenceDependencies rule sc = []
          \<or> (\<exists>dep\<in>set (ruleEvidenceDependencies rule sc). dependencyState dep sc = dependencyAvailable)
            \<and> (\<forall>dep\<in>set (ruleEvidenceDependencies rule sc).
                 dependencyState dep sc \<in> {dependencyAvailable, dependencyNotApplicable})))"
proof -
  obtain ruleID where "rec = run_record sanitize rules sc tv ruleID"
    by (rule record_origin [OF assms])
  then show ?thesis
    by (simp add: run_record_evaluated clean_run_def states_iff)
qed

definition no_evidence_rule :: Rule where
  "no_evidence_rule = \<lparr>rule_ID = ''PDB-001'', rule_Dependencies = None,
     rule_ContextDependencies = None, rule_Evaluate = (\<lambda>_ _. Returned [] None)\<rparr>"

theorem evaluated_iff_proven_witness:
  "\<exists>rec\<in>set (fst (snd (RunAllWithExecutions (\<lambda>_. '''') [no_evidence_rule] None ''1.30''))).
     ex_RuleID rec = ''PDB-001'' \<and> ex_State rec = ExecutionEvaluated"
proof -
  obtain fs recs errs where
    run: "RunAllWithExecutions (\<lambda>_. '''') [no_evidence_rule] None ''1.30'' = (fs, recs, errs)"
    by (metis prod_cases3)
  let ?rec = "run_record (\<lambda>_. '''') [no_evidence_rule] None ''1.30'' ''PDB-001''"
  have "?rec \<in> set recs"
    using RunAllWithExecutions_eq [OF run] by (simp add: ExpectedRuleIDs_def)
  moreover have "ex_State ?rec = ExecutionEvaluated"
    using evaluated_iff_proven [OF run calculation]
    by (simp add: find_rule_def no_evidence_rule_def ruleEvidenceDependencies_def)
  moreover have "ex_RuleID ?rec = ''PDB-001''" by simp
  ultimately show ?thesis unfolding run by fastforce
qed

text \<open>
  C23: Every finding a run returns passes \<open>Validate\<close> and was returned by a registered rule of the
  universe whose evidence was neither out of scope nor missing; invalid findings are dropped and
  the findings of a rule that panicked or was not run are none.
\<close>

theorem returned_findings_valid:
  assumes "RunAllWithExecutions sanitize rules sc tv = (fs, recs, errs)" and "f \<in> set fs"
  shows "Validate f = None
    \<and> (\<exists>rule\<in>set rules. rule_ID rule \<in> set ExpectedRuleIDs
         \<and> (\<exists>out err. rule_Evaluate rule sc tv = Returned out err \<and> f \<in> set out)
         \<and> (\<forall>dep\<in>set (ruleEvidenceDependencies rule sc). dependencyState dep sc \<noteq> dependencyMissing))"
proof -
  obtain ruleID where "ruleID \<in> set ExpectedRuleIDs" "f \<in> set (run_kept sanitize rules sc tv ruleID)"
    using RunAllWithExecutions_eq [OF assms(1)] assms(2) by auto
  then obtain rule out err where rule: "find_rule rules ruleID = Some rule"
    and run: "rule_Evaluate rule sc tv = Returned out err" "f \<in> set out" "Validate f = None"
    and deps: "dependencyMissing \<notin> dependency_states rule sc"
    by (blast elim: run_kept_valid)
  have "rule \<in> set rules" "rule_ID rule \<in> set ExpectedRuleIDs"
    using find_rule_Some [OF rule] \<open>ruleID \<in> set ExpectedRuleIDs\<close> by simp_all
  with run deps show ?thesis by (auto simp: states_iff)
qed

definition valid_finding :: Finding where
  "valid_finding = sample_finding\<lparr>f_Confidence := TierObserved,
     f_Resources := [LiveResource ''PodDisruptionBudget'' ScopeNamespaced ''default'' ''api'' ''uid-a'']\<rparr>"

lemma valid_finding_valid [simp]: "Validate valid_finding = None"
  by (simp add: Validate_def valid_finding_def sample_finding_def empty_finding_def LiveResource_def
      empty_reference_def validate_reference_def break_glass_not_risky_def)

theorem returned_findings_valid_witness:
  "\<exists>fs recs errs. RunAllWithExecutions (\<lambda>_. '''')
       [no_evidence_rule\<lparr>rule_Evaluate := (\<lambda>_ _. Returned [valid_finding, empty_finding] None)\<rparr>]
       None ''1.30'' = (fs, recs, errs)
     \<and> valid_finding \<in> set fs \<and> Validate valid_finding = None"
proof -
  let ?rules = "[no_evidence_rule\<lparr>rule_Evaluate := (\<lambda>_ _. Returned [valid_finding, empty_finding] None)\<rparr>]"
  obtain fs recs errs where
    run: "RunAllWithExecutions (\<lambda>_. '''') ?rules None ''1.30'' = (fs, recs, errs)"
    by (metis prod_cases3)
  have "valid_finding \<in> set (run_kept (\<lambda>_. '''') ?rules None ''1.30'' ''PDB-001'')"
    by (simp add: run_kept_def run_rule_def find_rule_def no_evidence_rule_def Let_def
        evaluateRuleDependencies_def ruleEvidenceDependencies_def evaluateRuleSafely_def
        valid_findings_def no_dependency_problem_def)
  then have "valid_finding \<in> set fs"
    using RunAllWithExecutions_eq [OF run] by (auto simp: ExpectedRuleIDs_def)
  with run returned_findings_valid [OF run this] show ?thesis by blast
qed

subsection \<open>Isolation\<close>

text \<open>Two registries that differ only in the rules with one identifier.\<close>

definition agree_except :: "string \<Rightarrow> Registry \<Rightarrow> Registry \<Rightarrow> bool" where
  "agree_except ruleID rules rules' \<longleftrightarrow>
     filter (\<lambda>rule. rule_ID rule \<noteq> ruleID) rules = filter (\<lambda>rule. rule_ID rule \<noteq> ruleID) rules'"

lemma find_rule_filter:
  "r \<noteq> ruleID \<Longrightarrow> find_rule (filter (\<lambda>rule. rule_ID rule \<noteq> ruleID) rules) r = find_rule rules r"
proof -
  assume "r \<noteq> ruleID"
  then have "find (\<lambda>rule. rule_ID rule = r) (filter (\<lambda>rule. rule_ID rule \<noteq> ruleID) xs)
      = find (\<lambda>rule. rule_ID rule = r) xs" for xs :: Registry
    by (induction xs) auto
  then show ?thesis by (simp add: find_rule_def rev_filter)
qed

text \<open>
  Rules cannot disturb each other. Replace a rule by one that fails, panics or reports anything
  else: every other rule's execution record, and the findings kept from it, stay the same.
\<close>

theorem rule_isolation:
  assumes "agree_except ruleID rules rules'" and "r \<noteq> ruleID"
  shows "run_rule sanitize rules sc tv r = run_rule sanitize rules' sc tv r"
proof -
  have "find_rule rules r = find_rule rules' r"
    using assms find_rule_filter [OF assms(2)] by (metis agree_except_def)
  then show ?thesis by (simp add: run_rule_def)
qed

theorem rule_isolation_witness:
  "run_rule (\<lambda>_. '''') [no_evidence_rule, no_evidence_rule\<lparr>rule_ID := ''PDB-002''\<rparr>] None ''1.30'' ''PDB-001''
   = run_rule (\<lambda>_. '''') [no_evidence_rule,
       no_evidence_rule\<lparr>rule_ID := ''PDB-002'', rule_Evaluate := (\<lambda>_ _. Panicked ''boom'')\<rparr>]
       None ''1.30'' ''PDB-001''"
  by (rule rule_isolation [of "''PDB-002''"]) (simp_all add: agree_except_def)

subsection \<open>Consequences for the verdict\<close>

text \<open>The report of a scan: built from the findings, with the execution records attached and the
  coverage set, as \<open>internal/cli/scan.go\<close> does.\<close>

definition scan_report ::
  "Report \<Rightarrow> RuleExecutionRecord list \<Rightarrow> ScanCoverage \<Rightarrow> Report" where
  "scan_report r recs coverage = SetCoverage coverage (r\<lparr>r_RuleExecutions := recs\<rparr>)"

lemma scan_report_incomplete:
  assumes "rec \<in> set recs" and "ex_Applicability rec = ApplicabilityApplicable"
    and "ex_State rec \<noteq> ExecutionEvaluated" and "\<not> r_RuleExecutionsNormalized r"
  shows "Result (scan_report r recs coverage) = ''INCOMPLETE''
    \<and> ExitCode (scan_report r recs coverage) = 3"
proof -
  have "\<not> IsComplete (scan_report r recs coverage)"
    using assms by (auto simp: IsComplete_def scan_report_def SetCoverage_def Let_def list_ex_iff)
  then show ?thesis by (simp add: Result_def ExitCode_def resultAndExitCode_def)
qed

text \<open>
  C9: A failing rule is never hidden. If a registered rule of the universe whose evidence is in
  scope panics, returns an error, or reports an invalid finding, or if its evidence is missing or
  partial, the report of the scan is INCOMPLETE with exit code 3, however clean all the other
  rules are and whatever the coverage of the planes.
\<close>

theorem failing_rule_incomplete:
  assumes "RunAllWithExecutions sanitize rules sc tv = (fs, recs, errs)"
    and "ruleID \<in> set ExpectedRuleIDs" and "find_rule rules ruleID = Some rule"
    and "dependency_states rule sc \<noteq> {dependencyNotApplicable}"
    and "\<not> clean_run rule sc tv \<or> dependencyMissing \<in> dependency_states rule sc
         \<or> dependencyPartial \<in> dependency_states rule sc"
    and "r = scan_report (NewReportWithUpgradeContext tv cc p uc t fs) recs coverage"
  shows "Result r = ''INCOMPLETE'' \<and> ExitCode r = 3"
proof -
  let ?rec = "run_record sanitize rules sc tv ruleID"
  have "?rec \<in> set recs" using RunAllWithExecutions_eq [OF assms(1)] assms(2) by auto
  moreover have "ex_Applicability ?rec = ApplicabilityApplicable"
    using assms(3,4) by (simp add: run_record_applicable)
  moreover have "ex_State ?rec \<noteq> ExecutionEvaluated"
    using assms(3,5) by (auto simp: run_record_evaluated)
  moreover have "\<not> r_RuleExecutionsNormalized (NewReportWithUpgradeContext tv cc p uc t fs)"
    by (simp add: NewReportWithUpgradeContext_def Let_def)
  ultimately show ?thesis unfolding assms(6) by (rule scan_report_incomplete)
qed

definition panicking_rule :: Rule where
  "panicking_rule = no_evidence_rule\<lparr>rule_Evaluate := (\<lambda>_ _. Panicked ''nil pointer'')\<rparr>"

theorem failing_rule_incomplete_witness:
  "case RunAllWithExecutions (\<lambda>_. '''') [panicking_rule] None ''1.30'' of (fs, recs, errs) \<Rightarrow>
     Result (scan_report (NewReportWithUpgradeContext ''1.30'' '''' '''' ContextUnspecified 0 fs) recs
       \<lparr>sc_Kubernetes = plane_coverage CoverageComplete, sc_AWS = plane_coverage CoverageSkipped,
        sc_Manifests = plane_coverage CoverageSkipped\<rparr>) = ''INCOMPLETE''"
proof -
  obtain fs recs errs where
    run: "RunAllWithExecutions (\<lambda>_. '''') [panicking_rule] None ''1.30'' = (fs, recs, errs)"
    by (metis prod_cases3)
  have "find_rule [panicking_rule] ''PDB-001'' = Some panicking_rule"
    "''PDB-001'' \<in> set ExpectedRuleIDs"
    by (simp_all add: find_rule_def panicking_rule_def no_evidence_rule_def ExpectedRuleIDs_def)
  moreover have "\<not> clean_run panicking_rule None ''1.30''"
    "dependency_states panicking_rule None \<noteq> {dependencyNotApplicable}"
    by (simp_all add: clean_run_def panicking_rule_def dependency_states_def
        ruleEvidenceDependencies_def no_evidence_rule_def)
  ultimately show ?thesis
    using failing_rule_incomplete [OF run] by (simp add: run)
qed

subsection \<open>The manifests-only registry\<close>

definition manifests_context :: "ManifestSnapshot \<Rightarrow> ScanContext" where
  \<comment> \<open>what \<open>scan --manifests-only\<close> builds: neither cluster nor AWS requested\<close>
  "manifests_context m = \<lparr>sc_K8s = None, sc_AWSSnapshot = None, sc_ManifestSnapshot = Some m,
     sc_UpgradeContext = ContextUnset, sc_KubernetesRequested = False, sc_AWSRequested = False,
     sc_ManifestsRequested = True\<rparr>"

lemma manifests_rule_states:
  assumes "rule \<in> set (NewManifestsOnlyRegistry body)" and "m_Errors m = []"
  shows "dependency_states rule (Some (manifests_context m))
    = {dependencyAvailable, dependencyNotApplicable}"
  using assms
  by (auto simp: NewManifestsOnlyRegistry_def registered_def dependency_states_def
      ruleEvidenceDependencies_def API001_dependencies_def API002_dependencies_def
      depDeprecatedAPIUsage_def k8sPrefixDep_def manifestDep_def dependencyState_def
      plane_state_def manifests_context_def)

text \<open>
  A manifests-only scan can be complete. If the manifests were read without error and the two
  rules that read them ran clean, both are recorded as evaluated, the other 29 rules as not
  applicable, and the report is not INCOMPLETE unless a plane's own coverage is partial.
\<close>

theorem manifests_only_complete:
  assumes "RunAllWithExecutions sanitize (NewManifestsOnlyRegistry body)
             (Some (manifests_context m)) tv = (fs, recs, errs)"
    and "m_Errors m = []"
    and "list_all (\<lambda>rule. clean_run rule (Some (manifests_context m)) tv)
           (NewManifestsOnlyRegistry body)"
  shows "(\<forall>rec\<in>set recs.
      (if ex_RuleID rec \<in> {''API-001'', ''API-002''}
       then ex_Applicability rec = ApplicabilityApplicable \<and> ex_State rec = ExecutionEvaluated
       else ex_Applicability rec = ApplicabilityNotApplicable))
    \<and> Result (scan_report (NewReportWithUpgradeContext tv cc p uc t fs) recs
        \<lparr>sc_Kubernetes = plane_coverage CoverageSkipped, sc_AWS = plane_coverage CoverageSkipped,
         sc_Manifests = plane_coverage CoverageComplete\<rparr>) \<noteq> ''INCOMPLETE''"
proof -
  let ?rules = "NewManifestsOnlyRegistry body" and ?sc = "Some (manifests_context m)"
  have ids: "find_rule ?rules ruleID \<noteq> None \<longleftrightarrow> ruleID \<in> {''API-001'', ''API-002''}" for ruleID
    by (simp add: find_rule_None RuleIDs_def NewManifestsOnlyRegistry_def registered_def)
  have each: "if ex_RuleID rec \<in> {''API-001'', ''API-002''}
      then ex_Applicability rec = ApplicabilityApplicable \<and> ex_State rec = ExecutionEvaluated
      else ex_Applicability rec = ApplicabilityNotApplicable" if "rec \<in> set recs" for rec
  proof -
    obtain ruleID where rec: "rec = run_record sanitize ?rules ?sc tv ruleID"
      using record_origin [OF assms(1) \<open>rec \<in> set recs\<close>] by metis
    show ?thesis
    proof (cases "find_rule ?rules ruleID")
      case None
      then show ?thesis using ids [of ruleID] by (simp add: rec run_record_applicable)
    next
      case (Some rule)
      then have rule: "rule \<in> set ?rules" using find_rule_Some by blast
      then have "clean_run rule ?sc tv" using assms(3) by (simp add: list_all_iff)
      then show ?thesis
        using ids [of ruleID] Some manifests_rule_states [OF rule assms(2)]
        by (auto simp: rec run_record_applicable run_record_evaluated)
    qed
  qed
  then have "\<not> (\<exists>rec\<in>set recs. ex_Applicability rec = ApplicabilityApplicable
      \<and> ex_State rec \<noteq> ExecutionEvaluated)"
    by (metis RuleApplicability.distinct(1))
  then have "Result (scan_report (NewReportWithUpgradeContext tv cc p uc t fs) recs
        \<lparr>sc_Kubernetes = plane_coverage CoverageSkipped, sc_AWS = plane_coverage CoverageSkipped,
         sc_Manifests = plane_coverage CoverageComplete\<rparr>) \<noteq> ''INCOMPLETE''"
    by (auto simp: Result_def resultAndExitCode_def IsComplete_def scan_report_def SetCoverage_def
        Let_def list_ex_iff plane_coverage_def)
  with each show ?thesis by blast
qed

theorem manifests_only_complete_witness:
  "case RunAllWithExecutions (\<lambda>_. '''') (NewManifestsOnlyRegistry (\<lambda>_ _ _. Returned [] None))
      (Some (manifests_context empty_manifests)) ''1.30'' of (fs, recs, errs) \<Rightarrow>
     Result (scan_report (NewReportWithUpgradeContext ''1.30'' '''' '''' ContextUnspecified 0 fs) recs
       \<lparr>sc_Kubernetes = plane_coverage CoverageSkipped, sc_AWS = plane_coverage CoverageSkipped,
        sc_Manifests = plane_coverage CoverageComplete\<rparr>) \<noteq> ''INCOMPLETE''"
proof -
  let ?rules = "NewManifestsOnlyRegistry (\<lambda>_ _ _. Returned [] None)"
  obtain fs recs errs where
    run: "RunAllWithExecutions (\<lambda>_. '''') ?rules (Some (manifests_context empty_manifests)) ''1.30''
      = (fs, recs, errs)"
    by (metis prod_cases3)
  have "list_all (\<lambda>rule. clean_run rule (Some (manifests_context empty_manifests)) ''1.30'') ?rules"
    by (simp add: NewManifestsOnlyRegistry_def registered_def clean_run_def)
  with manifests_only_complete [OF run, of "''''" "''''" ContextUnspecified 0] show ?thesis
    by (simp add: run)
qed

subsection \<open>The older loop\<close>

lemma run_findings_eq:
  "run_findings ruleID i (all, firstErr) fs =
     (all @ valid_findings fs,
      if firstErr = None
      then (case validation_errors i fs of [] \<Rightarrow> None | e # _ \<Rightarrow> Some (ruleID, e))
      else firstErr)"
  by (induction fs arbitrary: i all firstErr)
    (auto simp: valid_findings_def split: option.splits list.splits)

text \<open>
  \<open>RunAll\<close> without an error means every registered rule ran clean, and then it returns all
  their findings in registration order.
\<close>

theorem RunAll_no_error:
  assumes "RunAll rules sc tv = Inr (all, None)"
  shows "list_all (\<lambda>rule. clean_run rule sc tv) rules
    \<and> all = concat (map (\<lambda>rule. case rule_Evaluate rule sc tv of Returned fs _ \<Rightarrow> fs
                                   | Panicked _ \<Rightarrow> []) rules)"
proof -
  have "firstErr = None \<and> list_all (\<lambda>rule. clean_run rule sc tv) rules
      \<and> all = acc @ concat (map (\<lambda>rule. case rule_Evaluate rule sc tv of Returned fs _ \<Rightarrow> fs
                                   | Panicked _ \<Rightarrow> []) rules)"
    if "runAll_loop rules sc tv (acc, firstErr) = Inr (all, None)" for acc firstErr
    using that
  proof (induction rules arbitrary: acc firstErr)
    case (Cons rule rules)
    obtain fs err where ev: "rule_Evaluate rule sc tv = Returned fs err"
      using Cons.prems by (cases "rule_Evaluate rule sc tv") auto
    from Cons.IH Cons.prems have "err = None" "firstErr = None" "validation_errors 0 fs = []"
      "list_all (\<lambda>rule. clean_run rule sc tv) rules"
      "all = acc @ valid_findings fs @ concat (map (\<lambda>rule. case rule_Evaluate rule sc tv of
           Returned fs _ \<Rightarrow> fs | Panicked _ \<Rightarrow> []) rules)"
      by (fastforce simp: ev run_findings_eq Let_def split: option.splits if_splits list.splits)+
    then show ?case
      by (auto simp: ev clean_run_def valid_findings_def validation_errors_empty filter_id_conv)
  qed simp
  from this [of "[]" None] assms show ?thesis by (simp add: RunAll_def)
qed

theorem RunAll_no_error_witness:
  "RunAll [no_evidence_rule] None ''1.30'' = Inr ([], None)
   \<and> clean_run no_evidence_rule None ''1.30''"
proof -
  have "RunAll [no_evidence_rule] None ''1.30'' = Inr ([], None)"
    by (simp add: RunAll_def no_evidence_rule_def)
  with RunAll_no_error [OF this] show ?thesis by simp
qed

end
