(* ===== verification/Contextual.thy ===== *)
theory Contextual
  imports Cluster
begin

text \<open>
  How the upgrade context turns a finding into a gate: \<open>internal/rules/contextual.go\<close>, with the
  operational impacts of \<open>internal/compatcatalog/catalog.go\<close>.
\<close>

datatype OperationalImpact =
    OperationalImpactControlPlaneDependency | OperationalImpactWorkerRolloutDependency
  | OperationalImpactNetworkingDataPlane | OperationalImpactStorageDataPlane
  | OperationalImpactClusterDNS | OperationalImpactAdmissionAPI
  | OperationalImpactWorkloadDependency | OperationalImpactOptionalEcosystem
  | OperationalImpactOperatorReview | OperationalImpactUnknown | OperationalImpactOther string

definition scanUpgradeContext :: "ScanContext option \<Rightarrow> UpgradeContext" where
  "scanUpgradeContext sc =
     (case sc of
        None \<Rightarrow> ContextUnspecified
      | Some s \<Rightarrow> if sc_UpgradeContext s = ContextUnset then ContextUnspecified
                  else sc_UpgradeContext s)"

definition drainDependentGate :: "UpgradeContext \<Rightarrow> Severity \<times> UpgradeGate" where
  "drainDependentGate ctx =
     (if ctx = ContextWorkerRollout \<or> ctx = ContextFullPlatformUpgrade
      then (SeverityBlocker, UpgradeGateBlock)
      else if ctx = ContextAuditOnly \<or> ctx = ContextControlPlaneOnly
      then (SeverityWarning, UpgradeGateAllow)
      else (SeverityWarning, UpgradeGateOperatorDecision))"

definition currentHealthGate :: "UpgradeContext \<Rightarrow> bool \<Rightarrow> bool \<Rightarrow> Severity \<times> UpgradeGate" where
  "currentHealthGate ctx criticalInfra zeroReady =
     (if zeroReady \<and> criticalInfra
         \<and> (ctx = ContextWorkerRollout \<or> ctx = ContextFullPlatformUpgrade)
      then (SeverityBlocker, UpgradeGateBlock)
      else if ctx = ContextControlPlaneOnly \<and> \<not> criticalInfra
      then (SeverityWarning, UpgradeGateAllow)
      else if ctx = ContextAuditOnly then (SeverityWarning, UpgradeGateOperatorDecision)
      else if ctx = ContextWorkerRollout \<or> ctx = ContextFullPlatformUpgrade
              \<or> ctx = ContextWorkloadRestart \<or> ctx = ContextUnspecified \<or> criticalInfra
      then (SeverityWarning, UpgradeGateOperatorDecision)
      else (SeverityWarning, UpgradeGateAllow))"

definition eksControlPlanePreconditionGate :: "UpgradeContext \<Rightarrow> Severity \<times> UpgradeGate" where
  "eksControlPlanePreconditionGate ctx =
     (if ctx = ContextControlPlaneOnly \<or> ctx = ContextFullPlatformUpgrade
      then (SeverityBlocker, UpgradeGateBlock)
      else if ctx = ContextAuditOnly then (SeverityWarning, UpgradeGateAllow)
      else (SeverityWarning, UpgradeGateOperatorDecision))"

definition hasAnyOperationalImpact ::
  "OperationalImpact list \<Rightarrow> OperationalImpact list \<Rightarrow> bool" where
  "hasAnyOperationalImpact impacts matches = list_ex (\<lambda>impact. impact \<in> set matches) impacts"

text \<open>The scope of one impact; \<open>None\<close> for a value outside the declared constants.\<close>

fun impact_scope_of :: "OperationalImpact \<Rightarrow> ImpactScope option" where
  "impact_scope_of OperationalImpactControlPlaneDependency = Some ImpactControlPlaneUpgrade"
| "impact_scope_of OperationalImpactWorkerRolloutDependency = Some ImpactWorkerRollout"
| "impact_scope_of OperationalImpactNetworkingDataPlane = Some ImpactWorkloadRestart"
| "impact_scope_of OperationalImpactStorageDataPlane = Some ImpactWorkloadRestart"
| "impact_scope_of OperationalImpactClusterDNS = Some ImpactWorkloadRestart"
| "impact_scope_of OperationalImpactWorkloadDependency = Some ImpactWorkloadRestart"
| "impact_scope_of OperationalImpactAdmissionAPI = Some ImpactAPIWrite"
| "impact_scope_of OperationalImpactOptionalEcosystem = Some ImpactFutureMaintenance"
| "impact_scope_of OperationalImpactOperatorReview = Some ImpactFutureMaintenance"
| "impact_scope_of OperationalImpactUnknown = Some ImpactFutureMaintenance"
| "impact_scope_of (OperationalImpactOther _) = None"

definition addonImpactScopes :: "OperationalImpact list \<Rightarrow> ImpactScope list" where
  "addonImpactScopes impacts =
     foldl (\<lambda>out impact. case impact_scope_of impact of
                           Some scope \<Rightarrow> append_unique out scope | None \<Rightarrow> out) [] impacts"

definition control_plane_impacts :: "OperationalImpact list" where
  "control_plane_impacts =
     [OperationalImpactControlPlaneDependency, OperationalImpactAdmissionAPI,
      OperationalImpactClusterDNS]"

definition worker_rollout_impacts :: "OperationalImpact list" where
  "worker_rollout_impacts =
     [OperationalImpactWorkerRolloutDependency, OperationalImpactNetworkingDataPlane,
      OperationalImpactStorageDataPlane, OperationalImpactClusterDNS]"

definition full_platform_impacts :: "OperationalImpact list" where
  "full_platform_impacts =
     [OperationalImpactControlPlaneDependency, OperationalImpactWorkerRolloutDependency,
      OperationalImpactNetworkingDataPlane, OperationalImpactStorageDataPlane,
      OperationalImpactClusterDNS, OperationalImpactAdmissionAPI,
      OperationalImpactWorkloadDependency]"

definition block_if :: "bool \<Rightarrow> Severity \<times> UpgradeGate" where
  "block_if b = (if b then (SeverityBlocker, UpgradeGateBlock)
                 else (SeverityWarning, UpgradeGateOperatorDecision))"

definition addonCompatibilityGate ::
  "UpgradeContext \<Rightarrow> OperationalImpact list \<Rightarrow> Severity \<times> UpgradeGate \<times> ImpactScope list" where
  "addonCompatibilityGate ctx impacts0 =
     (let impacts = (if length impacts0 = 0 then [OperationalImpactUnknown] else impacts0);
          (severity, gate) =
            (case ctx of
               ContextAuditOnly \<Rightarrow> (SeverityWarning, UpgradeGateAllow)
             | ContextControlPlaneOnly \<Rightarrow>
                 block_if (hasAnyOperationalImpact impacts control_plane_impacts)
             | ContextWorkerRollout \<Rightarrow>
                 block_if (hasAnyOperationalImpact impacts worker_rollout_impacts)
             | ContextFullPlatformUpgrade \<Rightarrow>
                 block_if (hasAnyOperationalImpact impacts full_platform_impacts)
             | _ \<Rightarrow> (SeverityWarning, UpgradeGateOperatorDecision))
      in (severity, gate, addonImpactScopes impacts))"

section \<open>Properties of the gates\<close>

text \<open>How much a gate holds up an upgrade.\<close>

fun gate_rank :: "UpgradeGate \<Rightarrow> nat" where
  "gate_rank UpgradeGateBlock = 2"
| "gate_rank UpgradeGateOperatorDecision = 1"
| "gate_rank _ = 0"

lemmas gate_defs = drainDependentGate_def currentHealthGate_def eksControlPlanePreconditionGate_def
  addonCompatibilityGate_def block_if_def Let_def

lemma addonImpactScopes_set:
  "set (addonImpactScopes impacts) = {s. \<exists>i\<in>set impacts. impact_scope_of i = Some s}"
proof -
  have "set (foldl (\<lambda>out impact. case impact_scope_of impact of
        Some scope \<Rightarrow> append_unique out scope | None \<Rightarrow> out) out impacts)
      = set out \<union> {s. \<exists>i\<in>set impacts. impact_scope_of i = Some s}" for out
    by (induction impacts arbitrary: out) (auto split: option.splits)
  then show ?thesis by (simp add: addonImpactScopes_def)
qed

text \<open>
  The severity of a contextual finding says what its gate does: it is Blocker exactly when the
  gate blocks, and otherwise Warning, for every gate function, context and impact; and an
  unspecified context never blocks and never lets a finding through without a decision.
\<close>

theorem contextual_gate_severity:
  "(sg \<in> {drainDependentGate ctx, eksControlPlanePreconditionGate ctx,
           currentHealthGate ctx criticalInfra zeroReady,
           (fst (addonCompatibilityGate ctx impacts), fst (snd (addonCompatibilityGate ctx impacts)))}
     \<longrightarrow> fst sg = (if snd sg = UpgradeGateBlock then SeverityBlocker else SeverityWarning)
       \<and> (ctx = ContextUnspecified \<longrightarrow> snd sg = UpgradeGateOperatorDecision)
       \<and> (ctx = ContextAuditOnly \<longrightarrow> snd sg \<noteq> UpgradeGateBlock))"
  by (cases ctx) (auto simp: gate_defs)

text \<open>
  The full platform upgrade is the strictest context: no context gives a finding a stronger
  gate, for every gate function and every list of declared impacts.
\<close>

theorem full_platform_strictest:
  assumes "list_all (\<lambda>i. impact_scope_of i \<noteq> None) impacts"
  shows "gate_rank (snd (drainDependentGate ctx)) \<le> gate_rank (snd (drainDependentGate ContextFullPlatformUpgrade))
    \<and> gate_rank (snd (eksControlPlanePreconditionGate ctx))
        \<le> gate_rank (snd (eksControlPlanePreconditionGate ContextFullPlatformUpgrade))
    \<and> gate_rank (snd (currentHealthGate ctx criticalInfra zeroReady))
        \<le> gate_rank (snd (currentHealthGate ContextFullPlatformUpgrade criticalInfra zeroReady))
    \<and> gate_rank (fst (snd (addonCompatibilityGate ctx impacts)))
        \<le> gate_rank (fst (snd (addonCompatibilityGate ContextFullPlatformUpgrade impacts)))
    \<and> addonImpactScopes (if impacts = [] then [OperationalImpactUnknown] else impacts) \<noteq> []"
proof -
  have "hasAnyOperationalImpact is control_plane_impacts \<Longrightarrow> hasAnyOperationalImpact is full_platform_impacts"
    "hasAnyOperationalImpact is worker_rollout_impacts \<Longrightarrow> hasAnyOperationalImpact is full_platform_impacts"
    for "is"
    by (auto simp: hasAnyOperationalImpact_def list_ex_iff control_plane_impacts_def
        worker_rollout_impacts_def full_platform_impacts_def)
  then have "gate_rank (fst (snd (addonCompatibilityGate ctx impacts)))
        \<le> gate_rank (fst (snd (addonCompatibilityGate ContextFullPlatformUpgrade impacts)))"
    by (cases ctx) (auto simp: addonCompatibilityGate_def block_if_def Let_def)
  moreover have "gate_rank (snd (currentHealthGate ctx criticalInfra zeroReady))
        \<le> gate_rank (snd (currentHealthGate ContextFullPlatformUpgrade criticalInfra zeroReady))"
    by (auto simp: currentHealthGate_def)
  moreover have "addonImpactScopes (if impacts = [] then [OperationalImpactUnknown] else impacts) \<noteq> []"
    (is "addonImpactScopes ?impacts \<noteq> []")
  proof -
    obtain i s where "i \<in> set ?impacts" and "impact_scope_of i = Some s"
      using assms by (cases impacts) auto
    then have "s \<in> set (addonImpactScopes ?impacts)" unfolding addonImpactScopes_set by blast
    then show ?thesis by (cases "addonImpactScopes ?impacts") auto
  qed
  ultimately show ?thesis
    by (simp add: drainDependentGate_def eksControlPlanePreconditionGate_def)
qed

theorem full_platform_strictest_witness:
  "gate_rank (fst (snd (addonCompatibilityGate ContextWorkerRollout [OperationalImpactClusterDNS])))
     \<le> gate_rank (fst (snd (addonCompatibilityGate ContextFullPlatformUpgrade
            [OperationalImpactClusterDNS])))"
  using full_platform_strictest [of "[OperationalImpactClusterDNS]" ContextWorkerRollout] by simp

end
