(* ===== verification/Plan.thy ===== *)
theory Plan
  imports EngineFacts Contextual
begin

text \<open>
  The upgrade plan: \<open>internal/plan/classify.go\<close>, \<open>plan.go\<close> and \<open>action_plan.go\<close> (the hops
  themselves are in theory \<open>Versions\<close>). Which rules may be projected to future hops, the plan's
  verdict and exit code, and the four-phase action plan.
\<close>

section \<open>Projection policies\<close>

datatype RuleProjectionPolicy =
  ProjectFromManifests | ProjectFromFreshAWSQuery | CarryForwardOnly

definition RulePolicy :: "(string \<times> RuleProjectionPolicy) list" where
  "RulePolicy =
     [(''API-001'', ProjectFromManifests),
      (''API-002'', ProjectFromManifests),
      (''ADDON-001'', ProjectFromFreshAWSQuery),
      (''ADDON-002'', ProjectFromFreshAWSQuery),
      (''EKS-NG-001'', CarryForwardOnly),
      (''EKS-NG-002'', CarryForwardOnly),
      (''EKS-NG-003'', CarryForwardOnly),
      (''EKS-NG-004'', CarryForwardOnly),
      (''EKS-INSIGHT-001'', ProjectFromFreshAWSQuery),
      (''EKS-INSIGHT-002'', ProjectFromFreshAWSQuery),
      (''EKS-INSIGHT-003'', ProjectFromFreshAWSQuery),
      (''WH-001'', CarryForwardOnly),
      (''WH-002'', CarryForwardOnly),
      (''WH-004'', CarryForwardOnly),
      (''WH-005'', CarryForwardOnly),
      (''WORKLOAD-001'', CarryForwardOnly),
      (''PDB-001'', CarryForwardOnly),
      (''PDB-002'', CarryForwardOnly),
      (''DRAIN-001'', CarryForwardOnly),
      (''DRAIN-002'', CarryForwardOnly),
      (''DRAIN-003'', CarryForwardOnly),
      (''DRAIN-004'', CarryForwardOnly),
      (''DRAIN-005'', CarryForwardOnly),
      (''NODE-001'', CarryForwardOnly),
      (''NODE-002'', CarryForwardOnly),
      (''NODE-003'', CarryForwardOnly),
      (''NET-002'', CarryForwardOnly),
      (''COREDNS-001'', CarryForwardOnly),
      (''CRD-001'', CarryForwardOnly),
      (''CRD-002'', CarryForwardOnly),
      (''APISERVICE-001'', CarryForwardOnly)]"

definition PolicyFor :: "string \<Rightarrow> RuleProjectionPolicy" where
  "PolicyFor ruleID =
     (case map_of RulePolicy ruleID of Some policy \<Rightarrow> policy | None \<Rightarrow> CarryForwardOnly)"

section \<open>The action plan\<close>

definition ActionPlanSchemaVersion :: string where
  "ActionPlanSchemaVersion = ''kubepreflight.io/upgrade-action-plan/v1''"

definition ActionStatusRequired :: string where "ActionStatusRequired = ''required''"
definition ActionStatusRecommended :: string where "ActionStatusRecommended = ''recommended''"
definition ActionStatusBlocked :: string where "ActionStatusBlocked = ''blocked''"
definition ActionStatusReady :: string where "ActionStatusReady = ''ready''"
definition ActionStatusManual :: string where "ActionStatusManual = ''manual''"

record PlanAction =
  pa_ID :: string
  pa_Title :: string
  pa_Required :: bool
  pa_Status :: string
  pa_Reason :: string
  pa_SourceRuleIDs :: "string list"
  pa_SuccessCriteria :: "string list"
  pa_Commands :: "string list"

record ActionPhase =
  ph_ID :: string
  ph_Title :: string
  ph_Description :: string
  ph_Gate :: string
  ph_Actions :: "PlanAction list"

record UpgradeActionPlan =
  ap_SchemaVersion :: string
  ap_Verdict :: string
  ap_GeneratedAt :: time
  ap_Phases :: "ActionPhase list"

definition isDowngrade :: "Report option \<Rightarrow> bool" where
  "isDowngrade r =
     (case r of
        None \<Rightarrow> False
      | Some rep \<Rightarrow>
          r_CurrentVersion rep \<noteq> ''''
          \<and> CompareMinorVersions (r_CurrentVersion rep) (r_TargetVersion rep) = Inr VersionDowngrade)"

definition actionPlanVerdict :: "Report option \<Rightarrow> bool \<Rightarrow> string" where
  "actionPlanVerdict r blocked =
     (if (case r of None \<Rightarrow> False | Some rep \<Rightarrow> \<not> IsComplete rep) then ''ASSESSMENT_INCOMPLETE''
      else if blocked then ''BLOCKED'' else ''READY'')"

definition report_findings :: "Report option \<Rightarrow> Finding list" where
  "report_findings r = (case r of None \<Rightarrow> [] | Some rep \<Rightarrow> r_Findings rep)"

text \<open>\<open>presentRuleIDs\<close>: the keys of the map \<open>seen\<close>, sorted.\<close>

definition presentRuleIDs :: "Report option \<Rightarrow> string list \<Rightarrow> string list" where
  "presentRuleIDs r ruleIDs =
     sort_strings (append_all_unique []
       (filter (\<lambda>id. id \<in> set ruleIDs) (map f_RuleID (report_findings r))))"

definition hasBlockerForRules :: "Report option \<Rightarrow> string list \<Rightarrow> bool" where
  "hasBlockerForRules r ruleIDs =
     list_ex (\<lambda>f. f_RuleID f \<in> set ruleIDs \<and> EffectiveUpgradeGate f = UpgradeGateBlock)
       (report_findings r)"

definition hasBlockingPhase1Action :: "PlanAction list \<Rightarrow> bool" where
  "hasBlockingPhase1Action actions =
     list_ex (\<lambda>a. pa_Required a \<and> pa_Status a = ActionStatusRequired) actions"

subsection \<open>Phase 1\<close>

record actionTemplate =
  at_id :: string
  at_title :: string
  at_sourceRuleIDs :: "string list"
  at_optionalWhenOnlyWarnings :: bool
  at_successCriteria :: "string list"
  at_commands :: "string list"

definition template_fix_api_compatibility :: actionTemplate where
  "template_fix_api_compatibility =
     \<lparr>at_id = ''fix-api-compatibility'', at_title = ''Fix removed or deprecated API usage'',
      at_sourceRuleIDs = [''API-001'', ''API-002'', ''CRD-001'', ''CRD-002'', ''APISERVICE-001''],
      at_optionalWhenOnlyWarnings = True,
      at_successCriteria =
        [''All manifests and live resources use APIs served by the target Kubernetes version.'',
         ''Re-run KubePreflight and confirm no API compatibility findings remain.''],
      at_commands =
        []\<rparr>"

definition template_fix_eks_critical_insights :: actionTemplate where
  "template_fix_eks_critical_insights =
     \<lparr>at_id = ''fix-eks-critical-insights'', at_title = ''Resolve EKS critical upgrade insights'',
      at_sourceRuleIDs = [''EKS-INSIGHT-001''],
      at_optionalWhenOnlyWarnings = False,
      at_successCriteria =
        [''AWS EKS Upgrade Insights no longer reports ERROR upgrade-readiness findings.'',
         ''Re-run KubePreflight with AWS enrichment enabled.''],
      at_commands =
        []\<rparr>"

definition template_fix_fail_closed_webhooks :: actionTemplate where
  "template_fix_fail_closed_webhooks =
     \<lparr>at_id = ''fix-fail-closed-webhooks'', at_title = ''Fix fail-closed admission webhooks'',
      at_sourceRuleIDs = [''WH-001'', ''WH-002'', ''WH-004'', ''WH-005''],
      at_optionalWhenOnlyWarnings = False,
      at_successCriteria =
        [''Admission webhooks have healthy endpoints and scoped rules.'',
         ''kubectl apply, patch, scale, and Helm operations are not blocked by webhook failures.''],
      at_commands =
        [''kubectl get validatingwebhookconfigurations,mutatingwebhookconfigurations'',
         ''kubectl get endpointslices,endpoints --all-namespaces'']\<rparr>"

definition template_resolve_disruption_risk :: actionTemplate where
  "template_resolve_disruption_risk =
     \<lparr>at_id = ''resolve-disruption-risk'', at_title = ''Resolve disruption budget and unhealthy workload risks'',
      at_sourceRuleIDs = [''PDB-001'', ''PDB-002'', ''DRAIN-001''],
      at_optionalWhenOnlyWarnings = False,
      at_successCriteria =
        [''Workloads protected by PodDisruptionBudgets can tolerate at least one voluntary disruption.'',
         ''Unhealthy workloads are repaired before node drains or managed node group upgrades.'',
         ''Single-replica Deployments/StatefulSets have real eviction headroom or an explicitly documented waiver.''],
      at_commands =
        [''kubectl get pdb --all-namespaces'', ''kubectl get pods --all-namespaces'']\<rparr>"

definition template_resolve_node_local_storage_risk :: actionTemplate where
  "template_resolve_node_local_storage_risk =
     \<lparr>at_id = ''resolve-node-local-storage-risk'', at_title = ''Resolve node-local storage evacuation risk'',
      at_sourceRuleIDs = [''DRAIN-002''],
      at_optionalWhenOnlyWarnings = True,
      at_successCriteria =
        [''Workloads using hostPath or node-pinned PersistentVolumes have a documented drain/migration plan, or have moved to networked storage.''],
      at_commands =
        [''kubectl get pv -o wide'', ''kubectl get pvc --all-namespaces'']\<rparr>"

definition template_resolve_scheduling_constraint_risk :: actionTemplate where
  "template_resolve_scheduling_constraint_risk =
     \<lparr>at_id = ''resolve-scheduling-constraint-risk'', at_title = ''Resolve hard scheduling constraint risk'',
      at_sourceRuleIDs = [''DRAIN-003''],
      at_optionalWhenOnlyWarnings = True,
      at_successCriteria =
        [''Node affinity/selector, anti-affinity, topology spread, and hostPort constraints have enough qualifying nodes/domains to survive a node drain.''],
      at_commands =
        [''kubectl get nodes --show-labels'', ''kubectl describe node <node>'']\<rparr>"

definition template_resolve_unhealthy_workloads :: actionTemplate where
  "template_resolve_unhealthy_workloads =
     \<lparr>at_id = ''resolve-unhealthy-workloads'', at_title = ''Resolve unhealthy workloads before upgrade'',
      at_sourceRuleIDs = [''WORKLOAD-001''],
      at_optionalWhenOnlyWarnings = True,
      at_successCriteria =
        [''Pre-existing unhealthy workloads are fixed or explicitly waived before the change window.'',
         ''Post-upgrade validation owners know which workload health issues predated the upgrade.''],
      at_commands =
        [''kubectl get pods --all-namespaces'',
         ''kubectl get events --all-namespaces --sort-by=.lastTimestamp'']\<rparr>"

definition template_resolve_statefulset_daemonset_readiness :: actionTemplate where
  "template_resolve_statefulset_daemonset_readiness =
     \<lparr>at_id = ''resolve-statefulset-daemonset-readiness'', at_title = ''Resolve StatefulSet/DaemonSet rollout health'',
      at_sourceRuleIDs = [''DRAIN-005''],
      at_optionalWhenOnlyWarnings = True,
      at_successCriteria =
        [''StatefulSets and DaemonSets have all desired replicas/pods Ready before starting or continuing a node drain.''],
      at_commands =
        [''kubectl get statefulsets,daemonsets --all-namespaces'',
         ''kubectl get pods --all-namespaces -o wide'']\<rparr>"

definition template_replace_deprecated_master_node_label :: actionTemplate where
  "template_replace_deprecated_master_node_label =
     \<lparr>at_id = ''replace-deprecated-master-node-label'', at_title = ''Replace deprecated master node label selectors'',
      at_sourceRuleIDs = [''NODE-003''],
      at_optionalWhenOnlyWarnings = True,
      at_successCriteria =
        [''No live or manifest pod templates reference node-role.kubernetes.io/master in node selectors, node affinity, or tolerations.'',
         ''Target nodes carry the replacement node-role.kubernetes.io/control-plane label or an approved platform-owned label before selectors are changed.''],
      at_commands =
        [''kubectl get nodes --show-labels | grep -E 'node-role.kubernetes.io/(master|control-plane)'' @ [CHR 0x27],
         ''kubectl get deploy,daemonset --all-namespaces -o yaml'']\<rparr>"

definition template_resolve_not_ready_nodes :: actionTemplate where
  "template_resolve_not_ready_nodes =
     \<lparr>at_id = ''resolve-not-ready-nodes'', at_title = ''Resolve NotReady nodes'',
      at_sourceRuleIDs = [''NODE-001''],
      at_optionalWhenOnlyWarnings = False,
      at_successCriteria =
        [''All nodes are Ready before starting the upgrade.'',
         ''Node drain and scheduling capacity are healthy.''],
      at_commands =
        [''kubectl get nodes'']\<rparr>"

definition template_resolve_node_capacity_risk :: actionTemplate where
  "template_resolve_node_capacity_risk =
     \<lparr>at_id = ''resolve-node-capacity-risk'', at_title = ''Resolve estimated node-capacity shortage'',
      at_sourceRuleIDs = [''DRAIN-004''],
      at_optionalWhenOnlyWarnings = True,
      at_successCriteria =
        [''Remaining nodes have enough estimated spare CPU/memory to absorb any one node's workloads if it's removed, or a cluster autoscaler is confirmed to add capacity during drains.''],
      at_commands =
        [''kubectl describe nodes | grep -A5 'Allocated resources'' @ [CHR 0x27],
         ''kubectl top nodes'']\<rparr>"

definition template_fix_coredns_health :: actionTemplate where
  "template_fix_coredns_health =
     \<lparr>at_id = ''fix-coredns-health'', at_title = ''Fix CoreDNS health'',
      at_sourceRuleIDs = [''COREDNS-001''],
      at_optionalWhenOnlyWarnings = False,
      at_successCriteria =
        [''CoreDNS pods are available and ready.'',
         ''DNS lookups from workloads succeed before the upgrade window.''],
      at_commands =
        [''kubectl -n kube-system get deploy,pods -l k8s-app=kube-dns'']\<rparr>"

definition action_templates :: "actionTemplate list" where
  "action_templates =
     [template_fix_api_compatibility,
      template_fix_eks_critical_insights,
      template_fix_fail_closed_webhooks,
      template_resolve_disruption_risk,
      template_resolve_node_local_storage_risk,
      template_resolve_scheduling_constraint_risk,
      template_resolve_unhealthy_workloads,
      template_resolve_statefulset_daemonset_readiness,
      template_replace_deprecated_master_node_label,
      template_resolve_not_ready_nodes,
      template_resolve_node_capacity_risk,
      template_fix_coredns_health]"

definition template_action :: "Report option \<Rightarrow> actionTemplate \<Rightarrow> PlanAction option" where
  "template_action r tmpl =
     (let sourceRuleIDs = presentRuleIDs r (at_sourceRuleIDs tmpl)
      in if length sourceRuleIDs = 0 then None
         else
           let optional = at_optionalWhenOnlyWarnings tmpl \<and> \<not> hasBlockerForRules r sourceRuleIDs
           in Some \<lparr>pa_ID = at_id tmpl, pa_Title = at_title tmpl, pa_Required = (\<not> optional),
                    pa_Status = (if optional then ActionStatusRecommended else ActionStatusRequired),
                    pa_Reason =
                      (if optional
                       then ''Recommended because matching warning findings were detected in the current assessment.''
                       else ''Required because matching findings were detected in the current assessment.''),
                    pa_SourceRuleIDs = sourceRuleIDs,
                    pa_SuccessCriteria = at_successCriteria tmpl,
                    pa_Commands = at_commands tmpl\<rparr>)"

definition criticalBlockerActions :: "Report option \<Rightarrow> PlanAction list" where
  "criticalBlockerActions r = List.map_filter (template_action r) action_templates"

subsection \<open>Phases 2, 3 and 4\<close>

definition plan_action ::
  "string \<Rightarrow> string \<Rightarrow> bool \<Rightarrow> string \<Rightarrow> string \<Rightarrow> string list \<Rightarrow> string list \<Rightarrow> string list
     \<Rightarrow> PlanAction" where
  "plan_action ident title req status reason sources criteria commands =
     \<lparr>pa_ID = ident, pa_Title = title, pa_Required = req, pa_Status = status, pa_Reason = reason,
      pa_SourceRuleIDs = sources, pa_SuccessCriteria = criteria, pa_Commands = commands\<rparr>"

definition upgradePreparationPhase :: "Report option \<Rightarrow> ActionPhase" where
  "upgradePreparationPhase r =
     \<lparr>ph_ID = ''phase-2-upgrade-preparation'', ph_Title = ''Phase 2 - Upgrade Preparation'',
      ph_Description = ''Confirm the operational prerequisites for a controlled upgrade window.'',
      ph_Gate = ''Proceed only after the change owner confirms every required preparation action.'',
      ph_Actions =
        [plan_action ''verify-backups'' ''Verify backups and control-plane recovery strategy'' True
           ActionStatusManual '''' []
           [''Backup and recovery ownership is documented in the change ticket.''] [],
         plan_action ''confirm-rollback-plan'' ''Confirm rollback and abort plan'' True
           ActionStatusManual '''' []
           [''Rollback triggers and abort criteria are documented before the window starts.''] [],
         plan_action ''check-node-readiness'' ''Check node readiness'' True ActionStatusManual ''''
           (presentRuleIDs r [''NODE-001'', ''NODE-002'', ''EKS-NG-001'', ''EKS-NG-002'',
              ''EKS-NG-003'', ''EKS-NG-004''])
           [''Nodes and managed node groups are healthy enough to drain and replace safely.'']
           [''kubectl get nodes''],
         plan_action ''validate-addon-compatibility'' ''Validate add-on compatibility'' True
           ActionStatusManual ''''
           (presentRuleIDs r [''ADDON-001'', ''ADDON-002'', ''COREDNS-001'', ''EKS-INSIGHT-002'',
              ''EKS-INSIGHT-003''])
           [''Cluster add-ons are compatible with the target Kubernetes version.''] [],
         plan_action ''confirm-maintenance-window'' ''Confirm maintenance window'' True
           ActionStatusManual '''' []
           [''The window covers control-plane, node, add-on, and validation work.''] [],
         plan_action ''confirm-workload-owner-approval'' ''Confirm workload owner approval'' True
           ActionStatusManual '''' []
           [''Application owners acknowledge expected disruption risk and validation responsibilities.'']
           []]\<rparr>"

definition upgradeExecutionPhase :: "bool \<Rightarrow> ActionPhase" where
  "upgradeExecutionPhase blocked =
     (let status = (if blocked then ActionStatusBlocked else ActionStatusReady);
          reason = (if blocked then ''Blocked until critical upgrade blockers are resolved.'' else '''')
      in \<lparr>ph_ID = ''phase-3-upgrade'', ph_Title = ''Phase 3 - Upgrade'',
          ph_Description = ''Execute the control-plane, node, and add-on upgrade steps.'',
          ph_Gate = ''Do not start this phase while any action is blocked.'',
          ph_Actions =
            [plan_action ''upgrade-control-plane'' ''Upgrade control plane'' True status reason []
               [''Control plane reports the target Kubernetes version and API health is normal.''] [],
             plan_action ''upgrade-worker-nodes'' ''Upgrade managed node groups or worker nodes'' True
               status reason []
               [''All worker nodes are on supported kubelet versions and Ready.''] [],
             plan_action ''upgrade-addons'' ''Upgrade cluster add-ons'' True status reason []
               [''CoreDNS, kube-proxy, CNI, and provider-managed add-ons are healthy.''] [],
             plan_action ''restart-workloads-if-required'' ''Restart or roll workloads if required''
               False status reason []
               [''Workloads affected by node replacement or add-on changes are available.''] []]\<rparr>)"

definition validationPhase :: ActionPhase where
  "validationPhase =
     \<lparr>ph_ID = ''phase-4-validation'', ph_Title = ''Phase 4 - Validation'',
      ph_Description = ''Prove cluster and application health after the upgrade.'',
      ph_Gate = ''Close the change only after validation owners confirm these checks.'',
      ph_Actions =
        [plan_action ''validate-dns'' ''Validate DNS'' True ActionStatusManual '''' []
           [''Service discovery and external DNS paths resolve successfully.''] [],
         plan_action ''validate-ingress'' ''Validate ingress'' True ActionStatusManual '''' []
           [''Ingress, gateway, and load balancer routes serve expected traffic.''] [],
         plan_action ''validate-workload-health'' ''Validate workload health'' True
           ActionStatusManual '''' []
           [''Deployments, StatefulSets, DaemonSets, and critical pods are healthy.''] [],
         plan_action ''validate-metrics'' ''Validate metrics'' True ActionStatusManual '''' []
           [''Metrics pipelines show normal scrape and ingestion behavior.''] [],
         plan_action ''validate-logs'' ''Validate logs'' True ActionStatusManual '''' []
           [''Application and platform logs show no upgrade-related error spike.''] [],
         plan_action ''run-smoke-tests'' ''Run smoke tests'' True ActionStatusManual '''' []
           [''Business-critical smoke tests pass after the upgrade.''] []]\<rparr>"

definition BuildActionPlan :: "Report option \<Rightarrow> time \<Rightarrow> UpgradeActionPlan" where
  "BuildActionPlan r now =
     (if isDowngrade r
      then \<lparr>ap_SchemaVersion = ActionPlanSchemaVersion, ap_Verdict = ''DOWNGRADE_NOT_SUPPORTED'',
            ap_GeneratedAt = now, ap_Phases = []\<rparr>
      else
        let phase1Actions = criticalBlockerActions r;
            blocked = hasBlockingPhase1Action phase1Actions
        in \<lparr>ap_SchemaVersion = ActionPlanSchemaVersion,
            ap_Verdict = actionPlanVerdict r blocked, ap_GeneratedAt = now,
            ap_Phases =
              [\<lparr>ph_ID = ''phase-1-critical-blockers'', ph_Title = ''Phase 1 - Critical Blockers'',
                ph_Description = ''Fix findings that can prevent a safe upgrade or make upgrade remediation fail.'',
                ph_Gate = ''Phase 3 is blocked until every required action in this phase is resolved.'',
                ph_Actions = phase1Actions\<rparr>,
               upgradePreparationPhase r, upgradeExecutionPhase blocked, validationPhase]\<rparr>)"

section \<open>The plan\<close>

datatype HopStatus = HopStatusExact | HopStatusPredicted

record CarryForwardNote =
  cf_RuleID :: string
  cf_Reason :: string
  cf_RecommendedCommand :: string

record HopReport =
  hr_Hop :: Hop
  hr_Status :: HopStatus
  hr_Report :: "Report option"
  hr_CarryForward :: "CarryForwardNote list"

record PlanReport =
  pr_SchemaVersion :: string
  pr_ClusterContext :: string
  pr_Provider :: string
  pr_FromVersion :: string
  pr_FromVersionSource :: string
  pr_ToVersion :: string
  pr_GeneratedAt :: time
  pr_Hops :: "HopReport list"
  pr_ActionPlan :: "UpgradeActionPlan option"

datatype plan_error = NoHops | NoHop1Report | HopError Hop string

fun assess_hops ::
  "(Hop \<Rightarrow> string + HopReport) \<Rightarrow> Hop list \<Rightarrow> plan_error + HopReport list" where
  "assess_hops assess [] = Inr []"
| "assess_hops assess (hop # hops) =
     (case assess hop of
        Inl e \<Rightarrow> Inl (HopError hop e)
      | Inr hr \<Rightarrow>
          (case assess_hops assess hops of Inl e \<Rightarrow> Inl e | Inr hrs \<Rightarrow> Inr (hr # hrs)))"

definition BuildPlan ::
  "string \<Rightarrow> string \<Rightarrow> string \<Rightarrow> string \<Rightarrow> string \<Rightarrow> Hop list \<Rightarrow> Report option
     \<Rightarrow> (Hop \<Rightarrow> string + HopReport) \<Rightarrow> time \<Rightarrow> plan_error + PlanReport" where
  "BuildPlan clusterContext provider fromVersion fromVersionSource toVersion hops hop1Report
     assessFutureHop now =
     (case hops of
        [] \<Rightarrow> Inl NoHops
      | hop1 # rest \<Rightarrow>
          if hop1Report = None then Inl NoHop1Report
          else
            (case assess_hops assessFutureHop rest of
               Inl e \<Rightarrow> Inl e
             | Inr future \<Rightarrow>
                 Inr \<lparr>pr_SchemaVersion = SchemaVersion, pr_ClusterContext = clusterContext,
                      pr_Provider = provider, pr_FromVersion = fromVersion,
                      pr_FromVersionSource = fromVersionSource, pr_ToVersion = toVersion,
                      pr_GeneratedAt = now,
                      pr_Hops = \<lparr>hr_Hop = hop1, hr_Status = HopStatusExact,
                                  hr_Report = hop1Report, hr_CarryForward = []\<rparr> # future,
                      pr_ActionPlan = Some (BuildActionPlan hop1Report now)\<rparr>))"

definition first_hop_report :: "PlanReport \<Rightarrow> Report option" where
  "first_hop_report p = (case pr_Hops p of [] \<Rightarrow> None | hr # _ \<Rightarrow> hr_Report hr)"

definition OverallExitCode :: "PlanReport \<Rightarrow> int" where
  "OverallExitCode p = (case first_hop_report p of None \<Rightarrow> 0 | Some r \<Rightarrow> ExitCode r)"

definition Verdict :: "PlanReport \<Rightarrow> string \<times> string" where
  "Verdict p =
     (case first_hop_report p of
        None \<Rightarrow> (''READY'', ''No known upgrade blockers detected'')
      | Some r \<Rightarrow>
          if \<not> IsComplete r
          then (''ASSESSMENT INCOMPLETE'',
                if sum_Blockers (r_Summary r) > 0
                then ''Assessment incomplete; '' @ show_nat (sum_Blockers (r_Summary r))
                       @ '' blocker(s) observed with available evidence. One or more evidence sources could not be collected ''
                       @ [CHR 0xE2, CHR 0x80, CHR 0x94]
                       @ '' resolve coverage errors and rerun.''
                else ''One or more evidence sources could not be collected; resolve coverage errors and rerun'')
          else if list_ex f_GlobalBlocker (r_Findings r)
          then (''NOT READY FOR UPGRADE'', ''Global API write blocker detected'')
          else if Result r = ''BLOCKED''
          then (''NOT READY FOR UPGRADE'', show_nat (sum_Blockers (r_Summary r)) @ '' blocker(s) found'')
          else if Result r = ''PASSED_WITH_WARNINGS''
          then (''CONDITIONALLY READY'',
                ''No hard blockers, but '' @ show_nat (sum_Warnings (r_Summary r))
                  @ '' warning(s) should be reviewed'')
          else (''READY'', ''No known upgrade blockers detected''))"

end
