(* ===== verification/PlanFacts.thy ===== *)
theory PlanFacts
  imports Plan
begin

text \<open>
  What the plan guarantees: one policy per rule, the plan's verdict and exit code are those of the
  immediate hop, the execution phase is blocked exactly when a required action is open, and an
  action only ever cites rules that have findings.
\<close>

section \<open>The verdict of the plan\<close>

text \<open>The verdict of a scan in the words of the plan.\<close>

definition plan_label :: "string \<Rightarrow> string" where
  "plan_label result =
     (if result = ''INCOMPLETE'' then ''ASSESSMENT INCOMPLETE''
      else if result = ''BLOCKED'' then ''NOT READY FOR UPGRADE''
      else if result = ''PASSED_WITH_WARNINGS'' then ''CONDITIONALLY READY'' else ''READY'')"

lemma Result_incomplete: "Result r = ''INCOMPLETE'' \<longleftrightarrow> \<not> IsComplete r"
  by (simp add: Result_def resultAndExitCode_def)

text \<open>
  The plan, its exit code and the scan of the immediate hop cannot disagree. For a report the
  program built in which no finding is a global blocker with a gate that lets the upgrade go on,
  the plan's label is the scan's verdict, whatever the future hops say; and the plan's exit code
  is the scan's.
\<close>

theorem plan_verdict_agrees:
  assumes "BuildPlan cc p fv fvs tv hops (Some r) assess now = Inr plan"
    and "wf_report r"
    and "list_all (\<lambda>f. f_GlobalBlocker f \<longrightarrow> EffectiveUpgradeGate f = UpgradeGateBlock) (r_Findings r)"
  shows "fst (Verdict plan) = plan_label (Result r) \<and> OverallExitCode plan = ExitCode r"
proof -
  have first: "first_hop_report plan = Some r"
    using assms(1) by (auto simp: BuildPlan_def first_hop_report_def split: list.splits sum.splits)
  have "Result r = ''BLOCKED''" if "IsComplete r" "list_ex f_GlobalBlocker (r_Findings r)"
    using that assms(3) by (auto simp: Result_wf [OF assms(2)] list_ex_iff list_all_iff blocks_def)
  then have "fst (Verdict plan) = plan_label (Result r)"
    using Result_incomplete [of r]
    by (auto simp: Verdict_def first plan_label_def)
  then show ?thesis by (simp add: OverallExitCode_def first)
qed

theorem plan_verdict_agrees_witness:
  "\<exists>plan. BuildPlan '''' '''' ''1.30'' ''flag'' ''1.31'' [\<lparr>hop_Index = 1, hop_From = ''1.30'', hop_To = ''1.31''\<rparr>]
      (Some (NewReport ''1.31'' '''' '''' 0 [sample_finding])) (\<lambda>_. Inl '''') 0 = Inr plan
    \<and> fst (Verdict plan) = ''CONDITIONALLY READY''"
proof -
  let ?r = "NewReport ''1.31'' '''' '''' 0 [sample_finding]"
  obtain plan where plan: "BuildPlan '''' '''' ''1.30'' ''flag'' ''1.31''
      [\<lparr>hop_Index = 1, hop_From = ''1.30'', hop_To = ''1.31''\<rparr>] (Some ?r) (\<lambda>_. Inl '''') 0 = Inr plan"
    by (simp add: BuildPlan_def)
  have wf: "wf_report ?r" by (simp add: NewReport_def wf_NewReport)
  have fs: "r_Findings ?r = [AssignPriority sample_finding]" by (simp add: NewReport_def)
  have sample: "EffectiveUpgradeGate sample_finding = UpgradeGateOperatorDecision"
    "\<not> f_GlobalBlocker sample_finding"
    by (simp_all add: sample_finding_def EffectiveUpgradeGate_def empty_finding_def)
  have "IsComplete ?r"
    by (simp add: NewReport_def NewReportWithUpgradeContext_def Let_def IsComplete_def
        plane_coverage_def)
  then have "Result ?r = ''PASSED_WITH_WARNINGS''"
    using sample by (simp add: Result_wf [OF wf] fs blocks_def needs_operator_def)
  moreover have "list_all (\<lambda>f. f_GlobalBlocker f \<longrightarrow> EffectiveUpgradeGate f = UpgradeGateBlock)
      (r_Findings ?r)"
    using sample by (simp add: fs)
  ultimately show ?thesis
    using plan plan_verdict_agrees [OF plan wf] by (simp add: plan_label_def)
qed

lemma assess_hops_Inr:
  "assess_hops assess hops = Inr hrs \<longleftrightarrow> list_all2 (\<lambda>hop hr. assess hop = Inr hr) hops hrs"
proof (induction hops arbitrary: hrs)
  case (Cons a hops)
  show ?case
  proof (cases "assess a")
    case Inr_a: (Inr hr)
    show ?thesis
    proof (cases "assess_hops assess hops")
      case (Inl e)
      then have "\<not> list_all2 (\<lambda>hop hr. assess hop = Inr hr) hops zs" for zs
        using Cons.IH [of zs] by simp
      then show ?thesis by (simp add: Inr_a Inl list_all2_Cons1)
    next
      case (Inr rest)
      then have "list_all2 (\<lambda>hop hr. assess hop = Inr hr) hops zs \<longleftrightarrow> rest = zs" for zs
        using Cons.IH [of zs] by simp
      then show ?thesis by (auto simp: Inr_a Inr list_all2_Cons1)
    qed
  qed (simp add: list_all2_Cons1)
qed auto

lemma assess_hops_Inl:
  "(\<exists>e. assess_hops assess hops = Inl e) \<longleftrightarrow> (\<exists>hop\<in>set hops. \<exists>e. assess hop = Inl e)"
  by (induction hops) (auto split: sum.splits)

text \<open>
  A plan has one hop report per hop, in order, and only the first is a real scan: it is marked
  exact and carries the scan's report; planning fails exactly when there is no hop, no report, or
  a future hop cannot be assessed.
\<close>

theorem plan_hops:
  "(\<forall>plan. BuildPlan cc p fv fvs tv hops r assess now = Inr plan \<longrightarrow>
      (\<exists>hop1 rest future. hops = hop1 # rest
         \<and> pr_Hops plan = \<lparr>hr_Hop = hop1, hr_Status = HopStatusExact, hr_Report = r,
                             hr_CarryForward = []\<rparr> # future
         \<and> list_all2 (\<lambda>hop hr. assess hop = Inr hr) rest future)
      \<and> pr_ActionPlan plan = Some (BuildActionPlan r now))
   \<and> ((\<exists>e. BuildPlan cc p fv fvs tv hops r assess now = Inl e) \<longleftrightarrow>
        hops = [] \<or> r = None \<or> (\<exists>hop\<in>set (tl hops). \<exists>e. assess hop = Inl e))"
proof (cases hops)
  case (Cons hop1 rest)
  show ?thesis
  proof (cases "assess_hops assess rest")
    case (Inl e)
    then have "\<exists>hop\<in>set rest. \<exists>e. assess hop = Inl e" using assess_hops_Inl by blast
    then show ?thesis by (auto simp: BuildPlan_def Cons Inl)
  next
    case (Inr future)
    then have "\<not> (\<exists>hop\<in>set rest. \<exists>e. assess hop = Inl e)"
      using assess_hops_Inl [of assess rest] by simp
    moreover have "list_all2 (\<lambda>hop hr. assess hop = Inr hr) rest future"
      using Inr assess_hops_Inr by blast
    ultimately show ?thesis by (auto simp: BuildPlan_def Cons Inr)
  qed
qed (simp add: BuildPlan_def)

text \<open>
  Every rule of the registry has an explicit projection policy, so none is projected to a
  future hop, or held back, by default; a rule without an entry would be carried forward only.
\<close>

theorem every_rule_has_policy:
  "(\<forall>r\<in>set AllRuleIDs. map_of RulePolicy r = Some (PolicyFor r))
   \<and> set (map fst RulePolicy) = set AllRuleIDs
   \<and> PolicyFor unlisted = (if unlisted \<in> set AllRuleIDs then the (map_of RulePolicy unlisted)
                           else CarryForwardOnly)"
proof -
  have rules: "set (map fst RulePolicy) = set AllRuleIDs"
    by (simp add: RulePolicy_def ExpectedRuleIDs_def insert_commute)
  then have "map_of RulePolicy r \<noteq> None \<longleftrightarrow> r \<in> set AllRuleIDs" for r
    by (simp add: map_of_eq_None_iff flip: rules)
  then show ?thesis using rules by (metis PolicyFor_def option.case_eq_if option.collapse)
qed

section \<open>The action plan\<close>

lemma presentRuleIDs_set:
  "set (presentRuleIDs r ids) = f_RuleID ` set (report_findings r) \<inter> set ids"
  by (auto simp: presentRuleIDs_def)

lemma presentRuleIDs_sorted: "sorted (presentRuleIDs r ids) \<and> distinct (presentRuleIDs r ids)"
  by (simp add: presentRuleIDs_def)

lemma hasBlockerForRules_present:
  "hasBlockerForRules r (presentRuleIDs r ids) = hasBlockerForRules r ids"
  by (auto simp: hasBlockerForRules_def presentRuleIDs_set list_ex_iff)

text \<open>A template that yields a required action.\<close>

definition template_blocks :: "Report option \<Rightarrow> actionTemplate \<Rightarrow> bool" where
  "template_blocks r tmpl \<longleftrightarrow>
     (\<exists>f\<in>set (report_findings r). f_RuleID f \<in> set (at_sourceRuleIDs tmpl)
        \<and> (EffectiveUpgradeGate f = UpgradeGateBlock \<or> \<not> at_optionalWhenOnlyWarnings tmpl))"

lemma blocking_phase1:
  "hasBlockingPhase1Action (criticalBlockerActions r)
     \<longleftrightarrow> (\<exists>tmpl\<in>set action_templates. template_blocks r tmpl)"
proof -
  have "(\<exists>a. template_action r tmpl = Some a \<and> pa_Required a \<and> pa_Status a = ActionStatusRequired)
      \<longleftrightarrow> template_blocks r tmpl" for tmpl
  proof -
    have "presentRuleIDs r (at_sourceRuleIDs tmpl) \<noteq> [] \<longleftrightarrow>
        (\<exists>f\<in>set (report_findings r). f_RuleID f \<in> set (at_sourceRuleIDs tmpl))"
      using presentRuleIDs_set [of r "at_sourceRuleIDs tmpl"] by (auto simp flip: set_empty)
    then show ?thesis
      unfolding template_action_def template_blocks_def Let_def hasBlockerForRules_present
        hasBlockerForRules_def list_ex_iff
      using presentRuleIDs_set [of r "at_sourceRuleIDs tmpl"]
      by (cases "presentRuleIDs r (at_sourceRuleIDs tmpl) = []";
          cases "at_optionalWhenOnlyWarnings tmpl")
        (auto simp: ActionStatusRequired_def ActionStatusRecommended_def)
  qed
  then show ?thesis
    by (auto simp: hasBlockingPhase1Action_def criticalBlockerActions_def list_ex_iff
        set_map_filter) blast+
qed

text \<open>
  C14: The action plan's gate. Unless the report is a downgrade, which gets no phases at all, the
  plan has four phases; the actions of the execution phase are all blocked when some action of
  phase 1 is required, and all ready otherwise; and then, on complete evidence, the plan's verdict
  is BLOCKED or READY accordingly.
\<close>

theorem action_plan_gate:
  assumes "plan = BuildActionPlan r now"
  shows "(isDowngrade r \<longrightarrow> ap_Phases plan = [] \<and> ap_Verdict plan = ''DOWNGRADE_NOT_SUPPORTED'')
    \<and> (\<not> isDowngrade r \<longrightarrow>
        map ph_ID (ap_Phases plan) = [''phase-1-critical-blockers'', ''phase-2-upgrade-preparation'',
          ''phase-3-upgrade'', ''phase-4-validation'']
        \<and> (\<forall>a\<in>set (ph_Actions (ap_Phases plan ! 2)). pa_Status a =
             (if list_ex pa_Required (ph_Actions (ap_Phases plan ! 0)) then ''blocked'' else ''ready''))
        \<and> ap_Verdict plan =
             (if \<exists>rep. r = Some rep \<and> \<not> IsComplete rep then ''ASSESSMENT_INCOMPLETE''
              else if list_ex pa_Required (ph_Actions (ap_Phases plan ! 0)) then ''BLOCKED''
              else ''READY''))"
proof (cases "isDowngrade r")
  case False
  have req: "pa_Status a = ActionStatusRequired \<longleftrightarrow> pa_Required a" if "template_action r tmpl = Some a" for a tmpl
    using that by (auto simp: template_action_def Let_def ActionStatusRequired_def
        ActionStatusRecommended_def split: if_splits)
  have "hasBlockingPhase1Action (criticalBlockerActions r)
      \<longleftrightarrow> list_ex pa_Required (criticalBlockerActions r)"
    using req by (auto simp: hasBlockingPhase1Action_def criticalBlockerActions_def list_ex_iff
        set_map_filter)
  with False show ?thesis
    by (auto simp: assms BuildActionPlan_def Let_def upgradePreparationPhase_def
        upgradeExecutionPhase_def validationPhase_def actionPlanVerdict_def plan_action_def
        ActionStatusBlocked_def ActionStatusReady_def split: option.splits)
qed (simp add: assms BuildActionPlan_def)

theorem action_plan_gate_witness:
  "ap_Verdict (BuildActionPlan (Some (NewReport ''1.31'' '''' '''' 0 [])) 0) = ''READY''"
proof -
  let ?r = "NewReport ''1.31'' '''' '''' 0 []"
  have "\<not> isDowngrade (Some ?r)" "IsComplete ?r"
    by (simp_all add: isDowngrade_def NewReport_def NewReportWithUpgradeContext_def Let_def
        IsComplete_def plane_coverage_def)
  moreover have "criticalBlockerActions (Some ?r) = []"
    by (simp add: criticalBlockerActions_def List.map_filter_def template_action_def
        presentRuleIDs_def report_findings_def NewReport_def sort_strings_def)
  ultimately show ?thesis
    using action_plan_gate [OF refl, of "Some ?r" 0] by (simp add: BuildActionPlan_def Let_def)
qed

text \<open>
  The action plan fabricates nothing. Every action of phase 1 cites at least one rule, and
  every rule an action of any phase cites has a finding in the report; the cited rules are sorted
  and distinct.
\<close>

theorem action_plan_sources:
  assumes "phase \<in> set (ap_Phases (BuildActionPlan r now))" and "a \<in> set (ph_Actions phase)"
  shows "set (pa_SourceRuleIDs a) \<subseteq> f_RuleID ` set (report_findings r)
    \<and> sorted (pa_SourceRuleIDs a) \<and> distinct (pa_SourceRuleIDs a)
    \<and> (ph_ID phase = ''phase-1-critical-blockers'' \<longrightarrow> pa_SourceRuleIDs a \<noteq> [])"
proof -
  have cites: "set (presentRuleIDs r ids) \<subseteq> f_RuleID ` set (report_findings r)
      \<and> sorted (presentRuleIDs r ids) \<and> distinct (presentRuleIDs r ids)" for ids
    using presentRuleIDs_set presentRuleIDs_sorted by auto
  have template: "pa_SourceRuleIDs a \<noteq> [] \<and> (\<exists>ids. pa_SourceRuleIDs a = presentRuleIDs r ids)"
    if "a \<in> set (criticalBlockerActions r)" for a
    using that by (auto simp: criticalBlockerActions_def set_map_filter template_action_def
        Let_def split: if_splits)
  have prep: "pa_SourceRuleIDs a = [] \<or> (\<exists>ids. pa_SourceRuleIDs a = presentRuleIDs r ids)"
    if "a \<in> set (ph_Actions (upgradePreparationPhase r))" for a
    using that by (auto simp: upgradePreparationPhase_def plan_action_def)
  have rest: "pa_SourceRuleIDs a = []"
    if "a \<in> set (ph_Actions (upgradeExecutionPhase b)) \<union> set (ph_Actions validationPhase)" for a b
    using that by (auto simp: upgradeExecutionPhase_def validationPhase_def plan_action_def Let_def)
  have ids: "ph_ID (upgradePreparationPhase r) \<noteq> ''phase-1-critical-blockers''"
    "ph_ID (upgradeExecutionPhase b) \<noteq> ''phase-1-critical-blockers''"
    "ph_ID validationPhase \<noteq> ''phase-1-critical-blockers''" for b
    by (simp_all add: upgradePreparationPhase_def upgradeExecutionPhase_def validationPhase_def Let_def)
  from assms(1) consider "ph_Actions phase = criticalBlockerActions r"
    | "phase = upgradePreparationPhase r" | b where "phase = upgradeExecutionPhase b"
    | "phase = validationPhase"
    by (auto simp: BuildActionPlan_def Let_def split: if_splits)
  then show ?thesis
  proof cases
    case 1
    then obtain ids where "pa_SourceRuleIDs a = presentRuleIDs r ids" "pa_SourceRuleIDs a \<noteq> []"
      using assms(2) template [of a] by auto
    with cites [of ids] show ?thesis by simp
  next
    case 2
    then show ?thesis
      using assms(2) prep [of a] ids cites by (metis empty_iff empty_set sorted_wrt.simps(1) distinct.simps(1) subsetI)
  next
    case (3 b)
    then show ?thesis using assms(2) rest [of a b] ids by simp
  next
    case 4
    then show ?thesis using assms(2) rest [of a] ids by simp
  qed
qed

definition pdb_report :: Report where
  "pdb_report = NewReport ''1.31'' '''' '''' 0 [sample_finding]"

theorem action_plan_sources_witness:
  "\<exists>a. a \<in> set (criticalBlockerActions (Some pdb_report))
     \<and> pa_ID a = ''resolve-disruption-risk'' \<and> pa_SourceRuleIDs a \<noteq> []"
proof -
  have fs: "report_findings (Some pdb_report) = [AssignPriority sample_finding]"
    "f_RuleID sample_finding = ''PDB-001''" "\<not> isDowngrade (Some pdb_report)"
    by (simp_all add: report_findings_def pdb_report_def NewReport_def)
      (simp_all add: sample_finding_def isDowngrade_def NewReportWithUpgradeContext_def Let_def)
  have "presentRuleIDs (Some pdb_report) [''PDB-001'', ''PDB-002'', ''DRAIN-001''] = [''PDB-001'']"
    by (simp add: presentRuleIDs_def fs append_unique_def sort_strings_def)
  then obtain a where a: "template_action (Some pdb_report) template_resolve_disruption_risk = Some a"
    "pa_ID a = ''resolve-disruption-risk''"
    by (simp add: template_action_def template_resolve_disruption_risk_def Let_def)
  let ?phase = "hd (ap_Phases (BuildActionPlan (Some pdb_report) 0))"
  have "a \<in> set (criticalBlockerActions (Some pdb_report))"
    unfolding criticalBlockerActions_def set_map_filter
    using a(1) by (auto simp: action_templates_def)
  moreover have "?phase \<in> set (ap_Phases (BuildActionPlan (Some pdb_report) 0))"
    "ph_Actions ?phase = criticalBlockerActions (Some pdb_report)"
    "ph_ID ?phase = ''phase-1-critical-blockers''"
    by (simp_all add: BuildActionPlan_def fs Let_def)
  ultimately show ?thesis
    using action_plan_sources [of ?phase "Some pdb_report" 0 a] a(2) by auto
qed

text \<open>The rules some template of phase 1 mentions.\<close>

definition phase1_rules :: "string list" where
  "phase1_rules = concat (map at_sourceRuleIDs action_templates)"

lemma phase1_rules_eq:
  "phase1_rules = [''API-001'', ''API-002'', ''CRD-001'', ''CRD-002'', ''APISERVICE-001'',
     ''EKS-INSIGHT-001'', ''WH-001'', ''WH-002'', ''WH-004'', ''WH-005'', ''PDB-001'', ''PDB-002'',
     ''DRAIN-001'', ''DRAIN-002'', ''DRAIN-003'', ''WORKLOAD-001'', ''DRAIN-005'', ''NODE-003'',
     ''NODE-001'', ''DRAIN-004'', ''COREDNS-001'']"
  by (simp add: phase1_rules_def action_templates_def template_fix_api_compatibility_def
      template_fix_eks_critical_insights_def template_fix_fail_closed_webhooks_def
      template_resolve_disruption_risk_def template_resolve_node_local_storage_risk_def
      template_resolve_scheduling_constraint_risk_def template_resolve_unhealthy_workloads_def
      template_resolve_statefulset_daemonset_readiness_def
      template_replace_deprecated_master_node_label_def template_resolve_not_ready_nodes_def
      template_resolve_node_capacity_risk_def template_fix_coredns_health_def)

lemma phase1_blocking_rule:
  assumes "f \<in> set (report_findings r)" and "f_RuleID f \<in> set phase1_rules"
    and "EffectiveUpgradeGate f = UpgradeGateBlock"
  shows "\<exists>tmpl\<in>set action_templates. template_blocks r tmpl"
  using assms by (auto simp: template_blocks_def phase1_rules_def)

text \<open>
  C15: A finding that blocks the upgrade keeps the action plan from saying READY, provided its rule
  is one that phase 1 has a template for: API-001 and -002, CRD, APISERVICE, EKS-INSIGHT-001, WH,
  PDB, DRAIN, WORKLOAD, NODE-001, NODE-003 and COREDNS. For any other rule nothing is promised:
  a report whose only finding is a blocking one of such a rule is BLOCKED, yet its action plan
  is READY with every execution step ready.
\<close>

theorem action_plan_blocking_rules:
  assumes "\<not> isDowngrade (Some r)" and "f \<in> set (r_Findings r)"
    and "EffectiveUpgradeGate f = UpgradeGateBlock"
  shows "(f_RuleID f \<in> set phase1_rules \<longrightarrow> ap_Verdict (BuildActionPlan (Some r) now) \<noteq> ''READY'')
    \<and> (r_Findings r = [f] \<and> IsComplete r \<and> f_RuleID f \<notin> set phase1_rules
        \<longrightarrow> ap_Verdict (BuildActionPlan (Some r) now) = ''READY'')"
proof -
  have fs: "report_findings (Some r) = r_Findings r" by (simp add: report_findings_def)
  have "hasBlockingPhase1Action (criticalBlockerActions (Some r))" if "f_RuleID f \<in> set phase1_rules"
    unfolding blocking_phase1 by (rule phase1_blocking_rule) (use assms that fs in auto)
  moreover have "\<not> hasBlockingPhase1Action (criticalBlockerActions (Some r))"
    if "r_Findings r = [f]" "f_RuleID f \<notin> set phase1_rules"
    unfolding blocking_phase1 using that by (auto simp: template_blocks_def fs phase1_rules_def)
  ultimately show ?thesis
    using assms(1) by (auto simp: BuildActionPlan_def Let_def actionPlanVerdict_def)
qed

text \<open>A subnet without free addresses, scanned for a control-plane upgrade.\<close>

definition subnet_finding :: Finding where
  "subnet_finding = empty_finding\<lparr>f_RuleID := ''NODE-002'',
     f_Severity := fst (eksControlPlanePreconditionGate ContextControlPlaneOnly),
     f_UpgradeGate := snd (eksControlPlanePreconditionGate ContextControlPlaneOnly)\<rparr>"

definition subnet_report :: Report where
  "subnet_report =
     NewReportWithUpgradeContext ''1.31'' '''' ''eks'' ContextControlPlaneOnly 0 [subnet_finding]"

lemma subnet_report_facts:
  "r_Findings subnet_report = [AssignPriority subnet_finding]" "IsComplete subnet_report"
  "EffectiveUpgradeGate subnet_finding = UpgradeGateBlock" "f_RuleID subnet_finding = ''NODE-002''"
  "\<not> isDowngrade (Some subnet_report)" "wf_report subnet_report"
  by (simp_all add: subnet_report_def wf_NewReport subnet_finding_def
      eksControlPlanePreconditionGate_def EffectiveUpgradeGate_def)
    (simp_all add: NewReportWithUpgradeContext_def IsComplete_def Let_def plane_coverage_def
      isDowngrade_def)

theorem action_plan_blocking_rules_witness:
  "Result subnet_report = ''BLOCKED''
   \<and> ap_Verdict (BuildActionPlan (Some subnet_report) 0) = ''READY''"
proof -
  have "AssignPriority subnet_finding \<in> set (r_Findings subnet_report)"
    "EffectiveUpgradeGate (AssignPriority subnet_finding) = UpgradeGateBlock"
    "f_RuleID (AssignPriority subnet_finding) \<notin> set phase1_rules"
    by (simp_all add: subnet_report_facts phase1_rules_eq)
  with action_plan_blocking_rules [OF subnet_report_facts(5) this(1,2), of 0]
  show ?thesis
    by (simp add: subnet_report_facts Result_wf [OF subnet_report_facts(6)] blocks_def)
qed

end
