(* ===== verification/Comparison.thy ===== *)
theory Comparison
  imports ReportFacts V1Compat
begin

text \<open>
  The comparison of two findings documents: \<open>internal/comparison/model.go\<close>,
  \<open>compare.go\<close>, \<open>sort.go\<close> and \<open>normalize.go\<close>.

  Go iterates over a map in an unspecified order. \<open>Compare\<close> takes the two orders in which the
  loops visit the keys of the current and of the baseline index as arguments; the theorems
  hold for all of them, and \<open>Compare_order_irrelevant\<close> says they do not matter.
\<close>

section \<open>The comparison document\<close>

definition ComparisonSchemaVersion :: string where
  "ComparisonSchemaVersion = ''kubepreflight.io/scan-comparison/v1''"

type_synonym Entry = Finding

record FieldChange =
  fc_Before :: string
  fc_After :: string

text \<open>\<open>Changes\<close>, a map from field names, is an association list in the order of the checks.\<close>

record Changed =
  ch_Fingerprint :: string
  ch_RuleID :: string
  ch_Resources :: "ResourceReference list"
  ch_Changes :: "(string \<times> FieldChange) list"

record ComparisonSummary =
  cs_BaselineVerdict :: string
  cs_CurrentVerdict :: string
  cs_BaselineUpgradeContext :: string
  cs_CurrentUpgradeContext :: string
  cs_VerdictChanged :: bool
  cs_BaselineReadinessScore :: int
  cs_CurrentReadinessScore :: int
  cs_ReadinessScoreDelta :: int
  cs_New :: nat
  cs_Resolved :: nat
  cs_Changed :: nat
  cs_Unchanged :: nat
  cs_NewBlockers :: nat
  cs_ResolvedBlockers :: nat
  cs_NotReEvaluated :: nat

text \<open>A warning is the two values its message quotes.\<close>

datatype comparison_warning =
    TargetVersionsDiffer string string
  | UpgradeContextsDiffer UpgradeContext UpgradeContext

record Comparison =
  cmp_SchemaVersion :: string
  cmp_Warnings :: "comparison_warning list"
  cmp_Summary :: ComparisonSummary
  cmp_New :: "Entry list"
  cmp_Resolved :: "Entry list"
  cmp_Changed :: "Changed list"
  cmp_Unchanged :: "Entry list"
  cmp_NotReEvaluated :: "Entry list"

section \<open>Indexes\<close>

datatype index_error =
    MissingFingerprint string          \<comment> \<open>the rule id\<close>
  | DuplicateFingerprint string string \<comment> \<open>the fingerprint and the rule id\<close>

fun index_loop ::
  "(string \<rightharpoonup> Finding) \<Rightarrow> Finding list \<Rightarrow> index_error + (string \<rightharpoonup> Finding)" where
  "index_loop byFP [] = Inr byFP"
| "index_loop byFP (f # fs) =
     (if f_Fingerprint f = '''' then Inl (MissingFingerprint (f_RuleID f))
      else if byFP (f_Fingerprint f) \<noteq> None
      then Inl (DuplicateFingerprint (f_Fingerprint f) (f_RuleID f))
      else index_loop (byFP(f_Fingerprint f \<mapsto> f)) fs)"

definition indexByFingerprint :: "Finding list \<Rightarrow> index_error + (string \<rightharpoonup> Finding)" where
  "indexByFingerprint fs = index_loop Map.empty fs"

definition indexRuleExecutions ::
  "RuleExecutionRecord list \<Rightarrow> (string \<rightharpoonup> RuleExecutionRecord)" where
  "indexRuleExecutions records =
     foldl (\<lambda>byRuleID rec. byRuleID(ex_RuleID rec \<mapsto> rec)) Map.empty records"

definition ruleProvenEvaluated ::
  "string \<Rightarrow> (string \<rightharpoonup> RuleExecutionRecord) \<Rightarrow> bool" where
  "ruleProvenEvaluated ruleID byRuleID =
     (case byRuleID ruleID of
        None \<Rightarrow> False
      | Some rec \<Rightarrow> ex_Applicability rec = ApplicabilityApplicable
                     \<and> ex_State rec = ExecutionEvaluated)"

section \<open>Differences of two findings\<close>

definition resourceIdentity :: "ResourceReference list \<Rightarrow> string" where
  "resourceIdentity refs =
     concat (map (\<lambda>r. plane_string (ref_Plane r) @ '':'' @ ref_Kind r @ '':'' @ ref_Namespace r
                      @ ''/'' @ ref_Name r @ '';'') refs)"

definition impactScopeIdentity :: "ImpactScope list \<Rightarrow> string" where
  "impactScopeIdentity scopes = concat (map (\<lambda>s. impact_string s @ '';'') scopes)"

definition FormatBool :: "bool \<Rightarrow> string" where
  "FormatBool b = (if b then ''true'' else ''false'')"

definition field_change :: "bool \<Rightarrow> string \<Rightarrow> string \<Rightarrow> string \<Rightarrow> (string \<times> FieldChange) list" where
  "field_change differs field before after =
     (if differs then [(field, \<lparr>fc_Before = before, fc_After = after\<rparr>)] else [])"

definition diffFinding :: "Finding \<Rightarrow> Finding \<Rightarrow> (string \<times> FieldChange) list" where
  "diffFinding b a =
     field_change (f_Severity b \<noteq> f_Severity a) ''severity''
       (severity_string (f_Severity b)) (severity_string (f_Severity a))
     @ field_change (f_Priority b \<noteq> f_Priority a) ''priority'' (f_Priority b) (f_Priority a)
     @ field_change (f_Confidence b \<noteq> f_Confidence a) ''confidence''
         (confidence_string (f_Confidence b)) (confidence_string (f_Confidence a))
     @ field_change (f_CanUpgradeContinue b \<noteq> f_CanUpgradeContinue a) ''canUpgradeContinue''
         (FormatBool (f_CanUpgradeContinue b)) (FormatBool (f_CanUpgradeContinue a))
     @ field_change (EffectiveUpgradeGate b \<noteq> EffectiveUpgradeGate a) ''upgradeGate''
         (gate_string (EffectiveUpgradeGate b)) (gate_string (EffectiveUpgradeGate a))
     @ field_change
         (impactScopeIdentity (f_ImpactScopes b) \<noteq> impactScopeIdentity (f_ImpactScopes a))
         ''impactScopes''
         (impactScopeIdentity (f_ImpactScopes b)) (impactScopeIdentity (f_ImpactScopes a))
     @ field_change (f_AffectedScope b \<noteq> f_AffectedScope a) ''affectedScope''
         (f_AffectedScope b) (f_AffectedScope a)
     @ field_change (f_RuleID b \<noteq> f_RuleID a) ''ruleId'' (f_RuleID b) (f_RuleID a)
     @ field_change (resourceIdentity (f_Resources b) \<noteq> resourceIdentity (f_Resources a))
         ''resource'' (resourceIdentity (f_Resources b)) (resourceIdentity (f_Resources a))"

section \<open>The order of the entries\<close>

text \<open>\<open>severityRank\<close> is read without the \<open>ok\<close> flag: an unknown severity ranks 0.\<close>

fun severityRank :: "Severity \<Rightarrow> nat" where
  "severityRank SeverityBlocker = 0"
| "severityRank SeverityWarning = 1"
| "severityRank SeverityInfo = 2"
| "severityRank (SeverityOther _) = 0"

datatype entrySortKey =
  EntrySortKey (sk_priority: string) (sk_severityRnk: nat) (sk_ruleID: string)
    (sk_namespace: string) (sk_name: string) (sk_fingerprint: string)

definition entry_key_less :: "entrySortKey \<Rightarrow> entrySortKey \<Rightarrow> bool" where
  "entry_key_less k other =
     (if sk_priority k \<noteq> sk_priority other then sk_priority k < sk_priority other
      else if sk_severityRnk k \<noteq> sk_severityRnk other
      then sk_severityRnk k < sk_severityRnk other
      else if sk_ruleID k \<noteq> sk_ruleID other then sk_ruleID k < sk_ruleID other
      else if sk_namespace k \<noteq> sk_namespace other then sk_namespace k < sk_namespace other
      else if sk_name k \<noteq> sk_name other then sk_name k < sk_name other
      else sk_fingerprint k < sk_fingerprint other)"

definition priorityForSort :: "string \<Rightarrow> string" where
  "priorityForSort p = (if p = '''' then ''P9'' else p)"

definition firstResourceIdentity :: "ResourceReference list \<Rightarrow> string \<times> string" where
  "firstResourceIdentity refs =
     (case refs of [] \<Rightarrow> ('''', '''') | r # _ \<Rightarrow> (ref_Namespace r, ref_Name r))"

definition sortKey :: "Finding \<Rightarrow> entrySortKey" where
  "sortKey f =
     (case firstResourceIdentity (f_Resources f) of (ns, name) \<Rightarrow>
       EntrySortKey (priorityForSort (f_Priority f)) (severityRank (f_Severity f)) (f_RuleID f)
         ns name (f_Fingerprint f))"

definition changedSortKey :: "Changed \<Rightarrow> entrySortKey" where
  "changedSortKey c =
     (case firstResourceIdentity (ch_Resources c) of (ns, name) \<Rightarrow>
       let priority = (case map_of (ch_Changes c) ''priority'' of
                         Some fc \<Rightarrow> fc_After fc | None \<Rightarrow> '''')
       in EntrySortKey (priorityForSort priority) 0 (ch_RuleID c) ns name (ch_Fingerprint c))"

definition lessBlockerFirst :: "Finding \<Rightarrow> Finding \<Rightarrow> bool" where
  "lessBlockerFirst a b =
     (let aBlocker = EffectiveUpgradeGate a = UpgradeGateBlock;
          bBlocker = EffectiveUpgradeGate b = UpgradeGateBlock
      in if aBlocker \<noteq> bBlocker then aBlocker else entry_key_less (sortKey a) (sortKey b))"

definition sortComparison :: "Comparison \<Rightarrow> Comparison" where
  "sortComparison c =
     c\<lparr>cmp_New := sort_by lessBlockerFirst (cmp_New c),
       cmp_Resolved := sort_by lessBlockerFirst (cmp_Resolved c),
       cmp_NotReEvaluated := sort_by lessBlockerFirst (cmp_NotReEvaluated c),
       cmp_Unchanged :=
         sort_by (\<lambda>x y. entry_key_less (sortKey x) (sortKey y)) (cmp_Unchanged c),
       cmp_Changed :=
         sort_by (\<lambda>x y. entry_key_less (changedSortKey x) (changedSortKey y)) (cmp_Changed c)\<rparr>"

section \<open>Compare\<close>

definition verdictOf :: "Report \<Rightarrow> string" where
  "verdictOf r = Result r"

definition count_blocks :: "Finding list \<Rightarrow> nat" where
  "count_blocks fs = length (filter (\<lambda>e. EffectiveUpgradeGate e = UpgradeGateBlock) fs)"

definition buildSummary :: "Report \<Rightarrow> Report \<Rightarrow> Comparison \<Rightarrow> ComparisonSummary" where
  "buildSummary baseline current c =
     (let bv = verdictOf baseline; cv = verdictOf current;
          bs = (case r_UpgradeReadiness baseline of None \<Rightarrow> 0 | Some u \<Rightarrow> ur_ReadinessScore u);
          cs = (case r_UpgradeReadiness current of None \<Rightarrow> 0 | Some u \<Rightarrow> ur_ReadinessScore u)
      in \<lparr>cs_BaselineVerdict = bv, cs_CurrentVerdict = cv,
          cs_BaselineUpgradeContext = context_string (r_UpgradeContext baseline),
          cs_CurrentUpgradeContext = context_string (r_UpgradeContext current),
          cs_VerdictChanged = (bv \<noteq> cv),
          cs_BaselineReadinessScore = bs, cs_CurrentReadinessScore = cs,
          cs_ReadinessScoreDelta = cs - bs,
          cs_New = length (cmp_New c), cs_Resolved = length (cmp_Resolved c),
          cs_Changed = length (cmp_Changed c), cs_Unchanged = length (cmp_Unchanged c),
          cs_NewBlockers = count_blocks (cmp_New c),
          cs_ResolvedBlockers = count_blocks (cmp_Resolved c),
          cs_NotReEvaluated = length (cmp_NotReEvaluated c)\<rparr>)"

definition compare_warnings :: "Report \<Rightarrow> Report \<Rightarrow> comparison_warning list" where
  "compare_warnings baseline current =
     (if r_TargetVersion baseline \<noteq> r_TargetVersion current
      then [TargetVersionsDiffer (r_TargetVersion baseline) (r_TargetVersion current)] else [])
     @ (if r_UpgradeContext baseline \<noteq> r_UpgradeContext current
        then [UpgradeContextsDiffer (r_UpgradeContext baseline) (r_UpgradeContext current)]
        else [])"

definition empty_comparison :: Comparison where
  \<comment> \<open>the summary is the zero value until \<open>buildSummary\<close> fills it\<close>
  "empty_comparison =
     \<lparr>cmp_SchemaVersion = ComparisonSchemaVersion, cmp_Warnings = [],
      cmp_Summary =
        \<lparr>cs_BaselineVerdict = '''', cs_CurrentVerdict = '''', cs_BaselineUpgradeContext = '''',
         cs_CurrentUpgradeContext = '''', cs_VerdictChanged = False,
         cs_BaselineReadinessScore = 0, cs_CurrentReadinessScore = 0,
         cs_ReadinessScoreDelta = 0, cs_New = 0, cs_Resolved = 0, cs_Changed = 0,
         cs_Unchanged = 0, cs_NewBlockers = 0, cs_ResolvedBlockers = 0, cs_NotReEvaluated = 0\<rparr>,
      cmp_New = [], cmp_Resolved = [], cmp_Changed = [], cmp_Unchanged = [],
      cmp_NotReEvaluated = []\<rparr>"

text \<open>
  The bodies of the two loops. A key without an entry stands for no iteration; with the orders
  the theorems assume there is none.
\<close>

definition current_step ::
  "(string \<rightharpoonup> Finding) \<Rightarrow> (string \<rightharpoonup> Finding) \<Rightarrow> Comparison \<Rightarrow> string \<Rightarrow> Comparison" where
  "current_step baselineByFP currentByFP c fp =
     (case currentByFP fp of
        None \<Rightarrow> c
      | Some cf \<Rightarrow>
          (case baselineByFP fp of
             None \<Rightarrow> c\<lparr>cmp_New := cmp_New c @ [cf]\<rparr>
           | Some bf \<Rightarrow>
               let changes = diffFinding bf cf
               in if length changes > 0
                  then c\<lparr>cmp_Changed := cmp_Changed c @
                         [\<lparr>ch_Fingerprint = fp, ch_RuleID = f_RuleID cf,
                           ch_Resources = f_Resources cf, ch_Changes = changes\<rparr>]\<rparr>
                  else c\<lparr>cmp_Unchanged := cmp_Unchanged c @ [cf]\<rparr>))"

definition baseline_step ::
  "(string \<rightharpoonup> Finding) \<Rightarrow> (string \<rightharpoonup> Finding) \<Rightarrow> (string \<rightharpoonup> RuleExecutionRecord)
     \<Rightarrow> Comparison \<Rightarrow> string \<Rightarrow> Comparison" where
  "baseline_step baselineByFP currentByFP execs c fp =
     (case baselineByFP fp of
        None \<Rightarrow> c
      | Some bf \<Rightarrow>
          if currentByFP fp \<noteq> None then c
          else if ruleProvenEvaluated (f_RuleID bf) execs
          then c\<lparr>cmp_Resolved := cmp_Resolved c @ [bf]\<rparr>
          else c\<lparr>cmp_NotReEvaluated := cmp_NotReEvaluated c @ [bf]\<rparr>)"

datatype comparison_error = BaselineError index_error | CurrentError index_error

definition Compare ::
  "string list \<Rightarrow> string list \<Rightarrow> Report \<Rightarrow> Report \<Rightarrow> comparison_error + Comparison" where
  "Compare current_order baseline_order baseline current =
     (case indexByFingerprint (r_Findings baseline) of
        Inl err \<Rightarrow> Inl (BaselineError err)
      | Inr baselineByFP \<Rightarrow>
          (case indexByFingerprint (r_Findings current) of
             Inl err \<Rightarrow> Inl (CurrentError err)
           | Inr currentByFP \<Rightarrow>
               let c0 = empty_comparison\<lparr>cmp_Warnings := compare_warnings baseline current\<rparr>;
                   c1 = foldl (current_step baselineByFP currentByFP) c0 current_order;
                   execs = indexRuleExecutions (r_RuleExecutions current);
                   c2 = foldl (baseline_step baselineByFP currentByFP execs) c1 baseline_order;
                   c3 = sortComparison c2
               in Inr (c3\<lparr>cmp_Summary := buildSummary baseline current c3\<rparr>)))"

section \<open>Normalising a loaded document\<close>

definition legacyEvaluatedReason :: string where
  "legacyEvaluatedReason = ''legacy report contains a finding from this rule; execution metadata was backfilled from finding presence, not a native execution record''"

definition legacyNotEvaluatedReason :: string where
  "legacyNotEvaluatedReason = ''legacy report does not contain native rule-execution metadata; absence of a finding was not treated as evaluated-and-clean''"

definition legacy_record :: "Finding list \<Rightarrow> string \<Rightarrow> RuleExecutionRecord" where
  "legacy_record fs ruleID =
     (if ruleID \<in> f_RuleID ` set fs
      then \<lparr>ex_RuleID = ruleID, ex_Applicability = ApplicabilityApplicable,
            ex_State = ExecutionEvaluated, ex_Reason = legacyEvaluatedReason\<rparr>
      else \<lparr>ex_RuleID = ruleID, ex_Applicability = ApplicabilityApplicable,
            ex_State = ExecutionNotEvaluated, ex_Reason = legacyNotEvaluatedReason\<rparr>)"

definition normalizeRuleExecutions :: "Report \<Rightarrow> Report" where
  "normalizeRuleExecutions r =
     (if length (r_RuleExecutions r) > 0 then r
      else r\<lparr>r_RuleExecutions := map (legacy_record (r_Findings r)) ExpectedRuleIDs,
             r_RuleExecutionsNormalized := True\<rparr>)"

text \<open>
  \<open>LoadAndNormalize\<close> after \<open>json.Unmarshal\<close>: the argument is the decoded document, or
  \<open>None\<close> when the bytes are not JSON of the report's shape.
\<close>

datatype load_error = ParsingError | NotAFindingsDocument

definition backfill_finding :: "Finding \<Rightarrow> Finding" where
  "backfill_finding f = (if f_Priority f = '''' then AssignPriority f else f)"

definition LoadAndNormalize :: "Report option \<Rightarrow> load_error + Report" where
  "LoadAndNormalize decoded =
     (case decoded of
        None \<Rightarrow> Inl ParsingError
      | Some r0 \<Rightarrow>
          if r_SchemaVersion r0 = '''' \<or> r_TargetVersion r0 = '''' then Inl NotAFindingsDocument
          else
            let r1 = r0\<lparr>r_Findings := map backfill_finding (r_Findings r0)\<rparr>;
                verdict = Result r1;
                r2 = (if r_APICompatibility r1 = None
                      then r1\<lparr>r_APICompatibility :=
                                Some (BuildAPICompatibilitySummary (r_Findings r1))\<rparr>
                      else r1);
                r3 = (if r_UpgradeReadiness r2 = None
                      then r2\<lparr>r_UpgradeReadiness :=
                                Some (BuildUpgradeReadinessSummary (r_Findings r2) verdict)\<rparr>
                      else r2)
            in Inr (normalizeRuleExecutions r3))"

end
