(* ===== verification/ComparisonFacts.thy ===== *)
theory ComparisonFacts
  imports Comparison
begin

text \<open>
  What a comparison guarantees: which finding goes into which bucket, independence of the order
  in which Go visits the maps, resolution only on proof, and a normalisation of old documents
  that never turns the absence of a finding into proof.
\<close>

section \<open>The index by fingerprint\<close>

definition indexable :: "Finding list \<Rightarrow> bool" where
  "indexable fs \<longleftrightarrow> distinct (map f_Fingerprint fs) \<and> '''' \<notin> set (map f_Fingerprint fs)"

definition lookup_fp :: "Finding list \<Rightarrow> string \<Rightarrow> Finding option" where
  "lookup_fp fs fp = map_of (map (\<lambda>f. (f_Fingerprint f, f)) fs) fp"

lemma index_loop_eq:
  "indexable fs \<Longrightarrow> \<forall>f\<in>set fs. m (f_Fingerprint f) = None \<Longrightarrow>
   index_loop m fs = Inr (m ++ lookup_fp fs)"
proof (induction fs arbitrary: m)
  case Nil
  show ?case by (simp add: lookup_fp_def map_add_def)
next
  case (Cons f fs)
  have "index_loop (m(f_Fingerprint f \<mapsto> f)) fs
      = Inr (m(f_Fingerprint f \<mapsto> f) ++ lookup_fp fs)"
    using Cons.prems by (intro Cons.IH) (auto simp: indexable_def image_iff)
  moreover have "lookup_fp fs (f_Fingerprint f) = None"
    using Cons.prems by (auto simp: indexable_def lookup_fp_def map_of_eq_None_iff image_iff)
  then have "m(f_Fingerprint f \<mapsto> f) ++ lookup_fp fs = m ++ lookup_fp (f # fs)"
    by (auto simp: lookup_fp_def map_add_def fun_eq_iff split: option.split)
  ultimately show ?case using Cons.prems by (auto simp: indexable_def)
qed

lemma index_loop_Inr:
  "index_loop m fs = Inr m' \<Longrightarrow>
     indexable fs \<and> (\<forall>f\<in>set fs. m (f_Fingerprint f) = None)"
proof (induction fs arbitrary: m)
  case Nil
  show ?case by (simp add: indexable_def)
next
  case (Cons f fs)
  then have "f_Fingerprint f \<noteq> ''''" "m (f_Fingerprint f) = None"
    and *: "index_loop (m(f_Fingerprint f \<mapsto> f)) fs = Inr m'"
    by (auto split: if_splits)
  moreover from Cons.IH [OF *]
  have "indexable fs" "f_Fingerprint f \<notin> f_Fingerprint ` set fs"
    "\<forall>g\<in>set fs. m (f_Fingerprint g) = None"
    by (auto split: if_splits)
  ultimately show ?case by (auto simp: indexable_def)
qed

text \<open>
  The contract of an index the comparison relies on: it succeeds exactly on lists with distinct,
  non-empty keys, and then finds exactly the elements of the list under their keys.
\<close>

locale fingerprint_index =
  fixes mk_index :: "Finding list \<Rightarrow> index_error + (string \<rightharpoonup> Finding)"
  assumes index_succeeds: "(\<exists>m. mk_index fs = Inr m) \<longleftrightarrow> indexable fs"
    and index_finds: "mk_index fs = Inr m \<Longrightarrow> m fp = Some f \<longleftrightarrow> f \<in> set fs \<and> f_Fingerprint f = fp"
begin

lemma index_None:
  "mk_index fs = Inr m \<Longrightarrow> m fp = None \<longleftrightarrow> fp \<notin> f_Fingerprint ` set fs"
  using index_finds by (metis (no_types, lifting) imageE imageI not_None_eq)

lemma index_self: "mk_index fs = Inr m \<Longrightarrow> f \<in> set fs \<Longrightarrow> m (f_Fingerprint f) = Some f"
  using index_finds by blast

text \<open>A loop over the keys, in any order, does what a loop over the list would do.\<close>

lemma loop_over_keys:
  assumes "mk_index fs = Inr m" and "mset ks = mset (map f_Fingerprint fs)"
  shows "mset (List.map_filter (\<lambda>k. Option.bind (m k) g) ks) = mset (List.map_filter g fs)"
proof -
  have "List.map_filter (\<lambda>k. Option.bind (m k) g) (map f_Fingerprint fs) = List.map_filter g fs"
    using index_self [OF assms(1)]
    by (induction fs arbitrary: m) (auto simp: List.map_filter_def)
  moreover have "mset (List.map_filter h ks) = mset (List.map_filter h (map f_Fingerprint fs))" for h
    using assms(2) by (simp add: List.map_filter_def)
  ultimately show ?thesis by metis
qed

end

interpretation fp_index: fingerprint_index indexByFingerprint
proof
  fix fs :: "Finding list" and m fp f
  show "(\<exists>m. indexByFingerprint fs = Inr m) \<longleftrightarrow> indexable fs"
    using index_loop_Inr [of Map.empty fs] index_loop_eq [of fs Map.empty]
    by (auto simp: indexByFingerprint_def)
  assume "indexByFingerprint fs = Inr m"
  then have ok: "indexable fs" and m: "m = lookup_fp fs"
    using index_loop_Inr [of Map.empty fs] index_loop_eq [of fs Map.empty]
    by (auto simp: indexByFingerprint_def)
  have "distinct (map fst (map (\<lambda>f. (f_Fingerprint f, f)) fs))"
    using ok by (simp add: indexable_def o_def)
  then show "m fp = Some f \<longleftrightarrow> f \<in> set fs \<and> f_Fingerprint f = fp"
    unfolding m lookup_fp_def by (subst map_of_eq_Some_iff) auto
qed

lemma indexByFingerprint_Inr [simp]: "indexable fs \<Longrightarrow> indexByFingerprint fs = Inr (lookup_fp fs)"
  using index_loop_eq [of fs Map.empty] by (simp add: indexByFingerprint_def)

lemma lookup_fp_eq_Some:
  "indexable fs \<Longrightarrow> lookup_fp fs fp = Some f \<longleftrightarrow> f \<in> set fs \<and> f_Fingerprint f = fp"
  by (rule fp_index.index_finds) simp

lemma lookup_fp_eq_None: "lookup_fp fs fp = None \<longleftrightarrow> fp \<notin> f_Fingerprint ` set fs"
  by (auto simp: lookup_fp_def map_of_eq_None_iff image_iff)

section \<open>The comparison without maps\<close>

text \<open>What the loops append for one finding, given the other document's index.\<close>

definition changed_entry :: "(string \<rightharpoonup> Finding) \<Rightarrow> Finding \<Rightarrow> Changed option" where
  "changed_entry base f =
     (case base (f_Fingerprint f) of
        None \<Rightarrow> None
      | Some bf \<Rightarrow>
          if diffFinding bf f = [] then None
          else Some \<lparr>ch_Fingerprint = f_Fingerprint f, ch_RuleID = f_RuleID f,
                     ch_Resources = f_Resources f, ch_Changes = diffFinding bf f\<rparr>)"

definition is_unchanged :: "(string \<rightharpoonup> Finding) \<Rightarrow> Finding \<Rightarrow> bool" where
  "is_unchanged base f \<longleftrightarrow> (\<exists>bf. base (f_Fingerprint f) = Some bf \<and> diffFinding bf f = [])"

definition is_new :: "(string \<rightharpoonup> Finding) \<Rightarrow> Finding \<Rightarrow> bool" where
  "is_new base f \<longleftrightarrow> base (f_Fingerprint f) = None"

definition is_resolved ::
  "(string \<rightharpoonup> Finding) \<Rightarrow> (string \<rightharpoonup> RuleExecutionRecord) \<Rightarrow> Finding \<Rightarrow> bool" where
  "is_resolved cur execs f \<longleftrightarrow> is_new cur f \<and> ruleProvenEvaluated (f_RuleID f) execs"

definition is_not_re_evaluated ::
  "(string \<rightharpoonup> Finding) \<Rightarrow> (string \<rightharpoonup> RuleExecutionRecord) \<Rightarrow> Finding \<Rightarrow> bool" where
  "is_not_re_evaluated cur execs f \<longleftrightarrow> is_new cur f \<and> \<not> ruleProvenEvaluated (f_RuleID f) execs"

definition only :: "('a \<Rightarrow> bool) \<Rightarrow> 'a \<Rightarrow> 'a option" where
  "only P x = (if P x then Some x else None)"

lemma map_filter_only [simp]: "List.map_filter (only P) xs = filter P xs"
  by (induction xs) (auto simp: only_def List.map_filter_def)

abbreviation over_keys :: "(string \<rightharpoonup> Finding) \<Rightarrow> (Finding \<rightharpoonup> 'b) \<Rightarrow> string list \<Rightarrow> 'b list" where
  "over_keys m g ks \<equiv> List.map_filter (\<lambda>k. Option.bind (m k) g) ks"

text \<open>
  The abstract comparison: each bucket is the sorted list of the findings of one document that
  satisfy the bucket's predicate. No maps, and no order of iteration.
\<close>

definition compare_spec :: "Report \<Rightarrow> Report \<Rightarrow> Comparison" where
  "compare_spec baseline current =
     (let base = lookup_fp (r_Findings baseline); cur = lookup_fp (r_Findings current);
          execs = indexRuleExecutions (r_RuleExecutions current);
          c = sortComparison (empty_comparison
            \<lparr>cmp_Warnings := compare_warnings baseline current,
             cmp_New := filter (is_new base) (r_Findings current),
             cmp_Changed := List.map_filter (changed_entry base) (r_Findings current),
             cmp_Unchanged := filter (is_unchanged base) (r_Findings current),
             cmp_Resolved := filter (is_resolved cur execs) (r_Findings baseline),
             cmp_NotReEvaluated := filter (is_not_re_evaluated cur execs) (r_Findings baseline)\<rparr>)
      in c\<lparr>cmp_Summary := buildSummary baseline current c\<rparr>)"

lemma current_step_eq:
  assumes "\<And>f. cur fp = Some f \<Longrightarrow> f_Fingerprint f = fp"
  shows "current_step base cur c fp =
    c\<lparr>cmp_New := cmp_New c @ over_keys cur (only (is_new base)) [fp],
      cmp_Changed := cmp_Changed c @ over_keys cur (changed_entry base) [fp],
      cmp_Unchanged := cmp_Unchanged c @ over_keys cur (only (is_unchanged base)) [fp]\<rparr>"
  using assms
  by (auto simp: current_step_def only_def is_new_def changed_entry_def is_unchanged_def Let_def
      List.map_filter_simps split: option.splits)

lemma baseline_step_eq:
  assumes "\<And>f. base fp = Some f \<Longrightarrow> f_Fingerprint f = fp"
  shows "baseline_step base cur execs c fp =
    c\<lparr>cmp_Resolved := cmp_Resolved c @ over_keys base (only (is_resolved cur execs)) [fp],
      cmp_NotReEvaluated :=
        cmp_NotReEvaluated c @ over_keys base (only (is_not_re_evaluated cur execs)) [fp]\<rparr>"
  using assms
  by (auto simp: baseline_step_def only_def is_new_def is_resolved_def is_not_re_evaluated_def
      List.map_filter_simps split: option.splits)

lemma map_filter_Cons': "List.map_filter g (x # xs) = List.map_filter g [x] @ List.map_filter g xs"
  by (simp add: List.map_filter_def)

lemma current_loop_eq:
  assumes "\<And>fp f. cur fp = Some f \<Longrightarrow> f_Fingerprint f = fp"
  shows "foldl (current_step base cur) c ks =
    c\<lparr>cmp_New := cmp_New c @ over_keys cur (only (is_new base)) ks,
      cmp_Changed := cmp_Changed c @ over_keys cur (changed_entry base) ks,
      cmp_Unchanged := cmp_Unchanged c @ over_keys cur (only (is_unchanged base)) ks\<rparr>"
proof (induction ks arbitrary: c)
  case Nil
  show ?case by (simp add: List.map_filter_simps)
next
  case (Cons k ks)
  have step: "current_step base cur c k =
    c\<lparr>cmp_New := cmp_New c @ over_keys cur (only (is_new base)) [k],
      cmp_Changed := cmp_Changed c @ over_keys cur (changed_entry base) [k],
      cmp_Unchanged := cmp_Unchanged c @ over_keys cur (only (is_unchanged base)) [k]\<rparr>"
    by (rule current_step_eq) (rule assms)
  show ?case
    unfolding foldl_Cons Cons.IH step map_filter_Cons' [of _ k ks]
    by (simp del: List.map_filter_simps)
qed

lemma baseline_loop_eq:
  assumes "\<And>fp f. base fp = Some f \<Longrightarrow> f_Fingerprint f = fp"
  shows "foldl (baseline_step base cur execs) c ks =
    c\<lparr>cmp_Resolved := cmp_Resolved c @ over_keys base (only (is_resolved cur execs)) ks,
      cmp_NotReEvaluated :=
        cmp_NotReEvaluated c @ over_keys base (only (is_not_re_evaluated cur execs)) ks\<rparr>"
proof (induction ks arbitrary: c)
  case Nil
  show ?case by (simp add: List.map_filter_simps)
next
  case (Cons k ks)
  have step: "baseline_step base cur execs c k =
    c\<lparr>cmp_Resolved := cmp_Resolved c @ over_keys base (only (is_resolved cur execs)) [k],
      cmp_NotReEvaluated :=
        cmp_NotReEvaluated c @ over_keys base (only (is_not_re_evaluated cur execs)) [k]\<rparr>"
    by (rule baseline_step_eq) (rule assms)
  show ?case
    unfolding foldl_Cons Cons.IH step map_filter_Cons' [of _ k ks]
    by (simp del: List.map_filter_simps)
qed

section \<open>The orders of the buckets\<close>

definition key_tuple :: "entrySortKey \<Rightarrow> string \<times> nat \<times> string \<times> string \<times> string \<times> string" where
  "key_tuple k = (sk_priority k, sk_severityRnk k, sk_ruleID k, sk_namespace k, sk_name k,
     sk_fingerprint k)"

lemma entry_key_less_tuple: "entry_key_less k l \<longleftrightarrow> key_tuple k < key_tuple l"
  by (auto simp: entry_key_less_def key_tuple_def less_prod_def)

lemma key_tuple_inj [simp]: "key_tuple k = key_tuple l \<longleftrightarrow> k = l"
  by (cases k; cases l) (simp add: key_tuple_def)

instantiation entrySortKey :: linorder
begin

definition less_entrySortKey :: "entrySortKey \<Rightarrow> entrySortKey \<Rightarrow> bool" where
  "less_entrySortKey = entry_key_less"

definition less_eq_entrySortKey :: "entrySortKey \<Rightarrow> entrySortKey \<Rightarrow> bool" where
  "less_eq_entrySortKey k l \<longleftrightarrow> k = l \<or> entry_key_less k l"

instance
  by standard (auto simp: less_entrySortKey_def less_eq_entrySortKey_def entry_key_less_tuple
      simp flip: key_tuple_inj)

end

interpretation entry_order: key_comparison "\<lambda>x y. entry_key_less (sortKey x) (sortKey y)" sortKey
  by unfold_locales (simp add: less_entrySortKey_def)

interpretation changed_order:
  key_comparison "\<lambda>x y. entry_key_less (changedSortKey x) (changedSortKey y)" changedSortKey
  by unfold_locales (simp add: less_entrySortKey_def)

definition blocker_first_key :: "Finding \<Rightarrow> bool \<times> entrySortKey" where
  "blocker_first_key f = (EffectiveUpgradeGate f \<noteq> UpgradeGateBlock, sortKey f)"

interpretation blocker_first: key_comparison lessBlockerFirst blocker_first_key
  by unfold_locales (auto simp: lessBlockerFirst_def blocker_first_key_def less_entrySortKey_def
      Let_def)

lemma sortKey_fingerprint: "sk_fingerprint (sortKey f) = f_Fingerprint f"
  by (simp add: sortKey_def split: prod.split)

lemma changedSortKey_fingerprint: "sk_fingerprint (changedSortKey c) = ch_Fingerprint c"
  by (simp add: changedSortKey_def Let_def split: prod.split)

lemma indexable_inj:
  assumes "indexable fs" and "x \<in> set fs" and "y \<in> set fs" and "f_Fingerprint x = f_Fingerprint y"
  shows "x = y"
  using assms by (auto simp: indexable_def distinct_map inj_on_def)

lemma inj_keys:
  assumes "indexable fs"
  shows "inj_on sortKey (set (filter P fs))" "inj_on blocker_first_key (set (filter P fs))"
  using indexable_inj [OF assms] sortKey_fingerprint
  by (auto simp: inj_on_def blocker_first_key_def) (metis sortKey_fingerprint)+

lemma inj_changed:
  assumes "indexable fs"
  shows "inj_on changedSortKey (set (List.map_filter (changed_entry base) fs))"
proof (rule inj_onI)
  fix x y
  assume "x \<in> set (List.map_filter (changed_entry base) fs)"
    and "y \<in> set (List.map_filter (changed_entry base) fs)"
  then obtain f g where f: "f \<in> set fs" "changed_entry base f = Some x"
    and g: "g \<in> set fs" "changed_entry base g = Some y"
    by (auto simp: List.map_filter_def)
  assume "changedSortKey x = changedSortKey y"
  then have "ch_Fingerprint x = ch_Fingerprint y"
    by (metis changedSortKey_fingerprint)
  then have "f_Fingerprint f = f_Fingerprint g"
    using f g by (auto simp: changed_entry_def split: option.splits if_splits)
  then have "f = g" using indexable_inj [OF assms f(1) g(1)] by simp
  then show "x = y" using f g by simp
qed

lemma sorted_buckets:
  assumes "indexable fs" and "mset ks = mset (map f_Fingerprint fs)" and "m = lookup_fp fs"
  shows "sort_by lessBlockerFirst (over_keys m (only P) ks)
          = sort_by lessBlockerFirst (filter P fs)"
    "sort_by (\<lambda>x y. entry_key_less (sortKey x) (sortKey y)) (over_keys m (only P) ks)
          = sort_by (\<lambda>x y. entry_key_less (sortKey x) (sortKey y)) (filter P fs)"
    "sort_by (\<lambda>x y. entry_key_less (changedSortKey x) (changedSortKey y))
        (over_keys m (changed_entry base) ks)
      = sort_by (\<lambda>x y. entry_key_less (changedSortKey x) (changedSortKey y))
          (List.map_filter (changed_entry base) fs)"
proof -
  have loop: "mset (over_keys m g ks) = mset (List.map_filter g fs)" for g
    using assms by (intro fp_index.loop_over_keys) simp_all
  then have filter: "mset (over_keys m (only P) ks) = mset (filter P fs)"
    using loop [of "only P"] by (simp only: map_filter_only)
  then have "set (over_keys m (only P) ks) = set (filter P fs)" by (rule mset_eq_setD)
  with inj_keys [OF assms(1), of P]
  show "sort_by lessBlockerFirst (over_keys m (only P) ks)
          = sort_by lessBlockerFirst (filter P fs)"
    "sort_by (\<lambda>x y. entry_key_less (sortKey x) (sortKey y)) (over_keys m (only P) ks)
          = sort_by (\<lambda>x y. entry_key_less (sortKey x) (sortKey y)) (filter P fs)"
    using blocker_first.sort_by_unique [OF filter] entry_order.sort_by_unique [OF filter]
    by metis+
  show "sort_by (\<lambda>x y. entry_key_less (changedSortKey x) (changedSortKey y))
        (over_keys m (changed_entry base) ks)
      = sort_by (\<lambda>x y. entry_key_less (changedSortKey x) (changedSortKey y))
          (List.map_filter (changed_entry base) fs)"
    using changed_order.sort_by_unique [OF loop] inj_changed [OF assms(1)] mset_eq_setD [OF loop]
    by metis
qed

lemma Compare_eq_spec:
  assumes "indexable (r_Findings baseline)" and "indexable (r_Findings current)"
    and "mset current_order = mset (map f_Fingerprint (r_Findings current))"
    and "mset baseline_order = mset (map f_Fingerprint (r_Findings baseline))"
  shows "Compare current_order baseline_order baseline current = Inr (compare_spec baseline current)"
proof -
  let ?b = "lookup_fp (r_Findings baseline)" and ?c = "lookup_fp (r_Findings current)"
  have loops: "foldl (current_step ?b ?c) c current_order =
      c\<lparr>cmp_New := cmp_New c @ over_keys ?c (only (is_new ?b)) current_order,
        cmp_Changed := cmp_Changed c @ over_keys ?c (changed_entry ?b) current_order,
        cmp_Unchanged := cmp_Unchanged c @ over_keys ?c (only (is_unchanged ?b)) current_order\<rparr>"
    "foldl (baseline_step ?b ?c execs) c baseline_order =
      c\<lparr>cmp_Resolved := cmp_Resolved c @ over_keys ?b (only (is_resolved ?c execs)) baseline_order,
        cmp_NotReEvaluated := cmp_NotReEvaluated c
          @ over_keys ?b (only (is_not_re_evaluated ?c execs)) baseline_order\<rparr>" for c execs
    using assms(1,2) by (auto intro!: current_loop_eq baseline_loop_eq simp: lookup_fp_eq_Some)
  note sorts = sorted_buckets [OF assms(1) assms(4) refl] sorted_buckets [OF assms(2) assms(3) refl]
  show ?thesis
    using assms(1,2)
    by (simp add: Compare_def Let_def loops compare_spec_def sortComparison_def sorts
        empty_comparison_def del: List.map_filter_simps)
qed

lemma Compare_Inr:
  assumes "Compare current_order baseline_order baseline current = Inr c"
  shows "indexable (r_Findings baseline)" "indexable (r_Findings current)"
  using assms fp_index.index_succeeds
  by (auto simp: Compare_def split: sum.splits)

section \<open>Properties of the comparison\<close>

text \<open>
  C10: For documents whose findings have distinct, non-empty fingerprints the comparison succeeds
  and equals the abstract comparison, whatever order Go visits the two maps in: two runs on the
  same documents give the same result, bucket by bucket and entry by entry.
\<close>

theorem Compare_refines_spec:
  assumes "distinct (map f_Fingerprint (r_Findings baseline))"
    and "distinct (map f_Fingerprint (r_Findings current))"
    and "'''' \<notin> f_Fingerprint ` (set (r_Findings baseline) \<union> set (r_Findings current))"
    and "mset current_order = mset (map f_Fingerprint (r_Findings current))"
    and "mset baseline_order = mset (map f_Fingerprint (r_Findings baseline))"
  shows "Compare current_order baseline_order baseline current = Inr (compare_spec baseline current)"
  using assms by (intro Compare_eq_spec) (auto simp: indexable_def)

text \<open>
  The comparison is refused exactly when one of the documents has a finding without a
  fingerprint or two findings with the same one; the baseline's error is reported first.
\<close>

theorem Compare_errors:
  "(\<exists>c. Compare current_order baseline_order baseline current = Inr c)
     \<longleftrightarrow> indexable (r_Findings baseline) \<and> indexable (r_Findings current)"
  using fp_index.index_succeeds [of "r_Findings baseline"]
    fp_index.index_succeeds [of "r_Findings current"]
  by (auto simp: Compare_def Let_def split: sum.splits)

definition sample_report :: "Finding list \<Rightarrow> Report" where
  "sample_report fs = NewReport ''1.30'' '''' '''' 0 fs"

definition other_finding :: Finding where
  "other_finding = sample_finding\<lparr>f_RuleID := ''NODE-001'', f_Fingerprint := ''fq''\<rparr>"

lemma sample_report_findings [simp]: "r_Findings (sample_report fs) = map AssignPriority fs"
  by (simp add: sample_report_def NewReport_def)

lemma sample_report_executions [simp]: "r_RuleExecutions (sample_report fs) = []"
  by (simp add: sample_report_def NewReport_def NewReportWithUpgradeContext_def Let_def)

lemma AssignPriority_fingerprint [simp]: "f_Fingerprint (AssignPriority f) = f_Fingerprint f"
  by (simp add: AssignPriority_eq)

lemma sample_fingerprints [simp]:
  "f_Fingerprint sample_finding = ''fp''" "f_Fingerprint other_finding = ''fq''"
  by (simp_all add: sample_finding_def other_finding_def)

theorem Compare_refines_spec_witness:
  "Compare [''fq'', ''fp''] [''fp''] (sample_report [sample_finding])
       (sample_report [sample_finding, other_finding])
     = Inr (compare_spec (sample_report [sample_finding])
              (sample_report [sample_finding, other_finding]))"
  by (rule Compare_refines_spec) simp_all

subsection \<open>Counts\<close>

lemma compare_spec_buckets:
  "cmp_New (compare_spec b c) = sort_by lessBlockerFirst
     (filter (is_new (lookup_fp (r_Findings b))) (r_Findings c))"
  "cmp_Resolved (compare_spec b c) = sort_by lessBlockerFirst
     (filter (is_resolved (lookup_fp (r_Findings c)) (indexRuleExecutions (r_RuleExecutions c)))
       (r_Findings b))"
  "cmp_NotReEvaluated (compare_spec b c) = sort_by lessBlockerFirst
     (filter (is_not_re_evaluated (lookup_fp (r_Findings c))
       (indexRuleExecutions (r_RuleExecutions c))) (r_Findings b))"
  "cmp_Unchanged (compare_spec b c) = sort_by (\<lambda>x y. entry_key_less (sortKey x) (sortKey y))
     (filter (is_unchanged (lookup_fp (r_Findings b))) (r_Findings c))"
  "cmp_Changed (compare_spec b c) =
     sort_by (\<lambda>x y. entry_key_less (changedSortKey x) (changedSortKey y))
       (List.map_filter (changed_entry (lookup_fp (r_Findings b))) (r_Findings c))"
  "cmp_Warnings (compare_spec b c) = compare_warnings b c"
  by (simp_all add: compare_spec_def Let_def sortComparison_def empty_comparison_def)

lemma buildSummary_spec:
  "cmp_Summary (compare_spec b c) = buildSummary b c (compare_spec b c)"
  by (simp add: compare_spec_def Let_def buildSummary_def)

lemma length_map_filter: "length (List.map_filter g xs) = length (filter (\<lambda>x. g x \<noteq> None) xs)"
  by (simp add: List.map_filter_def)

lemma common_count:
  assumes "indexable fs" and "indexable gs"
  shows "length (filter (\<lambda>f. f_Fingerprint f \<in> f_Fingerprint ` set gs) fs)
    = length (filter (\<lambda>g. f_Fingerprint g \<in> f_Fingerprint ` set fs) gs)"
proof -
  have count: "length (filter (\<lambda>f. f_Fingerprint f \<in> A) xs) = card (f_Fingerprint ` set xs \<inter> A)"
    if "indexable xs" for xs A
  proof -
    have "length (filter (\<lambda>f. f_Fingerprint f \<in> A) xs)
        = length (filter (\<lambda>k. k \<in> A) (map f_Fingerprint xs))"
      by (simp add: filter_map o_def)
    also have "\<dots> = card (set (filter (\<lambda>k. k \<in> A) (map f_Fingerprint xs)))"
      using that by (intro distinct_card [symmetric] distinct_filter) (simp add: indexable_def)
    also have "set (filter (\<lambda>k. k \<in> A) (map f_Fingerprint xs)) = f_Fingerprint ` set xs \<inter> A"
      by auto
    finally show ?thesis .
  qed
  show ?thesis by (simp add: count assms Int_commute)
qed

lemma length_split3:
  assumes "\<And>x. x \<in> set xs \<Longrightarrow> (P x \<and> \<not> Q x \<and> \<not> R x) \<or> (\<not> P x \<and> Q x \<and> \<not> R x) \<or> (\<not> P x \<and> \<not> Q x \<and> R x)"
  shows "length (filter P xs) + length (filter Q xs) + length (filter R xs) = length xs"
  using assms by (induction xs) fastforce+

lemma current_buckets_count:
  "length (filter (is_new m) fs) + length (List.map_filter (changed_entry m) fs)
     + length (filter (is_unchanged m) fs) = length fs"
  unfolding length_map_filter
  by (rule length_split3) (auto simp: is_new_def changed_entry_def is_unchanged_def split: option.splits)

lemma baseline_buckets_count:
  "length (filter (is_resolved m ex) fs) + length (filter (is_not_re_evaluated m ex) fs)
     = length (filter (is_new m) fs)"
  by (induction fs) (auto simp: is_resolved_def is_not_re_evaluated_def)

text \<open>
  The counts of a comparison partition both documents: every current finding is new, changed
  or unchanged, every baseline finding is resolved, not re-evaluated, changed or unchanged, and
  nothing is counted twice.
\<close>

theorem Compare_partition:
  assumes "Compare current_order baseline_order baseline current = Inr c"
    and "mset current_order = mset (map f_Fingerprint (r_Findings current))"
    and "mset baseline_order = mset (map f_Fingerprint (r_Findings baseline))"
  shows "cs_New (cmp_Summary c) + cs_Changed (cmp_Summary c) + cs_Unchanged (cmp_Summary c)
           = length (r_Findings current)
    \<and> cs_Resolved (cmp_Summary c) + cs_NotReEvaluated (cmp_Summary c) + cs_Changed (cmp_Summary c)
        + cs_Unchanged (cmp_Summary c) = length (r_Findings baseline)"
proof -
  note ok = Compare_Inr [OF assms(1)]
  have c: "c = compare_spec baseline current"
    using Compare_eq_spec [OF ok assms(2,3)] assms(1) by simp
  let ?B = "r_Findings baseline" and ?C = "r_Findings current"
  have new: "is_new (lookup_fp fs) = (\<lambda>f. f_Fingerprint f \<notin> f_Fingerprint ` set fs)" for fs
    by (simp add: is_new_def lookup_fp_eq_None fun_eq_iff)
  have "length (filter (is_new (lookup_fp ?B)) ?C) + length (filter (is_new (lookup_fp ?C)) ?B)
      + length (filter (\<lambda>f. f_Fingerprint f \<in> f_Fingerprint ` set ?B) ?C) =
      length (filter (is_new (lookup_fp ?C)) ?B) + length ?C"
    unfolding new using sum_length_filter_compl [of "\<lambda>f. f_Fingerprint f \<notin> f_Fingerprint ` set ?B" ?C]
    by simp
  moreover have "length (filter (is_new (lookup_fp ?C)) ?B)
      + length (filter (\<lambda>f. f_Fingerprint f \<in> f_Fingerprint ` set ?C) ?B) = length ?B"
    unfolding new using sum_length_filter_compl [of "\<lambda>f. f_Fingerprint f \<notin> f_Fingerprint ` set ?C" ?B]
    by simp
  ultimately show ?thesis
    using common_count [OF ok] current_buckets_count [of "lookup_fp ?B" ?C]
      baseline_buckets_count [of "lookup_fp ?C" "indexRuleExecutions (r_RuleExecutions current)" ?B]
    unfolding c buildSummary_spec by (simp add: buildSummary_def Let_def compare_spec_buckets)
qed

theorem Compare_partition_witness:
  "\<exists>c. Compare [''fq'', ''fp''] [''fp''] (sample_report [sample_finding])
          (sample_report [sample_finding, other_finding]) = Inr c
      \<and> cs_New (cmp_Summary c) + cs_Changed (cmp_Summary c) + cs_Unchanged (cmp_Summary c) = 2"
proof -
  let ?b = "sample_report [sample_finding]" and ?c = "sample_report [sample_finding, other_finding]"
  have "Compare [''fq'', ''fp''] [''fp''] ?b ?c = Inr (compare_spec ?b ?c)"
    by (rule Compare_eq_spec) (simp_all add: indexable_def)
  from this Compare_partition [OF this] show ?thesis by simp
qed

subsection \<open>Resolution\<close>

lemma foldl_index: "foldl (\<lambda>m rec. m(ex_RuleID rec \<mapsto> rec)) m recs r = Some rec \<Longrightarrow>
   m r = Some rec \<or> rec \<in> set recs \<and> ex_RuleID rec = r"
  by (induction recs arbitrary: m) (fastforce split: if_splits)+

lemma indexRuleExecutions_Some:
  "indexRuleExecutions recs r = Some rec \<Longrightarrow> rec \<in> set recs \<and> ex_RuleID rec = r"
  unfolding indexRuleExecutions_def by (drule foldl_index) simp

lemma ruleProvenEvaluated_record:
  "ruleProvenEvaluated r (indexRuleExecutions recs) \<Longrightarrow>
     \<exists>rec\<in>set recs. ex_RuleID rec = r \<and> ex_Applicability rec = ApplicabilityApplicable
                       \<and> ex_State rec = ExecutionEvaluated"
  by (auto simp: ruleProvenEvaluated_def split: option.splits dest: indexRuleExecutions_Some)

text \<open>
  C11: A finding is reported as resolved only on proof: it is a baseline finding, no current
  finding has its fingerprint, and the current document has an execution record that says its
  rule applied and was evaluated. A missing finding without such a record is never resolved.
\<close>

theorem Compare_resolved_proven:
  assumes "Compare current_order baseline_order baseline current = Inr c"
    and "mset current_order = mset (map f_Fingerprint (r_Findings current))"
    and "mset baseline_order = mset (map f_Fingerprint (r_Findings baseline))"
    and "f \<in> set (cmp_Resolved c)"
  shows "f \<in> set (r_Findings baseline)
    \<and> f_Fingerprint f \<notin> f_Fingerprint ` set (r_Findings current)
    \<and> (\<exists>rec\<in>set (r_RuleExecutions current). ex_RuleID rec = f_RuleID f
          \<and> ex_Applicability rec = ApplicabilityApplicable \<and> ex_State rec = ExecutionEvaluated)"
proof -
  note ok = Compare_Inr [OF assms(1)]
  have "c = compare_spec baseline current"
    using Compare_eq_spec [OF ok assms(2,3)] assms(1) by simp
  then show ?thesis
    using assms(4) ruleProvenEvaluated_record
    by (auto simp: compare_spec_buckets is_resolved_def is_new_def lookup_fp_eq_None)
qed

definition evaluated_report :: Report where
  "evaluated_report = (sample_report [])\<lparr>r_RuleExecutions :=
     [\<lparr>ex_RuleID = ''PDB-001'', ex_Applicability = ApplicabilityApplicable,
       ex_State = ExecutionEvaluated, ex_Reason = ''''\<rparr>]\<rparr>"

theorem Compare_resolved_proven_witness:
  "\<exists>c. Compare [] [''fp''] (sample_report [sample_finding]) evaluated_report = Inr c
      \<and> AssignPriority sample_finding \<in> set (cmp_Resolved c)
      \<and> f_Fingerprint (AssignPriority sample_finding) \<notin> f_Fingerprint ` set (r_Findings evaluated_report)"
proof -
  have fs: "r_Findings evaluated_report = []" by (simp add: evaluated_report_def)
  have c: "Compare [] [''fp''] (sample_report [sample_finding]) evaluated_report
      = Inr (compare_spec (sample_report [sample_finding]) evaluated_report)" (is "_ = Inr ?c")
    by (rule Compare_eq_spec) (simp_all add: indexable_def fs)
  have "AssignPriority sample_finding \<in> set (cmp_Resolved ?c)"
    by (simp add: compare_spec_buckets is_resolved_def is_new_def lookup_fp_def fs
        ruleProvenEvaluated_def indexRuleExecutions_def evaluated_report_def sample_finding_def
        AssignPriority_eq)
  with c Compare_resolved_proven [OF c _ _ this] show ?thesis by (simp add: fs)
qed

subsection \<open>A document against itself\<close>

lemma diffFinding_self [simp]: "diffFinding f f = []"
  by (simp add: diffFinding_def field_change_def)

lemma self_buckets:
  assumes "indexable fs"
  shows "filter (is_new (lookup_fp fs)) fs = []" "filter (is_unchanged (lookup_fp fs)) fs = fs"
    "List.map_filter (changed_entry (lookup_fp fs)) fs = []"
    "filter (is_resolved (lookup_fp fs) ex) fs = []"
    "filter (is_not_re_evaluated (lookup_fp fs) ex) fs = []"
proof -
  have "lookup_fp fs (f_Fingerprint f) = Some f" if "f \<in> set fs" for f
    using assms that by (simp add: lookup_fp_eq_Some)
  then show "filter (is_new (lookup_fp fs)) fs = []" "filter (is_unchanged (lookup_fp fs)) fs = fs"
    "List.map_filter (changed_entry (lookup_fp fs)) fs = []"
    "filter (is_resolved (lookup_fp fs) ex) fs = []"
    "filter (is_not_re_evaluated (lookup_fp fs) ex) fs = []"
    by (auto simp: filter_empty_conv filter_id_conv is_new_def is_unchanged_def is_resolved_def
        is_not_re_evaluated_def changed_entry_def List.map_filter_def)
qed

text \<open>
  Comparing a document with itself reports no movement: every finding is unchanged, there is
  no warning, the verdict does not change and the readiness score moves by 0.
\<close>

theorem Compare_self:
  assumes "indexable (r_Findings r)"
    and "mset o1 = mset (map f_Fingerprint (r_Findings r))"
    and "mset o2 = mset (map f_Fingerprint (r_Findings r))"
  shows "\<exists>c. Compare o1 o2 r r = Inr c
    \<and> cmp_New c = [] \<and> cmp_Resolved c = [] \<and> cmp_Changed c = [] \<and> cmp_NotReEvaluated c = []
    \<and> mset (cmp_Unchanged c) = mset (r_Findings r) \<and> cmp_Warnings c = []
    \<and> \<not> cs_VerdictChanged (cmp_Summary c) \<and> cs_ReadinessScoreDelta (cmp_Summary c) = 0"
  using Compare_eq_spec [OF assms(1,1) assms(2,3)] self_buckets [OF assms(1)]
  by (simp add: compare_spec_buckets buildSummary_spec buildSummary_def Let_def
      compare_warnings_def)

theorem Compare_self_witness:
  "\<exists>c. Compare [''fp''] [''fp''] (sample_report [sample_finding]) (sample_report [sample_finding])
      = Inr c \<and> cmp_New c = []"
  using Compare_self [of "sample_report [sample_finding]" "[''fp'']" "[''fp'']"]
  by (auto simp: indexable_def)

subsection \<open>The order of the entries\<close>

text \<open>
  In the buckets of new, resolved and not re-evaluated findings the findings whose effective
  gate blocks the upgrade come before all others.
\<close>

theorem Compare_blockers_first:
  assumes "Compare current_order baseline_order baseline current = Inr c"
    and "bucket = cmp_New c \<or> bucket = cmp_Resolved c \<or> bucket = cmp_NotReEvaluated c"
  shows "bucket = filter (\<lambda>f. EffectiveUpgradeGate f = UpgradeGateBlock) bucket
                  @ filter (\<lambda>f. EffectiveUpgradeGate f \<noteq> UpgradeGateBlock) bucket"
proof -
  from assms obtain fs where "bucket = sort_by lessBlockerFirst fs"
    by (auto simp: Compare_def Let_def sortComparison_def split: sum.splits)
  then have "sorted (map blocker_first_key bucket)"
    using blocker_first.sort_by_sorted by simp
  then show ?thesis
  proof (induction bucket)
    case (Cons f fs)
    then show ?case
    proof (cases "EffectiveUpgradeGate f = UpgradeGateBlock")
      case False
      with Cons.prems have "\<forall>g\<in>set fs. EffectiveUpgradeGate g \<noteq> UpgradeGateBlock"
        by (auto simp: blocker_first_key_def less_eq_prod_def)
      then have "filter (\<lambda>f. EffectiveUpgradeGate f = UpgradeGateBlock) fs = []"
        "filter (\<lambda>f. EffectiveUpgradeGate f \<noteq> UpgradeGateBlock) fs = fs"
        by (auto simp: filter_empty_conv filter_id_conv)
      with False show ?thesis by simp
    qed simp
  qed simp
qed

theorem Compare_blockers_first_witness:
  "\<exists>c. Compare [''fp''] [] (sample_report []) (sample_report [sample_finding]) = Inr c
     \<and> cmp_New c = filter (\<lambda>f. EffectiveUpgradeGate f = UpgradeGateBlock) (cmp_New c)
                  @ filter (\<lambda>f. EffectiveUpgradeGate f \<noteq> UpgradeGateBlock) (cmp_New c)"
proof -
  have "Compare [''fp''] [] (sample_report []) (sample_report [sample_finding])
      = Inr (compare_spec (sample_report []) (sample_report [sample_finding]))"
    by (rule Compare_eq_spec) (simp_all add: indexable_def)
  from this Compare_blockers_first [OF this] show ?thesis by blast
qed

subsection \<open>Normalising old documents\<close>

lemma legacy_record_simps [simp]:
  "ex_RuleID (legacy_record fs r) = r"
  "ex_Applicability (legacy_record fs r) = ApplicabilityApplicable"
  "ex_State (legacy_record fs r) =
     (if r \<in> f_RuleID ` set fs then ExecutionEvaluated else ExecutionNotEvaluated)"
  by (simp_all add: legacy_record_def)

lemma foldl_index_legacy:
  "foldl (\<lambda>m rec. m(ex_RuleID rec \<mapsto> rec)) m (map (legacy_record fs) rs) r =
     (if r \<in> set rs then Some (legacy_record fs r) else m r)"
  by (induction rs arbitrary: m) auto

lemma normalized_proof:
  assumes "r_RuleExecutions r = []"
  shows "ruleProvenEvaluated ruleID (indexRuleExecutions (r_RuleExecutions (normalizeRuleExecutions r)))
     \<longleftrightarrow> ruleID \<in> set ExpectedRuleIDs \<and> ruleID \<in> f_RuleID ` set (r_Findings r)"
  using assms
  by (simp add: normalizeRuleExecutions_def indexRuleExecutions_def ruleProvenEvaluated_def
      foldl_index_legacy)

lemma backfill_findings: "f_RuleID (backfill_finding f) = f_RuleID f"
  by (simp add: backfill_finding_def AssignPriority_eq)

lemma backfill_priority [simp]: "f_Priority (backfill_finding f) \<noteq> ''''"
  by (simp add: backfill_finding_def)

lemma load_cases:
  assumes "LoadAndNormalize (Some r0) = Inr r"
  obtains r3 where "r = normalizeRuleExecutions r3"
    and "r_Findings r3 = map backfill_finding (r_Findings r0)"
    and "r_RuleExecutions r3 = r_RuleExecutions r0" and "r_Coverage r3 = r_Coverage r0"
    and "r_Summary r3 = r_Summary r0"
    and "r_RuleExecutionsNormalized r3 = r_RuleExecutionsNormalized r0"
    and "r_SchemaVersion r3 \<noteq> ''''" and "r_TargetVersion r3 \<noteq> ''''"
    and "r_APICompatibility r3 \<noteq> None" and "r_UpgradeReadiness r3 \<noteq> None"
proof
  let ?r1 = "r0\<lparr>r_Findings := map backfill_finding (r_Findings r0)\<rparr>"
  let ?r2 = "if r_APICompatibility ?r1 = None
      then ?r1\<lparr>r_APICompatibility := Some (BuildAPICompatibilitySummary (r_Findings ?r1))\<rparr> else ?r1"
  let ?r3 = "if r_UpgradeReadiness ?r2 = None
      then ?r2\<lparr>r_UpgradeReadiness :=
            Some (BuildUpgradeReadinessSummary (r_Findings ?r2) (Result ?r1))\<rparr> else ?r2"
  show "r = normalizeRuleExecutions ?r3"
    using assms by (auto simp: LoadAndNormalize_def Let_def split: if_splits)
  show "r_SchemaVersion ?r3 \<noteq> ''''" "r_TargetVersion ?r3 \<noteq> ''''"
    using assms by (simp_all add: LoadAndNormalize_def split: if_splits)
qed simp_all

text \<open>
  C24: A document without execution records is never read as one whose rules all ran: after
  loading, a rule counts as evaluated exactly when the document has a finding of it (and the
  rule is one the build knows); the document is marked as normalised, and its coverage is kept.
\<close>

theorem LoadAndNormalize_absence_no_proof:
  assumes "LoadAndNormalize (Some r0) = Inr r" and "r_RuleExecutions r0 = []"
  shows "(ruleProvenEvaluated ruleID (indexRuleExecutions (r_RuleExecutions r))
           \<longleftrightarrow> ruleID \<in> set ExpectedRuleIDs \<and> (\<exists>f\<in>set (r_Findings r0). f_RuleID f = ruleID))
    \<and> map ex_RuleID (r_RuleExecutions r) = ExpectedRuleIDs
    \<and> r_RuleExecutionsNormalized r \<and> r_Coverage r = r_Coverage r0"
proof -
  obtain r3 where r: "r = normalizeRuleExecutions r3"
    and r3: "r_Findings r3 = map backfill_finding (r_Findings r0)"
      "r_RuleExecutions r3 = []" "r_Coverage r3 = r_Coverage r0"
    using load_cases [OF assms(1)] assms(2) by metis
  have "f_RuleID ` set (r_Findings r3) = f_RuleID ` set (r_Findings r0)"
    by (simp add: r3 image_image backfill_findings)
  then have "ruleProvenEvaluated ruleID (indexRuleExecutions (r_RuleExecutions r))
      \<longleftrightarrow> ruleID \<in> set ExpectedRuleIDs \<and> (\<exists>f\<in>set (r_Findings r0). f_RuleID f = ruleID)"
    unfolding r normalized_proof [OF r3(2)] by auto
  then show ?thesis using r3 by (simp add: r normalizeRuleExecutions_def o_def)
qed

theorem LoadAndNormalize_absence_no_proof_witness:
  "\<exists>r. LoadAndNormalize (Some (sample_report [sample_finding])) = Inr r
     \<and> ruleProvenEvaluated ''PDB-001'' (indexRuleExecutions (r_RuleExecutions r))
     \<and> \<not> ruleProvenEvaluated ''API-001'' (indexRuleExecutions (r_RuleExecutions r))"
proof -
  have "r_SchemaVersion (sample_report fs) \<noteq> ''''" "r_TargetVersion (sample_report fs) \<noteq> ''''" for fs
    by (simp_all add: sample_report_def NewReport_def NewReportWithUpgradeContext_def Let_def
        SchemaVersion_def)
  then obtain r where r: "LoadAndNormalize (Some (sample_report [sample_finding])) = Inr r"
    by (simp add: LoadAndNormalize_def Let_def)
  note loaded = LoadAndNormalize_absence_no_proof [OF r sample_report_executions, THEN conjunct1]
  have "f_RuleID (AssignPriority sample_finding) = ''PDB-001''"
    by (simp add: AssignPriority_eq sample_finding_def)
  with r loaded [of "''PDB-001''"] loaded [of "''API-001''"] show ?thesis
    by (simp add: ExpectedRuleIDs_def)
qed

text \<open>
  C25: Loading a document changes neither its verdict nor, done a second time, anything at all;
  afterwards every finding has a priority and both scorecards are present.
\<close>

theorem LoadAndNormalize_idem:
  assumes "LoadAndNormalize (Some r0) = Inr r"
  shows "LoadAndNormalize (Some r) = Inr r \<and> Result r = Result r0
    \<and> (\<forall>f\<in>set (r_Findings r). f_Priority f \<noteq> '''')
    \<and> r_APICompatibility r \<noteq> None \<and> r_UpgradeReadiness r \<noteq> None"
proof -
  obtain r3 where r: "r = normalizeRuleExecutions r3"
    and r3: "r_Findings r3 = map backfill_finding (r_Findings r0)"
      "r_RuleExecutions r3 = r_RuleExecutions r0" "r_Coverage r3 = r_Coverage r0"
      "r_Summary r3 = r_Summary r0"
      "r_RuleExecutionsNormalized r3 = r_RuleExecutionsNormalized r0"
    and set: "r_SchemaVersion r3 \<noteq> ''''" "r_TargetVersion r3 \<noteq> ''''"
      "r_APICompatibility r3 \<noteq> None" "r_UpgradeReadiness r3 \<noteq> None"
    using load_cases [OF assms] by metis
  have priorities: "\<forall>f\<in>set (r_Findings r). f_Priority f \<noteq> ''''"
    by (auto simp: r normalizeRuleExecutions_def r3 backfill_priority)
  then have "map backfill_finding (r_Findings r) = r_Findings r"
    by (simp add: map_idI backfill_finding_def)
  moreover have "normalizeRuleExecutions r = r"
    by (simp add: r normalizeRuleExecutions_def ExpectedRuleIDs_def)
  moreover have keep: "r_SchemaVersion r \<noteq> ''''" "r_TargetVersion r \<noteq> ''''"
      "r_APICompatibility r \<noteq> None" "r_UpgradeReadiness r \<noteq> None"
    using set by (simp_all add: r normalizeRuleExecutions_def)
  ultimately have "LoadAndNormalize (Some r) = Inr r"
    by (auto simp: LoadAndNormalize_def Let_def)
  moreover have "Result r = Result r0"
    using r3 by (simp add: r normalizeRuleExecutions_def Result_def resultAndExitCode_def
        IsComplete_def)
  ultimately show ?thesis using priorities keep by simp
qed

theorem LoadAndNormalize_idem_witness:
  "\<exists>r. LoadAndNormalize (Some (sample_report [sample_finding])) = Inr r
     \<and> LoadAndNormalize (Some r) = Inr r"
proof -
  obtain r where r: "LoadAndNormalize (Some (sample_report [sample_finding])) = Inr r"
    by (simp add: LoadAndNormalize_def Let_def sample_report_def NewReport_def
        NewReportWithUpgradeContext_def SchemaVersion_def)
  with LoadAndNormalize_idem [OF r] show ?thesis by blast
qed

end
