(* ===== verification/Coverage.thy ===== *)
theory Coverage
  imports ReportFacts
begin

text \<open>
  How completely a report's rules were evaluated: \<open>internal/report/evaluation_coverage.go\<close>. The
  summary every renderer and the gate read, its combination with the coverage of the evidence
  planes, and the rows of the per-rule table.
\<close>

section \<open>The coverage of the rules\<close>

datatype EvaluationCoverageStatus =
    CoverageStatusComplete | CoverageStatusPartial | CoverageStatusUnavailable
  | CoverageStatusNormalizedLegacy | CoverageStatusOther string

fun coverage_status_string :: "EvaluationCoverageStatus \<Rightarrow> string" where
  "coverage_status_string CoverageStatusComplete = ''complete''"
| "coverage_status_string CoverageStatusPartial = ''partial''"
| "coverage_status_string CoverageStatusUnavailable = ''unavailable''"
| "coverage_status_string CoverageStatusNormalizedLegacy = ''normalized_legacy''"
| "coverage_status_string (CoverageStatusOther s) = s"

record EvaluationCoverage =
  ec_HasData :: bool
  ec_CoverageLabel :: string
  ec_TotalRules :: nat
  ec_Evaluated :: nat
  ec_NotEvaluated :: nat
  ec_InsufficientEvidence :: nat
  ec_Failed :: nat
  ec_NotApplicable :: nat
  ec_Source :: string
  ec_Normalized :: bool
  ec_Status :: EvaluationCoverageStatus

fun status_label :: "EvaluationCoverageStatus \<Rightarrow> string" where
  "status_label CoverageStatusComplete = ''Complete''"
| "status_label CoverageStatusPartial = ''Partial''"
| "status_label CoverageStatusNormalizedLegacy = ''Normalized legacy''"
| "status_label _ = ''Unavailable''"

definition pluralize :: "nat \<Rightarrow> string \<Rightarrow> string \<Rightarrow> string" where
  "pluralize n singular plural = (if n = 1 then singular else plural)"

definition coverage_gap :: "EvaluationCoverage \<Rightarrow> nat" where
  "coverage_gap c = ec_NotEvaluated c + ec_InsufficientEvidence c + ec_Failed c"

definition gap_sentence :: "EvaluationCoverage \<Rightarrow> string" where
  "gap_sentence c =
     show_nat (coverage_gap c) @ '' applicable ''
     @ pluralize (coverage_gap c) ''rule was'' ''rules were'' @ '' not fully evaluated''"

definition rule_advisory :: "EvaluationCoverage \<Rightarrow> string" where
  "rule_advisory c =
     (case ec_Status c of
        CoverageStatusPartial \<Rightarrow> gap_sentence c @ ''. Review before approving the change.''
      | CoverageStatusUnavailable \<Rightarrow> ''No rule-execution metadata is available for this report; evaluation coverage cannot be confirmed. Review before approving the change.''
      | CoverageStatusNormalizedLegacy \<Rightarrow> ''This report's rule-execution metadata was normalized from a legacy pre-v1.3.0 document (inferred from finding presence/absence), not recorded natively during the scan. Treat coverage figures as an inference, not this scan's own evidence.''
      | _ \<Rightarrow> '''')"

definition empty_coverage :: EvaluationCoverage where
  \<comment> \<open>the zero value but for the status\<close>
  "empty_coverage =
     \<lparr>ec_HasData = False, ec_CoverageLabel = '''', ec_TotalRules = 0, ec_Evaluated = 0,
      ec_NotEvaluated = 0, ec_InsufficientEvidence = 0, ec_Failed = 0, ec_NotApplicable = 0,
      ec_Source = '''', ec_Normalized = False, ec_Status = CoverageStatusUnavailable\<rparr>"

definition coverage_step :: "EvaluationCoverage \<Rightarrow> RuleExecutionRecord \<Rightarrow> EvaluationCoverage" where
  "coverage_step c rec =
     (if ex_Applicability rec = ApplicabilityNotApplicable
      then c\<lparr>ec_NotApplicable := Suc (ec_NotApplicable c)\<rparr>
      else case ex_State rec of
             ExecutionEvaluated \<Rightarrow> c\<lparr>ec_Evaluated := Suc (ec_Evaluated c)\<rparr>
           | ExecutionInsufficientEvidence \<Rightarrow>
               c\<lparr>ec_InsufficientEvidence := Suc (ec_InsufficientEvidence c)\<rparr>
           | ExecutionFailed \<Rightarrow> c\<lparr>ec_Failed := Suc (ec_Failed c)\<rparr>
           | _ \<Rightarrow> c\<lparr>ec_NotEvaluated := Suc (ec_NotEvaluated c)\<rparr>)"

definition BuildEvaluationCoverage :: "Report \<Rightarrow> EvaluationCoverage" where
  "BuildEvaluationCoverage r =
     (if length (r_RuleExecutions r) = 0 then empty_coverage
      else
        let c0 = empty_coverage\<lparr>ec_HasData := True, ec_TotalRules := length (r_RuleExecutions r),
                   ec_Normalized := r_RuleExecutionsNormalized r\<rparr>;
            c1 = foldl coverage_step c0 (r_RuleExecutions r);
            c2 = c1\<lparr>ec_CoverageLabel :=
                   (if ec_NotEvaluated c1 = 0 \<and> ec_InsufficientEvidence c1 = 0 \<and> ec_Failed c1 = 0
                    then ''Complete'' else ''Partial'')\<rparr>
        in if ec_Normalized c2
           then c2\<lparr>ec_Source := ''Normalized from legacy report'',
                   ec_Status := CoverageStatusNormalizedLegacy\<rparr>
           else c2\<lparr>ec_Source := ''Native'',
                   ec_Status := (if ec_CoverageLabel c2 = ''Complete'' then CoverageStatusComplete
                                 else CoverageStatusPartial)\<rparr>)"

section \<open>The combined coverage\<close>

record OverallCoverage =
  oc_Status :: EvaluationCoverageStatus
  oc_RuleCoverage :: EvaluationCoverage
  oc_DegradedPlanes :: "string list"

definition degraded_planes :: "ScanCoverage \<Rightarrow> string list" where
  "degraded_planes sc =
     map fst (filter (\<lambda>(name, status). status = CoveragePartial)
       [(''Kubernetes'', pc_Status (sc_Kubernetes sc)), (''AWS'', pc_Status (sc_AWS sc)),
        (''Manifests'', pc_Status (sc_Manifests sc))])"

definition BuildOverallCoverage :: "EvaluationCoverage \<Rightarrow> ScanCoverage \<Rightarrow> OverallCoverage" where
  "BuildOverallCoverage c sc =
     (let out = \<lparr>oc_Status = CoverageStatusOther '''', oc_RuleCoverage = c, oc_DegradedPlanes = []\<rparr>
      in case ec_Status c of
           CoverageStatusUnavailable \<Rightarrow> out\<lparr>oc_Status := CoverageStatusUnavailable\<rparr>
         | CoverageStatusNormalizedLegacy \<Rightarrow> out\<lparr>oc_Status := CoverageStatusNormalizedLegacy\<rparr>
         | _ \<Rightarrow>
             let out' = out\<lparr>oc_DegradedPlanes := degraded_planes sc\<rparr>
             in if ec_Status c = CoverageStatusPartial \<or> length (oc_DegradedPlanes out') > 0
                then out'\<lparr>oc_Status := CoverageStatusPartial\<rparr>
                else out'\<lparr>oc_Status := CoverageStatusComplete\<rparr>)"

definition overall_advisory :: "OverallCoverage \<Rightarrow> string" where
  "overall_advisory oc =
     (let c = oc_RuleCoverage oc;
          parts =
            (if coverage_gap c > 0 then [gap_sentence c] else [])
            @ (if length (oc_DegradedPlanes oc) > 0
               then [''evidence collection was incomplete for: ''
                       @ Join (oc_DegradedPlanes oc) '', ''] else [])
      in case oc_Status oc of
           CoverageStatusUnavailable \<Rightarrow> rule_advisory c
         | CoverageStatusNormalizedLegacy \<Rightarrow> rule_advisory c
         | CoverageStatusPartial \<Rightarrow> Join parts ''; '' @ ''. Review before approving the change.''
         | _ \<Rightarrow> '''')"

section \<open>The rows of the per-rule table\<close>

record RuleExecutionRow =
  row_RuleID :: string
  row_Applicability :: string
  row_State :: string
  row_StateClass :: string
  row_Outcome :: string
  row_Reason :: string

definition applicabilityLabel :: "RuleApplicability \<Rightarrow> string" where
  "applicabilityLabel a =
     (case a of ApplicabilityNotApplicable \<Rightarrow> ''Not applicable'' | _ \<Rightarrow> ''Applicable'')"

definition executionStateLabel :: "RuleExecutionState \<Rightarrow> string" where
  "executionStateLabel s =
     (case s of
        ExecutionEvaluated \<Rightarrow> ''Evaluated''
      | ExecutionInsufficientEvidence \<Rightarrow> ''Insufficient evidence''
      | ExecutionFailed \<Rightarrow> ''Failed''
      | _ \<Rightarrow> ''Not evaluated'')"

definition ruleStateClass :: "RuleApplicability \<Rightarrow> RuleExecutionState \<Rightarrow> string" where
  "ruleStateClass a s =
     (if a = ApplicabilityNotApplicable then ''not-applicable''
      else case s of
             ExecutionEvaluated \<Rightarrow> ''clean''
           | ExecutionInsufficientEvidence \<Rightarrow> ''insufficient''
           | ExecutionFailed \<Rightarrow> ''blocked''
           | _ \<Rightarrow> ''not-evaluated'')"

definition ruleOutcomeLabel :: "RuleApplicability \<Rightarrow> RuleExecutionState \<Rightarrow> nat \<Rightarrow> string" where
  "ruleOutcomeLabel a s findingCount =
     (if a = ApplicabilityNotApplicable then ''Not applicable''
      else case s of
             ExecutionEvaluated \<Rightarrow>
               if findingCount = 0 then ''No issue detected''
               else show_nat findingCount @ '' finding(s) reported''
           | ExecutionInsufficientEvidence \<Rightarrow> ''Unable to verify''
           | ExecutionFailed \<Rightarrow> ''Evaluation failed''
           | _ \<Rightarrow> ''Not evaluated'')"

definition finding_count :: "Finding list \<Rightarrow> string \<Rightarrow> nat" where
  "finding_count fs ruleID = length (filter (\<lambda>f. f_RuleID f = ruleID) fs)"

definition execution_row :: "Finding list \<Rightarrow> RuleExecutionRecord \<Rightarrow> RuleExecutionRow" where
  "execution_row fs rec =
     \<lparr>row_RuleID = ex_RuleID rec,
      row_Applicability = applicabilityLabel (ex_Applicability rec),
      row_State = executionStateLabel (ex_State rec),
      row_StateClass = ruleStateClass (ex_Applicability rec) (ex_State rec),
      row_Outcome = ruleOutcomeLabel (ex_Applicability rec) (ex_State rec)
                      (finding_count fs (ex_RuleID rec)),
      row_Reason = ex_Reason rec\<rparr>"

definition BuildRuleExecutionRows :: "Report \<Rightarrow> RuleExecutionRow list" where
  "BuildRuleExecutionRows r =
     (if length (r_RuleExecutions r) = 0 then []
      else sort_by (\<lambda>x y. row_RuleID x < row_RuleID y)
             (map (execution_row (r_Findings r)) (r_RuleExecutions r)))"

text \<open>\<open>markdownEscaper\<close>: every pattern is one byte, so the replacer works byte by byte.\<close>

definition markdown_byte :: "char \<Rightarrow> string" where
  "markdown_byte c =
     (if c = CHR 0x5C then [CHR 0x5C, CHR 0x5C]
      else if c = CHR ''|'' then [CHR 0x5C, CHR ''|'']
      else if c = CHR 0x60 then [CHR 0x5C, CHR 0x60]
      else if c = CHR ''*'' then [CHR 0x5C, CHR ''*'']
      else if c = CHR ''_'' then [CHR 0x5C, CHR ''_'']
      else if c = CHR ''<'' then ''&lt;''
      else if c = CHR ''>'' then ''&gt;''
      else if c = CHR ''&'' then ''&amp;''
      else if c = CHR 0x0A then '' ''
      else if c = CHR 0x0D then '' ''
      else [c])"

definition markdownEscape :: "string \<Rightarrow> string" where
  "markdownEscape s = (if s = '''' then s else concat (map markdown_byte s))"

section \<open>Properties of the coverage\<close>

definition in_scope :: "RuleExecutionRecord \<Rightarrow> bool" where
  "in_scope rec \<longleftrightarrow> ex_Applicability rec \<noteq> ApplicabilityNotApplicable"

definition gap_record :: "RuleExecutionRecord \<Rightarrow> bool" where
  "gap_record rec \<longleftrightarrow> in_scope rec \<and> ex_State rec \<noteq> ExecutionEvaluated"

definition count_if :: "('a \<Rightarrow> bool) \<Rightarrow> 'a list \<Rightarrow> nat" where
  "count_if P xs = length (filter P xs)"

lemma count_simps [simp]:
  "count_if P [] = 0" "count_if P (x # xs) = (if P x then Suc (count_if P xs) else count_if P xs)"
  by (simp_all add: count_if_def)

lemma count_zero: "count_if P xs = 0 \<longleftrightarrow> (\<forall>x\<in>set xs. \<not> P x)"
  by (simp add: count_if_def filter_empty_conv)

lemma coverage_step_counts:
  "ec_NotApplicable (coverage_step c rec) = ec_NotApplicable c + (if in_scope rec then 0 else 1)"
  "ec_Evaluated (coverage_step c rec) =
     ec_Evaluated c + (if in_scope rec \<and> ex_State rec = ExecutionEvaluated then 1 else 0)"
  "coverage_gap (coverage_step c rec) = coverage_gap c + (if gap_record rec then 1 else 0)"
  "ec_HasData (coverage_step c rec) = ec_HasData c"
  "ec_TotalRules (coverage_step c rec) = ec_TotalRules c"
  "ec_Normalized (coverage_step c rec) = ec_Normalized c"
  by (auto simp: coverage_step_def in_scope_def gap_record_def coverage_gap_def
      split: RuleExecutionState.splits)

lemma coverage_fold_counts:
  "ec_NotApplicable (foldl coverage_step c recs)
     = ec_NotApplicable c + count_if (\<lambda>rec. \<not> in_scope rec) recs"
  "ec_Evaluated (foldl coverage_step c recs)
     = ec_Evaluated c + count_if (\<lambda>rec. in_scope rec \<and> ex_State rec = ExecutionEvaluated) recs"
  "coverage_gap (foldl coverage_step c recs) = coverage_gap c + count_if gap_record recs"
  "ec_HasData (foldl coverage_step c recs) = ec_HasData c"
  "ec_TotalRules (foldl coverage_step c recs) = ec_TotalRules c"
  "ec_Normalized (foldl coverage_step c recs) = ec_Normalized c"
  by (induction recs arbitrary: c) (simp_all add: coverage_step_counts)

lemma coverage_built:
  assumes "r_RuleExecutions r \<noteq> []"
  shows "ec_NotApplicable (BuildEvaluationCoverage r)
      = count_if (\<lambda>rec. \<not> in_scope rec) (r_RuleExecutions r)"
    "ec_Evaluated (BuildEvaluationCoverage r)
      = count_if (\<lambda>rec. in_scope rec \<and> ex_State rec = ExecutionEvaluated) (r_RuleExecutions r)"
    "coverage_gap (BuildEvaluationCoverage r) = count_if gap_record (r_RuleExecutions r)"
    "ec_HasData (BuildEvaluationCoverage r)"
    "ec_TotalRules (BuildEvaluationCoverage r) = length (r_RuleExecutions r)"
    "ec_Normalized (BuildEvaluationCoverage r) = r_RuleExecutionsNormalized r"
  using assms coverage_fold_counts [of _ "r_RuleExecutions r"]
  by (simp_all add: BuildEvaluationCoverage_def Let_def coverage_gap_def empty_coverage_def)

lemma coverage_built_status:
  "ec_Status (BuildEvaluationCoverage r) =
     (if r_RuleExecutions r = [] then CoverageStatusUnavailable
      else if r_RuleExecutionsNormalized r then CoverageStatusNormalizedLegacy
      else if coverage_gap (BuildEvaluationCoverage r) = 0 then CoverageStatusComplete
      else CoverageStatusPartial)"
  using coverage_fold_counts(6) [of _ "r_RuleExecutions r"]
  by (simp add: BuildEvaluationCoverage_def Let_def coverage_gap_def empty_coverage_def)

text \<open>
  The counts of the coverage summary partition the execution records: every record is counted
  once, as evaluated, as a gap (not evaluated, insufficient evidence, failed) or as not
  applicable.
\<close>

theorem coverage_counts_partition:
  "ec_Evaluated (BuildEvaluationCoverage r) + ec_NotEvaluated (BuildEvaluationCoverage r)
     + ec_InsufficientEvidence (BuildEvaluationCoverage r) + ec_Failed (BuildEvaluationCoverage r)
     + ec_NotApplicable (BuildEvaluationCoverage r) = ec_TotalRules (BuildEvaluationCoverage r)
   \<and> ec_TotalRules (BuildEvaluationCoverage r) = length (r_RuleExecutions r)"
proof (cases "r_RuleExecutions r = []")
  case True
  then show ?thesis by (simp add: BuildEvaluationCoverage_def empty_coverage_def)
next
  case False
  have "count_if (\<lambda>rec. in_scope rec \<and> ex_State rec = ExecutionEvaluated) recs
      + count_if gap_record recs + count_if (\<lambda>rec. \<not> in_scope rec) recs = length recs" for recs
    by (induction recs) (auto simp: gap_record_def)
  from this [of "r_RuleExecutions r"] coverage_built [OF False] show ?thesis
    by (simp add: coverage_gap_def)
qed

lemma coverage_complete_iff:
  "ec_Status (BuildEvaluationCoverage r) = CoverageStatusComplete \<longleftrightarrow>
     r_RuleExecutions r \<noteq> [] \<and> \<not> r_RuleExecutionsNormalized r
     \<and> (\<forall>rec\<in>set (r_RuleExecutions r). \<not> gap_record rec)"
  using coverage_built(3) [of r] by (auto simp: coverage_built_status count_zero)

text \<open>
  The four statuses of the coverage. It is \<open>unavailable\<close> exactly when there are no execution
  records, whether or not they were marked as inferred: that test comes first. With records it
  is \<open>normalized_legacy\<close> exactly when they were inferred from an old document, whatever they say;
  \<open>complete\<close> exactly when they are native and every rule in scope was evaluated; and otherwise
  \<open>partial\<close>.
\<close>

theorem coverage_status_classified:
  "(ec_Status (BuildEvaluationCoverage r) = CoverageStatusUnavailable) = (r_RuleExecutions r = [])
   \<and> (ec_Status (BuildEvaluationCoverage r) = CoverageStatusNormalizedLegacy)
     = (r_RuleExecutions r \<noteq> [] \<and> r_RuleExecutionsNormalized r)
   \<and> (ec_Status (BuildEvaluationCoverage r) = CoverageStatusComplete)
     = (r_RuleExecutions r \<noteq> [] \<and> \<not> r_RuleExecutionsNormalized r
        \<and> list_all (\<lambda>rec. ex_Applicability rec = ApplicabilityNotApplicable
                          \<or> ex_State rec = ExecutionEvaluated) (r_RuleExecutions r))
   \<and> (ec_Status (BuildEvaluationCoverage r) = CoverageStatusPartial)
     = (r_RuleExecutions r \<noteq> [] \<and> \<not> r_RuleExecutionsNormalized r
        \<and> list_ex (\<lambda>rec. ex_Applicability rec \<noteq> ApplicabilityNotApplicable
                         \<and> ex_State rec \<noteq> ExecutionEvaluated) (r_RuleExecutions r))"
  using coverage_complete_iff [of r]
  by (auto simp: coverage_built_status list_all_iff list_ex_iff gap_record_def in_scope_def
      split: if_splits)

lemma overall_status:
  "oc_Status (BuildOverallCoverage c sc) =
     (case ec_Status c of
        CoverageStatusUnavailable \<Rightarrow> CoverageStatusUnavailable
      | CoverageStatusNormalizedLegacy \<Rightarrow> CoverageStatusNormalizedLegacy
      | st \<Rightarrow> if st = CoverageStatusPartial \<or> degraded_planes sc \<noteq> [] then CoverageStatusPartial
             else CoverageStatusComplete)"
  "oc_RuleCoverage (BuildOverallCoverage c sc) = c"
  by (simp_all add: BuildOverallCoverage_def Let_def split: EvaluationCoverageStatus.split)

lemma degraded_planes_empty [cover_simps]:
  "degraded_planes sc = [] \<longleftrightarrow>
     pc_Status (sc_Kubernetes sc) \<noteq> CoveragePartial \<and> pc_Status (sc_AWS sc) \<noteq> CoveragePartial
     \<and> pc_Status (sc_Manifests sc) \<noteq> CoveragePartial"
  by (simp add: degraded_planes_def)

text \<open>
  C30: The coverage shown and the verdict agree. If the combined coverage of a report is
  \<open>complete\<close>, the verdict is not INCOMPLETE; and a report with native execution records of known
  applicability whose verdict is not INCOMPLETE has complete combined coverage.
\<close>

theorem overall_coverage_verdict:
  assumes "oc = BuildOverallCoverage (BuildEvaluationCoverage r) (r_Coverage r)"
  shows "(oc_Status oc = CoverageStatusComplete \<longrightarrow> Result r \<noteq> ''INCOMPLETE'')
    \<and> (Result r \<noteq> ''INCOMPLETE'' \<and> r_RuleExecutions r \<noteq> [] \<and> \<not> r_RuleExecutionsNormalized r
         \<and> list_all (\<lambda>rec. ex_Applicability rec = ApplicabilityApplicable
                            \<or> ex_Applicability rec = ApplicabilityNotApplicable) (r_RuleExecutions r)
       \<longrightarrow> oc_Status oc = CoverageStatusComplete)"
proof -
  have incomplete: "Result r \<noteq> ''INCOMPLETE'' \<longleftrightarrow> IsComplete r"
    by (simp add: Result_def resultAndExitCode_def)
  have complete: "oc_Status oc = CoverageStatusComplete \<longleftrightarrow>
      ec_Status (BuildEvaluationCoverage r) = CoverageStatusComplete \<and> degraded_planes (r_Coverage r) = []"
    by (auto simp: assms overall_status coverage_built_status split: if_splits)
  show ?thesis
    unfolding incomplete complete coverage_complete_iff
    by (auto simp: IsComplete_def cover_simps list_all_iff list_ex_iff gap_record_def in_scope_def)
qed

definition native_report :: Report where
  "native_report = (NewReport ''1.30'' '''' '''' 0 [sample_finding])\<lparr>r_RuleExecutions :=
     [\<lparr>ex_RuleID = ''PDB-001'', ex_Applicability = ApplicabilityApplicable,
       ex_State = ExecutionEvaluated, ex_Reason = ''''\<rparr>]\<rparr>"

theorem overall_coverage_verdict_witness:
  "Result native_report \<noteq> ''INCOMPLETE''
   \<and> oc_Status (BuildOverallCoverage (BuildEvaluationCoverage native_report)
        (r_Coverage native_report)) = CoverageStatusComplete"
proof -
  have "Result native_report \<noteq> ''INCOMPLETE''" "\<not> r_RuleExecutionsNormalized native_report"
    by (simp_all add: native_report_def Result_def resultAndExitCode_def IsComplete_def
        NewReport_def NewReportWithUpgradeContext_def Let_def plane_coverage_def)
  then show ?thesis
    using overall_coverage_verdict [OF refl, of native_report] by (simp add: native_report_def)
qed

text \<open>
  Whenever the combined coverage of a report is anything but complete the operator sees a
  caution, and none otherwise.
\<close>

theorem overall_advisory_shown:
  "overall_advisory (BuildOverallCoverage (BuildEvaluationCoverage r) sc) = ''''
     \<longleftrightarrow> oc_Status (BuildOverallCoverage (BuildEvaluationCoverage r) sc) = CoverageStatusComplete"
  by (auto simp: overall_advisory_def overall_status coverage_built_status Let_def rule_advisory_def)

subsection \<open>The rows\<close>

lemma show_nat_head: "\<not> is_digit c \<Longrightarrow> show_nat n @ s \<noteq> c # t"
  using list_all_digit_show_nat [of n] by (cases "show_nat n") auto

interpretation row_order:
  key_comparison "\<lambda>x y. row_RuleID x < row_RuleID y" row_RuleID
  by unfold_locales simp

text \<open>
  Zero findings read as clean only on proof: a row says \<open>No issue detected\<close> exactly when it
  comes from a record whose rule was in scope and evaluated and the report has no finding of that
  rule. The rows are those of the records, sorted by rule.
\<close>

theorem row_clean_only_if_evaluated:
  "set (filter (\<lambda>row. row_Outcome row = ''No issue detected'') (BuildRuleExecutionRows r))
     = execution_row (r_Findings r) `
         {rec \<in> set (r_RuleExecutions r).
            ex_Applicability rec \<noteq> ApplicabilityNotApplicable \<and> ex_State rec = ExecutionEvaluated
            \<and> list_all (\<lambda>f. f_RuleID f \<noteq> ex_RuleID rec) (r_Findings r)}
   \<and> mset (BuildRuleExecutionRows r)
       = mset (map (execution_row (r_Findings r)) (r_RuleExecutions r))
   \<and> sorted (map row_RuleID (BuildRuleExecutionRows r))"
proof -
  have clean: "row_Outcome (execution_row fs rec) = ''No issue detected'' \<longleftrightarrow>
      ex_Applicability rec \<noteq> ApplicabilityNotApplicable \<and> ex_State rec = ExecutionEvaluated
      \<and> list_all (\<lambda>f. f_RuleID f \<noteq> ex_RuleID rec) fs" for fs rec
    using show_nat_head [of "CHR ''N''"]
    by (auto simp: execution_row_def ruleOutcomeLabel_def finding_count_def list_all_iff
        filter_empty_conv split: RuleExecutionState.split)
  have "set (BuildRuleExecutionRows r)
      = execution_row (r_Findings r) ` set (r_RuleExecutions r)"
    by (simp add: BuildRuleExecutionRows_def)
  moreover have "mset (BuildRuleExecutionRows r)
       = mset (map (execution_row (r_Findings r)) (r_RuleExecutions r))"
    by (simp add: BuildRuleExecutionRows_def)
  moreover have "sorted (map row_RuleID (BuildRuleExecutionRows r))"
    using row_order.sort_by_sorted [of "map (execution_row (r_Findings r)) (r_RuleExecutions r)"]
    by (simp add: BuildRuleExecutionRows_def)
  ultimately show ?thesis using clean by auto
qed

text \<open>Reading an escaped cell: a backslash protects the byte after it.\<close>

fun cell_safe :: "string \<Rightarrow> bool" where
  "cell_safe [] = True"
| "cell_safe [c] \<longleftrightarrow> c \<notin> set ''|*_<>'' \<union> {CHR 0x5C, CHR 0x60, CHR 0x0A, CHR 0x0D}"
| "cell_safe (c # d # s) =
     (if c = CHR 0x5C then cell_safe s
      else c \<notin> set ''|*_<>'' \<union> {CHR 0x60, CHR 0x0A, CHR 0x0D} \<and> cell_safe (d # s))"

lemma cell_safe_plain:
  "c \<notin> set ''|*_<>'' \<union> {CHR 0x5C, CHR 0x60, CHR 0x0A, CHR 0x0D} \<Longrightarrow>
   cell_safe (c # s) = cell_safe s"
  by (cases s) auto

lemma cell_safe_byte: "cell_safe (markdown_byte c @ s) = cell_safe s"
  by (simp add: markdown_byte_def cell_safe_plain)

text \<open>
  Escaped text cannot break out of a Markdown table cell: in the result every pipe, backtick,
  star and underscore is protected by a backslash of its own, and there is no line break and no
  angle bracket.
\<close>

theorem markdownEscape_safe: "cell_safe (markdownEscape s)"
proof -
  have "cell_safe (concat (map markdown_byte s))"
    by (induction s) (simp_all add: cell_safe_byte)
  then show ?thesis by (simp add: markdownEscape_def)
qed

end
