(* ===== verification/Gate.thy ===== *)
theory Gate
  imports ComparisonFacts Coverage
begin

text \<open>
  The CI gate: \<open>internal/gate/model.go\<close> and \<open>internal/gate/evaluate.go\<close>. A comparison and a
  policy give a decision, the reasons for it, and the coverage that is shown beside it.
\<close>

section \<open>Policies and results\<close>

definition GateSchemaVersion :: string where
  "GateSchemaVersion = ''kubepreflight.io/comparison-gate/v1''"

datatype Decision = DecisionPass | DecisionFail | DecisionNeutral

datatype WarningPolicy =
  WarningPolicyIgnore | WarningPolicyFailOnNew | WarningPolicyFailOnAny | WarningPolicyOther string

datatype ReasonCode =
    ReasonNewBlockersDetected | ReasonNewWarningsDetected | ReasonWarningsPresent
  | ReasonReadinessVerdictRegressed | ReasonReadinessScoreRegressed | ReasonInsufficientEvidence

record Policy =
  pol_FailOnNewBlockers :: bool
  pol_WarningPolicy :: WarningPolicy
  pol_FailOnVerdictRegression :: bool
  pol_MinimumScoreDelta :: int

definition DefaultPolicy :: Policy where
  "DefaultPolicy =
     \<lparr>pol_FailOnNewBlockers = True, pol_WarningPolicy = WarningPolicyIgnore,
      pol_FailOnVerdictRegression = True, pol_MinimumScoreDelta = 0\<rparr>"

record GateCoverage =
  gc_Status :: string
  gc_NotEvaluated :: nat
  gc_InsufficientEvidence :: nat
  gc_Failed :: nat
  gc_Normalized :: bool
  gc_DegradedPlanes :: "string list"
  gc_NotReEvaluated :: nat

record GateResult =
  g_SchemaVersion :: string
  g_Decision :: Decision
  g_Reasons :: "ReasonCode list"
  g_NewBlockers :: nat
  g_NewWarnings :: nat
  g_CurrentWarnings :: nat
  g_ResolvedFindings :: nat
  g_ScoreDelta :: int
  g_EvaluationCoverage :: GateCoverage
  g_EvaluationAdvisories :: "string list"

section \<open>Evaluation\<close>

text \<open>\<open>verdictRank\<close> is read without the \<open>ok\<close> flag: an unknown verdict ranks 0.\<close>

definition verdictRank :: "string \<Rightarrow> nat" where
  "verdictRank v =
     (if v = ''PASSED_WITH_WARNINGS'' then 1 else if v = ''BLOCKED'' then 2 else 0)"

definition verdictRegressed :: "string \<Rightarrow> string \<Rightarrow> bool" where
  "verdictRegressed baseline current \<longleftrightarrow> verdictRank current > verdictRank baseline"

definition countSeverity :: "Entry list \<Rightarrow> Severity \<Rightarrow> nat" where
  "countSeverity entries severity = length (filter (\<lambda>e. f_Severity e = severity) entries)"

definition NotReEvaluatedExplanation :: string where
  "NotReEvaluatedExplanation = ''The finding was present in the baseline, but its rule was not successfully evaluated in the current report, so resolution cannot be confirmed.''"

definition buildEvaluationPresentation ::
  "Report \<Rightarrow> Comparison \<Rightarrow> GateCoverage \<times> string list" where
  "buildEvaluationPresentation current cmp =
     (let ruleCov = BuildEvaluationCoverage current;
          overallCov = BuildOverallCoverage ruleCov (r_Coverage current);
          out = \<lparr>gc_Status = coverage_status_string (oc_Status overallCov),
                 gc_NotEvaluated = ec_NotEvaluated ruleCov,
                 gc_InsufficientEvidence = ec_InsufficientEvidence ruleCov,
                 gc_Failed = ec_Failed ruleCov,
                 gc_Normalized = ec_Normalized ruleCov,
                 gc_DegradedPlanes = oc_DegradedPlanes overallCov,
                 gc_NotReEvaluated = cs_NotReEvaluated (cmp_Summary cmp)\<rparr>;
          advisory = overall_advisory overallCov;
          n = cs_NotReEvaluated (cmp_Summary cmp)
      in (out,
          (if advisory \<noteq> '''' then [advisory] else [])
          @ (if n > 0
             then [show_nat n @ '' baseline finding(s) were not re-evaluated this scan: ''
                     @ NotReEvaluatedExplanation] else [])))"

definition gate_reasons :: "Comparison \<Rightarrow> Policy \<Rightarrow> GateResult \<Rightarrow> ReasonCode list" where
  "gate_reasons cmp policy result =
     (if pol_FailOnNewBlockers policy \<and> g_NewBlockers result > 0
      then [ReasonNewBlockersDetected] else [])
     @ (case pol_WarningPolicy policy of
          WarningPolicyFailOnNew \<Rightarrow>
            if g_NewWarnings result > 0 then [ReasonNewWarningsDetected] else []
        | WarningPolicyFailOnAny \<Rightarrow>
            if g_CurrentWarnings result > 0 then [ReasonWarningsPresent] else []
        | _ \<Rightarrow> [])
     @ (if pol_FailOnVerdictRegression policy
           \<and> verdictRegressed (cs_BaselineVerdict (cmp_Summary cmp))
               (cs_CurrentVerdict (cmp_Summary cmp))
        then [ReasonReadinessVerdictRegressed] else [])
     @ (if g_ScoreDelta result < pol_MinimumScoreDelta policy
        then [ReasonReadinessScoreRegressed] else [])"

definition Evaluate :: "Report \<Rightarrow> Report \<Rightarrow> Comparison \<Rightarrow> Policy \<Rightarrow> GateResult" where
  "Evaluate baseline current cmp policy =
     (let (coverage, advisories) = buildEvaluationPresentation current cmp;
          result =
            \<lparr>g_SchemaVersion = GateSchemaVersion, g_Decision = DecisionNeutral, g_Reasons = [],
             g_NewBlockers = cs_NewBlockers (cmp_Summary cmp),
             g_NewWarnings = countSeverity (cmp_New cmp) SeverityWarning,
             g_CurrentWarnings = sum_Warnings (r_Summary current),
             g_ResolvedFindings = cs_Resolved (cmp_Summary cmp),
             g_ScoreDelta = cs_ReadinessScoreDelta (cmp_Summary cmp),
             g_EvaluationCoverage = coverage, g_EvaluationAdvisories = advisories\<rparr>
      in if \<not> IsComplete baseline \<or> \<not> IsComplete current \<or> length (cmp_Warnings cmp) > 0
         then result\<lparr>g_Decision := DecisionNeutral, g_Reasons := [ReasonInsufficientEvidence]\<rparr>
         else
           let reasons = gate_reasons cmp policy result
           in if length reasons > 0
              then result\<lparr>g_Decision := DecisionFail, g_Reasons := reasons\<rparr>
              else result\<lparr>g_Decision := DecisionPass\<rparr>)"

section \<open>The decision\<close>

definition reliable :: "Report \<Rightarrow> Report \<Rightarrow> Comparison \<Rightarrow> bool" where
  "reliable baseline current cmp \<longleftrightarrow>
     IsComplete baseline \<and> IsComplete current \<and> cmp_Warnings cmp = []"

text \<open>The demands of a policy on a comparison and the current report, one per kind of reason.\<close>

definition policy_violations :: "Report \<Rightarrow> Comparison \<Rightarrow> Policy \<Rightarrow> ReasonCode set" where
  "policy_violations current cmp policy =
     {r. (r = ReasonNewBlockersDetected \<and> pol_FailOnNewBlockers policy
            \<and> cs_NewBlockers (cmp_Summary cmp) > 0)
       \<or> (r = ReasonNewWarningsDetected \<and> pol_WarningPolicy policy = WarningPolicyFailOnNew
            \<and> (\<exists>e\<in>set (cmp_New cmp). f_Severity e = SeverityWarning))
       \<or> (r = ReasonWarningsPresent \<and> pol_WarningPolicy policy = WarningPolicyFailOnAny
            \<and> sum_Warnings (r_Summary current) > 0)
       \<or> (r = ReasonReadinessVerdictRegressed \<and> pol_FailOnVerdictRegression policy
            \<and> verdictRank (cs_BaselineVerdict (cmp_Summary cmp))
                < verdictRank (cs_CurrentVerdict (cmp_Summary cmp)))
       \<or> (r = ReasonReadinessScoreRegressed
            \<and> cs_ReadinessScoreDelta (cmp_Summary cmp) < pol_MinimumScoreDelta policy)}"

lemma set_if_list: "set (if b then [x] else []) = (if b then {x} else {})"
  by (cases b) simp_all

lemma countSeverity_pos: "countSeverity es s > 0 \<longleftrightarrow> (\<exists>e\<in>set es. f_Severity e = s)"
  by (auto simp: countSeverity_def filter_empty_conv)

lemma gate_reasons_set:
  assumes "g_NewBlockers res = cs_NewBlockers (cmp_Summary cmp)"
    and "g_NewWarnings res = countSeverity (cmp_New cmp) SeverityWarning"
    and "g_CurrentWarnings res = sum_Warnings (r_Summary current)"
    and "g_ScoreDelta res = cs_ReadinessScoreDelta (cmp_Summary cmp)"
  shows "set (gate_reasons cmp policy res) = policy_violations current cmp policy"
  unfolding gate_reasons_def policy_violations_def assms countSeverity_pos verdictRegressed_def
    set_append set_if_list
  by (cases "pol_WarningPolicy policy") (auto simp: set_eq_iff)

lemma Evaluate_eq:
  "\<exists>reasons. set reasons = policy_violations current cmp policy
     \<and> g_Decision (Evaluate baseline current cmp policy)
         = (if \<not> reliable baseline current cmp then DecisionNeutral
            else if reasons = [] then DecisionPass else DecisionFail)
     \<and> g_Reasons (Evaluate baseline current cmp policy)
         = (if reliable baseline current cmp then reasons else [ReasonInsufficientEvidence])"
proof (cases "buildEvaluationPresentation current cmp")
  case (Pair coverage advisories)
  let ?result = "\<lparr>g_SchemaVersion = GateSchemaVersion, g_Decision = DecisionNeutral, g_Reasons = [],
      g_NewBlockers = cs_NewBlockers (cmp_Summary cmp),
      g_NewWarnings = countSeverity (cmp_New cmp) SeverityWarning,
      g_CurrentWarnings = sum_Warnings (r_Summary current),
      g_ResolvedFindings = cs_Resolved (cmp_Summary cmp),
      g_ScoreDelta = cs_ReadinessScoreDelta (cmp_Summary cmp),
      g_EvaluationCoverage = coverage, g_EvaluationAdvisories = advisories\<rparr>"
  have "set (gate_reasons cmp policy ?result) = policy_violations current cmp policy"
    by (rule gate_reasons_set) simp_all
  then show ?thesis
    by (intro exI [of _ "gate_reasons cmp policy ?result"])
      (auto simp: Evaluate_def Pair Let_def reliable_def)
qed

text \<open>
  C12: The decision in full. Evidence comes first: an incomplete report on either side or a warning
  of the comparison gives \<open>neutral\<close> with the single reason INSUFFICIENT_EVIDENCE, under every
  policy. Otherwise the gate passes exactly when the policy is not violated, and when it fails
  its reasons are exactly the violations.
\<close>

theorem gate_decision:
  "g_Decision (Evaluate baseline current cmp policy)
     = (if \<not> reliable baseline current cmp then DecisionNeutral
        else if policy_violations current cmp policy = {} then DecisionPass else DecisionFail)
   \<and> set (g_Reasons (Evaluate baseline current cmp policy))
     = (if reliable baseline current cmp then policy_violations current cmp policy
        else {ReasonInsufficientEvidence})"
  using Evaluate_eq [of current cmp policy baseline] by (auto split: if_splits)

lemma gate_pass_iff:
  "g_Decision (Evaluate baseline current cmp policy) = DecisionPass \<longleftrightarrow>
     reliable baseline current cmp \<and> policy_violations current cmp policy = {}"
proof -
  obtain reasons where "set reasons = policy_violations current cmp policy"
    "g_Decision (Evaluate baseline current cmp policy)
       = (if \<not> reliable baseline current cmp then DecisionNeutral
          else if reasons = [] then DecisionPass else DecisionFail)"
    using Evaluate_eq by metis
  then show ?thesis by (auto split: if_splits)
qed

lemma Compare_summary:
  "Compare o1 o2 baseline current = Inr c \<Longrightarrow> cmp_Summary c = buildSummary baseline current c"
  by (auto simp: Compare_def Let_def buildSummary_def split: sum.splits)

lemma count_blocks_pos: "count_blocks fs > 0 \<longleftrightarrow> (\<exists>f\<in>set fs. blocks f)"
  by (auto simp: count_blocks_def blocks_def filter_empty_conv)

lemma Compare_new:
  assumes "Compare o1 o2 baseline current = Inr c"
    and "mset o1 = mset (map f_Fingerprint (r_Findings current))"
    and "mset o2 = mset (map f_Fingerprint (r_Findings baseline))"
  shows "set (cmp_New c) = {f \<in> set (r_Findings current).
           f_Fingerprint f \<notin> f_Fingerprint ` set (r_Findings baseline)}"
proof -
  have "c = compare_spec baseline current"
    using Compare_eq_spec [OF Compare_Inr [OF assms(1)] assms(2,3)] assms(1) by simp
  then show ?thesis by (auto simp: compare_spec_buckets is_new_def lookup_fp_eq_None)
qed

text \<open>
  C13: What a passing gate certifies. If the comparison of two documents passes a policy that fails
  on new blockers, then both scans were complete, they were scans of the same target version in
  the same upgrade context, and every current finding that blocks the upgrade was there in the
  baseline already.
\<close>

theorem gate_pass_no_new_blocker:
  assumes "Compare o1 o2 baseline current = Inr c"
    and "mset o1 = mset (map f_Fingerprint (r_Findings current))"
    and "mset o2 = mset (map f_Fingerprint (r_Findings baseline))"
    and "pol_FailOnNewBlockers policy"
    and "g_Decision (Evaluate baseline current c policy) = DecisionPass"
  shows "IsComplete baseline \<and> IsComplete current
    \<and> r_TargetVersion baseline = r_TargetVersion current
    \<and> r_UpgradeContext baseline = r_UpgradeContext current
    \<and> (\<forall>f\<in>set (r_Findings current). EffectiveUpgradeGate f = UpgradeGateBlock
          \<longrightarrow> f_Fingerprint f \<in> f_Fingerprint ` set (r_Findings baseline))"
proof -
  have rel: "reliable baseline current c" and none: "policy_violations current c policy = {}"
    using assms(5) by (simp_all add: gate_pass_iff)
  have "ReasonNewBlockersDetected \<notin> policy_violations current c policy" using none by simp
  then have "cs_NewBlockers (cmp_Summary c) = 0"
    using assms(4) by (simp add: policy_violations_def)
  then have "\<forall>f\<in>set (cmp_New c). \<not> blocks f"
    using count_blocks_pos [of "cmp_New c"]
    by (auto simp: Compare_summary [OF assms(1)] buildSummary_def Let_def)
  then have new: "\<forall>f\<in>set (r_Findings current). EffectiveUpgradeGate f = UpgradeGateBlock
          \<longrightarrow> f_Fingerprint f \<in> f_Fingerprint ` set (r_Findings baseline)"
    by (auto simp: Compare_new [OF assms(1-3)] blocks_def)
  have "compare_warnings baseline current = []"
    using rel Compare_eq_spec [OF Compare_Inr [OF assms(1)] assms(2,3)] assms(1)
    by (auto simp: reliable_def compare_spec_buckets)
  with rel new show ?thesis
    by (auto simp: reliable_def compare_warnings_def split: if_splits)
qed

text \<open>
  A complete document compared with itself passes the default policy.
\<close>

theorem gate_self_pass:
  assumes "indexable (r_Findings r)" and "IsComplete r"
    and "mset o1 = mset (map f_Fingerprint (r_Findings r))"
    and "mset o2 = mset (map f_Fingerprint (r_Findings r))"
  shows "\<exists>c. Compare o1 o2 r r = Inr c
    \<and> g_Decision (Evaluate r r c DefaultPolicy) = DecisionPass"
proof -
  have c: "Compare o1 o2 r r = Inr (compare_spec r r)"
    by (rule Compare_eq_spec) (use assms in auto)
  have "policy_violations r (compare_spec r r) DefaultPolicy = {}"
    using self_buckets [OF assms(1)]
    by (auto simp: policy_violations_def DefaultPolicy_def compare_spec_buckets buildSummary_spec
        buildSummary_def Let_def count_blocks_def)
  moreover have "reliable r r (compare_spec r r)"
    using assms(2) by (simp add: reliable_def compare_spec_buckets compare_warnings_def)
  ultimately show ?thesis using c gate_pass_iff by blast
qed

lemma sample_report_complete [simp]: "IsComplete (sample_report fs)"
  by (simp add: sample_report_def NewReport_def NewReportWithUpgradeContext_def Let_def
      IsComplete_def plane_coverage_def)

theorem gate_self_pass_witness:
  "\<exists>c. Compare [''fp''] [''fp''] (sample_report [sample_finding]) (sample_report [sample_finding])
      = Inr c \<and> g_Decision (Evaluate (sample_report [sample_finding])
                    (sample_report [sample_finding]) c DefaultPolicy) = DecisionPass"
  by (rule gate_self_pass) (simp_all add: indexable_def)

theorem gate_pass_no_new_blocker_witness:
  "IsComplete (sample_report [sample_finding])
   \<and> f_Fingerprint ` set (filter (\<lambda>f. EffectiveUpgradeGate f = UpgradeGateBlock)
                             (r_Findings (sample_report [sample_finding])))
        \<subseteq> f_Fingerprint ` set (r_Findings (sample_report [sample_finding]))"
proof -
  let ?r = "sample_report [sample_finding]"
  have "Compare [''fp''] [''fp''] ?r ?r = Inr (compare_spec ?r ?r)"
    by (rule Compare_eq_spec) (simp_all add: indexable_def)
  moreover have "policy_violations ?r (compare_spec ?r ?r) DefaultPolicy = {}"
    "reliable ?r ?r (compare_spec ?r ?r)"
    using self_buckets [of "r_Findings ?r"]
    by (auto simp: indexable_def policy_violations_def DefaultPolicy_def compare_spec_buckets
        buildSummary_spec buildSummary_def Let_def count_blocks_def reliable_def
        compare_warnings_def)
  ultimately show ?thesis
    using gate_pass_no_new_blocker [of "[''fp'']" "[''fp'']" ?r ?r "compare_spec ?r ?r" DefaultPolicy]
    by (auto simp: gate_pass_iff DefaultPolicy_def)
qed

subsection \<open>Stricter policies\<close>

fun warning_strictness :: "WarningPolicy \<Rightarrow> nat" where
  "warning_strictness WarningPolicyFailOnNew = 1"
| "warning_strictness WarningPolicyFailOnAny = 2"
| "warning_strictness _ = 0"

definition at_least_as_strict :: "Policy \<Rightarrow> Policy \<Rightarrow> bool" where
  "at_least_as_strict p q \<longleftrightarrow>
     (pol_FailOnNewBlockers q \<longrightarrow> pol_FailOnNewBlockers p)
     \<and> warning_strictness (pol_WarningPolicy q) \<le> warning_strictness (pol_WarningPolicy p)
     \<and> (pol_FailOnVerdictRegression q \<longrightarrow> pol_FailOnVerdictRegression p)
     \<and> pol_MinimumScoreDelta q \<le> pol_MinimumScoreDelta p"

lemma warning_strictness_iff:
  "warning_strictness w \<ge> 1 \<longleftrightarrow> w = WarningPolicyFailOnNew \<or> w = WarningPolicyFailOnAny"
  "warning_strictness w \<ge> 2 \<longleftrightarrow> w = WarningPolicyFailOnAny"
  by (cases w; simp)+

lemma no_violation_iff:
  assumes "(\<exists>e\<in>set (cmp_New cmp). f_Severity e = SeverityWarning) \<longrightarrow> sum_Warnings (r_Summary current) > 0"
  shows "policy_violations current cmp policy = {} \<longleftrightarrow>
     \<not> (pol_FailOnNewBlockers policy \<and> cs_NewBlockers (cmp_Summary cmp) > 0)
     \<and> \<not> (warning_strictness (pol_WarningPolicy policy) \<ge> 1
          \<and> (\<exists>e\<in>set (cmp_New cmp). f_Severity e = SeverityWarning))
     \<and> \<not> (warning_strictness (pol_WarningPolicy policy) \<ge> 2 \<and> sum_Warnings (r_Summary current) > 0)
     \<and> \<not> (pol_FailOnVerdictRegression policy
          \<and> verdictRank (cs_BaselineVerdict (cmp_Summary cmp))
              < verdictRank (cs_CurrentVerdict (cmp_Summary cmp)))
     \<and> \<not> cs_ReadinessScoreDelta (cmp_Summary cmp) < pol_MinimumScoreDelta policy"
  using assms unfolding policy_violations_def warning_strictness_iff by auto

text \<open>
  Policies are ordered. On a report the program built, a comparison that passes a policy passes
  every policy that demands no more, where failing on any warning demands more than failing on a
  new one, which demands more than ignoring warnings.
\<close>

theorem gate_monotone:
  assumes "Compare o1 o2 baseline current = Inr c"
    and "mset o1 = mset (map f_Fingerprint (r_Findings current))"
    and "mset o2 = mset (map f_Fingerprint (r_Findings baseline))"
    and "wf_report current"
    and "at_least_as_strict p q"
    and "g_Decision (Evaluate baseline current c p) = DecisionPass"
  shows "g_Decision (Evaluate baseline current c q) = DecisionPass"
proof -
  have "sum_Warnings (r_Summary current) > 0"
    if "e \<in> set (cmp_New c)" "f_Severity e = SeverityWarning" for e
  proof -
    have "e \<in> set (r_Findings current)" using that Compare_new [OF assms(1-3)] by simp
    with that assms(4) show ?thesis
      unfolding wf_report_def by (auto simp: verdict_simps counts_as_warning_def)
  qed
  then have new: "(\<exists>e\<in>set (cmp_New c). f_Severity e = SeverityWarning)
      \<longrightarrow> sum_Warnings (r_Summary current) > 0" by blast
  show ?thesis
    using assms(5,6) unfolding gate_pass_iff no_violation_iff [OF new] at_least_as_strict_def
    by (meson le_trans less_le_trans)
qed

theorem gate_monotone_witness:
  "\<exists>c. Compare [''fp''] [''fp''] (sample_report [sample_finding]) (sample_report [sample_finding])
      = Inr c
     \<and> g_Decision (Evaluate (sample_report [sample_finding]) (sample_report [sample_finding]) c
          (DefaultPolicy\<lparr>pol_FailOnNewBlockers := False\<rparr>)) = DecisionPass"
proof -
  let ?r = "sample_report [sample_finding]"
  let ?c = "compare_spec ?r ?r"
  have c: "Compare [''fp''] [''fp''] ?r ?r = Inr ?c"
    by (rule Compare_eq_spec) (simp_all add: indexable_def)
  have pass: "g_Decision (Evaluate ?r ?r ?c DefaultPolicy) = DecisionPass"
    using self_buckets [of "r_Findings ?r"]
    by (auto simp: gate_pass_iff indexable_def policy_violations_def DefaultPolicy_def
        compare_spec_buckets buildSummary_spec buildSummary_def Let_def count_blocks_def
        reliable_def compare_warnings_def)
  have "g_Decision (Evaluate ?r ?r ?c (DefaultPolicy\<lparr>pol_FailOnNewBlockers := False\<rparr>)) = DecisionPass"
    by (rule gate_monotone [OF c _ _ _ _ pass])
      (simp_all add: sample_report_def NewReport_def wf_NewReport at_least_as_strict_def)
  with c show ?thesis by blast
qed

end
