(* ===== verification/Rollback.thy ===== *)
theory Rollback
  imports Report GoTime
begin

text \<open>
  The rollback assessment of \<open>internal/rollback\<close>: the document and its validation
  (\<open>model.go\<close>), the operational readiness drawn from a findings report with its three
  provenance gates (\<open>operational.go\<close>: the API target, the cluster identity, the age of the
  scan) and the recommendation (\<open>recommendation.go\<close>).

  A string enumeration is a datatype with the constants of the source and one constructor for
  any other string; the zero value of \<open>Readiness.Status\<close> is \<open>ReadinessOther\<close> of the empty
  string. A check that the code updates through a pointer is returned updated.
\<close>

section \<open>The document\<close>

definition AssessmentSchemaVersion :: string where
  "AssessmentSchemaVersion = ''kubepreflight.io/rollback-assessment/v1alpha1''"

datatype AssessmentMode = ModePreUpgradePosture | ModePostUpgradeReadiness | ModeOther string

datatype EligibilityStatus =
    EligibilityEligible | EligibilityUnavailable | EligibilityUnknown | EligibilityOther string

datatype ReadinessStatus =
    ReadinessReady | ReadinessBlocked | ReadinessHighRisk | ReadinessInsufficientEvidence
  | ReadinessOther string

datatype RecommendationDecision =
    RecommendationRollbackPreferred | RecommendationFixForwardPreferred
  | RecommendationOperatorDecisionRequired | RecommendationDoNotProceed
  | RecommendationOther string

datatype RecommendationConfidence = ConfidenceHigh | ConfidenceMedium | ConfidenceLow
  | ConfidenceOther string

datatype CheckStatus = CheckPass | CheckWarning | CheckFail | CheckUnknown | CheckOther string

datatype RollbackReason =
    ReasonUpgradeHistoryUnavailable
  | ReasonEKSUpgradeHistoryUnavailable
  | ReasonUpgradeWasNotInPlace
  | ReasonRollbackWindowExpired
  | ReasonRollbackWindowNearExpiry
  | ReasonPreviousVersionNotNMinusOne
  | ReasonClusterNotActive
  | ReasonRollbackTargetUnsupported
  | ReasonRollbackTargetRequiresExtendedSupport
  | ReasonUpgradePolicyDisallowsRollbackTarget
  | ReasonEndOfExtendedSupportAutoUpgrade
  | ReasonEndOfExtendedSupportAutoUpgradeUnknown
  | ReasonEKSFeatureCompatibilityUnverified
  | ReasonEKSFeatureIncompatible
  | ReasonIncompatibleEKSFeatureEnabled
  | ReasonEKSInsightsUnavailable
  | ReasonEKSInsightsStale
  | ReasonEKSInsightsBlocking
  | ReasonManagedNodegroupRollbackRequired
  | ReasonSelfManagedNodeEvidenceUnavailable
  | ReasonSelfManagedNodeRollbackRequired
  | ReasonWorkerNodesWouldRemainNewerThanControl
  | ReasonAutoModeDisruptionRisk
  | ReasonFargateEvidenceUnavailable
  | ReasonFargatePodRecreationRisk
  | ReasonManagedAddonRollbackRequired
  | ReasonManagedAddonCompatibilityUnknown
  | ReasonSelfManagedAddonCompatibilityUnknown
  | ReasonNewVersionAPIAdoptionRisk
  | ReasonCRDWebhookControllerRisk
  | ReasonPDBDisruptionConstraints
  | ReasonUnhealthyWorkloadsPresent
  | ReasonObservabilityEvidenceMissing
  | ReasonApplicationHealthUnknown
  | ReasonForceBypassNotRecommended
  | ReasonRollbackEvidenceTargetMismatch
  | ReasonRollbackEvidenceTargetUnknown
  | ReasonRollbackEvidenceClusterMismatch
  | ReasonRollbackEvidenceClusterUnknown
  | ReasonRollbackEvidenceStale
  | ReasonRollbackEvidenceTimestampUnknown
  | ReasonOther string

record RollbackCluster =
  rc_Name :: string
  rc_Region :: string
  rc_CurrentVersion :: string
  rc_RollbackTargetVersion :: string
  rc_Provider :: string

record Eligibility =
  el_Status :: EligibilityStatus
  el_WindowExpiresAt :: "time option"
  el_RemainingMinutes :: "int option"
  el_Source :: string
  el_ReasonCodes :: "RollbackReason list"

record Readiness =
  rd_Status :: ReadinessStatus
  rd_Blockers :: nat
  rd_Warnings :: nat
  rd_Unknowns :: nat

record Recommendation =
  rec_Decision :: RecommendationDecision
  rec_Confidence :: RecommendationConfidence
  rec_ReasonCodes :: "RollbackReason list"

record RollbackEvidence =
  ev_EKSInsightsRefreshedAt :: "time option"
  ev_ClusterObservedAt :: "time option"
  ev_Complete :: bool
  ev_WindowCalculation :: string
  ev_TimestampSource :: string

record RollbackCheck =
  ck_ID :: string
  ck_Title :: string
  ck_Status :: CheckStatus
  ck_ReasonCodes :: "RollbackReason list"
  ck_Evidence :: "string list"

record Assessment =
  as_SchemaVersion :: string
  as_Mode :: AssessmentMode
  as_Cluster :: RollbackCluster
  as_Eligibility :: Eligibility
  as_Readiness :: Readiness
  as_Recommendation :: Recommendation
  as_Evidence :: RollbackEvidence
  as_Checks :: "RollbackCheck list"
  as_GeneratedAt :: time

definition NewAssessment :: "AssessmentMode \<Rightarrow> time \<Rightarrow> Assessment" where
  "NewAssessment mode now =
     \<lparr>as_SchemaVersion = AssessmentSchemaVersion, as_Mode = mode,
      as_Cluster = \<lparr>rc_Name = '''', rc_Region = '''', rc_CurrentVersion = '''',
        rc_RollbackTargetVersion = '''', rc_Provider = ''''\<rparr>,
      as_Eligibility = \<lparr>el_Status = EligibilityOther '''', el_WindowExpiresAt = None,
        el_RemainingMinutes = None, el_Source = '''', el_ReasonCodes = []\<rparr>,
      as_Readiness = \<lparr>rd_Status = ReadinessOther '''', rd_Blockers = 0, rd_Warnings = 0,
        rd_Unknowns = 0\<rparr>,
      as_Recommendation = \<lparr>rec_Decision = RecommendationOther '''',
        rec_Confidence = ConfidenceOther '''', rec_ReasonCodes = []\<rparr>,
      as_Evidence = \<lparr>ev_EKSInsightsRefreshedAt = None, ev_ClusterObservedAt = None,
        ev_Complete = False, ev_WindowCalculation = '''', ev_TimestampSource = ''''\<rparr>,
      as_Checks = [], as_GeneratedAt = now\<rparr>"

section \<open>Validation\<close>

fun validAssessmentMode :: "AssessmentMode \<Rightarrow> bool" where
  "validAssessmentMode (ModeOther s) = False"
| "validAssessmentMode mode = True"

fun validEligibilityStatus :: "EligibilityStatus \<Rightarrow> bool" where
  "validEligibilityStatus (EligibilityOther s) = False"
| "validEligibilityStatus status = True"

fun validReadinessStatus :: "ReadinessStatus \<Rightarrow> bool" where
  "validReadinessStatus (ReadinessOther s) = False"
| "validReadinessStatus status = True"

fun validRecommendationDecision :: "RecommendationDecision \<Rightarrow> bool" where
  "validRecommendationDecision (RecommendationOther s) = False"
| "validRecommendationDecision decision = True"

fun validConfidence :: "RecommendationConfidence \<Rightarrow> bool" where
  "validConfidence (ConfidenceOther s) = False"
| "validConfidence confidence = True"

fun validCheckStatus :: "CheckStatus \<Rightarrow> bool" where
  "validCheckStatus (CheckOther s) = False"
| "validCheckStatus status = True"

definition validReasonCode :: "RollbackReason \<Rightarrow> bool" where
  "validReasonCode code = (case code of ReasonOther _ \<Rightarrow> False | _ \<Rightarrow> True)"

text \<open>The messages of \<open>Validate\<close> as values, one constructor per error return.\<close>

datatype assessment_error =
    BadSchemaVersion string
  | BadMode AssessmentMode
  | BadEligibilityStatus EligibilityStatus
  | BadReadinessStatus ReadinessStatus
  | BadDecision RecommendationDecision
  | BadConfidence RecommendationConfidence
  | BadEligibilityReason RollbackReason
  | BadRecommendationReason RollbackReason
  | BadCheckStatus string CheckStatus
  | BadCheckReason string RollbackReason
  | PreferredWithoutEligibility EligibilityStatus
  | HighConfidenceWithoutEvidence

definition validateReasonCodes :: "RollbackReason list \<Rightarrow> RollbackReason option" where
  "validateReasonCodes codes = find (\<lambda>code. \<not> validReasonCode code) codes"

fun validate_checks :: "RollbackCheck list \<Rightarrow> assessment_error option" where
  "validate_checks [] = None"
| "validate_checks (check # checks) =
     (if \<not> validCheckStatus (ck_Status check)
      then Some (BadCheckStatus (ck_ID check) (ck_Status check))
      else case validateReasonCodes (ck_ReasonCodes check) of
             Some code \<Rightarrow> Some (BadCheckReason (ck_ID check) code)
           | None \<Rightarrow> validate_checks checks)"

definition ValidateAssessment :: "Assessment \<Rightarrow> assessment_error option" where
  "ValidateAssessment a =
     (if as_SchemaVersion a \<noteq> AssessmentSchemaVersion
      then Some (BadSchemaVersion (as_SchemaVersion a))
      else if \<not> validAssessmentMode (as_Mode a) then Some (BadMode (as_Mode a))
      else if \<not> validEligibilityStatus (el_Status (as_Eligibility a))
      then Some (BadEligibilityStatus (el_Status (as_Eligibility a)))
      else if \<not> validReadinessStatus (rd_Status (as_Readiness a))
      then Some (BadReadinessStatus (rd_Status (as_Readiness a)))
      else if \<not> validRecommendationDecision (rec_Decision (as_Recommendation a))
      then Some (BadDecision (rec_Decision (as_Recommendation a)))
      else if \<not> validConfidence (rec_Confidence (as_Recommendation a))
      then Some (BadConfidence (rec_Confidence (as_Recommendation a)))
      else case validateReasonCodes (el_ReasonCodes (as_Eligibility a)) of
        Some code \<Rightarrow> Some (BadEligibilityReason code)
      | None \<Rightarrow>
          (case validateReasonCodes (rec_ReasonCodes (as_Recommendation a)) of
             Some code \<Rightarrow> Some (BadRecommendationReason code)
           | None \<Rightarrow>
               (case validate_checks (as_Checks a) of
                  Some err \<Rightarrow> Some err
                | None \<Rightarrow>
                    if el_Status (as_Eligibility a) \<noteq> EligibilityEligible
                       \<and> rec_Decision (as_Recommendation a) = RecommendationRollbackPreferred
                    then Some (PreferredWithoutEligibility (el_Status (as_Eligibility a)))
                    else if rd_Status (as_Readiness a) = ReadinessInsufficientEvidence
                       \<and> rec_Confidence (as_Recommendation a) = ConfidenceHigh
                       \<and> rec_Decision (as_Recommendation a) \<noteq> RecommendationDoNotProceed
                    then Some HighConfidenceWithoutEvidence
                    else None)))"

section \<open>Check statuses and readiness\<close>

definition emptyAsUnknown :: "string \<Rightarrow> string" where
  "emptyAsUnknown value = (if TrimSpace value = '''' then ''unknown'' else value)"

fun checkRank :: "CheckStatus \<Rightarrow> nat" where
  "checkRank CheckFail = 3"
| "checkRank CheckUnknown = 2"
| "checkRank CheckWarning = 1"
| "checkRank status = 0"

definition maxCheckStatus :: "CheckStatus \<Rightarrow> CheckStatus \<Rightarrow> CheckStatus" where
  "maxCheckStatus a b = (if checkRank b > checkRank a then b else a)"

definition appendUniqueReason :: "RollbackReason list \<Rightarrow> RollbackReason \<Rightarrow> RollbackReason list" where
  "appendUniqueReason reasons reason = append_unique reasons reason"

definition count_check :: "Readiness \<Rightarrow> RollbackCheck \<Rightarrow> Readiness" where
  "count_check out check =
     (case ck_Status check of
        CheckFail \<Rightarrow> out\<lparr>rd_Blockers := rd_Blockers out + 1\<rparr>
      | CheckWarning \<Rightarrow> out\<lparr>rd_Warnings := rd_Warnings out + 1\<rparr>
      | CheckUnknown \<Rightarrow> out\<lparr>rd_Unknowns := rd_Unknowns out + 1\<rparr>
      | _ \<Rightarrow> out)"

definition readinessFromChecks :: "RollbackCheck list \<Rightarrow> Readiness" where
  "readinessFromChecks checks =
     (let out = foldl count_check
                  \<lparr>rd_Status = ReadinessOther '''', rd_Blockers = 0, rd_Warnings = 0,
                   rd_Unknowns = 0\<rparr> checks
      in out\<lparr>rd_Status :=
               (if rd_Blockers out > 0 then ReadinessBlocked
                else if rd_Unknowns out > 0 then ReadinessInsufficientEvidence
                else if rd_Warnings out > 0 then ReadinessHighRisk
                else ReadinessReady)\<rparr>)"

definition combineReadiness :: "Readiness \<Rightarrow> Readiness \<Rightarrow> Readiness" where
  "combineReadiness existing operational =
     (if rd_Status existing = ReadinessOther '''' \<or> rd_Status existing = ReadinessReady
      then operational
      else if rd_Status operational = ReadinessReady then existing
      else
        \<lparr>rd_Status =
           (if rd_Status existing = ReadinessBlocked \<or> rd_Status operational = ReadinessBlocked
            then ReadinessBlocked
            else if rd_Status existing = ReadinessInsufficientEvidence
                    \<or> rd_Status operational = ReadinessInsufficientEvidence
            then ReadinessInsufficientEvidence
            else ReadinessHighRisk),
         rd_Blockers = rd_Blockers existing + rd_Blockers operational,
         rd_Warnings = rd_Warnings existing + rd_Warnings operational,
         rd_Unknowns = rd_Unknowns existing + rd_Unknowns operational\<rparr>)"

definition hasUnknownCheck :: "RollbackCheck list \<Rightarrow> bool" where
  "hasUnknownCheck checks = list_ex (\<lambda>check. ck_Status check = CheckUnknown) checks"

section \<open>Provenance of the evidence\<close>

subsection \<open>The target version\<close>

datatype apiEvidenceTargetStatus =
    apiEvidenceTargetValidated | apiEvidenceTargetMismatch | apiEvidenceTargetUnknown

text \<open>\<open>validateAPIEvidenceTarget\<close> is this function at the label \<open>API compatibility\<close>.\<close>

definition validateRollbackEvidenceTarget ::
  "string \<Rightarrow> string \<Rightarrow> string \<Rightarrow> apiEvidenceTargetStatus \<times> RollbackReason \<times> string list" where
  "validateRollbackEvidenceTarget evidenceLabel findingsTarget rollbackTarget =
     (let ft = TrimSpace findingsTarget; rt = TrimSpace rollbackTarget
      in if ft = '''' \<or> rt = ''''
         then (apiEvidenceTargetUnknown, ReasonRollbackEvidenceTargetUnknown,
               [evidenceLabel @ '' evidence target provenance unknown: findings target=''
                @ emptyAsUnknown ft @ '' rollback target='' @ emptyAsUnknown rt])
         else
           (case (NormalizeKubernetesVersion ft, NormalizeKubernetesVersion rt) of
              (Some findingsMinor, Some rollbackMinor) \<Rightarrow>
                if findingsMinor \<noteq> rollbackMinor
                then (apiEvidenceTargetMismatch, ReasonRollbackEvidenceTargetMismatch,
                      [evidenceLabel @ '' evidence target mismatch: findings target='' @ ft
                       @ '' rollback target='' @ rt])
                else (apiEvidenceTargetValidated, ReasonOther '''', [])
            | _ \<Rightarrow>
                (apiEvidenceTargetUnknown, ReasonRollbackEvidenceTargetUnknown,
                 [evidenceLabel @ '' evidence target provenance unknown: findings target='' @ ft
                  @ '' rollback target='' @ rt @ '' (unparseable version)''])))"

definition validateAPIEvidenceTarget ::
  "string \<Rightarrow> string \<Rightarrow> apiEvidenceTargetStatus \<times> RollbackReason \<times> string list" where
  "validateAPIEvidenceTarget findingsTarget rollbackTarget =
     validateRollbackEvidenceTarget ''API compatibility'' findingsTarget rollbackTarget"

subsection \<open>The cluster\<close>

datatype clusterEvidenceIdentityStatus =
    clusterEvidenceIdentityMatch | clusterEvidenceIdentityMismatch
  | clusterEvidenceIdentityUnknown | clusterEvidenceIdentityNotApplicable

record clusterEvidenceIdentity =
  id_status :: clusterEvidenceIdentityStatus
  id_reason :: RollbackReason
  id_evidence :: "string list"

definition identity_blocks :: "clusterEvidenceIdentity \<Rightarrow> bool" where
  "identity_blocks ident \<longleftrightarrow>
     id_status ident = clusterEvidenceIdentityMismatch
     \<or> id_status ident = clusterEvidenceIdentityUnknown"

definition isManifestOnlyReport :: "Report \<Rightarrow> bool" where
  "isManifestOnlyReport r \<longleftrightarrow> r_EKSCluster r = None \<and> TrimSpace (r_ClusterContext r) = ''''"

definition identity_names ::
  "string \<Rightarrow> string \<Rightarrow> string \<Rightarrow> string \<Rightarrow> string" where
  "identity_names findingsName findingsRegion assessedName assessedRegion =
     '': findings cluster='' @ findingsName @ '' region='' @ findingsRegion
     @ '' vs assessed cluster='' @ assessedName @ '' region='' @ assessedRegion"

definition validateClusterEvidenceIdentity ::
  "Report \<Rightarrow> RollbackCluster \<Rightarrow> clusterEvidenceIdentity" where
  "validateClusterEvidenceIdentity r cluster =
     (if isManifestOnlyReport r
      then \<lparr>id_status = clusterEvidenceIdentityNotApplicable, id_reason = ReasonOther '''',
            id_evidence = []\<rparr>
      else
        let findingsName =
              (case r_EKSCluster r of None \<Rightarrow> '''' | Some c \<Rightarrow> TrimSpace (ekc_ClusterName c));
            findingsRegion =
              (case r_EKSCluster r of None \<Rightarrow> '''' | Some c \<Rightarrow> TrimSpace (ekc_Region c));
            assessedName = TrimSpace (rc_Name cluster);
            assessedRegion = TrimSpace (rc_Region cluster)
        in if findingsName = '''' \<or> findingsRegion = '''' \<or> assessedName = '''' \<or> assessedRegion = ''''
           then \<lparr>id_status = clusterEvidenceIdentityUnknown,
                 id_reason = ReasonRollbackEvidenceClusterUnknown,
                 id_evidence = [''cluster identity provenance unknown''
                   @ identity_names (emptyAsUnknown findingsName) (emptyAsUnknown findingsRegion)
                       (emptyAsUnknown assessedName) (emptyAsUnknown assessedRegion)]\<rparr>
           else if findingsName \<noteq> assessedName \<or> findingsRegion \<noteq> assessedRegion
           then \<lparr>id_status = clusterEvidenceIdentityMismatch,
                 id_reason = ReasonRollbackEvidenceClusterMismatch,
                 id_evidence = [''cluster identity mismatch''
                   @ identity_names findingsName findingsRegion assessedName assessedRegion]\<rparr>
           else \<lparr>id_status = clusterEvidenceIdentityMatch, id_reason = ReasonOther '''',
                 id_evidence = []\<rparr>)"

subsection \<open>The age of the scan\<close>

definition rollbackFindingsMaxAge :: int where
  "rollbackFindingsMaxAge = 24 * Hour"

definition rollbackFindingsFutureSkewTolerance :: int where
  "rollbackFindingsFutureSkewTolerance = 5 * Minute"

datatype findingsFreshnessStatus =
    findingsFreshnessFresh | findingsFreshnessStale | findingsFreshnessUnknown
  | findingsFreshnessNotApplicable

record findingsFreshness =
  fr_status :: findingsFreshnessStatus
  fr_reason :: RollbackReason
  fr_evidence :: "string list"

definition freshness_blocks :: "findingsFreshness \<Rightarrow> bool" where
  "freshness_blocks f \<longleftrightarrow>
     fr_status f = findingsFreshnessStale \<or> fr_status f = findingsFreshnessUnknown"

definition formatEvidenceTimestamp :: "time \<Rightarrow> string" where
  "formatEvidenceTimestamp t = (if t = 0 then ''unknown'' else format_rfc3339 t)"

definition validateFindingsFreshness :: "Report \<Rightarrow> time \<Rightarrow> findingsFreshness" where
  "validateFindingsFreshness r evaluatedAt =
     (let scannedAt = r_ScannedAt r;
          unknown = (\<lambda>msg. \<lparr>fr_status = findingsFreshnessUnknown,
            fr_reason = ReasonRollbackEvidenceTimestampUnknown,
            fr_evidence = [''findings evidence timestamp unknown: '' @ msg]\<rparr>)
      in if isManifestOnlyReport r
         then \<lparr>fr_status = findingsFreshnessNotApplicable, fr_reason = ReasonOther '''',
               fr_evidence = []\<rparr>
         else if scannedAt = 0
         then unknown (''scannedAt is missing, evaluated at '' @ formatEvidenceTimestamp evaluatedAt)
         else if evaluatedAt = 0
         then unknown (''rollback assessment evaluation time is missing, scanned at ''
                       @ formatEvidenceTimestamp scannedAt)
         else if scannedAt > evaluatedAt + rollbackFindingsFutureSkewTolerance
         then unknown (''scanned at '' @ formatEvidenceTimestamp scannedAt
                       @ '' is more than 5m0s ahead of evaluation time ''
                       @ formatEvidenceTimestamp evaluatedAt @ '' (future clock skew detected)'')
         else
           let age = max 0 (time_Sub evaluatedAt scannedAt)
           in if age > rollbackFindingsMaxAge
              then \<lparr>fr_status = findingsFreshnessStale, fr_reason = ReasonRollbackEvidenceStale,
                    fr_evidence = [''findings evidence stale: scanned at ''
                      @ formatEvidenceTimestamp scannedAt @ '', evaluated at ''
                      @ formatEvidenceTimestamp evaluatedAt @ '', age ''
                      @ hours_string (round_second age) @ '' exceeds the 24h0m0s maximum'']\<rparr>
              else \<lparr>fr_status = findingsFreshnessFresh, fr_reason = ReasonOther '''',
                    fr_evidence = []\<rparr>)"

subsection \<open>The gates\<close>

definition applyIdentityGate :: "RollbackCheck \<Rightarrow> clusterEvidenceIdentity \<Rightarrow> RollbackCheck" where
  "applyIdentityGate check ident =
     check\<lparr>ck_Status := maxCheckStatus (ck_Status check) CheckUnknown,
           ck_ReasonCodes := appendUniqueReason (ck_ReasonCodes check) (id_reason ident),
           ck_Evidence := ck_Evidence check @ id_evidence ident\<rparr>"

definition applyFreshnessGate :: "RollbackCheck \<Rightarrow> findingsFreshness \<Rightarrow> RollbackCheck" where
  "applyFreshnessGate check freshness =
     check\<lparr>ck_Status := maxCheckStatus (ck_Status check) CheckUnknown,
           ck_ReasonCodes := appendUniqueReason (ck_ReasonCodes check) (fr_reason freshness),
           ck_Evidence := ck_Evidence check @ fr_evidence freshness\<rparr>"

definition applyProvenanceGates ::
  "RollbackCheck \<Rightarrow> clusterEvidenceIdentity \<Rightarrow> findingsFreshness \<Rightarrow> RollbackCheck" where
  "applyProvenanceGates check ident freshness =
     (let check = (if identity_blocks ident then applyIdentityGate check ident else check)
      in if freshness_blocks freshness then applyFreshnessGate check freshness else check)"

definition evidence_blocked :: "clusterEvidenceIdentity \<Rightarrow> findingsFreshness \<Rightarrow> bool" where
  \<comment> \<open>the guard of every gated check\<close>
  "evidence_blocked ident freshness \<longleftrightarrow> identity_blocks ident \<or> freshness_blocks freshness"

section \<open>The operational checks\<close>

definition new_check :: "string \<Rightarrow> string \<Rightarrow> RollbackCheck" where
  \<comment> \<open>the literal every check starts from\<close>
  "new_check checkID title =
     \<lparr>ck_ID = checkID, ck_Title = title, ck_Status = CheckPass, ck_ReasonCodes = [], ck_Evidence = []\<rparr>"

definition raise_check :: "CheckStatus \<Rightarrow> RollbackReason \<Rightarrow> RollbackCheck \<Rightarrow> RollbackCheck" where
  \<comment> \<open>the pair of assignments the checks repeat: raise the status, add the reason\<close>
  "raise_check status reason check =
     check\<lparr>ck_Status := maxCheckStatus (ck_Status check) status,
           ck_ReasonCodes := appendUniqueReason (ck_ReasonCodes check) reason\<rparr>"

definition add_evidence :: "string list \<Rightarrow> RollbackCheck \<Rightarrow> RollbackCheck" where
  "add_evidence lines check = check\<lparr>ck_Evidence := ck_Evidence check @ lines\<rparr>"

subsection \<open>Findings as signals\<close>

definition ruleMatches :: "string \<Rightarrow> string list \<Rightarrow> bool" where
  "ruleMatches ruleID rulePrefixes =
     list_ex (\<lambda>p. if HasSuffix p ''-'' then HasPrefix ruleID p else ruleID = p) rulePrefixes"

definition findingsWithPrefixes :: "Finding list \<Rightarrow> string list \<Rightarrow> Finding list" where
  "findingsWithPrefixes fs rulePrefixes = filter (\<lambda>f. ruleMatches (f_RuleID f) rulePrefixes) fs"

definition findingCount :: "Finding list \<Rightarrow> string \<Rightarrow> nat" where
  "findingCount fs p = length (filter (\<lambda>f. HasPrefix (f_RuleID f) p) fs)"

definition finding_line :: "Finding \<Rightarrow> string" where
  "finding_line f =
     f_RuleID f @ '' '' @ severity_string (f_Severity f) @ '': '' @ f_Message f"

definition signal_step ::
  "string list \<Rightarrow> RollbackReason \<Rightarrow> RollbackCheck \<Rightarrow> Finding \<Rightarrow> RollbackCheck" where
  "signal_step rulePrefixes reason check f =
     (if \<not> ruleMatches (f_RuleID f) rulePrefixes then check
      else raise_check (if f_Severity f = SeverityBlocker then CheckFail else CheckWarning) reason
             (add_evidence [finding_line f] check))"

definition applyFindingSignals ::
  "RollbackCheck \<Rightarrow> Finding list \<Rightarrow> string list \<Rightarrow> RollbackReason \<Rightarrow> RollbackCheck" where
  "applyFindingSignals check fs rulePrefixes reason = foldl (signal_step rulePrefixes reason) check fs"

subsection \<open>Nodes\<close>

definition nodegroup_step ::
  "RollbackCluster \<Rightarrow> RollbackCheck \<Rightarrow> EKSNodegroupInfo \<Rightarrow> RollbackCheck" where
  "nodegroup_step cluster check ng =
     (if ng_Version ng = ''''
      then add_evidence [''nodegroup '' @ ng_Name ng @ '' version: unknown'']
             (raise_check CheckUnknown ReasonSelfManagedNodeEvidenceUnavailable check)
      else
        let check = add_evidence [''nodegroup '' @ ng_Name ng @ '' version: '' @ ng_Version ng
                      @ '' status: '' @ emptyAsUnknown (ng_Status ng)] check;
            check = (if rc_CurrentVersion cluster \<noteq> ''''
                        \<and> ng_Version ng = rc_CurrentVersion cluster
                        \<and> rc_RollbackTargetVersion cluster \<noteq> ''''
                        \<and> ng_Version ng \<noteq> rc_RollbackTargetVersion cluster
                     then raise_check CheckWarning ReasonManagedNodegroupRollbackRequired check
                     else check)
        in if length (ng_HealthIssues ng) > 0
           then raise_check CheckWarning ReasonManagedNodegroupRollbackRequired check
           else check)"

definition nodegroupRollbackCheck ::
  "Assessment \<Rightarrow> Report \<Rightarrow> clusterEvidenceIdentity \<Rightarrow> findingsFreshness \<Rightarrow> RollbackCheck" where
  "nodegroupRollbackCheck assessment r ident freshness =
     (let check = new_check ''managed-nodegroups''
                    ''Managed node groups are compatible with rollback target''
      in if evidence_blocked ident freshness then applyProvenanceGates check ident freshness
         else if length (r_EKSNodegroups r) = 0
         then check\<lparr>ck_Evidence := [''EKS managed node group inventory: none reported'']\<rparr>
         else foldl (nodegroup_step (as_Cluster assessment)) check (r_EKSNodegroups r))"

definition selfManagedNodeEvidenceCheck :: "Report \<Rightarrow> RollbackCheck" where
  "selfManagedNodeEvidenceCheck r =
     (let status = pc_Status (sc_Kubernetes (r_Coverage r));
          check = (new_check ''self-managed-node-evidence''
                     ''Self-managed and hybrid node evidence is available'')
                  \<lparr>ck_Evidence := [''kubernetes coverage: '' @ coverage_string status]\<rparr>
      in if status \<noteq> CoverageComplete
         then check\<lparr>ck_Status := CheckUnknown,
                    ck_ReasonCodes := [ReasonSelfManagedNodeEvidenceUnavailable]\<rparr>
         else check)"

definition fargateEvidenceCheck :: "Report \<Rightarrow> RollbackCheck" where
  "fargateEvidenceCheck r =
     (let check = new_check ''fargate-evidence'' ''Fargate rollback implications are identified'';
          aws = pc_Status (sc_AWS (r_Coverage r))
      in if r_Provider r \<noteq> ''eks''
         then check\<lparr>ck_Evidence := [''provider is not EKS'']\<rparr>
         else if aws \<noteq> CoverageComplete
         then check\<lparr>ck_Status := CheckUnknown,
                    ck_ReasonCodes := [ReasonFargateEvidenceUnavailable],
                    ck_Evidence := [''AWS coverage: '' @ coverage_string aws]\<rparr>
         else if findingCount (r_Findings r) ''FARGATE-'' > 0
         then check\<lparr>ck_Status := CheckWarning,
                    ck_ReasonCodes := [ReasonFargatePodRecreationRisk],
                    ck_Evidence := [''Fargate-related findings present'']\<rparr>
         else check\<lparr>ck_Evidence :=
                [''No Fargate-specific findings present in current evidence'']\<rparr>)"

subsection \<open>Add-ons and workloads\<close>

definition bool_string :: "bool \<Rightarrow> string" where
  "bool_string b = (if b then ''true'' else ''false'')"

definition addon_step :: "RollbackCheck \<Rightarrow> EKSAddonInfo \<Rightarrow> RollbackCheck" where
  "addon_step check addon =
     (let check = add_evidence [''addon '' @ addon_Name addon @ '' version: ''
            @ emptyAsUnknown (addon_CurrentVersion addon) @ '' compatible: ''
            @ bool_string (addon_Compatible addon) @ '' verificationUnavailable: ''
            @ bool_string (addon_VerificationUnavailable addon)] check
      in if addon_VerificationUnavailable addon
         then raise_check CheckUnknown ReasonManagedAddonCompatibilityUnknown check
         else if \<not> addon_Compatible addon
         then raise_check CheckWarning ReasonManagedAddonRollbackRequired check
         else check)"

definition managedAddonCheck ::
  "Report \<Rightarrow> clusterEvidenceIdentity \<Rightarrow> findingsFreshness \<Rightarrow> RollbackCheck" where
  "managedAddonCheck r ident freshness =
     (let check = new_check ''managed-addons''
                    ''EKS managed add-ons are compatible with rollback target''
      in if evidence_blocked ident freshness then applyProvenanceGates check ident freshness
         else
           let check = foldl addon_step check (r_EKSAddons r);
               check = applyFindingSignals check (r_Findings r) [''ADDON-001'']
                         ReasonManagedAddonRollbackRequired;
               check = applyFindingSignals check (r_Findings r) [''ADDON-002'']
                         ReasonManagedAddonCompatibilityUnknown
           in if length (ck_Evidence check) = 0
              then check\<lparr>ck_Evidence :=
                     [''No managed add-on compatibility findings present'']\<rparr>
              else check)"

definition note_if_pass :: "string \<Rightarrow> RollbackCheck \<Rightarrow> RollbackCheck" where
  \<comment> \<open>the last step of four checks\<close>
  "note_if_pass line check =
     (if ck_Status check = CheckPass then check\<lparr>ck_Evidence := [line]\<rparr> else check)"

definition selfManagedAddonCheck ::
  "Report \<Rightarrow> clusterEvidenceIdentity \<Rightarrow> findingsFreshness \<Rightarrow> RollbackCheck" where
  "selfManagedAddonCheck r ident freshness =
     (let check = new_check ''self-managed-addons''
                    ''Self-managed add-on rollback compatibility is verified''
      in if evidence_blocked ident freshness then applyProvenanceGates check ident freshness
         else note_if_pass ''No self-managed add-on compatibility warnings present''
                (applyFindingSignals check (r_Findings r) [''ADDON-002'']
                   ReasonSelfManagedAddonCompatibilityUnknown))"

definition workloadHealthCheck ::
  "Report \<Rightarrow> clusterEvidenceIdentity \<Rightarrow> findingsFreshness \<Rightarrow> RollbackCheck" where
  "workloadHealthCheck r ident freshness =
     (let check = new_check ''workload-health'' ''Workloads are healthy before rollback''
      in if evidence_blocked ident freshness then applyProvenanceGates check ident freshness
         else note_if_pass ''No unhealthy workload findings present''
                (applyFindingSignals check (r_Findings r) [''WORKLOAD-001'', ''DRAIN-005'']
                   ReasonUnhealthyWorkloadsPresent))"

subsection \<open>Disruption\<close>

record rollbackOperationEvidence =
  nodeDrainRequired :: bool
  workerReplacement :: bool
  podEvictionRequired :: bool
  workloadRestartNeeded :: bool
  activationEvidenceSeen :: bool

definition rollbackOperationEvidenceFromAssessment ::
  "Assessment \<Rightarrow> Report \<Rightarrow> rollbackOperationEvidence" where
  "rollbackOperationEvidenceFromAssessment assessment r =
     \<lparr>nodeDrainRequired = False, workerReplacement = False, podEvictionRequired = False,
      workloadRestartNeeded = False, activationEvidenceSeen = False\<rparr>"

definition rollbackBlockingDisruptionRule :: "string \<Rightarrow> bool" where
  "rollbackBlockingDisruptionRule ruleID \<longleftrightarrow>
     ruleID \<in> set [''PDB-001'', ''PDB-002'', ''DRAIN-002'']"

definition scope_activated :: "rollbackOperationEvidence \<Rightarrow> ImpactScope \<Rightarrow> bool" where
  "scope_activated ev scope =
     (case scope of
        ImpactNodeDrain \<Rightarrow>
          nodeDrainRequired ev \<or> podEvictionRequired ev \<or> workerReplacement ev
      | ImpactWorkerRollout \<Rightarrow> workerReplacement ev \<or> nodeDrainRequired ev
      | ImpactWorkloadRestart \<Rightarrow> workloadRestartNeeded ev \<or> podEvictionRequired ev
      | _ \<Rightarrow> False)"

definition disruptionActivationConfirmed :: "Finding \<Rightarrow> rollbackOperationEvidence \<Rightarrow> bool" where
  "disruptionActivationConfirmed f ev =
     (if \<not> activationEvidenceSeen ev \<or> \<not> rollbackBlockingDisruptionRule (f_RuleID f) then False
      else if length (f_ImpactScopes f) = 0
      then nodeDrainRequired ev \<or> workerReplacement ev \<or> podEvictionRequired ev
           \<or> workloadRestartNeeded ev
      else list_ex (scope_activated ev) (f_ImpactScopes f))"

definition routeDisruptionFinding ::
  "RollbackCheck \<Rightarrow> Finding \<Rightarrow> rollbackOperationEvidence \<Rightarrow> RollbackCheck" where
  "routeDisruptionFinding check f ev =
     (if f_RuleID f = ''DRAIN-005'' then check
      else raise_check
             (if f_Severity f = SeverityBlocker \<and> disruptionActivationConfirmed f ev
              then CheckFail else CheckWarning)
             ReasonPDBDisruptionConstraints (add_evidence [finding_line f] check))"

definition isDisruptionFinding :: "string \<Rightarrow> bool" where
  "isDisruptionFinding ruleID \<longleftrightarrow> HasPrefix ruleID ''PDB-'' \<or> HasPrefix ruleID ''DRAIN-''"

definition disruptionCheck ::
  "Assessment \<Rightarrow> Report \<Rightarrow> clusterEvidenceIdentity \<Rightarrow> findingsFreshness \<Rightarrow> RollbackCheck" where
  "disruptionCheck assessment r ident freshness =
     (let check = new_check ''disruption-readiness''
                    ''PDB and drain constraints do not block rollback preparation''
      in if evidence_blocked ident freshness then applyProvenanceGates check ident freshness
         else
           let ev = rollbackOperationEvidenceFromAssessment assessment r
           in note_if_pass ''No PDB or drain readiness findings present''
                (foldl (\<lambda>check f. if \<not> isDisruptionFinding (f_RuleID f) then check
                                   else routeDisruptionFinding check f ev)
                   check (r_Findings r)))"

subsection \<open>API, CRD and webhook compatibility\<close>

definition target_gated_findings ::
  "string \<Rightarrow> string list \<Rightarrow> RollbackReason \<Rightarrow> RollbackCheck \<Rightarrow> Assessment \<Rightarrow> Report
     \<Rightarrow> Finding list \<Rightarrow> RollbackCheck" where
  \<comment> \<open>the common body of the two functions below\<close>
  "target_gated_findings evidenceLabel rulePrefixes reason check assessment r fs =
     (if length fs = 0 then check
      else case validateRollbackEvidenceTarget evidenceLabel (r_TargetVersion r)
                  (rc_RollbackTargetVersion (as_Cluster assessment)) of
             (status, unconfirmed, evidence) \<Rightarrow>
               if status = apiEvidenceTargetValidated
               then applyFindingSignals check fs rulePrefixes reason
               else add_evidence evidence (raise_check CheckUnknown unconfirmed check))"

definition applyAPIEvidenceFindings :: "RollbackCheck \<Rightarrow> Assessment \<Rightarrow> Report \<Rightarrow> RollbackCheck" where
  "applyAPIEvidenceFindings check assessment r =
     target_gated_findings ''API compatibility'' [''API-001'', ''API-002'']
       ReasonNewVersionAPIAdoptionRisk check assessment r
       (findingsWithPrefixes (r_Findings r) [''API-001'', ''API-002''])"

definition applyCRDWebhookEvidenceFindings ::
  "RollbackCheck \<Rightarrow> Assessment \<Rightarrow> Report \<Rightarrow> Finding list \<Rightarrow> RollbackCheck" where
  "applyCRDWebhookEvidenceFindings check assessment r crdWebhookFindings =
     target_gated_findings ''CRD/webhook compatibility'' [''CRD-'', ''WH-'']
       ReasonCRDWebhookControllerRisk check assessment r crdWebhookFindings"

definition targetGatedCRDWebhookFindings :: "Finding list \<Rightarrow> Finding list" where
  "targetGatedCRDWebhookFindings fs =
     filter (\<lambda>f. f_RuleID f \<noteq> ''WH-002''
                 \<and> (HasPrefix (f_RuleID f) ''CRD-'' \<or> HasPrefix (f_RuleID f) ''WH-'')) fs"

definition reverseCompatibilityCheck ::
  "Assessment \<Rightarrow> Report \<Rightarrow> clusterEvidenceIdentity \<Rightarrow> findingsFreshness \<Rightarrow> RollbackCheck" where
  "reverseCompatibilityCheck assessment r ident freshness =
     (let check = new_check ''reverse-compatibility''
                    ''API, CRD, and webhook state is compatible with rollback target'';
          check = applyAPIEvidenceFindings check assessment r;
          check = (if length (findingsWithPrefixes (r_Findings r) [''API-001'', ''API-002'']) > 0
                      \<and> freshness_blocks freshness
                   then applyFreshnessGate check freshness else check);
          currentWebhookFindings = findingsWithPrefixes (r_Findings r) [''WH-002''];
          targetGatedFindings = targetGatedCRDWebhookFindings (r_Findings r);
          check = (if length currentWebhookFindings > 0 \<or> length targetGatedFindings > 0
                   then if evidence_blocked ident freshness
                        then applyProvenanceGates check ident freshness
                        else applyCRDWebhookEvidenceFindings
                               (applyFindingSignals check currentWebhookFindings [''WH-002'']
                                  ReasonCRDWebhookControllerRisk)
                               assessment r targetGatedFindings
                   else check)
      in note_if_pass ''No API, CRD, or webhook rollback compatibility findings present'' check)"

subsection \<open>Coverage\<close>

definition coverageCheck :: "Report \<Rightarrow> RollbackCheck" where
  "coverageCheck r =
     (let k8s = pc_Status (sc_Kubernetes (r_Coverage r));
          aws = pc_Status (sc_AWS (r_Coverage r));
          manifests = pc_Status (sc_Manifests (r_Coverage r));
          check = (new_check ''evidence-coverage'' ''Operational evidence coverage is complete'')
                  \<lparr>ck_Evidence :=
                    [if coverage_string k8s = '''' then ''kubernetes coverage: unknown''
                     else ''kubernetes coverage: '' @ coverage_string k8s,
                     ''aws coverage: '' @ coverage_string aws,
                     ''manifest coverage: '' @ coverage_string manifests]\<rparr>
      in if k8s = CoveragePartial \<or> aws = CoveragePartial \<or> manifests = CoveragePartial
         then check\<lparr>ck_Status := CheckUnknown,
                    ck_ReasonCodes := [ReasonObservabilityEvidenceMissing]\<rparr>
         else check)"

section \<open>Operational readiness\<close>

definition operational_checks :: "Assessment \<Rightarrow> Report \<Rightarrow> RollbackCheck list" where
  "operational_checks assessment r =
     (let ident = validateClusterEvidenceIdentity r (as_Cluster assessment);
          freshness = validateFindingsFreshness r (as_GeneratedAt assessment)
      in [nodegroupRollbackCheck assessment r ident freshness,
          selfManagedNodeEvidenceCheck r,
          fargateEvidenceCheck r,
          managedAddonCheck r ident freshness,
          selfManagedAddonCheck r ident freshness,
          workloadHealthCheck r ident freshness,
          disruptionCheck assessment r ident freshness,
          reverseCompatibilityCheck assessment r ident freshness,
          coverageCheck r])"

definition missing_evidence_check :: RollbackCheck where
  "missing_evidence_check =
     \<lparr>ck_ID = ''operational-evidence'',
      ck_Title = ''KubePreflight operational evidence is available'',
      ck_Status = CheckUnknown, ck_ReasonCodes = [ReasonObservabilityEvidenceMissing],
      ck_Evidence = []\<rparr>"

definition set_complete :: "bool \<Rightarrow> Assessment \<Rightarrow> Assessment" where
  \<comment> \<open>\<open>assessment.Evidence.Complete = b\<close>\<close>
  "set_complete b a = a\<lparr>as_Evidence := (as_Evidence a)\<lparr>ev_Complete := b\<rparr>\<rparr>"

definition ApplyOperationalReadiness :: "Assessment \<Rightarrow> Report option \<Rightarrow> Assessment" where
  "ApplyOperationalReadiness assessment report =
     (case report of
        None \<Rightarrow>
          set_complete False (assessment
            \<lparr>as_Checks := as_Checks assessment @ [missing_evidence_check],
             as_Readiness := combineReadiness (as_Readiness assessment)
                               (readinessFromChecks [missing_evidence_check])\<rparr>)
      | Some r \<Rightarrow>
          let checks = operational_checks assessment r;
              a = assessment
                \<lparr>as_Checks := as_Checks assessment @ checks,
                 as_Readiness := combineReadiness (as_Readiness assessment)
                                   (readinessFromChecks checks)\<rparr>
          in if hasUnknownCheck checks
                \<or> rd_Status (as_Readiness a) = ReadinessInsufficientEvidence
             then set_complete False a else a)"

section \<open>The recommendation\<close>

definition recommendationReasons :: "Assessment \<Rightarrow> RollbackReason list" where
  "recommendationReasons a =
     foldl appendUniqueReason
       (foldl appendUniqueReason (foldl appendUniqueReason [] (el_ReasonCodes (as_Eligibility a)))
          (rec_ReasonCodes (as_Recommendation a)))
       (concat (map ck_ReasonCodes (as_Checks a)))"

definition ApplyRecommendation :: "Assessment \<Rightarrow> Assessment" where
  "ApplyRecommendation a =
     (let recommend = (\<lambda>decision confidence. a\<lparr>as_Recommendation :=
            \<lparr>rec_Decision = decision, rec_Confidence = confidence,
             rec_ReasonCodes = recommendationReasons a\<rparr>\<rparr>);
          eligibility = el_Status (as_Eligibility a);
          readiness = rd_Status (as_Readiness a)
      in if eligibility = EligibilityUnavailable
         then recommend RecommendationDoNotProceed ConfidenceHigh
         else if readiness = ReadinessBlocked
         then recommend RecommendationDoNotProceed ConfidenceHigh
         else if eligibility = EligibilityUnknown
         then recommend RecommendationOperatorDecisionRequired ConfidenceLow
         else if readiness = ReadinessInsufficientEvidence \<or> \<not> ev_Complete (as_Evidence a)
         then recommend RecommendationOperatorDecisionRequired ConfidenceLow
         else if readiness = ReadinessHighRisk
         then recommend RecommendationFixForwardPreferred ConfidenceMedium
         else if readiness = ReadinessReady
         then recommend RecommendationRollbackPreferred ConfidenceMedium
         else a)"

text \<open>\<open>rollbackExitCode\<close> of \<open>internal/cli/rollback.go\<close>.\<close>

definition rollbackExitCode :: "Assessment \<Rightarrow> int" where
  "rollbackExitCode a =
     (case rec_Decision (as_Recommendation a) of
        RecommendationRollbackPreferred \<Rightarrow> 0
      | RecommendationDoNotProceed \<Rightarrow> 2
      | _ \<Rightarrow> 1)"

end
