(* ===== verification/RollbackEks.thy ===== *)
theory RollbackEks
  imports Rollback
begin

text \<open>
  The EKS side of the rollback assessment (\<open>internal/rollback/eks\<close>): the snapshot the collector
  fills, the eligibility of a rollback (\<open>eligibility.go\<close>), the rollback insights of AWS
  (\<open>insights.go\<close>), and the pipeline the command \<open>rollback\<close> runs (\<open>internal/cli/rollback.go\<close>).

  The enumerations of the AWS SDK that the code compares with are datatypes; the strings behind
  them are the SDK's, so what the code prints of them is an argument (\<open>sdk_names\<close>). The map
  \<open>Snapshot.Errors\<close> is an association list; the code only asks for the presence of keys.
\<close>

section \<open>The snapshot\<close>

datatype InsightStatusValue =
    InsightStatusValuePassing | InsightStatusValueWarning | InsightStatusValueError
  | InsightStatusValueUnknown | InsightStatusValueOther string

datatype VersionStatus =
    VersionStatusStandardSupport | VersionStatusExtendedSupport | VersionStatusOther string

datatype UpdateType = UpdateTypeVersionUpdate | UpdateTypeOther string

datatype UpdateStatus = UpdateStatusSuccessful | UpdateStatusOther string

datatype SupportType = SupportTypeExtended | SupportTypeOther string

record sdk_names =
  insight_status_name :: "InsightStatusValue \<Rightarrow> string"
  version_status_name :: "VersionStatus \<Rightarrow> string"
  support_type_name :: "SupportType \<Rightarrow> string"

record InsightResourceRecord =
  ir_ARN :: string
  ir_KubernetesResourceURI :: string
  ir_Status :: InsightStatusValue
  ir_Reason :: string

record InsightRecord =
  in_ID :: string
  in_Name :: string
  in_Category :: string
  in_Status :: InsightStatusValue
  in_Reason :: string
  in_Description :: string
  in_Recommendation :: string
  in_LastRefreshTime :: time
  in_LastTransitionTime :: time
  in_AdditionalInfo :: "(string \<times> string) list"
  in_Resources :: "InsightResourceRecord list"

record UpdateRecord =
  up_ID :: string
  up_Type :: UpdateType
  up_Status :: UpdateStatus
  up_CreatedAt :: time
  up_Version :: string
  up_Params :: "(string \<times> string) list"

record ClusterVersionRecord =
  cv_Version :: string
  cv_Status :: VersionStatus

record EksSnapshot =
  sn_ClusterName :: string
  sn_Region :: string
  sn_CurrentVersion :: string
  sn_ClusterStatus :: string
  sn_SupportType :: SupportType
  sn_ObservedAt :: time
  sn_Insights :: "InsightRecord list"
  sn_Updates :: "UpdateRecord list"
  sn_ClusterVersions :: "ClusterVersionRecord list"
  sn_Errors :: "(string \<times> string) list"

definition hasErrors :: "EksSnapshot \<Rightarrow> string list \<Rightarrow> bool" where
  "hasErrors snap keys = list_ex (\<lambda>key. map_of (sn_Errors snap) key \<noteq> None) keys"

definition hasErrorPrefix :: "EksSnapshot \<Rightarrow> string \<Rightarrow> bool" where
  "hasErrorPrefix snap p = list_ex (\<lambda>(key, err). HasPrefix key p) (sn_Errors snap)"

section \<open>Versions\<close>

definition parseMinor :: "string \<Rightarrow> (int \<times> int) option" where
  "parseMinor version =
     (let parts = Split (TrimPrefix (TrimSpace version) ''v'') (CHR ''.'')
      in if length parts < 2 then None
         else case (Atoi (parts ! 0), Atoi (parts ! 1)) of
                (Some major, Some minor) \<Rightarrow> Some (major, minor)
              | _ \<Rightarrow> None)"

definition previousMinor :: "string \<Rightarrow> string" where
  "previousMinor version =
     (case parseMinor version of
        None \<Rightarrow> ''''
      | Some (major, minor) \<Rightarrow> if minor = 0 then '''' else show_minor major (minor - 1))"

definition previousVersionIsNMinusOne :: "string \<Rightarrow> string \<Rightarrow> bool" where
  "previousVersionIsNMinusOne currentVersion previousVersion \<longleftrightarrow>
     previousVersion \<noteq> '''' \<and> previousMinor currentVersion = previousVersion"

definition targetVersionRecord ::
  "ClusterVersionRecord list \<Rightarrow> string \<Rightarrow> ClusterVersionRecord option" where
  "targetVersionRecord versions target = find (\<lambda>version. cv_Version version = target) versions"

definition isSupportedTargetStatus :: "VersionStatus \<Rightarrow> bool" where
  "isSupportedTargetStatus status \<longleftrightarrow>
     status = VersionStatusStandardSupport \<or> status = VersionStatusExtendedSupport"

definition targetStatus :: "sdk_names \<Rightarrow> ClusterVersionRecord list \<Rightarrow> string \<Rightarrow> string" where
  "targetStatus sdk versions target =
     (case targetVersionRecord versions target of
        None \<Rightarrow> ''''
      | Some rec \<Rightarrow> version_status_name sdk (cv_Status rec))"

text \<open>
  The newest successful version update. \<open>sort.Slice\<close> is not stable; of several updates created
  at the same instant the model takes the first, and only the printed update ID depends on it.
\<close>

definition relevant_update :: "string \<Rightarrow> UpdateRecord \<Rightarrow> bool" where
  "relevant_update currentVersion update \<longleftrightarrow>
     \<not> (up_Type update \<noteq> UpdateTypeVersionUpdate \<or> up_Status update \<noteq> UpdateStatusSuccessful)
     \<and> \<not> (currentVersion \<noteq> '''' \<and> up_Version update \<noteq> '''' \<and> up_Version update \<noteq> currentVersion)"

definition latestSuccessfulVersionUpdate ::
  "UpdateRecord list \<Rightarrow> string \<Rightarrow> UpdateRecord option" where
  "latestSuccessfulVersionUpdate updates currentVersion =
     (case sort_by (\<lambda>x y. up_CreatedAt x > up_CreatedAt y)
             (filter (relevant_update currentVersion) updates) of
        [] \<Rightarrow> None
      | update # _ \<Rightarrow> Some update)"

section \<open>Eligibility\<close>

definition rollbackWindow :: int where
  "rollbackWindow = 7 * 24 * Hour"

definition uniqueReasonCodes :: "RollbackReason list \<Rightarrow> RollbackReason list" where
  "uniqueReasonCodes reasons = append_all_unique [] reasons"

definition unknownAssessment :: "Assessment \<Rightarrow> RollbackReason \<Rightarrow> Assessment" where
  "unknownAssessment a reason =
     set_complete False (a
       \<lparr>as_Eligibility := \<lparr>el_Status = EligibilityUnknown, el_WindowExpiresAt = None,
          el_RemainingMinutes = None, el_Source = ''amazon-eks'', el_ReasonCodes = [reason]\<rparr>,
        as_Readiness := \<lparr>rd_Status = ReadinessInsufficientEvidence, rd_Blockers = 0,
          rd_Warnings = 0, rd_Unknowns = 1\<rparr>,
        as_Recommendation := \<lparr>rec_Decision = RecommendationOperatorDecisionRequired,
          rec_Confidence = ConfidenceLow, rec_ReasonCodes = [reason]\<rparr>\<rparr>)"

definition statusForReason :: "Assessment \<Rightarrow> RollbackReason \<Rightarrow> CheckStatus" where
  "statusForReason a reason =
     (if reason \<in> set (el_ReasonCodes (as_Eligibility a)) then CheckFail
      else if el_Status (as_Eligibility a) = EligibilityUnknown then CheckUnknown
      else CheckPass)"

definition reasonIfPresent :: "Assessment \<Rightarrow> RollbackReason \<Rightarrow> RollbackReason list" where
  "reasonIfPresent a reason =
     (if reason \<in> set (el_ReasonCodes (as_Eligibility a)) then [reason] else [])"

definition eligibility_check ::
  "Assessment \<Rightarrow> string \<Rightarrow> string \<Rightarrow> RollbackReason \<Rightarrow> string list \<Rightarrow> RollbackCheck" where
  \<comment> \<open>the literal of the first four checks\<close>
  "eligibility_check a checkID title reason evidence =
     \<lparr>ck_ID = checkID, ck_Title = title, ck_Status = statusForReason a reason,
      ck_ReasonCodes = reasonIfPresent a reason, ck_Evidence = evidence\<rparr>"

definition window_check :: "Assessment \<Rightarrow> UpdateRecord option \<Rightarrow> RollbackCheck" where
  "window_check a update =
     (let check = (new_check ''rollback-window'' ''EKS rollback window is active'')
                  \<lparr>ck_Status := statusForReason a ReasonRollbackWindowExpired\<rparr>;
          check = (case update of
             Some u \<Rightarrow> check\<lparr>ck_Evidence :=
               [''upgrade update id: '' @ up_ID u,
                ''upgrade update createdAt: '' @ format_rfc3339 (up_CreatedAt u),
                ''window calculation: conservative'',
                ''timestamp source: eks_update_created_at'']\<rparr>
           | None \<Rightarrow> check\<lparr>ck_Status := CheckUnknown,
                          ck_ReasonCodes := [ReasonEKSUpgradeHistoryUnavailable]\<rparr>)
      in check\<lparr>ck_ReasonCodes :=
           ck_ReasonCodes check @ reasonIfPresent a ReasonRollbackWindowExpired\<rparr>)"

definition eligibilityChecks ::
  "sdk_names \<Rightarrow> EksSnapshot \<Rightarrow> Assessment \<Rightarrow> UpdateRecord option \<Rightarrow> RollbackCheck list" where
  "eligibilityChecks sdk snap a update =
     (let target = rc_RollbackTargetVersion (as_Cluster a);
          target_status_line = ''target versionStatus: ''
            @ emptyAsUnknown (targetStatus sdk (sn_ClusterVersions snap) target)
      in [eligibility_check a ''cluster-active'' ''EKS cluster status is ACTIVE''
            ReasonClusterNotActive [''status: '' @ emptyAsUnknown (sn_ClusterStatus snap)],
          eligibility_check a ''rollback-target-supported''
            ''Rollback target EKS version is supported'' ReasonRollbackTargetUnsupported
            [''target version: '' @ emptyAsUnknown target, target_status_line],
          eligibility_check a ''extended-support-policy''
            ''Cluster upgrade policy allows extended-support rollback target''
            ReasonRollbackTargetRequiresExtendedSupport
            [''upgrade policy supportType: ''
               @ emptyAsUnknown (support_type_name sdk (sn_SupportType snap)), target_status_line],
          eligibility_check a ''previous-version'' ''Previous version is exactly N-1''
            ReasonPreviousVersionNotNMinusOne
            [''current version: '' @ emptyAsUnknown (sn_CurrentVersion snap),
             ''rollback target version: '' @ emptyAsUnknown target],
          window_check a update,
          \<lparr>ck_ID = ''end-of-extended-support-auto-upgrade'',
           ck_Title = ''End-of-extended-support auto-upgrade origin is not yet verified'',
           ck_Status = CheckUnknown,
           ck_ReasonCodes = [ReasonEndOfExtendedSupportAutoUpgradeUnknown], ck_Evidence = []\<rparr>,
          \<lparr>ck_ID = ''eks-feature-compatibility'',
           ck_Title = ''Backward-incompatible EKS feature compatibility is not yet verified'',
           ck_Status = CheckUnknown,
           ck_ReasonCodes = [ReasonEKSFeatureCompatibilityUnverified], ck_Evidence = []\<rparr>])"

definition target_reasons :: "EksSnapshot \<Rightarrow> string \<Rightarrow> RollbackReason list" where
  "target_reasons snap target =
     (if target = '''' then [ReasonPreviousVersionNotNMinusOne]
      else case targetVersionRecord (sn_ClusterVersions snap) target of
             None \<Rightarrow> [ReasonRollbackTargetUnsupported]
           | Some rec \<Rightarrow>
               if \<not> isSupportedTargetStatus (cv_Status rec) then [ReasonRollbackTargetUnsupported]
               else if cv_Status rec = VersionStatusExtendedSupport
                       \<and> sn_SupportType snap \<noteq> SupportTypeExtended
               then [ReasonRollbackTargetRequiresExtendedSupport]
               else [])"

definition update_reasons :: "EksSnapshot \<Rightarrow> string \<Rightarrow> UpdateRecord option \<Rightarrow> time
     \<Rightarrow> RollbackReason list" where
  "update_reasons snap target update now =
     (case update of
        None \<Rightarrow> [ReasonEKSUpgradeHistoryUnavailable]
      | Some u \<Rightarrow>
          (if \<not> previousVersionIsNMinusOne (sn_CurrentVersion snap) target
           then [ReasonPreviousVersionNotNMinusOne] else [])
          @ (if \<not> (now < up_CreatedAt u + rollbackWindow)
             then [ReasonRollbackWindowExpired] else []))"

definition eligibility_reasons ::
  "EksSnapshot \<Rightarrow> string \<Rightarrow> UpdateRecord option \<Rightarrow> time \<Rightarrow> RollbackReason list" where
  "eligibility_reasons snap target update now =
     (if sn_ClusterStatus snap \<noteq> '''' \<and> sn_ClusterStatus snap \<noteq> ''ACTIVE''
      then [ReasonClusterNotActive] else [])
     @ target_reasons snap target @ update_reasons snap target update now"

definition EvaluateEligibility :: "sdk_names \<Rightarrow> EksSnapshot option \<Rightarrow> time \<Rightarrow> Assessment" where
  "EvaluateEligibility sdk snapshot now =
     (let a = NewAssessment ModePostUpgradeReadiness now;
          a = a\<lparr>as_Evidence := (as_Evidence a)\<lparr>ev_ClusterObservedAt := Some now\<rparr>\<rparr>
      in case snapshot of
           None \<Rightarrow> unknownAssessment a ReasonEKSUpgradeHistoryUnavailable
         | Some snap \<Rightarrow>
             let target = previousMinor (sn_CurrentVersion snap);
                 a = a\<lparr>as_Cluster := \<lparr>rc_Name = sn_ClusterName snap, rc_Region = sn_Region snap,
                         rc_CurrentVersion = sn_CurrentVersion snap,
                         rc_RollbackTargetVersion = target, rc_Provider = ''eks''\<rparr>\<rparr>;
                 a = (if sn_ObservedAt snap \<noteq> 0
                      then a\<lparr>as_Evidence := (as_Evidence a)
                               \<lparr>ev_ClusterObservedAt := Some (sn_ObservedAt snap)\<rparr>\<rparr>
                      else a)
             in if hasErrors snap
                     [''describe-cluster'', ''list-updates'', ''describe-cluster-versions'']
                   \<or> hasErrorPrefix snap ''describe-update:''
                then unknownAssessment a ReasonEKSUpgradeHistoryUnavailable
                else
                  let update = latestSuccessfulVersionUpdate (sn_Updates snap)
                                 (sn_CurrentVersion snap);
                      reasons = eligibility_reasons snap target update now;
                      codes = uniqueReasonCodes reasons;
                      a = (case update of
                             None \<Rightarrow> a
                           | Some u \<Rightarrow>
                               let expires = up_CreatedAt u + rollbackWindow
                               in a\<lparr>as_Eligibility := (as_Eligibility a)
                                      \<lparr>el_WindowExpiresAt := Some expires,
                                       el_RemainingMinutes :=
                                         Some (max 0 (whole_minutes (time_Sub expires now)))\<rparr>,
                                    as_Evidence := (as_Evidence a)
                                      \<lparr>ev_WindowCalculation := ''conservative'',
                                       ev_TimestampSource := ''eks_update_created_at''\<rparr>\<rparr>);
                      a = set_complete (length reasons = 0)
                            (a\<lparr>as_Eligibility := (as_Eligibility a)
                                 \<lparr>el_Source := ''amazon-eks'', el_ReasonCodes := codes\<rparr>\<rparr>);
                      unknownReasons = [ReasonEndOfExtendedSupportAutoUpgradeUnknown,
                                        ReasonEKSFeatureCompatibilityUnverified];
                      a = (if length reasons > 0
                           then a\<lparr>as_Eligibility := (as_Eligibility a)
                                    \<lparr>el_Status := EligibilityUnavailable\<rparr>,
                                  as_Readiness := \<lparr>rd_Status = ReadinessBlocked,
                                    rd_Blockers = length codes, rd_Warnings = 0,
                                    rd_Unknowns = 0\<rparr>,
                                  as_Recommendation := \<lparr>rec_Decision = RecommendationDoNotProceed,
                                    rec_Confidence = ConfidenceHigh, rec_ReasonCodes = codes\<rparr>\<rparr>
                           else set_complete False
                                  (a\<lparr>as_Eligibility := (as_Eligibility a)
                                       \<lparr>el_Status := EligibilityEligible\<rparr>,
                                     as_Readiness := \<lparr>rd_Status = ReadinessInsufficientEvidence,
                                       rd_Blockers = 0, rd_Warnings = 0,
                                       rd_Unknowns = length unknownReasons\<rparr>,
                                     as_Recommendation :=
                                       \<lparr>rec_Decision = RecommendationOperatorDecisionRequired,
                                        rec_Confidence = ConfidenceLow,
                                        rec_ReasonCodes = unknownReasons\<rparr>\<rparr>))
                  in a\<lparr>as_Checks := eligibilityChecks sdk snap a update\<rparr>)"

section \<open>Rollback insights\<close>

definition insightFreshnessWindow :: int where
  "insightFreshnessWindow = 24 * Hour"

definition removeReasonCode :: "RollbackReason list \<Rightarrow> RollbackReason \<Rightarrow> RollbackReason list" where
  "removeReasonCode codes remove = filter (\<lambda>code. code \<noteq> remove) codes"

definition remainingUnknownEvidence :: "Assessment \<Rightarrow> nat" where
  "remainingUnknownEvidence a =
     length (filter (\<lambda>code. code \<in> set [ReasonEndOfExtendedSupportAutoUpgradeUnknown,
                 ReasonEKSFeatureCompatibilityUnverified, ReasonEKSInsightsUnavailable,
                 ReasonEKSInsightsStale])
               (rec_ReasonCodes (as_Recommendation a)))"

definition set_recommendation ::
  "RecommendationDecision \<Rightarrow> RecommendationConfidence \<Rightarrow> Assessment \<Rightarrow> Assessment" where
  \<comment> \<open>the assignments to \<open>Recommendation.Decision\<close> and \<open>Recommendation.Confidence\<close>\<close>
  "set_recommendation decision confidence a =
     a\<lparr>as_Recommendation := (as_Recommendation a)
         \<lparr>rec_Decision := decision, rec_Confidence := confidence\<rparr>\<rparr>"

definition add_reason :: "RollbackReason \<Rightarrow> Assessment \<Rightarrow> Assessment" where
  "add_reason reason a =
     a\<lparr>as_Recommendation := (as_Recommendation a)
         \<lparr>rec_ReasonCodes := uniqueReasonCodes (rec_ReasonCodes (as_Recommendation a) @ [reason])\<rparr>\<rparr>"

definition set_readiness :: "ReadinessStatus \<Rightarrow> nat \<Rightarrow> nat \<Rightarrow> nat \<Rightarrow> Assessment \<Rightarrow> Assessment" where
  "set_readiness status blockers warnings unknowns a =
     a\<lparr>as_Readiness := \<lparr>rd_Status = status, rd_Blockers = blockers, rd_Warnings = warnings,
         rd_Unknowns = unknowns\<rparr>\<rparr>"

definition markInsightsUnavailable :: "Assessment \<Rightarrow> Assessment" where
  "markInsightsUnavailable a =
     (let a = set_complete False (add_reason ReasonEKSInsightsUnavailable
                (set_recommendation RecommendationOperatorDecisionRequired ConfidenceLow
                  (set_readiness ReadinessInsufficientEvidence 0 0 1 a)))
      in a\<lparr>as_Checks := as_Checks a @
           [\<lparr>ck_ID = ''rollback-insights'',
             ck_Title = ''EKS rollback readiness insights are available'',
             ck_Status = CheckUnknown, ck_ReasonCodes = [ReasonEKSInsightsUnavailable],
             ck_Evidence = []\<rparr>]\<rparr>)"

definition markInsightsStale :: "Assessment \<Rightarrow> nat \<Rightarrow> Assessment" where
  "markInsightsStale a staleCount =
     set_complete False (add_reason ReasonEKSInsightsStale
       (set_recommendation RecommendationOperatorDecisionRequired ConfidenceLow
         (set_readiness ReadinessInsufficientEvidence 0 0 staleCount a)))"

fun insightCheckStatus :: "InsightStatusValue \<Rightarrow> CheckStatus" where
  "insightCheckStatus InsightStatusValuePassing = CheckPass"
| "insightCheckStatus InsightStatusValueWarning = CheckWarning"
| "insightCheckStatus InsightStatusValueError = CheckFail"
| "insightCheckStatus status = CheckUnknown"

definition stale_insight :: "time \<Rightarrow> InsightRecord \<Rightarrow> bool" where
  \<comment> \<open>the test of the loop and of \<open>insightCheck\<close>\<close>
  "stale_insight now insight \<longleftrightarrow>
     (if in_LastRefreshTime insight \<noteq> 0
      then time_Sub now (in_LastRefreshTime insight) > insightFreshnessWindow else True)"

definition blocking_insight :: "InsightRecord \<Rightarrow> bool" where
  "blocking_insight insight \<longleftrightarrow>
     in_Status insight = InsightStatusValueError \<or> in_Status insight = InsightStatusValueUnknown"

definition resource_line :: "sdk_names \<Rightarrow> InsightResourceRecord \<Rightarrow> string" where
  "resource_line sdk res =
     ''resource: arn='' @ emptyAsUnknown (ir_ARN res)
     @ '' uri='' @ emptyAsUnknown (ir_KubernetesResourceURI res)
     @ '' status='' @ emptyAsUnknown (insight_status_name sdk (ir_Status res))
     @ '' reason='' @ emptyAsUnknown (ir_Reason res)"

definition insightCheck :: "sdk_names \<Rightarrow> InsightRecord \<Rightarrow> time \<Rightarrow> RollbackCheck" where
  "insightCheck sdk insight now =
     (let stale = stale_insight now insight;
          codes = (if stale then [ReasonEKSInsightsStale] else [])
      in \<lparr>ck_ID = ''rollback-insight-'' @ in_ID insight,
          ck_Title = emptyAsUnknown (in_Name insight),
          ck_Status = (if stale then CheckUnknown else insightCheckStatus (in_Status insight)),
          ck_ReasonCodes = (if blocking_insight insight
                            then uniqueReasonCodes (codes @ [ReasonEKSInsightsBlocking]) else codes),
          ck_Evidence =
            [''insight id: '' @ emptyAsUnknown (in_ID insight),
             ''status: '' @ emptyAsUnknown (insight_status_name sdk (in_Status insight)),
             ''description: '' @ emptyAsUnknown (in_Description insight)]
            @ (if in_LastRefreshTime insight \<noteq> 0
               then [''lastRefreshTime: '' @ format_rfc3339 (in_LastRefreshTime insight)] else [])
            @ (if in_LastTransitionTime insight \<noteq> 0
               then [''lastTransitionTime: '' @ format_rfc3339 (in_LastTransitionTime insight)]
               else [])
            @ (if in_Recommendation insight \<noteq> ''''
               then [''recommendation: '' @ in_Recommendation insight] else [])
            @ map (resource_line sdk) (in_Resources insight)\<rparr>)"

definition oldest_step :: "time option \<Rightarrow> InsightRecord \<Rightarrow> time option" where
  "oldest_step oldest insight =
     (if in_LastRefreshTime insight = 0 then oldest
      else case oldest of
             None \<Rightarrow> Some (in_LastRefreshTime insight)
           | Some t \<Rightarrow> if in_LastRefreshTime insight < t
                       then Some (in_LastRefreshTime insight) else oldest)"

definition ApplyRollbackInsights ::
  "sdk_names \<Rightarrow> Assessment \<Rightarrow> EksSnapshot option \<Rightarrow> time \<Rightarrow> Assessment" where
  "ApplyRollbackInsights sdk a snapshot now =
     (case snapshot of
        None \<Rightarrow> markInsightsUnavailable a
      | Some snap \<Rightarrow>
          if hasErrors snap [''list-rollback-insights'']
             \<or> hasErrorPrefix snap ''describe-rollback-insight:''
          then markInsightsUnavailable a
          else
            let a = a\<lparr>as_Recommendation := (as_Recommendation a)
                      \<lparr>rec_ReasonCodes := removeReasonCode (rec_ReasonCodes (as_Recommendation a))
                                            ReasonEKSFeatureCompatibilityUnverified\<rparr>\<rparr>;
                insights = sn_Insights snap;
                stale = length (filter (stale_insight now) insights);
                blockers = length (filter blocking_insight insights);
                warnings = length (filter (\<lambda>i. in_Status i = InsightStatusValueWarning) insights);
                oldest = foldl oldest_step None insights;
                a = (if oldest \<noteq> None
                     then a\<lparr>as_Evidence := (as_Evidence a)\<lparr>ev_EKSInsightsRefreshedAt := oldest\<rparr>\<rparr>
                     else a);
                a = a\<lparr>as_Checks := as_Checks a @ map (\<lambda>i. insightCheck sdk i now) insights\<rparr>;
                remaining = remainingUnknownEvidence a
            in if stale > 0 then markInsightsStale a stale
               else if blockers > 0
               then set_complete False (add_reason ReasonEKSInsightsBlocking
                      (set_recommendation RecommendationDoNotProceed ConfidenceHigh
                        (set_readiness ReadinessBlocked blockers warnings 0 a)))
               else if warnings > 0
               then set_complete (remaining = 0)
                      (set_recommendation RecommendationOperatorDecisionRequired ConfidenceMedium
                        (set_readiness ReadinessHighRisk 0 warnings 0 a))
               else if remaining > 0
               then set_complete False
                      (set_recommendation (rec_Decision (as_Recommendation a)) ConfidenceLow
                        (set_readiness ReadinessInsufficientEvidence 0 0 remaining a))
               else set_complete True
                      (set_recommendation RecommendationOperatorDecisionRequired ConfidenceMedium
                        (set_readiness ReadinessReady 0 0 0 a)))"

section \<open>The pipeline\<close>

text \<open>
  What \<open>rollback plan\<close> and \<open>rollback assess\<close> compute between collecting the evidence and
  writing the document. The clock is read twice.
\<close>

definition rollback_assessment ::
  "sdk_names \<Rightarrow> AssessmentMode \<Rightarrow> EksSnapshot option \<Rightarrow> time \<Rightarrow> time \<Rightarrow> Report option
     \<Rightarrow> assessment_error + Assessment" where
  "rollback_assessment sdk mode snapshot now1 now2 report =
     (let a = (EvaluateEligibility sdk snapshot now1)\<lparr>as_Mode := mode\<rparr>;
          a = ApplyRollbackInsights sdk a snapshot now2;
          a = ApplyRecommendation (ApplyOperationalReadiness a report)
      in case ValidateAssessment a of Some err \<Rightarrow> Inl err | None \<Rightarrow> Inr a)"

end
