(* ===== verification/RollbackFacts.thy ===== *)
theory RollbackFacts
  imports RollbackEks
begin

text \<open>
  What the rollback assessment promises: the statuses form a severity order that gates and
  checks can only climb, a document the pipeline builds is valid, and the recommendation follows
  from eligibility, readiness and the completeness of the evidence.
\<close>

section \<open>Severity\<close>

text \<open>
  The interface of the two ways statuses are combined: on well-formed values, the rank of a
  combination is the larger rank.
\<close>

locale severity_join =
  fixes join :: "'a \<Rightarrow> 'a \<Rightarrow> 'a" and rank :: "'a \<Rightarrow> nat" and ok :: "'a \<Rightarrow> bool"
  assumes rank_join: "ok a \<Longrightarrow> ok b \<Longrightarrow> rank (join a b) = max (rank a) (rank b)"
    and ok_join: "ok a \<Longrightarrow> ok b \<Longrightarrow> ok (join a b)"
begin

lemma ok_foldl: "ok a \<Longrightarrow> list_all ok bs \<Longrightarrow> ok (foldl join a bs)"
  by (induction bs arbitrary: a) (auto simp: ok_join)

lemma rank_foldl:
  "ok a \<Longrightarrow> list_all ok bs \<Longrightarrow> rank (foldl join a bs) = foldl max (rank a) (map rank bs)"
  by (induction bs arbitrary: a) (auto simp: ok_join rank_join)

lemma join_upper: "ok a \<Longrightarrow> ok b \<Longrightarrow> rank a \<le> rank (join a b) \<and> rank b \<le> rank (join a b)"
  by (simp add: rank_join)

end

interpretation check_severity: severity_join maxCheckStatus checkRank "\<lambda>_. True"
  by unfold_locales (auto simp: maxCheckStatus_def)

fun readiness_rank :: "ReadinessStatus \<Rightarrow> nat" where
  "readiness_rank ReadinessBlocked = 3"
| "readiness_rank ReadinessInsufficientEvidence = 2"
| "readiness_rank ReadinessHighRisk = 1"
| "readiness_rank status = 0"

definition settled :: "Readiness \<Rightarrow> bool" where
  \<comment> \<open>a readiness that some step has set\<close>
  "settled r \<longleftrightarrow> validReadinessStatus (rd_Status r)"

lemma settled_iff: "settled r \<longleftrightarrow> rd_Status r \<in> {ReadinessReady, ReadinessBlocked,
    ReadinessHighRisk, ReadinessInsufficientEvidence}"
  by (cases "rd_Status r") (simp_all add: settled_def)

interpretation readiness_severity:
  severity_join combineReadiness "\<lambda>r. readiness_rank (rd_Status r)" settled
  by unfold_locales (auto simp: combineReadiness_def settled_iff)

lemma readiness_rank_inj:
  "settled r \<Longrightarrow> settled s \<Longrightarrow> readiness_rank (rd_Status r) = readiness_rank (rd_Status s)
     \<Longrightarrow> rd_Status r = rd_Status s"
  by (auto simp: settled_iff)

section \<open>Readiness from checks\<close>

definition checks_rank :: "RollbackCheck list \<Rightarrow> nat" where
  \<comment> \<open>the rank of the worst check\<close>
  "checks_rank checks = foldr (\<lambda>c n. max (checkRank (ck_Status c)) n) checks 0"

definition count_status :: "CheckStatus \<Rightarrow> RollbackCheck list \<Rightarrow> nat" where
  "count_status s checks = length (filter (\<lambda>c. ck_Status c = s) checks)"

lemma count_check_foldl:
  "foldl count_check r checks =
     r\<lparr>rd_Blockers := rd_Blockers r + count_status CheckFail checks,
       rd_Warnings := rd_Warnings r + count_status CheckWarning checks,
       rd_Unknowns := rd_Unknowns r + count_status CheckUnknown checks\<rparr>"
proof (induction checks arbitrary: r)
  case (Cons c checks)
  then show ?case by (cases "ck_Status c") (simp_all add: count_check_def count_status_def)
qed (simp add: count_status_def)

lemma readinessFromChecks_eq:
  "readinessFromChecks checks =
     \<lparr>rd_Status = (if count_status CheckFail checks > 0 then ReadinessBlocked
                   else if count_status CheckUnknown checks > 0 then ReadinessInsufficientEvidence
                   else if count_status CheckWarning checks > 0 then ReadinessHighRisk
                   else ReadinessReady),
      rd_Blockers = count_status CheckFail checks, rd_Warnings = count_status CheckWarning checks,
      rd_Unknowns = count_status CheckUnknown checks\<rparr>"
  by (simp add: readinessFromChecks_def count_check_foldl)

lemma settled_readinessFromChecks [simp]: "settled (readinessFromChecks checks)"
  by (simp add: readinessFromChecks_eq settled_def)

lemma readiness_rank_checks:
  "readiness_rank (rd_Status (readinessFromChecks checks)) = checks_rank checks"
proof (induction checks)
  case Nil
  then show ?case by (simp add: readinessFromChecks_eq checks_rank_def count_status_def)
next
  case (Cons c checks)
  have "checks_rank (c # checks) = max (checkRank (ck_Status c)) (checks_rank checks)"
    by (simp add: checks_rank_def)
  with Cons show ?case
    by (cases "ck_Status c") (simp_all add: readinessFromChecks_eq count_status_def split: if_splits)
qed

lemma checks_rank_unknown: "hasUnknownCheck checks \<Longrightarrow> checks_rank checks \<ge> 2"
  by (induction checks) (auto simp: hasUnknownCheck_def checks_rank_def)

lemma set_complete_simps [simp]:
  "as_SchemaVersion (set_complete b a) = as_SchemaVersion a"
  "as_Mode (set_complete b a) = as_Mode a"
  "as_Cluster (set_complete b a) = as_Cluster a"
  "as_Eligibility (set_complete b a) = as_Eligibility a"
  "as_Readiness (set_complete b a) = as_Readiness a"
  "as_Recommendation (set_complete b a) = as_Recommendation a"
  "as_Checks (set_complete b a) = as_Checks a"
  "as_GeneratedAt (set_complete b a) = as_GeneratedAt a"
  "ev_Complete (as_Evidence (set_complete b a)) = b"
  by (simp_all add: set_complete_def)

definition evidence_checks :: "Assessment \<Rightarrow> Report option \<Rightarrow> RollbackCheck list" where
  \<comment> \<open>the checks \<open>ApplyOperationalReadiness\<close> adds\<close>
  "evidence_checks a report =
     (case report of None \<Rightarrow> [missing_evidence_check] | Some r \<Rightarrow> operational_checks a r)"

lemma operational_parts:
  "as_Checks (ApplyOperationalReadiness a report) = as_Checks a @ evidence_checks a report"
  "as_Readiness (ApplyOperationalReadiness a report) =
     combineReadiness (as_Readiness a) (readinessFromChecks (evidence_checks a report))"
  "as_Eligibility (ApplyOperationalReadiness a report) = as_Eligibility a"
  "as_Recommendation (ApplyOperationalReadiness a report) = as_Recommendation a"
  "as_SchemaVersion (ApplyOperationalReadiness a report) = as_SchemaVersion a"
  "as_Mode (ApplyOperationalReadiness a report) = as_Mode a"
  "as_Cluster (ApplyOperationalReadiness a report) = as_Cluster a"
  by (simp_all add: ApplyOperationalReadiness_def evidence_checks_def Let_def split: option.split)

lemma operational_complete:
  "ev_Complete (as_Evidence (ApplyOperationalReadiness a report)) \<longleftrightarrow>
     ev_Complete (as_Evidence a) \<and> \<not> hasUnknownCheck (evidence_checks a report)
     \<and> rd_Status (as_Readiness (ApplyOperationalReadiness a report))
         \<noteq> ReadinessInsufficientEvidence"
  by (auto simp: ApplyOperationalReadiness_def evidence_checks_def Let_def hasUnknownCheck_def
      missing_evidence_check_def split: option.split)

lemma operational_rank:
  "settled (as_Readiness a) \<Longrightarrow>
     readiness_rank (rd_Status (as_Readiness (ApplyOperationalReadiness a report)))
      = max (readiness_rank (rd_Status (as_Readiness a))) (checks_rank (evidence_checks a report))"
  by (simp add: operational_parts readiness_severity.rank_join readiness_rank_checks)

text \<open>
  C18: Operational evidence can only make an assessment worse: the readiness after it is the worse
  of the readiness before and of the worst check, in the order ready, high risk, insufficient
  evidence, blocked. Complete evidence survives only if no check is unknown and the readiness
  is not for want of evidence; without a findings report it never does.
\<close>

theorem operational_never_improves:
  assumes "validReadinessStatus (rd_Status (as_Readiness a))"
    and b_def: "b = ApplyOperationalReadiness a report"
  shows "readiness_rank (rd_Status (as_Readiness b))
      = max (readiness_rank (rd_Status (as_Readiness a))) (checks_rank (evidence_checks a report))
     \<and> ev_Complete (as_Evidence b)
      = (ev_Complete (as_Evidence a) \<and> report \<noteq> None
         \<and> \<not> hasUnknownCheck (evidence_checks a report)
         \<and> rd_Status (as_Readiness b) \<noteq> ReadinessInsufficientEvidence)"
proof -
  have "hasUnknownCheck (evidence_checks a None)"
    by (simp add: evidence_checks_def hasUnknownCheck_def missing_evidence_check_def)
  moreover have "settled (as_Readiness a)" using assms(1) by (simp add: settled_def)
  ultimately show ?thesis
    unfolding b_def operational_complete by (cases report) (auto simp: operational_rank)
qed

definition sample_assessment :: Assessment where
  \<comment> \<open>an eligible cluster with complete evidence\<close>
  "sample_assessment = set_complete True (set_readiness ReadinessReady 0 0 0
     ((NewAssessment ModePostUpgradeReadiness (63919699200 * Second))
        \<lparr>as_Eligibility := \<lparr>el_Status = EligibilityEligible, el_WindowExpiresAt = None,
           el_RemainingMinutes = None, el_Source = '''', el_ReasonCodes = []\<rparr>\<rparr>))"

theorem operational_never_improves_witness:
  "readiness_rank (rd_Status (as_Readiness (ApplyOperationalReadiness sample_assessment None))) = 2
   \<and> \<not> ev_Complete (as_Evidence (ApplyOperationalReadiness sample_assessment None))"
  using operational_never_improves [of sample_assessment _ None, OF _ refl]
  by (simp add: sample_assessment_def set_readiness_def evidence_checks_def checks_rank_def
      missing_evidence_check_def)

section \<open>Provenance\<close>

text \<open>
  C19: The age of a scan of a live cluster counts as confirmed exactly when both timestamps are
  known, the scan is at most five minutes ahead of the assessment and at most 24 hours behind it;
  a scan that is older is stale, and whatever is not fresh blocks the evidence. A scan without
  live evidence has no age to judge and blocks nothing.
\<close>

theorem freshness_window:
  assumes "\<not> isManifestOnlyReport r"
    and f_def: "f = validateFindingsFreshness r now"
  shows "(fr_status f = findingsFreshnessFresh)
      = (r_ScannedAt r \<noteq> 0 \<and> now \<noteq> 0 \<and> r_ScannedAt r - now \<le> 5 * 60 * 10 ^ 9
         \<and> now - r_ScannedAt r \<le> 24 * 60 * 60 * 10 ^ 9)
     \<and> (fr_status f = findingsFreshnessStale)
      = (r_ScannedAt r \<noteq> 0 \<and> now \<noteq> 0 \<and> now - r_ScannedAt r > 24 * 60 * 60 * 10 ^ 9)
     \<and> freshness_blocks f = (fr_status f \<noteq> findingsFreshnessFresh)"
  using assms(1)
  by (auto simp: f_def validateFindingsFreshness_def Let_def freshness_blocks_def
      rollbackFindingsFutureSkewTolerance_def rollbackFindingsMaxAge_def time_Sub_def duration_defs
      split: if_splits)

definition live_report :: "Finding list \<Rightarrow> Report" where
  \<comment> \<open>a scan of a live cluster an hour before \<open>sample_assessment\<close>\<close>
  "live_report fs = (NewReport ''1.34'' ''prod'' ''eks'' (63919695600 * Second) fs)
     \<lparr>r_EKSCluster := Some \<lparr>ekc_ClusterName = ''prod'', ekc_Region = ''eu-west-1'',
        ekc_Version = ''1.35'', ekc_PlatformVersion = '''', ekc_Status = ''ACTIVE'',
        ekc_SupportType = '''', ekc_EndpointAccess = '''', ekc_ARN = ''''\<rparr>\<rparr>"

lemma live_report_simps [simp]:
  "r_ScannedAt (live_report fs) = 63919695600 * Second"
  "\<not> isManifestOnlyReport (live_report fs)"
  "r_Findings (live_report fs) = map AssignPriority fs"
  by (simp_all add: live_report_def NewReport_def NewReportWithUpgradeContext_def Let_def
      isManifestOnlyReport_def)

theorem freshness_window_witness:
  "fr_status (validateFindingsFreshness (live_report []) (63919699200 * Second))
     = findingsFreshnessFresh"
  using freshness_window [OF _ refl, of "live_report []" "63919699200 * Second"]
  by (simp add: duration_defs)

text \<open>
  Two reports that say the same about where and when they were made, about the evidence that is
  not tied to the live cluster (coverage, provider, the findings of API-001 and API-002), and
  about the presence of Fargate, CRD and webhook findings.
\<close>

definition same_provenance :: "Report \<Rightarrow> Report \<Rightarrow> bool" where
  "same_provenance r s \<longleftrightarrow>
     r_EKSCluster r = r_EKSCluster s \<and> r_ClusterContext r = r_ClusterContext s
     \<and> r_ScannedAt r = r_ScannedAt s \<and> r_TargetVersion r = r_TargetVersion s
     \<and> r_Provider r = r_Provider s \<and> r_Coverage r = r_Coverage s
     \<and> findingsWithPrefixes (r_Findings r) [''API-001'', ''API-002'']
       = findingsWithPrefixes (r_Findings s) [''API-001'', ''API-002'']
     \<and> (findingCount (r_Findings r) ''FARGATE-'' > 0) = (findingCount (r_Findings s) ''FARGATE-'' > 0)
     \<and> (findingsWithPrefixes (r_Findings r) [''WH-002''] = [])
       = (findingsWithPrefixes (r_Findings s) [''WH-002''] = [])
     \<and> (targetGatedCRDWebhookFindings (r_Findings r) = [])
       = (targetGatedCRDWebhookFindings (r_Findings s) = [])"

lemma provenance_blocked_unknown:
  "evidence_blocked ident freshness \<Longrightarrow> ck_Status check \<noteq> CheckFail \<Longrightarrow>
     ck_Status (applyProvenanceGates check ident freshness) = CheckUnknown"
  by (cases "ck_Status check")
    (auto simp: evidence_blocked_def applyProvenanceGates_def applyIdentityGate_def
      applyFreshnessGate_def maxCheckStatus_def Let_def)

lemma blocked_nodegroup:
  "evidence_blocked ident freshness \<Longrightarrow>
     ck_Status (nodegroupRollbackCheck a r ident freshness) = CheckUnknown"
  by (simp add: nodegroupRollbackCheck_def Let_def provenance_blocked_unknown new_check_def)

lemma blocked_independent:
  assumes "evidence_blocked ident freshness" and "same_provenance r s"
  shows "nodegroupRollbackCheck a r ident freshness = nodegroupRollbackCheck a s ident freshness"
    and "managedAddonCheck r ident freshness = managedAddonCheck s ident freshness"
    and "selfManagedAddonCheck r ident freshness = selfManagedAddonCheck s ident freshness"
    and "workloadHealthCheck r ident freshness = workloadHealthCheck s ident freshness"
    and "disruptionCheck a r ident freshness = disruptionCheck a s ident freshness"
    and "reverseCompatibilityCheck a r ident freshness = reverseCompatibilityCheck a s ident freshness"
proof -
  note blocked = assms(1)
  show "nodegroupRollbackCheck a r ident freshness = nodegroupRollbackCheck a s ident freshness"
    using blocked by (simp add: nodegroupRollbackCheck_def)
  show "managedAddonCheck r ident freshness = managedAddonCheck s ident freshness"
    using blocked by (simp add: managedAddonCheck_def)
  show "selfManagedAddonCheck r ident freshness = selfManagedAddonCheck s ident freshness"
    using blocked by (simp add: selfManagedAddonCheck_def)
  show "workloadHealthCheck r ident freshness = workloadHealthCheck s ident freshness"
    using blocked by (simp add: workloadHealthCheck_def)
  show "disruptionCheck a r ident freshness = disruptionCheck a s ident freshness"
    using blocked assms(2) by (simp add: disruptionCheck_def same_provenance_def)
  show "reverseCompatibilityCheck a r ident freshness = reverseCompatibilityCheck a s ident freshness"
    using assms by (simp add: reverseCompatibilityCheck_def Let_def
        applyAPIEvidenceFindings_def target_gated_findings_def same_provenance_def)
qed

lemma provenance_same:
  assumes "same_provenance r s"
  shows "validateClusterEvidenceIdentity r c = validateClusterEvidenceIdentity s c"
    and "validateFindingsFreshness r now = validateFindingsFreshness s now"
    and "selfManagedNodeEvidenceCheck r = selfManagedNodeEvidenceCheck s"
    and "fargateEvidenceCheck r = fargateEvidenceCheck s"
    and "coverageCheck r = coverageCheck s"
  using assms
  by (simp_all add: same_provenance_def validateClusterEvidenceIdentity_def
      validateFindingsFreshness_def isManifestOnlyReport_def Let_def
      selfManagedNodeEvidenceCheck_def fargateEvidenceCheck_def coverageCheck_def)

text \<open>
  C16: Evidence of another or an unknown cluster, or of a stale or undated scan, is not used: the
  assessment does not depend on the node groups, add-ons, workload, disruption, CRD and webhook
  findings of such a report (whatever their severity), its evidence is incomplete, and its
  readiness is neither ready nor high risk. It may depend on the findings of the two API rules,
  which are gated by the target version and not by the identity of the cluster, and on whether
  there are any Fargate, WH-002, or other CRD and webhook findings: in these two reports with the
  same provenance agree.
\<close>

theorem unconfirmed_evidence_unused:
  assumes "evidence_blocked (validateClusterEvidenceIdentity r (as_Cluster a))
             (validateFindingsFreshness r (as_GeneratedAt a))"
    and "same_provenance r s"
    and "validReadinessStatus (rd_Status (as_Readiness a))"
  shows "ApplyOperationalReadiness a (Some r) = ApplyOperationalReadiness a (Some s)
     \<and> \<not> ev_Complete (as_Evidence (ApplyOperationalReadiness a (Some r)))
     \<and> rd_Status (as_Readiness (ApplyOperationalReadiness a (Some r)))
         \<in> {ReadinessInsufficientEvidence, ReadinessBlocked}"
proof -
  have "operational_checks a r = operational_checks a s"
    unfolding operational_checks_def Let_def
    using assms(1) blocked_independent [OF assms(1,2)] provenance_same [OF assms(2)] by simp
  then have "ApplyOperationalReadiness a (Some r) = ApplyOperationalReadiness a (Some s)"
    by (simp add: ApplyOperationalReadiness_def)
  moreover have unknown: "hasUnknownCheck (evidence_checks a (Some r))"
    using blocked_nodegroup [OF assms(1), of a r]
    by (simp add: evidence_checks_def operational_checks_def Let_def hasUnknownCheck_def)
  moreover have settled: "settled (as_Readiness a)" using assms(3) by (simp add: settled_def)
  then have "settled (as_Readiness (ApplyOperationalReadiness a (Some r)))"
    by (simp add: operational_parts readiness_severity.ok_join)
  moreover have "readiness_rank (rd_Status (as_Readiness (ApplyOperationalReadiness a (Some r)))) \<ge> 2"
    using operational_rank [of a "Some r"] checks_rank_unknown [OF unknown] settled by simp
  ultimately show ?thesis
    unfolding operational_complete settled_iff by auto
qed

definition undated_report :: "Finding list \<Rightarrow> Report" where
  "undated_report fs = (live_report fs)\<lparr>r_ScannedAt := 0\<rparr>"

lemma undated_blocked:
  "freshness_blocks (validateFindingsFreshness (undated_report fs) now)"
  using live_report_simps(2) [of fs]
  by (simp add: undated_report_def validateFindingsFreshness_def freshness_blocks_def Let_def
      isManifestOnlyReport_def)

theorem unconfirmed_evidence_unused_witness:
  "ApplyOperationalReadiness sample_assessment
       (Some (undated_report [empty_finding\<lparr>f_RuleID := ''WORKLOAD-001''\<rparr>]))
     = ApplyOperationalReadiness sample_assessment (Some (undated_report []))"
proof -
  have "validReadinessStatus (rd_Status (as_Readiness sample_assessment))"
    by (simp add: sample_assessment_def set_readiness_def)
  moreover have "same_provenance (undated_report [empty_finding\<lparr>f_RuleID := ''WORKLOAD-001''\<rparr>])
      (undated_report [])"
    by (simp add: same_provenance_def undated_report_def live_report_def NewReport_def
        NewReportWithUpgradeContext_def Let_def findingsWithPrefixes_def ruleMatches_def
        findingCount_def targetGatedCRDWebhookFindings_def suffix_def)
  ultimately show ?thesis
    using unconfirmed_evidence_unused undated_blocked unfolding evidence_blocked_def by blast
qed

section \<open>The recommendation\<close>

lemma foldl_appendUniqueReason: "foldl appendUniqueReason xs ys = append_all_unique xs ys"
proof -
  have "appendUniqueReason = append_unique" by (auto simp: fun_eq_iff appendUniqueReason_def)
  then show ?thesis by (simp add: append_all_unique_def)
qed

lemma recommendationReasons_set:
  "set (recommendationReasons a) = set (el_ReasonCodes (as_Eligibility a))
     \<union> set (rec_ReasonCodes (as_Recommendation a)) \<union> (\<Union>c\<in>set (as_Checks a). set (ck_ReasonCodes c))"
  "distinct (recommendationReasons a)"
  by (simp_all add: recommendationReasons_def foldl_appendUniqueReason)

text \<open>
  The decision table of the recommendation. Rollback is preferred exactly for an eligible
  cluster that is ready with complete evidence, fixing forward exactly for one at high risk with
  complete evidence; an unavailable rollback or blocked readiness stops, everything else is left
  to the operator. High confidence is reserved for the stop. The reasons are those of the
  eligibility, of the earlier recommendation and of all checks, each once.
\<close>

theorem recommendation_decision:
  assumes "validEligibilityStatus (el_Status (as_Eligibility a))"
    and "validReadinessStatus (rd_Status (as_Readiness a))"
    and b_def: "b = ApplyRecommendation a"
  defines "stop \<equiv> el_Status (as_Eligibility a) = EligibilityUnavailable
                    \<or> rd_Status (as_Readiness a) = ReadinessBlocked"
    and "proven \<equiv> el_Status (as_Eligibility a) = EligibilityEligible \<and> ev_Complete (as_Evidence a)"
  shows "rec_Decision (as_Recommendation b)
      = (if stop then RecommendationDoNotProceed
         else if proven \<and> rd_Status (as_Readiness a) = ReadinessReady
         then RecommendationRollbackPreferred
         else if proven \<and> rd_Status (as_Readiness a) = ReadinessHighRisk
         then RecommendationFixForwardPreferred
         else RecommendationOperatorDecisionRequired)
     \<and> (rec_Confidence (as_Recommendation b) = ConfidenceHigh) = stop
     \<and> set (rec_ReasonCodes (as_Recommendation b)) = set (recommendationReasons a)
     \<and> distinct (rec_ReasonCodes (as_Recommendation b))"
  using assms(1,2) recommendationReasons_set(2) [of a] unfolding b_def stop_def proven_def
  by (cases "el_Status (as_Eligibility a)"; cases "rd_Status (as_Readiness a)")
    (simp_all add: ApplyRecommendation_def Let_def)

theorem recommendation_decision_witness:
  "rec_Decision (as_Recommendation (ApplyRecommendation sample_assessment))
     = RecommendationRollbackPreferred"
  using recommendation_decision [OF _ _ refl, of sample_assessment]
  by (simp add: sample_assessment_def set_readiness_def set_complete_def)

section \<open>Valid documents\<close>

definition valid_check :: "RollbackCheck \<Rightarrow> bool" where
  "valid_check check \<longleftrightarrow>
     validCheckStatus (ck_Status check) \<and> list_all validReasonCode (ck_ReasonCodes check)"

lemma validate_checks_None: "validate_checks checks = None \<longleftrightarrow> list_all valid_check checks"
proof (induction checks)
  case (Cons c checks)
  have "validateReasonCodes (ck_ReasonCodes c) = None \<longleftrightarrow> list_all validReasonCode (ck_ReasonCodes c)"
    by (auto simp: validateReasonCodes_def find_None_conv list_all_iff)
  with Cons show ?case by (auto simp: valid_check_def split: option.split)
qed simp

named_theorems check_intros \<open>steps that keep a check valid\<close>

lemma list_all_appendUniqueReason [simp]:
  "list_all P (appendUniqueReason reasons reason) \<longleftrightarrow> list_all P reasons \<and> P reason"
  by (auto simp: appendUniqueReason_def append_unique_def list_all_iff)

lemma validCheckStatus_max [simp]:
  "validCheckStatus a \<Longrightarrow> validCheckStatus b \<Longrightarrow> validCheckStatus (maxCheckStatus a b)"
  by (simp add: maxCheckStatus_def)

lemma valid_new_check [check_intros]: "valid_check (new_check checkID title)"
  by (simp add: valid_check_def new_check_def)

lemma valid_add_evidence [check_intros]: "valid_check c \<Longrightarrow> valid_check (add_evidence ls c)"
  by (simp add: valid_check_def add_evidence_def)

lemma valid_set_evidence [check_intros]: "valid_check c \<Longrightarrow> valid_check (c\<lparr>ck_Evidence := ls\<rparr>)"
  by (simp add: valid_check_def)

lemma valid_raise_check [check_intros]:
  "valid_check c \<Longrightarrow> validCheckStatus s \<Longrightarrow> validReasonCode reason \<Longrightarrow> valid_check (raise_check s reason c)"
  by (simp add: valid_check_def raise_check_def)

lemma valid_note_if_pass [check_intros]: "valid_check c \<Longrightarrow> valid_check (note_if_pass line c)"
  by (simp add: valid_check_def note_if_pass_def)

lemma valid_foldl [check_intros]:
  "(\<And>c x. valid_check c \<Longrightarrow> valid_check (f c x)) \<Longrightarrow> valid_check c \<Longrightarrow> valid_check (foldl f c xs)"
  by (induction xs arbitrary: c) auto

lemma valid_signals [check_intros]:
  "valid_check c \<Longrightarrow> validReasonCode reason \<Longrightarrow> valid_check (applyFindingSignals c fs ps reason)"
  unfolding applyFindingSignals_def signal_step_def by (intro valid_foldl) (auto intro: check_intros)

lemma identity_reason_valid: "identity_blocks (validateClusterEvidenceIdentity r c) \<Longrightarrow>
    validReasonCode (id_reason (validateClusterEvidenceIdentity r c))"
  by (auto simp: validReasonCode_def identity_blocks_def validateClusterEvidenceIdentity_def Let_def split: if_splits)

lemma freshness_reason_valid: "freshness_blocks (validateFindingsFreshness r now) \<Longrightarrow>
    validReasonCode (fr_reason (validateFindingsFreshness r now))"
  by (auto simp: validReasonCode_def freshness_blocks_def validateFindingsFreshness_def Let_def split: if_splits)

lemma valid_freshness_gate [check_intros]:
  "valid_check c \<Longrightarrow> freshness_blocks (validateFindingsFreshness r now) \<Longrightarrow>
     valid_check (applyFreshnessGate c (validateFindingsFreshness r now))"
  using freshness_reason_valid [of r now] by (simp add: valid_check_def applyFreshnessGate_def)

lemma valid_gates [check_intros]:
  "valid_check c \<Longrightarrow> valid_check (applyProvenanceGates c (validateClusterEvidenceIdentity r cl)
     (validateFindingsFreshness r now))"
  using identity_reason_valid [of r cl] freshness_reason_valid [of r now]
  by (simp add: valid_check_def applyProvenanceGates_def applyIdentityGate_def
      applyFreshnessGate_def Let_def)

lemma valid_target_gated [check_intros]:
  "valid_check c \<Longrightarrow> validReasonCode reason \<Longrightarrow> valid_check (target_gated_findings lbl ps reason c a r fs)"
  unfolding target_gated_findings_def
  by (auto intro!: check_intros split: prod.split if_splits option.splits
      simp: validateRollbackEvidenceTarget_def validReasonCode_def Let_def)

lemma valid_operational_checks: "list_all valid_check (operational_checks a r)"
proof -
  let ?i = "validateClusterEvidenceIdentity r (as_Cluster a)"
  let ?f = "validateFindingsFreshness r (as_GeneratedAt a)"
  have "valid_check (nodegroupRollbackCheck a r ?i ?f)"
    by (auto simp: nodegroupRollbackCheck_def nodegroup_step_def Let_def validReasonCode_def intro!: check_intros)
  moreover have "valid_check (managedAddonCheck r ?i ?f)"
    by (auto simp: managedAddonCheck_def addon_step_def Let_def validReasonCode_def intro!: check_intros)
  moreover have "valid_check (selfManagedAddonCheck r ?i ?f)" "valid_check (workloadHealthCheck r ?i ?f)"
    by (auto simp: selfManagedAddonCheck_def workloadHealthCheck_def Let_def validReasonCode_def intro!: check_intros)
  moreover have "valid_check (disruptionCheck a r ?i ?f)"
    by (auto simp: disruptionCheck_def routeDisruptionFinding_def Let_def validReasonCode_def intro!: check_intros)
  moreover have "valid_check (reverseCompatibilityCheck a r ?i ?f)"
    by (auto simp: reverseCompatibilityCheck_def applyAPIEvidenceFindings_def
        applyCRDWebhookEvidenceFindings_def Let_def validReasonCode_def intro!: check_intros)
  moreover have "valid_check (selfManagedNodeEvidenceCheck r)" "valid_check (fargateEvidenceCheck r)"
    "valid_check (coverageCheck r)"
    by (simp_all add: selfManagedNodeEvidenceCheck_def fargateEvidenceCheck_def coverageCheck_def
        Let_def valid_check_def new_check_def validReasonCode_def)
  ultimately show ?thesis by (simp add: operational_checks_def Let_def)
qed

definition wf_assessment :: "Assessment \<Rightarrow> bool" where
  \<comment> \<open>what every step after eligibility relies on and keeps\<close>
  "wf_assessment a \<longleftrightarrow>
     as_SchemaVersion a = AssessmentSchemaVersion \<and> validAssessmentMode (as_Mode a)
     \<and> validEligibilityStatus (el_Status (as_Eligibility a))
     \<and> validReadinessStatus (rd_Status (as_Readiness a))
     \<and> list_all validReasonCode (el_ReasonCodes (as_Eligibility a))
     \<and> list_all validReasonCode (rec_ReasonCodes (as_Recommendation a))
     \<and> list_all valid_check (as_Checks a)"

lemma wf_set_complete [simp]: "wf_assessment (set_complete b a) = wf_assessment a"
  by (simp add: wf_assessment_def)

lemma valid_evidence_checks: "list_all valid_check (evidence_checks a report)"
  using valid_operational_checks
  by (cases report)
    (simp_all add: evidence_checks_def missing_evidence_check_def valid_check_def validReasonCode_def)

lemma wf_operational: "wf_assessment a \<Longrightarrow> wf_assessment (ApplyOperationalReadiness a report)"
  using readiness_severity.ok_join [of "as_Readiness a"] valid_evidence_checks
  by (simp add: wf_assessment_def operational_parts settled_def [symmetric])

lemma wf_recommendation:
  assumes "wf_assessment a" and "el_Status (as_Eligibility a) \<noteq> EligibilityEligible
    \<or> \<not> ev_Complete (as_Evidence a)"
  shows "ValidateAssessment (ApplyRecommendation a) = None
    \<and> rec_Decision (as_Recommendation (ApplyRecommendation a))
        = (if el_Status (as_Eligibility a) = EligibilityUnavailable
              \<or> rd_Status (as_Readiness a) = ReadinessBlocked
           then RecommendationDoNotProceed else RecommendationOperatorDecisionRequired)
    \<and> as_Eligibility (ApplyRecommendation a) = as_Eligibility a
    \<and> as_Readiness (ApplyRecommendation a) = as_Readiness a
    \<and> as_Evidence (ApplyRecommendation a) = as_Evidence a"
proof -
  have codes: "validateReasonCodes (recommendationReasons a) = None"
    using assms(1) recommendationReasons_set(1) [of a]
    by (auto simp: wf_assessment_def validateReasonCodes_def find_None_conv list_all_iff
        valid_check_def)
  have "validateReasonCodes (el_ReasonCodes (as_Eligibility a)) = None"
    "validate_checks (as_Checks a) = None"
    using assms(1)
    by (auto simp: wf_assessment_def validateReasonCodes_def find_None_conv list_all_iff
        validate_checks_None)
  with assms codes show ?thesis
    by (cases "el_Status (as_Eligibility a)"; cases "rd_Status (as_Readiness a)")
      (simp_all add: wf_assessment_def ApplyRecommendation_def ValidateAssessment_def Let_def)
qed

section \<open>Eligibility\<close>

interpretation newest_first: key_comparison "\<lambda>x y. up_CreatedAt x > up_CreatedAt y" "\<lambda>u. - up_CreatedAt u"
  by unfold_locales simp

lemma latest_update:
  "latestSuccessfulVersionUpdate us v = None \<longleftrightarrow> (\<forall>u\<in>set us. \<not> relevant_update v u)"
  "latestSuccessfulVersionUpdate us v = Some u \<Longrightarrow>
     u \<in> set us \<and> relevant_update v u
     \<and> (\<forall>w\<in>set us. relevant_update v w \<longrightarrow> up_CreatedAt w \<le> up_CreatedAt u)"
proof -
  let ?s = "sort_by (\<lambda>x y. up_CreatedAt x > up_CreatedAt y) (filter (relevant_update v) us)"
  have members: "set ?s = {u \<in> set us. relevant_update v u}" by auto
  have sorted: "sorted_wrt (\<lambda>x y. \<not> up_CreatedAt y > up_CreatedAt x) ?s"
    by (rule newest_first.sort_by_sorted_wrt)
  show "latestSuccessfulVersionUpdate us v = None \<longleftrightarrow> (\<forall>u\<in>set us. \<not> relevant_update v u)"
    using members by (cases ?s) (auto simp: latestSuccessfulVersionUpdate_def)
  show "u \<in> set us \<and> relevant_update v u
     \<and> (\<forall>w\<in>set us. relevant_update v w \<longrightarrow> up_CreatedAt w \<le> up_CreatedAt u)"
    if "latestSuccessfulVersionUpdate us v = Some u"
  proof (cases ?s)
    case Nil
    with that show ?thesis by (simp add: latestSuccessfulVersionUpdate_def)
  next
    case (Cons x xs)
    with that have "x = u" by (simp add: latestSuccessfulVersionUpdate_def)
    moreover have "u \<in> set ?s" using Cons \<open>x = u\<close> by simp
    moreover have "\<forall>w\<in>set ?s. up_CreatedAt w \<le> up_CreatedAt u"
      using sorted Cons \<open>x = u\<close> by (auto simp: not_less)
    ultimately show ?thesis unfolding members by simp
  qed
qed

definition readable :: "EksSnapshot \<Rightarrow> bool" where
  \<comment> \<open>no call the eligibility rests on failed\<close>
  "readable snap \<longleftrightarrow>
     \<not> hasErrors snap [''describe-cluster'', ''list-updates'', ''describe-cluster-versions'']
     \<and> \<not> hasErrorPrefix snap ''describe-update:''"

lemma eligibility_reasons_valid:
  "list_all validReasonCode (eligibility_reasons snap target update now)"
  by (auto simp: eligibility_reasons_def target_reasons_def update_reasons_def validReasonCode_def
      split: option.split)

lemma uniqueReasonCodes_simps [simp]:
  "set (uniqueReasonCodes codes) = set codes" "distinct (uniqueReasonCodes codes)"
  "uniqueReasonCodes codes = [] \<longleftrightarrow> codes = []"
proof -
  show members: "set (uniqueReasonCodes codes) = set codes" "distinct (uniqueReasonCodes codes)"
    by (simp_all add: uniqueReasonCodes_def)
  show "uniqueReasonCodes codes = [] \<longleftrightarrow> codes = []"
    using members(1) by (metis set_empty)
qed

lemma uniqueReasonCodes_Nil [simp]: "uniqueReasonCodes [] = []"
  by (simp add: uniqueReasonCodes_def)

lemma eligibility_unreadable:
  "\<not> readable snap \<Longrightarrow>
     el_Status (as_Eligibility (EvaluateEligibility sdk (Some snap) now)) = EligibilityUnknown"
  by (auto simp: EvaluateEligibility_def Let_def readable_def unknownAssessment_def)

lemma eligibility_readable:
  fixes now :: time
  assumes "readable snap"
  defines "target \<equiv> previousMinor (sn_CurrentVersion snap)"
  defines "reasons \<equiv> eligibility_reasons snap target
     (latestSuccessfulVersionUpdate (sn_Updates snap) (sn_CurrentVersion snap)) now"
  shows "el_Status (as_Eligibility (EvaluateEligibility sdk (Some snap) now))
      = (if reasons = [] then EligibilityEligible else EligibilityUnavailable)"
    and "el_ReasonCodes (as_Eligibility (EvaluateEligibility sdk (Some snap) now))
      = uniqueReasonCodes reasons"
  using assms(1)
  by (auto simp: EvaluateEligibility_def Let_def readable_def target_def reasons_def)

lemma no_reasons_iff:
  "eligibility_reasons snap (previousMinor (sn_CurrentVersion snap))
     (latestSuccessfulVersionUpdate (sn_Updates snap) (sn_CurrentVersion snap)) now = [] \<longleftrightarrow>
     sn_ClusterStatus snap \<in> {'''', ''ACTIVE''}
     \<and> previousMinor (sn_CurrentVersion snap) \<noteq> ''''
     \<and> (\<exists>rec. targetVersionRecord (sn_ClusterVersions snap) (previousMinor (sn_CurrentVersion snap))
              = Some rec
          \<and> (cv_Status rec = VersionStatusStandardSupport
             \<or> cv_Status rec = VersionStatusExtendedSupport \<and> sn_SupportType snap = SupportTypeExtended))
     \<and> (\<exists>u\<in>set (sn_Updates snap). relevant_update (sn_CurrentVersion snap) u
          \<and> now < up_CreatedAt u + rollbackWindow)"
proof (cases "latestSuccessfulVersionUpdate (sn_Updates snap) (sn_CurrentVersion snap)")
  case None
  then show ?thesis
    using latest_update(1) [of "sn_Updates snap" "sn_CurrentVersion snap"]
    by (auto simp: eligibility_reasons_def update_reasons_def)
next
  case (Some u)
  have "now < up_CreatedAt u + rollbackWindow \<longleftrightarrow>
      (\<exists>u\<in>set (sn_Updates snap). relevant_update (sn_CurrentVersion snap) u
          \<and> now < up_CreatedAt u + rollbackWindow)"
    using latest_update(2) [OF Some] by fastforce
  with Some show ?thesis
    by (auto simp: eligibility_reasons_def update_reasons_def target_reasons_def
        previousVersionIsNMinusOne_def isSupportedTargetStatus_def split: option.splits if_splits)
qed

lemma previous_of_133: "previousMinor ''1.33'' = ''1.32''"
  by code_simp

text \<open>
  C17: A rollback is eligible exactly when every call eligibility rests on succeeded (the cluster, the
  listing and each description of its updates, the versions; the insights do not count), the cluster
  is active or has no status, the version one minor below the current one is offered with standard
  support, or with extended support that the cluster has bought, and a successful upgrade to the
  current version was started less than seven days ago. A failure of one of these calls makes
  it unknown, and everything else unavailable.
\<close>

theorem eligibility_status:
  "el_Status (as_Eligibility (EvaluateEligibility sdk (Some snap) now))
     = (if \<not> readable snap then EligibilityUnknown
        else if sn_ClusterStatus snap \<in> {'''', ''ACTIVE''}
          \<and> previousMinor (sn_CurrentVersion snap) \<noteq> ''''
          \<and> (\<exists>rec. targetVersionRecord (sn_ClusterVersions snap)
                       (previousMinor (sn_CurrentVersion snap)) = Some rec
               \<and> (cv_Status rec = VersionStatusStandardSupport
                  \<or> cv_Status rec = VersionStatusExtendedSupport
                     \<and> sn_SupportType snap = SupportTypeExtended))
          \<and> (\<exists>u\<in>set (sn_Updates snap). relevant_update (sn_CurrentVersion snap) u
               \<and> now < up_CreatedAt u + rollbackWindow)
        then EligibilityEligible else EligibilityUnavailable)"
  using eligibility_unreadable [of snap sdk now] eligibility_readable(1) [of snap sdk now]
    no_reasons_iff [of snap now]
  by (cases "readable snap") simp_all

lemma eligibility_checks_valid: "list_all valid_check (eligibilityChecks sdk snap a update)"
  by (cases update)
    (auto simp: eligibilityChecks_def eligibility_check_def window_check_def valid_check_def
      statusForReason_def reasonIfPresent_def validReasonCode_def new_check_def Let_def)

lemma eligibility_wf:
  assumes "validAssessmentMode mode"
  shows "wf_assessment ((EvaluateEligibility sdk snapshot now)\<lparr>as_Mode := mode\<rparr>)"
proof -
  have codes: "list_all validReasonCode (uniqueReasonCodes (eligibility_reasons snap t u now))"
    for snap t u
    using eligibility_reasons_valid [of snap t u now] by (simp add: list_all_iff)
  show ?thesis
    using assms codes eligibility_checks_valid
    by (auto simp: EvaluateEligibility_def NewAssessment_def unknownAssessment_def
        wf_assessment_def validReasonCode_def Let_def set_complete_def split: option.split)
qed

lemma eligible_unverified:
  "el_Status (as_Eligibility (EvaluateEligibility sdk snapshot now)) = EligibilityEligible \<Longrightarrow>
     ReasonEndOfExtendedSupportAutoUpgradeUnknown
       \<in> set (rec_ReasonCodes (as_Recommendation (EvaluateEligibility sdk snapshot now)))"
  by (auto simp: EvaluateEligibility_def NewAssessment_def unknownAssessment_def Let_def
      split: option.splits if_splits)

section \<open>Insights\<close>

lemma insightCheck_valid: "valid_check (insightCheck sdk i now)"
  by (cases "in_Status i")
    (auto simp: insightCheck_def valid_check_def validReasonCode_def Let_def list_all_iff)

lemma list_all_removeReasonCode: "list_all P codes \<Longrightarrow> list_all P (removeReasonCode codes r)"
  by (simp add: removeReasonCode_def list_all_iff)

lemma list_all_uniqueReasonCodes: "list_all P (uniqueReasonCodes codes) = list_all P codes"
  by (simp add: list_all_iff)

lemma wf_steps:
  "wf_assessment a \<Longrightarrow> validReadinessStatus status \<Longrightarrow> wf_assessment (set_readiness status m n k a)"
  "wf_assessment a \<Longrightarrow> wf_assessment (set_recommendation decision confidence a)"
  "wf_assessment a \<Longrightarrow> validReasonCode reason \<Longrightarrow> wf_assessment (add_reason reason a)"
  "wf_assessment a \<Longrightarrow> list_all valid_check cs \<Longrightarrow> wf_assessment (a\<lparr>as_Checks := as_Checks a @ cs\<rparr>)"
  "wf_assessment a \<Longrightarrow> wf_assessment (a\<lparr>as_Evidence := e\<rparr>)"
  "wf_assessment a \<Longrightarrow> wf_assessment (a\<lparr>as_Recommendation := (as_Recommendation a)
     \<lparr>rec_ReasonCodes := removeReasonCode (rec_ReasonCodes (as_Recommendation a)) reason\<rparr>\<rparr>)"
  by (simp_all add: wf_assessment_def set_readiness_def set_recommendation_def add_reason_def
      list_all_uniqueReasonCodes list_all_removeReasonCode)

lemma insight_reasons_valid:
  "validReasonCode ReasonEKSInsightsUnavailable" "validReasonCode ReasonEKSInsightsStale"
  "validReasonCode ReasonEKSInsightsBlocking"
  by (simp_all add: validReasonCode_def)

lemma wf_unavailable: "wf_assessment a \<Longrightarrow> wf_assessment (markInsightsUnavailable a)"
  unfolding markInsightsUnavailable_def Let_def
  by (intro wf_steps(4)) (simp_all add: wf_steps insight_reasons_valid valid_check_def)

lemma wf_stale: "wf_assessment a \<Longrightarrow> wf_assessment (markInsightsStale a n)"
  by (simp add: markInsightsStale_def wf_steps insight_reasons_valid)

lemma insights_wf:
  assumes "wf_assessment a"
  shows "wf_assessment (ApplyRollbackInsights sdk a snapshot now)"
proof -
  have "list_all valid_check (map (\<lambda>i. insightCheck sdk i now) is)" for "is"
    by (simp add: list_all_iff insightCheck_valid)
  with assms show ?thesis
    unfolding ApplyRollbackInsights_def Let_def
    by (simp add: wf_unavailable wf_stale wf_steps insight_reasons_valid split: option.split)
qed

lemma insights_eligibility:
  "as_Eligibility (ApplyRollbackInsights sdk a snapshot now) = as_Eligibility a"
  by (simp add: ApplyRollbackInsights_def markInsightsUnavailable_def markInsightsStale_def
      set_readiness_def set_recommendation_def add_reason_def Let_def split: option.split)

lemma insights_incomplete:
  assumes "ReasonEndOfExtendedSupportAutoUpgradeUnknown \<in> set (rec_ReasonCodes (as_Recommendation a))"
  shows "\<not> ev_Complete (as_Evidence (ApplyRollbackInsights sdk a snapshot now))"
  using assms
  by (auto simp: ApplyRollbackInsights_def markInsightsUnavailable_def markInsightsStale_def
      set_readiness_def set_recommendation_def add_reason_def Let_def remainingUnknownEvidence_def
      removeReasonCode_def filter_empty_conv split: option.split)

section \<open>The pipeline\<close>

text \<open>What the last step sees, and what it makes of it.\<close>

definition operational_assessment ::
  "sdk_names \<Rightarrow> AssessmentMode \<Rightarrow> EksSnapshot option \<Rightarrow> time \<Rightarrow> time \<Rightarrow> Report option \<Rightarrow> Assessment" where
  "operational_assessment sdk mode snapshot now1 now2 report =
     ApplyOperationalReadiness
       (ApplyRollbackInsights sdk ((EvaluateEligibility sdk snapshot now1)\<lparr>as_Mode := mode\<rparr>) snapshot now2)
       report"

definition stops_rollback :: "Assessment \<Rightarrow> bool" where
  "stops_rollback a \<longleftrightarrow>
     el_Status (as_Eligibility a) = EligibilityUnavailable \<or> rd_Status (as_Readiness a) = ReadinessBlocked"

lemma pipeline_settled:
  fixes sdk snapshot now1 now2 report
  assumes "validAssessmentMode mode"
  defines "a \<equiv> operational_assessment sdk mode snapshot now1 now2 report"
  shows "rollback_assessment sdk mode snapshot now1 now2 report = Inr (ApplyRecommendation a)"
    and "ValidateAssessment (ApplyRecommendation a) = None"
    and "as_Eligibility (ApplyRecommendation a) = as_Eligibility (EvaluateEligibility sdk snapshot now1)"
    and "rec_Decision (as_Recommendation (ApplyRecommendation a))
      = (if stops_rollback (ApplyRecommendation a) then RecommendationDoNotProceed
         else RecommendationOperatorDecisionRequired)"
proof -
  let ?e = "(EvaluateEligibility sdk snapshot now1)\<lparr>as_Mode := mode\<rparr>"
  have eligibility: "as_Eligibility a = as_Eligibility (EvaluateEligibility sdk snapshot now1)"
    by (simp add: a_def operational_assessment_def operational_parts insights_eligibility)
  have "wf_assessment a"
    unfolding a_def operational_assessment_def
    using assms(1) by (intro wf_operational insights_wf eligibility_wf)
  moreover have "el_Status (as_Eligibility a) \<noteq> EligibilityEligible \<or> \<not> ev_Complete (as_Evidence a)"
    using eligible_unverified [of sdk snapshot now1] insights_incomplete [of ?e sdk snapshot now2]
    unfolding eligibility unfolding a_def operational_assessment_def operational_complete by auto
  ultimately have "ValidateAssessment (ApplyRecommendation a) = None
    \<and> rec_Decision (as_Recommendation (ApplyRecommendation a))
        = (if el_Status (as_Eligibility a) = EligibilityUnavailable
              \<or> rd_Status (as_Readiness a) = ReadinessBlocked
           then RecommendationDoNotProceed else RecommendationOperatorDecisionRequired)
    \<and> as_Eligibility (ApplyRecommendation a) = as_Eligibility a
    \<and> as_Readiness (ApplyRecommendation a) = as_Readiness a"
    using wf_recommendation by blast
  then show "rollback_assessment sdk mode snapshot now1 now2 report = Inr (ApplyRecommendation a)"
    and "ValidateAssessment (ApplyRecommendation a) = None"
    and "as_Eligibility (ApplyRecommendation a) = as_Eligibility (EvaluateEligibility sdk snapshot now1)"
    and "rec_Decision (as_Recommendation (ApplyRecommendation a))
      = (if stops_rollback (ApplyRecommendation a) then RecommendationDoNotProceed
         else RecommendationOperatorDecisionRequired)"
    using eligibility
    by (simp_all add: rollback_assessment_def a_def operational_assessment_def stops_rollback_def Let_def)
qed

text \<open>
  The command always produces a valid assessment, whatever the snapshot, the clock and the
  findings report: \<open>Validate\<close> never rejects it. Its decision is \<open>do_not_proceed\<close> (exit code 2)
  exactly when the rollback is unavailable or the readiness blocked, and
  \<open>operator_decision_required\<close> (exit code 1) otherwise. The other two decisions and exit
  code 0 are out of reach: the origin of the last auto-upgrade is never verified, so the evidence
  of an eligible rollback is never complete.
\<close>

theorem rollback_pipeline:
  assumes "validAssessmentMode mode"
  shows "\<exists>a. rollback_assessment sdk mode snapshot now1 now2 report = Inr a
     \<and> ValidateAssessment a = None
     \<and> as_Eligibility a = as_Eligibility (EvaluateEligibility sdk snapshot now1)
     \<and> rec_Decision (as_Recommendation a)
         = (if el_Status (as_Eligibility a) = EligibilityUnavailable
               \<or> rd_Status (as_Readiness a) = ReadinessBlocked
            then RecommendationDoNotProceed else RecommendationOperatorDecisionRequired)
     \<and> rollbackExitCode a
         = (if el_Status (as_Eligibility a) = EligibilityUnavailable
               \<or> rd_Status (as_Readiness a) = ReadinessBlocked then 2 else 1)"
  using pipeline_settled [OF assms, of sdk snapshot now1 now2 report]
  by (auto simp: stops_rollback_def rollbackExitCode_def)

theorem rollback_pipeline_witness:
  "\<exists>a. rollback_assessment \<lparr>insight_status_name = (\<lambda>_. ''''), version_status_name = (\<lambda>_. ''''),
       support_type_name = (\<lambda>_. '''')\<rparr> ModePostUpgradeReadiness None 1 1 None = Inr a
     \<and> ValidateAssessment a = None"
proof -
  have "validAssessmentMode ModePostUpgradeReadiness" by simp
  then show ?thesis using rollback_pipeline by blast
qed

end
