(* ===== verification/Text.thy ===== *)
theory Text
  imports Versions
begin

text \<open>
  The text formatting of Go the program uses: the verbs of \<open>fmt.Sprintf\<close>, \<open>strings.ToLower\<close>,
  dates of the form \<open>2006-01-02\<close>, and the program's own \<open>shellQuote\<close> and \<open>firstNonEmpty\<close>.
\<close>

section \<open>Text\<close>

abbreviation nl :: string where "nl \<equiv> [CHR 0x0A]"
abbreviation dq :: string where "dq \<equiv> [CHR 0x22]"
abbreviation sq :: string where "sq \<equiv> [CHR 0x27]"
abbreviation bs :: string where "bs \<equiv> [CHR 0x5C]"
abbreviation emdash :: string where "emdash \<equiv> [CHR 0xE2, CHR 0x80, CHR 0x94]"

definition show_bool :: "bool \<Rightarrow> string" where
  \<comment> \<open>\<open>%t\<close>\<close>
  "show_bool b = (if b then ''true'' else ''false'')"

definition show_strings :: "string list \<Rightarrow> string" where
  \<comment> \<open>\<open>%v\<close> of a slice of strings\<close>
  "show_strings ss = ''['' @ Join ss '' '' @ '']''"

text \<open>
  \<open>%q\<close>: a double-quoted Go literal. Bytes from 0x80 on are left as they are, which is Go's
  result for valid UTF-8 of printable characters; names of Kubernetes and AWS objects are ASCII.
\<close>

definition lower_hex_digit :: "nat \<Rightarrow> char" where
  "lower_hex_digit n = (if n < 10 then char_of (48 + n) else char_of (87 + n))"

definition quote_char :: "char \<Rightarrow> string" where
  "quote_char c =
     (if c = CHR 0x22 then bs @ dq
      else if c = CHR 0x5C then bs @ bs
      else if c = CHR 0x07 then bs @ ''a''
      else if c = CHR 0x08 then bs @ ''b''
      else if c = CHR 0x0C then bs @ ''f''
      else if c = CHR 0x0A then bs @ ''n''
      else if c = CHR 0x0D then bs @ ''r''
      else if c = CHR 0x09 then bs @ ''t''
      else if c = CHR 0x0B then bs @ ''v''
      else if (of_char c :: nat) < 32 \<or> c = CHR 0x7F
      then bs @ ''x'' @ [lower_hex_digit (of_char c div 16), lower_hex_digit (of_char c mod 16)]
      else [c])"

definition quote :: "string \<Rightarrow> string" where
  "quote s = dq @ concat (map quote_char s) @ dq"

definition shellQuote :: "string \<Rightarrow> string" where
  "shellQuote v =
     sq @ concat (map (\<lambda>c. if c = CHR 0x27 then sq @ dq @ sq @ dq @ sq else [c]) v) @ sq"

text \<open>The text of the errors of \<open>parseMajorMinor\<close>, which rules wrap.\<close>

definition atoi_error_text :: "string \<Rightarrow> string" where
  "atoi_error_text s =
     (let body = (if s \<noteq> [] \<and> (hd s = CHR ''-'' \<or> hd s = CHR ''+'') then tl s else s)
      in (''strconv.Atoi: parsing '' @ quote s @ '': '')
         @ (if body \<noteq> [] \<and> list_all is_digit body then ''value out of range''
            else ''invalid syntax''))"

definition version_error_text :: "version_error \<Rightarrow> string" where
  "version_error_text e =
     (case e of
        CannotParse v \<Rightarrow> (''cannot parse major.minor from '' @ quote v)
      | BadMajor v \<Rightarrow>
          (''parsing major version from '' @ quote v @ '': ''
           @ (atoi_error_text (SplitN v (CHR ''.'') 3 ! 0)))
      | BadMinor v \<Rightarrow>
          (''parsing minor version from '' @ quote v @ '': ''
           @ (atoi_error_text (SplitN v (CHR ''.'') 3 ! 1))))"

definition rules_parseMajorMinor :: "string \<Rightarrow> version_error + int \<times> int" where
  "rules_parseMajorMinor v = parse_parts (TrimPrefix v ''v'')"

text \<open>\<open>firstNonEmpty\<close> of \<open>eksinsight.go\<close>.\<close>

fun firstNonEmpty :: "string list \<Rightarrow> string" where
  "firstNonEmpty [] = ''(no further detail provided by AWS)''"
| "firstNonEmpty (v # vs) = (if v \<noteq> '''' then v else firstNonEmpty vs)"

section \<open>Case and dates\<close>

text \<open>\<open>strings.ToLower\<close> of ASCII text; other bytes are unchanged.\<close>

definition lower_char :: "char \<Rightarrow> char" where
  "lower_char c = (let n = (of_char c :: nat) in if 65 \<le> n \<and> n \<le> 90 then char_of (n + 32) else c)"

definition ToLower :: "string \<Rightarrow> string" where
  "ToLower s = map lower_char s"

text \<open>
  \<open>time.Parse("2006-01-02", s)\<close>: the day, counted from 1 January of year 1, of a valid date.
\<close>

definition leap_year :: "int \<Rightarrow> bool" where
  "leap_year y \<longleftrightarrow> y mod 4 = 0 \<and> (y mod 100 \<noteq> 0 \<or> y mod 400 = 0)"

definition month_length :: "int \<Rightarrow> int \<Rightarrow> int" where
  "month_length y m =
     (if m = 2 then (if leap_year y then 29 else 28) else if m \<in> {4, 6, 9, 11} then 30 else 31)"

definition day_of_date :: "int \<Rightarrow> int \<Rightarrow> int \<Rightarrow> int" where
  "day_of_date y m d =
     (let p = y - 1
      in 365 * p + p div 4 - p div 100 + p div 400
         + sum_list (map (\<lambda>k. month_length y (int k)) [1..<nat m]) + d - 1)"

definition parse_date :: "string \<Rightarrow> int option" where
  "parse_date s =
     (if length s = 10 \<and> s ! 4 = CHR ''-'' \<and> s ! 7 = CHR ''-''
         \<and> list_all is_digit (take 4 s @ take 2 (drop 5 s) @ drop 8 s)
      then let y = int (decimal_value (take 4 s)); m = int (decimal_value (take 2 (drop 5 s)));
               d = int (decimal_value (drop 8 s))
           in if 1 \<le> m \<and> m \<le> 12 \<and> 1 \<le> d \<and> d \<le> month_length y m
              then Some (day_of_date y m d) else None
      else None)"

lemma parse_date_examples:
  "parse_date ''0001-01-01'' = Some 0" "parse_date ''1970-01-01'' = Some 719162"
  "parse_date ''2024-02-29'' = Some 738944" "parse_date ''2023-02-29'' = None"
  by code_simp+

end
