(* ===== verification/RulesBase.thy ===== *)
theory RulesBase
  imports Text Engine Contextual
begin

text \<open>
  What the rule bodies of \<open>internal/rules\<close> share: the operations of the Kubernetes libraries
  as a record of parameters, the tests on pods, nodes and webhooks that several rules make, and the
  common shape of a rule's result. The rules' sorts are \<open>sort.Slice\<close>, which leaves the order of
  equal keys open; they are modelled by the stable sort of the prelude.
\<close>

section \<open>The Kubernetes libraries\<close>

text \<open>
  Operations of \<open>k8s.io/apimachinery\<close> and \<open>k8s.io/api\<close> the rules call: label selectors
  (\<open>LabelSelectorAsSelector\<close> succeeds, \<open>Matches\<close>, \<open>String\<close>), \<open>IntOrString\<close>
  (\<open>String\<close>, its JSON form, \<open>IntValue\<close>), \<open>ToleratesTaint\<close>, and the texts of quantities.
\<close>

record kube_lib =
  lib_valid_selector :: "LabelSelector \<Rightarrow> bool"
  lib_matches :: "LabelSelector \<Rightarrow> labels \<Rightarrow> bool"
  lib_selector_string :: "LabelSelector \<Rightarrow> string"
  lib_intstr_string :: "IntOrString \<Rightarrow> string"
  lib_intstr_json :: "IntOrString \<Rightarrow> string option"
  lib_intstr_value :: "IntOrString \<Rightarrow> int"
  lib_tolerates :: "Toleration \<Rightarrow> Taint \<Rightarrow> bool"
  lib_milli_string :: "int \<Rightarrow> string"
  lib_bytes_string :: "int \<Rightarrow> string"

section \<open>Results\<close>

definition nil_dereference :: rule_outcome where
  "nil_dereference = Panicked ''runtime error: invalid memory address or nil pointer dereference''"

text \<open>
  A rule that reads the snapshot of the cluster, or of AWS, and returns no finding without it;
  \<open>sc\<close> itself is dereferenced.
\<close>

definition with_k8s ::
  "ScanContext option \<Rightarrow> (ScanContext \<Rightarrow> K8sSnapshot \<Rightarrow> Finding list) \<Rightarrow> rule_outcome" where
  "with_k8s sc f =
     (case sc of
        None \<Rightarrow> nil_dereference
      | Some s \<Rightarrow> (case sc_K8s s of None \<Rightarrow> Returned [] None | Some snap \<Rightarrow> Returned (f s snap) None))"

definition with_aws ::
  "ScanContext option \<Rightarrow> (ScanContext \<Rightarrow> AWSSnapshot \<Rightarrow> Finding list) \<Rightarrow> rule_outcome" where
  "with_aws sc f =
     (case sc of
        None \<Rightarrow> nil_dereference
      | Some s \<Rightarrow>
          (case sc_AWSSnapshot s of None \<Rightarrow> Returned [] None | Some snap \<Rightarrow> Returned (f s snap) None))"

text \<open>The same for a rule that tests \<open>sc\<close> as well.\<close>

definition with_k8s_checked ::
  "ScanContext option \<Rightarrow> (ScanContext \<Rightarrow> K8sSnapshot \<Rightarrow> Finding list) \<Rightarrow> rule_outcome" where
  "with_k8s_checked sc f = (if sc = None then Returned [] None else with_k8s sc f)"

definition unavailable :: "K8sSnapshot \<Rightarrow> string \<Rightarrow> bool" where
  \<comment> \<open>the comma-ok lookup in \<open>snap.Errors\<close>\<close>
  "unavailable snap operation \<longleftrightarrow> operation \<in> fst ` set (k_Errors snap)"

definition by_fingerprint :: "Finding list \<Rightarrow> Finding list" where
  "by_fingerprint fs = sort_by (\<lambda>a b. f_Fingerprint a < f_Fingerprint b) fs"

section \<open>Remediation\<close>

definition empty_detail :: RemediationDetail where
  "empty_detail = \<lparr>rem_AffectedFile = '''', rem_Changes = [], rem_Diff = '''', rem_SafeFix = None,
     rem_Emergency = None, rem_BreakGlass = None, rem_VerifyCommand = '''',
     rem_ExpectedResult = ''''\<rparr>"

definition change :: "string \<Rightarrow> string \<Rightarrow> string \<Rightarrow> RemediationChange" where
  "change field current required =
     \<lparr>chg_Field = field, chg_Current = current, chg_Required = required\<rparr>"

definition action :: "string \<Rightarrow> string list \<Rightarrow> string \<Rightarrow> RemediationAction" where
  "action label steps cmd =
     \<lparr>act_Label = label, act_Steps = steps, act_Command = cmd, act_Risky = False\<rparr>"

section \<open>Pods, nodes and selectors\<close>

definition isLiveWorkloadPod :: "Pod \<Rightarrow> bool" where
  "isLiveWorkloadPod pod \<longleftrightarrow>
     pod_DeletionTimestamp pod = None \<and> pod_Phase pod \<noteq> ''Succeeded'' \<and> pod_Phase pod \<noteq> ''Failed''"

fun ready_condition :: "string \<Rightarrow> Condition list \<Rightarrow> bool" where
  \<comment> \<open>the status of the first condition of the type\<close>
  "ready_condition ty [] = False"
| "ready_condition ty (c # cs) =
     (if cond_Type c = ty then cond_Status c = ''True'' else ready_condition ty cs)"

definition nodeIsReady :: "Node \<Rightarrow> bool" where
  "nodeIsReady node = ready_condition ''Ready'' (node_Conditions node)"

definition podReady :: "Pod \<Rightarrow> bool" where
  "podReady pod = ready_condition ''Ready'' (pod_Conditions pod)"

definition hasSelector :: "LabelSelector option \<Rightarrow> bool" where
  "hasSelector sel =
     (case sel of
        None \<Rightarrow> False
      | Some s \<Rightarrow> length (ls_MatchLabels s) > 0 \<or> length (ls_MatchExpressions s) > 0)"

definition isFailClosed :: "string option \<Rightarrow> bool" where
  "isFailClosed p \<longleftrightarrow> p = None \<or> p = Some ''Fail''"

definition failurePolicyLiteral :: "string option \<Rightarrow> string" where
  "failurePolicyLiteral p =
     (case p of None \<Rightarrow> ''<unset> (defaults to Fail)'' | Some v \<Rightarrow> v)"

definition readyAddressCount :: "K8sSnapshot \<Rightarrow> string \<Rightarrow> string \<Rightarrow> nat" where
  "readyAddressCount snap namespace service =
     sum_list (map (\<lambda>eps.
       if eps_Namespace eps = namespace
          \<and> label_value (eps_Labels eps) ''kubernetes.io/service-name'' = service
       then sum_list (map (\<lambda>ep. if ep_Ready ep \<noteq> Some False then length (ep_Addresses ep) else 0)
              (eps_Endpoints eps))
       else 0) (k_EndpointSlices snap))"

end
