(* ===== verification/RulesPdb.thy ===== *)
theory RulesPdb
  imports RulesBase
begin

text \<open>
  PDB-001 and PDB-002 (\<open>pdb001.go\<close>, \<open>pdb002.go\<close>), COREDNS-001 (\<open>coredns001.go\<close>) and
  APISERVICE-001 (\<open>apiservice001.go\<close>).
\<close>

section \<open>PDB-001\<close>

definition pdbEmergencyInspectFirstAction ::
  "PodDisruptionBudget \<Rightarrow> string \<Rightarrow> RemediationAction" where
  "pdbEmergencyInspectFirstAction pdb field =
     (action ''Emergency workaround''
        [(field @ '' could not be safely represented as a JSON Patch value. Inspect the PDB ''
          @ ''before changing it.''),
         (''If you do relax it, revert immediately after the change window and record the ''
          @ ''change as a business decision.'')]
        (''kubectl get pdb '' @ (shellQuote (pdb_Name pdb)) @ '' -n ''
         @ (shellQuote (pdb_Namespace pdb)) @ '' -o yaml''))
        \<lparr>act_Risky := True\<rparr>"

definition json_patch_test_replace :: "string \<Rightarrow> string \<Rightarrow> string \<Rightarrow> string" where
  \<comment> \<open>the payload: test the present value, then replace it\<close>
  "json_patch_test_replace field present new =
     (sq @ ''[{'' @ dq @ ''op'' @ dq @ '':'' @ dq @ ''test'' @ dq @ '','' @ dq @ ''path'' @ dq
      @ '':'' @ dq @ ''/spec/'' @ field @ dq @ '','' @ dq @ ''value'' @ dq @ '':'' @ present
      @ ''},{'' @ dq @ ''op'' @ dq @ '':'' @ dq @ ''replace'' @ dq @ '','' @ dq @ ''path''
      @ dq @ '':'' @ dq @ ''/spec/'' @ field @ dq @ '','' @ dq @ ''value'' @ dq @ '':'' @ new
      @ ''}]'' @ sq)"

definition pdbEmergencyPatchAction ::
  "kube_lib \<Rightarrow> PodDisruptionBudget \<Rightarrow> string \<Rightarrow> IntOrString \<Rightarrow> int \<Rightarrow> RemediationAction" where
  "pdbEmergencyPatchAction lib pdb field current temporary =
     (case lib_intstr_json lib current of
        None \<Rightarrow> pdbEmergencyInspectFirstAction pdb field
      | Some original \<Rightarrow>
          (action ''Emergency workaround''
             [(''Temporarily relax this PDB for the change window only '' @ emdash
               @ '' not a permanent fix.''),
              (''Both commands below include a JSON Patch precondition ('' @ dq @ ''test''
               @ dq @ '') against the value observed at scan time '' @ emdash
               @ '' each fails closed with no change applied if the PDB has been modified ''
               @ ''since this scan. Re-run `kubectl get pdb ... -o yaml` and reassess ''
               @ ''before retrying.''),
              (''Revert immediately after the change window; record the change as a ''
               @ ''business decision.'')]
             (''kubectl patch pdb '' @ (shellQuote (pdb_Name pdb)) @ '' -n ''
              @ (shellQuote (pdb_Namespace pdb)) @ '' --type=json -p=''
              @ (json_patch_test_replace field original (show_int temporary)) @ nl
              @ ''# Revert immediately after the change window (fails closed if the value ''
              @ ''changed since the emergency patch):'' @ nl @ ''kubectl patch pdb ''
              @ (shellQuote (pdb_Name pdb)) @ '' -n '' @ (shellQuote (pdb_Namespace pdb))
              @ '' --type=json -p=''
              @ (json_patch_test_replace field (show_int temporary) original)))
             \<lparr>act_Risky := True\<rparr>)"

fun is_int_type :: "IntOrString \<Rightarrow> bool" where
  \<comment> \<open>\<open>Type == intstr.Int\<close>\<close>
  "is_int_type (IntVal _) = True"
| "is_int_type (StrVal _) = False"

definition pdbEmergencyMaxUnavailableAction ::
  "kube_lib \<Rightarrow> PodDisruptionBudget \<Rightarrow> IntOrString \<Rightarrow> RemediationAction" where
  "pdbEmergencyMaxUnavailableAction lib pdb current =
     (let inspectFirst =
            (action ''Emergency workaround''
               [(''maxUnavailable is currently '' @ lib_intstr_string lib current
                 @ ''. Inspect the PDB and workload before changing it '' @ emdash
                 @ '' a copy-ready patch here isn'' @ sq @ ''t guaranteed to relax the ''
                 @ ''budget without knowing the intended replica count.''),
                (''If you do relax it, revert immediately after the change window and ''
                 @ ''record the change as a business decision.'')]
               (''kubectl get pdb '' @ (shellQuote (pdb_Name pdb)) @ '' -n ''
                @ (shellQuote (pdb_Namespace pdb)) @ '' -o yaml''))
               \<lparr>act_Risky := True\<rparr>;
          required = pdb_ExpectedPods pdb
      in if \<not> is_int_type current then inspectFirst
         else if required \<le> lib_intstr_value lib current then inspectFirst
         else pdbEmergencyPatchAction lib pdb ''maxUnavailable'' current required)"

definition pdbEmergencyAction ::
  "kube_lib \<Rightarrow> PodDisruptionBudget \<Rightarrow> RemediationAction option" where
  "pdbEmergencyAction lib pdb =
     (case pdb_MinAvailable pdb of
        Some m \<Rightarrow> Some (pdbEmergencyPatchAction lib pdb ''minAvailable'' m 0)
      | None \<Rightarrow> map_option (pdbEmergencyMaxUnavailableAction lib pdb) (pdb_MaxUnavailable pdb))"

definition pdb001RemediationDetail ::
  "kube_lib \<Rightarrow> PodDisruptionBudget \<Rightarrow> RemediationDetail" where
  "pdb001RemediationDetail lib pdb =
     empty_detail\<lparr>rem_Changes := [change ''disruptionsAllowed'' ''0'' ''>= 1''],
       rem_SafeFix := Some (action ''Safe fix''
         [''Scale up replicas to create eviction headroom without changing the PDB contract.'',
          ''Add topologySpreadConstraints to distribute the disruption cost across nodes.'']
         (''kubectl get pdb '' @ (shellQuote (pdb_Name pdb)) @ '' -n ''
          @ (shellQuote (pdb_Namespace pdb)) @ '' -o yaml'' @ nl @ ''kubectl get pods -n ''
          @ (shellQuote (pdb_Namespace pdb)) @ '' --show-labels'')),
       rem_Emergency := pdbEmergencyAction lib pdb,
       rem_VerifyCommand := (''kubectl describe pdb '' @ (shellQuote (pdb_Name pdb))
                             @ '' -n '' @ (shellQuote (pdb_Namespace pdb))),
       rem_ExpectedResult := ''Allowed disruptions >= 1''\<rparr>"

definition pdb_reference :: "PodDisruptionBudget \<Rightarrow> ResourceReference" where
  "pdb_reference pdb =
     LiveResource ''PodDisruptionBudget'' ScopeNamespaced (pdb_Namespace pdb) (pdb_Name pdb)
       (pdb_UID pdb)"

definition pdb_budget :: "kube_lib \<Rightarrow> PodDisruptionBudget \<Rightarrow> string" where
  "pdb_budget lib pdb =
     (case pdb_MinAvailable pdb of
        Some m \<Rightarrow> ''minAvailable: '' @ lib_intstr_string lib m
      | None \<Rightarrow> (case pdb_MaxUnavailable pdb of
                   Some m \<Rightarrow> ''maxUnavailable: '' @ lib_intstr_string lib m
                 | None \<Rightarrow> ''minAvailable: <unset>''))"

definition pdb001Finding ::
  "kube_lib \<Rightarrow> PodDisruptionBudget \<Rightarrow> string \<Rightarrow> UpgradeContext \<Rightarrow> Finding" where
  "pdb001Finding lib pdb targetVersion upgradeContext =
     (let (severity, gate) = drainDependentGate upgradeContext
      in empty_finding\<lparr>f_RuleID := ''PDB-001'', f_Severity := severity, f_Confidence := TierObserved,
           f_Message := (''PodDisruptionBudget '' @ pdb_Namespace pdb @ ''/'' @ pdb_Name pdb
                         @ '': disruptionsAllowed=0 ('' @ pdb_budget lib pdb
                         @ '', currentHealthy='' @ show_int (pdb_CurrentHealthy pdb)
                         @ '', desiredHealthy='' @ show_int (pdb_DesiredHealthy pdb)
                         @ '', expectedPods='' @ show_int (pdb_ExpectedPods pdb) @ '') ''
                         @ emdash @ '' healthy matching pods cannot currently be ''
                         @ ''voluntarily evicted, which can block pod eviction during node ''
                         @ ''drain or worker-node rollout''),
           f_Resources := [pdb_reference pdb],
           f_ImpactScopes := [ImpactNodeDrain, ImpactWorkerRollout],
           f_UpgradeGate := gate,
           f_Evidence :=
             [''disruptionsAllowed: 0'', pdb_budget lib pdb,
              (''currentHealthy: '' @ show_int (pdb_CurrentHealthy pdb)),
              (''desiredHealthy: '' @ show_int (pdb_DesiredHealthy pdb)),
              (''expectedPods: '' @ show_int (pdb_ExpectedPods pdb)),
              (''observedGeneration: '' @ show_int (pdb_ObservedGeneration pdb)
               @ '' (metadata.generation: '' @ show_int (pdb_Generation pdb) @ '')'')],
           f_Remediation := (''Safest-first remediation ladder: (1) scale up replicas to ''
                             @ ''create eviction headroom without changing the PDB ''
                             @ ''contract; (2) add topologySpreadConstraints to distribute ''
                             @ ''the disruption cost across nodes; (3) temporarily relax ''
                             @ ''this PDB for the change window, with an explicit revert ''
                             @ ''step in the change ticket. Force-updating the node group ''
                             @ ''to bypass PDBs is a last resort and must be a recorded ''
                             @ ''business decision, not a default.''),
           f_RemediationDetail := Some (pdb001RemediationDetail lib pdb),
           f_Fingerprint := FingerprintV2 ''PDB-001'' targetVersion '''' [pdb_reference pdb]\<rparr>)"

definition pdb001_flagged :: "PodDisruptionBudget \<Rightarrow> bool" where
  \<comment> \<open>neither \<open>continue\<close> is taken\<close>
  "pdb001_flagged pdb \<longleftrightarrow>
     \<not> (pdb_DisruptionsAllowed pdb > 0 \<or> pdb_ExpectedPods pdb = 0
        \<or> pdb_ObservedGeneration pdb \<noteq> pdb_Generation pdb)
     \<and> \<not> (pdb_UnhealthyPodEvictionPolicy pdb = Some ''AlwaysAllow'' \<and> pdb_CurrentHealthy pdb = 0)"

definition PDB001_Evaluate :: "kube_lib \<Rightarrow> ScanContext option \<Rightarrow> string \<Rightarrow> rule_outcome" where
  "PDB001_Evaluate lib sc targetVersion =
     with_k8s sc (\<lambda>s snap.
       if unavailable snap ''poddisruptionbudgets'' then []
       else map (\<lambda>pdb. pdb001Finding lib pdb targetVersion (scanUpgradeContext sc))
              (filter pdb001_flagged (k_PodDisruptionBudgets snap)))"

section \<open>PDB-002\<close>

definition overlappingPodNames ::
  "kube_lib \<Rightarrow> K8sSnapshot \<Rightarrow> string \<Rightarrow> LabelSelector \<Rightarrow> LabelSelector \<Rightarrow> string list" where
  "overlappingPodNames lib snap namespace selA selB =
     map pod_Name (filter (\<lambda>pod. pod_Namespace pod = namespace
         \<and> lib_matches lib selA (pod_Labels pod) \<and> lib_matches lib selB (pod_Labels pod))
       (k_Pods snap))"

definition pdb002Finding ::
  "kube_lib \<Rightarrow> PodDisruptionBudget \<Rightarrow> LabelSelector \<Rightarrow> PodDisruptionBudget \<Rightarrow> LabelSelector
     \<Rightarrow> string list \<Rightarrow> string \<Rightarrow> UpgradeContext \<Rightarrow> Finding" where
  "pdb002Finding lib a selA b selB overlappingPods targetVersion upgradeContext =
     (let (severity, gate) = drainDependentGate upgradeContext;
          namespace = pdb_Namespace a;
          refs = [LiveResource ''PodDisruptionBudget'' ScopeNamespaced namespace (pdb_Name a) (pdb_UID a),
                  LiveResource ''PodDisruptionBudget'' ScopeNamespaced namespace (pdb_Name b) (pdb_UID b)]
      in empty_finding\<lparr>f_RuleID := ''PDB-002'', f_Severity := severity, f_Confidence := TierObserved,
           f_Message := (''PodDisruptionBudgets '' @ namespace @ ''/'' @ pdb_Name a
                         @ '' and '' @ namespace @ ''/'' @ pdb_Name b
                         @ '' select an overlapping set of pods (''
                         @ show_int (int (length overlappingPods)) @ '' overlapping: ''
                         @ (Join overlappingPods '', '') @ '') '' @ emdash
                         @ '' the Eviction API can reject eviction of matching pods when ''
                         @ ''multiple PDBs match the same pod, even if each individually ''
                         @ ''would allow disruption''),
           f_Resources := refs,
           f_ImpactScopes := [ImpactNodeDrain, ImpactWorkerRollout],
           f_UpgradeGate := gate,
           f_Evidence :=
             [(''PDB A: '' @ namespace @ ''/'' @ pdb_Name a @ '' (selector: ''
               @ lib_selector_string lib selA @ '')''),
              (''PDB B: '' @ namespace @ ''/'' @ pdb_Name b @ '' (selector: ''
               @ lib_selector_string lib selB @ '')''),
              (''overlapping pods: '' @ (Join overlappingPods '', ''))],
           f_Remediation := (''Inspect both PDBs and their owners first. Then delete only a ''
                             @ ''budget confirmed to be duplicate/redundant, or narrow one ''
                             @ ''selector so each pod is selected by at most one PDB. For ''
                             @ ''an AWS-managed CoreDNS PDB collision, confirm ownership ''
                             @ ''before retaining the managed budget and removing the ''
                             @ ''duplicate.''),
           f_RemediationDetail := Some (empty_detail
             \<lparr>rem_SafeFix := Some (action ''Safe fix''
                [(''Inspect ownership and source-of-truth first; delete only the PDB proven ''
                  @ ''to be duplicate/redundant, or narrow one selector.'')]
                (''kubectl get pdb '' @ (shellQuote (pdb_Name a)) @ '' ''
                 @ (shellQuote (pdb_Name b)) @ '' -n '' @ shellQuote namespace @ '' -o yaml'')),
              rem_VerifyCommand := (''kubectl get pdb -n '' @ shellQuote namespace)\<rparr>),
           f_Fingerprint := FingerprintV2 ''PDB-002'' targetVersion '''' refs\<rparr>)"

definition pdb002_pair ::
  "kube_lib \<Rightarrow> K8sSnapshot \<Rightarrow> string \<Rightarrow> UpgradeContext \<Rightarrow> PodDisruptionBudget
     \<Rightarrow> PodDisruptionBudget \<Rightarrow> Finding list" where
  \<comment> \<open>the body of the inner loop\<close>
  "pdb002_pair lib snap targetVersion upgradeContext a b =
     (if pdb_Namespace a \<noteq> pdb_Namespace b then []
      else case (pdb_Selector a, pdb_Selector b) of
        (Some selA, Some selB) \<Rightarrow>
          if \<not> lib_valid_selector lib selA \<or> \<not> lib_valid_selector lib selB then []
          else let overlapping = overlappingPodNames lib snap (pdb_Namespace a) selA selB
               in if overlapping = [] then []
                  else [pdb002Finding lib a selA b selB overlapping targetVersion upgradeContext]
      | _ \<Rightarrow> [])"

fun pdb002_loop ::
  "(PodDisruptionBudget \<Rightarrow> PodDisruptionBudget \<Rightarrow> Finding list) \<Rightarrow> PodDisruptionBudget list
     \<Rightarrow> Finding list" where
  "pdb002_loop pair [] = []"
| "pdb002_loop pair (a # rest) = concat (map (pair a) rest) @ pdb002_loop pair rest"

definition PDB002_Evaluate :: "kube_lib \<Rightarrow> ScanContext option \<Rightarrow> string \<Rightarrow> rule_outcome" where
  "PDB002_Evaluate lib sc targetVersion =
     with_k8s sc (\<lambda>s snap.
       if unavailable snap ''poddisruptionbudgets'' \<or> unavailable snap ''pods'' then []
       else pdb002_loop (pdb002_pair lib snap targetVersion (scanUpgradeContext sc))
              (k_PodDisruptionBudgets snap))"

section \<open>COREDNS-001\<close>

fun fields_step :: "string \<times> string list \<Rightarrow> char \<Rightarrow> string \<times> string list" where
  "fields_step (cur, done) c =
     (if c \<in> {CHR 0x09, CHR 0x0A, CHR 0x0B, CHR 0x0C, CHR 0x0D, CHR 0x20}
      then ([], if cur = [] then done else done @ [cur]) else (cur @ [c], done))"

text \<open>
  \<open>strings.Fields\<close> for ASCII white space; a Corefile with other Unicode white space before a
  directive is outside the model.
\<close>

definition Fields :: "string \<Rightarrow> string list" where
  "Fields s = (let (cur, done) = foldl fields_step ([], []) s
               in if cur = [] then done else done @ [cur])"

definition hasReadyPlugin :: "string \<Rightarrow> bool" where
  "hasReadyPlugin corefile =
     list_ex (\<lambda>line. let fields = Fields line in fields \<noteq> [] \<and> hd fields = ''ready'')
       (Split corefile (CHR 0x0A))"

definition coredns001Finding :: "ConfigMap \<Rightarrow> string \<Rightarrow> Finding" where
  "coredns001Finding cm targetVersion =
     (let ref = LiveResource ''ConfigMap'' ScopeNamespaced (cm_Namespace cm) (cm_Name cm) (cm_UID cm)
      in empty_finding\<lparr>f_RuleID := ''COREDNS-001'', f_Severity := SeverityWarning,
           f_Confidence := TierStaticCertain,
           f_Message := (''CoreDNS Corefile ('' @ cm_Namespace cm @ ''/'' @ cm_Name cm
                         @ '') is missing the `ready` plugin '' @ emdash @ '' the CoreDNS ''
                         @ ''pod'' @ sq @ ''s readiness probe can'' @ sq
                         @ ''t reflect actual DNS server health, so a pod can be marked ''
                         @ ''Ready before CoreDNS is actually serving, most likely to ''
                         @ ''surface right after an add-on update''),
           f_Resources := [ref],
           f_Evidence := [''Corefile has no standalone `ready` directive''],
           f_Remediation := (''Add `ready` as a standalone directive inside the server ''
                             @ ''block (typically alongside `health`). Back up the Corefile ''
                             @ ''ConfigMap first, then apply the change directly with ''
                             @ ''`kubectl apply` or via `aws eks update-addon --addon-name ''
                             @ ''coredns --resolve-conflicts PRESERVE` if CoreDNS is ''
                             @ ''managed as an EKS add-on.''),
           f_RemediationDetail := Some (empty_detail
             \<lparr>rem_Changes := [change ''Corefile ready plugin'' ''absent'' ''present in the server block''],
              rem_SafeFix := Some (action ''Safe fix''
                [(''Back up the current ConfigMap, add the ready directive through the ''
                  @ ''CoreDNS source-of-truth, and roll CoreDNS safely.'')]
                (''kubectl get configmap '' @ (shellQuote (cm_Name cm)) @ '' -n ''
                 @ (shellQuote (cm_Namespace cm)) @ '' -o yaml'')),
              rem_VerifyCommand := (''kubectl get configmap '' @ (shellQuote (cm_Name cm))
                                    @ '' -n '' @ (shellQuote (cm_Namespace cm))
                                    @ '' -o jsonpath='' @ sq @ ''{.data.Corefile}'' @ sq),
              rem_ExpectedResult := ''a standalone ready directive is present''\<rparr>),
           f_Fingerprint := FingerprintV2 ''COREDNS-001'' targetVersion '''' [ref]\<rparr>)"

definition COREDNS001_Evaluate :: "ScanContext option \<Rightarrow> string \<Rightarrow> rule_outcome" where
  "COREDNS001_Evaluate sc targetVersion =
     with_k8s sc (\<lambda>s snap.
       case k_CoreDNSConfigMap snap of
         None \<Rightarrow> []
       | Some cm \<Rightarrow>
           (case map_of (cm_Data cm) ''Corefile'' of
              None \<Rightarrow> []
            | Some corefile \<Rightarrow>
                if hasReadyPlugin corefile then [] else [coredns001Finding cm targetVersion]))"

section \<open>APISERVICE-001\<close>

definition apiservice001_finding :: "APIServiceAvailability \<Rightarrow> string \<Rightarrow> Finding" where
  "apiservice001_finding svc targetVersion =
     (let ref = LiveResource ''APIService'' ScopeCluster '''' (apisvc_Name svc) (apisvc_UID svc)
      in empty_finding\<lparr>f_RuleID := ''APISERVICE-001'', f_Severity := SeverityWarning,
           f_Confidence := TierObserved,
           f_Message := (''APIService '' @ quote (apisvc_Name svc) @ '' is not Available ''
                         @ emdash @ '' aggregated API discovery, API requests, HPA/custom ''
                         @ ''metrics, or dependent controllers may be affected depending on ''
                         @ ''the API group; this finding does not by itself prove the ''
                         @ ''Kubernetes version upgrade will fail''),
           f_Resources := [ref],
           f_Evidence := [(''reason: '' @ apisvc_Reason svc), (''message: ''
                                                               @ apisvc_Message svc)],
           f_Remediation := (''Restore the aggregated API backend and its APIService ''
                             @ ''TLS/service configuration, then validate consumers of this ''
                             @ ''API group before proceeding.''),
           f_ImpactScopes := [ImpactAggregatedAPI, ImpactCurrentHealth, ImpactAPIWrite,
             ImpactFutureMaintenance],
           f_UpgradeGate := UpgradeGateOperatorDecision,
           f_RemediationDetail := Some (empty_detail
             \<lparr>rem_Changes := [change ''Available condition'' ''False'' ''True''],
              rem_SafeFix := Some (action ''Safe fix''
                [(''Inspect the APIService condition and restore the backing service, ''
                  @ ''endpoints, and CA/TLS configuration.'')]
                (''kubectl describe apiservice '' @ (shellQuote (apisvc_Name svc)))),
              rem_VerifyCommand := (''kubectl get apiservice ''
                                    @ (shellQuote (apisvc_Name svc)) @ '' -o jsonpath='' @ sq
                                    @ ''{.status.conditions[?(@.type=='' @ dq @ ''Available''
                                    @ dq @ '')].status}'' @ sq),
              rem_ExpectedResult := ''True''\<rparr>),
           f_Fingerprint := FingerprintV2 ''APISERVICE-001'' targetVersion '''' [ref]\<rparr>)"

definition APIService001_Evaluate :: "ScanContext option \<Rightarrow> string \<Rightarrow> rule_outcome" where
  "APIService001_Evaluate sc targetVersion =
     with_k8s sc (\<lambda>s snap.
       if unavailable snap ''apiservices'' then []
       else map (\<lambda>svc. apiservice001_finding svc targetVersion) (k_UnavailableAPIServices snap))"

end
