(* ===== verification/RulesNode.thy ===== *)
theory RulesNode
  imports RulesBase
begin

text \<open>
  NODE-001, NODE-002 and NODE-003 (\<open>node001.go\<close>, \<open>node002.go\<close>, \<open>node003.go\<close>) and NET-002
  (\<open>net002.go\<close>).
\<close>

section \<open>NODE-001\<close>

definition maxSupportedSkew :: int where "maxSupportedSkew = 3"

definition node_reference :: "Node \<Rightarrow> ResourceReference" where
  "node_reference node = LiveResource ''Node'' ScopeCluster '''' (node_Name node) (node_UID node)"

definition node001Finding :: "Node \<Rightarrow> string \<Rightarrow> string \<Rightarrow> Finding" where
  "node001Finding node targetVersion reason =
     empty_finding\<lparr>f_RuleID := ''NODE-001'', f_Severity := SeverityBlocker,
       f_Confidence := TierStaticCertain,
       f_Message := (''Node '' @ quote (node_Name node) @ '': kubelet version ''
                     @ node_KubeletVersion node @ '' is outside the supported skew window ''
                     @ ''for target version '' @ targetVersion @ '' '' @ emdash @ '' ''
                     @ reason),
       f_Resources := [node_reference node],
       f_Evidence := [(''kubelet version: '' @ node_KubeletVersion node), (''target ''
                                                                           @ ''version: ''
                                                                           @ targetVersion), reason],
       f_Remediation := (''Replace this node (managed node group rolling update, Karpenter ''
                         @ ''Drift, or manual AMI bump) to pick up a kubelet within the ''
                         @ ''supported skew window before proceeding with the next ''
                         @ ''control-plane minor version upgrade. Deferred control-plane ''
                         @ ''upgrades compound this: each skipped bump narrows the legal ''
                         @ ''skew window for the next one.''),
       f_RemediationDetail := Some (empty_detail
         \<lparr>rem_Changes := [change ''kubelet version'' (node_KubeletVersion node)
             (''within the supported skew window for '' @ targetVersion)],
          rem_SafeFix := Some (action ''Safe fix''
            [(''Replace or roll this node through its owning node group/provisioner; do not ''
              @ ''mutate kubelet binaries in place.'')]
            (''kubectl get node '' @ (shellQuote (node_Name node)) @ '' -o wide'')),
          rem_VerifyCommand := (''kubectl get node '' @ (shellQuote (node_Name node))
                                @ '' -o jsonpath='' @ sq
                                @ ''{.status.nodeInfo.kubeletVersion}'' @ sq),
          rem_ExpectedResult := (''kubelet is no more than '' @ show_int maxSupportedSkew
                                 @ '' minor versions behind '' @ targetVersion)\<rparr>),
       f_Fingerprint := FingerprintV2 ''NODE-001'' targetVersion '''' [node_reference node]\<rparr>"

definition node001_reason :: "int \<Rightarrow> int \<Rightarrow> int \<Rightarrow> int \<Rightarrow> string option" where
  \<comment> \<open>the switch: why the kubelet is outside the window, if it is\<close>
  "node001_reason targetMajor targetMinor kMajor kMinor =
     (if kMajor \<noteq> targetMajor
      then Some (''kubelet major version '' @ show_int kMajor @ '' does not match target ''
                 @ ''major version '' @ show_int targetMajor)
      else if kMinor > targetMinor
      then Some (''kubelet minor version '' @ show_int kMinor @ '' is newer than target ''
                 @ ''minor version '' @ show_int targetMinor @ '' '' @ emdash
                 @ '' kubelet must never lead the control plane'')
      else if targetMinor - kMinor > maxSupportedSkew
      then Some (''kubelet minor version '' @ show_int kMinor @ '' is ''
                 @ show_int (targetMinor - kMinor) @ '' minor versions behind target minor ''
                 @ ''version '' @ show_int targetMinor @ '' '' @ emdash @ '' exceeds the ''
                 @ ''supported n-'' @ show_int maxSupportedSkew @ '' skew policy'')
      else None)"

definition node001_node :: "int \<Rightarrow> int \<Rightarrow> string \<Rightarrow> Node \<Rightarrow> Finding list" where
  "node001_node targetMajor targetMinor targetVersion node =
     (case rules_parseMajorMinor (node_KubeletVersion node) of
        Inl _ \<Rightarrow> []
      | Inr (kMajor, kMinor) \<Rightarrow>
          (case node001_reason targetMajor targetMinor kMajor kMinor of
             None \<Rightarrow> []
           | Some reason \<Rightarrow> [node001Finding node targetVersion reason]))"

definition NODE001_Evaluate :: "ScanContext option \<Rightarrow> string \<Rightarrow> rule_outcome" where
  "NODE001_Evaluate sc targetVersion =
     (case sc of
        None \<Rightarrow> nil_dereference
      | Some s \<Rightarrow>
          (case rules_parseMajorMinor targetVersion of
             Inl e \<Rightarrow> Returned [] (Some
               (''NODE-001: invalid target version '' @ quote targetVersion @ '': ''
                @ version_error_text e))
           | Inr (targetMajor, targetMinor) \<Rightarrow>
               (case sc_K8s s of
                  None \<Rightarrow> nil_dereference
                | Some snap \<Rightarrow>
                    Returned (concat (map (node001_node targetMajor targetMinor targetVersion)
                                (k_Nodes snap))) None)))"

section \<open>NODE-002\<close>

definition minFreeIPHeadroom :: int where "minFreeIPHeadroom = 5"

definition node002Finding :: "SubnetRecord \<Rightarrow> string \<Rightarrow> UpgradeContext \<Rightarrow> Finding" where
  "node002Finding subnet targetVersion upgradeContext =
     (let (severity, gate) = eksControlPlanePreconditionGate upgradeContext;
          ref = AWSResource ''Subnet'' (subnet_ID subnet) (subnet_ID subnet);
          available = subnet_AvailableIPAddressCount subnet
      in empty_finding\<lparr>f_RuleID := ''NODE-002'', f_Severity := severity,
           f_Confidence := TierStaticCertain,
           f_Message := (''Control-plane subnet '' @ subnet_ID subnet @ '' has only ''
                         @ show_int available @ '' free IPv4 address(es) '' @ emdash
                         @ '' below the '' @ show_int minFreeIPHeadroom
                         @ ''-address headroom recommended for the ENIs an EKS ''
                         @ ''control-plane or full-platform upgrade creates; that operation ''
                         @ ''can fail if the subnet runs out of IPs mid-flight''),
           f_Resources := [ref],
           f_ImpactScopes := [ImpactControlPlaneUpgrade, ImpactFutureMaintenance],
           f_UpgradeGate := gate,
           f_Evidence := [(''available IPv4 addresses: '' @ show_int available), (''recommended minimum: ''
                                                                                  @ show_int minFreeIPHeadroom)],
           f_Remediation := (''Free up IPs in this subnet before an EKS control-plane or ''
                             @ ''full-platform upgrade (release unused ENIs/load balancers, ''
                             @ ''or add a secondary CIDR), or add an additional ''
                             @ ''control-plane subnet with headroom via a VPC config ''
                             @ ''update. Re-run `aws ec2 describe-subnets` afterward to ''
                             @ ''confirm headroom. For audit-only, worker-rollout, ''
                             @ ''workload-restart, or unspecified contexts, treat this as ''
                             @ ''provider precondition evidence to review rather than a ''
                             @ ''confirmed blocker for the selected operation.''),
           f_RemediationDetail := Some (empty_detail
             \<lparr>rem_Changes := [change ''available IPv4 addresses'' (show_int available)
                 (''>= '' @ show_int minFreeIPHeadroom)],
              rem_SafeFix := Some (action ''Safe fix''
                [(''Free unused addresses or update the EKS control-plane subnet ''
                  @ ''configuration to use subnets with sufficient headroom.'')]
                (''aws ec2 describe-subnets --subnet-ids '' @ (shellQuote (subnet_ID subnet))
                 @ '' --query '' @ sq @ ''Subnets[*].[SubnetId,AvailableIpAddressCount]'' @ sq
                 @ '' --output table'')),
              rem_VerifyCommand := (''aws ec2 describe-subnets --subnet-ids ''
                                    @ (shellQuote (subnet_ID subnet)) @ '' --query '' @ sq
                                    @ ''Subnets[0].AvailableIpAddressCount'' @ sq
                                    @ '' --output text''),
              rem_ExpectedResult := (show_int minFreeIPHeadroom @ '' or greater'')\<rparr>),
           f_Fingerprint := FingerprintV2 ''NODE-002'' targetVersion '''' [ref]\<rparr>)"

definition NODE002_Evaluate :: "ScanContext option \<Rightarrow> string \<Rightarrow> rule_outcome" where
  "NODE002_Evaluate sc targetVersion =
     with_aws sc (\<lambda>s snap.
       map (\<lambda>subnet. node002Finding subnet targetVersion (scanUpgradeContext sc))
         (filter (\<lambda>subnet. \<not> subnet_AvailableIPAddressCount subnet \<ge> minFreeIPHeadroom)
            (aws_Subnets snap)))"

section \<open>NET-002\<close>

definition net002Finding :: "NetworkPreflightIssue \<Rightarrow> string \<Rightarrow> UpgradeContext \<Rightarrow> Finding" where
  "net002Finding issue targetVersion upgradeContext =
     (let (severity, gate) = eksControlPlanePreconditionGate upgradeContext;
          (awsErrorCode, describeCmd) =
            (if npi_Kind issue = ''SecurityGroup''
             then (''InvalidGroup.NotFound'',
                   (''aws ec2 describe-security-groups --group-ids ''
                    @ (shellQuote (npi_ID issue))))
             else (''InvalidVpcID.NotFound'',
                   (''aws ec2 describe-vpcs --vpc-ids '' @ (shellQuote (npi_ID issue)))));
          ref = AWSResource (npi_Kind issue) (npi_ID issue) (npi_ID issue)
      in empty_finding\<lparr>f_RuleID := ''NET-002'', f_Severity := severity,
           f_Confidence := TierStaticCertain,
           f_Message := (''Cluster references '' @ npi_Kind issue @ '' '' @ npi_ID issue
                         @ '', which no longer exists ('' @ awsErrorCode @ '') '' @ emdash
                         @ '' this can fail an EKS control-plane or full-platform upgrade ''
                         @ ''when that operation depends on the missing network resource''),
           f_Resources := [ref],
           f_ImpactScopes := [ImpactControlPlaneUpgrade, ImpactFutureMaintenance],
           f_UpgradeGate := gate,
           f_Evidence := [(''resource kind: '' @ npi_Kind issue), (''resource id: ''
                                                                   @ npi_ID issue),
             (''AWS error code: '' @ awsErrorCode)],
           f_Remediation := (''Restore or recreate the missing '' @ npi_Kind issue @ '' (''
                             @ npi_ID issue @ '') before an EKS control-plane or ''
                             @ ''full-platform upgrade, or update the cluster'' @ sq
                             @ ''s VPC config if it was intentionally replaced '' @ emdash
                             @ '' an EKS cluster cannot be reassigned to a different VPC ''
                             @ ''after creation. For audit-only, worker-rollout, ''
                             @ ''workload-restart, or unspecified contexts, treat this as ''
                             @ ''provider precondition evidence to review rather than a ''
                             @ ''confirmed blocker for the selected operation. Verify with `''
                             @ describeCmd @ ''`.''),
           f_RemediationDetail := Some (empty_detail
             \<lparr>rem_Changes := [change (npi_Kind issue @ '' existence'') ''not found''
                 ''available to the EKS cluster''],
              rem_SafeFix := Some (action ''Safe fix''
                [(''Restore the referenced resource or update the supported EKS VPC ''
                  @ ''configuration before upgrading; an EKS cluster cannot be moved to ''
                  @ ''another VPC.'')]
                describeCmd),
              rem_VerifyCommand := describeCmd,
              rem_ExpectedResult := ''resource is returned without a NotFound error''\<rparr>),
           f_Fingerprint := FingerprintV2 ''NET-002'' targetVersion '''' [ref]\<rparr>)"

definition NET002_Evaluate :: "ScanContext option \<Rightarrow> string \<Rightarrow> rule_outcome" where
  "NET002_Evaluate sc targetVersion =
     with_aws sc (\<lambda>s snap.
       map (\<lambda>issue. net002Finding issue targetVersion (scanUpgradeContext sc))
         (aws_NetworkPreflightIssues snap))"

section \<open>NODE-003\<close>

definition deprecatedMasterNodeLabel :: string where
  "deprecatedMasterNodeLabel = ''node-role.kubernetes.io/master''"

definition replacementControlPlaneLabel :: string where
  "replacementControlPlaneLabel = ''node-role.kubernetes.io/control-plane''"

definition node003CriticalComponentNames :: "string list" where
  "node003CriticalComponentNames =
     [''aws-node'', ''calico-node'', ''calico-typha'', ''cilium'', ''cilium-operator'',
      ''kube-proxy'', ''coredns'', ''kube-dns'', ''cluster-autoscaler'']"

definition indexed :: "'a list \<Rightarrow> (int \<times> 'a) list" where
  "indexed xs = zip (map int [0..<length xs]) xs"

definition master_keys :: "string \<Rightarrow> string \<Rightarrow> NodeSelectorRequirement list \<Rightarrow> string list" where
  "master_keys pre field reqs =
     concat (map (\<lambda>(i, expr). if nsr_Key expr = deprecatedMasterNodeLabel
                              then [(pre @ ''.'' @ field @ ''['' @ show_int i @ ''].key'')] else []) (indexed reqs))"

definition nodeSelectorTermRefs :: "NodeSelectorTerm \<Rightarrow> string \<Rightarrow> string list" where
  "nodeSelectorTermRefs term pre =
     master_keys pre ''matchExpressions'' (nst_MatchExpressions term)
     @ master_keys pre ''matchFields'' (nst_MatchFields term)"

definition masterLabelRefs :: "PodSpec \<Rightarrow> string list" where
  "masterLabelRefs spec =
     (if deprecatedMasterNodeLabel \<in> fst ` set (ps_NodeSelector spec)
      then [(''spec.template.spec.nodeSelector['' @ quote deprecatedMasterNodeLabel @ '']'')] else [])
     @ (case ps_Affinity spec of
          None \<Rightarrow> []
        | Some af \<Rightarrow>
            (case af_NodeAffinity af of
               None \<Rightarrow> []
             | Some na \<Rightarrow>
                 (case na_Required na of
                    None \<Rightarrow> []
                  | Some terms \<Rightarrow>
                      concat (map (\<lambda>(ti, term). nodeSelectorTermRefs term
                        (''spec.template.spec.affinity.nodeAffinity.requiredDuringSchedulingIgnoredDuringExecution.nodeSelectorTerms[''
                         @ show_int ti @ '']''))
                        (indexed terms)))
                 @ concat (map (\<lambda>(pi, pref). nodeSelectorTermRefs pref
                     (''spec.template.spec.affinity.nodeAffinity.preferredDuringSchedulingIgnoredDuringExecution[''
                      @ show_int pi @ ''].preference''))
                     (indexed (na_Preferred na)))))
     @ concat (map (\<lambda>(i, tol). if tol_Key tol = deprecatedMasterNodeLabel
                               then [(''spec.template.spec.tolerations['' @ show_int i
                                      @ ''].key'')] else [])
         (indexed (ps_Tolerations spec)))"

text \<open>The same over the decoded pod specification of a manifest.\<close>

fun mapValue :: "json \<Rightarrow> (string \<times> json) list option" where
  "mapValue (JObj m) = Some m"
| "mapValue _ = None"

fun sliceValue :: "json \<Rightarrow> json list option" where
  "sliceValue (JList vs) = Some vs"
| "sliceValue _ = None"

definition json_get :: "(string \<times> json) list \<Rightarrow> string \<Rightarrow> json" where
  \<comment> \<open>an absent key reads as nil\<close>
  "json_get m k = (case map_of m k of Some v \<Rightarrow> v | None \<Rightarrow> JNull)"

definition is_master_key :: "json \<Rightarrow> bool" where
  "is_master_key v \<longleftrightarrow>
     (case mapValue v of
        None \<Rightarrow> False | Some m \<Rightarrow> json_get m ''key'' = JStr deprecatedMasterNodeLabel)"

definition manifestNodeSelectorTermRefs :: "(string \<times> json) list \<Rightarrow> string \<Rightarrow> string list" where
  "manifestNodeSelectorTermRefs term pre =
     concat (map (\<lambda>field. case sliceValue (json_get term field) of
         None \<Rightarrow> []
       | Some values \<Rightarrow>
           concat (map (\<lambda>(i, raw). if is_master_key raw
                                   then [(pre @ ''.'' @ field @ ''['' @ show_int i @ ''].key'')] else [])
             (indexed values)))
       [''matchExpressions'', ''matchFields''])"

definition manifest_required_refs :: "(string \<times> json) list \<Rightarrow> string \<Rightarrow> string list" where
  "manifest_required_refs nodeAffinity podSpecPath =
     (case mapValue (json_get nodeAffinity ''requiredDuringSchedulingIgnoredDuringExecution'') of
        None \<Rightarrow> []
      | Some required \<Rightarrow>
          (case sliceValue (json_get required ''nodeSelectorTerms'') of
             None \<Rightarrow> []
           | Some terms \<Rightarrow>
               concat (map (\<lambda>(ti, term). case mapValue term of
                   None \<Rightarrow> []
                 | Some termMap \<Rightarrow> manifestNodeSelectorTermRefs termMap
                     (podSpecPath
                      @ ''.affinity.nodeAffinity.requiredDuringSchedulingIgnoredDuringExecution.nodeSelectorTerms[''
                      @ show_int ti @ '']''))
                 (indexed terms))))"

definition manifest_preferred_refs :: "(string \<times> json) list \<Rightarrow> string \<Rightarrow> string list" where
  "manifest_preferred_refs nodeAffinity podSpecPath =
     (case sliceValue (json_get nodeAffinity ''preferredDuringSchedulingIgnoredDuringExecution'') of
        None \<Rightarrow> []
      | Some preferred \<Rightarrow>
          concat (map (\<lambda>(pi, pref). case mapValue pref of
              None \<Rightarrow> []
            | Some prefMap \<Rightarrow>
                (case mapValue (json_get prefMap ''preference'') of
                   None \<Rightarrow> []
                 | Some preference \<Rightarrow> manifestNodeSelectorTermRefs preference
                     (podSpecPath
                      @ ''.affinity.nodeAffinity.preferredDuringSchedulingIgnoredDuringExecution[''
                      @ show_int pi @ ''].preference'')))
            (indexed preferred)))"

definition manifestMasterLabelRefs :: "(string \<times> json) list \<Rightarrow> string \<Rightarrow> string list" where
  "manifestMasterLabelRefs spec podSpecPath =
     (case mapValue (json_get spec ''nodeSelector'') of
        None \<Rightarrow> []
      | Some nodeSelector \<Rightarrow>
          if deprecatedMasterNodeLabel \<in> fst ` set nodeSelector
          then [podSpecPath @ ''.nodeSelector''] else [])
     @ (case mapValue (json_get spec ''affinity'') of
          None \<Rightarrow> []
        | Some affinity \<Rightarrow>
            (case mapValue (json_get affinity ''nodeAffinity'') of
               None \<Rightarrow> []
             | Some nodeAffinity \<Rightarrow>
                 manifest_required_refs nodeAffinity podSpecPath
                 @ manifest_preferred_refs nodeAffinity podSpecPath))
     @ (case sliceValue (json_get spec ''tolerations'') of
          None \<Rightarrow> []
        | Some tolerations \<Rightarrow>
            concat (map (\<lambda>(i, tol). if is_master_key tol
                                    then [(podSpecPath @ ''.tolerations['' @ show_int i
                                           @ ''].key'')] else [])
              (indexed tolerations)))"

definition node003ResourceLabel :: "string \<Rightarrow> string \<Rightarrow> string" where
  "node003ResourceLabel namespace name =
     (if namespace = '''' then name else namespace @ ''/'' @ name)"

definition node003SortKey :: "ResourceReference \<Rightarrow> string" where
  "node003SortKey ref =
     Join [plane_string (ref_Plane ref), ref_SourcePath ref, ref_Namespace ref, ref_Name ref,
           ref_Kind ref] [CHR 0x00]"

text \<open>What the live and the manifest finding share.\<close>

definition node003_body :: "string list \<Rightarrow> string list \<Rightarrow> string \<Rightarrow> string \<Rightarrow> RemediationDetail \<Rightarrow> Finding" where
  "node003_body paths references msg step detail =
     empty_finding\<lparr>f_RuleID := ''NODE-003'', f_Severity := SeverityWarning,
       f_Confidence := TierStaticCertain, f_Message := msg,
       f_Evidence := references @
         [(''replacement label: '' @ replacementControlPlaneLabel @ '' (kubeadm stopped ''
           @ ''adding the master label to new control-plane nodes in Kubernetes 1.24)'')],
       f_Remediation := (''Replace deprecated '' @ deprecatedMasterNodeLabel
                         @ '' references with '' @ replacementControlPlaneLabel
                         @ '', or migrate to an explicit stable node label managed by the ''
                         @ ''platform team. Validate that all target nodes already carry ''
                         @ ''the replacement label before changing selectors or affinities ''
                         @ emdash @ '' changing the selector first strands the workload ''
                         @ ''with no schedulable nodes.''),
       f_ImpactScopes := [ImpactWorkerRollout, ImpactNodeDrain, ImpactWorkloadRestart,
         ImpactFutureMaintenance],
       f_RemediationDetail := Some (detail
         \<lparr>rem_Changes := map (\<lambda>p. change p deprecatedMasterNodeLabel
             (replacementControlPlaneLabel @ '' (after confirming nodes carry it)'')) paths,
          rem_SafeFix := Some (action ''Safe fix''
            [(''Confirm which node role labels the target nodes actually carry before ''
              @ ''touching any selector or affinity.''),
             step]
            (''kubectl get nodes --show-labels | grep -E '' @ sq
             @ ''node-role.kubernetes.io/(master|control-plane)'' @ sq)),
          rem_ExpectedResult := (''no references to '' @ deprecatedMasterNodeLabel
                                 @ '' remain in the pod template'')\<rparr>)\<rparr>"

definition node003Finding ::
  "string \<Rightarrow> string \<Rightarrow> ObjectMeta \<Rightarrow> string list \<Rightarrow> string \<Rightarrow> Finding" where
  \<comment> \<open>\<open>kindLower\<close> is \<open>strings.ToLower(kind)\<close>\<close>
  "node003Finding kind kindLower meta paths targetVersion =
     (let ref = LiveResource kind ScopeNamespaced (om_Namespace meta) (om_Name meta) (om_UID meta)
      in (node003_body paths
            (map (\<lambda>p. (''references '' @ deprecatedMasterNodeLabel @ '' at '' @ p)) paths)
            (''Deprecated control-plane node label dependency: '' @ kind @ '' ''
             @ om_Namespace meta @ ''/'' @ om_Name meta @ '' depends on ''
             @ deprecatedMasterNodeLabel @ ''. This does not necessarily block an in-place ''
             @ ''Kubernetes upgrade while existing nodes retain the label. The workload may ''
             @ ''fail to schedule after a control-plane node replacement, label removal, or ''
             @ ''pod restart if no node exposes the legacy label.'')
            (''If migrating to a platform-owned custom label, apply and document it on the ''
             @ ''nodes first, then update the workload.'')
            (empty_detail\<lparr>rem_VerifyCommand := (''kubectl get '' @ kindLower @ '' ''
                                                       @ (shellQuote (om_Name meta))
                                                       @ '' -n ''
                                                       @ (shellQuote (om_Namespace meta))
                                                       @ '' -o yaml'')\<rparr>))
           \<lparr>f_Resources := [ref],
            f_Fingerprint := FingerprintV2 ''NODE-003'' targetVersion '''' [ref]\<rparr>)"

definition node003ManifestFinding :: "WorkloadObject \<Rightarrow> string list \<Rightarrow> string \<Rightarrow> Finding" where
  "node003ManifestFinding obj paths targetVersion =
     (let resourceLabel = node003ResourceLabel (wo_Namespace obj) (wo_Name obj);
          ref = ManifestResource (wo_Kind obj) ScopeNamespaced (wo_Namespace obj) (wo_Name obj)
                  (wo_SourcePath obj)
      in (node003_body paths
            (map (\<lambda>p. (wo_SourcePath obj @ '': '' @ wo_Kind obj @ '' ''
                               @ resourceLabel @ '' references deprecated ''
                               @ deprecatedMasterNodeLabel @ '' at '' @ p)) paths)
            (''Deprecated control-plane node label dependency: '' @ wo_Kind obj @ '' ''
             @ resourceLabel @ '' in '' @ wo_SourcePath obj @ '' depends on ''
             @ deprecatedMasterNodeLabel @ ''. This does not necessarily block an in-place ''
             @ ''Kubernetes upgrade while existing nodes retain the label. The workload may ''
             @ ''fail to schedule after a control-plane node replacement, label removal, or ''
             @ ''pod restart if no node exposes the legacy label.'')
            (''If migrating to a platform-owned custom label, apply and document it on the ''
             @ ''nodes first, then update the manifest.'')
            (empty_detail\<lparr>rem_AffectedFile := wo_SourcePath obj,
               rem_VerifyCommand := (''kubepreflight scan --manifests ''
                                     @ (shellQuote (wo_SourcePath obj))
                                     @ '' --target-version '' @ shellQuote targetVersion)\<rparr>))
           \<lparr>f_Resources := [ref],
            f_Fingerprint := FingerprintV2 ''NODE-003'' targetVersion '''' [ref]\<rparr>)"

definition wl_meta :: "Workload \<Rightarrow> ObjectMeta" where
  "wl_meta w = \<lparr>om_Namespace = wl_Namespace w, om_Name = wl_Name w, om_UID = wl_UID w\<rparr>"

definition dset_meta :: "DaemonSet \<Rightarrow> ObjectMeta" where
  "dset_meta d = \<lparr>om_Namespace = dset_Namespace d, om_Name = dset_Name d, om_UID = dset_UID d\<rparr>"

definition node003_live :: "K8sSnapshot \<Rightarrow> string \<Rightarrow> Finding list" where
  "node003_live snap targetVersion =
     concat (map (\<lambda>d. let paths = masterLabelRefs (wl_PodSpec d)
                      in if paths = [] then []
                         else [node003Finding ''Deployment'' ''deployment'' (wl_meta d) paths targetVersion])
       (k_Deployments snap))
     @ concat (map (\<lambda>d. let paths = masterLabelRefs (dset_PodSpec d)
                        in if paths = [] then []
                           else [node003Finding ''DaemonSet'' ''daemonset'' (dset_meta d) paths targetVersion])
       (k_DaemonSets snap))"

definition node003_manifest :: "ManifestSnapshot \<Rightarrow> string \<Rightarrow> Finding list" where
  "node003_manifest snap targetVersion =
     concat (map (\<lambda>obj. let paths = manifestMasterLabelRefs (wo_PodSpec obj) (wo_PodSpecPath obj)
                        in if paths = [] then []
                           else [node003ManifestFinding obj paths targetVersion])
       (m_Workloads snap))"

definition NODE003_Evaluate :: "ScanContext option \<Rightarrow> string \<Rightarrow> rule_outcome" where
  "NODE003_Evaluate sc targetVersion =
     (case sc of
        None \<Rightarrow> Returned [] None
      | Some s \<Rightarrow>
          Returned (sort_by
            (\<lambda>a b. node003SortKey (hd (f_Resources a)) < node003SortKey (hd (f_Resources b)))
            ((case sc_K8s s of None \<Rightarrow> [] | Some snap \<Rightarrow> node003_live snap targetVersion)
             @ (case sc_ManifestSnapshot s of
                  None \<Rightarrow> [] | Some snap \<Rightarrow> node003_manifest snap targetVersion))) None)"

end
