(* ===== verification/RulesEks.thy ===== *)
theory RulesEks
  imports RulesBase Versions
begin

text \<open>
  The rules on the AWS inventory: managed node groups (EKS-NG-001 to EKS-NG-004, \<open>eksng.go\<close>)
  and EKS upgrade insights (EKS-INSIGHT-001 to EKS-INSIGHT-003, \<open>eksinsight.go\<close>).
\<close>

section \<open>Managed node groups\<close>

definition eksNodegroupResource :: "NodegroupRecord \<Rightarrow> ResourceReference" where
  "eksNodegroupResource ng =
     AWSResource ''EKSNodegroup'' (nr_Name ng)
       (if nr_ClusterName ng \<noteq> '''' then nr_ClusterName ng @ ''/'' @ nr_Name ng else nr_Name ng)"

definition describeNodegroupCommand :: "NodegroupRecord \<Rightarrow> string" where
  "describeNodegroupCommand ng =
     (if nr_ClusterName ng = '''' \<or> nr_Name ng = '''' then ''''
      else (''aws eks describe-nodegroup --cluster-name '' @ (shellQuote (nr_ClusterName ng))
            @ '' --nodegroup-name '' @ (shellQuote (nr_Name ng))))"

definition int32PtrString :: "int option \<Rightarrow> string" where
  "int32PtrString v = (case v of None \<Rightarrow> ''unknown'' | Some i \<Rightarrow> show_int i)"

definition emptyDash :: "string \<Rightarrow> string" where
  "emptyDash v = (if v = '''' then ''-'' else v)"

definition health_issue_line :: "NodegroupHealth \<Rightarrow> string" where
  "health_issue_line issue =
     ''health issue''
     @ (if nh_Code issue \<noteq> '''' then '' code: '' @ nh_Code issue else '''')
     @ (if nh_Message issue \<noteq> '''' then ''; message: '' @ nh_Message issue else '''')
     @ (if length (nh_ResourceIDs issue) > 0
        then ''; resourceIds: '' @ Join (nh_ResourceIDs issue) '', '' else '''')"

definition inspect_nodegroup :: "string \<Rightarrow> string \<Rightarrow> NodegroupRecord \<Rightarrow> RemediationDetail" where
  "inspect_nodegroup label step ng =
     empty_detail\<lparr>rem_SafeFix := Some (action label [step] (describeNodegroupCommand ng)),
       rem_VerifyCommand := describeNodegroupCommand ng\<rparr>"

definition eksNG001Finding :: "NodegroupRecord \<Rightarrow> Finding" where
  "eksNG001Finding ng =
     empty_finding\<lparr>f_RuleID := ''EKS-NG-001'', f_Severity := SeverityWarning,
       f_Confidence := TierProviderReported,
       f_Message := (''Managed node group '' @ quote (nr_Name ng) @ '' reports EKS health ''
                     @ ''issue(s): '' @ (Join (map nh_Code (nr_HealthIssues ng)) '', '')
                     @ ''. Review and resolve node group health before upgrade.''),
       f_Resources := [eksNodegroupResource ng],
       f_Evidence := map health_issue_line (nr_HealthIssues ng),
       f_Remediation := (''Review the EKS managed node group health issue details, resolve ''
                         @ ''the underlying AWS/node condition, and rerun KubePreflight ''
                         @ ''before the upgrade window.''),
       f_RemediationDetail := Some (inspect_nodegroup ''Inspect node group health''
         (''Inspect AWS-reported managed node group health and resolve any listed issues ''
          @ ''before upgrading.'') ng),
       f_Fingerprint := FingerprintV2 ''EKS-NG-001'' '''' '''' [eksNodegroupResource ng]\<rparr>"

definition eksNG002Finding :: "NodegroupRecord \<Rightarrow> Finding" where
  "eksNG002Finding ng =
     empty_finding\<lparr>f_RuleID := ''EKS-NG-002'', f_Severity := SeverityWarning,
       f_Confidence := TierProviderReported,
       f_Message := (''Managed node group '' @ quote (nr_Name ng) @ '' desired size equals ''
                     @ ''or is below minimum size. Rolling update may have limited ''
                     @ ''disruption headroom.''),
       f_Resources := [eksNodegroupResource ng],
       f_Evidence := [(''desiredSize: '' @ (int32PtrString (nr_DesiredSize ng))),
         (''minSize: '' @ (int32PtrString (nr_MinSize ng))),
         (''maxSize: '' @ (int32PtrString (nr_MaxSize ng)))],
       f_Remediation := (''Review node group capacity and disruption budgets before ''
                         @ ''upgrade. Consider temporarily increasing desired capacity or ''
                         @ ''otherwise creating eviction headroom for the change window.''),
       f_RemediationDetail := Some ((inspect_nodegroup ''Inspect scaling config''
         (''Inspect managed node group scaling and update settings before choosing any ''
          @ ''capacity change.'') ng)
         \<lparr>rem_Changes := [change ''desired/min/max''
            ((int32PtrString (nr_DesiredSize ng)) @ ''/'' @ (int32PtrString (nr_MinSize ng))
             @ ''/'' @ (int32PtrString (nr_MaxSize ng)))
            ''extra rolling-update headroom'']\<rparr>),
       f_Fingerprint := FingerprintV2 ''EKS-NG-002'' '''' '''' [eksNodegroupResource ng]\<rparr>"

definition eksNG003Finding :: "NodegroupRecord \<Rightarrow> Finding" where
  "eksNG003Finding ng =
     empty_finding\<lparr>f_RuleID := ''EKS-NG-003'', f_Severity := SeverityInfo,
       f_Confidence := TierProviderReported,
       f_Message := (''Managed node group '' @ quote (nr_Name ng) @ '' uses a launch ''
                     @ ''template/custom AMI. Validate AMI, bootstrap, kubelet, and launch ''
                     @ ''template upgrade path manually.''),
       f_Resources := [eksNodegroupResource ng],
       f_Evidence := [(''launchTemplate: '' @ show_bool (nr_LaunchTemplate ng)),
         (''amiType: '' @ (emptyDash (nr_AMIType ng)))],
       f_Remediation := (''Manually validate the launch template or custom AMI upgrade ''
                         @ ''path, including bootstrap configuration, kubelet version, user ''
                         @ ''data, and AMI release process.''),
       f_RemediationDetail := Some (inspect_nodegroup ''Inspect node group configuration''
         (''Review the launch template/custom AMI before updating the managed node group ''
          @ ''version.'') ng),
       f_Fingerprint := FingerprintV2 ''EKS-NG-003'' '''' '''' [eksNodegroupResource ng]\<rparr>"

definition eksNG004Finding :: "NodegroupRecord \<Rightarrow> string \<Rightarrow> Finding" where
  "eksNG004Finding ng targetVersion =
     empty_finding\<lparr>f_RuleID := ''EKS-NG-004'', f_Severity := SeverityInfo,
       f_Confidence := TierProviderReported,
       f_Message := (''Managed node group '' @ quote (nr_Name ng) @ '' reports Kubernetes ''
                     @ ''version '' @ nr_Version ng @ '' while target is '' @ targetVersion
                     @ ''. Node kubelet skew is evaluated separately by NODE-001.''),
       f_Resources := [eksNodegroupResource ng],
       f_Evidence := [(''node group Kubernetes version: '' @ nr_Version ng),
         (''target Kubernetes version: '' @ targetVersion),
         ''NODE-001 evaluates actual Kubernetes node/kubelet skew separately.''],
       f_Remediation := (''Use this as provider inventory context. Confirm actual node ''
                         @ ''kubelet skew in NODE-001 findings and update managed node ''
                         @ ''groups in the provider-recommended sequence.''),
       f_RemediationDetail := Some (empty_detail\<lparr>rem_VerifyCommand := describeNodegroupCommand ng\<rparr>),
       f_Fingerprint := FingerprintV2 ''EKS-NG-004'' targetVersion '''' [eksNodegroupResource ng]\<rparr>"

definition eksng_findings ::
  "ScanContext option \<Rightarrow> (NodegroupRecord \<Rightarrow> bool) \<Rightarrow> (NodegroupRecord \<Rightarrow> Finding) \<Rightarrow> rule_outcome" where
  \<comment> \<open>the loop the four rules share\<close>
  "eksng_findings sc skip finding =
     with_aws sc (\<lambda>s snap. map finding (filter (\<lambda>ng. \<not> skip ng) (aws_Nodegroups snap)))"

definition EKSNG001_Evaluate :: "ScanContext option \<Rightarrow> string \<Rightarrow> rule_outcome" where
  "EKSNG001_Evaluate sc targetVersion =
     eksng_findings sc (\<lambda>ng. length (nr_HealthIssues ng) = 0) eksNG001Finding"

definition eksng002_skip :: "NodegroupRecord \<Rightarrow> bool" where
  "eksng002_skip ng \<longleftrightarrow>
     (case (nr_DesiredSize ng, nr_MinSize ng) of
        (Some desired, Some minimum) \<Rightarrow> desired > minimum
      | _ \<Rightarrow> True)"

definition EKSNG002_Evaluate :: "ScanContext option \<Rightarrow> string \<Rightarrow> rule_outcome" where
  "EKSNG002_Evaluate sc targetVersion = eksng_findings sc eksng002_skip eksNG002Finding"

definition EKSNG003_Evaluate :: "ScanContext option \<Rightarrow> string \<Rightarrow> rule_outcome" where
  "EKSNG003_Evaluate sc targetVersion =
     eksng_findings sc (\<lambda>ng. \<not> nr_LaunchTemplate ng \<and> nr_AMIType ng \<noteq> ''CUSTOM'') eksNG003Finding"

definition eksng004_skip :: "string \<Rightarrow> NodegroupRecord \<Rightarrow> bool" where
  "eksng004_skip targetVersion ng \<longleftrightarrow>
     nr_Version ng = ''''
     \<or> (case UpgradePath (nr_Version ng) targetVersion of
          (path, label, ok) \<Rightarrow> \<not> (ok \<and> length path > 1))"

definition EKSNG004_Evaluate :: "ScanContext option \<Rightarrow> string \<Rightarrow> rule_outcome" where
  "EKSNG004_Evaluate sc targetVersion =
     eksng_findings sc (eksng004_skip targetVersion) (\<lambda>ng. eksNG004Finding ng targetVersion)"

section \<open>Upgrade insights\<close>

definition eksInsightFreshnessNote :: string where
  "eksInsightFreshnessNote = (''AWS-native upgrade readiness checks from Amazon EKS. ''
                              @ ''Insights may be up to 24 hours old; re-check after ''
                              @ ''remediation.'')"

definition prefixedDetails :: "string \<Rightarrow> string list \<Rightarrow> string list" where
  "prefixedDetails pre details =
     map (\<lambda>detail. pre @ '': '' @ detail) (filter (\<lambda>detail. TrimSpace detail \<noteq> '''') details)"

definition describeInsightCommand :: "AwsInsightRecord \<Rightarrow> string" where
  "describeInsightCommand ins =
     (if ins_ClusterName ins = '''' \<or> ins_ID ins = '''' then ''''
      else (''aws eks describe-insight --cluster-name '' @ (shellQuote (ins_ClusterName ins))
            @ '' --id '' @ (shellQuote (ins_ID ins))))"

definition insight_reference :: "AwsInsightRecord \<Rightarrow> ResourceReference" where
  "insight_reference ins =
     AWSInsightResource (ins_Category ins) (ins_KubernetesVersion ins) (ins_ID ins) (ins_Name ins)"

definition insight_evidence :: "AwsInsightRecord \<Rightarrow> string \<Rightarrow> string list" where
  "insight_evidence ins version =
     [(''insight id: '' @ ins_ID ins), (''status: '' @ ins_Status ins),
      (''kubernetes version: '' @ version)]
     @ (if ins_Reason ins \<noteq> '''' then [''reason: '' @ ins_Reason ins] else [])
     @ (if ins_LastRefreshTime ins \<noteq> 0
        then [''last refreshed: '' @ format_rfc3339 (ins_LastRefreshTime ins)] else [])
     @ (if ins_LastTransitionTime ins \<noteq> 0
        then [''last transition: '' @ format_rfc3339 (ins_LastTransitionTime ins)] else [])
     @ (if ins_Recommendation ins \<noteq> '''' then [''recommendation: '' @ ins_Recommendation ins] else [])
     @ prefixedDetails ''deprecation detail'' (ins_DeprecationDetails ins)
     @ prefixedDetails ''add-on compatibility detail'' (ins_AddonCompatibility ins)
     @ [''freshness note: '' @ eksInsightFreshnessNote]"

definition eksInsightFinding :: "string \<Rightarrow> Severity \<Rightarrow> AwsInsightRecord \<Rightarrow> string \<Rightarrow> Finding" where
  "eksInsightFinding ruleID severity ins targetVersion =
     (let version = firstNonEmpty [ins_KubernetesVersion ins, targetVersion, ''unknown'']
      in empty_finding\<lparr>f_RuleID := ruleID, f_Severity := severity,
           f_Confidence := TierProviderReported,
           f_Message :=
             (if severity = SeverityInfo
              then (''EKS upgrade insight '' @ quote (ins_Name ins) @ '' reports UNKNOWN ''
                    @ ''for Kubernetes '' @ version @ ''. Treat this as AWS-native context ''
                    @ ''and verify with a fresh scan before upgrade.'')
              else (''EKS upgrade insight '' @ quote (ins_Name ins) @ '' reports ''
                    @ ins_Status ins @ '' for Kubernetes '' @ version @ ''. Review AWS ''
                    @ ''recommendation before starting the EKS control-plane upgrade.'')),
           f_Resources := [insight_reference ins],
           f_Evidence := insight_evidence ins version,
           f_Remediation :=
             firstNonEmpty [ins_Recommendation ins,
               (''Review this AWS-native EKS Upgrade Insight in Amazon EKS and confirm with ''
                @ ''KubePreflight'' @ sq @ ''s local findings before upgrading.'')]
             @ nl @ nl @ eksInsightFreshnessNote,
           f_RemediationDetail := Some (empty_detail
             \<lparr>rem_SafeFix := Some (action ''Inspect EKS Upgrade Insight''
                [(''Review the AWS-native EKS Upgrade Insight and any ''
                  @ ''recommendation/details returned by Amazon EKS.'')]
                (describeInsightCommand ins)),
              rem_VerifyCommand := describeInsightCommand ins\<rparr>),
           f_Fingerprint := FingerprintV2 ruleID targetVersion '''' [insight_reference ins]\<rparr>)"

definition eksInsightFindings ::
  "ScanContext option \<Rightarrow> string \<Rightarrow> string \<Rightarrow> Severity \<Rightarrow> string \<Rightarrow> rule_outcome" where
  "eksInsightFindings sc targetVersion status severity ruleID =
     with_aws sc (\<lambda>s snap.
       map (\<lambda>ins. eksInsightFinding ruleID severity ins targetVersion)
         (filter (\<lambda>ins. ins_Status ins = status) (aws_Insights snap)))"

definition EKSINSIGHT001_Evaluate :: "ScanContext option \<Rightarrow> string \<Rightarrow> rule_outcome" where
  "EKSINSIGHT001_Evaluate sc targetVersion =
     eksInsightFindings sc targetVersion ''ERROR'' SeverityWarning ''EKS-INSIGHT-001''"

definition EKSINSIGHT002_Evaluate :: "ScanContext option \<Rightarrow> string \<Rightarrow> rule_outcome" where
  "EKSINSIGHT002_Evaluate sc targetVersion =
     eksInsightFindings sc targetVersion ''WARNING'' SeverityWarning ''EKS-INSIGHT-002''"

definition EKSINSIGHT003_Evaluate :: "ScanContext option \<Rightarrow> string \<Rightarrow> rule_outcome" where
  "EKSINSIGHT003_Evaluate sc targetVersion =
     eksInsightFindings sc targetVersion ''UNKNOWN'' SeverityInfo ''EKS-INSIGHT-003''"

end
