(* ===== verification/RulesDrain.thy ===== *)
theory RulesDrain
  imports RulesNode
begin

text \<open>
  The drain-readiness rules on single replicas and node-local storage: DRAIN-001
  (\<open>drain001.go\<close>) and DRAIN-002 (\<open>drain002.go\<close>). The rules on scheduling, capacity and
  rollout health are in \<open>RulesSchedule\<close>.
\<close>

section \<open>DRAIN-001\<close>

definition matchingPodNames ::
  "kube_lib \<Rightarrow> K8sSnapshot \<Rightarrow> string \<Rightarrow> LabelSelector option \<Rightarrow> string list" where
  "matchingPodNames lib snap namespace selector =
     (case selector of
        None \<Rightarrow> []
      | Some sel \<Rightarrow>
          if \<not> lib_valid_selector lib sel then []
          else sort_strings (map pod_Name (filter (\<lambda>pod. pod_Namespace pod = namespace
                 \<and> isLiveWorkloadPod pod \<and> lib_matches lib sel (pod_Labels pod)) (k_Pods snap))))"

definition pdb_covers ::
  "kube_lib \<Rightarrow> K8sSnapshot \<Rightarrow> string \<Rightarrow> LabelSelector \<Rightarrow> PodDisruptionBudget \<Rightarrow> bool" where
  \<comment> \<open>the budget's selector and the workload's match a common live pod\<close>
  "pdb_covers lib snap namespace workloadSel pdb \<longleftrightarrow>
     pdb_Namespace pdb = namespace
     \<and> (case pdb_Selector pdb of
          None \<Rightarrow> False
        | Some pdbSel \<Rightarrow>
            lib_valid_selector lib pdbSel
            \<and> list_ex (\<lambda>pod. pod_Namespace pod = namespace \<and> isLiveWorkloadPod pod
                \<and> lib_matches lib workloadSel (pod_Labels pod)
                \<and> lib_matches lib pdbSel (pod_Labels pod)) (k_Pods snap))"

definition matchingPDBNames ::
  "kube_lib \<Rightarrow> K8sSnapshot \<Rightarrow> string \<Rightarrow> LabelSelector option \<Rightarrow> string list" where
  "matchingPDBNames lib snap namespace selector =
     (case selector of
        None \<Rightarrow> []
      | Some sel \<Rightarrow>
          if \<not> lib_valid_selector lib sel then []
          else sort_strings (map pdb_Name
                 (filter (pdb_covers lib snap namespace sel) (k_PodDisruptionBudgets snap))))"

record drain001Params =
  d1_Kind :: string
  d1_Meta :: ObjectMeta
  d1_DesiredReplicas :: int
  d1_ReadyReplicas :: int
  d1_AvailableReplicas :: int
  d1_RolloutStrategy :: string
  d1_PDBNames :: "string list"
  d1_AffectedPods :: "string list"

definition drain001_impacts :: "ImpactScope list" where
  "drain001_impacts =
     [ImpactWorkerRollout, ImpactNodeDrain, ImpactWorkloadRestart, ImpactCurrentHealth]"

definition drain001Finding :: "drain001Params \<Rightarrow> string \<Rightarrow> Finding" where
  "drain001Finding p targetVersion =
     (let pdbs = Join (d1_PDBNames p) '', '';
          namespace = om_Namespace (d1_Meta p); name = om_Name (d1_Meta p);
          pdbNote = (if length (d1_PDBNames p) > 0
            then (''protected by PodDisruptionBudget(s) '' @ pdbs @ '', which governs ''
                  @ ''whether eviction is currently permitted but does not add replacement ''
                  @ ''capacity'')
            else ''no PodDisruptionBudget protects this workload'');
          ref = LiveResource (d1_Kind p) ScopeNamespaced namespace name (om_UID (d1_Meta p))
      in empty_finding\<lparr>f_RuleID := ''DRAIN-001'', f_Severity := SeverityWarning,
           f_Confidence := TierStaticCertain,
           f_Message := (d1_Kind p @ '' '' @ namespace @ ''/'' @ name @ '' runs a single ''
                         @ ''replica (desired: '' @ show_int (d1_DesiredReplicas p)
                         @ '', ready: '' @ show_int (d1_ReadyReplicas p) @ '', available: ''
                         @ show_int (d1_AvailableReplicas p) @ '') '' @ emdash
                         @ '' when its pod is evicted (node drain, node upgrade, or any ''
                         @ ''voluntary disruption), this workload has zero available ''
                         @ ''replicas until a replacement schedules and becomes Ready ''
                         @ ''elsewhere; '' @ pdbNote),
           f_Resources := [ref],
           f_Evidence :=
             [(''desired replicas: '' @ show_int (d1_DesiredReplicas p)),
              (''ready replicas: '' @ show_int (d1_ReadyReplicas p)),
              (''available replicas: '' @ show_int (d1_AvailableReplicas p)),
              (''rollout strategy: '' @ d1_RolloutStrategy p)]
             @ (if length (d1_PDBNames p) > 0 then [(''PodDisruptionBudget(s): '' @ pdbs)]
                else [''PodDisruptionBudget(s): none''])
             @ (if length (d1_AffectedPods p) > 0
                then [(''affected pod(s): '' @ (Join (d1_AffectedPods p) '', ''))] else []),
           f_Remediation := (''Increase replicas to create real eviction headroom (a ''
                             @ ''healthy PDB alone doesn'' @ sq @ ''t prevent the capacity ''
                             @ ''gap), or explicitly accept single-replica downtime for ''
                             @ ''this workload and document it. If this workload can'' @ sq
                             @ ''t run multiple replicas (e.g. a singleton controller with ''
                             @ ''leader election), consider a PodDisruptionBudget with ''
                             @ ''minAvailable: 0 combined with a documented manual ''
                             @ ''coordination process for drains.''),
           f_ImpactScopes := drain001_impacts,
           f_Fingerprint := FingerprintV2 ''DRAIN-001'' targetVersion '''' [ref]\<rparr>)"

definition strategy_or_default :: "string \<Rightarrow> string" where
  "strategy_or_default strategy = (if strategy = '''' then ''RollingUpdate'' else strategy)"

definition drain001_workload_finding ::
  "kube_lib \<Rightarrow> K8sSnapshot \<Rightarrow> string \<Rightarrow> Workload \<Rightarrow> string \<Rightarrow> string \<Rightarrow> Finding" where
  "drain001_workload_finding lib snap kind w strategy targetVersion =
     drain001Finding
       \<lparr>d1_Kind = kind, d1_Meta = wl_meta w, d1_DesiredReplicas = 1,
        d1_ReadyReplicas = wl_ReadyReplicas w, d1_AvailableReplicas = wl_AvailableReplicas w,
        d1_RolloutStrategy = strategy,
        d1_PDBNames = matchingPDBNames lib snap (wl_Namespace w) (wl_Selector w),
        d1_AffectedPods = matchingPodNames lib snap (wl_Namespace w) (wl_Selector w)\<rparr>
       targetVersion"

definition drain001DeploymentFinding ::
  "kube_lib \<Rightarrow> K8sSnapshot \<Rightarrow> string \<Rightarrow> Workload \<Rightarrow> Finding" where
  "drain001DeploymentFinding lib snap targetVersion d =
     drain001_workload_finding lib snap ''Deployment'' d (strategy_or_default (wl_Strategy d))
       targetVersion"

definition drain001StatefulSetFinding ::
  "kube_lib \<Rightarrow> K8sSnapshot \<Rightarrow> string \<Rightarrow> Workload \<Rightarrow> Finding" where
  "drain001StatefulSetFinding lib snap targetVersion sts =
     (let strategy = strategy_or_default (wl_Strategy sts)
      in drain001_workload_finding lib snap ''StatefulSet'' sts
           (if wl_PodManagementPolicy sts \<noteq> ''''
            then (strategy @ '' (podManagementPolicy: '' @ wl_PodManagementPolicy sts @ '')'')
            else strategy) targetVersion)"

definition drain001ManifestFinding :: "string \<Rightarrow> WorkloadObject \<Rightarrow> Finding" where
  "drain001ManifestFinding targetVersion obj =
     (let resourceLabel = node003ResourceLabel (wo_Namespace obj) (wo_Name obj);
          ref = ManifestResource (wo_Kind obj) ScopeNamespaced (wo_Namespace obj) (wo_Name obj)
                  (wo_SourcePath obj)
      in empty_finding\<lparr>f_RuleID := ''DRAIN-001'', f_Severity := SeverityWarning,
           f_Confidence := TierStaticCertain,
           f_Message := (wo_Kind obj @ '' '' @ quote resourceLabel @ '' (''
                         @ wo_SourcePath obj @ '') declares a single replica '' @ emdash
                         @ '' when its pod is evicted (node drain, node upgrade, or any ''
                         @ ''voluntary disruption), this workload has zero available ''
                         @ ''replicas until a replacement schedules and becomes Ready ''
                         @ ''elsewhere. This is a manifest-plane finding: live replica ''
                         @ ''status and PodDisruptionBudget relationship aren'' @ sq
                         @ ''t available for a not-yet-applied manifest.''),
           f_Resources := [ref],
           f_ImpactScopes := drain001_impacts,
           f_Evidence := [''desired replicas: 1 (spec.replicas explicit or unset default)'',
             (''source: '' @ wo_SourcePath obj)],
           f_Remediation := (''Increase replicas to create real eviction headroom before ''
                             @ ''this manifest is applied, or explicitly accept ''
                             @ ''single-replica downtime for this workload and document it.''),
           f_Fingerprint := FingerprintV2 ''DRAIN-001'' targetVersion '''' [ref]\<rparr>)"

definition to_int32 :: "int \<Rightarrow> int" where
  \<comment> \<open>the conversion \<open>int32(x)\<close> of an \<open>int64\<close> keeps the low 32 bits\<close>
  "to_int32 x = (x + 2 ^ 31) mod 2 ^ 32 - 2 ^ 31"

definition singleton_live :: "Workload \<Rightarrow> bool" where
  "singleton_live w \<longleftrightarrow>
     \<not> wl_DeletionTimestamp w \<noteq> None \<and> isSingletonReplicaCount (wl_Replicas w)"

definition singleton_manifest :: "WorkloadObject \<Rightarrow> bool" where
  "singleton_manifest obj \<longleftrightarrow>
     (wo_Kind obj = ''Deployment'' \<or> wo_Kind obj = ''StatefulSet'')
     \<and> isSingletonReplicaCount (map_option to_int32 (wo_Replicas obj))"

definition DRAIN001_Evaluate :: "kube_lib \<Rightarrow> ScanContext option \<Rightarrow> string \<Rightarrow> rule_outcome" where
  "DRAIN001_Evaluate lib sc targetVersion =
     (case sc of
        None \<Rightarrow> Returned [] None
      | Some s \<Rightarrow>
          Returned (by_fingerprint
            ((case sc_K8s s of
                None \<Rightarrow> []
              | Some snap \<Rightarrow>
                  map (drain001DeploymentFinding lib snap targetVersion)
                    (filter singleton_live (k_Deployments snap))
                  @ map (drain001StatefulSetFinding lib snap targetVersion)
                      (filter singleton_live (k_StatefulSets snap)))
             @ (case sc_ManifestSnapshot s of
                  None \<Rightarrow> []
                | Some m \<Rightarrow>
                    map (drain001ManifestFinding targetVersion)
                      (filter singleton_manifest (m_Workloads m))))) None)"

section \<open>DRAIN-002\<close>

definition drainHostnameLabel :: string where
  "drainHostnameLabel = ''kubernetes.io/hostname''"

definition drain002NodeLabel :: "string \<Rightarrow> string" where
  "drain002NodeLabel nodeName =
     (if nodeName = '''' then ''unknown (could not be determined from current state)'' else nodeName)"

definition ownerMatchesWorkload :: "OwnerReference \<Rightarrow> string \<Rightarrow> string \<Rightarrow> bool" where
  "ownerMatchesWorkload owner kind name \<longleftrightarrow> own_Kind owner = kind \<and> own_Name owner = name"

definition owned_by :: "string \<Rightarrow> string \<Rightarrow> OwnerReference \<Rightarrow> bool" where
  \<comment> \<open>by the workload, or by a ReplicaSet named after the Deployment\<close>
  "owned_by kind name owner \<longleftrightarrow>
     ownerMatchesWorkload owner kind name
     \<or> (kind = ''Deployment'' \<and> own_Kind owner = ''ReplicaSet''
        \<and> HasPrefix (own_Name owner) (name @ ''-''))"

definition drain002RunningNodeName :: "K8sSnapshot \<Rightarrow> string \<Rightarrow> string \<Rightarrow> string \<Rightarrow> string" where
  "drain002RunningNodeName snap namespace name kind =
     (case find (\<lambda>pod. pod_Namespace pod = namespace \<and> ps_NodeName (pod_Spec pod) \<noteq> ''''
                    \<and> isLiveWorkloadPod pod
                    \<and> list_ex (owned_by kind name) (pod_OwnerReferences pod)) (k_Pods snap) of
        Some pod \<Rightarrow> ps_NodeName (pod_Spec pod)
      | None \<Rightarrow> '''')"

definition findPVC :: "K8sSnapshot \<Rightarrow> string \<Rightarrow> string \<Rightarrow> PersistentVolumeClaim option" where
  "findPVC snap namespace name =
     find (\<lambda>pvc. pvc_Namespace pvc = namespace \<and> pvc_Name pvc = name)
       (k_PersistentVolumeClaims snap)"

definition findPV :: "K8sSnapshot \<Rightarrow> string \<Rightarrow> PersistentVolume option" where
  "findPV snap name = find (\<lambda>pv. pv_Name pv = name) (k_PersistentVolumes snap)"

definition pins_hostname :: "NodeSelectorRequirement \<Rightarrow> bool" where
  "pins_hostname expr \<longleftrightarrow>
     nsr_Key expr = drainHostnameLabel \<and> nsr_Operator expr = ''In'' \<and> length (nsr_Values expr) = 1"

text \<open>\<open>pvPinnedNodeName\<close>: \<open>None\<close> is \<open>pinned = false\<close>; the name may be unknown.\<close>

definition pvPinnedNodeName :: "PersistentVolume \<Rightarrow> string option" where
  "pvPinnedNodeName pv =
     (let otherwise = (if pv_Local pv then Some '''' else None)
      in case pv_NodeAffinity pv of
           None \<Rightarrow> otherwise
         | Some None \<Rightarrow> otherwise
         | Some (Some terms) \<Rightarrow>
             (case find pins_hostname (concat (map nst_MatchExpressions terms)) of
                Some expr \<Rightarrow> Some (hd (nsr_Values expr))
              | None \<Rightarrow> otherwise))"

record drain002LocalPV =
  lp_claimName :: string
  lp_pvName :: string
  lp_nodeName :: string

definition local_pv_of :: "K8sSnapshot \<Rightarrow> string \<Rightarrow> Volume \<Rightarrow> drain002LocalPV option" where
  \<comment> \<open>the body of the loop over the volumes\<close>
  "local_pv_of snap namespace v =
     (case vol_PVC v of
        None \<Rightarrow> None
      | Some claim \<Rightarrow>
          (case findPVC snap namespace claim of
             None \<Rightarrow> None
           | Some pvc \<Rightarrow>
               if pvc_VolumeName pvc = '''' then None
               else case findPV snap (pvc_VolumeName pvc) of
                      None \<Rightarrow> None
                    | Some pv \<Rightarrow>
                        map_option (\<lambda>nodeName. \<lparr>lp_claimName = claim, lp_pvName = pv_Name pv,
                                                lp_nodeName = nodeName\<rparr>) (pvPinnedNodeName pv)))"

definition drain002LocalPVVolumes ::
  "K8sSnapshot \<Rightarrow> string \<Rightarrow> Volume list \<Rightarrow> drain002LocalPV list" where
  "drain002LocalPVVolumes snap namespace volumes =
     List.map_filter (local_pv_of snap namespace) volumes"

definition drain002HostPathVolumes :: "Volume list \<Rightarrow> string list" where
  "drain002HostPathVolumes volumes =
     sort_strings (map vol_Name (filter (\<lambda>v. vol_HostPath v \<noteq> None) volumes))"

definition statefulSetSyntheticPVCVolumes :: "Workload \<Rightarrow> Volume list" where
  "statefulSetSyntheticPVCVolumes sts =
     (let replicas = (case wl_Replicas sts of Some r \<Rightarrow> r | None \<Rightarrow> 1)
      in concat (map (\<lambda>tmpl. map (\<lambda>ordinal.
             \<lparr>vol_Name = tmpl, vol_HostPath = None,
              vol_PVC = Some (tmpl @ ''-'' @ wl_Name sts @ ''-'' @ show_int (int ordinal))\<rparr>)
             [0..<nat replicas]) (wl_VolumeClaimTemplates sts)))"

definition drain002PresentSevereRisk :: "K8sSnapshot \<Rightarrow> bool \<Rightarrow> string \<Rightarrow> bool \<times> string" where
  "drain002PresentSevereRisk snap singleton nodeName =
     (if \<not> singleton \<or> nodeName = '''' then (False, '''')
      else case find (\<lambda>node. node_Name node = nodeName) (k_Nodes snap) of
             None \<Rightarrow> (False, '''')
           | Some node \<Rightarrow>
               if nodeIsReady node then (False, '''')
               else (True, ('' '' @ emdash @ '' node '' @ quote nodeName @ '' is currently ''
                            @ ''NotReady, so this is not a future risk but a present one'')))"

definition drain002ContextualSeverity :: "bool \<Rightarrow> UpgradeContext \<Rightarrow> Severity \<times> UpgradeGate" where
  "drain002ContextualSeverity severeRisk upgradeContext =
     (if \<not> severeRisk then (SeverityWarning, UpgradeGateAllow) else drainDependentGate upgradeContext)"

definition drain002Finding ::
  "string \<Rightarrow> ObjectMeta \<Rightarrow> string \<Rightarrow> Severity \<Rightarrow> string \<Rightarrow> string \<Rightarrow> string list \<Rightarrow> string
     \<Rightarrow> UpgradeGate \<Rightarrow> Finding" where
  "drain002Finding kind meta discriminator severity targetVersion message evidence remediation gate =
     (let ref = LiveResource kind ScopeNamespaced (om_Namespace meta) (om_Name meta) (om_UID meta)
      in empty_finding\<lparr>f_RuleID := ''DRAIN-002'', f_Severity := severity,
           f_Confidence := TierObserved, f_Message := message, f_Resources := [ref],
           f_Evidence := evidence, f_Remediation := remediation,
           f_ImpactScopes := [ImpactNodeDrain, ImpactWorkerRollout, ImpactWorkloadRestart,
             ImpactFutureMaintenance],
           f_UpgradeGate := gate,
           f_Fingerprint := FingerprintV2 ''DRAIN-002'' targetVersion discriminator [ref]\<rparr>)"

definition drain002LocalPVFinding ::
  "K8sSnapshot \<Rightarrow> string \<Rightarrow> ObjectMeta \<Rightarrow> drain002LocalPV list \<Rightarrow> bool \<Rightarrow> string \<Rightarrow> UpgradeContext
     \<Rightarrow> Finding" where
  "drain002LocalPVFinding snap kind meta unsortedPVs singleton targetVersion upgradeContext =
     (let localPVs = sort_by (\<lambda>a b. lp_claimName a < lp_claimName b) unsortedPVs;
          risks = map (\<lambda>lp. drain002PresentSevereRisk snap singleton (lp_nodeName lp)) localPVs;
          severeRisk = list_ex fst risks;
          note = Join (map snd (filter fst risks)) '''';
          (severity, gate) = drain002ContextualSeverity severeRisk upgradeContext
      in drain002Finding kind meta (''local-pv:'' @ Join (map lp_pvName localPVs) '','') severity
           targetVersion
           (kind @ '' '' @ om_Namespace meta @ ''/'' @ om_Name meta @ '' uses ''
            @ show_int (int (length localPVs)) @ '' PersistentVolumeClaim(s) bound to ''
            @ ''node-pinned PersistentVolume(s) '' @ emdash @ '' node drain, worker-node ''
            @ ''replacement, or pod restart requires affected replacement pod(s) to land ''
            @ ''back on the exact same node'' @ note)
           (map (\<lambda>lp. (''PersistentVolumeClaim: '' @ lp_claimName lp
                               @ '' -> PersistentVolume: '' @ lp_pvName lp
                               @ '' (pinned node: '' @ (drain002NodeLabel (lp_nodeName lp))
                               @ '')'')) localPVs)
           (''Migrate to a networked/replicated storage class if this data needs to survive ''
            @ ''the node being removed. If node-local storage is intentional, document that ''
            @ ''this workload can'' @ sq @ ''t be safely drained from its pinned node(s) ''
            @ ''without manual data migration.'')
           gate)"

definition drain002HostPathFinding ::
  "K8sSnapshot \<Rightarrow> string \<Rightarrow> ObjectMeta \<Rightarrow> string list \<Rightarrow> bool \<Rightarrow> string \<Rightarrow> UpgradeContext \<Rightarrow> Finding" where
  "drain002HostPathFinding snap kind meta hostPaths singleton targetVersion upgradeContext =
     (let nodeName = drain002RunningNodeName snap (om_Namespace meta) (om_Name meta) kind;
          (severe, note) = drain002PresentSevereRisk snap singleton nodeName;
          (severity, gate) = drain002ContextualSeverity severe upgradeContext
      in drain002Finding kind meta ''hostpath'' severity targetVersion
           (kind @ '' '' @ om_Namespace meta @ ''/'' @ om_Name meta @ '' uses hostPath ''
            @ ''volume(s) ('' @ (Join hostPaths '', '') @ '') '' @ emdash @ '' this pod'' @ sq
            @ ''s data exists only on whichever node it currently runs on; node drain, ''
            @ ''worker-node replacement, or pod restart can strand that data or require the ''
            @ ''replacement pod to land back on the exact same node'' @ note)
           [(''hostPath volume(s): '' @ (Join hostPaths '', '')),
            (''currently running on node: '' @ drain002NodeLabel nodeName)]
           (''Migrate to a networked/replicated storage class (or a topology-aware CSI ''
            @ ''driver) if the data needs to survive the pod moving to a different node. If ''
            @ ''hostPath is intentional (e.g. accessing node-local state by design), ''
            @ ''document that this workload is pinned to its current node and can'' @ sq
            @ ''t be safely drained without manual coordination.'')
           gate)"

definition drain002Evaluate ::
  "K8sSnapshot \<Rightarrow> string \<Rightarrow> ObjectMeta \<Rightarrow> Volume list \<Rightarrow> bool \<Rightarrow> string \<Rightarrow> UpgradeContext
     \<Rightarrow> Finding list" where
  "drain002Evaluate snap kind meta volumes singleton targetVersion upgradeContext =
     (let hostPaths = drain002HostPathVolumes volumes;
          localPVs = drain002LocalPVVolumes snap (om_Namespace meta) volumes
      in (if length hostPaths > 0
          then [drain002HostPathFinding snap kind meta hostPaths singleton targetVersion upgradeContext]
          else [])
         @ (if length localPVs > 0
            then [drain002LocalPVFinding snap kind meta localPVs singleton targetVersion upgradeContext]
            else []))"

definition DRAIN002_Evaluate :: "ScanContext option \<Rightarrow> string \<Rightarrow> rule_outcome" where
  "DRAIN002_Evaluate sc targetVersion =
     with_k8s_checked sc (\<lambda>s snap.
       by_fingerprint
         (concat (map (\<lambda>d. drain002Evaluate snap ''Deployment'' (wl_meta d)
              (ps_Volumes (wl_PodSpec d)) (isSingletonReplicaCount (wl_Replicas d)) targetVersion
              (scanUpgradeContext sc))
            (filter (\<lambda>d. wl_DeletionTimestamp d = None) (k_Deployments snap)))
          @ concat (map (\<lambda>sts. drain002Evaluate snap ''StatefulSet'' (wl_meta sts)
              (ps_Volumes (wl_PodSpec sts) @ statefulSetSyntheticPVCVolumes sts)
              (isSingletonReplicaCount (wl_Replicas sts)) targetVersion (scanUpgradeContext sc))
            (filter (\<lambda>sts. wl_DeletionTimestamp sts = None) (k_StatefulSets snap)))))"

end
