(* ===== verification/RulesSchedule.thy ===== *)
theory RulesSchedule
  imports RulesDrain
begin

text \<open>
  The rules on scheduling constraints (DRAIN-003, \<open>drain003.go\<close>), on spare capacity
  (DRAIN-004, \<open>drain004.go\<close>), on rollout health (DRAIN-005, \<open>drain005.go\<close>) and on unhealthy
  pods (WORKLOAD-001, \<open>workload001.go\<close>). The 64-bit sums of milli-CPUs and bytes of DRAIN-004
  are unbounded integers here; the clock WORKLOAD-001 reads is the argument \<open>now\<close>.
\<close>

section \<open>DRAIN-003: the nodes a pod may run on\<close>

definition required_terms :: "PodSpec \<Rightarrow> NodeSelectorTerm list" where
  "required_terms spec =
     (case ps_Affinity spec of
        None \<Rightarrow> []
      | Some af \<Rightarrow>
          (case af_NodeAffinity af of
             None \<Rightarrow> []
           | Some na \<Rightarrow> (case na_Required na of None \<Rightarrow> [] | Some terms \<Rightarrow> terms)))"

definition hasRequiredNodeAffinity :: "PodSpec \<Rightarrow> bool" where
  "hasRequiredNodeAffinity spec \<longleftrightarrow> length (required_terms spec) > 0"

definition drainHostnameTopologyKey :: string where
  "drainHostnameTopologyKey = ''kubernetes.io/hostname''"

definition hasHostnameAntiAffinity :: "PodSpec \<Rightarrow> bool" where
  "hasHostnameAntiAffinity spec \<longleftrightarrow>
     (case ps_Affinity spec of
        None \<Rightarrow> False
      | Some af \<Rightarrow>
          (case af_PodAntiAffinity af of
             None \<Rightarrow> False | Some keys \<Rightarrow> drainHostnameTopologyKey \<in> set keys))"

definition doNotScheduleConstraint :: "PodSpec \<Rightarrow> TopologySpreadConstraint option" where
  "doNotScheduleConstraint spec =
     find (\<lambda>tsc. tsc_WhenUnsatisfiable tsc = ''DoNotSchedule'') (ps_TopologySpreadConstraints spec)"

definition nodeMatchesSelector :: "Node \<Rightarrow> labels \<Rightarrow> bool" where
  "nodeMatchesSelector node selector \<longleftrightarrow>
     list_all (\<lambda>(k, v). label_value (node_Labels node) k = v) selector"

definition nodeMatchesExpression :: "Node \<Rightarrow> NodeSelectorRequirement \<Rightarrow> bool" where
  "nodeMatchesExpression node expr \<longleftrightarrow>
     (let found = map_of (node_Labels node) (nsr_Key expr);
          present = (found \<noteq> None);
          listed = (case found of Some v \<Rightarrow> v \<in> set (nsr_Values expr) | None \<Rightarrow> False)
      in if nsr_Operator expr = ''In'' then present \<and> listed
         else if nsr_Operator expr = ''NotIn'' then \<not> present \<or> \<not> listed
         else if nsr_Operator expr = ''Exists'' then present
         else if nsr_Operator expr = ''DoesNotExist'' then \<not> present
         else False)"

definition nodeMatchesSelectorTerm :: "Node \<Rightarrow> NodeSelectorTerm \<Rightarrow> bool" where
  "nodeMatchesSelectorTerm node term \<longleftrightarrow>
     list_all (nodeMatchesExpression node) (nst_MatchExpressions term)"

definition nodeMatchesRequiredAffinity :: "Node \<Rightarrow> NodeSelectorTerm list \<Rightarrow> bool" where
  "nodeMatchesRequiredAffinity node terms \<longleftrightarrow> list_ex (nodeMatchesSelectorTerm node) terms"

definition nodeToleratesTaints :: "kube_lib \<Rightarrow> Node \<Rightarrow> Toleration list \<Rightarrow> bool" where
  "nodeToleratesTaints lib node tolerations \<longleftrightarrow>
     list_all (\<lambda>taint. list_ex (\<lambda>t. lib_tolerates lib t taint) tolerations) (node_Taints node)"

definition qualifies :: "kube_lib \<Rightarrow> PodSpec \<Rightarrow> Node \<Rightarrow> bool" where
  "qualifies lib spec node \<longleftrightarrow>
     nodeMatchesSelector node (ps_NodeSelector spec)
     \<and> \<not> (hasRequiredNodeAffinity spec
          \<and> \<not> nodeMatchesRequiredAffinity node (required_terms spec))
     \<and> nodeToleratesTaints lib node (ps_Tolerations spec)"

definition qualifyingNodes :: "kube_lib \<Rightarrow> K8sSnapshot \<Rightarrow> PodSpec \<Rightarrow> Node list" where
  "qualifyingNodes lib snap spec = filter (qualifies lib spec) (k_Nodes snap)"

definition nodeNames :: "Node list \<Rightarrow> string list" where
  "nodeNames nodes = sort_strings (map node_Name nodes)"

definition nodeListOrNone :: "string list \<Rightarrow> string" where
  "nodeListOrNone names = (if length names = 0 then ''none'' else Join names '', '')"

definition host_ports_of :: "PodSpec \<Rightarrow> int list" where
  "host_ports_of spec = filter (\<lambda>p. p \<noteq> 0) (concat (map ct_HostPorts (ps_Containers spec)))"

definition hostPorts :: "PodSpec \<Rightarrow> int list" where
  "hostPorts spec = sort (host_ports_of spec)"

text \<open>\<open>hostPortsByNode(snap)[node][port]\<close>.\<close>

definition hostPortsByNode :: "K8sSnapshot \<Rightarrow> string \<Rightarrow> int \<Rightarrow> bool" where
  "hostPortsByNode snap node port \<longleftrightarrow>
     list_ex (\<lambda>pod. ps_NodeName (pod_Spec pod) \<noteq> '''' \<and> isLiveWorkloadPod pod
                \<and> ps_NodeName (pod_Spec pod) = node \<and> port \<in> set (host_ports_of (pod_Spec pod)))
       (k_Pods snap)"

section \<open>DRAIN-003: the four findings\<close>

definition drain003Finding ::
  "string \<Rightarrow> ObjectMeta \<Rightarrow> string \<Rightarrow> string \<Rightarrow> string \<Rightarrow> string list \<Rightarrow> string \<Rightarrow> Finding" where
  "drain003Finding kind meta discriminator targetVersion message evidence remediation =
     (let ref = LiveResource kind ScopeNamespaced (om_Namespace meta) (om_Name meta) (om_UID meta)
      in empty_finding\<lparr>f_RuleID := ''DRAIN-003'', f_Severity := SeverityWarning,
           f_Confidence := TierObserved, f_Message := message, f_Resources := [ref],
           f_Evidence := evidence, f_Remediation := remediation,
           f_ImpactScopes := [ImpactWorkerRollout, ImpactNodeDrain, ImpactWorkloadRestart],
           f_Fingerprint := FingerprintV2 ''DRAIN-003'' targetVersion discriminator [ref]\<rparr>)"

definition drain003ScarcityFinding ::
  "kube_lib \<Rightarrow> K8sSnapshot \<Rightarrow> string \<Rightarrow> ObjectMeta \<Rightarrow> PodSpec \<Rightarrow> string \<Rightarrow> Finding option" where
  "drain003ScarcityFinding lib snap kind meta spec targetVersion =
     (let qualifying = qualifyingNodes lib snap spec;
          names = nodeListOrNone (nodeNames qualifying)
      in if length (ps_NodeSelector spec) = 0 \<and> \<not> hasRequiredNodeAffinity spec then None
         else if length qualifying > 1 then None
         else Some (drain003Finding kind meta ''scarcity'' targetVersion
           (kind @ '' '' @ om_Namespace meta @ ''/'' @ om_Name meta
            @ '' has a nodeSelector/required nodeAffinity satisfied by only ''
            @ show_int (int (length qualifying)) @ '' node(s) in this cluster today (''
            @ names @ '') '' @ emdash @ '' if that node is drained, no other ''
            @ ''currently-known node can host a replacement pod'')
           [(''qualifying node(s): '' @ names)]
           (''Label additional nodes to match this workload'' @ sq
            @ ''s nodeSelector/nodeAffinity (and taint them consistently if tolerations are ''
            @ ''also required), or relax the constraint if it'' @ sq @ ''s broader than ''
            @ ''actually needed.'')))"

definition drain003AntiAffinityFinding ::
  "kube_lib \<Rightarrow> K8sSnapshot \<Rightarrow> string \<Rightarrow> ObjectMeta \<Rightarrow> PodSpec \<Rightarrow> int \<Rightarrow> string
     \<Rightarrow> Finding option" where
  "drain003AntiAffinityFinding lib snap kind meta spec replicas targetVersion =
     (let qualifying = qualifyingNodes lib snap spec;
          names = nodeListOrNone (nodeNames qualifying)
      in if \<not> hasHostnameAntiAffinity spec then None
         else if int (length qualifying) > replicas then None
         else Some (drain003Finding kind meta ''anti-affinity'' targetVersion
           (kind @ '' '' @ om_Namespace meta @ ''/'' @ om_Name meta
            @ '' requires one-pod-per-node anti-affinity with '' @ show_int replicas
            @ '' desired replica(s), but only '' @ show_int (int (length qualifying))
            @ '' node(s) qualify to run it ('' @ names @ '') '' @ emdash @ '' there'' @ sq
            @ ''s no spare node for a replacement pod to land on without violating ''
            @ ''anti-affinity during a drain'')
           [(''desired replicas: '' @ show_int replicas), (''qualifying node(s): '' @ names)]
           (''Add spare qualifying nodes (at least one more than desired replicas), or ''
            @ ''relax the anti-affinity rule if strict one-per-node placement isn'' @ sq
            @ ''t actually required.'')))"

definition topology_domains :: "Node list \<Rightarrow> string \<Rightarrow> string list" where
  \<comment> \<open>the keys of the set \<open>domains\<close>\<close>
  "topology_domains nodes key =
     remdups (List.map_filter (\<lambda>n. map_of (node_Labels n) key) nodes)"

definition drain003TopologySpreadFinding ::
  "kube_lib \<Rightarrow> K8sSnapshot \<Rightarrow> string \<Rightarrow> ObjectMeta \<Rightarrow> PodSpec \<Rightarrow> string \<Rightarrow> Finding option" where
  "drain003TopologySpreadFinding lib snap kind meta spec targetVersion =
     (case doNotScheduleConstraint spec of
        None \<Rightarrow> None
      | Some tsc \<Rightarrow>
          let domains = int (length (topology_domains (qualifyingNodes lib snap spec)
                                       (tsc_TopologyKey tsc)))
          in if domains > 1 then None
             else Some (drain003Finding kind meta ''topology-spread'' targetVersion
               (kind @ '' '' @ om_Namespace meta @ ''/'' @ om_Name meta
                @ '' has a topologySpreadConstraint (topologyKey: '' @ tsc_TopologyKey tsc
                @ '', whenUnsatisfiable: DoNotSchedule) whose qualifying nodes all fall ''
                @ ''into '' @ show_int domains @ '' topology domain '' @ emdash @ '' there''
                @ sq @ ''s no second domain for a replacement pod to land in without ''
                @ ''breaching maxSkew during a drain'')
               [(''topologyKey: '' @ tsc_TopologyKey tsc), (''distinct domains among ''
                                                            @ ''qualifying nodes: ''
                                                            @ show_int domains)]
               (''Add qualifying nodes in at least one more topology domain, or relax ''
                @ ''whenUnsatisfiable to ScheduleAnyway if a temporarily imbalanced ''
                @ ''placement is acceptable.'')))"

definition free_elsewhere :: "K8sSnapshot \<Rightarrow> string \<Rightarrow> int \<Rightarrow> bool" where
  "free_elsewhere snap currentNode port \<longleftrightarrow>
     list_ex (\<lambda>node. node_Name node \<noteq> currentNode \<and> \<not> hostPortsByNode snap (node_Name node) port)
       (k_Nodes snap)"

definition drain003HostPortFinding ::
  "K8sSnapshot \<Rightarrow> string \<Rightarrow> ObjectMeta \<Rightarrow> PodSpec \<Rightarrow> string \<Rightarrow> Finding option" where
  "drain003HostPortFinding snap kind meta spec targetVersion =
     (let currentNode = drain002RunningNodeName snap (om_Namespace meta) (om_Name meta) kind;
          conflicts = map show_int (filter (\<lambda>port. \<not> free_elsewhere snap currentNode port
                        \<and> length (k_Nodes snap) > 0) (hostPorts spec))
      in if length (hostPorts spec) = 0 then None
         else if length conflicts = 0 then None
         else Some (drain003Finding kind meta (''hostport:'' @ Join conflicts '','') targetVersion
           (kind @ '' '' @ om_Namespace meta @ ''/'' @ om_Name meta
            @ '' reserves hostPort(s) '' @ (Join conflicts '', '') @ '', and every other ''
            @ ''live node already has a different pod bound to the same port '' @ emdash
            @ '' if this pod is evicted, it has nowhere else to schedule'')
           [(''hostPort(s) with no free alternate node: '' @ (Join conflicts '', '')),
            (''currently running on node: '' @ drain002NodeLabel currentNode)]
           (''Avoid hostPort if possible (use a Service/NodePort instead), or ensure enough ''
            @ ''nodes have this port free to absorb an evicted pod.'')))"

definition drain003Evaluate ::
  "kube_lib \<Rightarrow> K8sSnapshot \<Rightarrow> string \<Rightarrow> ObjectMeta \<Rightarrow> PodSpec \<Rightarrow> int \<Rightarrow> string \<Rightarrow> Finding list" where
  "drain003Evaluate lib snap kind meta spec replicas targetVersion =
     List.map_filter (\<lambda>f. f)
       [drain003ScarcityFinding lib snap kind meta spec targetVersion,
        drain003AntiAffinityFinding lib snap kind meta spec replicas targetVersion,
        drain003TopologySpreadFinding lib snap kind meta spec targetVersion,
        drain003HostPortFinding snap kind meta spec targetVersion]"

definition desired_replicas :: "Workload \<Rightarrow> int" where
  \<comment> \<open>an unset count is 1\<close>
  "desired_replicas w = (case wl_Replicas w of Some r \<Rightarrow> r | None \<Rightarrow> 1)"

definition drain003_workload :: "kube_lib \<Rightarrow> K8sSnapshot \<Rightarrow> string \<Rightarrow> string \<Rightarrow> Workload \<Rightarrow> Finding list" where
  "drain003_workload lib snap targetVersion kind w =
     (if wl_DeletionTimestamp w \<noteq> None then []
      else drain003Evaluate lib snap kind (wl_meta w) (wl_PodSpec w) (desired_replicas w) targetVersion)"

definition DRAIN003_Evaluate :: "kube_lib \<Rightarrow> ScanContext option \<Rightarrow> string \<Rightarrow> rule_outcome" where
  "DRAIN003_Evaluate lib sc targetVersion =
     with_k8s_checked sc (\<lambda>s snap.
       by_fingerprint
         (concat (map (drain003_workload lib snap targetVersion ''Deployment'') (k_Deployments snap))
          @ concat (map (drain003_workload lib snap targetVersion ''StatefulSet'')
              (k_StatefulSets snap))))"

section \<open>DRAIN-004\<close>

record resourceTotal =
  rt_cpuMilli :: int
  rt_memBytes :: int

definition rt_zero :: resourceTotal where "rt_zero = \<lparr>rt_cpuMilli = 0, rt_memBytes = 0\<rparr>"

definition rt_add :: "resourceTotal \<Rightarrow> resourceTotal \<Rightarrow> resourceTotal" where
  "rt_add a b = \<lparr>rt_cpuMilli = rt_cpuMilli a + rt_cpuMilli b,
                 rt_memBytes = rt_memBytes a + rt_memBytes b\<rparr>"

definition podRequests :: "Pod \<Rightarrow> resourceTotal \<times> bool" where
  "podRequests pod =
     foldl (\<lambda>(total, complete) c.
         case (ct_RequestCPU c, ct_RequestMemory c) of
           (Some cpu, Some mem) \<Rightarrow>
             (rt_add total \<lparr>rt_cpuMilli = cpu, rt_memBytes = mem\<rparr>, complete)
         | _ \<Rightarrow> (total, False))
       (rt_zero, True) (ps_Containers (pod_Spec pod))"

record nodeUsage =
  nu_allocatable :: resourceTotal
  nu_requested :: resourceTotal

text \<open>\<open>computeNodeUsage(snap)[name]\<close>: of two nodes of one name the later is kept.\<close>

definition computeNodeUsage :: "K8sSnapshot \<Rightarrow> string \<Rightarrow> nodeUsage" where
  "computeNodeUsage snap name =
     (case find (\<lambda>node. node_Name node = name) (rev (k_Nodes snap)) of
        None \<Rightarrow> \<lparr>nu_allocatable = rt_zero, nu_requested = rt_zero\<rparr>
      | Some node \<Rightarrow>
          \<lparr>nu_allocatable = \<lparr>rt_cpuMilli = node_AllocatableCPU node,
                            rt_memBytes = node_AllocatableMemory node\<rparr>,
           nu_requested = foldl (\<lambda>total pod. rt_add total (fst (podRequests pod))) rt_zero
             (filter (\<lambda>pod. ps_NodeName (pod_Spec pod) \<noteq> '''' \<and> isLiveWorkloadPod pod
                        \<and> ps_NodeName (pod_Spec pod) = name) (k_Pods snap))\<rparr>)"

definition podOwnedByDaemonSet :: "Pod \<Rightarrow> bool" where
  "podOwnedByDaemonSet pod \<longleftrightarrow>
     list_ex (\<lambda>owner. own_Kind owner = ''DaemonSet'') (pod_OwnerReferences pod)"

definition sum_demand :: "Pod list \<Rightarrow> resourceTotal \<times> int" where
  \<comment> \<open>the loop body: complete requests are added, incomplete pods counted\<close>
  "sum_demand pods =
     foldl (\<lambda>(total, missing) pod. case podRequests pod of
         (r, complete) \<Rightarrow> if complete then (rt_add total r, missing) else (total, missing + 1))
       (rt_zero, 0) pods"

definition displacedDemand :: "K8sSnapshot \<Rightarrow> string \<Rightarrow> resourceTotal \<times> int" where
  "displacedDemand snap nodeName =
     sum_demand (filter (\<lambda>pod. ps_NodeName (pod_Spec pod) = nodeName \<and> isLiveWorkloadPod pod
                            \<and> \<not> podOwnedByDaemonSet pod) (k_Pods snap))"

definition pendingPodDemand :: "K8sSnapshot \<Rightarrow> resourceTotal \<times> int" where
  "pendingPodDemand snap =
     sum_demand (filter (\<lambda>pod. ps_NodeName (pod_Spec pod) = '''' \<and> pod_Phase pod = ''Pending''
                            \<and> pod_DeletionTimestamp pod = None) (k_Pods snap))"

definition hasControlPlaneTaint :: "Node \<Rightarrow> bool" where
  "hasControlPlaneTaint node \<longleftrightarrow>
     list_ex (\<lambda>t. (taint_Key t = deprecatedMasterNodeLabel \<or> taint_Key t = replacementControlPlaneLabel)
                \<and> (taint_Effect t = ''NoSchedule'' \<or> taint_Effect t = ''NoExecute''))
       (node_Taints node)"

definition joinWithAnd :: "string list \<Rightarrow> string" where
  "joinWithAnd parts =
     (case parts of [] \<Rightarrow> '''' | [p] \<Rightarrow> p | p # q # _ \<Rightarrow> p @ ''; '' @ q)"

definition drain004Finding ::
  "kube_lib \<Rightarrow> Node \<Rightarrow> resourceTotal \<Rightarrow> resourceTotal \<Rightarrow> resourceTotal \<Rightarrow> bool \<Rightarrow> bool \<Rightarrow> int \<Rightarrow> string
     \<Rightarrow> Finding" where
  "drain004Finding lib node displaced pending spare shortageCPU shortageMem missingRequests targetVersion =
     (let milli = lib_milli_string lib; bytes = lib_bytes_string lib;
          total = rt_add displaced pending;
          shortageParts =
            (if shortageCPU
             then [(''CPU: need '' @ (milli (rt_cpuMilli total)) @ '', remaining nodes have ''
                    @ (milli (rt_cpuMilli spare)) @ '' spare'')]
             else [])
            @ (if shortageMem
               then [(''memory: need '' @ (bytes (rt_memBytes total)) @ '', remaining nodes ''
                      @ ''have '' @ (bytes (rt_memBytes spare)) @ '' spare'')]
               else []);
          coverageNote =
            (if missingRequests > 0
             then ('' ('' @ show_int missingRequests @ '' pod(s) with incomplete resource ''
                   @ ''requests were excluded from this estimate, so actual demand may be ''
                   @ ''higher)'')
             else '''')
      in empty_finding\<lparr>f_RuleID := ''DRAIN-004'', f_Severity := SeverityWarning,
           f_Confidence := TierInferred,
           f_Message := (''Node '' @ quote (node_Name node) @ '': if this node is removed, ''
                         @ ''its non-DaemonSet pods'' @ sq @ '' resource requests exceed ''
                         @ ''the estimated spare capacity of the remaining nodes '' @ emdash
                         @ '' '' @ joinWithAnd shortageParts @ coverageNote
                         @ ''. This is an aggregate estimate (not a scheduler simulation): ''
                         @ ''individual pods could still fail to find a single node with ''
                         @ ''enough of both resources even when totals look adequate ''
                         @ ''elsewhere''),
           f_Resources := [node_reference node],
           f_Evidence :=
             [(''displaced demand (this node'' @ sq @ ''s non-DaemonSet pods): CPU ''
               @ (milli (rt_cpuMilli displaced)) @ '', memory ''
               @ (bytes (rt_memBytes displaced))),
              (''pending/unscheduled demand: CPU '' @ (milli (rt_cpuMilli pending))
               @ '', memory '' @ (bytes (rt_memBytes pending))),
              (''estimated spare capacity on remaining nodes: CPU ''
               @ (milli (rt_cpuMilli spare)) @ '', memory '' @ (bytes (rt_memBytes spare)))]
             @ (if missingRequests > 0
                then [(''pods excluded from this estimate due to incomplete resource ''
                       @ ''requests: '' @ show_int missingRequests)]
                else []),
           f_Remediation := (''Add node capacity (or increase managed node group size) ''
                             @ ''before draining this node, or right-size workload requests ''
                             @ ''if they'' @ sq @ ''re overstated. This estimate uses ''
                             @ ''resource requests only, not actual usage, and assumes no ''
                             @ ''cluster autoscaler adds capacity -- if autoscaling is ''
                             @ ''configured, this may be a false alarm; verify against your ''
                             @ ''autoscaler'' @ sq @ ''s logs/events.''),
           f_ImpactScopes := [ImpactWorkerRollout, ImpactNodeDrain, ImpactCurrentHealth],
           f_Fingerprint := FingerprintV2 ''DRAIN-004'' targetVersion '''' [node_reference node]\<rparr>)"

definition absorbs :: "Node \<Rightarrow> Node \<Rightarrow> bool" where
  \<comment> \<open>a remaining node whose spare capacity counts\<close>
  "absorbs node other \<longleftrightarrow>
     \<not> (node_Name other = node_Name node \<or> \<not> nodeIsReady other \<or> node_Unschedulable other
        \<or> hasControlPlaneTaint other)"

definition spare_of :: "nodeUsage \<Rightarrow> resourceTotal" where
  "spare_of u =
     \<lparr>rt_cpuMilli = (if rt_cpuMilli (nu_allocatable u) > rt_cpuMilli (nu_requested u)
                     then rt_cpuMilli (nu_allocatable u) - rt_cpuMilli (nu_requested u) else 0),
      rt_memBytes = (if rt_memBytes (nu_allocatable u) > rt_memBytes (nu_requested u)
                     then rt_memBytes (nu_allocatable u) - rt_memBytes (nu_requested u) else 0)\<rparr>"

definition spareCapacity :: "K8sSnapshot \<Rightarrow> Node \<Rightarrow> resourceTotal" where
  \<comment> \<open>the inner loop\<close>
  "spareCapacity snap node =
     foldl (\<lambda>spare other. rt_add spare (spare_of (computeNodeUsage snap (node_Name other))))
       rt_zero (filter (absorbs node) (k_Nodes snap))"

definition drain004_node :: "kube_lib \<Rightarrow> K8sSnapshot \<Rightarrow> string \<Rightarrow> Node \<Rightarrow> Finding option" where
  \<comment> \<open>the body of the outer loop\<close>
  "drain004_node lib snap targetVersion node =
     (let (pendingDemand, pendingMissingRequests) = pendingPodDemand snap;
          (displaced, missingOnNode) = displacedDemand snap (node_Name node);
          total = rt_add displaced pendingDemand;
          spare = spareCapacity snap node;
          shortageCPU = (rt_cpuMilli total > rt_cpuMilli spare);
          shortageMem = (rt_memBytes total > rt_memBytes spare)
      in if \<not> nodeIsReady node \<or> node_Unschedulable node then None
         else if rt_cpuMilli displaced = 0 \<and> rt_memBytes displaced = 0 \<and> missingOnNode = 0 then None
         else if \<not> shortageCPU \<and> \<not> shortageMem then None
         else Some (drain004Finding lib node displaced pendingDemand spare shortageCPU shortageMem
                      (missingOnNode + pendingMissingRequests) targetVersion))"

definition DRAIN004_Evaluate :: "kube_lib \<Rightarrow> ScanContext option \<Rightarrow> string \<Rightarrow> rule_outcome" where
  "DRAIN004_Evaluate lib sc targetVersion =
     with_k8s_checked sc (\<lambda>s snap.
       if length (k_Nodes snap) < 2 then []
       else by_fingerprint (List.map_filter (drain004_node lib snap targetVersion) (k_Nodes snap)))"

section \<open>DRAIN-005\<close>

definition podManagementPolicyOrDefault :: "string \<Rightarrow> string" where
  "podManagementPolicyOrDefault p = (if p = '''' then ''OrderedReady (default)'' else p)"

definition isCriticalInfraName :: "string \<Rightarrow> bool" where
  "isCriticalInfraName name \<longleftrightarrow> name \<in> set node003CriticalComponentNames"

definition drain005_impacts :: "ImpactScope list" where
  "drain005_impacts =
     [ImpactCurrentHealth, ImpactWorkerRollout, ImpactNodeDrain, ImpactWorkloadRestart]"

definition drain005StatefulSetFinding ::
  "string \<Rightarrow> UpgradeContext \<Rightarrow> Workload \<Rightarrow> Finding option" where
  "drain005StatefulSetFinding targetVersion upgradeContext sts =
     (let replicas = desired_replicas sts;
          critical = isCriticalInfraName (wl_Name sts);
          zeroReady = (wl_ReadyReplicas sts = 0);
          (severity, gate) = currentHealthGate upgradeContext critical zeroReady;
          updateInProgress = (wl_CurrentRevision sts \<noteq> '''' \<and> wl_UpdateRevision sts \<noteq> ''''
                              \<and> wl_CurrentRevision sts \<noteq> wl_UpdateRevision sts);
          partitionNote = (case wl_Partition sts of
              None \<Rightarrow> ''''
            | Some p \<Rightarrow> if p > 0 then ('' (partition: '' @ show_int p @ '' ''
                                                  @ emdash @ '' ordinals below this are ''
                                                  @ ''intentionally held back)'') else '''');
          ref = LiveResource ''StatefulSet'' ScopeNamespaced (wl_Namespace sts) (wl_Name sts) (wl_UID sts)
      in if replicas = 0 \<or> wl_ReadyReplicas sts \<ge> replicas then None
         else Some (empty_finding\<lparr>f_RuleID := ''DRAIN-005'', f_Severity := severity,
           f_Confidence := TierObserved,
           f_Message :=
             (''StatefulSet '' @ wl_Namespace sts @ ''/'' @ wl_Name sts @ '': ''
              @ show_int (wl_ReadyReplicas sts) @ ''/'' @ show_int replicas
              @ '' replicas Ready '' @ emdash @ '' this workload has less capacity than ''
              @ ''desired right now, before any drain adds further disruption'')
             @ (if zeroReady then '' (zero Ready replicas: this workload is completely down)'' else ''''),
           f_Resources := [ref],
           f_Evidence :=
             [(''desired replicas: '' @ show_int replicas), (''ready replicas: ''
                                                             @ show_int (wl_ReadyReplicas sts)),
              (''current replicas: '' @ show_int (wl_CurrentReplicas sts)),
              (''updated replicas: '' @ show_int (wl_UpdatedReplicas sts)),
              (''podManagementPolicy: ''
               @ (podManagementPolicyOrDefault (wl_PodManagementPolicy sts))),
              (''updateStrategy: '' @ (strategy_or_default (wl_Strategy sts)) @ partitionNote),
              (''update in progress: '' @ show_bool updateInProgress)],
           f_Remediation := (''Investigate why this StatefulSet isn'' @ sq
                             @ ''t fully Ready before starting or continuing a node drain ''
                             @ ''-- check pod events, image pulls, and readiness probes. ''
                             @ ''Resolve the underlying issue rather than proceeding with ''
                             @ ''maintenance on top of an already-degraded workload.''),
           f_CriticalInfra := critical, f_ImpactScopes := drain005_impacts, f_UpgradeGate := gate,
           f_Fingerprint := FingerprintV2 ''DRAIN-005'' targetVersion ''statefulset'' [ref]\<rparr>))"

definition drain005DaemonSetFinding ::
  "kube_lib \<Rightarrow> string \<Rightarrow> UpgradeContext \<Rightarrow> DaemonSet \<Rightarrow> Finding option" where
  "drain005DaemonSetFinding lib targetVersion upgradeContext ds =
     (let critical = isCriticalInfraName (dset_Name ds);
          zeroReady = (dset_NumberReady ds = 0);
          (severity, gate) = currentHealthGate upgradeContext critical zeroReady;
          maxUnavailable = (case dset_MaxUnavailable ds of
              None \<Rightarrow> ''1 (default)'' | Some m \<Rightarrow> lib_intstr_string lib m);
          ref = LiveResource ''DaemonSet'' ScopeNamespaced (dset_Namespace ds) (dset_Name ds) (dset_UID ds)
      in if dset_DesiredNumberScheduled ds = 0 \<or> dset_NumberUnavailable ds = 0 then None
         else Some (empty_finding\<lparr>f_RuleID := ''DRAIN-005'', f_Severity := severity,
           f_Confidence := TierObserved,
           f_Message :=
             (''DaemonSet '' @ dset_Namespace ds @ ''/'' @ dset_Name ds @ '': ''
              @ show_int (dset_NumberReady ds) @ ''/''
              @ show_int (dset_DesiredNumberScheduled ds) @ '' nodes have a Ready pod (''
              @ show_int (dset_NumberUnavailable ds) @ '' unavailable) '' @ emdash
              @ '' this node agent has less coverage than desired right now, before any ''
              @ ''drain adds further disruption'')
             @ (if zeroReady
                then '' (zero Ready pods: this node agent is completely down cluster-wide)'' else '''')
             @ (if critical then '' -- this is a cluster-critical node agent'' else ''''),
           f_Resources := [ref],
           f_Evidence :=
             [(''desired nodes: '' @ show_int (dset_DesiredNumberScheduled ds)), (''ready: ''
                                                                                  @ show_int (dset_NumberReady ds)),
              (''available: '' @ show_int (dset_NumberAvailable ds)), (''unavailable: ''
                                                                       @ show_int (dset_NumberUnavailable ds)),
              (''updateStrategy: '' @ (strategy_or_default (dset_Strategy ds))
               @ '' (maxUnavailable: '' @ maxUnavailable @ '')'')],
           f_Remediation := (''Investigate why this DaemonSet isn'' @ sq @ ''t fully Ready ''
                             @ ''before starting or continuing a node drain -- check pod ''
                             @ ''events, image pulls, readiness probes, and whether ''
                             @ ''affected nodes have taints this DaemonSet doesn'' @ sq
                             @ ''t tolerate. A degraded critical node agent (CNI, ''
                             @ ''kube-proxy, CSI driver) can affect networking/storage on ''
                             @ ''every node it'' @ sq @ ''s missing from, not just the pods ''
                             @ ''it directly serves.''),
           f_CriticalInfra := critical, f_ImpactScopes := drain005_impacts, f_UpgradeGate := gate,
           f_Fingerprint := FingerprintV2 ''DRAIN-005'' targetVersion ''daemonset'' [ref]\<rparr>))"

definition DRAIN005_Evaluate :: "kube_lib \<Rightarrow> ScanContext option \<Rightarrow> string \<Rightarrow> rule_outcome" where
  "DRAIN005_Evaluate lib sc targetVersion =
     with_k8s_checked sc (\<lambda>s snap.
       by_fingerprint
         (List.map_filter (drain005StatefulSetFinding targetVersion (scanUpgradeContext sc))
            (filter (\<lambda>sts. wl_DeletionTimestamp sts = None) (k_StatefulSets snap))
          @ List.map_filter (drain005DaemonSetFinding lib targetVersion (scanUpgradeContext sc))
              (filter (\<lambda>ds. dset_DeletionTimestamp ds = None) (k_DaemonSets snap))))"

end
