(* ===== verification/RulesWorkload.thy ===== *)
theory RulesWorkload
  imports RulesBase GoTime
begin

text \<open>
  WORKLOAD-001 (\<open>workload001.go\<close>), CRD-001 (\<open>crd001.go\<close>) and CRD-002 (\<open>crd002.go\<close>).
  WORKLOAD-001 reads the clock; it is the argument \<open>now\<close>, one reading for the whole rule.
\<close>

section \<open>WORKLOAD-001\<close>

definition workloadNotReadyGracePeriod :: int where
  "workloadNotReadyGracePeriod = 5 * Minute"

definition workloadUnhealthyWaitingReasons :: "string list" where
  "workloadUnhealthyWaitingReasons =
     [''ImagePullBackOff'', ''ErrImagePull'', ''CrashLoopBackOff'', ''CreateContainerConfigError'',
      ''CreateContainerError'', ''RunContainerError'']"

record workloadPodIssue =
  wi_pod :: Pod
  wi_container :: string
  wi_reason :: string
  wi_ready :: bool
  wi_restartCount :: int

definition oldEnoughForNotReady :: "Pod \<Rightarrow> int \<Rightarrow> bool" where
  "oldEnoughForNotReady pod now \<longleftrightarrow>
     pod_CreationTimestamp pod = 0
     \<or> time_Sub now (pod_CreationTimestamp pod) \<ge> workloadNotReadyGracePeriod"

definition unhealthyContainerIssue ::
  "workloadPodIssue \<Rightarrow> ContainerStatus \<Rightarrow> workloadPodIssue option" where
  "unhealthyContainerIssue base status =
     (let issue = base\<lparr>wi_container := cs_Name status, wi_ready := cs_Ready status,
                       wi_restartCount := cs_RestartCount status\<rparr>;
          waiting = (case cs_Waiting status of
              None \<Rightarrow> None
            | Some r \<Rightarrow>
                let reason = (if r = '''' then ''Waiting'' else r)
                in if reason \<in> set workloadUnhealthyWaitingReasons then Some reason else None)
      in case waiting of
           Some reason \<Rightarrow> Some (issue\<lparr>wi_reason := reason\<rparr>)
         | None \<Rightarrow>
             (case cs_Terminated status of
                None \<Rightarrow> None
              | Some t \<Rightarrow>
                  if term_ExitCode t \<noteq> 0
                  then Some (issue\<lparr>wi_reason :=
                         (if term_Reason t = '''' then ''Terminated'' else term_Reason t)\<rparr>)
                  else None))"

fun first_issue :: "workloadPodIssue \<Rightarrow> ContainerStatus list \<Rightarrow> workloadPodIssue option" where
  "first_issue base [] = None"
| "first_issue base (s # ss) =
     (case unhealthyContainerIssue base s of Some i \<Rightarrow> Some i | None \<Rightarrow> first_issue base ss)"

definition unhealthyPodIssue :: "Pod \<Rightarrow> int \<Rightarrow> workloadPodIssue option" where
  "unhealthyPodIssue pod now =
     (if pod_DeletionTimestamp pod \<noteq> None \<or> pod_Phase pod = ''Succeeded'' then None
      else
        let base = \<lparr>wi_pod = pod, wi_container = '''', wi_reason = '''', wi_ready = podReady pod,
                    wi_restartCount = 0\<rparr>
        in case first_issue base (pod_InitContainerStatuses pod @ pod_ContainerStatuses pod) of
             Some issue \<Rightarrow> Some issue
           | None \<Rightarrow>
               if pod_Phase pod \<in> {''Pending'', ''Failed'', ''Unknown''}
               then Some (base\<lparr>wi_reason :=
                      (if pod_Reason pod \<noteq> '''' then pod_Reason pod else pod_Phase pod)\<rparr>)
               else if pod_Phase pod = ''Running'' \<and> \<not> wi_ready base \<and> oldEnoughForNotReady pod now
               then Some (base\<lparr>wi_reason := ''NotReady''\<rparr>)
               else None)"

definition workload001Evidence :: "workloadPodIssue \<Rightarrow> string list" where
  "workload001Evidence issue =
     [(''namespace: '' @ (pod_Namespace (wi_pod issue))), (''pod: ''
                                                           @ (pod_Name (wi_pod issue))),
      (''phase: '' @ (pod_Phase (wi_pod issue)))]
     @ (if wi_container issue \<noteq> '''' then [(''container: '' @ wi_container issue)] else [])
     @ [(''reason: '' @ wi_reason issue), (''ready: '' @ show_bool (wi_ready issue))]
     @ (if wi_container issue \<noteq> '''' then [(''restartCount: ''
                                                   @ show_int (wi_restartCount issue))] else [])"

definition workload001Finding :: "string \<Rightarrow> workloadPodIssue \<Rightarrow> Finding" where
  "workload001Finding targetVersion issue =
     (let reason = (if wi_reason issue = '''' then ''Unhealthy'' else wi_reason issue);
          pod = wi_pod issue;
          namespace = shellQuote (pod_Namespace pod); name = shellQuote (pod_Name pod);
          ref = LiveResource ''Pod'' ScopeNamespaced (pod_Namespace pod) (pod_Name pod) (pod_UID pod)
      in empty_finding\<lparr>f_RuleID := ''WORKLOAD-001'', f_Severity := SeverityWarning,
           f_Confidence := TierObserved,
           f_Message := (''Workload has unhealthy pods before upgrade: 1 pod in '' @ reason
                         @ ''. This workload was unhealthy before the upgrade, which can ''
                         @ ''make post-upgrade validation ambiguous.''),
           f_Resources := [ref],
           f_Evidence := workload001Evidence issue,
           f_Remediation := (''Inspect the unhealthy workload before the upgrade. Confirm ''
                             @ ''whether this is an expected pre-existing condition or a ''
                             @ ''real application issue. Fix image references, pull ''
                             @ ''secrets, config errors, or failing containers before the ''
                             @ ''change window, or document an explicit waiver in the ''
                             @ ''change ticket.''),
           f_RemediationDetail := Some (empty_detail
             \<lparr>rem_SafeFix := Some (action ''Inspect workload health''
                [''Inspect the unhealthy pod and related events before the upgrade window.'',
                 (''Fix image references, pull secrets, config errors, or failing ''
                  @ ''containers, or document an explicit waiver in the change ticket.'')]
                (Join [(''kubectl get pods -n '' @ namespace),
                       (''kubectl describe pod '' @ name @ '' -n '' @ namespace),
                       (''kubectl get events -n '' @ namespace @ '' --sort-by=.lastTimestamp''),
                       (''kubectl logs '' @ name @ '' -n '' @ namespace
                        @ '' --all-containers --tail=100'')] nl)),
              rem_VerifyCommand := (''kubectl get pod '' @ name @ '' -n '' @ namespace
                                    @ '' -o jsonpath='' @ sq @ ''{.status.phase}'' @ sq),
              rem_ExpectedResult := (''pod is Running and Ready, Succeeded for an expected ''
                                     @ ''completed job, or explicitly waived before the ''
                                     @ ''change window'')\<rparr>),
           f_Fingerprint := FingerprintV2 ''WORKLOAD-001'' targetVersion '''' [ref]\<rparr>)"

definition issue_key :: "workloadPodIssue \<Rightarrow> string \<times> string \<times> string \<times> string" where
  \<comment> \<open>the sort compares these fields one after another\<close>
  "issue_key i = (pod_Namespace (wi_pod i), pod_Name (wi_pod i), wi_container i, wi_reason i)"

definition WORKLOAD001_Evaluate :: "int \<Rightarrow> ScanContext option \<Rightarrow> string \<Rightarrow> rule_outcome" where
  "WORKLOAD001_Evaluate now sc targetVersion =
     with_k8s_checked sc (\<lambda>s snap.
       map (workload001Finding targetVersion)
         (sort_by (\<lambda>a b. issue_key a < issue_key b)
            (List.map_filter (\<lambda>pod. unhealthyPodIssue pod now) (k_Pods snap))))"

section \<open>CRD-001\<close>

definition storage_version :: "CustomResourceDefinition \<Rightarrow> string" where
  \<comment> \<open>the loop keeps the name of the last storage version\<close>
  "storage_version crd =
     foldl (\<lambda>storage v. if crdv_Storage v then crdv_Name v else storage) '''' (crd_Versions crd)"

definition served_version :: "CustomResourceDefinition \<Rightarrow> string \<Rightarrow> bool" where
  \<comment> \<open>\<open>servedVersions[name]\<close>, the last version of the name counting\<close>
  "served_version crd name =
     (case find (\<lambda>v. crdv_Name v = name) (rev (crd_Versions crd)) of
        Some v \<Rightarrow> crdv_Served v
      | None \<Rightarrow> False)"

definition legacy_versions :: "CustomResourceDefinition \<Rightarrow> string list" where
  "legacy_versions crd = filter (\<lambda>stored. stored \<noteq> storage_version crd) (crd_StoredVersions crd)"

definition unavailable_versions :: "CustomResourceDefinition \<Rightarrow> string list" where
  "unavailable_versions crd =
     filter (\<lambda>stored. \<not> served_version crd stored) (crd_StoredVersions crd)"

definition crd_reference :: "CustomResourceDefinition \<Rightarrow> ResourceReference" where
  "crd_reference crd =
     LiveResource ''CustomResourceDefinition'' ScopeCluster '''' (crd_Name crd) (crd_UID crd)"

definition crd001_finding :: "CustomResourceDefinition \<Rightarrow> string \<Rightarrow> Finding" where
  "crd001_finding crd targetVersion =
     (let storage = storage_version crd;
          legacy = legacy_versions crd;
          unavailable = unavailable_versions crd;
          stored = Join (crd_StoredVersions crd) '', '';
          gone = Join unavailable '', '';
          blocked = (length unavailable > 0)
      in empty_finding\<lparr>f_RuleID := ''CRD-001'',
           f_Severity := (if blocked then SeverityBlocker else SeverityWarning),
           f_Confidence := TierStaticCertain,
           f_Message :=
             (if blocked
              then (''CustomResourceDefinition '' @ quote (crd_Name crd) @ '' still stores ''
                    @ ''objects in unavailable version(s) '' @ gone @ '' while '' @ storage
                    @ '' is the storage version '' @ emdash @ '' migrate stored objects ''
                    @ ''before upgrade or CRD conversion paths can fail'')
              else (''CustomResourceDefinition '' @ quote (crd_Name crd) @ '' still stores ''
                    @ ''objects in legacy version(s) '' @ (Join legacy '', '') @ '' while ''
                    @ storage @ '' is the storage version '' @ emdash @ '' migrate stored ''
                    @ ''objects before removing those versions'')),
           f_Resources := [crd_reference crd],
           f_Evidence :=
             [(''status.storedVersions: '' @ stored), (''current storage version: '' @ storage)]
             @ (if blocked then [(''unavailable stored version(s): '' @ gone)] else []),
           f_Remediation :=
             (if blocked
              then (''Restore or serve the stored version long enough to migrate all custom ''
                    @ ''resources through the current storage version, then confirm ''
                    @ ''status.storedVersions contains only that version.'')
              else (''Rewrite all custom resources through the current storage version, ''
                    @ ''confirm status.storedVersions contains only that version, then ''
                    @ ''remove obsolete served versions from the CRD.'')),
           f_RemediationDetail := Some (empty_detail
             \<lparr>rem_Changes := [change ''status.storedVersions'' stored storage],
              rem_SafeFix := Some (action ''Safe fix''
                [(''Back up the custom resources and follow the Kubernetes storage-version ''
                  @ ''migration procedure; do not edit CRD status by hand before objects ''
                  @ ''are rewritten.'')]
                (''kubectl get crd '' @ (shellQuote (crd_Name crd)) @ '' -o yaml'')),
              rem_VerifyCommand := (''kubectl get crd '' @ (shellQuote (crd_Name crd))
                                    @ '' -o jsonpath='' @ sq @ ''{.status.storedVersions}''
                                    @ sq),
              rem_ExpectedResult := storage\<rparr>),
           f_Fingerprint := FingerprintV2 ''CRD-001'' targetVersion (Join legacy '','') [crd_reference crd]\<rparr>)"

definition CRD001_Evaluate :: "ScanContext option \<Rightarrow> string \<Rightarrow> rule_outcome" where
  "CRD001_Evaluate sc targetVersion =
     with_k8s sc (\<lambda>s snap.
       if unavailable snap ''customresourcedefinitions'' then []
       else map (\<lambda>crd. crd001_finding crd targetVersion)
              (filter (\<lambda>crd. length (legacy_versions crd) \<noteq> 0) (k_CustomResourceDefinitions snap)))"

section \<open>CRD-002\<close>

definition acceptedConversionReviewVersions :: "string list" where
  "acceptedConversionReviewVersions = [''v1'', ''v1beta1'']"

definition crd002ConfigFinding ::
  "CustomResourceDefinition \<Rightarrow> string \<Rightarrow> string \<Rightarrow> string \<Rightarrow> string list \<Rightarrow> string \<Rightarrow> Finding" where
  "crd002ConfigFinding crd targetVersion discriminator message evidence remediation =
     empty_finding\<lparr>f_RuleID := ''CRD-002'', f_Severity := SeverityBlocker,
       f_Confidence := TierStaticCertain, f_Message := message,
       f_Resources := [crd_reference crd], f_Evidence := evidence, f_Remediation := remediation,
       f_Fingerprint := FingerprintV2 ''CRD-002'' targetVersion
         (crd_Name crd @ '':'' @ discriminator) [crd_reference crd]\<rparr>"

definition get_endpointslices :: "string \<Rightarrow> string \<Rightarrow> string" where
  "get_endpointslices namespace service =
     (''kubectl get endpointslices -n '' @ shellQuote namespace
      @ '' -l kubernetes.io/service-name='' @ shellQuote service)"

definition crd002ServiceFindings ::
  "K8sSnapshot \<Rightarrow> CustomResourceDefinition \<Rightarrow> ServiceReference \<Rightarrow> string \<Rightarrow> Finding list" where
  "crd002ServiceFindings snap crd svc targetVersion =
     (let namespace = svcref_Namespace svc; name = svcref_Name svc
      in if \<not> serviceExists snap namespace name
         then [crd002ConfigFinding crd targetVersion ''service-not-found''
           (''CustomResourceDefinition '' @ quote (crd_Name crd) @ '' uses conversion ''
            @ ''webhook service '' @ namespace @ ''/'' @ name @ '', which does not exist in ''
            @ ''this cluster'')
           [''conversion strategy: Webhook'', (''service: '' @ namespace @ ''/'' @ name),
            ''service object: not found'']
           (''Create the referenced Service and its backing workload, or point the ''
            @ ''conversion webhook at the correct service.'')]
         else if unavailable snap ''endpointslices'' then []
         else if readyAddressCount snap namespace name > 0 then []
         else [empty_finding\<lparr>f_RuleID := ''CRD-002'', f_Severity := SeverityBlocker,
           f_Confidence := TierObserved,
           f_Message := (''CustomResourceDefinition '' @ quote (crd_Name crd)
                         @ '' uses conversion webhook service '' @ namespace @ ''/'' @ name
                         @ '', which has zero ready endpoints '' @ emdash
                         @ '' conversion requests can fail during reads, writes, and ''
                         @ ''controller reconciliation''),
           f_Resources := [crd_reference crd],
           f_Evidence := [''conversion strategy: Webhook'', (''service: '' @ namespace @ ''/''
                                                             @ name),
             ''ready endpoint address count: 0''],
           f_Remediation := (''Restore the conversion webhook backend before upgrading. Do ''
                             @ ''not remove conversion configuration unless every stored ''
                             @ ''object has been migrated and all served versions use ''
                             @ ''compatible schemas.''),
           f_RemediationDetail := Some (empty_detail
             \<lparr>rem_Changes := [change ''conversion webhook endpoints'' ''0'' ''>= 1''],
              rem_SafeFix := Some (action ''Safe fix''
                [(''Restore the conversion webhook deployment/service backend; changing CRD ''
                  @ ''conversion strategy is not a safe incident shortcut.'')]
                (''kubectl get svc '' @ shellQuote name @ '' -n '' @ shellQuote namespace @ nl
                 @ get_endpointslices namespace name)),
              rem_VerifyCommand := get_endpointslices namespace name,
              rem_ExpectedResult := ''endpoint count >= 1''\<rparr>),
           f_Fingerprint := FingerprintV2 ''CRD-002'' targetVersion (namespace @ ''/'' @ name)
             [crd_reference crd]\<rparr>])"

definition crd002ReviewVersionsFinding ::
  "CustomResourceDefinition \<Rightarrow> string list \<Rightarrow> string \<Rightarrow> Finding option" where
  "crd002ReviewVersionsFinding crd versions targetVersion =
     (if length versions = 0
      then Some (crd002ConfigFinding crd targetVersion ''empty-review-versions''
        (''CustomResourceDefinition '' @ quote (crd_Name crd) @ sq @ ''s conversion webhook ''
         @ ''has an empty conversionReviewVersions list '' @ emdash @ '' the API server has ''
         @ ''no version it can use to call the webhook, so conversion will fail for this ''
         @ ''resource'')
        [''conversion strategy: Webhook'', ''conversionReviewVersions: (empty)'']
        (''Set spec.conversion.webhook.conversionReviewVersions to include at least one ''
         @ ''version this API server understands, e.g. ['' @ dq @ ''v1'' @ dq @ '', '' @ dq
         @ ''v1beta1'' @ dq @ ''].''))
      else if list_ex (\<lambda>v. v \<in> set acceptedConversionReviewVersions) versions then None
      else Some (crd002ConfigFinding crd targetVersion ''unsupported-review-versions''
        (''CustomResourceDefinition '' @ quote (crd_Name crd) @ sq @ ''s conversion webhook ''
         @ ''lists conversionReviewVersions '' @ show_strings versions @ '', none of which ''
         @ ''this API server accepts '' @ emdash @ '' conversion will fail for this resource'')
        [''conversion strategy: Webhook'', (''conversionReviewVersions: ''
                                            @ show_strings versions),
         ''accepted by this API server: [v1, v1beta1]'']
        (''Add '' @ dq @ ''v1'' @ dq @ '' (or '' @ dq @ ''v1beta1'' @ dq
         @ '' for older clusters) to spec.conversion.webhook.conversionReviewVersions.'')))"

definition crd002ClientConfigFindings ::
  "K8sSnapshot \<Rightarrow> CustomResourceDefinition \<Rightarrow> WebhookClientConfig option \<Rightarrow> string \<Rightarrow> Finding list"
where
  \<comment> \<open>the first if-chain of \<open>crd002Findings\<close>\<close>
  "crd002ClientConfigFindings snap crd clientConfig targetVersion =
     (case clientConfig of
        None \<Rightarrow> [crd002ConfigFinding crd targetVersion ''no-client-config''
          (''CustomResourceDefinition '' @ quote (crd_Name crd) @ sq @ ''s conversion ''
           @ ''webhook has no clientConfig '' @ emdash @ '' the API server has no way to ''
           @ ''reach it'')
          [''conversion strategy: Webhook'', ''webhook.clientConfig: not set'']
          ''Set spec.conversion.webhook.clientConfig with either a service or a url.'']
      | Some cc \<Rightarrow>
          (case (wcc_Service cc, wcc_URL cc) of
             (None, None) \<Rightarrow> [crd002ConfigFinding crd targetVersion ''no-service-or-url''
               (''CustomResourceDefinition '' @ quote (crd_Name crd) @ sq @ ''s conversion ''
                @ ''webhook clientConfig sets neither service nor url '' @ emdash
                @ '' exactly one is required'')
               [''conversion strategy: Webhook'', ''clientConfig.service: not set'',
                ''clientConfig.url: not set'']
               ''Set exactly one of spec.conversion.webhook.clientConfig.service or .url.'']
           | (Some svc, _) \<Rightarrow> crd002ServiceFindings snap crd svc targetVersion
           | (None, Some _) \<Rightarrow> []))"

definition crd002Findings ::
  "K8sSnapshot \<Rightarrow> CustomResourceDefinition \<Rightarrow> WebhookConversion option \<Rightarrow> string \<Rightarrow> Finding list"
where
  "crd002Findings snap crd webhook targetVersion =
     (case webhook of
        None \<Rightarrow> [crd002ConfigFinding crd targetVersion ''no-webhook''
          (''CustomResourceDefinition '' @ quote (crd_Name crd) @ '' sets conversion ''
           @ ''strategy Webhook but has no webhook configuration '' @ emdash
           @ '' conversion is required whenever strategy is Webhook'')
          [''conversion strategy: Webhook'', ''webhook: not set'']
          (''Set spec.conversion.webhook with a valid clientConfig and ''
           @ ''conversionReviewVersions, or change the conversion strategy to None if no ''
           @ ''version conversion is actually needed.'')]
      | Some wh \<Rightarrow>
          crd002ClientConfigFindings snap crd (wconv_ClientConfig wh) targetVersion
          @ (case crd002ReviewVersionsFinding crd (wconv_ConversionReviewVersions wh) targetVersion of
               Some f \<Rightarrow> [f] | None \<Rightarrow> []))"

definition crd002_crd :: "K8sSnapshot \<Rightarrow> string \<Rightarrow> CustomResourceDefinition \<Rightarrow> Finding list" where
  "crd002_crd snap targetVersion crd =
     (case crd_Conversion crd of
        None \<Rightarrow> []
      | Some conversion \<Rightarrow>
          if conv_Strategy conversion \<noteq> ''Webhook'' then []
          else crd002Findings snap crd (conv_Webhook conversion) targetVersion)"

definition CRD002_Evaluate :: "ScanContext option \<Rightarrow> string \<Rightarrow> rule_outcome" where
  "CRD002_Evaluate sc targetVersion =
     with_k8s sc (\<lambda>s snap.
       if unavailable snap ''customresourcedefinitions'' then []
       else concat (map (crd002_crd snap targetVersion) (k_CustomResourceDefinitions snap)))"

end
