(* ===== verification/RulesWebhook.thy ===== *)
theory RulesWebhook
  imports RulesWorkload
begin

text \<open>
  The admission webhook rules WH-001, WH-002, WH-004 and WH-005 (\<open>wh001.go\<close>, \<open>wh002.go\<close>,
  \<open>wh004.go\<close>, \<open>wh005.go\<close>). Validating and mutating configurations are walked by the same code
  with different labels; a \<open>webhook_site\<close> is one webhook of one configuration with the labels and
  its index, which is what the rules' input structs hold.
\<close>

record webhook_site =
  ws_Kind :: string
  ws_PatchResource :: string
  ws_ConfigName :: string
  ws_ConfigUID :: string
  ws_Index :: int
  ws_Webhook :: Webhook

definition config_sites :: "string \<Rightarrow> string \<Rightarrow> WebhookConfiguration \<Rightarrow> webhook_site list" where
  "config_sites kind patchResource cfg =
     map (\<lambda>(i, wh). \<lparr>ws_Kind = kind, ws_PatchResource = patchResource,
            ws_ConfigName = whc_Name cfg, ws_ConfigUID = whc_UID cfg, ws_Index = int i,
            ws_Webhook = wh\<rparr>)
       (zip [0..<length (whc_Webhooks cfg)] (whc_Webhooks cfg))"

definition webhook_sites :: "K8sSnapshot \<Rightarrow> webhook_site list" where
  \<comment> \<open>the two nested loops\<close>
  "webhook_sites snap =
     concat (map (config_sites ''ValidatingWebhookConfiguration'' ''validatingwebhookconfiguration'')
       (k_ValidatingWebhookConfigs snap))
     @ concat (map (config_sites ''MutatingWebhookConfiguration'' ''mutatingwebhookconfiguration'')
         (k_MutatingWebhookConfigs snap))"

definition site_reference :: "webhook_site \<Rightarrow> ResourceReference" where
  "site_reference site =
     LiveResource (ws_Kind site) ScopeCluster '''' (ws_ConfigName site) (ws_ConfigUID site)"

definition site_policy :: "webhook_site \<Rightarrow> string" where
  "site_policy site =
     (''failurePolicy: '' @ (failurePolicyLiteral (wh_FailurePolicy (ws_Webhook site))))"

definition site_label :: "webhook_site \<Rightarrow> string" where
  \<comment> \<open>the words the messages start with\<close>
  "site_label site =
     (ws_Kind site @ '' '' @ quote (ws_ConfigName site) @ '': webhook ''
      @ quote (wh_Name (ws_Webhook site)) @ '' (index '' @ show_int (ws_Index site)
      @ '' in .webhooks)'')"

section \<open>WH-001\<close>

definition is_catch_all_resource :: "string \<Rightarrow> bool" where
  "is_catch_all_resource res \<longleftrightarrow> res = ''*'' \<or> res = ''*/*''"

text \<open>\<open>hasCatchAllRule\<close>: the resource pattern of the first match; \<open>None\<close> is \<open>matched = false\<close>.\<close>

fun hasCatchAllRule :: "RuleWithOperations list \<Rightarrow> string option" where
  "hasCatchAllRule [] = None"
| "hasCatchAllRule (r # rs) =
     (if ''*'' \<notin> set (rwo_APIGroups r) then hasCatchAllRule rs
      else case find is_catch_all_resource (rwo_Resources r) of
             Some res \<Rightarrow> Some res
           | None \<Rightarrow> hasCatchAllRule rs)"

definition catchAllOperations :: "RuleWithOperations list \<Rightarrow> string" where
  "catchAllOperations rules =
     (case find (\<lambda>rule. hasCatchAllRule [rule] \<noteq> None) rules of
        Some rule \<Rightarrow> Join (rwo_Operations rule) '',''
      | None \<Rightarrow> '''')"

definition has_selectors :: "Webhook \<Rightarrow> bool" where
  "has_selectors wh \<longleftrightarrow>
     hasSelector (wh_NamespaceSelector wh) \<or> hasSelector (wh_ObjectSelector wh)
     \<or> length (wh_MatchConditions wh) > 0"

definition wh001RemediationDetail :: "webhook_site \<Rightarrow> RemediationDetail" where
  "wh001RemediationDetail site =
     empty_detail\<lparr>rem_SafeFix := Some (action ''Safe fix''
       [(''Narrow the webhook'' @ sq @ ''s rules to the specific apiGroups/resources it ''
         @ ''actually needs to validate/mutate.''),
        ''Add a namespaceSelector excluding kube-system and other critical namespaces.'',
        (''If this webhook only does simple field validation, consider migrating it to a ''
         @ ''ValidatingAdmissionPolicy (CEL) to remove the callback dependency entirely.'')]
       (''kubectl get '' @ ws_PatchResource site @ '' '' @ (shellQuote (ws_ConfigName site))
        @ '' -o yaml''))\<rparr>"

definition wh001Finding :: "webhook_site \<Rightarrow> string \<Rightarrow> string \<Rightarrow> Finding" where
  "wh001Finding site pat targetVersion =
     (let wh = ws_Webhook site;
          operations = catchAllOperations (wh_Rules wh);
          scope = (if has_selectors wh
                   then (''requests that also satisfy its configured selectors/match ''
                         @ ''conditions'')
                   else ''all namespaces and cluster-scoped resources'')
      in empty_finding\<lparr>f_RuleID := ''WH-001'', f_Severity := SeverityWarning,
           f_Confidence := TierStaticCertain,
           f_Message := (ws_Kind site @ '' '' @ quote (ws_ConfigName site) @ '': webhook ''
                         @ quote (wh_Name wh) @ '' is fail-closed with catch-all resource ''
                         @ ''rules (apiGroups: ['' @ dq @ ''*'' @ dq @ ''], resources: [''
                         @ quote pat @ ''], operations: ['' @ operations @ '']) '' @ emdash
                         @ '' '' @ scope @ '' depend on this webhook'' @ sq
                         @ ''s backend being healthy''),
           f_Resources := [site_reference site],
           f_Evidence :=
             [(''webhook name: '' @ wh_Name wh),
              (''scope: apiGroups=['' @ dq @ ''*'' @ dq @ ''], resources=['' @ quote pat
               @ '']''),
              (''operations: ['' @ operations @ '']''),
              site_policy site,
              (''namespaceSelector set: '' @ show_bool (hasSelector (wh_NamespaceSelector wh))),
              (''objectSelector set: '' @ show_bool (hasSelector (wh_ObjectSelector wh))),
              (''matchConditions set: '' @ show_bool (length (wh_MatchConditions wh) > 0))],
           f_Remediation := (''Inspect the webhook'' @ sq @ ''s current rules and selectors:''
                             @ nl @ nl @ ''kubectl get '' @ ws_PatchResource site @ '' ''
                             @ (shellQuote (ws_ConfigName site)) @ '' -o yaml'' @ nl @ nl
                             @ ''Then narrow the webhook'' @ sq @ ''s rules to the specific ''
                             @ ''apiGroups/resources it actually needs to'' @ nl
                             @ ''validate/mutate, and add a namespaceSelector excluding ''
                             @ ''kube-system and other critical'' @ nl @ ''namespaces. If ''
                             @ ''this webhook does simple field validation, consider ''
                             @ ''migrating it to a'' @ nl @ ''ValidatingAdmissionPolicy ''
                             @ ''(CEL) to remove the callback dependency entirely.''),
           f_RemediationDetail := Some (wh001RemediationDetail site),
           f_Fingerprint := FingerprintV2 ''WH-001'' targetVersion (wh_Name wh) [site_reference site]\<rparr>)"

definition wh001_site :: "string \<Rightarrow> webhook_site \<Rightarrow> Finding list" where
  "wh001_site targetVersion site =
     (let wh = ws_Webhook site
      in if \<not> isFailClosed (wh_FailurePolicy wh) then []
         else case hasCatchAllRule (wh_Rules wh) of
                None \<Rightarrow> []
              | Some pat \<Rightarrow> [wh001Finding site pat targetVersion])"

definition WH001_Evaluate :: "ScanContext option \<Rightarrow> string \<Rightarrow> rule_outcome" where
  \<comment> \<open>the snapshot is dereferenced without a test\<close>
  "WH001_Evaluate sc targetVersion =
     (case sc of
        None \<Rightarrow> nil_dereference
      | Some s \<Rightarrow>
          (case sc_K8s s of
             None \<Rightarrow> nil_dereference
           | Some snap \<Rightarrow>
               Returned (concat (map (wh001_site targetVersion) (webhook_sites snap))) None))"

section \<open>WH-002\<close>

definition writes :: "RuleWithOperations \<Rightarrow> bool" where
  "writes rule \<longleftrightarrow>
     list_ex (\<lambda>operation. operation = ''*'' \<or> operation = ''CREATE'' \<or> operation = ''UPDATE'')
       (rwo_Operations rule)"

definition hasGlobalWriteScope :: "Webhook \<Rightarrow> bool" where
  "hasGlobalWriteScope wh \<longleftrightarrow>
     (if has_selectors wh then False
      else list_ex (\<lambda>rule. hasCatchAllRule [rule] \<noteq> None \<and> writes rule) (wh_Rules wh))"

definition wh002ConfigFinding ::
  "webhook_site \<Rightarrow> bool \<Rightarrow> bool \<Rightarrow> string \<Rightarrow> string \<Rightarrow> string \<Rightarrow> string list \<Rightarrow> Finding" where
  "wh002ConfigFinding site failClosed global discriminator targetVersion message evidence =
     empty_finding\<lparr>f_RuleID := ''WH-002'',
       f_Severity := (if failClosed then SeverityBlocker else SeverityWarning),
       f_Confidence := TierStaticCertain, f_Message := message,
       f_Resources := [site_reference site],
       f_Evidence := evidence @ [site_policy site],
       f_Remediation :=
         (if failClosed
          then (''Fix the webhook'' @ sq @ ''s clientConfig before upgrading '' @ emdash
                @ '' every matching API write is currently rejected.'')
          else (''This webhook'' @ sq @ ''s failurePolicy is Ignore, so matching API writes ''
                @ ''are currently admitted without going through it '' @ emdash
                @ '' fix the clientConfig so admission control actually applies, or remove ''
                @ ''the webhook if it'' @ sq @ ''s no longer needed.'')),
       f_GlobalBlocker := global,
       f_Fingerprint := FingerprintV2 ''WH-002'' targetVersion
         (wh_Name (ws_Webhook site) @ '':'' @ discriminator) [site_reference site]\<rparr>"

definition wh002IgnoreFinding :: "webhook_site \<Rightarrow> ServiceReference \<Rightarrow> string \<Rightarrow> Finding" where
  "wh002IgnoreFinding site svc targetVersion =
     (let namespace = svcref_Namespace svc; name = svcref_Name svc;
          get_svc = (''kubectl get svc '' @ shellQuote name @ '' -n '' @ shellQuote namespace
                     @ nl @ get_endpointslices namespace name)
      in empty_finding\<lparr>f_RuleID := ''WH-002'', f_Severity := SeverityWarning,
           f_Confidence := TierObserved,
           f_Message := (site_label site @ '' has failurePolicy Ignore and its backend ''
                         @ ''service '' @ namespace @ ''/'' @ name @ '' has zero ready ''
                         @ ''endpoints '' @ emdash @ '' matching API writes are currently ''
                         @ ''admitted without going through this webhook at all''),
           f_Resources := [site_reference site],
           f_Evidence :=
             [(''webhook name: '' @ (wh_Name (ws_Webhook site))),
              (''webhook index: '' @ show_int (ws_Index site)),
              (''backend service: '' @ namespace @ ''/'' @ name),
              ''ready endpoint address count: 0'', site_policy site],
           f_Remediation := (''Restore the webhook backend so admission control actually ''
                             @ ''applies again:'' @ nl @ nl @ get_svc @ nl
                             @ ''kubectl get deploy,pods -n '' @ shellQuote namespace),
           f_RemediationDetail := Some (empty_detail
             \<lparr>rem_Changes := [change ''endpoint count'' ''0'' ''>= 1''],
              rem_SafeFix := Some (action ''Safe fix''
                [(''Restore the backend'' @ sq @ ''s health '' @ emdash
                  @ '' with failurePolicy Ignore, no emergency mitigation is needed; writes ''
                  @ ''already aren'' @ sq @ ''t being blocked.'')]
                get_svc),
              rem_VerifyCommand := get_endpointslices namespace name,
              rem_ExpectedResult := ''endpoint count >= 1''\<rparr>),
           f_Fingerprint := FingerprintV2 ''WH-002'' targetVersion
             (wh_Name (ws_Webhook site) @ '':ignore-zero-endpoints'') [site_reference site]\<rparr>)"

definition breakGlassAction :: "string \<Rightarrow> string \<Rightarrow> RemediationAction" where
  "breakGlassAction patchResource name =
     (action ''Break-glass''
        [(''Cluster writes are bricked by this webhook and no other option is restoring ''
          @ ''health in time.''),
         (''Delete the webhook configuration, then restore it once the backend is healthy ''
          @ ''again.'')]
        (''kubectl delete '' @ patchResource @ '' '' @ shellQuote name))\<lparr>act_Risky := True\<rparr>"

definition wh002_patch_command :: "webhook_site \<Rightarrow> string" where
  \<comment> \<open>the JSON patch that sets \<open>failurePolicy\<close> to \<open>Ignore\<close>\<close>
  "wh002_patch_command site =
     (let patchOp = (if wh_FailurePolicy (ws_Webhook site) \<noteq> None then ''replace'' else ''add'')
      in (''kubectl patch '' @ ws_PatchResource site @ '' ''
          @ (shellQuote (ws_ConfigName site)) @ '' --type='' @ sq @ ''json'' @ sq @ '' -p=''
          @ sq @ ''[{'' @ dq @ ''op'' @ dq @ '':'' @ dq @ ''test'' @ dq @ '','' @ dq
          @ ''path'' @ dq @ '':'' @ dq @ ''/webhooks/'' @ show_int (ws_Index site) @ ''/name''
          @ dq @ '','' @ dq @ ''value'' @ dq @ '':'' @ dq @ (wh_Name (ws_Webhook site)) @ dq
          @ ''},{'' @ dq @ ''op'' @ dq @ '':'' @ dq @ patchOp @ dq @ '','' @ dq @ ''path''
          @ dq @ '':'' @ dq @ ''/webhooks/'' @ show_int (ws_Index site) @ ''/failurePolicy''
          @ dq @ '','' @ dq @ ''value'' @ dq @ '':'' @ dq @ ''Ignore'' @ dq @ ''}]'' @ sq))"

definition wh002RemediationDetail :: "webhook_site \<Rightarrow> ServiceReference \<Rightarrow> RemediationDetail" where
  "wh002RemediationDetail site svc =
     (let namespace = svcref_Namespace svc; name = svcref_Name svc
      in empty_detail\<lparr>rem_Changes := [change ''endpoint count'' ''0'' ''>= 1''],
           rem_SafeFix := Some (action ''Safe fix''
             [(''Restore the backend'' @ sq @ ''s health first '' @ emdash @ '' the webhook ''
               @ ''itself doesn'' @ sq @ ''t need to change once its Service has healthy ''
               @ ''endpoints again.'')]
             (''kubectl get svc '' @ shellQuote name @ '' -n '' @ shellQuote namespace @ nl
              @ get_endpointslices namespace name @ nl @ ''kubectl get deploy -n ''
              @ shellQuote namespace @ nl @ ''kubectl get pods -n '' @ shellQuote namespace
              @ '' --show-labels'')),
           rem_Emergency := Some ((action ''Temporary mitigation''
             [(''Only use for the duration of the incident '' @ emdash @ '' this removes ''
               @ ''the webhook'' @ sq @ ''s protection entirely.''),
              ''Revert (set failurePolicy back to Fail) once the backend is healthy again.'']
             (wh002_patch_command site))\<lparr>act_Risky := True\<rparr>),
           rem_BreakGlass := Some (breakGlassAction (ws_PatchResource site) (ws_ConfigName site)),
           rem_VerifyCommand := get_endpointslices namespace name,
           rem_ExpectedResult := ''endpoint count >= 1''\<rparr>)"

definition wh002Finding :: "webhook_site \<Rightarrow> ServiceReference \<Rightarrow> bool \<Rightarrow> string \<Rightarrow> Finding" where
  "wh002Finding site svc global targetVersion =
     (let namespace = svcref_Namespace svc; name = svcref_Name svc
      in empty_finding\<lparr>f_RuleID := ''WH-002'', f_Severity := SeverityBlocker,
           f_Confidence := TierObserved,
           f_Message := (site_label site @ '' is fail-closed and its backend service ''
                         @ namespace @ ''/'' @ name @ '' has zero ready endpoints '' @ emdash
                         @ '' matching API writes will be rejected''),
           f_Resources := [site_reference site],
           f_Evidence :=
             [(''webhook name: '' @ (wh_Name (ws_Webhook site))),
              (''webhook index: '' @ show_int (ws_Index site)),
              (''backend service: '' @ namespace @ ''/'' @ name),
              ''ready endpoint address count: 0'', site_policy site],
           f_Remediation := (''Step 1 '' @ emdash @ '' restore the webhook backend ''
                             @ ''(read-only, safe to run any time):'' @ nl @ nl
                             @ ''kubectl get svc '' @ shellQuote name @ '' -n ''
                             @ shellQuote namespace @ nl @ get_endpointslices namespace name
                             @ nl @ ''kubectl get deploy,pods -n '' @ shellQuote namespace
                             @ nl @ nl @ ''Step 2 '' @ emdash @ '' only if you need ''
                             @ ''immediate relief and cannot wait for the backend to ''
                             @ ''recover:'' @ nl @ nl @ ''This TEMPORARILY REMOVES the ''
                             @ ''webhook'' @ sq @ ''s protection. The '' @ dq @ ''test'' @ dq
                             @ '' operation'' @ nl @ ''guards against the array index ''
                             @ ''having shifted since this scan ran '' @ emdash @ '' the''
                             @ nl @ ''patch aborts instead of silently touching the wrong ''
                             @ ''webhook block.'' @ nl @ nl @ wh002_patch_command site @ nl
                             @ nl @ ''Revert failurePolicy to Fail immediately after the ''
                             @ ''backend recovers.''),
           f_RemediationDetail := Some (wh002RemediationDetail site svc),
           f_GlobalBlocker := global,
           f_Fingerprint := FingerprintV2 ''WH-002'' targetVersion (wh_Name (ws_Webhook site))
             [site_reference site]\<rparr>)"

definition valid_port :: "int option \<Rightarrow> bool" where
  "valid_port p = (case p of None \<Rightarrow> True | Some v \<Rightarrow> \<not> (v < 1 \<or> v > 65535))"

definition wh002_global :: "Webhook \<Rightarrow> bool" where
  "wh002_global wh \<longleftrightarrow> isFailClosed (wh_FailurePolicy wh) \<and> hasGlobalWriteScope wh"

definition wh002EvaluateWebhook ::
  "K8sSnapshot \<Rightarrow> string \<Rightarrow> webhook_site \<Rightarrow> Finding list" where
  "wh002EvaluateWebhook snap targetVersion site =
     (let wh = ws_Webhook site;
          cc = wh_ClientConfig wh;
          failClosed = isFailClosed (wh_FailurePolicy wh);
          global = wh002_global wh;
          nameLine = (''webhook name: '' @ wh_Name wh)
      in case wcc_Service cc of
           None \<Rightarrow>
             if wcc_URL cc = None
             then [wh002ConfigFinding site failClosed global ''no-client-config'' targetVersion
                     (site_label site @ '' has neither a service nor a url in clientConfig ''
                      @ emdash @ '' the API server has no way to reach it'')
                     [nameLine, ''clientConfig.service: not set'', ''clientConfig.url: not set'']]
             else []
         | Some svc \<Rightarrow>
             let namespace = svcref_Namespace svc; name = svcref_Name svc;
                 svcLine = (''service: '' @ namespace @ ''/'' @ name)
             in if \<not> valid_port (svcref_Port svc)
                then let port = (case svcref_Port svc of Some p \<Rightarrow> p | None \<Rightarrow> 0)
                     in [wh002ConfigFinding site failClosed global ''invalid-port'' targetVersion
                           (site_label site @ '' references service '' @ namespace @ ''/''
                            @ name @ '' on invalid port '' @ show_int port @ '' '' @ emdash
                            @ '' a port must be between 1 and 65535'')
                           [nameLine, svcLine, (''port: '' @ show_int port)]]
                else if \<not> serviceExists snap namespace name
                then [wh002ConfigFinding site failClosed global ''service-not-found'' targetVersion
                        (site_label site @ '' references service '' @ namespace @ ''/'' @ name
                         @ '', which does not exist in this cluster'')
                        [nameLine, svcLine, ''service object: not found'']]
                else if unavailable snap ''endpointslices'' then []
                else if readyAddressCount snap namespace name > 0 then []
                else if failClosed then [wh002Finding site svc global targetVersion]
                else [wh002IgnoreFinding site svc targetVersion])"

definition WH002_Evaluate :: "ScanContext option \<Rightarrow> string \<Rightarrow> rule_outcome" where
  "WH002_Evaluate sc targetVersion =
     with_k8s sc (\<lambda>s snap.
       concat (map (wh002EvaluateWebhook snap targetVersion) (webhook_sites snap)))"

section \<open>WH-004\<close>

definition wh004CertExpiryWarningWindow :: int where
  "wh004CertExpiryWarningWindow = 30 * 24 * Hour"

text \<open>
  \<open>pem.Decode\<close> and \<open>x509.ParseCertificate\<close> are parameters: the next block and the rest of the
  input, and a certificate's expiry and CA flag.
\<close>

record pem_block =
  pem_Type :: string
  pem_Bytes :: string

record Certificate =
  cert_NotAfter :: int
  cert_IsCA :: bool

record pki_lib =
  pem_Decode :: "string \<Rightarrow> (pem_block \<times> string) option"
  x509_ParseCertificate :: "string \<Rightarrow> Certificate option"

definition parse_step :: "pki_lib \<Rightarrow> pem_block \<Rightarrow> Certificate list" where
  \<comment> \<open>what one block adds to \<open>certs\<close>\<close>
  "parse_step pki block =
     (if pem_Type block \<noteq> ''CERTIFICATE'' then []
      else case x509_ParseCertificate pki (pem_Bytes block) of Some c \<Rightarrow> [c] | None \<Rightarrow> [])"

text \<open>
  The loop of \<open>wh004ParseCABundle\<close> as it is written may run forever (with a decoder that consumes
  nothing): it is a partial function. \<open>wh004ParseCABundle\<close> bounds it by the length of the input,
  which is enough for a decoder that consumes input with every block; the two agree then.
\<close>

partial_function (option) ca_bundle_loop ::
  "pki_lib \<Rightarrow> string \<Rightarrow> Certificate list \<Rightarrow> bool \<Rightarrow> (Certificate list \<times> bool) option" where
  "ca_bundle_loop pki rest certs sawAnyBlock =
     (case pem_Decode pki rest of
        None \<Rightarrow> Some (certs, \<not> sawAnyBlock)
      | Some (block, rest') \<Rightarrow> ca_bundle_loop pki rest' (certs @ parse_step pki block) True)"

fun ca_bundle_bounded ::
  "nat \<Rightarrow> pki_lib \<Rightarrow> string \<Rightarrow> Certificate list \<Rightarrow> bool \<Rightarrow> Certificate list \<times> bool" where
  "ca_bundle_bounded 0 pki rest certs sawAnyBlock = (certs, \<not> sawAnyBlock)"
| "ca_bundle_bounded (Suc n) pki rest certs sawAnyBlock =
     (case pem_Decode pki rest of
        None \<Rightarrow> (certs, \<not> sawAnyBlock)
      | Some (block, rest') \<Rightarrow> ca_bundle_bounded n pki rest' (certs @ parse_step pki block) True)"

definition wh004ParseCABundle :: "pki_lib \<Rightarrow> string \<Rightarrow> Certificate list \<times> bool" where
  "wh004ParseCABundle pki raw = ca_bundle_bounded (length raw) pki raw [] False"

definition wh004Severity :: "bool \<Rightarrow> Severity" where
  "wh004Severity failClosed = (if failClosed then SeverityBlocker else SeverityWarning)"

definition wh004Finding ::
  "webhook_site \<Rightarrow> Severity \<Rightarrow> bool \<Rightarrow> string \<Rightarrow> string \<Rightarrow> string \<Rightarrow> string list \<Rightarrow> string \<Rightarrow> Finding" where
  "wh004Finding site severity global discriminator targetVersion message evidence remediation =
     empty_finding\<lparr>f_RuleID := ''WH-004'', f_Severity := severity,
       f_Confidence := TierStaticCertain, f_Message := message,
       f_Resources := [site_reference site],
       f_Evidence := evidence @ [site_policy site], f_Remediation := remediation,
       f_GlobalBlocker := global,
       f_Fingerprint := FingerprintV2 ''WH-004'' targetVersion
         (wh_Name (ws_Webhook site) @ '':'' @ discriminator) [site_reference site]\<rparr>"

definition cert_expired :: "int \<Rightarrow> Certificate \<Rightarrow> bool" where
  "cert_expired now cert \<longleftrightarrow> now > cert_NotAfter cert"

definition cert_expiring_soon :: "int \<Rightarrow> Certificate \<Rightarrow> bool" where
  "cert_expiring_soon now cert \<longleftrightarrow>
     \<not> cert_expired now cert
     \<and> time_Sub (cert_NotAfter cert) now \<le> wh004CertExpiryWarningWindow"

definition wh004CertFindings ::
  "webhook_site \<Rightarrow> bool \<Rightarrow> bool \<Rightarrow> int \<Rightarrow> string \<Rightarrow> Certificate list \<Rightarrow> Finding list" where
  \<comment> \<open>the part of \<open>wh004CABundleFindings\<close> after the certificates are parsed\<close>
  "wh004CertFindings site failClosed global now targetVersion certs =
     (let nameLine = (''webhook name: '' @ (wh_Name (ws_Webhook site)))
      in (if list_ex (cert_expired now) certs
          then [wh004Finding site (wh004Severity failClosed) global ''expired-ca-cert'' targetVersion
            (site_label site @ '' has a caBundle containing an expired certificate '' @ emdash
             @ '' the API server can no longer validate the webhook'' @ sq
             @ ''s TLS certificate against it'')
            [nameLine, ''caBundle: contains an expired certificate'']
            (''Rotate the CA certificate referenced by clientConfig.caBundle (and the ''
             @ ''webhook'' @ sq @ ''s own serving certificate if it was signed by the same ''
             @ ''CA).'')]
          else if list_ex (cert_expiring_soon now) certs
          then [wh004Finding site SeverityWarning False ''ca-cert-expiring-soon'' targetVersion
            (site_label site @ '' has a caBundle containing a certificate expiring within ''
             @ show_int (wh004CertExpiryWarningWindow div Hour div 24) @ '' days'')
            [nameLine, ''caBundle: contains a certificate expiring soon'']
            (''Plan a CA certificate rotation before it expires '' @ emdash
             @ '' an expired caBundle will make the API server unable to call this webhook ''
             @ ''at all.'')]
          else [])
         @ (if list_ex (\<lambda>cert. \<not> cert_IsCA cert) certs
            then [wh004Finding site SeverityWarning False ''ca-cert-not-marked-ca'' targetVersion
              (site_label site @ '' has a caBundle containing a certificate without the CA ''
               @ ''basic constraint set '' @ emdash @ '' this only works if it'' @ sq
               @ ''s the exact leaf certificate being pinned, not a genuine CA'')
              [nameLine, ''caBundle: contains a certificate not marked as a CA'']
              (''Confirm this is intentional certificate pinning (the exact serving ''
               @ ''certificate, not a CA). If a CA certificate was intended, verify the ''
               @ ''correct one was used.'')]
            else []))"

definition wh004CABundleFindings ::
  "pki_lib \<Rightarrow> webhook_site \<Rightarrow> bool \<Rightarrow> bool \<Rightarrow> int \<Rightarrow> string \<Rightarrow> Finding list" where
  "wh004CABundleFindings pki site failClosed global now targetVersion =
     (let raw = wcc_CABundle (wh_ClientConfig (ws_Webhook site));
          nameLine = (''webhook name: '' @ (wh_Name (ws_Webhook site)))
      in if length raw = 0
         then [wh004Finding site SeverityWarning False ''empty-ca-bundle'' targetVersion
           (site_label site @ '' has no caBundle set '' @ emdash @ '' the API server falls ''
            @ ''back to its system trust roots, which won'' @ sq @ ''t validate a ''
            @ ''self-signed or cluster-internal certificate'')
           [nameLine, ''caBundle: not set'']
           (''If the webhook backend uses a self-signed or cluster-internal certificate ''
            @ ''(the common case for in-cluster webhooks), set clientConfig.caBundle to the ''
            @ ''CA that signed it. If the backend'' @ sq @ ''s certificate is already ''
            @ ''signed by a system-trusted CA, no action is needed.'')]
         else
           let (certs, unparseable) = wh004ParseCABundle pki raw
           in if unparseable
              then [wh004Finding site (wh004Severity failClosed) global ''invalid-ca-bundle'' targetVersion
                (site_label site @ '' has a caBundle that isn'' @ sq
                 @ ''t valid PEM-encoded certificate data '' @ emdash @ '' the API server ''
                 @ ''can'' @ sq @ ''t use it to validate the webhook'' @ sq
                 @ ''s TLS certificate'')
                [nameLine, ''caBundle: not valid PEM-encoded certificate data'']
                (''Replace clientConfig.caBundle with a valid PEM-encoded CA certificate ''
                 @ ''(or chain).'')]
              else if length certs = 0
              then [wh004Finding site (wh004Severity failClosed) global ''invalid-ca-bundle'' targetVersion
                (site_label site @ '' has a caBundle with no CERTIFICATE blocks '' @ emdash
                 @ '' the API server can'' @ sq @ ''t use it to validate the webhook'' @ sq
                 @ ''s TLS certificate'')
                [nameLine, ''caBundle: no CERTIFICATE blocks found'']
                (''Replace clientConfig.caBundle with a valid PEM-encoded CA certificate ''
                 @ ''(or chain).'')]
              else wh004CertFindings site failClosed global now targetVersion certs)"

definition wh004EvaluateWebhook ::
  "pki_lib \<Rightarrow> int \<Rightarrow> string \<Rightarrow> webhook_site \<Rightarrow> Finding list" where
  "wh004EvaluateWebhook pki now targetVersion site =
     (let wh = ws_Webhook site;
          cc = wh_ClientConfig wh;
          failClosed = isFailClosed (wh_FailurePolicy wh);
          global = wh002_global wh
      in if wcc_Service cc = None \<and> wcc_URL cc = None then []
         else (case wcc_URL cc of
                 None \<Rightarrow> []
               | Some url \<Rightarrow>
                   if HasPrefix url ''https://'' then []
                   else [wh004Finding site (wh004Severity failClosed) global ''insecure-url'' targetVersion
                     (site_label site @ '' has a url that doesn'' @ sq @ ''t start with ''
                      @ ''https:// '' @ emdash @ '' the API server requires https and will ''
                      @ ''refuse to call it'')
                     [(''webhook name: '' @ wh_Name wh), (''url: '' @ url)]
                     (''Update the webhook'' @ sq @ ''s clientConfig.url to use the ''
                      @ ''https:// scheme.'')])
              @ wh004CABundleFindings pki site failClosed global now targetVersion)"

definition WH004_Evaluate ::
  "pki_lib \<Rightarrow> int \<Rightarrow> ScanContext option \<Rightarrow> string \<Rightarrow> rule_outcome" where
  "WH004_Evaluate pki now sc targetVersion =
     with_k8s sc (\<lambda>s snap.
       concat (map (wh004EvaluateWebhook pki now targetVersion) (webhook_sites snap)))"

section \<open>WH-005\<close>

definition wh005ExcessiveTimeoutSeconds :: int where "wh005ExcessiveTimeoutSeconds = 25"

type_synonym wh005ResourceTarget = "string \<times> string" \<comment> \<open>API group and resource\<close>

definition wh005SelfInterceptionTargets :: "wh005ResourceTarget list" where
  "wh005SelfInterceptionTargets =
     [(''admissionregistration.k8s.io'', ''validatingwebhookconfigurations''),
      (''admissionregistration.k8s.io'', ''mutatingwebhookconfigurations'')]"

definition wh005HighRiskTargets :: "wh005ResourceTarget list" where
  "wh005HighRiskTargets =
     [('''', ''nodes''), ('''', ''namespaces''), ('''', ''persistentvolumes'')]"

definition wh005WildcardOperationRule :: "RuleWithOperations list \<Rightarrow> string option" where
  "wh005WildcardOperationRule rules =
     map_option (\<lambda>r. Join (rwo_Resources r) '','')
       (find (\<lambda>r. rwo_Operations r = [''*'']) rules)"

definition rule_covers :: "RuleWithOperations \<Rightarrow> wh005ResourceTarget \<Rightarrow> bool" where
  "rule_covers r t \<longleftrightarrow>
     (''*'' \<in> set (rwo_APIGroups r) \<or> fst t \<in> set (rwo_APIGroups r))
     \<and> (''*'' \<in> set (rwo_Resources r) \<or> ''*/*'' \<in> set (rwo_Resources r)
        \<or> snd t \<in> set (rwo_Resources r))"

fun wh005MatchesTargets ::
  "RuleWithOperations list \<Rightarrow> wh005ResourceTarget list \<Rightarrow> string option" where
  "wh005MatchesTargets [] targets = None"
| "wh005MatchesTargets (r # rs) targets =
     (case find (rule_covers r) targets of
        Some t \<Rightarrow> Some (snd t)
      | None \<Rightarrow> wh005MatchesTargets rs targets)"

definition wh005Finding ::
  "webhook_site \<Rightarrow> Severity \<Rightarrow> UpgradeGate \<Rightarrow> bool \<Rightarrow> bool \<Rightarrow> string \<Rightarrow> string \<Rightarrow> string \<Rightarrow> string list
     \<Rightarrow> string \<Rightarrow> Finding" where
  "wh005Finding site severity gate global criticalInfra discriminator targetVersion message evidence
     remediation =
     empty_finding\<lparr>f_RuleID := ''WH-005'', f_Severity := severity,
       f_Confidence := TierStaticCertain, f_Message := message,
       f_Resources := [site_reference site],
       f_Evidence := evidence @ [site_policy site], f_Remediation := remediation,
       f_GlobalBlocker := global, f_CriticalInfra := criticalInfra,
       f_ImpactScopes := [ImpactAPIWrite, ImpactFutureMaintenance], f_UpgradeGate := gate,
       f_Fingerprint := FingerprintV2 ''WH-005'' targetVersion
         (wh_Name (ws_Webhook site) @ '':'' @ discriminator) [site_reference site]\<rparr>"

definition wh005_timeout_findings :: "string \<Rightarrow> webhook_site \<Rightarrow> Finding list" where
  "wh005_timeout_findings targetVersion site =
     (case wh_TimeoutSeconds (ws_Webhook site) of
        None \<Rightarrow> []
      | Some timeout \<Rightarrow>
          if timeout < wh005ExcessiveTimeoutSeconds then []
          else [wh005Finding site SeverityWarning UpgradeGateAllow False False ''excessive-timeout''
            targetVersion
            (site_label site @ '' has timeoutSeconds='' @ show_int timeout @ '', within ''
             @ show_int (30 - timeout) @ '' seconds of the API server'' @ sq
             @ ''s 30-second ceiling '' @ emdash @ '' a slow or stalled backend can make ''
             @ ''matching requests hang for nearly that long'')
            [(''webhook name: '' @ (wh_Name (ws_Webhook site))), (''timeoutSeconds: ''
                                                                  @ show_int timeout)]
            (''Lower timeoutSeconds to a value that reflects the backend'' @ sq
             @ ''s real p99 latency (commonly 5-10s), so a stalled backend fails fast ''
             @ ''instead of holding up the request for the full window.'')])"

definition wh005_wildcard_findings :: "string \<Rightarrow> webhook_site \<Rightarrow> Finding list" where
  "wh005_wildcard_findings targetVersion site =
     (case wh005WildcardOperationRule (wh_Rules (ws_Webhook site)) of
        None \<Rightarrow> []
      | Some pat \<Rightarrow>
          [wh005Finding site SeverityWarning UpgradeGateAllow False False ''wildcard-operations''
            targetVersion
            (site_label site @ '' matches operations: ['' @ dq @ ''*'' @ dq
             @ ''] on resources '' @ quote pat @ '' '' @ emdash @ '' this includes CONNECT ''
             @ ''(exec/attach/portforward/proxy subresources), which most ''
             @ ''validating/mutating webhooks never need to intercept'')
            [(''webhook name: '' @ (wh_Name (ws_Webhook site))), (''operations: ['' @ dq
                                                                  @ ''*'' @ dq
                                                                  @ ''] on resources ''
                                                                  @ quote pat)]
            (''Replace operations: ['' @ dq @ ''*'' @ dq @ ''] with the specific operations ''
             @ ''this webhook actually needs (typically CREATE and/or UPDATE).'')])"

definition wh005_self_findings :: "string \<Rightarrow> webhook_site \<Rightarrow> Finding list" where
  "wh005_self_findings targetVersion site =
     (case wh005MatchesTargets (wh_Rules (ws_Webhook site)) wh005SelfInterceptionTargets of
        None \<Rightarrow> []
      | Some resource \<Rightarrow>
          [wh005Finding site SeverityWarning UpgradeGateOperatorDecision False False
            (''self-interception:'' @ resource) targetVersion
            (if isFailClosed (wh_FailurePolicy (ws_Webhook site))
             then (site_label site @ '' matches '' @ resource @ '' '' @ emdash
                   @ '' this is a fail-closed webhook, so if it becomes unavailable it can ''
                   @ ''block writes to admission webhook configs, including attempts to fix ''
                   @ ''or disable itself; this is a high-risk scope finding, not a ''
                   @ ''confirmed admission failure unless WH-002 or WH-004 also reports ''
                   @ ''backend/TLS failure'')
             else (site_label site @ '' matches '' @ resource @ '' '' @ emdash
                   @ '' this webhook covers admission webhook configs, including itself, ''
                   @ ''but is fail-open (failurePolicy: Ignore), so an unavailable backend ''
                   @ ''won'' @ sq @ ''t block those writes; confirm fail-open was an ''
                   @ ''intentional choice for a webhook with this scope''))
            [(''webhook name: '' @ (wh_Name (ws_Webhook site))), (''matched resource: ''
                                                                  @ resource)]
            (''Exclude admissionregistration.k8s.io ''
             @ ''(validatingwebhookconfigurations/mutatingwebhookconfigurations) from this ''
             @ ''webhook'' @ sq @ ''s rules, so a misbehaving webhook can always be patched ''
             @ ''or deleted.'')])"

definition wh005_high_risk_findings :: "string \<Rightarrow> webhook_site \<Rightarrow> Finding list" where
  "wh005_high_risk_findings targetVersion site =
     (case wh005MatchesTargets (wh_Rules (ws_Webhook site)) wh005HighRiskTargets of
        None \<Rightarrow> []
      | Some resource \<Rightarrow>
          [wh005Finding site SeverityWarning UpgradeGateOperatorDecision False False
            (''high-risk-resource-scope:'' @ resource) targetVersion
            (if isFailClosed (wh_FailurePolicy (ws_Webhook site))
             then (site_label site @ '' matches '' @ resource @ '' '' @ emdash
                   @ '' this is a fail-closed webhook, so if it becomes unavailable, it can ''
                   @ ''block node status updates, namespace lifecycle, or PersistentVolume ''
                   @ ''operations that worker rollout and maintenance workflows depend on'')
             else (site_label site @ '' matches '' @ resource @ '' '' @ emdash
                   @ '' this webhook covers node status updates, namespace lifecycle, or ''
                   @ ''PersistentVolume operations but is fail-open (failurePolicy: ''
                   @ ''Ignore), so an unavailable backend won'' @ sq @ ''t block those ''
                   @ ''operations; confirm fail-open was an intentional choice for a ''
                   @ ''webhook covering resources this sensitive''))
            [(''webhook name: '' @ (wh_Name (ws_Webhook site))), (''matched resource: ''
                                                                  @ resource)]
            (''Confirm this webhook genuinely needs to validate/mutate this resource. If ''
             @ ''not, narrow its rules to exclude it.'')])"

definition wh005EvaluateWebhook :: "string \<Rightarrow> webhook_site \<Rightarrow> Finding list" where
  "wh005EvaluateWebhook targetVersion site =
     wh005_timeout_findings targetVersion site @ wh005_wildcard_findings targetVersion site
     @ wh005_self_findings targetVersion site @ wh005_high_risk_findings targetVersion site"

definition WH005_Evaluate :: "ScanContext option \<Rightarrow> string \<Rightarrow> rule_outcome" where
  "WH005_Evaluate sc targetVersion =
     with_k8s sc (\<lambda>s snap. concat (map (wh005EvaluateWebhook targetVersion) (webhook_sites snap)))"

end
