(* ===== verification/ApiCatalog.thy ===== *)
theory ApiCatalog
  imports Text Cluster
begin

text \<open>
  The versioned catalog of deprecated and removed Kubernetes APIs
  (\<open>internal/apicatalog/versioned_catalog.go\<close>, \<open>catalog.go\<close>): validation and normalisation of
  the document, lookup by group, version and kind, the supported target range, and the derived
  legacy inventory. The embedded \<open>versioned_catalog.json\<close> is data in \<open>ApiCatalogData\<close>.

  A Go function that returns an error or panics has a result of three cases: \<open>Done\<close>, \<open>Failed\<close>
  with the error's text, \<open>Crashed\<close> with the text of the panic.
\<close>

datatype 'a outcome = Done 'a | Failed string | Crashed string

fun bind_outcome :: "'a outcome \<Rightarrow> ('a \<Rightarrow> 'b outcome) \<Rightarrow> 'b outcome" where
  "bind_outcome (Done x) f = f x"
| "bind_outcome (Failed e) f = Failed e"
| "bind_outcome (Crashed p) f = Crashed p"

section \<open>The document\<close>

record SupportedTargetRange =
  range_Min :: string
  range_Max :: string

record VersionedAPI =
  va_Group :: string
  va_Version :: string
  va_Resource :: string
  va_Kind :: string
  va_Namespaced :: bool
  va_DeprecatedInVersion :: string
  va_RemovedInVersion :: string
  va_ReplacementAPI :: string
  va_ReplacementAPIVersion :: string
  va_SupportedTargetRange :: SupportedTargetRange
  va_Source :: string
  va_Reference :: string
  va_LastVerifiedDate :: string
  va_Confidence :: string

record VersionedDocument =
  vd_SchemaVersion :: string
  vd_Entries :: "VersionedAPI list"
  vd_BuildSupportedTargetRange :: SupportedTargetRange

record VersionedCatalog =
  vc_entries :: "VersionedAPI list"
  vc_buildRange :: SupportedTargetRange

definition VersionedSchemaVersion :: string where
  "VersionedSchemaVersion = ''apicatalog.kubepreflight.io/v1''"

section \<open>Kubernetes versions\<close>

definition validKubernetesVersion :: "string \<Rightarrow> bool" where
  \<comment> \<open>\<open>^1\.[0-9]+$\<close>\<close>
  "validKubernetesVersion v \<longleftrightarrow>
     HasPrefix v ''1.'' \<and> drop 2 v \<noteq> [] \<and> list_all is_digit (drop 2 v)"

text \<open>\<open>^v[0-9]+((alpha|beta)[0-9]+)?$\<close>\<close>

definition digits_only :: "string \<Rightarrow> bool" where
  "digits_only s \<longleftrightarrow> s \<noteq> [] \<and> list_all is_digit s"

definition versionedAPIVersion :: "string \<Rightarrow> bool" where
  "versionedAPIVersion v \<longleftrightarrow>
     HasPrefix v ''v''
     \<and> (let body = tl v; major = takeWhile is_digit body; rest = dropWhile is_digit body
        in major \<noteq> []
           \<and> (rest = [] \<or> (HasPrefix rest ''alpha'' \<and> digits_only (drop 5 rest))
              \<or> (HasPrefix rest ''beta'' \<and> digits_only (drop 4 rest))))"

text \<open>\<open>mustParseKubernetesVersion\<close>: \<open>None\<close> is the panic.\<close>

definition mustParseKubernetesVersion :: "string \<Rightarrow> (int \<times> int) option" where
  "mustParseKubernetesVersion v =
     (case Split v (CHR ''.'') of
        [a, b] \<Rightarrow>
          (case (Atoi a, Atoi b) of
             (Some major, Some minor) \<Rightarrow> Some (major, minor)
           | _ \<Rightarrow> None)
      | _ \<Rightarrow> None)"

definition compare_pairs :: "int \<times> int \<Rightarrow> int \<times> int \<Rightarrow> int" where
  "compare_pairs a b =
     (if fst a \<noteq> fst b then (if fst a < fst b then -1 else 1)
      else if snd a < snd b then -1 else if snd a > snd b then 1 else 0)"

definition version_panic :: "string \<Rightarrow> string" where
  "version_panic v = (''invalid Kubernetes version '' @ quote v)"

definition compareKubernetesVersions :: "string \<Rightarrow> string \<Rightarrow> int outcome" where
  "compareKubernetesVersions a b =
     (case mustParseKubernetesVersion a of
        None \<Rightarrow> Crashed (version_panic a)
      | Some pa \<Rightarrow>
          (case mustParseKubernetesVersion b of
             None \<Rightarrow> Crashed (version_panic b)
           | Some pb \<Rightarrow> Done (compare_pairs pa pb)))"

definition versionInRange :: "string \<Rightarrow> string \<Rightarrow> string \<Rightarrow> bool outcome" where
  "versionInRange v mn mx =
     bind_outcome (compareKubernetesVersions v mn) (\<lambda>lo.
       if \<not> lo \<ge> 0 then Done False
       else bind_outcome (compareKubernetesVersions v mx) (\<lambda>hi. Done (hi \<le> 0)))"

definition rangesOverlap :: "SupportedTargetRange \<Rightarrow> SupportedTargetRange \<Rightarrow> bool outcome" where
  "rangesOverlap a b =
     bind_outcome (compareKubernetesVersions (range_Min a) (range_Max b)) (\<lambda>x.
       if \<not> x \<le> 0 then Done False
       else bind_outcome (compareKubernetesVersions (range_Min b) (range_Max a)) (\<lambda>y. Done (y \<le> 0)))"

definition normalizeVersionedKubernetesVersion :: "string \<Rightarrow> string option" where
  "normalizeVersionedKubernetesVersion v =
     (case Split (TrimPrefix (TrimSpace v) ''v'') (CHR ''.'') of
        a # b # _ \<Rightarrow>
          (let normalized = a @ ''.'' @ b
           in if validKubernetesVersion normalized then Some normalized else None)
      | _ \<Rightarrow> None)"

section \<open>Validation\<close>

definition trim_version :: "string \<Rightarrow> string" where
  "trim_version v = TrimPrefix (TrimSpace v) ''v''"

definition normalizeVersionedGroup :: "string \<Rightarrow> string" where
  "normalizeVersionedGroup g = ToLower (TrimSpace g)"

definition normalizeVersionedAPIVersion :: "string \<Rightarrow> string" where
  "normalizeVersionedAPIVersion v = ToLower (TrimSpace v)"

definition normalizeVersionedKind :: "string \<Rightarrow> string" where
  "normalizeVersionedKind k = TrimSpace k"

definition normalize_fields :: "VersionedAPI \<Rightarrow> VersionedAPI" where
  \<comment> \<open>the assignments at the start of \<open>normalizeVersionedEntry\<close>\<close>
  "normalize_fields e =
     \<lparr>va_Group = normalizeVersionedGroup (va_Group e),
      va_Version = normalizeVersionedAPIVersion (va_Version e),
      va_Resource = ToLower (TrimSpace (va_Resource e)),
      va_Kind = normalizeVersionedKind (va_Kind e),
      va_Namespaced = va_Namespaced e,
      va_DeprecatedInVersion = trim_version (va_DeprecatedInVersion e),
      va_RemovedInVersion = trim_version (va_RemovedInVersion e),
      va_ReplacementAPI = TrimSpace (va_ReplacementAPI e),
      va_ReplacementAPIVersion = TrimSpace (va_ReplacementAPIVersion e),
      va_SupportedTargetRange =
        \<lparr>range_Min = trim_version (range_Min (va_SupportedTargetRange e)),
         range_Max = trim_version (range_Max (va_SupportedTargetRange e))\<rparr>,
      va_Source = TrimSpace (va_Source e),
      va_Reference = TrimSpace (va_Reference e),
      va_LastVerifiedDate = TrimSpace (va_LastVerifiedDate e),
      va_Confidence = TrimSpace (va_Confidence e)\<rparr>"

definition check_replacement_and_source :: "VersionedAPI \<Rightarrow> VersionedAPI outcome" where
  \<comment> \<open>the checks after the target range\<close>
  "check_replacement_and_source e =
     (if va_Source e = '''' then Failed ''source is required''
      else if va_Reference e = '''' then Failed ''reference is required''
      else if parse_date (va_LastVerifiedDate e) = None
      then Failed (''invalid lastVerifiedDate '' @ quote (va_LastVerifiedDate e))
      else if va_Confidence e \<noteq> ''STATIC_CERTAIN''
      then Failed (''unsupported confidence '' @ quote (va_Confidence e))
      else Done e)"

definition check_target_range :: "VersionedAPI \<Rightarrow> VersionedAPI outcome" where
  "check_target_range e =
     (let r = va_SupportedTargetRange e
      in if va_ReplacementAPI e = '''' then Failed ''replacementAPI is required''
         else if \<not> validKubernetesVersion (range_Min r) \<or> \<not> validKubernetesVersion (range_Max r)
         then Failed ''supportedTargetRange must use Kubernetes major.minor versions''
         else bind_outcome (compareKubernetesVersions (range_Min r) (range_Max r)) (\<lambda>c.
           if c > 0 then Failed (''supportedTargetRange min '' @ range_Min r
                                 @ '' is after max '' @ range_Max r)
           else check_replacement_and_source e))"

definition normalizeVersionedEntry :: "VersionedAPI \<Rightarrow> VersionedAPI outcome" where
  "normalizeVersionedEntry entry =
     (let e = normalize_fields entry
      in if va_Version e = '''' \<or> \<not> versionedAPIVersion (va_Version e)
         then Failed (''invalid API version '' @ quote (va_Version e))
         else if va_Resource e = '''' then Failed ''resource is required''
         else if va_Kind e = '''' then Failed ''kind is required''
         else if \<not> validKubernetesVersion (va_DeprecatedInVersion e)
         then Failed (''invalid deprecatedInVersion '' @ quote (va_DeprecatedInVersion e))
         else if \<not> validKubernetesVersion (va_RemovedInVersion e)
         then Failed (''invalid removedInVersion '' @ quote (va_RemovedInVersion e))
         else bind_outcome
           (compareKubernetesVersions (va_DeprecatedInVersion e) (va_RemovedInVersion e)) (\<lambda>c.
             if c > 0
             then Failed (''deprecatedInVersion '' @ va_DeprecatedInVersion e
                          @ '' is after removedInVersion '' @ va_RemovedInVersion e)
             else check_target_range e))"

type_synonym versionedKey = "string \<times> string \<times> string"

definition versionedEntryKey :: "VersionedAPI \<Rightarrow> versionedKey" where
  "versionedEntryKey e = (va_Group e, va_Version e, va_Kind e)"

definition parsed_or_zero :: "string \<Rightarrow> int \<times> int" where
  \<comment> \<open>the entries sorted have passed the comparison of their own bounds, so both parse\<close>
  "parsed_or_zero v = (case mustParseKubernetesVersion v of Some p \<Rightarrow> p | None \<Rightarrow> (0, 0))"

definition entry_less :: "VersionedAPI \<Rightarrow> VersionedAPI \<Rightarrow> bool" where
  "entry_less a b \<longleftrightarrow>
     (if versionedEntryKey a \<noteq> versionedEntryKey b
      then versionedEntryKey a < versionedEntryKey b
      else let ra = va_SupportedTargetRange a; rb = va_SupportedTargetRange b
           in if range_Min ra \<noteq> range_Min rb
              then compare_pairs (parsed_or_zero (range_Min ra)) (parsed_or_zero (range_Min rb)) < 0
              else compare_pairs (parsed_or_zero (range_Max ra)) (parsed_or_zero (range_Max rb)) < 0)"

fun normalize_entries :: "nat \<Rightarrow> VersionedAPI list \<Rightarrow> VersionedAPI list outcome" where
  "normalize_entries i [] = Done []"
| "normalize_entries i (e # es) =
     (case normalizeVersionedEntry e of
        Done n \<Rightarrow> bind_outcome (normalize_entries (Suc i) es) (\<lambda>ns. Done (n # ns))
      | Failed err \<Rightarrow> Failed (''entry '' @ show_int (int i) @ '': '' @ err)
      | Crashed p \<Rightarrow> Crashed p)"

fun check_overlaps :: "VersionedAPI list \<Rightarrow> unit outcome" where
  "check_overlaps (prev # cur # es) =
     (if versionedEntryKey prev \<noteq> versionedEntryKey cur then check_overlaps (cur # es)
      else bind_outcome (rangesOverlap (va_SupportedTargetRange prev) (va_SupportedTargetRange cur))
        (\<lambda>overlap.
          if overlap
          then Failed (va_Group cur @ ''/'' @ va_Version cur @ '' '' @ va_Kind cur
                       @ '' has overlapping supported target ranges ''
                       @ (range_Min (va_SupportedTargetRange prev)) @ ''-''
                       @ (range_Max (va_SupportedTargetRange prev)) @ '' and ''
                       @ (range_Min (va_SupportedTargetRange cur)) @ ''-''
                       @ (range_Max (va_SupportedTargetRange cur)))
          else check_overlaps (cur # es)))"
| "check_overlaps _ = Done ()"

definition normalizeAndValidateVersioned :: "VersionedAPI list \<Rightarrow> VersionedAPI list outcome" where
  "normalizeAndValidateVersioned entries =
     bind_outcome (normalize_entries 0 entries) (\<lambda>out.
       let sorted = sort_by entry_less out
       in bind_outcome (check_overlaps sorted) (\<lambda>_. Done sorted))"

definition normalizeBuildSupportedTargetRange ::
  "SupportedTargetRange \<Rightarrow> SupportedTargetRange outcome" where
  "normalizeBuildSupportedTargetRange r0 =
     (let r = \<lparr>range_Min = trim_version (range_Min r0), range_Max = trim_version (range_Max r0)\<rparr>
      in if \<not> validKubernetesVersion (range_Min r) \<or> \<not> validKubernetesVersion (range_Max r)
         then Failed ''buildSupportedTargetRange must use Kubernetes major.minor versions''
         else bind_outcome (compareKubernetesVersions (range_Min r) (range_Max r)) (\<lambda>c.
           if c > 0
           then Failed (''buildSupportedTargetRange min '' @ range_Min r @ '' is after max ''
                        @ range_Max r)
           else Done r))"

definition NewVersioned :: "VersionedDocument \<Rightarrow> VersionedCatalog outcome" where
  "NewVersioned doc =
     (if vd_SchemaVersion doc \<noteq> VersionedSchemaVersion
      then Failed (''unsupported API version catalog schemaVersion ''
                   @ quote (vd_SchemaVersion doc))
      else bind_outcome (normalizeAndValidateVersioned (vd_Entries doc)) (\<lambda>entries.
        bind_outcome (normalizeBuildSupportedTargetRange (vd_BuildSupportedTargetRange doc))
          (\<lambda>buildRange. Done \<lparr>vc_entries = entries, vc_buildRange = buildRange\<rparr>)))"

section \<open>Lookup\<close>

definition EntryFor ::
  "VersionedCatalog \<Rightarrow> string \<Rightarrow> string \<Rightarrow> string \<Rightarrow> VersionedAPI option" where
  "EntryFor c grp version kind =
     find (\<lambda>e. va_Group e = normalizeVersionedGroup grp
             \<and> va_Version e = normalizeVersionedAPIVersion version
             \<and> va_Kind e = normalizeVersionedKind kind) (vc_entries c)"

fun lookup_loop ::
  "versionedKey \<Rightarrow> string \<Rightarrow> VersionedAPI list \<Rightarrow> VersionedAPI option outcome" where
  "lookup_loop k target [] = Done None"
| "lookup_loop k target (e # es) =
     (if versionedEntryKey e \<noteq> k then lookup_loop k target es
      else bind_outcome (versionInRange target (range_Min (va_SupportedTargetRange e))
                           (range_Max (va_SupportedTargetRange e)))
        (\<lambda>inside. if inside then Done (Some e) else lookup_loop k target es))"

definition Lookup ::
  "VersionedCatalog \<Rightarrow> string \<Rightarrow> string \<Rightarrow> string \<Rightarrow> string \<Rightarrow> VersionedAPI option outcome" where
  "Lookup c grp version kind targetVersion =
     (case normalizeVersionedKubernetesVersion targetVersion of
        None \<Rightarrow> Done None
      | Some target \<Rightarrow>
          lookup_loop (normalizeVersionedGroup grp, normalizeVersionedAPIVersion version,
                       normalizeVersionedKind kind) target (vc_entries c))"

text \<open>\<open>TargetSupported\<close>: the declared bounds, and whether the target is within them.\<close>

definition TargetSupported :: "VersionedCatalog \<Rightarrow> string \<Rightarrow> (string \<times> string \<times> bool) outcome" where
  "TargetSupported c targetVersion =
     (let mn = range_Min (vc_buildRange c); mx = range_Max (vc_buildRange c)
      in case normalizeVersionedKubernetesVersion targetVersion of
           None \<Rightarrow> Done (mn, mx, False)
         | Some target \<Rightarrow> bind_outcome (versionInRange target mn mx) (\<lambda>ok. Done (mn, mx, ok)))"

definition StaleEntries :: "VersionedCatalog \<Rightarrow> int \<Rightarrow> VersionedAPI list" where
  "StaleEntries c cutoff =
     filter (\<lambda>e. case parse_date (va_LastVerifiedDate e) of
                   None \<Rightarrow> True
                 | Some day \<Rightarrow> day * (24 * Hour) < cutoff) (vc_entries c)"

section \<open>The legacy inventory\<close>

definition legacy_entry :: "VersionedAPI \<Rightarrow> DeprecatedAPI" where
  "legacy_entry e =
     \<lparr>dep_Group = va_Group e, dep_Version = va_Version e, dep_Resource = va_Resource e,
      dep_Kind = va_Kind e, dep_Namespaced = va_Namespaced e,
      dep_RemovedInVersion = va_RemovedInVersion e, dep_Replacement = va_ReplacementAPI e,
      dep_ReplacementAPIVersion = va_ReplacementAPIVersion e\<rparr>"

definition legacyFromVersioned :: "VersionedCatalog outcome \<Rightarrow> DeprecatedAPI list outcome" where
  \<comment> \<open>the argument is the result of \<open>DefaultVersioned()\<close>; an error becomes a panic\<close>
  "legacyFromVersioned vc =
     (case vc of
        Done c \<Rightarrow> Done (map legacy_entry (vc_entries c))
      | Failed err \<Rightarrow>
          Crashed (''apicatalog: deriving legacy inventory from versioned catalog: '' @ err)
      | Crashed p \<Rightarrow> Crashed p)"

section \<open>Parity with the inventory before the migration\<close>

definition legacy_key :: "DeprecatedAPI \<Rightarrow> string" where
  "legacy_key l = dep_Group l @ ''/'' @ dep_Version l @ '' '' @ dep_Kind l"

definition field_issue :: "string \<Rightarrow> string \<Rightarrow> string \<Rightarrow> string \<Rightarrow> string list" where
  "field_issue k field found wanted =
     (if found \<noteq> wanted
      then [(k @ '': versioned '' @ field @ '' = '' @ quote found @ '', want '' @ quote wanted
             @ '' (must match legacy)'')]
      else [])"

definition parity_issues_of :: "VersionedCatalog \<Rightarrow> DeprecatedAPI \<Rightarrow> string list" where
  \<comment> \<open>the body of the loop after the duplicate check\<close>
  "parity_issues_of vc l =
     (let k = legacy_key l
      in case EntryFor vc (dep_Group l) (dep_Version l) (dep_Kind l) of
           None \<Rightarrow> [(''versioned catalog is missing '' @ k @ '' '' @ emdash
                                @ '' every legacy GVK must be present, none may be silently ''
                                @ ''omitted'')]
         | Some e \<Rightarrow>
             field_issue k ''removedInVersion'' (va_RemovedInVersion e) (dep_RemovedInVersion l)
             @ field_issue k ''replacementAPI'' (va_ReplacementAPI e) (dep_Replacement l)
             @ field_issue k ''replacementAPIVersion'' (va_ReplacementAPIVersion e)
                 (dep_ReplacementAPIVersion l)
             @ (if va_Namespaced e \<noteq> dep_Namespaced l
                then [(k @ '': versioned namespaced = '' @ show_bool (va_Namespaced e)
                       @ '', want '' @ show_bool (dep_Namespaced l) @ '' (must match legacy)'')]
                else [])
             @ field_issue k ''resource'' (va_Resource e) (dep_Resource l))"

fun parity_loop :: "VersionedCatalog \<Rightarrow> string list \<Rightarrow> DeprecatedAPI list \<Rightarrow> string list" where
  "parity_loop vc seen [] = []"
| "parity_loop vc seen (l # ls) =
     (if legacy_key l \<in> set seen
      then [(''duplicate lifecycle definition for '' @ legacy_key l @ '' in the legacy ''
             @ ''snapshot'')]
      else [])
     @ parity_issues_of vc l @ parity_loop vc (legacy_key l # seen) ls"

definition legacyParityIssuesAgainst :: "VersionedCatalog \<Rightarrow> DeprecatedAPI list \<Rightarrow> string list" where
  "legacyParityIssuesAgainst vc legacy =
     parity_loop vc [] legacy
     @ (if length (vc_entries vc) \<noteq> length legacy
        then [(''versioned catalog has '' @ show_int (int (length (vc_entries vc)))
               @ '' entries, want exactly '' @ show_int (int (length legacy))
               @ '' (same count as the migrated legacy snapshot '' @ emdash
               @ '' extra entries beyond a 1:1 migration belong in a dedicated maintenance ''
               @ ''PR, not silently alongside it)'')]
        else [])"

end
