(* ===== verification/Exemptions.thy ===== *)
theory Exemptions
  imports Text Cluster
begin

text \<open>
  The registry of accepted false-positive exemptions (\<open>internal/exemptions/registry.go\<close>), the
  audit inventory that must account for every entry (\<open>audit.go\<close>), the consistency checks between
  the two (\<open>check.go\<close>, without the checks that read the repository's files), and the one decision
  the Kubernetes collector takes on the registry's behalf: whether a live object is managed by a
  controller (\<open>IsAutoManagedObject\<close> of \<open>internal/collectors/k8s/collector.go\<close>).
\<close>

section \<open>The registry\<close>

definition API001LiveEventsID :: string where
  "API001LiveEventsID = ''api001-live-events''"
definition API001AutoManagedFlowControlID :: string where
  "API001AutoManagedFlowControlID = ''api001-auto-managed-flowcontrol''"
definition API001ControllerManagedEndpointSlicesID :: string where
  "API001ControllerManagedEndpointSlicesID = ''api001-controller-managed-endpointslices''"
definition AddonProviderScopedCatalogID :: string where
  "AddonProviderScopedCatalogID = ''addon-provider-scoped-catalog''"

datatype ExemptionPlane =
  ExemptionPlaneLive | ExemptionPlaneManifest | ExemptionPlaneBoth | ExemptionPlaneOther string

record ExemptionEntry =
  ee_ID :: string
  ee_AffectedRules :: "string list"
  ee_Rationale :: string
  ee_RequiredEvidence :: "string list"
  ee_SupportedResources :: "string list"
  ee_EvaluationPlane :: ExemptionPlane
  ee_Behavior :: string
  ee_Scope :: string
  ee_ScopeBoundaries :: "string list"
  ee_ConservativeFallback :: string
  ee_PositiveTests :: "string list"
  ee_NegativeTests :: "string list"
  ee_SpoofingTests :: "string list"
  ee_PlaneTests :: "string list"
  ee_Documentation :: string

definition registryEntries :: "ExemptionEntry list" where
  "registryEntries =
     [\<lparr>ee_ID = API001LiveEventsID,
       ee_AffectedRules = [''API-001''],
       ee_Rationale = (''Live Events are emitted by clients and controllers, self-expire ''
                       @ ''quickly, and do not represent a hand-owned migration object.''),
       ee_RequiredEvidence = [(''live Event objects are emitted by controllers/clients ''
                               @ ''rather than hand-migrated by cluster operators''),
                              (''Event objects are short-lived and can appear in high ''
                               @ ''volume, so per-object Blockers are noise rather than an ''
                               @ ''actionable owner signal''),
                              (''manifest-plane Event YAML is outside this exemption and ''
                               @ ''remains actionable user-authored input'')],
       ee_SupportedResources = [''events.k8s.io/v1beta1 Event''],
       ee_EvaluationPlane = ExemptionPlaneLive,
       ee_Behavior = ''suppressed entirely'',
       ee_Scope = (''live Kubernetes plane only; manifest Event YAML still reports as a ''
                   @ ''Blocker''),
       ee_ScopeBoundaries = [''does not apply to manifest-plane Event YAML'',
                             ''does not apply to non-Event deprecated API objects''],
       ee_ConservativeFallback = (''Report the deprecated object normally when it is not a ''
                                  @ ''live Event.''),
       ee_PositiveTests = [''TestAPI001_LiveEvents_SuppressedEntirely'',
                           ''TestAPI002_LiveEventsSuppressed''],
       ee_NegativeTests = [''TestAPI001_ManifestEvents_StillFireAsBlocker''],
       ee_SpoofingTests = [''TestAPI001_DemoSeededObjects_UnaffectedByEphemeralFiltering''],
       ee_PlaneTests = [''TestAPI001_ManifestEvents_StillFireAsBlocker''],
       ee_Documentation = ''docs/false-positive-governance.md#api-001-live-events''\<rparr>,
      \<lparr>ee_ID = API001AutoManagedFlowControlID,
       ee_AffectedRules = [''API-001''],
       ee_Rationale = (''Kube-apiserver and EKS reconcile their own flowcontrol defaults, ''
                       @ ''so these live objects are inventory signal rather than an ''
                       @ ''operator-owned migration task.''),
       ee_RequiredEvidence = [(''reconciled automatically: matched via the ''
                               @ ''apf.kubernetes.io/autoupdate-spec annotation ''
                               @ ''(kube-apiserver bootstrap default) or EKS'' @ sq
                               @ ''s eks-internal field manager (cloud-provider-injected ''
                               @ ''default)''),
                              (''GVK guard: the eks-internal field manager is only trusted ''
                               @ ''for flowcontrol.apiserver.k8s.io ''
                               @ ''FlowSchema/PriorityLevelConfiguration objects''),
                              (''name alone is never trusted; an object merely named like ''
                               @ ''an EKS default remains a Blocker without controller ''
                               @ ''evidence''),
                              (''manifest-plane FlowSchema/PriorityLevelConfiguration YAML ''
                               @ ''is outside this exemption and remains a Blocker'')],
       ee_SupportedResources = [''flowcontrol.apiserver.k8s.io FlowSchema'',
                                ''flowcontrol.apiserver.k8s.io PriorityLevelConfiguration''],
       ee_EvaluationPlane = ExemptionPlaneLive,
       ee_Behavior = ''downgraded from Blocker to Info'',
       ee_Scope = (''live flowcontrol.apiserver.k8s.io objects only when controller ''
                   @ ''evidence is present''),
       ee_ScopeBoundaries = [(''does not apply to manifest-plane ''
                              @ ''FlowSchema/PriorityLevelConfiguration YAML''),
                             (''does not apply to flowcontrol objects without auto-managed ''
                              @ ''evidence''),
                             (''does not apply to non-flowcontrol objects with matching ''
                              @ ''names, annotations, labels, or field managers'')],
       ee_ConservativeFallback = (''Report as a Blocker when auto-managed evidence is ''
                                  @ ''missing, ambiguous, or attached to an unsupported GVK.''),
       ee_PositiveTests = [''TestAPI001_AutoManagedFlowSchema_DowngradesToInfo'',
                           (''TestIsAutoManagedObject/EKS-injected_FlowSchema_has_autoupdate-spec_false_but_the_eks-internal_field_manager'')],
       ee_NegativeTests = [''TestAPI001_UserCreatedFlowSchema_StillFiresAsBlocker''],
       ee_SpoofingTests = [''TestAPI001_FlowControlNameOnlySpoofing_StillFiresAsBlocker'',
                           (''TestIsAutoManagedObject/eks-internal_field_manager_on_a_non-flowcontrol_GVK_grants_no_exemption'')],
       ee_PlaneTests = [''TestAPI001_ManifestPlaneFlowSchema_AlwaysBlocker''],
       ee_Documentation = (''docs/false-positive-governance.md#api-001-auto-managed-flowcontrol'')\<rparr>,
      \<lparr>ee_ID = API001ControllerManagedEndpointSlicesID,
       ee_AffectedRules = [''API-001''],
       ee_Rationale = (''The built-in EndpointSlice controller recreates its own slices ''
                       @ ''against the owning Service at the API version the server ''
                       @ ''currently serves.''),
       ee_RequiredEvidence = [(''endpointslice.kubernetes.io/managed-by: ''
                               @ ''endpointslice-controller.k8s.io (built-in EndpointSlice ''
                               @ ''controller)''),
                              (''controller ownerReference kind: Service (controller-owned, ''
                               @ ''recreated automatically)''),
                              (''namespace/name alone is never trusted; ''
                               @ ''default/kubernetes-shaped EndpointSlices remain Blockers ''
                               @ ''without controller evidence''),
                              (''manifest-plane EndpointSlice YAML is outside this ''
                               @ ''exemption and remains a Blocker'')],
       ee_SupportedResources = [''discovery.k8s.io/v1beta1 EndpointSlice''],
       ee_EvaluationPlane = ExemptionPlaneLive,
       ee_Behavior = ''downgraded from Blocker to Info'',
       ee_Scope = (''live EndpointSlice objects only when the built-in EndpointSlice ''
                   @ ''controller managed-by label is present''),
       ee_ScopeBoundaries = [''does not apply to manifest-plane EndpointSlice YAML'',
                             (''does not apply to EndpointSlices missing the exact ''
                              @ ''controller managed-by label and Service controller owner ''
                              @ ''reference''),
                             (''does not apply to non-EndpointSlice objects with similar ''
                              @ ''labels, namespaces, or names'')],
       ee_ConservativeFallback = (''Report as a Blocker when controller-managed evidence is ''
                                  @ ''missing, ambiguous, or attached to an unsupported GVK.''),
       ee_PositiveTests = [''TestAPI001_ControllerManagedEndpointSlice_DowngradesToInfo'',
                           (''TestIsAutoManagedObject/controller-managed_EndpointSlice_carries_the_real_managed-by_label'')],
       ee_NegativeTests = [''TestAPI001_UnmanagedEndpointSlice_StillFiresAsBlocker''],
       ee_SpoofingTests = [(''TestAPI001_EndpointSliceNamespaceOnlySpoofing_StillFiresAsBlocker''),
                           (''TestIsAutoManagedObject/the_default/kubernetes_EndpointSlice_exception_has_no_managed-by_label'')],
       ee_PlaneTests = [''TestAPI001_ManifestEndpointSlice_UnaffectedByAutoManagedCheck''],
       ee_Documentation = (''docs/false-positive-governance.md#api-001-controller-managed-endpointslices'')\<rparr>,
      \<lparr>ee_ID = AddonProviderScopedCatalogID,
       ee_AffectedRules = [''ADDON-001'',
                           ''ADDON-002''],
       ee_Rationale = (''EKS-scoped live workload add-on compatibility facts must not be ''
                       @ ''applied to a cluster unless the scan has confirmed the EKS ''
                       @ ''provider plane.''),
       ee_RequiredEvidence = [(''provider-scoped catalog data is applied only after the ''
                               @ ''scan has confirmed the matching provider plane''),
                              (''AWS Load Balancer Controller uses EKS-scoped compatibility ''
                               @ ''data and therefore requires AWS/EKS enrichment''),
                              (''generic Kubernetes add-ons such as metrics-server, ''
                               @ ''ingress-nginx, cert-manager, and external-dns do not ''
                               @ ''require AWS/EKS enrichment'')],
       ee_SupportedResources = [''Deployment/aws-load-balancer-controller'',
                                ''DaemonSet/aws-load-balancer-controller''],
       ee_EvaluationPlane = ExemptionPlaneLive,
       ee_Behavior = (''EKS-scoped catalog lookup is withheld without confirmed AWS/EKS ''
                      @ ''enrichment, falling through to ADDON-002 unverifiable handling ''
                      @ ''instead of borrowing provider facts.''),
       ee_Scope = (''live workload add-on catalog lookup only; generic Kubernetes catalog ''
                   @ ''entries still apply without AWS/EKS enrichment''),
       ee_ScopeBoundaries = [''does not apply to generic Kubernetes add-on catalog entries'',
                             (''does not apply to EKS managed add-ons reported by AWS ''
                              @ ''provider APIs''),
                             (''does not treat workload name, namespace, labels, or image ''
                              @ ''repository as proof of provider identity'')],
       ee_ConservativeFallback = (''Without confirmed AWS/EKS enrichment, report ''
                                  @ ''provider-scoped live workload add-on compatibility as ''
                                  @ ''unknown rather than compatible or incompatible.''),
       ee_PositiveTests = [''TestADDON_LiveAWSLoadBalancerController''],
       ee_NegativeTests = [''TestADDON002_LiveMetricsServerAndExternalDNSCompatibleNoFinding''],
       ee_SpoofingTests = [''TestADDON002_LiveUnrelatedWorkloadNamedLikeAnAddonDoesNotMatch'',
                           ''TestADDON_LiveAWSLoadBalancerController''],
       ee_PlaneTests = [''TestADDON001_Negative_NilAWSSnapshotNoFindingsNoError'',
                        ''TestADDON_LiveAWSLoadBalancerController''],
       ee_Documentation = ''docs/false-positive-governance.md#add-on-provider-scoped-catalog''\<rparr>]"

text \<open>\<open>MustGet\<close>: \<open>None\<close> is the panic.\<close>

definition MustGet :: "string \<Rightarrow> ExemptionEntry option" where
  "MustGet entry_id = find (\<lambda>e. ee_ID e = entry_id) registryEntries"

definition ExemptionRegistry :: "ExemptionEntry list" where
  "ExemptionRegistry = sort_by (\<lambda>a b. ee_ID a < ee_ID b) registryEntries"

definition required_evidence_of :: "string \<Rightarrow> string list" where
  \<comment> \<open>\<open>MustGet(id).EvidenceText()\<close>\<close>
  "required_evidence_of entry_id =
     (case MustGet entry_id of Some e \<Rightarrow> ee_RequiredEvidence e | None \<Rightarrow> [])"

definition evaluated_live :: "string \<Rightarrow> bool" where
  \<comment> \<open>\<open>MustGet(id).EvaluationPlane == PlaneLive\<close>\<close>
  "evaluated_live entry_id \<longleftrightarrow>
     map_option ee_EvaluationPlane (MustGet entry_id) = Some ExemptionPlaneLive"

fun validPlane :: "ExemptionPlane \<Rightarrow> bool" where
  "validPlane (ExemptionPlaneOther _) = False"
| "validPlane _ = True"

fun exemption_plane_string :: "ExemptionPlane \<Rightarrow> string" where
  "exemption_plane_string ExemptionPlaneLive = ''live''"
| "exemption_plane_string ExemptionPlaneManifest = ''manifest''"
| "exemption_plane_string ExemptionPlaneBoth = ''both''"
| "exemption_plane_string (ExemptionPlaneOther p) = p"

definition empty_items :: "string \<Rightarrow> string \<Rightarrow> string list \<Rightarrow> string list" where
  "empty_items entry_id field values =
     concat (map (\<lambda>(i, v). if TrimSpace v = ''''
                           then [(entry_id @ '': '' @ field @ ''['' @ show_int (int i)
                                  @ ''] is empty'')] else [])
       (zip [0..<length values] values))"

definition requireList :: "string \<Rightarrow> string \<Rightarrow> string list \<Rightarrow> string list" where
  "requireList entry_id field values =
     (if length values = 0 then [(entry_id @ '': missing '' @ field)]
      else empty_items entry_id field values)"

definition require_text :: "string \<Rightarrow> string \<Rightarrow> string \<Rightarrow> string list" where
  "require_text entry_id field v =
     (if TrimSpace v = '''' then [(entry_id @ '': missing '' @ field)] else [])"

definition entry_errors :: "ExemptionEntry \<Rightarrow> string list" where
  \<comment> \<open>the loop body after the duplicate check\<close>
  "entry_errors e =
     require_text (ee_ID e) ''Rationale'' (ee_Rationale e)
     @ (if \<not> validPlane (ee_EvaluationPlane e)
        then [(ee_ID e @ '': invalid EvaluationPlane ''
               @ quote (exemption_plane_string (ee_EvaluationPlane e)))]
        else [])
     @ requireList (ee_ID e) ''AffectedRules'' (ee_AffectedRules e)
     @ requireList (ee_ID e) ''RequiredEvidence'' (ee_RequiredEvidence e)
     @ requireList (ee_ID e) ''SupportedResources'' (ee_SupportedResources e)
     @ requireList (ee_ID e) ''ScopeBoundaries'' (ee_ScopeBoundaries e)
     @ require_text (ee_ID e) ''Behavior'' (ee_Behavior e)
     @ require_text (ee_ID e) ''Scope'' (ee_Scope e)
     @ require_text (ee_ID e) ''Documentation'' (ee_Documentation e)
     @ require_text (ee_ID e) ''ConservativeFallback'' (ee_ConservativeFallback e)
     @ requireList (ee_ID e) ''PositiveTests'' (ee_PositiveTests e)
     @ requireList (ee_ID e) ''NegativeTests'' (ee_NegativeTests e)
     @ requireList (ee_ID e) ''SpoofingTests'' (ee_SpoofingTests e)
     @ requireList (ee_ID e) ''PlaneTests'' (ee_PlaneTests e)"

fun exemption_errors :: "string list \<Rightarrow> ExemptionEntry list \<Rightarrow> string list" where
  "exemption_errors seen [] = []"
| "exemption_errors seen (e # es) =
     (if TrimSpace (ee_ID e) = ''''
      then (''entry with rationale '' @ quote (ee_Rationale e) @ '' has empty ID'') # exemption_errors seen es
      else (if ee_ID e \<in> set seen then [(ee_ID e @ '': duplicate ID'')] else [])
           @ entry_errors e @ exemption_errors (ee_ID e # seen) es)"

definition ValidateExemptions :: "ExemptionEntry list \<Rightarrow> string list" where
  "ValidateExemptions entries = sort_strings (exemption_errors [] entries)"

section \<open>The audit inventory\<close>

datatype AuditClassification =
  AuditGovernedExemption | AuditNonExemption | AuditSeparatePath | AuditOther string

record AuditEntry =
  ae_Path :: string
  ae_Function :: string
  ae_AffectedRules :: "string list"
  ae_Classification :: AuditClassification
  ae_RegistryID :: string
  ae_EvaluationPlane :: ExemptionPlane
  ae_RequiredEvidence :: "string list"
  ae_MigrationDecision :: string
  ae_Rationale :: string

definition AuditInventory :: "AuditEntry list" where
  "AuditInventory =
     [\<lparr>ae_Path = ''internal/rules/api001.go'',
       ae_Function = ''isEphemeralEvent'',
       ae_AffectedRules = [''API-001''],
       ae_Classification = AuditGovernedExemption,
       ae_RegistryID = API001LiveEventsID,
       ae_EvaluationPlane = ExemptionPlaneLive,
       ae_RequiredEvidence = required_evidence_of API001LiveEventsID,
       ae_MigrationDecision = (''governed in QUALITY-001A; retained and inventoried in ''
                               @ ''QUALITY-001B''),
       ae_Rationale = (''Live Event objects are ephemeral controller/client emissions, not ''
                       @ ''hand-owned migration resources; manifest Events remain Blockers.'')\<rparr>,
      \<lparr>ae_Path = ''internal/collectors/k8s/collector.go'',
       ae_Function = ''IsAutoManagedObject'',
       ae_AffectedRules = [''API-001''],
       ae_Classification = AuditGovernedExemption,
       ae_RegistryID = API001AutoManagedFlowControlID,
       ae_EvaluationPlane = ExemptionPlaneLive,
       ae_RequiredEvidence = required_evidence_of API001AutoManagedFlowControlID,
       ae_MigrationDecision = (''collector decision now references registry ID before ''
                               @ ''setting AutoManaged for flowcontrol objects''),
       ae_Rationale = (''AutoManaged feeds the API-001 Info downgrade for ''
                       @ ''kube-apiserver/EKS-owned flowcontrol defaults.'')\<rparr>,
      \<lparr>ae_Path = ''internal/collectors/k8s/collector.go'',
       ae_Function = ''IsAutoManagedObject'',
       ae_AffectedRules = [''API-001''],
       ae_Classification = AuditGovernedExemption,
       ae_RegistryID = API001ControllerManagedEndpointSlicesID,
       ae_EvaluationPlane = ExemptionPlaneLive,
       ae_RequiredEvidence = required_evidence_of API001ControllerManagedEndpointSlicesID,
       ae_MigrationDecision = (''collector decision now references registry ID before ''
                               @ ''setting AutoManaged for EndpointSlices''),
       ae_Rationale = (''AutoManaged feeds the API-001 Info downgrade for EndpointSlices ''
                       @ ''created by the built-in EndpointSlice controller.'')\<rparr>,
      \<lparr>ae_Path = ''internal/rules/addon001.go'',
       ae_Function = ''lookupLiveAddonCatalog'',
       ae_AffectedRules = [''ADDON-001'',
                           ''ADDON-002''],
       ae_Classification = AuditGovernedExemption,
       ae_RegistryID = AddonProviderScopedCatalogID,
       ae_EvaluationPlane = ExemptionPlaneLive,
       ae_RequiredEvidence = required_evidence_of AddonProviderScopedCatalogID,
       ae_MigrationDecision = ''migrated in QUALITY-001B'',
       ae_Rationale = (''EKS-scoped compatibility facts are withheld until AWS/EKS ''
                       @ ''enrichment confirms the provider plane.'')\<rparr>,
      \<lparr>ae_Path = ''internal/rules/addon001.go'',
       ae_Function = ''classifyLiveAddon / classifyLiveAddonByImage'',
       ae_AffectedRules = [''ADDON-001'',
                           ''ADDON-002''],
       ae_Classification = AuditSeparatePath,
       ae_RegistryID = '''',
       ae_EvaluationPlane = ExemptionPlaneLive,
       ae_RequiredEvidence = [''strict image repository suffix for catalog-backed add-ons'',
                              (''legacy ingress identity token only for always-unverifiable ''
                               @ ''ADDON-002 inventory'')],
       ae_MigrationDecision = (''kept outside registry as classification input, not a ''
                               @ ''suppression or severity downgrade''),
       ae_Rationale = (''Classification decides whether an add-on check applies; ''
                       @ ''provider-scoped compatibility borrowing is governed separately.'')\<rparr>,
      \<lparr>ae_Path = ''internal/rules/drain001.go'',
       ae_Function = ''Evaluate / isLiveWorkloadPod'',
       ae_AffectedRules = [''DRAIN-001''],
       ae_Classification = AuditNonExemption,
       ae_RegistryID = '''',
       ae_EvaluationPlane = ExemptionPlaneBoth,
       ae_RequiredEvidence = [(''Deployment or StatefulSet desired replicas effectively ''
                               @ ''equal 1''),
                              (''live pod must not be deleting or terminal when used as ''
                               @ ''evidence'')],
       ae_MigrationDecision = ''kept outside registry as rule scope and evidence hygiene'',
       ae_Rationale = (''DaemonSets, Jobs, terminal pods, and deleting pods are outside the ''
                       @ ''singleton Deployment/StatefulSet availability question.'')\<rparr>,
      \<lparr>ae_Path = ''internal/rules/drain004.go'',
       ae_Function = ''displacedDemand / hasControlPlaneTaint / podRequests'',
       ae_AffectedRules = [''DRAIN-004''],
       ae_Classification = AuditNonExemption,
       ae_RegistryID = '''',
       ae_EvaluationPlane = ExemptionPlaneLive,
       ae_RequiredEvidence = [''non-DaemonSet displaced pod demand'',
                              ''remaining schedulable non-control-plane node capacity'',
                              ''incomplete requests counted as coverage caveat''],
       ae_MigrationDecision = ''kept outside registry as capacity model boundaries'',
       ae_Rationale = (''These paths define the aggregate drain-capacity estimate and avoid ''
                       @ ''overstating spare capacity; they do not suppress a finding based ''
                       @ ''on trust.'')\<rparr>,
      \<lparr>ae_Path = ''internal/rules/drain003.go'',
       ae_Function = ''hasHostnameAntiAffinity / qualifyingNodes'',
       ae_AffectedRules = [''DRAIN-003''],
       ae_Classification = AuditNonExemption,
       ae_RegistryID = '''',
       ae_EvaluationPlane = ExemptionPlaneLive,
       ae_RequiredEvidence = [''hard scheduling constraint'',
                              ''current node inventory proves no spare qualifying target''],
       ae_MigrationDecision = ''kept outside registry as normal rule condition'',
       ae_Rationale = (''The rule fires only when unschedulability is proven; broader ''
                       @ ''topology cases remain out of scope to avoid new false positives.'')\<rparr>,
      \<lparr>ae_Path = (''internal/cli/scan.go internal/cli/plan.go internal/rules/node002.go ''
                  @ ''internal/rules/net002.go''),
       ae_Function = ''provider/AWS graceful degradation'',
       ae_AffectedRules = [''NODE-002'',
                           ''NET-002'',
                           ''provider enrichment''],
       ae_Classification = AuditNonExemption,
       ae_RegistryID = '''',
       ae_EvaluationPlane = ExemptionPlaneLive,
       ae_RequiredEvidence = [''provider snapshot absent or collection error recorded''],
       ae_MigrationDecision = ''kept outside registry as coverage behavior'',
       ae_Rationale = (''A skipped provider plane is surfaced as coverage, not a trusted ''
                       @ ''safe result for an affected object.'')\<rparr>,
      \<lparr>ae_Path = ''internal/findings/filter.go'',
       ae_Function = ''FilterByNamespaces'',
       ae_AffectedRules = [''all namespaced findings''],
       ae_Classification = AuditNonExemption,
       ae_RegistryID = '''',
       ae_EvaluationPlane = ExemptionPlaneBoth,
       ae_RequiredEvidence = [''user-supplied namespace allowlist'',
                              ''namespaced resource references''],
       ae_MigrationDecision = ''kept outside registry as explicit user filter'',
       ae_Rationale = (''The allowlist is a reporting scope control requested by the user, ''
                       @ ''not an evidence-backed safety exemption.'')\<rparr>]"

section \<open>Consistency of registry and inventory\<close>

definition inventory_rules :: "AuditEntry list \<Rightarrow> string list" where
  "inventory_rules audit =
     [''all namespaced findings'', ''provider enrichment''] @ concat (map ae_AffectedRules audit)"

definition checkAffectedRules :: "ExemptionEntry list \<Rightarrow> AuditEntry list \<Rightarrow> string list" where
  "checkAffectedRules entries audit =
     concat (map (\<lambda>e. concat (map (\<lambda>rule.
         if rule \<in> set (inventory_rules audit) then []
         else [(ee_ID e @ '': affected rule '' @ quote rule @ '' is not known in audit ''
                @ ''inventory'')])
       (ee_AffectedRules e))) entries)"

text \<open>The issues of one audit entry; the texts that print the whole entry keep its path only.\<close>

datatype audit_issue =
    AuditIncomplete string
  | AuditMissingRulesOrEvidence string
  | AuditInvalidPlane string
  | AuditUnknownRegistryID string
  | AuditNonGovernedReference string
  | AuditUnknownClassification string
  | AuditUngovernedEntry string

definition classification_issues :: "string list \<Rightarrow> AuditEntry \<Rightarrow> audit_issue list" where
  "classification_issues registryIDs a =
     (case ae_Classification a of
        AuditGovernedExemption \<Rightarrow>
          if ae_RegistryID a \<in> set registryIDs then []
          else [AuditUnknownRegistryID (ae_RegistryID a)]
      | AuditNonExemption \<Rightarrow>
          if ae_RegistryID a \<noteq> '''' then [AuditNonGovernedReference (ae_RegistryID a)] else []
      | AuditSeparatePath \<Rightarrow>
          if ae_RegistryID a \<noteq> '''' then [AuditNonGovernedReference (ae_RegistryID a)] else []
      | AuditOther c \<Rightarrow> [AuditUnknownClassification c])"

definition audit_entry_issues :: "string list \<Rightarrow> AuditEntry \<Rightarrow> audit_issue list" where
  "audit_entry_issues registryIDs a =
     (if ae_Path a = '''' \<or> ae_Function a = '''' \<or> ae_Rationale a = ''''
         \<or> ae_MigrationDecision a = ''''
      then [AuditIncomplete (ae_Path a)] else [])
     @ (if length (ae_AffectedRules a) = 0 \<or> length (ae_RequiredEvidence a) = 0
        then [AuditMissingRulesOrEvidence (ae_Path a)] else [])
     @ (if \<not> validPlane (ae_EvaluationPlane a) then [AuditInvalidPlane (ae_Path a)] else [])
     @ classification_issues registryIDs a"

definition governed_ids :: "AuditEntry list \<Rightarrow> string list" where
  "governed_ids audit =
     map ae_RegistryID (filter (\<lambda>a. ae_Classification a = AuditGovernedExemption) audit)"

definition checkAuditInventory :: "ExemptionEntry list \<Rightarrow> AuditEntry list \<Rightarrow> audit_issue list" where
  "checkAuditInventory entries audit =
     (let registryIDs = map ee_ID entries
      in concat (map (audit_entry_issues registryIDs) audit)
         @ map AuditUngovernedEntry
             (filter (\<lambda>i. i \<notin> set (governed_ids audit)) (remdups registryIDs)))"

definition registryConstIDs :: "(string \<times> string) list" where
  "registryConstIDs =
     [(''API001LiveEventsID'', API001LiveEventsID),
      (''API001AutoManagedFlowControlID'', API001AutoManagedFlowControlID),
      (''API001ControllerManagedEndpointSlicesID'', API001ControllerManagedEndpointSlicesID),
      (''AddonProviderScopedCatalogID'', AddonProviderScopedCatalogID)]"

definition constNameForID :: "string \<Rightarrow> string" where
  "constNameForID entry_id =
     (case find (\<lambda>(name, candidate). candidate = entry_id) registryConstIDs of
        Some (name, _) \<Rightarrow> name | None \<Rightarrow> '''')"

definition idForConstName :: "string \<Rightarrow> string" where
  "idForConstName name = label_value registryConstIDs name"

definition allTests :: "ExemptionEntry \<Rightarrow> string list" where
  "allTests e = ee_PositiveTests e @ ee_NegativeTests e @ ee_SpoofingTests e @ ee_PlaneTests e"

section \<open>Objects managed by a controller\<close>

text \<open>What \<open>IsAutoManagedObject\<close> reads of an unstructured object.\<close>

record ControllerReference =
  cr_Kind :: string
  cr_Controller :: "bool option"

record UnstructuredObject =
  uo_Annotations :: labels
  uo_Labels :: labels
  uo_FieldManagers :: "string list"
  uo_OwnerReferences :: "ControllerReference list"

definition hasFieldManager :: "UnstructuredObject \<Rightarrow> string \<Rightarrow> bool" where
  "hasFieldManager item manager \<longleftrightarrow> list_ex (\<lambda>m. m = manager) (uo_FieldManagers item)"

definition hasControllerOwner :: "UnstructuredObject \<Rightarrow> string \<Rightarrow> bool" where
  "hasControllerOwner item kind \<longleftrightarrow>
     list_ex (\<lambda>owner. cr_Kind owner = kind \<and> cr_Controller owner = Some True)
       (uo_OwnerReferences item)"

definition IsAutoManagedObject :: "DeprecatedAPI \<Rightarrow> UnstructuredObject \<Rightarrow> bool" where
  "IsAutoManagedObject dep item \<longleftrightarrow>
     (if dep_Group dep = ''flowcontrol.apiserver.k8s.io''
      then evaluated_live API001AutoManagedFlowControlID
           \<and> (label_value (uo_Annotations item) ''apf.kubernetes.io/autoupdate-spec'' = ''true''
              \<or> hasFieldManager item ''eks-internal'')
      else if dep_Group dep = ''discovery.k8s.io'' \<and> dep_Kind dep = ''EndpointSlice''
      then evaluated_live API001ControllerManagedEndpointSlicesID
           \<and> label_value (uo_Labels item) ''endpointslice.kubernetes.io/managed-by''
               = ''endpointslice-controller.k8s.io''
           \<and> hasControllerOwner item ''Service''
      else False)"

end
