(* ===== verification/RulesApi.thy ===== *)
theory RulesApi
  imports RulesBase ApiCatalog Exemptions
begin

text \<open>
  API-001 and API-002 (\<open>api001.go\<close>, \<open>api002.go\<close>, \<open>api_catalog.go\<close>): objects at API versions
  removed at the target version, and at versions deprecated but still served. The result of
  \<open>apicatalog.DefaultVersioned()\<close>, an error or the catalog, is the argument \<open>vc\<close>.
\<close>

section \<open>The removal decision\<close>

record apiRemovalDecision =
  rd_RemovedInVersion :: string
  rd_Source :: string
  rd_Reference :: string

definition resolveAPIRemoval ::
  "string + VersionedCatalog \<Rightarrow> string \<Rightarrow> string \<Rightarrow> string \<Rightarrow> string + apiRemovalDecision" where
  "resolveAPIRemoval vc grp version kind =
     (case vc of
        Inl err \<Rightarrow> Inl (''loading API version catalog: '' @ err)
      | Inr c \<Rightarrow>
          (case EntryFor c grp version kind of
             None \<Rightarrow> Inl (''API version catalog integrity error: no entry for ''
                                     @ grp @ ''/'' @ version @ '' '' @ kind
                                     @ '', but it was reported as a known deprecated API by ''
                                     @ ''the collector '' @ emdash @ '' the versioned ''
                                     @ ''catalog and its derived legacy inventory have ''
                                     @ ''drifted out of sync'')
           | Some e \<Rightarrow>
               Inr \<lparr>rd_RemovedInVersion = va_RemovedInVersion e, rd_Source = va_Source e,
                    rd_Reference = va_Reference e\<rparr>))"

definition decision_evidence :: "apiRemovalDecision \<Rightarrow> string list" where
  "decision_evidence d =
     [''catalog source: '' @ rd_Source d, ''catalog reference: '' @ rd_Reference d]"

definition targetReachesRemoval :: "string \<Rightarrow> int \<Rightarrow> int \<Rightarrow> bool" where
  "targetReachesRemoval removedInVersion targetMajor targetMinor \<longleftrightarrow>
     (case rules_parseMajorMinor removedInVersion of
        Inl _ \<Rightarrow> False
      | Inr (removedMajor, removedMinor) \<Rightarrow>
          targetMajor = removedMajor \<and> targetMinor \<ge> removedMinor)"

definition targetBeforeRemoval :: "string \<Rightarrow> int \<Rightarrow> int \<Rightarrow> bool" where
  "targetBeforeRemoval removedInVersion targetMajor targetMinor \<longleftrightarrow>
     (case rules_parseMajorMinor removedInVersion of
        Inl _ \<Rightarrow> False
      | Inr (removedMajor, removedMinor) \<Rightarrow>
          targetMajor = removedMajor \<and> targetMinor < removedMinor)"

section \<open>Exempted live objects\<close>

definition isEphemeralEvent :: "'a DeprecatedAPI_scheme \<Rightarrow> bool" where
  "isEphemeralEvent dep \<longleftrightarrow>
     evaluated_live API001LiveEventsID \<and> dep_Group dep = ''events.k8s.io''"

definition isAutoManagedFlowControl :: "LiveDeprecatedAPIObject \<Rightarrow> bool" where
  "isAutoManagedFlowControl obj \<longleftrightarrow>
     dep_Group obj = ''flowcontrol.apiserver.k8s.io'' \<and> ldo_AutoManaged obj"

definition isControllerManagedEndpointSlice :: "LiveDeprecatedAPIObject \<Rightarrow> bool" where
  "isControllerManagedEndpointSlice obj \<longleftrightarrow>
     dep_Group obj = ''discovery.k8s.io'' \<and> dep_Kind obj = ''EndpointSlice'' \<and> ldo_AutoManaged obj"

section \<open>Paths\<close>

text \<open>\<open>filepath.Dir\<close> on Unix: all but the last element, cleaned.\<close>

definition clean_component :: "bool \<Rightarrow> string list \<Rightarrow> string \<Rightarrow> string list" where
  "clean_component rooted out c =
     (if c = '''' \<or> c = ''.'' then out
      else if c = ''..''
      then (if out \<noteq> [] \<and> last out \<noteq> ''..'' then butlast out
            else if rooted then out else out @ [c])
      else out @ [c])"

definition clean_path :: "string \<Rightarrow> string" where
  "clean_path p =
     (let rooted = HasPrefix p ''/'';
          body = Join (foldl (clean_component rooted) [] (Split p (CHR ''/''))) ''/''
      in if rooted then ''/'' @ body else if body = '''' then ''.'' else body)"

definition filepath_Dir :: "string \<Rightarrow> string" where
  "filepath_Dir p = clean_path (rev (dropWhile (\<lambda>c. c \<noteq> CHR ''/'') (rev p)))"

section \<open>Findings\<close>

definition apiResourceScope :: "bool \<Rightarrow> ResourceScope" where
  "apiResourceScope namespaced = (if namespaced then ScopeNamespaced else ScopeCluster)"

definition api_resource_label :: "string \<Rightarrow> string \<Rightarrow> string" where
  "api_resource_label namespace name =
     (if namespace \<noteq> '''' then namespace @ ''/'' @ name else name)"

definition group_version :: "'a DeprecatedAPI_scheme \<Rightarrow> string" where
  "group_version dep = dep_Group dep @ ''/'' @ dep_Version dep"

definition live_object_reference :: "LiveDeprecatedAPIObject \<Rightarrow> ResourceReference" where
  "live_object_reference obj =
     LiveResource (dep_Kind obj) (apiResourceScope (dep_Namespaced obj)) (ldo_Namespace obj)
       (ldo_Name obj) (ldo_UID obj)"

definition manifest_object_reference :: "ManifestDeprecatedAPIObject \<Rightarrow> ResourceReference" where
  "manifest_object_reference obj =
     ManifestResource (dep_Kind obj) (apiResourceScope (dep_Namespaced obj)) (mdo_Namespace obj)
       (mdo_Name obj) (mdo_SourcePath obj)"

definition verify_command :: "string \<Rightarrow> string \<Rightarrow> string" where
  "verify_command sourcePath targetVersion =
     (if HasPrefix sourcePath ''helm:''
      then (''kubepreflight scan --helm-chart '' @ (shellQuote (drop 5 sourcePath))
            @ '' --target-version '' @ shellQuote targetVersion)
      else if sourcePath \<noteq> ''''
      then (''kubepreflight scan --manifests '' @ (shellQuote (filepath_Dir sourcePath))
            @ '' --target-version '' @ shellQuote targetVersion)
      else (''kubepreflight scan --target-version '' @ shellQuote targetVersion))"

definition api001RemediationDetail ::
  "string \<Rightarrow> string \<Rightarrow> string \<Rightarrow> string \<Rightarrow> RemediationDetail option" where
  "api001RemediationDetail currentGV replacementGV sourcePath targetVersion =
     (if replacementGV = '''' then None
      else Some (empty_detail
        \<lparr>rem_AffectedFile := sourcePath,
         rem_Changes := [change ''apiVersion'' currentGV replacementGV],
         rem_Diff := (''- apiVersion: '' @ currentGV @ nl @ ''+ apiVersion: '' @ replacementGV),
         rem_SafeFix := Some (action ''Safe fix''
           [(''Update the manifest or controller source-of-truth to the replacement API and ''
             @ ''review version-specific field changes; an apiVersion-only edit is not ''
             @ ''always sufficient.''),
            (''Use the suggested diff as a starting point, then validate the rendered ''
             @ ''object before applying it.'')] ''''),
         rem_VerifyCommand := verify_command sourcePath targetVersion\<rparr>))"

definition removal_evidence :: "'a DeprecatedAPI_scheme \<Rightarrow> string \<Rightarrow> apiRemovalDecision \<Rightarrow> string list" where
  \<comment> \<open>the first three evidence lines of every finding of the two rules\<close>
  "removal_evidence obj targetVersion decision =
     [(''apiVersion: '' @ group_version obj),
      (''removed in: Kubernetes '' @ rd_RemovedInVersion decision),
      (''target version: '' @ targetVersion)]"

definition api_finding ::
  "string \<Rightarrow> Severity \<Rightarrow> ResourceReference \<Rightarrow> string \<Rightarrow> string list \<Rightarrow> string
     \<Rightarrow> RemediationDetail option \<Rightarrow> string \<Rightarrow> Finding" where
  \<comment> \<open>the literal all constructors of the two rules share\<close>
  "api_finding ruleID severity ref msg evidence remediation detail targetVersion =
     empty_finding\<lparr>f_RuleID := ruleID, f_Severity := severity, f_Confidence := TierStaticCertain,
       f_Message := msg, f_Resources := [ref], f_Evidence := evidence, f_Remediation := remediation,
       f_RemediationDetail := detail,
       f_Fingerprint := FingerprintV2 ruleID targetVersion '''' [ref]\<rparr>"

definition api001AutoManagedFlowControlFinding ::
  "LiveDeprecatedAPIObject \<Rightarrow> string \<Rightarrow> apiRemovalDecision \<Rightarrow> Finding" where
  "api001AutoManagedFlowControlFinding obj targetVersion decision =
     api_finding ''API-001'' SeverityInfo (live_object_reference obj)
       (dep_Kind obj @ '' '' @ quote (api_resource_label (ldo_Namespace obj) (ldo_Name obj))
        @ '' (apiVersion '' @ group_version obj @ '') is an apiserver/platform-managed ''
        @ ''default that still exists at a version removed in Kubernetes ''
        @ rd_RemovedInVersion decision @ '' '' @ emdash @ '' usually no direct user action, ''
        @ ''since kube-apiserver or the cloud provider'' @ sq @ ''s control plane recreates ''
        @ ''its own flowcontrol defaults at the version it currently serves'')
       (removal_evidence obj targetVersion decision @ [''detected via: live cluster object'']
        @ required_evidence_of API001AutoManagedFlowControlID @ decision_evidence decision)
       (''No action needed for this specific object: kube-apiserver or the cloud provider''
        @ sq @ ''s control plane owns and recreates its own flowcontrol bootstrap defaults ''
        @ ''at whatever apiVersion it currently serves. If this cluster has custom ''
        @ ''FlowSchema/PriorityLevelConfiguration objects beyond the defaults, verify those ''
        @ ''separately '' @ emdash @ '' only recognized bootstrap sets (kube-apiserver'' @ sq
        @ ''s own, marked with the apf.kubernetes.io/autoupdate-spec annotation, and known ''
        @ ''cloud-provider ones) are covered by this note.'')
       None targetVersion"

definition api001ControllerManagedEndpointSliceFinding ::
  "LiveDeprecatedAPIObject \<Rightarrow> string \<Rightarrow> apiRemovalDecision \<Rightarrow> Finding" where
  "api001ControllerManagedEndpointSliceFinding obj targetVersion decision =
     api_finding ''API-001'' SeverityInfo (live_object_reference obj)
       (dep_Kind obj @ '' '' @ quote (api_resource_label (ldo_Namespace obj) (ldo_Name obj))
        @ '' (apiVersion '' @ group_version obj @ '') is controller-managed and still ''
        @ ''exists at a version removed in Kubernetes '' @ rd_RemovedInVersion decision
        @ '' '' @ emdash @ '' usually no direct user action, since the EndpointSlice ''
        @ ''controller recreates it against its owning Service at the version the API ''
        @ ''server currently serves'')
       (removal_evidence obj targetVersion decision @ [''detected via: live cluster object'']
        @ required_evidence_of API001ControllerManagedEndpointSlicesID
        @ decision_evidence decision)
       (''No action needed for this specific object: the EndpointSlice controller recreates ''
        @ ''it against its owning Service at whatever apiVersion the API server currently ''
        @ ''serves. If the owning Service or a workload behind it is itself affected by the ''
        @ ''upgrade, that shows up as its own separate finding.'')
       None targetVersion"

definition api001LiveFinding ::
  "LiveDeprecatedAPIObject \<Rightarrow> string \<Rightarrow> apiRemovalDecision \<Rightarrow> Finding" where
  "api001LiveFinding obj targetVersion decision =
     (let gv = group_version obj; removed = rd_RemovedInVersion decision
      in if isAutoManagedFlowControl obj
         then api001AutoManagedFlowControlFinding obj targetVersion decision
         else if isControllerManagedEndpointSlice obj
         then api001ControllerManagedEndpointSliceFinding obj targetVersion decision
         else api_finding ''API-001'' SeverityBlocker (live_object_reference obj)
           (dep_Kind obj @ '' '' @ quote (api_resource_label (ldo_Namespace obj) (ldo_Name obj))
            @ '' (apiVersion '' @ gv @ '') still exists at a version removed in Kubernetes ''
            @ removed @ '' '' @ emdash @ '' target version '' @ targetVersion
            @ '' will no longer serve this API, and kubectl apply/controller reconciliation ''
            @ ''for it will fail outright'')
           (removal_evidence obj targetVersion decision @ [''detected via: live cluster object'']
            @ decision_evidence decision)
           (''Migrate to '' @ dep_Replacement obj @ '' before upgrading past '' @ removed
            @ ''. Update the source manifest and review the official version-specific field ''
            @ ''changes; an apiVersion-only edit is not always sufficient. For Helm ''
            @ ''releases whose stored release manifest still references '' @ gv
            @ '', a chart bump alone isn'' @ sq @ ''t enough '' @ emdash @ '' the release''
            @ sq @ ''s stored manifest must be migrated too (mapkubeapis-style fix) or ''
            @ ''`helm upgrade` will fail even with fixed templates. If a ''
            @ ''controller/operator is the one writing this object, upgrading the ''
            @ ''controller itself is required '' @ emdash @ '' its compiled-in client code ''
            @ ''is the actual caller.'')
           (api001RemediationDetail gv (dep_ReplacementAPIVersion obj) '''' targetVersion)
           targetVersion)"

definition api001ManifestFinding ::
  "ManifestDeprecatedAPIObject \<Rightarrow> string \<Rightarrow> apiRemovalDecision \<Rightarrow> Finding" where
  "api001ManifestFinding obj targetVersion decision =
     api_finding ''API-001'' SeverityBlocker (manifest_object_reference obj)
       (dep_Kind obj @ '' '' @ quote (api_resource_label (mdo_Namespace obj) (mdo_Name obj))
        @ '' (apiVersion '' @ group_version obj @ '') in '' @ mdo_SourcePath obj
        @ '' uses an API version removed in Kubernetes '' @ rd_RemovedInVersion decision
        @ '' '' @ emdash @ '' this manifest will fail to apply once the cluster reaches ''
        @ ''target '' @ targetVersion)
       (removal_evidence obj targetVersion decision @ [(''source: '' @ mdo_SourcePath obj)]
        @ decision_evidence decision)
       (''Migrate to '' @ dep_Replacement obj @ '' before this manifest is ever applied to ''
        @ ''a cluster at or past '' @ rd_RemovedInVersion decision @ ''. Update and ''
        @ ''validate the source manifest against the replacement schema. For Helm charts, ''
        @ ''update the template itself '' @ emdash @ '' bumping the chart version alone ''
        @ ''doesn'' @ sq @ ''t help if the template source still emits the old apiVersion.'')
       (api001RemediationDetail (group_version obj) (dep_ReplacementAPIVersion obj)
          (mdo_SourcePath obj) targetVersion)
       targetVersion"

definition still_served :: string where
  "still_served = ''status: deprecated but still served at target version''"

definition api002LiveFinding ::
  "LiveDeprecatedAPIObject \<Rightarrow> string \<Rightarrow> apiRemovalDecision \<Rightarrow> Finding" where
  "api002LiveFinding obj targetVersion decision =
     api_finding ''API-002'' SeverityWarning (live_object_reference obj)
       (dep_Kind obj @ '' '' @ quote (api_resource_label (ldo_Namespace obj) (ldo_Name obj))
        @ '' (apiVersion '' @ group_version obj @ '') uses a deprecated Kubernetes API that ''
        @ ''is still served at target '' @ targetVersion @ '' but will be removed in ''
        @ ''Kubernetes '' @ rd_RemovedInVersion decision)
       (removal_evidence obj targetVersion decision
        @ [still_served, ''detected via: live cluster object''] @ decision_evidence decision)
       (''Plan migration to '' @ dep_Replacement obj @ '' before upgrading to Kubernetes ''
        @ rd_RemovedInVersion decision @ '' or later. This API is still served at target ''
        @ targetVersion @ '', so this is a readiness warning rather than a hard upgrade ''
        @ ''blocker.'')
       (api001RemediationDetail (group_version obj) (dep_ReplacementAPIVersion obj) ''''
          targetVersion)
       targetVersion"

definition api002ManifestFinding ::
  "ManifestDeprecatedAPIObject \<Rightarrow> string \<Rightarrow> apiRemovalDecision \<Rightarrow> Finding" where
  "api002ManifestFinding obj targetVersion decision =
     api_finding ''API-002'' SeverityWarning (manifest_object_reference obj)
       (dep_Kind obj @ '' '' @ quote (api_resource_label (mdo_Namespace obj) (mdo_Name obj))
        @ '' (apiVersion '' @ group_version obj @ '') in '' @ mdo_SourcePath obj
        @ '' uses a deprecated Kubernetes API that is still served at target ''
        @ targetVersion @ '' but will be removed in Kubernetes ''
        @ rd_RemovedInVersion decision)
       (removal_evidence obj targetVersion decision
        @ [still_served, (''source: '' @ mdo_SourcePath obj)] @ decision_evidence decision)
       (''Update this manifest to '' @ dep_Replacement obj @ '' before upgrading to ''
        @ ''Kubernetes '' @ rd_RemovedInVersion decision @ '' or later. It can still be ''
        @ ''applied at target '' @ targetVersion @ '', but leaving it in source control ''
        @ ''preserves a future upgrade risk.'')
       (api001RemediationDetail (group_version obj) (dep_ReplacementAPIVersion obj)
          (mdo_SourcePath obj) targetVersion)
       targetVersion"

section \<open>Merging the planes\<close>

definition hasOccurrence :: "ResourceReference list \<Rightarrow> string \<Rightarrow> bool" where
  "hasOccurrence refs k \<longleftrightarrow> list_ex (\<lambda>ref. OccurrenceKey ref = k) refs"

definition hasPlane :: "ResourceReference list \<Rightarrow> Plane \<Rightarrow> bool" where
  "hasPlane refs plane \<longleftrightarrow> list_ex (\<lambda>ref. ref_Plane ref = plane) refs"

definition add_occurrence :: "ResourceReference list \<Rightarrow> ResourceReference \<Rightarrow> ResourceReference list" where
  "add_occurrence refs ref =
     (if hasOccurrence refs (OccurrenceKey ref) then refs else refs @ [ref])"

definition cross_plane_notes :: "string list" where
  "cross_plane_notes =
     [''cross-plane match: exact Kind+Namespace+Name identity'',
      ''cross-plane matches assume supplied manifests target this cluster'']"

definition absorb :: "Finding \<Rightarrow> Finding \<Rightarrow> Finding" where
  \<comment> \<open>the body of the loop for a fingerprint already seen: \<open>merged\<close> takes \<open>f\<close> in\<close>
  "absorb merged f =
     (let refs = foldl add_occurrence (f_Resources merged) (f_Resources f);
          evidence = append_all_unique (f_Evidence merged) (f_Evidence f)
      in merged\<lparr>f_Resources := refs,
           f_Evidence := (if hasPlane refs PlaneLive \<and> hasPlane refs PlaneManifest
                          then append_all_unique evidence cross_plane_notes else evidence)\<rparr>)"

fun merge_one :: "Finding list \<Rightarrow> Finding \<Rightarrow> Finding list" where
  "merge_one [] f = [f]"
| "merge_one (g # gs) f =
     (if f_Fingerprint g = f_Fingerprint f then absorb g f # gs else g # merge_one gs f)"

definition mergeAPI001Findings :: "Finding list \<Rightarrow> Finding list" where
  "mergeAPI001Findings fs = foldl merge_one [] fs"

section \<open>Evaluation\<close>

fun api_loop ::
  "('a DeprecatedAPI_scheme \<Rightarrow> string + apiRemovalDecision) \<Rightarrow>
   ('a DeprecatedAPI_scheme \<Rightarrow> apiRemovalDecision \<Rightarrow> Finding option) \<Rightarrow>
   'a DeprecatedAPI_scheme list \<Rightarrow> string + Finding list" where
  \<comment> \<open>one of the loops over the objects of a plane: an error ends the rule\<close>
  "api_loop resolve judge [] = Inr []"
| "api_loop resolve judge (obj # objs) =
     (case resolve obj of
        Inl e \<Rightarrow> Inl e
      | Inr decision \<Rightarrow>
          (case api_loop resolve judge objs of
             Inl e \<Rightarrow> Inl e
           | Inr fs \<Rightarrow> Inr ((case judge obj decision of Some f \<Rightarrow> [f] | None \<Rightarrow> []) @ fs)))"

definition resolve_object ::
  "string \<Rightarrow> string + VersionedCatalog \<Rightarrow> 'a DeprecatedAPI_scheme \<Rightarrow> string + apiRemovalDecision" where
  "resolve_object ruleID vc obj =
     (case resolveAPIRemoval vc (dep_Group obj) (dep_Version obj) (dep_Kind obj) of
        Inl e \<Rightarrow> Inl (ruleID @ '': '' @ e)
      | Inr d \<Rightarrow> Inr d)"

definition api_rule ::
  "string \<Rightarrow> string + VersionedCatalog
     \<Rightarrow> (string \<Rightarrow> int \<Rightarrow> int \<Rightarrow> bool)
     \<Rightarrow> (LiveDeprecatedAPIObject \<Rightarrow> string \<Rightarrow> apiRemovalDecision \<Rightarrow> Finding)
     \<Rightarrow> (ManifestDeprecatedAPIObject \<Rightarrow> string \<Rightarrow> apiRemovalDecision \<Rightarrow> Finding)
     \<Rightarrow> ScanContext option \<Rightarrow> string \<Rightarrow> rule_outcome" where
  \<comment> \<open>the two \<open>Evaluate\<close> methods differ in the test on the versions and in the constructors\<close>
  "api_rule ruleID vc applies live_finding manifest_finding sc targetVersion =
     (case rules_parseMajorMinor targetVersion of
        Inl e \<Rightarrow> Returned [] (Some
          (ruleID @ '': invalid target version '' @ quote targetVersion @ '': ''
           @ version_error_text e))
      | Inr (targetMajor, targetMinor) \<Rightarrow>
          (case sc of
             None \<Rightarrow> nil_dereference
           | Some s \<Rightarrow>
               (let live =
                      (case sc_K8s s of
                         None \<Rightarrow> Inr []
                       | Some snap \<Rightarrow> api_loop (resolve_object ruleID vc)
                           (\<lambda>obj d. if \<not> applies (rd_RemovedInVersion d) targetMajor targetMinor
                                      \<or> isEphemeralEvent obj then None
                                    else Some (live_finding obj targetVersion d))
                           (k_DeprecatedAPIUsage snap));
                    manifests =
                      (case sc_ManifestSnapshot s of
                         None \<Rightarrow> Inr []
                       | Some snap \<Rightarrow> api_loop (resolve_object ruleID vc)
                           (\<lambda>obj d. if \<not> applies (rd_RemovedInVersion d) targetMajor targetMinor
                                    then None else Some (manifest_finding obj targetVersion d))
                           (m_DeprecatedAPIUsage snap))
                in case live of
                     Inl e \<Rightarrow> Returned [] (Some e)
                   | Inr fs \<Rightarrow>
                       (case manifests of
                          Inl e \<Rightarrow> Returned [] (Some e)
                        | Inr ms \<Rightarrow> Returned (mergeAPI001Findings (fs @ ms)) None))))"

definition API001_Evaluate ::
  "string + VersionedCatalog \<Rightarrow> ScanContext option \<Rightarrow> string \<Rightarrow> rule_outcome" where
  "API001_Evaluate vc =
     api_rule ''API-001'' vc targetReachesRemoval api001LiveFinding api001ManifestFinding"

definition API002_Evaluate ::
  "string + VersionedCatalog \<Rightarrow> ScanContext option \<Rightarrow> string \<Rightarrow> rule_outcome" where
  "API002_Evaluate vc =
     api_rule ''API-002'' vc targetBeforeRemoval api002LiveFinding api002ManifestFinding"

end
