(* ===== verification/CompatCatalog.thy ===== *)
theory CompatCatalog
  imports Text Contextual ApiCatalog
begin

text \<open>
  The add-on compatibility catalog (\<open>internal/compatcatalog/catalog.go\<close>): validation and
  normalisation of the document, lookup by provider, add-on and target version, the comparison of
  add-on versions and the status of an installed version, and the coverage reports. The embedded
  \<open>catalog.json\<close> is data in \<open>CompatCatalogData\<close>.
\<close>

section \<open>Text\<close>

fun Contains :: "string \<Rightarrow> string \<Rightarrow> bool" where
  \<comment> \<open>\<open>strings.Contains\<close>\<close>
  "Contains [] p \<longleftrightarrow> p = []"
| "Contains (c # cs) p \<longleftrightarrow> HasPrefix (c # cs) p \<or> Contains cs p"

definition is_letter :: "char \<Rightarrow> bool" where
  "is_letter c =
     (let n = (of_char c :: nat) in (65 \<le> n \<and> n \<le> 90) \<or> (97 \<le> n \<and> n \<le> 122))"

text \<open>\<open>FindAllString\<close> of \<open>[0-9]+|[A-Za-z]+\<close>: the maximal runs of digits and of letters.\<close>

function version_matches :: "string \<Rightarrow> string list" where
  "version_matches [] = []"
| "version_matches (c # cs) =
     (if is_digit c then (c # takeWhile is_digit cs) # version_matches (dropWhile is_digit cs)
      else if is_letter c
      then (c # takeWhile is_letter cs) # version_matches (dropWhile is_letter cs)
      else version_matches cs)"
  by pat_completeness auto
termination
  by (relation "measure length") (auto simp: le_imp_less_Suc length_dropWhile_le)

section \<open>Operational impacts\<close>

fun operational_impact_string :: "OperationalImpact \<Rightarrow> string" where
  "operational_impact_string OperationalImpactControlPlaneDependency = ''control_plane_dependency''"
| "operational_impact_string OperationalImpactWorkerRolloutDependency = ''worker_rollout_dependency''"
| "operational_impact_string OperationalImpactNetworkingDataPlane = ''networking_data_plane''"
| "operational_impact_string OperationalImpactStorageDataPlane = ''storage_data_plane''"
| "operational_impact_string OperationalImpactClusterDNS = ''cluster_dns''"
| "operational_impact_string OperationalImpactAdmissionAPI = ''admission_api_dependency''"
| "operational_impact_string OperationalImpactWorkloadDependency = ''workload_dependency''"
| "operational_impact_string OperationalImpactOptionalEcosystem = ''optional_ecosystem''"
| "operational_impact_string OperationalImpactOperatorReview = ''operator_review''"
| "operational_impact_string OperationalImpactUnknown = ''unknown''"
| "operational_impact_string (OperationalImpactOther s) = s"

definition validOperationalImpacts :: "OperationalImpact list" where
  "validOperationalImpacts =
     [OperationalImpactControlPlaneDependency, OperationalImpactWorkerRolloutDependency,
      OperationalImpactNetworkingDataPlane, OperationalImpactStorageDataPlane,
      OperationalImpactClusterDNS, OperationalImpactAdmissionAPI,
      OperationalImpactWorkloadDependency, OperationalImpactOptionalEcosystem,
      OperationalImpactOperatorReview, OperationalImpactUnknown]"

definition operational_impact_of :: "string \<Rightarrow> OperationalImpact" where
  \<comment> \<open>the conversion \<open>OperationalImpact(s)\<close>\<close>
  "operational_impact_of s =
     (case find (\<lambda>i. operational_impact_string i = s) validOperationalImpacts of
        Some i \<Rightarrow> i | None \<Rightarrow> OperationalImpactOther s)"

definition SupportedOperationalImpacts :: "OperationalImpact list" where
  "SupportedOperationalImpacts =
     sort_by (\<lambda>a b. operational_impact_string a < operational_impact_string b)
       validOperationalImpacts"

definition normalizeOperationalImpacts :: "OperationalImpact list \<Rightarrow> OperationalImpact list" where
  "normalizeOperationalImpacts impacts =
     (if length impacts = 0 then [OperationalImpactUnknown]
      else sort_by (\<lambda>a b. operational_impact_string a < operational_impact_string b)
        (map (\<lambda>i. let normalized = ToLower (TrimSpace (operational_impact_string i))
                   in if normalized = '''' then OperationalImpactUnknown
                      else operational_impact_of normalized) impacts))"

fun impact_duplicates :: "OperationalImpact list \<Rightarrow> OperationalImpact list \<Rightarrow> string option" where
  \<comment> \<open>the loop of \<open>validateOperationalImpacts\<close>: the first error\<close>
  "impact_duplicates seen [] = None"
| "impact_duplicates seen (i # impacts') =
     (if i \<notin> set validOperationalImpacts
      then Some (''operationalImpact '' @ quote (operational_impact_string i)
                 @ '' is not supported'')
      else if i \<in> set seen
      then Some (''operationalImpact '' @ quote (operational_impact_string i)
                 @ '' is duplicated'')
      else impact_duplicates (i # seen) impacts')"

definition validateOperationalImpacts :: "OperationalImpact list \<Rightarrow> string option" where
  "validateOperationalImpacts impacts =
     (if length impacts = 0 then Some ''operationalImpacts must not be empty after normalization''
      else case impact_duplicates [] impacts of
        Some e \<Rightarrow> Some e
      | None \<Rightarrow>
          if length impacts > 1 \<and> OperationalImpactUnknown \<in> set impacts
          then Some (''operationalImpact ''
                     @ quote (operational_impact_string OperationalImpactUnknown)
                     @ '' must not be combined with other impacts'')
          else None)"

section \<open>Add-on versions\<close>

datatype tokenKind = tokenEmpty | tokenString | tokenNumber

record token =
  tok_kind :: tokenKind
  tok_value :: string

definition empty_token :: token where
  "empty_token = \<lparr>tok_kind = tokenEmpty, tok_value = ''''\<rparr>"

definition pad20 :: "int \<Rightarrow> string" where
  \<comment> \<open>\<open>%020d\<close> of a number that is not negative\<close>
  "pad20 n = (let s = show_int n in replicate (20 - length s) (CHR ''0'') @ s)"

definition version_token :: "string \<Rightarrow> token" where
  "version_token m =
     (case Atoi m of
        Some n \<Rightarrow> \<lparr>tok_kind = tokenNumber, tok_value = pad20 n\<rparr>
      | None \<Rightarrow> \<lparr>tok_kind = tokenString, tok_value = m\<rparr>)"

definition versionTokens :: "string \<Rightarrow> token list" where
  "versionTokens version = map version_token (version_matches (ToLower (TrimSpace version)))"

definition compare_tokens :: "token \<Rightarrow> token \<Rightarrow> int" where
  \<comment> \<open>the body of the loop of \<open>CompareVersions\<close>; 0 goes on\<close>
  "compare_tokens av bv =
     (if tok_kind av \<noteq> tok_kind bv \<and> tok_kind av = tokenNumber then 1
      else if tok_kind av \<noteq> tok_kind bv \<and> tok_kind bv = tokenNumber then -1
      else if tok_value av \<noteq> tok_value bv
      then (if tok_value av < tok_value bv then -1 else 1)
      else 0)"

fun compare_token_lists :: "token list \<Rightarrow> token list \<Rightarrow> int" where
  \<comment> \<open>the shorter list is filled up with empty tokens\<close>
  "compare_token_lists [] [] = 0"
| "compare_token_lists (a # at) [] =
     (let c = compare_tokens a empty_token in if c \<noteq> 0 then c else compare_token_lists at [])"
| "compare_token_lists [] (b # bt) =
     (let c = compare_tokens empty_token b in if c \<noteq> 0 then c else compare_token_lists [] bt)"
| "compare_token_lists (a # at) (b # bt) =
     (let c = compare_tokens a b in if c \<noteq> 0 then c else compare_token_lists at bt)"

definition CompareVersions :: "string \<Rightarrow> string \<Rightarrow> int" where
  "CompareVersions a b = compare_token_lists (versionTokens a) (versionTokens b)"

text \<open>
  \<open>strings.EqualFold(version, "latest")\<close> is compared in ASCII; the one letter outside ASCII that
  folds to a letter of the word (U+017F) is outside the model.
\<close>

definition looksLikeVersion :: "string \<Rightarrow> bool" where
  "looksLikeVersion version =
     (let v = TrimSpace version
      in if v = '''' \<or> ToLower v = ''latest'' \<or> Contains v ''@sha256:'' then False
         else length (version_matches v) > 0 \<and> list_ex is_digit v)"

section \<open>The document\<close>

record CatalogEntry =
  ce_KubernetesVersion :: string
  ce_Provider :: string
  ce_AddonName :: string
  ce_MinimumCompatibleVersion :: string
  ce_RecommendedVersion :: string
  ce_OperationalImpacts :: "OperationalImpact list"
  ce_Source :: string
  ce_Reference :: string
  ce_LastVerifiedDate :: string
  ce_Confidence :: string

record CatalogDocument =
  cd_SchemaVersion :: string
  cd_Entries :: "CatalogEntry list"

type_synonym catalog_key = "string \<times> string \<times> string"

record Catalog =
  cc_entries :: "CatalogEntry list"
  cc_byKey :: "catalog_key \<Rightarrow> CatalogEntry option"

definition CompatSchemaVersion :: string where
  "CompatSchemaVersion = ''compatcatalog.kubepreflight.io/v1''"

definition RequiredAddons :: "(string \<times> string) list" where
  \<comment> \<open>provider and name\<close>
  "RequiredAddons =
     [(''eks'', ''vpc-cni''), (''eks'', ''kube-proxy''), (''eks'', ''coredns''),
      (''eks'', ''aws-ebs-csi-driver''), (''eks'', ''aws-efs-csi-driver''),
      (''eks'', ''aws-load-balancer-controller''), (''kubernetes'', ''metrics-server''),
      (''kubernetes'', ''ingress-nginx''), (''kubernetes'', ''cert-manager''),
      (''kubernetes'', ''external-dns'')]"

definition knownAddonProviders :: "string \<Rightarrow> string option" where
  "knownAddonProviders = map_of (rev (map (\<lambda>(provider, name). (name, provider)) RequiredAddons))"

definition normalizeKubernetesVersion :: "string \<Rightarrow> string" where
  "normalizeKubernetesVersion version =
     (let v = TrimPrefix (TrimSpace version) ''v''
      in case Split v (CHR ''.'') of a # b # _ \<Rightarrow> a @ ''.'' @ b | _ \<Rightarrow> v)"

definition catalog_entry_key :: "string \<Rightarrow> string \<Rightarrow> string \<Rightarrow> catalog_key" where
  "catalog_entry_key provider addonName kubernetesVersion =
     (ToLower (TrimSpace provider), ToLower (TrimSpace addonName),
      normalizeKubernetesVersion kubernetesVersion)"

definition key_of_entry :: "CatalogEntry \<Rightarrow> catalog_key" where
  "key_of_entry e = catalog_entry_key (ce_Provider e) (ce_AddonName e) (ce_KubernetesVersion e)"

definition normalize_entry_fields :: "CatalogEntry \<Rightarrow> CatalogEntry" where
  \<comment> \<open>the assignments at the start of \<open>normalizeEntry\<close>\<close>
  "normalize_entry_fields e =
     \<lparr>ce_KubernetesVersion = normalizeKubernetesVersion (ce_KubernetesVersion e),
      ce_Provider = ToLower (TrimSpace (ce_Provider e)),
      ce_AddonName = ToLower (TrimSpace (ce_AddonName e)),
      ce_MinimumCompatibleVersion = TrimSpace (ce_MinimumCompatibleVersion e),
      ce_RecommendedVersion = TrimSpace (ce_RecommendedVersion e),
      ce_OperationalImpacts = normalizeOperationalImpacts (ce_OperationalImpacts e),
      ce_Source = TrimSpace (ce_Source e), ce_Reference = TrimSpace (ce_Reference e),
      ce_LastVerifiedDate = TrimSpace (ce_LastVerifiedDate e),
      ce_Confidence = TrimSpace (ce_Confidence e)\<rparr>"

definition entry_identity_error :: "CatalogEntry \<Rightarrow> string option" where
  \<comment> \<open>the checks of version, provider and name\<close>
  "entry_identity_error e =
     (if \<not> validKubernetesVersion (ce_KubernetesVersion e)
      then Some (''kubernetesVersion '' @ quote (ce_KubernetesVersion e)
                 @ '' must be major.minor, e.g. 1.34'')
      else if ce_Provider e = '''' then Some ''provider is required''
      else if ce_AddonName e = '''' then Some ''addonName is required''
      else case knownAddonProviders (ce_AddonName e) of
        Some wantProvider \<Rightarrow>
          if ce_Provider e \<noteq> wantProvider
          then Some (''addonName '' @ quote (ce_AddonName e) @ '' must use provider ''
                     @ quote wantProvider @ '', got '' @ quote (ce_Provider e))
          else None
      | None \<Rightarrow> None)"

definition entry_version_error :: "CatalogEntry \<Rightarrow> string option" where
  \<comment> \<open>the checks of the two add-on versions\<close>
  "entry_version_error e =
     (let mn = ce_MinimumCompatibleVersion e; rec = ce_RecommendedVersion e
      in if \<not> looksLikeVersion mn
         then Some (''minimumCompatibleVersion '' @ quote mn @ '' is not a parseable version'')
         else if \<not> looksLikeVersion rec
         then Some (''recommendedVersion '' @ quote rec @ '' is not a parseable version'')
         else if CompareVersions mn rec > 0
         then Some (''minimumCompatibleVersion '' @ quote mn @ '' must not be greater than ''
                    @ ''recommendedVersion '' @ quote rec)
         else None)"

definition entry_provenance_error :: "CatalogEntry \<Rightarrow> string option" where
  "entry_provenance_error e =
     (if ce_Source e = '''' then Some ''source is required''
      else if ce_Reference e = '''' then Some ''reference is required''
      else if parse_date (ce_LastVerifiedDate e) = None
      then Some (''lastVerifiedDate '' @ quote (ce_LastVerifiedDate e)
                 @ '' must be YYYY-MM-DD'')
      else if ce_Confidence e \<notin> {''STATIC_CERTAIN'', ''PROVIDER_REPORTED'', ''OBSERVED''}
      then Some (''confidence '' @ quote (ce_Confidence e) @ '' is not supported'')
      else None)"

definition normalizeEntry :: "CatalogEntry \<Rightarrow> string + CatalogEntry" where
  "normalizeEntry entry =
     (let e = normalize_entry_fields entry
      in case entry_identity_error e of
           Some err \<Rightarrow> Inl err
         | None \<Rightarrow>
             (case entry_version_error e of
                Some err \<Rightarrow> Inl err
              | None \<Rightarrow>
                  (case validateOperationalImpacts (ce_OperationalImpacts e) of
                     Some err \<Rightarrow> Inl err
                   | None \<Rightarrow>
                       (case entry_provenance_error e of Some err \<Rightarrow> Inl err | None \<Rightarrow> Inr e))))"

fun validate_entries ::
  "nat \<Rightarrow> catalog_key list \<Rightarrow> CatalogEntry list \<Rightarrow> string + CatalogEntry list" where
  \<comment> \<open>the loop of \<open>normalizeAndValidate\<close>, with the keys seen\<close>
  "validate_entries i seen [] = Inr []"
| "validate_entries i seen (entry # es) =
     (case normalizeEntry entry of
        Inl err \<Rightarrow> Inl (''entries['' @ show_int (int i) @ '']: '' @ err)
      | Inr n \<Rightarrow>
          if key_of_entry n \<in> set seen
          then Inl (''entries['' @ show_int (int i) @ '']: duplicate catalog entry for ''
                    @ ''provider='' @ quote (ce_Provider n) @ '' addonName=''
                    @ quote (ce_AddonName n) @ '' kubernetesVersion=''
                    @ quote (ce_KubernetesVersion n))
          else (case validate_entries (Suc i) (key_of_entry n # seen) es of
                  Inl err \<Rightarrow> Inl err
                | Inr ns \<Rightarrow> Inr (n # ns)))"

definition normalizeAndValidate :: "CatalogEntry list \<Rightarrow> string + CatalogEntry list" where
  "normalizeAndValidate entries =
     (case validate_entries 0 [] entries of
        Inl err \<Rightarrow> Inl err
      | Inr ns \<Rightarrow> Inr (sort_by (\<lambda>a b. key_of_entry a < key_of_entry b) ns))"

definition index_entries :: "CatalogEntry list \<Rightarrow> catalog_key \<Rightarrow> CatalogEntry option" where
  \<comment> \<open>the loop that fills \<open>byKey\<close>\<close>
  "index_entries entries = foldl (\<lambda>m e. m(key_of_entry e \<mapsto> e)) Map.empty entries"

definition CompatNew :: "CatalogDocument \<Rightarrow> string + Catalog" where
  "CompatNew doc =
     (if cd_SchemaVersion doc \<noteq> CompatSchemaVersion
      then Inl (''unsupported compatibility catalog schemaVersion ''
                @ quote (cd_SchemaVersion doc))
      else case normalizeAndValidate (cd_Entries doc) of
        Inl err \<Rightarrow> Inl err
      | Inr entries \<Rightarrow> Inr \<lparr>cc_entries = entries, cc_byKey = index_entries entries\<rparr>)"

section \<open>Lookup and status\<close>

definition CompatLookup :: "Catalog \<Rightarrow> string \<Rightarrow> string \<Rightarrow> string \<Rightarrow> CatalogEntry option" where
  "CompatLookup c provider addonName kubernetesVersion =
     cc_byKey c (catalog_entry_key provider addonName kubernetesVersion)"

definition HasOperationalImpact :: "CatalogEntry \<Rightarrow> OperationalImpact \<Rightarrow> bool" where
  "HasOperationalImpact e impact = list_ex (\<lambda>i. i = impact) (ce_OperationalImpacts e)"

datatype CompatStatus =
    StatusCompatible | StatusIncompatible | StatusUpgradeRecommended | StatusUnknown

definition InstalledStatus :: "CatalogEntry \<Rightarrow> string \<Rightarrow> CompatStatus" where
  "InstalledStatus e installedVersion =
     (if TrimSpace installedVersion = '''' \<or> \<not> looksLikeVersion installedVersion then StatusUnknown
      else if CompareVersions installedVersion (ce_MinimumCompatibleVersion e) < 0
      then StatusIncompatible
      else if CompareVersions installedVersion (ce_RecommendedVersion e) < 0
      then StatusUpgradeRecommended
      else StatusCompatible)"

section \<open>Coverage reports\<close>

definition atoi_value :: "string \<Rightarrow> int" where
  \<comment> \<open>the value \<open>strconv.Atoi\<close> returns beside an error it reports: the bound that was exceeded
      when the text is a number out of range, otherwise 0\<close>
  "atoi_value s =
     (case Atoi s of
        Some n \<Rightarrow> n
      | None \<Rightarrow>
          (let body = (if s \<noteq> [] \<and> (hd s = CHR ''-'' \<or> hd s = CHR ''+'') then tl s else s)
           in if body = [] \<or> \<not> list_all is_digit body then 0
              else if hd s = CHR ''-'' then - (2 ^ 63) else 2 ^ 63 - 1))"

definition parseTargetVersionParts :: "string \<Rightarrow> int \<times> int" where
  \<comment> \<open>the numbers returned; the callers ignore the error\<close>
  "parseTargetVersionParts v =
     (case SplitN v (CHR ''.'') 2 of
        [a, b] \<Rightarrow> (case Atoi a of None \<Rightarrow> (0, 0) | Some major \<Rightarrow> (major, atoi_value b))
      | _ \<Rightarrow> (0, 0))"

definition TargetVersions :: "Catalog \<Rightarrow> string list" where
  "TargetVersions c =
     sort_by (\<lambda>a b. parseTargetVersionParts a < parseTargetVersionParts b)
       (foldl append_unique [] (map ce_KubernetesVersion (cc_entries c)))"

definition MissingRequiredEntries :: "Catalog \<Rightarrow> string list" where
  "MissingRequiredEntries c =
     concat (map (\<lambda>target.
       List.map_filter (\<lambda>(provider, name).
         case CompatLookup c provider name target of
           Some _ \<Rightarrow> None
         | None \<Rightarrow> Some (target @ '': '' @ provider @ ''/'' @ name)) RequiredAddons)
       (TargetVersions c))"

definition StaleCatalogEntries :: "Catalog \<Rightarrow> int \<Rightarrow> CatalogEntry list" where
  "StaleCatalogEntries c cutoff =
     filter (\<lambda>e. case parse_date (ce_LastVerifiedDate e) of
                   None \<Rightarrow> True
                 | Some day \<Rightarrow> day * (24 * Hour) < cutoff) (cc_entries c)"

end
