(* ===== verification/RulesAddon.thy ===== *)
theory RulesAddon
  imports RulesBase CompatCatalog Exemptions
begin

text \<open>
  ADDON-001 and ADDON-002 (\<open>addon001.go\<close>): installed add-ons that are incompatible with the
  target version, and important ones whose compatibility is not known. The result of
  \<open>compatcatalog.Default()\<close>, an error or the catalog, is the argument \<open>cc\<close>.
\<close>

section \<open>Container images\<close>

definition cut_last :: "char \<Rightarrow> string \<Rightarrow> (string \<times> string) option" where
  \<comment> \<open>the text before and after the last occurrence of the byte (\<open>strings.LastIndex\<close>)\<close>
  "cut_last c s =
     (if c \<in> set s
      then Some (rev (tl (dropWhile (\<lambda>x. x \<noteq> c) (rev s))), rev (takeWhile (\<lambda>x. x \<noteq> c) (rev s)))
      else None)"

definition without_digest :: "string \<Rightarrow> string" where
  "without_digest img = (case cut_last (CHR ''@'') img of Some (a, _) \<Rightarrow> a | None \<Rightarrow> img)"

definition split_tag :: "string \<Rightarrow> string \<times> string option" where
  \<comment> \<open>the cut at the last colon where it is behind the last slash\<close>
  "split_tag img =
     (case cut_last (CHR '':'') img of
        Some (repo, tag) \<Rightarrow> if CHR ''/'' \<in> set tag then (img, None) else (repo, Some tag)
      | None \<Rightarrow> (img, None))"

definition imageRepo :: "string \<Rightarrow> string" where
  "imageRepo img = fst (split_tag (without_digest (TrimSpace img)))"

definition imageTag :: "string \<Rightarrow> string" where
  "imageTag img =
     (case snd (split_tag (without_digest (TrimSpace img))) of Some tag \<Rightarrow> tag | None \<Rightarrow> '''')"

definition versionOrUnknown :: "string \<Rightarrow> string" where
  "versionOrUnknown tag = (if tag = '''' then ''unknown'' else tag)"

section \<open>Classification of workloads\<close>

definition addonImageRepoSignatures :: "(string \<times> string list) list" where
  "addonImageRepoSignatures =
     [(''metrics-server'', [''metrics-server/metrics-server'']),
      (''ingress-nginx'', [''ingress-nginx/controller'']),
      (''aws-load-balancer-controller'',
       [''eks/aws-load-balancer-controller'', ''amazon/aws-load-balancer-controller'']),
      (''cert-manager'',
       [''jetstack/cert-manager-controller'', ''cert-manager/cert-manager-controller'']),
      (''external-dns'', [''external-dns/external-dns'', ''bitnami/external-dns''])]"

definition legacyIngressIdentityTokens :: "string list" where
  "legacyIngressIdentityTokens = [''traefik'', ''haproxy-ingress'', ''kong-ingress'']"

definition classifyLiveAddonByImage :: "string \<Rightarrow> string option" where
  "classifyLiveAddonByImage img =
     (let repo = imageRepo img
      in if repo = '''' then None
         else map_option fst
           (find (\<lambda>(name, suffixes).
              list_ex (\<lambda>sfx. repo = sfx \<or> HasSuffix repo (''/'' @ sfx)) suffixes)
              addonImageRepoSignatures))"

definition addon_identity :: "string \<Rightarrow> string \<Rightarrow> labels \<Rightarrow> string" where
  "addon_identity name namespace ls =
     ToLower (Join
       [name, namespace, label_value ls ''app.kubernetes.io/name'',
        label_value ls ''app.kubernetes.io/component'', label_value ls ''app'',
        label_value ls ''k8s-app'', label_value ls ''name''] '' '')"

definition classifyLiveAddon :: "string \<Rightarrow> string \<Rightarrow> labels \<Rightarrow> string \<Rightarrow> string option" where
  "classifyLiveAddon name namespace ls img =
     (case classifyLiveAddonByImage img of
        Some addonName \<Rightarrow> Some addonName
      | None \<Rightarrow>
          if list_ex (\<lambda>tok. Contains (addon_identity name namespace ls) tok)
               legacyIngressIdentityTokens
          then Some ''ingress-controller'' else None)"

definition addonWorkloadVersion :: "string list \<Rightarrow> string \<times> string" where
  \<comment> \<open>version and image, from the images of the containers\<close>
  "addonWorkloadVersion images =
     (let present = filter (\<lambda>img. TrimSpace img \<noteq> '''') images
      in case find (\<lambda>img. classifyLiveAddonByImage img \<noteq> None) present of
           Some img \<Rightarrow> (versionOrUnknown (imageTag img), img)
         | None \<Rightarrow>
             (case present of
                [] \<Rightarrow> (''unknown'', '''')
              | firstImage # _ \<Rightarrow> (versionOrUnknown (imageTag firstImage), firstImage)))"

record liveAddonWorkload =
  law_addonName :: string
  law_kind :: string
  law_namespace :: string
  law_name :: string
  law_uid :: string
  law_installedVersion :: string
  law_image :: string
  law_source :: string

definition live_addon ::
  "string \<Rightarrow> string \<Rightarrow> string \<Rightarrow> string \<Rightarrow> labels \<Rightarrow> string list \<Rightarrow> liveAddonWorkload option" where
  \<comment> \<open>what one workload is classified as\<close>
  "live_addon kind namespace name uid ls images =
     (let (version, img) = addonWorkloadVersion images
      in map_option (\<lambda>addonName.
           \<lparr>law_addonName = addonName, law_kind = kind, law_namespace = namespace,
            law_name = name, law_uid = uid, law_installedVersion = version, law_image = img,
            law_source = (''live Kubernetes '' @ kind @ '' image'')\<rparr>)
           (classifyLiveAddon name namespace ls img))"

definition live_addon_key :: "liveAddonWorkload \<Rightarrow> string" where
  "live_addon_key a = law_kind a @ ''/'' @ law_namespace a @ ''/'' @ law_name a"

fun first_by_key :: "string list \<Rightarrow> liveAddonWorkload list \<Rightarrow> liveAddonWorkload list" where
  \<comment> \<open>the test of the map \<open>seen\<close>\<close>
  "first_by_key seen [] = []"
| "first_by_key seen (a # rest) =
     (if live_addon_key a \<in> set seen then first_by_key seen rest
      else a # first_by_key (live_addon_key a # seen) rest)"

definition live_addon_order :: "liveAddonWorkload \<Rightarrow> string \<times> string \<times> string \<times> string" where
  "live_addon_order a = (law_addonName a, law_namespace a, law_kind a, law_name a)"

definition liveUnverifiableAddons :: "Workload list \<Rightarrow> DaemonSet list \<Rightarrow> liveAddonWorkload list" where
  "liveUnverifiableAddons deployments daemonSets =
     sort_by (\<lambda>a b. live_addon_order a < live_addon_order b)
       (first_by_key []
         (List.map_filter (\<lambda>d. live_addon ''Deployment'' (wl_Namespace d) (wl_Name d) (wl_UID d)
              (wl_Labels d) (wl_Images d)) deployments
          @ List.map_filter (\<lambda>ds. live_addon ''DaemonSet'' (dset_Namespace ds) (dset_Name ds)
              (dset_UID ds) (dset_Labels ds) (dset_Images ds)) daemonSets))"

section \<open>The catalog\<close>

definition isHighImpactAddon :: "string \<Rightarrow> bool" where
  "isHighImpactAddon name \<longleftrightarrow>
     name \<in> {''vpc-cni'', ''kube-proxy'', ''coredns'', ''aws-ebs-csi-driver'', ''aws-efs-csi-driver''}"

definition isCatalogManagedEKSAddon :: "string \<Rightarrow> bool" where
  "isCatalogManagedEKSAddon name \<longleftrightarrow>
     name \<in> {''vpc-cni'', ''kube-proxy'', ''coredns'', ''aws-ebs-csi-driver'', ''aws-efs-csi-driver''}"

definition isVersionCompatible :: "string \<Rightarrow> string list \<Rightarrow> bool" where
  "isVersionCompatible current compatible = list_ex (\<lambda>v. v = current) compatible"

definition lookupEKSAddonCatalog ::
  "string + Catalog \<Rightarrow> string \<Rightarrow> string \<Rightarrow> CatalogEntry option" where
  "lookupEKSAddonCatalog cc addonName targetVersion =
     (case cc of Inl _ \<Rightarrow> None | Inr catalog \<Rightarrow> CompatLookup catalog ''eks'' addonName targetVersion)"

definition liveAddonCatalogProvider :: "string \<Rightarrow> string \<times> bool" where
  "liveAddonCatalogProvider addonName =
     (if addonName = ''aws-load-balancer-controller'' then (''eks'', True)
      else if addonName \<in> {''metrics-server'', ''ingress-nginx'', ''cert-manager'', ''external-dns''}
      then (''kubernetes'', False)
      else ('''', False))"

definition lookupLiveAddonCatalog ::
  "string + Catalog \<Rightarrow> string \<Rightarrow> string \<Rightarrow> bool \<Rightarrow> CatalogEntry option" where
  \<comment> \<open>both results of the registry test on a scan without AWS are a miss\<close>
  "lookupLiveAddonCatalog cc addonName targetVersion awsAvailable =
     (let (provider, requiresAWS) = liveAddonCatalogProvider addonName
      in if provider = '''' then None
         else if requiresAWS \<and> \<not> awsAvailable then None
         else case cc of Inl _ \<Rightarrow> None
           | Inr catalog \<Rightarrow> CompatLookup catalog provider addonName targetVersion)"

section \<open>Texts\<close>

definition addonUpgradeOrder :: "string \<Rightarrow> string" where
  "addonUpgradeOrder name =
     (if name = ''vpc-cni'' then (''1. Amazon VPC CNI before kube-proxy and DNS/storage ''
                                  @ ''add-ons'')
      else if name = ''kube-proxy''
      then ''2. kube-proxy after VPC CNI and before CoreDNS/storage add-ons''
      else if name = ''coredns''
      then ''3. CoreDNS after VPC CNI and kube-proxy, before storage CSI add-ons''
      else if name = ''aws-ebs-csi-driver''
      then (''4. EBS CSI driver after networking/DNS add-ons and before storage workload ''
            @ ''validation'')
      else if name = ''aws-efs-csi-driver''
      then (''4. EFS CSI driver after networking/DNS add-ons and before storage workload ''
            @ ''validation'')
      else if name = ''metrics-server''
      then ''5. metrics-server after core networking, DNS, and storage add-ons''
      else if name \<in> {''ingress-controller'', ''ingress-nginx'', ''aws-load-balancer-controller''}
      then ''6. ingress controllers after networking, DNS, storage, and metrics add-ons''
      else if name = ''cert-manager''
      then (''7. cert-manager after ingress controller compatibility is verified and before ''
            @ ''certificate validation'')
      else if name = ''external-dns''
      then (''8. external-dns after ingress controller compatibility and DNS ownership ''
            @ ''validation'')
      else ''review provider-recommended order'')"

definition operationalImpactsLabel :: "OperationalImpact list \<Rightarrow> string" where
  "operationalImpactsLabel impacts =
     (if length impacts = 0 then ''unknown''
      else Join (sort_strings (map operational_impact_string impacts)) '', '')"

definition addonGateExplanation :: "UpgradeGate \<Rightarrow> string" where
  "addonGateExplanation gate =
     (if gate = UpgradeGateBlock
      then (''those impacts intersect the selected operation, so this compatibility issue ''
            @ ''blocks that operation'')
      else if gate = UpgradeGateAllow
      then (''incompatibility is confirmed, but audit-only does not activate a blocking ''
            @ ''upgrade operation'')
      else (''incompatibility is confirmed, but the selected operation needs operator ''
            @ ''review before treating this as a blocker''))"

definition addonYesNo :: "bool \<Rightarrow> string" where
  "addonYesNo v = (if v then ''yes'' else ''no'')"

definition addon002Source :: "AddonRecord \<Rightarrow> string option \<Rightarrow> string" where
  "addon002Source addon err =
     (if TrimSpace (ad_CurrentVersion addon) = ''''
      then ''AWS EKS DescribeAddon did not provide an installed version''
      else if err \<noteq> None then ''AWS EKS add-on compatibility metadata unavailable''
      else ''AWS EKS add-on compatibility could not be verified'')"

definition describe_versions_command :: "string \<Rightarrow> string \<Rightarrow> string" where
  "describe_versions_command name targetVersion =
     (''aws eks describe-addon-versions --addon-name '' @ shellQuote name
      @ '' --kubernetes-version '' @ shellQuote targetVersion)"

definition describe_addon_command :: "AddonRecord \<Rightarrow> string" where
  \<comment> \<open>the verify command, empty without a cluster name\<close>
  "describe_addon_command addon =
     (if ad_ClusterName addon \<noteq> ''''
      then (''aws eks describe-addon --cluster-name '' @ (shellQuote (ad_ClusterName addon))
            @ '' --addon-name '' @ (shellQuote (ad_Name addon)))
      else '''')"

definition images_command :: "liveAddonWorkload \<Rightarrow> string" where
  "images_command addon =
     (''kubectl get '' @ (ToLower (law_kind addon)) @ '' '' @ (shellQuote (law_name addon))
      @ '' -n '' @ (shellQuote (law_namespace addon)) @ '' -o jsonpath='' @ sq
      @ ''{.spec.template.spec.containers[*].image}'' @ sq)"

definition rollout_command :: "liveAddonWorkload \<Rightarrow> string" where
  "rollout_command addon =
     (''kubectl rollout status '' @ (ToLower (law_kind addon)) @ ''/''
      @ (shellQuote (law_name addon)) @ '' -n '' @ (shellQuote (law_namespace addon)))"

definition addon_reference :: "AddonRecord \<Rightarrow> ResourceReference" where
  "addon_reference addon = AWSResource ''EKSAddon'' (ad_Name addon) (ad_Name addon)"

definition live_addon_reference :: "liveAddonWorkload \<Rightarrow> ResourceReference" where
  "live_addon_reference addon =
     LiveResource (law_kind addon) ScopeNamespaced (law_namespace addon) (law_name addon)
       (law_uid addon)"

definition catalogEvidence :: "AddonRecord \<Rightarrow> string \<Rightarrow> CatalogEntry \<Rightarrow> string \<Rightarrow> string list" where
  "catalogEvidence addon targetVersion entry status =
     [(''installed add-on: '' @ ad_Name addon), (''current version: ''
                                                 @ ad_CurrentVersion addon),
      (''target Kubernetes version: '' @ targetVersion),
      (''minimum compatible version: '' @ ce_MinimumCompatibleVersion entry),
      (''recommended upgrade version: '' @ ce_RecommendedVersion entry),
      (''compatibility status: '' @ status), (''catalog source: '' @ ce_Source entry),
      (''catalog reference: '' @ ce_Reference entry),
      (''catalog last verified date: '' @ ce_LastVerifiedDate entry),
      (''catalog confidence: '' @ ce_Confidence entry)]"

definition liveCatalogEvidence ::
  "liveAddonWorkload \<Rightarrow> string \<Rightarrow> CatalogEntry \<Rightarrow> string \<Rightarrow> string list" where
  "liveCatalogEvidence addon targetVersion entry status =
     [(''installed add-on: '' @ law_addonName addon),
      (''installed version: '' @ law_installedVersion addon),
      (''target Kubernetes version: '' @ targetVersion),
      (''minimum compatible version: '' @ ce_MinimumCompatibleVersion entry),
      (''recommended upgrade version: '' @ ce_RecommendedVersion entry),
      (''compatibility status: '' @ status), (''catalog source: '' @ ce_Source entry),
      (''catalog reference: '' @ ce_Reference entry),
      (''catalog last verified date: '' @ ce_LastVerifiedDate entry),
      (''catalog confidence: '' @ ce_Confidence entry),
      (''controller image: '' @ law_image addon),
      (''confidence/source: '' @ law_source addon)]"

definition gate_evidence ::
  "UpgradeContext \<Rightarrow> OperationalImpact list \<Rightarrow> UpgradeGate \<Rightarrow> string \<Rightarrow> string list" where
  \<comment> \<open>the lines ADDON-001 appends to the catalog's\<close>
  "gate_evidence upgradeContext impacts gate name =
     [(''upgrade context: '' @ context_string upgradeContext),
      (''operational impacts: '' @ operationalImpactsLabel impacts),
      (''operational impact intersects selected context: ''
       @ (addonYesNo (gate = UpgradeGateBlock))),
      (''required upgrade order: '' @ addonUpgradeOrder name)]"

section \<open>ADDON-001\<close>

definition addon001Finding :: "AddonRecord \<Rightarrow> string \<Rightarrow> UpgradeContext \<Rightarrow> Finding" where
  "addon001Finding addon targetVersion upgradeContext =
     (let impacts = [OperationalImpactUnknown];
          (severity, gate, impactScopes) = addonCompatibilityGate upgradeContext impacts;
          name = ad_Name addon; current = ad_CurrentVersion addon;
          compatible = ad_CompatibleVersions addon; ctx = context_string upgradeContext;
          required = (if length compatible > 0 then Join compatible '' or ''
                      else ''a version compatible with the target'')
      in empty_finding\<lparr>f_RuleID := ''ADDON-001'', f_Severity := severity,
           f_Confidence := TierProviderReported,
           f_Message :=
             (if length compatible = 0
              then (''EKS add-on '' @ quote name @ '' version '' @ current
                    @ '': AWS reports no compatible version of this add-on for target ''
                    @ ''Kubernetes '' @ targetVersion @ ''. Upgrade context '' @ ctx
                    @ '' has unknown catalog operational impact metadata; ''
                    @ addonGateExplanation gate @ ''.'')
              else (''EKS add-on '' @ quote name @ '' is on version '' @ current
                    @ '', which is not in AWS'' @ sq @ ''s list of versions compatible with ''
                    @ ''target Kubernetes '' @ targetVersion @ ''. Upgrade context '' @ ctx
                    @ '' has unknown catalog operational impact metadata; ''
                    @ addonGateExplanation gate @ ''.'')),
           f_Resources := [addon_reference addon],
           f_ImpactScopes := impactScopes, f_UpgradeGate := gate,
           f_Evidence :=
             [(''installed add-on: '' @ name), (''current version: '' @ current),
              (''target Kubernetes version: '' @ targetVersion), (''upgrade context: '' @ ctx),
              (''operational impacts: '' @ operationalImpactsLabel impacts),
              (''operational impact intersects selected context: ''
               @ (addonYesNo (gate = UpgradeGateBlock))),
              (''minimum supported version: '' @ required),
              (''AWS-reported compatible versions: '' @ (Join compatible '', '')),
              (''recommended upgrade version: '' @ required),
              (''required upgrade order: '' @ addonUpgradeOrder name),
              ''compatibility status: incompatible'',
              ''confidence/source: AWS EKS DescribeAddonVersions''],
           f_Remediation :=
             (''Choose an AWS-reported compatible add-on version, review the add-on'' @ sq
              @ ''s current customizations, and update it in the provider-recommended ''
              @ ''sequence. '')
             @ (if length compatible > 0
                then (''Compatible versions for target '' @ targetVersion @ '': ''
                      @ (Join compatible '', '') @ ''. '')
                else '''')
             @ (''Upgrade order: validate CNI first, then kube-proxy, then ''
                @ ''DNS/storage/other add-ons. Confirm which fields are customized before ''
                @ ''choosing --resolve-conflicts: OVERWRITE silently destroys ''
                @ ''customizations, PRESERVE keeps them but can fail the update, NONE fails ''
                @ ''on any conflict.''),
           f_RemediationDetail := Some (empty_detail
             \<lparr>rem_Changes := [change ''add-on version'' current required],
              rem_SafeFix := Some (action ''Safe fix''
                [(''Review add-on customizations and choose a compatible version before ''
                  @ ''updating; PRESERVE can fail on conflicts while OVERWRITE can destroy ''
                  @ ''customizations.'')]
                (describe_versions_command name targetVersion)),
              rem_VerifyCommand := describe_addon_command addon\<rparr>),
           f_Fingerprint := FingerprintV2 ''ADDON-001'' targetVersion '''' [addon_reference addon]\<rparr>)"

definition addon_catalog_remediation :: "string \<Rightarrow> CatalogEntry \<Rightarrow> string" where
  "addon_catalog_remediation name entry =
     (''Upgrade '' @ name @ '' to at least '' @ ce_MinimumCompatibleVersion entry
      @ '' before the selected operation when its operational impacts apply. Recommended ''
      @ ''version: '' @ ce_RecommendedVersion entry @ ''. Upgrade order: ''
      @ addonUpgradeOrder name @ ''. Source: '' @ ce_Source entry @ ''.'')"

definition addon001CatalogFinding ::
  "AddonRecord \<Rightarrow> string \<Rightarrow> CatalogEntry \<Rightarrow> UpgradeContext \<Rightarrow> Finding" where
  "addon001CatalogFinding addon targetVersion entry upgradeContext =
     (let impacts = ce_OperationalImpacts entry;
          (severity, gate, impactScopes) = addonCompatibilityGate upgradeContext impacts;
          name = ad_Name addon; current = ad_CurrentVersion addon
      in empty_finding\<lparr>f_RuleID := ''ADDON-001'', f_Severity := severity,
           f_Confidence := TierProviderReported,
           f_Message := (''EKS add-on '' @ quote name @ '' is on version '' @ current
                         @ '', which is below the catalog minimum ''
                         @ ce_MinimumCompatibleVersion entry @ '' for target Kubernetes ''
                         @ targetVersion @ ''. Upgrade context ''
                         @ context_string upgradeContext @ '' sees operational impacts [''
                         @ operationalImpactsLabel impacts @ '']; ''
                         @ addonGateExplanation gate @ ''.''),
           f_Resources := [addon_reference addon],
           f_ImpactScopes := impactScopes, f_UpgradeGate := gate,
           f_Evidence := catalogEvidence addon targetVersion entry ''incompatible''
             @ gate_evidence upgradeContext impacts gate name,
           f_Remediation := addon_catalog_remediation name entry,
           f_RemediationDetail := Some (empty_detail
             \<lparr>rem_Changes := [change ''add-on version'' current
                (''>='' @ ce_MinimumCompatibleVersion entry)],
              rem_SafeFix := Some (action ''Safe fix''
                [(''Review add-on customizations and update to a catalog-compatible version ''
                  @ ''before the selected operation when its operational impacts apply.'')]
                (describe_versions_command name targetVersion)),
              rem_VerifyCommand := describe_addon_command addon\<rparr>),
           f_Fingerprint := FingerprintV2 ''ADDON-001'' targetVersion '''' [addon_reference addon]\<rparr>)"

definition addon001LiveCatalogFinding ::
  "liveAddonWorkload \<Rightarrow> string \<Rightarrow> CatalogEntry \<Rightarrow> UpgradeContext \<Rightarrow> Finding" where
  "addon001LiveCatalogFinding addon targetVersion entry upgradeContext =
     (let impacts = ce_OperationalImpacts entry;
          (severity, gate, impactScopes) = addonCompatibilityGate upgradeContext impacts;
          name = law_addonName addon; current = law_installedVersion addon
      in empty_finding\<lparr>f_RuleID := ''ADDON-001'', f_Severity := severity,
           f_Confidence := TierObserved,
           f_Message := (name @ '' '' @ law_namespace addon @ ''/'' @ law_name addon
                         @ '' is on version '' @ current @ '', which is below the catalog ''
                         @ ''minimum '' @ ce_MinimumCompatibleVersion entry
                         @ '' for target Kubernetes '' @ targetVersion
                         @ ''. Upgrade context '' @ context_string upgradeContext
                         @ '' sees operational impacts ['' @ operationalImpactsLabel impacts
                         @ '']; '' @ addonGateExplanation gate @ ''.''),
           f_Resources := [live_addon_reference addon],
           f_ImpactScopes := impactScopes, f_UpgradeGate := gate,
           f_Evidence := liveCatalogEvidence addon targetVersion entry ''incompatible''
             @ gate_evidence upgradeContext impacts gate name,
           f_Remediation := addon_catalog_remediation name entry,
           f_RemediationDetail := Some (empty_detail
             \<lparr>rem_Changes := [change ''add-on version'' current
                (''>='' @ ce_MinimumCompatibleVersion entry)],
              rem_SafeFix := Some (action ''Safe fix''
                [(''Review how this add-on was installed (Helm chart, raw manifest, ''
                  @ ''operator) and upgrade it through that same mechanism to a ''
                  @ ''catalog-compatible version before the selected operation when its ''
                  @ ''operational impacts apply.'')]
                (images_command addon)),
              rem_VerifyCommand := rollout_command addon\<rparr>),
           f_Fingerprint := FingerprintV2 ''ADDON-001'' targetVersion '''' [live_addon_reference addon]\<rparr>)"

definition addon001_managed ::
  "string + Catalog \<Rightarrow> AWSSnapshot \<Rightarrow> string \<Rightarrow> UpgradeContext \<Rightarrow> AddonRecord \<Rightarrow> Finding list" where
  \<comment> \<open>the body of the loop over the add-ons of AWS\<close>
  "addon001_managed cc snap targetVersion ctx addon =
     (if isCatalogManagedEKSAddon (ad_Name addon)
      then (case lookupEKSAddonCatalog cc (ad_Name addon) targetVersion of
              None \<Rightarrow> []
            | Some entry \<Rightarrow>
                if InstalledStatus entry (ad_CurrentVersion addon) = StatusIncompatible
                then [addon001CatalogFinding addon targetVersion entry ctx] else [])
      else if (''describe-addon-versions:'' @ ad_Name addon) \<in> fst ` set (aws_Errors snap) then []
      else if TrimSpace (ad_CurrentVersion addon) = '''' then []
      else if isVersionCompatible (ad_CurrentVersion addon) (ad_CompatibleVersions addon) then []
      else [addon001Finding addon targetVersion ctx])"

definition addon001_live ::
  "string + Catalog \<Rightarrow> bool \<Rightarrow> string \<Rightarrow> UpgradeContext \<Rightarrow> liveAddonWorkload \<Rightarrow> Finding list" where
  "addon001_live cc awsAvailable targetVersion ctx addon =
     (case lookupLiveAddonCatalog cc (law_addonName addon) targetVersion awsAvailable of
        None \<Rightarrow> []
      | Some entry \<Rightarrow>
          if InstalledStatus entry (law_installedVersion addon) = StatusIncompatible
          then [addon001LiveCatalogFinding addon targetVersion entry ctx] else [])"

definition addon_rule ::
  "(AWSSnapshot \<Rightarrow> AddonRecord \<Rightarrow> Finding list) \<Rightarrow> (bool \<Rightarrow> liveAddonWorkload \<Rightarrow> Finding list)
     \<Rightarrow> ScanContext option \<Rightarrow> rule_outcome" where
  \<comment> \<open>the two loops both rules share\<close>
  "addon_rule managed live sc =
     (case sc of
        None \<Rightarrow> Returned [] None
      | Some s \<Rightarrow>
          Returned
            ((case sc_AWSSnapshot s of
                None \<Rightarrow> []
              | Some snap \<Rightarrow> concat (map (managed snap) (aws_Addons snap)))
             @ (case sc_K8s s of
                  None \<Rightarrow> []
                | Some snap \<Rightarrow>
                    concat (map (live (sc_AWSSnapshot s \<noteq> None))
                      (liveUnverifiableAddons (k_Deployments snap) (k_DaemonSets snap))))) None)"

definition ADDON001_Evaluate ::
  "string + Catalog \<Rightarrow> ScanContext option \<Rightarrow> string \<Rightarrow> rule_outcome" where
  "ADDON001_Evaluate cc sc targetVersion =
     addon_rule (\<lambda>snap. addon001_managed cc snap targetVersion (scanUpgradeContext sc))
       (\<lambda>aws. addon001_live cc aws targetVersion (scanUpgradeContext sc)) sc"

section \<open>ADDON-002\<close>

definition addonVerificationError :: "AddonRecord \<Rightarrow> errors \<Rightarrow> string option" where
  "addonVerificationError addon errs =
     (case map_of errs (''describe-addon-versions:'' @ ad_Name addon) of
        Some err \<Rightarrow> Some err
      | None \<Rightarrow>
          (case map_of errs (''describe-addon:'' @ ad_Name addon) of
             Some err \<Rightarrow> Some err
           | None \<Rightarrow>
               if TrimSpace (ad_CurrentVersion addon) = ''''
               then Some ''installed add-on version was not reported by AWS DescribeAddon''
               else None))"

definition error_text :: "string option \<Rightarrow> string" where
  \<comment> \<open>\<open>%v\<close> of an \<open>error\<close>\<close>
  "error_text err = (case err of Some e \<Rightarrow> e | None \<Rightarrow> ''<nil>'')"

definition addon002Finding :: "AddonRecord \<Rightarrow> string \<Rightarrow> string option \<Rightarrow> Finding" where
  "addon002Finding addon targetVersion err =
     (let name = ad_Name addon; current = ad_CurrentVersion addon
      in empty_finding\<lparr>f_RuleID := ''ADDON-002'', f_Severity := SeverityWarning,
           f_Confidence := TierProviderReported,
           f_Message := (''EKS add-on '' @ quote name @ '' version '' @ current
                         @ '' could not be verified against target Kubernetes ''
                         @ targetVersion @ '' '' @ emdash @ '' confirm compatibility before ''
                         @ ''starting the upgrade''),
           f_Resources := [addon_reference addon],
           f_Evidence :=
             [(''installed add-on: '' @ name), (''current version: '' @ current),
              (''target Kubernetes version: '' @ targetVersion),
              ''minimum supported version: unknown'', ''compatibility status: unknown'',
              (''confidence/source: '' @ addon002Source addon err),
              (''verification error: '' @ error_text err),
              (''recommended upgrade version: verify with AWS before upgrading '' @ name),
              (''required upgrade order: '' @ addonUpgradeOrder name)],
           f_Remediation := (''Verify the add-on against AWS'' @ sq @ ''s target-version ''
                             @ ''compatibility data before upgrading. Treat VPC CNI and ''
                             @ ''kube-proxy as early-order add-ons because networking and ''
                             @ ''service proxy behavior underpin the rest of the cluster.''),
           f_RemediationDetail := Some (empty_detail
             \<lparr>rem_Changes := [change ''add-on compatibility'' ''unknown''
                (''verified compatible with target Kubernetes '' @ targetVersion)],
              rem_SafeFix := Some (action ''Safe fix''
                [(''Restore DescribeAddonVersions access or manually verify the add-on ''
                  @ ''version against the EKS compatibility matrix before upgrading.'')]
                (describe_versions_command name targetVersion)),
              rem_VerifyCommand := describe_addon_command addon\<rparr>),
           f_Fingerprint := FingerprintV2 ''ADDON-002'' targetVersion '''' [addon_reference addon]\<rparr>)"

definition addon002CatalogFinding ::
  "AddonRecord \<Rightarrow> string \<Rightarrow> CatalogEntry \<Rightarrow> string \<Rightarrow> string \<Rightarrow> string \<Rightarrow> Finding" where
  "addon002CatalogFinding addon targetVersion entry msg status remediation =
     empty_finding\<lparr>f_RuleID := ''ADDON-002'', f_Severity := SeverityWarning,
       f_Confidence := TierProviderReported, f_Message := msg,
       f_Resources := [addon_reference addon],
       f_Evidence := catalogEvidence addon targetVersion entry status
         @ [(''required upgrade order: '' @ (addonUpgradeOrder (ad_Name addon)))],
       f_Remediation := remediation,
       f_RemediationDetail := Some (empty_detail
         \<lparr>rem_Changes := [change ''add-on compatibility'' status
            (''compatible with target Kubernetes '' @ targetVersion)],
          rem_SafeFix := Some (action ''Safe fix''
            [''Review the catalog source and add-on customizations before updating.'']
            (describe_versions_command (ad_Name addon) targetVersion)),
          rem_VerifyCommand := describe_addon_command addon\<rparr>),
       f_Fingerprint := FingerprintV2 ''ADDON-002'' targetVersion '''' [addon_reference addon]\<rparr>"

definition addon002CatalogUpgradeRecommendedFinding ::
  "AddonRecord \<Rightarrow> string \<Rightarrow> CatalogEntry \<Rightarrow> Finding" where
  "addon002CatalogUpgradeRecommendedFinding addon targetVersion entry =
     addon002CatalogFinding addon targetVersion entry
       (''EKS add-on '' @ quote (ad_Name addon) @ '' version '' @ ad_CurrentVersion addon
        @ '' is compatible with target Kubernetes '' @ targetVersion @ '' but is below the ''
        @ ''catalog recommended version '' @ ce_RecommendedVersion entry)
       ''upgrade recommended''
       (''Update '' @ ad_Name addon @ '' to the catalog recommended version ''
        @ ce_RecommendedVersion entry @ '' before or during the add-on validation phase. ''
        @ ''This is non-blocking because the installed version meets the known minimum ''
        @ ce_MinimumCompatibleVersion entry @ ''.'')"

definition addon002CatalogUnknownFinding :: "AddonRecord \<Rightarrow> string \<Rightarrow> CatalogEntry \<Rightarrow> Finding" where
  "addon002CatalogUnknownFinding addon targetVersion entry =
     addon002CatalogFinding addon targetVersion entry
       (''EKS add-on '' @ quote (ad_Name addon) @ '' version '' @ ad_CurrentVersion addon
        @ '' could not be parsed against the compatibility catalog for target Kubernetes ''
        @ targetVersion @ '' '' @ emdash @ '' confirm compatibility before starting the ''
        @ ''upgrade'')
       ''unknown''
       (''Verify the installed add-on version against the catalog source before upgrading. ''
        @ ''Unknown or custom add-on builds remain non-blocking warnings until ''
        @ ''compatibility is confirmed.'')"

definition addon002CatalogMissingFinding :: "AddonRecord \<Rightarrow> string \<Rightarrow> Finding" where
  "addon002CatalogMissingFinding addon targetVersion =
     (let name = ad_Name addon; current = ad_CurrentVersion addon
      in empty_finding\<lparr>f_RuleID := ''ADDON-002'', f_Severity := SeverityWarning,
           f_Confidence := TierProviderReported,
           f_Message := (''EKS add-on '' @ quote name @ '' version '' @ current
                         @ '' has no compatibility catalog entry for target Kubernetes ''
                         @ targetVersion @ '' '' @ emdash @ '' confirm compatibility before ''
                         @ ''starting the upgrade''),
           f_Resources := [addon_reference addon],
           f_Evidence :=
             [(''installed add-on: '' @ name), (''current version: '' @ current),
              (''target Kubernetes version: '' @ targetVersion),
              ''minimum compatible version: unknown'', ''recommended upgrade version: unknown'',
              ''compatibility status: unknown'',
              ''catalog source: no catalog entry for provider=eks add-on target'',
              (''required upgrade order: '' @ addonUpgradeOrder name)],
           f_Remediation := (''Verify this EKS managed add-on against provider ''
                             @ ''compatibility metadata before upgrading. Missing catalog ''
                             @ ''coverage is a warning, not proof of incompatibility.''),
           f_RemediationDetail := Some (empty_detail
             \<lparr>rem_Changes := [change ''add-on compatibility'' ''unknown''
                (''catalog-backed compatibility for target Kubernetes '' @ targetVersion)],
              rem_SafeFix := Some (action ''Safe fix''
                [''Verify the add-on version against provider compatibility metadata before upgrading.'']
                (describe_versions_command name targetVersion)),
              rem_VerifyCommand := describe_addon_command addon\<rparr>),
           f_Fingerprint := FingerprintV2 ''ADDON-002'' targetVersion '''' [addon_reference addon]\<rparr>)"

definition addon002LiveFinding :: "liveAddonWorkload \<Rightarrow> string \<Rightarrow> Finding" where
  "addon002LiveFinding addon targetVersion =
     (let name = law_addonName addon; version = law_installedVersion addon
      in empty_finding\<lparr>f_RuleID := ''ADDON-002'', f_Severity := SeverityWarning,
           f_Confidence := TierObserved,
           f_Message := (name @ '' '' @ law_namespace addon @ ''/'' @ law_name addon
                         @ '' version '' @ version @ '' could not be verified against ''
                         @ ''target Kubernetes '' @ targetVersion @ '' '' @ emdash
                         @ '' confirm compatibility before starting the upgrade''),
           f_Resources := [live_addon_reference addon],
           f_Evidence :=
             [(''installed add-on: '' @ name), (''installed version: '' @ version),
              (''target Kubernetes version: '' @ targetVersion),
              ''minimum supported version: unknown'', ''compatibility status: unknown'',
              (''confidence/source: '' @ law_source addon @ ''; no provider compatibility ''
               @ ''metadata available''),
              (''controller image: '' @ law_image addon),
              (''recommended upgrade version: verify with the '' @ name @ '' compatibility ''
               @ ''matrix''),
              (''required upgrade order: '' @ addonUpgradeOrder name)],
           f_Remediation := (''Verify this add-on'' @ sq @ ''s controller image against its ''
                             @ ''published Kubernetes compatibility matrix before ''
                             @ ''upgrading. Unknown live add-on compatibility is a warning, ''
                             @ ''not a hard blocker, because no deterministic provider ''
                             @ ''compatibility source was available.''),
           f_RemediationDetail := Some (empty_detail
             \<lparr>rem_Changes := [change ''add-on compatibility'' ''unknown''
                (''verified compatible with target Kubernetes '' @ targetVersion)],
              rem_SafeFix := Some (action ''Safe fix''
                [(''Check the controller'' @ sq @ ''s published Kubernetes compatibility ''
                  @ ''matrix for the installed image version before upgrading.'')]
                (images_command addon)),
              rem_VerifyCommand := rollout_command addon\<rparr>),
           f_Fingerprint := FingerprintV2 ''ADDON-002'' targetVersion '''' [live_addon_reference addon]\<rparr>)"

definition addon002LiveCatalogFinding ::
  "liveAddonWorkload \<Rightarrow> string \<Rightarrow> CatalogEntry \<Rightarrow> string \<Rightarrow> string \<Rightarrow> string \<Rightarrow> Finding" where
  "addon002LiveCatalogFinding addon targetVersion entry msg status remediation =
     empty_finding\<lparr>f_RuleID := ''ADDON-002'', f_Severity := SeverityWarning,
       f_Confidence := TierObserved, f_Message := msg,
       f_Resources := [live_addon_reference addon],
       f_Evidence := liveCatalogEvidence addon targetVersion entry status
         @ [(''required upgrade order: '' @ (addonUpgradeOrder (law_addonName addon)))],
       f_Remediation := remediation,
       f_RemediationDetail := Some (empty_detail
         \<lparr>rem_Changes := [change ''add-on compatibility'' status
            (''compatible with target Kubernetes '' @ targetVersion)],
          rem_SafeFix := Some (action ''Safe fix''
            [(''Review the catalog source and the controller'' @ sq @ ''s own release notes ''
              @ ''before updating.'')]
            (images_command addon)),
          rem_VerifyCommand := rollout_command addon\<rparr>),
       f_Fingerprint := FingerprintV2 ''ADDON-002'' targetVersion '''' [live_addon_reference addon]\<rparr>"

definition addon002LiveCatalogUpgradeRecommendedFinding ::
  "liveAddonWorkload \<Rightarrow> string \<Rightarrow> CatalogEntry \<Rightarrow> Finding" where
  "addon002LiveCatalogUpgradeRecommendedFinding addon targetVersion entry =
     addon002LiveCatalogFinding addon targetVersion entry
       (law_addonName addon @ '' '' @ law_namespace addon @ ''/'' @ law_name addon
        @ '' version '' @ law_installedVersion addon @ '' is compatible with target ''
        @ ''Kubernetes '' @ targetVersion @ '' but is below the catalog recommended version ''
        @ ce_RecommendedVersion entry)
       ''upgrade recommended''
       (''Update '' @ law_addonName addon @ '' to the catalog recommended version ''
        @ ce_RecommendedVersion entry @ '' before or during the add-on validation phase. ''
        @ ''This is non-blocking because the installed version meets the known minimum ''
        @ ce_MinimumCompatibleVersion entry @ ''.'')"

definition addon002LiveCatalogUnknownFinding ::
  "liveAddonWorkload \<Rightarrow> string \<Rightarrow> CatalogEntry \<Rightarrow> Finding" where
  "addon002LiveCatalogUnknownFinding addon targetVersion entry =
     addon002LiveCatalogFinding addon targetVersion entry
       (law_addonName addon @ '' '' @ law_namespace addon @ ''/'' @ law_name addon
        @ '' version '' @ law_installedVersion addon @ '' could not be parsed against the ''
        @ ''compatibility catalog for target Kubernetes '' @ targetVersion @ '' '' @ emdash
        @ '' confirm compatibility before starting the upgrade'')
       ''unknown''
       (''Verify the installed version against the catalog source before upgrading. An ''
        @ ''unparseable tag (e.g. '' @ dq @ ''latest'' @ dq @ '', a digest pin, or a ''
        @ ''custom/fork build) remains a non-blocking warning until compatibility is ''
        @ ''confirmed some other way.'')"

definition addon002_managed ::
  "string + Catalog \<Rightarrow> AWSSnapshot \<Rightarrow> string \<Rightarrow> AddonRecord \<Rightarrow> Finding list" where
  "addon002_managed cc snap targetVersion addon =
     (if \<not> isHighImpactAddon (ad_Name addon) then []
      else if isCatalogManagedEKSAddon (ad_Name addon)
      then (case lookupEKSAddonCatalog cc (ad_Name addon) targetVersion of
              None \<Rightarrow> [addon002CatalogMissingFinding addon targetVersion]
            | Some entry \<Rightarrow>
                (case InstalledStatus entry (ad_CurrentVersion addon) of
                   StatusIncompatible \<Rightarrow> []
                 | StatusCompatible \<Rightarrow> []
                 | StatusUpgradeRecommended \<Rightarrow>
                     [addon002CatalogUpgradeRecommendedFinding addon targetVersion entry]
                 | StatusUnknown \<Rightarrow> [addon002CatalogUnknownFinding addon targetVersion entry]))
      else (case addonVerificationError addon (aws_Errors snap) of
              None \<Rightarrow> []
            | Some err \<Rightarrow> [addon002Finding addon targetVersion (Some err)]))"

definition addon002_live ::
  "string + Catalog \<Rightarrow> bool \<Rightarrow> string \<Rightarrow> liveAddonWorkload \<Rightarrow> Finding list" where
  "addon002_live cc awsAvailable targetVersion addon =
     (case lookupLiveAddonCatalog cc (law_addonName addon) targetVersion awsAvailable of
        None \<Rightarrow> [addon002LiveFinding addon targetVersion]
      | Some entry \<Rightarrow>
          (case InstalledStatus entry (law_installedVersion addon) of
             StatusIncompatible \<Rightarrow> []
           | StatusCompatible \<Rightarrow> []
           | StatusUpgradeRecommended \<Rightarrow>
               [addon002LiveCatalogUpgradeRecommendedFinding addon targetVersion entry]
           | StatusUnknown \<Rightarrow> [addon002LiveCatalogUnknownFinding addon targetVersion entry]))"

definition ADDON002_Evaluate ::
  "string + Catalog \<Rightarrow> ScanContext option \<Rightarrow> string \<Rightarrow> rule_outcome" where
  "ADDON002_Evaluate cc sc targetVersion =
     addon_rule (\<lambda>snap. addon002_managed cc snap targetVersion)
       (\<lambda>aws. addon002_live cc aws targetVersion) sc"

end
