(* ===== verification/RulesAll.thy ===== *)
theory RulesAll
  imports RulesPdb RulesNode RulesEks RulesSchedule RulesWebhook RulesApi RulesAddon
begin

text \<open>
  The rules of \<open>NewDefaultRegistry\<close> and \<open>NewManifestsOnlyRegistry\<close> (\<open>defaults.go\<close>) with their
  bodies: \<open>Evaluate\<close> dispatched on the rule, and a scan's evaluation over all of them.
\<close>

text \<open>
  What the bodies take from outside the scan context: the Kubernetes and PKI libraries, the
  embedded catalogs as loaded at start, and the clock. The code reads the clock per pod and per
  webhook rule; a scan sees one instant.
\<close>

record rule_env =
  env_lib :: kube_lib
  env_pki :: pki_lib
  env_now :: int
  env_api_catalog :: "string + VersionedCatalog"
  env_compat_catalog :: "string + Catalog"

definition rule_bodies ::
  "rule_env \<Rightarrow> (string \<times> (ScanContext option \<Rightarrow> string \<Rightarrow> rule_outcome)) list" where
  \<comment> \<open>the \<open>Evaluate\<close> method of each rule type, in the order of \<open>NewDefaultRegistry\<close>\<close>
  "rule_bodies env =
     (let lib = env_lib env; now = env_now env; vc = env_api_catalog env;
          cc = env_compat_catalog env
      in [(''API-001'', API001_Evaluate vc), (''API-002'', API002_Evaluate vc),
          (''WH-001'', WH001_Evaluate), (''WH-002'', WH002_Evaluate),
          (''WH-004'', WH004_Evaluate (env_pki env) now), (''WH-005'', WH005_Evaluate),
          (''DRAIN-001'', DRAIN001_Evaluate lib), (''DRAIN-002'', DRAIN002_Evaluate),
          (''DRAIN-003'', DRAIN003_Evaluate lib), (''DRAIN-004'', DRAIN004_Evaluate lib),
          (''DRAIN-005'', DRAIN005_Evaluate lib), (''PDB-001'', PDB001_Evaluate lib),
          (''PDB-002'', PDB002_Evaluate lib), (''NODE-001'', NODE001_Evaluate),
          (''NODE-002'', NODE002_Evaluate), (''NODE-003'', NODE003_Evaluate),
          (''NET-002'', NET002_Evaluate), (''WORKLOAD-001'', WORKLOAD001_Evaluate now),
          (''ADDON-001'', ADDON001_Evaluate cc), (''ADDON-002'', ADDON002_Evaluate cc),
          (''EKS-NG-001'', EKSNG001_Evaluate), (''EKS-NG-002'', EKSNG002_Evaluate),
          (''EKS-NG-003'', EKSNG003_Evaluate), (''EKS-NG-004'', EKSNG004_Evaluate),
          (''EKS-INSIGHT-001'', EKSINSIGHT001_Evaluate),
          (''EKS-INSIGHT-002'', EKSINSIGHT002_Evaluate),
          (''EKS-INSIGHT-003'', EKSINSIGHT003_Evaluate), (''COREDNS-001'', COREDNS001_Evaluate),
          (''CRD-001'', CRD001_Evaluate), (''CRD-002'', CRD002_Evaluate),
          (''APISERVICE-001'', APIService001_Evaluate)])"

definition rule_body :: "rule_env \<Rightarrow> string \<Rightarrow> ScanContext option \<Rightarrow> string \<Rightarrow> rule_outcome" where
  "rule_body env ruleID =
     (case map_of (rule_bodies env) ruleID of
        Some evaluate \<Rightarrow> evaluate
      | None \<Rightarrow> (\<lambda>_ _. Returned [] None))"

definition default_registry :: "rule_env \<Rightarrow> Registry" where
  "default_registry env = NewDefaultRegistry (rule_body env)"

definition manifests_registry :: "rule_env \<Rightarrow> Registry" where
  "manifests_registry env = NewManifestsOnlyRegistry (rule_body env)"

text \<open>The dispatch, rule by rule.\<close>

lemma dispatch:
  "rule_body env ''API-001'' = API001_Evaluate (env_api_catalog env)"
  "rule_body env ''API-002'' = API002_Evaluate (env_api_catalog env)"
  "rule_body env ''WH-001'' = WH001_Evaluate"
  "rule_body env ''WH-002'' = WH002_Evaluate"
  "rule_body env ''WH-004'' = WH004_Evaluate (env_pki env) (env_now env)"
  "rule_body env ''WH-005'' = WH005_Evaluate"
  "rule_body env ''DRAIN-001'' = DRAIN001_Evaluate (env_lib env)"
  "rule_body env ''DRAIN-002'' = DRAIN002_Evaluate"
  "rule_body env ''DRAIN-003'' = DRAIN003_Evaluate (env_lib env)"
  "rule_body env ''DRAIN-004'' = DRAIN004_Evaluate (env_lib env)"
  "rule_body env ''DRAIN-005'' = DRAIN005_Evaluate (env_lib env)"
  "rule_body env ''PDB-001'' = PDB001_Evaluate (env_lib env)"
  "rule_body env ''PDB-002'' = PDB002_Evaluate (env_lib env)"
  "rule_body env ''NODE-001'' = NODE001_Evaluate"
  "rule_body env ''NODE-002'' = NODE002_Evaluate"
  "rule_body env ''NODE-003'' = NODE003_Evaluate"
  "rule_body env ''NET-002'' = NET002_Evaluate"
  "rule_body env ''WORKLOAD-001'' = WORKLOAD001_Evaluate (env_now env)"
  "rule_body env ''ADDON-001'' = ADDON001_Evaluate (env_compat_catalog env)"
  "rule_body env ''ADDON-002'' = ADDON002_Evaluate (env_compat_catalog env)"
  "rule_body env ''EKS-NG-001'' = EKSNG001_Evaluate"
  "rule_body env ''EKS-NG-002'' = EKSNG002_Evaluate"
  "rule_body env ''EKS-NG-003'' = EKSNG003_Evaluate"
  "rule_body env ''EKS-NG-004'' = EKSNG004_Evaluate"
  "rule_body env ''EKS-INSIGHT-001'' = EKSINSIGHT001_Evaluate"
  "rule_body env ''EKS-INSIGHT-002'' = EKSINSIGHT002_Evaluate"
  "rule_body env ''EKS-INSIGHT-003'' = EKSINSIGHT003_Evaluate"
  "rule_body env ''COREDNS-001'' = COREDNS001_Evaluate"
  "rule_body env ''CRD-001'' = CRD001_Evaluate"
  "rule_body env ''CRD-002'' = CRD002_Evaluate"
  "rule_body env ''APISERVICE-001'' = APIService001_Evaluate"
  by (simp_all add: rule_body_def rule_bodies_def Let_def)

end
