(* ===== verification/RuleContracts.thy ===== *)
theory RuleContracts
  imports RulesAll EngineFacts
begin

text \<open>
  The contract every rule keeps with the engine: on well-formed evidence its \<open>Evaluate\<close> returns
  without error and panic, and every finding it returns carries its identifier and passes
  \<open>Validate\<close>. One interpretation per rule; the default scan follows.
\<close>

section \<open>Keys are never empty\<close>

lemma length_sha_round: "length st = 8 \<Longrightarrow> length (sha_round st kw) = 8"
  by (cases "(st, kw)" rule: sha_round.cases) (auto simp: Let_def)

lemma length_foldl_sha_round: "length st = 8 \<Longrightarrow> length (foldl sha_round st kws) = 8"
  by (induction kws arbitrary: st) (simp_all add: length_sha_round)

lemma length_sha_block: "length H = 8 \<Longrightarrow> length (sha_block H ws) = 8"
  by (simp add: sha_block_def length_foldl_sha_round)

lemma length_sha_blocks: "length H = 8 \<Longrightarrow> length (sha_blocks n H ws) = 8"
  by (induction n arbitrary: H ws) (simp_all add: length_sha_block)

lemma length_hex_word: "length (hex_word w) = 8"
  by (simp add: hex_word_def be_bytes_def hex_byte_def)

lemma length_sha256_hex: "length (sha256_hex s) = 64"
proof -
  have "length (concat (map hex_word ws)) = 8 * length ws" for ws
    by (induction ws) (simp_all add: length_hex_word)
  then show ?thesis
    by (simp add: sha256_hex_def Let_def length_sha_blocks sha_H0_def)
qed

lemma FingerprintV2_nonempty [simp]: "FingerprintV2 ruleID tv d refs \<noteq> []"
  using length_sha256_hex by (metis FingerprintV2_def canonicalKey_def list.size(3) zero_neq_numeral)

section \<open>Valid findings\<close>

named_theorems finding_simps \<open>unfolding of validation on the rules' constructors\<close>

definition finding_ok :: "string \<Rightarrow> Finding \<Rightarrow> bool" where
  "finding_ok ruleID f \<longleftrightarrow> f_RuleID f = ruleID \<and> Validate f = None"

lemma Validate_None:
  "Validate f = None \<longleftrightarrow>
     f_RuleID f \<noteq> '''' \<and> f_Severity f \<in> {SeverityBlocker, SeverityWarning, SeverityInfo}
     \<and> f_Confidence f \<in> {TierStaticCertain, TierProviderReported, TierObserved, TierInferred}
     \<and> f_Resources f \<noteq> [] \<and> list_all (\<lambda>r. validate_reference r = None) (f_Resources f)
     \<and> f_Fingerprint f \<noteq> '''' \<and> \<not> break_glass_not_risky f
     \<and> list_all valid_impact_scope (f_ImpactScopes f) \<and> valid_gate (f_UpgradeGate f)"
proof -
  have refs: "list_all (\<lambda>r. validate_reference r = None) rs \<longleftrightarrow> first_bad_reference 0 rs = None" for rs
    by (simp add: first_bad_reference_None list_all_iff)
  have scopes: "list_all valid_impact_scope ss \<longleftrightarrow> find (\<lambda>s. \<not> valid_impact_scope s) ss = None" for ss
    by (auto simp: find_None_iff list_all_iff)
  show ?thesis
    unfolding Validate_def refs scopes
    by (cases "first_bad_reference 0 (f_Resources f)";
        cases "find (\<lambda>s. \<not> valid_impact_scope s) (f_ImpactScopes f)")
      (simp_all add: case_prod_unfold)
qed

lemma reference_valid [finding_simps]:
  "validate_reference (LiveResource kind scope ns name uid) = None \<longleftrightarrow>
     kind \<noteq> '''' \<and> name \<noteq> '''' \<and> uid \<noteq> ''''"
  "validate_reference (ManifestResource kind scope ns name path) = None \<longleftrightarrow>
     kind \<noteq> '''' \<and> name \<noteq> '''' \<and> path \<noteq> ''''"
  "validate_reference (AWSResource kind name pid) = None \<longleftrightarrow>
     pid \<noteq> '''' \<and> kind \<noteq> ''EKSUpgradeInsight''"
  "validate_reference (AWSInsightResource category version pid pname) = None \<longleftrightarrow>
     pid \<noteq> '''' \<and> category \<noteq> '''' \<and> version \<noteq> ''''"
  by (auto simp: validate_reference_def LiveResource_def ManifestResource_def AWSResource_def
      AWSInsightResource_def empty_reference_def)

lemma gates_valid [finding_simps]:
  "drainDependentGate ctx = (severity, gate) \<Longrightarrow>
     severity \<in> {SeverityBlocker, SeverityWarning} \<and> valid_gate gate"
  "currentHealthGate ctx b z = (severity, gate) \<Longrightarrow>
     severity \<in> {SeverityBlocker, SeverityWarning} \<and> valid_gate gate"
  "eksControlPlanePreconditionGate ctx = (severity, gate) \<Longrightarrow>
     severity \<in> {SeverityBlocker, SeverityWarning} \<and> valid_gate gate"
  "addonCompatibilityGate ctx impacts = (severity, gate, scopes) \<Longrightarrow>
     severity \<in> {SeverityBlocker, SeverityWarning} \<and> valid_gate gate"
  by (auto simp: drainDependentGate_def currentHealthGate_def eksControlPlanePreconditionGate_def
      addonCompatibilityGate_def block_if_def Let_def split: if_splits UpgradeContext.splits prod.splits)

lemma finding_ok_iff [finding_simps]:
  "finding_ok ruleID f \<longleftrightarrow>
     f_RuleID f = ruleID \<and> ruleID \<noteq> ''''
     \<and> f_Severity f \<in> {SeverityBlocker, SeverityWarning, SeverityInfo}
     \<and> f_Confidence f \<in> {TierStaticCertain, TierProviderReported, TierObserved, TierInferred}
     \<and> f_Resources f \<noteq> [] \<and> list_all (\<lambda>r. validate_reference r = None) (f_Resources f)
     \<and> f_Fingerprint f \<noteq> '''' \<and> \<not> break_glass_not_risky f
     \<and> list_all valid_impact_scope (f_ImpactScopes f) \<and> valid_gate (f_UpgradeGate f)"
  by (auto simp: finding_ok_def Validate_None)

lemmas ok_unfold =
  finding_ok_iff reference_valid break_glass_not_risky_def empty_finding_def empty_detail_def
  Let_def action_def

text \<open>The constructors of the rules.\<close>

named_theorems rule_ok \<open>validity of the findings the constructors of the rules build\<close>

definition named :: "string \<Rightarrow> string \<Rightarrow> bool" where
  "named name uid \<longleftrightarrow> name \<noteq> '''' \<and> uid \<noteq> ''''"

lemma pdb_findings_ok [rule_ok]:
  "named (pdb_Name a) (pdb_UID a) \<Longrightarrow> finding_ok ''PDB-001'' (pdb001Finding lib a tv ctx)"
  "named (pdb_Name a) (pdb_UID a) \<Longrightarrow> named (pdb_Name b) (pdb_UID b) \<Longrightarrow>
     finding_ok ''PDB-002'' (pdb002Finding lib a selA b selB pods tv ctx)"
  by (cases "drainDependentGate ctx"; auto simp: named_def ok_unfold pdb001Finding_def
      pdb002Finding_def pdb_reference_def pdb001RemediationDetail_def dest: gates_valid)+

lemma service_findings_ok [rule_ok]:
  "named (cm_Name cm) (cm_UID cm) \<Longrightarrow> finding_ok ''COREDNS-001'' (coredns001Finding cm tv)"
  "named (apisvc_Name svc) (apisvc_UID svc) \<Longrightarrow>
     finding_ok ''APISERVICE-001'' (apiservice001_finding svc tv)"
  by (auto simp: named_def ok_unfold coredns001Finding_def apiservice001_finding_def)

lemma node_findings_ok [rule_ok]:
  "named (node_Name n) (node_UID n) \<Longrightarrow> finding_ok ''NODE-001'' (node001Finding n tv reason)"
  "subnet_ID subnet \<noteq> '''' \<Longrightarrow> finding_ok ''NODE-002'' (node002Finding subnet tv ctx)"
  "npi_ID issue \<noteq> '''' \<Longrightarrow> npi_Kind issue \<noteq> ''EKSUpgradeInsight'' \<Longrightarrow>
     finding_ok ''NET-002'' (net002Finding issue tv ctx)"
  "kind \<noteq> '''' \<Longrightarrow> named (om_Name meta) (om_UID meta) \<Longrightarrow>
     finding_ok ''NODE-003'' (node003Finding kind lower meta paths tv)"
  "wo_Kind obj \<noteq> '''' \<Longrightarrow> named (wo_Name obj) (wo_SourcePath obj) \<Longrightarrow>
     finding_ok ''NODE-003'' (node003ManifestFinding obj paths tv)"
  by (cases "eksControlPlanePreconditionGate ctx"; auto simp: named_def ok_unfold node001Finding_def
      node_reference_def node002Finding_def net002Finding_def node003Finding_def
      node003ManifestFinding_def node003_body_def dest: gates_valid)+

lemma eks_findings_ok [rule_ok]:
  "nr_Name ng \<noteq> '''' \<Longrightarrow> finding_ok ''EKS-NG-001'' (eksNG001Finding ng)"
  "nr_Name ng \<noteq> '''' \<Longrightarrow> finding_ok ''EKS-NG-002'' (eksNG002Finding ng)"
  "nr_Name ng \<noteq> '''' \<Longrightarrow> finding_ok ''EKS-NG-003'' (eksNG003Finding ng)"
  "nr_Name ng \<noteq> '''' \<Longrightarrow> finding_ok ''EKS-NG-004'' (eksNG004Finding ng tv)"
  by (auto simp: ok_unfold eksNG001Finding_def eksNG002Finding_def eksNG003Finding_def
      eksNG004Finding_def eksNodegroupResource_def inspect_nodegroup_def)

lemma eksInsightFinding_ok [rule_ok]:
  "severity \<in> {SeverityWarning, SeverityInfo} \<Longrightarrow> ruleID \<noteq> '''' \<Longrightarrow>
     finding_ok ruleID (eksInsightFinding ruleID severity ins tv) \<longleftrightarrow>
       ins_ID ins \<noteq> '''' \<and> ins_Category ins \<noteq> '''' \<and> ins_KubernetesVersion ins \<noteq> ''''"
  by (auto simp: ok_unfold eksInsightFinding_def insight_reference_def)


lemma drain_findings_ok [rule_ok]:
  "d1_Kind p \<noteq> '''' \<Longrightarrow> named (om_Name (d1_Meta p)) (om_UID (d1_Meta p)) \<Longrightarrow> finding_ok ''DRAIN-001'' (drain001Finding p tv)"
  "wo_Kind obj \<noteq> '''' \<Longrightarrow> named (wo_Name obj) (wo_SourcePath obj) \<Longrightarrow>
     finding_ok ''DRAIN-001'' (drain001ManifestFinding tv obj)"
  "kind \<noteq> '''' \<Longrightarrow> named (om_Name meta) (om_UID meta) \<Longrightarrow>
     severity \<in> {SeverityBlocker, SeverityWarning} \<Longrightarrow> valid_gate gate \<Longrightarrow>
     finding_ok ''DRAIN-002'' (drain002Finding kind meta d severity tv msg evidence rem gate)"
  "kind \<noteq> '''' \<Longrightarrow> named (om_Name meta) (om_UID meta) \<Longrightarrow>
     finding_ok ''DRAIN-003'' (drain003Finding kind meta d tv msg evidence rem)"
  "named (node_Name n) (node_UID n) \<Longrightarrow>
     finding_ok ''DRAIN-004'' (drain004Finding lib n displaced pending spare cpu mem missing tv)"
  by (auto simp: named_def ok_unfold drain001Finding_def drain001ManifestFinding_def
      drain001_impacts_def drain002Finding_def drain003Finding_def drain004Finding_def
      node_reference_def)

lemma drain002_gate_valid:
  "drain002ContextualSeverity risk ctx = (severity, gate) \<Longrightarrow>
     severity \<in> {SeverityBlocker, SeverityWarning} \<and> valid_gate gate"
  by (auto simp: drain002ContextualSeverity_def dest: gates_valid split: if_splits)

lemma drain002_kinds_ok [rule_ok]:
  "kind \<noteq> '''' \<Longrightarrow> named (om_Name meta) (om_UID meta) \<Longrightarrow>
     finding_ok ''DRAIN-002'' (drain002LocalPVFinding snap kind meta pvs singleton tv ctx)"
  "kind \<noteq> '''' \<Longrightarrow> named (om_Name meta) (om_UID meta) \<Longrightarrow>
     finding_ok ''DRAIN-002'' (drain002HostPathFinding snap kind meta paths singleton tv ctx)"
  unfolding drain002LocalPVFinding_def drain002HostPathFinding_def Let_def
  by (auto split: prod.split dest!: drain002_gate_valid intro!: drain_findings_ok)

lemma if_None_Some: "(if c then None else Some x) = Some y \<longleftrightarrow> \<not> c \<and> x = y"
  by simp

lemma drain005_findings_ok [rule_ok]:
  assumes "named (wl_Name w) (wl_UID w)" and "drain005StatefulSetFinding tv ctx w = Some f"
  shows "finding_ok ''DRAIN-005'' f"
proof -
  obtain severity gate where
    gate: "currentHealthGate ctx (isCriticalInfraName (wl_Name w)) (wl_ReadyReplicas w = 0) = (severity, gate)"
    by fastforce
  then show ?thesis
    using assms gates_valid(2) [OF gate]
    unfolding drain005StatefulSetFinding_def Let_def gate prod.case if_None_Some
    by (elim conjE, hypsubst) (auto simp: named_def ok_unfold drain005_impacts_def)
qed

lemma drain005_daemonset_ok [rule_ok]:
  assumes "named (dset_Name d) (dset_UID d)" and "drain005DaemonSetFinding lib tv ctx d = Some f"
  shows "finding_ok ''DRAIN-005'' f"
proof -
  obtain severity gate where
    gate: "currentHealthGate ctx (isCriticalInfraName (dset_Name d)) (dset_NumberReady d = 0) = (severity, gate)"
    by fastforce
  then show ?thesis
    using assms gates_valid(2) [OF gate]
    unfolding drain005DaemonSetFinding_def Let_def gate prod.case if_None_Some
    by (elim conjE, hypsubst) (auto simp: named_def ok_unfold drain005_impacts_def)
qed

lemma workload_findings_ok [rule_ok]:
  "named (pod_Name (wi_pod i)) (pod_UID (wi_pod i)) \<Longrightarrow>
     finding_ok ''WORKLOAD-001'' (workload001Finding tv i)"
  "named (crd_Name crd) (crd_UID crd) \<Longrightarrow> finding_ok ''CRD-001'' (crd001_finding crd tv)"
  "named (crd_Name crd) (crd_UID crd) \<Longrightarrow>
     finding_ok ''CRD-002'' (crd002ConfigFinding crd tv d msg evidence rem)"
  by (auto simp: named_def ok_unfold workload001Finding_def crd001_finding_def crd_reference_def
      crd002ConfigFinding_def)

lemma crd002ServiceFindings_ok [rule_ok]:
  "named (crd_Name crd) (crd_UID crd) \<Longrightarrow> f \<in> set (crd002ServiceFindings snap crd svc tv) \<Longrightarrow>
     finding_ok ''CRD-002'' f"
  by (auto simp: crd002ServiceFindings_def Let_def workload_findings_ok split: if_splits)
    (auto simp: named_def ok_unfold crd_reference_def)


lemma webhook_findings_ok [rule_ok]:
  assumes site: "ws_Kind site \<noteq> ''''" "named (ws_ConfigName site) (ws_ConfigUID site)"
  shows "finding_ok ''WH-001'' (wh001Finding site pattern tv)"
    "finding_ok ''WH-002'' (wh002ConfigFinding site fc global d tv msg evidence)"
    "finding_ok ''WH-002'' (wh002IgnoreFinding site svc tv)"
    "finding_ok ''WH-002'' (wh002Finding site svc global tv)"
    "severity \<in> {SeverityBlocker, SeverityWarning} \<Longrightarrow>
       finding_ok ''WH-004'' (wh004Finding site severity global d tv msg evidence rem)"
    "severity \<in> {SeverityBlocker, SeverityWarning} \<Longrightarrow> valid_gate gate \<Longrightarrow>
       finding_ok ''WH-005'' (wh005Finding site severity gate b1 b2 d tv msg evidence rem)"
  using site
  by (auto simp: named_def ok_unfold site_reference_def wh001Finding_def wh001RemediationDetail_def
      wh002ConfigFinding_def wh002IgnoreFinding_def wh002Finding_def wh002RemediationDetail_def
      breakGlassAction_def wh004Finding_def wh005Finding_def)

lemma api_finding_ok [rule_ok]:
  assumes "severity \<in> {SeverityBlocker, SeverityWarning, SeverityInfo}" "ruleID \<noteq> ''''"
    and "validate_reference ref = None"
    and "\<And>d. detail = Some d \<Longrightarrow> rem_BreakGlass d = None"
  shows "finding_ok ruleID (api_finding ruleID severity ref msg evidence rem detail tv)"
  using assms by (auto simp: ok_unfold api_finding_def split: option.split)

lemma api001RemediationDetail_no_break_glass:
  "api001RemediationDetail gv rep path tv = Some d \<Longrightarrow> rem_BreakGlass d = None"
  by (auto simp: api001RemediationDetail_def empty_detail_def split: if_splits)

lemma api_findings_ok [rule_ok]:
  "dep_Kind obj \<noteq> '''' \<Longrightarrow> named (ldo_Name obj) (ldo_UID obj) \<Longrightarrow>
     finding_ok ''API-001'' (api001LiveFinding obj tv d)"
  "dep_Kind obj \<noteq> '''' \<Longrightarrow> named (ldo_Name obj) (ldo_UID obj) \<Longrightarrow>
     finding_ok ''API-002'' (api002LiveFinding obj tv d)"
  "dep_Kind m \<noteq> '''' \<Longrightarrow> named (mdo_Name m) (mdo_SourcePath m) \<Longrightarrow>
     finding_ok ''API-001'' (api001ManifestFinding m tv d)"
  "dep_Kind m \<noteq> '''' \<Longrightarrow> named (mdo_Name m) (mdo_SourcePath m) \<Longrightarrow>
     finding_ok ''API-002'' (api002ManifestFinding m tv d)"
  unfolding api001LiveFinding_def api002LiveFinding_def api001ManifestFinding_def
    api002ManifestFinding_def api001AutoManagedFlowControlFinding_def
    api001ControllerManagedEndpointSliceFinding_def Let_def
  by (auto intro!: api_finding_ok dest: api001RemediationDetail_no_break_glass
      simp: named_def reference_valid live_object_reference_def manifest_object_reference_def)

lemma impact_scope_of_valid: "impact_scope_of i = Some s \<Longrightarrow> valid_impact_scope s"
  by (cases i) auto

lemma addon_gate_valid:
  assumes "addonCompatibilityGate ctx impacts = (severity, gate, scopes)"
  shows "severity \<in> {SeverityBlocker, SeverityWarning} \<and> valid_gate gate
    \<and> list_all valid_impact_scope scopes"
proof -
  have "scopes = addonImpactScopes impacts \<or> scopes = addonImpactScopes [OperationalImpactUnknown]"
    using assms by (auto simp: addonCompatibilityGate_def Let_def split: prod.splits if_splits)
  then have "list_all valid_impact_scope scopes"
    by (auto simp: list_all_iff addonImpactScopes_set dest: impact_scope_of_valid)
  with gates_valid(4) [OF assms] show ?thesis by simp
qed

lemma addon001Finding_ok [rule_ok]:
  assumes "ad_Name a \<noteq> ''''"
  shows "finding_ok ''ADDON-001'' (addon001Finding a tv ctx)"
proof -
  obtain severity gate scopes where
    gate: "addonCompatibilityGate ctx [OperationalImpactUnknown] = (severity, gate, scopes)"
    by (cases "addonCompatibilityGate ctx [OperationalImpactUnknown]")
  then show ?thesis
    using assms addon_gate_valid [OF gate]
    unfolding addon001Finding_def Let_def gate prod.case
    by (auto simp: named_def ok_unfold addon_reference_def)
qed

lemma addon001CatalogFinding_ok [rule_ok]:
  assumes "ad_Name a \<noteq> ''''"
  shows "finding_ok ''ADDON-001'' (addon001CatalogFinding a tv e ctx)"
proof -
  obtain severity gate scopes where
    gate: "addonCompatibilityGate ctx (ce_OperationalImpacts e) = (severity, gate, scopes)"
    by (cases "addonCompatibilityGate ctx (ce_OperationalImpacts e)")
  then show ?thesis
    using assms addon_gate_valid [OF gate]
    unfolding addon001CatalogFinding_def Let_def gate prod.case
    by (auto simp: named_def ok_unfold addon_reference_def)
qed

lemma addon001LiveCatalogFinding_ok [rule_ok]:
  assumes "law_kind w \<noteq> ''''" "named (law_name w) (law_uid w)"
  shows "finding_ok ''ADDON-001'' (addon001LiveCatalogFinding w tv e ctx)"
proof -
  obtain severity gate scopes where
    gate: "addonCompatibilityGate ctx (ce_OperationalImpacts e) = (severity, gate, scopes)"
    by (cases "addonCompatibilityGate ctx (ce_OperationalImpacts e)")
  then show ?thesis
    using assms addon_gate_valid [OF gate]
    unfolding addon001LiveCatalogFinding_def Let_def gate prod.case
    by (auto simp: named_def ok_unfold live_addon_reference_def)
qed

lemma addon002_findings_ok [rule_ok]:
  "ad_Name a \<noteq> '''' \<Longrightarrow> finding_ok ''ADDON-002'' (addon002Finding a tv err)"
  "ad_Name a \<noteq> '''' \<Longrightarrow> finding_ok ''ADDON-002'' (addon002CatalogFinding a tv e msg status rem)"
  "ad_Name a \<noteq> '''' \<Longrightarrow> finding_ok ''ADDON-002'' (addon002CatalogMissingFinding a tv)"
  "law_kind w \<noteq> '''' \<Longrightarrow> named (law_name w) (law_uid w) \<Longrightarrow>
     finding_ok ''ADDON-002'' (addon002LiveFinding w tv)"
  "law_kind w \<noteq> '''' \<Longrightarrow> named (law_name w) (law_uid w) \<Longrightarrow>
     finding_ok ''ADDON-002'' (addon002LiveCatalogFinding w tv e msg status rem)"
  unfolding addon002Finding_def addon002CatalogFinding_def addon002CatalogMissingFinding_def
    addon002LiveFinding_def addon002LiveCatalogFinding_def Let_def
  by (auto simp: named_def ok_unfold addon_reference_def live_addon_reference_def)

end
