(* ===== verification/RuleScan.thy ===== *)
theory RuleScan
  imports RuleContracts
begin

text \<open>
  The contract of \<open>RuleContracts\<close> as a locale, interpreted on every registered rule, and what
  follows for a scan: on evidence whose objects are identified no rule of \<open>NewDefaultRegistry\<close>
  fails.
\<close>

section \<open>Identified evidence\<close>

text \<open>
  What the API servers guarantee of every object they return: a name and a UID, and for AWS
  resources an identifier. EKS reports a category and a Kubernetes version with an insight.
\<close>

definition k8s_ok :: "K8sSnapshot \<Rightarrow> bool" where
  "k8s_ok snap \<longleftrightarrow>
     list_all (\<lambda>n. named (node_Name n) (node_UID n)) (k_Nodes snap)
     \<and> list_all (\<lambda>p. named (pod_Name p) (pod_UID p)) (k_Pods snap)
     \<and> list_all (\<lambda>p. named (pdb_Name p) (pdb_UID p)) (k_PodDisruptionBudgets snap)
     \<and> list_all (\<lambda>c. named (whc_Name c) (whc_UID c)) (k_ValidatingWebhookConfigs snap)
     \<and> list_all (\<lambda>c. named (whc_Name c) (whc_UID c)) (k_MutatingWebhookConfigs snap)
     \<and> list_all (\<lambda>c. named (crd_Name c) (crd_UID c)) (k_CustomResourceDefinitions snap)
     \<and> list_all (\<lambda>w. named (wl_Name w) (wl_UID w)) (k_Deployments snap)
     \<and> list_all (\<lambda>w. named (wl_Name w) (wl_UID w)) (k_StatefulSets snap)
     \<and> list_all (\<lambda>d. named (dset_Name d) (dset_UID d)) (k_DaemonSets snap)
     \<and> list_all (\<lambda>d. dep_Kind d \<noteq> '''' \<and> named (ldo_Name d) (ldo_UID d)) (k_DeprecatedAPIUsage snap)
     \<and> list_all (\<lambda>s. named (apisvc_Name s) (apisvc_UID s)) (k_UnavailableAPIServices snap)
     \<and> (case k_CoreDNSConfigMap snap of None \<Rightarrow> True | Some cm \<Rightarrow> named (cm_Name cm) (cm_UID cm))"

definition aws_ok :: "AWSSnapshot \<Rightarrow> bool" where
  "aws_ok snap \<longleftrightarrow>
     list_all (\<lambda>i. ins_ID i \<noteq> '''' \<and> ins_Category i \<noteq> '''' \<and> ins_KubernetesVersion i \<noteq> '''')
       (aws_Insights snap)
     \<and> list_all (\<lambda>a. ad_Name a \<noteq> '''') (aws_Addons snap)
     \<and> list_all (\<lambda>n. nr_Name n \<noteq> '''') (aws_Nodegroups snap)
     \<and> list_all (\<lambda>s. subnet_ID s \<noteq> '''') (aws_Subnets snap)
     \<and> list_all (\<lambda>i. npi_ID i \<noteq> '''' \<and> npi_Kind i \<in> {''SecurityGroup'', ''Vpc''})
         (aws_NetworkPreflightIssues snap)"

definition manifests_ok :: "ManifestSnapshot \<Rightarrow> bool" where
  "manifests_ok snap \<longleftrightarrow>
     list_all (\<lambda>d. dep_Kind d \<noteq> '''' \<and> named (mdo_Name d) (mdo_SourcePath d)) (m_DeprecatedAPIUsage snap)
     \<and> list_all (\<lambda>w. wo_Kind w \<noteq> '''' \<and> named (wo_Name w) (wo_SourcePath w)) (m_Workloads snap)"

definition known_api :: "rule_env \<Rightarrow> 'a DeprecatedAPI_scheme \<Rightarrow> bool" where
  \<comment> \<open>the catalog loaded, with an entry for what the collectors reported from it\<close>
  "known_api env d \<longleftrightarrow>
     (case env_api_catalog env of
        Inl _ \<Rightarrow> False
      | Inr c \<Rightarrow> EntryFor c (dep_Group d) (dep_Version d) (dep_Kind d) \<noteq> None)"

definition on_plane :: "('a \<Rightarrow> bool) \<Rightarrow> 'a option \<Rightarrow> bool" where
  "on_plane P snap = (case snap of None \<Rightarrow> True | Some s \<Rightarrow> P s)"

lemma on_plane_simps [simp]: "on_plane P None" "on_plane P (Some s) = P s"
  by (simp_all add: on_plane_def)

definition evidence_ok :: "rule_env \<Rightarrow> ScanContext \<Rightarrow> bool" where
  "evidence_ok env sc \<longleftrightarrow>
     on_plane (\<lambda>s. k8s_ok s \<and> list_all (known_api env) (k_DeprecatedAPIUsage s)) (sc_K8s sc)
     \<and> on_plane aws_ok (sc_AWSSnapshot sc)
     \<and> on_plane (\<lambda>s. manifests_ok s \<and> list_all (known_api env) (m_DeprecatedAPIUsage s))
         (sc_ManifestSnapshot sc)"

definition target_ok :: "string \<Rightarrow> bool" where
  "target_ok tv = (case rules_parseMajorMinor tv of Inl _ \<Rightarrow> False | Inr _ \<Rightarrow> True)"

definition outcome_ok :: "string \<Rightarrow> rule_outcome \<Rightarrow> bool" where
  "outcome_ok ruleID out =
     (case out of Returned fs None \<Rightarrow> list_all (finding_ok ruleID) fs | _ \<Rightarrow> False)"

lemma outcome_ok_Returned [simp]:
  "outcome_ok ruleID (Returned fs None) \<longleftrightarrow> (\<forall>f\<in>set fs. finding_ok ruleID f)"
  by (simp add: outcome_ok_def list_all_iff)

section \<open>The contract\<close>

locale rule_contract =
  fixes ruleID :: string
    and evaluate :: "rule_env \<Rightarrow> ScanContext option \<Rightarrow> string \<Rightarrow> rule_outcome"
    and needs_k8s :: bool
  assumes returns_ok:
    "evidence_ok env sc \<Longrightarrow> target_ok tv \<Longrightarrow> (needs_k8s \<Longrightarrow> sc_K8s sc \<noteq> None)
       \<Longrightarrow> outcome_ok ruleID (evaluate env (Some sc) tv)"
begin

lemma outcome:
  assumes "evidence_ok env sc" "target_ok tv" "needs_k8s \<Longrightarrow> sc_K8s sc \<noteq> None"
  obtains fs where "evaluate env (Some sc) tv = Returned fs None" "\<forall>f\<in>set fs. finding_ok ruleID f"
  using returns_ok [OF assms] by (auto simp: outcome_ok_def list_all_iff split: rule_outcome.splits option.splits)

lemma clean:
  assumes "evidence_ok env sc" "target_ok tv" "needs_k8s \<Longrightarrow> sc_K8s sc \<noteq> None"
    and "rule_Evaluate rule = evaluate env"
  shows "clean_run rule (Some sc) tv"
  using outcome [OF assms(1-3)] assms(4) by (metis clean_run_def finding_ok_def)

text \<open>A rule is run only when no plane it reads is missing, and then \<open>needs_k8s\<close> is met.\<close>

lemma run_clean:
  assumes "evidence_ok env sc" "target_ok tv" and rule: "find_rule rules ruleID = Some rule"
    and body: "rule_Evaluate rule = evaluate env"
    and planes: "needs_k8s \<Longrightarrow> ruleEvidenceDependencies rule (Some sc) \<noteq> []
      \<and> list_all (\<lambda>d. ed_Plane d = EvidencePlaneKubernetes) (ruleEvidenceDependencies rule (Some sc))"
    and run: "run_rule sanitize rules (Some sc) tv ruleID = (fs, rec, errs)"
  shows "errs = [] \<and> ex_State rec \<noteq> ExecutionFailed \<and> (\<forall>f\<in>set fs. finding_ok ruleID f)"
proof (cases "needs_k8s \<and> sc_K8s sc = None")
  case True
  let ?states = "dependency_states rule (Some sc)"
  have "?states \<subseteq> {dependencyNotApplicable, dependencyMissing}"
    using True planes
    by (auto simp: dependency_states_def list_all_iff dependencyState_def plane_state_def)
  moreover have "?states \<noteq> {}" using True planes by (simp add: dependency_states_def)
  ultimately have "?states = {dependencyNotApplicable} \<or> dependencyMissing \<in> ?states" by auto
  then have "ds_notApplicable (evaluateRuleDependencies rule (Some sc))
      \<or> ds_missingPlane (evaluateRuleDependencies rule (Some sc))"
    by (simp only: dependency_status_cases)
  then show ?thesis
    using run [symmetric] unfolding run_rule_def rule option.case Let_def
    by (auto simp: execution_record_def split: if_splits)
next
  case False
  then obtain out where out: "evaluate env (Some sc) tv = Returned out None"
    "\<forall>f\<in>set out. finding_ok ruleID f"
    using outcome [OF assms(1,2)] by blast
  then have "\<forall>f\<in>set out. Validate f = None" by (simp add: finding_ok_def)
  then have safely: "evaluateRuleSafely rule (Some sc) tv = (out, None)"
    "rule_errors out None = []" "valid_findings out = out"
    using out body
    by (simp_all add: evaluateRuleSafely_def rule_errors_def validation_errors_empty
        valid_findings_def)
  then show ?thesis
    using run [symmetric] out
    unfolding run_rule_def rule option.case Let_def safely prod.case
    by (simp add: execution_record_def split: if_splits)
qed

end

section \<open>Every rule keeps it\<close>

lemma with_k8s_ok:
  assumes "evidence_ok env sc"
    and "\<And>snap. sc_K8s sc = Some snap \<Longrightarrow> k8s_ok snap \<Longrightarrow> list_all (known_api env) (k_DeprecatedAPIUsage snap)
      \<Longrightarrow> \<forall>f\<in>set (g sc snap). finding_ok ruleID f"
  shows "outcome_ok ruleID (with_k8s (Some sc) g)" "outcome_ok ruleID (with_k8s_checked (Some sc) g)"
  using assms by (auto simp: with_k8s_def with_k8s_checked_def evidence_ok_def split: option.split)

lemma with_aws_ok:
  assumes "evidence_ok env sc"
    and "\<And>snap. sc_AWSSnapshot sc = Some snap \<Longrightarrow> aws_ok snap \<Longrightarrow> \<forall>f\<in>set (g sc snap). finding_ok ruleID f"
  shows "outcome_ok ruleID (with_aws (Some sc) g)"
  using assms by (auto simp: with_aws_def evidence_ok_def split: option.split)

lemma set_by_fingerprint [simp]: "set (by_fingerprint fs) = set fs"
  by (simp add: by_fingerprint_def)

lemma evidence_okD:
  assumes "evidence_ok env sc"
  shows "Some snap = sc_K8s sc \<Longrightarrow> k8s_ok snap \<and> list_all (known_api env) (k_DeprecatedAPIUsage snap)"
    "Some aws = sc_AWSSnapshot sc \<Longrightarrow> aws_ok aws"
    "Some m = sc_ManifestSnapshot sc \<Longrightarrow>
       manifests_ok m \<and> list_all (known_api env) (m_DeprecatedAPIUsage m)"
  using assms by (auto simp: evidence_ok_def on_plane_def split: option.splits)

text \<open>What the loops over identified evidence may assume of an object.\<close>

named_theorems identified \<open>objects of identified evidence\<close>

lemma k8s_identified [identified]:
  assumes "k8s_ok snap"
  shows "n \<in> set (k_Nodes snap) \<Longrightarrow> named (node_Name n) (node_UID n)"
    "p \<in> set (k_Pods snap) \<Longrightarrow> named (pod_Name p) (pod_UID p)"
    "b \<in> set (k_PodDisruptionBudgets snap) \<Longrightarrow> named (pdb_Name b) (pdb_UID b)"
    "v \<in> set (k_ValidatingWebhookConfigs snap) \<Longrightarrow> named (whc_Name v) (whc_UID v)"
    "m \<in> set (k_MutatingWebhookConfigs snap) \<Longrightarrow> named (whc_Name m) (whc_UID m)"
    "c \<in> set (k_CustomResourceDefinitions snap) \<Longrightarrow> named (crd_Name c) (crd_UID c)"
    "w \<in> set (k_Deployments snap) \<Longrightarrow> named (wl_Name w) (wl_UID w)"
    "w \<in> set (k_StatefulSets snap) \<Longrightarrow> named (wl_Name w) (wl_UID w)"
    "d \<in> set (k_DaemonSets snap) \<Longrightarrow> named (dset_Name d) (dset_UID d)"
    "l \<in> set (k_DeprecatedAPIUsage snap) \<Longrightarrow> named (ldo_Name l) (ldo_UID l)"
    "l \<in> set (k_DeprecatedAPIUsage snap) \<Longrightarrow> dep_Kind l \<noteq> ''''"
    "s \<in> set (k_UnavailableAPIServices snap) \<Longrightarrow> named (apisvc_Name s) (apisvc_UID s)"
    "Some cm = k_CoreDNSConfigMap snap \<Longrightarrow> named (cm_Name cm) (cm_UID cm)"
  using assms by (auto simp: k8s_ok_def list_all_iff split: option.splits)

lemma aws_identified [identified]:
  assumes "aws_ok snap"
  shows "ins \<in> set (aws_Insights snap) \<Longrightarrow>
      ins_ID ins \<noteq> '''' \<and> ins_Category ins \<noteq> '''' \<and> ins_KubernetesVersion ins \<noteq> ''''"
    "a \<in> set (aws_Addons snap) \<Longrightarrow> ad_Name a \<noteq> ''''"
    "g \<in> set (aws_Nodegroups snap) \<Longrightarrow> nr_Name g \<noteq> ''''"
    "s \<in> set (aws_Subnets snap) \<Longrightarrow> subnet_ID s \<noteq> ''''"
    "i \<in> set (aws_NetworkPreflightIssues snap) \<Longrightarrow> npi_ID i \<noteq> ''''"
    "i \<in> set (aws_NetworkPreflightIssues snap) \<Longrightarrow> npi_Kind i \<noteq> ''EKSUpgradeInsight''"
  using assms by (auto simp: aws_ok_def list_all_iff)

lemma manifests_identified [identified]:
  assumes "manifests_ok snap"
  shows "d \<in> set (m_DeprecatedAPIUsage snap) \<Longrightarrow> named (mdo_Name d) (mdo_SourcePath d)"
    "d \<in> set (m_DeprecatedAPIUsage snap) \<Longrightarrow> dep_Kind d \<noteq> ''''"
    "w \<in> set (m_Workloads snap) \<Longrightarrow> named (wo_Name w) (wo_SourcePath w)"
    "w \<in> set (m_Workloads snap) \<Longrightarrow> wo_Kind w \<noteq> ''''"
  using assms by (auto simp: manifests_ok_def list_all_iff)

lemma wl_meta_simps [simp]:
  "om_Name (wl_meta w) = wl_Name w" "om_UID (wl_meta w) = wl_UID w"
  "om_Name (dset_meta d) = dset_Name d" "om_UID (dset_meta d) = dset_UID d"
  by (simp_all add: wl_meta_def dset_meta_def)

subsection \<open>Budgets, DNS, API services, nodes\<close>

interpretation pdb001: rule_contract "''PDB-001''" "\<lambda>env. PDB001_Evaluate (env_lib env)" False
  by unfold_locales
    (auto simp: PDB001_Evaluate_def intro!: with_k8s_ok rule_ok intro: identified split: if_splits)

lemma pdb002_loop_set:
  "f \<in> set (pdb002_loop pair ps) \<Longrightarrow> \<exists>a\<in>set ps. \<exists>b\<in>set ps. f \<in> set (pair a b)"
  by (induction ps) auto

lemma pdb002_pair_ok:
  "f \<in> set (pdb002_pair lib snap tv ctx a b) \<Longrightarrow> named (pdb_Name a) (pdb_UID a)
     \<Longrightarrow> named (pdb_Name b) (pdb_UID b) \<Longrightarrow> finding_ok ''PDB-002'' f"
  by (auto simp: pdb002_pair_def Let_def intro: rule_ok split: if_splits option.splits)

lemma pdb002_ok:
  assumes "k8s_ok snap"
    and "f \<in> set (pdb002_loop (pdb002_pair lib snap' tv ctx) (k_PodDisruptionBudgets snap))"
  shows "finding_ok ''PDB-002'' f"
  using pdb002_loop_set [OF assms(2)] k8s_identified(3) [OF assms(1)] pdb002_pair_ok by blast

interpretation pdb002: rule_contract "''PDB-002''" "\<lambda>env. PDB002_Evaluate (env_lib env)" False
  by unfold_locales
    (auto simp: PDB002_Evaluate_def intro!: with_k8s_ok intro: pdb002_ok split: if_splits)

interpretation coredns001: rule_contract "''COREDNS-001''" "\<lambda>env. COREDNS001_Evaluate" False
  by unfold_locales
    (auto simp: COREDNS001_Evaluate_def intro!: with_k8s_ok rule_ok intro: identified
      split: option.splits if_splits)

interpretation apiservice001: rule_contract "''APISERVICE-001''" "\<lambda>env. APIService001_Evaluate" False
  by unfold_locales
    (auto simp: APIService001_Evaluate_def intro!: with_k8s_ok rule_ok intro: identified split: if_splits)

interpretation node001: rule_contract "''NODE-001''" "\<lambda>env. NODE001_Evaluate" True
  by unfold_locales
    (auto simp: NODE001_Evaluate_def target_ok_def evidence_ok_def node001_node_def
      intro!: rule_ok intro: identified split: sum.splits option.splits)

interpretation node002: rule_contract "''NODE-002''" "\<lambda>env. NODE002_Evaluate" False
  by unfold_locales
    (auto simp: NODE002_Evaluate_def intro!: with_aws_ok rule_ok dest: identified)

interpretation net002: rule_contract "''NET-002''" "\<lambda>env. NET002_Evaluate" False
  by unfold_locales
    (auto simp: NET002_Evaluate_def intro!: with_aws_ok rule_ok dest: identified)

lemma node003_ok:
  "k8s_ok snap \<Longrightarrow> f \<in> set (node003_live snap tv) \<Longrightarrow> finding_ok ''NODE-003'' f"
  "manifests_ok m \<Longrightarrow> f \<in> set (node003_manifest m tv) \<Longrightarrow> finding_ok ''NODE-003'' f"
  by (auto simp: node003_live_def node003_manifest_def Let_def intro!: rule_ok dest: identified
      split: if_splits)

interpretation node003: rule_contract "''NODE-003''" "\<lambda>env. NODE003_Evaluate" False
  by unfold_locales
    (auto simp: NODE003_Evaluate_def dest: evidence_okD node003_ok split: option.splits)

subsection \<open>EKS\<close>

interpretation eksng001: rule_contract "''EKS-NG-001''" "\<lambda>env. EKSNG001_Evaluate" False
  by unfold_locales
    (auto simp: EKSNG001_Evaluate_def eksng_findings_def intro!: with_aws_ok rule_ok dest: identified)

interpretation eksng002: rule_contract "''EKS-NG-002''" "\<lambda>env. EKSNG002_Evaluate" False
  by unfold_locales
    (auto simp: EKSNG002_Evaluate_def eksng_findings_def intro!: with_aws_ok rule_ok dest: identified)

interpretation eksng003: rule_contract "''EKS-NG-003''" "\<lambda>env. EKSNG003_Evaluate" False
  by unfold_locales
    (auto simp: EKSNG003_Evaluate_def eksng_findings_def intro!: with_aws_ok rule_ok dest: identified)

interpretation eksng004: rule_contract "''EKS-NG-004''" "\<lambda>env. EKSNG004_Evaluate" False
  by unfold_locales
    (auto simp: EKSNG004_Evaluate_def eksng_findings_def intro!: with_aws_ok rule_ok dest: identified)

lemma eksInsightFindings_ok:
  assumes "evidence_ok env sc" "severity \<in> {SeverityWarning, SeverityInfo}" "ruleID \<noteq> ''''"
  shows "outcome_ok ruleID (eksInsightFindings (Some sc) tv status severity ruleID)"
  unfolding eksInsightFindings_def
  by (rule with_aws_ok [OF assms(1)])
    (use assms in \<open>auto simp: eksInsightFinding_ok dest: identified\<close>)

interpretation eksinsight001: rule_contract "''EKS-INSIGHT-001''" "\<lambda>env. EKSINSIGHT001_Evaluate" False
  by unfold_locales (simp add: EKSINSIGHT001_Evaluate_def eksInsightFindings_ok)

interpretation eksinsight002: rule_contract "''EKS-INSIGHT-002''" "\<lambda>env. EKSINSIGHT002_Evaluate" False
  by unfold_locales (simp add: EKSINSIGHT002_Evaluate_def eksInsightFindings_ok)

interpretation eksinsight003: rule_contract "''EKS-INSIGHT-003''" "\<lambda>env. EKSINSIGHT003_Evaluate" False
  by unfold_locales (simp add: EKSINSIGHT003_Evaluate_def eksInsightFindings_ok)

subsection \<open>Drains\<close>

lemma drain001_ok:
  "k8s_ok snap \<Longrightarrow> d \<in> set (k_Deployments snap)
     \<Longrightarrow> finding_ok ''DRAIN-001'' (drain001DeploymentFinding lib snap' tv d)"
  "k8s_ok snap \<Longrightarrow> s \<in> set (k_StatefulSets snap)
     \<Longrightarrow> finding_ok ''DRAIN-001'' (drain001StatefulSetFinding lib snap' tv s)"
  by (auto simp: drain001DeploymentFinding_def drain001StatefulSetFinding_def
      drain001_workload_finding_def Let_def intro!: drain_findings_ok dest: identified)

interpretation drain001: rule_contract "''DRAIN-001''" "\<lambda>env. DRAIN001_Evaluate (env_lib env)" False
  by unfold_locales
    (auto simp: DRAIN001_Evaluate_def intro!: drain_findings_ok
      dest: evidence_okD identified intro: drain001_ok split: option.splits)

lemma drain002_ok:
  "f \<in> set (drain002Evaluate snap kind meta vols singleton tv ctx) \<Longrightarrow> kind \<noteq> ''''
     \<Longrightarrow> named (om_Name meta) (om_UID meta) \<Longrightarrow> finding_ok ''DRAIN-002'' f"
  by (auto simp: drain002Evaluate_def Let_def intro!: drain002_kinds_ok split: if_splits)

interpretation drain002: rule_contract "''DRAIN-002''" "\<lambda>env. DRAIN002_Evaluate" False
  by unfold_locales
    (auto simp: DRAIN002_Evaluate_def identified intro!: with_k8s_ok dest!: drain002_ok)

lemma if_None_Some2:
  "((if c then None else Some x) = Some f) = (\<not> c \<and> x = f)"
  "((if c then None else if c' then None else Some x) = Some f) = (\<not> c \<and> \<not> c' \<and> x = f)"
  by auto

lemma drain003_shapes:
  "drain003ScarcityFinding lib snap kind meta spec tv = Some f
     \<Longrightarrow> \<exists>d msg evidence rem. f = drain003Finding kind meta d tv msg evidence rem"
  "drain003AntiAffinityFinding lib snap kind meta spec replicas tv = Some f
     \<Longrightarrow> \<exists>d msg evidence rem. f = drain003Finding kind meta d tv msg evidence rem"
  "drain003TopologySpreadFinding lib snap kind meta spec tv = Some f
     \<Longrightarrow> \<exists>d msg evidence rem. f = drain003Finding kind meta d tv msg evidence rem"
  "drain003HostPortFinding snap kind meta spec tv = Some f
     \<Longrightarrow> \<exists>d msg evidence rem. f = drain003Finding kind meta d tv msg evidence rem"
  unfolding drain003ScarcityFinding_def drain003AntiAffinityFinding_def
    drain003TopologySpreadFinding_def drain003HostPortFinding_def Let_def
  by (auto simp only: if_None_Some2 split: option.split_asm)

lemma drain003_ok:
  assumes "f \<in> set (drain003_workload lib snap tv kind w)" "kind \<noteq> ''''" "named (wl_Name w) (wl_UID w)"
  shows "finding_ok ''DRAIN-003'' f"
proof -
  have "\<exists>d msg evidence rem. f = drain003Finding kind (wl_meta w) d tv msg evidence rem"
    using assms(1)
    by (auto simp del: List.map_filter_simps simp: set_map_filter drain003_workload_def
        drain003Evaluate_def split: if_split_asm dest!: drain003_shapes [OF sym])
  then show ?thesis using assms(2,3) by (auto intro: drain_findings_ok)
qed

interpretation drain003: rule_contract "''DRAIN-003''" "\<lambda>env. DRAIN003_Evaluate (env_lib env)" False
  by unfold_locales
    (auto simp: DRAIN003_Evaluate_def intro!: with_k8s_ok dest!: drain003_ok intro: identified)

lemma drain004_ok:
  "drain004_node lib snap tv n = Some f \<Longrightarrow> named (node_Name n) (node_UID n)
     \<Longrightarrow> finding_ok ''DRAIN-004'' f"
  by (auto simp: drain004_node_def case_prod_unfold Let_def intro!: drain_findings_ok
      split: if_splits)

interpretation drain004: rule_contract "''DRAIN-004''" "\<lambda>env. DRAIN004_Evaluate (env_lib env)" False
  by unfold_locales
    (auto simp: DRAIN004_Evaluate_def set_map_filter intro!: with_k8s_ok dest!: drain004_ok
      intro: identified split: if_splits)

interpretation drain005: rule_contract "''DRAIN-005''" "\<lambda>env. DRAIN005_Evaluate (env_lib env)" False
  by unfold_locales
    (auto simp: DRAIN005_Evaluate_def set_map_filter intro!: with_k8s_ok
      dest!: drain005_findings_ok [rotated] drain005_daemonset_ok [rotated] intro: identified)

subsection \<open>Workloads, custom resources, webhooks\<close>

lemma unhealthyContainerIssue_pod: "unhealthyContainerIssue base st = Some i \<Longrightarrow> wi_pod i = wi_pod base"
  by (auto simp: unhealthyContainerIssue_def Let_def split: option.splits if_splits)

lemma first_issue_pod: "first_issue base sts = Some i \<Longrightarrow> wi_pod i = wi_pod base"
  by (induction sts) (auto split: option.splits dest: unhealthyContainerIssue_pod)

lemma unhealthyPodIssue_pod: "unhealthyPodIssue pod now = Some i \<Longrightarrow> wi_pod i = pod"
  by (auto simp: unhealthyPodIssue_def Let_def split: option.splits if_splits dest: first_issue_pod)

interpretation workload001: rule_contract "''WORKLOAD-001''"
  "\<lambda>env. WORKLOAD001_Evaluate (env_now env)" False
  by unfold_locales
    (auto simp: WORKLOAD001_Evaluate_def set_map_filter identified intro!: with_k8s_ok workload_findings_ok
      dest!: unhealthyPodIssue_pod)

interpretation crd001: rule_contract "''CRD-001''" "\<lambda>env. CRD001_Evaluate" False
  by unfold_locales
    (auto simp: CRD001_Evaluate_def identified intro!: with_k8s_ok workload_findings_ok split: if_splits)

lemma crd002_ok:
  assumes "f \<in> set (crd002_crd snap tv crd)" "named (crd_Name crd) (crd_UID crd)"
  shows "finding_ok ''CRD-002'' f"
proof -
  have review: "finding_ok ''CRD-002'' g"
    if "crd002ReviewVersionsFinding crd versions tv = Some g" for g versions
    using that assms(2) unfolding crd002ReviewVersionsFinding_def
    by (auto split: if_split_asm intro: workload_findings_ok)
  have client: "finding_ok ''CRD-002'' g"
    if "g \<in> set (crd002ClientConfigFindings snap crd cc tv)" for g cc
    using that assms(2) unfolding crd002ClientConfigFindings_def
    by (auto split: option.split_asm prod.split_asm
        intro: workload_findings_ok crd002ServiceFindings_ok)
  show ?thesis
    using assms unfolding crd002_crd_def crd002Findings_def
    by (auto split: option.split_asm if_split_asm intro: workload_findings_ok client review)
qed

interpretation crd002: rule_contract "''CRD-002''" "\<lambda>env. CRD002_Evaluate" False
  by unfold_locales
    (auto simp: CRD002_Evaluate_def identified intro!: with_k8s_ok dest!: crd002_ok split: if_splits)

lemma webhook_sites_identified:
  "k8s_ok snap \<Longrightarrow> site \<in> set (webhook_sites snap) \<Longrightarrow>
     ws_Kind site \<noteq> '''' \<and> named (ws_ConfigName site) (ws_ConfigUID site)"
  by (auto simp: webhook_sites_def config_sites_def identified)

lemma wh001_ok:
  "f \<in> set (wh001_site tv site) \<Longrightarrow> ws_Kind site \<noteq> '''' \<and> named (ws_ConfigName site) (ws_ConfigUID site)
     \<Longrightarrow> finding_ok ''WH-001'' f"
  by (auto simp: wh001_site_def Let_def intro: webhook_findings_ok split: if_splits option.splits)

interpretation wh001: rule_contract "''WH-001''" "\<lambda>env. WH001_Evaluate" True
  by unfold_locales
    (auto simp: WH001_Evaluate_def evidence_ok_def webhook_sites_identified dest!: wh001_ok
      split: option.splits)

lemma wh002_ok:
  assumes "f \<in> set (wh002EvaluateWebhook snap tv site)"
    and "ws_Kind site \<noteq> '''' \<and> named (ws_ConfigName site) (ws_ConfigUID site)"
  shows "finding_ok ''WH-002'' f"
  using assms unfolding wh002EvaluateWebhook_def Let_def
  by (auto split: option.split_asm if_split_asm intro: webhook_findings_ok)

interpretation wh002: rule_contract "''WH-002''" "\<lambda>env. WH002_Evaluate" False
  by unfold_locales
    (auto simp: WH002_Evaluate_def webhook_sites_identified intro!: with_k8s_ok dest!: wh002_ok)

lemma wh004Severity_ok: "wh004Severity failClosed \<in> {SeverityBlocker, SeverityWarning}"
  by (simp add: wh004Severity_def)

lemma wh004_ok:
  assumes "f \<in> set (wh004EvaluateWebhook pki now tv site)"
    and site: "ws_Kind site \<noteq> '''' \<and> named (ws_ConfigName site) (ws_ConfigUID site)"
  shows "finding_ok ''WH-004'' f"
proof -
  note ok = webhook_findings_ok(5) [OF conjunct1 [OF site] conjunct2 [OF site]]
  have certs: "finding_ok ''WH-004'' g" if "g \<in> set (wh004CertFindings site fc gl now tv cs)" for g fc gl cs
    using that wh004Severity_ok unfolding wh004CertFindings_def Let_def
    by (auto split: if_split_asm intro: ok)
  have bundles: "finding_ok ''WH-004'' g" if "g \<in> set (wh004CABundleFindings pki site fc gl now tv)" for g fc gl
    using that wh004Severity_ok unfolding wh004CABundleFindings_def Let_def
    by (auto split: if_split_asm prod.split_asm intro: ok certs)
  show ?thesis
    using assms(1) wh004Severity_ok unfolding wh004EvaluateWebhook_def Let_def
    by (auto split: if_split_asm option.split_asm intro: ok bundles)
qed

interpretation wh004: rule_contract "''WH-004''" "\<lambda>env. WH004_Evaluate (env_pki env) (env_now env)" False
  by unfold_locales
    (auto simp: WH004_Evaluate_def webhook_sites_identified intro!: with_k8s_ok dest!: wh004_ok)

lemma wh005_ok:
  assumes "f \<in> set (wh005EvaluateWebhook tv site)"
    and site: "ws_Kind site \<noteq> '''' \<and> named (ws_ConfigName site) (ws_ConfigUID site)"
  shows "finding_ok ''WH-005'' f"
proof -
  note ok = webhook_findings_ok(6) [OF conjunct1 [OF site] conjunct2 [OF site]]
  show ?thesis
    using assms(1)
    unfolding wh005EvaluateWebhook_def wh005_timeout_findings_def wh005_wildcard_findings_def
      wh005_self_findings_def wh005_high_risk_findings_def
    by (auto split: option.split_asm if_split_asm intro!: ok)
qed

interpretation wh005: rule_contract "''WH-005''" "\<lambda>env. WH005_Evaluate" False
  by unfold_locales
    (auto simp: WH005_Evaluate_def webhook_sites_identified intro!: with_k8s_ok dest!: wh005_ok)

subsection \<open>APIs\<close>

text \<open>Merging keeps the rule's findings valid: the first of an identity absorbs references.\<close>

lemma add_occurrence_refs:
  "set (foldl add_occurrence refs rs) \<subseteq> set refs \<union> set rs \<and> set refs \<subseteq> set (foldl add_occurrence refs rs)"
  by (induction rs arbitrary: refs) (fastforce simp: add_occurrence_def split: if_splits)+

lemma absorb_ok:
  assumes "finding_ok ruleID g" "finding_ok ruleID f"
  shows "finding_ok ruleID (absorb g f)"
  using assms add_occurrence_refs [of "f_Resources g" "f_Resources f"]
  by (auto simp: finding_ok_iff absorb_def Let_def list_all_iff break_glass_not_risky_def)

lemma merge_one_ok:
  "\<forall>g\<in>set gs. finding_ok ruleID g \<Longrightarrow> finding_ok ruleID f \<Longrightarrow> \<forall>g\<in>set (merge_one gs f). finding_ok ruleID g"
  by (induction gs) (auto simp: absorb_ok)

lemma merge_all_ok:
  "\<forall>g\<in>set gs. finding_ok ruleID g \<Longrightarrow> \<forall>f\<in>set fs. finding_ok ruleID f
     \<Longrightarrow> \<forall>g\<in>set (foldl merge_one gs fs). finding_ok ruleID g"
proof (induction fs arbitrary: gs)
  case (Cons f fs)
  have "\<forall>g\<in>set (merge_one gs f). finding_ok ruleID g"
    by (rule merge_one_ok [OF Cons.prems(1)]) (simp add: Cons.prems(2))
  from Cons.IH [OF this] Cons.prems(2) show ?case by simp
qed simp

lemma mergeAPI001Findings_ok:
  "\<forall>f\<in>set fs. finding_ok ruleID f \<Longrightarrow> \<forall>f\<in>set (mergeAPI001Findings fs). finding_ok ruleID f"
  unfolding mergeAPI001Findings_def by (rule merge_all_ok) simp_all

lemma api_loop_ok:
  assumes "\<forall>obj\<in>set objs. \<exists>d. resolve obj = Inr d"
    and "\<And>obj d f. obj \<in> set objs \<Longrightarrow> judge obj d = Some f \<Longrightarrow> finding_ok ruleID f"
  shows "\<exists>fs. api_loop resolve judge objs = Inr fs \<and> (\<forall>f\<in>set fs. finding_ok ruleID f)"
  using assms
proof (induction objs)
  case (Cons obj objs)
  then obtain fs d where "api_loop resolve judge objs = Inr fs" "\<forall>f\<in>set fs. finding_ok ruleID f"
    "resolve obj = Inr d" by fastforce
  with Cons.prems(2) [of obj d] show ?case by (auto split: option.split)
qed simp

lemma resolve_known: "known_api env obj \<Longrightarrow> \<exists>d. resolve_object ruleID (env_api_catalog env) obj = Inr d"
  by (auto simp: known_api_def resolve_object_def resolveAPIRemoval_def split: sum.splits option.splits)

lemma api_rule_ok:
  assumes "evidence_ok env sc" "target_ok tv"
    and live: "\<And>obj d. dep_Kind obj \<noteq> '''' \<Longrightarrow> named (ldo_Name obj) (ldo_UID obj)
      \<Longrightarrow> finding_ok ruleID (live_finding obj tv d)"
    and manifest: "\<And>obj d. dep_Kind obj \<noteq> '''' \<Longrightarrow> named (mdo_Name obj) (mdo_SourcePath obj)
      \<Longrightarrow> finding_ok ruleID (manifest_finding obj tv d)"
  shows "outcome_ok ruleID
    (api_rule ruleID (env_api_catalog env) applies live_finding manifest_finding (Some sc) tv)"
proof -
  obtain major minor where target: "rules_parseMajorMinor tv = Inr (major, minor)"
    using assms(2) by (auto simp: target_ok_def split: sum.splits)
  let ?resolve = "\<lambda>obj. resolve_object ruleID (env_api_catalog env) obj"
  let ?live = "\<lambda>obj d. if \<not> applies (rd_RemovedInVersion d) major minor \<or> isEphemeralEvent obj
      then None else Some (live_finding obj tv d)"
  let ?manifest = "\<lambda>obj d. if \<not> applies (rd_RemovedInVersion d) major minor then None
      else Some (manifest_finding obj tv d)"
  have "\<exists>fs. (case sc_K8s sc of None \<Rightarrow> Inr []
      | Some snap \<Rightarrow> api_loop ?resolve ?live (k_DeprecatedAPIUsage snap)) = Inr fs
      \<and> (\<forall>f\<in>set fs. finding_ok ruleID f)"
  proof (cases "sc_K8s sc")
    case (Some snap)
    with evidence_okD(1) [OF assms(1)] have "k8s_ok snap"
      "\<forall>obj\<in>set (k_DeprecatedAPIUsage snap). known_api env obj" by (auto simp: list_all_iff)
    with Some show ?thesis
      by (auto intro!: api_loop_ok resolve_known live simp: identified split: if_splits)
  qed simp
  then obtain fs where "(case sc_K8s sc of None \<Rightarrow> Inr []
      | Some snap \<Rightarrow> api_loop ?resolve ?live (k_DeprecatedAPIUsage snap)) = Inr fs"
    "\<forall>f\<in>set fs. finding_ok ruleID f" by blast
  moreover have "\<exists>ms. (case sc_ManifestSnapshot sc of None \<Rightarrow> Inr []
      | Some snap \<Rightarrow> api_loop ?resolve ?manifest (m_DeprecatedAPIUsage snap)) = Inr ms
      \<and> (\<forall>f\<in>set ms. finding_ok ruleID f)"
  proof (cases "sc_ManifestSnapshot sc")
    case (Some snap)
    with evidence_okD(3) [OF assms(1)] have "manifests_ok snap"
      "\<forall>obj\<in>set (m_DeprecatedAPIUsage snap). known_api env obj" by (auto simp: list_all_iff)
    with Some show ?thesis
      by (auto intro!: api_loop_ok resolve_known manifest simp: identified split: if_splits)
  qed simp
  then obtain ms where "(case sc_ManifestSnapshot sc of None \<Rightarrow> Inr []
      | Some snap \<Rightarrow> api_loop ?resolve ?manifest (m_DeprecatedAPIUsage snap)) = Inr ms"
    "\<forall>f\<in>set ms. finding_ok ruleID f" by blast
  moreover have "\<forall>f\<in>set (mergeAPI001Findings (fs @ ms)). finding_ok ruleID f"
    using calculation by (intro mergeAPI001Findings_ok) auto
  ultimately show ?thesis
    unfolding api_rule_def target sum.case prod.case option.case Let_def by simp
qed

interpretation api001: rule_contract "''API-001''" "\<lambda>env. API001_Evaluate (env_api_catalog env)" False
  by unfold_locales (simp add: API001_Evaluate_def api_rule_ok api_findings_ok)

interpretation api002: rule_contract "''API-002''" "\<lambda>env. API002_Evaluate (env_api_catalog env)" False
  by unfold_locales (simp add: API002_Evaluate_def api_rule_ok api_findings_ok)

subsection \<open>Add-ons\<close>

lemma live_addon_identified:
  "live_addon kind ns name uid ls images = Some w \<Longrightarrow>
     law_kind w = kind \<and> law_name w = name \<and> law_uid w = uid"
  by (auto simp: live_addon_def case_prod_unfold Let_def)

lemma first_by_key_subset: "set (first_by_key seen ws) \<subseteq> set ws"
  by (induction ws arbitrary: seen) (auto split: if_splits)

lemma liveUnverifiableAddons_identified:
  assumes "k8s_ok snap" "w \<in> set (liveUnverifiableAddons (k_Deployments snap) (k_DaemonSets snap))"
  shows "law_kind w \<noteq> '''' \<and> named (law_name w) (law_uid w)"
  using assms(2) unfolding liveUnverifiableAddons_def
  by (auto dest!: subsetD [OF first_by_key_subset] live_addon_identified
      simp: set_map_filter k8s_identified [OF assms(1)])

lemma addon_rule_ok:
  assumes "evidence_ok env sc"
    and "\<And>snap a f. ad_Name a \<noteq> '''' \<Longrightarrow> f \<in> set (managed snap a) \<Longrightarrow> finding_ok ruleID f"
    and "\<And>aws w f. law_kind w \<noteq> '''' \<Longrightarrow> named (law_name w) (law_uid w)
      \<Longrightarrow> f \<in> set (live aws w) \<Longrightarrow> finding_ok ruleID f"
  shows "outcome_ok ruleID (addon_rule managed live (Some sc))"
proof -
  have "finding_ok ruleID f"
    if "Some snap = sc_AWSSnapshot sc" "a \<in> set (aws_Addons snap)" "f \<in> set (managed snap a)" for snap a f
    using evidence_okD(2) [OF assms(1)] that assms(2) by (metis aws_identified(2))
  moreover have "finding_ok ruleID f"
    if "Some snap = sc_K8s sc" "f \<in> set (live aws w)"
      "w \<in> set (liveUnverifiableAddons (k_Deployments snap) (k_DaemonSets snap))" for snap aws w f
    using evidence_okD(1) [OF assms(1)] that assms(3) by (metis liveUnverifiableAddons_identified)
  ultimately show ?thesis
    by (auto simp: addon_rule_def split: option.split)
qed

interpretation addon001: rule_contract "''ADDON-001''"
  "\<lambda>env. ADDON001_Evaluate (env_compat_catalog env)" False
proof (unfold_locales, unfold ADDON001_Evaluate_def, rule addon_rule_ok)
qed (auto simp: addon001_managed_def addon001_live_def intro: addon001Finding_ok addon001CatalogFinding_ok
    addon001LiveCatalogFinding_ok split: if_splits option.splits)

lemma addon002_ok:
  "f \<in> set (addon002_managed cc snap tv a) \<Longrightarrow> ad_Name a \<noteq> '''' \<Longrightarrow> finding_ok ''ADDON-002'' f"
  "f \<in> set (addon002_live cc aws tv w) \<Longrightarrow> law_kind w \<noteq> '''' \<Longrightarrow> named (law_name w) (law_uid w)
     \<Longrightarrow> finding_ok ''ADDON-002'' f"
  by (auto simp: addon002_managed_def addon002_live_def addon002CatalogUpgradeRecommendedFinding_def
      addon002CatalogUnknownFinding_def addon002LiveCatalogUpgradeRecommendedFinding_def
      addon002LiveCatalogUnknownFinding_def intro: addon002_findings_ok
      split: if_splits option.splits CompatStatus.splits)

interpretation addon002: rule_contract "''ADDON-002''"
  "\<lambda>env. ADDON002_Evaluate (env_compat_catalog env)" False
  by (unfold_locales, unfold ADDON002_Evaluate_def, rule addon_rule_ok) (auto intro: addon002_ok)

section \<open>The default scan\<close>

definition run_ok ::
  "string \<Rightarrow> Finding list \<times> RuleExecutionRecord \<times> rule_error list \<Rightarrow> bool" where
  "run_ok ruleID run =
     (case run of (fs, rec, errs) \<Rightarrow>
        errs = [] \<and> ex_State rec \<noteq> ExecutionFailed \<and> list_all (finding_ok ruleID) fs)"

lemma find_registered:
  "distinct (map fst rows) \<Longrightarrow> (ruleID, deps, context_deps) \<in> set rows \<Longrightarrow>
     find_rule (map (registered body) rows) ruleID = Some (registered body (ruleID, deps, context_deps))"
proof (induction rows)
  case (Cons row rows)
  let ?is = "\<lambda>rule. rule_ID rule = ruleID"
  have id: "?is (registered body r) \<longleftrightarrow> fst r = ruleID" for r
    by (cases r) (simp add: registered_def)
  have step: "find ?is (xs @ [x]) = (case find ?is xs of None \<Rightarrow> if ?is x then Some x else None | Some y \<Rightarrow> Some y)"
    for x and xs :: Registry
    by (induction xs) auto
  show ?case
  proof (cases "row = (ruleID, deps, context_deps)")
    case True
    then have "ruleID \<notin> fst ` set rows" using Cons.prems by simp
    then have "find ?is (rev (map (registered body) rows)) = None"
      by (auto simp: find_None_iff id)
    then show ?thesis using True id [of row] unfolding find_rule_def by (simp add: step)
  next
    case False
    then have "find ?is (rev (map (registered body) rows)) = Some (registered body (ruleID, deps, context_deps))"
      using Cons by (simp add: find_rule_def)
    then show ?thesis unfolding find_rule_def by (simp add: step)
  qed
qed simp

lemma default_rules_distinct: "distinct (map fst default_rules)"
  by (simp add: default_rules_def)

lemma default_find:
  "(ruleID, deps, context_deps) \<in> set default_rules \<Longrightarrow>
     find_rule (default_registry env) ruleID = Some (registered (rule_body env) (ruleID, deps, context_deps))"
  unfolding default_registry_def NewDefaultRegistry_def
  by (rule find_registered [OF default_rules_distinct])

context rule_contract
begin

lemma registered_clean:
  assumes "evidence_ok env sc" "target_ok tv"
    and row: "(ruleID, deps, context_deps) \<in> set default_rules"
    and dispatch: "rule_body env ruleID = evaluate env"
    and planes: "needs_k8s \<Longrightarrow> context_deps = None \<and> deps \<noteq> []
      \<and> list_all (\<lambda>d. ed_Plane d = EvidencePlaneKubernetes) deps"
  shows "run_ok ruleID (run_rule sanitize (default_registry env) (Some sc) tv ruleID)"
proof -
  obtain fs rec errs
    where run: "run_rule sanitize (default_registry env) (Some sc) tv ruleID = (fs, rec, errs)"
    by (metis prod_cases3)
  show ?thesis
    using run_clean [OF assms(1,2) default_find [OF row] _ _ run] dispatch planes
    by (simp add: run_ok_def run registered_def ruleEvidenceDependencies_def list_all_iff)
qed

end

lemma each_rule_clean:
  assumes "evidence_ok env sc" "target_ok tv"
  shows "list_all (\<lambda>ruleID. run_ok ruleID (run_rule sanitize (default_registry env) (Some sc) tv ruleID))
    ExpectedRuleIDs"
  unfolding ExpectedRuleIDs_def list.pred_inject
  by (intro conjI TrueI
      api001.registered_clean [OF assms] api002.registered_clean [OF assms]
      wh001.registered_clean [OF assms] wh002.registered_clean [OF assms]
      wh004.registered_clean [OF assms] wh005.registered_clean [OF assms]
      drain001.registered_clean [OF assms] drain002.registered_clean [OF assms]
      drain003.registered_clean [OF assms] drain004.registered_clean [OF assms]
      drain005.registered_clean [OF assms] pdb001.registered_clean [OF assms]
      pdb002.registered_clean [OF assms] node001.registered_clean [OF assms]
      node002.registered_clean [OF assms] node003.registered_clean [OF assms]
      net002.registered_clean [OF assms] workload001.registered_clean [OF assms]
      addon001.registered_clean [OF assms] addon002.registered_clean [OF assms]
      eksng001.registered_clean [OF assms] eksng002.registered_clean [OF assms]
      eksng003.registered_clean [OF assms] eksng004.registered_clean [OF assms]
      eksinsight001.registered_clean [OF assms] eksinsight002.registered_clean [OF assms]
      eksinsight003.registered_clean [OF assms] coredns001.registered_clean [OF assms]
      crd001.registered_clean [OF assms] crd002.registered_clean [OF assms]
      apiservice001.registered_clean [OF assms])
    (simp_all add: dispatch default_rules_def WH001_dependencies_def NODE001_dependencies_def
      depValidatingWebhooks_def depMutatingWebhooks_def depNodes_def k8sDep_def, simp_all)

lemma each_rule_in_scan:
  assumes "evidence_ok env sc" "target_ok tv" "ruleID \<in> set ExpectedRuleIDs"
  shows "run_ok ruleID (run_rule sanitize (default_registry env) (Some sc) tv ruleID)"
  using each_rule_clean [OF assms(1,2)] assms(3) unfolding list_all_iff by blast

lemma map_filter_all_None: "\<forall>x\<in>set xs. f x = None \<Longrightarrow> List.map_filter f xs = []"
  by (induction xs) simp_all

lemma scan_errors:
  assumes "RunAllWithExecutions sanitize rules sc tv = (fs, recs, errs)"
    and "\<forall>ruleID\<in>set ExpectedRuleIDs. snd (snd (run_rule sanitize rules sc tv ruleID)) = []"
  shows "errs = []"
  using assms by (auto simp: RunAllWithExecutions_def Let_def case_prod_unfold intro!: map_filter_all_None)
    (metis snd_conv)

text \<open>
  C20: The rules never fail on well-formed evidence. If every object the collectors took from the
  API server and AWS carries its name and identifier, every deprecated object is of a version in the
  catalog and the target is a version, then in a scan with all 31 registered rules no rule panics,
  returns an error or returns a finding that \<open>Validate\<close> rejects: there are no errors, no record is
  \<open>failed\<close>, and each finding is valid and carries the identifier of a known rule.
\<close>

theorem default_scan_never_fails:
  assumes "evidence_ok env sc" and "target_ok tv"
    and "RunAllWithExecutions sanitize (default_registry env) (Some sc) tv = (fs, recs, errs)"
  shows "errs = [] \<and> (\<forall>rec\<in>set recs. ex_State rec \<noteq> ExecutionFailed)
    \<and> (\<forall>f\<in>set fs. Validate f = None \<and> f_RuleID f \<in> set ExpectedRuleIDs)"
proof -
  let ?run = "run_rule sanitize (default_registry env) (Some sc) tv"
  have ok: "run_ok ruleID (?run ruleID)" if "ruleID \<in> set ExpectedRuleIDs" for ruleID
    using each_rule_in_scan [OF assms(1,2) that] .
  have parts: "snd (snd (?run ruleID)) = []" "ex_State (fst (snd (?run ruleID))) \<noteq> ExecutionFailed"
    "\<forall>f\<in>set (fst (?run ruleID)). finding_ok ruleID f" if "ruleID \<in> set ExpectedRuleIDs" for ruleID
    using ok [OF that] by (auto simp: run_ok_def list_all_iff split: prod.splits)
  have "errs = []" using scan_errors [OF assms(3)] parts(1) by blast
  moreover have "\<forall>rec\<in>set recs. ex_State rec \<noteq> ExecutionFailed"
    using RunAllWithExecutions_eq [OF assms(3)] parts(2) by (auto simp: run_record_def)
  moreover have "\<forall>f\<in>set fs. \<exists>ruleID\<in>set ExpectedRuleIDs. finding_ok ruleID f"
    using RunAllWithExecutions_eq [OF assms(3)] parts(3) by (fastforce simp: run_kept_def)
  ultimately show ?thesis by (auto simp: finding_ok_def)
qed

definition sample_lib :: kube_lib where
  "sample_lib = \<lparr>lib_valid_selector = (\<lambda>_. True),
     lib_matches = (\<lambda>sel ls. list_all (\<lambda>(k, v). label_value ls k = v) (ls_MatchLabels sel)),
     lib_selector_string = (\<lambda>_. ''''), lib_intstr_string = (\<lambda>_. ''0''),
     lib_intstr_json = (\<lambda>_. Some ''0''), lib_intstr_value = (\<lambda>_. 0),
     lib_tolerates = (\<lambda>_ _. False), lib_milli_string = show_int, lib_bytes_string = show_int\<rparr>"

definition sample_env :: rule_env where
  "sample_env = \<lparr>env_lib = sample_lib,
     env_pki = \<lparr>pem_Decode = (\<lambda>_. None), x509_ParseCertificate = (\<lambda>_. None)\<rparr>, env_now = 0,
     env_api_catalog = Inl ''unavailable'', env_compat_catalog = Inl ''unavailable''\<rparr>"

definition sample_nodegroup :: NodegroupRecord where
  "sample_nodegroup = \<lparr>nr_ClusterName = ''prod'', nr_Name = ''workers'', nr_Status = ''ACTIVE'',
     nr_Version = ''1.28'', nr_ReleaseVersion = ''1.28-1'', nr_AMIType = ''CUSTOM'',
     nr_CapacityType = ''ON_DEMAND'', nr_DesiredSize = Some 2, nr_MinSize = Some 2, nr_MaxSize = None,
     nr_MaxUnavailable = Some 1, nr_MaxUnavailablePercentage = None, nr_LaunchTemplate = False,
     nr_HealthIssues = [], nr_AutoScalingGroups = [], nr_ReadinessStatus = ''Review required'',
     nr_Notes = []\<rparr>"

definition sample_scan :: ScanContext where
  "sample_scan = \<lparr>
     sc_K8s = Some (empty_snapshot\<lparr>k_CoreDNSConfigMap := Some \<lparr>cm_Namespace = ''kube-system'',
       cm_Name = ''coredns'', cm_UID = ''u1'', cm_Data = [(''Corefile'', ''health'')]\<rparr>\<rparr>),
     sc_AWSSnapshot = Some (empty_aws\<lparr>aws_ClusterVersion := ''1.28'',
       aws_Nodegroups := [sample_nodegroup], aws_Subnets := [\<lparr>subnet_ID = ''s1'',
       subnet_AvailableIPAddressCount = 1\<rparr>]\<rparr>),
     sc_ManifestSnapshot = None, sc_UpgradeContext = ContextUnset, sc_KubernetesRequested = True,
     sc_AWSRequested = True, sc_ManifestsRequested = False\<rparr>"

lemma sample_scan_ok: "evidence_ok sample_env sample_scan" "target_ok ''1.30''"
  by (simp_all add: evidence_ok_def sample_scan_def k8s_ok_def aws_ok_def named_def empty_snapshot_def
      sample_nodegroup_def) code_simp

theorem default_scan_never_fails_witness:
  "\<exists>fs recs. RunAllWithExecutions (\<lambda>_. '''') (default_registry sample_env) (Some sample_scan) ''1.30''
       = (fs, recs, [])
     \<and> (\<forall>rec\<in>set recs. ex_State rec \<noteq> ExecutionFailed)"
proof -
  obtain fs recs errs where
    run: "RunAllWithExecutions (\<lambda>_. '''') (default_registry sample_env) (Some sample_scan) ''1.30''
      = (fs, recs, errs)"
    by (metis prod_cases3)
  with default_scan_never_fails [OF sample_scan_ok run] show ?thesis by simp
qed

end
