(* ===== verification/RuleFacts.thy ===== *)
theory RuleFacts
  imports RulesAll
begin

text \<open>
  What single rules guarantee beyond the contract: which evidence they can be influenced by, and when
  exactly they speak.
\<close>

section \<open>Evidence confinement\<close>

definition reads_plane :: "EvidencePlane \<Rightarrow> EvidenceDependency list \<Rightarrow> bool" where
  "reads_plane p deps = list_ex (\<lambda>d. ed_Plane d = p) deps"

definition agree_on :: "EvidenceDependency list \<Rightarrow> ScanContext \<Rightarrow> ScanContext \<Rightarrow> bool" where
  \<comment> \<open>the contexts agree on every plane the dependencies name\<close>
  "agree_on deps s t \<longleftrightarrow>
     sc_UpgradeContext s = sc_UpgradeContext t
     \<and> (reads_plane EvidencePlaneKubernetes deps \<longrightarrow> sc_K8s s = sc_K8s t)
     \<and> (reads_plane EvidencePlaneAWS deps \<longrightarrow> sc_AWSSnapshot s = sc_AWSSnapshot t)
     \<and> (reads_plane EvidencePlaneManifests deps \<longrightarrow> sc_ManifestSnapshot s = sc_ManifestSnapshot t)"

lemmas dependency_defs =
  API001_dependencies_def API002_dependencies_def WH001_dependencies_def WH002_dependencies_def
  WH004_dependencies_def WH005_dependencies_def DRAIN001_dependencies_def DRAIN002_dependencies_def
  DRAIN003_dependencies_def DRAIN004_dependencies_def DRAIN005_dependencies_def
  PDB001_dependencies_def PDB002_dependencies_def NODE001_dependencies_def NODE002_dependencies_def
  NODE003_dependencies_def NET002_dependencies_def WORKLOAD001_dependencies_def
  ADDON001_dependencies_def ADDON002_dependencies_def EKSNG001_dependencies_def
  EKSNG002_dependencies_def EKSNG003_dependencies_def EKSNG004_dependencies_def
  EKSINSIGHT001_dependencies_def EKSINSIGHT002_dependencies_def EKSINSIGHT003_dependencies_def
  COREDNS001_dependencies_def CRD001_dependencies_def CRD002_dependencies_def
  APIService001_dependencies_def

lemmas dependency_planes =
  depDeprecatedAPIUsage_def depNodes_def depPods_def depPDBs_def depValidatingWebhooks_def
  depMutatingWebhooks_def depServices_def depEndpointSlices_def depCRDs_def depDeployments_def
  depDaemonSets_def depStatefulSets_def depPVs_def depPVCs_def depCoreDNS_def depAPIServices_def
  depAWSDescribeCluster_def depAWSListInsights_def depAWSDescribeInsights_def depAWSListAddons_def
  depAWSDescribeAddons_def depAWSAddonVersions_def depAWSListNodegroups_def
  depAWSDescribeNodegroup_def depAWSSubnets_def depAWSSecurityGroups_def depAWSVPCs_def


lemma dependency_plane [simp]:
  "ed_Plane (k8sDep k) = EvidencePlaneKubernetes" "ed_Plane (k8sPrefixDep k) = EvidencePlaneKubernetes"
  "ed_Plane (awsDep k) = EvidencePlaneAWS" "ed_Plane (awsPrefixDep k) = EvidencePlaneAWS"
  "ed_Plane manifestDep = EvidencePlaneManifests"
  by (simp_all add: k8sDep_def k8sPrefixDep_def awsDep_def awsPrefixDep_def manifestDep_def)

lemma reads_plane_simps [simp]:
  "\<not> reads_plane p []"
  "reads_plane p (d # ds) \<longleftrightarrow> ed_Plane d = p \<or> reads_plane p ds"
  by (simp_all add: reads_plane_def)

definition confined :: "EvidenceDependency list \<Rightarrow> (ScanContext option \<Rightarrow> string \<Rightarrow> rule_outcome) \<Rightarrow> bool" where
  \<comment> \<open>the outcome depends on the declared planes and the operation chosen alone\<close>
  "confined deps body \<longleftrightarrow>
     (\<forall>s t tv. agree_on deps s t \<longrightarrow> body (Some s) tv = body (Some t) tv)"

lemma declared_planes:
  "reads_plane EvidencePlaneKubernetes WH001_dependencies"
  "reads_plane EvidencePlaneKubernetes WH002_dependencies"
  "reads_plane EvidencePlaneKubernetes WH004_dependencies"
  "reads_plane EvidencePlaneKubernetes WH005_dependencies"
  "reads_plane EvidencePlaneKubernetes DRAIN002_dependencies"
  "reads_plane EvidencePlaneKubernetes DRAIN003_dependencies"
  "reads_plane EvidencePlaneKubernetes DRAIN004_dependencies"
  "reads_plane EvidencePlaneKubernetes DRAIN005_dependencies"
  "reads_plane EvidencePlaneKubernetes PDB001_dependencies"
  "reads_plane EvidencePlaneKubernetes PDB002_dependencies"
  "reads_plane EvidencePlaneKubernetes NODE001_dependencies"
  "reads_plane EvidencePlaneKubernetes WORKLOAD001_dependencies"
  "reads_plane EvidencePlaneKubernetes COREDNS001_dependencies"
  "reads_plane EvidencePlaneKubernetes CRD001_dependencies"
  "reads_plane EvidencePlaneKubernetes CRD002_dependencies"
  "reads_plane EvidencePlaneKubernetes APIService001_dependencies"
  "reads_plane EvidencePlaneKubernetes API001_dependencies"
  "reads_plane EvidencePlaneKubernetes API002_dependencies"
  "reads_plane EvidencePlaneKubernetes ADDON001_dependencies"
  "reads_plane EvidencePlaneKubernetes ADDON002_dependencies"
  "reads_plane EvidencePlaneAWS NODE002_dependencies"
  "reads_plane EvidencePlaneAWS NET002_dependencies"
  "reads_plane EvidencePlaneAWS EKSNG001_dependencies"
  "reads_plane EvidencePlaneAWS EKSNG002_dependencies"
  "reads_plane EvidencePlaneAWS EKSNG003_dependencies"
  "reads_plane EvidencePlaneAWS EKSNG004_dependencies"
  "reads_plane EvidencePlaneAWS EKSINSIGHT001_dependencies"
  "reads_plane EvidencePlaneAWS EKSINSIGHT002_dependencies"
  "reads_plane EvidencePlaneAWS EKSINSIGHT003_dependencies"
  "reads_plane EvidencePlaneAWS ADDON001_dependencies"
  "reads_plane EvidencePlaneAWS ADDON002_dependencies"
  "reads_plane EvidencePlaneManifests API001_dependencies"
  "reads_plane EvidencePlaneManifests API002_dependencies"
  by (simp_all add: dependency_defs dependency_planes)

lemma agree_onD:
  "agree_on deps s t \<Longrightarrow> scanUpgradeContext (Some s) = scanUpgradeContext (Some t)"
  "agree_on deps s t \<Longrightarrow> reads_plane EvidencePlaneKubernetes deps \<Longrightarrow> sc_K8s s = sc_K8s t"
  "agree_on deps s t \<Longrightarrow> reads_plane EvidencePlaneAWS deps \<Longrightarrow> sc_AWSSnapshot s = sc_AWSSnapshot t"
  "agree_on deps s t \<Longrightarrow> reads_plane EvidencePlaneManifests deps
     \<Longrightarrow> sc_ManifestSnapshot s = sc_ManifestSnapshot t"
  by (simp_all add: agree_on_def scanUpgradeContext_def)

text \<open>The shapes of the bodies.\<close>

lemma confined_shapes:
  assumes "reads_plane EvidencePlaneKubernetes deps"
  shows "confined deps (\<lambda>sc tv. with_k8s sc (\<lambda>s snap. g tv (scanUpgradeContext sc) snap))"
    "confined deps (\<lambda>sc tv. with_k8s_checked sc (\<lambda>s snap. g tv (scanUpgradeContext sc) snap))"
  unfolding confined_def with_k8s_checked_def with_k8s_def
proof (safe)
  fix s t tv assume "agree_on deps s t"
  note same = agree_onD(1) [OF this] agree_onD(2) [OF this assms]
  show "(case Some s of None \<Rightarrow> nil_dereference | Some s' \<Rightarrow>
        (case sc_K8s s' of None \<Rightarrow> Returned [] None
         | Some snap \<Rightarrow> Returned (g tv (scanUpgradeContext (Some s)) snap) None))
      = (case Some t of None \<Rightarrow> nil_dereference | Some s' \<Rightarrow>
        (case sc_K8s s' of None \<Rightarrow> Returned [] None
         | Some snap \<Rightarrow> Returned (g tv (scanUpgradeContext (Some t)) snap) None))"
    by (simp add: same split: option.split)
  then show "(if Some s = None then Returned [] None else
        case Some s of None \<Rightarrow> nil_dereference | Some s' \<Rightarrow>
        (case sc_K8s s' of None \<Rightarrow> Returned [] None
         | Some snap \<Rightarrow> Returned (g tv (scanUpgradeContext (Some s)) snap) None))
      = (if Some t = None then Returned [] None else
        case Some t of None \<Rightarrow> nil_dereference | Some s' \<Rightarrow>
        (case sc_K8s s' of None \<Rightarrow> Returned [] None
         | Some snap \<Rightarrow> Returned (g tv (scanUpgradeContext (Some t)) snap) None))"
    by simp
qed

lemma confined_aws:
  assumes "reads_plane EvidencePlaneAWS deps"
  shows "confined deps (\<lambda>sc tv. with_aws sc (\<lambda>s snap. g tv (scanUpgradeContext sc) snap))"
  unfolding confined_def with_aws_def
proof (intro allI impI)
  fix s t tv assume "agree_on deps s t"
  note same = agree_onD(1) [OF this] agree_onD(3) [OF this assms]
  show "(case Some s of None \<Rightarrow> nil_dereference | Some s' \<Rightarrow>
        (case sc_AWSSnapshot s' of None \<Rightarrow> Returned [] None
         | Some snap \<Rightarrow> Returned (g tv (scanUpgradeContext (Some s)) snap) None))
      = (case Some t of None \<Rightarrow> nil_dereference | Some s' \<Rightarrow>
        (case sc_AWSSnapshot s' of None \<Rightarrow> Returned [] None
         | Some snap \<Rightarrow> Returned (g tv (scanUpgradeContext (Some t)) snap) None))"
    by (simp add: same split: option.split)
qed

text \<open>The rules whose body has one of the shapes.\<close>

lemma k8s_rules_confined:
  "confined WH002_dependencies WH002_Evaluate"
  "confined WH004_dependencies (WH004_Evaluate pki now)"
  "confined WH005_dependencies WH005_Evaluate"
  "confined DRAIN002_dependencies DRAIN002_Evaluate"
  "confined DRAIN003_dependencies (DRAIN003_Evaluate lib)"
  "confined DRAIN004_dependencies (DRAIN004_Evaluate lib)"
  "confined DRAIN005_dependencies (DRAIN005_Evaluate lib)"
  "confined PDB001_dependencies (PDB001_Evaluate lib)"
  "confined PDB002_dependencies (PDB002_Evaluate lib)"
  "confined WORKLOAD001_dependencies (WORKLOAD001_Evaluate now)"
  "confined COREDNS001_dependencies COREDNS001_Evaluate"
  "confined CRD001_dependencies CRD001_Evaluate"
  "confined CRD002_dependencies CRD002_Evaluate"
  "confined APIService001_dependencies APIService001_Evaluate"
  unfolding WH002_Evaluate_def [abs_def] WH004_Evaluate_def [abs_def] WH005_Evaluate_def [abs_def]
    DRAIN002_Evaluate_def [abs_def] DRAIN003_Evaluate_def [abs_def] DRAIN004_Evaluate_def [abs_def]
    DRAIN005_Evaluate_def [abs_def] PDB001_Evaluate_def [abs_def] PDB002_Evaluate_def [abs_def]
    WORKLOAD001_Evaluate_def [abs_def] COREDNS001_Evaluate_def [abs_def] CRD001_Evaluate_def [abs_def]
    CRD002_Evaluate_def [abs_def] APIService001_Evaluate_def [abs_def]
  by (rule confined_shapes, rule declared_planes)+

lemma aws_rules_confined:
  "confined NODE002_dependencies NODE002_Evaluate"
  "confined NET002_dependencies NET002_Evaluate"
  "confined EKSNG001_dependencies EKSNG001_Evaluate"
  "confined EKSNG002_dependencies EKSNG002_Evaluate"
  "confined EKSNG003_dependencies EKSNG003_Evaluate"
  "confined EKSNG004_dependencies EKSNG004_Evaluate"
  "confined EKSINSIGHT001_dependencies EKSINSIGHT001_Evaluate"
  "confined EKSINSIGHT002_dependencies EKSINSIGHT002_Evaluate"
  "confined EKSINSIGHT003_dependencies EKSINSIGHT003_Evaluate"
  unfolding NODE002_Evaluate_def [abs_def] NET002_Evaluate_def [abs_def] EKSNG001_Evaluate_def [abs_def]
    EKSNG002_Evaluate_def [abs_def] EKSNG003_Evaluate_def [abs_def] EKSNG004_Evaluate_def [abs_def]
    EKSINSIGHT001_Evaluate_def [abs_def] EKSINSIGHT002_Evaluate_def [abs_def] EKSINSIGHT003_Evaluate_def [abs_def]
    eksng_findings_def eksInsightFindings_def
  by (rule confined_aws, rule declared_planes)+

text \<open>The others: two dereference the snapshot, two read manifests, two read AWS as well.\<close>

lemma other_rules_confined:
  "confined WH001_dependencies WH001_Evaluate"
  "confined NODE001_dependencies NODE001_Evaluate"
proof -
  show "confined WH001_dependencies WH001_Evaluate"
    unfolding confined_def
  proof (intro allI impI)
    fix s t tv assume "agree_on WH001_dependencies s t"
    note same = agree_onD(2) [OF this declared_planes(1)]
    show "WH001_Evaluate (Some s) tv = WH001_Evaluate (Some t) tv" by (simp only: WH001_Evaluate_def option.case same)
  qed
  show "confined NODE001_dependencies NODE001_Evaluate"
    unfolding confined_def
  proof (intro allI impI)
    fix s t tv assume "agree_on NODE001_dependencies s t"
    note same = agree_onD(2) [OF this declared_planes(11)]
    show "NODE001_Evaluate (Some s) tv = NODE001_Evaluate (Some t) tv" by (simp only: NODE001_Evaluate_def option.case same)
  qed
qed

lemma api_rules_confined:
  assumes "reads_plane EvidencePlaneKubernetes deps" "reads_plane EvidencePlaneManifests deps"
  shows "confined deps (api_rule ruleID vc applies live_finding manifest_finding)"
  unfolding confined_def
proof (intro allI impI)
  fix s t tv assume agree: "agree_on deps s t"
  note same = agree_onD(2) [OF agree assms(1)] agree_onD(4) [OF agree assms(2)]
  show "api_rule ruleID vc applies live_finding manifest_finding (Some s) tv
      = api_rule ruleID vc applies live_finding manifest_finding (Some t) tv"
    by (simp only: api_rule_def option.case same)
qed

lemma addon_rules_confined:
  assumes "reads_plane EvidencePlaneKubernetes deps" "reads_plane EvidencePlaneAWS deps"
  shows "confined deps (\<lambda>sc tv. addon_rule (managed tv (scanUpgradeContext sc))
    (live tv (scanUpgradeContext sc)) sc)"
  unfolding confined_def
proof (intro allI impI)
  fix s t tv assume agree: "agree_on deps s t"
  note same = agree_onD(1) [OF agree] agree_onD(2) [OF agree assms(1)] agree_onD(3) [OF agree assms(2)]
  show "addon_rule (managed tv (scanUpgradeContext (Some s))) (live tv (scanUpgradeContext (Some s))) (Some s)
      = addon_rule (managed tv (scanUpgradeContext (Some t))) (live tv (scanUpgradeContext (Some t))) (Some t)"
    by (simp only: addon_rule_def option.case same)
qed

lemma two_plane_rules_confined:
  "confined API001_dependencies (API001_Evaluate vc)"
  "confined API002_dependencies (API002_Evaluate vc)"
  "confined ADDON001_dependencies (ADDON001_Evaluate cc)"
  "confined ADDON002_dependencies (ADDON002_Evaluate cc)"
  unfolding API001_Evaluate_def API002_Evaluate_def ADDON001_Evaluate_def [abs_def]
    ADDON002_Evaluate_def [abs_def]
  by (rule api_rules_confined addon_rules_confined; rule declared_planes)+

lemma rule_bodies_confined:
  "list_all (\<lambda>(ruleID, deps, context_deps).
     ruleID \<in> {''NODE-003'', ''DRAIN-001''} \<or> confined deps (rule_body env ruleID)) default_rules"
  unfolding default_rules_def list.pred_inject prod.case
  by (intro conjI TrueI)
    (simp_all add: dispatch k8s_rules_confined aws_rules_confined other_rules_confined
      two_plane_rules_confined)

lemma rule_body_confined:
  assumes "(ruleID, deps, context_deps) \<in> set default_rules" "ruleID \<notin> {''NODE-003'', ''DRAIN-001''}"
  shows "confined deps (rule_body env ruleID)"
  using rule_bodies_confined [of env] assms unfolding list_all_iff by fast

text \<open>
  C21: Rules are confined to the evidence they declare. For every registered rule but NODE-003 and
  DRAIN-001, two scans that agree on the operation chosen and on every plane among the rule's declared
  dependencies give the same outcome, whatever else was collected: undeclared evidence, present or
  not, complete or in error, cannot add, drop or change a finding.
\<close>

theorem rules_confined_to_declared_evidence:
  assumes "(ruleID, deps, context_deps) \<in> set default_rules" "ruleID \<notin> {''NODE-003'', ''DRAIN-001''}"
    and "agree_on deps s t"
  shows "rule_body env ruleID (Some s) tv = rule_body env ruleID (Some t) tv"
  using rule_body_confined [OF assms(1,2)] assms(3) by (simp add: confined_def)

definition bare_scan :: "K8sSnapshot option \<Rightarrow> ManifestSnapshot option \<Rightarrow> ScanContext" where
  "bare_scan k8s manifests = \<lparr>sc_K8s = k8s, sc_AWSSnapshot = None, sc_ManifestSnapshot = manifests,
     sc_UpgradeContext = ContextUnset, sc_KubernetesRequested = True, sc_AWSRequested = False,
     sc_ManifestsRequested = True\<rparr>"

theorem rules_confined_to_declared_evidence_witness:
  "agree_on PDB001_dependencies (bare_scan (Some empty_snapshot) None)
     (bare_scan (Some empty_snapshot) (Some (empty_manifests\<lparr>m_Errors := [(''a.yaml'', ''bad'')]\<rparr>)))
   \<and> (\<forall>env. rule_body env ''PDB-001'' (Some (bare_scan (Some empty_snapshot) None)) ''1.30''
       = rule_body env ''PDB-001'' (Some (bare_scan (Some empty_snapshot)
           (Some (empty_manifests\<lparr>m_Errors := [(''a.yaml'', ''bad'')]\<rparr>)))) ''1.30'')"
proof -
  have agree: "agree_on PDB001_dependencies (bare_scan (Some empty_snapshot) None)
     (bare_scan (Some empty_snapshot) (Some (empty_manifests\<lparr>m_Errors := [(''a.yaml'', ''bad'')]\<rparr>)))"
    by (simp add: agree_on_def bare_scan_def PDB001_dependencies_def depPDBs_def)
  have "(''PDB-001'', PDB001_dependencies, None) \<in> set default_rules"
    by (simp add: default_rules_def)
  from rules_confined_to_declared_evidence [OF this _ agree] agree show ?thesis by simp
qed

text \<open>NODE-003 is not: it reads the manifests, which its dependencies do not name.\<close>

definition master_manifest :: WorkloadObject where
  "master_manifest = \<lparr>wo_Kind = ''Deployment'', wo_Namespace = ''a'', wo_Name = ''w'',
     wo_SourcePath = ''w.yaml'', wo_Labels = [],
     wo_PodSpec = [(''nodeSelector'', JObj [(deprecatedMasterNodeLabel, JStr '''')])],
     wo_PodSpecPath = ''spec'', wo_Replicas = None\<rparr>"

theorem node003_reads_undeclared_manifests:
  "let s = bare_scan None None;
       t = bare_scan None (Some (empty_manifests\<lparr>m_Workloads := [master_manifest]\<rparr>))
   in agree_on NODE003_dependencies s t
      \<and> NODE003_Evaluate (Some s) ''1.30'' \<noteq> NODE003_Evaluate (Some t) ''1.30''"
proof -
  have "manifestMasterLabelRefs (wo_PodSpec master_manifest) (wo_PodSpecPath master_manifest) \<noteq> []"
    by code_simp
  then show ?thesis
    by (simp add: Let_def agree_on_def bare_scan_def NODE003_dependencies_def depDeployments_def
        depDaemonSets_def depStatefulSets_def NODE003_Evaluate_def node003_manifest_def insert_by.simps)
qed

end
