(* ===== verification/CompatCatalogData.thy ===== *)
theory CompatCatalogData
  imports CompatCatalog
begin

text \<open>
  The embedded document \<open>internal/compatcatalog/catalog.json\<close>, decoded by \<open>json.Unmarshal\<close>, entry
  by entry in its order.
\<close>

definition default_compat_entries :: "CatalogEntry list" where
  "default_compat_entries =
    [
     \<lparr>ce_KubernetesVersion = ''1.34'', ce_Provider = ''eks'', ce_AddonName = ''vpc-cni'',
      ce_MinimumCompatibleVersion = ''v1.18.0-eksbuild.1'',
      ce_RecommendedVersion = ''v1.18.1-eksbuild.1'',
      ce_OperationalImpacts = [OperationalImpactControlPlaneDependency,
         OperationalImpactWorkerRolloutDependency, OperationalImpactNetworkingDataPlane],
      ce_Source = ''AWS EKS DescribeAddonVersions compatibility metadata'',
      ce_Reference = (''https://docs.aws.amazon.com/eks/latest/userguide/managing-add-ons.html''),
      ce_LastVerifiedDate = ''2026-07-14'', ce_Confidence = ''PROVIDER_REPORTED''\<rparr>,
     \<lparr>ce_KubernetesVersion = ''1.34'', ce_Provider = ''eks'', ce_AddonName = ''kube-proxy'',
      ce_MinimumCompatibleVersion = ''v1.34.0-eksbuild.1'',
      ce_RecommendedVersion = ''v1.34.0-eksbuild.1'',
      ce_OperationalImpacts = [OperationalImpactWorkerRolloutDependency,
         OperationalImpactNetworkingDataPlane],
      ce_Source = ''AWS EKS DescribeAddonVersions compatibility metadata'',
      ce_Reference = (''https://docs.aws.amazon.com/eks/latest/userguide/managing-add-ons.html''),
      ce_LastVerifiedDate = ''2026-07-14'', ce_Confidence = ''PROVIDER_REPORTED''\<rparr>,
     \<lparr>ce_KubernetesVersion = ''1.34'', ce_Provider = ''eks'', ce_AddonName = ''coredns'',
      ce_MinimumCompatibleVersion = ''v1.11.4-eksbuild.2'',
      ce_RecommendedVersion = ''v1.11.4-eksbuild.2'',
      ce_OperationalImpacts = [OperationalImpactClusterDNS,
         OperationalImpactWorkloadDependency],
      ce_Source = ''AWS EKS DescribeAddonVersions compatibility metadata'',
      ce_Reference = (''https://docs.aws.amazon.com/eks/latest/userguide/managing-add-ons.html''),
      ce_LastVerifiedDate = ''2026-07-14'', ce_Confidence = ''PROVIDER_REPORTED''\<rparr>,
     \<lparr>ce_KubernetesVersion = ''1.34'', ce_Provider = ''eks'',
      ce_AddonName = ''aws-ebs-csi-driver'',
      ce_MinimumCompatibleVersion = ''v1.44.0-eksbuild.1'',
      ce_RecommendedVersion = ''v1.44.0-eksbuild.1'',
      ce_OperationalImpacts = [OperationalImpactStorageDataPlane,
         OperationalImpactWorkloadDependency],
      ce_Source = ''AWS EKS DescribeAddonVersions compatibility metadata'',
      ce_Reference = (''https://docs.aws.amazon.com/eks/latest/userguide/managing-add-ons.html''),
      ce_LastVerifiedDate = ''2026-07-14'', ce_Confidence = ''PROVIDER_REPORTED''\<rparr>,
     \<lparr>ce_KubernetesVersion = ''1.34'', ce_Provider = ''eks'',
      ce_AddonName = ''aws-efs-csi-driver'',
      ce_MinimumCompatibleVersion = ''v2.1.8-eksbuild.1'',
      ce_RecommendedVersion = ''v2.1.8-eksbuild.1'',
      ce_OperationalImpacts = [OperationalImpactStorageDataPlane,
         OperationalImpactWorkloadDependency],
      ce_Source = ''AWS EKS DescribeAddonVersions compatibility metadata'',
      ce_Reference = (''https://docs.aws.amazon.com/eks/latest/userguide/managing-add-ons.html''),
      ce_LastVerifiedDate = ''2026-07-14'', ce_Confidence = ''PROVIDER_REPORTED''\<rparr>,
     \<lparr>ce_KubernetesVersion = ''1.34'', ce_Provider = ''kubernetes'',
      ce_AddonName = ''metrics-server'', ce_MinimumCompatibleVersion = ''v0.7.2'',
      ce_RecommendedVersion = ''v0.7.2'',
      ce_OperationalImpacts = [OperationalImpactOptionalEcosystem,
         OperationalImpactOperatorReview],
      ce_Source = ''metrics-server published Kubernetes compatibility matrix'',
      ce_Reference = ''https://github.com/kubernetes-sigs/metrics-server'',
      ce_LastVerifiedDate = ''2026-07-14'', ce_Confidence = ''STATIC_CERTAIN''\<rparr>,
     \<lparr>ce_KubernetesVersion = ''1.34'', ce_Provider = ''kubernetes'',
      ce_AddonName = ''ingress-nginx'', ce_MinimumCompatibleVersion = ''v1.10.0'',
      ce_RecommendedVersion = ''v1.12.0'',
      ce_OperationalImpacts = [OperationalImpactWorkloadDependency,
         OperationalImpactOperatorReview],
      ce_Source = ''ingress-nginx published Kubernetes version support table'',
      ce_Reference = ''https://github.com/kubernetes/ingress-nginx#support-versions-table'',
      ce_LastVerifiedDate = ''2026-07-14'', ce_Confidence = ''STATIC_CERTAIN''\<rparr>,
     \<lparr>ce_KubernetesVersion = ''1.34'', ce_Provider = ''eks'',
      ce_AddonName = ''aws-load-balancer-controller'',
      ce_MinimumCompatibleVersion = ''v2.8.0'', ce_RecommendedVersion = ''v2.9.0'',
      ce_OperationalImpacts = [OperationalImpactNetworkingDataPlane,
         OperationalImpactWorkloadDependency, OperationalImpactOperatorReview],
      ce_Source = (''AWS Load Balancer Controller Kubernetes version compatibility ''
                         @ ''documentation''),
      ce_Reference = (''https://kubernetes-sigs.github.io/aws-load-balancer-controller/latest/deploy/installation/''),
      ce_LastVerifiedDate = ''2026-07-14'', ce_Confidence = ''PROVIDER_REPORTED''\<rparr>,
     \<lparr>ce_KubernetesVersion = ''1.34'', ce_Provider = ''kubernetes'',
      ce_AddonName = ''cert-manager'', ce_MinimumCompatibleVersion = ''v1.15.0'',
      ce_RecommendedVersion = ''v1.16.1'',
      ce_OperationalImpacts = [OperationalImpactAdmissionAPI,
         OperationalImpactWorkloadDependency, OperationalImpactOperatorReview],
      ce_Source = ''cert-manager Supported Releases documentation'',
      ce_Reference = ''https://cert-manager.io/docs/releases/'',
      ce_LastVerifiedDate = ''2026-07-14'', ce_Confidence = ''STATIC_CERTAIN''\<rparr>,
     \<lparr>ce_KubernetesVersion = ''1.34'', ce_Provider = ''kubernetes'',
      ce_AddonName = ''external-dns'', ce_MinimumCompatibleVersion = ''v0.14.0'',
      ce_RecommendedVersion = ''v0.15.1'',
      ce_OperationalImpacts = [OperationalImpactOptionalEcosystem,
         OperationalImpactOperatorReview],
      ce_Source = (''external-dns release notes and compatibility notes ''
                         @ ''(community-maintained, no formally published version matrix)''),
      ce_Reference = ''https://github.com/kubernetes-sigs/external-dns'',
      ce_LastVerifiedDate = ''2026-07-14'', ce_Confidence = ''OBSERVED''\<rparr>]"

definition default_compat_document :: CatalogDocument where
  "default_compat_document =
     \<lparr>cd_SchemaVersion = ''compatcatalog.kubepreflight.io/v1'', cd_Entries = default_compat_entries\<rparr>"

definition CompatDefault :: "string + Catalog" where
  "CompatDefault = CompatNew default_compat_document"

end
