(* ===== verification/CatalogFacts.thy ===== *)
theory CatalogFacts
  imports CompatCatalogData RulesAddon
begin

text \<open>
  What the compatibility catalog and the two add-on rules guarantee: version comparison is a total
  preorder, a loaded catalog is a consistent index, and a high-impact add-on the rules do not report
  is one the catalog proves compatible.
\<close>

section \<open>Comparing versions\<close>

text \<open>
  A token's rank: numbers after everything else, then by value. Padding the shorter list with empty
  tokens makes the comparison lexicographic.
\<close>

definition token_rank :: "token \<Rightarrow> bool \<times> string" where
  "token_rank t = (tok_kind t = tokenNumber, tok_value t)"

lemma compare_tokens_rank:
  "compare_tokens a b =
     (if token_rank a < token_rank b then -1 else if token_rank b < token_rank a then 1 else 0)"
  by (auto simp: compare_tokens_def token_rank_def less_prod_def' not_less_iff_gr_or_eq)

locale sign_comparison =
  fixes cmp :: "'a \<Rightarrow> 'a \<Rightarrow> int"
  assumes three_way: "cmp a b \<in> {-1, 0, 1}"
    and antisym: "cmp b a = - cmp a b"
    and trans: "cmp a b \<le> 0 \<Longrightarrow> cmp b c \<le> 0 \<Longrightarrow> cmp a c \<le> 0"
    and trans_strict: "cmp a b < 0 \<Longrightarrow> cmp b c \<le> 0 \<Longrightarrow> cmp a c < 0"
begin

lemma refl: "cmp a a = 0"
  using antisym [of a a] by simp

lemma total: "cmp a b \<le> 0 \<or> cmp b a \<le> 0"
  using antisym [of a b] by linarith

lemma trans_ge: "cmp a b \<ge> 0 \<Longrightarrow> cmp c a \<ge> 0 \<Longrightarrow> cmp c b \<ge> 0"
  using trans [of b a c] antisym by (metis neg_0_le_iff_le neg_le_0_iff_le)

lemma trans_strict_right: "cmp a b \<le> 0 \<Longrightarrow> cmp b c < 0 \<Longrightarrow> cmp a c < 0"
  using trans [of c a b] antisym [of a c] antisym [of b c] by linarith

lemma not_less_trans: "cmp a b \<le> 0 \<Longrightarrow> \<not> cmp a m < 0 \<Longrightarrow> \<not> cmp b m < 0"
  using trans_ge [of a m b] antisym [of a b] by linarith

end

interpretation tokens: sign_comparison compare_tokens
  by unfold_locales (auto simp: compare_tokens_rank split: if_splits)

text \<open>Lists: the first position where the padded lists differ decides.\<close>

abbreviation first_token :: "token list \<Rightarrow> token" where
  "first_token xs \<equiv> (case xs of [] \<Rightarrow> empty_token | x # _ \<Rightarrow> x)"

lemma compare_lists_step:
  "xs \<noteq> [] \<or> ys \<noteq> [] \<Longrightarrow> compare_token_lists xs ys =
     (let c = compare_tokens (first_token xs) (first_token ys)
      in if c \<noteq> 0 then c else compare_token_lists (tl xs) (tl ys))"
  by (cases "(xs, ys)" rule: compare_token_lists.cases) (simp_all add: Let_def)

lemma compare_lists_values: "compare_token_lists xs ys \<in> {-1, 0, 1}"
  by (induction xs ys rule: compare_token_lists.induct)
    (use tokens.three_way in \<open>auto simp: Let_def\<close>)

lemma compare_lists_antisym: "compare_token_lists ys xs = - compare_token_lists xs ys"
proof (induction xs ys rule: compare_token_lists.induct)
  case (4 a at b bt)
  then show ?case using tokens.antisym [of a b] by (simp add: Let_def)
qed (simp_all add: Let_def tokens.antisym [of empty_token])

lemma compare_lists_trans:
  "compare_token_lists xs ys \<le> 0 \<Longrightarrow> compare_token_lists ys zs \<le> 0 \<Longrightarrow>
     compare_token_lists xs zs \<le> 0
     \<and> (compare_token_lists xs ys < 0 \<longrightarrow> compare_token_lists xs zs < 0)"
proof (induction "length xs + length ys + length zs" arbitrary: xs ys zs rule: less_induct)
  case less
  show ?case
  proof (cases "xs = [] \<and> zs = []")
    case True
    then show ?thesis using less.prems compare_lists_antisym [of ys "[]"] by simp
  next
    case False
    let ?c = "\<lambda>a b. compare_tokens (first_token a) (first_token b)"
    have xz: "compare_token_lists xs zs =
        (if ?c xs zs \<noteq> 0 then ?c xs zs else compare_token_lists (tl xs) (tl zs))"
      using False by (simp add: compare_lists_step Let_def)
    have xy: "compare_token_lists xs ys =
        (if ?c xs ys \<noteq> 0 then ?c xs ys else compare_token_lists (tl xs) (tl ys))"
      by (cases "xs = [] \<and> ys = []") (auto simp: compare_lists_step Let_def tokens.refl)
    have yz: "compare_token_lists ys zs =
        (if ?c ys zs \<noteq> 0 then ?c ys zs else compare_token_lists (tl ys) (tl zs))"
      by (cases "ys = [] \<and> zs = []") (auto simp: compare_lists_step Let_def tokens.refl)
    have firsts: "?c xs ys \<le> 0" "?c ys zs \<le> 0"
      using less.prems xy yz by (auto split: if_splits)
    have smaller: "length (tl xs) + length (tl ys) + length (tl zs) < length xs + length ys + length zs"
      using False by (cases xs; cases zs) auto
    show ?thesis
    proof (cases "?c xs ys = 0 \<and> ?c ys zs = 0")
      case True
      then have "?c xs zs = 0"
        using tokens.trans [of "first_token xs" "first_token ys" "first_token zs"]
          tokens.trans_ge [of "first_token ys" "first_token zs" "first_token xs"]
          tokens.antisym [of "first_token xs" "first_token ys"] by simp
      then show ?thesis using True less.hyps [OF smaller] less.prems xy yz xz by simp
    next
      case False
      then consider "?c xs ys < 0" | "?c ys zs < 0" using firsts by linarith
      then have "?c xs zs < 0"
        by cases (use firsts tokens.trans_strict tokens.trans_strict_right in blast)+
      then show ?thesis using xz by simp
    qed
  qed
qed

interpretation token_lists: sign_comparison compare_token_lists
proof unfold_locales
  fix xs ys zs :: "token list"
  show "compare_token_lists xs ys \<in> {-1, 0, 1}" by (rule compare_lists_values)
  show "compare_token_lists ys xs = - compare_token_lists xs ys" by (rule compare_lists_antisym)
  assume le: "compare_token_lists ys zs \<le> 0"
  show "compare_token_lists xs ys \<le> 0 \<Longrightarrow> compare_token_lists xs zs \<le> 0"
    using compare_lists_trans [OF _ le] by blast
  show "compare_token_lists xs ys < 0 \<Longrightarrow> compare_token_lists xs zs < 0"
    using compare_lists_trans [OF less_imp_le le] by blast
qed

interpretation versions: sign_comparison CompareVersions
  unfolding CompareVersions_def
  by unfold_locales
    (rule token_lists.three_way token_lists.antisym
      | erule (1) token_lists.trans token_lists.trans_strict)+

text \<open>
  Version comparison is a total preorder. \<open>CompareVersions\<close> answers -1, 0 or 1, a version
  equals itself, swapping the arguments changes the sign, and both the weak and the strict order are
  transitive, whatever strings it is given: prefixes, suffixes, build tags, numbers of any length.
\<close>

theorem CompareVersions_preorder:
  "CompareVersions a b \<in> {-1, 0, 1} \<and> CompareVersions a a = 0
   \<and> CompareVersions b a = - CompareVersions a b
   \<and> (CompareVersions a b \<le> 0 \<and> CompareVersions b c \<le> 0 \<longrightarrow> CompareVersions a c \<le> 0)
   \<and> (CompareVersions a b < 0 \<and> CompareVersions b c \<le> 0 \<longrightarrow> CompareVersions a c < 0)"
  using versions.three_way versions.refl versions.antisym versions.trans versions.trans_strict
  by blast

theorem CompareVersions_preorder_witness:
  "CompareVersions ''1.9'' ''1.10'' < 0 \<and> CompareVersions ''1.10'' ''1.20'' \<le> 0
   \<and> CompareVersions ''1.9'' ''1.20'' < 0"
proof -
  have "CompareVersions ''1.9'' ''1.10'' < 0" "CompareVersions ''1.10'' ''1.20'' \<le> 0" by code_simp+
  with CompareVersions_preorder [of "''1.9''" "''1.10''" "''1.20''"] show ?thesis by blast
qed

section \<open>The status of an installed version\<close>

definition status_rank :: "CompatStatus \<Rightarrow> nat" where
  "status_rank s =
     (case s of StatusIncompatible \<Rightarrow> 0 | StatusUpgradeRecommended \<Rightarrow> 1 | StatusCompatible \<Rightarrow> 2
      | StatusUnknown \<Rightarrow> 3)"

text \<open>
  Upgrading an add-on never worsens its verdict. For two versions the catalog can read, a version
  that compares greater or equal has a status at least as good, from incompatible over upgrade
  recommended to compatible; only an unreadable version is unknown.
\<close>

theorem InstalledStatus_monotone:
  assumes "looksLikeVersion v" "looksLikeVersion w" and "CompareVersions v w \<le> 0"
  shows "status_rank (InstalledStatus e v) \<le> status_rank (InstalledStatus e w)
    \<and> InstalledStatus e v \<noteq> StatusUnknown \<and> InstalledStatus e w \<noteq> StatusUnknown"
proof -
  have "TrimSpace v \<noteq> ''''" "TrimSpace w \<noteq> ''''"
    using assms(1,2) by (auto simp: looksLikeVersion_def Let_def)
  then show ?thesis
    using assms versions.not_less_trans [OF assms(3)]
    by (auto simp: InstalledStatus_def status_rank_def)
qed

theorem InstalledStatus_monotone_witness:
  "looksLikeVersion ''1.9'' \<and> looksLikeVersion ''1.10'' \<and> CompareVersions ''1.9'' ''1.10'' \<le> 0
   \<and> status_rank (InstalledStatus (hd default_compat_entries) ''1.9'')
       \<le> status_rank (InstalledStatus (hd default_compat_entries) ''1.10'')"
proof -
  have "looksLikeVersion ''1.9''" "looksLikeVersion ''1.10''" "CompareVersions ''1.9'' ''1.10'' \<le> 0"
    by code_simp+
  with InstalledStatus_monotone [OF this, of "hd default_compat_entries"] show ?thesis by simp
qed

section \<open>A loaded catalog\<close>

lemma normalizeEntry_valid:
  "normalizeEntry entry = Inr e \<Longrightarrow>
     entry_identity_error e = None \<and> entry_version_error e = None
     \<and> validateOperationalImpacts (ce_OperationalImpacts e) = None \<and> entry_provenance_error e = None"
  by (auto simp: normalizeEntry_def Let_def split: option.splits)

lemma validate_entries_ok:
  "validate_entries i seen es = Inr ns \<Longrightarrow>
     distinct (map key_of_entry ns) \<and> set (map key_of_entry ns) \<inter> set seen = {}
     \<and> (\<forall>e\<in>set ns. entry_identity_error e = None \<and> entry_version_error e = None
          \<and> validateOperationalImpacts (ce_OperationalImpacts e) = None
          \<and> entry_provenance_error e = None)"
proof (induction i seen es arbitrary: ns rule: validate_entries.induct)
  case (2 i seen entry es)
  then obtain n ms where n: "normalizeEntry entry = Inr n" "key_of_entry n \<notin> set seen"
    and ms: "validate_entries (Suc i) (key_of_entry n # seen) es = Inr ms" "ns = n # ms"
    by (auto split: sum.splits if_splits)
  show ?case
    using "2.IH" [OF n(1) n(2) ms(1)] normalizeEntry_valid [OF n(1)] n(2) ms(2) by auto
qed simp

lemma index_entries_lookup:
  "distinct (map key_of_entry es) \<Longrightarrow>
     foldl (\<lambda>m e. m(key_of_entry e \<mapsto> e)) m es k =
       (case find (\<lambda>e. key_of_entry e = k) es of Some e \<Rightarrow> Some e | None \<Rightarrow> m k)"
proof (induction es arbitrary: m)
  case (Cons a es)
  have "find (\<lambda>e. key_of_entry e = key_of_entry a) es = None"
    using Cons.prems by (auto simp: find_None_iff) (metis imageI)
  then show ?case using Cons by (auto split: option.split)
qed simp

lemma entry_version_error_None:
  "entry_version_error e = None \<longleftrightarrow>
     looksLikeVersion (ce_MinimumCompatibleVersion e) \<and> looksLikeVersion (ce_RecommendedVersion e)
     \<and> \<not> CompareVersions (ce_MinimumCompatibleVersion e) (ce_RecommendedVersion e) > 0"
  unfolding entry_version_error_def Let_def by simp

lemma CompatNew_entries:
  assumes "CompatNew doc = Inr c"
  shows "distinct (map key_of_entry (cc_entries c)) \<and> cc_byKey c = index_entries (cc_entries c)
    \<and> (\<forall>e\<in>set (cc_entries c). entry_identity_error e = None \<and> entry_version_error e = None
         \<and> validateOperationalImpacts (ce_OperationalImpacts e) = None \<and> entry_provenance_error e = None)"
proof -
  obtain ns where ns: "validate_entries 0 [] (cd_Entries doc) = Inr ns"
    "cc_entries c = sort_by (\<lambda>a b. key_of_entry a < key_of_entry b) ns"
    "cc_byKey c = index_entries (cc_entries c)"
    using assms by (auto simp: CompatNew_def normalizeAndValidate_def split: if_splits sum.splits)
  have "mset (map key_of_entry (cc_entries c)) = mset (map key_of_entry ns)"
    using ns(2) by simp
  then have "distinct (map key_of_entry (cc_entries c)) \<longleftrightarrow> distinct (map key_of_entry ns)"
    by (metis mset_eq_imp_distinct_iff)
  with validate_entries_ok [OF ns(1)] ns(2,3) show ?thesis by simp
qed

text \<open>
  A catalog that loads is a sound index. Every entry is found under its own provider, name and
  version; whatever \<open>Lookup\<close> returns is an entry of the catalog with the key asked for; and the
  version an entry recommends is one the same entry judges compatible, so no remediation sends the
  operator to a version the rules would report.
\<close>

theorem catalog_index_sound:
  assumes "CompatNew doc = Inr c"
  shows "(\<forall>e\<in>set (cc_entries c).
            CompatLookup c (ce_Provider e) (ce_AddonName e) (ce_KubernetesVersion e) = Some e
            \<and> InstalledStatus e (ce_RecommendedVersion e) = StatusCompatible)
    \<and> (\<forall>provider name version e. CompatLookup c provider name version = Some e \<longrightarrow>
            e \<in> set (cc_entries c) \<and> key_of_entry e = catalog_entry_key provider name version)"
proof -
  note entries = CompatNew_entries [OF assms]
  have lookup: "cc_byKey c k = find (\<lambda>e. key_of_entry e = k) (cc_entries c)" for k
    using index_entries_lookup [of "cc_entries c" Map.empty k] entries
    by (simp add: index_entries_def split: option.splits)
  have "CompatLookup c (ce_Provider e) (ce_AddonName e) (ce_KubernetesVersion e) = Some e"
    if "e \<in> set (cc_entries c)" for e
  proof -
    have "find (\<lambda>x. key_of_entry x = key_of_entry e) (cc_entries c) \<noteq> None"
      using that by (auto simp: find_None_iff)
    then obtain e' where e': "find (\<lambda>x. key_of_entry x = key_of_entry e) (cc_entries c) = Some e'"
      by blast
    have "e' = e"
      using conjunct1 [OF entries] that find_SomeD [OF e'] by (auto simp: distinct_map dest: inj_onD)
    with e' show ?thesis by (simp add: CompatLookup_def lookup key_of_entry_def)
  qed
  moreover have "InstalledStatus e (ce_RecommendedVersion e) = StatusCompatible"
    if "e \<in> set (cc_entries c)" for e
  proof -
    have "looksLikeVersion (ce_RecommendedVersion e)"
      "\<not> CompareVersions (ce_MinimumCompatibleVersion e) (ce_RecommendedVersion e) > 0"
      using entries that by (auto simp: entry_version_error_None)
    moreover from this(1) have "TrimSpace (ce_RecommendedVersion e) \<noteq> ''''"
      by (auto simp: looksLikeVersion_def Let_def)
    ultimately show ?thesis
      using versions.antisym [of "ce_RecommendedVersion e" "ce_MinimumCompatibleVersion e"]
      by (simp add: InstalledStatus_def versions.refl)
  qed
  moreover have "e \<in> set (cc_entries c) \<and> key_of_entry e = catalog_entry_key provider name version"
    if "CompatLookup c provider name version = Some e" for provider name version e
    using that find_SomeD by (fastforce simp: CompatLookup_def lookup)
  ultimately show ?thesis by blast
qed

definition sample_document :: CatalogDocument where
  "sample_document = \<lparr>cd_SchemaVersion = ''compatcatalog.kubepreflight.io/v1'', cd_Entries =
     [\<lparr>ce_KubernetesVersion = ''v1.34'', ce_Provider = ''EKS'', ce_AddonName = '' coredns'',
       ce_MinimumCompatibleVersion = ''1.9'', ce_RecommendedVersion = ''1.10'',
       ce_OperationalImpacts = [OperationalImpactClusterDNS], ce_Source = ''AWS'',
       ce_Reference = ''docs'', ce_LastVerifiedDate = ''2026-07-14'', ce_Confidence = ''OBSERVED''\<rparr>]\<rparr>"

theorem catalog_index_sound_witness:
  "\<exists>c. CompatNew sample_document = Inr c \<and> cc_entries c \<noteq> []
     \<and> CompatLookup c ''eks'' ''coredns'' ''1.34'' \<noteq> None
     \<and> InstalledStatus (hd (cc_entries c)) ''1.10'' = StatusCompatible"
proof -
  have "case CompatNew sample_document of Inl _ \<Rightarrow> False | Inr c \<Rightarrow>
      map (\<lambda>e. (ce_Provider e, ce_AddonName e, ce_KubernetesVersion e, ce_RecommendedVersion e))
        (cc_entries c) = [(''eks'', ''coredns'', ''1.34'', ''1.10'')]"
    by code_simp
  then obtain c e where c: "CompatNew sample_document = Inr c" "cc_entries c = [e]"
    "ce_Provider e = ''eks''" "ce_AddonName e = ''coredns''" "ce_KubernetesVersion e = ''1.34''"
    "ce_RecommendedVersion e = ''1.10''"
    by (auto split: sum.splits)
  with catalog_index_sound [OF c(1)] show ?thesis by auto
qed

section \<open>The add-on rules\<close>

text \<open>
  C22: Silence about a high-impact add-on is evidence. For one of the five add-ons AWS manages that
  the upgrade depends on, ADDON-001 and ADDON-002 never both report it; and when neither does, the
  loaded catalog has an entry for that add-on and target under which the installed version is
  compatible. A catalog that failed to load, a missing entry or an unreadable version is reported.
\<close>

theorem addon_silence_is_evidence:
  assumes "isHighImpactAddon (ad_Name a)"
  shows "(addon001_managed cc snap tv ctx a = [] \<or> addon002_managed cc snap tv a = [])
    \<and> (addon001_managed cc snap tv ctx a = [] \<and> addon002_managed cc snap tv a = [] \<longleftrightarrow>
         (\<exists>c e. cc = Inr c \<and> CompatLookup c ''eks'' (ad_Name a) tv = Some e
            \<and> InstalledStatus e (ad_CurrentVersion a) = StatusCompatible))"
proof -
  have "isCatalogManagedEKSAddon (ad_Name a)"
    using assms by (simp add: isHighImpactAddon_def isCatalogManagedEKSAddon_def)
  with assms show ?thesis
    by (auto simp: addon001_managed_def addon002_managed_def lookupEKSAddonCatalog_def
        split: sum.splits option.splits CompatStatus.splits)
qed

definition sample_addon :: AddonRecord where
  "sample_addon = \<lparr>ad_ClusterName = ''prod'', ad_Name = ''coredns'', ad_CurrentVersion = ''1.9'',
     ad_CompatibleVersions = []\<rparr>"

definition sample_aws :: AWSSnapshot where
  "sample_aws = empty_aws\<lparr>aws_ClusterVersion := ''1.33'', aws_Addons := [sample_addon]\<rparr>"

theorem addon_silence_is_evidence_witness:
  "isHighImpactAddon (ad_Name sample_addon)
   \<and> \<not> (addon001_managed (Inl ''corrupt'') sample_aws ''1.34'' ContextFullPlatformUpgrade sample_addon = []
      \<and> addon002_managed (Inl ''corrupt'') sample_aws ''1.34'' sample_addon = [])"
proof -
  have "isHighImpactAddon (ad_Name sample_addon)"
    by (simp add: isHighImpactAddon_def sample_addon_def)
  from this addon_silence_is_evidence [OF this, of "Inl ''corrupt''" sample_aws "''1.34''" ContextFullPlatformUpgrade]
  show ?thesis by auto
qed

end
