(* ===== verification/ApiCatalogData.thy ===== *)
theory ApiCatalogData
  imports ApiCatalog
begin

text \<open>
  The data of the API catalog: the embedded document \<open>internal/apicatalog/versioned_catalog.json\<close>
  (decoded by \<open>json.Unmarshal\<close>; an omitted \<open>replacementAPIVersion\<close> is empty) and the frozen
  \<open>legacyDeprecatedSnapshot\<close> of \<open>catalog.go\<close>, entry by entry in the order of the files.
\<close>

definition default_versioned_entries :: "VersionedAPI list" where
  "default_versioned_entries =
    [
     \<lparr>va_Group = ''policy'', va_Version = ''v1beta1'', va_Resource = ''podsecuritypolicies'',
      va_Kind = ''PodSecurityPolicy'', va_Namespaced = False,
      va_DeprecatedInVersion = ''1.21'', va_RemovedInVersion = ''1.25'',
      va_ReplacementAPI = ''Pod Security Admission or a policy engine (Kyverno/Gatekeeper)'',
      va_ReplacementAPIVersion = '''',
      va_SupportedTargetRange = \<lparr>range_Min = ''1.25'', range_Max = ''1.39''\<rparr>,
      va_Source = ''Kubernetes Deprecated API Migration Guide'',
      va_Reference = (''https://kubernetes.io/docs/reference/using-api/deprecation-guide/#podsecuritypolicy-v125''),
      va_LastVerifiedDate = ''2026-07-14'', va_Confidence = ''STATIC_CERTAIN''\<rparr>,
     \<lparr>va_Group = ''policy'', va_Version = ''v1beta1'', va_Resource = ''poddisruptionbudgets'',
      va_Kind = ''PodDisruptionBudget'', va_Namespaced = True,
      va_DeprecatedInVersion = ''1.21'', va_RemovedInVersion = ''1.25'',
      va_ReplacementAPI = ''policy/v1 PodDisruptionBudget'',
      va_ReplacementAPIVersion = ''policy/v1'',
      va_SupportedTargetRange = \<lparr>range_Min = ''1.25'', range_Max = ''1.39''\<rparr>,
      va_Source = ''Kubernetes Deprecated API Migration Guide'',
      va_Reference = (''https://kubernetes.io/docs/reference/using-api/deprecation-guide/#poddisruptionbudget-v125''),
      va_LastVerifiedDate = ''2026-07-14'', va_Confidence = ''STATIC_CERTAIN''\<rparr>,
     \<lparr>va_Group = ''batch'', va_Version = ''v1beta1'', va_Resource = ''cronjobs'',
      va_Kind = ''CronJob'', va_Namespaced = True, va_DeprecatedInVersion = ''1.21'',
      va_RemovedInVersion = ''1.25'', va_ReplacementAPI = ''batch/v1 CronJob'',
      va_ReplacementAPIVersion = ''batch/v1'',
      va_SupportedTargetRange = \<lparr>range_Min = ''1.25'', range_Max = ''1.39''\<rparr>,
      va_Source = ''Kubernetes Deprecated API Migration Guide'',
      va_Reference = (''https://kubernetes.io/docs/reference/using-api/deprecation-guide/#cronjob-v125''),
      va_LastVerifiedDate = ''2026-07-14'', va_Confidence = ''STATIC_CERTAIN''\<rparr>,
     \<lparr>va_Group = ''autoscaling'', va_Version = ''v2beta2'',
      va_Resource = ''horizontalpodautoscalers'', va_Kind = ''HorizontalPodAutoscaler'',
      va_Namespaced = True, va_DeprecatedInVersion = ''1.23'', va_RemovedInVersion = ''1.26'',
      va_ReplacementAPI = ''autoscaling/v2 HorizontalPodAutoscaler'',
      va_ReplacementAPIVersion = ''autoscaling/v2'',
      va_SupportedTargetRange = \<lparr>range_Min = ''1.26'', range_Max = ''1.39''\<rparr>,
      va_Source = ''Kubernetes Deprecated API Migration Guide'',
      va_Reference = (''https://kubernetes.io/docs/reference/using-api/deprecation-guide/#horizontalpodautoscaler-v126''),
      va_LastVerifiedDate = ''2026-07-14'', va_Confidence = ''STATIC_CERTAIN''\<rparr>,
     \<lparr>va_Group = ''networking.k8s.io'', va_Version = ''v1beta1'', va_Resource = ''ingresses'',
      va_Kind = ''Ingress'', va_Namespaced = True, va_DeprecatedInVersion = ''1.19'',
      va_RemovedInVersion = ''1.22'', va_ReplacementAPI = ''networking.k8s.io/v1 Ingress'',
      va_ReplacementAPIVersion = ''networking.k8s.io/v1'',
      va_SupportedTargetRange = \<lparr>range_Min = ''1.22'', range_Max = ''1.39''\<rparr>,
      va_Source = ''Kubernetes Deprecated API Migration Guide'',
      va_Reference = (''https://kubernetes.io/docs/reference/using-api/deprecation-guide/#ingress-v122''),
      va_LastVerifiedDate = ''2026-07-14'', va_Confidence = ''STATIC_CERTAIN''\<rparr>,
     \<lparr>va_Group = ''flowcontrol.apiserver.k8s.io'', va_Version = ''v1beta2'',
      va_Resource = ''flowschemas'', va_Kind = ''FlowSchema'', va_Namespaced = False,
      va_DeprecatedInVersion = ''1.26'', va_RemovedInVersion = ''1.29'',
      va_ReplacementAPI = ''flowcontrol.apiserver.k8s.io/v1 FlowSchema'',
      va_ReplacementAPIVersion = ''flowcontrol.apiserver.k8s.io/v1'',
      va_SupportedTargetRange = \<lparr>range_Min = ''1.29'', range_Max = ''1.39''\<rparr>,
      va_Source = ''Kubernetes Deprecated API Migration Guide'',
      va_Reference = (''https://kubernetes.io/docs/reference/using-api/deprecation-guide/#flowcontrol-resources-v129''),
      va_LastVerifiedDate = ''2026-07-14'', va_Confidence = ''STATIC_CERTAIN''\<rparr>,
     \<lparr>va_Group = ''flowcontrol.apiserver.k8s.io'', va_Version = ''v1beta2'',
      va_Resource = ''prioritylevelconfigurations'', va_Kind = ''PriorityLevelConfiguration'',
      va_Namespaced = False, va_DeprecatedInVersion = ''1.26'', va_RemovedInVersion = ''1.29'',
      va_ReplacementAPI = ''flowcontrol.apiserver.k8s.io/v1 PriorityLevelConfiguration'',
      va_ReplacementAPIVersion = ''flowcontrol.apiserver.k8s.io/v1'',
      va_SupportedTargetRange = \<lparr>range_Min = ''1.29'', range_Max = ''1.39''\<rparr>,
      va_Source = ''Kubernetes Deprecated API Migration Guide'',
      va_Reference = (''https://kubernetes.io/docs/reference/using-api/deprecation-guide/#flowcontrol-resources-v129''),
      va_LastVerifiedDate = ''2026-07-14'', va_Confidence = ''STATIC_CERTAIN''\<rparr>,
     \<lparr>va_Group = ''flowcontrol.apiserver.k8s.io'', va_Version = ''v1beta3'',
      va_Resource = ''flowschemas'', va_Kind = ''FlowSchema'', va_Namespaced = False,
      va_DeprecatedInVersion = ''1.29'', va_RemovedInVersion = ''1.32'',
      va_ReplacementAPI = ''flowcontrol.apiserver.k8s.io/v1 FlowSchema'',
      va_ReplacementAPIVersion = ''flowcontrol.apiserver.k8s.io/v1'',
      va_SupportedTargetRange = \<lparr>range_Min = ''1.32'', range_Max = ''1.39''\<rparr>,
      va_Source = ''Kubernetes Deprecated API Migration Guide'',
      va_Reference = (''https://kubernetes.io/docs/reference/using-api/deprecation-guide/#flowcontrol-resources-v132''),
      va_LastVerifiedDate = ''2026-07-14'', va_Confidence = ''STATIC_CERTAIN''\<rparr>,
     \<lparr>va_Group = ''flowcontrol.apiserver.k8s.io'', va_Version = ''v1beta3'',
      va_Resource = ''prioritylevelconfigurations'', va_Kind = ''PriorityLevelConfiguration'',
      va_Namespaced = False, va_DeprecatedInVersion = ''1.29'', va_RemovedInVersion = ''1.32'',
      va_ReplacementAPI = ''flowcontrol.apiserver.k8s.io/v1 PriorityLevelConfiguration'',
      va_ReplacementAPIVersion = ''flowcontrol.apiserver.k8s.io/v1'',
      va_SupportedTargetRange = \<lparr>range_Min = ''1.32'', range_Max = ''1.39''\<rparr>,
      va_Source = ''Kubernetes Deprecated API Migration Guide'',
      va_Reference = (''https://kubernetes.io/docs/reference/using-api/deprecation-guide/#flowcontrol-resources-v132''),
      va_LastVerifiedDate = ''2026-07-14'', va_Confidence = ''STATIC_CERTAIN''\<rparr>,
     \<lparr>va_Group = ''extensions'', va_Version = ''v1beta1'', va_Resource = ''deployments'',
      va_Kind = ''Deployment'', va_Namespaced = True, va_DeprecatedInVersion = ''1.8'',
      va_RemovedInVersion = ''1.16'', va_ReplacementAPI = ''apps/v1 Deployment'',
      va_ReplacementAPIVersion = ''apps/v1'',
      va_SupportedTargetRange = \<lparr>range_Min = ''1.16'', range_Max = ''1.39''\<rparr>,
      va_Source = ''Kubernetes Deprecated API Migration Guide'',
      va_Reference = (''https://kubernetes.io/docs/reference/using-api/deprecation-guide/#v1-16''),
      va_LastVerifiedDate = ''2026-07-15'', va_Confidence = ''STATIC_CERTAIN''\<rparr>,
     \<lparr>va_Group = ''extensions'', va_Version = ''v1beta1'', va_Resource = ''daemonsets'',
      va_Kind = ''DaemonSet'', va_Namespaced = True, va_DeprecatedInVersion = ''1.8'',
      va_RemovedInVersion = ''1.16'', va_ReplacementAPI = ''apps/v1 DaemonSet'',
      va_ReplacementAPIVersion = ''apps/v1'',
      va_SupportedTargetRange = \<lparr>range_Min = ''1.16'', range_Max = ''1.39''\<rparr>,
      va_Source = ''Kubernetes Deprecated API Migration Guide'',
      va_Reference = (''https://kubernetes.io/docs/reference/using-api/deprecation-guide/#v1-16''),
      va_LastVerifiedDate = ''2026-07-15'', va_Confidence = ''STATIC_CERTAIN''\<rparr>,
     \<lparr>va_Group = ''apps'', va_Version = ''v1beta1'', va_Resource = ''deployments'',
      va_Kind = ''Deployment'', va_Namespaced = True, va_DeprecatedInVersion = ''1.8'',
      va_RemovedInVersion = ''1.16'', va_ReplacementAPI = ''apps/v1 Deployment'',
      va_ReplacementAPIVersion = ''apps/v1'',
      va_SupportedTargetRange = \<lparr>range_Min = ''1.16'', range_Max = ''1.39''\<rparr>,
      va_Source = ''Kubernetes Deprecated API Migration Guide'',
      va_Reference = (''https://kubernetes.io/docs/reference/using-api/deprecation-guide/#v1-16''),
      va_LastVerifiedDate = ''2026-07-15'', va_Confidence = ''STATIC_CERTAIN''\<rparr>,
     \<lparr>va_Group = ''apps'', va_Version = ''v1beta2'', va_Resource = ''deployments'',
      va_Kind = ''Deployment'', va_Namespaced = True, va_DeprecatedInVersion = ''1.9'',
      va_RemovedInVersion = ''1.16'', va_ReplacementAPI = ''apps/v1 Deployment'',
      va_ReplacementAPIVersion = ''apps/v1'',
      va_SupportedTargetRange = \<lparr>range_Min = ''1.16'', range_Max = ''1.39''\<rparr>,
      va_Source = ''Kubernetes Deprecated API Migration Guide'',
      va_Reference = (''https://kubernetes.io/docs/reference/using-api/deprecation-guide/#v1-16''),
      va_LastVerifiedDate = ''2026-07-15'', va_Confidence = ''STATIC_CERTAIN''\<rparr>,
     \<lparr>va_Group = ''apps'', va_Version = ''v1beta2'', va_Resource = ''daemonsets'',
      va_Kind = ''DaemonSet'', va_Namespaced = True, va_DeprecatedInVersion = ''1.9'',
      va_RemovedInVersion = ''1.16'', va_ReplacementAPI = ''apps/v1 DaemonSet'',
      va_ReplacementAPIVersion = ''apps/v1'',
      va_SupportedTargetRange = \<lparr>range_Min = ''1.16'', range_Max = ''1.39''\<rparr>,
      va_Source = ''Kubernetes Deprecated API Migration Guide'',
      va_Reference = (''https://kubernetes.io/docs/reference/using-api/deprecation-guide/#v1-16''),
      va_LastVerifiedDate = ''2026-07-15'', va_Confidence = ''STATIC_CERTAIN''\<rparr>,
     \<lparr>va_Group = ''apps'', va_Version = ''v1beta2'', va_Resource = ''replicasets'',
      va_Kind = ''ReplicaSet'', va_Namespaced = True, va_DeprecatedInVersion = ''1.9'',
      va_RemovedInVersion = ''1.16'', va_ReplacementAPI = ''apps/v1 ReplicaSet'',
      va_ReplacementAPIVersion = ''apps/v1'',
      va_SupportedTargetRange = \<lparr>range_Min = ''1.16'', range_Max = ''1.39''\<rparr>,
      va_Source = ''Kubernetes Deprecated API Migration Guide'',
      va_Reference = (''https://kubernetes.io/docs/reference/using-api/deprecation-guide/#v1-16''),
      va_LastVerifiedDate = ''2026-07-15'', va_Confidence = ''STATIC_CERTAIN''\<rparr>,
     \<lparr>va_Group = ''extensions'', va_Version = ''v1beta1'', va_Resource = ''replicasets'',
      va_Kind = ''ReplicaSet'', va_Namespaced = True, va_DeprecatedInVersion = ''1.8'',
      va_RemovedInVersion = ''1.16'', va_ReplacementAPI = ''apps/v1 ReplicaSet'',
      va_ReplacementAPIVersion = ''apps/v1'',
      va_SupportedTargetRange = \<lparr>range_Min = ''1.16'', range_Max = ''1.39''\<rparr>,
      va_Source = ''Kubernetes Deprecated API Migration Guide'',
      va_Reference = (''https://kubernetes.io/docs/reference/using-api/deprecation-guide/#v1-16''),
      va_LastVerifiedDate = ''2026-07-15'', va_Confidence = ''STATIC_CERTAIN''\<rparr>,
     \<lparr>va_Group = ''extensions'', va_Version = ''v1beta1'', va_Resource = ''networkpolicies'',
      va_Kind = ''NetworkPolicy'', va_Namespaced = True, va_DeprecatedInVersion = ''1.9'',
      va_RemovedInVersion = ''1.16'',
      va_ReplacementAPI = ''networking.k8s.io/v1 NetworkPolicy'',
      va_ReplacementAPIVersion = ''networking.k8s.io/v1'',
      va_SupportedTargetRange = \<lparr>range_Min = ''1.16'', range_Max = ''1.39''\<rparr>,
      va_Source = ''Kubernetes Deprecated API Migration Guide'',
      va_Reference = (''https://kubernetes.io/docs/reference/using-api/deprecation-guide/#v1-16''),
      va_LastVerifiedDate = ''2026-07-15'', va_Confidence = ''STATIC_CERTAIN''\<rparr>,
     \<lparr>va_Group = ''apps'', va_Version = ''v1beta1'', va_Resource = ''statefulsets'',
      va_Kind = ''StatefulSet'', va_Namespaced = True, va_DeprecatedInVersion = ''1.8'',
      va_RemovedInVersion = ''1.16'', va_ReplacementAPI = ''apps/v1 StatefulSet'',
      va_ReplacementAPIVersion = ''apps/v1'',
      va_SupportedTargetRange = \<lparr>range_Min = ''1.16'', range_Max = ''1.39''\<rparr>,
      va_Source = ''Kubernetes Deprecated API Migration Guide'',
      va_Reference = (''https://kubernetes.io/docs/reference/using-api/deprecation-guide/#v1-16''),
      va_LastVerifiedDate = ''2026-07-15'', va_Confidence = ''STATIC_CERTAIN''\<rparr>,
     \<lparr>va_Group = ''apps'', va_Version = ''v1beta2'', va_Resource = ''statefulsets'',
      va_Kind = ''StatefulSet'', va_Namespaced = True, va_DeprecatedInVersion = ''1.9'',
      va_RemovedInVersion = ''1.16'', va_ReplacementAPI = ''apps/v1 StatefulSet'',
      va_ReplacementAPIVersion = ''apps/v1'',
      va_SupportedTargetRange = \<lparr>range_Min = ''1.16'', range_Max = ''1.39''\<rparr>,
      va_Source = ''Kubernetes Deprecated API Migration Guide'',
      va_Reference = (''https://kubernetes.io/docs/reference/using-api/deprecation-guide/#v1-16''),
      va_LastVerifiedDate = ''2026-07-15'', va_Confidence = ''STATIC_CERTAIN''\<rparr>,
     \<lparr>va_Group = ''extensions'', va_Version = ''v1beta1'', va_Resource = ''ingresses'',
      va_Kind = ''Ingress'', va_Namespaced = True, va_DeprecatedInVersion = ''1.14'',
      va_RemovedInVersion = ''1.22'', va_ReplacementAPI = ''networking.k8s.io/v1 Ingress'',
      va_ReplacementAPIVersion = ''networking.k8s.io/v1'',
      va_SupportedTargetRange = \<lparr>range_Min = ''1.22'', range_Max = ''1.39''\<rparr>,
      va_Source = ''Kubernetes Deprecated API Migration Guide'',
      va_Reference = (''https://kubernetes.io/docs/reference/using-api/deprecation-guide/#v1-22''),
      va_LastVerifiedDate = ''2026-07-15'', va_Confidence = ''STATIC_CERTAIN''\<rparr>,
     \<lparr>va_Group = ''networking.k8s.io'', va_Version = ''v1beta1'',
      va_Resource = ''ingressclasses'', va_Kind = ''IngressClass'', va_Namespaced = False,
      va_DeprecatedInVersion = ''1.19'', va_RemovedInVersion = ''1.22'',
      va_ReplacementAPI = ''networking.k8s.io/v1 IngressClass'',
      va_ReplacementAPIVersion = ''networking.k8s.io/v1'',
      va_SupportedTargetRange = \<lparr>range_Min = ''1.22'', range_Max = ''1.39''\<rparr>,
      va_Source = ''Kubernetes Deprecated API Migration Guide'',
      va_Reference = (''https://kubernetes.io/docs/reference/using-api/deprecation-guide/#v1-22''),
      va_LastVerifiedDate = ''2026-07-15'', va_Confidence = ''STATIC_CERTAIN''\<rparr>,
     \<lparr>va_Group = ''apiextensions.k8s.io'', va_Version = ''v1beta1'',
      va_Resource = ''customresourcedefinitions'', va_Kind = ''CustomResourceDefinition'',
      va_Namespaced = False, va_DeprecatedInVersion = ''1.16'', va_RemovedInVersion = ''1.22'',
      va_ReplacementAPI = ''apiextensions.k8s.io/v1 CustomResourceDefinition'',
      va_ReplacementAPIVersion = ''apiextensions.k8s.io/v1'',
      va_SupportedTargetRange = \<lparr>range_Min = ''1.22'', range_Max = ''1.39''\<rparr>,
      va_Source = ''Kubernetes Deprecated API Migration Guide'',
      va_Reference = (''https://kubernetes.io/docs/reference/using-api/deprecation-guide/#v1-22''),
      va_LastVerifiedDate = ''2026-07-15'', va_Confidence = ''STATIC_CERTAIN''\<rparr>,
     \<lparr>va_Group = ''admissionregistration.k8s.io'', va_Version = ''v1beta1'',
      va_Resource = ''validatingwebhookconfigurations'',
      va_Kind = ''ValidatingWebhookConfiguration'', va_Namespaced = False,
      va_DeprecatedInVersion = ''1.16'', va_RemovedInVersion = ''1.22'',
      va_ReplacementAPI = ''admissionregistration.k8s.io/v1 ValidatingWebhookConfiguration'',
      va_ReplacementAPIVersion = ''admissionregistration.k8s.io/v1'',
      va_SupportedTargetRange = \<lparr>range_Min = ''1.22'', range_Max = ''1.39''\<rparr>,
      va_Source = ''Kubernetes Deprecated API Migration Guide'',
      va_Reference = (''https://kubernetes.io/docs/reference/using-api/deprecation-guide/#v1-22''),
      va_LastVerifiedDate = ''2026-07-15'', va_Confidence = ''STATIC_CERTAIN''\<rparr>,
     \<lparr>va_Group = ''admissionregistration.k8s.io'', va_Version = ''v1beta1'',
      va_Resource = ''mutatingwebhookconfigurations'',
      va_Kind = ''MutatingWebhookConfiguration'', va_Namespaced = False,
      va_DeprecatedInVersion = ''1.16'', va_RemovedInVersion = ''1.22'',
      va_ReplacementAPI = ''admissionregistration.k8s.io/v1 MutatingWebhookConfiguration'',
      va_ReplacementAPIVersion = ''admissionregistration.k8s.io/v1'',
      va_SupportedTargetRange = \<lparr>range_Min = ''1.22'', range_Max = ''1.39''\<rparr>,
      va_Source = ''Kubernetes Deprecated API Migration Guide'',
      va_Reference = (''https://kubernetes.io/docs/reference/using-api/deprecation-guide/#v1-22''),
      va_LastVerifiedDate = ''2026-07-15'', va_Confidence = ''STATIC_CERTAIN''\<rparr>,
     \<lparr>va_Group = ''apiregistration.k8s.io'', va_Version = ''v1beta1'',
      va_Resource = ''apiservices'', va_Kind = ''APIService'', va_Namespaced = False,
      va_DeprecatedInVersion = ''1.19'', va_RemovedInVersion = ''1.22'',
      va_ReplacementAPI = ''apiregistration.k8s.io/v1 APIService'',
      va_ReplacementAPIVersion = ''apiregistration.k8s.io/v1'',
      va_SupportedTargetRange = \<lparr>range_Min = ''1.22'', range_Max = ''1.39''\<rparr>,
      va_Source = ''Kubernetes Deprecated API Migration Guide'',
      va_Reference = (''https://kubernetes.io/docs/reference/using-api/deprecation-guide/#v1-22''),
      va_LastVerifiedDate = ''2026-07-15'', va_Confidence = ''STATIC_CERTAIN''\<rparr>,
     \<lparr>va_Group = ''certificates.k8s.io'', va_Version = ''v1beta1'',
      va_Resource = ''certificatesigningrequests'', va_Kind = ''CertificateSigningRequest'',
      va_Namespaced = False, va_DeprecatedInVersion = ''1.19'', va_RemovedInVersion = ''1.22'',
      va_ReplacementAPI = ''certificates.k8s.io/v1 CertificateSigningRequest'',
      va_ReplacementAPIVersion = ''certificates.k8s.io/v1'',
      va_SupportedTargetRange = \<lparr>range_Min = ''1.22'', range_Max = ''1.39''\<rparr>,
      va_Source = ''Kubernetes Deprecated API Migration Guide'',
      va_Reference = (''https://kubernetes.io/docs/reference/using-api/deprecation-guide/#v1-22''),
      va_LastVerifiedDate = ''2026-07-15'', va_Confidence = ''STATIC_CERTAIN''\<rparr>,
     \<lparr>va_Group = ''coordination.k8s.io'', va_Version = ''v1beta1'', va_Resource = ''leases'',
      va_Kind = ''Lease'', va_Namespaced = True, va_DeprecatedInVersion = ''1.19'',
      va_RemovedInVersion = ''1.22'', va_ReplacementAPI = ''coordination.k8s.io/v1 Lease'',
      va_ReplacementAPIVersion = ''coordination.k8s.io/v1'',
      va_SupportedTargetRange = \<lparr>range_Min = ''1.22'', range_Max = ''1.39''\<rparr>,
      va_Source = ''Kubernetes Deprecated API Migration Guide'',
      va_Reference = (''https://kubernetes.io/docs/reference/using-api/deprecation-guide/#v1-22''),
      va_LastVerifiedDate = ''2026-07-15'', va_Confidence = ''STATIC_CERTAIN''\<rparr>,
     \<lparr>va_Group = ''rbac.authorization.k8s.io'', va_Version = ''v1beta1'',
      va_Resource = ''roles'', va_Kind = ''Role'', va_Namespaced = True,
      va_DeprecatedInVersion = ''1.17'', va_RemovedInVersion = ''1.22'',
      va_ReplacementAPI = ''rbac.authorization.k8s.io/v1 Role'',
      va_ReplacementAPIVersion = ''rbac.authorization.k8s.io/v1'',
      va_SupportedTargetRange = \<lparr>range_Min = ''1.22'', range_Max = ''1.39''\<rparr>,
      va_Source = ''Kubernetes Deprecated API Migration Guide'',
      va_Reference = (''https://kubernetes.io/docs/reference/using-api/deprecation-guide/#v1-22''),
      va_LastVerifiedDate = ''2026-07-15'', va_Confidence = ''STATIC_CERTAIN''\<rparr>,
     \<lparr>va_Group = ''rbac.authorization.k8s.io'', va_Version = ''v1beta1'',
      va_Resource = ''rolebindings'', va_Kind = ''RoleBinding'', va_Namespaced = True,
      va_DeprecatedInVersion = ''1.17'', va_RemovedInVersion = ''1.22'',
      va_ReplacementAPI = ''rbac.authorization.k8s.io/v1 RoleBinding'',
      va_ReplacementAPIVersion = ''rbac.authorization.k8s.io/v1'',
      va_SupportedTargetRange = \<lparr>range_Min = ''1.22'', range_Max = ''1.39''\<rparr>,
      va_Source = ''Kubernetes Deprecated API Migration Guide'',
      va_Reference = (''https://kubernetes.io/docs/reference/using-api/deprecation-guide/#v1-22''),
      va_LastVerifiedDate = ''2026-07-15'', va_Confidence = ''STATIC_CERTAIN''\<rparr>,
     \<lparr>va_Group = ''rbac.authorization.k8s.io'', va_Version = ''v1beta1'',
      va_Resource = ''clusterroles'', va_Kind = ''ClusterRole'', va_Namespaced = False,
      va_DeprecatedInVersion = ''1.17'', va_RemovedInVersion = ''1.22'',
      va_ReplacementAPI = ''rbac.authorization.k8s.io/v1 ClusterRole'',
      va_ReplacementAPIVersion = ''rbac.authorization.k8s.io/v1'',
      va_SupportedTargetRange = \<lparr>range_Min = ''1.22'', range_Max = ''1.39''\<rparr>,
      va_Source = ''Kubernetes Deprecated API Migration Guide'',
      va_Reference = (''https://kubernetes.io/docs/reference/using-api/deprecation-guide/#v1-22''),
      va_LastVerifiedDate = ''2026-07-15'', va_Confidence = ''STATIC_CERTAIN''\<rparr>,
     \<lparr>va_Group = ''rbac.authorization.k8s.io'', va_Version = ''v1beta1'',
      va_Resource = ''clusterrolebindings'', va_Kind = ''ClusterRoleBinding'',
      va_Namespaced = False, va_DeprecatedInVersion = ''1.17'', va_RemovedInVersion = ''1.22'',
      va_ReplacementAPI = ''rbac.authorization.k8s.io/v1 ClusterRoleBinding'',
      va_ReplacementAPIVersion = ''rbac.authorization.k8s.io/v1'',
      va_SupportedTargetRange = \<lparr>range_Min = ''1.22'', range_Max = ''1.39''\<rparr>,
      va_Source = ''Kubernetes Deprecated API Migration Guide'',
      va_Reference = (''https://kubernetes.io/docs/reference/using-api/deprecation-guide/#v1-22''),
      va_LastVerifiedDate = ''2026-07-15'', va_Confidence = ''STATIC_CERTAIN''\<rparr>,
     \<lparr>va_Group = ''scheduling.k8s.io'', va_Version = ''v1beta1'',
      va_Resource = ''priorityclasses'', va_Kind = ''PriorityClass'', va_Namespaced = False,
      va_DeprecatedInVersion = ''1.14'', va_RemovedInVersion = ''1.22'',
      va_ReplacementAPI = ''scheduling.k8s.io/v1 PriorityClass'',
      va_ReplacementAPIVersion = ''scheduling.k8s.io/v1'',
      va_SupportedTargetRange = \<lparr>range_Min = ''1.22'', range_Max = ''1.39''\<rparr>,
      va_Source = ''Kubernetes Deprecated API Migration Guide'',
      va_Reference = (''https://kubernetes.io/docs/reference/using-api/deprecation-guide/#v1-22''),
      va_LastVerifiedDate = ''2026-07-15'', va_Confidence = ''STATIC_CERTAIN''\<rparr>,
     \<lparr>va_Group = ''storage.k8s.io'', va_Version = ''v1beta1'', va_Resource = ''csidrivers'',
      va_Kind = ''CSIDriver'', va_Namespaced = False, va_DeprecatedInVersion = ''1.19'',
      va_RemovedInVersion = ''1.22'', va_ReplacementAPI = ''storage.k8s.io/v1 CSIDriver'',
      va_ReplacementAPIVersion = ''storage.k8s.io/v1'',
      va_SupportedTargetRange = \<lparr>range_Min = ''1.22'', range_Max = ''1.39''\<rparr>,
      va_Source = ''Kubernetes Deprecated API Migration Guide'',
      va_Reference = (''https://kubernetes.io/docs/reference/using-api/deprecation-guide/#v1-22''),
      va_LastVerifiedDate = ''2026-07-15'', va_Confidence = ''STATIC_CERTAIN''\<rparr>,
     \<lparr>va_Group = ''storage.k8s.io'', va_Version = ''v1beta1'', va_Resource = ''csinodes'',
      va_Kind = ''CSINode'', va_Namespaced = False, va_DeprecatedInVersion = ''1.17'',
      va_RemovedInVersion = ''1.22'', va_ReplacementAPI = ''storage.k8s.io/v1 CSINode'',
      va_ReplacementAPIVersion = ''storage.k8s.io/v1'',
      va_SupportedTargetRange = \<lparr>range_Min = ''1.22'', range_Max = ''1.39''\<rparr>,
      va_Source = ''Kubernetes Deprecated API Migration Guide'',
      va_Reference = (''https://kubernetes.io/docs/reference/using-api/deprecation-guide/#v1-22''),
      va_LastVerifiedDate = ''2026-07-15'', va_Confidence = ''STATIC_CERTAIN''\<rparr>,
     \<lparr>va_Group = ''storage.k8s.io'', va_Version = ''v1beta1'',
      va_Resource = ''storageclasses'', va_Kind = ''StorageClass'', va_Namespaced = False,
      va_DeprecatedInVersion = ''1.19'', va_RemovedInVersion = ''1.22'',
      va_ReplacementAPI = ''storage.k8s.io/v1 StorageClass'',
      va_ReplacementAPIVersion = ''storage.k8s.io/v1'',
      va_SupportedTargetRange = \<lparr>range_Min = ''1.22'', range_Max = ''1.39''\<rparr>,
      va_Source = ''Kubernetes Deprecated API Migration Guide'',
      va_Reference = (''https://kubernetes.io/docs/reference/using-api/deprecation-guide/#v1-22''),
      va_LastVerifiedDate = ''2026-07-15'', va_Confidence = ''STATIC_CERTAIN''\<rparr>,
     \<lparr>va_Group = ''storage.k8s.io'', va_Version = ''v1beta1'',
      va_Resource = ''volumeattachments'', va_Kind = ''VolumeAttachment'',
      va_Namespaced = False, va_DeprecatedInVersion = ''1.19'', va_RemovedInVersion = ''1.22'',
      va_ReplacementAPI = ''storage.k8s.io/v1 VolumeAttachment'',
      va_ReplacementAPIVersion = ''storage.k8s.io/v1'',
      va_SupportedTargetRange = \<lparr>range_Min = ''1.22'', range_Max = ''1.39''\<rparr>,
      va_Source = ''Kubernetes Deprecated API Migration Guide'',
      va_Reference = (''https://kubernetes.io/docs/reference/using-api/deprecation-guide/#v1-22''),
      va_LastVerifiedDate = ''2026-07-15'', va_Confidence = ''STATIC_CERTAIN''\<rparr>,
     \<lparr>va_Group = ''discovery.k8s.io'', va_Version = ''v1beta1'',
      va_Resource = ''endpointslices'', va_Kind = ''EndpointSlice'', va_Namespaced = True,
      va_DeprecatedInVersion = ''1.21'', va_RemovedInVersion = ''1.25'',
      va_ReplacementAPI = ''discovery.k8s.io/v1 EndpointSlice'',
      va_ReplacementAPIVersion = ''discovery.k8s.io/v1'',
      va_SupportedTargetRange = \<lparr>range_Min = ''1.25'', range_Max = ''1.39''\<rparr>,
      va_Source = ''Kubernetes Deprecated API Migration Guide'',
      va_Reference = (''https://kubernetes.io/docs/reference/using-api/deprecation-guide/#v1-25''),
      va_LastVerifiedDate = ''2026-07-15'', va_Confidence = ''STATIC_CERTAIN''\<rparr>,
     \<lparr>va_Group = ''events.k8s.io'', va_Version = ''v1beta1'', va_Resource = ''events'',
      va_Kind = ''Event'', va_Namespaced = True, va_DeprecatedInVersion = ''1.22'',
      va_RemovedInVersion = ''1.25'', va_ReplacementAPI = ''events.k8s.io/v1 Event'',
      va_ReplacementAPIVersion = ''events.k8s.io/v1'',
      va_SupportedTargetRange = \<lparr>range_Min = ''1.25'', range_Max = ''1.39''\<rparr>,
      va_Source = ''Kubernetes Deprecated API Migration Guide'',
      va_Reference = (''https://kubernetes.io/docs/reference/using-api/deprecation-guide/#v1-25''),
      va_LastVerifiedDate = ''2026-07-15'', va_Confidence = ''STATIC_CERTAIN''\<rparr>,
     \<lparr>va_Group = ''node.k8s.io'', va_Version = ''v1beta1'', va_Resource = ''runtimeclasses'',
      va_Kind = ''RuntimeClass'', va_Namespaced = False, va_DeprecatedInVersion = ''1.22'',
      va_RemovedInVersion = ''1.25'', va_ReplacementAPI = ''node.k8s.io/v1 RuntimeClass'',
      va_ReplacementAPIVersion = ''node.k8s.io/v1'',
      va_SupportedTargetRange = \<lparr>range_Min = ''1.25'', range_Max = ''1.39''\<rparr>,
      va_Source = ''Kubernetes Deprecated API Migration Guide'',
      va_Reference = (''https://kubernetes.io/docs/reference/using-api/deprecation-guide/#v1-25''),
      va_LastVerifiedDate = ''2026-07-15'', va_Confidence = ''STATIC_CERTAIN''\<rparr>,
     \<lparr>va_Group = ''autoscaling'', va_Version = ''v2beta1'',
      va_Resource = ''horizontalpodautoscalers'', va_Kind = ''HorizontalPodAutoscaler'',
      va_Namespaced = True, va_DeprecatedInVersion = ''1.22'', va_RemovedInVersion = ''1.25'',
      va_ReplacementAPI = ''autoscaling/v2 HorizontalPodAutoscaler'',
      va_ReplacementAPIVersion = ''autoscaling/v2'',
      va_SupportedTargetRange = \<lparr>range_Min = ''1.25'', range_Max = ''1.39''\<rparr>,
      va_Source = ''Kubernetes Deprecated API Migration Guide'',
      va_Reference = (''https://kubernetes.io/docs/reference/using-api/deprecation-guide/#v1-25''),
      va_LastVerifiedDate = ''2026-07-15'', va_Confidence = ''STATIC_CERTAIN''\<rparr>,
     \<lparr>va_Group = ''flowcontrol.apiserver.k8s.io'', va_Version = ''v1beta1'',
      va_Resource = ''flowschemas'', va_Kind = ''FlowSchema'', va_Namespaced = False,
      va_DeprecatedInVersion = ''1.23'', va_RemovedInVersion = ''1.26'',
      va_ReplacementAPI = ''flowcontrol.apiserver.k8s.io/v1 FlowSchema'',
      va_ReplacementAPIVersion = ''flowcontrol.apiserver.k8s.io/v1'',
      va_SupportedTargetRange = \<lparr>range_Min = ''1.26'', range_Max = ''1.39''\<rparr>,
      va_Source = ''Kubernetes Deprecated API Migration Guide'',
      va_Reference = (''https://kubernetes.io/docs/reference/using-api/deprecation-guide/#v1-26''),
      va_LastVerifiedDate = ''2026-07-15'', va_Confidence = ''STATIC_CERTAIN''\<rparr>,
     \<lparr>va_Group = ''flowcontrol.apiserver.k8s.io'', va_Version = ''v1beta1'',
      va_Resource = ''prioritylevelconfigurations'', va_Kind = ''PriorityLevelConfiguration'',
      va_Namespaced = False, va_DeprecatedInVersion = ''1.23'', va_RemovedInVersion = ''1.26'',
      va_ReplacementAPI = ''flowcontrol.apiserver.k8s.io/v1 PriorityLevelConfiguration'',
      va_ReplacementAPIVersion = ''flowcontrol.apiserver.k8s.io/v1'',
      va_SupportedTargetRange = \<lparr>range_Min = ''1.26'', range_Max = ''1.39''\<rparr>,
      va_Source = ''Kubernetes Deprecated API Migration Guide'',
      va_Reference = (''https://kubernetes.io/docs/reference/using-api/deprecation-guide/#v1-26''),
      va_LastVerifiedDate = ''2026-07-15'', va_Confidence = ''STATIC_CERTAIN''\<rparr>,
     \<lparr>va_Group = ''extensions'', va_Version = ''v1beta1'',
      va_Resource = ''podsecuritypolicies'', va_Kind = ''PodSecurityPolicy'',
      va_Namespaced = False, va_DeprecatedInVersion = ''1.10'', va_RemovedInVersion = ''1.16'',
      va_ReplacementAPI = ''policy/v1beta1 PodSecurityPolicy'',
      va_ReplacementAPIVersion = ''policy/v1beta1'',
      va_SupportedTargetRange = \<lparr>range_Min = ''1.16'', range_Max = ''1.39''\<rparr>,
      va_Source = (''Kubernetes Deprecated API Migration Guide (deprecatedInVersion ''
                         @ ''inferred from policy/v1beta1 PodSecurityPolicy'' @ sq
                         @ ''s availability since v1.10 -- no dated deprecation ''
                         @ ''announcement was found for this specific extensions/v1beta1 ''
                         @ ''removal; removedInVersion is independently confirmed)''),
      va_Reference = (''https://kubernetes.io/docs/reference/using-api/deprecation-guide/#v1-16''),
      va_LastVerifiedDate = ''2026-07-15'', va_Confidence = ''STATIC_CERTAIN''\<rparr>,
     \<lparr>va_Group = ''storage.k8s.io'', va_Version = ''v1beta1'',
      va_Resource = ''csistoragecapacities'', va_Kind = ''CSIStorageCapacity'',
      va_Namespaced = True, va_DeprecatedInVersion = ''1.24'', va_RemovedInVersion = ''1.27'',
      va_ReplacementAPI = ''storage.k8s.io/v1 CSIStorageCapacity'',
      va_ReplacementAPIVersion = ''storage.k8s.io/v1'',
      va_SupportedTargetRange = \<lparr>range_Min = ''1.27'', range_Max = ''1.39''\<rparr>,
      va_Source = ''Kubernetes Deprecated API Migration Guide'',
      va_Reference = (''https://kubernetes.io/docs/reference/using-api/deprecation-guide/#v1-27''),
      va_LastVerifiedDate = ''2026-07-15'', va_Confidence = ''STATIC_CERTAIN''\<rparr>]"

definition default_versioned_document :: VersionedDocument where
  "default_versioned_document =
     \<lparr>vd_SchemaVersion = ''apicatalog.kubepreflight.io/v1'', vd_Entries = default_versioned_entries,
      vd_BuildSupportedTargetRange = \<lparr>range_Min = ''1.25'', range_Max = ''1.39''\<rparr>\<rparr>"

definition DefaultVersioned :: "VersionedCatalog outcome" where
  "DefaultVersioned = NewVersioned default_versioned_document"

definition legacyDeprecatedSnapshot :: "DeprecatedAPI list" where
  "legacyDeprecatedSnapshot =
    [
     \<lparr>dep_Group = ''policy'', dep_Version = ''v1beta1'',
      dep_Resource = ''podsecuritypolicies'', dep_Kind = ''PodSecurityPolicy'',
      dep_Namespaced = False, dep_RemovedInVersion = ''1.25'',
      dep_Replacement = ''Pod Security Admission or a policy engine (Kyverno/Gatekeeper)'',
      dep_ReplacementAPIVersion = ''''\<rparr>,
     \<lparr>dep_Group = ''extensions'', dep_Version = ''v1beta1'', dep_Resource = ''deployments'',
      dep_Kind = ''Deployment'', dep_Namespaced = True, dep_RemovedInVersion = ''1.16'',
      dep_Replacement = ''apps/v1 Deployment'', dep_ReplacementAPIVersion = ''apps/v1''\<rparr>,
     \<lparr>dep_Group = ''extensions'', dep_Version = ''v1beta1'', dep_Resource = ''daemonsets'',
      dep_Kind = ''DaemonSet'', dep_Namespaced = True, dep_RemovedInVersion = ''1.16'',
      dep_Replacement = ''apps/v1 DaemonSet'', dep_ReplacementAPIVersion = ''apps/v1''\<rparr>,
     \<lparr>dep_Group = ''autoscaling'', dep_Version = ''v2beta2'',
      dep_Resource = ''horizontalpodautoscalers'', dep_Kind = ''HorizontalPodAutoscaler'',
      dep_Namespaced = True, dep_RemovedInVersion = ''1.26'',
      dep_Replacement = ''autoscaling/v2 HorizontalPodAutoscaler'',
      dep_ReplacementAPIVersion = ''autoscaling/v2''\<rparr>,
     \<lparr>dep_Group = ''policy'', dep_Version = ''v1beta1'',
      dep_Resource = ''poddisruptionbudgets'', dep_Kind = ''PodDisruptionBudget'',
      dep_Namespaced = True, dep_RemovedInVersion = ''1.25'',
      dep_Replacement = ''policy/v1 PodDisruptionBudget'',
      dep_ReplacementAPIVersion = ''policy/v1''\<rparr>,
     \<lparr>dep_Group = ''apps'', dep_Version = ''v1beta1'', dep_Resource = ''deployments'',
      dep_Kind = ''Deployment'', dep_Namespaced = True, dep_RemovedInVersion = ''1.16'',
      dep_Replacement = ''apps/v1 Deployment'', dep_ReplacementAPIVersion = ''apps/v1''\<rparr>,
     \<lparr>dep_Group = ''apps'', dep_Version = ''v1beta2'', dep_Resource = ''deployments'',
      dep_Kind = ''Deployment'', dep_Namespaced = True, dep_RemovedInVersion = ''1.16'',
      dep_Replacement = ''apps/v1 Deployment'', dep_ReplacementAPIVersion = ''apps/v1''\<rparr>,
     \<lparr>dep_Group = ''apps'', dep_Version = ''v1beta2'', dep_Resource = ''daemonsets'',
      dep_Kind = ''DaemonSet'', dep_Namespaced = True, dep_RemovedInVersion = ''1.16'',
      dep_Replacement = ''apps/v1 DaemonSet'', dep_ReplacementAPIVersion = ''apps/v1''\<rparr>,
     \<lparr>dep_Group = ''apps'', dep_Version = ''v1beta2'', dep_Resource = ''replicasets'',
      dep_Kind = ''ReplicaSet'', dep_Namespaced = True, dep_RemovedInVersion = ''1.16'',
      dep_Replacement = ''apps/v1 ReplicaSet'', dep_ReplacementAPIVersion = ''apps/v1''\<rparr>,
     \<lparr>dep_Group = ''extensions'', dep_Version = ''v1beta1'', dep_Resource = ''replicasets'',
      dep_Kind = ''ReplicaSet'', dep_Namespaced = True, dep_RemovedInVersion = ''1.16'',
      dep_Replacement = ''apps/v1 ReplicaSet'', dep_ReplacementAPIVersion = ''apps/v1''\<rparr>,
     \<lparr>dep_Group = ''extensions'', dep_Version = ''v1beta1'',
      dep_Resource = ''networkpolicies'', dep_Kind = ''NetworkPolicy'', dep_Namespaced = True,
      dep_RemovedInVersion = ''1.16'',
      dep_Replacement = ''networking.k8s.io/v1 NetworkPolicy'',
      dep_ReplacementAPIVersion = ''networking.k8s.io/v1''\<rparr>,
     \<lparr>dep_Group = ''apps'', dep_Version = ''v1beta1'', dep_Resource = ''statefulsets'',
      dep_Kind = ''StatefulSet'', dep_Namespaced = True, dep_RemovedInVersion = ''1.16'',
      dep_Replacement = ''apps/v1 StatefulSet'', dep_ReplacementAPIVersion = ''apps/v1''\<rparr>,
     \<lparr>dep_Group = ''apps'', dep_Version = ''v1beta2'', dep_Resource = ''statefulsets'',
      dep_Kind = ''StatefulSet'', dep_Namespaced = True, dep_RemovedInVersion = ''1.16'',
      dep_Replacement = ''apps/v1 StatefulSet'', dep_ReplacementAPIVersion = ''apps/v1''\<rparr>,
     \<lparr>dep_Group = ''extensions'', dep_Version = ''v1beta1'', dep_Resource = ''ingresses'',
      dep_Kind = ''Ingress'', dep_Namespaced = True, dep_RemovedInVersion = ''1.22'',
      dep_Replacement = ''networking.k8s.io/v1 Ingress'',
      dep_ReplacementAPIVersion = ''networking.k8s.io/v1''\<rparr>,
     \<lparr>dep_Group = ''networking.k8s.io'', dep_Version = ''v1beta1'',
      dep_Resource = ''ingresses'', dep_Kind = ''Ingress'', dep_Namespaced = True,
      dep_RemovedInVersion = ''1.22'', dep_Replacement = ''networking.k8s.io/v1 Ingress'',
      dep_ReplacementAPIVersion = ''networking.k8s.io/v1''\<rparr>,
     \<lparr>dep_Group = ''networking.k8s.io'', dep_Version = ''v1beta1'',
      dep_Resource = ''ingressclasses'', dep_Kind = ''IngressClass'', dep_Namespaced = False,
      dep_RemovedInVersion = ''1.22'', dep_Replacement = ''networking.k8s.io/v1 IngressClass'',
      dep_ReplacementAPIVersion = ''networking.k8s.io/v1''\<rparr>,
     \<lparr>dep_Group = ''apiextensions.k8s.io'', dep_Version = ''v1beta1'',
      dep_Resource = ''customresourcedefinitions'', dep_Kind = ''CustomResourceDefinition'',
      dep_Namespaced = False, dep_RemovedInVersion = ''1.22'',
      dep_Replacement = ''apiextensions.k8s.io/v1 CustomResourceDefinition'',
      dep_ReplacementAPIVersion = ''apiextensions.k8s.io/v1''\<rparr>,
     \<lparr>dep_Group = ''admissionregistration.k8s.io'', dep_Version = ''v1beta1'',
      dep_Resource = ''validatingwebhookconfigurations'',
      dep_Kind = ''ValidatingWebhookConfiguration'', dep_Namespaced = False,
      dep_RemovedInVersion = ''1.22'',
      dep_Replacement = ''admissionregistration.k8s.io/v1 ValidatingWebhookConfiguration'',
      dep_ReplacementAPIVersion = ''admissionregistration.k8s.io/v1''\<rparr>,
     \<lparr>dep_Group = ''admissionregistration.k8s.io'', dep_Version = ''v1beta1'',
      dep_Resource = ''mutatingwebhookconfigurations'',
      dep_Kind = ''MutatingWebhookConfiguration'', dep_Namespaced = False,
      dep_RemovedInVersion = ''1.22'',
      dep_Replacement = ''admissionregistration.k8s.io/v1 MutatingWebhookConfiguration'',
      dep_ReplacementAPIVersion = ''admissionregistration.k8s.io/v1''\<rparr>,
     \<lparr>dep_Group = ''apiregistration.k8s.io'', dep_Version = ''v1beta1'',
      dep_Resource = ''apiservices'', dep_Kind = ''APIService'', dep_Namespaced = False,
      dep_RemovedInVersion = ''1.22'',
      dep_Replacement = ''apiregistration.k8s.io/v1 APIService'',
      dep_ReplacementAPIVersion = ''apiregistration.k8s.io/v1''\<rparr>,
     \<lparr>dep_Group = ''certificates.k8s.io'', dep_Version = ''v1beta1'',
      dep_Resource = ''certificatesigningrequests'', dep_Kind = ''CertificateSigningRequest'',
      dep_Namespaced = False, dep_RemovedInVersion = ''1.22'',
      dep_Replacement = ''certificates.k8s.io/v1 CertificateSigningRequest'',
      dep_ReplacementAPIVersion = ''certificates.k8s.io/v1''\<rparr>,
     \<lparr>dep_Group = ''coordination.k8s.io'', dep_Version = ''v1beta1'',
      dep_Resource = ''leases'', dep_Kind = ''Lease'', dep_Namespaced = True,
      dep_RemovedInVersion = ''1.22'', dep_Replacement = ''coordination.k8s.io/v1 Lease'',
      dep_ReplacementAPIVersion = ''coordination.k8s.io/v1''\<rparr>,
     \<lparr>dep_Group = ''rbac.authorization.k8s.io'', dep_Version = ''v1beta1'',
      dep_Resource = ''roles'', dep_Kind = ''Role'', dep_Namespaced = True,
      dep_RemovedInVersion = ''1.22'', dep_Replacement = ''rbac.authorization.k8s.io/v1 Role'',
      dep_ReplacementAPIVersion = ''rbac.authorization.k8s.io/v1''\<rparr>,
     \<lparr>dep_Group = ''rbac.authorization.k8s.io'', dep_Version = ''v1beta1'',
      dep_Resource = ''rolebindings'', dep_Kind = ''RoleBinding'', dep_Namespaced = True,
      dep_RemovedInVersion = ''1.22'',
      dep_Replacement = ''rbac.authorization.k8s.io/v1 RoleBinding'',
      dep_ReplacementAPIVersion = ''rbac.authorization.k8s.io/v1''\<rparr>,
     \<lparr>dep_Group = ''rbac.authorization.k8s.io'', dep_Version = ''v1beta1'',
      dep_Resource = ''clusterroles'', dep_Kind = ''ClusterRole'', dep_Namespaced = False,
      dep_RemovedInVersion = ''1.22'',
      dep_Replacement = ''rbac.authorization.k8s.io/v1 ClusterRole'',
      dep_ReplacementAPIVersion = ''rbac.authorization.k8s.io/v1''\<rparr>,
     \<lparr>dep_Group = ''rbac.authorization.k8s.io'', dep_Version = ''v1beta1'',
      dep_Resource = ''clusterrolebindings'', dep_Kind = ''ClusterRoleBinding'',
      dep_Namespaced = False, dep_RemovedInVersion = ''1.22'',
      dep_Replacement = ''rbac.authorization.k8s.io/v1 ClusterRoleBinding'',
      dep_ReplacementAPIVersion = ''rbac.authorization.k8s.io/v1''\<rparr>,
     \<lparr>dep_Group = ''scheduling.k8s.io'', dep_Version = ''v1beta1'',
      dep_Resource = ''priorityclasses'', dep_Kind = ''PriorityClass'', dep_Namespaced = False,
      dep_RemovedInVersion = ''1.22'',
      dep_Replacement = ''scheduling.k8s.io/v1 PriorityClass'',
      dep_ReplacementAPIVersion = ''scheduling.k8s.io/v1''\<rparr>,
     \<lparr>dep_Group = ''storage.k8s.io'', dep_Version = ''v1beta1'', dep_Resource = ''csidrivers'',
      dep_Kind = ''CSIDriver'', dep_Namespaced = False, dep_RemovedInVersion = ''1.22'',
      dep_Replacement = ''storage.k8s.io/v1 CSIDriver'',
      dep_ReplacementAPIVersion = ''storage.k8s.io/v1''\<rparr>,
     \<lparr>dep_Group = ''storage.k8s.io'', dep_Version = ''v1beta1'', dep_Resource = ''csinodes'',
      dep_Kind = ''CSINode'', dep_Namespaced = False, dep_RemovedInVersion = ''1.22'',
      dep_Replacement = ''storage.k8s.io/v1 CSINode'',
      dep_ReplacementAPIVersion = ''storage.k8s.io/v1''\<rparr>,
     \<lparr>dep_Group = ''storage.k8s.io'', dep_Version = ''v1beta1'',
      dep_Resource = ''storageclasses'', dep_Kind = ''StorageClass'', dep_Namespaced = False,
      dep_RemovedInVersion = ''1.22'', dep_Replacement = ''storage.k8s.io/v1 StorageClass'',
      dep_ReplacementAPIVersion = ''storage.k8s.io/v1''\<rparr>,
     \<lparr>dep_Group = ''storage.k8s.io'', dep_Version = ''v1beta1'',
      dep_Resource = ''volumeattachments'', dep_Kind = ''VolumeAttachment'',
      dep_Namespaced = False, dep_RemovedInVersion = ''1.22'',
      dep_Replacement = ''storage.k8s.io/v1 VolumeAttachment'',
      dep_ReplacementAPIVersion = ''storage.k8s.io/v1''\<rparr>,
     \<lparr>dep_Group = ''batch'', dep_Version = ''v1beta1'', dep_Resource = ''cronjobs'',
      dep_Kind = ''CronJob'', dep_Namespaced = True, dep_RemovedInVersion = ''1.25'',
      dep_Replacement = ''batch/v1 CronJob'', dep_ReplacementAPIVersion = ''batch/v1''\<rparr>,
     \<lparr>dep_Group = ''discovery.k8s.io'', dep_Version = ''v1beta1'',
      dep_Resource = ''endpointslices'', dep_Kind = ''EndpointSlice'', dep_Namespaced = True,
      dep_RemovedInVersion = ''1.25'', dep_Replacement = ''discovery.k8s.io/v1 EndpointSlice'',
      dep_ReplacementAPIVersion = ''discovery.k8s.io/v1''\<rparr>,
     \<lparr>dep_Group = ''events.k8s.io'', dep_Version = ''v1beta1'', dep_Resource = ''events'',
      dep_Kind = ''Event'', dep_Namespaced = True, dep_RemovedInVersion = ''1.25'',
      dep_Replacement = ''events.k8s.io/v1 Event'',
      dep_ReplacementAPIVersion = ''events.k8s.io/v1''\<rparr>,
     \<lparr>dep_Group = ''node.k8s.io'', dep_Version = ''v1beta1'',
      dep_Resource = ''runtimeclasses'', dep_Kind = ''RuntimeClass'', dep_Namespaced = False,
      dep_RemovedInVersion = ''1.25'', dep_Replacement = ''node.k8s.io/v1 RuntimeClass'',
      dep_ReplacementAPIVersion = ''node.k8s.io/v1''\<rparr>,
     \<lparr>dep_Group = ''autoscaling'', dep_Version = ''v2beta1'',
      dep_Resource = ''horizontalpodautoscalers'', dep_Kind = ''HorizontalPodAutoscaler'',
      dep_Namespaced = True, dep_RemovedInVersion = ''1.25'',
      dep_Replacement = ''autoscaling/v2 HorizontalPodAutoscaler'',
      dep_ReplacementAPIVersion = ''autoscaling/v2''\<rparr>,
     \<lparr>dep_Group = ''flowcontrol.apiserver.k8s.io'', dep_Version = ''v1beta1'',
      dep_Resource = ''flowschemas'', dep_Kind = ''FlowSchema'', dep_Namespaced = False,
      dep_RemovedInVersion = ''1.26'',
      dep_Replacement = ''flowcontrol.apiserver.k8s.io/v1 FlowSchema'',
      dep_ReplacementAPIVersion = ''flowcontrol.apiserver.k8s.io/v1''\<rparr>,
     \<lparr>dep_Group = ''flowcontrol.apiserver.k8s.io'', dep_Version = ''v1beta1'',
      dep_Resource = ''prioritylevelconfigurations'',
      dep_Kind = ''PriorityLevelConfiguration'', dep_Namespaced = False,
      dep_RemovedInVersion = ''1.26'',
      dep_Replacement = ''flowcontrol.apiserver.k8s.io/v1 PriorityLevelConfiguration'',
      dep_ReplacementAPIVersion = ''flowcontrol.apiserver.k8s.io/v1''\<rparr>,
     \<lparr>dep_Group = ''flowcontrol.apiserver.k8s.io'', dep_Version = ''v1beta2'',
      dep_Resource = ''flowschemas'', dep_Kind = ''FlowSchema'', dep_Namespaced = False,
      dep_RemovedInVersion = ''1.29'',
      dep_Replacement = ''flowcontrol.apiserver.k8s.io/v1 FlowSchema'',
      dep_ReplacementAPIVersion = ''flowcontrol.apiserver.k8s.io/v1''\<rparr>,
     \<lparr>dep_Group = ''flowcontrol.apiserver.k8s.io'', dep_Version = ''v1beta2'',
      dep_Resource = ''prioritylevelconfigurations'',
      dep_Kind = ''PriorityLevelConfiguration'', dep_Namespaced = False,
      dep_RemovedInVersion = ''1.29'',
      dep_Replacement = ''flowcontrol.apiserver.k8s.io/v1 PriorityLevelConfiguration'',
      dep_ReplacementAPIVersion = ''flowcontrol.apiserver.k8s.io/v1''\<rparr>,
     \<lparr>dep_Group = ''flowcontrol.apiserver.k8s.io'', dep_Version = ''v1beta3'',
      dep_Resource = ''flowschemas'', dep_Kind = ''FlowSchema'', dep_Namespaced = False,
      dep_RemovedInVersion = ''1.32'',
      dep_Replacement = ''flowcontrol.apiserver.k8s.io/v1 FlowSchema'',
      dep_ReplacementAPIVersion = ''flowcontrol.apiserver.k8s.io/v1''\<rparr>,
     \<lparr>dep_Group = ''flowcontrol.apiserver.k8s.io'', dep_Version = ''v1beta3'',
      dep_Resource = ''prioritylevelconfigurations'',
      dep_Kind = ''PriorityLevelConfiguration'', dep_Namespaced = False,
      dep_RemovedInVersion = ''1.32'',
      dep_Replacement = ''flowcontrol.apiserver.k8s.io/v1 PriorityLevelConfiguration'',
      dep_ReplacementAPIVersion = ''flowcontrol.apiserver.k8s.io/v1''\<rparr>,
     \<lparr>dep_Group = ''extensions'', dep_Version = ''v1beta1'',
      dep_Resource = ''podsecuritypolicies'', dep_Kind = ''PodSecurityPolicy'',
      dep_Namespaced = False, dep_RemovedInVersion = ''1.16'',
      dep_Replacement = ''policy/v1beta1 PodSecurityPolicy'',
      dep_ReplacementAPIVersion = ''policy/v1beta1''\<rparr>,
     \<lparr>dep_Group = ''storage.k8s.io'', dep_Version = ''v1beta1'',
      dep_Resource = ''csistoragecapacities'', dep_Kind = ''CSIStorageCapacity'',
      dep_Namespaced = True, dep_RemovedInVersion = ''1.27'',
      dep_Replacement = ''storage.k8s.io/v1 CSIStorageCapacity'',
      dep_ReplacementAPIVersion = ''storage.k8s.io/v1''\<rparr>]"

definition Deprecated :: "DeprecatedAPI list outcome" where
  "Deprecated = legacyFromVersioned DefaultVersioned"

definition LegacyParityIssues :: "string list outcome" where
  "LegacyParityIssues =
     bind_outcome DefaultVersioned (\<lambda>vc. Done (legacyParityIssuesAgainst vc legacyDeprecatedSnapshot))"

end
