(* ===== verification/ManifestCollector.thy ===== *)
theory ManifestCollector
  imports RulesBase "HOL-Library.AList"
begin

text \<open>
  The manifest collector (\<open>internal/collectors/manifest/collector.go\<close>): the objects at deprecated
  API versions and the workloads of raw manifest directories and of rendered Helm charts.

  The YAML decoder, the accessors of \<open>unstructured.Unstructured\<close>, the file system and the
  \<open>helm\<close> binary are the parameters of the model (\<open>manifest_lib\<close>); \<open>apicatalog.Deprecated\<close>
  is an argument, which the theory of the API catalogue computes. The decoder is a state machine:
  a call of \<open>Decode\<close> gives a result and the decoder's next state. The loop of
  \<open>matchManifestObjects\<close> leaves only at the end of the stream, so it is a partial function, and
  whether it returns is a property of the decoder that is proved, not assumed.

  The package \<open>path/filepath\<close> is modelled as it behaves on Unix.
\<close>

section \<open>Paths\<close>

definition strip_slashes :: "string \<Rightarrow> string" where
  "strip_slashes p = rev (dropWhile (\<lambda>c. c = CHR ''/'') (rev p))"

definition last_element :: "string \<Rightarrow> string" where
  "last_element p = rev (takeWhile (\<lambda>c. c \<noteq> CHR ''/'') (rev p))"

definition filepath_Base :: "string \<Rightarrow> string" where
  "filepath_Base p =
     (if p = '''' then ''.''
      else let e = last_element (strip_slashes p) in if e = '''' then ''/'' else e)"

definition filepath_Ext :: "string \<Rightarrow> string" where
  \<comment> \<open>the suffix from the last dot of the last element\<close>
  "filepath_Ext p =
     (let e = last_element p
      in if CHR ''.'' \<in> set e
         then CHR ''.'' # rev (takeWhile (\<lambda>c. c \<noteq> CHR ''.'') (rev e)) else '''')"

text \<open>
  \<open>filepath.Clean\<close>: a path is rooted or not, and a list of elements. A double dot removes the
  element before it; it stays where there is none and the path is not rooted.
\<close>

definition rooted :: "string \<Rightarrow> bool" where
  "rooted p \<longleftrightarrow> p \<noteq> [] \<and> hd p = CHR ''/''"

definition push_element :: "bool \<Rightarrow> string list \<Rightarrow> string \<Rightarrow> string list" where
  \<comment> \<open>the elements so far, last one first\<close>
  "push_element rt acc e =
     (if e = '''' \<or> e = ''.'' then acc
      else if e = ''..''
      then (if acc \<noteq> [] \<and> hd acc \<noteq> ''..'' then tl acc else if rt then acc else e # acc)
      else e # acc)"

definition clean_elements :: "string \<Rightarrow> string list" where
  "clean_elements p = rev (foldl (push_element (rooted p)) [] (Split p (CHR ''/'')))"

fun drop_common :: "string list \<Rightarrow> string list \<Rightarrow> string list \<times> string list" where
  "drop_common (b # base) (t # targ) =
     (if b = t then drop_common base targ else (b # base, t # targ))"
| "drop_common base targ = (base, targ)"

text \<open>
  \<open>filepath.Rel\<close>; \<open>None\<close> is its error. Equal paths give a single dot; what is left of the base
  becomes double dots.
\<close>

definition filepath_Rel :: "string \<Rightarrow> string \<Rightarrow> string option" where
  "filepath_Rel basepath targpath =
     (let base = clean_elements basepath; targ = clean_elements targpath
      in if rooted basepath = rooted targpath \<and> base = targ then Some ''.''
         else if rooted basepath \<noteq> rooted targpath then None
         else (case drop_common base targ of (b, t) \<Rightarrow>
                 if b \<noteq> [] \<and> hd b = ''..'' then None
                 else Some (Join (replicate (length b) ''..'' @ t) ''/'')))"

definition relativeSourcePath :: "string \<Rightarrow> string \<Rightarrow> string" where
  "relativeSourcePath root path =
     (if root = path then filepath_Base path
      else (case filepath_Rel root path of
              None \<Rightarrow> filepath_Base path
            | Some rel \<Rightarrow> if HasPrefix rel ''..'' then filepath_Base path else rel))"

section \<open>The libraries and the system\<close>

type_synonym object = "(string \<times> json) list"

text \<open>
  A result of \<open>Decode\<close>: the end of the stream, another error, or a document. A document that
  leaves \<open>obj.Object\<close> nil is \<open>Decoded None\<close>.
\<close>

datatype decode_result = DecodeEOF | DecodeError string | Decoded "object option"

datatype stat_result = StatFound | StatNotExist | StatError string

text \<open>
  One call \<open>filepath.WalkDir\<close> makes of its function: a path that cannot be visited, a directory,
  or a file. \<open>manifest_lib\<close> gives the calls it makes as long as the function returns nil.
\<close>

datatype walk_event = WalkError string | WalkDirectory string | WalkFile string

record 's manifest_lib =
  ml_NewDecoder :: "string \<Rightarrow> 's"
  ml_Decode :: "'s \<Rightarrow> decode_result \<times> 's"
  ml_GVK :: "object \<Rightarrow> string \<times> string \<times> string" \<comment> \<open>group, version and kind\<close>
  ml_Kind :: "object \<Rightarrow> string"
  ml_Namespace :: "object \<Rightarrow> string"
  ml_Name :: "object \<Rightarrow> string"
  ml_Labels :: "object \<Rightarrow> labels"
  ml_NestedMap :: "object \<Rightarrow> string list \<Rightarrow> object option"
  ml_NestedInt64 :: "object \<Rightarrow> string list \<Rightarrow> int option"
  fs_Stat :: "string \<Rightarrow> stat_result"
  fs_WalkDir :: "string \<Rightarrow> walk_event list"
  fs_ReadFile :: "string \<Rightarrow> string + string" \<comment> \<open>the error's text or the content\<close>
  helm_Run :: "string list \<Rightarrow> (string \<times> string) + string"
    \<comment> \<open>the error's text and the standard error output, or the standard output\<close>

section \<open>Documents\<close>

fun manifestPodSpecPath :: "string \<Rightarrow> (string \<times> string list)" where
  \<comment> \<open>of the object's kind\<close>
  "manifestPodSpecPath kind =
     (if kind \<in> {''Deployment'', ''DaemonSet'', ''StatefulSet'', ''Job''}
      then (''spec.template.spec'', [''spec'', ''template'', ''spec''])
      else if kind = ''CronJob''
      then (''spec.jobTemplate.spec.template.spec'',
            [''spec'', ''jobTemplate'', ''spec'', ''template'', ''spec''])
      else if kind = ''Pod'' then (''spec'', [''spec'']) else ('''', []))"

declare manifestPodSpecPath.simps [simp del]

definition manifestReplicas :: "'s manifest_lib \<Rightarrow> object \<Rightarrow> int option" where
  "manifestReplicas lib obj =
     (if ml_Kind lib obj = ''Deployment'' \<or> ml_Kind lib obj = ''StatefulSet''
      then ml_NestedInt64 lib obj [''spec'', ''replicas''] else None)"

definition manifestWorkloadObject ::
  "'s manifest_lib \<Rightarrow> object \<Rightarrow> string \<Rightarrow> WorkloadObject option" where
  "manifestWorkloadObject lib obj sourcePath =
     (let podSpecPath = fst (manifestPodSpecPath (ml_Kind lib obj));
          fields = snd (manifestPodSpecPath (ml_Kind lib obj))
      in if podSpecPath = '''' then None
         else (case ml_NestedMap lib obj fields of
                 None \<Rightarrow> None
               | Some podSpec \<Rightarrow>
                   Some \<lparr>wo_Kind = ml_Kind lib obj, wo_Namespace = ml_Namespace lib obj,
                     wo_Name = ml_Name lib obj, wo_SourcePath = sourcePath,
                     wo_Labels = ml_Labels lib obj, wo_PodSpec = podSpec,
                     wo_PodSpecPath = podSpecPath, wo_Replicas = manifestReplicas lib obj\<rparr>))"

definition find_deprecated ::
  "DeprecatedAPI list \<Rightarrow> string \<times> string \<times> string \<Rightarrow> DeprecatedAPI option" where
  \<comment> \<open>the loop over \<open>apicatalog.Deprecated\<close>, which breaks at the first match\<close>
  "find_deprecated catalog gvk =
     find (\<lambda>dep. (dep_Group dep, dep_Version dep, dep_Kind dep) = gvk) catalog"

definition deprecated_object ::
  "'s manifest_lib \<Rightarrow> object \<Rightarrow> string \<Rightarrow> DeprecatedAPI \<Rightarrow> ManifestDeprecatedAPIObject" where
  "deprecated_object lib obj sourcePath dep =
     DeprecatedAPI.extend dep (ManifestDeprecatedAPIObject.fields
       (ml_Namespace lib obj) (ml_Name lib obj) sourcePath)"

definition record_document ::
  "'s manifest_lib \<Rightarrow> DeprecatedAPI list \<Rightarrow> string \<Rightarrow> bool \<Rightarrow> object \<Rightarrow> ManifestSnapshot
   \<Rightarrow> ManifestSnapshot" where
  \<comment> \<open>the body of the loop of \<open>matchManifestObjects\<close> for a decoded object\<close>
  "record_document lib catalog sourcePath includeWorkloads obj snap =
     (if snd (snd (ml_GVK lib obj)) = '''' then snap
      else let snap = (case find_deprecated catalog (ml_GVK lib obj) of
                         None \<Rightarrow> snap
                       | Some dep \<Rightarrow> snap\<lparr>m_DeprecatedAPIUsage := m_DeprecatedAPIUsage snap
                           @ [deprecated_object lib obj sourcePath dep]\<rparr>)
           in if includeWorkloads
              then (case manifestWorkloadObject lib obj sourcePath of
                      None \<Rightarrow> snap
                    | Some w \<Rightarrow> snap\<lparr>m_Workloads := m_Workloads snap @ [w]\<rparr>)
              else snap)"

section \<open>Streams\<close>

text \<open>
  The loop of \<open>matchManifestObjects\<close>: the first error so far, the snapshot and the decoder's
  state. A decoding error is remembered and the loop goes on.
\<close>

partial_function (option) decode_loop ::
  "('s \<Rightarrow> decode_result \<times> 's) \<Rightarrow> (object \<Rightarrow> ManifestSnapshot \<Rightarrow> ManifestSnapshot) \<Rightarrow> string
   \<Rightarrow> string option \<Rightarrow> ManifestSnapshot \<Rightarrow> 's \<Rightarrow> (string option \<times> ManifestSnapshot) option" where
  "decode_loop decode rec sourcePath firstErr snap st =
     (case decode st of (result, st') \<Rightarrow>
       (case result of
          DecodeEOF \<Rightarrow> Some (firstErr, snap)
        | DecodeError err \<Rightarrow>
            decode_loop decode rec sourcePath
              (if firstErr = None then Some (''decoding '' @ sourcePath @ '': '' @ err)
               else firstErr) snap st'
        | Decoded None \<Rightarrow> decode_loop decode rec sourcePath firstErr snap st'
        | Decoded (Some obj) \<Rightarrow>
            decode_loop decode rec sourcePath firstErr (rec obj snap) st'))"

declare decode_loop.simps [code]

definition matchManifestObjects ::
  "'s manifest_lib \<Rightarrow> DeprecatedAPI list \<Rightarrow> string \<Rightarrow> string \<Rightarrow> ManifestSnapshot \<Rightarrow> bool
   \<Rightarrow> (string option \<times> ManifestSnapshot) option" where
  "matchManifestObjects lib catalog raw sourcePath snap includeWorkloads =
     decode_loop (ml_Decode lib) (record_document lib catalog sourcePath includeWorkloads)
       sourcePath None snap (ml_NewDecoder lib raw)"

definition matchDeprecatedAPIs ::
  "'s manifest_lib \<Rightarrow> DeprecatedAPI list \<Rightarrow> string \<Rightarrow> string \<Rightarrow> ManifestSnapshot
   \<Rightarrow> (string option \<times> ManifestSnapshot) option" where
  "matchDeprecatedAPIs lib catalog raw sourcePath snap =
     matchManifestObjects lib catalog raw sourcePath snap False"

section \<open>Directories and charts\<close>

definition set_error :: "string \<Rightarrow> string \<Rightarrow> ManifestSnapshot \<Rightarrow> ManifestSnapshot" where
  \<comment> \<open>\<open>snap.Errors[k] = err\<close>\<close>
  "set_error k err snap = snap\<lparr>m_Errors := AList.update k err (m_Errors snap)\<rparr>"

definition note_error :: "string \<Rightarrow> string option \<times> ManifestSnapshot \<Rightarrow> ManifestSnapshot" where
  \<comment> \<open>the same for an error that may be nil\<close>
  "note_error k r = (case fst r of None \<Rightarrow> snd r | Some err \<Rightarrow> set_error k err (snd r))"

definition yaml_file :: "string \<Rightarrow> bool" where
  "yaml_file path \<longleftrightarrow> ToLower (filepath_Ext path) \<in> {''.yaml'', ''.yml''}"

text \<open>
  The walk of \<open>scanDir\<close>. The function it passes to \<open>WalkDir\<close> returns an error for a path that
  cannot be visited or read, which ends the walk; a document that does not decode is recorded.
\<close>

fun walk_loop ::
  "'s manifest_lib \<Rightarrow> DeprecatedAPI list \<Rightarrow> string \<Rightarrow> walk_event list \<Rightarrow> ManifestSnapshot
   \<Rightarrow> (string option \<times> ManifestSnapshot) option" where
  "walk_loop lib catalog dir [] snap = Some (None, snap)"
| "walk_loop lib catalog dir (WalkError err # es) snap = Some (Some err, snap)"
| "walk_loop lib catalog dir (WalkDirectory path # es) snap = walk_loop lib catalog dir es snap"
| "walk_loop lib catalog dir (WalkFile path # es) snap =
     (if \<not> yaml_file path then walk_loop lib catalog dir es snap
      else (case fs_ReadFile lib path of
              Inl err \<Rightarrow> Some (Some (''reading '' @ path @ '': '' @ err), snap)
            | Inr raw \<Rightarrow>
                (case matchManifestObjects lib catalog raw (relativeSourcePath dir path) snap True of
                   None \<Rightarrow> None
                 | Some r \<Rightarrow>
                     walk_loop lib catalog dir es (note_error (''manifest-file:'' @ path) r))))"

definition scanDir ::
  "'s manifest_lib \<Rightarrow> DeprecatedAPI list \<Rightarrow> string \<Rightarrow> ManifestSnapshot
   \<Rightarrow> (string option \<times> ManifestSnapshot) option" where
  "scanDir lib catalog dir snap =
     (case fs_Stat lib dir of
        StatNotExist \<Rightarrow>
          Some (Some (''Manifest path not found. Check the path or remove --manifests: ''
                      @ dir), snap)
      | StatError err \<Rightarrow>
          Some (Some (''checking manifest path '' @ dir @ '': '' @ err), snap)
      | StatFound \<Rightarrow> walk_loop lib catalog dir (fs_WalkDir lib dir) snap)"

record HelmChart =
  hc_Path :: string
  hc_ReleaseName :: string
  hc_ValuesFiles :: "string list"

definition helm_args :: "HelmChart \<Rightarrow> string list" where
  "helm_args chart =
     [''template'',
      (if hc_ReleaseName chart = '''' then filepath_Base (hc_Path chart) else hc_ReleaseName chart),
      hc_Path chart] @ concat (map (\<lambda>vf. [''-f'', vf]) (hc_ValuesFiles chart))"

definition scanHelmChart ::
  "'s manifest_lib \<Rightarrow> DeprecatedAPI list \<Rightarrow> HelmChart \<Rightarrow> ManifestSnapshot
   \<Rightarrow> (string option \<times> ManifestSnapshot) option" where
  "scanHelmChart lib catalog chart snap =
     (case helm_Run lib (helm_args chart) of
        Inl (err, stderr) \<Rightarrow>
          Some (Some (''helm template '' @ hc_Path chart @ '': '' @ err @ '' (stderr: ''
                      @ TrimSpace stderr @ '')''),
                snap)
      | Inr out \<Rightarrow>
          matchManifestObjects lib catalog out (''helm:'' @ hc_Path chart) snap False)"

record Collector =
  col_manifestDirs :: "string list"
  col_helmCharts :: "HelmChart list"

fun collect_dirs ::
  "'s manifest_lib \<Rightarrow> DeprecatedAPI list \<Rightarrow> string list \<Rightarrow> ManifestSnapshot
   \<Rightarrow> ManifestSnapshot option" where
  "collect_dirs lib catalog [] snap = Some snap"
| "collect_dirs lib catalog (dir # dirs) snap =
     (case scanDir lib catalog dir snap of
        None \<Rightarrow> None
      | Some r \<Rightarrow> collect_dirs lib catalog dirs (note_error (''manifest-dir:'' @ dir) r))"

fun collect_charts ::
  "'s manifest_lib \<Rightarrow> DeprecatedAPI list \<Rightarrow> HelmChart list \<Rightarrow> ManifestSnapshot
   \<Rightarrow> ManifestSnapshot option" where
  "collect_charts lib catalog [] snap = Some snap"
| "collect_charts lib catalog (chart # charts) snap =
     (case scanHelmChart lib catalog chart snap of
        None \<Rightarrow> None
      | Some r \<Rightarrow> collect_charts lib catalog charts (note_error (''helm-chart:'' @ hc_Path chart) r))"

definition Collect :: "'s manifest_lib \<Rightarrow> DeprecatedAPI list \<Rightarrow> Collector \<Rightarrow> ManifestSnapshot option" where
  "Collect lib catalog c =
     (case collect_dirs lib catalog (col_manifestDirs c) empty_manifests of
        None \<Rightarrow> None
      | Some snap \<Rightarrow> collect_charts lib catalog (col_helmCharts c) snap)"

section \<open>What a stream records\<close>

text \<open>
  The decoder's state after \<open>n\<close> calls, the result of the call after that, and the streams that
  end. \<open>stream_objects\<close> and \<open>stream_error\<close> read a list of results.
\<close>

definition decoder_state :: "('s \<Rightarrow> decode_result \<times> 's) \<Rightarrow> 's \<Rightarrow> nat \<Rightarrow> 's" where
  "decoder_state decode st n = ((\<lambda>s. snd (decode s)) ^^ n) st"

definition decoded_at :: "('s \<Rightarrow> decode_result \<times> 's) \<Rightarrow> 's \<Rightarrow> nat \<Rightarrow> decode_result" where
  "decoded_at decode st n = fst (decode (decoder_state decode st n))"

definition ends_after :: "('s \<Rightarrow> decode_result \<times> 's) \<Rightarrow> 's \<Rightarrow> nat \<Rightarrow> bool" where
  "ends_after decode st n \<longleftrightarrow>
     decoded_at decode st n = DecodeEOF \<and> (\<forall>i<n. decoded_at decode st i \<noteq> DecodeEOF)"

fun stream_objects :: "decode_result list \<Rightarrow> object list" where
  "stream_objects [] = []"
| "stream_objects (Decoded (Some obj) # rs) = obj # stream_objects rs"
| "stream_objects (_ # rs) = stream_objects rs"

fun stream_error :: "string \<Rightarrow> decode_result list \<Rightarrow> string option" where
  "stream_error sourcePath [] = None"
| "stream_error sourcePath (DecodeError err # rs) = Some (''decoding '' @ sourcePath @ '': '' @ err)"
| "stream_error sourcePath (_ # rs) = stream_error sourcePath rs"

lemma decoder_state_simps [simp]:
  "decoder_state decode st 0 = st"
  "decoder_state decode st (Suc n) = decoder_state decode (snd (decode st)) n"
  by (simp_all add: decoder_state_def funpow_Suc_right del: funpow.simps(2))

lemma decoded_at_simps [simp]:
  "decoded_at decode st 0 = fst (decode st)"
  "decoded_at decode st (Suc n) = decoded_at decode (snd (decode st)) n"
  by (simp_all add: decoded_at_def)

lemma ends_after_Suc:
  "ends_after decode st (Suc n) \<longleftrightarrow>
     fst (decode st) \<noteq> DecodeEOF \<and> ends_after decode (snd (decode st)) n"
  by (auto simp: ends_after_def All_less_Suc2)

lemma ends_after_0: "ends_after decode st 0 \<longleftrightarrow> fst (decode st) = DecodeEOF"
  by (simp add: ends_after_def)

lemma results_Suc:
  "map (decoded_at decode st) [0..<Suc n] =
     fst (decode st) # map (decoded_at decode (snd (decode st))) [0..<n]"
  by (simp add: upt_conv_Cons map_Suc_upt [symmetric] del: upt_Suc)

lemma decode_loop_ends:
  assumes "ends_after decode st n"
  shows "decode_loop decode rec src firstErr snap st =
    Some (case firstErr of
            Some e \<Rightarrow> Some e | None \<Rightarrow> stream_error src (map (decoded_at decode st) [0..<n]),
          fold rec (stream_objects (map (decoded_at decode st) [0..<n])) snap)"
  using assms
proof (induction n arbitrary: firstErr snap st)
  case 0
  then show ?case
    by (subst decode_loop.simps)
      (cases "decode st", auto simp: ends_after_0 split: option.splits)
next
  case (Suc n)
  obtain result st' where d: "decode st = (result, st')" by (cases "decode st")
  from Suc.prems have ne: "result \<noteq> DecodeEOF" and e: "ends_after decode st' n"
    by (simp_all add: ends_after_Suc d)
  show ?case
  proof (cases result)
    case DecodeEOF
    with ne show ?thesis by simp
  next
    case (DecodeError err)
    then show ?thesis unfolding results_Suc
      by (subst decode_loop.simps) (cases firstErr; simp add: d Suc.IH [OF e])
  next
    case (Decoded doc)
    then show ?thesis unfolding results_Suc
      by (subst decode_loop.simps) (cases firstErr; cases doc; simp add: d Suc.IH [OF e])
  qed
qed

lemma decode_loop_returns:
  assumes "decode_loop decode rec src firstErr snap st = Some r"
  shows "\<exists>n. ends_after decode st n"
proof (rule decode_loop.raw_induct
    [where P = "\<lambda>decode rec src firstErr snap st r. \<exists>n. ends_after decode st n", OF _ assms])
  fix loop :: "('a \<Rightarrow> decode_result \<times> 'a) \<Rightarrow> (object \<Rightarrow> ManifestSnapshot \<Rightarrow> ManifestSnapshot) \<Rightarrow> string
     \<Rightarrow> string option \<Rightarrow> ManifestSnapshot \<Rightarrow> 'a \<Rightarrow> (string option \<times> ManifestSnapshot) option"
  fix decode rec src firstErr snap st r
  assume IH: "\<And>decode rec src firstErr snap st r.
    loop decode rec src firstErr snap st = Some r \<Longrightarrow> \<exists>n. ends_after decode st n"
  assume step: "(case decode st of (result, st') \<Rightarrow>
    (case result of
       DecodeEOF \<Rightarrow> Some (firstErr, snap)
     | DecodeError err \<Rightarrow>
         loop decode rec src
           (if firstErr = None then Some (''decoding '' @ src @ '': '' @ err) else firstErr) snap st'
     | Decoded None \<Rightarrow> loop decode rec src firstErr snap st'
     | Decoded (Some obj) \<Rightarrow> loop decode rec src firstErr (rec obj snap) st')) = Some r"
  obtain result st' where d: "decode st = (result, st')" by (cases "decode st")
  show "\<exists>n. ends_after decode st n"
  proof (cases "result = DecodeEOF")
    case True
    then show ?thesis using d ends_after_0 [of decode st] by auto
  next
    case False
    with step d have "\<exists>n. ends_after decode st' n"
      by (auto dest: IH split: decode_result.splits option.splits)
    then obtain n where "ends_after decode st' n" ..
    with False d show ?thesis by (auto simp: ends_after_Suc intro!: exI [of _ "Suc n"])
  qed
qed

lemma ends_after_unique: "ends_after decode st n \<Longrightarrow> ends_after decode st m \<Longrightarrow> n = m"
  unfolding ends_after_def by (metis linorder_neqE_nat)

text \<open>The two contributions of an object.\<close>

definition deprecated_of ::
  "'s manifest_lib \<Rightarrow> DeprecatedAPI list \<Rightarrow> string \<Rightarrow> object \<Rightarrow> ManifestDeprecatedAPIObject option" where
  "deprecated_of lib catalog src obj =
     (if snd (snd (ml_GVK lib obj)) = '''' then None
      else map_option (deprecated_object lib obj src) (find_deprecated catalog (ml_GVK lib obj)))"

definition workload_of :: "'s manifest_lib \<Rightarrow> string \<Rightarrow> object \<Rightarrow> WorkloadObject option" where
  "workload_of lib src obj =
     (if snd (snd (ml_GVK lib obj)) = '''' then None else manifestWorkloadObject lib obj src)"

lemma record_document_eq:
  "record_document lib catalog src workloads obj snap =
     snap\<lparr>m_DeprecatedAPIUsage :=
            m_DeprecatedAPIUsage snap @ (case deprecated_of lib catalog src obj of None \<Rightarrow> [] | Some d \<Rightarrow> [d]),
          m_Workloads := m_Workloads snap
            @ (if workloads then (case workload_of lib src obj of None \<Rightarrow> [] | Some w \<Rightarrow> [w]) else [])\<rparr>"
  by (cases "find_deprecated catalog (ml_GVK lib obj)"; cases "manifestWorkloadObject lib obj src")
    (simp_all add: record_document_def Let_def deprecated_of_def workload_of_def)

lemma fold_record_document:
  "fold (record_document lib catalog src workloads) objs snap =
     snap\<lparr>m_DeprecatedAPIUsage :=
            m_DeprecatedAPIUsage snap @ List.map_filter (deprecated_of lib catalog src) objs,
          m_Workloads := m_Workloads snap
            @ (if workloads then List.map_filter (workload_of lib src) objs else [])\<rparr>"
proof (induction objs arbitrary: snap)
  case Nil
  then show ?case by (simp add: map_filter_simps)
next
  case (Cons obj objs)
  have "fold (record_document lib catalog src workloads) (obj # objs) snap =
      fold (record_document lib catalog src workloads) objs
        (record_document lib catalog src workloads obj snap)"
    by (simp only: fold_simps)
  then show ?case
    by (cases "deprecated_of lib catalog src obj"; cases "workload_of lib src obj")
      (simp_all only: Cons.IH, simp_all add: record_document_eq map_filter_simps)
qed

section \<open>Sources are independent\<close>

text \<open>
  What a snapshot holds, up to the texts of its errors. Scanning a source adds to the snapshot
  what it would add to an empty one: \<open>join_content\<close> is associative with the content of the
  empty snapshot as its unit.
\<close>

type_synonym content = "ManifestDeprecatedAPIObject list \<times> WorkloadObject list \<times> bool"

definition content_of :: "ManifestSnapshot \<Rightarrow> content" where
  "content_of snap = (m_DeprecatedAPIUsage snap, m_Workloads snap, m_Errors snap = [])"

definition join_content :: "content \<Rightarrow> content \<Rightarrow> content" where
  "join_content a b =
     (fst a @ fst b, fst (snd a) @ fst (snd b), snd (snd a) \<and> snd (snd b))"

lemma join_content_assoc [simp]:
  "join_content (join_content a b) c = join_content a (join_content b c)"
  by (simp add: join_content_def)

lemma join_content_empty [simp]:
  "join_content (content_of empty_manifests) b = b" "join_content b (content_of empty_manifests) = b"
  by (simp_all add: join_content_def content_of_def)

lemma update_nonempty [simp]: "AList.update k v xs \<noteq> []"
  by (cases xs) auto

lemma content_set_error [simp]:
  "content_of (set_error k err snap) = (fst (content_of snap), fst (snd (content_of snap)), False)"
  by (simp add: content_of_def set_error_def)

lemma content_note_error:
  assumes "content_of (snd r) = join_content c (content_of (snd r'))" and "fst r = fst r'"
  shows "content_of (note_error k r) = join_content c (content_of (note_error k r'))"
  using assms by (auto simp: note_error_def join_content_def split: option.split)

definition independent :: "(ManifestSnapshot \<Rightarrow> (string option \<times> ManifestSnapshot) option) \<Rightarrow> bool" where
  \<comment> \<open>a scan does to any snapshot what it does to the empty one\<close>
  "independent f \<longleftrightarrow>
     (\<forall>snap r. f snap = Some r \<longrightarrow>
        (\<exists>r'. f empty_manifests = Some r' \<and> fst r = fst r'
           \<and> content_of (snd r) = join_content (content_of snap) (content_of (snd r'))))"

lemma independentE:
  assumes "independent f" and "f snap = Some r"
  obtains r' where "f empty_manifests = Some r'" and "fst r = fst r'"
    and "content_of (snd r) = join_content (content_of snap) (content_of (snd r'))"
  using assms unfolding independent_def by blast

lemma independent_rebase:
  \<comment> \<open>two snapshots that differ by a content in front keep that difference\<close>
  assumes "independent f" and "f s = Some r" and "content_of s = join_content c (content_of s')"
    and "f s' \<noteq> None"
  shows "\<exists>r'. f s' = Some r' \<and> fst r = fst r'
    \<and> content_of (snd r) = join_content c (content_of (snd r'))"
proof -
  obtain e where e: "f empty_manifests = Some e" "fst r = fst e"
      "content_of (snd r) = join_content (content_of s) (content_of (snd e))"
    using assms(1,2) by (rule independentE)
  obtain r' where r': "f s' = Some r'" using assms(4) by blast
  obtain e' where e': "f empty_manifests = Some e'" "fst r' = fst e'"
      "content_of (snd r') = join_content (content_of s') (content_of (snd e'))"
    using assms(1) r' by (rule independentE)
  from e e' r' assms(3) show ?thesis by simp
qed

lemma decode_loop_returns_iff:
  "decode_loop decode rec src firstErr snap st \<noteq> None \<longleftrightarrow> (\<exists>n. ends_after decode st n)"
  using decode_loop_returns decode_loop_ends by fastforce

lemma match_independent:
  "independent (\<lambda>snap. matchManifestObjects lib catalog raw src snap workloads)"
proof (unfold independent_def, intro allI impI)
  fix snap r
  assume r: "matchManifestObjects lib catalog raw src snap workloads = Some r"
  have "\<exists>n. ends_after (ml_Decode lib) (ml_NewDecoder lib raw) n"
    by (rule decode_loop_returns [OF r [unfolded matchManifestObjects_def]])
  then obtain n where n: "ends_after (ml_Decode lib) (ml_NewDecoder lib raw) n" ..
  from r show "\<exists>r'. matchManifestObjects lib catalog raw src empty_manifests workloads = Some r'
      \<and> fst r = fst r' \<and> content_of (snd r) = join_content (content_of snap) (content_of (snd r'))"
    by (auto simp: matchManifestObjects_def decode_loop_ends [OF n] fold_record_document
        content_of_def join_content_def)
qed

lemma match_returns_any:
  "matchManifestObjects lib catalog raw src snap w \<noteq> None
   \<longleftrightarrow> matchManifestObjects lib catalog raw src snap' w \<noteq> None"
  unfolding matchManifestObjects_def by (simp only: decode_loop_returns_iff)

lemma walk_returns_any:
  "walk_loop lib catalog dir es snap \<noteq> None \<longleftrightarrow> walk_loop lib catalog dir es snap' \<noteq> None"
proof (induction es arbitrary: snap snap')
  case (Cons e es)
  show ?case
  proof (cases e)
    case (WalkFile path)
    have "(case matchManifestObjects lib catalog raw src snap True of None \<Rightarrow> None
        | Some r \<Rightarrow> walk_loop lib catalog dir es (note_error k r)) \<noteq> None \<longleftrightarrow>
      (case matchManifestObjects lib catalog raw src snap' True of None \<Rightarrow> None
        | Some r \<Rightarrow> walk_loop lib catalog dir es (note_error k r)) \<noteq> None" for raw src k
      using match_returns_any [of lib catalog raw src snap True snap'] Cons.IH
      by (auto split: option.splits)
    then show ?thesis using Cons.IH WalkFile by (auto split: sum.splits)
  qed (use Cons.IH in auto)
qed simp

lemma walk_independent: "independent (walk_loop lib catalog dir es)"
proof (induction es)
  case Nil
  then show ?case by (simp add: independent_def)
next
  case (Cons e es)
  show ?case
  proof (cases e)
    case (WalkError err)
    then show ?thesis by (simp add: independent_def)
  next
    case (WalkDirectory path)
    with Cons show ?thesis by (simp add: independent_def)
  next
    case (WalkFile path)
    let ?src = "relativeSourcePath dir path" and ?k = "''manifest-file:'' @ path"
    show ?thesis
    proof (cases "yaml_file path")
      case False
      with Cons WalkFile show ?thesis by (simp add: independent_def)
    next
      case yaml: True
      show ?thesis
      proof (cases "fs_ReadFile lib path")
        case (Inl err)
        with yaml WalkFile show ?thesis by (simp add: independent_def)
      next
        case (Inr raw)
        let ?m = "\<lambda>snap. matchManifestObjects lib catalog raw ?src snap True"
        have step: "walk_loop lib catalog dir (e # es) snap = (case ?m snap of None \<Rightarrow> None
            | Some r \<Rightarrow> walk_loop lib catalog dir es (note_error ?k r))" for snap
          by (simp add: WalkFile yaml Inr)
        show ?thesis unfolding independent_def
        proof (intro allI impI)
          fix snap r
          assume "walk_loop lib catalog dir (e # es) snap = Some r"
          then obtain q where q: "?m snap = Some q"
              and rest: "walk_loop lib catalog dir es (note_error ?k q) = Some r"
            by (auto simp: step split: option.splits)
          obtain q' where q': "?m empty_manifests = Some q'" "fst q = fst q'"
              "content_of (snd q) = join_content (content_of snap) (content_of (snd q'))"
            using match_independent q by (rule independentE)
          have "content_of (note_error ?k q)
              = join_content (content_of snap) (content_of (note_error ?k q'))"
            using q'(3,2) by (rule content_note_error)
          moreover have "walk_loop lib catalog dir es (note_error ?k q') \<noteq> None"
            using rest walk_returns_any [of lib catalog dir es "note_error ?k q" "note_error ?k q'"]
            by simp
          ultimately obtain r' where "walk_loop lib catalog dir es (note_error ?k q') = Some r'"
              "fst r = fst r'" "content_of (snd r) = join_content (content_of snap) (content_of (snd r'))"
            using independent_rebase [OF Cons rest] by blast
          then show "\<exists>r'. walk_loop lib catalog dir (e # es) empty_manifests = Some r'
              \<and> fst r = fst r'
              \<and> content_of (snd r) = join_content (content_of snap) (content_of (snd r'))"
            by (simp add: step q')
        qed
      qed
    qed
  qed
qed

lemma scanDir_independent: "independent (scanDir lib catalog dir)"
  using walk_independent [of lib catalog dir "fs_WalkDir lib dir"]
  by (cases "fs_Stat lib dir") (simp_all add: scanDir_def independent_def)

lemma scanHelmChart_independent: "independent (scanHelmChart lib catalog chart)"
proof (cases "helm_Run lib (helm_args chart)")
  case (Inl e)
  then show ?thesis by (cases e) (simp add: scanHelmChart_def independent_def)
next
  case (Inr out)
  have "scanHelmChart lib catalog chart =
      (\<lambda>snap. matchManifestObjects lib catalog out (''helm:'' @ hc_Path chart) snap False)"
    by (rule ext) (simp add: scanHelmChart_def Inr)
  then show ?thesis by (simp only: match_independent)
qed

lemma scanDir_returns_any:
  "scanDir lib catalog dir snap \<noteq> None \<longleftrightarrow> scanDir lib catalog dir snap' \<noteq> None"
  using walk_returns_any [of lib catalog dir "fs_WalkDir lib dir" snap snap']
  by (cases "fs_Stat lib dir") (simp_all add: scanDir_def)

lemma scanHelmChart_returns_any:
  "scanHelmChart lib catalog chart snap \<noteq> None \<longleftrightarrow> scanHelmChart lib catalog chart snap' \<noteq> None"
  using match_returns_any [of lib catalog _ "''helm:'' @ hc_Path chart" snap False snap']
  by (cases "helm_Run lib (helm_args chart)") (auto simp: scanHelmChart_def)

text \<open>
  The two loops of \<open>Collect\<close> are the same loop over a list of sources with a scan of each and
  the key its error is recorded under.
\<close>

fun collect_each ::
  "('x \<Rightarrow> ManifestSnapshot \<Rightarrow> (string option \<times> ManifestSnapshot) option) \<Rightarrow> ('x \<Rightarrow> string)
   \<Rightarrow> 'x list \<Rightarrow> ManifestSnapshot \<Rightarrow> ManifestSnapshot option" where
  "collect_each scan key [] snap = Some snap"
| "collect_each scan key (x # xs) snap =
     (case scan x snap of
        None \<Rightarrow> None | Some r \<Rightarrow> collect_each scan key xs (note_error (key x) r))"

lemma collect_dirs_eq:
  "collect_dirs lib catalog dirs snap =
     collect_each (scanDir lib catalog) (\<lambda>d. ''manifest-dir:'' @ d) dirs snap"
  by (induction dirs arbitrary: snap) (auto split: option.split)

lemma collect_charts_eq:
  "collect_charts lib catalog charts snap =
     collect_each (scanHelmChart lib catalog) (\<lambda>c. ''helm-chart:'' @ hc_Path c) charts snap"
  by (induction charts arbitrary: snap) (auto split: option.split)

lemma collect_each_content:
  assumes ind: "\<And>x. independent (scan x)"
    and any: "\<And>x s s'. scan x s \<noteq> None \<longleftrightarrow> scan x s' \<noteq> None"
    and "collect_each scan key xs snap = Some snap'"
  shows "\<exists>snaps. list_all2 (\<lambda>x s. collect_each scan key [x] empty_manifests = Some s) xs snaps
    \<and> content_of snap' = foldl join_content (content_of snap) (map content_of snaps)"
  using assms(3)
proof (induction xs arbitrary: snap)
  case Nil
  then show ?case by simp
next
  case (Cons x xs)
  from Cons.prems obtain r where r: "scan x snap = Some r"
      and rest: "collect_each scan key xs (note_error (key x) r) = Some snap'"
    by (auto split: option.splits)
  obtain r' where r': "scan x empty_manifests = Some r'" "fst r = fst r'"
      "content_of (snd r) = join_content (content_of snap) (content_of (snd r'))"
    using ind r by (rule independentE)
  obtain snaps where snaps: "list_all2 (\<lambda>x s. collect_each scan key [x] empty_manifests = Some s) xs snaps"
      "content_of snap' = foldl join_content (content_of (note_error (key x) r)) (map content_of snaps)"
    using Cons.IH [OF rest] by blast
  have "content_of (note_error (key x) r) =
      join_content (content_of snap) (content_of (note_error (key x) r'))"
    using r'(3,2) by (rule content_note_error)
  with r'(1) snaps show ?case
    by (intro exI [of _ "note_error (key x) r' # snaps"]) simp
qed

end
