(* ===== verification/ManifestFacts.thy ===== *)
theory ManifestFacts
  imports ManifestCollector
begin

text \<open>
  What the manifest collector guarantees: when the scan of a stream returns and what it has then
  recorded, that sources do not disturb each other, and what the recorded paths disclose.
\<close>

section \<open>Streams\<close>

lemma match_snapshot:
  assumes "matchManifestObjects lib catalog raw src snap workloads = Some (err, snap')"
  shows "\<exists>objs. snap' = snap\<lparr>
     m_DeprecatedAPIUsage :=
       m_DeprecatedAPIUsage snap @ List.map_filter (deprecated_of lib catalog src) objs,
     m_Workloads := m_Workloads snap
       @ (if workloads then List.map_filter (workload_of lib src) objs else [])\<rparr>"
proof -
  have "\<exists>n. ends_after (ml_Decode lib) (ml_NewDecoder lib raw) n"
    by (rule decode_loop_returns [OF assms [unfolded matchManifestObjects_def]])
  then obtain n where n: "ends_after (ml_Decode lib) (ml_NewDecoder lib raw) n" ..
  from assms show ?thesis
    by (auto simp: matchManifestObjects_def decode_loop_ends [OF n] fold_record_document)
qed

text \<open>
  C31: Scanning a manifest stream returns exactly if the YAML decoder reaches the end of the stream,
  also after errors, and then the snapshot has gained, in stream order, one deprecated-API object
  for every decoded document whose group, version and kind are in the catalogue and (for raw
  manifests) one workload for every workload document; the error is the first decoding error.
\<close>

theorem manifest_stream_meaning:
  "matchManifestObjects lib catalog raw src snap workloads = Some (err, snap') \<longleftrightarrow>
     (\<exists>n. ends_after (ml_Decode lib) (ml_NewDecoder lib raw) n \<and>
       (let results = map (decoded_at (ml_Decode lib) (ml_NewDecoder lib raw)) [0..<n];
            objs = stream_objects results
        in err = stream_error src results
           \<and> snap' = snap\<lparr>
               m_DeprecatedAPIUsage :=
                 m_DeprecatedAPIUsage snap @ List.map_filter (deprecated_of lib catalog src) objs,
               m_Workloads := m_Workloads snap
                 @ (if workloads then List.map_filter (workload_of lib src) objs else [])\<rparr>))"
  (is "?call = Some (err, snap') \<longleftrightarrow> (\<exists>n. ?ends n \<and> ?result n)")
proof
  assume returned: "?call = Some (err, snap')"
  have "\<exists>n. ?ends n"
    by (rule decode_loop_returns [OF returned [unfolded matchManifestObjects_def]])
  then obtain n where n: "?ends n" ..
  with returned have "?result n"
    by (simp add: matchManifestObjects_def decode_loop_ends [OF n] fold_record_document Let_def)
  with n show "\<exists>n. ?ends n \<and> ?result n" by blast
next
  assume "\<exists>n. ?ends n \<and> ?result n"
  then obtain n where n: "?ends n" and "?result n" by blast
  then show "?call = Some (err, snap')"
    by (simp add: matchManifestObjects_def decode_loop_ends [OF n] fold_record_document Let_def)
qed

section \<open>Sources\<close>

lemma foldl_join_content:
  "foldl join_content c cs =
     (fst c @ concat (map fst cs), fst (snd c) @ concat (map (fst \<circ> snd) cs),
      snd (snd c) \<and> list_all (snd \<circ> snd) cs)"
  by (induction cs arbitrary: c) (auto simp: join_content_def)

lemma decode_returns:
  assumes "\<And>raw. \<exists>n. ends_after (ml_Decode lib) (ml_NewDecoder lib raw) n"
  shows "matchManifestObjects lib catalog raw src snap w \<noteq> None"
  using assms unfolding matchManifestObjects_def by (simp only: decode_loop_returns_iff)

lemma scanDir_returns:
  assumes "\<And>raw. \<exists>n. ends_after (ml_Decode lib) (ml_NewDecoder lib raw) n"
  shows "scanDir lib catalog dir snap \<noteq> None"
proof -
  have "walk_loop lib catalog dir es snap \<noteq> None" for es
  proof (induction es arbitrary: snap)
    case (Cons e es)
    show ?case
    proof (cases e)
      case (WalkFile path)
      with Cons show ?thesis
        by (simp add: decode_returns [OF assms] del: not_None_eq split: sum.split option.split)
    qed (use Cons in auto)
  qed simp
  then show ?thesis by (auto simp: scanDir_def split: stat_result.split)
qed

lemma scanHelmChart_returns:
  assumes "\<And>raw. \<exists>n. ends_after (ml_Decode lib) (ml_NewDecoder lib raw) n"
  shows "scanHelmChart lib catalog chart snap \<noteq> None"
  using decode_returns [OF assms] by (auto simp: scanHelmChart_def split: sum.split)

lemma collect_each_returns:
  assumes "\<And>x s. scan x s \<noteq> None"
  shows "\<exists>snap'. collect_each scan key xs snap = Some snap'"
proof (induction xs arbitrary: snap)
  case (Cons x xs)
  obtain r where "scan x snap = Some r" using assms by fast
  with Cons show ?case by simp
qed simp

definition only_dir :: "string \<Rightarrow> Collector" where
  "only_dir d = \<lparr>col_manifestDirs = [d], col_helmCharts = []\<rparr>"

definition only_chart :: "HelmChart \<Rightarrow> Collector" where
  "only_chart c = \<lparr>col_manifestDirs = [], col_helmCharts = [c]\<rparr>"

definition alone :: "'s manifest_lib \<Rightarrow> DeprecatedAPI list \<Rightarrow> Collector \<Rightarrow> ManifestSnapshot list" where
  \<comment> \<open>the snapshots of the collector's sources, each collected alone\<close>
  "alone lib catalog c =
     map (\<lambda>d. the (Collect lib catalog (only_dir d))) (col_manifestDirs c)
     @ map (\<lambda>h. the (Collect lib catalog (only_chart h))) (col_helmCharts c)"

lemma Collect_only_dir:
  "Collect lib catalog (only_dir d) =
     collect_each (scanDir lib catalog) (\<lambda>d. ''manifest-dir:'' @ d) [d] empty_manifests"
  by (auto simp: Collect_def only_dir_def collect_dirs_eq collect_charts_eq split: option.split)

lemma Collect_only_chart:
  "Collect lib catalog (only_chart h) =
     collect_each (scanHelmChart lib catalog) (\<lambda>c. ''helm-chart:'' @ hc_Path c) [h] empty_manifests"
  by (auto simp: Collect_def only_chart_def collect_dirs_eq collect_charts_eq)

lemma list_all2_the:
  "list_all2 (\<lambda>x s. f x = Some s) xs ss \<Longrightarrow> ss = map (\<lambda>x. the (f x)) xs"
  by (induction rule: list_all2_induct) auto

lemma Collect_content:
  assumes "\<And>raw. \<exists>n. ends_after (ml_Decode lib) (ml_NewDecoder lib raw) n"
  shows "\<exists>snap. Collect lib catalog c = Some snap
    \<and> content_of snap = foldl join_content (content_of empty_manifests)
        (map content_of (alone lib catalog c))"
proof -
  let ?dk = "\<lambda>d. ''manifest-dir:'' @ d" and ?ck = "\<lambda>c. ''helm-chart:'' @ hc_Path c"
  obtain s where s: "collect_each (scanDir lib catalog) ?dk (col_manifestDirs c) empty_manifests = Some s"
    using collect_each_returns [of "scanDir lib catalog", OF scanDir_returns [OF assms]] by blast
  obtain t where t: "collect_each (scanHelmChart lib catalog) ?ck (col_helmCharts c) s = Some t"
    using collect_each_returns [of "scanHelmChart lib catalog", OF scanHelmChart_returns [OF assms]]
    by blast
  have run: "Collect lib catalog c = Some t"
    by (simp only: Collect_def collect_dirs_eq collect_charts_eq s t option.case)
  obtain ss where ss: "list_all2 (\<lambda>x s. Collect lib catalog (only_dir x) = Some s) (col_manifestDirs c) ss"
      "content_of s = foldl join_content (content_of empty_manifests) (map content_of ss)"
    using collect_each_content [OF scanDir_independent scanDir_returns_any s]
    unfolding Collect_only_dir by blast
  obtain ts where ts: "list_all2 (\<lambda>x s. Collect lib catalog (only_chart x) = Some s) (col_helmCharts c) ts"
      "content_of t = foldl join_content (content_of s) (map content_of ts)"
    using collect_each_content [OF scanHelmChart_independent scanHelmChart_returns_any t]
    unfolding Collect_only_chart by blast
  have "alone lib catalog c = ss @ ts"
    using list_all2_the [OF ss(1)] list_all2_the [OF ts(1)] by (simp add: alone_def)
  with run ss(2) ts(2) show ?thesis by simp
qed

text \<open>
  When every stream ends, a collection always returns, and a source that fails does not disturb
  the others: what is collected is what each source alone contributes, in order, and the snapshot is
  free of errors exactly if each source alone is.
\<close>

theorem Collect_isolates_sources:
  assumes "\<And>raw. \<exists>n. ends_after (ml_Decode lib) (ml_NewDecoder lib raw) n"
  shows "\<exists>snap. Collect lib catalog c = Some snap
    \<and> m_DeprecatedAPIUsage snap = concat (map m_DeprecatedAPIUsage (alone lib catalog c))
    \<and> m_Workloads snap = concat (map m_Workloads (alone lib catalog c))
    \<and> (m_Errors snap = [] \<longleftrightarrow> list_all (\<lambda>s. m_Errors s = []) (alone lib catalog c))"
proof -
  obtain snap where "Collect lib catalog c = Some snap"
      "content_of snap = foldl join_content (content_of empty_manifests)
         (map content_of (alone lib catalog c))"
    using Collect_content [OF assms] by blast
  then show ?thesis
    by (simp add: foldl_join_content content_of_def comp_def list.pred_map)
qed

section \<open>Paths\<close>

lemma Split_no_sep: "s \<in> set (Split p c) \<Longrightarrow> c \<notin> set s"
  by (induction p arbitrary: s) (auto split: if_splits list.splits)

definition plain_element :: "string \<Rightarrow> bool" where
  "plain_element s \<longleftrightarrow> s \<noteq> [] \<and> CHR ''/'' \<notin> set s"

lemma push_element_plain:
  "list_all plain_element acc \<Longrightarrow> CHR ''/'' \<notin> set e \<Longrightarrow> list_all plain_element (push_element rt acc e)"
  by (cases acc) (simp_all add: push_element_def, simp_all add: plain_element_def)

lemma foldl_push_element_plain:
  "list_all plain_element acc \<Longrightarrow> list_all (\<lambda>e. CHR ''/'' \<notin> set e) es
   \<Longrightarrow> list_all plain_element (foldl (push_element rt) acc es)"
proof (induction es arbitrary: acc)
  case (Cons e es)
  then show ?case using push_element_plain [of acc e rt] by simp
qed simp

lemma clean_elements_plain: "list_all plain_element (clean_elements p)"
proof -
  have "list_all (\<lambda>e. CHR ''/'' \<notin> set e) (Split p (CHR ''/''))"
    by (auto simp: list_all_iff dest: Split_no_sep)
  then have "list_all plain_element (foldl (push_element (rooted p)) [] (Split p (CHR ''/'')))"
    by (intro foldl_push_element_plain) simp_all
  then show ?thesis by (simp add: clean_elements_def)
qed

lemma drop_common_suffix: "drop_common base targ = (b, t) \<Longrightarrow> set t \<subseteq> set targ"
  by (induction base targ arbitrary: b t rule: drop_common.induct) (auto split: if_splits)

lemma drop_common_nil: "drop_common base targ = ([], []) \<Longrightarrow> base = targ"
  by (induction base targ rule: drop_common.induct) (auto split: if_splits)

lemma hd_Join:
  assumes "e \<noteq> ''''"
  shows "Join (e # es) sep \<noteq> [] \<and> hd (Join (e # es) sep) = hd e"
  using assms by (cases es) auto

lemma filepath_Rel_not_rooted:
  assumes "filepath_Rel root path = Some rel"
  shows "\<not> rooted rel"
proof (cases "rooted root = rooted path \<and> clean_elements root = clean_elements path")
  case True
  with assms show ?thesis by (auto simp: filepath_Rel_def Let_def rooted_def)
next
  case False
  obtain b t where d: "drop_common (clean_elements root) (clean_elements path) = (b, t)"
    by fastforce
  with assms False have rel: "rel = Join (replicate (length b) ''..'' @ t) ''/''" and roots: "rooted root = rooted path"
    by (auto simp: filepath_Rel_def Let_def split: if_splits)
  show ?thesis
  proof (cases b)
    case Cons
    then show ?thesis using hd_Join [of "''..''"] by (simp add: rel rooted_def)
  next
    case Nil
    then obtain e es where t: "t = e # es"
      using False d drop_common_nil roots by (cases t) auto
    then have "e \<in> set (clean_elements path)" using drop_common_suffix [OF d] by auto
    then have "plain_element e" using clean_elements_plain [of path] by (simp add: list_all_iff)
    then have "e \<noteq> ''''" and "hd e \<noteq> CHR ''/''"
      by (auto simp: plain_element_def) (metis list.set_sel(1))
    with hd_Join [of e es] show ?thesis by (simp add: rel rooted_def Nil t)
  qed
qed

lemma last_element_no_slash: "CHR ''/'' \<notin> set (last_element p)"
  unfolding last_element_def by (auto dest: set_takeWhileD)

lemma strip_slashes_id: "p \<noteq> [] \<Longrightarrow> last p \<noteq> CHR ''/'' \<Longrightarrow> strip_slashes p = p"
  by (cases p rule: rev_cases) (simp_all add: strip_slashes_def)

lemma filepath_Base_not_rooted:
  assumes "last_element path \<noteq> ''''"
  shows "\<not> rooted (filepath_Base path)"
proof -
  from assms have "path \<noteq> []" and "last path \<noteq> CHR ''/''"
    by (auto simp: last_element_def, cases path rule: rev_cases, auto)
  then have "filepath_Base path = last_element path"
    using assms by (simp add: filepath_Base_def strip_slashes_id)
  then show ?thesis
    using last_element_no_slash [of path] by (cases "last_element path") (auto simp: rooted_def)
qed

lemma relativeSourcePath_not_rooted:
  assumes "yaml_file path"
  shows "\<not> rooted (relativeSourcePath root path)"
proof -
  have "last_element path \<noteq> ''''"
    using assms by (auto simp: yaml_file_def filepath_Ext_def ToLower_def Let_def)
  then show ?thesis
    by (auto simp: relativeSourcePath_def filepath_Base_not_rooted filepath_Rel_not_rooted
        split: option.split)
qed

text \<open>The source paths a snapshot holds, under a property of each of the two kinds.\<close>

definition sources_in :: "(string \<Rightarrow> bool) \<Rightarrow> (string \<Rightarrow> bool) \<Rightarrow> ManifestSnapshot \<Rightarrow> bool" where
  "sources_in D W snap \<longleftrightarrow>
     (\<forall>d\<in>set (m_DeprecatedAPIUsage snap). D (mdo_SourcePath d))
     \<and> (\<forall>w\<in>set (m_Workloads snap). W (wo_SourcePath w))"

lemma deprecated_of_source: "deprecated_of lib catalog src obj = Some d \<Longrightarrow> mdo_SourcePath d = src"
  by (auto simp: deprecated_of_def deprecated_object_def DeprecatedAPI.extend_def
      ManifestDeprecatedAPIObject.fields_def split: if_splits)

lemma workload_of_source: "workload_of lib src obj = Some w \<Longrightarrow> wo_SourcePath w = src"
  by (auto simp: workload_of_def manifestWorkloadObject_def Let_def split: if_splits option.splits)

lemma sources_in_note_error: "sources_in D W (note_error k r) = sources_in D W (snd r)"
  by (simp add: note_error_def set_error_def sources_in_def split: option.split)

lemma match_sources:
  assumes returned: "matchManifestObjects lib catalog raw src snap w = Some r"
    and "sources_in D W snap" and "D src" and "w \<Longrightarrow> W src"
  shows "sources_in D W (snd r)"
proof -
  obtain err snap' where r: "r = (err, snap')" by (cases r)
  from returned [unfolded r] obtain objs where
    "snap' = snap\<lparr>
       m_DeprecatedAPIUsage :=
         m_DeprecatedAPIUsage snap @ List.map_filter (deprecated_of lib catalog src) objs,
       m_Workloads := m_Workloads snap
         @ (if w then List.map_filter (workload_of lib src) objs else [])\<rparr>"
    using match_snapshot by blast
  with assms(2-4) show ?thesis
    by (auto simp: r sources_in_def set_map_filter dest: deprecated_of_source workload_of_source)
qed

definition raw_source :: "'s manifest_lib \<Rightarrow> string list \<Rightarrow> string \<Rightarrow> bool" where
  \<comment> \<open>the path of a file of one of the directories, relative to it or a base name\<close>
  "raw_source lib dirs src \<longleftrightarrow>
     (\<exists>dir\<in>set dirs. \<exists>path. WalkFile path \<in> set (fs_WalkDir lib dir)
        \<and> src = relativeSourcePath dir path) \<and> \<not> rooted src"

definition chart_source :: "HelmChart list \<Rightarrow> string \<Rightarrow> bool" where
  "chart_source charts src \<longleftrightarrow> src \<in> (\<lambda>h. ''helm:'' @ hc_Path h) ` set charts"

lemma walk_sources:
  assumes "\<And>path. WalkFile path \<in> set es \<Longrightarrow> yaml_file path \<Longrightarrow>
      D (relativeSourcePath dir path) \<and> W (relativeSourcePath dir path)"
    and "sources_in D W snap" and "walk_loop lib catalog dir es snap = Some r"
  shows "sources_in D W (snd r)"
  using assms
proof (induction es arbitrary: snap)
  case Nil
  then show ?case by auto
next
  case (Cons e es)
  note IH = Cons.IH [OF Cons.prems(1)]
  show ?case
  proof (cases e)
    case (WalkFile path)
    show ?thesis
    proof (cases "yaml_file path")
      case False
      then show ?thesis using IH Cons.prems WalkFile by simp
    next
      case yaml: True
      show ?thesis
      proof (cases "fs_ReadFile lib path")
        case (Inl err)
        then show ?thesis using Cons.prems WalkFile yaml by auto
      next
        case (Inr raw)
        then obtain q where q: "matchManifestObjects lib catalog raw (relativeSourcePath dir path)
              snap True = Some q"
            and rest: "walk_loop lib catalog dir es (note_error (''manifest-file:'' @ path) q) = Some r"
          using Cons.prems(3) WalkFile yaml by (auto split: option.splits)
        have "sources_in D W (snd q)"
          using match_sources [OF q Cons.prems(2)] Cons.prems(1) [of path] WalkFile yaml by simp
        then show ?thesis by (intro IH [OF _ _ _ rest]) (simp_all add: sources_in_note_error)
      qed
    qed
  qed (use IH Cons.prems in auto)
qed

lemma scanDir_sources:
  assumes "sources_in D W snap" and "scanDir lib catalog dir snap = Some r"
    and "\<And>src. raw_source lib [dir] src \<Longrightarrow> D src \<and> W src"
  shows "sources_in D W (snd r)"
proof (cases "fs_Stat lib dir")
  case StatFound
  with assms(2) have "walk_loop lib catalog dir (fs_WalkDir lib dir) snap = Some r"
    by (simp add: scanDir_def)
  then show ?thesis
  proof (rule walk_sources [OF _ assms(1), rotated])
    fix path
    assume "WalkFile path \<in> set (fs_WalkDir lib dir)" and "yaml_file path"
    then have "raw_source lib [dir] (relativeSourcePath dir path)"
      by (auto simp: raw_source_def relativeSourcePath_not_rooted)
    then show "D (relativeSourcePath dir path) \<and> W (relativeSourcePath dir path)" by (rule assms(3))
  qed
qed (use assms in \<open>auto simp: scanDir_def\<close>)

lemma scanHelmChart_sources:
  assumes "sources_in D W snap" and "scanHelmChart lib catalog chart snap = Some r"
    and "D (''helm:'' @ hc_Path chart)"
  shows "sources_in D W (snd r)"
proof (cases "helm_Run lib (helm_args chart)")
  case (Inl e)
  with assms show ?thesis by (cases e) (auto simp: scanHelmChart_def)
next
  case (Inr out)
  with assms(2) have "matchManifestObjects lib catalog out (''helm:'' @ hc_Path chart) snap False = Some r"
    by (simp add: scanHelmChart_def)
  from match_sources [OF this assms(1,3)] show ?thesis by simp
qed

lemma collect_each_sources:
  assumes "\<And>x s r. \<lbrakk>x \<in> set xs; sources_in D W s; scan x s = Some r\<rbrakk> \<Longrightarrow> sources_in D W (snd r)"
    and "sources_in D W snap" and "collect_each scan key xs snap = Some snap'"
  shows "sources_in D W snap'"
  using assms
proof (induction xs arbitrary: snap)
  case (Cons x xs)
  then obtain r where r: "scan x snap = Some r" "collect_each scan key xs (note_error (key x) r) = Some snap'"
    by (auto split: option.splits)
  have "sources_in D W (note_error (key x) r)"
    using Cons.prems(1) [OF _ Cons.prems(2) r(1)] by (simp add: sources_in_note_error)
  then show ?case
    by (rule Cons.IH [OF _ _ r(2), rotated]) (rule Cons.prems(1), simp_all)
qed simp

text \<open>
  The path recorded with an object of a raw manifest is never absolute: it is relative to the
  scanned directory, or the file's base name. An object of a Helm chart is recorded under the
  chart's path as the operator gave it, and charts contribute no workloads.
\<close>

theorem collected_paths_are_display_safe:
  assumes "Collect lib catalog c = Some snap"
  shows "(\<forall>d\<in>set (m_DeprecatedAPIUsage snap).
        raw_source lib (col_manifestDirs c) (mdo_SourcePath d)
        \<or> chart_source (col_helmCharts c) (mdo_SourcePath d))
    \<and> (\<forall>w\<in>set (m_Workloads snap). raw_source lib (col_manifestDirs c) (wo_SourcePath w))"
proof -
  let ?D = "\<lambda>src. raw_source lib (col_manifestDirs c) src \<or> chart_source (col_helmCharts c) src"
  let ?W = "raw_source lib (col_manifestDirs c)"
  from assms obtain s where "collect_dirs lib catalog (col_manifestDirs c) empty_manifests = Some s"
      and "collect_charts lib catalog (col_helmCharts c) s = Some snap"
    by (auto simp: Collect_def split: option.splits)
  note s = this(1) [unfolded collect_dirs_eq] and t = this(2) [unfolded collect_charts_eq]
  have "sources_in ?D ?W s"
  proof (rule collect_each_sources [OF _ _ s])
    show "sources_in ?D ?W empty_manifests" by (simp add: sources_in_def)
    show "sources_in ?D ?W (snd r)"
      if "x \<in> set (col_manifestDirs c)" "sources_in ?D ?W s'" "scanDir lib catalog x s' = Some r" for x s' r
      using that(2,3) by (rule scanDir_sources) (use that(1) in \<open>auto simp: raw_source_def\<close>)
  qed
  then have "sources_in ?D ?W snap"
  proof (rule collect_each_sources [OF _ _ t, rotated])
    show "sources_in ?D ?W (snd r)"
      if "x \<in> set (col_helmCharts c)" "sources_in ?D ?W s'" "scanHelmChart lib catalog x s' = Some r" for x s' r
      using that(2,3) by (rule scanHelmChart_sources) (use that(1) in \<open>simp add: chart_source_def\<close>)
  qed
  then show ?thesis by (auto simp: sources_in_def)
qed

section \<open>A sample system\<close>

text \<open>
  A directory with a manifest at a removed API version followed by a broken document and a
  workload, an unreadable directory, and a chart that does not render. The decoder steps through a
  list of results and stays at its end.
\<close>

fun step_decoder :: "decode_result list \<Rightarrow> decode_result \<times> decode_result list" where
  "step_decoder [] = (DecodeEOF, [])"
| "step_decoder (r # rs) = (r, rs)"

definition text_at :: "object \<Rightarrow> string \<Rightarrow> string" where
  "text_at obj k = (case map_of obj k of Some (JStr s) \<Rightarrow> s | _ \<Rightarrow> '''')"

fun nested_map :: "object \<Rightarrow> string list \<Rightarrow> object option" where
  "nested_map obj [] = Some obj"
| "nested_map obj (k # ks) = (case map_of obj k of Some (JObj m) \<Rightarrow> nested_map m ks | _ \<Rightarrow> None)"

definition ingress_document :: object where
  "ingress_document = [(''apiVersion'', JStr ''v1beta1''), (''kind'', JStr ''Ingress''),
     (''name'', JStr ''web'')]"

definition pod_document :: object where
  "pod_document = [(''apiVersion'', JStr ''v1''), (''kind'', JStr ''Pod''), (''name'', JStr ''job''),
     (''spec'', JObj [(''nodeName'', JStr ''n1'')])]"

definition ingress_api :: DeprecatedAPI where
  "ingress_api = \<lparr>dep_Group = ''extensions'', dep_Version = ''v1beta1'', dep_Resource = ''ingresses'',
     dep_Kind = ''Ingress'', dep_Namespaced = True, dep_RemovedInVersion = ''1.22'',
     dep_Replacement = ''networking.k8s.io/v1'', dep_ReplacementAPIVersion = ''networking.k8s.io/v1''\<rparr>"

definition sample_results :: "decode_result list" where
  "sample_results = [Decoded (Some ingress_document), DecodeError ''bad indentation'',
     Decoded None, Decoded (Some pod_document)]"

definition sample_manifests :: "decode_result list manifest_lib" where
  "sample_manifests = \<lparr>ml_NewDecoder = (\<lambda>raw. if raw = ''web'' then sample_results else []),
     ml_Decode = step_decoder,
     ml_GVK = (\<lambda>obj. (if text_at obj ''kind'' = ''Ingress'' then ''extensions'' else '''',
        text_at obj ''apiVersion'', text_at obj ''kind'')),
     ml_Kind = (\<lambda>obj. text_at obj ''kind''), ml_Namespace = (\<lambda>obj. ''''),
     ml_Name = (\<lambda>obj. text_at obj ''name''), ml_Labels = (\<lambda>obj. []),
     ml_NestedMap = nested_map, ml_NestedInt64 = (\<lambda>obj ks. None),
     fs_Stat = (\<lambda>p. if p = ''/home/me/k8s'' then StatFound else StatNotExist),
     fs_WalkDir = (\<lambda>p. [WalkDirectory ''/home/me/k8s'', WalkFile ''/home/me/k8s/README.md'',
        WalkFile ''/home/me/k8s/apps/web.YAML'']),
     fs_ReadFile = (\<lambda>p. Inr ''web''),
     helm_Run = (\<lambda>args. Inl (''exit status 1'', '' no such chart ''))\<rparr>"

definition sample_collector :: Collector where
  "sample_collector = \<lparr>col_manifestDirs = [''/missing'', ''/home/me/k8s''],
     col_helmCharts = [\<lparr>hc_Path = ''charts/web/'', hc_ReleaseName = '''', hc_ValuesFiles = [''prod.yaml'']\<rparr>]\<rparr>"

lemma step_decoder_ends: "ends_after step_decoder rs (length rs) \<or> DecodeEOF \<in> set rs"
  by (induction rs) (auto simp: ends_after_Suc ends_after_0)

lemma sample_streams_end:
  "\<exists>n. ends_after (ml_Decode sample_manifests) (ml_NewDecoder sample_manifests raw) n"
  using step_decoder_ends [of "if raw = ''web'' then sample_results else []"]
  by (auto simp: sample_manifests_def sample_results_def split: if_splits)

definition sample_collected :: ManifestSnapshot where
  "sample_collected = \<lparr>
     m_DeprecatedAPIUsage = [DeprecatedAPI.extend ingress_api
       (ManifestDeprecatedAPIObject.fields '''' ''web'' ''apps/web.YAML'')],
     m_Workloads = [\<lparr>wo_Kind = ''Pod'', wo_Namespace = '''', wo_Name = ''job'',
       wo_SourcePath = ''apps/web.YAML'', wo_Labels = [], wo_PodSpec = [(''nodeName'', JStr ''n1'')],
       wo_PodSpecPath = ''spec'', wo_Replicas = None\<rparr>],
     m_Errors = [
       (''manifest-dir:/missing'',
        ''Manifest path not found. Check the path or remove --manifests: /missing''),
       (''manifest-file:/home/me/k8s/apps/web.YAML'', ''decoding apps/web.YAML: bad indentation''),
       (''helm-chart:charts/web/'',
        ''helm template charts/web/: exit status 1 (stderr: no such chart)'')]\<rparr>"

lemma sample_collection: "Collect sample_manifests [ingress_api] sample_collector = Some sample_collected"
  by code_simp

theorem collected_paths_are_display_safe_witness:
  "Collect sample_manifests [ingress_api] sample_collector = Some sample_collected
   \<and> raw_source sample_manifests [''/missing'', ''/home/me/k8s''] ''apps/web.YAML''"
  using sample_collection
    collected_paths_are_display_safe [OF sample_collection]
  by (simp add: sample_collected_def sample_collector_def)

theorem Collect_isolates_sources_witness:
  "\<exists>snap. Collect sample_manifests [ingress_api] sample_collector = Some snap
    \<and> m_Workloads snap = concat (map m_Workloads (alone sample_manifests [ingress_api] sample_collector))
    \<and> m_Errors snap \<noteq> []"
  using Collect_isolates_sources [OF sample_streams_end, of "[ingress_api]" sample_collector]
    sample_collection
  by (simp add: sample_collected_def)

end
