(* ===== verification/Regex.thy ===== *)
theory Regex
  imports Prelude
begin

text \<open>
  The part of Go's \<open>regexp\<close> package the program uses: leftmost-first matching (the first match in
  the order a backtracking matcher would try) and \<open>ReplaceAllString\<close>. A position is the text
  before it, reversed, and the text after it; \<open>ends r p\<close> lists the positions where a match of
  \<open>r\<close> that starts at \<open>p\<close> can end, in the order of preference. Classes are predicates on bytes:
  the classes of the program's patterns are sets of ASCII characters or complements of such sets,
  so that matching bytes and matching runes agree.
\<close>

section \<open>Expressions\<close>

datatype regex =
    REmpty
  | RSet "char \<Rightarrow> bool"
  | RSeq regex regex
  | RAlt regex regex
  | RStar regex
  | RWordBoundary \<comment> \<open>\<open>\\b\<close>\<close>
  | RTextStart \<comment> \<open>\<open>^\<close>\<close>

type_synonym pos = "string \<times> string"

definition between :: "char \<Rightarrow> char \<Rightarrow> char \<Rightarrow> bool" where
  "between lo hi c \<longleftrightarrow> (of_char lo :: nat) \<le> of_char c \<and> (of_char c :: nat) \<le> of_char hi"

definition ascii_lower :: "char \<Rightarrow> bool" where "ascii_lower = between (CHR ''a'') (CHR ''z'')"
definition ascii_upper :: "char \<Rightarrow> bool" where "ascii_upper = between (CHR ''A'') (CHR ''Z'')"

definition ascii_alnum :: "char \<Rightarrow> bool" where
  "ascii_alnum c \<longleftrightarrow> ascii_lower c \<or> ascii_upper c \<or> is_digit c"

definition word_char :: "char \<Rightarrow> bool" where
  "word_char c \<longleftrightarrow> ascii_alnum c \<or> c = CHR ''_''"

definition posix_space :: "char \<Rightarrow> bool" where
  "posix_space c \<longleftrightarrow> c \<in> {CHR 0x09, CHR 0x0A, CHR 0x0B, CHR 0x0C, CHR 0x0D, CHR '' ''}"

definition at_boundary :: "pos \<Rightarrow> bool" where
  "at_boundary p \<longleftrightarrow>
     (fst p \<noteq> [] \<and> word_char (hd (fst p))) \<noteq> (snd p \<noteq> [] \<and> word_char (hd (snd p)))"

text \<open>A star goes on only from where its body has consumed something.\<close>

function ends :: "regex \<Rightarrow> pos \<Rightarrow> pos list" where
  "ends REmpty p = [p]"
| "ends (RSet P) p =
     (case snd p of [] \<Rightarrow> [] | c # s \<Rightarrow> if P c then [(c # fst p, s)] else [])"
| "ends (RSeq a b) p = concat (map (ends b) (ends a p))"
| "ends (RAlt a b) p = ends a p @ ends b p"
| "ends (RStar a) p =
     concat (map (\<lambda>q. if length (snd q) < length (snd p) then ends (RStar a) q else []) (ends a p))
     @ [p]"
| "ends RWordBoundary p = (if at_boundary p then [p] else [])"
| "ends RTextStart p = (if fst p = [] then [p] else [])"
  by pat_completeness auto
termination by (relation "measures [\<lambda>(r, p). size r, \<lambda>(r, p). length (snd p)]") auto

text \<open>Repetitions and literals.\<close>

fun RTimes :: "nat \<Rightarrow> regex \<Rightarrow> regex" where
  "RTimes 0 r = REmpty"
| "RTimes (Suc 0) r = r"
| "RTimes (Suc n) r = RSeq r (RTimes n r)"

fun RUpTo :: "nat \<Rightarrow> regex \<Rightarrow> regex" where
  "RUpTo 0 r = REmpty"
| "RUpTo (Suc n) r = RAlt (RSeq r (RUpTo n r)) REmpty"

definition ROpt :: "regex \<Rightarrow> regex" where "ROpt r = RAlt r REmpty"
definition RPlus :: "regex \<Rightarrow> regex" where "RPlus r = RSeq r (RStar r)"
definition RChar :: "char \<Rightarrow> regex" where "RChar c = RSet (\<lambda>x. x = c)"

fun RSeqs :: "regex list \<Rightarrow> regex" where
  "RSeqs [] = REmpty"
| "RSeqs [r] = r"
| "RSeqs (r # rs) = RSeq r (RSeqs rs)"

fun RAlts :: "regex list \<Rightarrow> regex" where
  "RAlts [] = RSet (\<lambda>c. False)"
| "RAlts [r] = r"
| "RAlts (r # rs) = RAlt r (RAlts rs)"

definition RLit :: "string \<Rightarrow> regex" where "RLit s = RSeqs (map RChar s)"

section \<open>Replacing\<close>

text \<open>
  A pattern is a regular expression \<open>g\<close>, its first capture group, followed by another, \<open>r\<close>;
  patterns without a group have \<open>REmpty\<close> for \<open>g\<close>. The first match at a position is the end of
  the group and the end of the whole.
\<close>

definition first_match :: "regex \<Rightarrow> regex \<Rightarrow> pos \<Rightarrow> (pos \<times> pos) option" where
  "first_match g r p =
     (case concat (map (\<lambda>q. map (Pair q) (ends r q)) (ends g p)) of [] \<Rightarrow> None | m # ms \<Rightarrow> Some m)"

definition text_between :: "pos \<Rightarrow> pos \<Rightarrow> string" where
  "text_between p q = take (length (snd p) - length (snd q)) (snd p)"

text \<open>
  \<open>ReplaceAllString(s, "${1}" + replacement)\<close>, from a position on. The program's patterns match no
  empty text; an empty match is skipped.
\<close>

function replace_from :: "regex \<Rightarrow> regex \<Rightarrow> string \<Rightarrow> pos \<Rightarrow> string" where
  "replace_from g r replacement p =
     (case first_match g r p of
        Some (q, e) \<Rightarrow>
          if length (snd e) < length (snd p)
          then text_between p q @ replacement @ replace_from g r replacement e
          else (case snd p of
                  [] \<Rightarrow> []
                | c # s \<Rightarrow> c # replace_from g r replacement (c # fst p, s))
      | None \<Rightarrow>
          (case snd p of
             [] \<Rightarrow> []
           | c # s \<Rightarrow> c # replace_from g r replacement (c # fst p, s)))"
  by pat_completeness auto
termination by (relation "measure (\<lambda>(g, r, t, p). length (snd p))") auto

declare replace_from.simps [simp del]

definition ReplaceGroup :: "regex \<Rightarrow> regex \<Rightarrow> string \<Rightarrow> string \<Rightarrow> string" where
  "ReplaceGroup g r replacement s = replace_from g r replacement ([], s)"

definition ReplaceAllString :: "regex \<Rightarrow> string \<Rightarrow> string \<Rightarrow> string" where
  "ReplaceAllString r replacement s = ReplaceGroup REmpty r replacement s"

text \<open>\<open>MatchString\<close>: a match starts somewhere.\<close>

function match_from :: "regex \<Rightarrow> pos \<Rightarrow> bool" where
  "match_from r p \<longleftrightarrow>
     ends r p \<noteq> [] \<or> (case snd p of [] \<Rightarrow> False | c # s \<Rightarrow> match_from r (c # fst p, s))"
  by pat_completeness auto
termination by (relation "measure (\<lambda>(r, p). length (snd p))") auto

declare match_from.simps [simp del]

definition MatchString :: "regex \<Rightarrow> string \<Rightarrow> bool" where
  "MatchString r s \<longleftrightarrow> match_from r ([], s)"

text \<open>Replacing with a text that is not empty empties no text.\<close>

lemma replace_from_nonempty:
  assumes "t \<noteq> []"
  shows "replace_from g r t p = [] \<longleftrightarrow> snd p = []"
  using assms
proof (induction g r t p rule: replace_from.induct)
  case (1 g r t p)
  then show ?case
    by (subst replace_from.simps) (auto split: option.split list.split)
qed

lemma ReplaceAllString_nonempty: "t \<noteq> [] \<Longrightarrow> ReplaceAllString r t s = [] \<longleftrightarrow> s = []"
  by (simp add: ReplaceAllString_def ReplaceGroup_def replace_from_nonempty)

lemma ReplaceGroup_nonempty: "t \<noteq> [] \<Longrightarrow> ReplaceGroup g r t s = [] \<longleftrightarrow> s = []"
  by (simp add: ReplaceGroup_def replace_from_nonempty)

end
