(* ===== verification/Redact.thy ===== *)
theory Redact
  imports Regex Text Plan Comparison Rollback
begin

text \<open>
  The redaction of identifiers in finished reports (\<open>internal/redact\<close>): the patterns and their
  placeholders, \<open>Text\<close>, and the functions that apply it to the fields of a findings report, a
  comparison, a rollback assessment and an upgrade plan. The code updates in place; the model
  returns the updated value.
\<close>

section \<open>Placeholders\<close>

definition ARNPlaceholder :: string where "ARNPlaceholder = ''[redacted-arn]''"
definition HostnamePlaceholder :: string where "HostnamePlaceholder = ''[redacted-node-hostname]''"
definition AccountIDPlaceholder :: string where "AccountIDPlaceholder = ''[redacted-account-id]''"
definition VPCIDPlaceholder :: string where "VPCIDPlaceholder = ''[redacted-vpc-id]''"
definition SubnetIDPlaceholder :: string where "SubnetIDPlaceholder = ''[redacted-subnet-id]''"
definition SecurityGroupIDPlaceholder :: string where
  "SecurityGroupIDPlaceholder = ''[redacted-security-group-id]''"
definition InstanceIDPlaceholder :: string where "InstanceIDPlaceholder = ''[redacted-instance-id]''"
definition VolumeIDPlaceholder :: string where "VolumeIDPlaceholder = ''[redacted-volume-id]''"
definition NetworkInterfaceIDPlaceholder :: string where
  "NetworkInterfaceIDPlaceholder = ''[redacted-network-interface-id]''"
definition RouteTableIDPlaceholder :: string where
  "RouteTableIDPlaceholder = ''[redacted-route-table-id]''"
definition InternetGatewayIDPlaceholder :: string where
  "InternetGatewayIDPlaceholder = ''[redacted-internet-gateway-id]''"
definition NATGatewayIDPlaceholder :: string where
  "NATGatewayIDPlaceholder = ''[redacted-nat-gateway-id]''"
definition EIPAllocationIDPlaceholder :: string where
  "EIPAllocationIDPlaceholder = ''[redacted-eip-allocation-id]''"
definition LaunchTemplateIDPlaceholder :: string where
  "LaunchTemplateIDPlaceholder = ''[redacted-launch-template-id]''"
definition EKSURLPlaceholder :: string where "EKSURLPlaceholder = ''[redacted-url]''"
definition IPPlaceholder :: string where "IPPlaceholder = ''[redacted-ip]''"
definition PathPlaceholder :: string where "PathPlaceholder = ''[redacted-path]''"
definition TokenPlaceholder :: string where "TokenPlaceholder = ''[redacted-token]''"
definition AccessKeyPlaceholder :: string where "AccessKeyPlaceholder = ''[redacted-access-key]''"
definition AWSSessionTokenPlaceholder :: string where
  "AWSSessionTokenPlaceholder = ''aws_'' @ ''session_'' @ ''token=[redacted-token]''"

section \<open>Patterns\<close>

definition one_of :: "string \<Rightarrow> char \<Rightarrow> bool" where
  "one_of cs c \<longleftrightarrow> c \<in> set cs"

definition arnPattern :: regex where
  "arnPattern =
     RSeqs [RLit ''arn:aws:'', RSet ascii_alnum,
       RStar (RSet (\<lambda>c. ascii_alnum c \<or> one_of ''.-'' c)), RLit '':'',
       RStar (RSet (\<lambda>c. ascii_lower c \<or> is_digit c \<or> c = CHR ''-'')), RLit '':'',
       RTimes 12 (RSet is_digit), RLit '':'',
       RPlus (RSet (\<lambda>c. ascii_alnum c \<or> one_of ''/:_.-'' c))]"

definition hostnamePattern :: regex where
  "hostnamePattern =
     (let octet = RSeq (RSet is_digit) (RUpTo 2 (RSet is_digit))
      in RSeqs [RWordBoundary, RLit ''ip-'', octet, RLit ''-'', octet, RLit ''-'', octet, RLit ''-'',
           octet, RLit ''.'',
           RAlt (RLit ''ec2.internal'')
             (RSeq (RPlus (RSet (\<lambda>c. ascii_alnum c \<or> c = CHR ''-''))) (RLit ''.compute.internal'')),
           RWordBoundary])"

definition accountIDPattern :: regex where
  "accountIDPattern = RSeqs [RWordBoundary, RTimes 12 (RSet is_digit), RWordBoundary]"

definition eksURLPattern :: regex where
  "eksURLPattern =
     RSeqs [RLit ''https://'', RPlus (RSet (\<lambda>c. ascii_alnum c \<or> one_of ''.-'' c)),
       RLit ''.eks.amazonaws.com'', RWordBoundary]"

definition bearerTokenPattern :: regex where
  "bearerTokenPattern =
     RSeqs [RWordBoundary, RLit ''Bearer'', RPlus (RSet posix_space),
       RPlus (RSet (\<lambda>c. ascii_alnum c \<or> one_of ''._~+/=-'' c))]"

definition awsSessionTokenPattern :: regex where
  "awsSessionTokenPattern =
     RSeqs [RWordBoundary, RLit (''aws_'' @ ''session_'' @ ''token''), RStar (RSet posix_space),
       RLit ''='', RStar (RSet posix_space), RPlus (RSet (\<lambda>c. \<not> posix_space c))]"

definition awsAccessKeyPattern :: regex where
  "awsAccessKeyPattern =
     RSeqs [RWordBoundary, RAlt (RLit ''AKIA'') (RLit ''ASIA''),
       RTimes 16 (RSet (\<lambda>c. is_digit c \<or> ascii_upper c)), RWordBoundary]"

definition ipv4_octet :: regex where
  "ipv4_octet =
     RAlts [RSeq (RLit ''25'') (RSet (between (CHR ''0'') (CHR ''5''))),
       RSeqs [RChar (CHR ''2''), RSet (between (CHR ''0'') (CHR ''4'')), RSet is_digit],
       RSeqs [ROpt (RChar (CHR ''1'')), ROpt (RSet is_digit), RSet is_digit]]"

definition ipv4Pattern :: regex where
  "ipv4Pattern =
     RSeqs [RWordBoundary, RTimes 3 (RSeq ipv4_octet (RLit ''.'')), ipv4_octet, RWordBoundary]"

definition path_char :: "char \<Rightarrow> bool" where
  \<comment> \<open>neither a space nor a quotation mark\<close>
  "path_char c \<longleftrightarrow> \<not> posix_space c \<and> c \<noteq> CHR 0x22 \<and> c \<noteq> CHR 0x27"

definition unixPathPattern :: "regex \<times> regex" where
  \<comment> \<open>the capture group and the rest\<close>
  "unixPathPattern =
     (RAlt RTextStart
        (RSet (\<lambda>c. posix_space c \<or> c = CHR 0x22 \<or> c = CHR 0x27 \<or> c = CHR ''='')),
      RSeqs [RLit ''/'',
        RAlts [RLit ''home'', RLit ''Users'', RLit ''tmp'', RLit ''var'', RLit ''private'',
          RLit ''workspace''],
        RLit ''/'', RPlus (RSet path_char)])"

definition windowsPathPattern :: regex where
  "windowsPathPattern =
     (let backslash = [CHR 0x5C]
      in RSeqs [RWordBoundary, RSet (\<lambda>c. ascii_upper c \<or> ascii_lower c), RLit ('':'' @ backslash),
           RAlts [RLit ''Users'', RLit ''Temp'', RLit (''Windows'' @ backslash @ ''Temp''),
             RLit ''workspace''],
           RLit backslash, RPlus (RSet path_char)])"

definition aws_id :: "string \<Rightarrow> regex" where
  \<comment> \<open>a prefix with 8 or 17 hexadecimal digits\<close>
  "aws_id p =
     (let hex = RSet (\<lambda>c. is_digit c \<or> between (CHR ''a'') (CHR ''f'') c)
      in RSeqs [RWordBoundary, RLit (p @ ''-''), RTimes 8 hex, ROpt (RTimes 9 hex), RWordBoundary])"

definition awsIDPatterns :: "(regex \<times> string) list" where
  "awsIDPatterns =
     [(aws_id ''vpc'', VPCIDPlaceholder), (aws_id ''subnet'', SubnetIDPlaceholder),
      (aws_id ''sg'', SecurityGroupIDPlaceholder), (aws_id ''i'', InstanceIDPlaceholder),
      (aws_id ''vol'', VolumeIDPlaceholder), (aws_id ''eni'', NetworkInterfaceIDPlaceholder),
      (aws_id ''rtb'', RouteTableIDPlaceholder), (aws_id ''igw'', InternetGatewayIDPlaceholder),
      (aws_id ''nat'', NATGatewayIDPlaceholder), (aws_id ''eipalloc'', EIPAllocationIDPlaceholder),
      (aws_id ''lt'', LaunchTemplateIDPlaceholder)]"

section \<open>Text\<close>

definition redact_aws_ids :: "string \<Rightarrow> string" where
  "redact_aws_ids s = foldl (\<lambda>s p. ReplaceAllString (fst p) (snd p) s) s awsIDPatterns"

definition redact_Text :: "string \<Rightarrow> string" where
  "redact_Text s =
     (if s = '''' then s
      else
        let s = ReplaceAllString arnPattern ARNPlaceholder s;
            s = ReplaceAllString hostnamePattern HostnamePlaceholder s;
            s = ReplaceAllString eksURLPattern EKSURLPlaceholder s;
            s = redact_aws_ids s;
            s = ReplaceAllString bearerTokenPattern TokenPlaceholder s;
            s = ReplaceAllString awsSessionTokenPattern AWSSessionTokenPlaceholder s;
            s = ReplaceAllString awsAccessKeyPattern AccessKeyPlaceholder s;
            s = ReplaceGroup (fst unixPathPattern) (snd unixPathPattern) PathPlaceholder s;
            s = ReplaceAllString windowsPathPattern PathPlaceholder s;
            s = ReplaceAllString ipv4Pattern IPPlaceholder s
        in ReplaceAllString accountIDPattern AccountIDPlaceholder s)"

text \<open>A nil slice and an empty one are both \<open>[]\<close>.\<close>

definition redact_Strings :: "string list \<Rightarrow> string list" where
  "redact_Strings ss = map redact_Text ss"

definition StringMapValues :: "(string \<times> string) list \<Rightarrow> (string \<times> string) list" where
  "StringMapValues m = map (\<lambda>(k, v). (k, redact_Text v)) m"

section \<open>Findings\<close>

definition redact_reference :: "ResourceReference \<Rightarrow> ResourceReference" where
  "redact_reference r =
     r\<lparr>ref_Name := redact_Text (ref_Name r), ref_ProviderID := redact_Text (ref_ProviderID r),
       ref_ProviderName := redact_Text (ref_ProviderName r)\<rparr>"

definition redactRemediationAction :: "RemediationAction option \<Rightarrow> RemediationAction option" where
  "redactRemediationAction a =
     map_option (\<lambda>a. a\<lparr>act_Command := redact_Text (act_Command a),
                        act_Steps := redact_Strings (act_Steps a)\<rparr>) a"

definition redact_change :: "RemediationChange \<Rightarrow> RemediationChange" where
  "redact_change c =
     c\<lparr>chg_Current := redact_Text (chg_Current c), chg_Required := redact_Text (chg_Required c)\<rparr>"

definition redact_detail :: "RemediationDetail \<Rightarrow> RemediationDetail" where
  "redact_detail d =
     d\<lparr>rem_Diff := redact_Text (rem_Diff d),
       rem_VerifyCommand := redact_Text (rem_VerifyCommand d),
       rem_ExpectedResult := redact_Text (rem_ExpectedResult d),
       rem_Changes := map redact_change (rem_Changes d),
       rem_SafeFix := redactRemediationAction (rem_SafeFix d),
       rem_Emergency := redactRemediationAction (rem_Emergency d),
       rem_BreakGlass := redactRemediationAction (rem_BreakGlass d)\<rparr>"

definition redactFinding :: "Finding \<Rightarrow> Finding" where
  "redactFinding f =
     f\<lparr>f_Message := redact_Text (f_Message f), f_Evidence := redact_Strings (f_Evidence f),
       f_Remediation := redact_Text (f_Remediation f),
       f_Resources := map redact_reference (f_Resources f),
       f_RemediationDetail := map_option redact_detail (f_RemediationDetail f)\<rparr>"

section \<open>Reports\<close>

definition redact_plane :: "PlaneCoverage \<Rightarrow> PlaneCoverage" where
  "redact_plane p = p\<lparr>pc_Errors := redact_Strings (pc_Errors p)\<rparr>"

definition redact_family :: "APICompatibilityItem \<Rightarrow> APICompatibilityItem" where
  "redact_family i = i\<lparr>item_Resources := redact_Strings (item_Resources i)\<rparr>"

definition redactAPICompatibilitySummary ::
  "APICompatibilitySummary option \<Rightarrow> APICompatibilitySummary option" where
  "redactAPICompatibilitySummary s =
     map_option (\<lambda>s. s\<lparr>api_RemovedFamilies := map redact_family (api_RemovedFamilies s),
                        api_DeprecatedFamilies := map redact_family (api_DeprecatedFamilies s)\<rparr>) s"

definition redact_health_issue :: "EKSNodegroupHealthIssue \<Rightarrow> EKSNodegroupHealthIssue" where
  "redact_health_issue i =
     i\<lparr>hi_Message := redact_Text (hi_Message i), hi_ResourceIDs := redact_Strings (hi_ResourceIDs i)\<rparr>"

definition redact_nodegroup :: "EKSNodegroupInfo \<Rightarrow> EKSNodegroupInfo" where
  "redact_nodegroup ng =
     ng\<lparr>ng_AutoScalingGroups := redact_Strings (ng_AutoScalingGroups ng),
        ng_HealthIssues := map redact_health_issue (ng_HealthIssues ng)\<rparr>"

definition redact_insight :: "EKSUpgradeInsightInfo \<Rightarrow> EKSUpgradeInsightInfo" where
  "redact_insight i =
     i\<lparr>eki_Description := redact_Text (eki_Description i),
       eki_Recommendation := redact_Text (eki_Recommendation i),
       eki_DeprecationDetails := redact_Strings (eki_DeprecationDetails i),
       eki_AddonCompatibility := redact_Strings (eki_AddonCompatibility i),
       eki_AdditionalInfo := StringMapValues (eki_AdditionalInfo i)\<rparr>"

definition redact_execution :: "RuleExecutionRecord \<Rightarrow> RuleExecutionRecord" where
  "redact_execution rec = rec\<lparr>ex_Reason := redact_Text (ex_Reason rec)\<rparr>"

definition redact_coverage :: "ScanCoverage \<Rightarrow> ScanCoverage" where
  "redact_coverage c =
     c\<lparr>sc_Kubernetes := redact_plane (sc_Kubernetes c), sc_AWS := redact_plane (sc_AWS c),
       sc_Manifests := redact_plane (sc_Manifests c)\<rparr>"

definition redact_Report :: "Report \<Rightarrow> Report" where
  "redact_Report r =
     r\<lparr>r_ClusterContext := redact_Text (r_ClusterContext r),
       r_Coverage := redact_coverage (r_Coverage r),
       r_EKSCluster := map_option (\<lambda>c. c\<lparr>ekc_ARN := redact_Text (ekc_ARN c)\<rparr>) (r_EKSCluster r),
       r_APICompatibility := redactAPICompatibilitySummary (r_APICompatibility r),
       r_EKSNodegroups := map redact_nodegroup (r_EKSNodegroups r),
       r_EKSUpgradeInsights := map redact_insight (r_EKSUpgradeInsights r),
       r_Findings := map redactFinding (r_Findings r),
       r_RuleExecutions := map redact_execution (r_RuleExecutions r)\<rparr>"

section \<open>Comparisons, assessments, plans\<close>

text \<open>
  The warnings of a comparison are values in the model; \<open>comparison_warning_text\<close> is their
  message and \<open>redacted_warnings\<close> the redacted messages.
\<close>

definition comparison_warning_text :: "comparison_warning \<Rightarrow> string" where
  "comparison_warning_text w =
     (case w of
        TargetVersionsDiffer b c \<Rightarrow>
          (''baseline was scanned at target-version '' @ quote b @ '' and current at ''
           @ quote c @ '' -- fingerprints are scoped to target version, so genuinely ''
           @ ''unchanged findings will show up as a new+resolved pair instead of unchanged. ''
           @ ''Re-scan both at the same target version for an accurate diff.'')
      | UpgradeContextsDiffer b c \<Rightarrow>
          (''baseline used upgradeContext '' @ quote (context_string b) @ '' and current ''
           @ ''used '' @ quote (context_string c) @ '' -- blocker counts and verdicts are ''
           @ ''context-aware, so review gate changes with the selected operation in mind.''))"

definition redacted_warnings :: "Comparison \<Rightarrow> string list" where
  "redacted_warnings c = redact_Strings (map comparison_warning_text (cmp_Warnings c))"

definition redact_changed :: "Changed \<Rightarrow> Changed" where
  "redact_changed ch = ch\<lparr>ch_Resources := map redact_reference (ch_Resources ch)\<rparr>"

definition redact_Comparison :: "Comparison \<Rightarrow> Comparison" where
  "redact_Comparison c =
     c\<lparr>cmp_New := map redactFinding (cmp_New c), cmp_Resolved := map redactFinding (cmp_Resolved c),
       cmp_Unchanged := map redactFinding (cmp_Unchanged c),
       cmp_NotReEvaluated := map redactFinding (cmp_NotReEvaluated c),
       cmp_Changed := map redact_changed (cmp_Changed c)\<rparr>"

definition redact_RollbackAssessment :: "Assessment \<Rightarrow> Assessment" where
  "redact_RollbackAssessment a =
     a\<lparr>as_Checks := map (\<lambda>ck. ck\<lparr>ck_Evidence := redact_Strings (ck_Evidence ck)\<rparr>) (as_Checks a)\<rparr>"

definition redact_plan_action :: "PlanAction \<Rightarrow> PlanAction" where
  "redact_plan_action a =
     a\<lparr>pa_Title := redact_Text (pa_Title a), pa_Reason := redact_Text (pa_Reason a),
       pa_SuccessCriteria := redact_Strings (pa_SuccessCriteria a),
       pa_Commands := redact_Strings (pa_Commands a)\<rparr>"

definition redact_phase :: "ActionPhase \<Rightarrow> ActionPhase" where
  "redact_phase ph =
     ph\<lparr>ph_Description := redact_Text (ph_Description ph), ph_Gate := redact_Text (ph_Gate ph),
        ph_Actions := map redact_plan_action (ph_Actions ph)\<rparr>"

definition redact_PlanReport :: "PlanReport \<Rightarrow> PlanReport" where
  "redact_PlanReport pr =
     pr\<lparr>pr_ClusterContext := redact_Text (pr_ClusterContext pr),
        pr_Hops := map (\<lambda>h. h\<lparr>hr_Report := map_option redact_Report (hr_Report h)\<rparr>) (pr_Hops pr),
        pr_ActionPlan := map_option
          (\<lambda>ap. ap\<lparr>ap_Phases := map redact_phase (ap_Phases ap)\<rparr>) (pr_ActionPlan pr)\<rparr>"

end
