(* ===== verification/RedactFacts.thy ===== *)
theory RedactFacts
  imports Redact Gate PlanFacts
begin

text \<open>
  What redaction keeps and what it removes: verdicts, exit codes, the decisions carried by findings
  and their validity are untouched, a comparison of redacted documents gives the same gate decision,
  and no account number survives.
\<close>

section \<open>Nothing disappears\<close>

lemmas placeholder_defs = ARNPlaceholder_def HostnamePlaceholder_def AccountIDPlaceholder_def
  VPCIDPlaceholder_def SubnetIDPlaceholder_def SecurityGroupIDPlaceholder_def
  InstanceIDPlaceholder_def VolumeIDPlaceholder_def NetworkInterfaceIDPlaceholder_def
  RouteTableIDPlaceholder_def InternetGatewayIDPlaceholder_def NATGatewayIDPlaceholder_def
  EIPAllocationIDPlaceholder_def LaunchTemplateIDPlaceholder_def EKSURLPlaceholder_def
  IPPlaceholder_def PathPlaceholder_def TokenPlaceholder_def AccessKeyPlaceholder_def
  AWSSessionTokenPlaceholder_def

lemma fold_replace_nonempty:
  "list_all (\<lambda>p. snd p \<noteq> []) ps
   \<Longrightarrow> foldl (\<lambda>s p. ReplaceAllString (fst p) (snd p) s) s ps = [] \<longleftrightarrow> s = []"
  by (induction ps arbitrary: s) (simp_all add: ReplaceAllString_nonempty)

lemma placeholders_nonempty: "list_all (\<lambda>p. snd p \<noteq> []) awsIDPatterns"
  by (simp add: awsIDPatterns_def placeholder_defs)

lemma redact_aws_ids_nonempty: "redact_aws_ids s = [] \<longleftrightarrow> s = []"
  unfolding redact_aws_ids_def by (rule fold_replace_nonempty [OF placeholders_nonempty])

lemma redact_Text_nonempty [simp]: "redact_Text s = [] \<longleftrightarrow> s = []"
  unfolding redact_Text_def Let_def
  by (simp add: ReplaceAllString_nonempty ReplaceGroup_nonempty redact_aws_ids_nonempty placeholder_defs)

section \<open>Decisions\<close>

text \<open>What of a finding decides: its rule, severities, gate, priority and fingerprint.\<close>

definition decisive ::
  "Finding \<Rightarrow> string \<times> Severity \<times> ConfidenceTier \<times> UpgradeGate \<times> string \<times> bool \<times> string" where
  "decisive f = (f_RuleID f, f_Severity f, f_Confidence f, EffectiveUpgradeGate f, f_Priority f,
     f_CanUpgradeContinue f, f_Fingerprint f)"

lemma decisive_redactFinding [simp]: "decisive (redactFinding f) = decisive f"
  by (simp add: decisive_def redactFinding_def EffectiveUpgradeGate_def)

lemma redact_plane_status [simp]: "pc_Status (redact_plane p) = pc_Status p"
  by (simp add: redact_plane_def)

lemma redact_execution_simps [simp]:
  "ex_RuleID (redact_execution rec) = ex_RuleID rec"
  "ex_Applicability (redact_execution rec) = ex_Applicability rec"
  "ex_State (redact_execution rec) = ex_State rec"
  by (simp_all add: redact_execution_def)

lemma list_ex_map: "list_ex P (map f xs) = list_ex (P \<circ> f) xs"
  by (induction xs) simp_all

lemma IsComplete_redact [simp]: "IsComplete (redact_Report r) = IsComplete r"
  by (simp add: IsComplete_def redact_Report_def redact_coverage_def list_ex_map comp_def)

lemma redact_Report_simps [simp]:
  "r_Summary (redact_Report r) = r_Summary r"
  "r_TargetVersion (redact_Report r) = r_TargetVersion r"
  "r_UpgradeContext (redact_Report r) = r_UpgradeContext r"
  "r_UpgradeReadiness (redact_Report r) = r_UpgradeReadiness r"
  "r_Findings (redact_Report r) = map redactFinding (r_Findings r)"
  "r_RuleExecutions (redact_Report r) = map redact_execution (r_RuleExecutions r)"
  by (simp_all add: redact_Report_def)

lemma verdict_redact [simp]: "resultAndExitCode (redact_Report r) = resultAndExitCode r"
  by (simp add: resultAndExitCode_def)

lemma Result_redact [simp]: "Result (redact_Report r) = Result r"
  by (simp add: Result_def)

lemma ExitCode_redact [simp]: "ExitCode (redact_Report r) = ExitCode r"
  by (simp add: ExitCode_def)

lemma redact_reference_simps [simp]:
  "ref_Plane (redact_reference r) = ref_Plane r" "ref_Kind (redact_reference r) = ref_Kind r"
  "ref_Scope (redact_reference r) = ref_Scope r"
  "ref_Namespace (redact_reference r) = ref_Namespace r" "ref_UID (redact_reference r) = ref_UID r"
  "ref_SourcePath (redact_reference r) = ref_SourcePath r"
  "ref_Category (redact_reference r) = ref_Category r"
  "ref_KubernetesVersion (redact_reference r) = ref_KubernetesVersion r"
  "ref_Name (redact_reference r) = redact_Text (ref_Name r)"
  "ref_ProviderID (redact_reference r) = redact_Text (ref_ProviderID r)"
  "ref_ProviderName (redact_reference r) = redact_Text (ref_ProviderName r)"
  by (simp_all add: redact_reference_def)

lemma validate_reference_redact [simp]:
  "validate_reference (redact_reference r) = validate_reference r"
  by (cases "ref_Plane r") (simp_all add: validate_reference_def)

lemma first_bad_reference_redact [simp]:
  "first_bad_reference i (map redact_reference rs) = first_bad_reference i rs"
  by (induction rs arbitrary: i) (simp_all split: option.split)

lemma break_glass_redact [simp]: "break_glass_not_risky (redactFinding f) = break_glass_not_risky f"
  by (simp add: break_glass_not_risky_def redactFinding_def redact_detail_def
      redactRemediationAction_def split: option.split)

lemma redactFinding_simps [simp]:
  "f_RuleID (redactFinding f) = f_RuleID f" "f_Severity (redactFinding f) = f_Severity f"
  "f_Confidence (redactFinding f) = f_Confidence f" "f_Fingerprint (redactFinding f) = f_Fingerprint f"
  "f_ImpactScopes (redactFinding f) = f_ImpactScopes f"
  "f_UpgradeGate (redactFinding f) = f_UpgradeGate f"
  "f_Resources (redactFinding f) = map redact_reference (f_Resources f)"
  by (simp_all add: redactFinding_def)

lemma Validate_redact [simp]: "Validate (redactFinding f) = Validate f"
  by (simp only: Validate_def redactFinding_simps map_is_Nil_conv first_bad_reference_redact
      break_glass_redact)

text \<open>
  Redacting a report changes neither its verdict and exit code nor any finding's rule, severity,
  confidence, gate, priority or fingerprint, nor whether the finding is valid, nor the two
  scorecards' verdicts, nor the state of any rule.
\<close>

theorem redaction_keeps_decisions:
  "Result (redact_Report r) = Result r \<and> ExitCode (redact_Report r) = ExitCode r
   \<and> IsComplete (redact_Report r) = IsComplete r
   \<and> map decisive (r_Findings (redact_Report r)) = map decisive (r_Findings r)
   \<and> map Validate (r_Findings (redact_Report r)) = map Validate (r_Findings r)
   \<and> r_UpgradeReadiness (redact_Report r) = r_UpgradeReadiness r
   \<and> map_option (\<lambda>s. (api_Status s, api_UpgradeContinue s, api_ScoreImpact s))
        (r_APICompatibility (redact_Report r))
     = map_option (\<lambda>s. (api_Status s, api_UpgradeContinue s, api_ScoreImpact s))
        (r_APICompatibility r)
   \<and> map (\<lambda>e. (ex_RuleID e, ex_Applicability e, ex_State e)) (r_RuleExecutions (redact_Report r))
     = map (\<lambda>e. (ex_RuleID e, ex_Applicability e, ex_State e)) (r_RuleExecutions r)"
proof -
  have "map_option (\<lambda>s. (api_Status s, api_UpgradeContinue s, api_ScoreImpact s))
        (r_APICompatibility (redact_Report r))
     = map_option (\<lambda>s. (api_Status s, api_UpgradeContinue s, api_ScoreImpact s))
        (r_APICompatibility r)"
    by (simp add: redact_Report_def redactAPICompatibilitySummary_def option.map_comp comp_def)
  then show ?thesis by simp
qed

section \<open>Comparisons of redacted documents\<close>

text \<open>
  Two documents that agree in everything a comparison and the gate decide by. Redaction of either
  side relates a document to one that agrees with it.
\<close>

definition agree_for_gate :: "Report \<Rightarrow> Report \<Rightarrow> bool" where
  "agree_for_gate r r' \<longleftrightarrow>
     map decisive (r_Findings r) = map decisive (r_Findings r')
     \<and> r_Summary r = r_Summary r' \<and> IsComplete r = IsComplete r'
     \<and> r_TargetVersion r = r_TargetVersion r' \<and> r_UpgradeContext r = r_UpgradeContext r'
     \<and> r_UpgradeReadiness r = r_UpgradeReadiness r'
     \<and> map (\<lambda>e. (ex_RuleID e, ex_Applicability e, ex_State e)) (r_RuleExecutions r)
       = map (\<lambda>e. (ex_RuleID e, ex_Applicability e, ex_State e)) (r_RuleExecutions r')"

lemma agree_refl: "agree_for_gate r r"
  by (simp add: agree_for_gate_def)

lemma agree_redact: "agree_for_gate r (redact_Report r)"
  by (simp add: agree_for_gate_def)

definition fingerprint_of ::
  "string \<times> Severity \<times> ConfidenceTier \<times> UpgradeGate \<times> string \<times> bool \<times> string \<Rightarrow> string" where
  "fingerprint_of d = snd (snd (snd (snd (snd (snd d)))))"

lemma fingerprint_decisive [simp]: "fingerprint_of (decisive f) = f_Fingerprint f"
  by (simp add: fingerprint_of_def decisive_def)

lemma agree_fingerprints:
  assumes "agree_for_gate r r'"
  shows "map f_Fingerprint (r_Findings r) = map f_Fingerprint (r_Findings r')"
proof -
  have "map fingerprint_of (map decisive (r_Findings r)) = map fingerprint_of (map decisive (r_Findings r'))"
    using assms by (simp only: agree_for_gate_def)
  then show ?thesis by (simp add: comp_def)
qed

lemma agree_indexable:
  "agree_for_gate r r' \<Longrightarrow> indexable (r_Findings r) = indexable (r_Findings r')"
  by (simp add: indexable_def agree_fingerprints [of r r'])

lemma agree_result:
  assumes "agree_for_gate r r'"
  shows "Result r = Result r'"
  using assms by (simp add: agree_for_gate_def Result_def resultAndExitCode_def)

text \<open>A bucket chosen by the decisive part of its findings.\<close>

lemma filter_decisive:
  assumes "map decisive fs = map decisive fs'"
  shows "map decisive (filter (P \<circ> decisive) fs) = map decisive (filter (P \<circ> decisive) fs')"
  using assms by (simp flip: filter_map)

lemma is_new_decisive:
  "is_new (lookup_fp gs) = (\<lambda>d. fingerprint_of d \<notin> f_Fingerprint ` set gs) \<circ> decisive"
  by (simp add: fun_eq_iff is_new_def lookup_fp_eq_None)

lemma proven_agrees:
  assumes "map (\<lambda>e. (ex_RuleID e, ex_Applicability e, ex_State e)) es
      = map (\<lambda>e. (ex_RuleID e, ex_Applicability e, ex_State e)) es'"
  shows "ruleProvenEvaluated rid (indexRuleExecutions es) = ruleProvenEvaluated rid (indexRuleExecutions es')"
proof -
  let ?v = "\<lambda>e. (ex_RuleID e, ex_Applicability e, ex_State e)"
  have "map_option ?v (foldl (\<lambda>m rec. m(ex_RuleID rec \<mapsto> rec)) m es rid)
      = map_option ?v (foldl (\<lambda>m rec. m(ex_RuleID rec \<mapsto> rec)) m' es' rid)"
    if "\<And>rid. map_option ?v (m rid) = map_option ?v (m' rid)" for m m'
    using assms that
  proof (induction es arbitrary: es' m m')
    case Nil
    then show ?case by simp
  next
    case (Cons e es)
    then obtain e' es'' where es': "es' = e' # es''" "?v e = ?v e'" "map ?v es = map ?v es''"
      by (cases es') auto
    show ?case
      using Cons.IH [OF es'(3), of "m(ex_RuleID e \<mapsto> e)" "m'(ex_RuleID e' \<mapsto> e')"] es' Cons.prems(2)
      by simp
  qed
  from this [of Map.empty Map.empty]
  have "map_option ?v (indexRuleExecutions es rid) = map_option ?v (indexRuleExecutions es' rid)"
    by (simp add: indexRuleExecutions_def)
  then show ?thesis
    by (auto simp: ruleProvenEvaluated_def split: option.splits)
qed

text \<open>The three buckets the gate and the operator act on agree in their decisive parts.\<close>

lemma agree_new:
  assumes "agree_for_gate b b'" and "agree_for_gate c c'"
  shows "map decisive (filter (is_new (lookup_fp (r_Findings b))) (r_Findings c))
    = map decisive (filter (is_new (lookup_fp (r_Findings b'))) (r_Findings c'))"
proof -
  have fps: "f_Fingerprint ` set (r_Findings b) = f_Fingerprint ` set (r_Findings b')"
    using agree_fingerprints [OF assms(1)] by (metis list.set_map)
  have fs: "map decisive (r_Findings c) = map decisive (r_Findings c')"
    using assms(2) by (simp only: agree_for_gate_def)
  show ?thesis unfolding is_new_decisive fps by (rule filter_decisive [OF fs])
qed

lemma is_resolved_decisive:
  "is_resolved (lookup_fp gs) execs =
     (\<lambda>d. fingerprint_of d \<notin> f_Fingerprint ` set gs \<and> ruleProvenEvaluated (fst d) execs) \<circ> decisive"
  by (rule ext) (simp add: is_resolved_def is_new_def lookup_fp_eq_None decisive_def fingerprint_of_def)

lemma is_not_re_evaluated_decisive:
  "is_not_re_evaluated (lookup_fp gs) execs =
     (\<lambda>d. fingerprint_of d \<notin> f_Fingerprint ` set gs \<and> \<not> ruleProvenEvaluated (fst d) execs) \<circ> decisive"
  by (rule ext)
    (simp add: is_not_re_evaluated_def is_new_def lookup_fp_eq_None decisive_def fingerprint_of_def)

lemma resolved_agree:
  assumes "agree_for_gate b b'" and "agree_for_gate c c'"
  shows "map decisive (filter (is_resolved (lookup_fp (r_Findings c))
        (indexRuleExecutions (r_RuleExecutions c))) (r_Findings b))
    = map decisive (filter (is_resolved (lookup_fp (r_Findings c'))
        (indexRuleExecutions (r_RuleExecutions c'))) (r_Findings b'))"
    and "map decisive (filter (is_not_re_evaluated (lookup_fp (r_Findings c))
        (indexRuleExecutions (r_RuleExecutions c))) (r_Findings b))
    = map decisive (filter (is_not_re_evaluated (lookup_fp (r_Findings c'))
        (indexRuleExecutions (r_RuleExecutions c'))) (r_Findings b'))"
proof -
  have fps: "f_Fingerprint ` set (r_Findings c) = f_Fingerprint ` set (r_Findings c')"
    using agree_fingerprints [OF assms(2)] by (metis list.set_map)
  have proven: "ruleProvenEvaluated rid (indexRuleExecutions (r_RuleExecutions c))
      = ruleProvenEvaluated rid (indexRuleExecutions (r_RuleExecutions c'))" for rid
    using assms(2) by (intro proven_agrees) (simp add: agree_for_gate_def)
  have fs: "map decisive (r_Findings b) = map decisive (r_Findings b')"
    using assms(1) by (simp only: agree_for_gate_def)
  show "map decisive (filter (is_resolved (lookup_fp (r_Findings c))
        (indexRuleExecutions (r_RuleExecutions c))) (r_Findings b))
    = map decisive (filter (is_resolved (lookup_fp (r_Findings c'))
        (indexRuleExecutions (r_RuleExecutions c'))) (r_Findings b'))"
    unfolding is_resolved_decisive fps proven by (rule filter_decisive [OF fs])
  show "map decisive (filter (is_not_re_evaluated (lookup_fp (r_Findings c))
        (indexRuleExecutions (r_RuleExecutions c))) (r_Findings b))
    = map decisive (filter (is_not_re_evaluated (lookup_fp (r_Findings c'))
        (indexRuleExecutions (r_RuleExecutions c'))) (r_Findings b'))"
    unfolding is_not_re_evaluated_decisive fps proven by (rule filter_decisive [OF fs])
qed

lemma bucket_mset:
  "mset (map decisive (sort_by lt fs)) = mset (map decisive fs)"
  by (simp only: mset_map mset_sort_by)

lemma count_blocks_decisive:
  assumes "mset (map decisive fs) = mset (map decisive gs)"
  shows "count_blocks fs = count_blocks gs"
proof -
  have "count_blocks fs = size (filter_mset (\<lambda>d. fst (snd (snd (snd d))) = UpgradeGateBlock)
      (mset (map decisive fs)))" for fs
    by (induction fs) (simp_all add: count_blocks_def decisive_def)
  with assms show ?thesis by simp
qed

lemma bucket_severities:
  assumes "mset (map decisive fs) = mset (map decisive gs)"
  shows "f_Severity ` set fs = f_Severity ` set gs"
proof -
  have severity: "f_Severity ` set fs = (fst \<circ> snd) ` set (map decisive fs)" for fs
    by (simp add: image_image decisive_def)
  have "set (map decisive fs) = set (map decisive gs)" using assms by (rule mset_eq_setD)
  then show ?thesis by (simp only: severity)
qed

text \<open>
  C40: Comparing redacted documents instead of the originals, on either or both sides, gives the same
  new, resolved and not re-evaluated findings in everything that decides, and the gate comes to the
  same decision for the same reasons under every policy.
\<close>

theorem redaction_keeps_gate:
  assumes "Compare o1 o2 b c = Inr cmp"
    and "mset o1 = mset (map f_Fingerprint (r_Findings c))"
    and "mset o2 = mset (map f_Fingerprint (r_Findings b))"
    and "b' = b \<or> b' = redact_Report b" and "c' = c \<or> c' = redact_Report c"
  shows "\<exists>cmp'. Compare o1 o2 b' c' = Inr cmp'
    \<and> mset (map decisive (cmp_New cmp')) = mset (map decisive (cmp_New cmp))
    \<and> mset (map decisive (cmp_Resolved cmp')) = mset (map decisive (cmp_Resolved cmp))
    \<and> mset (map decisive (cmp_NotReEvaluated cmp')) = mset (map decisive (cmp_NotReEvaluated cmp))
    \<and> (\<forall>policy. g_Decision (Evaluate b' c' cmp' policy) = g_Decision (Evaluate b c cmp policy)
         \<and> set (g_Reasons (Evaluate b' c' cmp' policy)) = set (g_Reasons (Evaluate b c cmp policy)))"
proof -
  have b: "agree_for_gate b b'" and c: "agree_for_gate c c'"
    using assms(4,5) agree_refl agree_redact by auto
  note ix = Compare_Inr [OF assms(1)]
  have cmp: "cmp = compare_spec b c"
    using Compare_eq_spec [OF ix assms(2,3)] assms(1) by simp
  have cmp': "Compare o1 o2 b' c' = Inr (compare_spec b' c')"
    using ix assms(2,3) agree_indexable [OF b] agree_indexable [OF c]
      agree_fingerprints [OF b] agree_fingerprints [OF c]
    by (intro Compare_eq_spec) simp_all
  let ?x = "compare_spec b c" and ?y = "compare_spec b' c'"
  have new: "mset (map decisive (cmp_New ?y)) = mset (map decisive (cmp_New ?x))"
    unfolding compare_spec_buckets bucket_mset using agree_new [OF b c] by simp
  have res: "mset (map decisive (cmp_Resolved ?y)) = mset (map decisive (cmp_Resolved ?x))"
    unfolding compare_spec_buckets bucket_mset using resolved_agree(1) [OF b c] by simp
  have nre: "mset (map decisive (cmp_NotReEvaluated ?y)) = mset (map decisive (cmp_NotReEvaluated ?x))"
    unfolding compare_spec_buckets bucket_mset using resolved_agree(2) [OF b c] by simp
  have warn: "cmp_Warnings ?y = cmp_Warnings ?x"
    using b c by (simp add: compare_spec_buckets agree_for_gate_def compare_warnings_def)
  have rel: "reliable b' c' ?y = reliable b c ?x"
    using b c warn by (simp add: reliable_def agree_for_gate_def)
  have "cs_NewBlockers (cmp_Summary ?y) = cs_NewBlockers (cmp_Summary ?x)"
    "cs_BaselineVerdict (cmp_Summary ?y) = cs_BaselineVerdict (cmp_Summary ?x)"
    "cs_CurrentVerdict (cmp_Summary ?y) = cs_CurrentVerdict (cmp_Summary ?x)"
    "cs_ReadinessScoreDelta (cmp_Summary ?y) = cs_ReadinessScoreDelta (cmp_Summary ?x)"
    using b c count_blocks_decisive [OF new] agree_result [OF b] agree_result [OF c]
    by (simp_all add: buildSummary_spec buildSummary_def Let_def verdictOf_def agree_for_gate_def)
  moreover have "(\<exists>e\<in>set (cmp_New ?y). f_Severity e = s) = (\<exists>e\<in>set (cmp_New ?x). f_Severity e = s)" for s
    using bucket_severities [OF new] by (metis (no_types, lifting) image_iff)
  moreover have "r_Summary c' = r_Summary c" using c by (simp add: agree_for_gate_def)
  ultimately have pol: "policy_violations c' ?y policy = policy_violations c ?x policy" for policy
    by (simp add: policy_violations_def)
  have "g_Decision (Evaluate b' c' ?y policy) = g_Decision (Evaluate b c ?x policy)
      \<and> set (g_Reasons (Evaluate b' c' ?y policy)) = set (g_Reasons (Evaluate b c ?x policy))" for policy
    using Evaluate_eq [of c' ?y policy b'] Evaluate_eq [of c ?x policy b]
    by (auto simp: rel pol split: if_splits)
  with cmp' new res nre show ?thesis unfolding cmp by blast
qed

theorem redaction_keeps_gate_witness:
  "\<exists>cmp. Compare [''fq'', ''fp''] [''fp''] (sample_report [sample_finding])
      (redact_Report (sample_report [sample_finding, other_finding])) = Inr cmp
    \<and> f_Fingerprint ` set (cmp_New cmp) = {''fq''}"
proof -
  let ?b = "sample_report [sample_finding]" and ?c = "sample_report [sample_finding, other_finding]"
  have cmp: "Compare [''fq'', ''fp''] [''fp''] ?b ?c = Inr (compare_spec ?b ?c)"
    by (rule Compare_eq_spec) (simp_all add: indexable_def)
  obtain cmp' where cmp': "Compare [''fq'', ''fp''] [''fp''] ?b (redact_Report ?c) = Inr cmp'"
      "mset (map decisive (cmp_New cmp')) = mset (map decisive (cmp_New (compare_spec ?b ?c)))"
    using redaction_keeps_gate [OF cmp, of ?b "redact_Report ?c"] by auto
  have "set (map decisive (cmp_New cmp')) = set (map decisive (cmp_New (compare_spec ?b ?c)))"
    using cmp'(2) by (rule mset_eq_setD)
  then have "fingerprint_of ` set (map decisive (cmp_New cmp'))
      = fingerprint_of ` set (map decisive (cmp_New (compare_spec ?b ?c)))" by (rule arg_cong)
  then have "f_Fingerprint ` set (cmp_New cmp') = {''fq''}"
    by (simp add: image_image compare_spec_buckets is_new_def lookup_fp_eq_None)
  with cmp'(1) show ?thesis by blast
qed

section \<open>Account numbers\<close>

text \<open>
  A position where the pattern of account numbers matches. Twelve digits are consumed, and a match
  is preceded and followed by something that is not a word character.
\<close>

definition account_at :: "pos \<Rightarrow> bool" where
  "account_at p \<longleftrightarrow>
     at_boundary p \<and> 12 \<le> length (snd p) \<and> list_all is_digit (take 12 (snd p))
     \<and> at_boundary (rev (take 12 (snd p)) @ fst p, drop 12 (snd p))"

lemma ends_digits:
  "ends (RTimes (Suc n) (RSet P)) p =
     (if Suc n \<le> length (snd p) \<and> list_all P (take (Suc n) (snd p))
      then [(rev (take (Suc n) (snd p)) @ fst p, drop (Suc n) (snd p))] else [])"
proof (induction n arbitrary: p)
  case 0
  show ?case by (cases "snd p") simp_all
next
  case (Suc n)
  show ?case
  proof (cases "snd p")
    case Nil
    then show ?thesis by simp
  next
    case (Cons c s)
    then show ?thesis by (simp add: Suc.IH)
  qed
qed

lemma RTimes_12: "RTimes 12 r = RTimes (Suc 11) r"
  by simp

lemma ends_account:
  "ends accountIDPattern p =
     (if account_at p then [(rev (take 12 (snd p)) @ fst p, drop 12 (snd p))] else [])"
  using ends_digits [of 11 is_digit p]
  by (simp add: accountIDPattern_def account_at_def del: RTimes.simps)

lemma first_match_account:
  "first_match REmpty accountIDPattern p =
     (if account_at p then Some (p, (rev (take 12 (snd p)) @ fst p, drop 12 (snd p))) else None)"
  by (simp add: first_match_def ends_account)

abbreviation redact_accounts :: "pos \<Rightarrow> string" where
  "redact_accounts p \<equiv> replace_from REmpty accountIDPattern AccountIDPlaceholder p"

lemma redact_accounts_match:
  "account_at p \<Longrightarrow> redact_accounts p =
     AccountIDPlaceholder @ redact_accounts (rev (take 12 (snd p)) @ fst p, drop 12 (snd p))"
  by (subst replace_from.simps) (auto simp: first_match_account text_between_def account_at_def)

lemma redact_accounts_Nil: "redact_accounts (l, []) = []"
  by (simp add: replace_from_nonempty AccountIDPlaceholder_def)

lemma redact_accounts_skip:
  "\<not> account_at (l, c # s) \<Longrightarrow> redact_accounts (l, c # s) = c # redact_accounts (c # l, s)"
  by (subst replace_from.simps) (simp add: first_match_account)

lemma digit_word [simp]: "is_digit c \<Longrightarrow> word_char c"
  by (simp add: word_char_def ascii_alnum_def)

lemma not_digit_bracket [simp]: "\<not> is_digit (CHR ''['')"
  by (simp add: is_digit_def)

text \<open>Digits at the front of the output are digits at the front of the input.\<close>

lemma redact_accounts_digits:
  assumes "n \<le> length (redact_accounts (l, s))"
    and "list_all is_digit (take n (redact_accounts (l, s)))"
  shows "n \<le> length s \<and> take n (redact_accounts (l, s)) = take n s
    \<and> drop n (redact_accounts (l, s)) = redact_accounts (rev (take n s) @ l, drop n s)"
  using assms
proof (induction n arbitrary: l s)
  case 0
  then show ?case by simp
next
  case (Suc n)
  show ?case
  proof (cases "account_at (l, s)")
    case True
    obtain rest where "redact_accounts (l, s) = CHR ''['' # rest"
      unfolding redact_accounts_match [OF True] by (simp add: AccountIDPlaceholder_def)
    with Suc.prems show ?thesis by simp
  next
    case no_match: False
    show ?thesis
    proof (cases s)
      case Nil
      with Suc.prems show ?thesis by (simp add: redact_accounts_Nil)
    next
      case (Cons c s')
      with no_match have skip: "redact_accounts (l, c # s') = c # redact_accounts (c # l, s')"
        by (simp add: redact_accounts_skip)
      from Suc.prems Suc.IH [of "c # l" s'] show ?thesis by (simp add: skip Cons)
    qed
  qed
qed

text \<open>After a word character the output begins with a word character if the input does.\<close>

lemma redact_accounts_hd:
  assumes "l \<noteq> []" and "word_char (hd l)"
  shows "(redact_accounts (l, s) \<noteq> [] \<and> word_char (hd (redact_accounts (l, s))))
    = (s \<noteq> [] \<and> word_char (hd s))"
proof (cases s)
  case Nil
  then show ?thesis by (simp add: redact_accounts_Nil)
next
  case (Cons c s')
  have "\<not> account_at (l, s)"
  proof
    assume a: "account_at (l, s)"
    then have "is_digit c" by (auto simp: account_at_def Cons)
    with a assms show False by (simp add: account_at_def at_boundary_def Cons)
  qed
  then show ?thesis by (simp add: Cons redact_accounts_skip)
qed

lemma no_account_at_start:
  assumes same: "(l' \<noteq> [] \<and> word_char (hd l')) = (l \<noteq> [] \<and> word_char (hd l))"
    and none: "\<not> account_at (l, s)"
  shows "\<not> account_at (l', redact_accounts (l, s))"
proof
  let ?out = "redact_accounts (l, s)"
  assume a: "account_at (l', ?out)"
  then have n: "12 \<le> length ?out" and digits: "list_all is_digit (take 12 ?out)"
    by (simp_all add: account_at_def)
  from redact_accounts_digits [OF n digits] have len: "12 \<le> length s" and pre: "take 12 ?out = take 12 s"
    and rest: "drop 12 ?out = redact_accounts (rev (take 12 s) @ l, drop 12 s)" by simp_all
  obtain c s' where s: "s = c # s'" using len by (cases s) auto
  obtain d out' where out: "?out = d # out'" using n by (cases ?out) auto
  have last: "rev (take 12 s) @ l \<noteq> []" "word_char (hd (rev (take 12 s) @ l))"
  proof -
    have "rev (take 12 s) \<noteq> []" using len by auto
    moreover have "is_digit (hd (rev (take 12 s)))"
      using digits calculation unfolding pre by (metis hd_in_set list_all_iff set_rev)
    ultimately show "rev (take 12 s) @ l \<noteq> []" "word_char (hd (rev (take 12 s) @ l))"
      by simp_all
  qed
  have "hd (take 12 ?out) = d" by (simp only: out) simp
  moreover have "hd (take 12 s) = c" by (simp only: s) simp
  ultimately have "d = c" by (simp only: pre)
  then have "at_boundary (l', ?out) = at_boundary (l, s)"
    using same by (simp only: at_boundary_def fst_conv snd_conv out) (simp add: s)
  then have "at_boundary (l, s)" using a by (simp only: account_at_def)
  moreover have "at_boundary (rev (take 12 s) @ l, drop 12 s)"
  proof -
    have "at_boundary (rev (take 12 ?out) @ l', drop 12 ?out)" using a by (simp add: account_at_def)
    moreover have "word_char (hd (rev (take 12 s) @ l'))" "rev (take 12 s) @ l' \<noteq> []"
      using last(2) len by (auto simp: hd_append)
    ultimately show ?thesis
      using redact_accounts_hd [OF last, of "drop 12 s"] last unfolding pre rest at_boundary_def by auto
  qed
  ultimately have "account_at (l, s)" using len digits pre by (simp add: account_at_def)
  with none show False ..
qed

text \<open>No account number at any position of the output, whatever precedes it.\<close>

lemma no_account_left:
  assumes "(l' \<noteq> [] \<and> word_char (hd l')) = (l \<noteq> [] \<and> word_char (hd l))
      \<or> s = [] \<or> \<not> word_char (hd s)"
  shows "\<not> account_at (rev (take k (redact_accounts (l, s))) @ l', drop k (redact_accounts (l, s)))"
  using assms
proof (induction "length s" arbitrary: l l' s k rule: less_induct)
  case less
  show ?case
  proof (cases "account_at (l, s)")
    case True
    let ?e = "(rev (take 12 s) @ l, drop 12 s)"
    have out: "redact_accounts (l, s) = AccountIDPlaceholder @ redact_accounts ?e"
      using redact_accounts_match [OF True] by simp
    have "take 12 s \<noteq> []" and "list_all is_digit (take 12 s)" and "at_boundary ?e"
      using True by (auto simp: account_at_def)
    moreover from this have "word_char (hd (rev (take 12 s)))"
      by (metis digit_word hd_in_set list_all_iff rev_is_Nil_conv set_rev)
    ultimately have next_plain: "drop 12 s = [] \<or> \<not> word_char (hd (drop 12 s))"
      by (auto simp: at_boundary_def)
    have shorter: "length (drop 12 s) < length s" using \<open>take 12 s \<noteq> []\<close> by (cases s) auto
    show ?thesis
    proof (cases "k < length AccountIDPlaceholder")
      case inside: True
      have "\<not> is_digit (hd (drop k (AccountIDPlaceholder @ x)))" for x
      proof -
        have "hd (drop k (AccountIDPlaceholder @ x)) = AccountIDPlaceholder ! k"
          using inside by (simp add: hd_append hd_drop_conv_nth)
        moreover have "list_all (\<lambda>c. \<not> is_digit c) AccountIDPlaceholder"
          by (simp add: AccountIDPlaceholder_def is_digit_def)
        ultimately show ?thesis using inside by (simp add: list_all_length)
      qed
      then show ?thesis
        unfolding out account_at_def
        by (metis (no_types, lifting) hd_take length_greater_0_conv list.set_sel(1) list_all_iff
            not_le numeral_eq_Suc snd_conv take_eq_Nil zero_less_Suc le_zero_eq list.size(3))
    next
      case False
      then obtain j where k: "k = length AccountIDPlaceholder + j" by (metis le_add_diff_inverse not_less)
      have "\<not> account_at (rev (take j (redact_accounts ?e)) @ rev AccountIDPlaceholder @ l',
          drop j (redact_accounts ?e))"
        by (rule less.hyps [OF shorter]) (use next_plain in blast)
      then show ?thesis unfolding out k by simp
    qed
  next
    case no_match: False
    show ?thesis
    proof (cases s)
      case Nil
      then show ?thesis by (simp add: redact_accounts_Nil account_at_def)
    next
      case (Cons c s')
      have out: "redact_accounts (l, s) = c # redact_accounts (c # l, s')"
        using no_match unfolding Cons by (rule redact_accounts_skip)
      show ?thesis
      proof (cases k)
        case 0
        show ?thesis
        proof (cases "word_char c")
          case True
          then have "(l' \<noteq> [] \<and> word_char (hd l')) = (l \<noteq> [] \<and> word_char (hd l))"
            using less.prems Cons by simp
          from no_account_at_start [OF this no_match] 0 show ?thesis by simp
        next
          case False
          then have "\<not> is_digit c" by auto
          then show ?thesis by (simp add: 0 out account_at_def)
        qed
      next
        case (Suc j)
        have "\<not> account_at (rev (take j (redact_accounts (c # l, s'))) @ (c # l'),
            drop j (redact_accounts (c # l, s')))"
          by (rule less.hyps) (simp_all add: Cons)
        then show ?thesis by (simp add: out Suc)
      qed
    qed
  qed
qed

text \<open>
  C39: No AWS account number survives redaction: twelve consecutive digits in a redacted text are
  always next to another digit, a letter or an underscore.
\<close>

theorem no_account_number_survives:
  assumes "redact_Text s = before @ digits @ after"
    and "length digits = 12" and "list_all is_digit digits"
  shows "(before \<noteq> [] \<and> word_char (last before)) \<or> (after \<noteq> [] \<and> word_char (hd after))"
proof -
  obtain t where t: "redact_Text s = redact_accounts ([], t)"
  proof (cases s)
    case Nil
    with that [of "[]"] show ?thesis by (simp add: redact_Text_def redact_accounts_Nil)
  next
    case Cons
    then show ?thesis
      using that unfolding redact_Text_def ReplaceAllString_def [of accountIDPattern] ReplaceGroup_def [of REmpty]
      by (auto simp: Let_def)
  qed
  have "\<not> account_at (rev before, digits @ after)"
    using no_account_left [of "[]" "[]" t "length before"] assms(1) by (simp add: t [symmetric])
  moreover obtain d ds where "digits = d # ds" using assms(2) by (cases digits) auto
  moreover from this have "word_char d" using assms(3) by simp
  moreover have "rev digits @ rev before \<noteq> []" "word_char (hd (rev digits @ rev before))"
    using assms(2,3) by (cases digits rule: rev_cases; simp)+
  ultimately show ?thesis
    using assms(2,3) by (auto simp: account_at_def at_boundary_def hd_rev)
qed

theorem no_account_number_survives_witness:
  "redact_Text ''x123456789012'' = ''x'' @ ''123456789012'' @ ''''
   \<and> (''x'' \<noteq> '''' \<and> word_char (last ''x''))"
proof -
  have s: "redact_Text ''x123456789012'' = ''x'' @ ''123456789012'' @ ''''" by code_simp
  have "list_all is_digit ''123456789012''" by code_simp
  with no_account_number_survives [OF s] s show ?thesis by simp
qed

end
