(* ===== verification/RuleErrors.thy ===== *)
theory RuleErrors
  imports Regex Text Engine
begin

text \<open>
  The texts of rule errors (\<open>internal/findings/finding.go\<close>, \<open>internal/rules/rule.go\<close>) and
  \<open>sanitizeRuleError\<close>, which the engine applies to them before it records them. It instantiates
  the argument \<open>sanitize\<close> of the engine's model. \<open>(?i)\<close> is the folding of ASCII letters.
\<close>

section \<open>Texts\<close>

definition reference_error_text :: "reference_error \<Rightarrow> string" where
  "reference_error_text e =
     (case e of
        InvalidLiveReference \<Rightarrow> ''invalid live resource reference''
      | InvalidManifestReference \<Rightarrow> ''invalid manifest resource reference''
      | InvalidAWSReference \<Rightarrow> ''invalid AWS resource reference''
      | InvalidAWSInsightReference \<Rightarrow> ''invalid AWS insight reference''
      | UnknownPlane p \<Rightarrow> (''unknown resource plane '' @ quote p))"

definition finding_error_text :: "finding_error \<Rightarrow> string" where
  "finding_error_text e =
     (case e of
        NoRuleID \<Rightarrow> ''finding has no rule ID''
      | InvalidSeverity ruleID s \<Rightarrow> (''finding '' @ ruleID @ '' has invalid ''
                                                @ ''severity '' @ quote s)
      | InvalidConfidence ruleID s \<Rightarrow> (''finding '' @ ruleID @ '' has invalid ''
                                                  @ ''confidence '' @ quote s)
      | NoResources ruleID \<Rightarrow> (''finding '' @ ruleID @ '' has no resource ''
                                          @ ''references'')
      | BadResource ruleID i err \<Rightarrow>
          (''finding '' @ ruleID @ '' resource '' @ show_int (int i) @ '': ''
           @ reference_error_text err)
      | NoFingerprint ruleID \<Rightarrow> (''finding '' @ ruleID @ '' has no fingerprint'')
      | BreakGlassNotRisky ruleID \<Rightarrow>
          (''finding '' @ ruleID @ '' has a break-glass action not marked risky'')
      | BadImpactScope ruleID s \<Rightarrow> (''finding '' @ ruleID @ '': invalid impact ''
                                               @ ''scope '' @ quote s)
      | BadUpgradeGate ruleID s \<Rightarrow> (''finding '' @ ruleID @ '': invalid upgrade ''
                                               @ ''gate '' @ quote s))"

definition rule_error_text :: "rule_error \<Rightarrow> string" where
  "rule_error_text e =
     (case e of
        RuleError s \<Rightarrow> s
      | RulePanic p \<Rightarrow> ''rule panic: '' @ p
      | InvalidFinding i err \<Rightarrow> (''finding '' @ show_int (int i) @ '': ''
                                            @ finding_error_text err))"

section \<open>Patterns\<close>

definition char_i :: "char \<Rightarrow> regex" where
  "char_i c = RSet (\<lambda>x. lower_char x = lower_char c)"

definition lit_i :: "string \<Rightarrow> regex" where
  "lit_i s = RSeqs (map char_i s)"

definition perl_space :: "char \<Rightarrow> bool" where
  \<comment> \<open>\<open>\\s\<close>, which unlike the POSIX class does not have the vertical tab\<close>
  "perl_space c \<longleftrightarrow> c \<in> {CHR 0x09, CHR 0x0A, CHR 0x0C, CHR 0x0D, CHR '' ''}"

definition url_char :: "char \<Rightarrow> bool" where
  "url_char c \<longleftrightarrow> \<not> perl_space c \<and> c \<noteq> CHR '')''"

definition digits_1_3 :: regex where
  "digits_1_3 = RSeq (RSet is_digit) (RUpTo 2 (RSet is_digit))"

definition ruleErrorBearerTokenPattern :: regex where
  "ruleErrorBearerTokenPattern =
     RSeqs [lit_i ''bearer'', RPlus (RSet perl_space),
       RPlus (RSet (\<lambda>c. ascii_alnum c \<or> c \<in> set ''._~+/=-''))]"

definition ruleErrorTokenParamPattern :: "regex \<times> regex" where
  "ruleErrorTokenParamPattern =
     (RAlts (map lit_i [''token'', ''access_token'', ''id_token'', ''client_secret'']),
      RSeq (RLit ''='') (RPlus (RSet (\<lambda>c. \<not> perl_space c \<and> c \<noteq> CHR ''&''))))"

definition ruleErrorURLPattern :: regex where
  "ruleErrorURLPattern =
     RSeqs [RLit ''http'', ROpt (RLit ''s''), RLit ''://'', RPlus (RSet url_char)]"

definition ruleErrorARNPattern :: regex where
  "ruleErrorARNPattern =
     RSeqs [RLit ''arn:aws'',
       RStar (RSet (\<lambda>c. ascii_lower c \<or> ascii_upper c \<or> c = CHR ''-'')), RLit '':'',
       RPlus (RSet url_char)]"

definition ruleErrorAWSAccountPattern :: regex where
  "ruleErrorAWSAccountPattern = RSeqs [RWordBoundary, RTimes 12 (RSet is_digit), RWordBoundary]"

definition ruleErrorPrivateIPPattern :: regex where
  "ruleErrorPrivateIPPattern =
     (let dot = RLit ''.''
      in RSeqs [RWordBoundary,
           RAlts [RSeqs [RLit ''10.'', digits_1_3, dot, digits_1_3, dot, digits_1_3],
             RSeqs [RLit ''172.'',
               RAlts [RSeq (RLit ''1'') (RSet (between (CHR ''6'') (CHR ''9''))),
                 RSeq (RLit ''2'') (RSet is_digit),
                 RSeq (RLit ''3'') (RSet (between (CHR ''0'') (CHR ''1'')))],
               dot, digits_1_3, dot, digits_1_3],
             RSeqs [RLit ''192.168.'', digits_1_3, dot, digits_1_3]],
           RWordBoundary])"

definition ruleErrorEC2HostPattern :: regex where
  "ruleErrorEC2HostPattern =
     RSeqs [RWordBoundary, RLit ''ip-'', digits_1_3, RTimes 3 (RSeq (RLit ''-'') digits_1_3),
       RStar (RSet (\<lambda>c. ascii_alnum c \<or> c \<in> set ''.-'')), RWordBoundary]"

definition ruleErrorInternalHostPattern :: regex where
  "ruleErrorInternalHostPattern =
     RSeqs [RWordBoundary, RPlus (RSet (\<lambda>c. ascii_alnum c \<or> c \<in> set ''.-'')), RLit ''.internal'',
       RWordBoundary]"

definition ruleErrorUnixPathPattern :: "regex \<times> regex" where
  "ruleErrorUnixPathPattern =
     (RAlt RTextStart (RSet (\<lambda>c. perl_space c \<or> c = CHR '':'')),
      RSeqs [RLit ''/'',
        RAlts (map RLit [''home'', ''Users'', ''var'', ''etc'', ''tmp'', ''private'', ''mnt'',
          ''workspace'', ''root'']),
        RLit ''/'', RPlus (RSet url_char)])"

definition ruleErrorWindowsPathPattern :: regex where
  "ruleErrorWindowsPathPattern =
     RSeqs [RWordBoundary, RSet (\<lambda>c. ascii_upper c \<or> ascii_lower c), RLit ('':'' @ [CHR 0x5C]),
       RPlus (RSet url_char)]"

section \<open>Sanitizing\<close>

definition sanitize_text :: "string \<Rightarrow> string" where
  "sanitize_text msg =
     (let msg = ReplaceAllString ruleErrorBearerTokenPattern ''Bearer [REDACTED]'' msg;
          msg = ReplaceGroup (fst ruleErrorTokenParamPattern) (snd ruleErrorTokenParamPattern)
                  ''=[REDACTED]'' msg;
          msg = ReplaceAllString ruleErrorURLPattern ''[REDACTED_URL]'' msg;
          msg = ReplaceAllString ruleErrorARNPattern ''[REDACTED_ARN]'' msg;
          msg = ReplaceAllString ruleErrorAWSAccountPattern ''[REDACTED_AWS_ACCOUNT]'' msg;
          msg = ReplaceAllString ruleErrorPrivateIPPattern ''[REDACTED_PRIVATE_IP]'' msg;
          msg = ReplaceAllString ruleErrorEC2HostPattern ''[REDACTED_PRIVATE_HOSTNAME]'' msg;
          msg = ReplaceAllString ruleErrorInternalHostPattern ''[REDACTED_PRIVATE_HOSTNAME]'' msg;
          msg = ReplaceGroup (fst ruleErrorUnixPathPattern) (snd ruleErrorUnixPathPattern)
                  ''[REDACTED_PATH]'' msg
      in ReplaceAllString ruleErrorWindowsPathPattern ''[REDACTED_PATH]'' msg)"

definition sanitizeRuleError :: "rule_error list \<Rightarrow> string" where
  \<comment> \<open>of the joined error of a rule, one message a line; a rule without errors is a nil error\<close>
  "sanitizeRuleError errs =
     (if errs = [] then ''''
      else let msg = TrimSpace (Join (map rule_error_text errs) nl)
           in if msg = '''' then ''rule returned an error with no message''
              else sanitize_text msg)"

text \<open>A rule that failed always has a reason.\<close>

lemma sanitize_text_nonempty: "sanitize_text msg = [] \<longleftrightarrow> msg = []"
  by (simp add: sanitize_text_def ReplaceAllString_nonempty ReplaceGroup_nonempty)

lemma sanitizeRuleError_nonempty: "sanitizeRuleError errs = [] \<longleftrightarrow> errs = []"
  by (simp add: sanitizeRuleError_def Let_def sanitize_text_nonempty)

end
