(* ===== verification/WorkerPool.thy ===== *)
theory WorkerPool
  imports Prelude
begin

text \<open>
  The bounded worker pool (\<open>runBoundedPool\<close> of \<open>internal/collectors/k8s/collector.go\<close>): one
  goroutine per task, a semaphore that lets at most \<open>concurrency\<close> of them run, and a wait for all.

  A goroutine waits for a slot, runs, and gives its slot back. What a task does to the shared state
  is one critical section under a mutex, so a task is a function on the shared state and its effect
  is one step. \<open>pool_step\<close> lets any goroutine that can move make the next step: its runs are the
  interleavings of the Go scheduler.
\<close>

section \<open>Runs\<close>

datatype status = Waiting | Running | Written | Finished

type_synonym 's pool = "status list \<times> 's"

definition holds_slot :: "status \<Rightarrow> bool" where
  "holds_slot st \<longleftrightarrow> st = Running \<or> st = Written"

definition slots :: "status list \<Rightarrow> nat" where
  \<comment> \<open>the length of the channel \<open>sem\<close>\<close>
  "slots sts = length (filter holds_slot sts)"

definition pool_size :: "int \<Rightarrow> nat" where
  \<comment> \<open>the capacity of \<open>sem\<close>\<close>
  "pool_size concurrency = (if concurrency < 1 then 1 else nat concurrency)"

inductive pool_step :: "nat \<Rightarrow> ('s \<Rightarrow> 's) list \<Rightarrow> 's pool \<Rightarrow> 's pool \<Rightarrow> bool"
  for cap :: nat and tasks :: "('s \<Rightarrow> 's) list" where
  Acquire: "\<lbrakk>i < length sts; sts ! i = Waiting; slots sts < cap\<rbrakk>
    \<Longrightarrow> pool_step cap tasks (sts, s) (sts[i := Running], s)"
| Write: "\<lbrakk>i < length sts; sts ! i = Running\<rbrakk>
    \<Longrightarrow> pool_step cap tasks (sts, s) (sts[i := Written], (tasks ! i) s)"
| Release: "\<lbrakk>i < length sts; sts ! i = Written\<rbrakk>
    \<Longrightarrow> pool_step cap tasks (sts, s) (sts[i := Finished], s)"

inductive_cases pool_stepE: "pool_step cap tasks p q"

abbreviation pool_steps :: "nat \<Rightarrow> ('s \<Rightarrow> 's) list \<Rightarrow> 's pool \<Rightarrow> 's pool \<Rightarrow> bool" where
  "pool_steps cap tasks \<equiv> (pool_step cap tasks)\<^sup>*\<^sup>*"

definition pool_start :: "('s \<Rightarrow> 's) list \<Rightarrow> 's \<Rightarrow> 's pool" where
  "pool_start tasks s = (replicate (length tasks) Waiting, s)"

definition all_finished :: "'s pool \<Rightarrow> bool" where
  \<comment> \<open>\<open>wg.Wait\<close> returns\<close>
  "all_finished p \<longleftrightarrow> list_all (\<lambda>st. st = Finished) (fst p)"

section \<open>Slots\<close>

lemma slots_update:
  assumes "i < length sts"
  shows "slots (sts[i := st]) + (if holds_slot (sts ! i) then 1 else 0)
    = slots sts + (if holds_slot st then 1 else 0)"
  using assms
proof (induction sts arbitrary: i)
  case (Cons x xs)
  then show ?case by (cases i) (auto simp: slots_def)
qed simp

lemma pool_step_slots:
  "pool_step cap tasks p q \<Longrightarrow> slots (fst p) \<le> cap \<Longrightarrow> slots (fst q) \<le> cap"
proof (induction rule: pool_step.induct)
  case (Acquire i sts s)
  then show ?case using slots_update [of i sts Running] by (simp add: holds_slot_def)
next
  case (Write i sts s)
  then show ?case using slots_update [of i sts Written] by (simp add: holds_slot_def)
next
  case (Release i sts s)
  then show ?case using slots_update [of i sts Finished] by (simp add: holds_slot_def)
qed

lemma slots_start [simp]: "slots (replicate n Waiting) = 0"
  by (simp add: slots_def holds_slot_def)

lemma pool_slots_bounded:
  assumes "pool_steps cap tasks (pool_start tasks s) p"
  shows "slots (fst p) \<le> cap"
  using assms by (induction) (auto simp: pool_start_def intro: pool_step_slots)

section \<open>Progress and termination\<close>

fun remaining :: "status \<Rightarrow> nat" where
  "remaining Waiting = 3"
| "remaining Running = 2"
| "remaining Written = 1"
| "remaining Finished = 0"

definition work_left :: "'s pool \<Rightarrow> nat" where
  "work_left p = sum_list (map remaining (fst p))"

lemma work_left_update:
  assumes "i < length sts"
  shows "sum_list (map remaining (sts[i := st])) + remaining (sts ! i)
    = sum_list (map remaining sts) + remaining st"
  using assms
proof (induction sts arbitrary: i)
  case (Cons x xs)
  then show ?case by (cases i) auto
qed simp

lemma pool_step_work: "pool_step cap tasks p q \<Longrightarrow> Suc (work_left q) = work_left p"
proof (induction rule: pool_step.induct)
  case (Acquire i sts s)
  then show ?case using work_left_update [of i sts Running] by (simp add: work_left_def)
next
  case (Write i sts s)
  then show ?case using work_left_update [of i sts Written] by (simp add: work_left_def)
next
  case (Release i sts s)
  then show ?case using work_left_update [of i sts Finished] by (simp add: work_left_def)
qed

lemma pool_terminates: "wf {(q, p). pool_step cap tasks p q}"
  by (rule wf_subset [OF wf_measure [of work_left]]) (auto dest: pool_step_work)

lemma work_left_0: "work_left p = 0 \<longleftrightarrow> all_finished p"
proof -
  have "remaining st = 0 \<longleftrightarrow> st = Finished" for st by (cases st) simp_all
  then show ?thesis by (auto simp: work_left_def all_finished_def list_all_iff)
qed

lemma pool_progress:
  assumes "0 < cap" and "\<not> all_finished p"
  shows "\<exists>q. pool_step cap tasks p q"
proof -
  obtain sts s where p: "p = (sts, s)" by (cases p)
  from assms(2) obtain i where i: "i < length sts" "sts ! i \<noteq> Finished"
    by (auto simp: p all_finished_def list_all_length)
  show ?thesis
  proof (cases "\<exists>j<length sts. holds_slot (sts ! j)")
    case True
    then obtain j where "j < length sts" "sts ! j = Running \<or> sts ! j = Written"
      by (auto simp: holds_slot_def)
    then show ?thesis unfolding p by (metis Write Release)
  next
    case False
    then have "slots sts = 0" by (auto simp: slots_def filter_empty_conv in_set_conv_nth)
    moreover have "sts ! i = Waiting" using False i by (cases "sts ! i") (auto simp: holds_slot_def)
    ultimately have "pool_step cap tasks (sts, s) (sts[i := Running], s)"
      using i(1) assms(1) by (intro Acquire) simp_all
    then show ?thesis unfolding p by blast
  qed
qed

text \<open>Every run can be completed, and every complete run has three steps per task.\<close>

lemma pool_completes:
  assumes "0 < cap"
  shows "\<exists>q. pool_steps cap tasks p q \<and> all_finished q"
proof (induction "work_left p" arbitrary: p)
  case 0
  then have "all_finished p" using work_left_0 [of p] by simp
  then show ?case by blast
next
  case (Suc n)
  then have "\<not> all_finished p" using work_left_0 [of p] by simp
  from pool_progress [OF assms this] obtain q where q: "pool_step cap tasks p q" by blast
  with Suc.hyps(2) have "n = work_left q" using pool_step_work [of cap tasks p q] by simp
  from Suc.hyps(1) [OF this] obtain r where "pool_steps cap tasks q r" "all_finished r" by blast
  with q show ?case by (meson converse_rtranclp_into_rtranclp)
qed

section \<open>Schedules\<close>

text \<open>
  The state a run has reached is the start state after some of the tasks, each at most once, in
  some order: those whose goroutine has written.
\<close>

definition has_written :: "status \<Rightarrow> bool" where
  "has_written st \<longleftrightarrow> st = Written \<or> st = Finished"

definition written_set :: "status list \<Rightarrow> nat set" where
  "written_set sts = {i. i < length sts \<and> has_written (sts ! i)}"

definition schedule :: "('s \<Rightarrow> 's) list \<Rightarrow> 's \<Rightarrow> 's pool \<Rightarrow> nat list \<Rightarrow> bool" where
  "schedule tasks s0 p order \<longleftrightarrow>
     length (fst p) = length tasks \<and> distinct order \<and> set order = written_set (fst p)
     \<and> snd p = fold (\<lambda>i. tasks ! i) order s0"

lemma has_written_simps [simp]:
  "\<not> has_written Waiting" "\<not> has_written Running" "has_written Written" "has_written Finished"
  by (simp_all add: has_written_def)

lemma written_update:
  assumes "i < length sts"
  shows "written_set (sts[i := st]) =
    (if has_written st then insert i (written_set sts) else written_set sts - {i})"
  using assms by (auto simp: written_set_def nth_list_update)

lemma written_member: "i < length sts \<Longrightarrow> i \<in> written_set sts \<longleftrightarrow> has_written (sts ! i)"
  by (simp add: written_set_def)

lemma schedule_step:
  assumes "pool_step cap tasks p q" and "schedule tasks s0 p order"
  shows "\<exists>order. schedule tasks s0 q order"
  using assms
proof (induction rule: pool_step.induct)
  case (Acquire i sts s)
  then have "i \<notin> written_set sts" by (simp add: written_member)
  with Acquire have "schedule tasks s0 (sts[i := Running], s) order"
    by (simp add: schedule_def written_update)
  then show ?case ..
next
  case (Write i sts s)
  then have "i \<notin> written_set sts" by (simp add: written_member)
  with Write have "schedule tasks s0 (sts[i := Written], (tasks ! i) s) (order @ [i])"
    by (simp add: schedule_def written_update)
  then show ?case ..
next
  case (Release i sts s)
  then have "i \<in> written_set sts" by (simp add: written_member)
  with Release have "schedule tasks s0 (sts[i := Finished], s) order"
    by (simp add: schedule_def written_update insert_absorb)
  then show ?case ..
qed

lemma pool_schedule:
  assumes "pool_steps cap tasks (pool_start tasks s0) p"
  shows "\<exists>order. schedule tasks s0 p order"
  using assms
proof (induction rule: rtranclp_induct)
  case base
  have "schedule tasks s0 (pool_start tasks s0) []"
    by (simp add: schedule_def pool_start_def written_set_def)
  then show ?case ..
next
  case (step p q)
  from step.IH obtain order where "schedule tasks s0 p order" ..
  with step.hyps(2) show ?case by (rule schedule_step)
qed

lemma finished_schedule:
  assumes "pool_steps cap tasks (pool_start tasks s0) p" and "all_finished p"
  shows "\<exists>order. mset order = mset [0..<length tasks] \<and> snd p = fold (\<lambda>i. tasks ! i) order s0"
proof -
  obtain order where sched: "schedule tasks s0 p order" using pool_schedule [OF assms(1)] ..
  have "\<forall>i<length (fst p). has_written (fst p ! i)"
    using assms(2) by (simp add: all_finished_def list_all_length)
  then have "written_set (fst p) = set [0..<length (fst p)]" by (auto simp: written_set_def)
  with sched have "set order = set [0..<length tasks]" by (simp add: schedule_def)
  moreover have "distinct order" using sched by (simp add: schedule_def)
  ultimately have "mset order = mset [0..<length tasks]"
    by (metis distinct_upt set_eq_iff_mset_eq_distinct)
  with sched show ?thesis by (auto simp: schedule_def)
qed

text \<open>
  The contract of a client of the pool: the order in which its tasks run does not matter to what it
  observes. Then every complete run gives what running the tasks one after the other gives.
\<close>

locale order_insensitive =
  fixes run :: "'t \<Rightarrow> 's \<Rightarrow> 's" and tasks :: "'t list" and start :: 's and observe :: "'s \<Rightarrow> 'v"
  assumes any_order: "mset ts = mset tasks \<Longrightarrow> observe (fold run ts start) = observe (fold run tasks start)"
begin

lemma complete_run:
  assumes "pool_steps cap (map run tasks) (pool_start (map run tasks) start) p" and "all_finished p"
  shows "observe (snd p) = observe (fold run tasks start)"
proof -
  obtain order where order: "mset order = mset [0..<length tasks]"
      "snd p = fold (\<lambda>i. map run tasks ! i) order start"
    using finished_schedule [OF assms] by auto
  have "set order = set [0..<length tasks]" using order(1) by (rule mset_eq_setD)
  then have "map run tasks ! i = run (tasks ! i)" if "i \<in> set order" for i using that by simp
  then have "fold (\<lambda>i. map run tasks ! i) order start = fold (\<lambda>i. run (tasks ! i)) order start"
    by (intro fold_cong refl)
  then have eq: "fold (\<lambda>i. map run tasks ! i) order start = fold run (map (\<lambda>i. tasks ! i) order) start"
    by (simp add: fold_map comp_def)
  have "mset (map (\<lambda>i. tasks ! i) order) = mset (map (\<lambda>i. tasks ! i) [0..<length tasks])"
    by (simp only: mset_map order(1))
  then have "mset (map (\<lambda>i. tasks ! i) order) = mset tasks" by (simp only: map_nth)
  then show ?thesis unfolding order(2) eq by (rule any_order)
qed

end

end
