(* ===== verification/KubeCollector.thy ===== *)
theory KubeCollector
  imports WorkerPool RulesNode Exemptions "HOL-Library.AList"
begin

text \<open>
  The Kubernetes collector (\<open>internal/collectors/k8s/collector.go\<close>): the calls \<open>Collect\<close> makes, what
  each of them writes into the snapshot, and the run of all of them on the worker pool.

  The API server is the parameter \<open>kube_client\<close>: what each call returns within its time budget. An
  error that \<open>apierrors.IsNotFound\<close> recognises is told apart from the others, because two kinds
  of call do not count it as a failure. Every write goes through one mutex, so the effect of a task
  on the snapshot is one step.
\<close>

section \<open>The API server\<close>

datatype 'a api_result = ApiOk 'a | ApiNotFound string | ApiError string

record APIServiceItem =
  asi_Name :: string
  asi_UID :: string
  asi_Conditions :: "json list" \<comment> \<open>\<open>status.conditions\<close>; empty when absent\<close>

record LiveItem = UnstructuredObject +
  li_Namespace :: string
  li_Name :: string
  li_UID :: string

record kube_client =
  kc_Nodes :: "Node list api_result"
  kc_Pods :: "Pod list api_result"
  kc_PodDisruptionBudgets :: "PodDisruptionBudget list api_result"
  kc_ValidatingWebhookConfigs :: "WebhookConfiguration list api_result"
  kc_MutatingWebhookConfigs :: "WebhookConfiguration list api_result"
  kc_Services :: "K8sService list api_result"
  kc_EndpointSlices :: "EndpointSlice list api_result"
  kc_CustomResourceDefinitions :: "CustomResourceDefinition list api_result option"
    \<comment> \<open>\<open>None\<close>: no apiextensions client\<close>
  kc_Deployments :: "Workload list api_result"
  kc_DaemonSets :: "DaemonSet list api_result"
  kc_StatefulSets :: "Workload list api_result"
  kc_PersistentVolumes :: "PersistentVolume list api_result"
  kc_PersistentVolumeClaims :: "PersistentVolumeClaim list api_result"
  kc_CoreDNS :: "ConfigMap api_result"
  kc_Dynamic :: "((string \<times> string \<times> string \<Rightarrow> LiveItem list api_result)
    \<times> APIServiceItem list api_result) option"
    \<comment> \<open>the lists at a group, version and resource, and the API services; \<open>None\<close>: no dynamic client\<close>

section \<open>Tasks\<close>

datatype kube_task =
    TaskNodes | TaskPods | TaskPDBs | TaskValidating | TaskMutating | TaskServices
  | TaskEndpointSlices | TaskCRDs | TaskDeployments | TaskDaemonSets | TaskStatefulSets
  | TaskPVs | TaskPVCs | TaskCoreDNS | TaskDeprecated DeprecatedAPI | TaskAPIServices

definition GVR :: "DeprecatedAPI \<Rightarrow> string \<times> string \<times> string" where
  "GVR d = (dep_Group d, dep_Version d, dep_Resource d)"

definition GVR_String :: "DeprecatedAPI \<Rightarrow> string" where
  \<comment> \<open>\<open>schema.GroupVersionResource.String\<close>\<close>
  "GVR_String d = dep_Group d @ ''/'' @ dep_Version d @ '', Resource='' @ dep_Resource d"

fun task_key :: "kube_task \<Rightarrow> string" where
  "task_key TaskNodes = ''nodes''"
| "task_key TaskPods = ''pods''"
| "task_key TaskPDBs = ''poddisruptionbudgets''"
| "task_key TaskValidating = ''validatingwebhookconfigurations''"
| "task_key TaskMutating = ''mutatingwebhookconfigurations''"
| "task_key TaskServices = ''services''"
| "task_key TaskEndpointSlices = ''endpointslices''"
| "task_key TaskCRDs = ''customresourcedefinitions''"
| "task_key TaskDeployments = ''deployments''"
| "task_key TaskDaemonSets = ''daemonsets''"
| "task_key TaskStatefulSets = ''statefulsets''"
| "task_key TaskPVs = ''persistentvolumes''"
| "task_key TaskPVCs = ''persistentvolumeclaims''"
| "task_key TaskCoreDNS = ''coredns-configmap''"
| "task_key (TaskDeprecated d) = ''deprecated-api:'' @ GVR_String d"
| "task_key TaskAPIServices = ''apiservices''"

text \<open>The objects a call contributes, and the error it is recorded with.\<close>

fun items_of :: "'a list api_result \<Rightarrow> 'a list" where
  "items_of (ApiOk xs) = xs"
| "items_of _ = []"

fun error_of :: "'a api_result \<Rightarrow> string option" where
  "error_of (ApiOk x) = None"
| "error_of (ApiNotFound e) = Some e"
| "error_of (ApiError e) = Some e"

fun error_unless_not_found :: "'a api_result \<Rightarrow> string option" where
  "error_unless_not_found (ApiError e) = Some e"
| "error_unless_not_found _ = None"

definition deprecated_list :: "kube_client \<Rightarrow> DeprecatedAPI \<Rightarrow> LiveItem list api_result" where
  "deprecated_list c d = (case kc_Dynamic c of None \<Rightarrow> ApiOk [] | Some (f, _) \<Rightarrow> f (GVR d))"

definition apiservice_list :: "kube_client \<Rightarrow> APIServiceItem list api_result" where
  "apiservice_list c = (case kc_Dynamic c of None \<Rightarrow> ApiOk [] | Some (_, r) \<Rightarrow> r)"

definition crd_list :: "kube_client \<Rightarrow> CustomResourceDefinition list api_result" where
  "crd_list c = (case kc_CustomResourceDefinitions c of None \<Rightarrow> ApiOk [] | Some r \<Rightarrow> r)"

definition live_object :: "DeprecatedAPI \<Rightarrow> LiveItem \<Rightarrow> LiveDeprecatedAPIObject" where
  "live_object d item =
     DeprecatedAPI.extend d (LiveDeprecatedAPIObject.fields (li_Namespace item) (li_Name item)
       (li_UID item) (IsAutoManagedObject d (UnstructuredObject.truncate item)))"

definition live_objects :: "kube_client \<Rightarrow> DeprecatedAPI \<Rightarrow> LiveDeprecatedAPIObject list" where
  "live_objects c d = map (live_object d) (items_of (deprecated_list c d))"

fun json_text :: "json \<Rightarrow> string" where
  \<comment> \<open>\<open>v, _ := x.(string)\<close>\<close>
  "json_text (JStr s) = s"
| "json_text _ = ''''"

definition availability_step :: "bool \<times> string \<times> string \<Rightarrow> json \<Rightarrow> bool \<times> string \<times> string" where
  "availability_step a raw =
     (let condition = (case mapValue raw of None \<Rightarrow> [] | Some m \<Rightarrow> m)
      in if json_get condition ''type'' = JStr ''Available''
         then (json_get condition ''status'' = JStr ''True'',
               json_text (json_get condition ''reason''), json_text (json_get condition ''message''))
         else a)"

definition unavailable_service :: "APIServiceItem \<Rightarrow> APIServiceAvailability option" where
  "unavailable_service item =
     (case foldl availability_step (False, '''', '''') (asi_Conditions item) of
        (available, reason, message) \<Rightarrow>
          if available then None
          else Some \<lparr>apisvc_Name = asi_Name item, apisvc_UID = asi_UID item,
                      apisvc_Reason = reason, apisvc_Message = message\<rparr>)"

definition unavailable_services :: "kube_client \<Rightarrow> APIServiceAvailability list" where
  "unavailable_services c = List.map_filter unavailable_service (items_of (apiservice_list c))"

fun task_error :: "kube_client \<Rightarrow> kube_task \<Rightarrow> string option" where
  "task_error c TaskNodes = error_of (kc_Nodes c)"
| "task_error c TaskPods = error_of (kc_Pods c)"
| "task_error c TaskPDBs = error_of (kc_PodDisruptionBudgets c)"
| "task_error c TaskValidating = error_of (kc_ValidatingWebhookConfigs c)"
| "task_error c TaskMutating = error_of (kc_MutatingWebhookConfigs c)"
| "task_error c TaskServices = error_of (kc_Services c)"
| "task_error c TaskEndpointSlices = error_of (kc_EndpointSlices c)"
| "task_error c TaskCRDs = error_of (crd_list c)"
| "task_error c TaskDeployments = error_of (kc_Deployments c)"
| "task_error c TaskDaemonSets = error_of (kc_DaemonSets c)"
| "task_error c TaskStatefulSets = error_of (kc_StatefulSets c)"
| "task_error c TaskPVs = error_of (kc_PersistentVolumes c)"
| "task_error c TaskPVCs = error_of (kc_PersistentVolumeClaims c)"
| "task_error c TaskCoreDNS = error_unless_not_found (kc_CoreDNS c)"
| "task_error c (TaskDeprecated d) = error_unless_not_found (deprecated_list c d)"
| "task_error c TaskAPIServices = error_of (apiservice_list c)"

text \<open>What a call that succeeded, or found nothing to list, writes.\<close>

fun task_write :: "kube_client \<Rightarrow> kube_task \<Rightarrow> K8sSnapshot \<Rightarrow> K8sSnapshot" where
  "task_write c TaskNodes s = s\<lparr>k_Nodes := items_of (kc_Nodes c)\<rparr>"
| "task_write c TaskPods s = s\<lparr>k_Pods := items_of (kc_Pods c)\<rparr>"
| "task_write c TaskPDBs s = s\<lparr>k_PodDisruptionBudgets := items_of (kc_PodDisruptionBudgets c)\<rparr>"
| "task_write c TaskValidating s =
     s\<lparr>k_ValidatingWebhookConfigs := items_of (kc_ValidatingWebhookConfigs c)\<rparr>"
| "task_write c TaskMutating s =
     s\<lparr>k_MutatingWebhookConfigs := items_of (kc_MutatingWebhookConfigs c)\<rparr>"
| "task_write c TaskServices s = s\<lparr>k_Services := items_of (kc_Services c)\<rparr>"
| "task_write c TaskEndpointSlices s = s\<lparr>k_EndpointSlices := items_of (kc_EndpointSlices c)\<rparr>"
| "task_write c TaskCRDs s = s\<lparr>k_CustomResourceDefinitions := items_of (crd_list c)\<rparr>"
| "task_write c TaskDeployments s = s\<lparr>k_Deployments := items_of (kc_Deployments c)\<rparr>"
| "task_write c TaskDaemonSets s = s\<lparr>k_DaemonSets := items_of (kc_DaemonSets c)\<rparr>"
| "task_write c TaskStatefulSets s = s\<lparr>k_StatefulSets := items_of (kc_StatefulSets c)\<rparr>"
| "task_write c TaskPVs s = s\<lparr>k_PersistentVolumes := items_of (kc_PersistentVolumes c)\<rparr>"
| "task_write c TaskPVCs s =
     s\<lparr>k_PersistentVolumeClaims := items_of (kc_PersistentVolumeClaims c)\<rparr>"
| "task_write c TaskCoreDNS s =
     (case kc_CoreDNS c of ApiOk cm \<Rightarrow> s\<lparr>k_CoreDNSConfigMap := Some cm\<rparr> | _ \<Rightarrow> s)"
| "task_write c (TaskDeprecated d) s =
     s\<lparr>k_DeprecatedAPIUsage := k_DeprecatedAPIUsage s @ live_objects c d\<rparr>"
| "task_write c TaskAPIServices s =
     s\<lparr>k_UnavailableAPIServices := k_UnavailableAPIServices s @ unavailable_services c\<rparr>"

definition collectResource :: "kube_client \<Rightarrow> kube_task \<Rightarrow> K8sSnapshot \<Rightarrow> K8sSnapshot" where
  "collectResource c t s =
     (case task_error c t of
        Some err \<Rightarrow> s\<lparr>k_Errors := AList.update (task_key t) err (k_Errors s)\<rparr>
      | None \<Rightarrow> task_write c t s)"

section \<open>Collect\<close>

definition kube_tasks :: "kube_client \<Rightarrow> DeprecatedAPI list \<Rightarrow> kube_task list" where
  "kube_tasks c catalog =
     [TaskNodes, TaskPods, TaskPDBs, TaskValidating, TaskMutating, TaskServices, TaskEndpointSlices]
     @ (if kc_CustomResourceDefinitions c = None then [] else [TaskCRDs])
     @ [TaskDeployments, TaskDaemonSets, TaskStatefulSets, TaskPVs, TaskPVCs, TaskCoreDNS]
     @ (if kc_Dynamic c = None then [] else map TaskDeprecated catalog @ [TaskAPIServices])"

definition collect_start :: "kube_client \<Rightarrow> K8sSnapshot" where
  "collect_start c =
     empty_snapshot\<lparr>k_Errors :=
       (if kc_CustomResourceDefinitions c = None
        then [(''customresourcedefinitions'', ''apiextensions client not configured'')] else [])
       @ (if kc_Dynamic c = None
          then [(''deprecated-api-usage'', ''dynamic client not configured'')] else [])\<rparr>"

definition MinCollectorConcurrency :: int where "MinCollectorConcurrency = 1"
definition MaxCollectorConcurrency :: int where "MaxCollectorConcurrency = 16"

definition clamp_concurrency :: "int \<Rightarrow> int" where
  "clamp_concurrency n =
     (let n = (if n < MinCollectorConcurrency then MinCollectorConcurrency else n)
      in if n > MaxCollectorConcurrency then MaxCollectorConcurrency else n)"

text \<open>A result of \<open>Collect\<close>: the snapshot of some complete run of the pool.\<close>

definition k8s_Collect :: "kube_client \<Rightarrow> DeprecatedAPI list \<Rightarrow> int \<Rightarrow> K8sSnapshot \<Rightarrow> bool" where
  "k8s_Collect c catalog concurrency snap \<longleftrightarrow>
     (let tasks = map (collectResource c) (kube_tasks c catalog)
      in \<exists>p. pool_steps (pool_size (clamp_concurrency concurrency)) tasks
               (pool_start tasks (collect_start c)) p
             \<and> all_finished p \<and> snd p = snap)"

text \<open>The run in which each task starts when the one before it is done.\<close>

definition sequential_Collect :: "kube_client \<Rightarrow> DeprecatedAPI list \<Rightarrow> K8sSnapshot" where
  "sequential_Collect c catalog = fold (collectResource c) (kube_tasks c catalog) (collect_start c)"

text \<open>
  \<open>ServerVersion\<close>: the answer of the discovery call or the end of the context, whichever the
  \<open>select\<close> takes.
\<close>

datatype version_race = Answered "string + string" | ContextDone string

definition ServerVersion :: "version_race \<Rightarrow> string + string" where
  "ServerVersion race =
     (case race of
        Answered (Inl err) \<Rightarrow> Inl (''querying cluster server version: '' @ err)
      | Answered (Inr gitVersion) \<Rightarrow> Inr gitVersion
      | ContextDone err \<Rightarrow> Inl (''querying cluster server version: '' @ err))"

end
