(* ===== verification/KubeFacts.thy ===== *)
theory KubeFacts
  imports KubeCollector ApiCatalogData
begin

text \<open>
  What the Kubernetes collector guarantees whatever the scheduler does: the snapshot in closed form,
  its independence of the order of the calls, and the progress of the pool.
\<close>

section \<open>What the calls leave in the snapshot\<close>

definition succeeded :: "kube_client \<Rightarrow> kube_task \<Rightarrow> bool" where
  "succeeded c t \<longleftrightarrow> task_error c t = None"

lemma collectResource_eq:
  "collectResource c t s =
     (if succeeded c t then task_write c t s
      else s\<lparr>k_Errors := AList.update (task_key t) (the (task_error c t)) (k_Errors s)\<rparr>)"
  by (auto simp: collectResource_def succeeded_def split: option.split)

lemma collectResource_lists:
  "k_Nodes (collectResource c t s) =
     (if t = TaskNodes \<and> succeeded c t then items_of (kc_Nodes c) else k_Nodes s)"
  "k_Pods (collectResource c t s) =
     (if t = TaskPods \<and> succeeded c t then items_of (kc_Pods c) else k_Pods s)"
  "k_PodDisruptionBudgets (collectResource c t s) =
     (if t = TaskPDBs \<and> succeeded c t then items_of (kc_PodDisruptionBudgets c)
      else k_PodDisruptionBudgets s)"
  "k_ValidatingWebhookConfigs (collectResource c t s) =
     (if t = TaskValidating \<and> succeeded c t then items_of (kc_ValidatingWebhookConfigs c)
      else k_ValidatingWebhookConfigs s)"
  "k_MutatingWebhookConfigs (collectResource c t s) =
     (if t = TaskMutating \<and> succeeded c t then items_of (kc_MutatingWebhookConfigs c)
      else k_MutatingWebhookConfigs s)"
  "k_Services (collectResource c t s) =
     (if t = TaskServices \<and> succeeded c t then items_of (kc_Services c) else k_Services s)"
  "k_EndpointSlices (collectResource c t s) =
     (if t = TaskEndpointSlices \<and> succeeded c t then items_of (kc_EndpointSlices c)
      else k_EndpointSlices s)"
  by (cases t; simp add: collectResource_eq split: api_result.split)+

lemma collectResource_lists':
  "k_CustomResourceDefinitions (collectResource c t s) =
     (if t = TaskCRDs \<and> succeeded c t then items_of (crd_list c)
      else k_CustomResourceDefinitions s)"
  "k_Deployments (collectResource c t s) =
     (if t = TaskDeployments \<and> succeeded c t then items_of (kc_Deployments c) else k_Deployments s)"
  "k_DaemonSets (collectResource c t s) =
     (if t = TaskDaemonSets \<and> succeeded c t then items_of (kc_DaemonSets c) else k_DaemonSets s)"
  "k_StatefulSets (collectResource c t s) =
     (if t = TaskStatefulSets \<and> succeeded c t then items_of (kc_StatefulSets c)
      else k_StatefulSets s)"
  "k_PersistentVolumes (collectResource c t s) =
     (if t = TaskPVs \<and> succeeded c t then items_of (kc_PersistentVolumes c)
      else k_PersistentVolumes s)"
  "k_PersistentVolumeClaims (collectResource c t s) =
     (if t = TaskPVCs \<and> succeeded c t then items_of (kc_PersistentVolumeClaims c)
      else k_PersistentVolumeClaims s)"
  "k_CoreDNSConfigMap (collectResource c t s) =
     (if t = TaskCoreDNS \<and> kc_CoreDNS c \<in> range ApiOk
      then (case kc_CoreDNS c of ApiOk cm \<Rightarrow> Some cm | _ \<Rightarrow> None) else k_CoreDNSConfigMap s)"
  by (cases t; auto simp: collectResource_eq succeeded_def split: api_result.split)+

definition usage_of :: "kube_client \<Rightarrow> kube_task \<Rightarrow> LiveDeprecatedAPIObject list" where
  "usage_of c t = (case t of TaskDeprecated d \<Rightarrow> if succeeded c t then live_objects c d else [] | _ \<Rightarrow> [])"

definition services_of :: "kube_client \<Rightarrow> kube_task \<Rightarrow> APIServiceAvailability list" where
  "services_of c t =
     (if t = TaskAPIServices \<and> succeeded c t then unavailable_services c else [])"

lemma collectResource_appends:
  "k_DeprecatedAPIUsage (collectResource c t s) = k_DeprecatedAPIUsage s @ usage_of c t"
  "k_UnavailableAPIServices (collectResource c t s) = k_UnavailableAPIServices s @ services_of c t"
  by (cases t; simp add: collectResource_eq usage_of_def services_of_def split: api_result.split)+

lemma collectResource_errors:
  "map_of (k_Errors (collectResource c t s)) =
     (case task_error c t of
        None \<Rightarrow> map_of (k_Errors s) | Some e \<Rightarrow> (map_of (k_Errors s))(task_key t \<mapsto> e))"
  by (cases t)
    (simp_all add: collectResource_eq succeeded_def update_conv' split: option.split api_result.split)

section \<open>Independence of the order\<close>

text \<open>A field that one kind of task overwrites with a fixed value.\<close>

lemma fold_overwrites:
  assumes "\<And>t s. field (f t s) = (if P t then v else field s)"
  shows "field (fold f ts s) = (if \<exists>t\<in>set ts. P t then v else field s)"
  by (induction ts arbitrary: s) (auto simp: assms)

lemma fold_overwrites_perm:
  assumes "\<And>t s. field (f t s) = (if P t then v else field s)" and "mset ts = mset us"
  shows "field (fold f ts s) = field (fold f us s)"
  using mset_eq_setD [OF assms(2)] by (simp add: fold_overwrites [of field f P v, OF assms(1)])

lemma lists_perm:
  assumes "mset ts = mset us"
  shows "k_Nodes (fold (collectResource c) ts s) = k_Nodes (fold (collectResource c) us s)"
    "k_Pods (fold (collectResource c) ts s) = k_Pods (fold (collectResource c) us s)"
    "k_PodDisruptionBudgets (fold (collectResource c) ts s)
       = k_PodDisruptionBudgets (fold (collectResource c) us s)"
    "k_ValidatingWebhookConfigs (fold (collectResource c) ts s)
       = k_ValidatingWebhookConfigs (fold (collectResource c) us s)"
    "k_MutatingWebhookConfigs (fold (collectResource c) ts s)
       = k_MutatingWebhookConfigs (fold (collectResource c) us s)"
    "k_Services (fold (collectResource c) ts s) = k_Services (fold (collectResource c) us s)"
    "k_EndpointSlices (fold (collectResource c) ts s) = k_EndpointSlices (fold (collectResource c) us s)"
    "k_CustomResourceDefinitions (fold (collectResource c) ts s)
       = k_CustomResourceDefinitions (fold (collectResource c) us s)"
    "k_Deployments (fold (collectResource c) ts s) = k_Deployments (fold (collectResource c) us s)"
    "k_DaemonSets (fold (collectResource c) ts s) = k_DaemonSets (fold (collectResource c) us s)"
    "k_StatefulSets (fold (collectResource c) ts s) = k_StatefulSets (fold (collectResource c) us s)"
    "k_PersistentVolumes (fold (collectResource c) ts s)
       = k_PersistentVolumes (fold (collectResource c) us s)"
    "k_PersistentVolumeClaims (fold (collectResource c) ts s)
       = k_PersistentVolumeClaims (fold (collectResource c) us s)"
    "k_CoreDNSConfigMap (fold (collectResource c) ts s)
       = k_CoreDNSConfigMap (fold (collectResource c) us s)"
  by (rule fold_overwrites_perm [OF _ assms], rule collectResource_lists collectResource_lists')+

lemma fold_appends:
  assumes "\<And>t s. field (f t s) = field s @ g t"
  shows "field (fold f ts s) = field s @ concat (map g ts)"
  by (induction ts arbitrary: s) (simp_all add: assms)

lemma usage_perm:
  assumes "mset ts = mset us"
  shows "mset (k_DeprecatedAPIUsage (fold (collectResource c) ts s))
    = mset (k_DeprecatedAPIUsage (fold (collectResource c) us s))"
proof -
  have "mset (concat (map g ts)) = mset (concat (map g us))" for g :: "kube_task \<Rightarrow> LiveDeprecatedAPIObject list"
    using assms by (simp add: mset_concat flip: sum_mset_sum_list)
  then show ?thesis
    by (simp add: fold_appends [of k_DeprecatedAPIUsage, OF collectResource_appends(1)])
qed

lemma services_perm:
  assumes "mset ts = mset us"
  shows "k_UnavailableAPIServices (fold (collectResource c) ts s)
    = k_UnavailableAPIServices (fold (collectResource c) us s)"
proof -
  have "concat (map (services_of c) ts) = concat (replicate (count (mset ts) TaskAPIServices)
      (services_of c TaskAPIServices))" for ts
    by (cases "succeeded c TaskAPIServices"; induction ts) (auto simp: services_of_def)
  with assms show ?thesis
    by (simp add: fold_appends [of k_UnavailableAPIServices, OF collectResource_appends(2)])
qed

text \<open>
  The errors form a map: where no two tasks share a key, the order in which they are recorded does
  not show.
\<close>

definition errors_step :: "kube_client \<Rightarrow> kube_task \<Rightarrow> (string \<rightharpoonup> string) \<Rightarrow> (string \<rightharpoonup> string)" where
  "errors_step c t m = (case task_error c t of None \<Rightarrow> m | Some e \<Rightarrow> m(task_key t \<mapsto> e))"

lemma errors_fold:
  "map_of (k_Errors (fold (collectResource c) ts s)) = fold (errors_step c) ts (map_of (k_Errors s))"
  by (induction ts arbitrary: s) (simp_all add: collectResource_errors errors_step_def)

lemma errors_perm:
  assumes "mset ts = mset us" and "distinct (map task_key us)"
  shows "map_of (k_Errors (fold (collectResource c) ts s))
    = map_of (k_Errors (fold (collectResource c) us s))"
proof -
  have inj: "inj_on task_key (set ts)"
    using assms mset_eq_setD [OF assms(1)] by (simp add: distinct_map)
  have "fold (errors_step c) ts = fold (errors_step c) us"
  proof (rule fold_multiset_equiv [OF _ assms(1)])
    fix t u
    assume "t \<in> set ts" and "u \<in> set ts"
    then have "t = u \<or> task_key t \<noteq> task_key u" using inj by (auto dest: inj_onD)
    then show "errors_step c t \<circ> errors_step c u = errors_step c u \<circ> errors_step c t"
      by (auto simp: fun_eq_iff errors_step_def split: option.split)
  qed
  then show ?thesis by (simp add: errors_fold)
qed

text \<open>
  What is observed of a snapshot: everything, but the order of the deprecated objects and of the
  errors.
\<close>

definition observe ::
  "K8sSnapshot \<Rightarrow> K8sSnapshot \<times> LiveDeprecatedAPIObject multiset \<times> (string \<rightharpoonup> string)" where
  "observe s = (s\<lparr>k_DeprecatedAPIUsage := [], k_Errors := []\<rparr>, mset (k_DeprecatedAPIUsage s),
     map_of (k_Errors s))"

lemma observe_perm:
  assumes "mset ts = mset us" and "distinct (map task_key us)"
  shows "observe (fold (collectResource c) ts s) = observe (fold (collectResource c) us s)"
  unfolding observe_def
  using lists_perm [OF assms(1)] usage_perm [OF assms(1)] services_perm [OF assms(1)]
    errors_perm [OF assms]
  by (simp add: K8sSnapshot.equality)

section \<open>The snapshot in closed form\<close>

text \<open>
  What a run is meant to deliver, without order or state: each list is the answer of its call,
  empty when the call failed; every failed call has its error under its key.
\<close>

definition collect_errors :: "kube_client \<Rightarrow> DeprecatedAPI list \<Rightarrow> (string \<times> string) list" where
  "collect_errors c catalog =
     List.map_filter (\<lambda>t. map_option (Pair (task_key t)) (task_error c t)) (kube_tasks c catalog)
     @ k_Errors (collect_start c)"

definition collected :: "kube_client \<Rightarrow> DeprecatedAPI list \<Rightarrow> K8sSnapshot" where
  "collected c catalog = empty_snapshot\<lparr>
     k_Nodes := items_of (kc_Nodes c), k_Pods := items_of (kc_Pods c),
     k_PodDisruptionBudgets := items_of (kc_PodDisruptionBudgets c),
     k_ValidatingWebhookConfigs := items_of (kc_ValidatingWebhookConfigs c),
     k_MutatingWebhookConfigs := items_of (kc_MutatingWebhookConfigs c),
     k_Services := items_of (kc_Services c), k_EndpointSlices := items_of (kc_EndpointSlices c),
     k_CustomResourceDefinitions := items_of (crd_list c),
     k_Deployments := items_of (kc_Deployments c), k_DaemonSets := items_of (kc_DaemonSets c),
     k_StatefulSets := items_of (kc_StatefulSets c),
     k_PersistentVolumes := items_of (kc_PersistentVolumes c),
     k_PersistentVolumeClaims := items_of (kc_PersistentVolumeClaims c),
     k_CoreDNSConfigMap := (case kc_CoreDNS c of ApiOk cm \<Rightarrow> Some cm | _ \<Rightarrow> None),
     k_DeprecatedAPIUsage := concat (map (live_objects c) catalog),
     k_UnavailableAPIServices := unavailable_services c,
     k_Errors := collect_errors c catalog\<rparr>"

definition embedded_catalog :: "DeprecatedAPI list" where
  \<comment> \<open>\<open>apicatalog.Deprecated\<close>\<close>
  "embedded_catalog = map legacy_entry default_versioned_entries"

lemma embedded_gvrs_distinct: "distinct (map GVR_String embedded_catalog)"
  by code_simp

lemma fixed_keys:
  "distinct (map task_key (kube_tasks c []))"
  "list_all (\<lambda>k. take 15 k \<noteq> ''deprecated-api:'') (map task_key (kube_tasks c []))"
  by (cases "kc_CustomResourceDefinitions c"; cases "kc_Dynamic c"; simp add: kube_tasks_def)+

lemma kube_tasks_mset:
  "mset (map task_key (kube_tasks c catalog))
     = mset (map task_key (kube_tasks c []))
       + mset (map task_key (if kc_Dynamic c = None then [] else map TaskDeprecated catalog))"
  by (simp add: kube_tasks_def)

lemma deprecated_keys_distinct:
  "distinct (map GVR_String catalog) \<Longrightarrow> distinct (map task_key (map TaskDeprecated catalog))"
  by (auto simp: distinct_map inj_on_def)

lemma keys_distinct:
  assumes "distinct (map GVR_String catalog)"
  shows "distinct (map task_key (kube_tasks c catalog))"
proof -
  let ?ds = "if kc_Dynamic c = None then [] else map TaskDeprecated catalog"
  have "distinct (map task_key ?ds)" using deprecated_keys_distinct [OF assms] by simp
  moreover have "take 15 k = ''deprecated-api:''" if "k \<in> set (map task_key ?ds)" for k
    using that by (auto split: if_splits)
  ultimately have keys: "distinct (map task_key (kube_tasks c []) @ map task_key ?ds)"
    using fixed_keys [of c] by (auto simp only: distinct_append list_all_iff)
  have "mset (map task_key (kube_tasks c catalog))
      = mset (map task_key (kube_tasks c []) @ map task_key ?ds)"
    unfolding mset_append by (rule kube_tasks_mset)
  from mset_eq_imp_distinct_iff [OF this] keys show ?thesis by (rule iffD2)
qed

lemma embedded_keys_distinct: "distinct (map task_key (kube_tasks c embedded_catalog))"
  by (rule keys_distinct [OF embedded_gvrs_distinct])

lemma item_lists_empty [simp]: "error_of r \<noteq> None \<Longrightarrow> items_of r = []"
  by (cases r) simp_all

lemma fold_errors_step:
  "distinct (map task_key ts) \<Longrightarrow>
   fold (errors_step c) ts m
     = m ++ map_of (List.map_filter (\<lambda>t. map_option (Pair (task_key t)) (task_error c t)) ts)"
proof (induction ts arbitrary: m)
  case Nil
  then show ?case by (simp add: map_filter_simps)
next
  case (Cons t ts)
  have "task_key t \<notin> fst ` set (List.map_filter (\<lambda>t. map_option (Pair (task_key t)) (task_error c t)) ts)"
    using Cons.prems by (auto simp: List.map_filter_def)
  then have "task_key t \<notin> dom (map_of (List.map_filter (\<lambda>t. map_option (Pair (task_key t)) (task_error c t)) ts))"
    by (simp add: dom_map_of_conv_image_fst)
  with Cons show ?case
    by (auto simp: errors_step_def map_filter_simps fun_eq_iff map_add_def split: option.split)
qed

lemma usage_fold:
  "k_DeprecatedAPIUsage (sequential_Collect c catalog) = concat (map (live_objects c) catalog)"
proof -
  have "usage_of c (TaskDeprecated d) = live_objects c d" for d
    by (cases "deprecated_list c d") (simp_all add: usage_of_def succeeded_def live_objects_def)
  then have "concat (map (usage_of c) (map TaskDeprecated ds)) = concat (map (live_objects c) ds)" for ds
    by (induction ds) simp_all
  moreover have "concat (map (live_objects c) ds) = []" if "kc_Dynamic c = None" for ds
    using that by (simp add: live_objects_def deprecated_list_def)
  moreover have "concat (map (usage_of c) (kube_tasks c catalog))
      = (if kc_Dynamic c = None then [] else concat (map (usage_of c) (map TaskDeprecated catalog)))"
    by (simp add: kube_tasks_def usage_of_def del: concat_eq_Nil_conv)
  ultimately show ?thesis
    unfolding sequential_Collect_def fold_appends [of k_DeprecatedAPIUsage, OF collectResource_appends(1)]
    by (simp add: collect_start_def empty_snapshot_def split: if_splits)
qed

lemma deprecated_services: "services_of c (TaskDeprecated d) = []"
  by (simp add: services_of_def)

lemma services_fold:
  "k_UnavailableAPIServices (sequential_Collect c catalog) = unavailable_services c"
proof -
  have "concat (map (services_of c) (kube_tasks c catalog))
      = (if kc_Dynamic c = None then [] else services_of c TaskAPIServices)"
    by (auto simp: kube_tasks_def comp_def deprecated_services) (simp_all add: services_of_def)
  moreover have "services_of c TaskAPIServices = unavailable_services c"
    by (simp add: services_of_def succeeded_def unavailable_services_def map_filter_simps)
  moreover have "unavailable_services c = []" if "kc_Dynamic c = None"
    using that by (simp add: unavailable_services_def apiservice_list_def map_filter_simps)
  ultimately show ?thesis
    unfolding sequential_Collect_def fold_appends [of k_UnavailableAPIServices, OF collectResource_appends(2)]
    by (simp add: collect_start_def empty_snapshot_def split: if_splits)
qed

lemma collected_lists:
  "r \<noteq> TaskCoreDNS \<Longrightarrow> r \<in> set (kube_tasks c []) \<Longrightarrow>
     (\<exists>t\<in>set (kube_tasks c catalog). t = r \<and> succeeded c t) \<longleftrightarrow> succeeded c r"
  by (auto simp: kube_tasks_def)

lemma sequential_lists:
  "k_Nodes (sequential_Collect c catalog) = items_of (kc_Nodes c)"
  "k_Pods (sequential_Collect c catalog) = items_of (kc_Pods c)"
  "k_PodDisruptionBudgets (sequential_Collect c catalog) = items_of (kc_PodDisruptionBudgets c)"
  "k_ValidatingWebhookConfigs (sequential_Collect c catalog) = items_of (kc_ValidatingWebhookConfigs c)"
  "k_MutatingWebhookConfigs (sequential_Collect c catalog) = items_of (kc_MutatingWebhookConfigs c)"
  "k_Services (sequential_Collect c catalog) = items_of (kc_Services c)"
  "k_EndpointSlices (sequential_Collect c catalog) = items_of (kc_EndpointSlices c)"
  "k_Deployments (sequential_Collect c catalog) = items_of (kc_Deployments c)"
  "k_DaemonSets (sequential_Collect c catalog) = items_of (kc_DaemonSets c)"
  "k_StatefulSets (sequential_Collect c catalog) = items_of (kc_StatefulSets c)"
  "k_PersistentVolumes (sequential_Collect c catalog) = items_of (kc_PersistentVolumes c)"
  "k_PersistentVolumeClaims (sequential_Collect c catalog) = items_of (kc_PersistentVolumeClaims c)"
  unfolding sequential_Collect_def
  by (subst fold_overwrites, rule collectResource_lists collectResource_lists',
      simp add: collected_lists kube_tasks_def succeeded_def collect_start_def empty_snapshot_def)+

lemma sequential_crds:
  "k_CustomResourceDefinitions (sequential_Collect c catalog) = items_of (crd_list c)"
  unfolding sequential_Collect_def
  by (subst fold_overwrites, rule collectResource_lists')
    (auto simp: kube_tasks_def succeeded_def crd_list_def collect_start_def empty_snapshot_def)

lemma sequential_coredns:
  "k_CoreDNSConfigMap (sequential_Collect c catalog)
     = (case kc_CoreDNS c of ApiOk cm \<Rightarrow> Some cm | _ \<Rightarrow> None)"
  unfolding sequential_Collect_def
  by (subst fold_overwrites, rule collectResource_lists')
    (auto simp: kube_tasks_def collect_start_def empty_snapshot_def split: api_result.split)

lemma sequential_errors:
  assumes "distinct (map GVR_String catalog)"
  shows "map_of (k_Errors (sequential_Collect c catalog)) = map_of (collect_errors c catalog)"
  unfolding sequential_Collect_def errors_fold fold_errors_step [OF keys_distinct [OF assms]]
  by (simp add: collect_errors_def)

lemma sequential_refines:
  assumes "distinct (map GVR_String catalog)"
  shows "observe (sequential_Collect c catalog) = observe (collected c catalog)"
  unfolding observe_def
  using sequential_lists [of c catalog] sequential_crds [of c catalog]
    sequential_coredns [of c catalog] sequential_errors [OF assms, of c]
    usage_fold [of c catalog] services_fold [of c catalog]
  by (simp add: collected_def K8sSnapshot.equality)

section \<open>Every run\<close>

interpretation kube: order_insensitive "collectResource c" "kube_tasks c embedded_catalog"
    "collect_start c" observe for c
  by unfold_locales (rule observe_perm [OF _ embedded_keys_distinct])

lemma k8s_CollectE:
  assumes "k8s_Collect c catalog n snap"
  obtains p where
    "pool_steps (pool_size (clamp_concurrency n)) (map (collectResource c) (kube_tasks c catalog))
       (pool_start (map (collectResource c) (kube_tasks c catalog)) (collect_start c)) p"
    "all_finished p" "snd p = snap"
  using assms by (auto simp: k8s_Collect_def Let_def)

lemma clamped_pool_size: "0 < pool_size (clamp_concurrency n)" "pool_size (clamp_concurrency n) \<le> 16"
  by (auto simp: pool_size_def clamp_concurrency_def MinCollectorConcurrency_def
      MaxCollectorConcurrency_def Let_def)

lemma k8s_Collect_exists: "\<exists>snap. k8s_Collect c catalog n snap"
  unfolding k8s_Collect_def Let_def using pool_completes [OF clamped_pool_size(1)] by blast

text \<open>
  C34: whatever order the goroutines of \<open>Collect\<close> run in, and whatever the concurrency, the snapshot
  it returns for the embedded API catalogue is the closed form \<open>collected\<close>: every list is the
  answer of its call, empty exactly for the calls that failed; the errors are those of the failed
  calls (\<open>NotFound\<close> for CoreDNS and for unserved deprecated APIs excepted), each under its own key.
  Only the order of the deprecated objects and of the errors may vary.
\<close>

theorem Collect_is_schedule_independent:
  "k8s_Collect c embedded_catalog n snap \<Longrightarrow> observe snap = observe (collected c embedded_catalog)"
  by (erule k8s_CollectE)
    (metis kube.complete_run sequential_Collect_def sequential_refines [OF embedded_gvrs_distinct])

definition sample_client :: kube_client where
  "sample_client = \<lparr>kc_Nodes = ApiOk [], kc_Pods = ApiError ''context deadline exceeded'',
     kc_PodDisruptionBudgets = ApiOk [], kc_ValidatingWebhookConfigs = ApiOk [],
     kc_MutatingWebhookConfigs = ApiOk [], kc_Services = ApiOk [], kc_EndpointSlices = ApiOk [],
     kc_CustomResourceDefinitions = None, kc_Deployments = ApiOk [], kc_DaemonSets = ApiOk [],
     kc_StatefulSets = ApiOk [], kc_PersistentVolumes = ApiOk [], kc_PersistentVolumeClaims = ApiOk [],
     kc_CoreDNS = ApiNotFound ''configmaps coredns not found'',
     kc_Dynamic = Some (\<lambda>_. ApiNotFound ''not found'',
       ApiOk [\<lparr>asi_Name = ''v1beta1.metrics.k8s.io'', asi_UID = ''u1'', asi_Conditions = []\<rparr>])\<rparr>"

lemma sample_errors:
  "collect_errors sample_client embedded_catalog =
     [(''pods'', ''context deadline exceeded''),
      (''customresourcedefinitions'', ''apiextensions client not configured'')]"
  by code_simp

theorem Collect_is_schedule_independent_witness:
  "\<exists>snap. k8s_Collect sample_client embedded_catalog 4 snap
     \<and> map_of (k_Errors snap) ''pods'' = Some ''context deadline exceeded''
     \<and> map_of (k_Errors snap) ''coredns-configmap'' = None
     \<and> map apisvc_Name (k_UnavailableAPIServices snap) = [''v1beta1.metrics.k8s.io'']"
proof -
  obtain snap where run: "k8s_Collect sample_client embedded_catalog 4 snap"
    using k8s_Collect_exists by blast
  from Collect_is_schedule_independent [OF run]
  have errors: "map_of (k_Errors snap) = map_of (collect_errors sample_client embedded_catalog)"
    and others: "snap\<lparr>k_DeprecatedAPIUsage := [], k_Errors := []\<rparr>
      = (collected sample_client embedded_catalog)\<lparr>k_DeprecatedAPIUsage := [], k_Errors := []\<rparr>"
    by (simp_all add: observe_def collected_def)
  from arg_cong [OF others, of k_UnavailableAPIServices]
  have "k_UnavailableAPIServices snap = unavailable_services sample_client"
    by (simp add: collected_def)
  moreover have "map apisvc_Name (unavailable_services sample_client) = [''v1beta1.metrics.k8s.io'']"
    by code_simp
  ultimately show ?thesis using run errors by (auto simp: sample_errors)
qed

text \<open>
  C35: the worker pool of \<open>Collect\<close> never runs more than sixteen calls at once, however large the
  configured concurrency, and it cannot deadlock or run for ever: from every state it can reach
  there is a run on to the end, and no run is infinite.
\<close>

theorem Collect_pool_is_live:
  "let cap = pool_size (clamp_concurrency n); tasks = map (collectResource c) (kube_tasks c catalog) in
     wf {(q, p). pool_step cap tasks p q}
     \<and> {p. pool_steps cap tasks (pool_start tasks (collect_start c)) p}
        \<subseteq> {p. slots (fst p) \<le> 16 \<and> (\<exists>q. pool_steps cap tasks p q \<and> all_finished q)}"
  unfolding Let_def
  using pool_terminates pool_completes [OF clamped_pool_size(1)] clamped_pool_size(2)
  by (auto dest!: pool_slots_bounded intro: order_trans)

end
