(* ===== verification/AwsCollector.thy ===== *)
theory AwsCollector
  imports Cluster Text "HOL-Library.AList" "HOL-Library.Monad_Syntax"
begin

text \<open>
  The AWS collector (\<open>internal/collectors/aws/collector.go\<close>): the EKS and EC2 calls \<open>Collect\<close> makes,
  in order, and what each leaves in the snapshot.

  The two clients are the parameter \<open>aws_client\<close>: what each call returns within its time budget. A
  call's error is its text and, when it is an AWS API error, its code. \<open>ListInsights\<close> is paged, and
  the loop over its pages ends only when the service stops handing out tokens: it is a partial
  function, as is \<open>Collect\<close>.
\<close>

section \<open>The AWS API\<close>

record aws_error =
  ae_Code :: "string option" \<comment> \<open>\<open>errors.As\<close> to a \<open>smithy.APIError\<close>, and its code\<close>
  ae_Text :: string

record VpcConfig =
  vpc_VpcId :: "string option"
  vpc_EndpointPublicAccess :: bool
  vpc_EndpointPrivateAccess :: bool
  vpc_SubnetIds :: "string list"
  vpc_SecurityGroupIds :: "string list"
  vpc_ClusterSecurityGroupId :: "string option"

record ClusterDescription =
  cl_Version :: "string option"
  cl_PlatformVersion :: "string option"
  cl_Status :: string
  cl_Arn :: "string option"
  cl_SupportType :: "string option" \<comment> \<open>\<open>UpgradePolicy.SupportType\<close>, when there is a policy\<close>
  cl_ResourcesVpcConfig :: "VpcConfig option"

record InsightStatus =
  is_Status :: string
  is_Reason :: "string option"

record InsightSummary =
  sum_Id :: "string option"
  sum_Name :: "string option"
  sum_Category :: string
  sum_KubernetesVersion :: "string option"
  sum_InsightStatus :: "InsightStatus option"
  sum_Description :: "string option"
  sum_LastRefreshTime :: "time option"
  sum_LastTransitionTime :: "time option"

record ClientStat =
  cs_UserAgent :: "string option"
  cs_NumberOfRequestsLast30Days :: int

record DeprecationDetail =
  dd_Usage :: "string option"
  dd_ReplacedWith :: "string option"
  dd_StopServingVersion :: "string option"
  dd_StartServingReplacementVersion :: "string option"
  dd_ClientStats :: "ClientStat list"

record AddonCompatibilityDetail =
  acd_Name :: "string option"
  acd_CompatibleVersions :: "string list"

record Insight = InsightSummary +
  dsc_Recommendation :: "string option"
  dsc_AdditionalInfo :: labels
  dsc_CategorySpecificSummary ::
    "(DeprecationDetail list \<times> AddonCompatibilityDetail list) option"

record NodegroupIssue =
  ngi_Code :: string
  ngi_Message :: "string option"
  ngi_ResourceIds :: "string list"

record Nodegroup =
  ngd_NodegroupName :: "string option"
  ngd_Status :: string
  ngd_Version :: "string option"
  ngd_ReleaseVersion :: "string option"
  ngd_AmiType :: string
  ngd_CapacityType :: string
  ngd_HasLaunchTemplate :: bool
  ngd_ScalingConfig :: "(int option \<times> int option \<times> int option) option" \<comment> \<open>desired, min, max\<close>
  ngd_UpdateConfig :: "(int option \<times> int option) option"
  ngd_AutoScalingGroups :: "string option list option" \<comment> \<open>the names in \<open>Resources\<close>, if any\<close>
  ngd_HealthIssues :: "NodegroupIssue list option"

record SubnetDescription =
  sd_SubnetId :: "string option"
  sd_AvailableIpAddressCount :: "int option"

record aws_client =
  ac_DescribeCluster :: "aws_error + ClusterDescription option"
  ac_ListInsights ::
    "string list \<Rightarrow> string option \<Rightarrow> aws_error + (InsightSummary list \<times> string option) option"
    \<comment> \<open>at the versions of the filter and the token; \<open>None\<close>: no output\<close>
  ac_DescribeInsight :: "string \<Rightarrow> aws_error + Insight option"
  ac_ListAddons :: "aws_error + string list"
  ac_DescribeAddon :: "string \<Rightarrow> aws_error + string option option" \<comment> \<open>\<open>Addon.AddonVersion\<close>\<close>
  ac_DescribeAddonVersions :: "string \<Rightarrow> string \<Rightarrow> aws_error + string option list list"
  ac_ListNodegroups :: "aws_error + string list option"
  ac_DescribeNodegroup :: "string \<Rightarrow> aws_error + Nodegroup option"
  ac_DescribeSubnets :: "string list \<Rightarrow> aws_error + SubnetDescription list"
  ac_DescribeSecurityGroup :: "string \<Rightarrow> aws_error option" \<comment> \<open>the error, if any\<close>
  ac_DescribeVpc :: "string \<Rightarrow> aws_error option"

record aws_collector =
  col_client :: aws_client
  col_clusterName :: string
  col_Region :: string

definition ToString :: "string option \<Rightarrow> string" where
  "ToString x = (case x of None \<Rightarrow> '''' | Some s \<Rightarrow> s)"

definition ToTime :: "time option \<Rightarrow> time" where
  "ToTime x = (case x of None \<Rightarrow> 0 | Some t \<Rightarrow> t)"

definition or_keep :: "'a option \<Rightarrow> 'a \<Rightarrow> 'a" where
  \<comment> \<open>\<open>if p != nil { x = *p }\<close>\<close>
  "or_keep p x = (case p of None \<Rightarrow> x | Some y \<Rightarrow> y)"

definition isAWSErrorCode :: "aws_error \<Rightarrow> string \<Rightarrow> bool" where
  "isAWSErrorCode err code \<longleftrightarrow> ae_Code err = Some code"

definition aws_fail :: "string \<Rightarrow> aws_error \<Rightarrow> AWSSnapshot \<Rightarrow> AWSSnapshot" where
  \<comment> \<open>\<open>snap.Errors[k] = err\<close>\<close>
  "aws_fail k err snap = snap\<lparr>aws_Errors := AList.update k (ae_Text err) (aws_Errors snap)\<rparr>"

section \<open>Insights\<close>

definition insightStatusValue :: "InsightStatus option \<Rightarrow> string" where
  "insightStatusValue s =
     (case s of None \<Rightarrow> ''UNKNOWN''
      | Some st \<Rightarrow> if is_Status st = '''' then ''UNKNOWN'' else is_Status st)"

definition insightStatusReason :: "InsightStatus option \<Rightarrow> string" where
  "insightStatusReason s = (case s of None \<Rightarrow> '''' | Some st \<Rightarrow> ToString (is_Reason st))"

definition part :: "string \<Rightarrow> string option \<Rightarrow> string list" where
  "part label p = (case p of None \<Rightarrow> [] | Some s \<Rightarrow> [label @ s])"

definition client_part :: "ClientStat \<Rightarrow> string list" where
  "client_part stat =
     (case cs_UserAgent stat of
        None \<Rightarrow> []
      | Some agent \<Rightarrow>
          [''client '' @ agent @ '': '' @ show_int (cs_NumberOfRequestsLast30Days stat)
           @ '' request(s) in last 30 days''])"

definition deprecationDetailLabels :: "DeprecationDetail list \<Rightarrow> string list" where
  "deprecationDetailLabels details =
     concat (map (\<lambda>d.
       let parts = part ''usage: '' (dd_Usage d) @ part ''replacedWith: '' (dd_ReplacedWith d)
             @ part ''stopServingVersion: '' (dd_StopServingVersion d)
             @ part ''startServingReplacementVersion: '' (dd_StartServingReplacementVersion d)
             @ concat (map client_part (dd_ClientStats d))
       in if parts = [] then [] else [Join parts ''; '']) details)"

definition addonCompatibilityLabels :: "AddonCompatibilityDetail list \<Rightarrow> string list" where
  "addonCompatibilityLabels details =
     concat (map (\<lambda>d.
       let name = ToString (acd_Name d); vs = acd_CompatibleVersions d
       in if name = '''' \<and> vs = [] then []
          else if vs = [] then [name]
          else [name @ '' compatible versions: '' @ Join vs '', '']) details)"

definition mergeInsightDetails :: "AwsInsightRecord \<Rightarrow> Insight \<Rightarrow> AwsInsightRecord" where
  "mergeInsightDetails rec ins =
     rec\<lparr>ins_ID := or_keep (sum_Id ins) (ins_ID rec),
         ins_Name := or_keep (sum_Name ins) (ins_Name rec),
         ins_Category := (if sum_Category ins = '''' then ins_Category rec else sum_Category ins),
         ins_KubernetesVersion := or_keep (sum_KubernetesVersion ins) (ins_KubernetesVersion rec),
         ins_Status := (if sum_InsightStatus ins = None then ins_Status rec
                        else insightStatusValue (sum_InsightStatus ins)),
         ins_Reason := (if sum_InsightStatus ins = None then ins_Reason rec
                        else insightStatusReason (sum_InsightStatus ins)),
         ins_Description := or_keep (sum_Description ins) (ins_Description rec),
         ins_Recommendation := ToString (dsc_Recommendation ins),
         ins_LastRefreshTime := or_keep (sum_LastRefreshTime ins) (ins_LastRefreshTime rec),
         ins_LastTransitionTime := or_keep (sum_LastTransitionTime ins) (ins_LastTransitionTime rec),
         ins_AdditionalInfo :=
           (if dsc_AdditionalInfo ins = [] then ins_AdditionalInfo rec else dsc_AdditionalInfo ins),
         ins_DeprecationDetails :=
           (case dsc_CategorySpecificSummary ins of
              None \<Rightarrow> ins_DeprecationDetails rec | Some (ds, _) \<Rightarrow> deprecationDetailLabels ds),
         ins_AddonCompatibility :=
           (case dsc_CategorySpecificSummary ins of
              None \<Rightarrow> ins_AddonCompatibility rec | Some (_, cs) \<Rightarrow> addonCompatibilityLabels cs)\<rparr>"

definition insight_from_summary :: "string \<Rightarrow> InsightSummary \<Rightarrow> AwsInsightRecord" where
  "insight_from_summary clusterName s =
     \<lparr>ins_ClusterName = clusterName, ins_ID = ToString (sum_Id s), ins_Name = ToString (sum_Name s),
      ins_Category = sum_Category s, ins_KubernetesVersion = ToString (sum_KubernetesVersion s),
      ins_Status = insightStatusValue (sum_InsightStatus s),
      ins_Reason = insightStatusReason (sum_InsightStatus s),
      ins_Description = ToString (sum_Description s), ins_Recommendation = '''',
      ins_LastRefreshTime = ToTime (sum_LastRefreshTime s),
      ins_LastTransitionTime = ToTime (sum_LastTransitionTime s),
      ins_AdditionalInfo = [], ins_DeprecationDetails = [], ins_AddonCompatibility = []\<rparr>"

definition collectInsightDetail ::
  "aws_collector \<Rightarrow> InsightSummary \<Rightarrow> AWSSnapshot \<Rightarrow> AWSSnapshot" where
  "collectInsightDetail col summary snap =
     (case sum_Id summary of
        None \<Rightarrow> snap
      | Some i \<Rightarrow>
          let rec = insight_from_summary (col_clusterName col) summary
          in case ac_DescribeInsight (col_client col) i of
               Inl err \<Rightarrow>
                 (aws_fail (''describe-insight:'' @ i) err snap)
                   \<lparr>aws_Insights := aws_Insights snap @ [rec]\<rparr>
             | Inr None \<Rightarrow> snap\<lparr>aws_Insights := aws_Insights snap @ [rec]\<rparr>
             | Inr (Some ins) \<Rightarrow>
                 snap\<lparr>aws_Insights := aws_Insights snap @ [mergeInsightDetails rec ins]\<rparr>)"

text \<open>The loop over the pages.\<close>

partial_function (option) insight_pages ::
  "(string option \<Rightarrow> aws_error + (InsightSummary list \<times> string option) option)
   \<Rightarrow> InsightSummary list \<Rightarrow> string option \<Rightarrow> (aws_error + InsightSummary list) option" where
  "insight_pages fetch summaries nextToken =
     (case fetch nextToken of
        Inl err \<Rightarrow> Some (Inl err)
      | Inr None \<Rightarrow> Some (Inr summaries)
      | Inr (Some (insights, token)) \<Rightarrow>
          if token = None \<or> token = Some '''' then Some (Inr (summaries @ insights))
          else insight_pages fetch (summaries @ insights) token)"

declare insight_pages.simps [code]

definition listUpgradeInsightSummaries ::
  "aws_collector \<Rightarrow> string \<Rightarrow> (aws_error + InsightSummary list) option" where
  "listUpgradeInsightSummaries col targetVersion =
     insight_pages
       (ac_ListInsights (col_client col) (if targetVersion = '''' then [] else [targetVersion])) [] None"

definition collect_summaries ::
  "aws_collector \<Rightarrow> InsightSummary list \<Rightarrow> AWSSnapshot \<Rightarrow> AWSSnapshot" where
  "collect_summaries col summaries snap = fold (collectInsightDetail col) summaries snap"

definition collectInsights :: "aws_collector \<Rightarrow> string \<Rightarrow> AWSSnapshot \<Rightarrow> AWSSnapshot option" where
  "collectInsights col targetVersion snap =
     (case listUpgradeInsightSummaries col targetVersion of
        None \<Rightarrow> None
      | Some (Inr summaries) \<Rightarrow> Some (collect_summaries col summaries snap)
      | Some (Inl err) \<Rightarrow>
          if targetVersion = '''' then Some (aws_fail ''list-insights'' err snap)
          else (case listUpgradeInsightSummaries col '''' of
                  None \<Rightarrow> None
                | Some (Inr summaries) \<Rightarrow> Some (collect_summaries col summaries snap)
                | Some (Inl fallbackErr) \<Rightarrow>
                    Some (aws_fail ''list-insights-fallback'' fallbackErr
                           (aws_fail ''list-insights'' err snap))))"

section \<open>Add-ons\<close>

definition collect_addon ::
  "aws_collector \<Rightarrow> string \<Rightarrow> string \<Rightarrow> AWSSnapshot \<Rightarrow> AWSSnapshot" where
  "collect_addon col targetVersion name snap =
     (let described = ac_DescribeAddon (col_client col) name;
          versions = ac_DescribeAddonVersions (col_client col) name targetVersion;
          rec = \<lparr>ad_ClusterName = col_clusterName col, ad_Name = name,
                 ad_CurrentVersion =
                   (case described of Inr (Some v) \<Rightarrow> ToString v | _ \<Rightarrow> ''''),
                 ad_CompatibleVersions =
                   (case versions of Inl _ \<Rightarrow> []
                    | Inr infos \<Rightarrow> List.map_filter (\<lambda>v. v) (concat infos))\<rparr>;
          snap = (case described of Inl err \<Rightarrow> aws_fail (''describe-addon:'' @ name) err snap
                  | Inr _ \<Rightarrow> snap);
          snap = (case versions of Inl err \<Rightarrow> aws_fail (''describe-addon-versions:'' @ name) err snap
                  | Inr _ \<Rightarrow> snap)
      in snap\<lparr>aws_Addons := aws_Addons snap @ [rec]\<rparr>)"

definition collectAddons :: "aws_collector \<Rightarrow> string \<Rightarrow> AWSSnapshot \<Rightarrow> AWSSnapshot" where
  "collectAddons col targetVersion snap =
     (case ac_ListAddons (col_client col) of
        Inl err \<Rightarrow> aws_fail ''list-addons'' err snap
      | Inr names \<Rightarrow> fold (collect_addon col targetVersion) names snap)"

section \<open>Node groups\<close>

definition nodegroupReadiness :: "NodegroupRecord \<Rightarrow> string \<times> string list" where
  "nodegroupReadiness rec =
     (let notes =
        (if nr_HealthIssues rec \<noteq> []
         then [''EKS reports managed node group health issue(s).''] else [])
        @ (case (nr_DesiredSize rec, nr_MinSize rec) of
             (Some d, Some m) \<Rightarrow>
               if d \<le> m
               then [''Desired size is at or below minimum size, leaving limited rolling update headroom.'']
               else []
           | _ \<Rightarrow> [])
        @ (if nr_LaunchTemplate rec \<or> nr_AMIType rec = ''CUSTOM''
           then [''Launch template or custom AMI requires manual validation.''] else [])
      in if notes = [] then (''Ready with review'', []) else (''Review required'', notes))"

definition plain_nodegroup :: "string \<Rightarrow> string \<Rightarrow> NodegroupRecord" where
  "plain_nodegroup clusterName name =
     \<lparr>nr_ClusterName = clusterName, nr_Name = name, nr_Status = '''', nr_Version = '''',
      nr_ReleaseVersion = '''', nr_AMIType = '''', nr_CapacityType = '''', nr_DesiredSize = None,
      nr_MinSize = None, nr_MaxSize = None, nr_MaxUnavailable = None,
      nr_MaxUnavailablePercentage = None, nr_LaunchTemplate = False, nr_HealthIssues = [],
      nr_AutoScalingGroups = [], nr_ReadinessStatus = '''', nr_Notes = []\<rparr>"

definition health_issue :: "NodegroupIssue \<Rightarrow> NodegroupHealth" where
  "health_issue i =
     \<lparr>nh_Code = ngi_Code i, nh_Message = ToString (ngi_Message i), nh_ResourceIDs = ngi_ResourceIds i\<rparr>"

definition nodegroupRecordFromAWS :: "string \<Rightarrow> string \<Rightarrow> Nodegroup \<Rightarrow> NodegroupRecord" where
  "nodegroupRecordFromAWS clusterName fallbackName ng =
     (let sizes = or_keep (ngd_ScalingConfig ng) (None, None, None);
          limits = or_keep (ngd_UpdateConfig ng) (None, None);
          rec = \<lparr>nr_ClusterName = clusterName,
            nr_Name = or_keep (ngd_NodegroupName ng) fallbackName,
            nr_Status = ngd_Status ng, nr_Version = ToString (ngd_Version ng),
            nr_ReleaseVersion = ToString (ngd_ReleaseVersion ng), nr_AMIType = ngd_AmiType ng,
            nr_CapacityType = ngd_CapacityType ng, nr_DesiredSize = fst sizes,
            nr_MinSize = fst (snd sizes), nr_MaxSize = snd (snd sizes),
            nr_MaxUnavailable = fst limits, nr_MaxUnavailablePercentage = snd limits,
            nr_LaunchTemplate = ngd_HasLaunchTemplate ng,
            nr_HealthIssues = map health_issue (or_keep (ngd_HealthIssues ng) []),
            nr_AutoScalingGroups =
              List.map_filter (\<lambda>n. n) (or_keep (ngd_AutoScalingGroups ng) []),
            nr_ReadinessStatus = '''', nr_Notes = []\<rparr>
      in rec\<lparr>nr_ReadinessStatus := fst (nodegroupReadiness rec),
             nr_Notes := snd (nodegroupReadiness rec)\<rparr>)"

definition collect_nodegroup :: "aws_collector \<Rightarrow> string \<Rightarrow> AWSSnapshot \<Rightarrow> AWSSnapshot" where
  "collect_nodegroup col name snap =
     (case ac_DescribeNodegroup (col_client col) name of
        Inl err \<Rightarrow> aws_fail (''describe-nodegroup:'' @ name) err snap
      | Inr None \<Rightarrow>
          snap\<lparr>aws_Nodegroups := aws_Nodegroups snap @ [plain_nodegroup (col_clusterName col) name]\<rparr>
      | Inr (Some ng) \<Rightarrow>
          snap\<lparr>aws_Nodegroups :=
            aws_Nodegroups snap @ [nodegroupRecordFromAWS (col_clusterName col) name ng]\<rparr>)"

definition collectNodegroups :: "aws_collector \<Rightarrow> AWSSnapshot \<Rightarrow> AWSSnapshot" where
  "collectNodegroups col snap =
     (case ac_ListNodegroups (col_client col) of
        Inl err \<Rightarrow> aws_fail ''list-nodegroups'' err snap
      | Inr None \<Rightarrow> snap
      | Inr (Some names) \<Rightarrow> fold (collect_nodegroup col) names snap)"

section \<open>Network\<close>

definition subnet_record :: "SubnetDescription \<Rightarrow> SubnetRecord" where
  "subnet_record s =
     \<lparr>subnet_ID = ToString (sd_SubnetId s),
      subnet_AvailableIPAddressCount = or_keep (sd_AvailableIpAddressCount s) 0\<rparr>"

definition collectSubnets :: "aws_collector \<Rightarrow> string list \<Rightarrow> AWSSnapshot \<Rightarrow> AWSSnapshot" where
  "collectSubnets col subnetIDs snap =
     (if subnetIDs = [] then snap
      else case ac_DescribeSubnets (col_client col) subnetIDs of
             Inl err \<Rightarrow> aws_fail ''describe-subnets'' err snap
           | Inr subnets \<Rightarrow> snap\<lparr>aws_Subnets := aws_Subnets snap @ map subnet_record subnets\<rparr>)"

definition preflight_result ::
  "string \<Rightarrow> string \<Rightarrow> string \<Rightarrow> string \<Rightarrow> aws_error option \<Rightarrow> AWSSnapshot \<Rightarrow> AWSSnapshot" where
  "preflight_result kind notFound operation i result snap =
     (case result of
        None \<Rightarrow> snap
      | Some err \<Rightarrow>
          if isAWSErrorCode err notFound
          then snap\<lparr>aws_NetworkPreflightIssues :=
                 aws_NetworkPreflightIssues snap @ [\<lparr>npi_Kind = kind, npi_ID = i\<rparr>]\<rparr>
          else aws_fail (operation @ i) err snap)"

definition check_security_group :: "aws_collector \<Rightarrow> string \<Rightarrow> AWSSnapshot \<Rightarrow> AWSSnapshot" where
  "check_security_group col sgID snap =
     (if sgID = '''' then snap
      else preflight_result ''SecurityGroup'' ''InvalidGroup.NotFound'' ''describe-security-group:'' sgID
             (ac_DescribeSecurityGroup (col_client col) sgID) snap)"

definition collectNetworkPreflight ::
  "aws_collector \<Rightarrow> string \<Rightarrow> string list \<Rightarrow> AWSSnapshot \<Rightarrow> AWSSnapshot" where
  "collectNetworkPreflight col vpcID securityGroupIDs snap =
     (let snap = fold (check_security_group col) securityGroupIDs snap
      in if vpcID = '''' then snap
         else preflight_result ''Vpc'' ''InvalidVpcID.NotFound'' ''describe-vpc:'' vpcID
                (ac_DescribeVpc (col_client col) vpcID) snap)"

section \<open>Collect\<close>

definition endpointAccessLabel :: "VpcConfig \<Rightarrow> string" where
  "endpointAccessLabel v =
     (if vpc_EndpointPublicAccess v \<and> vpc_EndpointPrivateAccess v then ''public_and_private''
      else if vpc_EndpointPublicAccess v then ''public''
      else if vpc_EndpointPrivateAccess v then ''private''
      else ''unknown'')"

definition describe_cluster ::
  "aws_collector \<Rightarrow> AWSSnapshot \<Rightarrow> AWSSnapshot" where
  "describe_cluster col snap =
     (case ac_DescribeCluster (col_client col) of
        Inl err \<Rightarrow> aws_fail ''describe-cluster'' err snap
      | Inr None \<Rightarrow> snap
      | Inr (Some cl) \<Rightarrow>
          let snap = snap\<lparr>aws_ClusterVersion := or_keep (cl_Version cl) (aws_ClusterVersion snap),
                aws_PlatformVersion := ToString (cl_PlatformVersion cl),
                aws_Status := cl_Status cl, aws_ARN := ToString (cl_Arn cl),
                aws_SupportType := or_keep (cl_SupportType cl) (aws_SupportType snap)\<rparr>
          in case cl_ResourcesVpcConfig cl of
               None \<Rightarrow> snap
             | Some v \<Rightarrow> snap\<lparr>aws_VpcID := or_keep (vpc_VpcId v) (aws_VpcID snap),
                              aws_EndpointAccess := endpointAccessLabel v\<rparr>)"

text \<open>The VPC, subnets and security groups the later calls ask about.\<close>

definition cluster_network :: "aws_collector \<Rightarrow> string \<times> string list \<times> string list" where
  "cluster_network col =
     (case ac_DescribeCluster (col_client col) of
        Inr (Some cl) \<Rightarrow>
          (case cl_ResourcesVpcConfig cl of
             None \<Rightarrow> ('''', [], [])
           | Some v \<Rightarrow> (ToString (vpc_VpcId v), vpc_SubnetIds v,
                        vpc_SecurityGroupIds v
                        @ (case vpc_ClusterSecurityGroupId v of None \<Rightarrow> [] | Some g \<Rightarrow> [g])))
      | _ \<Rightarrow> ('''', [], []))"

definition aws_Collect :: "aws_collector \<Rightarrow> string \<Rightarrow> AWSSnapshot option" where
  "aws_Collect col targetVersion =
     (case cluster_network col of (vpcID, subnetIDs, securityGroupIDs) \<Rightarrow>
        do {
          snap \<leftarrow> collectInsights col targetVersion
                   (describe_cluster col (empty_aws\<lparr>aws_Region := col_Region col\<rparr>));
          Some (collectNetworkPreflight col vpcID securityGroupIDs
                 (collectSubnets col subnetIDs
                   (collectNodegroups col (collectAddons col targetVersion snap))))
        })"

definition DescribeClusterVersion :: "aws_collector \<Rightarrow> string + string" where
  "DescribeClusterVersion col =
     (case ac_DescribeCluster (col_client col) of
        Inl err \<Rightarrow> Inl (''describing cluster: '' @ ae_Text err)
      | Inr out \<Rightarrow>
          (case Option.bind out cl_Version of
             None \<Rightarrow> Inl (''cluster '' @ quote (col_clusterName col) @ '' has no reported version'')
           | Some v \<Rightarrow> Inr v))"

end
