(* ===== verification/AwsFacts.thy ===== *)
theory AwsFacts
  imports AwsCollector
begin

text \<open>
  What the AWS collector guarantees: the paged listing of insights, and that the errors it records
  are exactly the failures of the calls it made.
\<close>

section \<open>Paging\<close>

text \<open>
  The pages a service hands out from a token on: the loop ends at a page without a token, or
  without output.
\<close>

fun serves ::
  "(string option \<Rightarrow> aws_error + (InsightSummary list \<times> string option) option)
   \<Rightarrow> string option \<Rightarrow> InsightSummary list list \<Rightarrow> bool" where
  "serves fetch tok [] \<longleftrightarrow> fetch tok = Inr None"
| "serves fetch tok (page # pages) \<longleftrightarrow>
     (case fetch tok of
        Inr (Some (insights, token)) \<Rightarrow>
          insights = page
          \<and> (if token = None \<or> token = Some '''' then pages = [] else serves fetch token pages)
      | _ \<Rightarrow> False)"

lemma insight_pages_served:
  "serves fetch tok pages \<Longrightarrow> insight_pages fetch acc tok = Some (Inr (acc @ concat pages))"
proof (induction fetch tok pages arbitrary: acc rule: serves.induct)
  case (1 fetch tok)
  then show ?case by (simp add: insight_pages.simps)
next
  case (2 fetch tok page pages)
  from 2(2) obtain token where fetch: "fetch tok = Inr (Some (page, token))"
    and rest: "if token = None \<or> token = Some '''' then pages = [] else serves fetch token pages"
    by (auto split: sum.splits option.splits)
  show ?case
  proof (cases "token = None \<or> token = Some ''''")
    case True
    then show ?thesis using rest by (subst insight_pages.simps) (simp add: fetch)
  next
    case False
    with rest have "serves fetch token pages" by (simp split: if_splits)
    from 2(1) [OF fetch refl refl False this, of "acc @ page"]
    show ?thesis using False by (subst insight_pages.simps) (auto simp: fetch)
  qed
qed

lemma insight_pages_serves:
  assumes "insight_pages fetch acc tok = Some r"
  shows "\<forall>xs. r = Inr xs \<longrightarrow> (\<exists>pages. serves fetch tok pages \<and> xs = acc @ concat pages)"
proof (rule insight_pages.raw_induct [where
      P = "\<lambda>fetch acc tok r. \<forall>xs. r = Inr xs \<longrightarrow> (\<exists>pages. serves fetch tok pages \<and> xs = acc @ concat pages)",
      OF _ assms], intro allI impI)
  fix loop fetch acc tok r xs
  assume IH: "\<And>fetch acc tok r. loop fetch acc tok = Some r \<Longrightarrow>
        \<forall>xs. r = Inr xs \<longrightarrow> (\<exists>pages. serves fetch tok pages \<and> xs = acc @ concat pages)"
    and step: "(case fetch tok of Inl err \<Rightarrow> Some (Inl err) | Inr None \<Rightarrow> Some (Inr acc)
        | Inr (Some (insights, token)) \<Rightarrow>
            if token = None \<or> token = Some '''' then Some (Inr (acc @ insights))
            else loop fetch (acc @ insights) token) = Some r"
    and r: "r = (Inr xs :: aws_error + InsightSummary list)"
  show "\<exists>pages. serves fetch tok pages \<and> xs = acc @ concat pages"
  proof (cases "fetch tok")
    case (Inl err)
    with step r show ?thesis by simp
  next
    case (Inr out)
    show ?thesis
    proof (cases out)
      case None
      with Inr step r show ?thesis by (intro exI [of _ "[]"]) simp
    next
      case (Some page)
      obtain insights token where page: "page = (insights, token)" by (cases page)
      show ?thesis
      proof (cases "token = None \<or> token = Some ''''")
        case True
        with Inr Some page step r show ?thesis by (intro exI [of _ "[insights]"]) auto
      next
        case False
        with Inr Some page step r have "loop fetch (acc @ insights) token = Some (Inr xs)" by simp
        from IH [OF this] obtain pages where "serves fetch token pages" "xs = acc @ insights @ concat pages"
          by auto
        with Inr Some page False show ?thesis by (intro exI [of _ "insights # pages"]) auto
      qed
    qed
  qed
qed

abbreviation insight_fetch ::
  "aws_collector \<Rightarrow> string \<Rightarrow> string option \<Rightarrow> aws_error + (InsightSummary list \<times> string option) option" where
  "insight_fetch col v \<equiv> ac_ListInsights (col_client col) (if v = '''' then [] else [v])"

text \<open>
  C37: the loop that lists the upgrade insights returns without an error exactly when the service
  hands out a finite chain of pages, and then it returns the insights of all of them in order: no
  page is dropped, and it runs for ever only if the service never stops handing out tokens.
\<close>

theorem insight_listing_meaning:
  "listUpgradeInsightSummaries col v = Some (Inr xs)
   \<longleftrightarrow> (\<exists>pages. serves (insight_fetch col v) None pages \<and> xs = concat pages)"
  unfolding listUpgradeInsightSummaries_def
  using insight_pages_serves insight_pages_served [where acc = "[]"] by fastforce
section \<open>Errors and calls\<close>

text \<open>
  Every stage only adds to the errors. \<open>ok\<close> says that the calls of the stage succeeded: then, and
  only then, it records nothing.
\<close>

locale collection_stage =
  fixes stage :: "AWSSnapshot \<Rightarrow> AWSSnapshot" and ok :: bool
  assumes records: "aws_Errors (stage snap) = [] \<longleftrightarrow> aws_Errors snap = [] \<and> ok"
begin

lemma silent_iff: "aws_Errors snap = [] \<Longrightarrow> aws_Errors (stage snap) = [] \<longleftrightarrow> ok"
  by (simp add: records)

end

definition call_ok :: "aws_error + 'a \<Rightarrow> bool" where
  "call_ok r = (case r of Inl _ \<Rightarrow> False | Inr _ \<Rightarrow> True)"

lemma call_ok_simps [simp]: "\<not> call_ok (Inl e)" "call_ok (Inr x)"
  by (simp_all add: call_ok_def)

lemma fold_records:
  assumes "\<And>x snap. aws_Errors (f x snap) = [] \<longleftrightarrow> aws_Errors snap = [] \<and> ok x"
  shows "aws_Errors (fold f xs snap) = [] \<longleftrightarrow> aws_Errors snap = [] \<and> list_all ok xs"
  by (induction xs arbitrary: snap) (auto simp: assms)

lemma aws_fail_errors [simp]: "aws_Errors (aws_fail k err snap) \<noteq> []"
  by (cases "aws_Errors snap") (auto simp: aws_fail_def)

definition cluster_ok :: "aws_collector \<Rightarrow> bool" where
  "cluster_ok col = call_ok (ac_DescribeCluster (col_client col))"

definition insight_ok :: "aws_collector \<Rightarrow> InsightSummary \<Rightarrow> bool" where
  "insight_ok col s =
     (case sum_Id s of None \<Rightarrow> True | Some i \<Rightarrow> call_ok (ac_DescribeInsight (col_client col) i))"

definition addon_ok :: "aws_collector \<Rightarrow> string \<Rightarrow> string \<Rightarrow> bool" where
  "addon_ok col v name \<longleftrightarrow>
     call_ok (ac_DescribeAddon (col_client col) name)
     \<and> call_ok (ac_DescribeAddonVersions (col_client col) name v)"

definition addons_ok :: "aws_collector \<Rightarrow> string \<Rightarrow> bool" where
  "addons_ok col v =
     (case ac_ListAddons (col_client col) of
        Inl _ \<Rightarrow> False | Inr names \<Rightarrow> list_all (addon_ok col v) names)"

definition nodegroups_ok :: "aws_collector \<Rightarrow> bool" where
  "nodegroups_ok col =
     (case ac_ListNodegroups (col_client col) of
        Inl _ \<Rightarrow> False | Inr None \<Rightarrow> True
      | Inr (Some names) \<Rightarrow>
          list_all (\<lambda>n. call_ok (ac_DescribeNodegroup (col_client col) n)) names)"

definition subnets_ok :: "aws_collector \<Rightarrow> string list \<Rightarrow> bool" where
  "subnets_ok col subnetIDs \<longleftrightarrow>
     subnetIDs = [] \<or> call_ok (ac_DescribeSubnets (col_client col) subnetIDs)"

definition exists_or_missing :: "string \<Rightarrow> aws_error option \<Rightarrow> bool" where
  \<comment> \<open>the call tells whether the resource exists\<close>
  "exists_or_missing notFound result =
     (case result of None \<Rightarrow> True | Some err \<Rightarrow> isAWSErrorCode err notFound)"

definition network_ok :: "aws_collector \<Rightarrow> string \<Rightarrow> string list \<Rightarrow> bool" where
  "network_ok col vpcID groups \<longleftrightarrow>
     list_all (\<lambda>g. g = '''' \<or> exists_or_missing ''InvalidGroup.NotFound''
                                (ac_DescribeSecurityGroup (col_client col) g)) groups
     \<and> (vpcID = ''''
        \<or> exists_or_missing ''InvalidVpcID.NotFound'' (ac_DescribeVpc (col_client col) vpcID))"

interpretation cluster: collection_stage "describe_cluster col" "cluster_ok col" for col
  by unfold_locales
    (simp add: describe_cluster_def cluster_ok_def Let_def split: sum.split option.split)

lemma insight_detail_records:
  "aws_Errors (collectInsightDetail col s snap) = [] \<longleftrightarrow> aws_Errors snap = [] \<and> insight_ok col s"
  by (simp add: collectInsightDetail_def insight_ok_def Let_def split: sum.split option.split)

interpretation summaries: collection_stage "collect_summaries col ss" "list_all (insight_ok col) ss"
  for col ss
  by unfold_locales (simp add: collect_summaries_def fold_records [OF insight_detail_records])

lemma addon_records:
  "aws_Errors (collect_addon col v name snap) = [] \<longleftrightarrow> aws_Errors snap = [] \<and> addon_ok col v name"
  by (simp add: collect_addon_def addon_ok_def Let_def split: sum.split)

interpretation addons: collection_stage "collectAddons col v" "addons_ok col v" for col v
  by unfold_locales
    (simp add: collectAddons_def addons_ok_def fold_records [OF addon_records] split: sum.split)

lemma nodegroup_records:
  "aws_Errors (collect_nodegroup col n snap) = []
   \<longleftrightarrow> aws_Errors snap = [] \<and> call_ok (ac_DescribeNodegroup (col_client col) n)"
  by (simp add: collect_nodegroup_def split: sum.split option.split)

interpretation nodegroups: collection_stage "collectNodegroups col" "nodegroups_ok col" for col
  by unfold_locales
    (simp add: collectNodegroups_def nodegroups_ok_def fold_records [OF nodegroup_records]
      split: sum.split option.split)

interpretation subnets: collection_stage "collectSubnets col ids" "subnets_ok col ids" for col ids
  by unfold_locales (simp add: collectSubnets_def subnets_ok_def split: sum.split)

lemma preflight_records:
  "aws_Errors (preflight_result kind notFound op i result snap) = []
   \<longleftrightarrow> aws_Errors snap = [] \<and> exists_or_missing notFound result"
  by (simp add: preflight_result_def exists_or_missing_def split: option.split)

lemma security_group_records:
  "aws_Errors (check_security_group col g snap) = []
   \<longleftrightarrow> aws_Errors snap = [] \<and> (g = '''' \<or> exists_or_missing ''InvalidGroup.NotFound''
         (ac_DescribeSecurityGroup (col_client col) g))"
  by (simp add: check_security_group_def preflight_records)

interpretation network: collection_stage "collectNetworkPreflight col vpc groups"
    "network_ok col vpc groups" for col vpc groups
  by unfold_locales
    (simp add: collectNetworkPreflight_def network_ok_def Let_def preflight_records
      fold_records [OF security_group_records])

definition insights_ok :: "aws_collector \<Rightarrow> string \<Rightarrow> bool" where
  \<comment> \<open>the listing for the version, or the listing without it that stands in, and the details\<close>
  "insights_ok col v =
     (case listUpgradeInsightSummaries col v of
        None \<Rightarrow> False
      | Some (Inr ss) \<Rightarrow> list_all (insight_ok col) ss
      | Some (Inl _) \<Rightarrow>
          v \<noteq> ''''
          \<and> (case listUpgradeInsightSummaries col '''' of
               Some (Inr ss) \<Rightarrow> list_all (insight_ok col) ss | _ \<Rightarrow> False))"

lemma insights_record:
  "collectInsights col v snap = Some snap' \<Longrightarrow>
     aws_Errors snap' = [] \<longleftrightarrow> aws_Errors snap = [] \<and> insights_ok col v"
  by (auto simp: collectInsights_def insights_ok_def summaries.records
      split: option.splits sum.splits if_splits)

definition aws_evidence_ok :: "aws_collector \<Rightarrow> string \<Rightarrow> bool" where
  "aws_evidence_ok col v \<longleftrightarrow>
     (case cluster_network col of (vpcID, subnetIDs, groups) \<Rightarrow>
        cluster_ok col \<and> insights_ok col v \<and> addons_ok col v \<and> nodegroups_ok col
        \<and> subnets_ok col subnetIDs \<and> network_ok col vpcID groups)"

section \<open>What the snapshot lists\<close>

lemma fold_keeps:
  assumes "\<And>x s. field (f x s) = field s"
  shows "field (fold f xs s) = field s"
  by (induction xs arbitrary: s) (simp_all add: assms)

lemma fold_collects:
  assumes "\<And>x s. field (f x s) = field s @ g x"
  shows "field (fold f xs s) = field s @ concat (map g xs)"
  by (induction xs arbitrary: s) (simp_all add: assms)

lemma describe_cluster_keeps:
  "aws_Addons (describe_cluster col snap) = aws_Addons snap"
  "aws_NetworkPreflightIssues (describe_cluster col snap) = aws_NetworkPreflightIssues snap"
  by (simp_all add: describe_cluster_def aws_fail_def Let_def split: sum.split option.split)

lemma insight_detail_keeps:
  "aws_Addons (collectInsightDetail col s snap) = aws_Addons snap"
  "aws_NetworkPreflightIssues (collectInsightDetail col s snap) = aws_NetworkPreflightIssues snap"
  by (simp_all add: collectInsightDetail_def aws_fail_def Let_def split: sum.split option.split)

lemma insights_keep:
  assumes "collectInsights col v snap = Some snap'"
  shows "aws_Addons snap' = aws_Addons snap"
    "aws_NetworkPreflightIssues snap' = aws_NetworkPreflightIssues snap"
  using assms fold_keeps [of aws_Addons, OF insight_detail_keeps(1)]
    fold_keeps [of aws_NetworkPreflightIssues, OF insight_detail_keeps(2)]
  by (auto simp: collectInsights_def collect_summaries_def aws_fail_def
      split: option.splits sum.splits if_splits)

lemma addon_collects:
  "map ad_Name (aws_Addons (collect_addon col v n snap)) = map ad_Name (aws_Addons snap) @ [n]"
  "aws_NetworkPreflightIssues (collect_addon col v n snap) = aws_NetworkPreflightIssues snap"
  by (simp_all add: collect_addon_def aws_fail_def Let_def split: sum.split)

definition listed_addons :: "aws_collector \<Rightarrow> string list" where
  "listed_addons col = (case ac_ListAddons (col_client col) of Inl _ \<Rightarrow> [] | Inr names \<Rightarrow> names)"

lemma addons_collect:
  "map ad_Name (aws_Addons (collectAddons col v snap)) = map ad_Name (aws_Addons snap) @ listed_addons col"
  "aws_NetworkPreflightIssues (collectAddons col v snap) = aws_NetworkPreflightIssues snap"
  using fold_collects [of "\<lambda>s. map ad_Name (aws_Addons s)" "collect_addon col v", OF addon_collects(1)]
    fold_keeps [of aws_NetworkPreflightIssues "collect_addon col v", OF addon_collects(2)]
  by (auto simp: collectAddons_def listed_addons_def aws_fail_def split: sum.split)

lemma nodegroup_keeps:
  "aws_Addons (collect_nodegroup col n snap) = aws_Addons snap"
  "aws_NetworkPreflightIssues (collect_nodegroup col n snap) = aws_NetworkPreflightIssues snap"
  by (simp_all add: collect_nodegroup_def aws_fail_def split: sum.split option.split)

lemma nodegroups_keep:
  "aws_Addons (collectNodegroups col snap) = aws_Addons snap"
  "aws_NetworkPreflightIssues (collectNodegroups col snap) = aws_NetworkPreflightIssues snap"
  using fold_keeps [of aws_Addons, OF nodegroup_keeps(1)]
    fold_keeps [of aws_NetworkPreflightIssues, OF nodegroup_keeps(2)]
  by (auto simp: collectNodegroups_def aws_fail_def split: sum.split option.split)

lemma subnets_keep:
  "aws_Addons (collectSubnets col ids snap) = aws_Addons snap"
  "aws_NetworkPreflightIssues (collectSubnets col ids snap) = aws_NetworkPreflightIssues snap"
  by (simp_all add: collectSubnets_def aws_fail_def split: sum.split)

definition missing :: "string \<Rightarrow> string \<Rightarrow> (string \<Rightarrow> aws_error option) \<Rightarrow> string \<Rightarrow> NetworkPreflightIssue list" where
  "missing kind notFound call i =
     (case call i of
        Some err \<Rightarrow>
          if i \<noteq> '''' \<and> isAWSErrorCode err notFound then [\<lparr>npi_Kind = kind, npi_ID = i\<rparr>] else []
      | None \<Rightarrow> [])"

definition missing_network :: "aws_collector \<Rightarrow> NetworkPreflightIssue list" where
  \<comment> \<open>the referenced security groups and VPC that AWS says do not exist\<close>
  "missing_network col =
     (case cluster_network col of (vpcID, _, groups) \<Rightarrow>
        concat (map (missing ''SecurityGroup'' ''InvalidGroup.NotFound''
                       (ac_DescribeSecurityGroup (col_client col))) groups)
        @ missing ''Vpc'' ''InvalidVpcID.NotFound'' (ac_DescribeVpc (col_client col)) vpcID)"

lemma preflight_issues:
  "aws_NetworkPreflightIssues (if i = '''' then snap else preflight_result kind notFound op i (call i) snap)
     = aws_NetworkPreflightIssues snap @ missing kind notFound call i"
  "aws_Addons (if i = '''' then snap else preflight_result kind notFound op i (call i) snap)
     = aws_Addons snap"
  by (simp_all add: preflight_result_def missing_def aws_fail_def split: option.split)

lemma network_issues:
  "aws_NetworkPreflightIssues (collectNetworkPreflight col vpcID groups snap)
     = aws_NetworkPreflightIssues snap
       @ concat (map (missing ''SecurityGroup'' ''InvalidGroup.NotFound''
                        (ac_DescribeSecurityGroup (col_client col))) groups)
       @ missing ''Vpc'' ''InvalidVpcID.NotFound'' (ac_DescribeVpc (col_client col)) vpcID"
  "aws_Addons (collectNetworkPreflight col vpcID groups snap) = aws_Addons snap"
proof -
  have one: "aws_NetworkPreflightIssues (check_security_group col g s)
      = aws_NetworkPreflightIssues s
        @ missing ''SecurityGroup'' ''InvalidGroup.NotFound'' (ac_DescribeSecurityGroup (col_client col)) g"
    "aws_Addons (check_security_group col g s) = aws_Addons s" for g s
    unfolding check_security_group_def by (rule preflight_issues)+
  show "aws_NetworkPreflightIssues (collectNetworkPreflight col vpcID groups snap)
     = aws_NetworkPreflightIssues snap
       @ concat (map (missing ''SecurityGroup'' ''InvalidGroup.NotFound''
                        (ac_DescribeSecurityGroup (col_client col))) groups)
       @ missing ''Vpc'' ''InvalidVpcID.NotFound'' (ac_DescribeVpc (col_client col)) vpcID"
    unfolding collectNetworkPreflight_def Let_def preflight_issues
      fold_collects [of aws_NetworkPreflightIssues "check_security_group col", OF one(1)]
    by simp
  show "aws_Addons (collectNetworkPreflight col vpcID groups snap) = aws_Addons snap"
    unfolding collectNetworkPreflight_def Let_def preflight_issues
      fold_keeps [of aws_Addons "check_security_group col", OF one(2)] ..
qed

lemma aws_CollectE:
  assumes "aws_Collect col v = Some snap" and "cluster_network col = (vpcID, subnetIDs, groups)"
  obtains mid where
    "collectInsights col v (describe_cluster col (empty_aws\<lparr>aws_Region := col_Region col\<rparr>)) = Some mid"
    "snap = collectNetworkPreflight col vpcID groups (collectSubnets col subnetIDs
       (collectNodegroups col (collectAddons col v mid)))"
  using assms by (auto simp: aws_Collect_def split: bind_splits)

lemma aws_errors_iff:
  assumes "aws_Collect col v = Some snap"
  shows "aws_Errors snap = [] \<longleftrightarrow> aws_evidence_ok col v"
proof -
  obtain vpcID subnetIDs groups where net: "cluster_network col = (vpcID, subnetIDs, groups)"
    by (cases "cluster_network col")
  from assms net obtain mid where mid: "collectInsights col v
        (describe_cluster col (empty_aws\<lparr>aws_Region := col_Region col\<rparr>)) = Some mid"
    and snap: "snap = collectNetworkPreflight col vpcID groups (collectSubnets col subnetIDs
        (collectNodegroups col (collectAddons col v mid)))"
    by (rule aws_CollectE)
  have "aws_Errors mid = [] \<longleftrightarrow> cluster_ok col \<and> insights_ok col v"
    by (simp add: insights_record [OF mid] cluster.records empty_aws_def)
  then show ?thesis
    by (auto simp: snap network.records subnets.records nodegroups.records addons.records
        aws_evidence_ok_def net)
qed

text \<open>
  C36: the AWS snapshot is honest. It carries no error exactly when every call it rests on gave an
  answer (the category-wide listing may stand in for the one filtered by version, and \<open>NotFound\<close> for
  a security group or the VPC is an answer); it has a record for every add-on listed, in order, even
  where describing it failed; and its network issues are exactly the referenced security groups and
  VPC that AWS reports as not existing, never a call that failed for another reason.
\<close>

theorem aws_snapshot_is_honest:
  "aws_Collect col v = Some snap \<Longrightarrow>
     (aws_Errors snap = [] \<longleftrightarrow> aws_evidence_ok col v)
     \<and> map ad_Name (aws_Addons snap) = listed_addons col
     \<and> aws_NetworkPreflightIssues snap = missing_network col"
proof -
  assume run: "aws_Collect col v = Some snap"
  obtain vpcID subnetIDs groups where net: "cluster_network col = (vpcID, subnetIDs, groups)"
    by (cases "cluster_network col")
  from run net obtain mid where mid: "collectInsights col v
        (describe_cluster col (empty_aws\<lparr>aws_Region := col_Region col\<rparr>)) = Some mid"
    and snap: "snap = collectNetworkPreflight col vpcID groups (collectSubnets col subnetIDs
        (collectNodegroups col (collectAddons col v mid)))"
    by (rule aws_CollectE)
  have "map ad_Name (aws_Addons snap) = listed_addons col"
    by (simp add: snap network_issues subnets_keep nodegroups_keep addons_collect
        insights_keep [OF mid] describe_cluster_keeps empty_aws_def)
  moreover have "aws_NetworkPreflightIssues snap = missing_network col"
    by (simp add: snap network_issues subnets_keep nodegroups_keep addons_collect
        insights_keep [OF mid] describe_cluster_keeps empty_aws_def missing_network_def net)
  ultimately show ?thesis using aws_errors_iff [OF run] by simp
qed

definition sample_eks :: aws_collector where
  "sample_eks =
     \<lparr>col_client =
        \<lparr>ac_DescribeCluster = Inr (Some
           \<lparr>cl_Version = Some ''1.29'', cl_PlatformVersion = Some ''eks.7'', cl_Status = ''ACTIVE'',
            cl_Arn = None, cl_SupportType = None,
            cl_ResourcesVpcConfig = Some
              \<lparr>vpc_VpcId = Some ''vpc-1'', vpc_EndpointPublicAccess = True,
               vpc_EndpointPrivateAccess = False, vpc_SubnetIds = [],
               vpc_SecurityGroupIds = [''sg-1''], vpc_ClusterSecurityGroupId = Some ''sg-2''\<rparr>\<rparr>),
         ac_ListInsights = (\<lambda>vs t. if vs = [] then Inr (Some ([], None))
                                  else Inl \<lparr>ae_Code = Some ''InvalidParameterException'', ae_Text = ''no''\<rparr>),
         ac_DescribeInsight = (\<lambda>i. Inr None),
         ac_ListAddons = Inr [''vpc-cni'', ''coredns''],
         ac_DescribeAddon = (\<lambda>n. if n = ''coredns'' then Inl \<lparr>ae_Code = None, ae_Text = ''timeout''\<rparr>
                                 else Inr (Some (Some ''v1.18.0''))),
         ac_DescribeAddonVersions = (\<lambda>n v. Inr [[Some ''v1.18.1'']]),
         ac_ListNodegroups = Inr None, ac_DescribeNodegroup = (\<lambda>n. Inr None),
         ac_DescribeSubnets = (\<lambda>ids. Inr []),
         ac_DescribeSecurityGroup = (\<lambda>g. if g = ''sg-2''
           then Some \<lparr>ae_Code = Some ''InvalidGroup.NotFound'', ae_Text = ''gone''\<rparr> else None),
         ac_DescribeVpc = (\<lambda>v. None)\<rparr>,
      col_clusterName = ''prod'', col_Region = ''eu-west-1''\<rparr>"

lemma sample_eks_Collect:
  "map_option aws_Errors (aws_Collect sample_eks ''1.30'') = Some [(''describe-addon:coredns'', ''timeout'')]"
  by code_simp

theorem aws_snapshot_is_honest_witness:
  "\<exists>snap. aws_Collect sample_eks ''1.30'' = Some snap
     \<and> \<not> aws_evidence_ok sample_eks ''1.30''
     \<and> map ad_Name (aws_Addons snap) = [''vpc-cni'', ''coredns'']
     \<and> aws_NetworkPreflightIssues snap = [\<lparr>npi_Kind = ''SecurityGroup'', npi_ID = ''sg-2''\<rparr>]"
proof -
  obtain snap where run: "aws_Collect sample_eks ''1.30'' = Some snap"
    and errors: "aws_Errors snap = [(''describe-addon:coredns'', ''timeout'')]"
    using sample_eks_Collect by auto
  have "listed_addons sample_eks = [''vpc-cni'', ''coredns'']" by code_simp
  moreover have "missing_network sample_eks = [\<lparr>npi_Kind = ''SecurityGroup'', npi_ID = ''sg-2''\<rparr>]"
    by code_simp
  ultimately show ?thesis using aws_snapshot_is_honest [OF run] run errors by simp
qed

end
