(* ===== verification/CliCoverage.thy ===== *)
theory CliCoverage
  imports RulesAddon
begin

text \<open>
  The coverage a report carries (\<open>internal/cli/coverage.go\<close>, \<open>internal/cli/collection_issue.go\<close>):
  how a collector's error is classified and printed, when a plane counts as complete, and the EKS
  inventories.

  A snapshot keeps the text of an error. What \<open>errors.Is\<close>, \<open>errors.As\<close> and the predicates of
  \<open>apierrors\<close> say of it is the record \<open>error_facts\<close>; a scan has one for each plane and operation.
\<close>

section \<open>Collection issues\<close>

datatype failure_class =
    FailureTimeout | FailureCancelled | FailurePermissionDenied | FailureResourceUnavailable
  | FailureMalformedInput | FailureHelmProcess | FailureAWSProvider | FailureUnknown

fun failure_class_string :: "failure_class \<Rightarrow> string" where
  "failure_class_string FailureTimeout = ''timeout''"
| "failure_class_string FailureCancelled = ''cancelled''"
| "failure_class_string FailurePermissionDenied = ''permission-denied''"
| "failure_class_string FailureResourceUnavailable = ''resource-api-unavailable''"
| "failure_class_string FailureMalformedInput = ''malformed-input''"
| "failure_class_string FailureHelmProcess = ''helm-process-failure''"
| "failure_class_string FailureAWSProvider = ''aws-provider-failure''"
| "failure_class_string FailureUnknown = ''unknown-runtime-failure''"

record error_facts =
  ef_DeadlineExceeded :: bool
  ef_Canceled :: bool
  ef_Forbidden :: bool
  ef_Unauthorized :: bool
  ef_NotFound :: bool
  ef_ServiceUnavailable :: bool
  ef_ServerTimeout :: bool
  ef_TooManyRequests :: bool
  ef_ErrNotExist :: bool
  ef_ErrPermission :: bool
  ef_APIErrorCode :: "string option" \<comment> \<open>of a \<open>smithy.APIError\<close>\<close>
  ef_ExitError :: bool

definition no_facts :: error_facts where
  \<comment> \<open>an error of no known kind\<close>
  "no_facts = \<lparr>ef_DeadlineExceeded = False, ef_Canceled = False, ef_Forbidden = False,
     ef_Unauthorized = False, ef_NotFound = False, ef_ServiceUnavailable = False,
     ef_ServerTimeout = False, ef_TooManyRequests = False, ef_ErrNotExist = False,
     ef_ErrPermission = False, ef_APIErrorCode = None, ef_ExitError = False\<rparr>"

record collectionIssue =
  iss_Plane :: string
  iss_Operation :: string
  iss_Class :: failure_class
  iss_Message :: string
  iss_TimedOut :: bool
  iss_Cancelled :: bool
  iss_PermissionDenied :: bool
  iss_Retryable :: bool
  iss_PartialDataPreserved :: bool

definition safeCollectionError :: "string option \<Rightarrow> string" where
  "safeCollectionError err =
     (case err of
        None \<Rightarrow> ''''
      | Some text \<Rightarrow> if TrimSpace text = '''' then ''collector error'' else TrimSpace text)"

definition aws_issue :: "error_facts \<Rightarrow> collectionIssue \<Rightarrow> collectionIssue" where
  \<comment> \<open>the case of the plane \<open>aws\<close>\<close>
  "aws_issue facts issue =
     (let issue = issue\<lparr>iss_Class := FailureAWSProvider\<rparr>;
          issue = (case ef_APIErrorCode facts of
            None \<Rightarrow> issue
          | Some raw \<Rightarrow>
              let code = ToLower raw;
                  issue = (if Contains code ''accessdenied'' \<or> Contains code ''unauthorized''
                              \<or> Contains code ''forbidden''
                           then issue\<lparr>iss_Class := FailurePermissionDenied,
                                      iss_PermissionDenied := True\<rparr> else issue)
              in if Contains code ''throttl'' \<or> Contains code ''timeout'' \<or> Contains code ''unavailable''
                 then issue\<lparr>iss_Retryable := True\<rparr> else issue)
      in if ef_ExitError facts then issue\<lparr>iss_Class := FailureHelmProcess\<rparr> else issue)"

definition classifyCollectionIssue ::
  "string \<Rightarrow> string \<Rightarrow> (string \<times> error_facts) option \<Rightarrow> collectionIssue" where
  "classifyCollectionIssue plane operation err =
     (let issue = \<lparr>iss_Plane = plane, iss_Operation = operation, iss_Class = FailureUnknown,
            iss_Message = safeCollectionError (map_option fst err), iss_TimedOut = False,
            iss_Cancelled = False, iss_PermissionDenied = False, iss_Retryable = False,
            iss_PartialDataPreserved = True\<rparr>
      in case err of
           None \<Rightarrow> issue
         | Some (text, facts) \<Rightarrow>
             if ef_DeadlineExceeded facts
             then issue\<lparr>iss_Class := FailureTimeout, iss_TimedOut := True, iss_Retryable := True\<rparr>
             else if ef_Canceled facts
             then issue\<lparr>iss_Class := FailureCancelled, iss_Cancelled := True\<rparr>
             else if ef_Forbidden facts \<or> ef_Unauthorized facts
             then issue\<lparr>iss_Class := FailurePermissionDenied, iss_PermissionDenied := True\<rparr>
             else if ef_NotFound facts \<or> ef_ServiceUnavailable facts \<or> ef_ServerTimeout facts
                     \<or> ef_TooManyRequests facts
             then issue\<lparr>iss_Class := FailureResourceUnavailable,
                        iss_Retryable := (ef_ServerTimeout facts \<or> ef_TooManyRequests facts
                                          \<or> ef_ServiceUnavailable facts)\<rparr>
             else if HasPrefix operation ''helm-chart:''
             then (if ef_DeadlineExceeded facts
                   then issue\<lparr>iss_Class := FailureHelmProcess, iss_TimedOut := True,
                              iss_Retryable := True\<rparr>
                   else issue\<lparr>iss_Class := FailureHelmProcess\<rparr>)
             else if plane = ''manifests''
                     \<and> (HasPrefix operation ''manifest-dir:'' \<or> HasPrefix operation ''manifest-file:'')
             then (if ef_ErrNotExist facts \<or> ef_ErrPermission facts
                   then issue\<lparr>iss_Class := FailureMalformedInput,
                              iss_PermissionDenied := ef_ErrPermission facts\<rparr>
                   else issue\<lparr>iss_Class := FailureMalformedInput\<rparr>)
             else if plane = ''aws'' then aws_issue facts issue
             else issue)"

definition issue_String :: "collectionIssue \<Rightarrow> string" where
  "issue_String i =
     (let flags = [failure_class_string (iss_Class i)]
            @ (if iss_TimedOut i then [''timedOut''] else [])
            @ (if iss_Cancelled i then [''cancelled''] else [])
            @ (if iss_PermissionDenied i then [''permissionDenied''] else [])
            @ (if iss_Retryable i then [''retryable''] else [])
            @ (if iss_PartialDataPreserved i then [''partialDataPreserved''] else [])
      in iss_Operation i @ '' ['' @ Join flags '','' @ '']: '' @ iss_Message i)"

section \<open>Coverage\<close>

type_synonym error_kinds = "string \<Rightarrow> string \<Rightarrow> error_facts"

definition stableErrors :: "error_kinds \<Rightarrow> string \<Rightarrow> errors \<Rightarrow> string list" where
  "stableErrors kinds plane errs =
     map (\<lambda>k. issue_String (classifyCollectionIssue plane k
                (map_option (\<lambda>text. (text, kinds plane k)) (map_of errs k))))
       (sort_strings (remdups (map fst errs)))"

definition plane_of ::
  "error_kinds \<Rightarrow> string \<Rightarrow> string \<Rightarrow> bool \<Rightarrow> errors option \<Rightarrow> PlaneCoverage" where
  \<comment> \<open>the block of \<open>buildScanCoverage\<close> for a plane: the errors of its snapshot, \<open>None\<close> for none\<close>
  "plane_of kinds plane reason requested snapshot =
     (if \<not> requested then plane_coverage CoverageSkipped
      else case snapshot of
             None \<Rightarrow> \<lparr>pc_Status = CoveragePartial, pc_Errors = [reason]\<rparr>
           | Some errs \<Rightarrow>
               if errs = [] then plane_coverage CoverageComplete
               else \<lparr>pc_Status = CoveragePartial, pc_Errors = stableErrors kinds plane errs\<rparr>)"

definition buildScanCoverage ::
  "error_kinds \<Rightarrow> K8sSnapshot option \<Rightarrow> AWSSnapshot option \<Rightarrow> ManifestSnapshot option
   \<Rightarrow> bool \<Rightarrow> bool \<Rightarrow> bool \<Rightarrow> string option \<Rightarrow> ScanCoverage" where
  "buildScanCoverage kinds k8sSnap awsSnap manifestSnap kubernetesRequested awsRequested
     manifestsRequested awsUnavailable =
     \<lparr>sc_Kubernetes = plane_of kinds ''kubernetes'' ''cluster snapshot unavailable''
        kubernetesRequested (map_option k_Errors k8sSnap),
      sc_AWS = plane_of kinds ''aws''
        (case awsUnavailable of None \<Rightarrow> ''AWS enrichment unavailable'' | Some err \<Rightarrow> err)
        awsRequested (map_option aws_Errors awsSnap),
      sc_Manifests = plane_of kinds ''manifests'' ''manifest snapshot unavailable''
        manifestsRequested (map_option m_Errors manifestSnap)\<rparr>"

section \<open>EKS inventories\<close>

definition eksClusterInfo :: "string \<Rightarrow> AWSSnapshot option \<Rightarrow> EKSClusterInfo option" where
  "eksClusterInfo clusterName awsSnap =
     (case awsSnap of
        None \<Rightarrow> None
      | Some s \<Rightarrow>
          if aws_ClusterVersion s = '''' \<and> aws_PlatformVersion s = '''' \<and> aws_Status s = '''' then None
          else Some \<lparr>ekc_ClusterName = clusterName, ekc_Region = aws_Region s,
                     ekc_Version = aws_ClusterVersion s,
                     ekc_PlatformVersion = aws_PlatformVersion s, ekc_Status = aws_Status s,
                     ekc_SupportType = aws_SupportType s,
                     ekc_EndpointAccess = aws_EndpointAccess s, ekc_ARN = aws_ARN s\<rparr>)"

definition addonVersionCompatible :: "string \<Rightarrow> string list \<Rightarrow> bool" where
  "addonVersionCompatible current compatible = list_ex (\<lambda>v. v = current) compatible"

definition eks_addon_info :: "AWSSnapshot \<Rightarrow> AddonRecord \<Rightarrow> EKSAddonInfo" where
  "eks_addon_info s addon =
     (let unavailable = (''describe-addon-versions:'' @ ad_Name addon) \<in> fst ` set (aws_Errors s)
      in \<lparr>addon_Name = ad_Name addon, addon_CurrentVersion = ad_CurrentVersion addon,
          addon_CompatibleVersions = ad_CompatibleVersions addon,
          addon_Compatible = (\<not> unavailable
            \<and> addonVersionCompatible (ad_CurrentVersion addon) (ad_CompatibleVersions addon)),
          addon_VerificationUnavailable = unavailable\<rparr>)"

definition eksAddonInfos :: "AWSSnapshot option \<Rightarrow> EKSAddonInfo list" where
  "eksAddonInfos awsSnap =
     (case awsSnap of None \<Rightarrow> [] | Some s \<Rightarrow> map (eks_addon_info s) (aws_Addons s))"

definition eks_health_issue :: "NodegroupHealth \<Rightarrow> EKSNodegroupHealthIssue" where
  "eks_health_issue i =
     \<lparr>hi_Code = nh_Code i, hi_Message = nh_Message i, hi_ResourceIDs = nh_ResourceIDs i\<rparr>"

definition eks_nodegroup_info :: "NodegroupRecord \<Rightarrow> EKSNodegroupInfo" where
  "eks_nodegroup_info ng =
     \<lparr>ng_Name = nr_Name ng, ng_Status = nr_Status ng, ng_Version = nr_Version ng,
      ng_ReleaseVersion = nr_ReleaseVersion ng, ng_AMIType = nr_AMIType ng,
      ng_CapacityType = nr_CapacityType ng, ng_DesiredSize = nr_DesiredSize ng,
      ng_MinSize = nr_MinSize ng, ng_MaxSize = nr_MaxSize ng,
      ng_MaxUnavailable = nr_MaxUnavailable ng,
      ng_MaxUnavailablePercentage = nr_MaxUnavailablePercentage ng,
      ng_LaunchTemplate = nr_LaunchTemplate ng,
      ng_HealthIssues = map eks_health_issue (nr_HealthIssues ng),
      ng_AutoScalingGroups = nr_AutoScalingGroups ng, ng_ReadinessStatus = nr_ReadinessStatus ng,
      ng_Notes = nr_Notes ng\<rparr>"

definition eksNodegroupInfos :: "AWSSnapshot option \<Rightarrow> EKSNodegroupInfo list" where
  "eksNodegroupInfos awsSnap =
     (case awsSnap of None \<Rightarrow> [] | Some s \<Rightarrow> map eks_nodegroup_info (aws_Nodegroups s))"

definition formatTimeRFC3339 :: "time \<Rightarrow> string" where
  "formatTimeRFC3339 t = (if t = 0 then '''' else format_rfc3339 t)"

definition eks_insight_info :: "AwsInsightRecord \<Rightarrow> EKSUpgradeInsightInfo" where
  "eks_insight_info ins =
     \<lparr>eki_ID = ins_ID ins, eki_Name = ins_Name ins, eki_Category = ins_Category ins,
      eki_Status = ins_Status ins, eki_KubernetesVersion = ins_KubernetesVersion ins,
      eki_LastRefreshTime = formatTimeRFC3339 (ins_LastRefreshTime ins),
      eki_LastTransitionTime = formatTimeRFC3339 (ins_LastTransitionTime ins),
      eki_Description = ins_Description ins, eki_Recommendation = ins_Recommendation ins,
      eki_AdditionalInfo = ins_AdditionalInfo ins,
      eki_DeprecationDetails = ins_DeprecationDetails ins,
      eki_AddonCompatibility = ins_AddonCompatibility ins\<rparr>"

definition eksUpgradeInsightInfos :: "AWSSnapshot option \<Rightarrow> EKSUpgradeInsightInfo list" where
  "eksUpgradeInsightInfos awsSnap =
     (case awsSnap of None \<Rightarrow> [] | Some s \<Rightarrow> map eks_insight_info (aws_Insights s))"

section \<open>Facts\<close>

lemma plane_status:
  "pc_Status (plane_of kinds plane msg requested snapshot) =
     (if \<not> requested then CoverageSkipped
      else if snapshot = Some [] then CoverageComplete else CoveragePartial)"
  by (cases snapshot) (simp_all add: plane_of_def plane_coverage_def)

lemma sort_strings_nonempty: "xs \<noteq> [] \<Longrightarrow> sort_strings xs \<noteq> []"
  using set_sort_strings [of xs] by (metis set_empty)

text \<open>A plane that is not complete says why.\<close>

lemma partial_has_reason:
  "pc_Status (plane_of kinds plane msg requested snapshot) = CoveragePartial
   \<Longrightarrow> pc_Errors (plane_of kinds plane msg requested snapshot) \<noteq> []"
proof -
  have "sort_strings (remdups (map fst errs)) \<noteq> []" if "errs \<noteq> []" for errs :: errors
    using that by (intro sort_strings_nonempty) simp
  then show "pc_Status (plane_of kinds plane msg requested snapshot) = CoveragePartial
   \<Longrightarrow> pc_Errors (plane_of kinds plane msg requested snapshot) \<noteq> []"
    by (auto simp: plane_of_def plane_coverage_def stableErrors_def split: if_splits option.splits)
qed

text \<open>
  C38: for an add-on the embedded catalogue does not manage, the inventory's \<open>Compatible\<close> column and
  ADDON-001 cannot disagree: where AWS answered and reported an installed version, the rule raises
  no finding exactly when the column says compatible, and where the answer is missing the column
  says the compatibility could not be verified and the rule stays silent.
\<close>

theorem addon_inventory_agrees_with_rule:
  "\<lbrakk>\<not> isCatalogManagedEKSAddon (ad_Name addon); TrimSpace (ad_CurrentVersion addon) \<noteq> ''''\<rbrakk>
   \<Longrightarrow> (addon001_managed cc snap v ctx addon = [])
      = (addon_Compatible (eks_addon_info snap addon)
         \<or> addon_VerificationUnavailable (eks_addon_info snap addon))"
  by (auto simp: addon001_managed_def eks_addon_info_def addonVersionCompatible_def
      isVersionCompatible_def Let_def)

text \<open>
  For the add-ons the catalogue manages they can: the rule judges by the catalogue, the inventory by
  the versions AWS reports.
\<close>

definition old_coredns :: AddonRecord where
  "old_coredns = \<lparr>ad_ClusterName = ''prod'', ad_Name = ''coredns'',
     ad_CurrentVersion = ''v1.9.3-eksbuild.2'', ad_CompatibleVersions = [''v1.11.4-eksbuild.2'']\<rparr>"

lemma addon_inventory_may_disagree:
  assumes "lookupEKSAddonCatalog cc ''coredns'' v = None"
  shows "addon001_managed cc empty_aws v ctx old_coredns = []
    \<and> \<not> addon_Compatible (eks_addon_info empty_aws old_coredns)
    \<and> \<not> addon_VerificationUnavailable (eks_addon_info empty_aws old_coredns)"
  using assms
  by (simp add: addon001_managed_def old_coredns_def isCatalogManagedEKSAddon_def eks_addon_info_def
      addonVersionCompatible_def empty_aws_def Let_def)

theorem addon_inventory_agrees_with_rule_witness:
  "addon001_managed (Inl ''corrupt'') empty_aws ''1.33'' ContextUnspecified
     (old_coredns\<lparr>ad_Name := ''adot''\<rparr>) \<noteq> []"
proof -
  let ?a = "old_coredns\<lparr>ad_Name := ''adot''\<rparr>"
  have "\<not> isCatalogManagedEKSAddon (ad_Name ?a)" and "TrimSpace (ad_CurrentVersion ?a) \<noteq> ''''"
    and "\<not> addon_Compatible (eks_addon_info empty_aws ?a)"
    and "\<not> addon_VerificationUnavailable (eks_addon_info empty_aws ?a)"
    by code_simp+
  with addon_inventory_agrees_with_rule [of ?a "Inl ''corrupt''" empty_aws "''1.33''" ContextUnspecified]
  show ?thesis by blast
qed

end
