(* ===== verification/NetAddress.thy ===== *)
theory NetAddress
  imports Text RulesAddon
begin

text \<open>
  The listen address of the report server (\<open>validateListenAddress\<close>, \<open>isLoopbackAddress\<close> and
  \<open>isLoopbackHost\<close> of \<open>internal/cli/scan.go\<close>), with what they use of the package \<open>net\<close>:
  \<open>SplitHostPort\<close>, \<open>ParseIP\<close> and \<open>IP.IsLoopback\<close>. An address is its sixteen bytes.
\<close>

section \<open>SplitHostPort\<close>

datatype addr_error =
    MissingPort | TooManyColons | MissingBracket | UnexpectedOpen | UnexpectedClose

fun addr_error_why :: "addr_error \<Rightarrow> string" where
  "addr_error_why MissingPort = ''missing port in address''"
| "addr_error_why TooManyColons = ''too many colons in address''"
| "addr_error_why MissingBracket = ''missing '' @ sq @ '']'' @ sq @ '' in address''"
| "addr_error_why UnexpectedOpen = ''unexpected '' @ sq @ ''['' @ sq @ '' in address''"
| "addr_error_why UnexpectedClose = ''unexpected '' @ sq @ '']'' @ sq @ '' in address''"

definition addr_error_text :: "string \<Rightarrow> addr_error \<Rightarrow> string" where
  \<comment> \<open>\<open>AddrError.Error\<close>\<close>
  "addr_error_text address e =
     (if address = '''' then addr_error_why e
      else ''address '' @ address @ '': '' @ addr_error_why e)"

definition SplitHostPort :: "string \<Rightarrow> addr_error + string \<times> string" where
  "SplitHostPort hostport =
     (case cut_last (CHR '':'') hostport of
        None \<Rightarrow> Inl MissingPort
      | Some (before, port) \<Rightarrow>
          if hostport \<noteq> '''' \<and> hd hostport = CHR ''[''
          then (let inner = takeWhile (\<lambda>c. c \<noteq> CHR '']'') (tl hostport);
                    rest = drop (length inner) (tl hostport) \<comment> \<open>from the bracket on\<close>
                in if rest = '''' then Inl MissingBracket
                   else if tl rest = '''' then Inl MissingPort
                   else if length before = length inner + 2
                   then (if CHR ''['' \<in> set (tl hostport) then Inl UnexpectedOpen
                         else if CHR '']'' \<in> set (tl rest) then Inl UnexpectedClose
                         else Inr (inner, port))
                   else if hd (tl rest) = CHR '':'' then Inl TooManyColons else Inl MissingPort)
          else if CHR '':'' \<in> set before then Inl TooManyColons
          else if CHR ''['' \<in> set hostport then Inl UnexpectedOpen
          else if CHR '']'' \<in> set hostport then Inl UnexpectedClose
          else Inr (before, port))"

section \<open>ParseIP\<close>

definition ipv4_field :: "string \<Rightarrow> nat option" where
  "ipv4_field f =
     (if f = '''' \<or> \<not> list_all is_digit f \<or> (length f > 1 \<and> hd f = CHR ''0'') \<or> decimal_value f > 255
      then None else Some (decimal_value f))"

definition parse_ipv4 :: "string \<Rightarrow> nat list option" where
  \<comment> \<open>four decimal fields without leading zeros\<close>
  "parse_ipv4 s =
     (let fields = map ipv4_field (Split s (CHR ''.''))
      in if length fields = 4 \<and> list_all (\<lambda>f. f \<noteq> None) fields then Some (map the fields) else None)"

definition hex_digit :: "char \<Rightarrow> bool" where
  "hex_digit c \<longleftrightarrow> is_digit c \<or> c \<in> set ''abcdefABCDEF''"

definition hex_value :: "char \<Rightarrow> nat" where
  "hex_value c =
     (if is_digit c then digit_value c
      else if of_char c \<ge> (97 :: nat) then of_char c - 87 else of_char c - 55)"

definition hex_number :: "string \<Rightarrow> nat" where
  "hex_number s = foldl (\<lambda>n c. 16 * n + hex_value c) 0 s"

text \<open>
  The loop over the groups: the bytes so far, and where the double colon was. The result is the
  bytes and the text that is left.
\<close>

function ipv6_loop :: "nat list \<Rightarrow> nat option \<Rightarrow> string \<Rightarrow> (nat list \<times> nat option \<times> string) option" where
  "ipv6_loop ip ellipsis s =
     (if length ip \<ge> 16 then Some (ip, ellipsis, s)
      else
        let digits = takeWhile hex_digit s; rest = drop (length digits) s
        in if length digits > 4 \<or> digits = '''' then None
           else if rest \<noteq> '''' \<and> hd rest = CHR ''.''
           then (if ellipsis = None \<and> length ip \<noteq> 12 \<or> length ip + 4 > 16 then None
                 else (case parse_ipv4 s of
                         None \<Rightarrow> None
                       | Some bytes \<Rightarrow> Some (ip @ bytes, ellipsis, '''')))
           else
             let ip = ip @ [hex_number digits div 256, hex_number digits mod 256]
             in if rest = '''' then Some (ip, ellipsis, '''')
                else if hd rest \<noteq> CHR '':'' \<or> tl rest = '''' then None
                else if hd (tl rest) = CHR '':''
                then (if ellipsis \<noteq> None then None
                      else if tl (tl rest) = '''' then Some (ip, Some (length ip), '''')
                      else ipv6_loop ip (Some (length ip)) (tl (tl rest)))
                else ipv6_loop ip ellipsis (tl rest))"
  by pat_completeness auto
termination
proof (relation "measure (\<lambda>(ip, ellipsis, s). 16 - length ip)", goal_cases)
  case 1
  then show ?case by simp
qed auto

declare ipv6_loop.simps [simp del]

definition parse_ipv6 :: "string \<Rightarrow> nat list option" where
  "parse_ipv6 s =
     (if s = ''::'' then Some (replicate 16 0)
      else case (if HasPrefix s ''::'' then ipv6_loop [] (Some 0) (drop 2 s) else ipv6_loop [] None s) of
             None \<Rightarrow> None
           | Some (ip, ellipsis, rest) \<Rightarrow>
               if rest \<noteq> '''' then None
               else (case ellipsis of
                       None \<Rightarrow> if length ip < 16 then None else Some ip
                     | Some e \<Rightarrow>
                         if length ip < 16
                         then Some (take e ip @ replicate (16 - length ip) 0 @ drop e ip)
                         else None))"

definition mapped_prefix :: "nat list" where
  "mapped_prefix = replicate 10 0 @ [255, 255]"

definition ParseIP :: "string \<Rightarrow> nat list option" where
  \<comment> \<open>an address with a zone is none\<close>
  "ParseIP s =
     (case dropWhile (\<lambda>c. c \<noteq> CHR ''.'' \<and> c \<noteq> CHR '':'' \<and> c \<noteq> CHR ''%'') s of
        [] \<Rightarrow> None
      | c # _ \<Rightarrow>
          if c = CHR ''.'' then map_option (\<lambda>bytes. mapped_prefix @ bytes) (parse_ipv4 s)
          else if c = CHR '':'' \<and> CHR ''%'' \<notin> set s then parse_ipv6 s
          else None)"

definition IsLoopback :: "nat list \<Rightarrow> bool" where
  "IsLoopback ip \<longleftrightarrow>
     (if take 12 ip = mapped_prefix then ip ! 12 = 127 else ip = replicate 15 0 @ [1])"

section \<open>The listen address\<close>

definition isLoopbackHost :: "string \<Rightarrow> bool" where
  "isLoopbackHost host \<longleftrightarrow>
     host = ''localhost'' \<or> (case ParseIP host of None \<Rightarrow> False | Some ip \<Rightarrow> IsLoopback ip)"

definition isLoopbackAddress :: "string \<Rightarrow> bool" where
  "isLoopbackAddress address =
     (case SplitHostPort address of Inl _ \<Rightarrow> False | Inr (host, _) \<Rightarrow> isLoopbackHost host)"

definition validateListenAddress :: "string \<Rightarrow> bool \<Rightarrow> string option" where
  \<comment> \<open>the error, if any\<close>
  "validateListenAddress address allowRemote =
     (case SplitHostPort address of
        Inl e \<Rightarrow>
          Some (''invalid --listen address '' @ quote address @ '': '' @ addr_error_text address e)
      | Inr (host, _) \<Rightarrow>
          if allowRemote \<or> isLoopbackHost host then None
          else Some (''--listen '' @ quote address @ '' is not loopback-only; pass ''
                 @ ''--allow-remote-report to acknowledge that reports are unauthenticated''))"

section \<open>Facts\<close>

lemma listen_without_consent:
  "validateListenAddress address False = None \<longleftrightarrow> isLoopbackAddress address"
  by (auto simp: validateListenAddress_def isLoopbackAddress_def split: sum.splits prod.splits)

lemma listen_examples:
  "isLoopbackAddress ''127.0.0.1:8080''"
  "isLoopbackAddress ''localhost:1''"
  "isLoopbackAddress ''[::1]:80''"
  "\<not> isLoopbackAddress '':8080''"
  "\<not> isLoopbackAddress ''0.0.0.0:8080''"
  "\<not> isLoopbackAddress ''[::]:80''"
  "\<not> isLoopbackAddress ''127.0.0.01:80''"
  "\<not> isLoopbackAddress ''[::1%lo]:80''"
  by code_simp+

end
