(* ===== verification/ScanCommand.thy ===== *)
theory ScanCommand
  imports CliCoverage NetAddress RuleErrors Redact ManifestCollector KubeFacts AwsFacts RulesAll
begin

text \<open>
  The \<open>scan\<close> command (\<open>internal/cli/scan.go\<close>, with \<open>exitCodeForError\<close> of \<open>root.go\<close> and the flag checks
  of \<open>internal/providers\<close>): the checks of the flags in their order, the version guards, the pipeline
  from the collectors over the rules to the report, and the report files.

  The outside of the command is the record \<open>scan_env\<close>: the clients, as the collectors take them, the
  file system, the clock, and the libraries. The goroutines of the Kubernetes collector may
  interleave in many ways, so its snapshot is an argument. Printing, except the notices of a partial
  scan, and the report server are outside of the model.
\<close>

section \<open>Errors\<close>

datatype cli_error = PlainError string | InfraFailure string | CrashedWith string

text \<open>The exit code; a panic ends the process with 2.\<close>

definition exitCodeForError :: "cli_error option \<Rightarrow> int \<Rightarrow> int" where
  "exitCodeForError err exitCode =
     (case err of
        None \<Rightarrow> exitCode
      | Some (InfraFailure _) \<Rightarrow> 4
      | Some (PlainError _) \<Rightarrow> 1
      | Some (CrashedWith _) \<Rightarrow> 2)"

definition redactErrorText :: "string option \<Rightarrow> bool \<Rightarrow> string" where
  "redactErrorText err enabled =
     (case err of None \<Rightarrow> '''' | Some text \<Rightarrow> if enabled then redact_Text text else text)"

definition redactInfraFailure :: "string \<Rightarrow> bool \<Rightarrow> cli_error" where
  \<comment> \<open>of an error that is not nil\<close>
  "redactInfraFailure err enabled = InfraFailure (if enabled then redact_Text err else err)"

section \<open>Versions\<close>

definition endash :: string where "endash = [CHR 0xE2, CHR 0x80, CHR 0x93]"

definition shown_version :: "string \<Rightarrow> string" where
  "shown_version v = (case NormalizeKubernetesVersion v of None \<Rightarrow> v | Some n \<Rightarrow> n)"

definition unsupportedDowngradeError :: "string \<Rightarrow> string \<Rightarrow> string" where
  "unsupportedDowngradeError current target =
     ''downgrade is not supported: current Kubernetes version is '' @ shown_version current
     @ '', target version is '' @ shown_version target
     @ ''. Choose a target version greater than '' @ shown_version current @ ''.''"

definition rejectDowngrade :: "string \<Rightarrow> string \<Rightarrow> string option" where
  "rejectDowngrade current target =
     (if current = '''' then None
      else case CompareMinorVersions current target of
             Inl _ \<Rightarrow> None
           | Inr relation \<Rightarrow>
               if relation \<noteq> VersionDowngrade then None
               else Some (unsupportedDowngradeError current target))"

definition unsupportedTargetVersionError :: "string \<Rightarrow> string \<Rightarrow> string \<Rightarrow> string" where
  "unsupportedTargetVersionError target mn mx =
     ''target Kubernetes version '' @ shown_version target
     @ '' is not supported by this KubePreflight build. Supported target versions: '' @ mn @ endash @ mx
     @ ''. Upgrade KubePreflight or choose a supported target version.''"

definition rejectUnsupportedTargetVersion ::
  "VersionedCatalog outcome \<Rightarrow> string \<Rightarrow> cli_error option" where
  \<comment> \<open>the first argument is the result of \<open>apicatalog.DefaultVersioned()\<close>\<close>
  "rejectUnsupportedTargetVersion vc target =
     (case vc of
        Failed err \<Rightarrow> Some (PlainError (''loading API version catalog: '' @ err))
      | Crashed p \<Rightarrow> Some (CrashedWith p)
      | Done c \<Rightarrow>
          (case TargetSupported c target of
             Failed err \<Rightarrow> Some (PlainError err)
           | Crashed p \<Rightarrow> Some (CrashedWith p)
           | Done (mn, mx, ok) \<Rightarrow>
               if ok then None else Some (PlainError (unsupportedTargetVersionError target mn mx))))"

definition validateCollectorConcurrency :: "int \<Rightarrow> string option" where
  "validateCollectorConcurrency concurrency =
     (if concurrency < MinCollectorConcurrency \<or> concurrency > MaxCollectorConcurrency
      then Some (''--collector-concurrency must be between '' @ show_int MinCollectorConcurrency
             @ '' and '' @ show_int MaxCollectorConcurrency @ '', got '' @ show_int concurrency)
      else None)"

section \<open>The namespace allowlist\<close>

text \<open>\<open>problems\<close> is \<open>validation.IsDNS1123Label\<close>: the reasons a text is no label.\<close>

fun allowlist_loop ::
  "(string \<Rightarrow> string list) \<Rightarrow> string list \<Rightarrow> string list \<Rightarrow> string + string list" where
  "allowlist_loop problems out [] = Inr out"
| "allowlist_loop problems out (value # rest) =
     (let namespace = TrimSpace value
      in if namespace = '''' then Inl ''--namespace-allowlist contains an empty namespace''
         else if problems namespace \<noteq> []
         then Inl (''invalid namespace '' @ quote namespace @ '' in --namespace-allowlist: ''
                @ Join (problems namespace) ''; '')
         else allowlist_loop problems (append_unique out namespace) rest)"

definition normalizeNamespaceAllowlist ::
  "(string \<Rightarrow> string list) \<Rightarrow> string list \<Rightarrow> string + string list" where
  "normalizeNamespaceAllowlist problems xs =
     (case allowlist_loop problems [] xs of Inl err \<Rightarrow> Inl err | Inr out \<Rightarrow> Inr (sort_strings out))"

section \<open>Flags\<close>

record scan_flags =
  fl_TargetVersion :: string
  fl_Output :: string
  fl_OutputSet :: bool \<comment> \<open>\<open>Flags().Changed\<close>\<close>
  fl_FindingsOut :: string
  fl_Provider :: string
  fl_ClusterName :: string
  fl_ResourceGroup :: string
  fl_Project :: string
  fl_Location :: string
  fl_Manifests :: "string list"
  fl_HelmCharts :: "string list"
  fl_ManifestsOnly :: bool
  fl_NamespaceAllowlist :: "string list"
  fl_Kubeconfig :: string
  fl_Context :: string
  fl_ServeReport :: string
  fl_OpenReport :: bool
  fl_Listen :: string
  fl_TerminalOutput :: string
  fl_TerminalOutputSet :: bool
  fl_UpgradeContext :: string
  fl_OutputDir :: string
  fl_AllowRemoteReport :: bool
  fl_CollectorConcurrency :: int
  fl_Redact :: bool

definition validOutputs :: "string list" where
  "validOutputs = [''json'', ''md'', ''html'', ''all'']"

definition validServeModes :: "string list" where
  "validServeModes = [''auto'', ''always'', ''never'']"

definition validTerminalOutputs :: "string list" where
  "validTerminalOutputs = [''compact'', ''full'', ''silent'']"

definition aks_Validate :: "scan_flags \<Rightarrow> string option" where
  "aks_Validate fl =
     (if fl_ClusterName fl = '''' then Some ''--cluster-name is required when --provider=aks''
      else if fl_ResourceGroup fl = '''' then Some ''--resource-group is required when --provider=aks''
      else None)"

definition gke_Validate :: "scan_flags \<Rightarrow> string option" where
  "gke_Validate fl =
     (if fl_ClusterName fl = '''' then Some ''--cluster-name is required when --provider=gke''
      else if fl_Project fl = '''' then Some ''--project is required when --provider=gke''
      else if fl_Location fl = '''' then Some ''--location is required when --provider=gke''
      else None)"

definition provider_error :: "scan_flags \<Rightarrow> string option" where
  "provider_error fl =
     (let p = fl_Provider fl;
          unimplemented = ''--provider='' @ p
            @ '' is recognized but enrichment isn'' @ sq @ ''t implemented yet '' @ emdash
            @ '' cluster-only checks aren'' @ sq @ ''t run automatically for it in this command; ''
            @ ''see docs/provider-roadmap.md. Use --provider=eks or omit --provider today.''
      in if p = '''' then None
         else if p = ''eks''
         then (if fl_ClusterName fl = '''' then Some ''--cluster-name is required when --provider=eks''
               else None)
         else if p = ''aks''
         then (case aks_Validate fl of Some err \<Rightarrow> Some err | None \<Rightarrow> Some unimplemented)
         else if p = ''gke''
         then (case gke_Validate fl of Some err \<Rightarrow> Some err | None \<Rightarrow> Some unimplemented)
         else Some (''--provider '' @ quote p
                @ '' is not supported (use eks, aks, gke, or omit for a cluster-only scan)''))"

definition manifests_requested :: "scan_flags \<Rightarrow> bool" where
  "manifests_requested fl \<longleftrightarrow> fl_Manifests fl \<noteq> [] \<or> fl_HelmCharts fl \<noteq> []"

definition manifests_only_error :: "scan_flags \<Rightarrow> string option" where
  "manifests_only_error fl =
     (if \<not> fl_ManifestsOnly fl then None
      else if \<not> manifests_requested fl
      then Some ''--manifests-only requires --manifests or --helm-chart (nothing to scan otherwise)''
      else if fl_Provider fl \<noteq> ''''
      then Some (''--manifests-only cannot be combined with --provider ''
             @ ''(it skips all cluster and cloud-provider access)'')
      else if fl_Kubeconfig fl \<noteq> '''' \<or> fl_Context fl \<noteq> ''''
      then Some (''--manifests-only cannot be combined with --kubeconfig/--context ''
             @ ''(it never loads a kubeconfig)'')
      else None)"

section \<open>Report files\<close>

definition shouldServeReport :: "string \<Rightarrow> string \<Rightarrow> bool \<Rightarrow> bool \<Rightarrow> bool \<Rightarrow> bool" where
  "shouldServeReport mode output outputExplicit interactive ci =
     (if mode = ''always'' then True
      else if mode = ''never'' then False
      else interactive \<and> \<not> ci \<and> \<not> (outputExplicit \<and> output = ''json''))"

definition effectiveTerminalOutput :: "string \<Rightarrow> bool \<Rightarrow> bool \<Rightarrow> string" where
  "effectiveTerminalOutput mode explicit serve = (if \<not> explicit \<and> serve then ''compact'' else mode)"

definition effectiveScanOutput :: "string \<Rightarrow> bool \<Rightarrow> bool \<Rightarrow> string" where
  "effectiveScanOutput output outputExplicit serve =
     (if serve \<and> \<not> outputExplicit then ''all'' else output)"

definition filepath_Clean :: "string \<Rightarrow> string" where
  "filepath_Clean p =
     (let body = Join (clean_elements p) ''/''
      in if rooted p then CHR ''/'' # body else if body = '''' then ''.'' else body)"

definition filepath_Dir :: "string \<Rightarrow> string" where
  \<comment> \<open>\<open>Clean\<close> of the text up to the last slash\<close>
  "filepath_Dir p = filepath_Clean (take (length p - length (last_element p)) p)"

definition filepath_Join :: "string list \<Rightarrow> string" where
  "filepath_Join elems =
     (let present = filter (\<lambda>e. e \<noteq> '''') elems
      in if present = [] then '''' else filepath_Clean (Join present ''/''))"

definition resolveOutputPath :: "string \<Rightarrow> string \<Rightarrow> string" where
  "resolveOutputPath outputDir path =
     (if rooted path \<or> filepath_Dir path \<noteq> ''.'' then path else filepath_Join [outputDir, path])"

datatype report_format = FormatJSON | FormatMarkdown | FormatHTML

definition requestedReportTargetsInDir ::
  "string \<Rightarrow> string \<Rightarrow> bool \<Rightarrow> string \<Rightarrow> (string \<times> report_format) list" where
  "requestedReportTargetsInDir output findingsOut ensureHTML outputDir =
     [(findingsOut, FormatJSON)]
     @ (if output = ''md'' \<or> output = ''all''
        then [(filepath_Join [outputDir, ''report.md''], FormatMarkdown)] else [])
     @ (if output = ''html'' \<or> output = ''all'' \<or> ensureHTML
        then [(filepath_Join [outputDir, ''report.html''], FormatHTML)] else [])"

definition requestedReportTargets :: "string \<Rightarrow> string \<Rightarrow> bool \<Rightarrow> (string \<times> report_format) list" where
  "requestedReportTargets output findingsOut ensureHTML =
     requestedReportTargetsInDir output findingsOut ensureHTML ''.''"

text \<open>What happens to a file at a path: the checks of \<open>createReportFile\<close> and the write.\<close>

record file_probe =
  fp_IsSymlink :: bool
  fp_Open :: "string option" \<comment> \<open>the error, if any; so for the others\<close>
  fp_Chmod :: "string option"
  fp_Write :: "report_format \<Rightarrow> string option"
  fp_Close :: "string option"

definition createReportFile :: "file_probe \<Rightarrow> string \<Rightarrow> string option" where
  "createReportFile probe path =
     (if fp_IsSymlink probe then Some (''refusing to write '' @ path @ '': existing path is a symlink'')
      else case fp_Open probe of
             Some err \<Rightarrow> Some (''creating '' @ path @ '': '' @ err)
           | None \<Rightarrow> map_option (\<lambda>err. ''securing '' @ path @ '': '' @ err) (fp_Chmod probe))"

definition writeReportFile :: "file_probe \<Rightarrow> string \<Rightarrow> report_format \<Rightarrow> string option" where
  "writeReportFile probe path format =
     (case createReportFile probe path of
        Some err \<Rightarrow> Some err
      | None \<Rightarrow>
          (case fp_Write probe format of
             Some err \<Rightarrow> Some (''writing '' @ path @ '': '' @ err)
           | None \<Rightarrow> map_option (\<lambda>err. ''closing '' @ path @ '': '' @ err) (fp_Close probe)))"

fun write_targets ::
  "(string \<Rightarrow> file_probe) \<Rightarrow> (string \<times> report_format) list \<Rightarrow> string option \<times> string list" where
  \<comment> \<open>the error that ended the loop, if any, and the files written\<close>
  "write_targets fs [] = (None, [])"
| "write_targets fs ((path, format) # rest) =
     (case writeReportFile (fs path) path format of
        Some err \<Rightarrow> (Some err, [])
      | None \<Rightarrow> (case write_targets fs rest of (err, written) \<Rightarrow> (err, path # written)))"

section \<open>The checks before any access\<close>

record scan_settings =
  set_UpgradeContext :: UpgradeContext
  set_Allowlist :: "string list"
  set_Serve :: bool
  set_TerminalMode :: string
  set_Output :: string
  set_FindingsPath :: string

record 's scan_env =
  se_Catalog :: "VersionedCatalog outcome" \<comment> \<open>\<open>apicatalog.DefaultVersioned()\<close>\<close>
  se_LabelProblems :: "string \<Rightarrow> string list"
  se_Interactive :: bool
  se_CI :: bool
  se_ClientConfig :: "string option" \<comment> \<open>the error of loading the kubeconfig; so below\<close>
  se_CurrentContext :: "string option"
  se_Clientset :: "string option"
  se_APIExtensions :: "string option"
  se_DynamicClient :: "string option"
  se_ServerVersion :: version_race
  se_Kube :: kube_client
  se_LoadCollector :: "string + aws_collector"
  se_ManifestLib :: "'s manifest_lib"
  se_Kinds :: error_kinds
  se_Rules :: rule_env
  se_Now :: time
  se_Terminal :: "string option" \<comment> \<open>the error of writing the terminal report\<close>
  se_MkdirAll :: "string option"
  se_Files :: "string \<Rightarrow> file_probe"
  se_Server :: "string option" \<comment> \<open>the error of serving the reports\<close>

fun first_error :: "'e option list \<Rightarrow> 'e option" where
  "first_error [] = None"
| "first_error (Some e # es) = Some e"
| "first_error (None # es) = first_error es"

definition plain :: "string option \<Rightarrow> cli_error option" where
  "plain err = map_option PlainError err"

definition target_version_error :: "scan_flags \<Rightarrow> string option" where
  "target_version_error fl =
     (if fl_TargetVersion fl = '''' then Some ''--target-version is required''
      else case ParseMajorMinor (fl_TargetVersion fl) of
             Inl e \<Rightarrow> Some (''--target-version '' @ quote (fl_TargetVersion fl) @ '' is invalid: ''
                        @ version_error_text e)
           | Inr _ \<Rightarrow> None)"

definition output_error :: "scan_flags \<Rightarrow> string option" where
  "output_error fl =
     first_error
       [if fl_Output fl \<in> set validOutputs then None
        else Some (''--output '' @ quote (fl_Output fl)
               @ '' is not supported (use json, md, html, or all)''),
        if fl_ServeReport fl \<in> set validServeModes then None
        else Some (''--serve-report '' @ quote (fl_ServeReport fl)
               @ '' is not supported (use auto, always, or never)''),
        if fl_OpenReport fl \<and> fl_ServeReport fl = ''never''
        then Some ''--open-report cannot be used with --serve-report=never'' else None,
        if fl_TerminalOutput fl \<in> set validTerminalOutputs then None
        else Some (''--terminal-output '' @ quote (fl_TerminalOutput fl)
               @ '' is not supported (use compact, full, or silent)'')]"

definition context_error :: "scan_flags \<Rightarrow> string option" where
  "context_error fl =
     (case ParseUpgradeContextFlag (fl_UpgradeContext fl) of
        Inl (value, accepted) \<Rightarrow>
          Some (''unsupported upgrade context '' @ quote value @ '' (use '' @ accepted @ '')'')
      | Inr _ \<Rightarrow> None)"

definition flag_error :: "'s scan_env \<Rightarrow> scan_flags \<Rightarrow> cli_error option" where
  "flag_error env fl =
     first_error
       [plain (target_version_error fl),
        rejectUnsupportedTargetVersion (se_Catalog env) (fl_TargetVersion fl),
        plain (output_error fl), plain (context_error fl), plain (provider_error fl),
        plain (manifests_only_error fl),
        plain (validateCollectorConcurrency (fl_CollectorConcurrency fl))]"

definition serving :: "'s scan_env \<Rightarrow> scan_flags \<Rightarrow> bool" where
  "serving env fl \<longleftrightarrow>
     fl_OpenReport fl
     \<or> shouldServeReport (fl_ServeReport fl) (fl_Output fl) (fl_OutputSet fl) (se_Interactive env)
         (se_CI env)"

definition scan_settings_of :: "'s scan_env \<Rightarrow> scan_flags \<Rightarrow> cli_error + scan_settings" where
  "scan_settings_of env fl =
     (case flag_error env fl of
        Some err \<Rightarrow> Inl err
      | None \<Rightarrow>
          (case normalizeNamespaceAllowlist (se_LabelProblems env) (fl_NamespaceAllowlist fl) of
             Inl err \<Rightarrow> Inl (PlainError err)
           | Inr allowlist \<Rightarrow>
               let serve = serving env fl
               in case (if serve then validateListenAddress (fl_Listen fl) (fl_AllowRemoteReport fl)
                        else None) of
                    Some err \<Rightarrow> Inl (PlainError err)
                  | None \<Rightarrow>
                      Inr \<lparr>set_UpgradeContext =
                             (case ParseUpgradeContextFlag (fl_UpgradeContext fl) of
                                Inr ctx \<Rightarrow> ctx | Inl _ \<Rightarrow> ContextUnset),
                           set_Allowlist = allowlist, set_Serve = serve,
                           set_TerminalMode = effectiveTerminalOutput (fl_TerminalOutput fl)
                             (fl_TerminalOutputSet fl) serve,
                           set_Output = effectiveScanOutput (fl_Output fl) (fl_OutputSet fl) serve,
                           set_FindingsPath = resolveOutputPath (fl_OutputDir fl) (fl_FindingsOut fl)\<rparr>))"

section \<open>Collection\<close>

record evidence =
  ev_Context :: string
  ev_CurrentVersion :: string
  ev_K8s :: "K8sSnapshot option"
  ev_AWS :: "AWSSnapshot option"
  ev_AWSUnavailable :: "string option"
  ev_Manifests :: "ManifestSnapshot option"

text \<open>The context of the report and the version of the cluster.\<close>

definition connect :: "'s scan_env \<Rightarrow> scan_flags \<Rightarrow> cli_error + string \<times> string" where
  "connect env fl =
     (let infra = (\<lambda>what err. Inl (redactInfraFailure (what @ err) (fl_Redact fl)))
      in case se_ClientConfig env of
           Some err \<Rightarrow> infra ''loading kubeconfig: '' err
         | None \<Rightarrow>
             (case se_Clientset env of
                Some err \<Rightarrow> infra ''building Kubernetes client: '' err
              | None \<Rightarrow>
                  (case se_APIExtensions env of
                     Some err \<Rightarrow> infra ''building apiextensions client: '' err
                   | None \<Rightarrow>
                       (case se_DynamicClient env of
                          Some err \<Rightarrow> infra ''building dynamic client: '' err
                        | None \<Rightarrow>
                            let currentVersion = (case ServerVersion (se_ServerVersion env) of
                                    Inl _ \<Rightarrow> ''''
                                  | Inr v \<Rightarrow> (case NormalizeKubernetesVersion v of
                                               None \<Rightarrow> '''' | Some n \<Rightarrow> n));
                                reportContext = (if fl_Context fl \<noteq> '''' then fl_Context fl
                                  else case se_CurrentContext env of None \<Rightarrow> '''' | Some c \<Rightarrow> c)
                            in case rejectDowngrade currentVersion (fl_TargetVersion fl) of
                                 Some err \<Rightarrow> Inl (PlainError err)
                               | None \<Rightarrow> Inr (reportContext, currentVersion)))))"

text \<open>The snapshot of AWS or why there is none; \<open>None\<close> outside: the collector does not return.\<close>

definition collect_aws ::
  "'s scan_env \<Rightarrow> scan_flags \<Rightarrow> (AWSSnapshot option \<times> string option) option" where
  "collect_aws env fl =
     (if fl_Provider fl \<noteq> ''eks'' then Some (None, None)
      else case se_LoadCollector env of
             Inl err \<Rightarrow> Some (None, Some err)
           | Inr col \<Rightarrow> map_option (\<lambda>s. (Some s, None)) (aws_Collect col (fl_TargetVersion fl)))"

definition collect_manifests :: "'s scan_env \<Rightarrow> scan_flags \<Rightarrow> ManifestSnapshot option option" where
  "collect_manifests env fl =
     (if \<not> manifests_requested fl then Some None
      else map_option Some
        (ManifestCollector.Collect (se_ManifestLib env) embedded_catalog
          \<lparr>col_manifestDirs = fl_Manifests fl,
           col_helmCharts =
             map (\<lambda>p. \<lparr>hc_Path = p, hc_ReleaseName = '''', hc_ValuesFiles = []\<rparr>) (fl_HelmCharts fl)\<rparr>))"

definition collect_evidence ::
  "'s scan_env \<Rightarrow> scan_flags \<Rightarrow> K8sSnapshot \<Rightarrow> (cli_error + evidence) option" where
  "collect_evidence env fl snap =
     (case (if fl_ManifestsOnly fl then Inr ('''', '''') else connect env fl) of
        Inl err \<Rightarrow> Some (Inl err)
      | Inr (reportContext, currentVersion) \<Rightarrow>
          do {
            (awsSnap, awsUnavailable) \<leftarrow>
              (if fl_ManifestsOnly fl then Some (None, None) else collect_aws env fl);
            manifestSnap \<leftarrow> collect_manifests env fl;
            Some (Inr \<lparr>ev_Context = reportContext, ev_CurrentVersion = currentVersion,
                       ev_K8s = (if fl_ManifestsOnly fl then None else Some snap),
                       ev_AWS = awsSnap, ev_AWSUnavailable = awsUnavailable,
                       ev_Manifests = manifestSnap\<rparr>)
          })"

section \<open>The report\<close>

definition scan_context :: "scan_flags \<Rightarrow> scan_settings \<Rightarrow> evidence \<Rightarrow> ScanContext" where
  "scan_context fl st ev =
     \<lparr>sc_K8s = ev_K8s ev, sc_AWSSnapshot = ev_AWS ev, sc_ManifestSnapshot = ev_Manifests ev,
      sc_UpgradeContext = set_UpgradeContext st, sc_KubernetesRequested = (\<not> fl_ManifestsOnly fl),
      sc_AWSRequested = (fl_Provider fl = ''eks''), sc_ManifestsRequested = manifests_requested fl\<rparr>"

definition scan_registry :: "'s scan_env \<Rightarrow> scan_flags \<Rightarrow> Registry" where
  "scan_registry env fl =
     (if fl_ManifestsOnly fl then manifests_registry (se_Rules env) else default_registry (se_Rules env))"

definition evaluate_rules ::
  "'s scan_env \<Rightarrow> scan_flags \<Rightarrow> scan_settings \<Rightarrow> evidence
     \<Rightarrow> Finding list \<times> RuleExecutionRecord list \<times> (string \<times> rule_error list) list" where
  "evaluate_rules env fl st ev =
     RunAllWithExecutions sanitizeRuleError (scan_registry env fl) (Some (scan_context fl st ev))
       (fl_TargetVersion fl)"

definition scan_coverage_of :: "'s scan_env \<Rightarrow> scan_flags \<Rightarrow> evidence \<Rightarrow> ScanCoverage" where
  "scan_coverage_of env fl ev =
     buildScanCoverage (se_Kinds env) (ev_K8s ev) (ev_AWS ev) (ev_Manifests ev)
       (\<not> fl_ManifestsOnly fl) (fl_Provider fl = ''eks'') (manifests_requested fl) (ev_AWSUnavailable ev)"

definition full_report :: "'s scan_env \<Rightarrow> scan_flags \<Rightarrow> scan_settings \<Rightarrow> evidence \<Rightarrow> Report" where
  \<comment> \<open>before redaction\<close>
  "full_report env fl st ev =
     (case evaluate_rules env fl st ev of (found, recs, _) \<Rightarrow>
        let fs = FilterByNamespaceAllowlist found (set_Allowlist st);
            rpt = NewReportWithUpgradeContext (fl_TargetVersion fl) (ev_Context ev) (fl_Provider fl)
                    (set_UpgradeContext st) (se_Now env) fs;
            rpt = rpt\<lparr>r_CurrentVersion := ev_CurrentVersion ev, r_RuleExecutions := recs,
                      r_NamespaceAllowlist := set_Allowlist st\<rparr>;
            rpt = SetCoverage (scan_coverage_of env fl ev) rpt
        in rpt\<lparr>r_EKSCluster := eksClusterInfo (fl_ClusterName fl) (ev_AWS ev),
               r_EKSAddons := eksAddonInfos (ev_AWS ev),
               r_EKSNodegroups := eksNodegroupInfos (ev_AWS ev),
               r_EKSUpgradeInsights := eksUpgradeInsightInfos (ev_AWS ev)\<rparr>)"

definition scan_report_of :: "'s scan_env \<Rightarrow> scan_flags \<Rightarrow> scan_settings \<Rightarrow> evidence \<Rightarrow> Report" where
  "scan_report_of env fl st ev =
     (if fl_Redact fl then redact_Report (full_report env fl st ev) else full_report env fl st ev)"

section \<open>Notices\<close>

definition coveragePlaneForNotice :: "string \<Rightarrow> string" where
  "coveragePlaneForNotice plane =
     (if plane = ''cluster'' then ''kubernetes''
      else if plane = ''AWS'' then ''aws''
      else if plane = ''manifest'' then ''manifests''
      else plane)"

text \<open>A redacted error is a new one: nothing is known of it but its text.\<close>

definition redactErrorMap :: "error_kinds \<Rightarrow> errors \<Rightarrow> bool \<Rightarrow> error_kinds \<times> errors" where
  "redactErrorMap kinds errs enabled =
     (if \<not> enabled \<or> errs = [] then (kinds, errs)
      else ((\<lambda>_ _. no_facts), map (\<lambda>(k, err). (k, redactErrorText (Some err) True)) errs))"

definition writePartialScanNotice :: "string \<Rightarrow> error_kinds \<times> errors \<Rightarrow> string" where
  "writePartialScanNotice plane ke =
     (case ke of (kinds, errs) \<Rightarrow>
        if errs = [] then ''''
        else ''Partial '' @ plane @ '' scan '' @ emdash @ '' collectors failed:'' @ nl
             @ concat (map (\<lambda>line. ''  - '' @ line @ nl)
                 (stableErrors kinds (coveragePlaneForNotice plane) errs)))"

definition scan_notices :: "'s scan_env \<Rightarrow> scan_flags \<Rightarrow> scan_settings \<Rightarrow> evidence \<Rightarrow> string" where
  "scan_notices env fl st ev =
     (let notice = (\<lambda>plane errs. case errs of None \<Rightarrow> ''''
            | Some errs \<Rightarrow>
                writePartialScanNotice plane (redactErrorMap (se_Kinds env) errs (fl_Redact fl)))
      in if set_TerminalMode st = ''silent'' then ''''
         else notice ''cluster'' (map_option k_Errors (ev_K8s ev))
              @ notice ''AWS'' (map_option aws_Errors (ev_AWS ev))
              @ notice ''manifest'' (map_option m_Errors (ev_Manifests ev)))"

section \<open>The command\<close>

record scan_outcome =
  out_Report :: Report
  out_Notices :: string
  out_Written :: "string list"
  out_Error :: "cli_error option"

definition deliver ::
  "'s scan_env \<Rightarrow> scan_flags \<Rightarrow> scan_settings \<Rightarrow> cli_error option \<times> string list" where
  \<comment> \<open>what follows the report: the terminal, the files and the server\<close>
  "deliver env fl st =
     (let rendering = (if set_TerminalMode st = ''full'' then Some ''rendering terminal report: ''
                       else if set_TerminalMode st = ''compact'' then Some ''rendering terminal summary: ''
                       else None)
      in case (rendering, se_Terminal env) of
           (Some what, Some err) \<Rightarrow> (Some (PlainError (what @ err)), [])
         | _ \<Rightarrow>
             (case se_MkdirAll env of
                Some err \<Rightarrow> (Some (InfraFailure (''creating output directory: '' @ err)), [])
              | None \<Rightarrow>
                  (case write_targets (se_Files env)
                          (requestedReportTargetsInDir (set_Output st) (set_FindingsPath st)
                             (set_Serve st) (fl_OutputDir fl)) of
                     (Some err, written) \<Rightarrow>
                       (Some (InfraFailure (''writing scan reports: '' @ err)), written)
                   | (None, written) \<Rightarrow>
                       ((if set_Serve st then plain (se_Server env) else None), written))))"

definition scan_with ::
  "'s scan_env \<Rightarrow> scan_flags \<Rightarrow> K8sSnapshot \<Rightarrow> scan_settings \<Rightarrow> (cli_error + scan_outcome) option" where
  "scan_with env fl snap st =
     map_option (\<lambda>r. case r of
         Inl err \<Rightarrow> Inl err
       | Inr ev \<Rightarrow>
           (case deliver env fl st of (err, written) \<Rightarrow>
              Inr \<lparr>out_Report = scan_report_of env fl st ev, out_Notices = scan_notices env fl st ev,
                   out_Written = written, out_Error = err\<rparr>))
       (collect_evidence env fl snap)"

definition run_scan ::
  "'s scan_env \<Rightarrow> scan_flags \<Rightarrow> K8sSnapshot \<Rightarrow> (cli_error + scan_outcome) option" where
  "run_scan env fl snap =
     (case scan_settings_of env fl of
        Inl err \<Rightarrow> Some (Inl err)
      | Inr st \<Rightarrow> scan_with env fl snap st)"

definition scan_exit :: "cli_error + scan_outcome \<Rightarrow> int" where
  \<comment> \<open>the exit code of the process\<close>
  "scan_exit r =
     (case r of
        Inl err \<Rightarrow> exitCodeForError (Some err) 0
      | Inr out \<Rightarrow> exitCodeForError (out_Error out) (ExitCode (out_Report out)))"

end
