(* ===== verification/ScanFacts.thy ===== *)
theory ScanFacts
  imports ScanCommand EngineFacts ReportFacts RedactFacts
begin

text \<open>
  The \<open>scan\<close> command end to end: what an exit code of zero says of every call, rule and finding
  behind it, what a scan has checked before it reads anything, and that redaction does not show in
  the exit code.
\<close>

section \<open>The pipeline\<close>

lemma run_scanE:
  assumes "run_scan env fl snap = Some (Inr out)"
  obtains st ev where "scan_settings_of env fl = Inr st" "collect_evidence env fl snap = Some (Inr ev)"
    "out_Report out = scan_report_of env fl st ev" "out_Error out = fst (deliver env fl st)"
    "out_Written out = snd (deliver env fl st)"
proof -
  from assms obtain st where st: "scan_settings_of env fl = Inr st"
    and run: "scan_with env fl snap st = Some (Inr out)"
    by (auto simp: run_scan_def split: sum.splits)
  from run obtain r where r: "collect_evidence env fl snap = Some r"
    and out: "(case r of Inl err \<Rightarrow> Inl err
      | Inr ev \<Rightarrow> (case deliver env fl st of (err, written) \<Rightarrow>
           Inr \<lparr>out_Report = scan_report_of env fl st ev, out_Notices = scan_notices env fl st ev,
                out_Written = written, out_Error = err\<rparr>)) = (Inr out :: cli_error + scan_outcome)"
    by (auto simp: scan_with_def)
  from out obtain ev where "r = Inr ev" by (cases r) simp_all
  with st r out that show ?thesis by (auto split: prod.splits)
qed

lemma scan_exit_zero:
  assumes "scan_exit r = 0"
  obtains out where "r = Inr out" "out_Error out = None" "ExitCode (out_Report out) = 0"
  using assms
  by (auto simp: scan_exit_def exitCodeForError_def split: sum.splits option.splits cli_error.splits)

lemma ExitCode_report:
  "ExitCode (scan_report_of env fl st ev) = ExitCode (full_report env fl st ev)"
  by (simp add: scan_report_of_def)

lemma ExitCode_0:
  "ExitCode r = 0 \<longleftrightarrow> IsComplete r \<and> sum_Blockers (r_Summary r) = 0 \<and> sum_Warnings (r_Summary r) = 0
     \<and> sum_OperatorDecisions (r_Summary r) = 0"
  by (simp add: ExitCode_def resultAndExitCode_def)

definition kept_findings :: "'s scan_env \<Rightarrow> scan_flags \<Rightarrow> scan_settings \<Rightarrow> evidence \<Rightarrow> Finding list" where
  "kept_findings env fl st ev =
     FilterByNamespaceAllowlist (fst (evaluate_rules env fl st ev)) (set_Allowlist st)"

definition rule_records ::
  "'s scan_env \<Rightarrow> scan_flags \<Rightarrow> scan_settings \<Rightarrow> evidence \<Rightarrow> RuleExecutionRecord list" where
  "rule_records env fl st ev = fst (snd (evaluate_rules env fl st ev))"

lemma full_report_simps:
  "r_Coverage (full_report env fl st ev) = scan_coverage_of env fl ev"
  "r_Summary (full_report env fl st ev) = build_summary (kept_findings env fl st ev)"
  "r_RuleExecutions (full_report env fl st ev) = rule_records env fl st ev"
  "\<not> r_RuleExecutionsNormalized (full_report env fl st ev)"
  by (simp_all add: full_report_def SetCoverage_def NewReportWithUpgradeContext_def
      kept_findings_def rule_records_def build_summary_assign Let_def split: prod.split)

section \<open>What exit code zero says\<close>

definition gates_nothing :: "Finding list \<Rightarrow> bool" where
  \<comment> \<open>no finding blocks, warns, or asks for a decision\<close>
  "gates_nothing fs \<longleftrightarrow>
     list_all (\<lambda>f. \<not> blocks f \<and> \<not> counts_as_warning f \<and> \<not> needs_operator f) fs"

definition rules_all_ran :: "RuleExecutionRecord list \<Rightarrow> bool" where
  "rules_all_ran recs \<longleftrightarrow>
     list_all (\<lambda>rec. ex_Applicability rec = ApplicabilityApplicable
                      \<longrightarrow> ex_State rec = ExecutionEvaluated) recs"

lemma ExitCode_full_report:
  "ExitCode (full_report env fl st ev) = 0 \<longleftrightarrow>
     pc_Status (sc_Kubernetes (scan_coverage_of env fl ev)) \<noteq> CoveragePartial
     \<and> pc_Status (sc_AWS (scan_coverage_of env fl ev)) \<noteq> CoveragePartial
     \<and> pc_Status (sc_Manifests (scan_coverage_of env fl ev)) \<noteq> CoveragePartial
     \<and> rules_all_ran (rule_records env fl st ev) \<and> gates_nothing (kept_findings env fl st ev)"
proof -
  have "gates_nothing fs \<longleftrightarrow> sum_Blockers (build_summary fs) = 0
      \<and> sum_Warnings (build_summary fs) = 0 \<and> sum_OperatorDecisions (build_summary fs) = 0" for fs
    using build_summary_positive [of fs] by (auto simp: gates_nothing_def list_all_iff)
  then show ?thesis
    by (auto simp: ExitCode_0 IsComplete_def full_report_simps rules_all_ran_def list_ex_iff list_all_iff)
qed

lemma coverage_complete:
  "pc_Status (sc_Kubernetes (scan_coverage_of env fl ev)) \<noteq> CoveragePartial
   \<longleftrightarrow> fl_ManifestsOnly fl \<or> map_option k_Errors (ev_K8s ev) = Some []"
  "pc_Status (sc_AWS (scan_coverage_of env fl ev)) \<noteq> CoveragePartial
   \<longleftrightarrow> fl_Provider fl \<noteq> ''eks'' \<or> map_option aws_Errors (ev_AWS ev) = Some []"
  "pc_Status (sc_Manifests (scan_coverage_of env fl ev)) \<noteq> CoveragePartial
   \<longleftrightarrow> \<not> manifests_requested fl \<or> map_option m_Errors (ev_Manifests ev) = Some []"
  by (auto simp: scan_coverage_of_def buildScanCoverage_def plane_status)

text \<open>The calls behind a snapshot without errors.\<close>

definition cluster_answered :: "kube_client \<Rightarrow> bool" where
  "cluster_answered c \<longleftrightarrow>
     kc_CustomResourceDefinitions c \<noteq> None \<and> kc_Dynamic c \<noteq> None
     \<and> list_all (succeeded c) (kube_tasks c embedded_catalog)"

lemma no_errors_answered:
  assumes "k8s_Collect c embedded_catalog n snap" and "k_Errors snap = []"
  shows "cluster_answered c"
proof -
  have "observe snap = observe (collected c embedded_catalog)"
    using assms(1) by (rule k8s_CollectE)
      (metis kube.complete_run sequential_Collect_def sequential_refines [OF embedded_gvrs_distinct])
  then have "map_of (collect_errors c embedded_catalog) = Map.empty"
    using assms(2) by (simp add: observe_def collected_def)
  then have "collect_errors c embedded_catalog = []"
    by (simp add: map_of_eq_empty_iff)
  then show ?thesis
    by (auto simp: collect_errors_def collect_start_def cluster_answered_def succeeded_def
        List.map_filter_def filter_empty_conv list_all_iff split: if_splits)
qed

definition aws_answered :: "'s scan_env \<Rightarrow> scan_flags \<Rightarrow> bool" where
  "aws_answered env fl =
     (case se_LoadCollector env of
        Inl _ \<Rightarrow> False | Inr col \<Rightarrow> aws_evidence_ok col (fl_TargetVersion fl))"

definition manifests_read :: "'s scan_env \<Rightarrow> scan_flags \<Rightarrow> bool" where
  "manifests_read env fl =
     (case collect_manifests env fl of Some (Some s) \<Rightarrow> m_Errors s = [] | _ \<Rightarrow> False)"

lemma collect_evidenceE:
  assumes "collect_evidence env fl snap = Some (Inr ev)"
  obtains (manifests) "fl_ManifestsOnly fl" "ev_K8s ev = None"
      "ev_AWS ev = None" "collect_manifests env fl = Some (ev_Manifests ev)"
  | (cluster) "\<not> fl_ManifestsOnly fl" "ev_K8s ev = Some snap"
      "collect_aws env fl = Some (ev_AWS ev, ev_AWSUnavailable ev)"
      "collect_manifests env fl = Some (ev_Manifests ev)"
      "connect env fl = Inr (ev_Context ev, ev_CurrentVersion ev)"
  using assms
  by (auto simp: collect_evidence_def split: if_splits sum.splits prod.splits bind_splits option.splits)

text \<open>The version the guard against downgrades compares with.\<close>

definition detected_version :: "'s scan_env \<Rightarrow> string" where
  "detected_version env =
     (case ServerVersion (se_ServerVersion env) of
        Inl _ \<Rightarrow> '''' | Inr v \<Rightarrow> (case NormalizeKubernetesVersion v of None \<Rightarrow> '''' | Some n \<Rightarrow> n))"

lemma connect_guard:
  "connect env fl = Inr c \<Longrightarrow> rejectDowngrade (detected_version env) (fl_TargetVersion fl) = None"
  by (auto simp: connect_def detected_version_def Let_def split: option.splits)

text \<open>
  The version of the API server is no such call: a failing \<open>ServerVersion\<close> leaves the current version
  empty, and the guard against downgrades lets the scan go on.
\<close>

lemma connect_without_version:
  assumes "ServerVersion (se_ServerVersion env) = Inl err"
    and "se_ClientConfig env = None" "se_Clientset env = None" "se_APIExtensions env = None"
      "se_DynamicClient env = None"
  shows "\<exists>ctx. connect env fl = Inr (ctx, '''')"
  using assms by (simp add: connect_def rejectDowngrade_def Let_def)

text \<open>
  C1: An exit code of zero is earned. Whatever the interleaving of the collector, if \<open>scan\<close> exits
  with zero then every call of the collectors it asked for gave an answer: each listing of the
  cluster's, unless the scan was of manifests only; each call to AWS under \<open>--provider=eks\<close>; each
  manifest directory and chart. Moreover every rule that applies was evaluated to its end, no finding
  in the allowed namespaces blocks, warns or asks the operator to decide, and the target is not below
  the current version, as far as the API server said which it is: when that call fails, the current
  version is empty and the guard lets the scan pass.
\<close>

theorem exit_zero_is_earned:
  "\<lbrakk>run_scan env fl snap = Some r; scan_exit r = 0;
    k8s_Collect (se_Kube env) embedded_catalog (fl_CollectorConcurrency fl) snap\<rbrakk>
   \<Longrightarrow> (fl_ManifestsOnly fl \<or> cluster_answered (se_Kube env))
     \<and> (fl_Provider fl \<noteq> ''eks'' \<or> fl_ManifestsOnly fl \<or> aws_answered env fl)
     \<and> (manifests_requested fl = False \<or> manifests_read env fl)
     \<and> (\<exists>st ev. scan_settings_of env fl = Inr st \<and> collect_evidence env fl snap = Some (Inr ev)
          \<and> rules_all_ran (rule_records env fl st ev) \<and> gates_nothing (kept_findings env fl st ev)
          \<and> (fl_ManifestsOnly fl \<or> rejectDowngrade (detected_version env) (fl_TargetVersion fl) = None))"
proof -
  assume run: "run_scan env fl snap = Some r" and exit: "scan_exit r = 0"
    and collected: "k8s_Collect (se_Kube env) embedded_catalog (fl_CollectorConcurrency fl) snap"
  from exit obtain out where r: "r = Inr out" and zero: "ExitCode (out_Report out) = 0"
    by (rule scan_exit_zero)
  from run obtain st ev where st: "scan_settings_of env fl = Inr st"
    and ev: "collect_evidence env fl snap = Some (Inr ev)"
    and rpt: "out_Report out = scan_report_of env fl st ev"
    unfolding r by (rule run_scanE)
  from zero have clean: "ExitCode (full_report env fl st ev) = 0" by (simp add: rpt ExitCode_report)
  note complete = clean [unfolded ExitCode_full_report coverage_complete]
  have "fl_ManifestsOnly fl \<or> cluster_answered (se_Kube env)"
    using ev complete no_errors_answered [OF collected] by (auto elim!: collect_evidenceE)
  moreover have "fl_Provider fl \<noteq> ''eks'' \<or> fl_ManifestsOnly fl \<or> aws_answered env fl"
    using ev complete
    by (auto simp: collect_aws_def aws_answered_def aws_errors_iff elim!: collect_evidenceE
        split: sum.splits if_splits)
  moreover have "manifests_requested fl = False \<or> manifests_read env fl"
    using ev complete by (auto simp: manifests_read_def elim!: collect_evidenceE)
  moreover have "fl_ManifestsOnly fl \<or> rejectDowngrade (detected_version env) (fl_TargetVersion fl) = None"
    using ev by (auto elim!: collect_evidenceE dest: connect_guard)
  ultimately show ?thesis using st ev complete by blast
qed

section \<open>Redaction\<close>

text \<open>The flag is read where an error of the cluster connection or the report is rendered.\<close>

lemma redact_not_read:
  "target_version_error (fl\<lparr>fl_Redact := b\<rparr>) = target_version_error fl"
  "output_error (fl\<lparr>fl_Redact := b\<rparr>) = output_error fl"
  "context_error (fl\<lparr>fl_Redact := b\<rparr>) = context_error fl"
  "provider_error (fl\<lparr>fl_Redact := b\<rparr>) = provider_error fl"
  "manifests_only_error (fl\<lparr>fl_Redact := b\<rparr>) = manifests_only_error fl"
  "manifests_requested (fl\<lparr>fl_Redact := b\<rparr>) = manifests_requested fl"
  "serving env (fl\<lparr>fl_Redact := b\<rparr>) = serving env fl"
  unfolding target_version_error_def output_error_def context_error_def provider_error_def
    aks_Validate_def gke_Validate_def manifests_only_error_def manifests_requested_def serving_def
  by (cases fl; simp only: scan_flags.simps)+

lemma redact_not_read_settings:
  "scan_settings_of env (fl\<lparr>fl_Redact := b\<rparr>) = scan_settings_of env fl"
  unfolding scan_settings_of_def flag_error_def redact_not_read
  by (cases fl; simp only: scan_flags.simps)

lemma redact_not_read_later:
  "full_report env (fl\<lparr>fl_Redact := b\<rparr>) st ev = full_report env fl st ev"
  "deliver env (fl\<lparr>fl_Redact := b\<rparr>) st = deliver env fl st"
  "collect_aws env (fl\<lparr>fl_Redact := b\<rparr>) = collect_aws env fl"
  "collect_manifests env (fl\<lparr>fl_Redact := b\<rparr>) = collect_manifests env fl"
  unfolding full_report_def evaluate_rules_def scan_registry_def scan_context_def
    scan_coverage_of_def deliver_def collect_aws_def collect_manifests_def redact_not_read
  by (cases fl; simp only: scan_flags.simps)+

definition error_code :: "cli_error \<Rightarrow> int" where
  "error_code err = exitCodeForError (Some err) 0"

lemma error_code_redacted: "error_code (redactInfraFailure err b) = 4"
  by (simp add: error_code_def exitCodeForError_def redactInfraFailure_def)

lemma connect_code:
  "map_sum error_code (\<lambda>x. x) (connect env (fl\<lparr>fl_Redact := b\<rparr>))
     = map_sum error_code (\<lambda>x. x) (connect env (fl\<lparr>fl_Redact := c\<rparr>))"
  by (simp add: connect_def error_code_redacted Let_def split: option.split)

lemma collect_evidence_code:
  "map_option (map_sum error_code (\<lambda>x. x)) (collect_evidence env (fl\<lparr>fl_Redact := b\<rparr>) snap)
     = map_option (map_sum error_code (\<lambda>x. x)) (collect_evidence env (fl\<lparr>fl_Redact := c\<rparr>) snap)"
  using connect_code [where env = env and fl = fl and b = b and c = c]
  by (cases "connect env (fl\<lparr>fl_Redact := b\<rparr>)"; cases "connect env (fl\<lparr>fl_Redact := c\<rparr>)")
    (simp_all add: collect_evidence_def redact_not_read_later split: prod.split)

lemma exit_via_code:
  "map_option scan_exit (scan_with env fl snap st)
     = map_option (\<lambda>r. case r of
           Inl code \<Rightarrow> code
         | Inr ev \<Rightarrow> exitCodeForError (fst (deliver env fl st)) (ExitCode (full_report env fl st ev)))
       (map_option (map_sum error_code (\<lambda>x. x)) (collect_evidence env fl snap))"
  by (cases "collect_evidence env fl snap")
    (auto simp: scan_with_def scan_exit_def error_code_def ExitCode_report split: sum.split prod.split)

text \<open>
  C33: \<open>--redact-sensitive-identifiers\<close> does not show in the exit code: with the same flags otherwise,
  a scan with it returns exactly when a scan without it does, and with the same code.
\<close>

theorem redaction_keeps_exit_code:
  "map_option scan_exit (run_scan env (fl\<lparr>fl_Redact := True\<rparr>) snap)
     = map_option scan_exit (run_scan env (fl\<lparr>fl_Redact := False\<rparr>) snap)"
  using collect_evidence_code [where env = env and fl = fl and b = True and c = False and snap = snap]
  by (cases "scan_settings_of env fl")
    (simp_all only: run_scan_def redact_not_read_settings sum.case exit_via_code redact_not_read_later
      option.map)

section \<open>What a report presupposes\<close>

lemma first_error_None: "first_error es = None \<longleftrightarrow> list_all (\<lambda>e. e = None) es"
  by (induction es rule: first_error.induct) simp_all

lemma flag_errorD:
  assumes "flag_error env fl = None"
  shows "rejectUnsupportedTargetVersion (se_Catalog env) (fl_TargetVersion fl) = None"
    "provider_error fl = None" "validateCollectorConcurrency (fl_CollectorConcurrency fl) = None"
  using assms by (simp_all add: flag_error_def first_error_None plain_def)

lemma scan_settingsD:
  assumes "scan_settings_of env fl = Inr st"
  shows "flag_error env fl = None" "set_Serve st = serving env fl"
    "serving env fl \<Longrightarrow> validateListenAddress (fl_Listen fl) (fl_AllowRemoteReport fl) = None"
  using assms by (auto simp: scan_settings_of_def Let_def split: option.splits sum.splits if_splits)

lemma listen_allowed:
  "validateListenAddress a allow = None \<Longrightarrow> allow \<or> isLoopbackAddress a"
  by (auto simp: validateListenAddress_def isLoopbackAddress_def split: sum.splits prod.splits if_splits)

definition supported_target :: "'s scan_env \<Rightarrow> string \<Rightarrow> bool" where
  "supported_target env v =
     (case se_Catalog env of
        Done c \<Rightarrow> (case TargetSupported c v of Done (_, _, ok) \<Rightarrow> ok | _ \<Rightarrow> False) | _ \<Rightarrow> False)"

lemma target_guard:
  "rejectUnsupportedTargetVersion (se_Catalog env) v = None \<Longrightarrow> supported_target env v"
  by (auto simp: rejectUnsupportedTargetVersion_def supported_target_def
      split: outcome.splits prod.splits if_splits)

lemma rejectDowngrade_None:
  "rejectDowngrade current target = None
   \<longleftrightarrow> current = '''' \<or> CompareMinorVersions current target \<noteq> Inr VersionDowngrade"
  by (auto simp: rejectDowngrade_def split: sum.splits)

lemma written_not_symlink:
  "write_targets fs ts = (err, written) \<Longrightarrow> list_all (\<lambda>p. \<not> fp_IsSymlink (fs p)) written"
  by (induction fs ts arbitrary: err written rule: write_targets.induct)
    (auto simp: writeReportFile_def createReportFile_def split: option.splits prod.splits if_splits)

lemma delivered_not_symlink:
  "list_all (\<lambda>p. \<not> fp_IsSymlink (se_Files env p)) (snd (deliver env fl st))"
proof -
  obtain err written where targets: "write_targets (se_Files env)
      (requestedReportTargetsInDir (set_Output st) (set_FindingsPath st) (set_Serve st) (fl_OutputDir fl))
    = (err, written)"
    by fastforce
  from written_not_symlink [OF this] show ?thesis
    unfolding deliver_def Let_def targets prod.case
    by (simp split: option.split)
qed

text \<open>
  C32: what a scan has checked when it has a report: the target version is one this build's API
  catalogue covers; the provider is EKS with a cluster name, or none; a version detected on the
  cluster is not above the target; the collector's concurrency is within its bounds; a report server
  listens on a loopback address unless the operator consented to more; and no report was written
  through a symbolic link.
\<close>

theorem report_presupposes_checks:
  "run_scan env fl snap = Some (Inr out) \<Longrightarrow>
     supported_target env (fl_TargetVersion fl)
     \<and> (fl_Provider fl = '''' \<or> fl_Provider fl = ''eks'' \<and> fl_ClusterName fl \<noteq> '''')
     \<and> (fl_ManifestsOnly fl \<or> detected_version env = ''''
        \<or> CompareMinorVersions (detected_version env) (fl_TargetVersion fl) \<noteq> Inr VersionDowngrade)
     \<and> fl_CollectorConcurrency fl \<in> {1..16}
     \<and> (serving env fl = False \<or> fl_AllowRemoteReport fl \<or> isLoopbackAddress (fl_Listen fl))
     \<and> list_all (\<lambda>p. \<not> fp_IsSymlink (se_Files env p)) (out_Written out)"
proof -
  assume "run_scan env fl snap = Some (Inr out)"
  then obtain st ev where st: "scan_settings_of env fl = Inr st"
    and ev: "collect_evidence env fl snap = Some (Inr ev)"
    and written: "out_Written out = snd (deliver env fl st)"
    by (rule run_scanE)
  note flags = flag_errorD [OF scan_settingsD(1) [OF st]]
  have "fl_Provider fl = '''' \<or> fl_Provider fl = ''eks'' \<and> fl_ClusterName fl \<noteq> ''''"
    using flags(2) by (auto simp: provider_error_def Let_def split: if_splits option.splits)
  moreover have "fl_ManifestsOnly fl \<or> detected_version env = ''''
      \<or> CompareMinorVersions (detected_version env) (fl_TargetVersion fl) \<noteq> Inr VersionDowngrade"
    using ev connect_guard rejectDowngrade_None by (blast elim: collect_evidenceE)
  moreover have "fl_CollectorConcurrency fl \<in> {1..16}"
    using flags(3) by (auto simp: validateCollectorConcurrency_def MinCollectorConcurrency_def
        MaxCollectorConcurrency_def split: if_splits)
  moreover have "serving env fl = False \<or> fl_AllowRemoteReport fl \<or> isLoopbackAddress (fl_Listen fl)"
    using scan_settingsD(3) [OF st] listen_allowed by blast
  ultimately show ?thesis
    using target_guard [OF flags(1)] delivered_not_symlink by (simp add: written)
qed

section \<open>A scan of manifests\<close>

definition quiet_file :: file_probe where
  "quiet_file = \<lparr>fp_IsSymlink = False, fp_Open = None, fp_Chmod = None, fp_Write = (\<lambda>_. None),
     fp_Close = None\<rparr>"

definition empty_dir_lib :: "unit manifest_lib" where
  \<comment> \<open>every path is a directory without files\<close>
  "empty_dir_lib = \<lparr>ml_NewDecoder = (\<lambda>_. ()), ml_Decode = (\<lambda>s. (DecodeEOF, s)),
     ml_GVK = (\<lambda>_. ('''', '''', '''')), ml_Kind = (\<lambda>_. ''''), ml_Namespace = (\<lambda>_. ''''),
     ml_Name = (\<lambda>_. ''''), ml_Labels = (\<lambda>_. []), ml_NestedMap = (\<lambda>_ _. None),
     ml_NestedInt64 = (\<lambda>_ _. None), fs_Stat = (\<lambda>_. StatFound),
     fs_WalkDir = (\<lambda>p. [WalkDirectory p]), fs_ReadFile = (\<lambda>_. Inl ''no such file''),
     helm_Run = (\<lambda>_. Inl (''exit status 1'', ''''))\<rparr>"

definition sample_rule_env :: rule_env where
  "sample_rule_env = \<lparr>env_lib =
       \<lparr>lib_valid_selector = (\<lambda>_. True), lib_matches = (\<lambda>_ _. True), lib_selector_string = (\<lambda>_. ''''),
        lib_intstr_string = (\<lambda>_. ''0''), lib_intstr_json = (\<lambda>_. Some ''0''), lib_intstr_value = (\<lambda>_. 0),
        lib_tolerates = (\<lambda>_ _. False), lib_milli_string = show_int, lib_bytes_string = show_int\<rparr>,
     env_pki = \<lparr>pem_Decode = (\<lambda>_. None), x509_ParseCertificate = (\<lambda>_. None)\<rparr>, env_now = 0,
     env_api_catalog = Inl ''unavailable'', env_compat_catalog = Inl ''unavailable''\<rparr>"

definition sample_scan_env :: "unit scan_env" where
  "sample_scan_env = \<lparr>
     se_Catalog = Done \<lparr>vc_entries = [], vc_buildRange = \<lparr>range_Min = ''1.22'', range_Max = ''1.39''\<rparr>\<rparr>,
     se_LabelProblems = (\<lambda>_. []), se_Interactive = False, se_CI = True, se_ClientConfig = None,
     se_CurrentContext = None, se_Clientset = None, se_APIExtensions = None, se_DynamicClient = None,
     se_ServerVersion = ContextDone ''deadline'', se_Kube = sample_client,
     se_LoadCollector = Inl ''no credentials'', se_ManifestLib = empty_dir_lib,
     se_Kinds = (\<lambda>_ _. no_facts), se_Rules = sample_rule_env, se_Now = 0, se_Terminal = None,
     se_MkdirAll = None, se_Files = (\<lambda>_. quiet_file), se_Server = None\<rparr>"

definition sample_flags :: scan_flags where
  "sample_flags = \<lparr>fl_TargetVersion = ''1.30'', fl_Output = ''md'', fl_OutputSet = True,
     fl_FindingsOut = ''findings.json'', fl_Provider = '''', fl_ClusterName = '''',
     fl_ResourceGroup = '''', fl_Project = '''', fl_Location = '''', fl_Manifests = [''k8s''],
     fl_HelmCharts = [], fl_ManifestsOnly = True, fl_NamespaceAllowlist = [], fl_Kubeconfig = '''',
     fl_Context = '''', fl_ServeReport = ''auto'', fl_OpenReport = False, fl_Listen = ''127.0.0.1:8080'',
     fl_TerminalOutput = ''full'', fl_TerminalOutputSet = False, fl_UpgradeContext = ''audit-only'',
     fl_OutputDir = ''out'', fl_AllowRemoteReport = False, fl_CollectorConcurrency = 4,
     fl_Redact = False\<rparr>"

definition sample_settings :: scan_settings where
  "sample_settings = \<lparr>set_UpgradeContext = ContextAuditOnly, set_Allowlist = [], set_Serve = False,
     set_TerminalMode = ''full'', set_Output = ''md'', set_FindingsPath = ''out/findings.json''\<rparr>"

definition sample_evidence :: evidence where
  "sample_evidence = \<lparr>ev_Context = '''', ev_CurrentVersion = '''', ev_K8s = None, ev_AWS = None,
     ev_AWSUnavailable = None, ev_Manifests = Some empty_manifests\<rparr>"

lemma sample_facts:
  "scan_settings_of sample_scan_env sample_flags = Inr sample_settings
   \<and> collect_evidence sample_scan_env sample_flags snap = Some (Inr sample_evidence)
   \<and> deliver sample_scan_env sample_flags sample_settings
       = (None, [''out/findings.json'', ''out/report.md''])
   \<and> rules_parseMajorMinor ''1.30'' = Inr (1, 30) \<and> mergeAPI001Findings [] = []"
  by code_simp

lemmas sample_scan_settings = sample_facts [THEN conjunct1]
lemmas sample_collect = sample_facts [THEN conjunct2, THEN conjunct1]
lemmas sample_deliver = sample_facts [THEN conjunct2, THEN conjunct2, THEN conjunct1]
lemmas sample_version = sample_facts [THEN conjunct2, THEN conjunct2, THEN conjunct2]

abbreviation sample_context :: ScanContext where
  "sample_context \<equiv> scan_context sample_flags sample_settings sample_evidence"

lemma sample_api_rule:
  "api_rule ruleID vc applies live manifest (Some sample_context) ''1.30'' = Returned [] None"
proof -
  have "sc_K8s sample_context = None" "sc_ManifestSnapshot sample_context = Some empty_manifests"
    by (simp_all add: scan_context_def sample_evidence_def)
  then show ?thesis by (simp add: api_rule_def empty_manifests_def sample_version Let_def)
qed

lemma sample_rules:
  assumes "rule \<in> set (scan_registry sample_scan_env sample_flags)"
  shows "rule_Evaluate rule (Some sample_context) ''1.30'' = Returned [] None"
    "dependency_states rule (Some sample_context) = {dependencyAvailable, dependencyNotApplicable}"
proof -
  have rules: "rule = registered (rule_body (se_Rules sample_scan_env)) (''API-001'', API001_dependencies, None)
      \<or> rule = registered (rule_body (se_Rules sample_scan_env)) (''API-002'', API002_dependencies, None)"
    using assms by (simp add: scan_registry_def manifests_registry_def NewManifestsOnlyRegistry_def sample_flags_def)
  then show "rule_Evaluate rule (Some sample_context) ''1.30'' = Returned [] None"
    by (auto simp: registered_def dispatch API001_Evaluate_def API002_Evaluate_def sample_api_rule)
  have "sc_K8s sample_context = None" "sc_ManifestSnapshot sample_context = Some empty_manifests"
    "\<not> sc_KubernetesRequested sample_context" "sc_ManifestsRequested sample_context"
    by (simp_all add: scan_context_def sample_evidence_def sample_flags_def manifests_requested_def)
  then show "dependency_states rule (Some sample_context) = {dependencyAvailable, dependencyNotApplicable}"
    using rules
    by (auto simp: registered_def dependency_states_def ruleEvidenceDependencies_def
        API001_dependencies_def API002_dependencies_def depDeprecatedAPIUsage_def k8sPrefixDep_def
        manifestDep_def dependencyState_def plane_state_def empty_manifests_def)
qed

lemma sample_evaluation:
  "rules_all_ran (rule_records sample_scan_env sample_flags sample_settings sample_evidence)"
  "kept_findings sample_scan_env sample_flags sample_settings sample_evidence = []"
proof -
  obtain fs recs errs where run: "evaluate_rules sample_scan_env sample_flags sample_settings sample_evidence
      = (fs, recs, errs)"
    by (metis prod_cases3)
  have version: "fl_TargetVersion sample_flags = ''1.30''" by (simp add: sample_flags_def)
  note eq = RunAllWithExecutions_eq [OF run [unfolded evaluate_rules_def version]]
  show "rules_all_ran (rule_records sample_scan_env sample_flags sample_settings sample_evidence)"
    unfolding rule_records_def rules_all_ran_def run fst_conv snd_conv conjunct2 [OF eq] list_all_iff
    by (auto simp: run_record_applicable run_record_evaluated clean_run_def sample_rules
        dest: find_rule_Some split: option.splits)
  have "f \<notin> set (run_kept sanitizeRuleError (scan_registry sample_scan_env sample_flags)
      (Some sample_context) ''1.30'' ruleID)" for f ruleID
  proof
    assume "f \<in> set (run_kept sanitizeRuleError (scan_registry sample_scan_env sample_flags)
      (Some sample_context) ''1.30'' ruleID)"
    then obtain rule fs err where
      "find_rule (scan_registry sample_scan_env sample_flags) ruleID = Some rule"
      "rule_Evaluate rule (Some sample_context) ''1.30'' = Returned fs err" "f \<in> set fs"
      by (rule run_kept_valid)
    then show False using sample_rules(1) [of rule] find_rule_Some by fastforce
  qed
  then have "run_kept sanitizeRuleError (scan_registry sample_scan_env sample_flags)
      (Some sample_context) ''1.30'' ruleID = []" for ruleID
    by (metis list.set_intros(1) neq_Nil_conv)
  then have "fs = []" using conjunct1 [OF eq] by simp
  then show "kept_findings sample_scan_env sample_flags sample_settings sample_evidence = []"
    by (simp add: kept_findings_def run FilterByNamespaceAllowlist_def)
qed

lemma sample_exit: "ExitCode (full_report sample_scan_env sample_flags sample_settings sample_evidence) = 0"
proof -
  have "fl_ManifestsOnly sample_flags" "fl_Provider sample_flags \<noteq> ''eks''"
    "map_option m_Errors (ev_Manifests sample_evidence) = Some []"
    by (simp_all add: sample_flags_def sample_evidence_def empty_manifests_def)
  then show ?thesis
    by (simp add: ExitCode_full_report coverage_complete sample_evaluation gates_nothing_def)
qed

lemma sample_run:
  "\<exists>out. run_scan sample_scan_env sample_flags snap = Some (Inr out) \<and> scan_exit (Inr out) = 0
     \<and> out_Written out = [''out/findings.json'', ''out/report.md'']"
  using sample_exit
  by (simp add: run_scan_def scan_with_def sample_scan_settings sample_collect sample_deliver
      scan_exit_def exitCodeForError_def ExitCode_report)

theorem exit_zero_is_earned_witness:
  "\<exists>snap r. run_scan sample_scan_env sample_flags snap = Some r \<and> scan_exit r = 0
     \<and> manifests_read sample_scan_env sample_flags"
proof -
  obtain snap where collected:
    "k8s_Collect (se_Kube sample_scan_env) embedded_catalog (fl_CollectorConcurrency sample_flags) snap"
    using k8s_Collect_exists by blast
  obtain out where run: "run_scan sample_scan_env sample_flags snap = Some (Inr out)"
    and exit: "scan_exit (Inr out) = 0"
    using sample_run by blast
  have "manifests_requested sample_flags"
    by (simp add: sample_flags_def manifests_requested_def)
  with exit_zero_is_earned [OF run exit collected] run exit show ?thesis by blast
qed

theorem report_presupposes_checks_witness:
  "\<exists>out. run_scan sample_scan_env sample_flags empty_snapshot = Some (Inr out)
     \<and> supported_target sample_scan_env ''1.30'' \<and> out_Written out \<noteq> []"
proof -
  obtain out where run: "run_scan sample_scan_env sample_flags empty_snapshot = Some (Inr out)"
    and written: "out_Written out = [''out/findings.json'', ''out/report.md'']"
    using sample_run by blast
  from report_presupposes_checks [OF run] have "supported_target sample_scan_env ''1.30''"
    by (simp add: sample_flags_def)
  with run written show ?thesis by auto
qed

end
