(* ===== verification/UnionFind.thy ===== *)
theory UnionFind
  imports Prelude "HOL-Library.Monad_Syntax"
begin

text \<open>
  The disjoint sets of resource keys (\<open>resourceUnionFind\<close> in \<open>internal/report/view.go\<close>): a map
  of parents with path compression. \<open>find\<close> follows the parents and would not return on a cycle, so
  it is a partial function. The lemmas show that the operations never build a cycle, that path
  compression changes no representative, and that a sequence of unions yields the equivalence
  closure of its pairs.
\<close>

section \<open>The code\<close>

type_synonym union_find = "string \<rightharpoonup> string" \<comment> \<open>\<open>parent\<close>\<close>

definition newResourceUnionFind :: union_find where
  "newResourceUnionFind = Map.empty"

partial_function (option) uf_find :: "union_find \<Rightarrow> string \<Rightarrow> (string \<times> union_find) option" where
  "uf_find parent x =
     (case parent x of
        None \<Rightarrow> Some (x, parent(x \<mapsto> x))
      | Some p \<Rightarrow>
          if p \<noteq> x then do { (r, parent') \<leftarrow> uf_find parent p; Some (r, parent'(x \<mapsto> r)) }
          else Some (x, parent))"

declare uf_find.simps [code]

definition uf_union :: "union_find \<Rightarrow> string \<Rightarrow> string \<Rightarrow> union_find option" where
  "uf_union parent a b =
     do {
       (ra, parent) \<leftarrow> uf_find parent a;
       (rb, parent) \<leftarrow> uf_find parent b;
       Some (if ra \<noteq> rb then parent(ra \<mapsto> rb) else parent)
     }"

fun union_with :: "string \<Rightarrow> string list \<Rightarrow> union_find \<Rightarrow> union_find option" where
  "union_with a [] parent = Some parent"
| "union_with a (b # bs) parent = do { parent \<leftarrow> uf_union parent a b; union_with a bs parent }"

definition unionAll :: "string list \<Rightarrow> union_find \<Rightarrow> union_find option" where
  \<comment> \<open>the loop from index 1\<close>
  "unionAll keys parent = (case keys of [] \<Rightarrow> Some parent | a # bs \<Rightarrow> union_with a bs parent)"

section \<open>Representatives\<close>

inductive root_of :: "union_find \<Rightarrow> string \<Rightarrow> string \<Rightarrow> bool" for parent where
  unknown: "parent x = None \<Longrightarrow> root_of parent x x"
| root: "parent x = Some x \<Longrightarrow> root_of parent x x"
| step: "parent x = Some p \<Longrightarrow> p \<noteq> x \<Longrightarrow> root_of parent p r \<Longrightarrow> root_of parent x r"

inductive_cases root_ofE: "root_of parent x r"

inductive_simps root_of_iff: "root_of parent x r"

lemma root_of_unique: "root_of parent x r \<Longrightarrow> root_of parent x s \<Longrightarrow> r = s"
proof (induction arbitrary: s rule: root_of.induct)
  case (step x p r)
  then show ?case by (metis option.distinct(1) option.inject root_ofE)
qed (auto elim: root_ofE)

lemma root_of_root: "root_of parent x r \<Longrightarrow> parent r = None \<or> parent r = Some r"
  by (induction rule: root_of.induct) auto

lemma root_of_self: "parent r = None \<or> parent r = Some r \<Longrightarrow> root_of parent r r"
  by (auto intro: root_of.intros)

text \<open>Pointing a key at its own root, as path compression does, changes no root.\<close>

lemma root_of_compress:
  assumes x: "root_of parent x r"
  shows "root_of (parent(x \<mapsto> r)) y s \<longleftrightarrow> root_of parent y s"
proof
  have r: "parent r = None \<or> parent r = Some r" using x by (rule root_of_root)
  let ?q = "parent(x \<mapsto> r)"
  have r': "root_of ?q r r"
    using r by (intro root_of_self) auto
  have x': "root_of ?q x r"
  proof (cases "r = x")
    case True
    show ?thesis using r' unfolding True .
  next
    case False
    have "?q x = Some r" by simp
    from this False r' show ?thesis by (rule root_of.step)
  qed
  show "root_of parent y s \<Longrightarrow> root_of (parent(x \<mapsto> r)) y s"
  proof (induction rule: root_of.induct)
    case (unknown y)
    show ?case
    proof (cases "y = x")
      case True
      with unknown x have "r = y" by (auto elim: root_ofE)
      show ?thesis using r' unfolding \<open>r = y\<close> .
    qed (simp add: unknown root_of.unknown)
  next
    case (root y)
    show ?case
    proof (cases "y = x")
      case True
      with root x have "r = y" by (auto elim: root_ofE)
      show ?thesis using r' unfolding \<open>r = y\<close> .
    qed (simp add: root root_of.root)
  next
    case (step y p s)
    show ?case
    proof (cases "y = x")
      case True
      with step x have "r = s" by (metis root_of.step root_of_unique)
      with x' True show ?thesis by blast
    next
      case False
      with step show ?thesis by (auto intro: root_of.step)
    qed
  qed
  show "root_of (parent(x \<mapsto> r)) y s \<Longrightarrow> root_of parent y s"
  proof (induction rule: root_of.induct)
    case (unknown y)
    then show ?case by (auto intro: root_of.unknown split: if_splits)
  next
    case (root y)
    then show ?case using x by (auto intro: root_of.root split: if_splits)
  next
    case (step y p s)
    show ?case
    proof (cases "y = x")
      case True
      with step have "root_of parent r s" by simp
      with root_of_self [of parent r] r have "s = r" by (blast dest: root_of_unique)
      with x True show ?thesis by simp
    next
      case False
      with step show ?thesis by (auto intro: root_of.step)
    qed
  qed
qed

lemma root_of_touch:
  assumes "parent x = None"
  shows "root_of (parent(x \<mapsto> x)) y s \<longleftrightarrow> root_of parent y s"
  using root_of_compress [OF root_of.unknown, of parent x] assms by blast

text \<open>\<open>find\<close> returns the root, and what it writes changes no root.\<close>

lemma uf_find_root:
  assumes "root_of parent x r"
  shows "\<exists>parent'. uf_find parent x = Some (r, parent')
           \<and> (\<forall>y s. root_of parent' y s \<longleftrightarrow> root_of parent y s)"
  using assms
proof (induction rule: root_of.induct)
  case (unknown x)
  then show ?case by (subst uf_find.simps) (simp add: root_of_touch)
next
  case (root x)
  then show ?case by (subst uf_find.simps) simp
next
  case (step x p r)
  then obtain parent' where find: "uf_find parent p = Some (r, parent')"
    and keeps: "\<forall>y s. root_of parent' y s \<longleftrightarrow> root_of parent y s"
    by blast
  have "root_of parent x r" using step by (blast intro: root_of.step)
  with keeps have "root_of parent' x r" by simp
  from root_of_compress [OF this] keeps find step show ?case
    by (subst uf_find.simps) simp
qed

text \<open>Hanging one root under another.\<close>

lemma root_of_link:
  assumes a: "parent ra = None \<or> parent ra = Some ra"
    and b: "parent rb = None \<or> parent rb = Some rb" and ne: "ra \<noteq> rb"
    and y: "root_of parent y s"
  shows "root_of (parent(ra \<mapsto> rb)) y (if s = ra then rb else s)"
proof -
  let ?p = "parent(ra \<mapsto> rb)"
  have "root_of ?p rb rb" using b ne by (intro root_of_self) auto
  then have linked: "root_of ?p ra rb" using ne by (intro root_of.step [of ?p ra rb rb]) auto
  have other: "root_of ?p y (if y = ra then rb else y)" if "parent y = None \<or> parent y = Some y" for y
  proof (cases "y = ra")
    case True
    show ?thesis using linked unfolding True by simp
  next
    case False
    with that have "root_of ?p y y" by (intro root_of_self) auto
    with False show ?thesis by simp
  qed
  from y show ?thesis
  proof (induction rule: root_of.induct)
    case (unknown y)
    then show ?case using other by blast
  next
    case (root y)
    then show ?case using other by blast
  next
    case (step y p s)
    from step(1,2) a have "y \<noteq> ra" by auto
    then have "?p y = Some p" using step(1) by simp
    from this step(2,4) show ?case by (rule root_of.step)
  qed
qed

section \<open>The contract\<close>

text \<open>
  \<open>represents parent rep\<close>: every key has a root, \<open>rep\<close> of it. This is what the client of the
  structure knows of it; in particular there is no cycle.
\<close>

definition represents :: "union_find \<Rightarrow> (string \<Rightarrow> string) \<Rightarrow> bool" where
  "represents parent rep \<longleftrightarrow> (\<forall>x. root_of parent x (rep x))"

definition merge_rep :: "(string \<Rightarrow> string) \<Rightarrow> string \<Rightarrow> string \<Rightarrow> string \<Rightarrow> string" where
  \<comment> \<open>the representatives after a union\<close>
  "merge_rep rep a b = (\<lambda>y. if rep y = rep a then rep b else rep y)"

text \<open>A sequence of unions, and the relation of having the same representative.\<close>

fun unions :: "('u \<Rightarrow> 'k \<Rightarrow> 'k \<Rightarrow> 'u option) \<Rightarrow> ('k \<times> 'k) list \<Rightarrow> 'u \<Rightarrow> 'u option" where
  "unions union_op [] u = Some u"
| "unions union_op ((a, b) # ps) u =
     (case union_op u a b of None \<Rightarrow> None | Some u' \<Rightarrow> unions union_op ps u')"

lemma unions_append:
  "unions union_op (ps @ qs) u
   = (case unions union_op ps u of None \<Rightarrow> None | Some u' \<Rightarrow> unions union_op qs u')"
  by (induction union_op ps u rule: unions.induct) (auto split: option.splits)

definition kernel :: "('k \<Rightarrow> 'k) \<Rightarrow> 'k \<Rightarrow> 'k \<Rightarrow> bool" where
  "kernel rep x y \<longleftrightarrow> rep x = rep y"

locale disjoint_sets =
  fixes valid :: "'u \<Rightarrow> ('k \<Rightarrow> 'k) \<Rightarrow> bool"
    and find_op :: "'u \<Rightarrow> 'k \<Rightarrow> ('k \<times> 'u) option"
    and union_op :: "'u \<Rightarrow> 'k \<Rightarrow> 'k \<Rightarrow> 'u option"
  assumes find_law: "valid u rep \<Longrightarrow> \<exists>u'. find_op u x = Some (rep x, u') \<and> valid u' rep"
    and union_law: "valid u rep \<Longrightarrow>
      \<exists>u'. union_op u a b = Some u' \<and> valid u' (\<lambda>y. if rep y = rep a then rep b else rep y)"
begin

text \<open>A sequence of unions joins exactly what its pairs connect.\<close>

lemma equivclp_kernel: "equivclp (kernel rep) = kernel rep"
proof (intro ext iffI)
  fix x y
  show "equivclp (kernel rep) x y \<Longrightarrow> kernel rep x y"
    by (induction rule: equivclp_induct) (auto simp: kernel_def)
qed auto

lemma kernel_merge:
  "kernel (\<lambda>y. if rep y = rep a then rep b else rep y)
   = equivclp (\<lambda>x y. kernel rep x y \<or> x = a \<and> y = b)"
proof (intro ext iffI)
  fix x y
  let ?E = "equivclp (\<lambda>x y. kernel rep x y \<or> x = a \<and> y = b)"
  have ab: "?E a b" by (rule r_into_equivclp) simp
  have k: "?E u v" if "rep u = rep v" for u v
    using that by (intro r_into_equivclp) (simp add: kernel_def)
  have joined: "?E u v" if "rep u = rep a" "rep v = rep b" for u v
    using equivclp_trans [OF equivclp_trans [OF k [OF that(1)] ab] k [OF that(2) [symmetric]]] .
  assume "kernel (\<lambda>y. if rep y = rep a then rep b else rep y) x y"
  then consider "rep x = rep y" | "rep x = rep a" "rep y = rep b" | "rep y = rep a" "rep x = rep b"
    by (auto simp: kernel_def split: if_splits)
  then show "?E x y"
    using k joined equivclp_sym [of _ y x] by cases blast+
next
  fix x y
  show "equivclp (\<lambda>x y. kernel rep x y \<or> x = a \<and> y = b) x y
    \<Longrightarrow> kernel (\<lambda>y. if rep y = rep a then rep b else rep y) x y"
    by (induction rule: equivclp_induct) (auto simp: kernel_def split: if_splits)
qed

lemma equivclp_absorb:
  "equivclp (\<lambda>x y. equivclp R x y \<or> S x y) = equivclp (\<lambda>x y. R x y \<or> S x y)"
proof (intro ext iffI)
  fix x y
  have R: "equivclp (\<lambda>x y. R x y \<or> S x y) u v" if "equivclp R u v" for u v
    using that
    by (induction rule: equivclp_induct) (auto intro: equivclp_trans r_into_equivclp equivclp_sym)
  show "equivclp (\<lambda>x y. equivclp R x y \<or> S x y) x y \<Longrightarrow> equivclp (\<lambda>x y. R x y \<or> S x y) x y"
    by (induction rule: equivclp_induct)
       (auto intro: equivclp_trans R equivclp_sym [OF R] r_into_equivclp equivclp_sym)
  show "equivclp (\<lambda>x y. R x y \<or> S x y) x y \<Longrightarrow> equivclp (\<lambda>x y. equivclp R x y \<or> S x y) x y"
    by (induction rule: equivclp_induct)
       (auto intro: equivclp_trans r_into_equivclp equivclp_sym)
qed

lemma unions_closure:
  assumes "valid u rep"
  shows "\<exists>u' rep'. unions union_op ps u = Some u' \<and> valid u' rep'
           \<and> kernel rep' = equivclp (\<lambda>x y. kernel rep x y \<or> (x, y) \<in> set ps)"
  using assms
proof (induction ps arbitrary: u rep)
  case Nil
  then show ?case by (auto simp: equivclp_kernel)
next
  case (Cons p ps)
  obtain a b where p: "p = (a, b)" by (cases p)
  let ?rep = "\<lambda>y. if rep y = rep a then rep b else rep y"
  from union_law [OF Cons.prems, of a b] obtain u1
    where "union_op u a b = Some u1" and "valid u1 ?rep" by blast
  moreover from Cons.IH [OF this(2)] obtain u' rep' where "unions union_op ps u1 = Some u'" "valid u' rep'"
    and "kernel rep' = equivclp (\<lambda>x y. kernel ?rep x y \<or> (x, y) \<in> set ps)" by blast
  moreover from this(3) have "kernel rep' = equivclp (\<lambda>x y. kernel rep x y \<or> (x, y) \<in> set (p # ps))"
    unfolding kernel_merge equivclp_absorb by (simp add: p disj_assoc)
  ultimately show ?case by (auto simp: p)
qed

end

section \<open>The code keeps the contract\<close>

lemma represents_empty: "represents newResourceUnionFind id"
  by (simp add: represents_def newResourceUnionFind_def root_of.unknown)

lemma uf_find_represents:
  assumes "represents parent rep"
  shows "\<exists>parent'. uf_find parent x = Some (rep x, parent') \<and> represents parent' rep"
  using uf_find_root [of parent x "rep x"] assms by (auto simp: represents_def)

lemma uf_union_represents:
  assumes "represents parent rep"
  shows "\<exists>parent'. uf_union parent a b = Some parent' \<and> represents parent' (merge_rep rep a b)"
proof -
  from uf_find_represents [OF assms] obtain p1
    where 1: "uf_find parent a = Some (rep a, p1)" "represents p1 rep" by blast
  from uf_find_represents [OF 1(2)] obtain p2
    where 2: "uf_find p1 b = Some (rep b, p2)" "represents p2 rep" by blast
  have roots: "root_of p2 y (rep y)" for y using 2(2) by (simp add: represents_def)
  show ?thesis
  proof (cases "rep a = rep b")
    case True
    with 1 2 show ?thesis by (simp add: uf_union_def merge_rep_def)
  next
    case False
    then have "represents (p2(rep a \<mapsto> rep b)) (merge_rep rep a b)"
      using root_of_link [OF root_of_root [OF roots [of a]] root_of_root [OF roots [of b]] _ roots]
      by (simp add: represents_def merge_rep_def)
    with 1 2 False show ?thesis by (simp add: uf_union_def)
  qed
qed

interpretation resource_sets: disjoint_sets represents uf_find uf_union
  by unfold_locales
    (use uf_find_represents uf_union_represents [unfolded merge_rep_def] in blast)+

end
