(* ===== verification/ReportView.thy ===== *)
theory ReportView
  imports UnionFind ReportFacts "HOL-Library.Product_Lexorder"
begin

text \<open>
  What every renderer shows and in which order (\<open>internal/report/view.go\<close>): the sections and the
  sort order of findings, the labels of resources, and the next actions, which merge the findings
  that share resources. \<open>sort.Slice\<close> is not stable; the model is the stable sort.
\<close>

section \<open>Resources\<close>

definition resourceLabel :: "ResourceReference \<Rightarrow> string" where
  "resourceLabel r =
     (if ref_Namespace r \<noteq> '''' then ref_Kind r @ ''/'' @ ref_Namespace r @ ''/'' @ ref_Name r
      else ref_Kind r @ ''/'' @ ref_Name r)"

fun unique_refs :: "string list \<Rightarrow> ResourceReference list \<Rightarrow> ResourceReference list" where
  "unique_refs seen [] = []"
| "unique_refs seen (r # rs) =
     (if reference_key r \<in> set seen then unique_refs seen rs
      else r # unique_refs (reference_key r # seen) rs)"

definition uniqueConceptualRefsAndKeys ::
  "ResourceReference list \<Rightarrow> ResourceReference list \<times> string list" where
  "uniqueConceptualRefsAndKeys refs =
     (unique_refs [] refs, map reference_key (unique_refs [] refs))"

definition resourceLabelFromRefs :: "ResourceReference list \<Rightarrow> string" where
  "resourceLabelFromRefs refs =
     (case refs of
        [] \<Rightarrow> ''Unknown/-''
      | [r] \<Rightarrow> resourceLabel r
      | r # _ \<Rightarrow>
          let kind = ref_Kind r; namespace = ref_Namespace r
          in if list_ex (\<lambda>x. ref_Kind x \<noteq> kind \<or> ref_Namespace x \<noteq> namespace) refs
             then Join (sort_strings (map resourceLabel refs)) '', ''
             else let names = Join (sort_strings (map ref_Name refs)) '',''
                  in if namespace \<noteq> '''' then kind @ ''/'' @ namespace @ ''/'' @ names
                     else kind @ ''/'' @ names)"

definition findingResourceIdentity :: "Finding \<Rightarrow> string \<times> string list" where
  "findingResourceIdentity f =
     (case uniqueConceptualRefsAndKeys (f_Resources f) of
        (refs, ks) \<Rightarrow> (resourceLabelFromRefs refs, ks))"

section \<open>The order of findings\<close>

record findingViewMeta =
  fv_Finding :: Finding
  fv_ResourceLabel :: string
  fv_ResourceKeys :: "string list"

definition view_meta :: "Finding \<Rightarrow> findingViewMeta" where
  "view_meta f =
     (case findingResourceIdentity f of
        (label, ks) \<Rightarrow> \<lparr>fv_Finding = f, fv_ResourceLabel = label, fv_ResourceKeys = ks\<rparr>)"

fun view_severityRank :: "Severity \<Rightarrow> nat" where
  "view_severityRank SeverityBlocker = 0"
| "view_severityRank SeverityWarning = 1"
| "view_severityRank _ = 2"

fun confidenceRank :: "ConfidenceTier \<Rightarrow> nat" where
  "confidenceRank TierStaticCertain = 0"
| "confidenceRank TierObserved = 1"
| "confidenceRank TierProviderReported = 2"
| "confidenceRank TierInferred = 3"
| "confidenceRank (TierOther _) = 4"

definition findingMetaLess :: "findingViewMeta \<Rightarrow> findingViewMeta \<Rightarrow> bool" where
  "findingMetaLess a b =
     (let f = fv_Finding a; g = fv_Finding b;
          pa = priorityRank (f_Priority f); pb = priorityRank (f_Priority g);
          sa = view_severityRank (f_Severity f); sb = view_severityRank (f_Severity g);
          ca = confidenceRank (f_Confidence f); cb = confidenceRank (f_Confidence g)
      in if pa \<noteq> pb then pa < pb
         else if sa \<noteq> sb then sa < sb
         else if ca \<noteq> cb then ca < cb
         else if f_RuleID f \<noteq> f_RuleID g then f_RuleID f < f_RuleID g
         else fv_ResourceLabel a < fv_ResourceLabel b)"

definition findingLess :: "Finding \<Rightarrow> Finding \<Rightarrow> bool" where
  "findingLess a b = findingMetaLess (view_meta a) (view_meta b)"

section \<open>Sections\<close>

text \<open>Positions in the list of findings, as in the code.\<close>

record reportFindingIndex =
  ix_metas :: "findingViewMeta list"
  ix_all :: "nat list"
  ix_blockers :: "nat list"
  ix_warnings :: "nat list"
  ix_infos :: "nat list"

definition in_blockers :: "Finding \<Rightarrow> bool" where
  "in_blockers f \<longleftrightarrow> EffectiveUpgradeGate f = UpgradeGateBlock"

definition in_warnings :: "Finding \<Rightarrow> bool" where
  "in_warnings f \<longleftrightarrow>
     EffectiveUpgradeGate f = UpgradeGateOperatorDecision \<or> f_Severity f = SeverityWarning"

definition index_position :: "nat \<Rightarrow> reportFindingIndex \<Rightarrow> reportFindingIndex" where
  \<comment> \<open>the body of the second loop\<close>
  "index_position pos idx =
     (let f = fv_Finding (ix_metas idx ! pos)
      in if in_blockers f then idx\<lparr>ix_blockers := ix_blockers idx @ [pos]\<rparr>
         else if in_warnings f then idx\<lparr>ix_warnings := ix_warnings idx @ [pos]\<rparr>
         else if f_Severity f = SeverityInfo then idx\<lparr>ix_infos := ix_infos idx @ [pos]\<rparr>
         else idx)"

definition newReportFindingIndex :: "Finding list \<Rightarrow> reportFindingIndex" where
  "newReportFindingIndex fs =
     (let metas = map view_meta fs;
          positions = sort_by (\<lambda>i j. findingMetaLess (metas ! i) (metas ! j)) [0 ..< length fs]
      in fold index_position positions
           \<lparr>ix_metas = metas, ix_all = positions, ix_blockers = [], ix_warnings = [], ix_infos = []\<rparr>)"

definition metasFor :: "reportFindingIndex \<Rightarrow> nat list \<Rightarrow> findingViewMeta list" where
  "metasFor idx positions = map (\<lambda>pos. ix_metas idx ! pos) positions"

definition index_findings :: "reportFindingIndex \<Rightarrow> nat list \<Rightarrow> Finding list" where
  "index_findings idx positions = map (\<lambda>pos. fv_Finding (ix_metas idx ! pos)) positions"

fun index_severity :: "reportFindingIndex \<Rightarrow> Severity \<Rightarrow> Finding list" where
  "index_severity idx SeverityBlocker = index_findings idx (ix_blockers idx)"
| "index_severity idx SeverityWarning = index_findings idx (ix_warnings idx)"
| "index_severity idx SeverityInfo = index_findings idx (ix_infos idx)"
| "index_severity idx (SeverityOther _) = []"

definition allMetas :: "reportFindingIndex \<Rightarrow> findingViewMeta list" where
  "allMetas idx = metasFor idx (ix_all idx)"

definition topMetas :: "reportFindingIndex \<Rightarrow> int \<Rightarrow> findingViewMeta list" where
  "topMetas idx limit =
     (let limit = (if limit > int (length (ix_all idx)) then int (length (ix_all idx)) else limit)
      in if limit \<le> 0 then [] else metasFor idx (take (nat limit) (ix_all idx)))"

definition actionableMetas :: "reportFindingIndex \<Rightarrow> findingViewMeta list" where
  "actionableMetas idx = metasFor idx (ix_blockers idx) @ metasFor idx (ix_warnings idx)"

definition filterAndSort :: "Finding list \<Rightarrow> Severity \<Rightarrow> Finding list" where
  "filterAndSort fs sev = index_severity (newReportFindingIndex fs) sev"

definition allSorted :: "Finding list \<Rightarrow> Finding list" where
  "allSorted fs = (let idx = newReportFindingIndex fs in index_findings idx (ix_all idx))"

section \<open>Next actions\<close>

record NextAction =
  na_ResourceLabel :: string
  na_RuleIDs :: "string list"
  na_Severity :: Severity
  na_Primary :: Finding
  na_Related :: "Finding list"

text \<open>The ranks and the tie-break of a group.\<close>

definition least_rank :: "('a \<Rightarrow> nat) \<Rightarrow> nat \<Rightarrow> 'a list \<Rightarrow> nat" where
  \<comment> \<open>the loop of the three group ranks\<close>
  "least_rank rank start xs = foldl (\<lambda>best x. if rank x < best then rank x else best) start xs"

definition groupMetaPriorityRank :: "findingViewMeta list \<Rightarrow> nat" where
  "groupMetaPriorityRank metas =
     least_rank (\<lambda>m. priorityRank (f_Priority (fv_Finding m))) (priorityRank ''P4'') metas"

definition groupMetaSeverityRank :: "findingViewMeta list \<Rightarrow> nat" where
  "groupMetaSeverityRank metas =
     least_rank (\<lambda>m. view_severityRank (f_Severity (fv_Finding m))) (view_severityRank SeverityInfo)
       metas"

definition groupMetaConfidenceRank :: "findingViewMeta list \<Rightarrow> nat" where
  "groupMetaConfidenceRank metas =
     least_rank (\<lambda>m. confidenceRank (f_Confidence (fv_Finding m))) (confidenceRank TierInferred) metas"

definition groupMetaSortKey :: "findingViewMeta list \<Rightarrow> string" where
  "groupMetaSortKey metas =
     Join (sort_strings (append_all_unique [] (concat (map fv_ResourceKeys metas)))) '':''"

definition primary_step :: "findingViewMeta \<Rightarrow> findingViewMeta \<Rightarrow> findingViewMeta" where
  "primary_step best meta =
     (let r = view_severityRank (f_Severity (fv_Finding meta));
          bestRank = view_severityRank (f_Severity (fv_Finding best))
      in if r < bestRank \<or> r = bestRank \<and> f_RuleID (fv_Finding meta) < f_RuleID (fv_Finding best)
         then meta else best)"

definition primaryFindingMeta :: "findingViewMeta list \<Rightarrow> findingViewMeta" where
  "primaryFindingMeta metas = foldl primary_step (hd metas) (tl metas)"

text \<open>
  The same on findings, with the keys and labels computed anew; the code keeps these versions beside
  those on \<open>findingViewMeta\<close>.
\<close>

definition uniqueConceptualRefs :: "ResourceReference list \<Rightarrow> ResourceReference list" where
  "uniqueConceptualRefs refs = fst (uniqueConceptualRefsAndKeys refs)"

definition findingResourceLabel :: "Finding \<Rightarrow> string" where
  "findingResourceLabel f = fst (findingResourceIdentity f)"

fun unique_keys :: "string list \<Rightarrow> ResourceReference list \<Rightarrow> string list" where
  "unique_keys seen [] = []"
| "unique_keys seen (r # rs) =
     (if reference_key r \<in> set seen then unique_keys seen rs
      else reference_key r # unique_keys (reference_key r # seen) rs)"

definition individualResourceKeys :: "Finding \<Rightarrow> string list" where
  "individualResourceKeys f = unique_keys [] (f_Resources f)"

definition groupPriorityRank :: "Finding list \<Rightarrow> nat" where
  "groupPriorityRank fs = least_rank (\<lambda>f. priorityRank (f_Priority f)) (priorityRank ''P4'') fs"

definition groupSeverityRank :: "Finding list \<Rightarrow> nat" where
  "groupSeverityRank fs =
     least_rank (\<lambda>f. view_severityRank (f_Severity f)) (view_severityRank SeverityInfo) fs"

definition groupConfidenceRank :: "Finding list \<Rightarrow> nat" where
  "groupConfidenceRank fs =
     least_rank (\<lambda>f. confidenceRank (f_Confidence f)) (confidenceRank TierInferred) fs"

definition groupSortKey :: "Finding list \<Rightarrow> string" where
  "groupSortKey fs =
     Join (sort_strings (append_all_unique [] (concat (map individualResourceKeys fs)))) '':''"

definition primaryFinding :: "Finding list \<Rightarrow> Finding" where
  "primaryFinding fs =
     foldl (\<lambda>best f.
         let r = view_severityRank (f_Severity f); bestRank = view_severityRank (f_Severity best)
         in if r < bestRank \<or> r = bestRank \<and> f_RuleID f < f_RuleID best then f else best)
       (hd fs) (tl fs)"

text \<open>The two loops that unite the keys of each finding, and of findings with a common key.\<close>

fun unite_findings :: "string list list \<Rightarrow> union_find \<Rightarrow> union_find option" where
  "unite_findings [] uf = Some uf"
| "unite_findings (ks # rest) uf = do { uf \<leftarrow> unionAll ks uf; unite_findings rest uf }"

fun unite_carriers ::
  "(string \<times> string) list \<Rightarrow> (string \<rightharpoonup> string) \<Rightarrow> union_find \<Rightarrow> union_find option" where
  \<comment> \<open>at the keys, each with the first key of its finding\<close>
  "unite_carriers [] firstCarrier uf = Some uf"
| "unite_carriers ((k, first) # rest) firstCarrier uf =
     (case firstCarrier k of
        Some rep \<Rightarrow> do { uf \<leftarrow> uf_union uf k rep; unite_carriers rest firstCarrier uf }
      | None \<Rightarrow> unite_carriers rest (firstCarrier(k \<mapsto> first)) uf)"

definition key_sites :: "string list list \<Rightarrow> (string \<times> string) list" where
  "key_sites findingKeys = concat (map (\<lambda>ks. map (\<lambda>k. (k, hd ks)) ks) findingKeys)"

fun assign_roots ::
  "findingViewMeta list \<Rightarrow> union_find \<Rightarrow> (string \<times> findingViewMeta) list option" where
  "assign_roots [] uf = Some []"
| "assign_roots (meta # rest) uf =
     (case fv_ResourceKeys meta of
        [] \<Rightarrow> do {
          assigned \<leftarrow> assign_roots rest uf;
          Some ((''solo:'' @ f_Fingerprint (fv_Finding meta), meta) # assigned)
        }
      | k # _ \<Rightarrow> do {
          (root, uf) \<leftarrow> uf_find uf k;
          assigned \<leftarrow> assign_roots rest uf;
          Some ((root, meta) # assigned)
        })"

definition group_of :: "(string \<times> findingViewMeta) list \<Rightarrow> string \<Rightarrow> findingViewMeta list" where
  "group_of assigned root = map snd (filter (\<lambda>(r, _). r = root) assigned)"

definition group_less :: "findingViewMeta list \<Rightarrow> findingViewMeta list \<Rightarrow> bool" where
  "group_less gi gj =
     (let pi = groupMetaPriorityRank gi; pj = groupMetaPriorityRank gj;
          si = groupMetaSeverityRank gi; sj = groupMetaSeverityRank gj;
          ci = groupMetaConfidenceRank gi; cj = groupMetaConfidenceRank gj
      in if pi \<noteq> pj then pi < pj
         else if si \<noteq> sj then si < sj
         else if ci \<noteq> cj then ci < cj
         else groupMetaSortKey gi < groupMetaSortKey gj)"

definition next_action :: "findingViewMeta list \<Rightarrow> NextAction" where
  "next_action members =
     (let primaryMeta = primaryFindingMeta members; primary = fv_Finding primaryMeta
      in \<lparr>na_ResourceLabel = fv_ResourceLabel primaryMeta,
          na_RuleIDs = sort_strings (map (\<lambda>m. f_RuleID (fv_Finding m)) members),
          na_Severity = f_Severity primary, na_Primary = primary,
          na_Related =
            filter (\<lambda>f. \<not> (f_RuleID f = f_RuleID primary \<or> f_Remediation f = f_Remediation primary))
              (map fv_Finding members)\<rparr>)"

definition buildNextActionsFromMetas :: "findingViewMeta list \<Rightarrow> NextAction list option" where
  "buildNextActionsFromMetas metas =
     (if metas = [] then Some []
      else do {
        uf \<leftarrow> unite_findings (map fv_ResourceKeys metas) newResourceUnionFind;
        uf \<leftarrow> unite_carriers (key_sites (map fv_ResourceKeys metas)) Map.empty uf;
        assigned \<leftarrow> assign_roots metas uf;
        let order = sort_by (\<lambda>ri rj. group_less (group_of assigned ri) (group_of assigned rj))
              (append_all_unique [] (map fst assigned));
        Some (map (\<lambda>root. next_action (group_of assigned root)) order)
      })"

definition buildNextActions :: "Finding list \<Rightarrow> NextAction list option" where
  "buildNextActions fs = buildNextActionsFromMetas (map view_meta fs)"

subsection \<open>The two versions agree\<close>

lemma unique_keys_refs: "unique_keys seen refs = map reference_key (unique_refs seen refs)"
  by (induction seen refs rule: unique_refs.induct) simp_all

lemma view_meta_simps:
  "fv_Finding (view_meta f) = f"
  "fv_ResourceLabel (view_meta f) = findingResourceLabel f"
  "fv_ResourceKeys (view_meta f) = individualResourceKeys f"
  by (simp_all add: view_meta_def findingResourceLabel_def individualResourceKeys_def unique_keys_refs
      findingResourceIdentity_def uniqueConceptualRefsAndKeys_def)

lemma least_rank_map: "least_rank rank start (map g xs) = least_rank (\<lambda>x. rank (g x)) start xs"
  by (simp add: least_rank_def foldl_map)

lemma group_views_agree:
  "groupMetaPriorityRank (map view_meta fs) = groupPriorityRank fs"
  "groupMetaSeverityRank (map view_meta fs) = groupSeverityRank fs"
  "groupMetaConfidenceRank (map view_meta fs) = groupConfidenceRank fs"
  "groupMetaSortKey (map view_meta fs) = groupSortKey fs"
  by (simp_all add: groupMetaPriorityRank_def groupPriorityRank_def groupMetaSeverityRank_def
      groupSeverityRank_def groupMetaConfidenceRank_def groupConfidenceRank_def least_rank_map
      groupMetaSortKey_def groupSortKey_def comp_def view_meta_simps)

lemma primary_views_agree:
  assumes "fs \<noteq> []"
  shows "primaryFindingMeta (map view_meta fs) = view_meta (primaryFinding fs)"
proof -
  have "foldl primary_step (view_meta best) (map view_meta gs)
      = view_meta (foldl (\<lambda>best f.
         let r = view_severityRank (f_Severity f); bestRank = view_severityRank (f_Severity best)
         in if r < bestRank \<or> r = bestRank \<and> f_RuleID f < f_RuleID best then f else best) best gs)"
    for best gs
    by (induction gs arbitrary: best) (simp_all add: primary_step_def view_meta_simps Let_def)
  with assms show ?thesis by (cases fs) (simp_all add: primaryFindingMeta_def primaryFinding_def)
qed

section \<open>Small helpers\<close>

definition orDash :: "string \<Rightarrow> string" where
  "orDash s = (if s = '''' then ''-'' else s)"

definition impactScopesLabel :: "ImpactScope list \<Rightarrow> string" where
  "impactScopesLabel scopes =
     (if scopes = [] then ''-'' else Join (map impact_string scopes) '', '')"

definition yesNo :: "bool \<Rightarrow> string" where
  "yesNo b = (if b then ''Yes'' else ''No'')"

definition firstLine :: "string \<Rightarrow> string" where
  "firstLine s =
     (if CHR 0x0A \<in> set s then takeWhile (\<lambda>c. c \<noteq> CHR 0x0A) s @ '' ...'' else s)"

definition coverageIssueLines :: "Report \<Rightarrow> string list" where
  "coverageIssueLines r =
     concat (map (\<lambda>(name, c).
         if pc_Status c \<noteq> CoveragePartial then []
         else if pc_Errors c = [] then [name @ '': incomplete'']
         else map (\<lambda>err. name @ '': '' @ err) (pc_Errors c))
       [(''Kubernetes'', sc_Kubernetes (r_Coverage r)), (''AWS'', sc_AWS (r_Coverage r)),
        (''Manifests'', sc_Manifests (r_Coverage r))])"

text \<open>\<open>strings.LastIndex\<close>: the text after the last occurrence of the marker.\<close>

fun after_last :: "string \<Rightarrow> string \<Rightarrow> string option" where
  "after_last marker [] = (if marker = '''' then Some '''' else None)"
| "after_last marker (c # cs) =
     (case after_last marker cs of
        Some rest \<Rightarrow> Some rest
      | None \<Rightarrow> if HasPrefix (c # cs) marker then Some (drop (length marker) (c # cs)) else None)"

definition shortenEKSClusterARN :: "string \<Rightarrow> string option" where
  "shortenEKSClusterARN identifier =
     (if \<not> HasPrefix identifier ''arn:aws:eks:'' then None
      else case after_last '':cluster/'' identifier of
             None \<Rightarrow> None
           | Some name \<Rightarrow> if name = '''' then None else Some name)"

definition clusterDisplayName :: "Report \<Rightarrow> string \<times> string" where
  "clusterDisplayName r =
     (let fallback = (case shortenEKSClusterARN (r_ClusterContext r) of
                        Some name \<Rightarrow> (name, r_ClusterContext r)
                      | None \<Rightarrow> (r_ClusterContext r, r_ClusterContext r))
      in case r_EKSCluster r of
           Some c \<Rightarrow>
             if ekc_ClusterName c \<noteq> ''''
             then (ekc_ClusterName c,
                   if ekc_ARN c = '''' then r_ClusterContext r else ekc_ARN c)
             else fallback
         | None \<Rightarrow> fallback)"

end
