(* ===== verification/ViewFacts.thy ===== *)
theory ViewFacts
  imports ReportView
begin

text \<open>
  What the renderers can rely on: the sections of a report lose no finding that matters, and the
  next actions group the findings exactly by shared resources.
\<close>

section \<open>Sections\<close>

definition meta_key :: "findingViewMeta \<Rightarrow> nat \<times> nat \<times> nat \<times> string \<times> string" where
  "meta_key m =
     (let f = fv_Finding m
      in (priorityRank (f_Priority f), view_severityRank (f_Severity f),
          confidenceRank (f_Confidence f), f_RuleID f, fv_ResourceLabel m))"

lemma less_pair_if: "(a, b) < (c, d) \<longleftrightarrow> (if a \<noteq> c then a < c else b < d)"
  for a c :: "'a::linorder" and b d :: "'b::linorder"
  by (auto simp: less_prod_def)

interpretation finding_order: key_comparison findingMetaLess meta_key
  by unfold_locales
    (simp only: findingMetaLess_def meta_key_def Let_def less_pair_if split: if_split)

lemma sort_by_image:
  fixes key :: "'a \<Rightarrow> 'k::linorder"
  assumes "\<And>x y. lt x y \<longleftrightarrow> key x < key y"
  shows "sorted_wrt (\<lambda>x y. \<not> lt (g y) (g x)) (sort_by (\<lambda>x y. lt (g x) (g y)) xs)"
  by (rule key_comparison.sort_by_sorted_wrt [where sort_key_of = "\<lambda>x. key (g x)"],
      rule key_comparison.intro, rule assms)

text \<open>The section of the report a finding belongs to, if any.\<close>

definition section_of :: "Finding \<Rightarrow> Severity option" where
  "section_of f =
     (if in_blockers f then Some SeverityBlocker
      else if in_warnings f then Some SeverityWarning
      else if f_Severity f = SeverityInfo then Some SeverityInfo
      else None)"

lemma index_position_section:
  "index_position p idx =
     idx\<lparr>ix_blockers := ix_blockers idx
           @ (if section_of (fv_Finding (ix_metas idx ! p)) = Some SeverityBlocker then [p] else []),
         ix_warnings := ix_warnings idx
           @ (if section_of (fv_Finding (ix_metas idx ! p)) = Some SeverityWarning then [p] else []),
         ix_infos := ix_infos idx
           @ (if section_of (fv_Finding (ix_metas idx ! p)) = Some SeverityInfo then [p] else [])\<rparr>"
proof -
  let ?f = "fv_Finding (ix_metas idx ! p)"
  consider "in_blockers ?f" | "\<not> in_blockers ?f" "in_warnings ?f"
    | "\<not> in_blockers ?f" "\<not> in_warnings ?f" "f_Severity ?f = SeverityInfo"
    | "\<not> in_blockers ?f" "\<not> in_warnings ?f" "f_Severity ?f \<noteq> SeverityInfo"
    by blast
  then show ?thesis
    by cases (simp_all add: index_position_def section_of_def Let_def)
qed

lemma filter_Cons_append: "filter P (x # xs) = (if P x then [x] else []) @ filter P xs"
  by simp

lemma index_fold:
  "fold index_position ps idx =
     idx\<lparr>ix_blockers := ix_blockers idx
           @ filter (\<lambda>p. section_of (fv_Finding (ix_metas idx ! p)) = Some SeverityBlocker) ps,
         ix_warnings := ix_warnings idx
           @ filter (\<lambda>p. section_of (fv_Finding (ix_metas idx ! p)) = Some SeverityWarning) ps,
         ix_infos := ix_infos idx
           @ filter (\<lambda>p. section_of (fv_Finding (ix_metas idx ! p)) = Some SeverityInfo) ps\<rparr>"
  by (induction ps arbitrary: idx)
    (simp_all add: index_position_section filter_Cons_append del: filter.simps(2))

definition sorted_positions :: "Finding list \<Rightarrow> nat list" where
  "sorted_positions fs =
     sort_by (\<lambda>i j. findingMetaLess (map view_meta fs ! i) (map view_meta fs ! j)) [0 ..< length fs]"

lemma index_sections:
  "ix_blockers (newReportFindingIndex fs) =
     filter (\<lambda>p. section_of (fv_Finding (map view_meta fs ! p)) = Some SeverityBlocker)
       (sorted_positions fs)"
  "ix_warnings (newReportFindingIndex fs) =
     filter (\<lambda>p. section_of (fv_Finding (map view_meta fs ! p)) = Some SeverityWarning)
       (sorted_positions fs)"
  "ix_infos (newReportFindingIndex fs) =
     filter (\<lambda>p. section_of (fv_Finding (map view_meta fs ! p)) = Some SeverityInfo)
       (sorted_positions fs)"
  by (simp_all add: newReportFindingIndex_def sorted_positions_def index_fold Let_def)

lemma index_simps:
  "ix_metas (newReportFindingIndex fs) = map view_meta fs"
  "ix_all (newReportFindingIndex fs) = sorted_positions fs"
  by (simp_all add: newReportFindingIndex_def sorted_positions_def index_fold Let_def)

lemma positions_in_range: "p \<in> set (sorted_positions fs) \<Longrightarrow> p < length fs"
  by (simp add: sorted_positions_def)

lemma view_meta_finding [simp]: "fv_Finding (view_meta f) = f"
  by (simp add: view_meta_def split: prod.split)

lemma allSorted_eq: "allSorted fs = map (nth fs) (sorted_positions fs)"
  by (auto simp: allSorted_def index_simps index_findings_def Let_def dest: positions_in_range)

lemma filterAndSort_eq:
  "filterAndSort fs sev = filter (\<lambda>f. section_of f = Some sev) (allSorted fs)"
proof -
  have cut: "map (\<lambda>p. fv_Finding (map view_meta fs ! p))
        (filter (\<lambda>p. section_of (fv_Finding (map view_meta fs ! p)) = Some s) (sorted_positions fs))
      = filter (\<lambda>f. section_of f = Some s) (map (nth fs) (sorted_positions fs))" for s
    by (auto simp: filter_map comp_def dest!: positions_in_range
        intro!: arg_cong2 [where f = map] filter_cong map_cong)
  show ?thesis
  proof (cases sev)
    case (SeverityOther s)
    have "section_of f \<noteq> Some (SeverityOther s)" for f by (simp add: section_of_def)
    then show ?thesis using SeverityOther by (simp add: filterAndSort_def)
  qed (simp_all only: filterAndSort_def allSorted_eq cut index_severity.simps index_findings_def
        index_simps index_sections)
qed

lemma allSorted_mset: "mset (allSorted fs) = mset fs"
proof -
  have "mset (allSorted fs) = image_mset (nth fs) (mset [0 ..< length fs])"
    by (simp add: allSorted_eq sorted_positions_def)
  also have "\<dots> = mset (map (nth fs) [0 ..< length fs])" by (simp only: mset_map)
  also have "\<dots> = mset fs" by (simp only: map_nth)
  finally show ?thesis .
qed

lemma allSorted_sorted: "sorted_wrt (\<lambda>f g. \<not> findingLess g f) (allSorted fs)"
proof -
  have "sorted_wrt (\<lambda>i j. \<not> findingMetaLess (map view_meta fs ! j) (map view_meta fs ! i))
      (sorted_positions fs)"
    unfolding sorted_positions_def by (rule sort_by_image) (rule finding_order.less_key)
  then show ?thesis
    unfolding allSorted_eq sorted_wrt_map findingLess_def
    by (rule sorted_wrt_mono_rel [rotated]) (auto simp: positions_in_range)
qed

text \<open>
  C29: The sections of a report are cuts of one sorted list of all its findings: each finding
  occurs in it once, in the order of priority, severity, confidence, rule and resource. A finding
  is in the section of its effective gate or severity and in no other. Every finding that blocks or
  waits for an operator is shown; the only findings of a known severity in no section are those of
  severity blocker whose gate was lowered to let the upgrade continue.
\<close>

theorem report_sections:
  "mset (allSorted fs) = mset fs \<and> sorted_wrt (\<lambda>f g. \<not> findingLess g f) (allSorted fs)
   \<and> filterAndSort fs SeverityBlocker = filter in_blockers (allSorted fs)
   \<and> filterAndSort fs SeverityWarning
       = filter (\<lambda>f. \<not> in_blockers f \<and> in_warnings f) (allSorted fs)
   \<and> filterAndSort fs SeverityInfo
       = filter (\<lambda>f. \<not> in_blockers f \<and> \<not> in_warnings f \<and> f_Severity f = SeverityInfo) (allSorted fs)
   \<and> {f \<in> set fs. section_of f = None}
       = {f \<in> set fs. EffectiveUpgradeGate f \<notin> {UpgradeGateBlock, UpgradeGateOperatorDecision}
                      \<and> f_Severity f \<notin> {SeverityWarning, SeverityInfo}}"
  unfolding filterAndSort_eq
  by (auto simp: allSorted_mset allSorted_sorted section_of_def in_blockers_def in_warnings_def
      intro!: filter_cong split: if_splits)

section \<open>Groups\<close>

definition key_pairs :: "string list \<Rightarrow> (string \<times> string) list" where
  "key_pairs ks = (case ks of [] \<Rightarrow> [] | a # bs \<Rightarrow> map (Pair a) bs)"

lemma union_with_unions: "union_with a bs uf = unions uf_union (map (Pair a) bs) uf"
  by (induction a bs uf rule: union_with.induct) (auto split: option.splits)

lemma unionAll_unions: "unionAll ks uf = unions uf_union (key_pairs ks) uf"
  by (simp add: unionAll_def key_pairs_def union_with_unions split: list.split)

lemma unite_findings_unions:
  "unite_findings K uf = unions uf_union (concat (map key_pairs K)) uf"
  by (induction K uf rule: unite_findings.induct)
     (auto simp: unionAll_unions unions_append split: option.splits)

fun carrier_pairs :: "(string \<times> string) list \<Rightarrow> (string \<rightharpoonup> string) \<Rightarrow> (string \<times> string) list" where
  "carrier_pairs [] c = []"
| "carrier_pairs ((k, first) # rest) c =
     (case c k of Some rep \<Rightarrow> (k, rep) # carrier_pairs rest c
      | None \<Rightarrow> carrier_pairs rest (c(k \<mapsto> first)))"

lemma unite_carriers_unions:
  "unite_carriers sites c uf = unions uf_union (carrier_pairs sites c) uf"
  by (induction sites c uf rule: unite_carriers.induct)
     (auto split: option.splits simp del: fun_upd_apply)

definition together :: "string list list \<Rightarrow> string \<Rightarrow> string \<Rightarrow> bool" where
  "together K x y \<longleftrightarrow> (\<exists>ks\<in>set K. x \<in> set ks \<and> y \<in> set ks)"

lemma carrier_pairs_together:
  assumes "\<forall>k first. (k, first) \<in> set sites \<longrightarrow> together K k first"
    and "\<forall>k rep. c k = Some rep \<longrightarrow> together K k rep"
  shows "(x, y) \<in> set (carrier_pairs sites c) \<Longrightarrow> together K x y"
  using assms by (induction sites c rule: carrier_pairs.induct) (auto split: option.splits if_splits)

lemma key_sites_together: "(k, first) \<in> set (key_sites K) \<Longrightarrow> together K k first"
  by (fastforce simp: key_sites_def together_def intro: hd_in_set)

lemma key_pairs_together: "(x, y) \<in> set (key_pairs ks) \<Longrightarrow> ks \<in> set K \<Longrightarrow> together K x y"
  by (cases ks) (auto simp: key_pairs_def together_def intro!: bexI [of _ ks])

lemma together_sym: "together K x y \<Longrightarrow> together K y x"
  by (auto simp: together_def)

text \<open>The unions of the code.\<close>

definition all_pairs :: "string list list \<Rightarrow> (string \<times> string) list" where
  "all_pairs K = concat (map key_pairs K) @ carrier_pairs (key_sites K) Map.empty"

lemma all_pairs_together: "(x, y) \<in> set (all_pairs K) \<Longrightarrow> together K x y"
  using carrier_pairs_together [of "key_sites K" K Map.empty x y]
  by (auto simp: all_pairs_def dest: key_sites_together key_pairs_together)

lemma all_pairs_head:
  assumes "ks \<in> set K" and "k \<in> set ks"
  shows "k = hd ks \<or> (hd ks, k) \<in> set (all_pairs K)"
proof -
  have "k = hd ks \<or> (hd ks, k) \<in> set (key_pairs ks)"
    using assms(2) by (cases ks) (auto simp: key_pairs_def)
  with assms(1) show ?thesis by (auto simp: all_pairs_def)
qed

definition root_label :: "(string \<Rightarrow> string) \<Rightarrow> findingViewMeta \<Rightarrow> string" where
  "root_label rep m =
     (case fv_ResourceKeys m of
        [] \<Rightarrow> ''solo:'' @ f_Fingerprint (fv_Finding m) | k # _ \<Rightarrow> rep k)"

lemma assign_roots_eq:
  "represents uf rep \<Longrightarrow> assign_roots ms uf = Some (map (\<lambda>m. (root_label rep m, m)) ms)"
proof (induction ms arbitrary: uf)
  case (Cons m ms)
  show ?case
  proof (cases "fv_ResourceKeys m")
    case Nil
    with Cons show ?thesis by (simp add: root_label_def)
  next
    case (Cons k ks)
    from uf_find_represents [OF \<open>represents uf rep\<close>] obtain uf'
      where "uf_find uf k = Some (rep k, uf')" "represents uf' rep" by blast
    with Cons \<open>\<And>uf. represents uf rep \<Longrightarrow> _\<close> show ?thesis by (simp add: root_label_def)
  qed
qed simp

text \<open>Findings are linked if a chain of shared resources leads from one to the other.\<close>

definition shares_key :: "findingViewMeta list \<Rightarrow> findingViewMeta \<Rightarrow> findingViewMeta \<Rightarrow> bool" where
  "shares_key ms a b \<longleftrightarrow>
     a \<in> set ms \<and> b \<in> set ms \<and> set (fv_ResourceKeys a) \<inter> set (fv_ResourceKeys b) \<noteq> {}"

definition linked :: "findingViewMeta list \<Rightarrow> findingViewMeta \<Rightarrow> findingViewMeta \<Rightarrow> bool" where
  "linked ms = equivclp (shares_key ms)"

lemma linked_keys:
  assumes "equivclp (\<lambda>x y. x = y \<or> (x, y) \<in> set (all_pairs (map fv_ResourceKeys ms))) x y"
    and "a \<in> set ms" "x \<in> set (fv_ResourceKeys a)" "b \<in> set ms" "y \<in> set (fv_ResourceKeys b)"
  shows "linked ms a b"
  using assms
proof (induction arbitrary: b rule: equivclp_induct)
  case base
  then show ?case unfolding linked_def
    by (intro r_into_equivclp) (auto simp: shares_key_def)
next
  case (step y z)
  consider "y = z" | "together (map fv_ResourceKeys ms) y z"
    using step(2) all_pairs_together together_sym by blast
  then show ?case
  proof cases
    case 1
    with step show ?thesis by blast
  next
    case 2
    then obtain m where m: "m \<in> set ms" "y \<in> set (fv_ResourceKeys m)" "z \<in> set (fv_ResourceKeys m)"
      by (auto simp: together_def)
    from step m have "linked ms a m" by blast
    moreover have "linked ms m b" unfolding linked_def
      using m step by (intro r_into_equivclp) (auto simp: shares_key_def)
    ultimately show ?thesis unfolding linked_def by (rule equivclp_trans)
  qed
qed

lemma same_root_linked:
  assumes rep: "kernel rep
      = equivclp (\<lambda>x y. x = y \<or> (x, y) \<in> set (all_pairs (map fv_ResourceKeys ms)))"
    and "a \<in> set ms" "b \<in> set ms" "fv_ResourceKeys a \<noteq> []" "fv_ResourceKeys b \<noteq> []"
    and keyed: "\<forall>m\<in>set ms. fv_ResourceKeys m \<noteq> []"
  shows "root_label rep a = root_label rep b \<longleftrightarrow> linked ms a b"
proof -
  let ?R = "\<lambda>x y. x = y \<or> (x, y) \<in> set (all_pairs (map fv_ResourceKeys ms))"
  have label: "root_label rep m = rep (hd (fv_ResourceKeys m))" if "m \<in> set ms" for m
    using keyed that by (auto simp: root_label_def split: list.split)
  have rep_iff: "rep x = rep y \<longleftrightarrow> equivclp ?R x y" for x y
    using fun_cong [OF fun_cong [OF rep]] by (simp add: kernel_def)
  have head: "rep k = rep (hd (fv_ResourceKeys m))" if "m \<in> set ms" "k \<in> set (fv_ResourceKeys m)" for m k
    using all_pairs_head [of "fv_ResourceKeys m" "map fv_ResourceKeys ms" k] that unfolding rep_iff
    by (auto intro: r_into_equivclp equivclp_sym)
  have "rep (hd (fv_ResourceKeys a)) = rep (hd (fv_ResourceKeys b))" if "linked ms a b"
    using that unfolding linked_def
  proof (induction rule: equivclp_induct)
    case (step y z)
    from step(2) obtain k where "y \<in> set ms" "z \<in> set ms" "k \<in> set (fv_ResourceKeys y)"
      "k \<in> set (fv_ResourceKeys z)"
      by (auto simp: shares_key_def)
    with head step show ?case by metis
  qed simp
  moreover have "linked ms a b" if "rep (hd (fv_ResourceKeys a)) = rep (hd (fv_ResourceKeys b))"
    using linked_keys that assms(2-5) unfolding rep_iff by simp
  ultimately show ?thesis using label assms(2,3) by auto
qed


section \<open>Next actions\<close>

definition group_key :: "findingViewMeta list \<Rightarrow> nat \<times> nat \<times> nat \<times> string" where
  "group_key g =
     (groupMetaPriorityRank g, groupMetaSeverityRank g, groupMetaConfidenceRank g, groupMetaSortKey g)"

interpretation group_order: key_comparison group_less group_key
  by unfold_locales (simp only: group_less_def group_key_def Let_def less_pair_if split: if_split)

lemma distinct_sort_by: "distinct (sort_by lt xs) \<longleftrightarrow> distinct xs"
  by (rule mset_eq_imp_distinct_iff) simp

lemma mset_insert_into_groups:
  assumes "distinct rs" and "q \<in> set rs"
  shows "mset (concat (map (\<lambda>r. (if r = q then [m] else []) @ g r) rs))
    = add_mset m (mset (concat (map g rs)))"
  using assms
proof (induction rs)
  case (Cons r rs)
  show ?case
  proof (cases "r = q")
    case True
    with Cons.prems have "q \<notin> set rs" by simp
    then have eq: "map (\<lambda>r. (if r = q then [m] else []) @ g r) rs = map g rs"
      by (intro map_cong) auto
    have "concat (map (\<lambda>r. (if r = q then [m] else []) @ g r) (r # rs)) = m # g q @ concat (map g rs)"
      by (simp only: list.map concat.simps eq True) simp
    then show ?thesis unfolding True by (simp only: list.map concat.simps mset.simps)
  qed (use Cons in auto)
qed simp

lemma mset_groups:
  assumes "distinct rs" and "fst ` set xs \<subseteq> set rs"
  shows "mset (concat (map (group_of xs) rs)) = mset (map snd xs)"
  using assms(2)
proof (induction xs)
  case Nil
  then show ?case by (induction rs) (auto simp: group_of_def)
next
  case (Cons x xs)
  have "group_of (x # xs) = (\<lambda>r. (if r = fst x then [snd x] else []) @ group_of xs r)"
    by (auto simp: group_of_def fun_eq_iff split: prod.split)
  then show ?case
    using mset_insert_into_groups [OF assms(1), of "fst x" "snd x" "group_of xs"] Cons by simp
qed

lemma unique_refs_nonempty: "refs \<noteq> [] \<Longrightarrow> unique_refs [] refs \<noteq> []"
  by (cases refs) auto

lemma view_meta_keys: "f_Resources f \<noteq> [] \<Longrightarrow> fv_ResourceKeys (view_meta f) \<noteq> []"
  by (auto simp: view_meta_def findingResourceIdentity_def uniqueConceptualRefsAndKeys_def
      unique_refs_nonempty)

lemma linked_self: "linked ms m m"
  by (simp add: linked_def)

text \<open>The groups of the code.\<close>

lemma next_action_groups:
  assumes keyed: "\<forall>m\<in>set ms. fv_ResourceKeys m \<noteq> []"
  shows "\<exists>groups. buildNextActionsFromMetas ms = Some (map next_action groups)
    \<and> mset (concat groups) = mset ms
    \<and> (\<forall>g\<in>set groups. \<exists>m\<in>set ms. g = filter (linked ms m) ms)
    \<and> sorted_wrt (\<lambda>g h. \<not> group_less h g) groups"
proof (cases "ms = []")
  case True
  then show ?thesis by (auto simp: buildNextActionsFromMetas_def intro!: exI [of _ "[]"])
next
  case False
  let ?K = "map fv_ResourceKeys ms"
  from resource_sets.unions_closure [OF represents_empty, of "all_pairs ?K"] obtain u rep
    where unions: "unions uf_union (all_pairs ?K) newResourceUnionFind = Some u"
      and u: "represents u rep"
      and rep: "kernel rep = equivclp (\<lambda>x y. x = y \<or> (x, y) \<in> set (all_pairs ?K))"
    by (auto simp: kernel_def [of id])
  let ?as = "map (\<lambda>m. (root_label rep m, m)) ms"
  let ?lt = "\<lambda>ri rj. group_less (group_of ?as ri) (group_of ?as rj)"
  let ?order = "sort_by ?lt (append_all_unique [] (map fst ?as))"
  have built: "buildNextActionsFromMetas ms = Some (map next_action (map (group_of ?as) ?order))"
    using unions assign_roots_eq [OF u, of ms] False
    by (auto simp: buildNextActionsFromMetas_def unite_findings_unions unite_carriers_unions
        all_pairs_def unions_append Let_def comp_def split: option.splits)
  have order: "distinct ?order" "set ?order = root_label rep ` set ms"
    by (simp_all add: image_image distinct_sort_by)
  have "mset (concat (map (group_of ?as) ?order)) = mset ms"
    using mset_groups [of ?order ?as] order by (simp add: image_image comp_def)
  moreover have "group_of ?as (root_label rep m) = filter (linked ms m) ms" if "m \<in> set ms" for m
    using same_root_linked [OF rep that] keyed that
    by (auto simp: group_of_def filter_map comp_def eq_commute [of _ "root_label rep m"]
        intro!: filter_cong)
  moreover have "sorted_wrt (\<lambda>g h. \<not> group_less h g) (map (group_of ?as) ?order)"
    unfolding sorted_wrt_map by (rule sort_by_image) (rule group_order.less_key)
  ultimately show ?thesis
    using built order(2) by (intro exI [of _ "map (group_of ?as) ?order"]) auto
qed

text \<open>
  C27: For findings with resources, as \<open>Validate\<close> demands, \<open>buildNextActions\<close> returns: the
  union-find structure with path compression never runs into a cycle. Its actions stand for a
  partition of the findings: two findings are merged into one action exactly when a chain of shared
  resources leads from one to the other, and no finding is dropped or counted twice. The actions come
  in the order of the most urgent priority, severity and confidence of their groups.
\<close>

theorem next_actions_partition:
  assumes "list_all (\<lambda>f. f_Resources f \<noteq> []) fs"
  shows "\<exists>groups. buildNextActions fs = Some (map next_action groups)
    \<and> mset (concat groups) = mset (map view_meta fs)
    \<and> (\<forall>g\<in>set groups. \<exists>f\<in>set fs.
         g = filter (linked (map view_meta fs) (view_meta f)) (map view_meta fs))
    \<and> sorted_wrt (\<lambda>g h. \<not> group_less h g) groups"
  using next_action_groups [of "map view_meta fs"] assms
  by (auto simp: buildNextActions_def view_meta_keys list_all_iff)

definition shared_service :: "string \<Rightarrow> string \<Rightarrow> Finding" where
  \<comment> \<open>two rules that complain about one object\<close>
  "shared_service ruleID remediation =
     empty_finding\<lparr>f_RuleID := ruleID, f_Severity := SeverityWarning, f_Remediation := remediation,
       f_Resources := [empty_reference\<lparr>ref_Kind := ''Service'', ref_Scope := ScopeNamespaced,
         ref_Namespace := ''web'', ref_Name := ''api''\<rparr>]\<rparr>"

theorem next_actions_partition_witness:
  "\<exists>groups. buildNextActions [shared_service ''WH-001'' ''a'', shared_service ''WH-002'' ''b'']
       = Some (map next_action groups)
     \<and> length (concat groups) = 2"
proof -
  have "list_all (\<lambda>f. f_Resources f \<noteq> []) [shared_service ''WH-001'' ''a'', shared_service ''WH-002'' ''b'']"
    by (simp add: shared_service_def)
  from next_actions_partition [OF this] obtain groups
    where built: "buildNextActions [shared_service ''WH-001'' ''a'', shared_service ''WH-002'' ''b'']
        = Some (map next_action groups)"
      and m: "mset (concat groups)
        = mset (map view_meta [shared_service ''WH-001'' ''a'', shared_service ''WH-002'' ''b''])"
    by blast
  have "length (concat groups) = size (mset (concat groups))" by (simp only: size_mset)
  also have "\<dots> = 2" unfolding m by simp
  finally show ?thesis using built by blast
qed


lemma primary_step_least:
  "foldl primary_step m ms \<in> set (m # ms)
   \<and> (\<forall>x\<in>set (m # ms). view_severityRank (f_Severity (fv_Finding (foldl primary_step m ms)))
        \<le> view_severityRank (f_Severity (fv_Finding x)))"
proof (induction ms arbitrary: m)
  case (Cons x ms)
  have "primary_step m x = m \<or> primary_step m x = x"
    by (auto simp: primary_step_def Let_def)
  moreover have "view_severityRank (f_Severity (fv_Finding (primary_step m x)))
      \<le> view_severityRank (f_Severity (fv_Finding y))" if "y = m \<or> y = x" for y
    using that by (auto simp: primary_step_def Let_def)
  ultimately show ?case using Cons.IH [of "primary_step m x"] by (auto intro: order_trans)
qed simp

lemma primaryFindingMeta_least:
  assumes "x \<in> set g"
  shows "primaryFindingMeta g \<in> set g"
    and "view_severityRank (f_Severity (fv_Finding (primaryFindingMeta g)))
      \<le> view_severityRank (f_Severity (fv_Finding x))"
  using assms primary_step_least [of "hd g" "tl g"]
  by (cases g; auto simp: primaryFindingMeta_def)+

lemma next_action_covers:
  assumes "x \<in> set g"
  shows "f_RuleID (fv_Finding x) \<in> set (na_RuleIDs (next_action g))
    \<and> view_severityRank (na_Severity (next_action g)) \<le> view_severityRank (f_Severity (fv_Finding x))
    \<and> na_Primary (next_action g) \<in> fv_Finding ` set g
    \<and> (fv_Finding x \<in> set (na_Related (next_action g))
       \<or> f_Remediation (fv_Finding x) = f_Remediation (na_Primary (next_action g))
       \<or> f_RuleID (fv_Finding x) = f_RuleID (na_Primary (next_action g)))"
  using primaryFindingMeta_least [OF assms] assms
  by (auto simp: next_action_def Let_def)

text \<open>
  C28: No finding is forgotten by the next actions: each has an action that names its rule, is at
  least as severe, and either repeats its remediation, points to it as related, or has a primary
  finding of the same rule. The last case is an exception the code makes without saying so.
\<close>

theorem next_actions_cover:
  assumes "list_all (\<lambda>f. f_Resources f \<noteq> []) fs" and "f \<in> set fs"
  shows "\<exists>actions a. buildNextActions fs = Some actions \<and> a \<in> set actions
    \<and> f_RuleID f \<in> set (na_RuleIDs a)
    \<and> view_severityRank (na_Severity a) \<le> view_severityRank (f_Severity f)
    \<and> na_Primary a \<in> set fs
    \<and> (f \<in> set (na_Related a) \<or> f_Remediation f = f_Remediation (na_Primary a)
       \<or> f_RuleID f = f_RuleID (na_Primary a))"
proof -
  from next_action_groups [of "map view_meta fs"] assms(1) obtain groups
    where built: "buildNextActions fs = Some (map next_action groups)"
      and m: "mset (concat groups) = mset (map view_meta fs)"
    by (auto simp: buildNextActions_def view_meta_keys list_all_iff)
  from m have members: "set (concat groups) = view_meta ` set fs"
    by (metis mset_eq_setD set_map)
  with assms(2) obtain g where g: "g \<in> set groups" "view_meta f \<in> set g"
    by (auto simp: set_eq_iff image_iff)
  have "set g \<subseteq> view_meta ` set fs" using members g(1) by auto
  then have "fv_Finding ` set g \<subseteq> set fs" by auto
  with next_action_covers [OF g(2)] built g(1) show ?thesis
    by (intro exI [of _ "map next_action groups"] exI [of _ "next_action g"]) auto
qed

theorem next_actions_cover_witness:
  "\<exists>actions a. buildNextActions [shared_service ''WH-001'' ''a'', shared_service ''WH-002'' ''b'']
       = Some actions \<and> a \<in> set actions \<and> ''WH-002'' \<in> set (na_RuleIDs a)"
proof -
  have "list_all (\<lambda>f. f_Resources f \<noteq> []) [shared_service ''WH-001'' ''a'', shared_service ''WH-002'' ''b'']"
    by (simp add: shared_service_def)
  from next_actions_cover [OF this, of "shared_service ''WH-002'' ''b''"] show ?thesis
    by (auto simp: shared_service_def)
qed

text \<open>
  The exception: two disruption budgets, each with a finding of \<open>PDB-001\<close>, joined by a \<open>PDB-002\<close>
  finding on both. The action names the first budget and its remediation only.
\<close>

definition budget :: "string \<Rightarrow> ResourceReference" where
  "budget name = empty_reference\<lparr>ref_Kind := ''PodDisruptionBudget'', ref_Scope := ScopeNamespaced,
     ref_Namespace := ''web'', ref_Name := name\<rparr>"

definition budget_finding :: "string \<Rightarrow> string list \<Rightarrow> string \<Rightarrow> findingViewMeta" where
  "budget_finding ruleID names remediation =
     \<lparr>fv_Finding = empty_finding\<lparr>f_RuleID := ruleID, f_Severity := SeverityBlocker,
        f_Remediation := remediation, f_Resources := map budget names\<rparr>,
      fv_ResourceLabel = resourceLabelFromRefs (map budget names), fv_ResourceKeys = names\<rparr>"

lemma next_action_skips_same_rule:
  "let action = next_action [budget_finding ''PDB-001'' [''a''] ''fix a'',
         budget_finding ''PDB-002'' [''a'', ''b''] ''merge'', budget_finding ''PDB-001'' [''b''] ''fix b'']
   in na_ResourceLabel action = ''PodDisruptionBudget/web/a''
      \<and> map f_Remediation (na_Primary action # na_Related action) = [''fix a'', ''merge'']"
  by (simp add: next_action_def primaryFindingMeta_def primary_step_def budget_finding_def budget_def
      resourceLabelFromRefs_def resourceLabel_def Let_def)

end
