(* ===== verification/RollbackCollector.thy ===== *)
theory RollbackCollector
  imports RollbackEks AwsCollector
begin

text \<open>
  The collector of the rollback evidence (\<open>internal/rollback/eks/collector.go\<close>): the calls
  \<open>Collect\<close> makes, in order, and what each leaves in the snapshot.

  The EKS client is the parameter \<open>rollback_client\<close>: what each call returns within its time budget,
  an error by its text. Three of the calls are paged; their loops end only when the service stops
  handing out tokens, so they share the partial function \<open>page_loop\<close>, and \<open>Collect\<close> is partial.
\<close>

section \<open>The EKS API\<close>

record RollbackInsightStatus =
  ris_Status :: InsightStatusValue
  ris_Reason :: "string option"

record RollbackInsightSummary =
  rs_Id :: "string option"
  rs_Name :: "string option"
  rs_Category :: string
  rs_InsightStatus :: "RollbackInsightStatus option"
  rs_Description :: "string option"
  rs_LastRefreshTime :: "time option"
  rs_LastTransitionTime :: "time option"

record RollbackResourceDetail =
  rrd_Arn :: "string option"
  rrd_KubernetesResourceUri :: "string option"
  rrd_InsightStatus :: "RollbackInsightStatus option"

record RollbackInsight = RollbackInsightSummary +
  rin_Recommendation :: "string option"
  rin_AdditionalInfo :: "(string \<times> string) list"
  rin_Resources :: "RollbackResourceDetail list"

datatype UpdateParamType = UpdateParamTypeVersion | UpdateParamTypeOther string

record UpdateDescription =
  ud_Id :: "string option"
  ud_Type :: UpdateType
  ud_Status :: UpdateStatus
  ud_CreatedAt :: "time option"
  ud_Params :: "(UpdateParamType \<times> string option) list"

record RollbackClusterDescription =
  rcd_Version :: "string option"
  rcd_Status :: string
  rcd_SupportType :: "SupportType option" \<comment> \<open>\<open>UpgradePolicy.SupportType\<close>, when there is a policy\<close>

type_synonym 'a page = "('a list \<times> string option) option"
  \<comment> \<open>the items and the next token; \<open>None\<close>: no output\<close>

record rollback_client =
  rk_VersionParamName :: string \<comment> \<open>the SDK's text of \<open>UpdateParamTypeVersion\<close>\<close>
  rk_DescribeCluster :: "string + RollbackClusterDescription option"
  rk_ListInsights :: "string option \<Rightarrow> string + RollbackInsightSummary page"
    \<comment> \<open>filtered by the category of rollback readiness\<close>
  rk_DescribeInsight :: "string \<Rightarrow> string + RollbackInsight option"
  rk_ListUpdates :: "string option \<Rightarrow> string + string page"
  rk_DescribeUpdate :: "string \<Rightarrow> string + UpdateDescription option"
  rk_DescribeClusterVersions ::
    "string list option \<Rightarrow> string option \<Rightarrow> string + (string option \<times> VersionStatus) page"
    \<comment> \<open>at \<open>ClusterVersions\<close>, or \<open>None\<close> for \<open>IncludeAll\<close>, and the token\<close>

record rollback_collector =
  rk_client :: rollback_client
  rk_clusterName :: string
  rk_region :: string

definition rollback_fail :: "string \<Rightarrow> string \<Rightarrow> EksSnapshot \<Rightarrow> EksSnapshot" where
  \<comment> \<open>\<open>snap.Errors[k] = err\<close>\<close>
  "rollback_fail k err snap = snap\<lparr>sn_Errors := AList.update k err (sn_Errors snap)\<rparr>"

section \<open>Pages\<close>

definition last_token :: "string option \<Rightarrow> bool" where
  \<comment> \<open>\<open>out.NextToken == nil || ToString(out.NextToken) == ""\<close>\<close>
  "last_token tok \<longleftrightarrow> tok = None \<or> ToString tok = ''''"

text \<open>The loop over the pages: the items read and the error that ended it, if any.\<close>

partial_function (option) page_loop ::
  "(string option \<Rightarrow> string + 'a page) \<Rightarrow> 'a list \<Rightarrow> string option
   \<Rightarrow> ('a list \<times> string option) option" where
  "page_loop fetch items nextToken =
     (case fetch nextToken of
        Inl err \<Rightarrow> Some (items, Some err)
      | Inr None \<Rightarrow> Some (items, None)
      | Inr (Some (batch, token)) \<Rightarrow>
          if last_token token then Some (items @ batch, None)
          else page_loop fetch (items @ batch) token)"

declare page_loop.simps [code]

definition all_pages ::
  "(string option \<Rightarrow> string + 'a page) \<Rightarrow> (string + 'a list) option" where
  \<comment> \<open>the two listings that drop what they have when a page fails\<close>
  "all_pages fetch =
     map_option (\<lambda>(items, err). case err of Some e \<Rightarrow> Inl e | None \<Rightarrow> Inr items)
       (page_loop fetch [] None)"

section \<open>The cluster\<close>

definition collectCluster :: "rollback_collector \<Rightarrow> EksSnapshot \<Rightarrow> EksSnapshot" where
  "collectCluster col snap =
     (case rk_DescribeCluster (rk_client col) of
        Inl err \<Rightarrow> rollback_fail ''describe-cluster'' err snap
      | Inr None \<Rightarrow>
          rollback_fail ''describe-cluster''
            (''cluster '' @ quote (rk_clusterName col) @ '' was not returned'') snap
      | Inr (Some c) \<Rightarrow>
          snap\<lparr>sn_CurrentVersion := ToString (rcd_Version c), sn_ClusterStatus := rcd_Status c,
               sn_SupportType := or_keep (rcd_SupportType c) (sn_SupportType snap)\<rparr>)"

section \<open>Insights\<close>

definition rollbackInsightStatusValue :: "RollbackInsightStatus option \<Rightarrow> InsightStatusValue" where
  "rollbackInsightStatusValue status =
     (case status of
        None \<Rightarrow> InsightStatusValueUnknown
      | Some s \<Rightarrow> if ris_Status s = InsightStatusValueOther '''' then InsightStatusValueUnknown
                  else ris_Status s)"

definition rollbackInsightStatusReason :: "RollbackInsightStatus option \<Rightarrow> string" where
  "rollbackInsightStatusReason status =
     (case status of None \<Rightarrow> '''' | Some s \<Rightarrow> ToString (ris_Reason s))"

definition insightRecordFromSummary :: "RollbackInsightSummary \<Rightarrow> InsightRecord" where
  "insightRecordFromSummary s =
     \<lparr>in_ID = ToString (rs_Id s), in_Name = ToString (rs_Name s), in_Category = rs_Category s,
      in_Status = rollbackInsightStatusValue (rs_InsightStatus s),
      in_Reason = rollbackInsightStatusReason (rs_InsightStatus s),
      in_Description = ToString (rs_Description s), in_Recommendation = '''',
      in_LastRefreshTime = ToTime (rs_LastRefreshTime s),
      in_LastTransitionTime = ToTime (rs_LastTransitionTime s),
      in_AdditionalInfo = [], in_Resources = []\<rparr>"

definition insightResources :: "RollbackResourceDetail list \<Rightarrow> InsightResourceRecord list" where
  "insightResources resources =
     map (\<lambda>r. \<lparr>ir_ARN = ToString (rrd_Arn r),
               ir_KubernetesResourceURI = ToString (rrd_KubernetesResourceUri r),
               ir_Status = rollbackInsightStatusValue (rrd_InsightStatus r),
               ir_Reason = rollbackInsightStatusReason (rrd_InsightStatus r)\<rparr>) resources"

definition mergeInsightRecord :: "InsightRecord \<Rightarrow> RollbackInsight \<Rightarrow> InsightRecord" where
  "mergeInsightRecord rec i =
     rec\<lparr>in_ID := or_keep (rs_Id i) (in_ID rec),
         in_Name := or_keep (rs_Name i) (in_Name rec),
         in_Category := (if rs_Category i = '''' then in_Category rec else rs_Category i),
         in_Status := (if rs_InsightStatus i = None then in_Status rec
                       else rollbackInsightStatusValue (rs_InsightStatus i)),
         in_Reason := (if rs_InsightStatus i = None then in_Reason rec
                       else rollbackInsightStatusReason (rs_InsightStatus i)),
         in_Description := or_keep (rs_Description i) (in_Description rec),
         in_Recommendation := ToString (rin_Recommendation i),
         in_LastRefreshTime := or_keep (rs_LastRefreshTime i) (in_LastRefreshTime rec),
         in_LastTransitionTime := or_keep (rs_LastTransitionTime i) (in_LastTransitionTime rec),
         in_AdditionalInfo :=
           (if rin_AdditionalInfo i = [] then in_AdditionalInfo rec else rin_AdditionalInfo i),
         in_Resources := insightResources (rin_Resources i)\<rparr>"

definition collectRollbackInsightDetail ::
  "rollback_collector \<Rightarrow> RollbackInsightSummary \<Rightarrow> EksSnapshot \<Rightarrow> EksSnapshot" where
  "collectRollbackInsightDetail col summary snap =
     (case rs_Id summary of
        None \<Rightarrow> snap
      | Some i \<Rightarrow>
          let rec = insightRecordFromSummary summary;
              described = rk_DescribeInsight (rk_client col) i;
              snap = (case described of
                        Inl err \<Rightarrow> rollback_fail (''describe-rollback-insight:'' @ in_ID rec) err snap
                      | Inr _ \<Rightarrow> snap);
              rec = (case described of Inr (Some ins) \<Rightarrow> mergeInsightRecord rec ins | _ \<Rightarrow> rec)
          in snap\<lparr>sn_Insights := sn_Insights snap @ [rec]\<rparr>)"

definition listRollbackInsightSummaries ::
  "rollback_collector \<Rightarrow> (string + RollbackInsightSummary list) option" where
  "listRollbackInsightSummaries col = all_pages (rk_ListInsights (rk_client col))"

definition collectRollbackInsights :: "rollback_collector \<Rightarrow> EksSnapshot \<Rightarrow> EksSnapshot option" where
  "collectRollbackInsights col snap =
     map_option (\<lambda>r. case r of
         Inl err \<Rightarrow> rollback_fail ''list-rollback-insights'' err snap
       | Inr summaries \<Rightarrow> fold (collectRollbackInsightDetail col) summaries snap)
       (listRollbackInsightSummaries col)"

section \<open>Updates\<close>

definition param_key :: "rollback_client \<Rightarrow> UpdateParamType \<Rightarrow> string" where
  "param_key c t =
     (case t of UpdateParamTypeVersion \<Rightarrow> rk_VersionParamName c | UpdateParamTypeOther s \<Rightarrow> s)"

definition update_param ::
  "rollback_client \<Rightarrow> UpdateParamType \<times> string option \<Rightarrow> UpdateRecord \<Rightarrow> UpdateRecord" where
  \<comment> \<open>the body of the loop over the parameters\<close>
  "update_param c param rec =
     (case param of (t, value) \<Rightarrow>
        if param_key c t = '''' then rec
        else rec\<lparr>up_Params := AList.update (param_key c t) (ToString value) (up_Params rec),
                 up_Version := (if t = UpdateParamTypeVersion then ToString value
                                else up_Version rec)\<rparr>)"

definition updateRecord :: "rollback_client \<Rightarrow> UpdateDescription \<Rightarrow> UpdateRecord" where
  "updateRecord c u =
     fold (update_param c) (ud_Params u)
       \<lparr>up_ID = ToString (ud_Id u), up_Type = ud_Type u, up_Status = ud_Status u,
        up_CreatedAt = ToTime (ud_CreatedAt u), up_Version = '''', up_Params = []\<rparr>"

definition describeUpdate :: "rollback_collector \<Rightarrow> string \<Rightarrow> string + UpdateRecord" where
  "describeUpdate col i =
     (case rk_DescribeUpdate (rk_client col) i of
        Inl err \<Rightarrow> Inl err
      | Inr None \<Rightarrow> Inl (''update '' @ quote i @ '' was not returned'')
      | Inr (Some u) \<Rightarrow> Inr (updateRecord (rk_client col) u))"

definition collect_update :: "rollback_collector \<Rightarrow> string \<Rightarrow> EksSnapshot \<Rightarrow> EksSnapshot" where
  "collect_update col i snap =
     (case describeUpdate col i of
        Inl err \<Rightarrow> rollback_fail (''describe-update:'' @ i) err snap
      | Inr rec \<Rightarrow> snap\<lparr>sn_Updates := sn_Updates snap @ [rec]\<rparr>)"

definition listUpdateIDs :: "rollback_collector \<Rightarrow> (string + string list) option" where
  "listUpdateIDs col = all_pages (rk_ListUpdates (rk_client col))"

definition collectUpdates :: "rollback_collector \<Rightarrow> EksSnapshot \<Rightarrow> EksSnapshot option" where
  "collectUpdates col snap =
     map_option (\<lambda>r. case r of
         Inl err \<Rightarrow> rollback_fail ''list-updates'' err snap
       | Inr ids \<Rightarrow> fold (collect_update col) ids snap)
       (listUpdateIDs col)"

section \<open>Versions\<close>

definition versions_fetch ::
  "rollback_collector \<Rightarrow> string \<Rightarrow> string option \<Rightarrow> string + (string option \<times> VersionStatus) page" where
  "versions_fetch col target =
     rk_DescribeClusterVersions (rk_client col) (if target \<noteq> '''' then Some [target] else None)"

text \<open>The pages before a failing one stay in the snapshot.\<close>

definition collectClusterVersions ::
  "rollback_collector \<Rightarrow> string \<Rightarrow> EksSnapshot \<Rightarrow> EksSnapshot option" where
  "collectClusterVersions col target snap =
     map_option (\<lambda>(versions, err).
         let snap = snap\<lparr>sn_ClusterVersions := sn_ClusterVersions snap
               @ map (\<lambda>(v, s). \<lparr>cv_Version = ToString v, cv_Status = s\<rparr>) versions\<rparr>
         in case err of Some e \<Rightarrow> rollback_fail ''describe-cluster-versions'' e snap | None \<Rightarrow> snap)
       (page_loop (versions_fetch col target) [] None)"

section \<open>The collection\<close>

definition empty_rollback_snapshot :: "rollback_collector \<Rightarrow> time \<Rightarrow> EksSnapshot" where
  "empty_rollback_snapshot col now =
     \<lparr>sn_ClusterName = rk_clusterName col, sn_Region = rk_region col, sn_CurrentVersion = '''',
      sn_ClusterStatus = '''', sn_SupportType = SupportTypeOther '''', sn_ObservedAt = now,
      sn_Insights = [], sn_Updates = [], sn_ClusterVersions = [], sn_Errors = []\<rparr>"

definition rollback_Collect :: "rollback_collector \<Rightarrow> time \<Rightarrow> EksSnapshot option" where
  "rollback_Collect col now =
     do {
       s \<leftarrow> collectRollbackInsights col (collectCluster col (empty_rollback_snapshot col now));
       s \<leftarrow> collectUpdates col s;
       collectClusterVersions col (previousMinor (sn_CurrentVersion s)) s
     }"

end
