(* ===== verification/FindingsFile.thy ===== *)
theory FindingsFile
  imports Comparison
begin

text \<open>
  A file with a findings document, as the commands \<open>compare\<close> and \<open>rollback\<close> read it
  (\<open>os.ReadFile\<close> and \<open>json.Unmarshal\<close> are outside of the model), and what
  \<open>comparison.LoadAndNormalize\<close> (\<open>internal/comparison/normalize.go\<close>) says of one it rejects.
\<close>

datatype findings_file =
    Unreadable string
  | NotJSON string \<comment> \<open>the error of \<open>json.Unmarshal\<close>\<close>
  | Decoded Report bool \<comment> \<open>the document and whether its \<open>findings\<close> are an array\<close>

definition load_error_text :: "findings_file \<Rightarrow> load_error \<Rightarrow> string" where
  \<comment> \<open>what \<open>LoadAndNormalize\<close> says\<close>
  "load_error_text file e =
     (case e of
        ParsingError \<Rightarrow>
          ''parsing findings document: '' @ (case file of NotJSON err \<Rightarrow> err | _ \<Rightarrow> '''')
      | NotAFindingsDocument \<Rightarrow>
          ''not a recognizable findings.json document: missing schemaVersion/targetVersion'')"

definition decoded_report :: "findings_file \<Rightarrow> Report option" where
  "decoded_report file = (case file of Decoded r _ \<Rightarrow> Some r | _ \<Rightarrow> None)"

end
