(* ===== verification/RollbackCommand.thy ===== *)
theory RollbackCommand
  imports RollbackCollector RollbackFacts ScanCommand FindingsFile
begin

text \<open>
  The commands \<open>rollback plan\<close> and \<open>rollback assess\<close> (\<open>internal/cli/rollback.go\<close>): flags, the findings
  document, the collection, the assessment and its files.

  The outside is the record \<open>rollback_env\<close>: the files, the EKS client behind \<open>LoadCollector\<close>, the
  clock, and the errors of the terminal and of the directory. A run that never returns (a paged listing
  without end) is \<open>None\<close>.
\<close>

section \<open>Flags and documents\<close>

record rollback_flags =
  rf_Provider :: string
  rf_ClusterName :: string
  rf_Output :: string
  rf_OutputDir :: string
  rf_AssessmentOut :: string
  rf_FindingsPath :: string
  rf_TerminalOutput :: string
  rf_Redact :: bool

record rollback_env =
  re_File :: "string \<Rightarrow> findings_file"
  re_LoadCollector :: "string \<Rightarrow> string + rollback_collector"
  re_CollectedAt :: time
  re_EvaluatedAt :: time
  re_InsightsAt :: time
  re_SDK :: sdk_names
  re_Terminal :: "string option"
  re_MkdirAll :: "string option"
  re_Files :: "string \<Rightarrow> file_probe"

definition rollback_flag_error :: "rollback_flags \<Rightarrow> string option" where
  "rollback_flag_error fl =
     first_error
       [if rf_Provider fl \<noteq> ''eks''
        then Some (''--provider '' @ quote (rf_Provider fl)
               @ '' is not supported for rollback readiness (use eks)'') else None,
        if rf_ClusterName fl = '''' then Some ''--cluster-name is required'' else None,
        if rf_Output fl \<in> set validOutputs then None
        else Some (''--output '' @ quote (rf_Output fl)
               @ '' is not supported (use json, md, html, or all)''),
        if rf_TerminalOutput fl \<in> set validTerminalOutputs then None
        else Some (''--terminal-output '' @ quote (rf_TerminalOutput fl)
               @ '' is not supported (use compact, full, or silent)'')]"

definition legacyFindingsSchemaVersion :: string where
  "legacyFindingsSchemaVersion = ''1.0''"

definition validateRollbackFindingsDocument :: "Report \<Rightarrow> bool \<Rightarrow> string option" where
  "validateRollbackFindingsDocument report present =
     (let schemaVersion = TrimSpace (r_SchemaVersion report)
      in if schemaVersion \<noteq> SchemaVersion \<and> schemaVersion \<noteq> legacyFindingsSchemaVersion
         then Some (''invalid --findings document: expected KubePreflight findings schema ''
                @ legacyFindingsSchemaVersion @ '' or '' @ SchemaVersion @ '', got ''
                @ quote (r_SchemaVersion report))
         else if TrimSpace (r_TargetVersion report) = ''''
         then Some ''invalid --findings document: targetVersion is required''
         else if \<not> present
         then Some ''invalid --findings document: findings must be a JSON array''
         else None)"

definition readFindingsReport :: "findings_file \<Rightarrow> string + Report" where
  "readFindingsReport file =
     (case file of
        Unreadable err \<Rightarrow> Inl err
      | _ \<Rightarrow>
          (case LoadAndNormalize (decoded_report file) of
             Inl e \<Rightarrow> Inl (''invalid --findings document: '' @ load_error_text file e)
           | Inr rpt \<Rightarrow>
               (case validateRollbackFindingsDocument rpt
                       (case file of Decoded _ present \<Rightarrow> present | _ \<Rightarrow> False) of
                  Some err \<Rightarrow> Inl err
                | None \<Rightarrow> Inr rpt)))"

definition rollback_findings :: "rollback_env \<Rightarrow> rollback_flags \<Rightarrow> cli_error + Report option" where
  "rollback_findings env fl =
     (if rf_FindingsPath fl = '''' then Inr None
      else case readFindingsReport (re_File env (rf_FindingsPath fl)) of
             Inl err \<Rightarrow>
               Inl (InfraFailure (''reading --findings '' @ rf_FindingsPath fl @ '': '' @ err))
           | Inr rpt \<Rightarrow> Inr (Some rpt))"

section \<open>Files\<close>

definition rollbackReportTargets :: "string \<Rightarrow> string \<Rightarrow> string \<Rightarrow> (string \<times> report_format) list" where
  "rollbackReportTargets output outputDir assessmentOut =
     (let markdown = (filepath_Join [outputDir, ''rollback-report.md''], FormatMarkdown);
          html = (filepath_Join [outputDir, ''rollback-report.html''], FormatHTML)
      in (resolveOutputPath outputDir assessmentOut, FormatJSON)
         # (if output = ''md'' then [markdown]
            else if output = ''html'' then [html]
            else if output = ''all'' then [markdown, html]
            else []))"

definition writeRollbackReportFile :: "file_probe \<Rightarrow> string \<Rightarrow> report_format \<Rightarrow> string option" where
  "writeRollbackReportFile probe path format =
     (case createReportFile probe path of
        Some err \<Rightarrow> Some err
      | None \<Rightarrow>
          (case fp_Write probe format of
             Some err \<Rightarrow> Some (''writing '' @ path @ '': '' @ err)
           | None \<Rightarrow> map_option (\<lambda>err. ''closing '' @ path @ '': '' @ err) (fp_Close probe)))"

fun write_rollback_targets ::
  "(string \<Rightarrow> file_probe) \<Rightarrow> (string \<times> report_format) list \<Rightarrow> string option \<times> string list" where
  "write_rollback_targets fs [] = (None, [])"
| "write_rollback_targets fs ((path, format) # rest) =
     (case writeRollbackReportFile (fs path) path format of
        Some err \<Rightarrow> (Some err, [])
      | None \<Rightarrow> (case write_rollback_targets fs rest of (err, written) \<Rightarrow> (err, path # written)))"

section \<open>The command\<close>

datatype rollback_stop = StoppedBy cli_error | InvalidAssessment assessment_error

record rollback_outcome =
  ro_Assessment :: Assessment \<comment> \<open>as written: after redaction\<close>
  ro_ExitCode :: int
  ro_Written :: "string list"
  ro_Error :: "cli_error option"

definition deliver_rollback ::
  "rollback_env \<Rightarrow> rollback_flags \<Rightarrow> cli_error option \<times> string list" where
  \<comment> \<open>what follows the assessment: the terminal and the files\<close>
  "deliver_rollback env fl =
     (case (if rf_TerminalOutput fl \<noteq> ''silent'' then re_Terminal env else None) of
        Some err \<Rightarrow> (Some (PlainError (''rendering rollback summary: '' @ err)), [])
      | None \<Rightarrow>
          (case re_MkdirAll env of
             Some err \<Rightarrow> (Some (InfraFailure (''creating output directory: '' @ err)), [])
           | None \<Rightarrow>
               (case write_rollback_targets (re_Files env)
                       (rollbackReportTargets (rf_Output fl) (rf_OutputDir fl) (rf_AssessmentOut fl)) of
                  (Some err, written) \<Rightarrow>
                    (Some (InfraFailure (''writing rollback report: '' @ err)), written)
                | (None, written) \<Rightarrow> (None, written))))"

definition assess_rollback ::
  "rollback_env \<Rightarrow> AssessmentMode \<Rightarrow> rollback_flags \<Rightarrow> Report option \<Rightarrow> EksSnapshot
     \<Rightarrow> rollback_stop + rollback_outcome" where
  "assess_rollback env mode fl findingsReport snap =
     (case rollback_assessment (re_SDK env) mode (Some snap) (re_EvaluatedAt env) (re_InsightsAt env)
             findingsReport of
        Inl err \<Rightarrow> Inl (InvalidAssessment err)
      | Inr a \<Rightarrow>
          let a = (if rf_Redact fl then redact_RollbackAssessment a else a)
          in case deliver_rollback env fl of (err, written) \<Rightarrow>
               Inr \<lparr>ro_Assessment = a, ro_ExitCode = rollbackExitCode a, ro_Written = written,
                    ro_Error = err\<rparr>)"

definition run_rollback ::
  "rollback_env \<Rightarrow> AssessmentMode \<Rightarrow> rollback_flags \<Rightarrow> (rollback_stop + rollback_outcome) option" where
  "run_rollback env mode fl =
     (case rollback_flag_error fl of
        Some err \<Rightarrow> Some (Inl (StoppedBy (PlainError err)))
      | None \<Rightarrow>
          (case rollback_findings env fl of
             Inl err \<Rightarrow> Some (Inl (StoppedBy err))
           | Inr findingsReport \<Rightarrow>
               (case re_LoadCollector env (rf_ClusterName fl) of
                  Inl err \<Rightarrow>
                    Some (Inl (StoppedBy
                      (redactInfraFailure (''loading EKS rollback collector: '' @ err) (rf_Redact fl))))
                | Inr collector \<Rightarrow>
                    map_option (assess_rollback env mode fl findingsReport)
                      (rollback_Collect collector (re_CollectedAt env)))))"

definition rollback_exit :: "rollback_stop + rollback_outcome \<Rightarrow> int" where
  \<comment> \<open>the exit code of the process\<close>
  "rollback_exit r =
     (case r of
        Inl (StoppedBy err) \<Rightarrow> exitCodeForError (Some err) 0
      | Inl (InvalidAssessment err) \<Rightarrow> 1 \<comment> \<open>a plain error\<close>
      | Inr out \<Rightarrow> exitCodeForError (ro_Error out) (ro_ExitCode out))"

end
