(* ===== verification/RollbackCommandFacts.thy ===== *)
theory RollbackCommandFacts
  imports RollbackCommand
begin

text \<open>
  The rollback commands from the EKS client to the exit code: which calls the collector records as
  failed, that an eligible rollback rests on answered calls only, and that no run exits with 0.
\<close>

section \<open>Pages\<close>

text \<open>
  What a paged listing hands out from a token on: its items, up to the end of the listing or to the
  first call that fails.
\<close>

inductive hands_out ::
  "(string option \<Rightarrow> string + 'a page) \<Rightarrow> string option \<Rightarrow> 'a list \<Rightarrow> string option \<Rightarrow> bool"
  for fetch where
  fails: "fetch tok = Inl err \<Longrightarrow> hands_out fetch tok [] (Some err)"
| nothing: "fetch tok = Inr None \<Longrightarrow> hands_out fetch tok [] None"
| last: "fetch tok = Inr (Some (items, next_tok)) \<Longrightarrow> last_token next_tok \<Longrightarrow> hands_out fetch tok items None"
| page: "fetch tok = Inr (Some (items, next_tok)) \<Longrightarrow> \<not> last_token next_tok \<Longrightarrow>
    hands_out fetch next_tok rest err \<Longrightarrow> hands_out fetch tok (items @ rest) err"

lemma page_loop_hands_out:
  "hands_out fetch tok items err \<Longrightarrow> page_loop fetch acc tok = Some (acc @ items, err)"
  by (induction arbitrary: acc rule: hands_out.induct) (subst page_loop.simps, simp)+

lemma hands_out_page_loop:
  assumes "page_loop fetch acc tok = Some r"
  shows "\<exists>items err. hands_out fetch tok items err \<and> r = (acc @ items, err)"
proof (rule page_loop.raw_induct [where
      P = "\<lambda>fetch acc tok r. \<exists>items err. hands_out fetch tok items err \<and> r = (acc @ items, err)",
      OF _ assms])
  fix loop :: "(string option \<Rightarrow> string + 'a page) \<Rightarrow> 'a list \<Rightarrow> string option
      \<Rightarrow> ('a list \<times> string option) option"
    and fetch acc tok r
  assume IH: "\<And>fetch acc tok r. loop fetch acc tok = Some r \<Longrightarrow>
        \<exists>items err. hands_out fetch tok items err \<and> r = (acc @ items, err)"
    and step: "(case fetch tok of Inl err \<Rightarrow> Some (acc, Some err) | Inr None \<Rightarrow> Some (acc, None)
        | Inr (Some (batch, token)) \<Rightarrow>
            if last_token token then Some (acc @ batch, None) else loop fetch (acc @ batch) token) = Some r"
  show "\<exists>items err. hands_out fetch tok items err \<and> r = (acc @ items, err)"
  proof (cases "fetch tok")
    case (Inl err)
    with step show ?thesis by (auto intro: hands_out.fails)
  next
    case (Inr out)
    show ?thesis
    proof (cases out)
      case None
      with Inr step show ?thesis by (auto intro: hands_out.nothing)
    next
      case (Some p)
      obtain items next_tok where p: "p = (items, next_tok)" by (cases p)
      show ?thesis
      proof (cases "last_token next_tok")
        case True
        with Inr Some p step show ?thesis by (auto intro: hands_out.last)
      next
        case False
        with Inr Some p step have "loop fetch (acc @ items) next_tok = Some r" by simp
        from IH [OF this] obtain rest err
          where "hands_out fetch next_tok rest err" "r = (acc @ items @ rest, err)"
          by auto
        with Inr Some p False show ?thesis by (blast intro: hands_out.page)
      qed
    qed
  qed
qed

lemma page_loop_iff:
  "page_loop fetch [] None = Some (items, err) \<longleftrightarrow> hands_out fetch None items err"
  using page_loop_hands_out [where acc = "[]"] hands_out_page_loop by fastforce

lemma all_pages_iff:
  "all_pages fetch = Some (Inr items) \<longleftrightarrow> hands_out fetch None items None"
  "all_pages fetch = Some (Inl err) \<longleftrightarrow> (\<exists>items. hands_out fetch None items (Some err))"
  by (auto simp: all_pages_def simp flip: page_loop_iff split: option.splits)


section \<open>The recorded failures\<close>

definition failed_keys :: "EksSnapshot \<Rightarrow> string set" where
  "failed_keys snap = fst ` set (sn_Errors snap)"

lemma rollback_fail_keys [simp]: "failed_keys (rollback_fail k err snap) = insert k (failed_keys snap)"
  by (simp add: failed_keys_def rollback_fail_def dom_update)

lemma failed_keys_update [simp]:
  "failed_keys (snap\<lparr>sn_CurrentVersion := v\<rparr>) = failed_keys snap"
  "failed_keys (snap\<lparr>sn_ClusterStatus := st\<rparr>) = failed_keys snap"
  "failed_keys (snap\<lparr>sn_SupportType := su\<rparr>) = failed_keys snap"
  "failed_keys (snap\<lparr>sn_Insights := is\<rparr>) = failed_keys snap"
  "failed_keys (snap\<lparr>sn_Updates := us\<rparr>) = failed_keys snap"
  "failed_keys (snap\<lparr>sn_ClusterVersions := vs\<rparr>) = failed_keys snap"
  by (simp_all add: failed_keys_def)

lemma fold_keys:
  assumes "\<And>x snap. failed_keys (f x snap) = failed_keys snap \<union> bad x"
  shows "failed_keys (fold f xs snap) = failed_keys snap \<union> (\<Union>x\<in>set xs. bad x)"
  by (induction xs arbitrary: snap) (auto simp: assms)

definition cluster_failure :: "rollback_collector \<Rightarrow> string set" where
  "cluster_failure col =
     (case rk_DescribeCluster (rk_client col) of
        Inr (Some _) \<Rightarrow> {} | _ \<Rightarrow> {''describe-cluster''})"

definition insight_failure :: "rollback_collector \<Rightarrow> RollbackInsightSummary \<Rightarrow> string set" where
  "insight_failure col s =
     (case rs_Id s of
        None \<Rightarrow> {}
      | Some i \<Rightarrow>
          (case rk_DescribeInsight (rk_client col) i of
             Inl _ \<Rightarrow> {''describe-rollback-insight:'' @ i} | Inr _ \<Rightarrow> {}))"

definition update_failure :: "rollback_collector \<Rightarrow> string \<Rightarrow> string set" where
  "update_failure col i =
     (case rk_DescribeUpdate (rk_client col) i of
        Inr (Some _) \<Rightarrow> {} | _ \<Rightarrow> {''describe-update:'' @ i})"

lemma cluster_keys: "failed_keys (collectCluster col snap) = failed_keys snap \<union> cluster_failure col"
  by (auto simp: collectCluster_def cluster_failure_def split: sum.split option.split)

lemma insight_keys:
  "failed_keys (collectRollbackInsightDetail col s snap) = failed_keys snap \<union> insight_failure col s"
  by (auto simp: collectRollbackInsightDetail_def insight_failure_def insightRecordFromSummary_def
      ToString_def Let_def split: option.splits sum.splits)

lemma update_keys: "failed_keys (collect_update col i snap) = failed_keys snap \<union> update_failure col i"
  by (auto simp: collect_update_def describeUpdate_def update_failure_def
      split: option.splits sum.splits)

text \<open>What a listing and the calls for its items leave in the errors.\<close>

definition listing_failures ::
  "(string option \<Rightarrow> string + 'a page) \<Rightarrow> string \<Rightarrow> ('a \<Rightarrow> string set) \<Rightarrow> string set" where
  "listing_failures fetch k bad =
     {x. (\<exists>items err. hands_out fetch None items (Some err) \<and> x = k)
       \<or> (\<exists>items. hands_out fetch None items None \<and> x \<in> (\<Union>i\<in>set items. bad i))}"

lemma hands_out_unique:
  assumes "hands_out fetch tok items err" and "hands_out fetch tok items' err'"
  shows "items = items'" and "err = err'"
proof -
  have "([] @ items, err) = ([] @ items', err')"
    using page_loop_hands_out [OF assms(1), of "[]"] page_loop_hands_out [OF assms(2), of "[]"] by simp
  then show "items = items'" and "err = err'" by simp_all
qed

lemma listing_stage_keys:
  assumes r: "all_pages fetch = Some r"
    and f: "\<And>x snap. failed_keys (f x snap) = failed_keys snap \<union> bad x"
  shows "failed_keys (case r of Inl err \<Rightarrow> rollback_fail k err snap | Inr xs \<Rightarrow> fold f xs snap)
    = failed_keys snap \<union> listing_failures fetch k bad"
proof (cases r)
  case (Inl err)
  with r obtain items where "hands_out fetch None items (Some err)" by (auto simp: all_pages_iff)
  with Inl show ?thesis by (auto simp: listing_failures_def dest: hands_out_unique)
next
  case (Inr items)
  with r have "hands_out fetch None items None" by (simp add: all_pages_iff)
  then have "listing_failures fetch k bad = (\<Union>i\<in>set items. bad i)"
    by (auto simp: listing_failures_def dest: hands_out_unique)
  with Inr show ?thesis using fold_keys [of f bad, OF f] by simp
qed

lemma insights_stage_keys:
  assumes "collectRollbackInsights col snap = Some snap'"
  shows "failed_keys snap' = failed_keys snap
    \<union> listing_failures (rk_ListInsights (rk_client col)) ''list-rollback-insights'' (insight_failure col)"
  using assms
  by (auto simp: collectRollbackInsights_def listRollbackInsightSummaries_def
      listing_stage_keys [OF _ insight_keys])

lemma updates_stage_keys:
  assumes "collectUpdates col snap = Some snap'"
  shows "failed_keys snap' = failed_keys snap
    \<union> listing_failures (rk_ListUpdates (rk_client col)) ''list-updates'' (update_failure col)"
  using assms
  by (auto simp: collectUpdates_def listUpdateIDs_def listing_stage_keys [OF _ update_keys])

lemma versions_stage_keys:
  assumes "collectClusterVersions col target snap = Some snap'"
  shows "failed_keys snap' = failed_keys snap
    \<union> listing_failures (versions_fetch col target) ''describe-cluster-versions'' (\<lambda>_. {})"
proof -
  from assms obtain versions err where r: "page_loop (versions_fetch col target) [] None = Some (versions, err)"
    and snap': "failed_keys snap' = failed_keys snap
      \<union> (case err of Some _ \<Rightarrow> {''describe-cluster-versions''} | None \<Rightarrow> {})"
    by (auto simp: collectClusterVersions_def Let_def) (auto split: option.split)
  from r have "hands_out (versions_fetch col target) None versions err" by (simp only: page_loop_iff)
  with snap' show ?thesis
    by (cases err) (auto simp: listing_failures_def dest: hands_out_unique)
qed


section \<open>What the snapshot holds\<close>

lemma fold_snapshot_keeps:
  assumes "\<And>x snap. g (f x snap) = g snap"
  shows "g (fold f xs snap) = g snap"
  by (induction xs arbitrary: snap) (auto simp: assms)

lemma rollback_fail_keeps [simp]:
  "sn_CurrentVersion (rollback_fail k err snap) = sn_CurrentVersion snap"
  "sn_ClusterStatus (rollback_fail k err snap) = sn_ClusterStatus snap"
  "sn_Updates (rollback_fail k err snap) = sn_Updates snap"
  by (simp_all add: rollback_fail_def)

lemma insights_stage_keeps:
  assumes "collectRollbackInsights col snap = Some snap'"
  shows "sn_CurrentVersion snap' = sn_CurrentVersion snap"
    and "sn_ClusterStatus snap' = sn_ClusterStatus snap"
    and "sn_Updates snap' = sn_Updates snap"
proof -
  have detail: "sn_CurrentVersion (collectRollbackInsightDetail col s snap) = sn_CurrentVersion snap"
    "sn_ClusterStatus (collectRollbackInsightDetail col s snap) = sn_ClusterStatus snap"
    "sn_Updates (collectRollbackInsightDetail col s snap) = sn_Updates snap" for s snap
    by (auto simp: collectRollbackInsightDetail_def Let_def split: option.split sum.split)
  show "sn_CurrentVersion snap' = sn_CurrentVersion snap"
    and "sn_ClusterStatus snap' = sn_ClusterStatus snap"
    and "sn_Updates snap' = sn_Updates snap"
    using assms
      fold_snapshot_keeps [where g = sn_CurrentVersion and f = "collectRollbackInsightDetail col", OF detail(1)]
      fold_snapshot_keeps [where g = sn_ClusterStatus and f = "collectRollbackInsightDetail col", OF detail(2)]
      fold_snapshot_keeps [where g = sn_Updates and f = "collectRollbackInsightDetail col", OF detail(3)]
    by (cases "listRollbackInsightSummaries col"; auto simp: collectRollbackInsights_def split: sum.split)+
qed

lemma updates_stage_keeps:
  assumes "collectUpdates col snap = Some snap'"
  shows "sn_CurrentVersion snap' = sn_CurrentVersion snap"
    and "sn_ClusterStatus snap' = sn_ClusterStatus snap"
proof -
  have one: "sn_CurrentVersion (collect_update col i snap) = sn_CurrentVersion snap"
    "sn_ClusterStatus (collect_update col i snap) = sn_ClusterStatus snap" for i snap
    by (auto simp: collect_update_def split: sum.split)
  show "sn_CurrentVersion snap' = sn_CurrentVersion snap"
    and "sn_ClusterStatus snap' = sn_ClusterStatus snap"
    using assms
      fold_snapshot_keeps [where g = sn_CurrentVersion and f = "collect_update col", OF one(1)]
      fold_snapshot_keeps [where g = sn_ClusterStatus and f = "collect_update col", OF one(2)]
    by (cases "listUpdateIDs col"; auto simp: collectUpdates_def split: sum.split)+
qed

lemma versions_stage_keeps:
  assumes "collectClusterVersions col target snap = Some snap'"
  shows "sn_CurrentVersion snap' = sn_CurrentVersion snap"
    and "sn_ClusterStatus snap' = sn_ClusterStatus snap"
    and "sn_Updates snap' = sn_Updates snap"
  using assms by (auto simp: collectClusterVersions_def Let_def split: option.splits)

lemma collect_update_records:
  "set (sn_Updates (fold (collect_update col) ids snap))
   = set (sn_Updates snap) \<union> {rec. \<exists>i\<in>set ids. describeUpdate col i = Inr rec}"
proof (induction ids arbitrary: snap)
  case (Cons i ids)
  then show ?case by (cases "describeUpdate col i") (auto simp: collect_update_def)
qed simp

text \<open>The stages of a collection that returns.\<close>

lemma rollback_CollectE:
  assumes "rollback_Collect col now = Some snap"
  obtains s1 s2 where
    "collectRollbackInsights col (collectCluster col (empty_rollback_snapshot col now)) = Some s1"
    and "collectUpdates col s1 = Some s2"
    and "collectClusterVersions col (previousMinor (sn_CurrentVersion s2)) s2 = Some snap"
  using assms by (auto simp: rollback_Collect_def split: bind_splits)

lemma rollback_failures:
  assumes "rollback_Collect col now = Some snap"
  shows "failed_keys snap = cluster_failure col
    \<union> listing_failures (rk_ListInsights (rk_client col)) ''list-rollback-insights'' (insight_failure col)
    \<union> listing_failures (rk_ListUpdates (rk_client col)) ''list-updates'' (update_failure col)
    \<union> listing_failures (versions_fetch col (previousMinor (sn_CurrentVersion snap)))
        ''describe-cluster-versions'' (\<lambda>_. {})"
proof -
  from assms obtain s1 s2 where s:
    "collectRollbackInsights col (collectCluster col (empty_rollback_snapshot col now)) = Some s1"
    "collectUpdates col s1 = Some s2"
    "collectClusterVersions col (previousMinor (sn_CurrentVersion s2)) s2 = Some snap"
    by (rule rollback_CollectE)
  have "failed_keys (empty_rollback_snapshot col now) = {}"
    by (simp add: failed_keys_def empty_rollback_snapshot_def)
  with insights_stage_keys [OF s(1)] updates_stage_keys [OF s(2)] versions_stage_keys [OF s(3)]
    versions_stage_keeps(1) [OF s(3)]
  show ?thesis by (simp add: cluster_keys)
qed

lemma rollback_cluster:
  assumes "rollback_Collect col now = Some snap" and "rk_DescribeCluster (rk_client col) = Inr (Some c)"
  shows "sn_CurrentVersion snap = ToString (rcd_Version c) \<and> sn_ClusterStatus snap = rcd_Status c"
  using assms(1)
proof (rule rollback_CollectE)
  fix s1 s2
  assume "collectRollbackInsights col (collectCluster col (empty_rollback_snapshot col now)) = Some s1"
    "collectUpdates col s1 = Some s2"
    "collectClusterVersions col (previousMinor (sn_CurrentVersion s2)) s2 = Some snap"
  then show ?thesis
    using assms(2)
    by (simp add: insights_stage_keeps updates_stage_keeps versions_stage_keeps collectCluster_def)
qed

lemma rollback_updates:
  assumes "rollback_Collect col now = Some snap" and "hands_out (rk_ListUpdates (rk_client col)) None ids None"
  shows "set (sn_Updates snap) = {rec. \<exists>i\<in>set ids. describeUpdate col i = Inr rec}"
  using assms(1)
proof (rule rollback_CollectE)
  fix s1 s2
  assume s: "collectRollbackInsights col (collectCluster col (empty_rollback_snapshot col now)) = Some s1"
    "collectUpdates col s1 = Some s2"
    "collectClusterVersions col (previousMinor (sn_CurrentVersion s2)) s2 = Some snap"
  have "sn_Updates s1 = []"
    using insights_stage_keeps(3) [OF s(1)]
    by (simp add: collectCluster_def empty_rollback_snapshot_def split: sum.splits option.splits)
  moreover have "all_pages (rk_ListUpdates (rk_client col)) = Some (Inr ids)"
    using assms(2) by (simp add: all_pages_iff)
  then have "s2 = fold (collect_update col) ids s1"
    using s(2) by (simp add: collectUpdates_def listUpdateIDs_def)
  ultimately show ?thesis
    using versions_stage_keeps(3) [OF s(3)] collect_update_records [of col ids s1] by simp
qed


section \<open>Eligibility\<close>

lemma hasErrors_keys: "hasErrors snap ks \<longleftrightarrow> set ks \<inter> failed_keys snap \<noteq> {}"
  by (auto simp: hasErrors_def list_ex_iff failed_keys_def map_of_eq_None_iff)

lemma hasErrorPrefix_keys: "hasErrorPrefix snap p \<longleftrightarrow> (\<exists>k\<in>failed_keys snap. HasPrefix k p)"
  by (force simp: hasErrorPrefix_def list_ex_iff failed_keys_def)

lemma no_listing_failures:
  assumes "hands_out fetch None items err" and "k \<notin> listing_failures fetch k bad"
  shows "err = None"
  using assms by (cases err) (auto simp: listing_failures_def)

lemma no_update_failure:
  "update_failure col i = {} \<longleftrightarrow> (\<exists>u. rk_DescribeUpdate (rk_client col) i = Inr (Some u))"
  by (auto simp: update_failure_def split: sum.split option.split)

lemma readable_answered:
  assumes run: "rollback_Collect col now = Some snap" and ok: "readable snap"
  shows "\<exists>c ids versions. rk_DescribeCluster (rk_client col) = Inr (Some c)
    \<and> hands_out (rk_ListUpdates (rk_client col)) None ids None
    \<and> list_all (\<lambda>i. \<exists>u. rk_DescribeUpdate (rk_client col) i = Inr (Some u)) ids
    \<and> hands_out (versions_fetch col (previousMinor (ToString (rcd_Version c)))) None versions None"
proof -
  note keys = rollback_failures [OF run]
  have clean: "''describe-cluster'' \<notin> failed_keys snap" "''list-updates'' \<notin> failed_keys snap"
    "''describe-cluster-versions'' \<notin> failed_keys snap"
    and no_update: "\<not> (\<exists>k\<in>failed_keys snap. HasPrefix k ''describe-update:'')"
    using ok by (simp_all add: readable_def hasErrors_keys hasErrorPrefix_keys)
  from clean(1) obtain c where c: "rk_DescribeCluster (rk_client col) = Inr (Some c)"
    unfolding keys by (auto simp: cluster_failure_def split: sum.splits option.splits)
  from run obtain s1 s2 where s: "collectUpdates col s1 = Some s2"
    "collectClusterVersions col (previousMinor (sn_CurrentVersion s2)) s2 = Some snap"
    by (rule rollback_CollectE)
  from s(1) obtain ids err where ids: "hands_out (rk_ListUpdates (rk_client col)) None ids err"
    by (auto simp: collectUpdates_def listUpdateIDs_def all_pages_def page_loop_iff)
  from s(2) versions_stage_keeps(1) [OF s(2)] obtain versions err'
    where versions: "hands_out (versions_fetch col (previousMinor (sn_CurrentVersion snap))) None versions err'"
    by (auto simp: collectClusterVersions_def page_loop_iff)
  have ids': "hands_out (rk_ListUpdates (rk_client col)) None ids None"
    using ids no_listing_failures [OF ids] clean(2) unfolding keys by blast
  have "update_failure col i = {}" if "i \<in> set ids" for i
  proof -
    have "update_failure col i \<subseteq> failed_keys snap"
      using ids' that unfolding keys by (auto simp: listing_failures_def)
    with no_update show ?thesis
      by (auto simp: update_failure_def split: sum.splits option.splits)
  qed
  then have "list_all (\<lambda>i. \<exists>u. rk_DescribeUpdate (rk_client col) i = Inr (Some u)) ids"
    by (simp add: list_all_iff no_update_failure)
  moreover have "hands_out (versions_fetch col (previousMinor (ToString (rcd_Version c)))) None versions None"
    using versions no_listing_failures [OF versions] clean(3) rollback_cluster [OF run c]
    unfolding keys by auto
  ultimately show ?thesis using c ids' by blast
qed

lemma update_param_keeps:
  "up_Type (update_param c p rec) = up_Type rec \<and> up_Status (update_param c p rec) = up_Status rec
   \<and> up_CreatedAt (update_param c p rec) = up_CreatedAt rec"
  by (simp add: update_param_def split: prod.split)

lemma updateRecord_keeps:
  "up_Type (updateRecord c u) = ud_Type u" "up_Status (updateRecord c u) = ud_Status u"
  "up_CreatedAt (updateRecord c u) = ToTime (ud_CreatedAt u)"
proof -
  have "up_Type (fold (update_param c) ps rec) = up_Type rec
    \<and> up_Status (fold (update_param c) ps rec) = up_Status rec
    \<and> up_CreatedAt (fold (update_param c) ps rec) = up_CreatedAt rec" for ps rec
    by (induction ps arbitrary: rec) (simp_all add: update_param_keeps)
  then show "up_Type (updateRecord c u) = ud_Type u" "up_Status (updateRecord c u) = ud_Status u"
    "up_CreatedAt (updateRecord c u) = ToTime (ud_CreatedAt u)"
    by (simp_all add: updateRecord_def)
qed

lemma rollbackExitCode_redact [simp]: "rollbackExitCode (redact_RollbackAssessment a) = rollbackExitCode a"
  by (simp add: rollbackExitCode_def redact_RollbackAssessment_def)

lemma assess_rollback_out:
  assumes "validAssessmentMode mode" and "assess_rollback env mode fl report snap = Inr out"
  defines "a \<equiv> ApplyRecommendation (operational_assessment (re_SDK env) mode (Some snap)
           (re_EvaluatedAt env) (re_InsightsAt env) report)"
  shows "ro_Assessment out = (if rf_Redact fl then redact_RollbackAssessment a else a)"
    and "ro_ExitCode out = rollbackExitCode a"
    and "(ro_Error out, ro_Written out) = deliver_rollback env fl"
  using assms(2)
  by (auto simp: assess_rollback_def pipeline_settled(1) [OF assms(1)] a_def Let_def split: prod.splits)

lemma describeUpdate_Inr:
  "describeUpdate col i = Inr rec \<longleftrightarrow>
     (\<exists>u. rk_DescribeUpdate (rk_client col) i = Inr (Some u) \<and> rec = updateRecord (rk_client col) u)"
  by (auto simp: describeUpdate_def split: sum.split option.split)

text \<open>A run that has an assessment.\<close>

lemma run_rollbackE:
  assumes "run_rollback env mode fl = Some (Inr out)" and "validAssessmentMode mode"
  obtains col snap report a where "re_LoadCollector env (rf_ClusterName fl) = Inr col"
    and "rollback_Collect col (re_CollectedAt env) = Some snap"
    and "a = ApplyRecommendation (operational_assessment (re_SDK env) mode (Some snap)
           (re_EvaluatedAt env) (re_InsightsAt env) report)"
    and "ro_Assessment out = (if rf_Redact fl then redact_RollbackAssessment a else a)"
    and "ro_ExitCode out = rollbackExitCode a"
    and "(ro_Error out, ro_Written out) = deliver_rollback env fl"
proof -
  from assms(1) obtain report col snap where col: "re_LoadCollector env (rf_ClusterName fl) = Inr col"
    and snap: "rollback_Collect col (re_CollectedAt env) = Some snap"
    and out: "assess_rollback env mode fl report snap = Inr out"
    by (auto simp: run_rollback_def split: option.splits sum.splits)
  show ?thesis
    using assess_rollback_out [OF assms(2) out] by (intro that [OF col snap refl])
qed

text \<open>
  C5: An eligible rollback is earned: when a rollback command reports a cluster as eligible, then AWS
  described the cluster as active, listed all its updates to the last page and described every one of
  them, one of them a successful version update that started less than seven days before, and it
  listed the versions to the last page. A call that fails is never taken for evidence.
\<close>

theorem rollback_eligibility_earned:
  assumes "validAssessmentMode mode" and "run_rollback env mode fl = Some (Inr out)"
    and "el_Status (as_Eligibility (ro_Assessment out)) = EligibilityEligible"
  shows "\<exists>col c ids i u versions. re_LoadCollector env (rf_ClusterName fl) = Inr col
    \<and> rk_DescribeCluster (rk_client col) = Inr (Some c) \<and> rcd_Status c \<in> {'''', ''ACTIVE''}
    \<and> hands_out (rk_ListUpdates (rk_client col)) None ids None
    \<and> list_all (\<lambda>j. \<exists>v. rk_DescribeUpdate (rk_client col) j = Inr (Some v)) ids
    \<and> i \<in> set ids \<and> rk_DescribeUpdate (rk_client col) i = Inr (Some u)
    \<and> ud_Type u = UpdateTypeVersionUpdate \<and> ud_Status u = UpdateStatusSuccessful
    \<and> re_EvaluatedAt env < ToTime (ud_CreatedAt u) + rollbackWindow
    \<and> hands_out (versions_fetch col (previousMinor (ToString (rcd_Version c)))) None versions None"
  using assms(2,1)
proof (rule run_rollbackE)
  fix col snap report a
  assume col: "re_LoadCollector env (rf_ClusterName fl) = Inr col"
    and run: "rollback_Collect col (re_CollectedAt env) = Some snap"
    and a: "a = ApplyRecommendation (operational_assessment (re_SDK env) mode (Some snap)
           (re_EvaluatedAt env) (re_InsightsAt env) report)"
    and out: "ro_Assessment out = (if rf_Redact fl then redact_RollbackAssessment a else a)"
  let ?status = "el_Status (as_Eligibility (EvaluateEligibility (re_SDK env) (Some snap) (re_EvaluatedAt env)))"
  have eligible: "?status = EligibilityEligible"
    using assms(1,3) out
    by (simp add: a pipeline_settled redact_RollbackAssessment_def split: if_splits)
  then have ok: "readable snap" using eligibility_unreadable by fastforce
  from readable_answered [OF run ok] obtain c ids versions
    where c: "rk_DescribeCluster (rk_client col) = Inr (Some c)"
      and ids: "hands_out (rk_ListUpdates (rk_client col)) None ids None"
      and rest: "list_all (\<lambda>j. \<exists>v. rk_DescribeUpdate (rk_client col) j = Inr (Some v)) ids"
        "hands_out (versions_fetch col (previousMinor (ToString (rcd_Version c)))) None versions None"
    by blast
  have reasons: "sn_ClusterStatus snap \<in> {'''', ''ACTIVE''}
    \<and> (\<exists>u\<in>set (sn_Updates snap). relevant_update (sn_CurrentVersion snap) u
         \<and> re_EvaluatedAt env < up_CreatedAt u + rollbackWindow)"
    using eligible eligibility_readable(1) [OF ok, of "re_SDK env" "re_EvaluatedAt env"]
      no_reasons_iff [of snap "re_EvaluatedAt env"]
    by (auto split: if_splits)
  then obtain i u where "i \<in> set ids" "rk_DescribeUpdate (rk_client col) i = Inr (Some u)"
    "ud_Type u = UpdateTypeVersionUpdate" "ud_Status u = UpdateStatusSuccessful"
    "re_EvaluatedAt env < ToTime (ud_CreatedAt u) + rollbackWindow"
    unfolding rollback_updates [OF run ids]
    by (auto simp: describeUpdate_Inr relevant_update_def updateRecord_keeps)
  with col c ids rest reasons rollback_cluster [OF run c] show ?thesis by fastforce
qed


text \<open>
  C6: A rollback command that returns exits with 1, 2 or 4, never with 0. When everything could be
  written, the exit code is 2 exactly if the assessment says that the rollback is unavailable or its
  readiness blocked, with or without redaction.
\<close>

theorem rollback_never_exits_zero:
  assumes "validAssessmentMode mode" and "run_rollback env mode fl = Some r"
  shows "rollback_exit r \<in> {1, 2, 4}
    \<and> (\<forall>out. r = Inr out \<and> ro_Error out = None \<longrightarrow>
         rollback_exit r = (if stops_rollback (ro_Assessment out) then 2 else 1))"
proof (cases r)
  case (Inl stop)
  with assms(2) show ?thesis
    by (auto simp: run_rollback_def rollback_exit_def exitCodeForError_def rollback_findings_def
        redactInfraFailure_def split: option.splits sum.splits if_splits rollback_stop.splits
        cli_error.splits)
next
  case (Inr out)
  then have "run_rollback env mode fl = Some (Inr out)" using assms(2) by simp
  then show ?thesis
    using assms(1)
  proof (rule run_rollbackE)
    fix col snap report a
    assume a: "a = ApplyRecommendation (operational_assessment (re_SDK env) mode (Some snap)
           (re_EvaluatedAt env) (re_InsightsAt env) report)"
      and out: "ro_Assessment out = (if rf_Redact fl then redact_RollbackAssessment a else a)"
        "ro_ExitCode out = rollbackExitCode a" "(ro_Error out, ro_Written out) = deliver_rollback env fl"
    have code: "rollbackExitCode a = (if stops_rollback a then 2 else 1)"
      unfolding a by (simp add: rollbackExitCode_def pipeline_settled(4) [OF assms(1)])
    have "stops_rollback (ro_Assessment out) = stops_rollback a"
      by (simp add: out stops_rollback_def redact_RollbackAssessment_def)
    moreover from out(3) have "\<forall>e. ro_Error out = Some (CrashedWith e) \<longrightarrow> False"
      by (auto simp: deliver_rollback_def split: option.splits prod.splits)
    ultimately show ?thesis
      using Inr code out(2)
      by (cases "ro_Error out") (auto simp: rollback_exit_def exitCodeForError_def split: cli_error.splits)
  qed
qed

section \<open>A run\<close>

text \<open>
  A cluster upgraded to 1.33 an hour ago, whose updates come on two pages; no insights.
\<close>

definition sample_rollback_client :: rollback_client where
  "sample_rollback_client =
     \<lparr>rk_VersionParamName = ''Version'',
      rk_DescribeCluster = Inr (Some \<lparr>rcd_Version = Some ''1.33'', rcd_Status = ''ACTIVE'',
        rcd_SupportType = Some SupportTypeExtended\<rparr>),
      rk_ListInsights = (\<lambda>_. Inr None), rk_DescribeInsight = (\<lambda>_. Inr None),
      rk_ListUpdates = (\<lambda>tok. Inr (Some (if tok = None then ([''u1''], Some ''t'') else ([''u2''], None)))),
      rk_DescribeUpdate = (\<lambda>i. Inr (Some \<lparr>ud_Id = Some i, ud_Type = UpdateTypeVersionUpdate,
        ud_Status = UpdateStatusSuccessful, ud_CreatedAt = Some (100 * Hour),
        ud_Params = [(UpdateParamTypeVersion, Some ''1.33'')]\<rparr>)),
      rk_DescribeClusterVersions =
        (\<lambda>_ _. Inr (Some ([(Some ''1.32'', VersionStatusStandardSupport)], None)))\<rparr>"

definition sample_rollback_env :: rollback_env where
  "sample_rollback_env =
     \<lparr>re_File = (\<lambda>_. Unreadable ''no such file''),
      re_LoadCollector = (\<lambda>name. Inr \<lparr>rk_client = sample_rollback_client, rk_clusterName = name,
        rk_region = ''eu-west-1''\<rparr>),
      re_CollectedAt = 101 * Hour, re_EvaluatedAt = 101 * Hour, re_InsightsAt = 101 * Hour,
      re_SDK = \<lparr>insight_status_name = (\<lambda>_. ''''), version_status_name = (\<lambda>_. ''''),
        support_type_name = (\<lambda>_. '''')\<rparr>,
      re_Terminal = None, re_MkdirAll = None,
      re_Files = (\<lambda>_. \<lparr>fp_IsSymlink = False, fp_Open = None, fp_Chmod = None,
        fp_Write = (\<lambda>_. None), fp_Close = None\<rparr>)\<rparr>"

definition sample_rollback_flags :: rollback_flags where
  "sample_rollback_flags =
     \<lparr>rf_Provider = ''eks'', rf_ClusterName = ''prod'', rf_Output = ''json'', rf_OutputDir = ''.'',
      rf_AssessmentOut = ''rollback-assessment.json'', rf_FindingsPath = '''',
      rf_TerminalOutput = ''silent'', rf_Redact = False\<rparr>"

lemma sample_updates_pages:
  "hands_out (rk_ListUpdates sample_rollback_client) None [''u1'', ''u2''] None"
proof -
  have "hands_out (rk_ListUpdates sample_rollback_client) (Some ''t'') [''u2''] None"
    by (rule hands_out.last [where next_tok = None])
       (simp_all add: sample_rollback_client_def last_token_def)
  then have "hands_out (rk_ListUpdates sample_rollback_client) None ([''u1''] @ [''u2'']) None"
    by (intro hands_out.page [where next_tok = "Some ''t''"])
       (simp_all add: sample_rollback_client_def last_token_def ToString_def)
  then show ?thesis by simp
qed


definition sample_rollback_collector :: rollback_collector where
  "sample_rollback_collector =
     \<lparr>rk_client = sample_rollback_client, rk_clusterName = ''prod'', rk_region = ''eu-west-1''\<rparr>"

definition sample_update :: "string \<Rightarrow> UpdateRecord" where
  "sample_update i =
     \<lparr>up_ID = i, up_Type = UpdateTypeVersionUpdate, up_Status = UpdateStatusSuccessful,
      up_CreatedAt = 100 * Hour, up_Version = ''1.33'', up_Params = [(''Version'', ''1.33'')]\<rparr>"

definition sample_rollback_snapshot :: EksSnapshot where
  "sample_rollback_snapshot =
     \<lparr>sn_ClusterName = ''prod'', sn_Region = ''eu-west-1'', sn_CurrentVersion = ''1.33'',
      sn_ClusterStatus = ''ACTIVE'', sn_SupportType = SupportTypeExtended, sn_ObservedAt = 101 * Hour,
      sn_Insights = [], sn_Updates = [sample_update ''u1'', sample_update ''u2''],
      sn_ClusterVersions = [\<lparr>cv_Version = ''1.32'', cv_Status = VersionStatusStandardSupport\<rparr>],
      sn_Errors = []\<rparr>"

lemma sample_rollback_Collect:
  "rollback_Collect sample_rollback_collector (101 * Hour) = Some sample_rollback_snapshot"
proof -
  have "all_pages (rk_ListInsights sample_rollback_client) = Some (Inr [])"
    unfolding all_pages_iff by (rule hands_out.nothing) (simp add: sample_rollback_client_def)
  moreover have "all_pages (rk_ListUpdates sample_rollback_client) = Some (Inr [''u1'', ''u2''])"
    unfolding all_pages_iff by (rule sample_updates_pages)
  moreover have "page_loop (versions_fetch sample_rollback_collector ''1.32'') [] None
      = Some ([(Some ''1.32'', VersionStatusStandardSupport)], None)"
    unfolding page_loop_iff
    by (rule hands_out.last [where next_tok = None])
       (simp_all add: versions_fetch_def sample_rollback_collector_def sample_rollback_client_def
          last_token_def)
  moreover have "describeUpdate sample_rollback_collector i = Inr (sample_update i)" for i
    by (simp add: describeUpdate_def sample_rollback_collector_def sample_rollback_client_def
        sample_update_def updateRecord_def update_param_def param_key_def ToString_def ToTime_def)
  moreover have "collectCluster sample_rollback_collector
        (empty_rollback_snapshot sample_rollback_collector (101 * Hour))
      = sample_rollback_snapshot\<lparr>sn_Updates := [], sn_ClusterVersions := []\<rparr>"
    by (simp add: collectCluster_def empty_rollback_snapshot_def sample_rollback_collector_def
        sample_rollback_client_def sample_rollback_snapshot_def ToString_def or_keep_def)
  moreover have "rk_client sample_rollback_collector = sample_rollback_client"
    by (simp add: sample_rollback_collector_def)
  ultimately show ?thesis
    by (simp add: rollback_Collect_def collectRollbackInsights_def listRollbackInsightSummaries_def
        collectUpdates_def listUpdateIDs_def collect_update_def collectClusterVersions_def
        sample_rollback_snapshot_def previous_of_133 ToString_def)
qed

lemma sample_deliver_rollback:
  "deliver_rollback sample_rollback_env sample_rollback_flags = (None, [''rollback-assessment.json''])"
proof -
  have "resolveOutputPath ''.'' ''rollback-assessment.json'' = ''rollback-assessment.json''"
    by code_simp
  then show ?thesis
    by (simp add: deliver_rollback_def sample_rollback_env_def sample_rollback_flags_def
        rollbackReportTargets_def writeRollbackReportFile_def createReportFile_def Let_def)
qed

lemma sample_run_rollback:
  "\<exists>out. run_rollback sample_rollback_env ModePostUpgradeReadiness sample_rollback_flags = Some (Inr out)
     \<and> ro_Error out = None
     \<and> el_Status (as_Eligibility (ro_Assessment out)) = EligibilityEligible"
proof -
  let ?a = "ApplyRecommendation (operational_assessment (re_SDK sample_rollback_env)
      ModePostUpgradeReadiness (Some sample_rollback_snapshot) (101 * Hour) (101 * Hour) None)"
  have "validAssessmentMode ModePostUpgradeReadiness" by simp
  note settled = pipeline_settled [OF this]
  have "readable sample_rollback_snapshot"
    by (simp add: readable_def hasErrors_keys hasErrorPrefix_keys failed_keys_def
        sample_rollback_snapshot_def)
  moreover have "eligibility_reasons sample_rollback_snapshot
      (previousMinor (sn_CurrentVersion sample_rollback_snapshot))
      (latestSuccessfulVersionUpdate (sn_Updates sample_rollback_snapshot)
        (sn_CurrentVersion sample_rollback_snapshot)) (101 * Hour) = []"
    unfolding no_reasons_iff
    by (simp add: sample_rollback_snapshot_def previous_of_133 targetVersionRecord_def
        relevant_update_def sample_update_def rollbackWindow_def Hour_def Minute_def Second_def)
  ultimately have "el_Status (as_Eligibility ?a) = EligibilityEligible"
    unfolding settled(3) by (simp add: eligibility_readable(1))
  moreover have "run_rollback sample_rollback_env ModePostUpgradeReadiness sample_rollback_flags
      = Some (Inr \<lparr>ro_Assessment = ?a, ro_ExitCode = rollbackExitCode ?a,
          ro_Written = [''rollback-assessment.json''], ro_Error = None\<rparr>)"
  proof -
    have "rollback_flag_error sample_rollback_flags = None"
      by (simp add: rollback_flag_error_def sample_rollback_flags_def validOutputs_def
          validTerminalOutputs_def)
    moreover have "re_LoadCollector sample_rollback_env (rf_ClusterName sample_rollback_flags)
        = Inr sample_rollback_collector"
      by (simp add: sample_rollback_env_def sample_rollback_flags_def sample_rollback_collector_def)
    moreover have "rollback_findings sample_rollback_env sample_rollback_flags = Inr None"
      by (simp add: rollback_findings_def sample_rollback_flags_def)
    moreover have "re_CollectedAt sample_rollback_env = 101 * Hour"
      "re_EvaluatedAt sample_rollback_env = 101 * Hour" "re_InsightsAt sample_rollback_env = 101 * Hour"
      "\<not> rf_Redact sample_rollback_flags"
      by (simp_all add: sample_rollback_env_def sample_rollback_flags_def)
    ultimately show ?thesis
      by (simp add: run_rollback_def assess_rollback_def sample_rollback_Collect settled(1)
          sample_deliver_rollback Let_def)
  qed
  ultimately show ?thesis by simp
qed

theorem rollback_eligibility_earned_witness:
  "\<exists>col c. re_LoadCollector sample_rollback_env (rf_ClusterName sample_rollback_flags) = Inr col
     \<and> rk_DescribeCluster (rk_client col) = Inr (Some c)"
proof -
  from sample_run_rollback obtain out
    where "run_rollback sample_rollback_env ModePostUpgradeReadiness sample_rollback_flags = Some (Inr out)"
      "el_Status (as_Eligibility (ro_Assessment out)) = EligibilityEligible"
    by blast
  then show ?thesis
    using rollback_eligibility_earned [of ModePostUpgradeReadiness sample_rollback_env
        sample_rollback_flags out]
    by auto
qed

theorem rollback_never_exits_zero_witness:
  "\<exists>r. run_rollback sample_rollback_env ModePostUpgradeReadiness sample_rollback_flags = Some r
     \<and> rollback_exit r \<noteq> 0"
proof -
  from sample_run_rollback obtain out
    where "run_rollback sample_rollback_env ModePostUpgradeReadiness sample_rollback_flags = Some (Inr out)"
    by blast
  then show ?thesis
    using rollback_never_exits_zero [of ModePostUpgradeReadiness sample_rollback_env
        sample_rollback_flags "Inr out"]
    by auto
qed

end
