(* ===== verification/ComparisonMarkdown.thy ===== *)
theory ComparisonMarkdown
  imports Redact Gate
begin

text \<open>
  The Markdown document of a comparison (\<open>internal/comparison/markdown.go\<close>). The warnings are passed
  as texts, since the model of a comparison keeps them as values.
\<close>

section \<open>The document\<close>

definition right_arrow :: string where
  "right_arrow = [CHR 0xE2, CHR 0x86, CHR 0x92]"

definition NotReEvaluatedLabel :: string where
  "NotReEvaluatedLabel = ''Not re-evaluated''"

definition signedDelta :: "int \<Rightarrow> string" where
  "signedDelta delta = (if delta > 0 then ''+'' @ show_int delta else show_int delta)"

definition entry_resource :: "ResourceReference list \<Rightarrow> string" where
  "entry_resource refs =
     (case firstResourceIdentity refs of (ns, name) \<Rightarrow>
        if ns \<noteq> '''' then ns @ ''/'' @ name else name)"

definition none_text :: string where
  "none_text = (''None.'' @ nl @ nl)"

definition table_head :: string where
  "table_head =
     (''| Priority | Severity | Rule | Resource | Message |'' @ nl @ ''|---|---|---|---|---|''
      @ nl)"

definition entry_row :: "Entry \<Rightarrow> string" where
  "entry_row e =
     (''| '' @ f_Priority e @ '' | '' @ (severity_string (f_Severity e)) @ '' | `''
      @ f_RuleID e @ ''` | '' @ (entry_resource (f_Resources e)) @ '' | '' @ f_Message e
      @ '' |'' @ nl)"

definition entry_table :: "Entry list \<Rightarrow> string" where
  \<comment> \<open>what the two sections of entries share\<close>
  "entry_table entries =
     (if entries = [] then none_text else table_head @ concat (map entry_row entries) @ nl)"

definition writeEntrySection :: "string \<Rightarrow> Entry list \<Rightarrow> string" where
  "writeEntrySection title entries =
     (''## '' @ title @ '' ('' @ (show_nat (length entries)) @ '')'' @ nl @ nl) @ entry_table entries"

definition writeNotReEvaluatedSection :: "Entry list \<Rightarrow> string" where
  "writeNotReEvaluatedSection entries =
     (''## '' @ NotReEvaluatedLabel @ '' findings ('' @ (show_nat (length entries)) @ '')''
      @ nl @ nl)
     @ NotReEvaluatedExplanation @ nl @ nl @ entry_table entries"

definition rendered_fields :: "string list" where
  "rendered_fields =
     [''severity'', ''priority'', ''confidence'', ''canUpgradeContinue'', ''affectedScope'', ''ruleId'',
      ''resource'']"

definition change_line :: "string \<Rightarrow> FieldChange \<Rightarrow> string" where
  "change_line field fc =
     (''  - '' @ field @ '': `'' @ fc_Before fc @ ''` '' @ right_arrow @ '' `'' @ fc_After fc
      @ ''`'' @ nl)"

definition change_lines :: "(string \<times> FieldChange) list \<Rightarrow> string list" where
  "change_lines changes =
     List.map_filter (\<lambda>field. map_option (change_line field) (map_of changes field)) rendered_fields"

definition changed_item :: "Changed \<Rightarrow> string" where
  "changed_item c =
     (''- **`'' @ ch_RuleID c @ ''`** '' @ (entry_resource (ch_Resources c)) @ nl)
     @ concat (change_lines (ch_Changes c))"

definition writeChangedSection :: "Changed list \<Rightarrow> string" where
  "writeChangedSection changed =
     (''## Changed findings ('' @ (show_nat (length changed)) @ '')'' @ nl @ nl)
     @ (if changed = [] then none_text else concat (map changed_item changed) @ nl)"

definition verdict_arrow :: "ComparisonSummary \<Rightarrow> string" where
  "verdict_arrow s =
     (if cs_VerdictChanged s
      then (cs_BaselineVerdict s @ '' '' @ right_arrow @ '' '' @ cs_CurrentVerdict s)
      else cs_BaselineVerdict s)"

definition summary_rows :: "ComparisonSummary \<Rightarrow> string" where
  "summary_rows s =
     (''| | |'' @ nl @ ''|---|---|'' @ nl)
     @ (''| **Verdict** | '' @ verdict_arrow s @ '' |'' @ nl)
     @ (''| **Upgrade context** | '' @ cs_BaselineUpgradeContext s @ '' '' @ right_arrow
        @ '' '' @ cs_CurrentUpgradeContext s @ '' |'' @ nl)
     @ (''| **Readiness score** | '' @ show_int (cs_BaselineReadinessScore s) @ '' ''
        @ right_arrow @ '' '' @ show_int (cs_CurrentReadinessScore s) @ '' (''
        @ (signedDelta (cs_ReadinessScoreDelta s)) @ '') |'' @ nl)
     @ (''| **New** | '' @ (show_nat (cs_New s)) @ '' ('' @ (show_nat (cs_NewBlockers s))
        @ '' blocker(s)) |'' @ nl)
     @ (''| **Resolved** | '' @ (show_nat (cs_Resolved s)) @ '' (''
        @ (show_nat (cs_ResolvedBlockers s)) @ '' blocker(s)) |'' @ nl)
     @ (''| **'' @ NotReEvaluatedLabel @ ''** | '' @ (show_nat (cs_NotReEvaluated s)) @ '' |''
        @ nl)
     @ (''| **Changed** | '' @ (show_nat (cs_Changed s)) @ '' |'' @ nl)
     @ (''| **Unchanged** | '' @ (show_nat (cs_Unchanged s)) @ '' |'' @ nl @ nl)"

definition WriteMarkdown :: "string list \<Rightarrow> Comparison \<Rightarrow> string" where
  "WriteMarkdown warnings c =
     (''# Upgrade Readiness Comparison'' @ nl @ nl)
     @ (''- Schema version: `'' @ cmp_SchemaVersion c @ ''`'' @ nl)
     @ concat (map (\<lambda>w. ''- **Warning:** '' @ w @ nl) warnings) @ nl
     @ summary_rows (cmp_Summary c)
     @ writeEntrySection ''New findings'' (cmp_New c)
     @ writeChangedSection (cmp_Changed c)
     @ writeEntrySection ''Resolved findings'' (cmp_Resolved c)
     @ writeNotReEvaluatedSection (cmp_NotReEvaluated c)
     @ writeEntrySection ''Unchanged findings'' (cmp_Unchanged c)"

section \<open>What a changed finding shows\<close>

lemma map_of_field_change:
  "map_of (field_change d field b a @ rest) x =
     (if d \<and> x = field then Some \<lparr>fc_Before = b, fc_After = a\<rparr> else map_of rest x)"
  by (simp add: field_change_def)

lemma change_lines_empty:
  "change_lines changes = [] \<longleftrightarrow> (\<forall>field\<in>set rendered_fields. map_of changes field = None)"
  by (auto simp: change_lines_def List.map_filter_def filter_empty_conv)

text \<open>
  A finding whose upgrade gate or impact scopes changed, and nothing else, is listed as changed
  without any line that says what changed.
\<close>

lemma gate_change_not_rendered:
  assumes "EffectiveUpgradeGate b \<noteq> EffectiveUpgradeGate a"
    and "f_Severity b = f_Severity a" "f_Priority b = f_Priority a" "f_Confidence b = f_Confidence a"
      "f_CanUpgradeContinue b = f_CanUpgradeContinue a" "f_AffectedScope b = f_AffectedScope a"
      "f_RuleID b = f_RuleID a" "f_Resources b = f_Resources a"
  shows "diffFinding b a \<noteq> [] \<and> change_lines (diffFinding b a) = []"
proof
  show "diffFinding b a \<noteq> []" using assms(1) by (simp add: diffFinding_def field_change_def)
  show "change_lines (diffFinding b a) = []"
    unfolding change_lines_empty using assms
    by (simp add: rendered_fields_def diffFinding_def field_change_def)
qed

end
