(* ===== verification/CompareCommand.thy ===== *)
theory CompareCommand
  imports ComparisonMarkdown ScanCommand FindingsFile RedactFacts
begin

text \<open>
  The command \<open>compare\<close> (\<open>internal/cli/compare.go\<close>): its flags, the two documents, the comparison,
  the files and the gate. The files are the parameter \<open>compare_env\<close>; what is printed is part of the
  model. The commands \<open>scan\<close> and \<open>rollback\<close> refuse to write through a symbolic link, \<open>compare\<close> does
  not (\<open>os.Create\<close>).
\<close>

section \<open>Flags\<close>

record compare_flags =
  cf_Baseline :: string
  cf_Current :: string
  cf_JSONOut :: string
  cf_MarkdownOut :: string
  cf_GateOut :: string
  cf_FailOnNewBlockers :: bool
  cf_WarningPolicy :: string
  cf_FailOnVerdictRegression :: bool
  cf_MinimumScoreDelta :: int
  cf_Redact :: bool

record created_file =
  cr_Create :: "string option" \<comment> \<open>the error of \<open>os.Create\<close>, if any\<close>
  cr_Write :: "string option"

record compare_env =
  ce_File :: "string \<Rightarrow> findings_file"
  ce_Output :: "string \<Rightarrow> created_file"
  ce_MapOrder :: "Report \<Rightarrow> string list" \<comment> \<open>the order the map of a document is visited in\<close>

definition validWarningPolicies :: "string list" where
  "validWarningPolicies = [''ignore'', ''fail_on_new'', ''fail_on_any'']"

definition warning_policy_of :: "string \<Rightarrow> WarningPolicy" where
  \<comment> \<open>the conversion \<open>gate.WarningPolicy(warningPolicy)\<close>\<close>
  "warning_policy_of s =
     (if s = ''ignore'' then WarningPolicyIgnore
      else if s = ''fail_on_new'' then WarningPolicyFailOnNew
      else if s = ''fail_on_any'' then WarningPolicyFailOnAny
      else WarningPolicyOther s)"

definition compare_flag_error :: "compare_flags \<Rightarrow> string option" where
  "compare_flag_error fl =
     first_error
       [if cf_Baseline fl = '''' then Some ''--baseline is required'' else None,
        if cf_Current fl = '''' then Some ''--current is required'' else None,
        if cf_JSONOut fl = '''' \<and> cf_MarkdownOut fl = ''''
        then Some ''at least one of --json-out or --markdown-out is required'' else None,
        if cf_WarningPolicy fl \<in> set validWarningPolicies then None
        else Some (''--warning-policy '' @ quote (cf_WarningPolicy fl)
                   @ '' is not supported (use ignore, fail_on_new, or fail_on_any)'')]"

definition compare_policy :: "compare_flags \<Rightarrow> Policy" where
  "compare_policy fl =
     \<lparr>pol_FailOnNewBlockers = cf_FailOnNewBlockers fl,
      pol_WarningPolicy = warning_policy_of (cf_WarningPolicy fl),
      pol_FailOnVerdictRegression = cf_FailOnVerdictRegression fl,
      pol_MinimumScoreDelta = cf_MinimumScoreDelta fl\<rparr>"

section \<open>The documents\<close>

definition read_document :: "string \<Rightarrow> findings_file \<Rightarrow> cli_error option" where
  "read_document opt file =
     (case file of Unreadable err \<Rightarrow> Some (InfraFailure (''reading '' @ opt @ '': '' @ err))
      | _ \<Rightarrow> None)"

definition load_document :: "string \<Rightarrow> findings_file \<Rightarrow> cli_error + Report" where
  "load_document opt file =
     (case LoadAndNormalize (decoded_report file) of
        Inl e \<Rightarrow> Inl (PlainError (opt @ '': '' @ load_error_text file e))
      | Inr rpt \<Rightarrow> Inr rpt)"

definition index_error_text :: "index_error \<Rightarrow> string" where
  "index_error_text e =
     (case e of
        MissingFingerprint ruleID \<Rightarrow> (''finding '' @ ruleID
                                                 @ '' has no fingerprint -- cannot compare ''
                                                 @ ''without stable identity'')
      | DuplicateFingerprint fp ruleID \<Rightarrow>
          (''duplicate fingerprint '' @ quote fp @ '' (rule '' @ ruleID
           @ '') -- a findings.json document must not contain two findings with the same ''
           @ ''fingerprint''))"

definition comparison_error_text :: "comparison_error \<Rightarrow> string" where
  "comparison_error_text e =
     (case e of
        BaselineError err \<Rightarrow> ''baseline: '' @ index_error_text err
      | CurrentError err \<Rightarrow> ''current: '' @ index_error_text err)"

text \<open>Both files are read before either is parsed.\<close>

definition compare_documents ::
  "compare_env \<Rightarrow> compare_flags \<Rightarrow> cli_error + Report \<times> Report \<times> Comparison" where
  "compare_documents env fl =
     (let base = ce_File env (cf_Baseline fl); curr = ce_File env (cf_Current fl)
      in case first_error [read_document ''--baseline'' base, read_document ''--current'' curr] of
           Some err \<Rightarrow> Inl err
         | None \<Rightarrow>
             (case load_document ''--baseline'' base of
                Inl err \<Rightarrow> Inl err
              | Inr baseline \<Rightarrow>
                  (case load_document ''--current'' curr of
                     Inl err \<Rightarrow> Inl err
                   | Inr current \<Rightarrow>
                       (case Compare (ce_MapOrder env current) (ce_MapOrder env baseline)
                               baseline current of
                          Inl err \<Rightarrow> Inl (PlainError (comparison_error_text err))
                        | Inr cmp \<Rightarrow> Inr (baseline, current, cmp)))))"

section \<open>Output\<close>

definition write_created :: "string \<Rightarrow> created_file \<Rightarrow> string option" where
  \<comment> \<open>the three writers of the command, which differ in what they encode\<close>
  "write_created path file =
     (case cr_Create file of
        Some err \<Rightarrow> Some (''creating '' @ path @ '': '' @ err)
      | None \<Rightarrow> map_option (\<lambda>err. ''writing '' @ path @ '': '' @ err) (cr_Write file))"

definition write_if :: "compare_env \<Rightarrow> string \<Rightarrow> cli_error option" where
  "write_if env path =
     (if path = '''' then None
      else map_option InfraFailure (write_created path (ce_Output env path)))"

definition comparison_lines :: "string list \<Rightarrow> Comparison \<Rightarrow> string list" where
  "comparison_lines warnings cmp =
     (let s = cmp_Summary cmp
      in [(''Comparison: '' @ cs_BaselineVerdict s @ '' -> '' @ cs_CurrentVerdict s)
            @ (if cs_VerdictChanged s then '' (changed)'' else ''''),
          (''Readiness score: '' @ show_int (cs_BaselineReadinessScore s) @ '' -> ''
           @ show_int (cs_CurrentReadinessScore s)),
          (''New: '' @ (show_nat (cs_New s)) @ '' ('' @ (show_nat (cs_NewBlockers s))
           @ '' blocker(s))  Resolved: '' @ (show_nat (cs_Resolved s)) @ '' (''
           @ (show_nat (cs_ResolvedBlockers s)) @ '' blocker(s))  '' @ NotReEvaluatedLabel
           @ '': '' @ (show_nat (cs_NotReEvaluated s)) @ ''  Changed: ''
           @ (show_nat (cs_Changed s)) @ ''  Unchanged: '' @ (show_nat (cs_Unchanged s)))]
         @ (if cs_NotReEvaluated s > 0
            then [NotReEvaluatedLabel @ '': '' @ NotReEvaluatedExplanation] else [])
         @ map (\<lambda>w. ''Warning: '' @ w) warnings)"

definition coverage_status_label :: "string \<Rightarrow> string" where
  \<comment> \<open>\<open>EvaluationCoverageStatus.Label\<close>\<close>
  "coverage_status_label s =
     (if s = ''complete'' then ''Complete''
      else if s = ''partial'' then ''Partial''
      else if s = ''normalized_legacy'' then ''Normalized legacy''
      else ''Unavailable'')"

fun decision_string :: "Decision \<Rightarrow> string" where
  "decision_string DecisionPass = ''pass''"
| "decision_string DecisionFail = ''fail''"
| "decision_string DecisionNeutral = ''neutral''"

fun reason_code_string :: "ReasonCode \<Rightarrow> string" where
  "reason_code_string ReasonNewBlockersDetected = ''NEW_BLOCKERS_DETECTED''"
| "reason_code_string ReasonNewWarningsDetected = ''NEW_WARNINGS_DETECTED''"
| "reason_code_string ReasonWarningsPresent = ''WARNINGS_PRESENT''"
| "reason_code_string ReasonReadinessVerdictRegressed = ''READINESS_VERDICT_REGRESSED''"
| "reason_code_string ReasonReadinessScoreRegressed = ''READINESS_SCORE_REGRESSED''"
| "reason_code_string ReasonInsufficientEvidence = ''INSUFFICIENT_EVIDENCE''"

definition gate_lines :: "GateResult \<Rightarrow> string list" where
  "gate_lines result =
     [''Gate decision: '' @ decision_string (g_Decision result)
        @ (if g_Reasons result = [] then ''''
           else '' (['' @ Join (map reason_code_string (g_Reasons result)) '' '' @ ''])''),
      ''Evaluation coverage: '' @ coverage_status_label (gc_Status (g_EvaluationCoverage result))]
     @ map (\<lambda>a. ''Advisory: '' @ a) (g_EvaluationAdvisories result)"

section \<open>The command\<close>

record compare_outcome =
  co_Error :: "cli_error option"
  co_ExitCode :: int
  co_Lines :: "string list" \<comment> \<open>standard output\<close>
  co_Comparison :: "Comparison option" \<comment> \<open>as written\<close>
  co_Gate :: "GateResult option"

definition compare_failed :: "cli_error \<Rightarrow> compare_outcome" where
  "compare_failed err =
     \<lparr>co_Error = Some err, co_ExitCode = 0, co_Lines = [], co_Comparison = None, co_Gate = None\<rparr>"

definition run_gate ::
  "compare_env \<Rightarrow> compare_flags \<Rightarrow> Report \<Rightarrow> Report \<Rightarrow> Comparison \<Rightarrow> compare_outcome \<Rightarrow> compare_outcome"
where
  "run_gate env fl baseline current cmp out =
     (if cf_GateOut fl = '''' then out
      else
        let result = Evaluate baseline current cmp (compare_policy fl)
        in case write_if env (cf_GateOut fl) of
             Some err \<Rightarrow> out\<lparr>co_Error := Some err\<rparr>
           | None \<Rightarrow>
               out\<lparr>co_Lines := co_Lines out @ gate_lines result, co_Gate := Some result,
                   co_ExitCode := (if g_Decision result = DecisionFail then 1 else co_ExitCode out)\<rparr>)"

definition run_compare :: "compare_env \<Rightarrow> compare_flags \<Rightarrow> compare_outcome" where
  "run_compare env fl =
     (case compare_flag_error fl of
        Some err \<Rightarrow> compare_failed (PlainError err)
      | None \<Rightarrow>
          (case compare_documents env fl of
             Inl err \<Rightarrow> compare_failed err
           | Inr (baseline, current, cmp) \<Rightarrow>
               let warnings = (if cf_Redact fl then redacted_warnings cmp
                               else map comparison_warning_text (cmp_Warnings cmp));
                   cmp = (if cf_Redact fl then redact_Comparison cmp else cmp)
               in case first_error [write_if env (cf_JSONOut fl), write_if env (cf_MarkdownOut fl)] of
                    Some err \<Rightarrow> compare_failed err
                  | None \<Rightarrow>
                      run_gate env fl baseline current cmp
                        \<lparr>co_Error = None, co_ExitCode = 0, co_Lines = comparison_lines warnings cmp,
                         co_Comparison = Some cmp, co_Gate = None\<rparr>))"

definition compare_exit :: "compare_outcome \<Rightarrow> int" where
  \<comment> \<open>the exit code of the process\<close>
  "compare_exit out = exitCodeForError (co_Error out) (co_ExitCode out)"

section \<open>What the exit code means\<close>

lemma redact_Comparison_simps [simp]:
  "cmp_Summary (redact_Comparison c) = cmp_Summary c"
  "cmp_Warnings (redact_Comparison c) = cmp_Warnings c"
  "cmp_New (redact_Comparison c) = map redactFinding (cmp_New c)"
  by (simp_all add: redact_Comparison_def)

lemma Evaluate_redact [simp]:
  "Evaluate baseline current (redact_Comparison cmp) policy = Evaluate baseline current cmp policy"
proof -
  have "countSeverity (map redactFinding es) s = countSeverity es s" for es s
    by (simp add: countSeverity_def filter_map comp_def)
  then show ?thesis
    by (simp add: Evaluate_def buildEvaluationPresentation_def gate_reasons_def Let_def)
qed

definition outputs_written :: "compare_env \<Rightarrow> compare_flags \<Rightarrow> bool" where
  "outputs_written env fl \<longleftrightarrow>
     list_all (\<lambda>path. write_if env path = None) [cf_JSONOut fl, cf_MarkdownOut fl, cf_GateOut fl]"

lemma first_error_two:
  "first_error [a] = None \<longleftrightarrow> a = None"
  "first_error [a, b] = None \<longleftrightarrow> a = None \<and> b = None"
  by (cases a; simp) (cases a; cases b; simp)

lemma compare_exit_clean:
  assumes "compare_flag_error fl = None" and "compare_documents env fl = Inr (baseline, current, cmp)"
    and "outputs_written env fl"
  shows "co_Error (run_compare env fl) = None
    \<and> co_ExitCode (run_compare env fl)
      = (if cf_GateOut fl \<noteq> ''''
            \<and> g_Decision (Evaluate baseline current cmp (compare_policy fl)) = DecisionFail
         then 1 else 0)"
  using assms(3)
  by (auto simp: run_compare_def assms(1,2) outputs_written_def run_gate_def Let_def)

lemma cli_error_code: "exitCodeForError (Some err) c \<noteq> 0"
  by (cases err) (simp_all add: exitCodeForError_def)

lemma compare_error_unless_clean:
  assumes "co_Error (run_compare env fl) = None"
  shows "compare_flag_error fl = None
    \<and> (\<exists>baseline current cmp. compare_documents env fl = Inr (baseline, current, cmp))
    \<and> outputs_written env fl"
  using assms
  by (auto simp: run_compare_def compare_failed_def run_gate_def outputs_written_def Let_def
      first_error_two write_if_def split: option.splits sum.splits if_splits)

text \<open>
  C2: The command \<open>compare\<close> exits with 0 exactly if its flags are right, both documents could be read,
  loaded and compared, everything was written, and the gate, when one was asked for, did not fail;
  the decision is that of the unredacted documents, with or without redaction. Where nothing else goes
  wrong a failing gate gives exit code 1.
\<close>

theorem compare_exit_zero:
  "compare_exit (run_compare env fl) = 0 \<longleftrightarrow>
     compare_flag_error fl = None \<and> outputs_written env fl
     \<and> (case compare_documents env fl of
          Inl _ \<Rightarrow> False
        | Inr (baseline, current, cmp) \<Rightarrow>
            \<not> (cf_GateOut fl \<noteq> ''''
               \<and> g_Decision (Evaluate baseline current cmp (compare_policy fl)) = DecisionFail))"
proof (cases "co_Error (run_compare env fl)")
  case (Some err)
  with cli_error_code have "compare_exit (run_compare env fl) \<noteq> 0" by (simp add: compare_exit_def)
  moreover have "\<not> (compare_flag_error fl = None \<and> outputs_written env fl
      \<and> (\<exists>baseline current cmp. compare_documents env fl = Inr (baseline, current, cmp)))"
    using compare_exit_clean Some by fastforce
  ultimately show ?thesis by (auto split: sum.splits)
next
  case None
  from compare_error_unless_clean [OF this] obtain baseline current cmp
    where clean: "compare_flag_error fl = None" "outputs_written env fl"
      "compare_documents env fl = Inr (baseline, current, cmp)"
    by blast
  with compare_exit_clean [OF clean(1,3,2)] show ?thesis
    by (auto simp: compare_exit_def exitCodeForError_def)
qed

end
