(* ===== verification/PlanCommand.thy ===== *)
theory PlanCommand
  imports ScanCommand PlanFacts
begin

text \<open>
  The command \<open>plan\<close> (\<open>internal/cli/plan.go\<close>): the version to start from, the exact report of the
  first hop, and what can be said of the hops after it.

  The environment is that of \<open>scan\<close>; the two maps of rules that \<open>assessHop\<close> goes over in Go's random
  order come with their orders as parameters. \<open>assessHop\<close> calls the rules without the recovery of the
  engine, so a panic of a rule ends the process.
\<close>

section \<open>Flags\<close>

record plan_flags =
  pf_Shared :: scan_flags 
    \<comment> \<open>those \<open>scan\<close> has too; there is no \<open>--target-version\<close> and no \<open>--manifests-only\<close>\<close>
  pf_FromVersion :: string
  pf_ToVersion :: string
  pf_ActionPlanOut :: string
  pf_ActionPlanMD :: string

record 's plan_env =
  pe_Scan :: "'s scan_env"
  pe_ManifestOrder :: "string list" \<comment> \<open>the order \<open>manifestProjectableRules\<close> is visited in\<close>
  pe_AwsOrder :: "string list"
  pe_PlanTerminal :: "string option" \<comment> \<open>the error of writing the summary of the plan\<close>

definition manifestProjectableRules :: "string list" where
  "manifestProjectableRules = [''API-001'', ''API-002'']"

definition awsProjectableRules :: "string list" where
  "awsProjectableRules =
     [''ADDON-001'', ''ADDON-002'', ''EKS-INSIGHT-001'', ''EKS-INSIGHT-002'', ''EKS-INSIGHT-003'']"

definition plan_provider_error :: "scan_flags \<Rightarrow> string option" where
  "plan_provider_error fl =
     (let p = fl_Provider fl;
          unimplemented = (''--provider='' @ p @ '' is recognized but enrichment isn'' @ sq
                           @ ''t implemented yet '' @ emdash @ '' cluster-only checks aren''
                           @ sq @ ''t run automatically for it in this command; see ''
                           @ ''docs/provider-roadmap.md. Use --provider=eks or omit ''
                           @ ''--provider today.'')
      in if p = '''' then None
         else if p = ''eks''
         then (if fl_ClusterName fl = '''' then Some ''--cluster-name is required when --provider=eks''
               else None)
         else if p = ''aks''
         then (case aks_Validate fl of Some err \<Rightarrow> Some err | None \<Rightarrow> Some unimplemented)
         else if p = ''gke''
         then (case gke_Validate fl of Some err \<Rightarrow> Some err | None \<Rightarrow> Some unimplemented)
         else Some (''--provider '' @ quote p @ '' is not supported (use eks, aks, gke, or ''
                    @ ''omit for a cluster-only plan)''))"

definition invalid_version_error :: "string \<Rightarrow> string \<Rightarrow> string option" where
  "invalid_version_error opt v =
     (case ParseMajorMinor v of
        Inl e \<Rightarrow> Some (opt @ '' '' @ quote v @ '' is invalid: ''
                                  @ version_error_text e)
      | Inr _ \<Rightarrow> None)"

definition explicit_version :: "string \<Rightarrow> bool" where
  "explicit_version v \<longleftrightarrow> v \<noteq> '''' \<and> v \<noteq> ''auto''"

definition plan_flag_error :: "'s scan_env \<Rightarrow> plan_flags \<Rightarrow> cli_error option" where
  "plan_flag_error env fl =
     first_error
       [if pf_ToVersion fl = '''' then Some (PlainError ''--to-version is required'') else None,
        plain (output_error (pf_Shared fl)), plain (context_error (pf_Shared fl)),
        plain (plan_provider_error (pf_Shared fl)),
        plain (invalid_version_error ''--to-version'' (pf_ToVersion fl)),
        rejectUnsupportedTargetVersion (se_Catalog env) (pf_ToVersion fl),
        if explicit_version (pf_FromVersion fl)
        then plain (invalid_version_error ''--from-version'' (pf_FromVersion fl)) else None,
        plain (validateCollectorConcurrency (fl_CollectorConcurrency (pf_Shared fl)))]"

definition plan_settings_of :: "'s scan_env \<Rightarrow> plan_flags \<Rightarrow> cli_error + scan_settings" where
  "plan_settings_of env pfl =
     (case plan_flag_error env pfl of
        Some err \<Rightarrow> Inl err
      | None \<Rightarrow>
          let fl = pf_Shared pfl
          in case normalizeNamespaceAllowlist (se_LabelProblems env) (fl_NamespaceAllowlist fl) of
               Inl err \<Rightarrow> Inl (PlainError err)
             | Inr allowlist \<Rightarrow>
                 let serve = serving env fl
                 in case (if serve then validateListenAddress (fl_Listen fl) (fl_AllowRemoteReport fl)
                          else None) of
                      Some err \<Rightarrow> Inl (PlainError err)
                    | None \<Rightarrow>
                        Inr \<lparr>set_UpgradeContext =
                               (case ParseUpgradeContextFlag (fl_UpgradeContext fl) of
                                  Inr ctx \<Rightarrow> ctx | Inl _ \<Rightarrow> ContextUnset),
                             set_Allowlist = allowlist, set_Serve = serve,
                             set_TerminalMode = effectiveTerminalOutput (fl_TerminalOutput fl)
                               (fl_TerminalOutputSet fl) serve,
                             set_Output = effectiveScanOutput (fl_Output fl) (fl_OutputSet fl) serve,
                             set_FindingsPath =
                               resolveOutputPath (fl_OutputDir fl) (fl_FindingsOut fl)\<rparr>)"

section \<open>The first version\<close>

definition plan_client_error :: "'s scan_env \<Rightarrow> scan_flags \<Rightarrow> cli_error option" where
  "plan_client_error env fl =
     (let infra = (\<lambda>what. map_option (\<lambda>err. redactInfraFailure (what @ err) (fl_Redact fl)))
      in first_error
           [infra ''loading kubeconfig: '' (se_ClientConfig env),
            infra ''building Kubernetes client: '' (se_Clientset env),
            infra ''building apiextensions client: '' (se_APIExtensions env),
            infra ''building dynamic client: '' (se_DynamicClient env)])"

definition plan_context :: "'s scan_env \<Rightarrow> scan_flags \<Rightarrow> string" where
  "plan_context env fl =
     (if fl_Context fl \<noteq> '''' then fl_Context fl
      else case se_CurrentContext env of None \<Rightarrow> '''' | Some c \<Rightarrow> c)"

definition eks_version :: "'s scan_env \<Rightarrow> string option" where
  \<comment> \<open>what AWS says, when it can be asked and answers\<close>
  "eks_version env =
     (case se_LoadCollector env of
        Inl _ \<Rightarrow> None
      | Inr col \<Rightarrow> (case DescribeClusterVersion col of Inl _ \<Rightarrow> None | Inr v \<Rightarrow> Some v))"

definition resolveFromVersion ::
  "'s scan_env \<Rightarrow> string \<Rightarrow> string \<Rightarrow> cli_error + string \<times> string" where
  \<comment> \<open>the version and where it is from; the notices of failed attempts are left out\<close>
  "resolveFromVersion env explicit provider =
     (if explicit_version explicit then Inr (explicit, ''explicit-flag'')
      else case (if provider = ''eks'' then eks_version env else None) of
             Some v \<Rightarrow> Inr (v, ''eks-describe-cluster'')
           | None \<Rightarrow>
               (case ServerVersion (se_ServerVersion env) of
                  Inr v \<Rightarrow> Inr (v, ''k8s-server-version'')
                | Inl _ \<Rightarrow> Inl (PlainError
                    (''could not auto-detect the cluster'' @ sq @ ''s current version; pass ''
                     @ ''--from-version explicitly, e.g. --from-version 1.29''))))"

definition hop_error_text :: "string \<Rightarrow> string \<Rightarrow> hop_error \<Rightarrow> string" where
  \<comment> \<open>the messages of \<open>GenerateHops\<close>\<close>
  "hop_error_text fromVersion toVersion e =
     (case e of
        FromVersionError err \<Rightarrow> (''parsing --from-version '' @ quote fromVersion
                                            @ '': '' @ version_error_text err)
      | ToVersionError err \<Rightarrow> (''parsing --to-version '' @ quote toVersion @ '': ''
                                          @ version_error_text err)
      | PlanAcrossMajor a b c d \<Rightarrow>
          (''cannot plan across major versions: '' @ show_int a @ ''.'' @ show_int b
           @ '' -> '' @ show_int c @ ''.'' @ show_int d)
      | NothingToPlan a b \<Rightarrow>
          (''--from-version and --to-version are both '' @ show_int a @ ''.'' @ show_int b
           @ '' '' @ emdash @ '' nothing to plan'')
      | DowngradeNotSupported a b c d \<Rightarrow>
          (''--to-version '' @ show_int a @ ''.'' @ show_int b
           @ '' is behind --from-version '' @ show_int c @ ''.'' @ show_int d @ '' '' @ emdash
           @ '' downgrades are not supported''))"

definition plan_path :: "'s scan_env \<Rightarrow> plan_flags \<Rightarrow> cli_error + string \<times> string \<times> Hop list" where
  \<comment> \<open>the version, its source and the hops\<close>
  "plan_path env fl =
     (case plan_client_error env (pf_Shared fl) of
        Some err \<Rightarrow> Inl err
      | None \<Rightarrow>
          (case resolveFromVersion env (pf_FromVersion fl) (fl_Provider (pf_Shared fl)) of
             Inl err \<Rightarrow> Inl err
           | Inr (fromVersion, source) \<Rightarrow>
               (case rejectDowngrade fromVersion (pf_ToVersion fl) of
                  Some err \<Rightarrow> Inl (PlainError err)
                | None \<Rightarrow>
                    (case GenerateHops fromVersion (pf_ToVersion fl) of
                       Inl err \<Rightarrow> Inl (PlainError (hop_error_text fromVersion (pf_ToVersion fl) err))
                     | Inr hops \<Rightarrow> Inr (fromVersion, source, hops)))))"

section \<open>The first hop\<close>

definition plan_collect_aws ::
  "'s scan_env \<Rightarrow> scan_flags \<Rightarrow> string \<Rightarrow> (AWSSnapshot option \<times> string option) option" where
  "plan_collect_aws env fl target =
     (if fl_Provider fl \<noteq> ''eks'' then Some (None, None)
      else case se_LoadCollector env of
             Inl err \<Rightarrow> Some (None, Some err)
           | Inr col \<Rightarrow> map_option (\<lambda>s. (Some s, None)) (aws_Collect col target))"

definition plan_scan_context ::
  "scan_flags \<Rightarrow> scan_settings \<Rightarrow> K8sSnapshot \<Rightarrow> AWSSnapshot option \<Rightarrow> ManifestSnapshot option
     \<Rightarrow> ScanContext" where
  "plan_scan_context fl st snap awsSnap manifestSnap =
     \<lparr>sc_K8s = Some snap, sc_AWSSnapshot = awsSnap, sc_ManifestSnapshot = manifestSnap,
      sc_UpgradeContext = set_UpgradeContext st, sc_KubernetesRequested = True,
      sc_AWSRequested = (fl_Provider fl = ''eks''), sc_ManifestsRequested = manifests_requested fl\<rparr>"

definition hop1_report ::
  "'s scan_env \<Rightarrow> scan_flags \<Rightarrow> scan_settings \<Rightarrow> string \<Rightarrow> string \<Rightarrow> K8sSnapshot \<Rightarrow> AWSSnapshot option
     \<Rightarrow> string option \<Rightarrow> ManifestSnapshot option \<Rightarrow> Report" where
  "hop1_report env fl st fromVersion target snap awsSnap awsUnavailable manifestSnap =
     (case RunAllWithExecutions sanitizeRuleError (default_registry (se_Rules env))
             (Some (plan_scan_context fl st snap awsSnap manifestSnap)) target of
        (found, ruleExecutions, _) \<Rightarrow>
          let fs = FilterByNamespaceAllowlist found (set_Allowlist st);
              rpt = NewReportWithUpgradeContext target (plan_context env fl) (fl_Provider fl)
                      (set_UpgradeContext st) (se_Now env) fs;
              rpt = (case NormalizeKubernetesVersion fromVersion of
                       Some normalized \<Rightarrow> rpt\<lparr>r_CurrentVersion := normalized\<rparr> | None \<Rightarrow> rpt);
              rpt = rpt\<lparr>r_RuleExecutions := ruleExecutions, r_NamespaceAllowlist := set_Allowlist st\<rparr>;
              rpt = SetCoverage
                      (buildScanCoverage (se_Kinds env) (Some snap) awsSnap manifestSnap True
                        (fl_Provider fl = ''eks'') (manifests_requested fl) awsUnavailable) rpt
          in rpt\<lparr>r_EKSCluster := eksClusterInfo (fl_ClusterName fl) awsSnap,
                 r_EKSAddons := eksAddonInfos awsSnap,
                 r_EKSNodegroups := eksNodegroupInfos awsSnap,
                 r_EKSUpgradeInsights := eksUpgradeInsightInfos awsSnap\<rparr>)"

section \<open>Future hops\<close>

definition isManifestOnlyFinding :: "Finding \<Rightarrow> bool" where
  "isManifestOnlyFinding f \<longleftrightarrow>
     list_all (\<lambda>ref. ref_Plane ref = PlaneManifest) (f_Resources f) \<and> f_Resources f \<noteq> []"

definition awsProjectionIncomplete :: "string \<Rightarrow> errors \<Rightarrow> bool" where
  "awsProjectionIncomplete ruleID errs =
     (let prefixes =
        (if ruleID \<in> {''EKS-INSIGHT-001'', ''EKS-INSIGHT-002'', ''EKS-INSIGHT-003''}
         then [''list-insights'', ''describe-insight:'']
         else if ruleID \<in> {''ADDON-001'', ''ADDON-002''}
         then [''list-addons'', ''describe-addon:'', ''describe-addon-versions:'']
         else [])
      in list_ex (\<lambda>(k, _). list_ex (\<lambda>p. HasPrefix k p) prefixes) errs)"

definition replace_char :: "char \<Rightarrow> string \<Rightarrow> string \<Rightarrow> string" where
  \<comment> \<open>\<open>strings.ReplaceAll\<close> of a single character\<close>
  "replace_char c new s = concat (map (\<lambda>x. if x = c then new else [x]) s)"

definition shellQuoteArg :: "string \<Rightarrow> string" where
  "shellQuoteArg value = sq @ replace_char (hd sq) (sq @ dq @ sq @ dq @ sq) value @ sq"

definition buildRecommendedScanCommand ::
  "string \<Rightarrow> scan_flags \<Rightarrow> string list \<Rightarrow> UpgradeContext \<Rightarrow> string" where
  "buildRecommendedScanCommand targetVersion fl namespaceAllowlist upgradeContext =
     (let opt = (\<lambda>name value. [name, shellQuoteArg value])
      in Join ([''kubepreflight'', ''scan''] @ opt ''--target-version'' targetVersion
           @ (if context_string upgradeContext \<noteq> '''' \<and> upgradeContext \<noteq> ContextUnspecified
              then opt ''--upgrade-context'' 
                     (replace_char (CHR ''_'') ''-'' (context_string upgradeContext))
              else [])
           @ (if fl_Provider fl \<noteq> '''' then opt ''--provider'' (fl_Provider fl) else [])
           @ (if fl_ClusterName fl \<noteq> '''' then opt ''--cluster-name'' (fl_ClusterName fl) else [])
           @ concat (map (opt ''--manifests'') (fl_Manifests fl))
           @ concat (map (opt ''--helm-chart'') (fl_HelmCharts fl))
           @ (if namespaceAllowlist \<noteq> []
              then opt ''--namespace-allowlist'' (Join namespaceAllowlist '','') else [])) '' '')"

datatype 'a hop_result = NeverReturns | Panics string | Answers 'a

definition carry_note :: "string \<Rightarrow> string \<Rightarrow> string \<Rightarrow> CarryForwardNote" where
  "carry_note ruleID reason recommended =
     \<lparr>cf_RuleID = ruleID, cf_Reason = reason, cf_RecommendedCommand = recommended\<rparr>"

type_synonym projection = "Finding list \<times> CarryForwardNote list"

definition live_component_note :: "string \<Rightarrow> string \<Rightarrow> CarryForwardNote" where
  "live_component_note ruleID recommended =
     carry_note ruleID
       (''some '' @ ruleID @ '' findings are tied to a live cluster object (or a ''
        @ ''cross-plane match with one), which may be remediated or replaced before this ''
        @ ''hop is reached '' @ emdash @ '' only the pure-manifest findings above are ''
        @ ''projected forward'')
       recommended"

definition incomplete_note :: "string \<Rightarrow> string \<Rightarrow> CarryForwardNote" where
  "incomplete_note ruleID recommended =
     carry_note ruleID
       (''AWS evidence for '' @ ruleID @ '' was incomplete for this target version '' @ emdash
        @ '' no clean conclusion can be drawn until the check is rerun'')
       recommended"

definition no_aws_note :: "string \<Rightarrow> string \<Rightarrow> CarryForwardNote" where
  "no_aws_note ruleID recommended =
     carry_note ruleID
       (''AWS enrichment is not available for this hop (no --provider=eks, or AWS ''
        @ ''credentials were unavailable for hop 1) '' @ emdash
        @ '' rerun with --provider=eks once this hop is reached to check '' @ ruleID)
       recommended"

definition live_state_note :: "string \<Rightarrow> string \<Rightarrow> CarryForwardNote" where
  "live_state_note ruleID recommended =
     carry_note ruleID
       (ruleID @ '' describes current live-cluster state that will likely change by the ''
        @ ''time this hop is reached '' @ emdash @ '' rerun the scan once this hop is ''
        @ ''actually reached.'')
       recommended"

text \<open>One rule of each loop: what it adds to the findings and the notes.\<close>

definition evaluate_again ::
  "rule_env \<Rightarrow> string \<Rightarrow> ScanContext \<Rightarrow> Hop \<Rightarrow> (string + Finding list) hop_result" where
  "evaluate_again env ruleID sc hop =
     (case rule_body env ruleID (Some sc) (hop_To hop) of
        Panicked p \<Rightarrow> Panics p
      | Returned _ (Some err) \<Rightarrow>
          Answers (Inl (''re-evaluating '' @ ruleID @ '' for hop '' @ hop_To hop @ '': ''
                        @ err))
      | Returned fs None \<Rightarrow> Answers (Inr fs))"

definition project_manifest :: "string \<Rightarrow> string \<Rightarrow> Finding list \<Rightarrow> projection" where
  "project_manifest recommended ruleID fs =
     (filter isManifestOnlyFinding fs,
      if list_ex (\<lambda>f. \<not> isManifestOnlyFinding f) fs
      then [live_component_note ruleID recommended] else [])"

definition project_aws :: "string \<Rightarrow> errors \<Rightarrow> string \<Rightarrow> Finding list \<Rightarrow> projection" where
  "project_aws recommended errs ruleID fs =
     (fs, if awsProjectionIncomplete ruleID errs then [incomplete_note ruleID recommended] else [])"

fun project_rules ::
  "(string \<Rightarrow> (string + Finding list) hop_result) \<Rightarrow> (string \<Rightarrow> Finding list \<Rightarrow> projection)
     \<Rightarrow> string list \<Rightarrow> (string + projection) hop_result" where
  \<comment> \<open>the loop over a map of rules\<close>
  "project_rules evaluate project [] = Answers (Inr ([], []))"
| "project_rules evaluate project (ruleID # rest) =
     (case evaluate ruleID of
        NeverReturns \<Rightarrow> NeverReturns
      | Panics p \<Rightarrow> Panics p
      | Answers (Inl err) \<Rightarrow> Answers (Inl err)
      | Answers (Inr fs) \<Rightarrow>
          (case project_rules evaluate project rest of
             Answers (Inr (predicted, carryForward)) \<Rightarrow>
               Answers (Inr (fst (project ruleID fs) @ predicted,
                 snd (project ruleID fs) @ carryForward))
           | r \<Rightarrow> r))"

definition with_policy :: "RuleProjectionPolicy \<Rightarrow> string list \<Rightarrow> string list" where
  "with_policy policy ruleIDs = filter (\<lambda>ruleID. PolicyFor ruleID = policy) ruleIDs"

definition manifest_projection ::
  "'s plan_env \<Rightarrow> ScanContext \<Rightarrow> string \<Rightarrow> Hop \<Rightarrow> (string + projection) hop_result" where
  "manifest_projection env sc recommended hop =
     project_rules (\<lambda>ruleID. evaluate_again (se_Rules (pe_Scan env)) ruleID sc hop)
       (project_manifest recommended) (with_policy ProjectFromManifests (pe_ManifestOrder env))"

definition aws_projection ::
  "'s plan_env \<Rightarrow> ScanContext \<Rightarrow> scan_flags \<Rightarrow> string \<Rightarrow> Hop
     \<Rightarrow> (string + projection \<times> PlaneCoverage) hop_result" where
  "aws_projection env sc fl recommended hop =
     (let ruleIDs = with_policy ProjectFromFreshAWSQuery (pe_AwsOrder env);
          skipped = plane_coverage CoverageSkipped
      in if ruleIDs = [] then Answers (Inr (([], []), skipped))
         else case (if fl_Provider fl = ''eks'' then se_LoadCollector (pe_Scan env) else Inl '''') of
           Inl _ \<Rightarrow>
             Answers (Inr (([], map (\<lambda>ruleID. no_aws_note ruleID recommended) ruleIDs), skipped))
         | Inr col \<Rightarrow>
             (case aws_Collect col (hop_To hop) of
                None \<Rightarrow> NeverReturns
              | Some fresh \<Rightarrow>
                  let coverage = (if aws_Errors fresh = [] then plane_coverage CoverageComplete
                        else \<lparr>pc_Status = CoveragePartial,
                              pc_Errors =
                                stableErrors (se_Kinds (pe_Scan env)) ''aws'' (aws_Errors fresh)\<rparr>);
                      scratch = sc\<lparr>sc_AWSSnapshot := Some fresh, sc_AWSRequested := True\<rparr>
                  in case project_rules
                            (\<lambda>ruleID. evaluate_again (se_Rules (pe_Scan env)) ruleID scratch hop)
                            (project_aws recommended (aws_Errors fresh)) ruleIDs of
                       NeverReturns \<Rightarrow> NeverReturns
                     | Panics p \<Rightarrow> Panics p
                     | Answers (Inl err) \<Rightarrow> Answers (Inl err)
                     | Answers (Inr projection) \<Rightarrow> Answers (Inr (projection, coverage))))"

definition carry_forward_rest :: "'s plan_env \<Rightarrow> string \<Rightarrow> CarryForwardNote list" where
  "carry_forward_rest env recommended =
     map (\<lambda>ruleID. live_state_note ruleID recommended)
       (filter (\<lambda>ruleID. ruleID \<notin> set manifestProjectableRules \<and> ruleID \<notin> set awsProjectableRules)
         (RuleIDs (default_registry (se_Rules (pe_Scan env)))))"

definition predicted_report ::
  "'s plan_env \<Rightarrow> ScanContext \<Rightarrow> scan_flags \<Rightarrow> Hop \<Rightarrow> PlaneCoverage \<Rightarrow> Finding list \<Rightarrow> Report option" where
  "predicted_report env sc fl hop awsCoverage predicted =
     (if predicted = [] then None
      else
        let rpt = NewReportWithUpgradeContext (hop_To hop) (plan_context (pe_Scan env) fl)
              (fl_Provider fl) (sc_UpgradeContext sc) (se_Now (pe_Scan env)) predicted;
            manifests = (case sc_ManifestSnapshot sc of
                None \<Rightarrow> plane_coverage CoverageSkipped
              | Some m \<Rightarrow>
                  if m_Errors m = [] then plane_coverage CoverageComplete
                  else \<lparr>pc_Status = CoveragePartial,
                        pc_Errors = stableErrors (se_Kinds (pe_Scan env)) ''manifests'' (m_Errors m)\<rparr>)
        in Some (SetCoverage
             \<lparr>sc_Kubernetes = plane_coverage CoverageSkipped, sc_AWS = awsCoverage,
              sc_Manifests = manifests\<rparr> (rpt\<lparr>r_CurrentVersion := hop_From hop\<rparr>)))"

definition assessHop ::
  "'s plan_env \<Rightarrow> ScanContext \<Rightarrow> scan_flags \<Rightarrow> string \<Rightarrow> Hop \<Rightarrow> (string + HopReport) hop_result" where
  "assessHop env sc fl recommended hop =
     (case manifest_projection env sc recommended hop of
        NeverReturns \<Rightarrow> NeverReturns
      | Panics p \<Rightarrow> Panics p
      | Answers (Inl err) \<Rightarrow> Answers (Inl err)
      | Answers (Inr (fromManifests, manifestNotes)) \<Rightarrow>
          (case aws_projection env sc fl recommended hop of
             NeverReturns \<Rightarrow> NeverReturns
           | Panics p \<Rightarrow> Panics p
           | Answers (Inl err) \<Rightarrow> Answers (Inl err)
           | Answers (Inr ((fromAWS, awsNotes), awsCoverage)) \<Rightarrow>
               Answers (Inr
                 \<lparr>hr_Hop = hop, hr_Status = HopStatusPredicted,
                  hr_Report = predicted_report env sc fl hop awsCoverage (fromManifests @ fromAWS),
                  hr_CarryForward = manifestNotes @ awsNotes @ carry_forward_rest env recommended\<rparr>)))"

section \<open>Files\<close>

definition writePlanReportFile :: "file_probe \<Rightarrow> string \<Rightarrow> string option" where
  "writePlanReportFile probe path = writeReportFile probe path FormatJSON"

definition writePlanHTMLFile :: "file_probe \<Rightarrow> string \<Rightarrow> string option" where
  "writePlanHTMLFile probe path = writeReportFile probe path FormatHTML"

definition writeActionPlanJSONFile :: "file_probe \<Rightarrow> string \<Rightarrow> string option" where
  "writeActionPlanJSONFile probe path = writeReportFile probe path FormatJSON"

definition writeActionPlanMarkdownFile :: "file_probe \<Rightarrow> string \<Rightarrow> string option" where
  "writeActionPlanMarkdownFile probe path = writeReportFile probe path FormatMarkdown"

text \<open>
  The files in order, each with what \<open>infraFailure\<close> says when it cannot be written. \<open>report.html\<close> is
  the page of the plan.
\<close>

definition plan_hop_target :: "(string \<Rightarrow> file_probe) \<Rightarrow> string \<times> report_format \<Rightarrow> string option" where
  "plan_hop_target fs target =
     (case target of (path, format) \<Rightarrow>
        if filepath_Base path = ''report.html''
        then map_option (\<lambda>err. ''writing HTML report: '' @ err) (writePlanHTMLFile (fs path) path)
        else map_option (\<lambda>err. ''writing plan reports: '' @ err) (writeReportFile (fs path) path format))"

definition plan_writes ::
  "(string \<Rightarrow> file_probe) \<Rightarrow> plan_flags \<Rightarrow> scan_settings \<Rightarrow> (string \<times> string option) list" where
  "plan_writes fs pfl st =
     (let fl = pf_Shared pfl; planPath = filepath_Join [fl_OutputDir fl, ''upgrade-plan.json''];
          json = pf_ActionPlanOut pfl; md = pf_ActionPlanMD pfl
      in map (\<lambda>target. (fst target, plan_hop_target fs target))
           (requestedReportTargetsInDir (set_Output st) (set_FindingsPath st) (set_Serve st)
             (fl_OutputDir fl))
         @ [(planPath, map_option (\<lambda>err. ''writing upgrade plan: '' @ err)
              (writePlanReportFile (fs planPath) planPath))]
         @ (if json \<noteq> ''''
            then [(json, map_option (\<lambda>err. ''writing action plan JSON: '' @ err)
              (writeActionPlanJSONFile (fs json) json))] else [])
         @ (if md \<noteq> ''''
            then [(md, map_option (\<lambda>err. ''writing action plan Markdown: '' @ err)
              (writeActionPlanMarkdownFile (fs md) md))] else []))"

fun written_until_error :: "(string \<times> string option) list \<Rightarrow> string option \<times> string list" where
  "written_until_error [] = (None, [])"
| "written_until_error ((path, Some err) # rest) = (Some err, [])"
| "written_until_error ((path, None) # rest) =
     (case written_until_error rest of (err, written) \<Rightarrow> (err, path # written))"

definition deliver_plan ::
  "'s plan_env \<Rightarrow> plan_flags \<Rightarrow> scan_settings \<Rightarrow> cli_error option \<times> string list" where
  "deliver_plan env pfl st =
     (let mode = set_TerminalMode st;
          terminal = first_error
            [if mode = ''full'' then map_option (\<lambda>e. ''rendering terminal report: '' @ e)
               (se_Terminal (pe_Scan env)) else None,
             if mode = ''full'' then map_option (\<lambda>e. ''rendering plan path summary: '' @ e)
               (pe_PlanTerminal env) else None,
             if mode = ''compact'' then map_option (\<lambda>e. ''rendering plan summary: '' @ e)
               (pe_PlanTerminal env) else None]
      in case terminal of
           Some err \<Rightarrow> (Some (PlainError err), [])
         | None \<Rightarrow>
             (case se_MkdirAll (pe_Scan env) of
                Some err \<Rightarrow> (Some (InfraFailure (''creating output directory: '' @ err)), [])
              | None \<Rightarrow>
                  (case written_until_error (plan_writes (se_Files (pe_Scan env)) pfl st) of
                     (Some err, written) \<Rightarrow> (Some (InfraFailure err), written)
                   | (None, written) \<Rightarrow>
                       (if set_Serve st then plain (se_Server (pe_Scan env)) else None, written))))"

section \<open>The command\<close>

record plan_outcome =
  po_Plan :: PlanReport \<comment> \<open>as written: after redaction\<close>
  po_ExitCode :: int
  po_Written :: "string list"
  po_Error :: "cli_error option"

fun assess_until :: "(Hop \<Rightarrow> (string + HopReport) hop_result) \<Rightarrow> Hop list \<Rightarrow> unit hop_result" where
  \<comment> \<open>whether the loop of \<open>BuildPlan\<close> over the hops comes to its end\<close>
  "assess_until assess [] = Answers ()"
| "assess_until assess (hop # hops) =
     (case assess hop of
        NeverReturns \<Rightarrow> NeverReturns
      | Panics p \<Rightarrow> Panics p
      | Answers (Inl _) \<Rightarrow> Answers ()
      | Answers (Inr _) \<Rightarrow> assess_until assess hops)"

definition hop_answer :: "(string + HopReport) hop_result \<Rightarrow> string + HopReport" where
  "hop_answer r = (case r of Answers a \<Rightarrow> a | _ \<Rightarrow> Inl '''')"

definition plan_error_text :: "plan_error \<Rightarrow> string" where
  "plan_error_text e =
     (case e of
        NoHops \<Rightarrow> ''BuildPlan: no hops given''
      | NoHop1Report \<Rightarrow> ''BuildPlan: hop1Report is required''
      | HopError hop err \<Rightarrow> (''assessing hop '' @ hop_From hop @ '' -> ''
                                        @ hop_To hop @ '': '' @ err))"

definition finish_plan ::
  "'s plan_env \<Rightarrow> plan_flags \<Rightarrow> scan_settings \<Rightarrow> string \<Rightarrow> string \<Rightarrow> Hop list \<Rightarrow> ScanContext \<Rightarrow> Report
     \<Rightarrow> (cli_error + plan_outcome) hop_result" where
  \<comment> \<open>from the report of the first hop on\<close>
  "finish_plan env pfl st fromVersion source hops sc hop1 =
     (let fl = pf_Shared pfl;
          assess = (\<lambda>hop. assessHop env sc fl
            (buildRecommendedScanCommand (hop_To hop) fl (set_Allowlist st) (set_UpgradeContext st)) hop)
      in case assess_until assess (tl hops) of
           NeverReturns \<Rightarrow> NeverReturns
         | Panics p \<Rightarrow> Panics p
         | Answers _ \<Rightarrow>
             Answers
               (case BuildPlan (plan_context (pe_Scan env) fl) (fl_Provider fl) fromVersion source
                       (pf_ToVersion pfl) hops (Some hop1) (\<lambda>hop. hop_answer (assess hop))
                       (se_Now (pe_Scan env)) of
                  Inl err \<Rightarrow> Inl (PlainError (''building plan: '' @ plan_error_text err))
                | Inr p \<Rightarrow>
                    (case deliver_plan env pfl st of (err, written) \<Rightarrow>
                       Inr \<lparr>po_Plan = (if fl_Redact fl then redact_PlanReport p else p),
                            po_ExitCode = ExitCode hop1, po_Written = written, po_Error = err\<rparr>)))"

definition run_plan ::
  "'s plan_env \<Rightarrow> plan_flags \<Rightarrow> K8sSnapshot \<Rightarrow> (cli_error + plan_outcome) hop_result" where
  "run_plan env pfl snap =
     (let senv = pe_Scan env; fl = pf_Shared pfl
      in case plan_settings_of senv pfl of
           Inl err \<Rightarrow> Answers (Inl err)
         | Inr st \<Rightarrow>
             (case plan_path senv pfl of
                Inl err \<Rightarrow> Answers (Inl err)
              | Inr (fromVersion, source, hops) \<Rightarrow>
                  (case plan_collect_aws senv fl (hop_To (hd hops)) of
                     None \<Rightarrow> NeverReturns
                   | Some (awsSnap, awsUnavailable) \<Rightarrow>
                       (case collect_manifests senv fl of
                          None \<Rightarrow> NeverReturns
                        | Some manifestSnap \<Rightarrow>
                            finish_plan env pfl st fromVersion source hops
                              (plan_scan_context fl st snap awsSnap manifestSnap)
                              (hop1_report senv fl st fromVersion (hop_To (hd hops)) snap awsSnap
                                awsUnavailable manifestSnap)))))"

definition plan_exit :: "(cli_error + plan_outcome) hop_result \<Rightarrow> int option" where
  \<comment> \<open>the exit code of the process; none if it never ends\<close>
  "plan_exit r =
     (case r of
        NeverReturns \<Rightarrow> None
      | Panics p \<Rightarrow> Some (exitCodeForError (Some (CrashedWith p)) 0)
      | Answers (Inl err) \<Rightarrow> Some (exitCodeForError (Some err) 0)
      | Answers (Inr out) \<Rightarrow> Some (exitCodeForError (po_Error out) (po_ExitCode out)))"

end
