(* ===== verification/PlanCommandFacts.thy ===== *)
theory PlanCommandFacts
  imports PlanCommand ScanFacts
begin

text \<open>
  The \<open>plan\<close> command: its first hop is a scan, and what becomes of each rule in a later hop.
\<close>

section \<open>The first hop\<close>

lemma plan_collect_aws_scan:
  "plan_collect_aws env fl t
     = collect_aws env (fl\<lparr>fl_TargetVersion := t, fl_ManifestsOnly := False\<rparr>)"
  by (simp add: plan_collect_aws_def collect_aws_def split: sum.split)

lemma collect_manifests_scan:
  "collect_manifests env (fl\<lparr>fl_TargetVersion := t, fl_ManifestsOnly := False\<rparr>) = collect_manifests env fl"
  by (simp add: collect_manifests_def manifests_requested_def)

text \<open>The flags of the scan a hop stands for.\<close>

definition scan_flags_at :: "scan_flags \<Rightarrow> string \<Rightarrow> scan_flags" where
  "scan_flags_at fl target = fl\<lparr>fl_TargetVersion := target, fl_ManifestsOnly := False\<rparr>"

definition same_report_settings :: "scan_settings \<Rightarrow> scan_settings \<Rightarrow> bool" where
  "same_report_settings st st' \<longleftrightarrow>
     set_UpgradeContext st = set_UpgradeContext st' \<and> set_Allowlist st = set_Allowlist st'"

lemma plan_settings_scan:
  assumes "plan_settings_of env pfl = Inr st"
    and "scan_settings_of env (scan_flags_at (pf_Shared pfl) t) = Inr st'"
  shows "same_report_settings st st'"
  using assms
  by (auto simp: plan_settings_of_def scan_settings_of_def scan_flags_at_def same_report_settings_def Let_def
      split: option.splits sum.splits)

lemma NewReport_current:
  "(NewReportWithUpgradeContext t c p u now fs)\<lparr>r_CurrentVersion := ''''\<rparr>
     = NewReportWithUpgradeContext t c p u now fs"
  by (simp add: NewReportWithUpgradeContext_def Let_def)


lemma SetCoverage_current:
  "SetCoverage cov (r\<lparr>r_CurrentVersion := v\<rparr>) = (SetCoverage cov r)\<lparr>r_CurrentVersion := v\<rparr>"
proof -
  have "Result (r\<lparr>r_CurrentVersion := v, r_Coverage := cov\<rparr>) = Result (r\<lparr>r_Coverage := cov\<rparr>)"
    by (rule Result_cong) simp_all
  then show ?thesis by (simp add: SetCoverage_def Let_def)
qed

lemma execution_update_current:
  "r\<lparr>r_CurrentVersion := v, r_RuleExecutions := recs, r_NamespaceAllowlist := ns\<rparr>
     = r\<lparr>r_RuleExecutions := recs, r_NamespaceAllowlist := ns, r_CurrentVersion := v\<rparr>"
  by simp

lemma hop1_report_scan:
  assumes "same_report_settings st st'"
    and "ev_K8s ev = Some snap" "ev_AWS ev = awsSnap" "ev_AWSUnavailable ev = noAws"
      "ev_Manifests ev = manifestSnap" "ev_Context ev = plan_context env fl"
  shows "\<exists>v. hop1_report env fl st fromVersion t snap awsSnap noAws manifestSnap
    = (full_report env (scan_flags_at fl t) st' ev)\<lparr>r_CurrentVersion := v\<rparr>"
proof -
  have sc: "plan_scan_context fl st snap awsSnap manifestSnap = scan_context (scan_flags_at fl t) st' ev"
    using assms by (simp add: plan_scan_context_def scan_context_def scan_flags_at_def
        same_report_settings_def manifests_requested_def)
  have rest: "scan_registry env (scan_flags_at fl t) = default_registry (se_Rules env)"
    "fl_TargetVersion (scan_flags_at fl t) = t" "fl_Provider (scan_flags_at fl t) = fl_Provider fl"
    "fl_ClusterName (scan_flags_at fl t) = fl_ClusterName fl"
    "manifests_requested (scan_flags_at fl t) = manifests_requested fl"
    "\<not> fl_ManifestsOnly (scan_flags_at fl t)"
    by (simp_all add: scan_registry_def scan_flags_at_def manifests_requested_def)
  obtain found recs errs where run:
    "RunAllWithExecutions sanitizeRuleError (default_registry (se_Rules env))
       (Some (scan_context (scan_flags_at fl t) st' ev)) t = (found, recs, errs)"
    by (metis prod_cases3)
  let ?v = "case NormalizeKubernetesVersion fromVersion of Some n \<Rightarrow> n | None \<Rightarrow> ''''"
  let ?new = "NewReportWithUpgradeContext t (plan_context env fl) (fl_Provider fl)
      (set_UpgradeContext st') (se_Now env) (FilterByNamespaceAllowlist found (set_Allowlist st'))"
  have current: "(case NormalizeKubernetesVersion fromVersion of
      Some n \<Rightarrow> ?new\<lparr>r_CurrentVersion := n\<rparr> | None \<Rightarrow> ?new) = ?new\<lparr>r_CurrentVersion := ?v\<rparr>"
    by (cases "NormalizeKubernetesVersion fromVersion") (simp_all add: NewReport_current)
  have "hop1_report env fl st fromVersion t snap awsSnap noAws manifestSnap
      = (full_report env (scan_flags_at fl t) st' ev)\<lparr>r_CurrentVersion := ?v\<rparr>"
    using assms
    by (simp add: hop1_report_def full_report_def evaluate_rules_def sc rest run Let_def current
        scan_coverage_of_def same_report_settings_def SetCoverage_current execution_update_current)
  then show ?thesis by blast
qed

lemma connect_context:
  assumes "connect env fl = Inr (ctx, v)"
  shows "ctx = plan_context env fl"
  using assms
  by (auto simp: connect_def plan_context_def Let_def split: option.splits sum.splits)

lemma run_planE:
  assumes "run_plan env pfl snap = Answers (Inr out)"
  obtains st fromVersion source hops awsSnap noAws manifestSnap where
    "plan_settings_of (pe_Scan env) pfl = Inr st"
    "plan_path (pe_Scan env) pfl = Inr (fromVersion, source, hops)"
    "plan_collect_aws (pe_Scan env) (pf_Shared pfl) (hop_To (hd hops)) = Some (awsSnap, noAws)"
    "collect_manifests (pe_Scan env) (pf_Shared pfl) = Some manifestSnap"
    "finish_plan env pfl st fromVersion source hops
       (plan_scan_context (pf_Shared pfl) st snap awsSnap manifestSnap)
       (hop1_report (pe_Scan env) (pf_Shared pfl) st fromVersion (hop_To (hd hops)) snap awsSnap
          noAws manifestSnap) = Answers (Inr out)"
  using assms by (auto simp: run_plan_def Let_def split: sum.splits option.splits prod.splits)

lemma BuildPlan_first:
  assumes "BuildPlan ctx p f src t hops (Some hop1) assess now = Inr pr"
  shows "\<exists>future. pr_Hops pr = \<lparr>hr_Hop = hd hops, hr_Status = HopStatusExact, hr_Report = Some hop1,
           hr_CarryForward = []\<rparr> # future
         \<and> assess_hops assess (tl hops) = Inr future"
  using assms by (auto simp: BuildPlan_def split: list.splits sum.splits)

lemma finish_planE:
  assumes "finish_plan env pfl st fromVersion source hops sc hop1 = Answers (Inr out)"
  obtains future where
    "pr_Hops (po_Plan out) = map (\<lambda>h. if fl_Redact (pf_Shared pfl)
        then h\<lparr>hr_Report := map_option redact_Report (hr_Report h)\<rparr> else h)
      (\<lparr>hr_Hop = hd hops, hr_Status = HopStatusExact, hr_Report = Some hop1, hr_CarryForward = []\<rparr> # future)"
    "assess_hops (\<lambda>hop. hop_answer (assessHop env sc (pf_Shared pfl)
       (buildRecommendedScanCommand (hop_To hop) (pf_Shared pfl) (set_Allowlist st)
         (set_UpgradeContext st)) hop)) (tl hops) = Inr future"
    "po_ExitCode out = ExitCode hop1" "po_Error out = fst (deliver_plan env pfl st)"
proof -
  let ?assess = "\<lambda>hop. assessHop env sc (pf_Shared pfl)
       (buildRecommendedScanCommand (hop_To hop) (pf_Shared pfl) (set_Allowlist st)
         (set_UpgradeContext st)) hop"
  from assms obtain pr where pr: "BuildPlan (plan_context (pe_Scan env) (pf_Shared pfl))
        (fl_Provider (pf_Shared pfl)) fromVersion source (pf_ToVersion pfl) hops (Some hop1)
        (\<lambda>hop. hop_answer (?assess hop)) (se_Now (pe_Scan env)) = Inr pr"
    and out: "po_Plan out = (if fl_Redact (pf_Shared pfl) then redact_PlanReport pr else pr)"
      "po_ExitCode out = ExitCode hop1" "po_Error out = fst (deliver_plan env pfl st)"
    by (auto simp: finish_plan_def Let_def split: hop_result.splits sum.splits prod.splits)
  from BuildPlan_first [OF pr] obtain future
    where "pr_Hops pr = \<lparr>hr_Hop = hd hops, hr_Status = HopStatusExact, hr_Report = Some hop1,
           hr_CarryForward = []\<rparr> # future"
      and future: "assess_hops (\<lambda>hop. hop_answer (?assess hop)) (tl hops) = Inr future"
    by blast
  with out show ?thesis
    by (intro that [OF _ future]) (simp_all add: redact_PlanReport_def)
qed

lemma redact_current_version:
  "redact_Report (r\<lparr>r_CurrentVersion := v\<rparr>) = (redact_Report r)\<lparr>r_CurrentVersion := v\<rparr>"
  by (simp add: redact_Report_def)

lemma ExitCode_current_version [simp]: "ExitCode (r\<lparr>r_CurrentVersion := v\<rparr>) = ExitCode r"
  by (simp add: ExitCode_def resultAndExitCode_def IsComplete_def)

text \<open>
  C3: The first hop of a plan is a scan: if \<open>scan\<close> runs with the flags of the plan and the target of its
  first hop, on the same cluster, it has the same report but for the current version, which the plan
  takes from where it was told to; and if both could deliver their files, they exit with the same
  code.
\<close>

theorem plan_first_hop_is_scan:
  assumes "run_plan env pfl snap = Answers (Inr pout)"
    and "run_scan (pe_Scan env)
      (scan_flags_at (pf_Shared pfl) (hop_To (hr_Hop (hd (pr_Hops (po_Plan pout)))))) snap = Some (Inr sout)"
  shows "(\<exists>v. first_hop_report (po_Plan pout) = Some ((out_Report sout)\<lparr>r_CurrentVersion := v\<rparr>))
    \<and> (po_Error pout = None \<and> out_Error sout = None
       \<longrightarrow> plan_exit (Answers (Inr pout)) = Some (scan_exit (Inr sout)))"
  using assms(1)
proof (rule run_planE)
  fix st fromVersion source and hops :: "Hop list" and awsSnap noAws manifestSnap
  let ?fl = "pf_Shared pfl" and ?env = "pe_Scan env"
  let ?t = "hop_To (hd hops)"
  let ?hop1 = "hop1_report ?env ?fl st fromVersion ?t snap awsSnap noAws manifestSnap"
  assume st: "plan_settings_of ?env pfl = Inr st"
    and aws: "plan_collect_aws ?env ?fl ?t = Some (awsSnap, noAws)"
    and manifests: "collect_manifests ?env ?fl = Some manifestSnap"
    and finish: "finish_plan env pfl st fromVersion source hops
       (plan_scan_context ?fl st snap awsSnap manifestSnap) ?hop1 = Answers (Inr pout)"
  from finish obtain future where hops: "pr_Hops (po_Plan pout) = map (\<lambda>h. if fl_Redact ?fl
        then h\<lparr>hr_Report := map_option redact_Report (hr_Report h)\<rparr> else h)
      (\<lparr>hr_Hop = hd hops, hr_Status = HopStatusExact, hr_Report = Some ?hop1, hr_CarryForward = []\<rparr> # future)"
    and code: "po_ExitCode pout = ExitCode ?hop1"
    by (rule finish_planE)
  have scan: "run_scan ?env (scan_flags_at ?fl ?t) snap = Some (Inr sout)"
    using assms(2) hops by (simp split: if_splits)
  from scan obtain st' ev where st': "scan_settings_of ?env (scan_flags_at ?fl ?t) = Inr st'"
    and ev: "collect_evidence ?env (scan_flags_at ?fl ?t) snap = Some (Inr ev)"
    and sout: "out_Report sout = scan_report_of ?env (scan_flags_at ?fl ?t) st' ev"
    by (rule run_scanE)
  have "ev_K8s ev = Some snap" "ev_AWS ev = awsSnap" "ev_AWSUnavailable ev = noAws"
    "ev_Manifests ev = manifestSnap" "ev_Context ev = plan_context ?env ?fl"
    using ev aws manifests
    by (auto simp: collect_evidence_def plan_collect_aws_scan collect_manifests_scan scan_flags_at_def
        plan_context_def dest!: connect_context split: sum.splits bind_splits)
  from hop1_report_scan [OF plan_settings_scan [OF st st'] this, of fromVersion ?t] obtain v
    where v: "?hop1 = (full_report ?env (scan_flags_at ?fl ?t) st' ev)\<lparr>r_CurrentVersion := v\<rparr>" by blast
  have redact: "fl_Redact (scan_flags_at ?fl ?t) = fl_Redact ?fl" by (simp add: scan_flags_at_def)
  have "first_hop_report (po_Plan pout) = Some ((out_Report sout)\<lparr>r_CurrentVersion := v\<rparr>)"
    using hops v by (simp add: first_hop_report_def sout scan_report_of_def redact redact_current_version)
  moreover have "ExitCode (out_Report sout) = po_ExitCode pout"
    by (simp add: code v sout ExitCode_report)
  ultimately show ?thesis
    by (auto simp: plan_exit_def scan_exit_def exitCodeForError_def)
qed

definition sample_plan_env :: "unit plan_env" where
  "sample_plan_env = \<lparr>pe_Scan = sample_scan_env, pe_ManifestOrder = rev manifestProjectableRules,
     pe_AwsOrder = awsProjectableRules, pe_PlanTerminal = None\<rparr>"

definition sample_plan_flags :: plan_flags where
  "sample_plan_flags = \<lparr>pf_Shared = sample_flags\<lparr>fl_ManifestsOnly := False\<rparr>,
     pf_FromVersion = ''1.29'', pf_ToVersion = ''1.30'', pf_ActionPlanOut = '''',
     pf_ActionPlanMD = ''actions.md''\<rparr>"

abbreviation sample_hop :: Hop where
  "sample_hop \<equiv> \<lparr>hop_Index = 1, hop_From = ''1.29'', hop_To = ''1.30''\<rparr>"

abbreviation sample_hop_flags :: scan_flags where
  "sample_hop_flags \<equiv> scan_flags_at (pf_Shared sample_plan_flags) ''1.30''"

lemma sample_plan_facts:
  "plan_settings_of sample_scan_env sample_plan_flags = Inr sample_settings
   \<and> plan_path sample_scan_env sample_plan_flags = Inr (''1.29'', ''explicit-flag'', [sample_hop])
   \<and> plan_collect_aws sample_scan_env (pf_Shared sample_plan_flags) target = Some (None, None)
   \<and> collect_manifests sample_scan_env (pf_Shared sample_plan_flags) = Some (Some empty_manifests)
   \<and> fst (deliver_plan sample_plan_env sample_plan_flags sample_settings) = None
   \<and> scan_settings_of sample_scan_env sample_hop_flags = Inr sample_settings
   \<and> collect_evidence sample_scan_env sample_hop_flags empty_snapshot
       = Some (Inr (sample_evidence\<lparr>ev_K8s := Some empty_snapshot\<rparr>))
   \<and> fst (deliver sample_scan_env sample_hop_flags sample_settings) = None
   \<and> list_all (\<lambda>r. PolicyFor r = ProjectFromManifests) manifestProjectableRules
   \<and> list_all (\<lambda>r. PolicyFor r = ProjectFromFreshAWSQuery) awsProjectableRules"
  by code_simp

lemma sample_plan_run:
  "\<exists>out. run_plan sample_plan_env sample_plan_flags empty_snapshot = Answers (Inr out)
     \<and> hop_To (hr_Hop (hd (pr_Hops (po_Plan out)))) = ''1.30'' \<and> po_Error out = None"
proof -
  have "\<not> fl_Redact (pf_Shared sample_plan_flags)" "pe_Scan sample_plan_env = sample_scan_env"
    by (simp_all add: sample_plan_flags_def sample_plan_env_def sample_flags_def)
  moreover obtain err written
    where deliver: "deliver_plan sample_plan_env sample_plan_flags sample_settings = (err, written)"
    by fastforce
  moreover from this have "err = None" using sample_plan_facts by simp
  ultimately show ?thesis
    by (simp add: run_plan_def finish_plan_def BuildPlan_def sample_plan_facts Let_def)
qed

lemma sample_plan_scan:
  "\<exists>out. run_scan sample_scan_env (scan_flags_at (pf_Shared sample_plan_flags) ''1.30'') empty_snapshot
     = Some (Inr out) \<and> out_Error out = None"
proof -
  obtain err written where deliver: "deliver sample_scan_env sample_hop_flags sample_settings = (err, written)"
    by fastforce
  moreover from this have "err = None" using sample_plan_facts by simp
  ultimately show ?thesis using sample_plan_facts by (simp add: run_scan_def scan_with_def)
qed

theorem plan_first_hop_is_scan_witness:
  "\<exists>pout sout v. run_plan sample_plan_env sample_plan_flags empty_snapshot = Answers (Inr pout)
     \<and> run_scan sample_scan_env (scan_flags_at (pf_Shared sample_plan_flags) ''1.30'') empty_snapshot
         = Some (Inr sout)
     \<and> first_hop_report (po_Plan pout) = Some ((out_Report sout)\<lparr>r_CurrentVersion := v\<rparr>)
     \<and> plan_exit (Answers (Inr pout)) = Some (scan_exit (Inr sout))"
proof -
  obtain pout where plan: "run_plan sample_plan_env sample_plan_flags empty_snapshot = Answers (Inr pout)"
    "hop_To (hr_Hop (hd (pr_Hops (po_Plan pout)))) = ''1.30''" "po_Error pout = None"
    using sample_plan_run by blast
  obtain sout where scan: "run_scan sample_scan_env
      (scan_flags_at (pf_Shared sample_plan_flags) ''1.30'') empty_snapshot = Some (Inr sout)"
    "out_Error sout = None"
    using sample_plan_scan by blast
  have "pe_Scan sample_plan_env = sample_scan_env" by (simp add: sample_plan_env_def)
  with plan_first_hop_is_scan [OF plan(1), of sout] plan scan show ?thesis by auto
qed

section \<open>Future hops\<close>

lemma project_rules_member:
  assumes "project_rules evaluate project ruleIDs = Answers (Inr (predicted, carried))"
    and "ruleID \<in> set ruleIDs"
  shows "\<exists>fs. evaluate ruleID = Answers (Inr fs)
    \<and> set (fst (project ruleID fs)) \<subseteq> set predicted \<and> set (snd (project ruleID fs)) \<subseteq> set carried"
  using assms
proof (induction ruleIDs arbitrary: predicted carried)
  case (Cons r rest)
  from Cons.prems(1) obtain fs predicted' carried' where
    r: "evaluate r = Answers (Inr fs)"
    and rest: "project_rules evaluate project rest = Answers (Inr (predicted', carried'))"
    and all: "predicted = fst (project r fs) @ predicted'" "carried = snd (project r fs) @ carried'"
    by (auto split: hop_result.splits sum.splits)
  show ?case
  proof (cases "ruleID = r")
    case True
    with r all show ?thesis by auto
  next
    case False
    with Cons.IH [OF rest] Cons.prems(2) all show ?thesis by fastforce
  qed
qed simp

lemma project_rules_carried:
  assumes "project_rules evaluate project ruleIDs = Answers (Inr (predicted, carried))"
    and "c \<in> set carried"
  shows "\<exists>r\<in>set ruleIDs. \<exists>fs. evaluate r = Answers (Inr fs) \<and> c \<in> set (snd (project r fs))"
  using assms
  by (induction ruleIDs arbitrary: predicted carried) (fastforce split: hop_result.splits sum.splits)+

lemma evaluate_again_fs:
  assumes "evaluate_again renv ruleID sc hop = Answers (Inr fs)"
  shows "rule_body renv ruleID (Some sc) (hop_To hop) = Returned fs None"
  using assms by (auto simp: evaluate_again_def split: rule_outcome.splits option.splits)

definition hop_findings :: "HopReport \<Rightarrow> Finding set" where
  "hop_findings hr = (case hr_Report hr of None \<Rightarrow> {} | Some r \<Rightarrow> set (r_Findings r))"

lemma predicted_findings:
  "(case predicted_report env sc fl hop cov predicted of None \<Rightarrow> {} | Some r \<Rightarrow> set (r_Findings r))
     = AssignPriority ` set predicted"
  by (simp add: predicted_report_def SetCoverage_def NewReportWithUpgradeContext_def Let_def)

lemma policies:
  "ruleID \<in> set manifestProjectableRules \<Longrightarrow> PolicyFor ruleID = ProjectFromManifests"
  "ruleID \<in> set awsProjectableRules \<Longrightarrow> PolicyFor ruleID = ProjectFromFreshAWSQuery"
proof -
  have "list_all (\<lambda>r. PolicyFor r = ProjectFromManifests) manifestProjectableRules"
    using sample_plan_facts by simp
  then show "ruleID \<in> set manifestProjectableRules \<Longrightarrow> PolicyFor ruleID = ProjectFromManifests"
    by (simp only: list_all_iff)
  have "list_all (\<lambda>r. PolicyFor r = ProjectFromFreshAWSQuery) awsProjectableRules"
    using sample_plan_facts by simp
  then show "ruleID \<in> set awsProjectableRules \<Longrightarrow> PolicyFor ruleID = ProjectFromFreshAWSQuery"
    by (simp only: list_all_iff)
qed

text \<open>
  What becomes of the two API rules: evaluated again on the evidence of the first hop, they add what
  they find in manifests, and have a note exactly if they found something else. Nothing asks whether
  there were manifests, or whether they could be read.
\<close>

definition has_note :: "HopReport \<Rightarrow> string \<Rightarrow> bool" where
  "has_note hr ruleID \<longleftrightarrow> ruleID \<in> cf_RuleID ` set (hr_CarryForward hr)"

definition projected_from_manifests :: "'s plan_env \<Rightarrow> ScanContext \<Rightarrow> HopReport \<Rightarrow> string \<Rightarrow> bool" where
  "projected_from_manifests env sc hr ruleID \<longleftrightarrow>
     (\<exists>fs. rule_body (se_Rules (pe_Scan env)) ruleID (Some sc) (hop_To (hr_Hop hr)) = Returned fs None
        \<and> AssignPriority ` set (filter isManifestOnlyFinding fs) \<subseteq> hop_findings hr
        \<and> (has_note hr ruleID \<longleftrightarrow> list_ex (\<lambda>f. \<not> isManifestOnlyFinding f) fs))"

text \<open>The evidence of an AWS rule without a note.\<close>

definition judged_by_aws :: "'s plan_env \<Rightarrow> ScanContext \<Rightarrow> HopReport \<Rightarrow> string \<Rightarrow> bool" where
  "judged_by_aws env sc hr ruleID \<longleftrightarrow>
     (\<exists>col fresh fs. se_LoadCollector (pe_Scan env) = Inr col
        \<and> aws_Collect col (hop_To (hr_Hop hr)) = Some fresh
        \<and> \<not> awsProjectionIncomplete ruleID (aws_Errors fresh)
        \<and> rule_body (se_Rules (pe_Scan env)) ruleID
            (Some (sc\<lparr>sc_AWSSnapshot := Some fresh, sc_AWSRequested := True\<rparr>)) (hop_To (hr_Hop hr))
            = Returned fs None
        \<and> AssignPriority ` set fs \<subseteq> hop_findings hr)"

lemma note_rule [simp]:
  "cf_RuleID (live_component_note ruleID recommended) = ruleID"
  "cf_RuleID (incomplete_note ruleID recommended) = ruleID"
  "cf_RuleID (no_aws_note ruleID recommended) = ruleID"
  "cf_RuleID (live_state_note ruleID recommended) = ruleID"
  by (simp_all add: live_component_note_def incomplete_note_def no_aws_note_def live_state_note_def
      carry_note_def)

lemma assessHopE:
  assumes "assessHop env sc fl recommended hop = Answers (Inr hr)"
  obtains fromManifests manifestNotes fromAWS awsNotes cov where
    "manifest_projection env sc recommended hop = Answers (Inr (fromManifests, manifestNotes))"
    "aws_projection env sc fl recommended hop = Answers (Inr ((fromAWS, awsNotes), cov))"
    "hr_Hop hr = hop"
    "hop_findings hr = AssignPriority ` set (fromManifests @ fromAWS)"
    "hr_CarryForward hr = manifestNotes @ awsNotes @ carry_forward_rest env recommended"
  using assms
  by (auto simp: assessHop_def hop_findings_def predicted_findings
      split: hop_result.splits sum.splits prod.splits)

lemma with_policy_set:
  "set (with_policy policy ruleIDs) = {r \<in> set ruleIDs. PolicyFor r = policy}"
  by (simp add: with_policy_def)

text \<open>Notes of the later loops are for other rules.\<close>

lemma aws_notes_elsewhere:
  assumes "aws_projection env sc fl recommended hop = Answers (Inr ((predicted, carried), cov))"
    and "c \<in> set carried"
  shows "PolicyFor (cf_RuleID c) = ProjectFromFreshAWSQuery"
proof -
  let ?ids = "with_policy ProjectFromFreshAWSQuery (pe_AwsOrder env)"
  have "cf_RuleID c \<in> set ?ids"
    using assms
    by (auto simp: aws_projection_def Let_def project_aws_def
        split: if_splits sum.splits option.splits hop_result.splits dest!: project_rules_carried)
  then show ?thesis by (simp add: with_policy_set)
qed

lemma manifest_notes_justified:
  assumes "manifest_projection env sc recommended hop = Answers (Inr (predicted, carried))"
    and "ruleID \<in> cf_RuleID ` set carried"
    and "rule_body (se_Rules (pe_Scan env)) ruleID (Some sc) (hop_To hop) = Returned fs None"
  shows "list_ex (\<lambda>f. \<not> isManifestOnlyFinding f) fs"
  using assms
  by (fastforce simp: manifest_projection_def project_manifest_def
      dest!: project_rules_carried evaluate_again_fs split: if_splits)

lemma manifest_rule_projected:
  assumes "manifest_projection env sc recommended hop = Answers (Inr (predicted, carried))"
    and "ruleID \<in> set manifestProjectableRules" "ruleID \<in> set (pe_ManifestOrder env)"
    and "hr_Hop hr = hop" "AssignPriority ` set predicted \<subseteq> hop_findings hr"
    and "has_note hr ruleID \<longleftrightarrow> ruleID \<in> cf_RuleID ` set carried"
  shows "projected_from_manifests env sc hr ruleID"
proof -
  have "ruleID \<in> set (with_policy ProjectFromManifests (pe_ManifestOrder env))"
    using assms(2,3) by (simp add: with_policy_def policies)
  from project_rules_member [OF assms(1) [unfolded manifest_projection_def] this] obtain fs
    where fs: "rule_body (se_Rules (pe_Scan env)) ruleID (Some sc) (hop_To hop) = Returned fs None"
      and sub: "set (filter isManifestOnlyFinding fs) \<subseteq> set predicted"
        "set (if list_ex (\<lambda>f. \<not> isManifestOnlyFinding f) fs
              then [live_component_note ruleID recommended] else []) \<subseteq> set carried"
    by (auto simp: project_manifest_def dest!: evaluate_again_fs)
  have "list_ex (\<lambda>f. \<not> isManifestOnlyFinding f) fs"
    if "has_note hr ruleID"
    using that manifest_notes_justified [OF assms(1) _ fs] assms(6) by blast
  moreover have "has_note hr ruleID" if "list_ex (\<lambda>f. \<not> isManifestOnlyFinding f) fs"
  proof -
    have "live_component_note ruleID recommended \<in> set carried" using that sub(2) by simp
    then have "cf_RuleID (live_component_note ruleID recommended) \<in> cf_RuleID ` set carried"
      by (rule imageI)
    then show ?thesis using assms(6) by simp
  qed
  moreover have "AssignPriority ` set (filter isManifestOnlyFinding fs) \<subseteq> hop_findings hr"
    using sub(1) assms(5) by blast
  ultimately show ?thesis
    unfolding projected_from_manifests_def assms(4) using fs by blast
qed

lemma aws_rule_accounted:
  assumes "aws_projection env sc fl recommended hop = Answers (Inr ((predicted, notes), cov))"
    and "ruleID \<in> set awsProjectableRules" "ruleID \<in> set (pe_AwsOrder env)"
    and "hr_Hop hr = hop" "AssignPriority ` set predicted \<subseteq> hop_findings hr"
      "set notes \<subseteq> set (hr_CarryForward hr)"
  shows "has_note hr ruleID \<or> judged_by_aws env sc hr ruleID"
proof -
  let ?ids = "with_policy ProjectFromFreshAWSQuery (pe_AwsOrder env)"
  have mem: "ruleID \<in> set ?ids"
    using assms(2,3) by (simp add: with_policy_def policies)
  then have "?ids \<noteq> []" by auto
  note aws = assms(1) [unfolded aws_projection_def Let_def if_not_P [OF this]]
  show ?thesis
  proof (cases "if fl_Provider fl = ''eks'' then se_LoadCollector (pe_Scan env) else Inl ''''")
    case (Inl e)
    with aws have "notes = map (\<lambda>ruleID. no_aws_note ruleID recommended) ?ids" by simp
    with mem assms(6) have "no_aws_note ruleID recommended \<in> set (hr_CarryForward hr)" by auto
    then show ?thesis by (auto simp: has_note_def image_iff intro!: bexI)
  next
    case (Inr col)
    then have col: "se_LoadCollector (pe_Scan env) = Inr col" by (simp split: if_splits)
    from aws Inr obtain fresh where fresh: "aws_Collect col (hop_To hop) = Some fresh"
      and run: "project_rules (\<lambda>ruleID. evaluate_again (se_Rules (pe_Scan env)) ruleID
            (sc\<lparr>sc_AWSSnapshot := Some fresh, sc_AWSRequested := True\<rparr>) hop)
          (project_aws recommended (aws_Errors fresh)) ?ids = Answers (Inr (predicted, notes))"
      by (auto split: option.splits hop_result.splits sum.splits)
    from project_rules_member [OF run mem] obtain fs where
      fs: "rule_body (se_Rules (pe_Scan env)) ruleID
          (Some (sc\<lparr>sc_AWSSnapshot := Some fresh, sc_AWSRequested := True\<rparr>)) (hop_To hop)
          = Returned fs None"
      and sub: "set fs \<subseteq> set predicted"
        "set (if awsProjectionIncomplete ruleID (aws_Errors fresh)
              then [incomplete_note ruleID recommended] else []) \<subseteq> set notes"
      by (auto simp: project_aws_def dest!: evaluate_again_fs)
    show ?thesis
    proof (cases "awsProjectionIncomplete ruleID (aws_Errors fresh)")
      case True
      then have "incomplete_note ruleID recommended \<in> set (hr_CarryForward hr)"
        using sub(2) assms(6) by auto
      then show ?thesis by (auto simp: has_note_def image_iff intro!: bexI)
    next
      case False
      with fs sub(1) col fresh assms(4,5) show ?thesis by (auto simp: judged_by_aws_def)
    qed
  qed
qed

lemma note_of_manifest_rule:
  assumes "aws_projection env sc fl recommended hop = Answers (Inr ((predicted, awsNotes), cov))"
    and "ruleID \<in> set manifestProjectableRules"
    and "hr_CarryForward hr = manifestNotes @ awsNotes @ carry_forward_rest env recommended"
  shows "has_note hr ruleID \<longleftrightarrow> ruleID \<in> cf_RuleID ` set manifestNotes"
proof -
  have "ruleID \<notin> cf_RuleID ` set awsNotes"
    using aws_notes_elsewhere [OF assms(1)] policies(1) [OF assms(2)] by auto
  moreover have "ruleID \<notin> cf_RuleID ` set (carry_forward_rest env recommended)"
    using assms(2) by (auto simp: carry_forward_rest_def)
  ultimately show ?thesis by (simp add: has_note_def assms(3) image_Un)
qed

text \<open>
  C4: What becomes of every registered rule when \<open>assessHop\<close> answers. The two API rules are evaluated
  again on the evidence of the first hop: what they find in manifests only is in the report of the hop,
  and they have a note exactly if they found something live, so they have neither when they found
  nothing, be it because no manifests were given or none could be read. Each of the five AWS rules has a note, or was evaluated on a
  snapshot of AWS collected for the version of the hop, whose calls the rule needs all succeeded, with
  all its findings in the report. Every other rule has a note that asks for a new scan.
\<close>

theorem future_hop_accounts_for_rules:
  assumes "assessHop env sc fl recommended hop = Answers (Inr hr)"
    and "set manifestProjectableRules \<subseteq> set (pe_ManifestOrder env)"
    and "set awsProjectableRules \<subseteq> set (pe_AwsOrder env)"
    and "ruleID \<in> set (RuleIDs (default_registry (se_Rules (pe_Scan env))))"
  shows "if ruleID \<in> set manifestProjectableRules then projected_from_manifests env sc hr ruleID
    else if ruleID \<in> set awsProjectableRules then has_note hr ruleID \<or> judged_by_aws env sc hr ruleID
    else has_note hr ruleID"
  using assms(1)
proof (rule assessHopE)
  fix fromManifests manifestNotes fromAWS awsNotes cov
  assume *: "manifest_projection env sc recommended hop = Answers (Inr (fromManifests, manifestNotes))"
    "aws_projection env sc fl recommended hop = Answers (Inr ((fromAWS, awsNotes), cov))"
    "hr_Hop hr = hop"
    "hop_findings hr = AssignPriority ` set (fromManifests @ fromAWS)"
    "hr_CarryForward hr = manifestNotes @ awsNotes @ carry_forward_rest env recommended"
  consider (manifest) "ruleID \<in> set manifestProjectableRules"
    | (aws) "ruleID \<notin> set manifestProjectableRules" "ruleID \<in> set awsProjectableRules"
    | (live) "ruleID \<notin> set manifestProjectableRules" "ruleID \<notin> set awsProjectableRules"
    by blast
  then show ?thesis
  proof cases
    case manifest
    with note_of_manifest_rule [OF *(2) manifest, of hr manifestNotes] *(5)
      manifest_rule_projected [OF *(1) manifest _ *(3)] assms(2) *(4)
    show ?thesis by auto
  next
    case aws
    with aws_rule_accounted [OF *(2) aws(2) _ *(3)] assms(3) *(4,5) show ?thesis by auto
  next
    case live
    with assms(4) have "live_state_note ruleID recommended \<in> set (hr_CarryForward hr)"
      by (auto simp: *(5) carry_forward_rest_def)
    with live show ?thesis by (auto simp: has_note_def image_iff intro!: bexI)
  qed
qed

text \<open>Without manifests an API rule has neither finding nor note.\<close>

abbreviation context_without_manifests :: ScanContext where
  "context_without_manifests \<equiv>
     sample_context\<lparr>sc_ManifestSnapshot := None, sc_ManifestsRequested := False\<rparr>"

lemma no_manifests_api_rule:
  "api_rule ruleID vc applies live manifest (Some context_without_manifests) ''1.30'' = Returned [] None"
proof -
  have "sc_K8s sample_context = None" by (simp add: scan_context_def sample_evidence_def)
  then show ?thesis by (simp add: api_rule_def sample_version Let_def)
qed

lemma sample_hop_answers:
  assumes "evaluate_again sample_rule_env ''API-001'' sc sample_hop = Answers (Inr [])"
    and "evaluate_again sample_rule_env ''API-002'' sc sample_hop = Answers (Inr [])"
  shows "\<exists>hr. assessHop sample_plan_env sc sample_flags ''kubepreflight scan'' sample_hop
     = Answers (Inr hr)"
proof -
  have "with_policy ProjectFromManifests (rev manifestProjectableRules) = [''API-002'', ''API-001'']"
    "with_policy ProjectFromFreshAWSQuery awsProjectableRules = awsProjectableRules"
    by (auto simp: with_policy_def manifestProjectableRules_def awsProjectableRules_def policies)
  moreover have "fl_Provider sample_flags \<noteq> ''eks''" by (simp add: sample_flags_def)
  moreover have "se_Rules sample_scan_env = sample_rule_env" by (simp add: sample_scan_env_def)
  ultimately show ?thesis
    using assms
    by (simp add: assessHop_def manifest_projection_def aws_projection_def sample_plan_env_def
        project_manifest_def awsProjectableRules_def)
qed

lemma api_rules_without_manifests:
  "\<exists>hr. assessHop sample_plan_env context_without_manifests sample_flags ''kubepreflight scan'' sample_hop
     = Answers (Inr hr)"
  by (rule sample_hop_answers)
     (simp_all add: evaluate_again_def dispatch API001_Evaluate_def API002_Evaluate_def
       no_manifests_api_rule)

theorem future_hop_accounts_for_rules_witness:
  "\<exists>hr. assessHop sample_plan_env context_without_manifests sample_flags ''kubepreflight scan'' sample_hop
      = Answers (Inr hr) \<and> \<not> has_note hr ''API-001''"
proof -
  obtain hr where hr: "assessHop sample_plan_env context_without_manifests sample_flags
      ''kubepreflight scan'' sample_hop = Answers (Inr hr)"
    using api_rules_without_manifests by blast
  then have to: "hop_To (hr_Hop hr) = ''1.30''" by (rule assessHopE) simp
  have "''API-001'' \<in> set (RuleIDs (default_registry (se_Rules (pe_Scan sample_plan_env))))"
    by (simp add: default_registry_def NewDefaultRegistry_def RuleIDs_def registered_def default_rules_def)
  moreover have "''API-001'' \<in> set manifestProjectableRules" by (simp add: manifestProjectableRules_def)
  ultimately have "projected_from_manifests sample_plan_env context_without_manifests hr ''API-001''"
    using future_hop_accounts_for_rules [OF hr, of "''API-001''"] by (simp add: sample_plan_env_def)
  then have "\<not> has_note hr ''API-001''"
    by (auto simp: projected_from_manifests_def to dispatch API001_Evaluate_def no_manifests_api_rule)
  with hr show ?thesis by blast
qed

end
