(* ===== verification/Spec2Isabelle.thy ===== *)
theory Spec2Isabelle
  imports PlanFacts Gate RollbackFacts RuleScan RuleFacts CatalogFacts ApiCatalogData ManifestFacts
    RedactFacts RuleErrors KubeFacts AwsFacts CliCoverage NetAddress ScanFacts ViewFacts
    RollbackCommandFacts CompareCommand PlanCommandFacts
begin

text \<open>
  kubepreflight: a model of the checker that says, before a Kubernetes upgrade, whether a cluster may
  be upgraded.

  The program. A scan collects evidence on three planes (the Kubernetes API, AWS, manifests), runs a
  fixed registry of rules over the snapshots, and turns the findings and the record of what was
  evaluated into a report with a verdict and an exit code: 0 clean, 1 warnings, 2 blocked, 3
  incomplete; 4 is a failure of the infrastructure. Other commands compare two reports and apply a
  gate for CI, plan an upgrade over several minor versions, and assess whether an upgrade of an EKS
  cluster can be rolled back. Code is named below relative to \<open>src/internal\<close>.

  Foundations.
  \<^item> \<open>Prelude\<close>: lists, stable sorting by a comparison (\<open>sort_by\<close>), association lists with Go's map
    semantics, string functions of Go's standard library, the collections of simplification rules.
  \<^item> \<open>GoTime\<close>, \<open>Text\<close>: times as integers of nanoseconds with their calendar text; the formatting verbs
    and errors of \<open>strconv\<close> the program prints.
  \<^item> \<open>Regex\<close>: regular expressions with Go's leftmost-first matching, for the patterns of \<open>redact\<close> and
    of the engine.
  \<^item> \<open>UnionFind\<close>: the disjoint sets of \<open>report/view.go\<close>; the locale \<open>disjoint_sets\<close> states what its client
    needs and is interpreted on the code.
  \<^item> \<open>WorkerPool\<close>: \<open>runBoundedPool\<close> of \<open>collectors/k8s/collector.go\<close> as a transition system.

  Data and verdicts.
  \<^item> \<open>Versions\<close> (\<open>plan/version.go\<close>, \<open>findings/report.go\<close>): minor versions and hops.
  \<^item> \<open>Digest\<close>, \<open>Findings\<close>, \<open>Priority\<close> (\<open>findings/finding.go\<close>, \<open>context.go\<close>, \<open>priority.go\<close>): SHA-256 on 32-bit
    words, the finding with its validation, keys and fingerprint, priorities.
  \<^item> \<open>Report\<close>, \<open>ReportFacts\<close> (\<open>findings/report.go\<close>, \<open>filter.go\<close>): the report, its verdict, exit code and
    scorecards; what the verdict means, bounds and monotonicity of the score.
  \<^item> \<open>V1Compat\<close> (\<open>v1compat/contract.go\<close>), \<open>Coverage\<close> (\<open>report/evaluation_coverage.go\<close>).
  \<^item> \<open>Comparison\<close>, \<open>ComparisonFacts\<close>, \<open>ComparisonMarkdown\<close> (\<open>comparison/*.go\<close>): the code against a
    comparison without maps, what a resolved finding proves, loading of old documents.
  \<^item> \<open>Gate\<close> (\<open>gate/evaluate.go\<close>): when the gate passes, fails or abstains.
  \<^item> \<open>ReportView\<close>, \<open>ViewFacts\<close> (\<open>report/view.go\<close>): the order of findings, the sections and the next
    actions all renderers share; the groups are the classes of findings linked by shared resources.

  Rules.
  \<^item> \<open>Cluster\<close>: the snapshots. \<open>Contextual\<close> (\<open>rules/contextual.go\<close>): gates by upgrade context.
  \<^item> \<open>Engine\<close>, \<open>EngineFacts\<close>, \<open>RuleErrors\<close> (\<open>rules/rule.go\<close>, \<open>execution.go\<close>, \<open>defaults.go\<close>): registries,
    dependencies, recovery from panics, execution records, sanitised error texts.
  \<^item> \<open>RulesBase\<close>, \<open>RulesPdb\<close>, \<open>RulesNode\<close>, \<open>RulesEks\<close>, \<open>RulesDrain\<close>, \<open>RulesSchedule\<close>, \<open>RulesWorkload\<close>,
    \<open>RulesWebhook\<close>, \<open>RulesApi\<close>, \<open>RulesAddon\<close> (\<open>rules/*.go\<close>): the \<open>Evaluate\<close> method of every rule, with the
    findings it builds. \<open>RulesAll\<close> is the registry.
  \<^item> \<open>ApiCatalog\<close>, \<open>ApiCatalogData\<close>, \<open>CompatCatalog\<close>, \<open>CompatCatalogData\<close> (\<open>apicatalog\<close>, \<open>compatcatalog\<close>): the
    two catalogs and their embedded data. \<open>Exemptions\<close> (\<open>exemptions/*.go\<close>).
  \<^item> \<open>RuleContracts\<close>, \<open>RuleScan\<close>: the locale \<open>rule_contract\<close> (on identified evidence a rule returns valid
    findings with its own identifier) interpreted for every rule of the registry, and the scan that
    follows from it. \<open>RuleFacts\<close>, \<open>CatalogFacts\<close>: what a rule can depend on, what silence proves.

  Collectors.
  \<^item> \<open>ManifestCollector\<close>, \<open>ManifestFacts\<close>; \<open>KubeCollector\<close>, \<open>KubeFacts\<close>; \<open>AwsCollector\<close>, \<open>AwsFacts\<close>
    (\<open>collectors/*/collector.go\<close>): every call, what it writes and what its failure leaves behind.
    The snapshot of the concurrent collector does not depend on the schedule.
  \<^item> \<open>RollbackCollector\<close> (\<open>rollback/eks/collector.go\<close>): the evidence for a rollback.

  Commands.
  \<^item> \<open>CliCoverage\<close>, \<open>NetAddress\<close>, \<open>ScanCommand\<close>, \<open>ScanFacts\<close> (\<open>cli/scan.go\<close>, \<open>coverage.go\<close>,
    \<open>collection_issue.go\<close>, \<open>root.go\<close>): \<open>scan\<close> from its flags to its files and its exit code.
  \<^item> \<open>Plan\<close>, \<open>PlanFacts\<close> (\<open>plan/*.go\<close>), \<open>PlanCommand\<close>, \<open>PlanCommandFacts\<close> (\<open>cli/plan.go\<close>): \<open>plan\<close>; its first hop
    is a scan; what becomes of each rule in a later hop.
  \<^item> \<open>FindingsFile\<close>, \<open>CompareCommand\<close> (\<open>cli/compare.go\<close>): \<open>compare\<close>.
  \<^item> \<open>Rollback\<close>, \<open>RollbackEks\<close>, \<open>RollbackFacts\<close> (\<open>rollback/*.go\<close>, \<open>rollback/eks/*.go\<close>), \<open>RollbackCommand\<close>,
    \<open>RollbackCommandFacts\<close> (\<open>cli/rollback.go\<close>): \<open>rollback plan\<close> and \<open>rollback assess\<close>.
  \<^item> \<open>Redact\<close>, \<open>RedactFacts\<close> (\<open>redact/*.go\<close>): redaction of every document the commands write.

  Conventions. A Go struct is a record whose fields carry a prefix, an enumeration of strings is a
  datatype with a constructor for the texts outside of it, an error is its text in the left summand,
  and a value that may be nil is an option. Maps are association lists or come with the order they are
  visited in as a parameter, so that what is proved holds for every order Go may choose. Panics are
  values (\<open>Panicked\<close>, \<open>Panics\<close>). Texts are lists of bytes; a character outside of ASCII is written as its
  UTF-8 bytes. The integers of the program are unbounded here: counts and minor versions stay far from
  64 bits; SHA-256, where wrapping matters, is on words.

  Termination. Loops that depend on an outside that may never stop are partial functions with value
  \<open>None\<close> for not returning: \<open>decode_loop\<close> (a stream of YAML documents), \<open>insight_pages\<close> and \<open>page_loop\<close>
  (pages of AWS), \<open>ca_bundle_loop\<close> (a PEM decoder) and \<open>uf_find\<close>, which would follow a cycle of parents.
  \<open>ManifestFacts\<close>, \<open>AwsFacts\<close>, \<open>RollbackCommandFacts\<close> and \<open>ViewFacts\<close> say when they return, and what.
  There is no fuel. The pool runs at most
  sixteen calls at once, whatever concurrency is asked for.

  Parameters. The API server (\<open>kube_client\<close>), the AWS clients, the YAML decoder, the file system and the
  helm binary (\<open>manifest_lib\<close>), the selectors, quantities and certificates of the Kubernetes and PKI
  libraries (\<open>rule_env\<close>), the JSON decoder (a decoded document or an error), the clock, the terminal and
  the files (\<open>scan_env\<close>, \<open>plan_env\<close>, \<open>compare_env\<close>, \<open>rollback_env\<close>). Nothing is assumed of them except
  where a theorem says so; its witness has a concrete instance.

  Not modelled. The HTML, Markdown and terminal renderers of reports and plans, the JSON encoders, the
  HTTP server, the parsing of flags by cobra, signals and the time budgets of calls (a call that runs
  out of time is one that fails), the checks of the exemption audit that read the repository, the
  vendored libraries. \<open>sort.Slice\<close> is modelled by a stable sort: among equal elements Go may choose
  another order.
\<close>

end
